(* ===== verification/Prelude.thy ===== *)
theory Prelude
  imports Main "HOL-Library.Multiset"
begin

text \<open>
  The vocabulary the component theories share: Go errors, times and durations, fixed-width
  integers, strings and slices, the reconcile result of controller-runtime, and the contract
  of \<open>sort.Slice\<close>.

  A \<open>time.Time\<close> is an \<open>int\<close>: nanoseconds since Go's zero instant, so \<open>IsZero\<close> is
  \<open>t = 0\<close> and \<open>Before\<close>, \<open>Equal\<close>, \<open>After\<close> are \<open><\<close>, \<open>=\<close>, \<open>>\<close>. A \<open>time.Duration\<close> is an
  \<open>int\<close> of nanoseconds. A pointer that may be nil is an \<open>option\<close>. A pair \<open>(value, error)\<close> is
  a sum with \<open>Inl\<close> for a non-nil error; a call that returns only an \<open>error\<close> has type
  \<open>go_error option\<close>.
\<close>

named_theorems cond_simps \<open>what FindCondition returns after Upsert\<close>
named_theorems sort_facts \<open>what sort.Slice keeps of its argument\<close>

subsection \<open>Errors\<close>

text \<open>The classes of error the code tells apart: the API server's status reasons and the gRPC
  status codes. An error made by \<open>fmt.Errorf\<close> has no class of its own (\<open>Unknown\<close>).\<close>

datatype err_code =
    NotFound | Conflict | AlreadyExists | InvalidArgument | DeadlineExceeded
  | Aborted | Internal | Unknown

datatype go_error = GoError (err_code: err_code) (err_msg: string)

abbreviation Errorf :: "string \<Rightarrow> go_error" where
  "Errorf m \<equiv> GoError Unknown m"

definition IsNotFound :: "go_error \<Rightarrow> bool" where
  "IsNotFound e \<longleftrightarrow> err_code e = NotFound"

definition IsConflict :: "go_error \<Rightarrow> bool" where
  "IsConflict e \<longleftrightarrow> err_code e = Conflict"

text \<open>controller-runtime's \<open>client.IgnoreNotFound\<close>: nil for a not-found error, the error otherwise.\<close>

definition IgnoreNotFound :: "go_error \<Rightarrow> go_error option" where
  "IgnoreNotFound e = (if IsNotFound e then None else Some e)"

subsection \<open>Times and durations\<close>

type_synonym go_time = int
type_synonym duration = int

abbreviation Second :: duration where "Second \<equiv> 1000000000"
abbreviation Minute :: duration where "Minute \<equiv> 60000000000"
abbreviation Hour :: duration where "Hour \<equiv> 3600000000000"

abbreviation max_int64 :: int where "max_int64 \<equiv> 9223372036854775807"
abbreviation min_int64 :: int where "min_int64 \<equiv> - 9223372036854775808"

text \<open>\<open>time.Time.Sub\<close> saturates at the largest and the smallest \<open>int64\<close>.\<close>

definition time_Sub :: "go_time \<Rightarrow> go_time \<Rightarrow> duration" where
  "time_Sub t u = max min_int64 (min max_int64 (t - u))"

text \<open>\<open>metav1.Time.Rfc3339Copy\<close> formats and re-parses the time: the fraction of the second is dropped.\<close>

definition Rfc3339Copy :: "go_time \<Rightarrow> go_time" where
  "Rfc3339Copy t = t - t mod Second"

text \<open>\<open>time.Time.Unix\<close>: seconds since 1970, that is 62135596800 seconds after the zero instant.\<close>

definition time_Unix :: "go_time \<Rightarrow> int" where
  "time_Unix t = t div Second - 62135596800"

text \<open>\<open>time.Duration.Round(time.Second)\<close>: to the nearest second, halves away from zero.\<close>

definition round_Second :: "duration \<Rightarrow> duration" where
  "round_Second d =
     (let r = (if d < 0 then (- d) mod Second else d mod Second);
          q = (if d < 0 then - d else d) - r;
          m = (if r + r < Second then q else q + Second)
      in if d < 0 then - m else m)"

lemma Rfc3339Copy_le: "Rfc3339Copy t \<le> t"
  by (simp add: Rfc3339Copy_def)

lemma time_Sub_nonneg_iff: "0 \<le> time_Sub t u \<longleftrightarrow> u \<le> t"
  by (auto simp: time_Sub_def)

lemma time_Sub_exact:
  "min_int64 \<le> t - u \<Longrightarrow> t - u \<le> max_int64 \<Longrightarrow> time_Sub t u = t - u"
  by (simp add: time_Sub_def)

lemma round_Second_pos: "0 \<le> d \<Longrightarrow> 0 \<le> round_Second d"
  using zmod_le_nonneg_dividend [of d Second] by (auto simp: round_Second_def Let_def)

subsection \<open>Fixed-width integers\<close>

text \<open>The value an \<open>int\<close> expression has after it is stored in an \<open>int32\<close> or an \<open>int64\<close>:
  two's complement wrap-around.\<close>

definition int32 :: "int \<Rightarrow> int" where
  "int32 x = signed_take_bit 31 x"

definition int64 :: "int \<Rightarrow> int" where
  "int64 x = signed_take_bit 63 x"

lemma int32_id: "- (2 ^ 31) \<le> x \<Longrightarrow> x < 2 ^ 31 \<Longrightarrow> int32 x = x"
  unfolding int32_def by (rule signed_take_bit_int_eq_self) simp_all

lemma int64_id: "- (2 ^ 63) \<le> x \<Longrightarrow> x < 2 ^ 63 \<Longrightarrow> int64 x = x"
  unfolding int64_def by (rule signed_take_bit_int_eq_self) simp_all

subsection \<open>Strings\<close>

fun HasPrefix :: "string \<Rightarrow> string \<Rightarrow> bool" where
  "HasPrefix s [] = True"
| "HasPrefix [] (p # ps) = False"
| "HasPrefix (c # s) (p # ps) = (c = p \<and> HasPrefix s ps)"

fun Contains_str :: "string \<Rightarrow> string \<Rightarrow> bool" where
  "Contains_str [] sub = (sub = [])"
| "Contains_str (c # s) sub = (HasPrefix (c # s) sub \<or> Contains_str s sub)"

definition HasSuffix :: "string \<Rightarrow> string \<Rightarrow> bool" where
  "HasSuffix s p = HasPrefix (rev s) (rev p)"

definition upper_char :: "char \<Rightarrow> char" where
  "upper_char c = (let n = of_char c :: nat in if 97 \<le> n \<and> n \<le> 122 then char_of (n - 32) else c)"

text \<open>\<open>strings.ToUpper\<close> on ASCII text.\<close>

definition ToUpper :: "string \<Rightarrow> string" where
  "ToUpper s = map upper_char s"

fun Join :: "string list \<Rightarrow> string \<Rightarrow> string" where
  "Join [] sep = []"
| "Join [x] sep = x"
| "Join (x # y # xs) sep = x @ sep @ Join (y # xs) sep"

lemma HasPrefix_append [simp]: "HasPrefix (p @ s) p"
  by (induction p) auto

lemma HasPrefix_iff: "HasPrefix s p \<longleftrightarrow> (\<exists>t. s = p @ t)"
  by (induction s p rule: HasPrefix.induct) auto

lemma upper_char_idem [simp]: "upper_char (upper_char c) = upper_char c"
proof (cases "97 \<le> (of_char c :: nat) \<and> (of_char c :: nat) \<le> 122")
  case True
  then have "(of_char c :: nat) - 32 < 256"
    by linarith
  then have "(of_char (char_of ((of_char c :: nat) - 32)) :: nat) = of_char c - 32"
    by simp
  moreover from True have "\<not> 97 \<le> (of_char c :: nat) - 32" by linarith
  ultimately show ?thesis using True by (simp add: upper_char_def Let_def)
next
  case False
  then show ?thesis by (auto simp: upper_char_def Let_def)
qed

lemma ToUpper_idem [simp]: "ToUpper (ToUpper s) = ToUpper s"
  by (simp add: ToUpper_def)

lemma ToUpper_append [simp]: "ToUpper (s @ t) = ToUpper s @ ToUpper t"
  by (simp add: ToUpper_def)

text \<open>The decimal digits of an integer, as \<open>%d\<close> prints them.\<close>

fun digits_nat :: "nat \<Rightarrow> string" where
  "digits_nat n =
     (if n < 10 then [char_of (48 + n)] else digits_nat (n div 10) @ [char_of (48 + n mod 10)])"

declare digits_nat.simps [simp del]

definition itoa :: "int \<Rightarrow> string" where
  "itoa n = (if n < 0 then ''-'' @ digits_nat (nat (- n)) else digits_nat (nat n))"

subsection \<open>The result of a reconcile call\<close>

record ctrl_Result =
  Requeue :: bool
  RequeueAfter :: duration

abbreviation Result_zero :: ctrl_Result where
  "Result_zero \<equiv> \<lparr>Requeue = False, RequeueAfter = 0\<rparr>"

abbreviation requeue_now :: ctrl_Result where
  "requeue_now \<equiv> \<lparr>Requeue = True, RequeueAfter = 0\<rparr>"

abbreviation requeue_in :: "duration \<Rightarrow> ctrl_Result" where
  "requeue_in d \<equiv> \<lparr>Requeue = False, RequeueAfter = d\<rparr>"

definition Result_IsZero :: "ctrl_Result \<Rightarrow> bool" where
  "Result_IsZero r \<longleftrightarrow> \<not> Requeue r \<and> RequeueAfter r = 0"

subsection \<open>Sorting a slice\<close>

text \<open>
  \<open>sort.Slice\<close> and \<open>sort.Sort\<close> promise a permutation in which no element is less than an
  earlier one; the order of equal elements is left open. \<open>sort_Slice\<close> is the insertion sort Go
  runs on short slices; what the components rely on is the contract \<open>go_sort\<close> only.
\<close>

fun insert_desc :: "('a \<Rightarrow> 'a \<Rightarrow> bool) \<Rightarrow> 'a \<Rightarrow> 'a list \<Rightarrow> 'a list" where
  "insert_desc lt x [] = [x]"
| "insert_desc lt x (y # ys) = (if lt x y then y # insert_desc lt x ys else x # y # ys)"

definition sort_Slice :: "('a \<Rightarrow> 'a \<Rightarrow> bool) \<Rightarrow> 'a list \<Rightarrow> 'a list" where
  "sort_Slice lt xs = rev (fold (insert_desc lt) xs [])"

definition strict_weak :: "('a \<Rightarrow> 'a \<Rightarrow> bool) \<Rightarrow> bool" where
  "strict_weak lt \<longleftrightarrow>
     (\<forall>x y. lt x y \<longrightarrow> \<not> lt y x) \<and> (\<forall>x y z. \<not> lt x y \<longrightarrow> \<not> lt y z \<longrightarrow> \<not> lt x z)"

lemma mset_insert_desc [simp]: "mset (insert_desc lt x ys) = add_mset x (mset ys)"
  by (induction ys) auto

lemma mset_sort_Slice [simp]: "mset (sort_Slice lt xs) = mset xs"
proof -
  have "mset (fold (insert_desc lt) xs acc) = mset xs + mset acc" for acc
    by (induction xs arbitrary: acc) auto
  then show ?thesis by (simp add: sort_Slice_def)
qed

lemma sorted_insert_desc:
  assumes "strict_weak lt" and "sorted_wrt (\<lambda>x y. \<not> lt x y) ys"
  shows "sorted_wrt (\<lambda>x y. \<not> lt x y) (insert_desc lt x ys)"
  using assms(2)
proof (induction ys)
  case Nil
  show ?case by simp
next
  case (Cons y ys)
  have set: "set (insert_desc lt x ys) = insert x (set ys)"
    by (metis mset_insert_desc set_mset_add_mset_insert set_mset_mset)
  show ?case
  proof (cases "lt x y")
    case True
    with assms(1) have "\<not> lt y x" unfolding strict_weak_def by blast
    moreover have "sorted_wrt (\<lambda>x y. \<not> lt x y) (insert_desc lt x ys)"
      using Cons by simp
    ultimately show ?thesis using True Cons.prems by (simp add: set)
  next
    case False
    have "\<not> lt x z" if "z \<in> set ys" for z
    proof -
      from that Cons.prems have "\<not> lt y z" by simp
      with False assms(1) show ?thesis unfolding strict_weak_def by blast
    qed
    with False Cons.prems show ?thesis by auto
  qed
qed

lemma sorted_sort_Slice:
  assumes "strict_weak lt"
  shows "sorted_wrt (\<lambda>x y. \<not> lt y x) (sort_Slice lt xs)"
proof -
  have "sorted_wrt (\<lambda>x y. \<not> lt x y) acc \<Longrightarrow>
      sorted_wrt (\<lambda>x y. \<not> lt x y) (fold (insert_desc lt) xs acc)" for acc
    by (induction xs arbitrary: acc) (auto intro: sorted_insert_desc [OF assms])
  then show ?thesis by (simp add: sort_Slice_def sorted_wrt_rev)
qed

locale go_sort =
  fixes lt :: "'a \<Rightarrow> 'a \<Rightarrow> bool" and srt :: "'a list \<Rightarrow> 'a list"
  assumes srt_mset: "mset (srt xs) = mset xs"
    and srt_sorted: "sorted_wrt (\<lambda>x y. \<not> lt y x) (srt xs)"
begin

lemma srt_set [simp]: "set (srt xs) = set xs"
  by (metis srt_mset set_mset_mset)

lemma srt_length [simp]: "length (srt xs) = length xs"
  by (metis srt_mset size_mset)

lemma srt_distinct: "distinct (srt xs) = distinct xs"
  by (metis srt_mset mset_eq_imp_distinct_iff)

lemma srt_count: "length (filter P (srt xs)) = length (filter P xs)"
  by (metis srt_mset mset_filter size_mset)

lemma srt_nth:
  assumes "i < j" and "j < length xs"
  shows "\<not> lt (srt xs ! j) (srt xs ! i)"
  using sorted_wrt_nth_less [OF srt_sorted [of xs] assms(1)] assms(2) by simp

lemma srt_before:
  assumes "srt xs = ys @ x # zs" and "z \<in> set zs"
  shows "\<not> lt z x"
  using srt_sorted [of xs] assms by (auto simp: sorted_wrt_append)

end

subsection \<open>Retrying on a conflict\<close>

text \<open>
  client-go's \<open>retry.RetryOnConflict\<close> calls a function that fetches, changes and updates an
  object until it returns nil or an error that is not a conflict, or gives up and returns the
  last error. \<open>retry_run f w e w'\<close> holds when such a sequence of attempts from the state \<open>w\<close> can
  end with the error \<open>e\<close> in the state \<open>w'\<close>. How often it retries is left open.
\<close>

inductive retry_run ::
    "('w \<Rightarrow> go_error option \<times> 'w) \<Rightarrow> 'w \<Rightarrow> go_error option \<Rightarrow> 'w \<Rightarrow> bool" for f where
  last_attempt: "f w = (e, w') \<Longrightarrow> retry_run f w e w'"
| next_attempt: "f w = (Some c, w1) \<Longrightarrow> IsConflict c \<Longrightarrow> retry_run f w1 e w' \<Longrightarrow> retry_run f w e w'"

locale conflict_retry =
  fixes retry :: "('w \<Rightarrow> go_error option \<times> 'w) \<Rightarrow> 'w \<Rightarrow> go_error option \<times> 'w"
  assumes retry_runs: "retry f w = (e, w') \<Longrightarrow> retry_run f w e w'"
begin

text \<open>What every attempt keeps, the whole retry keeps.\<close>

lemma retry_invariant:
  assumes "retry f w = (e, w')" and "I w"
    and "\<And>w e w'. I w \<Longrightarrow> f w = (e, w') \<Longrightarrow> I w'"
  shows "I w'"
proof -
  from assms(1) have "retry_run f w e w'" by (rule retry_runs)
  then show ?thesis using assms(2)
    by (induction rule: retry_run.induct) (auto dest: assms(3))
qed

text \<open>The result of the retry is the result of its last attempt.\<close>

lemma retry_last:
  assumes "retry f w = (e, w')" and "I w"
    and "\<And>w e w'. I w \<Longrightarrow> f w = (e, w') \<Longrightarrow> I w'"
  obtains v where "I v" and "f v = (e, w')"
proof -
  from assms(1) have "retry_run f w e w'" by (rule retry_runs)
  then have "\<exists>v. I v \<and> f v = (e, w')" using assms(2)
    by (induction rule: retry_run.induct) (auto dest: assms(3))
  then show ?thesis using that by blast
qed

end

text \<open>A retry with a fixed number of further attempts: the instance the evaluations use.\<close>

fun retry_steps ::
    "nat \<Rightarrow> ('w \<Rightarrow> go_error option \<times> 'w) \<Rightarrow> 'w \<Rightarrow> go_error option \<times> 'w" where
  "retry_steps 0 f w = f w"
| "retry_steps (Suc n) f w =
     (case f w of
        (Some e, w') \<Rightarrow> if IsConflict e then retry_steps n f w' else (Some e, w')
      | (None, w') \<Rightarrow> (None, w'))"

lemma retry_steps_run: "retry_steps n f w = (e, w') \<Longrightarrow> retry_run f w e w'"
proof (induction n arbitrary: w)
  case 0
  then show ?case by (simp add: last_attempt)
next
  case (Suc n)
  then show ?case
    by (auto split: prod.splits option.splits if_splits intro: last_attempt next_attempt)
qed

interpretation steps: conflict_retry "retry_steps n" for n
  by unfold_locales (rule retry_steps_run)

end
