(* ===== verification/Conditions.thy ===== *)
theory Conditions
  imports Prelude
begin

text \<open>
  \<open>oracle/pkg/k8s/condition.go\<close>: the condition types and reasons, and the functions every
  reconciler uses to read and to write the condition list of a status. \<open>metav1.Condition\<close> is a
  record; the pointer \<open>FindCondition\<close> returns is only ever used to read the condition or, in
  \<open>Upsert\<close>, to overwrite it in place, so it is an \<open>option\<close> here. The clock \<open>v1Now\<close> is an
  argument. The locale \<open>condition_store\<close> is the interface the reconcilers rely on.
\<close>

subsection \<open>Condition types and reasons\<close>

abbreviation k8s_Ready :: string where "k8s_Ready \<equiv> ''Ready''"
abbreviation k8s_DatabaseInstanceReady :: string where "k8s_DatabaseInstanceReady \<equiv> ''DatabaseInstanceReady''"
abbreviation k8s_DatabaseInstanceTimeout :: string where "k8s_DatabaseInstanceTimeout \<equiv> ''DatabaseInstanceTimeout''"
abbreviation k8s_UserReady :: string where "k8s_UserReady \<equiv> ''UserReady''"
abbreviation k8s_StandbyReady :: string where "k8s_StandbyReady \<equiv> ''StandbyReady''"
abbreviation k8s_PauseMode :: string where "k8s_PauseMode \<equiv> ''Pause''"
abbreviation k8s_StandbyDRReady :: string where "k8s_StandbyDRReady \<equiv> ''StandbyDRReady''"
abbreviation k8s_InstanceStopped :: string where "k8s_InstanceStopped \<equiv> ''InstanceStopped''"
abbreviation k8s_BackupPending :: string where "k8s_BackupPending \<equiv> ''BackupPending''"
abbreviation k8s_BackupReady :: string where "k8s_BackupReady \<equiv> ''BackupReady''"
abbreviation k8s_BackupInProgress :: string where "k8s_BackupInProgress \<equiv> ''BackupInProgress''"
abbreviation k8s_BackupDeleting :: string where "k8s_BackupDeleting \<equiv> ''BackupDeleting''"
abbreviation k8s_BackupFailed :: string where "k8s_BackupFailed \<equiv> ''BackupFailed''"
abbreviation k8s_CreateComplete :: string where "k8s_CreateComplete \<equiv> ''CreateComplete''"
abbreviation k8s_CreateFailed :: string where "k8s_CreateFailed \<equiv> ''CreateFailed''"
abbreviation k8s_CreateInProgress :: string where "k8s_CreateInProgress \<equiv> ''CreateInProgress''"
abbreviation k8s_CreatePending :: string where "k8s_CreatePending \<equiv> ''CreatePending''"
abbreviation k8s_BootstrapPending :: string where "k8s_BootstrapPending \<equiv> ''BootstrapPending''"
abbreviation k8s_BootstrapInProgress :: string where "k8s_BootstrapInProgress \<equiv> ''BootstrapInProgress''"
abbreviation k8s_ReconcileServices :: string where "k8s_ReconcileServices \<equiv> ''ReconcileServices''"
abbreviation k8s_RestorePending :: string where "k8s_RestorePending \<equiv> ''RestorePending''"
abbreviation k8s_ResizingInProgress :: string where "k8s_ResizingInProgress \<equiv> ''ResizingInProgress''"
abbreviation k8s_ImportComplete :: string where "k8s_ImportComplete \<equiv> ''ImportComplete''"
abbreviation k8s_ImportFailed :: string where "k8s_ImportFailed \<equiv> ''ImportFailed''"
abbreviation k8s_ImportInProgress :: string where "k8s_ImportInProgress \<equiv> ''ImportInProgress''"
abbreviation k8s_ImportPending :: string where "k8s_ImportPending \<equiv> ''ImportPending''"
abbreviation k8s_RestoreComplete :: string where "k8s_RestoreComplete \<equiv> ''RestoreComplete''"
abbreviation k8s_RestoreFailed :: string where "k8s_RestoreFailed \<equiv> ''RestoreFailed''"
abbreviation k8s_RestorePreparationInProgress :: string where "k8s_RestorePreparationInProgress \<equiv> ''RestorePreparationInProgress''"
abbreviation k8s_RestorePreparationComplete :: string where "k8s_RestorePreparationComplete \<equiv> ''RestorePreparationComplete''"
abbreviation k8s_RestoreInProgress :: string where "k8s_RestoreInProgress \<equiv> ''RestoreInProgress''"
abbreviation k8s_PostRestoreBootstrapInProgress :: string where "k8s_PostRestoreBootstrapInProgress \<equiv> ''PostRestoreBootstrapInProgress''"
abbreviation k8s_PostRestoreBootstrapComplete :: string where "k8s_PostRestoreBootstrapComplete \<equiv> ''PostRestoreBootstrapComplete''"
abbreviation k8s_PostRestoreDatabasePatchingInProgress :: string where "k8s_PostRestoreDatabasePatchingInProgress \<equiv> ''PostRestoreDatabasePatchingInProgress''"
abbreviation k8s_SyncInProgress :: string where "k8s_SyncInProgress \<equiv> ''SyncInProgress''"
abbreviation k8s_UserOutOfSync :: string where "k8s_UserOutOfSync \<equiv> ''UserOutOfSync''"
abbreviation k8s_SyncComplete :: string where "k8s_SyncComplete \<equiv> ''SyncComplete''"
abbreviation k8s_ManuallySetUpStandbyInProgress :: string where "k8s_ManuallySetUpStandbyInProgress \<equiv> ''ManuallySetUpStandbyInProgress''"
abbreviation k8s_PromoteStandbyInProgress :: string where "k8s_PromoteStandbyInProgress \<equiv> ''PromoteStandbyInProgress''"
abbreviation k8s_PromoteStandbyComplete :: string where "k8s_PromoteStandbyComplete \<equiv> ''PromoteStandbyComplete''"
abbreviation k8s_PromoteStandbyFailed :: string where "k8s_PromoteStandbyFailed \<equiv> ''PromoteStandbyFailed''"
abbreviation k8s_DBShutDown :: string where "k8s_DBShutDown \<equiv> ''DBShutdown''"
abbreviation k8s_InstanceStoppingInProgress :: string where "k8s_InstanceStoppingInProgress \<equiv> ''InstanceStoppingInProgress''"
abbreviation k8s_ExportComplete :: string where "k8s_ExportComplete \<equiv> ''ExportComplete''"
abbreviation k8s_ExportFailed :: string where "k8s_ExportFailed \<equiv> ''ExportFailed''"
abbreviation k8s_ExportInProgress :: string where "k8s_ExportInProgress \<equiv> ''ExportInProgress''"
abbreviation k8s_ExportPending :: string where "k8s_ExportPending \<equiv> ''ExportPending''"
abbreviation k8s_ParameterUpdateInProgress :: string where "k8s_ParameterUpdateInProgress \<equiv> ''ParameterUpdateInProgress''"
abbreviation k8s_ParameterUpdateComplete :: string where "k8s_ParameterUpdateComplete \<equiv> ''ParameterUpdateComplete''"
abbreviation k8s_ParameterUpdateRollbackInProgress :: string where "k8s_ParameterUpdateRollbackInProgress \<equiv> ''ParameterUpdateRollbackInProgress''"
abbreviation k8s_StandbyDRInProgress :: string where "k8s_StandbyDRInProgress \<equiv> ''StandbyDRInProgress''"
abbreviation k8s_StandbyDRVerifyCompleted :: string where "k8s_StandbyDRVerifyCompleted \<equiv> ''StandbyDRVerifyCompleted''"
abbreviation k8s_StandbyDRVerifyFailed :: string where "k8s_StandbyDRVerifyFailed \<equiv> ''StandbyDRVerifyFailed''"
abbreviation k8s_StandbyDRCreateInProgress :: string where "k8s_StandbyDRCreateInProgress \<equiv> ''StandbyDRCreateInProgress''"
abbreviation k8s_StandbyDRCreateFailed :: string where "k8s_StandbyDRCreateFailed \<equiv> ''StandbyDRCreateFailed''"
abbreviation k8s_StandbyDRCreateCompleted :: string where "k8s_StandbyDRCreateCompleted \<equiv> ''StandbyDRCreateCompleted''"
abbreviation k8s_StandbyDRSetUpDataGuardFailed :: string where "k8s_StandbyDRSetUpDataGuardFailed \<equiv> ''StandbyDRSetUpDataGuardFailed''"
abbreviation k8s_StandbyDRSetUpDataGuardCompleted :: string where "k8s_StandbyDRSetUpDataGuardCompleted \<equiv> ''StandbyDRSetUpDataGuardCompleted''"
abbreviation k8s_StandbyDRDataGuardReplicationInProgress :: string where "k8s_StandbyDRDataGuardReplicationInProgress \<equiv> ''StandbyDRDataGuardReplicationInProgress''"
abbreviation k8s_StandbyDRPromoteFailed :: string where "k8s_StandbyDRPromoteFailed \<equiv> ''StandbyDRPromoteFailed''"
abbreviation k8s_StandbyDRPromoteCompleted :: string where "k8s_StandbyDRPromoteCompleted \<equiv> ''StandbyDRPromoteCompleted''"
abbreviation k8s_StandbyDRBootstrapFailed :: string where "k8s_StandbyDRBootstrapFailed \<equiv> ''StandbyDRBootstrapFailed''"
abbreviation k8s_StandbyDRBootstrapCompleted :: string where "k8s_StandbyDRBootstrapCompleted \<equiv> ''StandbyDRBootstrapCompleted''"
abbreviation k8s_PatchingBackupStarted :: string where "k8s_PatchingBackupStarted \<equiv> ''PatchingBackupStarted''"
abbreviation k8s_PatchingBackupCompleted :: string where "k8s_PatchingBackupCompleted \<equiv> ''PatchingBackupCompleted''"
abbreviation k8s_PatchingBackupFailure :: string where "k8s_PatchingBackupFailure \<equiv> ''PatchingBackupFailure''"
abbreviation k8s_PatchingRecoveryInProgress :: string where "k8s_PatchingRecoveryInProgress \<equiv> ''PatchingRecoveryInProgress''"
abbreviation k8s_PatchingRecoveryCompleted :: string where "k8s_PatchingRecoveryCompleted \<equiv> ''PatchingRecoveryCompleted''"
abbreviation k8s_PatchingRecoveryFailure :: string where "k8s_PatchingRecoveryFailure \<equiv> ''PatchingRecoveryFailure''"
abbreviation k8s_DeploymentSetPatchingInProgress :: string where "k8s_DeploymentSetPatchingInProgress \<equiv> ''DeploymentSetPatchingInProgress''"
abbreviation k8s_DeploymentSetPatchingRollbackInProgress :: string where "k8s_DeploymentSetPatchingRollbackInProgress \<equiv> ''DeploymentSetPatchingRollbackInProgress''"
abbreviation k8s_DeploymentSetPatchingFailure :: string where "k8s_DeploymentSetPatchingFailure \<equiv> ''DeploymentSetPatchingFailure''"
abbreviation k8s_DeploymentSetPatchingComplete :: string where "k8s_DeploymentSetPatchingComplete \<equiv> ''DeploymentSetPatchingComplete''"
abbreviation k8s_StatefulSetPatchingInProgress :: string where "k8s_StatefulSetPatchingInProgress \<equiv> ''StatefulSetPatchingInProgress''"
abbreviation k8s_StatefulSetPatchingComplete :: string where "k8s_StatefulSetPatchingComplete \<equiv> ''StatefulSetPatchingComplete''"
abbreviation k8s_StatefulSetPatchingFailure :: string where "k8s_StatefulSetPatchingFailure \<equiv> ''StatefulSetPatchingFailure''"
abbreviation k8s_DatabasePatchingInProgress :: string where "k8s_DatabasePatchingInProgress \<equiv> ''DatabasePatchingInProgress''"
abbreviation k8s_DatabasePatchingComplete :: string where "k8s_DatabasePatchingComplete \<equiv> ''DatabasePatchingComplete''"
abbreviation k8s_DatabasePatchingFailure :: string where "k8s_DatabasePatchingFailure \<equiv> ''DatabasePatchingFailure''"
abbreviation k8s_NotSupported :: string where "k8s_NotSupported \<equiv> ''NotSupported''"

subsection \<open>Conditions\<close>

datatype ConditionStatus = ConditionTrue | ConditionFalse | ConditionUnknown

record Condition =
  Type :: string
  Status :: ConditionStatus
  LastTransitionTime :: go_time
  Reason :: string
  Message :: string

fun FindCondition :: "Condition list \<Rightarrow> string \<Rightarrow> Condition option" where
  "FindCondition [] name = None"
| "FindCondition (c # cs) name = (if Type c = name then Some c else FindCondition cs name)"

fun FindConditionOrFailed :: "Condition list \<Rightarrow> string \<Rightarrow> bool \<times> Condition option" where
  "FindConditionOrFailed [] name = (False, None)"
| "FindConditionOrFailed (c # cs) name =
     (if Type c = name then (Contains_str (Reason c) ''Failed'', Some c)
      else FindConditionOrFailed cs name)"

definition ConditionStatusEquals :: "Condition option \<Rightarrow> ConditionStatus \<Rightarrow> bool" where
  "ConditionStatusEquals cond status = (case cond of None \<Rightarrow> False | Some c \<Rightarrow> Status c = status)"

definition ConditionReasonEquals :: "Condition option \<Rightarrow> string \<Rightarrow> bool" where
  "ConditionReasonEquals cond reason = (case cond of None \<Rightarrow> False | Some c \<Rightarrow> Reason c = reason)"

text \<open>The in-place write of \<open>Upsert\<close> to the condition it found.\<close>

definition set_condition ::
    "go_time \<Rightarrow> Condition \<Rightarrow> ConditionStatus \<Rightarrow> string \<Rightarrow> string \<Rightarrow> Condition" where
  "set_condition v1Now c status reason message =
     (if \<not> ConditionStatusEquals (Some c) status \<or> \<not> ConditionReasonEquals (Some c) reason
      then c\<lparr>Status := status, Reason := reason, LastTransitionTime := v1Now\<rparr>
      else c)\<lparr>Message := message\<rparr>"

fun replace_first :: "string \<Rightarrow> (Condition \<Rightarrow> Condition) \<Rightarrow> Condition list \<Rightarrow> Condition list" where
  "replace_first name f [] = []"
| "replace_first name f (c # cs) =
     (if Type c = name then f c # cs else c # replace_first name f cs)"

definition Upsert ::
    "go_time \<Rightarrow> Condition list \<Rightarrow> string \<Rightarrow> ConditionStatus \<Rightarrow> string \<Rightarrow> string \<Rightarrow> Condition list"
where
  "Upsert v1Now conditions name status reason message =
     (case FindCondition conditions name of
        Some c \<Rightarrow> replace_first name (\<lambda>c. set_condition v1Now c status reason message) conditions
      | None \<Rightarrow> conditions @ [\<lparr>Type = name, Status = status, LastTransitionTime = v1Now,
                               Reason = reason, Message = message\<rparr>])"

definition ElapsedTimeFromLastTransitionTime :: "go_time \<Rightarrow> Condition option \<Rightarrow> duration" where
  "ElapsedTimeFromLastTransitionTime v1Now condition =
     (case condition of None \<Rightarrow> 0
      | Some c \<Rightarrow> round_Second (time_Sub v1Now (LastTransitionTime c)))"

text \<open>Reading a state machine's current state: the reason of a condition, empty if it is absent.\<close>

definition reason_of :: "Condition list \<Rightarrow> string \<Rightarrow> string" where
  "reason_of cs name = (case FindCondition cs name of None \<Rightarrow> [] | Some c \<Rightarrow> Reason c)"

subsection \<open>Reading after writing\<close>

lemma FindCondition_Type: "FindCondition cs name = Some c \<Longrightarrow> Type c = name"
  by (induction cs) (auto split: if_splits)

lemma FindCondition_in_set: "FindCondition cs name = Some c \<Longrightarrow> c \<in> set cs"
  by (induction cs) (auto split: if_splits)

lemma FindCondition_None_iff: "FindCondition cs name = None \<longleftrightarrow> name \<notin> Type ` set cs"
  by (induction cs) auto

lemma FindConditionOrFailed_snd: "snd (FindConditionOrFailed cs name) = FindCondition cs name"
  by (induction cs) auto

lemma FindCondition_append:
  "FindCondition (cs @ ds) name =
     (case FindCondition cs name of None \<Rightarrow> FindCondition ds name | Some c \<Rightarrow> Some c)"
  by (induction cs) auto

lemma Type_set_condition [simp]: "Type (set_condition now c st r m) = Type c"
  by (simp add: set_condition_def)

lemma set_condition_fields [simp]:
  "Status (set_condition now c st r m) = st"
  "Reason (set_condition now c st r m) = r"
  "Message (set_condition now c st r m) = m"
  by (auto simp: set_condition_def ConditionStatusEquals_def ConditionReasonEquals_def)

lemma set_condition_time:
  "LastTransitionTime (set_condition now c st r m) =
     (if Status c = st \<and> Reason c = r then LastTransitionTime c else now)"
  by (auto simp: set_condition_def ConditionStatusEquals_def ConditionReasonEquals_def)

lemma FindCondition_replace_first:
  assumes "\<And>c. Type (f c) = Type c"
  shows "FindCondition (replace_first name f cs) n =
    (if n = name then map_option f (FindCondition cs n) else FindCondition cs n)"
  by (induction cs) (auto simp: assms)

lemma Types_replace_first:
  assumes "\<And>c. Type (f c) = Type c"
  shows "map Type (replace_first name f cs) = map Type cs"
  by (induction cs) (auto simp: assms)

definition upserted ::
    "go_time \<Rightarrow> Condition option \<Rightarrow> string \<Rightarrow> ConditionStatus \<Rightarrow> string \<Rightarrow> string \<Rightarrow> Condition"
where
  "upserted now old name st r m =
     (case old of
        Some c \<Rightarrow> set_condition now c st r m
      | None \<Rightarrow> \<lparr>Type = name, Status = st, LastTransitionTime = now, Reason = r, Message = m\<rparr>)"

lemma upserted_fields [simp]:
  "Status (upserted now old name st r m) = st"
  "Reason (upserted now old name st r m) = r"
  "Message (upserted now old name st r m) = m"
  by (auto simp: upserted_def split: option.splits)

lemma FindCondition_Upsert:
  "FindCondition (Upsert now cs name st r m) n =
     (if n = name then Some (upserted now (FindCondition cs name) name st r m)
      else FindCondition cs n)"
  by (auto simp: Upsert_def upserted_def FindCondition_replace_first FindCondition_append
      split: option.splits)

lemma Types_Upsert:
  "map Type (Upsert now cs name st r m) =
     (if name \<in> Type ` set cs then map Type cs else map Type cs @ [name])"
  by (auto simp: Upsert_def Types_replace_first simp flip: FindCondition_None_iff
      split: option.splits)

lemma set_Types: "Type ` set cs = set (map Type cs)"
  by simp

subsection \<open>The interface of a status with conditions\<close>

text \<open>
  What a reconciler relies on: writing a condition makes it readable with the status, the reason
  and the message written, and leaves every other condition as it was.
\<close>

locale condition_store =
  fixes find_cond :: "'s \<Rightarrow> string \<Rightarrow> Condition option"
    and put_cond :: "go_time \<Rightarrow> 's \<Rightarrow> string \<Rightarrow> ConditionStatus \<Rightarrow> string \<Rightarrow> string \<Rightarrow> 's"
  assumes find_put:
    "find_cond (put_cond now s name st r m) n =
       (if n = name then Some (upserted now (find_cond s name) name st r m) else find_cond s n)"
begin

lemma put_reason [simp]:
  "ConditionReasonEquals (find_cond (put_cond now s name st r m) name) r' = (r = r')"
  by (simp add: find_put ConditionReasonEquals_def)

lemma put_status [simp]:
  "ConditionStatusEquals (find_cond (put_cond now s name st r m) name) st' = (st = st')"
  by (simp add: find_put ConditionStatusEquals_def)

lemma put_other [simp]: "n \<noteq> name \<Longrightarrow> find_cond (put_cond now s name st r m) n = find_cond s n"
  by (simp add: find_put)

lemma put_put_reason [simp]:
  "ConditionReasonEquals
     (find_cond (put_cond now' (put_cond now s name st r m) name st' r' m') name) q = (r' = q)"
  by simp

lemma put_idle_time:
  assumes "find_cond s name = Some c" and "Status c = st" and "Reason c = r"
  shows "map_option LastTransitionTime (find_cond (put_cond now s name st r m) name) =
           Some (LastTransitionTime c)"
  using assms by (simp add: find_put upserted_def set_condition_time)

lemma put_change_time:
  assumes "\<And>c. find_cond s name = Some c \<Longrightarrow> Status c \<noteq> st \<or> Reason c \<noteq> r"
  shows "map_option LastTransitionTime (find_cond (put_cond now s name st r m) name) = Some now"
  using assms by (auto simp: find_put upserted_def set_condition_time split: option.splits)

end

interpretation conds: condition_store FindCondition "\<lambda>now cs. Upsert now cs"
  by unfold_locales (rule FindCondition_Upsert)

lemma reason_of_Upsert [cond_simps, simp]:
  "reason_of (Upsert now cs name st r m) n = (if n = name then r else reason_of cs n)"
  by (simp add: reason_of_def FindCondition_Upsert)

lemma reason_of_iff:
  "r \<noteq> [] \<Longrightarrow> reason_of cs name = r \<longleftrightarrow> ConditionReasonEquals (FindCondition cs name) r"
  by (auto simp: reason_of_def ConditionReasonEquals_def split: option.splits)

lemmas condition_defs =
  ConditionStatusEquals_def ConditionReasonEquals_def reason_of_def

text \<open>
  \<open>Upsert\<close> makes the named condition readable with exactly the status, reason and message
  written; its transition time moves to now only when the status or the reason changes; every
  other condition is untouched and no condition type is ever duplicated.
\<close>

theorem Upsert_correct:
  "\<exists>c. (\<forall>n. FindCondition (Upsert now cs name st r m) n =
            (if n = name then Some c else FindCondition cs n)) \<and>
       Type c = name \<and> Status c = st \<and> Reason c = r \<and> Message c = m \<and>
       LastTransitionTime c =
         (case FindCondition cs name of
            None \<Rightarrow> now
          | Some d \<Rightarrow> if Status d = st \<and> Reason d = r then LastTransitionTime d else now) \<and>
       distinct (map Type (Upsert now cs name st r m)) = distinct (map Type cs)"
proof (intro exI conjI)
  let ?c = "upserted now (FindCondition cs name) name st r m"
  show "\<forall>n. FindCondition (Upsert now cs name st r m) n =
          (if n = name then Some ?c else FindCondition cs n)"
    by (simp add: FindCondition_Upsert)
  show "Type ?c = name"
    by (auto simp: upserted_def dest: FindCondition_Type split: option.splits)
  show "LastTransitionTime ?c =
         (case FindCondition cs name of
            None \<Rightarrow> now
          | Some d \<Rightarrow> if Status d = st \<and> Reason d = r then LastTransitionTime d else now)"
    by (simp add: upserted_def set_condition_time split: option.splits)
  show "distinct (map Type (Upsert now cs name st r m)) = distinct (map Type cs)"
    by (auto simp: Types_Upsert distinct_append simp del: distinct_map)
qed simp_all

end
