(* ===== verification/Maintenance.thy ===== *)
theory Maintenance
  imports Prelude
begin

text \<open>
  \<open>common/pkg/maintenance/windows.go\<close> over the types of
  \<open>common/api/v1alpha1/maintenancewindow.go\<close>. A nil \<open>MaintenanceWindowSpec\<close> is dereferenced by
  \<open>InRange\<close> and \<open>NextWindow\<close>: the panic is the result \<open>None\<close>. The locale \<open>window_gate\<close> is what
  the parameter update state machine relies on.
\<close>

record TimeRange =
  Start :: "go_time option"
  Duration :: "duration option"

record MaintenanceWindowSpec =
  TimeRanges :: "TimeRange list"

definition timeRangeIsValid :: "TimeRange option \<Rightarrow> bool" where
  "timeRangeIsValid tr =
     (case tr of None \<Rightarrow> False | Some r \<Rightarrow> Start r \<noteq> None \<and> Duration r \<noteq> None)"

definition timeRangeInRange :: "TimeRange option \<Rightarrow> go_time \<Rightarrow> bool" where
  "timeRangeInRange tr t =
     (if \<not> timeRangeIsValid tr then False
      else let start = Rfc3339Copy (the (Start (the tr)))
           in if t < start then False
              else let stop = start + the (Duration (the tr)) in stop > t)"

fun all_ranges_valid :: "TimeRange list \<Rightarrow> bool" where
  "all_ranges_valid [] = True"
| "all_ranges_valid (tr # trs) =
     (if \<not> timeRangeIsValid (Some tr) then False else all_ranges_valid trs)"

definition HasValidTimeRanges :: "MaintenanceWindowSpec option \<Rightarrow> bool" where
  "HasValidTimeRanges mw =
     (case mw of None \<Rightarrow> False
      | Some w \<Rightarrow> if length (TimeRanges w) = 0 then False else all_ranges_valid (TimeRanges w))"

fun any_in_range :: "TimeRange list \<Rightarrow> go_time \<Rightarrow> bool" where
  "any_in_range [] t = False"
| "any_in_range (tr # trs) t = (if timeRangeInRange (Some tr) t then True else any_in_range trs t)"

definition InRange :: "MaintenanceWindowSpec option \<Rightarrow> go_time \<Rightarrow> bool option" where
  "InRange mw t = map_option (\<lambda>w. any_in_range (TimeRanges w) t) mw"

definition NoFutureWindows :: go_error where
  "NoFutureWindows = Errorf ''no future windows''"

text \<open>The loop of \<open>NextWindow\<close>; the accumulator is the pair of pointers \<open>min\<close> and \<open>d\<close>.\<close>

fun next_window_loop ::
    "TimeRange list \<Rightarrow> go_time \<Rightarrow> (go_time \<times> duration) option \<Rightarrow> (go_time \<times> duration) option" where
  "next_window_loop [] t best = best"
| "next_window_loop (tr # trs) t best =
     (if \<not> timeRangeIsValid (Some tr) then next_window_loop trs t best
      else let trStart = Rfc3339Copy (the (Start tr)); d = the (Duration tr)
           in if t < trStart
              then let best1 = (if best = None then Some (trStart, d) else best);
                       best2 = (if fst (the best1) > trStart then Some (trStart, d) else best1)
                   in next_window_loop trs t best2
              else next_window_loop trs t best)"

definition NextWindow ::
    "MaintenanceWindowSpec option \<Rightarrow> go_time \<Rightarrow> (go_error + go_time \<times> duration) option" where
  "NextWindow mw t =
     map_option (\<lambda>w. case next_window_loop (TimeRanges w) t None of
                       Some sd \<Rightarrow> Inr sd
                     | None \<Rightarrow> Inl NoFutureWindows) mw"

subsection \<open>The ranges a window holds\<close>

text \<open>The windows as a set of pairs of a start, cut to the second, and a duration.\<close>

definition windows_of :: "TimeRange list \<Rightarrow> (go_time \<times> duration) set" where
  "windows_of trs =
     {(Rfc3339Copy s, d) | s d. \<exists>tr\<in>set trs. Start tr = Some s \<and> Duration tr = Some d}"

lemma windows_of_Nil [simp]: "windows_of [] = {}"
  by (simp add: windows_of_def)

lemma windows_of_Cons:
  "windows_of (tr # trs) =
     (case (Start tr, Duration tr) of
        (Some s, Some d) \<Rightarrow> insert (Rfc3339Copy s, d) (windows_of trs)
      | _ \<Rightarrow> windows_of trs)"
  by (auto simp: windows_of_def split: option.splits)

lemma timeRangeIsValid_iff:
  "timeRangeIsValid (Some tr) \<longleftrightarrow> (\<exists>s d. Start tr = Some s \<and> Duration tr = Some d)"
  by (auto simp: timeRangeIsValid_def)

lemma any_in_range_iff:
  "any_in_range trs t \<longleftrightarrow> (\<exists>(s, d) \<in> windows_of trs. s \<le> t \<and> t < s + d)"
  by (induction trs)
    (auto simp: windows_of_Cons timeRangeInRange_def timeRangeIsValid_def Let_def
      split: option.splits)

lemma all_ranges_valid_iff: "all_ranges_valid trs \<longleftrightarrow> (\<forall>tr\<in>set trs. timeRangeIsValid (Some tr))"
  by (induction trs) auto

definition loop_result ::
    "go_time \<Rightarrow> (go_time \<times> duration) set \<Rightarrow> (go_time \<times> duration) option \<Rightarrow> bool" where
  "loop_result t W res \<longleftrightarrow>
     (case res of
        None \<Rightarrow> (\<forall>(s, d)\<in>W. s \<le> t)
      | Some (s, d) \<Rightarrow> (s, d) \<in> W \<and> t < s \<and> (\<forall>(s', d')\<in>W. t < s' \<longrightarrow> s \<le> s'))"

lemma loop_result_skip:
  "loop_result t W best \<Longrightarrow> s \<le> t \<Longrightarrow> loop_result t (insert (s, d) W) best"
  by (auto simp: loop_result_def split: option.splits)

lemma next_window_loop_correct:
  "loop_result t W best \<Longrightarrow> loop_result t (W \<union> windows_of trs) (next_window_loop trs t best)"
proof (induction trs arbitrary: W best)
  case Nil
  then show ?case by simp
next
  case (Cons tr trs)
  show ?case
  proof (cases "timeRangeIsValid (Some tr)")
    case False
    with Cons show ?thesis
      by (auto simp: windows_of_Cons timeRangeIsValid_def split: option.splits)
  next
    case True
    then obtain s d where sd: "Start tr = Some s" "Duration tr = Some d"
      by (auto simp: timeRangeIsValid_iff)
    let ?s = "Rfc3339Copy s"
    let ?best1 = "if best = None then Some (?s, d) else best"
    let ?best2 = "if t < ?s then (if fst (the ?best1) > ?s then Some (?s, d) else ?best1) else best"
    have "loop_result t (insert (?s, d) W) ?best2"
      using Cons.prems
      by (cases best) (auto simp: loop_result_def split: if_splits)
    then have "loop_result t (insert (?s, d) W \<union> windows_of trs) (next_window_loop trs t ?best2)"
      by (rule Cons.IH)
    with True sd show ?thesis
      by (cases best) (auto simp: windows_of_Cons Let_def split: if_splits)
  qed
qed

lemma next_window_loop_result:
  "loop_result t (windows_of trs) (next_window_loop trs t None)"
  using next_window_loop_correct [of t "{}" None trs] by (simp add: loop_result_def)

subsection \<open>The interface of the maintenance windows\<close>

locale window_gate =
  fixes valid :: "'w \<Rightarrow> bool"
    and in_range :: "'w \<Rightarrow> go_time \<Rightarrow> bool option"
    and next_window :: "'w \<Rightarrow> go_time \<Rightarrow> (go_error + go_time \<times> duration) option"
  assumes valid_in_range: "valid w \<Longrightarrow> in_range w t \<noteq> None"
    and valid_next: "valid w \<Longrightarrow> next_window w t \<noteq> None"
    and next_is_later: "next_window w t = Some (Inr (s, d)) \<Longrightarrow> t < s"
    and next_is_open: "next_window w t = Some (Inr (s, d)) \<Longrightarrow> 0 < d \<Longrightarrow> in_range w s = Some True"
begin

text \<open>Sleeping until the start of the next window ends inside a window.\<close>

lemma wait_then_open:
  assumes "next_window w t = Some (Inr (s, d))" and "0 < d"
  shows "0 < s - t" and "in_range w (t + (s - t)) = Some True"
  using assms next_is_later next_is_open by (auto simp: algebra_simps)

lemma valid_cases:
  assumes "valid w"
  obtains (is_open) "in_range w t = Some True"
  | (wait) s d where "in_range w t = Some False" "next_window w t = Some (Inr (s, d))"
  | (past) e where "in_range w t = Some False" "next_window w t = Some (Inl e)"
proof -
  from assms obtain b r where "in_range w t = Some b" "next_window w t = Some r"
    using valid_in_range valid_next by blast
  then show ?thesis using that by (cases b; cases r) auto
qed

end

lemma HasValidTimeRanges_Some: "HasValidTimeRanges mw \<Longrightarrow> \<exists>w. mw = Some w"
  by (cases mw) (auto simp: HasValidTimeRanges_def)

lemma NextWindow_Inr:
  assumes "NextWindow mw t = Some (Inr (s, d))"
  obtains w where "mw = Some w" "(s, d) \<in> windows_of (TimeRanges w)" "t < s"
    "\<forall>(s', d')\<in>windows_of (TimeRanges w). t < s' \<longrightarrow> s \<le> s'"
  using assms next_window_loop_result
  by (fastforce simp: NextWindow_def loop_result_def split: option.splits)

interpretation gate: window_gate HasValidTimeRanges InRange NextWindow
proof unfold_locales
  fix mw t s d
  show "InRange mw t \<noteq> None" if "HasValidTimeRanges mw"
    using HasValidTimeRanges_Some [OF that] by (auto simp: InRange_def)
  show "NextWindow mw t \<noteq> None" if "HasValidTimeRanges mw"
    using HasValidTimeRanges_Some [OF that] by (auto simp: NextWindow_def)
  show "t < s" if "NextWindow mw t = Some (Inr (s, d))"
    using that by (rule NextWindow_Inr)
  show "InRange mw s = Some True" if "NextWindow mw t = Some (Inr (s, d))" "0 < d"
    using that(1) that(2) by (elim NextWindow_Inr) (auto simp: InRange_def any_in_range_iff)
qed

subsection \<open>Properties\<close>

text \<open>
  \<open>InRange\<close> says yes exactly when some complete range of the window covers the time, the
  start (cut to the second) included and the end excluded; it panics exactly on a nil window.
\<close>

theorem InRange_iff:
  "InRange mw t =
     (case mw of None \<Rightarrow> None
      | Some w \<Rightarrow> Some (\<exists>tr s d. tr \<in> set (TimeRanges w) \<and> Start tr = Some s \<and> Duration tr = Some d \<and>
                           Rfc3339Copy s \<le> t \<and> t < Rfc3339Copy s + d))"
  by (cases mw) (auto simp: InRange_def any_in_range_iff windows_of_def)

text \<open>
  \<open>NextWindow\<close> returns the earliest window that starts strictly after the given time, and the
  error \<open>NoFutureWindows\<close> exactly when no complete range starts later.
\<close>

theorem NextWindow_earliest:
  "case NextWindow (Some w) t of
     None \<Rightarrow> False
   | Some (Inl e) \<Rightarrow> e = NoFutureWindows \<and> \<not> (\<exists>(s', d')\<in>windows_of (TimeRanges w). t < s')
   | Some (Inr (s, d)) \<Rightarrow>
       (s, d) \<in> windows_of (TimeRanges w) \<and> t < s \<and>
       \<not> (\<exists>(s', d')\<in>windows_of (TimeRanges w). t < s' \<and> s' < s)"
  using next_window_loop_result [of t "TimeRanges w"]
  by (fastforce simp: NextWindow_def loop_result_def split: option.splits)

end
