(* ===== verification/CronAnything.thy ===== *)
theory CronAnything
  imports Prelude "HOL-Library.Monad_Syntax"
begin

text \<open>
  \<open>common/controllers/cronanything_controller.go\<close> over the types of
  \<open>common/api/v1alpha1/cronanything.go\<close>: the controller that creates a resource at every
  activation time of a cron schedule.

  The interfaces \<open>cronAnythingControl\<close>, \<open>resourceControl\<close> and \<open>resourceResolver\<close>, the cron, JSON
  and JSONPath packages, the clock and \<open>retry.RetryOnConflict\<close> are fields of the record
  \<open>cron_env\<close>. A call to the API server is answered by a function of the calls made so far, so an
  environment may answer the same call differently each time. The reconciler's own state is
  \<open>cron_state\<close>: the log of the calls it made and its map of queued trigger times. \<open>None\<close> is a
  nil-pointer panic, or the schedule loop running forever. Seconds are compared exactly where the
  code compares them as \<open>float64\<close>. Text that only goes to the log is left out.
\<close>

subsection \<open>Types\<close>

text \<open>The string enumerations of the API: a value that is none of the constants is \<open>Other\<close>.\<close>

datatype ConcurrencyPolicy = AllowConcurrent | ForbidConcurrent | ReplaceConcurrent | OtherPolicy string

datatype TriggerResult =
    TriggerResultMissed | TriggerResultCreateFailed | TriggerResultCreateSucceeded
  | TriggerResultResourceLimitReached | TriggerResultForbidConcurrent | TriggerResultDeadlineExceeded

datatype FinishableStrategyType =
  FinishableStrategyTimestampField | FinishableStrategyStringField | OtherFinishable string

datatype ResourceTimestampStrategyType = ResourceTimestampStrategyField | OtherTimestamp string

record TimestampFieldStrategy = tfs_FieldPath :: string

record StringFieldStrategy =
  sfs_FieldPath :: string
  sfs_FinishedValues :: "string list"

record FinishableStrategy =
  fin_Type :: FinishableStrategyType
  fin_TimestampField :: "TimestampFieldStrategy option"
  fin_StringField :: "StringFieldStrategy option"

record FieldResourceTimestampStrategy = frts_FieldPath :: string

record ResourceTimestampStrategy =
  rts_Type :: ResourceTimestampStrategyType
  rts_Field :: "FieldResourceTimestampStrategy option"

record ResourceRetention =
  HistoryCountLimit :: "int option"
  HistoryTimeLimitSeconds :: "nat option"
  ResourceTimestampStrategy_of :: ResourceTimestampStrategy

record CronAnythingSpec =
  cs_Schedule :: string
  cs_TriggerDeadlineSeconds :: "int option"
  cs_ConcurrencyPolicy :: ConcurrencyPolicy
  cs_Suspend :: "bool option"
  cs_FinishableStrategy :: "FinishableStrategy option"
  cs_Template :: string
  cs_TotalResourceLimit :: "int option"
  cs_Retention :: "ResourceRetention option"
  cs_CascadeDelete :: "bool option"
  cs_ResourceBaseName :: "string option"
  cs_ResourceTimestampFormat :: "string option"

record PendingTrigger =
  pt_ScheduleTime :: go_time
  pt_Result :: TriggerResult

record TriggerHistoryRecord =
  th_ScheduleTime :: go_time
  th_CreationTimestamp :: go_time
  th_Result :: TriggerResult

record CronAnythingStatus =
  LastScheduleTime :: "go_time option"
  TriggerHistory :: "TriggerHistoryRecord list"
  PendingTrigger_of :: "PendingTrigger option"

record CronAnything =
  ca_Namespace :: string
  ca_Name :: string
  ca_UID :: string
  ca_CreationTimestamp :: go_time
  ca_DeletionTimestamp :: "go_time option"
  ca_Spec :: CronAnythingSpec
  ca_Status :: CronAnythingStatus

abbreviation TriggerHistoryMaxLength :: nat where "TriggerHistoryMaxLength \<equiv> 10"
abbreviation CronAnythingCreatedByLabel :: string where
  "CronAnythingCreatedByLabel \<equiv> ''db.anthosapis.com/created-by''"
abbreviation CronAnythingScheduleTimeLabel :: string where
  "CronAnythingScheduleTimeLabel \<equiv> ''db.anthosapis.com/schedule-time''"

text \<open>An unstructured resource: the metadata its accessors read, and the rest of its content,
  which only a JSONPath expression looks into.\<close>

datatype OwnerReference = OwnerRef (owner_kind: string) (owner_name: string) (owner_uid: string)

record Unstructured =
  u_Kind :: string
  u_Namespace :: string
  u_Name :: string
  u_UID :: string
  u_CreationTimestamp :: go_time
  u_DeletionTimestamp :: "go_time option"
  u_Labels :: "(string \<rightharpoonup> string) option"
  u_OwnerReferences :: "OwnerReference list"
  u_Object :: "string \<rightharpoonup> string"

type_synonym gvr = string

datatype event_kind = EventTypeNormal | EventTypeWarning

datatype cron_call =
    CallGet string string
  | CallUpdateStatus CronAnything
  | CallList gvr string
  | CallDelete gvr string string
  | CallCreate gvr string Unstructured
  | CallEvent event_kind string string

record cron_state =
  calls :: "cron_call list"
  nextTrigger :: "string \<rightharpoonup> go_time"

definition do_call :: "cron_call \<Rightarrow> cron_state \<Rightarrow> cron_state" where
  "do_call c s = s\<lparr>calls := calls s @ [c]\<rparr>"

record cron_env =
  env_Get :: "cron_call list \<Rightarrow> string \<Rightarrow> string \<Rightarrow> go_error + CronAnything"
  env_UpdateStatus :: "cron_call list \<Rightarrow> CronAnything \<Rightarrow> go_error option"
  env_List :: "cron_call list \<Rightarrow> gvr \<Rightarrow> string \<Rightarrow> go_error + Unstructured list"
  env_Delete :: "cron_call list \<Rightarrow> gvr \<Rightarrow> string \<Rightarrow> string \<Rightarrow> go_error option"
  env_Create :: "cron_call list \<Rightarrow> gvr \<Rightarrow> string \<Rightarrow> Unstructured \<Rightarrow> go_error option"
  env_Resolve :: "string \<Rightarrow> gvr option"
  env_Unmarshal :: "string \<Rightarrow> go_error + Unstructured"
  env_NewControllerRef :: "CronAnything \<Rightarrow> string \<Rightarrow> OwnerReference"
  env_jsonpath_Parse :: "string \<Rightarrow> go_error option"
  env_jsonpath_Execute :: "string \<Rightarrow> Unstructured \<Rightarrow> go_error + string"
  env_UnmarshalQueryParameter :: "string \<Rightarrow> go_error + go_time"
  env_ParseStandard :: "string \<Rightarrow> go_error + (go_time \<Rightarrow> go_time)"
  env_Parse :: "string \<Rightarrow> go_error + (go_time \<Rightarrow> go_time)"
  env_Format :: "go_time \<Rightarrow> string \<Rightarrow> string"
  env_currentTime :: "cron_call list \<Rightarrow> go_time"
  env_RetryOnConflict ::
    "(cron_state \<Rightarrow> go_error option \<times> cron_state) \<Rightarrow> cron_state \<Rightarrow> go_error option \<times> cron_state"

subsection \<open>Status updates\<close>

definition updateLastScheduleTime :: "CronAnythingStatus \<Rightarrow> go_time \<Rightarrow> CronAnythingStatus" where
  "updateLastScheduleTime status scheduleTime =
     (if (case LastScheduleTime status of None \<Rightarrow> True | Some t \<Rightarrow> t < scheduleTime)
      then status\<lparr>LastScheduleTime := Some scheduleTime\<rparr> else status)"

definition addToTriggerHistory ::
    "CronAnythingStatus \<Rightarrow> TriggerHistoryRecord \<Rightarrow> CronAnythingStatus" where
  "addToTriggerHistory status hrecord =
     (let h = hrecord # TriggerHistory status
      in status\<lparr>TriggerHistory :=
           (if length h > TriggerHistoryMaxLength then take TriggerHistoryMaxLength h else h)\<rparr>)"

text \<open>One attempt of \<open>updateCronAnythingStatus\<close>: the closure given to \<open>RetryOnConflict\<close>.\<close>

definition update_status_attempt ::
    "cron_env \<Rightarrow> string \<Rightarrow> string \<Rightarrow> (CronAnythingStatus \<Rightarrow> CronAnythingStatus) \<Rightarrow>
     cron_state \<Rightarrow> go_error option \<times> cron_state" where
  "update_status_attempt env name namespace updateFunc s =
     (let s1 = do_call (CallGet namespace name) s
      in case env_Get env (calls s) namespace name of
           Inl err \<Rightarrow> (Some err, s1)
         | Inr inst \<Rightarrow>
             let inst' = inst\<lparr>ca_Status := updateFunc (ca_Status inst)\<rparr>
             in (env_UpdateStatus env (calls s1) inst', do_call (CallUpdateStatus inst') s1))"

definition updateCronAnythingStatus ::
    "cron_env \<Rightarrow> string \<Rightarrow> string \<Rightarrow> (CronAnythingStatus \<Rightarrow> CronAnythingStatus) \<Rightarrow>
     cron_state \<Rightarrow> go_error option \<times> cron_state" where
  "updateCronAnythingStatus env name namespace updateFunc s =
     env_RetryOnConflict env (update_status_attempt env name namespace updateFunc) s"

definition updateTriggerTimes ::
    "cron_env \<Rightarrow> string \<Rightarrow> go_time \<Rightarrow> cron_state \<Rightarrow> ctrl_Result \<times> cron_state" where
  "updateTriggerTimes env canonicalName nextScheduleTime s =
     (if nextTrigger s canonicalName = Some nextScheduleTime then (Result_zero, s)
      else (requeue_in (time_Sub nextScheduleTime (env_currentTime env (calls s))),
            s\<lparr>nextTrigger := (nextTrigger s)(canonicalName \<mapsto> nextScheduleTime)\<rparr>))"

subsection \<open>Reading a child resource\<close>

definition getFieldValue :: "cron_env \<Rightarrow> string \<Rightarrow> Unstructured \<Rightarrow> go_error + string" where
  "getFieldValue env fieldPath resource =
     (case env_jsonpath_Parse env fieldPath of
        Some err \<Rightarrow> Inl err
      | None \<Rightarrow> env_jsonpath_Execute env fieldPath resource)"

definition getTimestamp ::
    "cron_env \<Rightarrow> string \<Rightarrow> Unstructured \<Rightarrow> go_time \<times> bool \<times> go_error option" where
  "getTimestamp env timestampFieldPath resource =
     (case getFieldValue env timestampFieldPath resource of
        Inl err \<Rightarrow> (0, False, Some err)
      | Inr v \<Rightarrow>
          if length v = 0 then (0, False, None)
          else case env_UnmarshalQueryParameter env v of
                 Inl err \<Rightarrow> (0, False, Some err)
               | Inr timestamp \<Rightarrow> (timestamp, True, None))"

definition isFinished :: "cron_env \<Rightarrow> CronAnything \<Rightarrow> Unstructured \<Rightarrow> bool \<times> go_error option" where
  "isFinished env ca resource =
     (case cs_FinishableStrategy (ca_Spec ca) of
        None \<Rightarrow> (False, None)
      | Some fs \<Rightarrow>
         (case fin_Type fs of
            FinishableStrategyTimestampField \<Rightarrow>
              (case fin_TimestampField fs of
                 None \<Rightarrow> (False, Some (Errorf
                   ''FinishableStrategy type is timestampField, but TimestampField property is nil''))
               | Some strategy \<Rightarrow>
                   (case getTimestamp env (tfs_FieldPath strategy) resource of
                      (_, finished, err) \<Rightarrow> (finished, err)))
          | FinishableStrategyStringField \<Rightarrow>
              (case fin_StringField fs of
                 None \<Rightarrow> (False, Some (Errorf
                   ''FinishableStrategy type is stringField, but StringField property is nil''))
               | Some strategy \<Rightarrow>
                   (case getFieldValue env (sfs_FieldPath strategy) resource of
                      Inl err \<Rightarrow> (False, Some err)
                    | Inr v \<Rightarrow> (v \<in> set (sfs_FinishedValues strategy), None)))
          | OtherFinishable _ \<Rightarrow> (False, None)))"

text \<open>\<open>Retention\<close> and, for the strategy \<open>Field\<close>, \<open>FieldResourceTimestampStrategy\<close> are
  dereferenced: \<open>None\<close> when one of them is nil.\<close>

definition getResourceTimestamp ::
    "cron_env \<Rightarrow> CronAnything \<Rightarrow> Unstructured \<Rightarrow> (go_error + go_time) option" where
  "getResourceTimestamp env ca resource =
     do { retention \<leftarrow> cs_Retention (ca_Spec ca);
          (let rts = ResourceTimestampStrategy_of retention
           in case rts_Type rts of
                ResourceTimestampStrategyField \<Rightarrow>
                  do { strategy \<leftarrow> rts_Field rts;
                       (case getTimestamp env (frts_FieldPath strategy) resource of
                          (_, _, Some err) \<Rightarrow> Some (Inl err)
                        | (timestamp, _, None) \<Rightarrow> Some (Inr timestamp)) }
              | OtherTimestamp _ \<Rightarrow>
                  Some (Inl (Errorf (''can't find timestamp for resource '' @ u_Name resource)))) }"

subsection \<open>Cleaning up finished resources\<close>

text \<open>The cache of \<open>byTimestamp\<close>, filled in the order of the items.\<close>

fun newByTimestamp ::
    "cron_env \<Rightarrow> CronAnything \<Rightarrow> Unstructured list \<Rightarrow> (string \<rightharpoonup> go_time) \<Rightarrow>
     (string \<rightharpoonup> go_time) option" where
  "newByTimestamp env ca [] cache = Some cache"
| "newByTimestamp env ca (item # items) cache =
     do { ts \<leftarrow> getResourceTimestamp env ca item;
          newByTimestamp env ca items
            (case ts of Inl _ \<Rightarrow> cache | Inr finishedTime \<Rightarrow> cache(u_UID item \<mapsto> finishedTime)) }"

definition byTimestamp_Less :: "(string \<rightharpoonup> go_time) \<Rightarrow> Unstructured \<Rightarrow> Unstructured \<Rightarrow> bool" where
  "byTimestamp_Less cache iResource jResource =
     (case (cache (u_UID iResource), cache (u_UID jResource)) of
        (None, None) \<Rightarrow> u_CreationTimestamp jResource < u_CreationTimestamp iResource
      | (None, Some _) \<Rightarrow> False
      | (Some _, None) \<Rightarrow> True
      | (Some iTimestamp, Some jTimestamp) \<Rightarrow> jTimestamp < iTimestamp)"

definition older_than :: "nat option \<Rightarrow> go_time \<Rightarrow> go_time \<Rightarrow> bool" where
  "older_than historyTimeLimit now timestamp =
     (case historyTimeLimit of
        None \<Rightarrow> False
      | Some limit \<Rightarrow> timestamp < now \<and> time_Sub now timestamp > int limit * Second)"

definition count_reached :: "int option \<Rightarrow> int \<Rightarrow> bool" where
  "count_reached historyCountLimit keeperCount =
     (case historyCountLimit of None \<Rightarrow> False | Some limit \<Rightarrow> keeperCount \<ge> limit)"

text \<open>The loop of \<open>cleanupHistory\<close> over the sorted children: the list is \<open>toBeDeleted\<close>.\<close>

fun select_deletions ::
    "cron_env \<Rightarrow> CronAnything \<Rightarrow> go_time \<Rightarrow> nat option \<Rightarrow> int option \<Rightarrow> int \<Rightarrow>
     Unstructured list \<Rightarrow> Unstructured list option" where
  "select_deletions env ca now timeLimit countLimit keeperCount [] = Some []"
| "select_deletions env ca now timeLimit countLimit keeperCount (child # children) =
     (if snd (isFinished env ca child) \<noteq> None \<or> \<not> fst (isFinished env ca child)
      then select_deletions env ca now timeLimit countLimit keeperCount children
      else do { ts \<leftarrow> getResourceTimestamp env ca child;
                (case ts of
                   Inl err \<Rightarrow> select_deletions env ca now timeLimit countLimit keeperCount children
                 | Inr timestamp \<Rightarrow>
                     if older_than timeLimit now timestamp \<or> count_reached countLimit keeperCount
                     then map_option ((#) child)
                            (select_deletions env ca now timeLimit countLimit keeperCount children)
                     else select_deletions env ca now timeLimit countLimit
                            (int32 (keeperCount + 1)) children) })"

fun delete_loop ::
    "cron_env \<Rightarrow> gvr \<Rightarrow> Unstructured list \<Rightarrow> string set \<Rightarrow> cron_state \<Rightarrow> string set \<times> cron_state" where
  "delete_loop env resource [] deleted s = (deleted, s)"
| "delete_loop env resource (child # children) deleted s =
     (if u_DeletionTimestamp child \<noteq> None then delete_loop env resource children deleted s
      else let s1 = do_call (CallDelete resource (u_Namespace child) (u_Name child)) s
           in case env_Delete env (calls s) resource (u_Namespace child) (u_Name child) of
                Some err \<Rightarrow>
                  delete_loop env resource children deleted
                    (do_call (CallEvent EventTypeWarning ''FailedDeleteFinished''
                       (''Error deleting finished resource: '' @ err_msg err)) s1)
              | None \<Rightarrow> delete_loop env resource children (insert (u_Name child) deleted) s1)"

definition deleteInactiveResources ::
    "cron_env \<Rightarrow> Unstructured list \<Rightarrow> Unstructured list \<Rightarrow> gvr \<Rightarrow> cron_state \<Rightarrow>
     Unstructured list \<times> cron_state" where
  "deleteInactiveResources env toBeDeleted childResources resource s =
     (case delete_loop env resource toBeDeleted {} s of
        (deleted, s') \<Rightarrow> (filter (\<lambda>r. u_Name r \<notin> deleted) childResources, s'))"

definition cleanupHistory ::
    "cron_env \<Rightarrow> CronAnything \<Rightarrow> Unstructured list \<Rightarrow> gvr \<Rightarrow> go_time \<Rightarrow> cron_state \<Rightarrow>
     (Unstructured list \<times> cron_state) option" where
  "cleanupHistory env ca childResources resource now s =
     (case cs_Retention (ca_Spec ca) of
        None \<Rightarrow> Some (childResources, s)
      | Some retention \<Rightarrow>
          let historyTimeLimit = HistoryTimeLimitSeconds retention;
              historyCountLimit = HistoryCountLimit retention
          in if historyTimeLimit = None \<and> historyCountLimit = None then Some (childResources, s)
             else do { cache \<leftarrow> newByTimestamp env ca childResources Map.empty;
                       (let sorted = sort_Slice (byTimestamp_Less cache) childResources
                        in do { toBeDeleted \<leftarrow> select_deletions env ca now historyTimeLimit
                                                 historyCountLimit 0 sorted;
                                Some (deleteInactiveResources env toBeDeleted sorted resource s) }) })"

subsection \<open>Active children, names and schedule times\<close>

definition filterChildResources ::
    "(Unstructured \<Rightarrow> bool \<times> go_error option) \<Rightarrow> Unstructured list \<Rightarrow> Unstructured list" where
  "filterChildResources include childResources = filter (\<lambda>r. fst (include r)) childResources"

definition findActiveChildResources ::
    "cron_env \<Rightarrow> CronAnything \<Rightarrow> Unstructured list \<Rightarrow> Unstructured list" where
  "findActiveChildResources env ca childResources =
     filterChildResources
       (\<lambda>resource. case isFinished env ca resource of (finished, err) \<Rightarrow> (\<not> finished, err))
       childResources"

definition nonempty_string :: "string option \<Rightarrow> bool" where
  "nonempty_string x = (case x of None \<Rightarrow> False | Some s \<Rightarrow> length s > 0)"

definition getResourceName :: "cron_env \<Rightarrow> CronAnything \<Rightarrow> go_time \<Rightarrow> string" where
  "getResourceName env ca scheduleTime =
     (let baseName = (if nonempty_string (cs_ResourceBaseName (ca_Spec ca))
                      then the (cs_ResourceBaseName (ca_Spec ca)) else ca_Name ca);
          timestamp = (if nonempty_string (cs_ResourceTimestampFormat (ca_Spec ca))
                       then env_Format env scheduleTime (the (cs_ResourceTimestampFormat (ca_Spec ca)))
                       else itoa (time_Unix scheduleTime))
      in baseName @ ''-'' @ timestamp)"

text \<open>The loop collects the activation times before \<open>now\<close>. It does not end when \<open>Next\<close> keeps
  returning times before \<open>now\<close>.\<close>

partial_function (option) schedule_loop ::
    "(go_time \<Rightarrow> go_time) \<Rightarrow> go_time \<Rightarrow> go_time \<Rightarrow> go_time list \<Rightarrow> go_time list option" where
  "schedule_loop Next now t scheduleTimes =
     (if t < now then schedule_loop Next now (Next t) (scheduleTimes @ [t])
      else Some scheduleTimes)"

definition parse_schedule :: "cron_env \<Rightarrow> string \<Rightarrow> go_error + (go_time \<Rightarrow> go_time)" where
  "parse_schedule env schedule =
     (case env_ParseStandard env schedule of
        Inr Next \<Rightarrow> Inr Next
      | Inl err \<Rightarrow>
          (case env_Parse env schedule of
             Inr Next \<Rightarrow> Inr Next
           | Inl err2 \<Rightarrow> Inl (Errorf (''unable to parse schedule string: '' @ err_msg err))))"

definition start_time :: "CronAnything \<Rightarrow> go_time" where
  "start_time ca =
     (case LastScheduleTime (ca_Status ca) of None \<Rightarrow> ca_CreationTimestamp ca | Some t \<Rightarrow> t)"

definition getScheduleTimes ::
    "cron_env \<Rightarrow> CronAnything \<Rightarrow> go_time \<Rightarrow> (go_error + go_time list \<times> go_time) option" where
  "getScheduleTimes env ca now =
     (case parse_schedule env (cs_Schedule (ca_Spec ca)) of
        Inl err \<Rightarrow> Some (Inl err)
      | Inr Next \<Rightarrow>
          do { scheduleTimes \<leftarrow> schedule_loop Next now (Next (start_time ca)) [];
               Some (Inr (scheduleTimes, Next now)) })"

definition templateToUnstructured :: "cron_env \<Rightarrow> CronAnything \<Rightarrow> go_error + Unstructured" where
  "templateToUnstructured env ca =
     (case env_Unmarshal env (cs_Template (ca_Spec ca)) of
        Inl err \<Rightarrow> Inl (Errorf (''unable to parse template: '' @ err_msg err))
      | Inr template \<Rightarrow> Inr template)"

subsection \<open>The reconcile loop\<close>

definition canonicalName :: "CronAnything \<Rightarrow> string" where
  "canonicalName ca = ca_Namespace ca @ ''/'' @ ca_Name ca"

text \<open>The closures \<open>Reconcile\<close> gives to \<open>updateCronAnythingStatus\<close>: for dropped triggers, for an
  exceeded deadline, for a trigger that is settled, and after a failed create.\<close>

definition status_dropped ::
    "go_time \<Rightarrow> TriggerHistoryRecord \<Rightarrow> CronAnythingStatus \<Rightarrow> CronAnythingStatus" where
  "status_dropped latestDropped historyRecord freshStatus =
     addToTriggerHistory
       ((updateLastScheduleTime freshStatus latestDropped)\<lparr>PendingTrigger_of := None\<rparr>) historyRecord"

definition pending_at :: "PendingTrigger option \<Rightarrow> go_time \<Rightarrow> bool" where
  "pending_at pending t = (case pending of None \<Rightarrow> False | Some p \<Rightarrow> pt_ScheduleTime p = t)"

definition status_deadline ::
    "go_time \<Rightarrow> go_time \<Rightarrow> CronAnythingStatus \<Rightarrow> CronAnythingStatus" where
  "status_deadline scheduleTime now freshStatus =
     (let st1 = updateLastScheduleTime freshStatus scheduleTime;
          result = (if pending_at (PendingTrigger_of st1) scheduleTime
                    then pt_Result (the (PendingTrigger_of st1))
                    else TriggerResultDeadlineExceeded)
      in (addToTriggerHistory st1
            \<lparr>th_ScheduleTime = scheduleTime, th_CreationTimestamp = now, th_Result = result\<rparr>)
           \<lparr>PendingTrigger_of := None\<rparr>)"

definition status_settled ::
    "go_time \<Rightarrow> go_time \<Rightarrow> TriggerResult \<Rightarrow> CronAnythingStatus \<Rightarrow> CronAnythingStatus" where
  "status_settled scheduleTime now result freshStatus =
     addToTriggerHistory
       ((updateLastScheduleTime freshStatus scheduleTime)\<lparr>PendingTrigger_of := None\<rparr>)
       \<lparr>th_ScheduleTime = scheduleTime, th_CreationTimestamp = now, th_Result = result\<rparr>"

definition status_pending :: "go_time \<Rightarrow> CronAnythingStatus \<Rightarrow> CronAnythingStatus" where
  "status_pending scheduleTime freshStatus =
     freshStatus\<lparr>PendingTrigger_of :=
       Some \<lparr>pt_ScheduleTime = scheduleTime, pt_Result = TriggerResultCreateFailed\<rparr>\<rparr>"

type_synonym cron_outcome = "cron_state \<times> ctrl_Result \<times> go_error option"

text \<open>Update the status; on success queue the next trigger.\<close>

definition settle ::
    "cron_env \<Rightarrow> CronAnything \<Rightarrow> (CronAnythingStatus \<Rightarrow> CronAnythingStatus) \<Rightarrow> go_time \<Rightarrow>
     cron_state \<Rightarrow> cron_outcome" where
  "settle env ca updateFunc nextScheduleTime s =
     (case updateCronAnythingStatus env (ca_Name ca) (ca_Namespace ca) updateFunc s of
        (Some err, s1) \<Rightarrow> (s1, Result_zero, Some err)
      | (None, s1) \<Rightarrow>
          (case updateTriggerTimes env (canonicalName ca) nextScheduleTime s1 of
             (res, s2) \<Rightarrow> (s2, res, None)))"

definition report_dropped ::
    "cron_env \<Rightarrow> CronAnything \<Rightarrow> go_time \<Rightarrow> go_time list \<Rightarrow> cron_state \<Rightarrow> go_error option \<times> cron_state"
where
  "report_dropped env ca now droppedSchedules s =
     (if length droppedSchedules > 0
      then let latestDropped = last droppedSchedules;
               pending = PendingTrigger_of (ca_Status ca);
               result = (if length droppedSchedules = 1 \<and> pending_at pending latestDropped
                         then pt_Result (the pending) else TriggerResultMissed)
           in updateCronAnythingStatus env (ca_Name ca) (ca_Namespace ca)
                (status_dropped latestDropped
                   \<lparr>th_ScheduleTime = latestDropped, th_CreationTimestamp = now, th_Result = result\<rparr>) s
      else (None, s))"

definition deadline_exceeded :: "CronAnything \<Rightarrow> go_time \<Rightarrow> go_time \<Rightarrow> bool" where
  "deadline_exceeded ca scheduleTime now =
     (case cs_TriggerDeadlineSeconds (ca_Spec ca) of
        None \<Rightarrow> False
      | Some d \<Rightarrow> scheduleTime + int64 (d * Second) < now)"

definition limit_reached :: "CronAnything \<Rightarrow> Unstructured list \<Rightarrow> bool" where
  "limit_reached ca childResources =
     (case cs_TotalResourceLimit (ca_Spec ca) of
        None \<Rightarrow> False
      | Some limit \<Rightarrow> int32 (int (length childResources)) \<ge> limit)"

fun replace_loop :: "cron_env \<Rightarrow> gvr \<Rightarrow> Unstructured list \<Rightarrow> cron_state \<Rightarrow> cron_outcome" where
  "replace_loop env cgvr [] s = (s, requeue_in Second, None)"
| "replace_loop env cgvr (activeResource # rest) s =
     (if u_DeletionTimestamp activeResource \<noteq> None then replace_loop env cgvr rest s
      else let s1 = do_call (CallDelete cgvr (u_Namespace activeResource) (u_Name activeResource)) s
           in case env_Delete env (calls s) cgvr (u_Namespace activeResource) (u_Name activeResource) of
                Some err \<Rightarrow>
                  (do_call (CallEvent EventTypeWarning ''FailedDeleteForReplace''
                     (''Error deleting resource '' @ u_Name activeResource @ '': '' @ err_msg err)) s1,
                   Result_zero, Some err)
              | None \<Rightarrow>
                  replace_loop env cgvr rest
                    (do_call (CallEvent EventTypeNormal ''DeletedForReplace''
                       (''Resource '' @ u_Name activeResource @ '' deleted due to Replace policy'')) s1))"

definition child_of :: "cron_env \<Rightarrow> CronAnything \<Rightarrow> Unstructured \<Rightarrow> go_time \<Rightarrow> Unstructured" where
  "child_of env ca crt scheduleTime =
     (let labels = (case u_Labels crt of None \<Rightarrow> Map.empty | Some l \<Rightarrow> l)
                     (CronAnythingCreatedByLabel \<mapsto> ca_Name ca,
                      CronAnythingScheduleTimeLabel \<mapsto> itoa (time_Unix scheduleTime));
          crt1 = crt\<lparr>u_Name := getResourceName env ca scheduleTime, u_Labels := Some labels\<rparr>
      in if cs_CascadeDelete (ca_Spec ca) = Some True
         then crt1\<lparr>u_OwnerReferences := [env_NewControllerRef env ca ''CronAnything'']\<rparr>
         else crt1)"

definition create_child ::
    "cron_env \<Rightarrow> CronAnything \<Rightarrow> Unstructured \<Rightarrow> gvr \<Rightarrow> go_time \<Rightarrow> go_time \<Rightarrow> go_time \<Rightarrow>
     cron_state \<Rightarrow> cron_outcome" where
  "create_child env ca crt cgvr now scheduleTime nextScheduleTime s =
     (let child = child_of env ca crt scheduleTime;
          s1 = do_call (CallCreate cgvr (ca_Namespace ca) child) s
      in case env_Create env (calls s) cgvr (ca_Namespace ca) child of
           Some err \<Rightarrow>
             (case updateCronAnythingStatus env (ca_Name ca) (ca_Namespace ca)
                     (status_pending scheduleTime) s1 of
                (statusErr, s2) \<Rightarrow>
                  (do_call (CallEvent EventTypeWarning ''FailedCreate''
                     (''Error creating job: '' @ err_msg err)) s2, Result_zero, Some err))
         | None \<Rightarrow>
             settle env ca (status_settled scheduleTime now TriggerResultCreateSucceeded)
               nextScheduleTime
               (do_call (CallEvent EventTypeNormal ''SuccessfulCreate''
                  (''Created resource '' @ getResourceName env ca scheduleTime)) s1))"

text \<open>From the check of the total resource limit to the end of \<open>Reconcile\<close>.\<close>

definition limit_or_create ::
    "cron_env \<Rightarrow> CronAnything \<Rightarrow> Unstructured \<Rightarrow> gvr \<Rightarrow> Unstructured list \<Rightarrow> go_time \<Rightarrow> go_time \<Rightarrow>
     go_time \<Rightarrow> cron_state \<Rightarrow> cron_outcome" where
  "limit_or_create env ca crt cgvr childResources now scheduleTime nextScheduleTime s =
     (if limit_reached ca childResources
      then settle env ca (status_settled scheduleTime now TriggerResultResourceLimitReached)
             nextScheduleTime
             (do_call (CallEvent EventTypeWarning ''ResourceLimitReached''
                (''Limit of '' @ itoa (int (length childResources)) @ '' resources has been reached'')) s)
      else create_child env ca crt cgvr now scheduleTime nextScheduleTime s)"

text \<open>From the check of the trigger deadline on, for the latest unmet schedule time.\<close>

definition run_trigger ::
    "cron_env \<Rightarrow> CronAnything \<Rightarrow> Unstructured \<Rightarrow> gvr \<Rightarrow> Unstructured list \<Rightarrow> go_time \<Rightarrow> go_time \<Rightarrow>
     go_time \<Rightarrow> cron_state \<Rightarrow> cron_outcome" where
  "run_trigger env ca crt cgvr childResources now scheduleTime nextScheduleTime s =
     (if deadline_exceeded ca scheduleTime now
      then settle env ca (status_deadline scheduleTime now) nextScheduleTime s
      else let active = findActiveChildResources env ca childResources
           in if length active > 0 \<and> cs_ConcurrencyPolicy (ca_Spec ca) = ForbidConcurrent
              then settle env ca (status_settled scheduleTime now TriggerResultForbidConcurrent)
                     nextScheduleTime s
              else if length active > 0 \<and> cs_ConcurrencyPolicy (ca_Spec ca) = ReplaceConcurrent
              then replace_loop env cgvr active s
              else limit_or_create env ca crt cgvr childResources now scheduleTime nextScheduleTime s)"

text \<open>From the schedule times on.\<close>

definition schedule_trigger ::
    "cron_env \<Rightarrow> CronAnything \<Rightarrow> Unstructured \<Rightarrow> gvr \<Rightarrow> Unstructured list \<Rightarrow> go_time \<Rightarrow>
     cron_state \<Rightarrow> cron_outcome option" where
  "schedule_trigger env ca crt cgvr childResources now s =
     do { times \<leftarrow> getScheduleTimes env ca (now + Second);
          Some (case times of
            Inl err \<Rightarrow> (s, Result_zero, Some err)
          | Inr (unmet, nextScheduleTime) \<Rightarrow>
              if length unmet = 0
              then (case updateTriggerTimes env (canonicalName ca) nextScheduleTime s of
                      (res, s1) \<Rightarrow> (s1, res, None))
              else (case report_dropped env ca now (butlast unmet) s of
                      (Some err, s1) \<Rightarrow> (s1, Result_zero, Some err)
                    | (None, s1) \<Rightarrow>
                        run_trigger env ca crt cgvr childResources now (last unmet)
                          nextScheduleTime s1)) }"

text \<open>The reconcile loop up to the list of children, and then the rest of it.\<close>

definition reconcile_children ::
    "cron_env \<Rightarrow> CronAnything \<Rightarrow> Unstructured \<Rightarrow> gvr \<Rightarrow> go_time \<Rightarrow> cron_state \<Rightarrow> cron_outcome option" where
  "reconcile_children env ca crt cgvr now s =
     (let s1 = do_call (CallList cgvr (ca_Name ca)) s
      in case env_List env (calls s) cgvr (ca_Name ca) of
           Inl err \<Rightarrow> Some (s1, Result_zero, Some err)
         | Inr children \<Rightarrow>
             do { (childResources, s2) \<leftarrow> cleanupHistory env ca children cgvr now s1;
                  if cs_Suspend (ca_Spec ca) = Some True then Some (s2, Result_zero, None)
                  else schedule_trigger env ca crt cgvr childResources now s2 })"

definition Reconcile_cron ::
    "cron_env \<Rightarrow> string \<Rightarrow> string \<Rightarrow> cron_state \<Rightarrow> cron_outcome option" where
  "Reconcile_cron env namespace name s =
     (let s1 = do_call (CallGet namespace name) s
      in case env_Get env (calls s) namespace name of
           Inl err \<Rightarrow> Some (s1, Result_zero, IgnoreNotFound err)
         | Inr ca \<Rightarrow>
             (if ca_DeletionTimestamp ca \<noteq> None then Some (s1, Result_zero, None)
              else case templateToUnstructured env ca of
                     Inl err \<Rightarrow> Some (s1, Result_zero, Some err)
                   | Inr crt \<Rightarrow>
                       (case env_Resolve env (u_Kind crt) of
                          None \<Rightarrow> Some (s1, Result_zero, Some (Errorf
                            (''unable to resolve child resource for '' @ canonicalName ca)))
                        | Some cgvr \<Rightarrow>
                            reconcile_children env ca crt cgvr (env_currentTime env (calls s1)) s1)))"

subsection \<open>Schedule times\<close>

text \<open>What cron documents of \<open>Schedule.Next\<close>: it returns the earliest activation time later than
  its argument. \<open>A\<close> is the set of activation times.\<close>

definition next_activation :: "(go_time \<Rightarrow> go_time) \<Rightarrow> go_time set \<Rightarrow> bool" where
  "next_activation Next A \<longleftrightarrow> (\<forall>t. t < Next t \<and> Next t \<in> A \<and> (\<forall>a\<in>A. t < a \<longrightarrow> Next t \<le> a))"

lemma schedule_loop_None:
  assumes "\<And>t. Next t < now" and "t < now"
  shows "schedule_loop Next now t acc = None"
proof -
  have "N = Next \<longrightarrow> n = now \<longrightarrow> u < now \<longrightarrow> False" if "schedule_loop N n u acc = Some r" for N n u acc r
    using _ that
  proof (rule schedule_loop.raw_induct)
    fix loop N n u acc r
    assume ih: "\<And>N n u acc r. loop N n u acc = Some r \<Longrightarrow> N = Next \<longrightarrow> n = now \<longrightarrow> u < now \<longrightarrow> False"
      and "(if u < n then loop N n (N u) (acc @ [u]) else Some acc) = Some r"
    then show "N = Next \<longrightarrow> n = now \<longrightarrow> u < now \<longrightarrow> False" using assms(1) by fastforce
  qed
  then show ?thesis using assms(2) by (cases "schedule_loop Next now t acc") auto
qed

lemma schedule_loop_correct:
  assumes "next_activation Next A" and "t \<in> A"
  shows "\<exists>ts. schedule_loop Next now t acc = Some (acc @ ts) \<and>
           sorted_wrt (<) ts \<and> set ts = {a \<in> A. t \<le> a \<and> a < now}"
  using assms(2)
proof (induction "nat (now - t)" arbitrary: t acc rule: less_induct)
  case (less t)
  have N: "t < Next t" "Next t \<in> A" "\<And>a. a \<in> A \<Longrightarrow> t < a \<Longrightarrow> Next t \<le> a"
    using assms(1) by (auto simp: next_activation_def)
  show ?case
  proof (cases "t < now")
    case True
    with N(1) have "nat (now - Next t) < nat (now - t)" by simp
    from less.hyps [OF this N(2), of "acc @ [t]"] obtain ts where
      ts: "schedule_loop Next now (Next t) (acc @ [t]) = Some ((acc @ [t]) @ ts)"
        "sorted_wrt (<) ts" "set ts = {a \<in> A. Next t \<le> a \<and> a < now}" by blast
    have "set (t # ts) = {a \<in> A. t \<le> a \<and> a < now}"
      using ts(3) True less.prems N(1,3) by (auto simp: order_le_less)
    moreover have "sorted_wrt (<) (t # ts)"
      using ts(2,3) N(1) by auto
    moreover have "schedule_loop Next now t acc = Some (acc @ t # ts)"
      using ts(1) True by (simp add: schedule_loop.simps [of Next now t])
    ultimately show ?thesis by blast
  next
    case False
    then have "schedule_loop Next now t acc = Some (acc @ [])"
      by (simp add: schedule_loop.simps [of Next now t])
    moreover have "{a \<in> A. t \<le> a \<and> a < now} = {}" using False by auto
    ultimately show ?thesis by (intro exI [of _ "[]"]) auto
  qed
qed

subsection \<open>What a reconcile adds to the log\<close>

text \<open>\<open>log_ext P s s'\<close>: \<open>s'\<close> comes from \<open>s\<close> by calls that satisfy \<open>P\<close> of the log before them, and by
  writes to the trigger map.\<close>

inductive log_ext :: "(cron_call list \<Rightarrow> cron_call \<Rightarrow> bool) \<Rightarrow> cron_state \<Rightarrow> cron_state \<Rightarrow> bool"
  for P s where
  stop: "log_ext P s s"
| add: "log_ext P s s1 \<Longrightarrow> P (calls s1) c \<Longrightarrow> log_ext P s (do_call c s1)"
| queue: "log_ext P s s1 \<Longrightarrow> log_ext P s (s1\<lparr>nextTrigger := m\<rparr>)"

lemma log_ext_trans: "log_ext P s s1 \<Longrightarrow> log_ext P s1 s2 \<Longrightarrow> log_ext P s s2"
  by (rotate_tac 1, induction rule: log_ext.induct) (auto intro: log_ext.intros)

lemma log_ext_first: "P (calls s) c \<Longrightarrow> log_ext P (do_call c s) s' \<Longrightarrow> log_ext P s s'"
  by (rule log_ext_trans) (auto intro: log_ext.intros)

lemma log_ext_mono: "log_ext P s s' \<Longrightarrow> (\<And>l c. P l c \<Longrightarrow> Q l c) \<Longrightarrow> log_ext Q s s'"
  by (induction rule: log_ext.induct) (auto intro: log_ext.intros)

definition is_create :: "cron_call \<Rightarrow> bool" where
  "is_create c = (case c of CallCreate _ _ _ \<Rightarrow> True | _ \<Rightarrow> False)"

definition created :: "cron_state \<Rightarrow> cron_call list" where
  "created s = filter is_create (calls s)"

text \<open>How a status may change: the last schedule time never moves back, and the history gains at
  most one record at its front and keeps at most ten.\<close>

definition status_step :: "CronAnythingStatus \<Rightarrow> CronAnythingStatus \<Rightarrow> bool" where
  "status_step old new \<longleftrightarrow>
     (case LastScheduleTime old of
        None \<Rightarrow> True
      | Some t \<Rightarrow> (\<exists>t'. LastScheduleTime new = Some t' \<and> t \<le> t')) \<and>
     (TriggerHistory new = TriggerHistory old \<or>
      (\<exists>r. TriggerHistory new = take 10 (r # TriggerHistory old)))"

text \<open>A status is only written right after it was read, and by such a change.\<close>

definition write_after_read :: "cron_env \<Rightarrow> cron_call list \<Rightarrow> cron_call \<Rightarrow> bool" where
  "write_after_read env l c \<longleftrightarrow>
     (case c of
        CallUpdateStatus ca' \<Rightarrow>
          (\<exists>l0 ns name ca st. l = l0 @ [CallGet ns name] \<and> env_Get env l0 ns name = Inr ca \<and>
             ca' = ca\<lparr>ca_Status := st\<rparr> \<and> status_step (ca_Status ca) st)
      | _ \<Rightarrow> True)"

definition quiet :: "cron_env \<Rightarrow> cron_call list \<Rightarrow> cron_call \<Rightarrow> bool" where
  "quiet env l c \<longleftrightarrow> \<not> is_create c \<and> write_after_read env l c"

lemma quiet_simps [simp]:
  "quiet env l (CallGet ns n)" "quiet env l (CallList g n)" "quiet env l (CallDelete g ns n)"
  "quiet env l (CallEvent k r m)" "\<not> quiet env l (CallCreate g ns u)"
  "write_after_read env l (CallCreate g ns u)"
  by (auto simp: quiet_def is_create_def write_after_read_def)

lemma calls_do_call [simp]: "calls (do_call c s) = calls s @ [c]"
  by (simp add: do_call_def)

lemma created_do_call [simp]: "created (do_call c s) = (if is_create c then created s @ [c] else created s)"
  by (simp add: created_def)

lemma created_log_ext: "log_ext (quiet env) s s' \<Longrightarrow> created s' = created s"
  by (induction rule: log_ext.induct) (auto simp: quiet_def, simp add: created_def)

lemma calls_log_ext: "log_ext P s s' \<Longrightarrow> \<exists>cs. calls s' = calls s @ cs"
  by (induction rule: log_ext.induct) auto

lemma log_ext_nth:
  assumes "log_ext P s s'" and "length (calls s) \<le> i" and "i < length (calls s')"
  shows "P (take i (calls s')) (calls s' ! i)"
  using assms
proof (induction rule: log_ext.induct)
  case (add s1 c)
  then show ?case by (cases "i = length (calls s1)") (auto simp: nth_append)
qed auto

lemma length_history_step:
  "status_step old new \<Longrightarrow> length (TriggerHistory new) \<le> max 10 (length (TriggerHistory old))"
  by (auto simp: status_step_def)

lemma status_step_updates [simp]:
  "status_step st (status_dropped t r st)" "status_step st (status_settled t now res st)"
  "status_step st (status_deadline t now st)" "status_step st (status_pending t st)"
  by (auto simp: status_step_def status_dropped_def status_settled_def status_deadline_def
      status_pending_def updateLastScheduleTime_def addToTriggerHistory_def Let_def
      split: option.splits)

text \<open>Each step of the reconcile loop adds only such calls, but for the create itself.\<close>

lemma log_ext_attempt:
  assumes "\<And>st. status_step st (f st)"
  shows "log_ext (quiet env) s (snd (update_status_attempt env name ns f s))"
proof (cases "env_Get env (calls s) ns name")
  case (Inl e)
  then show ?thesis
    by (auto simp: update_status_attempt_def Let_def intro!: log_ext.intros)
next
  case (Inr ca)
  let ?ca = "ca\<lparr>ca_Status := f (ca_Status ca)\<rparr>"
  have "quiet env (calls s @ [CallGet ns name]) (CallUpdateStatus ?ca)"
    using Inr assms by (auto simp: quiet_def is_create_def write_after_read_def)
  then show ?thesis using Inr
    by (auto simp: update_status_attempt_def Let_def intro!: log_ext.intros)
qed

definition retries :: "cron_env \<Rightarrow> bool" where
  "retries env \<longleftrightarrow> (\<forall>f s e s'. env_RetryOnConflict env f s = (e, s') \<longrightarrow> retry_run f s e s')"

lemma retries_locale: "retries env \<Longrightarrow> conflict_retry (env_RetryOnConflict env)"
  by unfold_locales (auto simp: retries_def)

lemma log_ext_update:
  assumes "retries env" and "\<And>st. status_step st (f st)"
    and "updateCronAnythingStatus env name ns f s = (e, s')"
  shows "log_ext (quiet env) s s'"
proof (rule conflict_retry.retry_invariant [OF retries_locale [OF assms(1)]])
  show "env_RetryOnConflict env (update_status_attempt env name ns f) s = (e, s')"
    using assms(3) by (simp add: updateCronAnythingStatus_def)
  show "log_ext (quiet env) s s" by (rule log_ext.stop)
  show "log_ext (quiet env) s w'"
    if "log_ext (quiet env) s w" "update_status_attempt env name ns f w = (e, w')" for w e w'
    using log_ext_trans [OF that(1) log_ext_attempt [OF assms(2), of env w name ns]] that(2) by simp
qed

lemma log_ext_trigger_times:
  "updateTriggerTimes env n t s = (r, s') \<Longrightarrow> log_ext (quiet env) s s'"
  by (auto simp: updateTriggerTimes_def split: if_splits intro: log_ext.intros)

lemma log_ext_settle:
  assumes "retries env" and "\<And>st. status_step st (f st)" and "settle env ca f t s = (s', r, e)"
  shows "log_ext (quiet env) s s'"
proof -
  obtain e1 s1 where u: "updateCronAnythingStatus env (ca_Name ca) (ca_Namespace ca) f s = (e1, s1)"
    by fastforce
  have "log_ext (quiet env) s s1" by (rule log_ext_update [OF assms(1,2) u])
  with assms(3) u show ?thesis
    by (auto simp: settle_def split: prod.splits option.splits
        dest: log_ext_trigger_times elim: log_ext_trans)
qed

lemma log_ext_dropped:
  "retries env \<Longrightarrow> report_dropped env ca now ts s = (e, s') \<Longrightarrow> log_ext (quiet env) s s'"
  by (auto simp: report_dropped_def Let_def split: if_splits intro: log_ext.stop
      elim!: log_ext_update [rotated 2])

lemma log_ext_event:
  "log_ext (quiet env) (do_call (CallEvent k r m) s) s' \<Longrightarrow> log_ext (quiet env) s s'"
  by (erule log_ext_first [rotated]) simp

lemma log_ext_delete:
  "log_ext (quiet env) (do_call (CallDelete g ns n) s) s' \<Longrightarrow> log_ext (quiet env) s s'"
  by (erule log_ext_first [rotated]) simp

lemma log_ext_delete_loop: "delete_loop env g cs d s = (d', s') \<Longrightarrow> log_ext (quiet env) s s'"
proof (induction cs arbitrary: d s)
  case Nil
  then show ?case by (simp add: log_ext.stop)
next
  case (Cons c cs)
  show ?case
    using Cons.prems
    by (auto simp: Let_def split: if_splits option.splits
        dest!: Cons.IH log_ext_event intro: log_ext_delete)
qed

lemma log_ext_replace_loop: "replace_loop env g cs s = (s', r, e) \<Longrightarrow> log_ext (quiet env) s s'"
proof (induction cs arbitrary: s)
  case Nil
  then show ?case by (simp add: log_ext.stop)
next
  case (Cons c cs)
  show ?case
    using Cons.prems
    by (auto simp: Let_def split: if_splits option.splits
        dest!: Cons.IH log_ext_event intro: log_ext_delete intro!: log_ext.add log_ext.stop)
qed

lemma replace_loop_result:
  "replace_loop env g cs s = (s', r, e) \<Longrightarrow> r = (if e = None then requeue_in Second else Result_zero)"
  by (induction env g cs s rule: replace_loop.induct) (auto simp: Let_def split: if_splits option.splits)

lemma log_ext_cleanup:
  "cleanupHistory env ca cs g now s = Some (cs', s') \<Longrightarrow> log_ext (quiet env) s s'"
  by (auto simp: cleanupHistory_def Let_def deleteInactiveResources_def
      split: option.splits if_splits prod.splits bind_splits
      intro: log_ext.stop log_ext_delete_loop)

lemma create_child_log:
  assumes "retries env" and "create_child env ca crt g now t nxt s = (s', r, e)"
  shows "log_ext (quiet env) (do_call (CallCreate g (ca_Namespace ca) (child_of env ca crt t)) s) s'"
proof (cases "env_Create env (calls s) g (ca_Namespace ca) (child_of env ca crt t)")
  case None
  with assms(2) obtain k m x where "settle env ca (status_settled t now TriggerResultCreateSucceeded) nxt
      (do_call (CallEvent k m x) (do_call (CallCreate g (ca_Namespace ca) (child_of env ca crt t)) s)) =
      (s', r, e)"
    by (simp add: create_child_def Let_def)
  from log_ext_settle [OF assms(1) _ this] show ?thesis by (simp add: log_ext_event)
next
  case (Some err)
  with assms show ?thesis
    by (auto simp: create_child_def Let_def split: prod.splits
        intro!: log_ext.add elim!: log_ext_update [rotated 2])
qed

lemma filter_active: "findActiveChildResources env ca cs = filter (\<lambda>c. \<not> fst (isFinished env ca c)) cs"
  by (simp add: findActiveChildResources_def filterChildResources_def case_prod_beta)

definition concurrency_allows :: "cron_env \<Rightarrow> CronAnything \<Rightarrow> Unstructured list \<Rightarrow> bool" where
  "concurrency_allows env ca children \<longleftrightarrow>
     cs_ConcurrencyPolicy (ca_Spec ca) \<notin> {ForbidConcurrent, ReplaceConcurrent} \<or>
     list_all (\<lambda>c. fst (isFinished env ca c)) children"

lemma run_trigger_cases:
  assumes "retries env" and "run_trigger env ca crt g children now t nxt s = (s', r, e)"
  shows "log_ext (quiet env) s s' \<or>
    \<not> deadline_exceeded ca t now \<and> concurrency_allows env ca children \<and> \<not> limit_reached ca children \<and>
    log_ext (quiet env) (do_call (CallCreate g (ca_Namespace ca) (child_of env ca crt t)) s) s'"
proof -
  let ?active = "findActiveChildResources env ca children"
  have none: "concurrency_allows env ca children"
    if "\<not> (?active \<noteq> [] \<and> cs_ConcurrencyPolicy (ca_Spec ca) = ForbidConcurrent)"
       "\<not> (?active \<noteq> [] \<and> cs_ConcurrencyPolicy (ca_Spec ca) = ReplaceConcurrent)"
    using that by (auto simp: concurrency_allows_def filter_active filter_empty_conv list_all_iff)
  consider (deadline) "deadline_exceeded ca t now"
    | (forbid) "\<not> deadline_exceeded ca t now" "?active \<noteq> []"
        "cs_ConcurrencyPolicy (ca_Spec ca) = ForbidConcurrent"
    | (replace) "\<not> deadline_exceeded ca t now" "?active \<noteq> []"
        "cs_ConcurrencyPolicy (ca_Spec ca) = ReplaceConcurrent"
    | (limit) "\<not> deadline_exceeded ca t now" "concurrency_allows env ca children"
        "run_trigger env ca crt g children now t nxt s =
           limit_or_create env ca crt g children now t nxt s"
    using none unfolding run_trigger_def Let_def length_greater_0_conv by (metis (full_types))
  then show ?thesis
  proof cases
    case deadline
    with assms show ?thesis
      by (auto simp: run_trigger_def elim: log_ext_settle [rotated 2])
  next
    case forbid
    with assms(2) have "settle env ca (status_settled t now TriggerResultForbidConcurrent) nxt s = (s', r, e)"
      by (simp add: run_trigger_def Let_def)
    from log_ext_settle [OF assms(1) _ this] show ?thesis by simp
  next
    case replace
    with assms show ?thesis
      by (auto simp: run_trigger_def Let_def dest: log_ext_replace_loop)
  next
    case limit
    show ?thesis
    proof (cases "limit_reached ca children")
      case True
      with limit assms(2) obtain k m x where
        "settle env ca (status_settled t now TriggerResultResourceLimitReached) nxt
           (do_call (CallEvent k m x) s) = (s', r, e)"
        by (simp add: limit_or_create_def)
      from log_ext_settle [OF assms(1) _ this] show ?thesis by (simp add: log_ext_event)
    next
      case False
      with limit assms(2) have "create_child env ca crt g now t nxt s = (s', r, e)"
        by (simp add: limit_or_create_def)
      from create_child_log [OF assms(1) this] limit False show ?thesis by simp
    qed
  qed
qed

lemma schedule_trigger_cases:
  assumes "retries env" and "schedule_trigger env ca crt g children now s = Some (s', r, e)"
  shows "log_ext (quiet env) s s' \<or>
    (\<exists>unmet nxt s1. getScheduleTimes env ca (now + Second) = Some (Inr (unmet, nxt)) \<and> unmet \<noteq> [] \<and>
       \<not> deadline_exceeded ca (last unmet) now \<and> concurrency_allows env ca children \<and>
       \<not> limit_reached ca children \<and> log_ext (quiet env) s s1 \<and>
       log_ext (quiet env)
         (do_call (CallCreate g (ca_Namespace ca) (child_of env ca crt (last unmet))) s1) s')"
proof -
  obtain times where times: "getScheduleTimes env ca (now + Second) = Some times"
    using assms(2) by (auto simp: schedule_trigger_def split: bind_splits)
  show ?thesis
  proof (cases times)
    case (Inl err)
    with times assms(2) show ?thesis by (simp add: schedule_trigger_def log_ext.stop)
  next
    case (Inr p)
    obtain unmet nxt where p: "p = (unmet, nxt)" by fastforce
    obtain e1 s1 where d: "report_dropped env ca now (butlast unmet) s = (e1, s1)" by fastforce
    have s1: "log_ext (quiet env) s s1" by (rule log_ext_dropped [OF assms(1) d])
    consider (idle) "unmet = []" | (err) err where "unmet \<noteq> []" "e1 = Some err"
      | (run) "\<not> (unmet = [] \<or> e1 \<noteq> None)" by blast
    then show ?thesis
    proof cases
      case idle
      with times Inr p assms(2) show ?thesis
        by (auto simp: schedule_trigger_def split: prod.splits dest: log_ext_trigger_times)
    next
      case err
      with times Inr p d s1 assms(2) show ?thesis by (simp add: schedule_trigger_def)
    next
      case run
      then have "run_trigger env ca crt g children now (last unmet) nxt s1 = (s', r, e)"
        using times Inr p d assms(2) by (auto simp: schedule_trigger_def)
      from run_trigger_cases [OF assms(1) this] show ?thesis
        using times Inr p run s1 by (auto intro: log_ext_trans)
    qed
  qed
qed

text \<open>The circumstances in which a reconcile from \<open>s\<close> may create the child of the activation \<open>t\<close>.\<close>

definition create_allowed ::
    "cron_env \<Rightarrow> string \<Rightarrow> string \<Rightarrow> cron_state \<Rightarrow> CronAnything \<Rightarrow> gvr \<Rightarrow> go_time \<Rightarrow> bool" where
  "create_allowed env ns name s ca g t \<longleftrightarrow>
     (let s1 = do_call (CallGet ns name) s; now = env_currentTime env (calls s1)
      in env_Get env (calls s) ns name = Inr ca \<and> ca_DeletionTimestamp ca = None \<and>
         cs_Suspend (ca_Spec ca) \<noteq> Some True \<and>
         (\<exists>unmet nxt. getScheduleTimes env ca (now + Second) = Some (Inr (unmet, nxt)) \<and>
            unmet \<noteq> [] \<and> t = last unmet) \<and>
         \<not> deadline_exceeded ca t now \<and>
         (\<exists>listed children s2. env_List env (calls s1) g (ca_Name ca) = Inr listed \<and>
            cleanupHistory env ca listed g now (do_call (CallList g (ca_Name ca)) s1) = Some (children, s2) \<and>
            concurrency_allows env ca children \<and> \<not> limit_reached ca children))"

lemma reconcile_children_cases:
  assumes "retries env" and "reconcile_children env ca crt g now s = Some (s', r, e)"
  shows "log_ext (quiet env) s s' \<or>
    cs_Suspend (ca_Spec ca) \<noteq> Some True \<and>
    (\<exists>unmet nxt s1 s2 listed children.
       getScheduleTimes env ca (now + Second) = Some (Inr (unmet, nxt)) \<and> unmet \<noteq> [] \<and>
       \<not> deadline_exceeded ca (last unmet) now \<and>
       env_List env (calls s) g (ca_Name ca) = Inr listed \<and>
       cleanupHistory env ca listed g now (do_call (CallList g (ca_Name ca)) s) = Some (children, s2) \<and>
       concurrency_allows env ca children \<and> \<not> limit_reached ca children \<and>
       log_ext (quiet env) s s1 \<and>
       log_ext (quiet env)
         (do_call (CallCreate g (ca_Namespace ca) (child_of env ca crt (last unmet))) s1) s')"
proof (cases "env_List env (calls s) g (ca_Name ca)")
  case (Inl err)
  with assms(2) show ?thesis
    by (auto simp: reconcile_children_def intro!: log_ext.add log_ext.stop)
next
  case (Inr listed)
  let ?s1 = "do_call (CallList g (ca_Name ca)) s"
  obtain children s2 where c: "cleanupHistory env ca listed g now ?s1 = Some (children, s2)"
    using assms(2) Inr by (auto simp: reconcile_children_def Let_def split: bind_splits)
  have "log_ext (quiet env) s s2"
    by (rule log_ext_first [OF _ log_ext_cleanup [OF c]]) simp
  moreover have "Some (s', r, e) = (if cs_Suspend (ca_Spec ca) = Some True then Some (s2, Result_zero, None)
      else schedule_trigger env ca crt g children now s2)"
    using assms(2) Inr c by (simp add: reconcile_children_def Let_def)
  ultimately show ?thesis
    using schedule_trigger_cases [OF assms(1), of ca crt g children now s2 s' r e] Inr c
    by (auto split: if_splits intro: log_ext_trans)
qed

lemma Reconcile_cron_cases:
  assumes "retries env" and "Reconcile_cron env ns name s = Some (s', r, e)"
  shows "log_ext (quiet env) s s' \<or>
    (\<exists>ca crt g t s1. create_allowed env ns name s ca g t \<and> templateToUnstructured env ca = Inr crt \<and>
       log_ext (quiet env) s s1 \<and>
       log_ext (quiet env) (do_call (CallCreate g (ca_Namespace ca) (child_of env ca crt t)) s1) s')"
proof -
  let ?s1 = "do_call (CallGet ns name) s"
  have s1: "log_ext (quiet env) s ?s1" by (auto intro: log_ext.intros)
  show ?thesis
  proof (cases "\<exists>ca crt g. env_Get env (calls s) ns name = Inr ca \<and> ca_DeletionTimestamp ca = None \<and>
      templateToUnstructured env ca = Inr crt \<and> env_Resolve env (u_Kind crt) = Some g")
    case True
    then obtain ca crt g where ca: "env_Get env (calls s) ns name = Inr ca"
      "ca_DeletionTimestamp ca = None" "templateToUnstructured env ca = Inr crt"
      "env_Resolve env (u_Kind crt) = Some g" by blast
    let ?now = "env_currentTime env (calls ?s1)"
    have "reconcile_children env ca crt g ?now ?s1 = Some (s', r, e)"
      using assms(2) ca by (simp add: Reconcile_cron_def Let_def)
    from reconcile_children_cases [OF assms(1) this] show ?thesis
      using ca s1 unfolding create_allowed_def Let_def by (blast intro: log_ext_trans)
  next
    case False
    with assms(2) have "s' = ?s1"
      by (auto simp: Reconcile_cron_def Let_def split: sum.splits option.splits if_splits)
    with s1 show ?thesis by simp
  qed
qed

subsection \<open>Which resources are cleaned up\<close>

lemma strict_weak_byTimestamp: "strict_weak (byTimestamp_Less cache)"
  unfolding strict_weak_def byTimestamp_Less_def by (auto split: option.splits)

interpretation by_ts: go_sort "byTimestamp_Less cache" "sort_Slice (byTimestamp_Less cache)" for cache
  by unfold_locales (simp_all add: sorted_sort_Slice strict_weak_byTimestamp)

text \<open>The time at which a child finished: finished without an error, and with a timestamp.\<close>

definition finished_at :: "cron_env \<Rightarrow> CronAnything \<Rightarrow> Unstructured \<Rightarrow> go_time option" where
  "finished_at env ca c =
     (if isFinished env ca c = (True, None)
      then (case getResourceTimestamp env ca c of Some (Inr t) \<Rightarrow> Some t | _ \<Rightarrow> None)
      else None)"

abbreviation finished_children :: "cron_env \<Rightarrow> CronAnything \<Rightarrow> Unstructured list \<Rightarrow> Unstructured list" where
  "finished_children env ca cs \<equiv> filter (\<lambda>c. finished_at env ca c \<noteq> None) cs"

abbreviation newest_first :: "cron_env \<Rightarrow> CronAnything \<Rightarrow> Unstructured list \<Rightarrow> bool" where
  "newest_first env ca cs \<equiv> sorted_wrt (\<lambda>c d. the (finished_at env ca d) \<le> the (finished_at env ca c)) cs"

lemma newByTimestamp_other:
  "newByTimestamp env ca items cache = Some cache' \<Longrightarrow> u \<notin> u_UID ` set items \<Longrightarrow> cache' u = cache u"
  by (induction env ca items cache rule: newByTimestamp.induct)
    (auto split: bind_splits sum.splits)

lemma newByTimestamp_cache:
  assumes "newByTimestamp env ca items cache = Some cache'" and "distinct (map u_UID items)"
    and "c \<in> set items" and "finished_at env ca c = Some t"
  shows "cache' (u_UID c) = Some t"
  using assms
proof (induction env ca items cache rule: newByTimestamp.induct)
  case (2 env ca item items cache)
  then show ?case
    by (auto simp: finished_at_def newByTimestamp_other split: bind_splits sum.splits if_splits option.splits)
qed simp

lemma sorted_finished:
  assumes "newByTimestamp env ca cs Map.empty = Some cache" and "distinct (map u_UID cs)"
  shows "newest_first env ca (finished_children env ca (sort_Slice (byTimestamp_Less cache) cs))"
proof -
  let ?ss = "sort_Slice (byTimestamp_Less cache) cs"
  have "sorted_wrt (\<lambda>x y. \<not> byTimestamp_Less cache y x) (finished_children env ca ?ss)"
    by (rule sorted_wrt_filter [OF by_ts.srt_sorted])
  then show ?thesis
  proof (rule sorted_wrt_mono_rel [rotated])
    fix c d
    assume c: "c \<in> set (finished_children env ca ?ss)" and d: "d \<in> set (finished_children env ca ?ss)"
      and nl: "\<not> byTimestamp_Less cache d c"
    from c d obtain t u where "finished_at env ca c = Some t" "finished_at env ca d = Some u"
      "c \<in> set cs" "d \<in> set cs" by auto
    with assms nl newByTimestamp_cache show "the (finished_at env ca d) \<le> the (finished_at env ca c)"
      by (fastforce simp: byTimestamp_Less_def)
  qed
qed

lemma older_than_mono: "older_than l now t \<Longrightarrow> t' \<le> t \<Longrightarrow> older_than l now t'"
  by (auto simp: older_than_def time_Sub_def split: option.splits)

lemma select_deletions_skip:
  assumes "finished_at env ca child = None"
    and "select_deletions env ca now hl cl k (child # children) = Some D"
  shows "select_deletions env ca now hl cl k children = Some D"
  using assms
  by (auto simp: finished_at_def prod_eq_iff split: bind_splits if_splits sum.splits)

lemma select_deletions_finished:
  assumes "finished_at env ca child = Some t"
  shows "select_deletions env ca now hl cl k (child # children) =
    (if older_than hl now t \<or> count_reached cl k
     then map_option ((#) child) (select_deletions env ca now hl cl k children)
     else select_deletions env ca now hl cl (int32 (k + 1)) children)"
proof -
  from assms have "isFinished env ca child = (True, None)" "getResourceTimestamp env ca child = Some (Inr t)"
    by (auto simp: finished_at_def split: if_splits option.splits sum.splits)
  then show ?thesis by simp
qed

declare select_deletions.simps(2) [simp del]

lemma select_deletions_old:
  assumes "select_deletions env ca now hl cl k cs = Some D"
    and "list_all (\<lambda>c. older_than hl now (the (finished_at env ca c))) (finished_children env ca cs)"
  shows "D = finished_children env ca cs"
  using assms
proof (induction cs arbitrary: D)
  case (Cons child children)
  show ?case
  proof (cases "finished_at env ca child")
    case None
    with Cons show ?thesis by (auto dest: select_deletions_skip)
  next
    case (Some t)
    with Cons show ?thesis
      by (auto simp: select_deletions_finished)
  qed
qed simp

text \<open>The selection keeps the newest finished children, up to the count limit, that are not too
  old, and takes all the others.\<close>

lemma select_deletions_eq:
  assumes "select_deletions env ca now hl (Some l) k cs = Some D"
    and "newest_first env ca (finished_children env ca cs)" and "0 \<le> k" and "k \<le> l" and "l < 2 ^ 31"
  shows "\<exists>m \<le> nat (l - k). D = drop m (finished_children env ca cs) \<and>
           list_all (\<lambda>c. \<not> older_than hl now (the (finished_at env ca c))) (take m (finished_children env ca cs)) \<and>
           (m = nat (l - k) \<or> list_all (\<lambda>c. older_than hl now (the (finished_at env ca c))) D)"
  using assms
proof (induction cs arbitrary: k D)
  case Nil
  then show ?case by auto
next
  case (Cons child children)
  let ?F = "finished_children env ca children"
  let ?old = "\<lambda>c. older_than hl now (the (finished_at env ca c))"
  show ?case
  proof (cases "finished_at env ca child")
    case None
    with Cons show ?thesis by (auto dest: select_deletions_skip)
  next
    case (Some t)
    have rest: "the (finished_at env ca c) \<le> t" if "c \<in> set ?F" for c
      using that Cons.prems(2) Some by auto
    have sorted: "newest_first env ca ?F" using Cons.prems(2) Some by simp
    note sel = select_deletions_finished [OF Some]
    consider (old) "older_than hl now t" | (full) "\<not> older_than hl now t" "k = l"
      | (keep) "\<not> older_than hl now t" "k < l" using Cons.prems(4) by linarith
    then show ?thesis
    proof cases
      case old
      have all: "list_all ?old (finished_children env ca (child # children))"
        using old Some rest older_than_mono by (fastforce simp: list_all_iff)
      then have "D = finished_children env ca (child # children)"
        by (rule select_deletions_old [OF Cons.prems(1)])
      with all show ?thesis by (intro exI [of _ 0]) simp
    next
      case full
      with Cons.prems(1) have "map_option ((#) child) (select_deletions env ca now hl (Some l) k children) = Some D"
        by (simp add: sel count_reached_def)
      then obtain D' where D: "D = child # D'"
        and D': "select_deletions env ca now hl (Some l) k children = Some D'" by auto
      from Cons.IH [OF D' sorted Cons.prems(3-5)] full have "D' = ?F" by auto
      with D full Some show ?thesis by (intro exI [of _ 0]) simp
    next
      case keep
      then have k1: "int32 (k + 1) = k + 1" using Cons.prems(3,5) by (intro int32_id) auto
      with keep Cons.prems(1) have D: "select_deletions env ca now hl (Some l) (k + 1) children = Some D"
        by (simp add: sel count_reached_def)
      from Cons.IH [OF D sorted] keep Cons.prems(3,5)
      obtain m where "m \<le> nat (l - (k + 1))" "D = drop m ?F" "list_all (Not \<circ> ?old) (take m ?F)"
        "m = nat (l - (k + 1)) \<or> list_all ?old D"
        by (auto simp: comp_def)
      with keep Some show ?thesis by (intro exI [of _ "Suc m"]) (auto simp: comp_def)
    qed
  qed
qed

lemma delete_loop_calls:
  assumes "delete_loop env g D d s = (d', s')"
    and "CallDelete g' ns n \<in> set (drop (length (calls s)) (calls s'))"
  shows "g' = g \<and> (\<exists>c\<in>set D. u_Namespace c = ns \<and> u_Name c = n \<and> u_DeletionTimestamp c = None)"
proof -
  have "\<exists>cs. calls s' = calls s @ cs \<and> (\<forall>g' ns n. CallDelete g' ns n \<in> set cs \<longrightarrow>
      g' = g \<and> (\<exists>c\<in>set D. u_Namespace c = ns \<and> u_Name c = n \<and> u_DeletionTimestamp c = None))"
    using assms(1)
  proof (induction D arbitrary: d s)
    case (Cons c D)
    let ?s1 = "do_call (CallDelete g (u_Namespace c) (u_Name c)) s"
    show ?case
    proof (cases "u_DeletionTimestamp c")
      case (Some t)
      with Cons show ?thesis by fastforce
    next
      case None
      with Cons.prems obtain d2 s2 ev where "delete_loop env g D d2 s2 = (d', s')"
        "calls s2 = calls ?s1 @ ev" "\<forall>g ns n. CallDelete g ns n \<notin> set ev"
        by (auto simp: Let_def split: option.splits)
      with None Cons.IH [of d2 s2] show ?thesis by fastforce
    qed
  qed simp
  with assms(2) show ?thesis by auto
qed

lemma delete_loop_all:
  assumes "delete_loop env g D d s = (d', s')" and "\<And>l ns n. env_Delete env l g ns n = None"
    and "list_all (\<lambda>c. u_DeletionTimestamp c = None) D"
  shows "d' = d \<union> u_Name ` set D"
  using assms(1,3) by (induction D arbitrary: d s) (auto simp: assms(2) Let_def)

lemma cleanupHistory_unfold:
  assumes "cleanupHistory env ca children g now s = Some (kept, s')"
    and "cs_Retention (ca_Spec ca) = Some ret" and "HistoryCountLimit ret = Some l"
    and "0 \<le> l" and "l < 2 ^ 31" and "distinct (map u_UID children)"
  obtains ss m deleted where "mset ss = mset children" and "newest_first env ca (finished_children env ca ss)"
    and "m \<le> nat l"
    and "list_all (\<lambda>c. \<not> older_than (HistoryTimeLimitSeconds ret) now (the (finished_at env ca c)))
           (take m (finished_children env ca ss))"
    and "m = nat l \<or> list_all (\<lambda>c. older_than (HistoryTimeLimitSeconds ret) now (the (finished_at env ca c)))
           (drop m (finished_children env ca ss))"
    and "delete_loop env g (drop m (finished_children env ca ss)) {} s = (deleted, s')"
    and "kept = filter (\<lambda>r. u_Name r \<notin> deleted) ss"
proof -
  from assms(1-3) obtain cache D where cache: "newByTimestamp env ca children Map.empty = Some cache"
    and D: "select_deletions env ca now (HistoryTimeLimitSeconds ret) (Some l) 0
              (sort_Slice (byTimestamp_Less cache) children) = Some D"
    and del: "deleteInactiveResources env D (sort_Slice (byTimestamp_Less cache) children) g s = (kept, s')"
    by (auto simp: cleanupHistory_def Let_def split: bind_splits)
  from select_deletions_eq [OF D sorted_finished [OF cache assms(6)] _ assms(4,5)] del show ?thesis
    by (fastforce simp: deleteInactiveResources_def split: prod.splits
        intro: that [OF by_ts.srt_mset sorted_finished [OF cache assms(6)]])
qed

lemma filter_not_dropped:
  assumes "distinct F"
  shows "filter (\<lambda>c. c \<notin> set (drop m F)) F = take m F"
proof -
  have "filter (\<lambda>c. c \<notin> set (drop m F)) (take m F @ drop m F) = take m F"
    using set_take_disj_set_drop_if_distinct [OF assms, of m m]
    by (subst filter_append) (auto intro!: filter_True)
  then show ?thesis by (simp only: append_take_drop_id)
qed

lemma set_drop_nth: "c \<in> set (drop m F) \<Longrightarrow> \<exists>i. m \<le> i \<and> i < length F \<and> c = F ! i"
proof -
  assume "c \<in> set (drop m F)"
  then obtain i where "i < length F - m" "c = F ! (m + i)" by (auto simp: in_set_conv_nth)
  then show ?thesis by (intro exI [of _ "m + i"]) auto
qed

lemma finished_rank:
  assumes "newest_first env ca F" and "m \<le> i" and "i < length F"
    and "\<forall>c\<in>set F. finished_at env ca c \<noteq> None"
  shows "m < length (filter (\<lambda>d. the (finished_at env ca (F ! i)) \<le> the (finished_at env ca d)) F)"
proof -
  let ?P = "\<lambda>d. the (finished_at env ca (F ! i)) \<le> the (finished_at env ca d)"
  have "?P (F ! j)" if "j \<le> i" for j
    using that assms(1,3) sorted_wrt_nth_less [of _ F j i] by (cases "j = i") auto
  then have "list_all ?P (take (Suc i) F)"
    using assms(3) by (auto simp: list_all_length)
  then have "filter ?P (take (Suc i) F) = take (Suc i) F"
    by (simp add: list_all_iff)
  moreover have "length (filter ?P F) =
      length (filter ?P (take (Suc i) F)) + length (filter ?P (drop (Suc i) F))"
    by (metis append_take_drop_id filter_append length_append)
  ultimately show ?thesis using assms(2,3) by simp
qed

subsection \<open>A sample environment\<close>

text \<open>An hourly schedule on which the properties are evaluated: one backup resource \<open>c\<close>, created at
  the zero instant and reconciled an hour and a half later, with two finished children.\<close>

definition sample_spec :: CronAnythingSpec where
  "sample_spec = \<lparr>cs_Schedule = ''@hourly'', cs_TriggerDeadlineSeconds = Some 3600,
     cs_ConcurrencyPolicy = ForbidConcurrent, cs_Suspend = None,
     cs_FinishableStrategy = Some \<lparr>fin_Type = FinishableStrategyStringField, fin_TimestampField = None,
       fin_StringField = Some \<lparr>sfs_FieldPath = ''phase'', sfs_FinishedValues = [''Succeeded'']\<rparr>\<rparr>,
     cs_Template = ''{}'', cs_TotalResourceLimit = Some 5,
     cs_Retention = Some \<lparr>HistoryCountLimit = Some 1, HistoryTimeLimitSeconds = None,
       ResourceTimestampStrategy_of = \<lparr>rts_Type = ResourceTimestampStrategyField,
         rts_Field = Some \<lparr>frts_FieldPath = ''created''\<rparr>\<rparr>\<rparr>,
     cs_CascadeDelete = None, cs_ResourceBaseName = None, cs_ResourceTimestampFormat = Some ''f''\<rparr>"

definition sample_cron :: CronAnything where
  "sample_cron = \<lparr>ca_Namespace = ''ns'', ca_Name = ''c'', ca_UID = ''u'', ca_CreationTimestamp = 0,
     ca_DeletionTimestamp = None, ca_Spec = sample_spec,
     ca_Status = \<lparr>LastScheduleTime = None, TriggerHistory = [], PendingTrigger_of = None\<rparr>\<rparr>"

definition sample_child :: "string \<Rightarrow> string \<Rightarrow> Unstructured" where
  "sample_child name finish = \<lparr>u_Kind = ''Backup'', u_Namespace = ''ns'', u_Name = name, u_UID = name,
     u_CreationTimestamp = 0, u_DeletionTimestamp = None, u_Labels = None, u_OwnerReferences = [],
     u_Object = Map.empty(''phase'' \<mapsto> ''Succeeded'', ''created'' \<mapsto> finish)\<rparr>"

definition hourly :: "go_time \<Rightarrow> go_time" where
  "hourly t = t - t mod Hour + Hour"

definition sample_env :: cron_env where
  "sample_env = \<lparr>env_Get = \<lambda>_ _ _. Inr sample_cron, env_UpdateStatus = \<lambda>_ _. None,
     env_List = \<lambda>_ _ _. Inr [sample_child ''a'' ''1'', sample_child ''b'' ''12''],
     env_Delete = \<lambda>_ _ _ _. None, env_Create = \<lambda>_ _ _ _. None, env_Resolve = \<lambda>_. Some ''backups'',
     env_Unmarshal = \<lambda>_. Inr (sample_child [] []),
     env_NewControllerRef = \<lambda>ca k. OwnerRef k (ca_Name ca) (ca_UID ca),
     env_jsonpath_Parse = \<lambda>_. None,
     env_jsonpath_Execute = \<lambda>p u. Inr (case u_Object u p of None \<Rightarrow> [] | Some v \<Rightarrow> v),
     env_UnmarshalQueryParameter = \<lambda>v. Inr (int (length v)),
     env_ParseStandard = \<lambda>_. Inr hourly, env_Parse = \<lambda>_. Inr hourly,
     env_Format = \<lambda>_ _. ''T'', env_currentTime = \<lambda>_. 90 * Minute,
     env_RetryOnConflict = retry_steps 4\<rparr>"

definition sample_state :: cron_state where
  "sample_state = \<lparr>calls = [], nextTrigger = Map.empty\<rparr>"

lemma retries_sample: "retries sample_env"
  by (auto simp: retries_def sample_env_def intro: retry_steps_run)

lemma next_activation_hourly: "next_activation hourly {a. a mod Hour = 0}"
proof -
  have "t < hourly t \<and> hourly t mod Hour = 0" for t
    by (simp add: hourly_def minus_mod_eq_mult_div)
  moreover have "hourly t \<le> a" if "a mod Hour = 0" "t < a" for t a
  proof -
    from that(1) obtain q where a: "a = Hour * q" by (auto simp: mod_eq_0_iff_dvd)
    have "t div Hour < q" using that(2) a by (simp add: div_less_iff_less_mult algebra_simps)
    moreover have "hourly t = Hour * (t div Hour + 1)"
      by (simp add: hourly_def minus_mod_eq_mult_div algebra_simps)
    ultimately show ?thesis using a by simp
  qed
  ultimately show ?thesis by (auto simp: next_activation_def)
qed

lemmas sample_simps =
  sample_env_def sample_cron_def sample_spec_def sample_child_def sample_state_def
  getFieldValue_def getTimestamp_def isFinished_def getResourceTimestamp_def

lemma sample_cleanup:
  "cleanupHistory sample_env sample_cron [sample_child ''a'' ''1'', sample_child ''b'' ''12''] g now s =
     Some ([sample_child ''b'' ''12''], do_call (CallDelete g ''ns'' ''a'') s)"
  by (simp add: cleanupHistory_def sample_simps sort_Slice_def byTimestamp_Less_def
      select_deletions.simps(2) older_than_def count_reached_def deleteInactiveResources_def int32_def)

lemma sample_times:
  "getScheduleTimes sample_env sample_cron (90 * Minute + Second) = Some (Inr ([Hour], 2 * Hour))"
  by (simp add: getScheduleTimes_def parse_schedule_def start_time_def sample_env_def sample_cron_def
      sample_spec_def hourly_def schedule_loop.simps)

lemma sample_run:
  "\<exists>s' r. Reconcile_cron sample_env ''ns'' ''c'' sample_state = Some (s', r, None) \<and>
     created s' = [CallCreate ''backups'' ''ns'' (child_of sample_env sample_cron (sample_child [] []) Hour)] \<and>
     length (calls s') = 7 \<and> (\<exists>ca'. calls s' ! 6 = CallUpdateStatus ca')"
proof -
  have active: "findActiveChildResources sample_env sample_cron [sample_child ''b'' ''12''] = []"
    by (simp add: filter_active sample_simps)
  have guards: "\<not> deadline_exceeded sample_cron Hour (90 * Minute)"
    "\<not> limit_reached sample_cron [sample_child ''b'' ''12'']"
    by (simp_all add: deadline_exceeded_def limit_reached_def sample_cron_def sample_spec_def int64_def int32_def)
  have fields: "env_Get sample_env = (\<lambda>_ _ _. Inr sample_cron)" "env_Create sample_env = (\<lambda>_ _ _ _. None)"
    "env_UpdateStatus sample_env = (\<lambda>_ _. None)" "env_Resolve sample_env = (\<lambda>_. Some ''backups'')"
    "env_List sample_env = (\<lambda>_ _ _. Inr [sample_child ''a'' ''1'', sample_child ''b'' ''12''])"
    "env_currentTime sample_env = (\<lambda>_. 90 * Minute)" "env_RetryOnConflict sample_env = retry_steps 4"
    "templateToUnstructured sample_env sample_cron = Inr (sample_child [] [])"
    "ca_DeletionTimestamp sample_cron = None" "ca_Name sample_cron = ''c''" "ca_Namespace sample_cron = ''ns''"
    "cs_Suspend (ca_Spec sample_cron) = None"
    by (simp_all add: sample_env_def sample_cron_def sample_spec_def templateToUnstructured_def)
  show ?thesis
    by (simp add: Reconcile_cron_def reconcile_children_def schedule_trigger_def sample_cleanup
        sample_times [simplified] active guards [simplified] fields report_dropped_def run_trigger_def
        limit_or_create_def create_child_def settle_def updateCronAnythingStatus_def numeral_eq_Suc
        update_status_attempt_def updateTriggerTimes_def sample_state_def created_def is_create_def do_call_def)
qed

subsection \<open>Properties\<close>

text \<open>
  C20: A reconcile creates at most one resource. When it creates one, the object it read was neither
  being deleted nor suspended, the resource is the child of the latest unmet activation time, that
  time is within the trigger deadline, every child left after the clean-up is finished if the policy
  is Forbid or Replace, and the number of children is below the limit.
\<close>

theorem Reconcile_creates_at_most_one:
  assumes "retries env" and "Reconcile_cron env ns name s = Some (s', r, e)"
  shows "created s' = created s \<or>
    (\<exists>ca crt g t. create_allowed env ns name s ca g t \<and> templateToUnstructured env ca = Inr crt \<and>
       created s' = created s @ [CallCreate g (ca_Namespace ca) (child_of env ca crt t)])"
  using Reconcile_cron_cases [OF assms]
proof (elim disjE exE conjE)
  show ?thesis if "log_ext (quiet env) s s'" using created_log_ext [OF that] by simp
  show ?thesis if "create_allowed env ns name s ca g t" "templateToUnstructured env ca = Inr crt"
    "log_ext (quiet env) s s1"
    "log_ext (quiet env) (do_call (CallCreate g (ca_Namespace ca) (child_of env ca crt t)) s1) s'"
    for ca crt g t s1
    using that(1,2) created_log_ext [OF that(3)] created_log_ext [OF that(4)]
    by (intro disjI2 exI [of _ ca] exI [of _ crt] exI [of _ g] exI [of _ t]) (simp add: is_create_def)
qed

theorem Reconcile_creates_at_most_one_witness:
  "\<exists>s' r ca crt g t. Reconcile_cron sample_env ''ns'' ''c'' sample_state = Some (s', r, None) \<and>
     create_allowed sample_env ''ns'' ''c'' sample_state ca g t \<and>
     created s' = [CallCreate g (ca_Namespace ca) (child_of sample_env ca crt t)]"
proof -
  obtain s' r where run: "Reconcile_cron sample_env ''ns'' ''c'' sample_state = Some (s', r, None)"
    "created s' \<noteq> []" using sample_run by force
  from Reconcile_creates_at_most_one [OF retries_sample run(1)] run show ?thesis
    by (fastforce simp: created_def sample_state_def)
qed

text \<open>
  Every status a reconcile writes is the status it read in the call just before, with a last
  schedule time that has not moved back and with at most one record more at the front of the trigger
  history, which keeps at most ten; spec and metadata are written back as they were read.
\<close>

theorem Reconcile_writes_after_read:
  assumes "retries env" and "Reconcile_cron env ns name s = Some (s', r, e)"
    and "length (calls s) \<le> i" and "i < length (calls s')" and "calls s' ! i = CallUpdateStatus ca'"
  shows "\<exists>l ns' name' ca. take i (calls s') = l @ [CallGet ns' name'] \<and> env_Get env l ns' name' = Inr ca \<and>
    ca'\<lparr>ca_Status := ca_Status ca\<rparr> = ca \<and> status_step (ca_Status ca) (ca_Status ca')"
proof -
  have "log_ext (write_after_read env) s s'"
    using Reconcile_cron_cases [OF assms(1,2)]
  proof (elim disjE exE conjE)
    show "log_ext (quiet env) s s' \<Longrightarrow> ?thesis" by (erule log_ext_mono) (simp add: quiet_def)
    fix ca crt g t s1
    assume "log_ext (quiet env) s s1"
      "log_ext (quiet env) (do_call (CallCreate g (ca_Namespace ca) (child_of env ca crt t)) s1) s'"
    then have "log_ext (write_after_read env) s s1"
      "log_ext (write_after_read env) (do_call (CallCreate g (ca_Namespace ca) (child_of env ca crt t)) s1) s'"
      by (auto elim!: log_ext_mono simp: quiet_def)
    then show ?thesis by (meson log_ext_first log_ext_trans quiet_simps(6))
  qed
  from log_ext_nth [OF this assms(3,4)] assms(5) show ?thesis
    by (fastforce simp: write_after_read_def)
qed

theorem Reconcile_writes_after_read_witness:
  "\<exists>s' r l ns' name' ca ca'. Reconcile_cron sample_env ''ns'' ''c'' sample_state = Some (s', r, None) \<and>
     calls s' ! 6 = CallUpdateStatus ca' \<and> take 6 (calls s') = l @ [CallGet ns' name'] \<and>
     env_Get sample_env l ns' name' = Inr ca \<and> status_step (ca_Status ca) (ca_Status ca')"
proof -
  obtain s' r ca' where run: "Reconcile_cron sample_env ''ns'' ''c'' sample_state = Some (s', r, None)"
    "length (calls s') = 7" "calls s' ! 6 = CallUpdateStatus ca'" using sample_run by blast
  from Reconcile_writes_after_read [OF retries_sample run(1) _ _ run(3)] run show ?thesis
    by (fastforce simp: sample_state_def)
qed

text \<open>
  C21: When \<open>Next\<close> returns the earliest activation later than its argument, \<open>getScheduleTimes\<close> ends and
  returns, in increasing order, exactly the activations after the last schedule time (the creation
  time if there is none) and before \<open>now\<close>, and the first activation after \<open>now\<close>: no activation is
  lost and none is reported again once it is recorded as the last schedule time.
\<close>

theorem getScheduleTimes_activations:
  assumes "parse_schedule env (cs_Schedule (ca_Spec ca)) = Inr Next" and "next_activation Next A"
  shows "\<exists>unmet. getScheduleTimes env ca now = Some (Inr (unmet, Next now)) \<and>
    sorted_wrt (<) unmet \<and> set unmet = {a \<in> A. start_time ca < a \<and> a < now}"
proof -
  have N: "start_time ca < Next (start_time ca)" "Next (start_time ca) \<in> A"
    "\<And>a. a \<in> A \<Longrightarrow> start_time ca < a \<Longrightarrow> Next (start_time ca) \<le> a"
    using assms(2) by (auto simp: next_activation_def)
  from schedule_loop_correct [OF assms(2) N(2), of now "[]"] obtain ts where
    ts: "schedule_loop Next now (Next (start_time ca)) [] = Some ts" "sorted_wrt (<) ts"
      "set ts = {a \<in> A. Next (start_time ca) \<le> a \<and> a < now}" by auto
  moreover have "{a \<in> A. Next (start_time ca) \<le> a \<and> a < now} = {a \<in> A. start_time ca < a \<and> a < now}"
    using N(1,3) by fastforce
  ultimately show ?thesis using assms(1) by (auto simp: getScheduleTimes_def)
qed

theorem getScheduleTimes_activations_witness:
  "\<exists>unmet. getScheduleTimes sample_env sample_cron (90 * Minute) = Some (Inr (unmet, 2 * Hour)) \<and>
     set unmet = {a. a mod Hour = 0 \<and> 0 < a \<and> a < 90 * Minute}"
proof -
  have "parse_schedule sample_env (cs_Schedule (ca_Spec sample_cron)) = Inr hourly"
    by (simp add: parse_schedule_def sample_env_def)
  from getScheduleTimes_activations [OF this next_activation_hourly, of "90 * Minute"] show ?thesis
    by (auto simp: start_time_def sample_cron_def hourly_def)
qed

text \<open>
  The converse: while \<open>Next\<close> keeps returning instants before \<open>now\<close>, as cron's \<open>Next\<close> does with the
  zero time when no activation is found, the loop of \<open>getScheduleTimes\<close> never ends.
\<close>

theorem getScheduleTimes_runs_forever:
  assumes "parse_schedule env (cs_Schedule (ca_Spec ca)) = Inr Next" and "\<And>t. Next t < now"
  shows "getScheduleTimes env ca now = None"
  using assms by (simp add: getScheduleTimes_def schedule_loop_None)

theorem getScheduleTimes_runs_forever_witness:
  "getScheduleTimes (sample_env\<lparr>env_ParseStandard := \<lambda>_. Inr (\<lambda>_. 0)\<rparr>) sample_cron 1 = None"
  by (rule getScheduleTimes_runs_forever [where Next = "\<lambda>_. 0"]) (simp_all add: parse_schedule_def)

text \<open>
  A resource the clean-up deletes is a finished child that is not yet being deleted, and either
  it finished too long ago or more finished children than the count limit (itself included) finished
  no earlier.
\<close>

theorem cleanup_spares_the_newest:
  assumes "cleanupHistory env ca children g now s = Some (kept, s')"
    and "cs_Retention (ca_Spec ca) = Some ret" and "HistoryCountLimit ret = Some l"
    and "0 \<le> l" and "l < 2 ^ 31" and "distinct (map u_UID children)"
    and "CallDelete g' ns n \<in> set (drop (length (calls s)) (calls s'))"
  shows "\<exists>c t. c \<in> set children \<and> u_Namespace c = ns \<and> u_Name c = n \<and> g' = g \<and>
    u_DeletionTimestamp c = None \<and> finished_at env ca c = Some t \<and>
    (older_than (HistoryTimeLimitSeconds ret) now t \<or>
     nat l < length (filter (\<lambda>d. t \<le> the (finished_at env ca d)) (finished_children env ca children)))"
proof -
  obtain ss m deleted where ss: "mset ss = mset children"
    and sorted: "newest_first env ca (finished_children env ca ss)"
    and old: "m = nat l \<or> list_all (\<lambda>c. older_than (HistoryTimeLimitSeconds ret) now (the (finished_at env ca c)))
           (drop m (finished_children env ca ss))"
    and del: "delete_loop env g (drop m (finished_children env ca ss)) {} s = (deleted, s')"
    using cleanupHistory_unfold [OF assms(1-6)] by metis
  let ?F = "finished_children env ca ss"
  from delete_loop_calls [OF del assms(7)] obtain c where g: "g' = g" and c: "c \<in> set (drop m ?F)"
    and cn: "u_Namespace c = ns" "u_Name c = n" "u_DeletionTimestamp c = None" by blast
  from set_drop_nth [OF c] obtain i where i: "m \<le> i" "i < length ?F" "c = ?F ! i" by blast
  have cF: "c \<in> set ?F" unfolding i(3) by (rule nth_mem [OF i(2)])
  then obtain t where t: "finished_at env ca c = Some t" by auto
  have "length (filter P ?F) = length (filter P (finished_children env ca children))" for P
    by (rule mset_eq_length) (simp add: mset_filter ss)
  with finished_rank [OF sorted i(1,2)] i(3) t have
    "m < length (filter (\<lambda>d. t \<le> the (finished_at env ca d)) (finished_children env ca children))" by simp
  moreover have "c \<in> set children" using cF mset_eq_setD [OF ss] by auto
  moreover have "m = nat l \<or> older_than (HistoryTimeLimitSeconds ret) now t"
    using old c t by (auto simp: list_all_iff)
  ultimately show ?thesis using t g cn by blast
qed

theorem cleanup_spares_the_newest_witness:
  "\<exists>c t. c \<in> set [sample_child ''a'' ''1'', sample_child ''b'' ''12''] \<and> u_Name c = ''a'' \<and>
     finished_at sample_env sample_cron c = Some t \<and>
     nat 1 < length (filter (\<lambda>d. t \<le> the (finished_at sample_env sample_cron d))
       (finished_children sample_env sample_cron [sample_child ''a'' ''1'', sample_child ''b'' ''12'']))"
proof -
  let ?ret = "\<lparr>HistoryCountLimit = Some 1, HistoryTimeLimitSeconds = None,
       ResourceTimestampStrategy_of = \<lparr>rts_Type = ResourceTimestampStrategyField,
         rts_Field = Some \<lparr>frts_FieldPath = ''created''\<rparr>\<rparr>\<rparr>"
  have "\<not> older_than (HistoryTimeLimitSeconds ?ret) now t" for now t by (simp add: older_than_def)
  moreover have "cs_Retention (ca_Spec sample_cron) = Some ?ret"
    by (simp add: sample_cron_def sample_spec_def)
  ultimately show ?thesis
    using cleanup_spares_the_newest [OF sample_cleanup [of g 0 sample_state], of ?ret 1 g "''ns''" "''a''"]
    by (fastforce simp: sample_child_def sample_state_def do_call_def)
qed

text \<open>
  C22: When every deletion succeeds and no finished child is being deleted already, the children that
  remain hold at most as many finished ones as the count limit, none of them too old; and if names
  are unique, every child that is not finished remains.
\<close>

theorem cleanup_bounds_history:
  assumes "cleanupHistory env ca children g now s = Some (kept, s')"
    and "cs_Retention (ca_Spec ca) = Some ret" and "HistoryCountLimit ret = Some l"
    and "0 \<le> l" and "l < 2 ^ 31" and "distinct (map u_UID children)"
    and "distinct (map u_Name children)"
    and "\<And>h ns n. env_Delete env h g ns n = None"
    and "list_all (\<lambda>c. u_DeletionTimestamp c = None) (finished_children env ca children)"
  shows "length (finished_children env ca kept) \<le> nat l \<and>
    list_all (\<lambda>c. \<not> older_than (HistoryTimeLimitSeconds ret) now (the (finished_at env ca c)))
      (finished_children env ca kept) \<and>
    mset (filter (\<lambda>c. finished_at env ca c = None) kept) =
      mset (filter (\<lambda>c. finished_at env ca c = None) children)"
proof -
  obtain ss m deleted where ss: "mset ss = mset children" and m: "m \<le> nat l"
    and young: "list_all (\<lambda>c. \<not> older_than (HistoryTimeLimitSeconds ret) now (the (finished_at env ca c)))
           (take m (finished_children env ca ss))"
    and del: "delete_loop env g (drop m (finished_children env ca ss)) {} s = (deleted, s')"
    and kept: "kept = filter (\<lambda>r. u_Name r \<notin> deleted) ss"
    using cleanupHistory_unfold [OF assms(1-6)] by metis
  let ?F = "finished_children env ca ss"
  have set_ss: "set ss = set children" using mset_eq_setD [OF ss] .
  have "list_all (\<lambda>c. u_DeletionTimestamp c = None) (drop m ?F)"
    using assms(9) set_ss set_drop_subset [of m ?F] by (auto simp: list_all_iff)
  from delete_loop_all [OF del assms(8) this] have d: "deleted = u_Name ` set (drop m ?F)" by simp
  have "mset (map u_Name ss) = mset (map u_Name children)" using ss by simp
  then have dist: "distinct (map u_Name ss)" using assms(7) mset_eq_imp_distinct_iff by blast
  then have inj: "inj_on u_Name (set ss)" by (simp add: distinct_map)
  have F_ss: "set (drop m ?F) \<subseteq> set ss" using set_drop_subset [of m ?F] by auto
  have mem: "u_Name c \<in> deleted \<longleftrightarrow> c \<in> set (drop m ?F)" if "c \<in> set ss" for c
    using that inj F_ss unfolding d by (auto dest: inj_onD)
  have distF: "distinct ?F" using dist by (simp add: distinct_map)
  have "finished_children env ca kept = filter (\<lambda>c. c \<notin> set (drop m ?F)) ?F"
    unfolding kept filter_filter by (rule filter_cong) (use mem in auto)
  also have "\<dots> = take m ?F" by (rule filter_not_dropped [OF distF])
  finally have F: "finished_children env ca kept = take m ?F" .
  have "filter (\<lambda>c. finished_at env ca c = None) kept = filter (\<lambda>c. finished_at env ca c = None) ss"
    unfolding kept filter_filter by (rule filter_cong) (auto simp: mem dest: in_set_dropD)
  then show ?thesis using ss F m young by (auto simp: mset_filter)
qed

theorem cleanup_bounds_history_witness:
  "\<exists>kept s'. cleanupHistory sample_env sample_cron [sample_child ''a'' ''1'', sample_child ''b'' ''12''] ''backups'' 0 sample_state = Some (kept, s') \<and>
     length (finished_children sample_env sample_cron [sample_child ''a'' ''1'', sample_child ''b'' ''12'']) = 2 \<and>
     length (finished_children sample_env sample_cron kept) \<le> 1"
proof -
  let ?cs = "[sample_child ''a'' ''1'', sample_child ''b'' ''12'']"
  have "cs_Retention (ca_Spec sample_cron) = Some \<lparr>HistoryCountLimit = Some 1, HistoryTimeLimitSeconds = None,
       ResourceTimestampStrategy_of = \<lparr>rts_Type = ResourceTimestampStrategyField,
         rts_Field = Some \<lparr>frts_FieldPath = ''created''\<rparr>\<rparr>\<rparr>"
    by (simp add: sample_cron_def sample_spec_def)
  from cleanup_bounds_history [OF sample_cleanup [of "''backups''" 0 sample_state] this, of 1]
  have "length (finished_children sample_env sample_cron [sample_child ''b'' ''12'']) \<le> 1"
    by (simp add: sample_child_def sample_env_def)
  moreover have "length (finished_children sample_env sample_cron ?cs) = 2" by code_simp
  ultimately show ?thesis using sample_cleanup [of "''backups''" 0 sample_state] by blast
qed

end
