(* ===== verification/BackupSchedule.thy ===== *)
theory BackupSchedule
  imports CronAnything
begin

text \<open>
  \<open>common/controllers/backupschedule_controller.go\<close> over the types of
  \<open>common/api/v1alpha1/backupschedule.go\<close>: a backup schedule owns one CronAnything object, keeps a
  short history of the backups made and deletes the backups beyond the retention count.

  The control interfaces and the API client are fields of \<open>sched_env\<close>, answered from the log of
  calls made so far. The log and the variable \<open>backups\<close>, which the retried closure assigns, are the
  state \<open>sched_state\<close>. A decoded JSON document is a value of \<open>json\<close>, its objects sorted by key, so
  \<open>reflect.DeepEqual\<close> is equality.
\<close>

datatype json =
    JsonNull | JsonBool bool | JsonNumber string | JsonString string
  | JsonArray "json list" | JsonObject "(string \<times> json) list"

abbreviation defaultTriggerDeadlineSeconds :: int where "defaultTriggerDeadlineSeconds \<equiv> 30"
abbreviation defaultRetention :: int where "defaultRetention \<equiv> 7"
abbreviation defaultMaxHistoryRecords :: int where "defaultMaxHistoryRecords \<equiv> 7"
abbreviation defaultTimeFormat :: string where "defaultTimeFormat \<equiv> ''20060102-150405''"

abbreviation phase_BackupSucceeded :: string where "phase_BackupSucceeded \<equiv> ''Succeeded''"
abbreviation phase_BackupFailed :: string where "phase_BackupFailed \<equiv> ''Failed''"
abbreviation phase_BackupInProgress :: string where "phase_BackupInProgress \<equiv> ''InProgress''"
abbreviation phase_BackupPending :: string where "phase_BackupPending \<equiv> ''Pending''"

record BackupRetentionPolicy = BackupRetention :: "int option"

record BackupHistoryRecord =
  bh_BackupName :: string
  bh_CreationTime :: go_time
  bh_Phase :: string

record BackupScheduleSpec =
  bss_Schedule :: string
  bss_Suspend :: "bool option"
  bss_StartingDeadlineSeconds :: "int option"
  bss_BackupRetentionPolicy :: "BackupRetentionPolicy option"

record BackupScheduleStatus =
  bst_LastBackupTime :: "go_time option"
  bst_BackupTotal :: "int option"
  bst_BackupHistory :: "BackupHistoryRecord list"

record BackupSchedule =
  bs_Name :: string
  bs_Namespace :: string
  bs_Spec :: BackupScheduleSpec
  bs_Status :: BackupScheduleStatus

text \<open>The part of a backup this controller reads.\<close>

record BackupRef =
  br_Name :: string
  br_CreationTimestamp :: go_time
  br_Phase :: string

datatype sched_call =
    SGet string string
  | SUpdateStatus BackupSchedule
  | SGetBackupBytes BackupSchedule
  | SCronGet string string
  | SCronCreate string string CronAnythingSpec
  | SCronUpdate CronAnything
  | SListBackups string
  | SDeleteBackup BackupRef

record sched_state =
  sc_calls :: "sched_call list"
  sc_backups :: "BackupRef list"

definition sc_call :: "sched_call \<Rightarrow> sched_state \<Rightarrow> sched_state" where
  "sc_call c s = s\<lparr>sc_calls := sc_calls s @ [c]\<rparr>"

record sched_env =
  se_Get :: "sched_call list \<Rightarrow> string \<Rightarrow> string \<Rightarrow> go_error + BackupSchedule"
  se_UpdateStatus :: "sched_call list \<Rightarrow> BackupSchedule \<Rightarrow> go_error option"
  se_GetBackupBytes :: "sched_call list \<Rightarrow> BackupSchedule \<Rightarrow> go_error + string"
  se_CronGet :: "sched_call list \<Rightarrow> string \<Rightarrow> string \<Rightarrow> go_error + CronAnything"
  se_CronCreate :: "sched_call list \<Rightarrow> string \<Rightarrow> string \<Rightarrow> CronAnythingSpec \<Rightarrow> go_error option"
  se_CronUpdate :: "sched_call list \<Rightarrow> CronAnything \<Rightarrow> go_error option"
  se_ListBackups :: "sched_call list \<Rightarrow> string \<Rightarrow> go_error + BackupRef list"
  se_DeleteBackup :: "sched_call list \<Rightarrow> BackupRef \<Rightarrow> go_error option"
  se_Unmarshal :: "string \<Rightarrow> go_error + json"
  se_RetryOnConflict ::
    "(sched_state \<Rightarrow> go_error option \<times> sched_state) \<Rightarrow> sched_state \<Rightarrow> go_error option \<times> sched_state"

subsection \<open>The CronAnything object of a schedule\<close>

definition getCronName :: "BackupSchedule \<Rightarrow> string" where
  "getCronName backupSchedule = bs_Name backupSchedule @ ''-cron''"

definition lookupCron ::
    "sched_env \<Rightarrow> BackupSchedule \<Rightarrow> sched_state \<Rightarrow> (go_error + CronAnything) \<times> sched_state" where
  "lookupCron env bs s =
     (se_CronGet env (sc_calls s) (bs_Namespace bs) (getCronName bs),
      sc_call (SCronGet (bs_Namespace bs) (getCronName bs)) s)"

definition cron_spec_of :: "BackupSchedule \<Rightarrow> string \<Rightarrow> CronAnythingSpec" where
  "cron_spec_of bs backupBytes =
     \<lparr>cs_Schedule = bss_Schedule (bs_Spec bs),
      cs_TriggerDeadlineSeconds =
        Some (case bss_StartingDeadlineSeconds (bs_Spec bs) of
                None \<Rightarrow> defaultTriggerDeadlineSeconds | Some d \<Rightarrow> d),
      cs_ConcurrencyPolicy = ForbidConcurrent, cs_Suspend = None,
      cs_FinishableStrategy = Some
        \<lparr>fin_Type = FinishableStrategyStringField, fin_TimestampField = None,
         fin_StringField = Some \<lparr>sfs_FieldPath = ''{.status.phase}'',
           sfs_FinishedValues = [phase_BackupSucceeded, phase_BackupFailed]\<rparr>\<rparr>,
      cs_Template = backupBytes, cs_TotalResourceLimit = None, cs_Retention = None,
      cs_CascadeDelete = None, cs_ResourceBaseName = Some (getCronName bs),
      cs_ResourceTimestampFormat = Some defaultTimeFormat\<rparr>"

definition createCron :: "sched_env \<Rightarrow> BackupSchedule \<Rightarrow> sched_state \<Rightarrow> go_error option \<times> sched_state" where
  "createCron env bs s =
     (let s1 = sc_call (SGetBackupBytes bs) s
      in case se_GetBackupBytes env (sc_calls s) bs of
           Inl err \<Rightarrow> (Some err, s1)
         | Inr backupBytes \<Rightarrow>
             let spec = cron_spec_of bs backupBytes
             in (se_CronCreate env (sc_calls s1) (bs_Namespace bs) (getCronName bs) spec,
                 sc_call (SCronCreate (bs_Namespace bs) (getCronName bs) spec) s1))"

definition compareTemplate :: "sched_env \<Rightarrow> string \<Rightarrow> string \<Rightarrow> go_error + bool" where
  "compareTemplate env left right =
     (case se_Unmarshal env left of
        Inl err \<Rightarrow> Inl err
      | Inr leftMap \<Rightarrow>
          (case se_Unmarshal env right of
             Inl err \<Rightarrow> Inl err
           | Inr rightMap \<Rightarrow> Inr (leftMap = rightMap)))"

definition compareInt64Pointers :: "int option \<Rightarrow> int option \<Rightarrow> bool" where
  "compareInt64Pointers i1 i2 =
     (if i1 = None \<and> i2 = None then True
      else if i1 = None \<or> i2 = None then False
      else the i1 = the i2)"

text \<open>One attempt of \<open>updateCron\<close>.\<close>

definition update_cron_attempt ::
    "sched_env \<Rightarrow> BackupSchedule \<Rightarrow> CronAnything \<Rightarrow> string \<Rightarrow> sched_state \<Rightarrow>
     go_error option \<times> sched_state" where
  "update_cron_attempt env bs cron backupBytes s =
     (let s1 = sc_call (SCronGet (ca_Namespace cron) (ca_Name cron)) s
      in case se_CronGet env (sc_calls s) (ca_Namespace cron) (ca_Name cron) of
           Inl err \<Rightarrow> (Some err, s1)
         | Inr freshCron \<Rightarrow>
             (case compareTemplate env (cs_Template (ca_Spec freshCron)) backupBytes of
                Inl err \<Rightarrow> (Some err, s1)
              | Inr templatesEqual \<Rightarrow>
                  let scheduleEqual = (bss_Schedule (bs_Spec bs) = cs_Schedule (ca_Spec freshCron));
                      startingDeadlineSecondsEqual =
                        compareInt64Pointers (bss_StartingDeadlineSeconds (bs_Spec bs))
                          (cs_TriggerDeadlineSeconds (ca_Spec freshCron))
                  in if templatesEqual \<and> scheduleEqual \<and> startingDeadlineSecondsEqual then (None, s1)
                     else let freshCron' = freshCron\<lparr>ca_Spec := (ca_Spec freshCron)
                                \<lparr>cs_Schedule := bss_Schedule (bs_Spec bs), cs_Template := backupBytes,
                                 cs_TriggerDeadlineSeconds := bss_StartingDeadlineSeconds (bs_Spec bs)\<rparr>\<rparr>
                          in (se_CronUpdate env (sc_calls s1) freshCron',
                              sc_call (SCronUpdate freshCron') s1)))"

definition updateCron ::
    "sched_env \<Rightarrow> BackupSchedule \<Rightarrow> CronAnything \<Rightarrow> sched_state \<Rightarrow> go_error option \<times> sched_state" where
  "updateCron env bs cron s =
     (let s1 = sc_call (SGetBackupBytes bs) s
      in case se_GetBackupBytes env (sc_calls s) bs of
           Inl err \<Rightarrow> (Some err, s1)
         | Inr backupBytes \<Rightarrow> se_RetryOnConflict env (update_cron_attempt env bs cron backupBytes) s1)"

subsection \<open>History and retention\<close>

definition newer :: "BackupRef \<Rightarrow> BackupRef \<Rightarrow> bool" where
  "newer i j \<longleftrightarrow> br_CreationTimestamp j < br_CreationTimestamp i"

definition getSortedBackupsForCron ::
    "sched_env \<Rightarrow> CronAnything \<Rightarrow> sched_state \<Rightarrow> (go_error + BackupRef list) \<times> sched_state" where
  "getSortedBackupsForCron env cron s =
     (case se_ListBackups env (sc_calls s) (ca_Name cron) of
        Inl err \<Rightarrow> Inl err | Inr backupList \<Rightarrow> Inr (sort_Slice newer backupList),
      sc_call (SListBackups (ca_Name cron)) s)"

definition history_record :: "BackupRef \<Rightarrow> BackupHistoryRecord" where
  "history_record backup = \<lparr>bh_BackupName = br_Name backup,
     bh_CreationTime = br_CreationTimestamp backup, bh_Phase = br_Phase backup\<rparr>"

definition with_history :: "BackupSchedule \<Rightarrow> BackupRef list \<Rightarrow> BackupSchedule" where
  "with_history bs sortedBackups =
     (let newBackupHistory = map history_record sortedBackups;
          backupTotal = int32 (int (length newBackupHistory))
      in bs\<lparr>bs_Status := (bs_Status bs)
           \<lparr>bst_BackupTotal := Some backupTotal,
            bst_BackupHistory := (if backupTotal > defaultMaxHistoryRecords
                                  then take (nat defaultMaxHistoryRecords) newBackupHistory
                                  else newBackupHistory)\<rparr>\<rparr>)"

definition updateHistory ::
    "sched_env \<Rightarrow> BackupSchedule \<Rightarrow> BackupRef list \<Rightarrow> sched_state \<Rightarrow> go_error option \<times> sched_state" where
  "updateHistory env bs sortedBackups s =
     (let bs' = with_history bs sortedBackups
      in (se_UpdateStatus env (sc_calls s) bs', sc_call (SUpdateStatus bs') s))"

text \<open>The loop of \<open>pruneBackups\<close>; \<open>cnt\<close> is the number of succeeded backups still to keep.\<close>

fun prune_loop ::
    "sched_env \<Rightarrow> int \<Rightarrow> BackupRef list \<Rightarrow> sched_state \<Rightarrow> go_error option \<times> sched_state" where
  "prune_loop env cnt [] s = (None, s)"
| "prune_loop env cnt (backup # rest) s =
     (let deletion = (if cnt \<le> 0
                      then (se_DeleteBackup env (sc_calls s) backup, sc_call (SDeleteBackup backup) s)
                      else (None, s))
      in case deletion of
           (Some err, s1) \<Rightarrow> (Some err, s1)
         | (None, s1) \<Rightarrow>
             prune_loop env (if br_Phase backup = phase_BackupSucceeded \<and> cnt > 0
                             then int32 (cnt - 1) else cnt) rest s1)"

definition retention_max :: "BackupRetentionPolicy option \<Rightarrow> int" where
  "retention_max retention =
     (case retention of None \<Rightarrow> defaultRetention
      | Some r \<Rightarrow> (case BackupRetention r of None \<Rightarrow> defaultRetention | Some n \<Rightarrow> n))"

definition pruneBackups ::
    "sched_env \<Rightarrow> BackupRetentionPolicy option \<Rightarrow> BackupRef list \<Rightarrow> sched_state \<Rightarrow>
     go_error option \<times> sched_state" where
  "pruneBackups env retention sortedBackups s =
     (if retention_max retention = 0 then (None, s)
      else prune_loop env (retention_max retention) sortedBackups s)"

subsection \<open>The reconcile loop\<close>

text \<open>The closure that lists the backups and writes the history.\<close>

definition history_attempt ::
    "sched_env \<Rightarrow> string \<Rightarrow> string \<Rightarrow> CronAnything \<Rightarrow> sched_state \<Rightarrow> go_error option \<times> sched_state" where
  "history_attempt env name namespace cron s =
     (case getSortedBackupsForCron env cron s of
        (Inl err, s1) \<Rightarrow> (Some err, s1\<lparr>sc_backups := []\<rparr>)
      | (Inr backups, s1) \<Rightarrow>
          let s2 = s1\<lparr>sc_backups := backups\<rparr>; s3 = sc_call (SGet name namespace) s2
          in case se_Get env (sc_calls s2) name namespace of
               Inl err \<Rightarrow> (Some err, s3)
             | Inr bs \<Rightarrow> updateHistory env bs backups s3)"

definition Reconcile_schedule ::
    "sched_env \<Rightarrow> string \<Rightarrow> string \<Rightarrow> sched_state \<Rightarrow> sched_state \<times> ctrl_Result \<times> go_error option" where
  "Reconcile_schedule env name namespace s0 =
     (let s = s0\<lparr>sc_backups := []\<rparr>; s1 = sc_call (SGet name namespace) s
      in case se_Get env (sc_calls s) name namespace of
           Inl err \<Rightarrow> (s1, Result_zero, IgnoreNotFound err)
         | Inr bs \<Rightarrow>
             (case lookupCron env bs s1 of
                (Inl err, s2) \<Rightarrow>
                  if \<not> IsNotFound err then (s2, Result_zero, Some err)
                  else (case createCron env bs s2 of (err, s3) \<Rightarrow> (s3, Result_zero, err))
              | (Inr cron, s2) \<Rightarrow>
                  (case updateCron env bs cron s2 of
                     (Some err, s3) \<Rightarrow> (s3, Result_zero, Some err)
                   | (None, s3) \<Rightarrow>
                       (case se_RetryOnConflict env (history_attempt env name namespace cron) s3 of
                          (Some err, s4) \<Rightarrow> (s4, Result_zero, Some err)
                        | (None, s4) \<Rightarrow>
                            (case pruneBackups env (bss_BackupRetentionPolicy (bs_Spec bs))
                                    (sc_backups s4) s4 of
                               (err, s5) \<Rightarrow> (s5, Result_zero, err))))))"

subsection \<open>What a reconcile deletes\<close>

lemma strict_weak_newer: "strict_weak newer"
  by (auto simp: strict_weak_def newer_def)

interpretation newest: go_sort newer "sort_Slice newer"
  by unfold_locales (simp_all add: sorted_sort_Slice strict_weak_newer)

abbreviation succeeded :: "BackupRef \<Rightarrow> bool" where
  "succeeded b \<equiv> br_Phase b = phase_BackupSucceeded"

lemma sc_calls_call [simp]: "sc_calls (sc_call c s) = sc_calls s @ [c]"
  by (simp add: sc_call_def)

lemma sc_backups_call [simp]: "sc_backups (sc_call c s) = sc_backups s"
  by (simp add: sc_call_def)

text \<open>The loop appends deletions only, and only of backups behind \<open>n\<close> succeeded ones.\<close>

lemma prune_loop_calls:
  assumes "prune_loop env n xs s = (e, s')" and "0 \<le> n" and "n < 2 ^ 31"
  shows "\<exists>cs. sc_calls s' = sc_calls s @ cs \<and>
    (\<forall>c\<in>set cs. \<exists>b ys zs. c = SDeleteBackup b \<and> xs = ys @ b # zs \<and> nat n \<le> length (filter succeeded ys))"
  using assms
proof (induction xs arbitrary: n s)
  case (Cons b xs)
  show ?case
  proof (cases "n = 0")
    case False
    define m where "m = (if succeeded b then n - 1 else n)"
    have m: "prune_loop env m xs s = (e, s')" "0 \<le> m" "m < 2 ^ 31"
      using False Cons.prems by (auto simp: m_def int32_id)
    from Cons.IH [OF m] obtain cs where cs: "sc_calls s' = sc_calls s @ cs"
      "\<forall>c\<in>set cs. \<exists>d ys zs. c = SDeleteBackup d \<and> xs = ys @ d # zs \<and> nat m \<le> length (filter succeeded ys)"
      by blast
    have "\<exists>d ys zs. c = SDeleteBackup d \<and> b # xs = ys @ d # zs \<and> nat n \<le> length (filter succeeded ys)"
      if "c \<in> set cs" for c
    proof -
      from cs(2) that obtain d ys zs where "c = SDeleteBackup d" "xs = ys @ d # zs"
        "nat m \<le> length (filter succeeded ys)" by blast
      then show ?thesis using False Cons.prems(2) unfolding m_def
        by (intro exI [of _ d] exI [of _ "b # ys"] exI [of _ zs]) (auto split: if_splits)
    qed
    with cs(1) show ?thesis by blast
  next
    case True
    show ?thesis
    proof (cases "se_DeleteBackup env (sc_calls s) b")
      case (Some err)
      with True Cons.prems(1) have "sc_calls s' = sc_calls s @ [SDeleteBackup b]" by auto
      moreover have "b # xs = [] @ b # xs" by simp
      ultimately show ?thesis using True by fastforce
    next
      case None
      with True Cons.prems(1) have "prune_loop env 0 xs (sc_call (SDeleteBackup b) s) = (e, s')"
        by simp
      from Cons.IH [OF this] obtain cs where cs: "sc_calls s' = sc_calls s @ SDeleteBackup b # cs"
        "\<forall>c\<in>set cs. \<exists>d ys zs. c = SDeleteBackup d \<and> xs = ys @ d # zs" by auto
      have "\<exists>d ys zs. c = SDeleteBackup d \<and> b # xs = ys @ d # zs" if "c \<in> set (SDeleteBackup b # cs)" for c
        using that cs(2) by (metis append_Cons append_Nil set_ConsD)
      with cs(1) True show ?thesis by auto
    qed
  qed
qed simp

text \<open>With deletions that succeed, the backups behind the \<open>n\<close>-th succeeded one are deleted, in order.\<close>

lemma prune_loop_all:
  assumes "prune_loop env n xs s = (e, s')" and "\<And>l b. se_DeleteBackup env l b = None"
    and "0 \<le> n" and "n < 2 ^ 31"
  shows "e = None \<and> (\<exists>ys zs. xs = ys @ zs \<and> sc_calls s' = sc_calls s @ map SDeleteBackup zs \<and>
    length (filter succeeded ys) \<le> nat n \<and> (zs = [] \<or> length (filter succeeded ys) = nat n))"
  using assms(1,3,4)
proof (induction xs arbitrary: n s)
  case Nil
  then show ?case by simp
next
  case (Cons b xs)
  show ?case
  proof (cases "n = 0")
    case False
    define m where "m = (if succeeded b then n - 1 else n)"
    have m: "prune_loop env m xs s = (e, s')" "0 \<le> m" "m < 2 ^ 31"
      using False Cons.prems by (auto simp: m_def int32_id)
    from Cons.IH [OF m] obtain ys zs where
      "e = None" "xs = ys @ zs" "sc_calls s' = sc_calls s @ map SDeleteBackup zs"
      "length (filter succeeded ys) \<le> nat m" "zs = [] \<or> length (filter succeeded ys) = nat m"
      by blast
    with False Cons.prems(2) show ?thesis unfolding m_def
      by (intro conjI exI [of _ "b # ys"] exI [of _ zs]) (auto split: if_splits)
  next
    case True
    with Cons.prems(1) assms(2) have p: "prune_loop env 0 xs (sc_call (SDeleteBackup b) s) = (e, s')"
      by simp
    have "e = None \<and> sc_calls s' = sc_calls s @ SDeleteBackup b # map SDeleteBackup xs"
    proof -
      have "prune_loop env 0 ys t = (e', t') \<Longrightarrow> e' = None \<and> sc_calls t' = sc_calls t @ map SDeleteBackup ys"
        for ys t e' t' by (induction ys arbitrary: t) (auto simp: assms(2))
      from this [OF p] show ?thesis by simp
    qed
    with True show ?thesis by (intro conjI exI [of _ "[]"] exI [of _ "b # xs"]) auto
  qed
qed

definition is_delete :: "sched_call \<Rightarrow> bool" where
  "is_delete c = (case c of SDeleteBackup _ \<Rightarrow> True | _ \<Rightarrow> False)"

text \<open>\<open>s'\<close> comes from \<open>s\<close> by calls that delete nothing.\<close>

definition no_deletes :: "sched_state \<Rightarrow> sched_state \<Rightarrow> bool" where
  "no_deletes s s' \<longleftrightarrow> (\<exists>cs. sc_calls s' = sc_calls s @ cs \<and> list_all (Not \<circ> is_delete) cs)"

lemma no_deletes_refl [simp]: "no_deletes s s"
  by (simp add: no_deletes_def)

lemma no_deletes_trans: "no_deletes s s1 \<Longrightarrow> no_deletes s1 s2 \<Longrightarrow> no_deletes s s2"
  by (auto simp: no_deletes_def)

lemma no_deletes_backups [simp]: "no_deletes s (s1\<lparr>sc_backups := bs\<rparr>) = no_deletes s s1"
  "no_deletes (s\<lparr>sc_backups := bs\<rparr>) s1 = no_deletes s s1"
  by (simp_all add: no_deletes_def)

lemma no_deletes_call: "no_deletes s s1 \<Longrightarrow> \<not> is_delete c \<Longrightarrow> no_deletes s (sc_call c s1)"
  by (auto simp: no_deletes_def)

lemma is_delete_simps [simp]:
  "\<not> is_delete (SGet a b)" "\<not> is_delete (SUpdateStatus x)" "\<not> is_delete (SGetBackupBytes x)"
  "\<not> is_delete (SCronGet a b)" "\<not> is_delete (SCronCreate a b sp)" "\<not> is_delete (SCronUpdate cr)"
  "\<not> is_delete (SListBackups a)" "is_delete (SDeleteBackup d)"
  by (simp_all add: is_delete_def)

definition sched_retries :: "sched_env \<Rightarrow> bool" where
  "sched_retries env \<longleftrightarrow> (\<forall>f s e s'. se_RetryOnConflict env f s = (e, s') \<longrightarrow> retry_run f s e s')"

lemma sched_retries_locale: "sched_retries env \<Longrightarrow> conflict_retry (se_RetryOnConflict env)"
  by unfold_locales (auto simp: sched_retries_def)

lemma no_deletes_cron_attempt:
  "update_cron_attempt env bs cron bytes s = (e, s') \<Longrightarrow> no_deletes s s'"
  by (auto simp: update_cron_attempt_def Let_def split: sum.splits if_splits intro!: no_deletes_call)

lemma no_deletes_history_attempt:
  "history_attempt env name ns cron s = (e, s') \<Longrightarrow> no_deletes s s'"
  by (auto simp: history_attempt_def getSortedBackupsForCron_def updateHistory_def Let_def
      split: sum.splits intro!: no_deletes_call)

lemma no_deletes_updateCron:
  assumes "sched_retries env" and "updateCron env bs cron s = (e, s')"
  shows "no_deletes s s'"
proof (cases "se_GetBackupBytes env (sc_calls s) bs")
  case (Inl err)
  with assms(2) show ?thesis by (auto simp: updateCron_def Let_def intro!: no_deletes_call)
next
  case (Inr bytes)
  let ?s1 = "sc_call (SGetBackupBytes bs) s"
  have "no_deletes s s'"
  proof (rule conflict_retry.retry_invariant [OF sched_retries_locale [OF assms(1)]])
    show "se_RetryOnConflict env (update_cron_attempt env bs cron bytes) ?s1 = (e, s')"
      using assms(2) Inr by (simp add: updateCron_def Let_def)
    show "no_deletes s ?s1" by (rule no_deletes_call) simp_all
  qed (blast intro: no_deletes_trans no_deletes_cron_attempt)
  then show ?thesis .
qed

lemma history_retry:
  assumes "sched_retries env" and "se_RetryOnConflict env (history_attempt env name ns cron) s = (e, s')"
  shows "no_deletes s s'"
    and "e = None \<Longrightarrow> \<exists>l listed. se_ListBackups env l (ca_Name cron) = Inr listed \<and>
           sc_backups s' = sort_Slice newer listed"
proof -
  note locale_facts = conflict_retry.retry_last [OF sched_retries_locale [OF assms(1)] assms(2),
      where I = "no_deletes s", OF no_deletes_refl]
  obtain v where v: "no_deletes s v" "history_attempt env name ns cron v = (e, s')"
    using locale_facts by (blast intro: no_deletes_trans no_deletes_history_attempt)
  show "no_deletes s s'" using v by (blast intro: no_deletes_trans no_deletes_history_attempt)
  show "\<exists>l listed. se_ListBackups env l (ca_Name cron) = Inr listed \<and>
      sc_backups s' = sort_Slice newer listed" if "e = None"
    using v(2) that
    by (auto simp: history_attempt_def getSortedBackupsForCron_def updateHistory_def Let_def
        split: sum.splits intro!: exI [of _ "sc_calls v"])
qed

text \<open>A reconcile deletes nothing before it prunes; what it prunes is the sorted list of backups.\<close>

lemma Reconcile_schedule_cases:
  assumes "sched_retries env" and "Reconcile_schedule env name ns s = (s', r, e)"
  shows "no_deletes s s' \<or>
    (\<exists>bs cronName l listed s4. se_Get env (sc_calls s) name ns = Inr bs \<and> no_deletes s s4 \<and>
       se_ListBackups env l cronName = Inr listed \<and>
       pruneBackups env (bss_BackupRetentionPolicy (bs_Spec bs)) (sort_Slice newer listed) s4 = (e, s'))"
proof -
  let ?s = "s\<lparr>sc_backups := []\<rparr>"
  let ?s1 = "sc_call (SGet name ns) ?s"
  have s1: "no_deletes s ?s1" by (rule no_deletes_call) simp_all
  show ?thesis
  proof (cases "se_Get env (sc_calls s) name ns")
    case (Inl err)
    with assms(2) s1 show ?thesis by (auto simp: Reconcile_schedule_def Let_def)
  next
    case (Inr bs)
    obtain lk s2 where lk: "lookupCron env bs ?s1 = (lk, s2)" by fastforce
    then have s2: "no_deletes s s2"
      using s1 by (auto simp: lookupCron_def intro!: no_deletes_call)
    show ?thesis
    proof (cases lk)
      case (Inl err)
      with assms(2) Inr lk s2 show ?thesis
        by (auto simp: Reconcile_schedule_def Let_def createCron_def split: if_splits sum.splits
            intro!: no_deletes_call)
    next
      case cron: (Inr cron)
      obtain e3 s3 where u: "updateCron env bs cron s2 = (e3, s3)" by fastforce
      have s3: "no_deletes s s3"
        using no_deletes_trans [OF s2 no_deletes_updateCron [OF assms(1) u]] .
      obtain e4 s4 where h: "se_RetryOnConflict env (history_attempt env name ns cron) s3 = (e4, s4)"
        by fastforce
      have s4: "no_deletes s s4" using no_deletes_trans [OF s3 history_retry(1) [OF assms(1) h]] .
      consider (cron_err) "e3 \<noteq> None" | (hist_err) "e3 = None" "e4 \<noteq> None" | (prune) "e3 = None" "e4 = None"
        by blast
      then show ?thesis
      proof cases
        case prune
        with history_retry(2) [OF assms(1) h] obtain l listed where
          "se_ListBackups env l (ca_Name cron) = Inr listed" "sc_backups s4 = sort_Slice newer listed"
          by blast
        moreover have "pruneBackups env (bss_BackupRetentionPolicy (bs_Spec bs)) (sc_backups s4) s4 = (e, s')"
          using assms(2) Inr lk cron u h prune
          by (auto simp: Reconcile_schedule_def Let_def split: prod.splits)
        ultimately show ?thesis using Inr s4 by fastforce
      qed (use assms(2) Inr lk cron u h s3 s4 in \<open>auto simp: Reconcile_schedule_def Let_def\<close>)
    qed
  qed
qed

subsection \<open>Properties\<close>

definition sample_backup :: "string \<Rightarrow> go_time \<Rightarrow> BackupRef" where
  "sample_backup name t = \<lparr>br_Name = name, br_CreationTimestamp = t, br_Phase = phase_BackupSucceeded\<rparr>"

definition sample_schedule :: "int option \<Rightarrow> BackupSchedule" where
  "sample_schedule keep = \<lparr>bs_Name = ''s'', bs_Namespace = ''ns'',
     bs_Spec = \<lparr>bss_Schedule = ''@hourly'', bss_Suspend = None, bss_StartingDeadlineSeconds = None,
       bss_BackupRetentionPolicy = Some \<lparr>BackupRetention = keep\<rparr>\<rparr>,
     bs_Status = \<lparr>bst_LastBackupTime = None, bst_BackupTotal = None, bst_BackupHistory = []\<rparr>\<rparr>"

definition sample_sched_env :: sched_env where
  "sample_sched_env = \<lparr>se_Get = \<lambda>_ _ _. Inr (sample_schedule (Some 1)), se_UpdateStatus = \<lambda>_ _. None,
     se_GetBackupBytes = \<lambda>_ _. Inr ''{}'', se_CronGet = \<lambda>_ _ _. Inr (sample_cron\<lparr>ca_Spec :=
       cron_spec_of (sample_schedule (Some 1)) ''{}''\<rparr>),
     se_CronCreate = \<lambda>_ _ _ _. None, se_CronUpdate = \<lambda>_ _. None,
     se_ListBackups = \<lambda>_ _. Inr [sample_backup ''old'' 1, sample_backup ''new'' 2],
     se_DeleteBackup = \<lambda>_ _. None, se_Unmarshal = \<lambda>_. Inr (JsonObject []),
     se_RetryOnConflict = retry_steps 4\<rparr>"

lemma sched_retries_sample: "sched_retries sample_sched_env"
  by (auto simp: sched_retries_def sample_sched_env_def intro: retry_steps_run)

text \<open>
  C23: A backup that a reconcile of a backup schedule deletes is one of the backups listed for its
  cron object, the retention count of the schedule is not zero, and at least that many other
  succeeded backups in the list were created no earlier: the newest succeeded backups are never
  deleted.
\<close>

theorem Reconcile_schedule_spares_the_newest:
  assumes "sched_retries env" and "Reconcile_schedule env name ns s = (s', r, e)"
    and "SDeleteBackup b \<in> set (drop (length (sc_calls s)) (sc_calls s'))"
    and "\<And>bs. se_Get env (sc_calls s) name ns = Inr bs \<Longrightarrow>
           0 \<le> retention_max (bss_BackupRetentionPolicy (bs_Spec bs)) \<and>
           retention_max (bss_BackupRetentionPolicy (bs_Spec bs)) < 2 ^ 31"
  shows "\<exists>bs cronName l listed. se_Get env (sc_calls s) name ns = Inr bs \<and>
    se_ListBackups env l cronName = Inr listed \<and> b \<in> set listed \<and>
    retention_max (bss_BackupRetentionPolicy (bs_Spec bs)) \<noteq> 0 \<and>
    nat (retention_max (bss_BackupRetentionPolicy (bs_Spec bs))) \<le>
      length (filter (\<lambda>c. succeeded c \<and> br_CreationTimestamp b \<le> br_CreationTimestamp c) (remove1 b listed))"
proof -
  have "\<not> no_deletes s s'"
    using assms(3) by (auto simp: no_deletes_def list_all_iff intro!: bexI [of _ "SDeleteBackup b"])
  with Reconcile_schedule_cases [OF assms(1,2)] obtain bs cronName l listed s4 where
    bs: "se_Get env (sc_calls s) name ns = Inr bs" and s4: "no_deletes s s4"
    and listed: "se_ListBackups env l cronName = Inr listed"
    and prune: "pruneBackups env (bss_BackupRetentionPolicy (bs_Spec bs)) (sort_Slice newer listed) s4 = (e, s')"
    by blast
  let ?n = "retention_max (bss_BackupRetentionPolicy (bs_Spec bs))"
  have n: "?n \<noteq> 0" using prune s4 \<open>\<not> no_deletes s s'\<close> by (auto simp: pruneBackups_def)
  then have loop: "prune_loop env ?n (sort_Slice newer listed) s4 = (e, s')"
    using prune by (simp add: pruneBackups_def)
  from prune_loop_calls [OF loop] assms(4) [OF bs] s4 assms(3) obtain ys zs where
    srt: "sort_Slice newer listed = ys @ b # zs" and k: "nat ?n \<le> length (filter succeeded ys)"
    by (fastforce simp: no_deletes_def list_all_iff)
  have m: "mset listed = mset (ys @ b # zs)" by (metis srt newest.srt_mset)
  then have rest: "mset (remove1 b listed) = mset ys + mset zs" by simp
  have "\<not> newer b c" if "c \<in> set ys" for c
    using newest.srt_sorted [of listed] that unfolding srt by (auto simp: sorted_wrt_append)
  then have eq: "filter succeeded ys =
      filter (\<lambda>c. succeeded c \<and> br_CreationTimestamp b \<le> br_CreationTimestamp c) ys"
    by (intro filter_cong) (auto simp: newer_def not_less)
  have "length (filter P ys) \<le> length (filter P (remove1 b listed))" for P
  proof -
    have "mset (filter P (remove1 b listed)) = mset (filter P ys) + mset (filter P zs)"
      by (simp only: mset_filter rest filter_union_mset)
    then show ?thesis by (metis le_add1 size_mset size_union)
  qed
  from le_trans [OF k [unfolded eq] this] bs listed n mset_eq_setD [OF m] show ?thesis by fastforce
qed

lemma sample_schedule_run:
  "\<exists>s' r. Reconcile_schedule sample_sched_env ''s'' ''ns'' \<lparr>sc_calls = [], sc_backups = []\<rparr> = (s', r, None) \<and>
     SDeleteBackup (sample_backup ''old'' 1) \<in> set (sc_calls s')"
  by (simp add: Reconcile_schedule_def sample_sched_env_def lookupCron_def updateCron_def numeral_eq_Suc
      update_cron_attempt_def compareTemplate_def compareInt64Pointers_def cron_spec_of_def Let_def
      history_attempt_def getSortedBackupsForCron_def updateHistory_def pruneBackups_def retention_max_def
      sample_schedule_def sort_Slice_def sample_backup_def newer_def int32_def del: One_nat_def)

theorem Reconcile_schedule_spares_the_newest_witness:
  "\<exists>s' r. Reconcile_schedule sample_sched_env ''s'' ''ns'' \<lparr>sc_calls = [], sc_backups = []\<rparr> = (s', r, None) \<and>
     (\<exists>l cronName listed. se_ListBackups sample_sched_env l cronName = Inr listed \<and>
       nat 1 \<le> length (filter (\<lambda>c. succeeded c \<and> 1 \<le> br_CreationTimestamp c)
         (remove1 (sample_backup ''old'' 1) listed)))"
proof -
  obtain s' r where run: "Reconcile_schedule sample_sched_env ''s'' ''ns'' \<lparr>sc_calls = [], sc_backups = []\<rparr> =
      (s', r, None)" "SDeleteBackup (sample_backup ''old'' 1) \<in> set (sc_calls s')"
    using sample_schedule_run by blast
  have env: "se_Get sample_sched_env l a c = Inr (sample_schedule (Some 1))" for l a c
    by (simp add: sample_sched_env_def)
  have "retention_max (bss_BackupRetentionPolicy (bs_Spec (sample_schedule (Some 1)))) = 1"
    by (simp add: sample_schedule_def retention_max_def)
  with Reconcile_schedule_spares_the_newest [OF sched_retries_sample run(1), of "sample_backup ''old'' 1"] run env
  show ?thesis by (fastforce simp: sample_backup_def)
qed

text \<open>
  Pruning with deletions that succeed returns no error and deletes, newest first, exactly the
  backups behind the newest succeeded ones up to the retention count; with a count of zero it deletes
  nothing.
\<close>

theorem pruneBackups_deletes_the_rest:
  assumes "\<And>l b. se_DeleteBackup env l b = None"
    and "0 \<le> retention_max retention" and "retention_max retention < 2 ^ 31"
    and "pruneBackups env retention sortedBackups s = (e, s')"
  shows "e = None \<and> (\<exists>kept deleted. sortedBackups = kept @ deleted \<and>
    sc_calls s' = sc_calls s @ map SDeleteBackup deleted \<and>
    (if retention_max retention = 0 then deleted = []
     else length (filter succeeded kept) \<le> nat (retention_max retention) \<and>
       (deleted = [] \<or> length (filter succeeded kept) = nat (retention_max retention))))"
proof (cases "retention_max retention = 0")
  case True
  with assms(4) show ?thesis by (simp add: pruneBackups_def)
next
  case False
  with assms(4) have "prune_loop env (retention_max retention) sortedBackups s = (e, s')"
    by (simp add: pruneBackups_def)
  from prune_loop_all [OF this assms(1-3)] False show ?thesis by auto
qed

theorem pruneBackups_deletes_the_rest_witness:
  "\<exists>kept deleted. [sample_backup ''new'' 2, sample_backup ''old'' 1] = kept @ deleted \<and>
     length (filter succeeded kept) \<le> nat 1"
proof -
  obtain e s' where run: "pruneBackups sample_sched_env (Some \<lparr>BackupRetention = Some 1\<rparr>)
      [sample_backup ''new'' 2, sample_backup ''old'' 1] \<lparr>sc_calls = [], sc_backups = []\<rparr> = (e, s')" by fastforce
  have "retention_max (Some \<lparr>BackupRetention = Some 1\<rparr>) = 1" by (simp add: retention_max_def)
  with pruneBackups_deletes_the_rest [OF _ _ _ run] show ?thesis by (auto simp: sample_sched_env_def)
qed

text \<open>What \<open>updateCron\<close> compares.\<close>

definition cron_in_sync :: "sched_env \<Rightarrow> BackupSchedule \<Rightarrow> string \<Rightarrow> CronAnything \<Rightarrow> bool" where
  "cron_in_sync env bs bytes cron \<longleftrightarrow>
     se_Unmarshal env (cs_Template (ca_Spec cron)) = se_Unmarshal env bytes \<and>
     cs_Schedule (ca_Spec cron) = bss_Schedule (bs_Spec bs) \<and>
     cs_TriggerDeadlineSeconds (ca_Spec cron) = bss_StartingDeadlineSeconds (bs_Spec bs)"

lemma compareInt64Pointers_iff: "compareInt64Pointers i j \<longleftrightarrow> i = j"
  by (cases i; cases j) (auto simp: compareInt64Pointers_def)

text \<open>
  An attempt of \<open>updateCron\<close> whose documents parse writes nothing when the cron object it reads
  has the template, the schedule and the deadline of the backup schedule, and otherwise writes that
  object with these three fields, and only them, brought in line, so that a further attempt writes
  nothing.
\<close>

theorem updateCron_synchronises:
  assumes "se_CronGet env (sc_calls s) (ca_Namespace cron) (ca_Name cron) = Inr fresh"
    and "se_Unmarshal env (cs_Template (ca_Spec fresh)) = Inr j" and "se_Unmarshal env bytes = Inr j'"
    and "update_cron_attempt env bs cron bytes s = (e, s')"
  shows "if cron_in_sync env bs bytes fresh
    then e = None \<and> sc_calls s' = sc_calls s @ [SCronGet (ca_Namespace cron) (ca_Name cron)]
    else \<exists>fresh'. cron_in_sync env bs bytes fresh' \<and>
      sc_calls s' = sc_calls s @ [SCronGet (ca_Namespace cron) (ca_Name cron), SCronUpdate fresh'] \<and>
      fresh' = fresh\<lparr>ca_Spec := (ca_Spec fresh)\<lparr>cs_Schedule := cs_Schedule (ca_Spec fresh'),
        cs_Template := cs_Template (ca_Spec fresh'),
        cs_TriggerDeadlineSeconds := cs_TriggerDeadlineSeconds (ca_Spec fresh')\<rparr>\<rparr>"
  using assms
  by (auto simp: update_cron_attempt_def compareTemplate_def compareInt64Pointers_iff cron_in_sync_def Let_def)

theorem updateCron_synchronises_witness:
  "\<exists>fresh'. cron_in_sync sample_sched_env (sample_schedule None) ''{}'' fresh'"
proof -
  let ?cron = "sample_cron\<lparr>ca_Spec := cron_spec_of (sample_schedule (Some 1)) ''{}''\<rparr>"
  let ?s = "\<lparr>sc_calls = [], sc_backups = []\<rparr>"
  obtain e s' where run: "update_cron_attempt sample_sched_env (sample_schedule None) ?cron ''{}'' ?s = (e, s')"
    by fastforce
  have "\<not> cron_in_sync sample_sched_env (sample_schedule None) ''{}'' ?cron"
    by (simp add: cron_in_sync_def cron_spec_of_def sample_schedule_def)
  with updateCron_synchronises [OF _ _ _ run, of ?cron "JsonObject []" "JsonObject []"] show ?thesis
    by (auto simp: sample_sched_env_def)
qed

text \<open>
  A schedule without a starting deadline gets the default of 30 seconds when its cron object is
  created, and the first update removes it: the cron object is then written without a deadline, so
  that no trigger is ever too late for it.
\<close>

theorem updateCron_loses_default_deadline:
  assumes "bss_StartingDeadlineSeconds (bs_Spec bs) = None"
    and "se_CronGet env (sc_calls s) (ca_Namespace cron) (ca_Name cron) = Inr fresh"
    and "ca_Spec fresh = cron_spec_of bs bytes" and "se_Unmarshal env bytes = Inr j"
  shows "\<exists>fresh'. sc_calls (snd (update_cron_attempt env bs cron bytes s)) =
      sc_calls s @ [SCronGet (ca_Namespace cron) (ca_Name cron), SCronUpdate fresh'] \<and>
    (\<forall>t now. deadline_exceeded fresh t now = (t + 30 * Second < now)) \<and>
    (\<forall>t now. \<not> deadline_exceeded fresh' t now)"
proof -
  have "int64 (30 * Second) = 30 * Second" by (rule int64_id) simp_all
  then show ?thesis using assms
    by (auto simp: update_cron_attempt_def compareTemplate_def compareInt64Pointers_iff cron_spec_of_def
        deadline_exceeded_def Let_def)
qed

theorem updateCron_loses_default_deadline_witness:
  "\<exists>fresh'. SCronUpdate fresh' \<in> set (sc_calls (snd (update_cron_attempt sample_sched_env (sample_schedule (Some 1))
      sample_cron ''{}'' \<lparr>sc_calls = [], sc_backups = []\<rparr>))) \<and> (\<forall>t now. \<not> deadline_exceeded fresh' t now)"
proof -
  let ?cron = "sample_cron\<lparr>ca_Spec := cron_spec_of (sample_schedule (Some 1)) ''{}''\<rparr>"
  have "bss_StartingDeadlineSeconds (bs_Spec (sample_schedule (Some 1))) = None"
    by (simp add: sample_schedule_def)
  from updateCron_loses_default_deadline [OF this, of sample_sched_env "\<lparr>sc_calls = [], sc_backups = []\<rparr>"
      sample_cron ?cron "''{}''" "JsonObject []"] show ?thesis
    by (fastforce simp: sample_sched_env_def)
qed

end
