(* ===== verification/Lro.thy ===== *)
theory Lro
  imports Prelude "HOL-Library.AList" "HOL-Library.List_Lexorder" "HOL-Library.Char_ord"
begin

text \<open>
  The long running operation server of the database daemon:
  \<open>oracle/pkg/database/lib/lro/server.go\<close>, \<open>job.go\<close> and the task handle of \<open>lib/detach\<close>.

  Jobs are shared by pointer between the server, the goroutine that runs them and their creator, so
  they live in a heap, a list of \<open>Job\<close> records, and a pointer is an index into it. The map of the
  server is an association list, in which Go's map order plays no role. Reading the channel of a nil
  task is a nil dereference: the result \<open>None\<close>. The inductive relation \<open>lro_step\<close> interleaves the
  calls: \<open>addAndStartJob\<close> is two steps, since it starts the job after \<open>AddJob\<close> has released the lock.
\<close>

subsection \<open>Tasks and jobs\<close>

record Task =
  t_cancelled :: bool
  t_closed :: bool

definition detach_Go :: Task where
  "detach_Go = \<lparr>t_cancelled = False, t_closed = False\<rparr>"

definition task_Cancel :: "Task \<Rightarrow> Task" where
  "task_Cancel t = t\<lparr>t_cancelled := True\<rparr>"

type_synonym any_msg = string

record Job =
  j_id :: string
  j_name :: string
  j_resp :: "any_msg option"
  j_err :: "go_error option"
  j_task :: "Task option"

definition IsDone :: "Job \<Rightarrow> bool option" where
  "IsDone j = map_option t_closed (j_task j)"

definition Job_Cancel :: "Job \<Rightarrow> Job option" where
  "Job_Cancel j = map_option (\<lambda>t. j\<lparr>j_task := Some (task_Cancel t)\<rparr>) (j_task j)"

text \<open>The error \<open>Delete\<close> returns, if any.\<close>

definition Job_Delete :: "Job \<Rightarrow> go_error option option" where
  "Job_Delete j = map_option (\<lambda>done. if done then None
     else Some (GoError Aborted (''Can't delete job with ID '' @ j_id j @ '' while it's still running'')))
     (IsDone j)"

definition Job_Status :: "Job \<Rightarrow> (bool \<times> any_msg option \<times> go_error option) option" where
  "Job_Status j = map_option (\<lambda>done.
     if \<not> done then (False, None, None)
     else case j_err j of Some e \<Rightarrow> (True, None, Some e) | None \<Rightarrow> (True, j_resp j, None)) (IsDone j)"

text \<open>\<open>Wait\<close> selects between the end of the task and the timeout: \<open>timedOut\<close> tells which one came.\<close>

definition Job_Wait :: "Job \<Rightarrow> bool \<Rightarrow> go_error option option" where
  "Job_Wait j timedOut = map_option (\<lambda>t. if timedOut
     then Some (GoError DeadlineExceeded (''LRO job with ID '' @ j_id j @ '' didn't complete in time''))
     else None) (j_task j)"

text \<open>What the call of a job comes back with: nil, an \<open>Any\<close>, another message, or a panic.\<close>

datatype call_outcome =
    ReturnsNil "go_error option"
  | ReturnsAny any_msg "go_error option"
  | ReturnsMsg string "go_error option"
  | Panics string

text \<open>The body of the goroutine under \<open>catchPanic\<close>: store the result, then close the task.\<close>

definition run_body :: "(string \<Rightarrow> go_error + any_msg) \<Rightarrow> call_outcome \<Rightarrow> Job \<Rightarrow> Job" where
  "run_body MarshalFrom out j =
     (let j1 = (case out of
          ReturnsNil e \<Rightarrow> j\<lparr>j_resp := None, j_err := e\<rparr>
        | ReturnsAny a e \<Rightarrow> j\<lparr>j_resp := Some a, j_err := e\<rparr>
        | ReturnsMsg m e \<Rightarrow>
            (case MarshalFrom m of
               Inl err \<Rightarrow> j\<lparr>j_resp := Some [],
                 j_err := Some (GoError Internal (''Failed to marshal response to any: '' @ err_msg err))\<rparr>
             | Inr a \<Rightarrow> j\<lparr>j_resp := Some a, j_err := e\<rparr>)
        | Panics r \<Rightarrow> j\<lparr>j_err := Some (Errorf (''caught panic in agent execution. Panic Message: '' @ r))\<rparr>)
      in j1\<lparr>j_task := map_option (\<lambda>t. t\<lparr>t_closed := True\<rparr>) (j_task j1)\<rparr>)"

definition Job_start :: "Job \<Rightarrow> Job" where
  "Job_start j = j\<lparr>j_task := Some detach_Go\<rparr>"

text \<open>\<open>taskTimeout\<close> on the metadata of the incoming context.\<close>

definition taskTimeout ::
    "(string \<Rightarrow> go_error + duration) \<Rightarrow> (string \<Rightarrow> string list) option \<Rightarrow> go_error + duration" where
  "taskTimeout ParseDuration md =
     (case md of
        None \<Rightarrow> Inl (Errorf ''context has no timeout info'')
      | Some get \<Rightarrow>
          (let data = get ''taskTimeoutSec''
           in if data = [] \<or> hd data = [] then Inl (Errorf ''fails to parse out the timeout info'')
              else ParseDuration (hd data @ ''s'')))"

subsection \<open>The server\<close>

record ttlJob =
  tj_job :: nat
  tj_startTime :: go_time
  tj_completeTime :: go_time
  tj_deleteTime :: go_time

record lro_state =
  jobs :: "(string \<times> ttlJob) list"
  heap :: "Job list"
  starting :: "nat list"

definition getJob :: "lro_state \<Rightarrow> string \<Rightarrow> ttlJob option" where
  "getJob s jobID = map_of (jobs s) jobID"

definition validateAndGetOperation :: "lro_state \<Rightarrow> string \<Rightarrow> go_error + ttlJob" where
  "validateAndGetOperation s operationID =
     (if operationID = [] then Inl (GoError InvalidArgument ''bad request: empty operation ID'')
      else case getJob s operationID of
             None \<Rightarrow> Inl (GoError NotFound (''LRO with ID '' @ operationID @ '' NOT found''))
           | Some j \<Rightarrow> Inr j)"

datatype op_result = NoResult | ErrorResult go_error | ResponseResult any_msg

record Operation =
  op_Name :: string
  op_Done :: bool
  op_Result :: op_result

text \<open>A gRPC status error keeps its code; an error of another kind has the code \<open>Unknown\<close>.\<close>

definition BuildOperation :: "string \<Rightarrow> bool \<Rightarrow> any_msg option \<Rightarrow> go_error option \<Rightarrow> Operation" where
  "BuildOperation opID done result e =
     (if result = None \<and> e = None then \<lparr>op_Name = opID, op_Done = done, op_Result = NoResult\<rparr>
      else case e of
             Some err \<Rightarrow> \<lparr>op_Name = opID, op_Done = done, op_Result = ErrorResult err\<rparr>
           | None \<Rightarrow> \<lparr>op_Name = opID, op_Done = done, op_Result = ResponseResult (the result)\<rparr>)"

definition GetOperationData :: "string \<Rightarrow> Job \<Rightarrow> Operation option" where
  "GetOperationData opID j =
     map_option (\<lambda>(done, result, e). BuildOperation opID done result e) (Job_Status j)"

definition GetOperation :: "lro_state \<Rightarrow> string \<Rightarrow> (go_error + Operation) option" where
  "GetOperation s name =
     (case validateAndGetOperation s name of
        Inl err \<Rightarrow> Some (Inl err)
      | Inr tj \<Rightarrow> map_option Inr (GetOperationData name (heap s ! tj_job tj)))"

definition CancelOperation :: "lro_state \<Rightarrow> string \<Rightarrow> (go_error option \<times> lro_state) option" where
  "CancelOperation s name =
     (case validateAndGetOperation s name of
        Inl err \<Rightarrow> Some (Some err, s)
      | Inr tj \<Rightarrow> map_option (\<lambda>j. (None, s\<lparr>heap := (heap s)[tj_job tj := j]\<rparr>))
                    (Job_Cancel (heap s ! tj_job tj)))"

definition DeleteOperation :: "lro_state \<Rightarrow> string \<Rightarrow> go_time \<Rightarrow> go_error option \<times> lro_state" where
  "DeleteOperation s name now =
     (case validateAndGetOperation s name of
        Inl err \<Rightarrow> (Some err, s)
      | Inr tj \<Rightarrow> (None, s\<lparr>jobs := AList.update name (tj\<lparr>tj_deleteTime := now\<rparr>) (jobs s)\<rparr>))"

abbreviation DefaultWaitOperationTimeOut :: duration where "DefaultWaitOperationTimeOut \<equiv> Hour"

text \<open>The timeout of a wait request; \<open>Inl\<close> is a timeout that \<open>CheckValid\<close> rejects.\<close>

definition wait_duration :: "(string + duration) option \<Rightarrow> go_error + duration" where
  "wait_duration timeout =
     (case timeout of
        None \<Rightarrow> Inr DefaultWaitOperationTimeOut
      | Some (Inl bad) \<Rightarrow> Inl (GoError InvalidArgument (''Invalid timeout '' @ bad @ '' for WaitOperation''))
      | Some (Inr d) \<Rightarrow> Inr d)"

text \<open>\<open>WaitOperation\<close> as it returns, in the state at that moment.\<close>

definition WaitOperation ::
    "lro_state \<Rightarrow> string \<Rightarrow> (string + duration) option \<Rightarrow> bool \<Rightarrow> (go_error + Operation) option" where
  "WaitOperation s name timeout timedOut =
     (case validateAndGetOperation s name of
        Inl err \<Rightarrow> Some (Inl err)
      | Inr tj \<Rightarrow>
          (case wait_duration timeout of
             Inl err \<Rightarrow> Some (Inl err)
           | Inr d \<Rightarrow>
               (case Job_Wait (heap s ! tj_job tj) timedOut of
                  None \<Rightarrow> None
                | Some (Some err) \<Rightarrow> Some (Inl err)
                | Some None \<Rightarrow> map_option Inr (GetOperationData name (heap s ! tj_job tj)))))"

definition WaitAndUnmarshalResult ::
    "(any_msg \<Rightarrow> go_error + 'm) \<Rightarrow> lro_state \<Rightarrow> string \<Rightarrow> bool \<Rightarrow> (go_error + 'm option) option" where
  "WaitAndUnmarshalResult UnmarshalTo s opName timedOut =
     map_option (\<lambda>r. case r of
         Inl err \<Rightarrow> Inl (Errorf (''WaitOperation returns error: '' @ err_msg err))
       | Inr op \<Rightarrow>
           (case op_Result op of
              ErrorResult e \<Rightarrow> Inl (Errorf (err_msg e))
            | NoResult \<Rightarrow> Inr None
            | ResponseResult a \<Rightarrow>
                (case UnmarshalTo a of Inl err \<Rightarrow> Inl err | Inr m \<Rightarrow> Inr (Some m))))
       (WaitOperation s opName None timedOut)"

abbreviation defaultPageSize :: int where "defaultPageSize \<equiv> 10"

definition sortedMapKeys :: "(string \<times> ttlJob) list \<Rightarrow> string list" where
  "sortedMapKeys m = sort (map fst m)"

text \<open>The loop of \<open>ListOperations\<close>: the ids of the page so far, and the token of the next page.\<close>

fun list_loop :: "string list \<Rightarrow> string \<Rightarrow> int \<Rightarrow> string list \<Rightarrow> string list \<times> string" where
  "list_loop [] pageToken pageSize page = (page, [])"
| "list_loop (opID # ids) pageToken pageSize page =
     (if pageToken = [] \<or> pageToken \<le> opID
      then if int (length page) \<ge> pageSize then (page, opID)
           else list_loop ids pageToken pageSize (page @ [opID])
      else list_loop ids pageToken pageSize page)"

definition ListOperations_ids :: "lro_state \<Rightarrow> int \<Rightarrow> string \<Rightarrow> string list \<times> string" where
  "ListOperations_ids s requested pageToken =
     (let pageSize = (if requested = 0 then defaultPageSize else requested)
      in list_loop (sortedMapKeys (jobs s)) pageToken pageSize [])"

definition ListOperations :: "lro_state \<Rightarrow> int \<Rightarrow> string \<Rightarrow> (Operation list \<times> string) option" where
  "ListOperations s requested pageToken =
     (case ListOperations_ids s requested pageToken of (ids, nextID) \<Rightarrow>
        let ops = map (\<lambda>opID. GetOperationData opID (heap s ! tj_job (the (getJob s opID)))) ids
        in if None \<in> set ops then None else Some (map the ops, nextID))"

subsection \<open>Expiry\<close>

definition isDeletedJobExpired :: "ttlJob \<Rightarrow> go_time \<Rightarrow> duration \<Rightarrow> bool" where
  "isDeletedJobExpired tj now ttl \<longleftrightarrow> tj_deleteTime tj \<noteq> 0 \<and> time_Sub now (tj_deleteTime tj) > ttl"

text \<open>One turn of the loop: the updated entry and whether it is deleted. A deleted job's own
  \<open>Delete\<close> is called after the entry is gone; its error is only logged.\<close>

definition expire_entry ::
    "Job list \<Rightarrow> go_time \<Rightarrow> duration \<Rightarrow> duration \<Rightarrow> ttlJob \<Rightarrow> (ttlJob \<times> bool) option" where
  "expire_entry hp now ttlDel ttlComp tj =
     (let deletedExpired = isDeletedJobExpired tj now ttlDel;
          j = hp ! tj_job tj
      in case (if tj_completeTime tj = 0 then IsDone j else Some False) of
           None \<Rightarrow> None
         | Some done \<Rightarrow>
             (let tj1 = (if done then tj\<lparr>tj_completeTime := now\<rparr> else tj);
                  shouldDelete = (deletedExpired \<or>
                    (tj_completeTime tj1 \<noteq> 0 \<and> time_Sub now (tj_completeTime tj1) > ttlComp))
              in if shouldDelete then map_option (\<lambda>_. (tj1, True)) (Job_Delete j)
                 else Some (tj1, False)))"

fun expire_loop ::
    "Job list \<Rightarrow> go_time \<Rightarrow> duration \<Rightarrow> duration \<Rightarrow> (string \<times> ttlJob) list \<Rightarrow>
     (string \<times> ttlJob) list option" where
  "expire_loop hp now ttlDel ttlComp [] = Some []"
| "expire_loop hp now ttlDel ttlComp ((opID, tj) # rest) =
     (case expire_entry hp now ttlDel ttlComp tj of
        None \<Rightarrow> None
      | Some (tj1, deleted) \<Rightarrow>
          map_option (\<lambda>rest'. if deleted then rest' else (opID, tj1) # rest')
            (expire_loop hp now ttlDel ttlComp rest))"

definition DeleteExpiredJobs ::
    "go_time \<Rightarrow> duration \<Rightarrow> duration \<Rightarrow> lro_state \<Rightarrow> lro_state option" where
  "DeleteExpiredJobs now ttlDel ttlComp s =
     map_option (\<lambda>js. s\<lparr>jobs := js\<rparr>) (expire_loop (heap s) now ttlDel ttlComp (jobs s))"

abbreviation ttlAfterDelete :: duration where "ttlAfterDelete \<equiv> 10 * Minute"
abbreviation ttlAfterComplete :: duration where "ttlAfterComplete \<equiv> 12 * Hour"

subsection \<open>Adding and starting jobs\<close>

definition deleteJob :: "lro_state \<Rightarrow> string \<Rightarrow> lro_state" where
  "deleteJob s jobID = s\<lparr>jobs := AList.delete jobID (jobs s)\<rparr>"

definition AddJob :: "lro_state \<Rightarrow> string \<Rightarrow> nat \<Rightarrow> go_time \<Rightarrow> go_error option \<times> lro_state" where
  "AddJob s jobID ptr now =
     (if map_of (jobs s) jobID \<noteq> None
      then (Some (GoError AlreadyExists (''LRO with ID '' @ jobID @ '' already exists'')), s)
      else (None, s\<lparr>jobs := AList.update jobID
              \<lparr>tj_job = ptr, tj_startTime = now, tj_completeTime = 0, tj_deleteTime = 0\<rparr> (jobs s)\<rparr>))"

text \<open>\<open>CreateAndRunLROJobWithID\<close> up to the return of \<open>AddJob\<close>: the new job is allocated, and to be
  started when it was added. Whether it was added or exists already, the caller gets the job.\<close>

definition add_job :: "string \<Rightarrow> string \<Rightarrow> string \<Rightarrow> go_time \<Rightarrow> lro_state \<Rightarrow> nat \<times> lro_state" where
  "add_job freshID jobID name now s =
     (let opID = (if jobID = [] then freshID else jobID);
          ptr = length (heap s);
          j = \<lparr>j_id = opID, j_name = name, j_resp = None, j_err = None, j_task = None\<rparr>;
          s1 = s\<lparr>heap := heap s @ [j]\<rparr>
      in case AddJob s1 opID ptr now of
           (Some err, s2) \<Rightarrow> (ptr, s2)
         | (None, s2) \<Rightarrow> (ptr, s2\<lparr>starting := ptr # starting s2\<rparr>))"

definition context_job_id :: "(string \<Rightarrow> string list) option \<Rightarrow> string" where
  "context_job_id md =
     (case md of
        None \<Rightarrow> []
      | Some get \<Rightarrow> (let data = get ''taskID'' in if data \<noteq> [] \<and> hd data \<noteq> [] then hd data else []))"

definition start_job :: "nat \<Rightarrow> lro_state \<Rightarrow> lro_state" where
  "start_job ptr s = s\<lparr>heap := (heap s)[ptr := Job_start (heap s ! ptr)], starting := remove1 ptr (starting s)\<rparr>"

subsection \<open>Interleaved steps\<close>

definition finish_job :: "(string \<Rightarrow> go_error + any_msg) \<Rightarrow> call_outcome \<Rightarrow> nat \<Rightarrow> lro_state \<Rightarrow> lro_state" where
  "finish_job MarshalFrom out ptr s = s\<lparr>heap := (heap s)[ptr := run_body MarshalFrom out (heap s ! ptr)]\<rparr>"

inductive lro_step :: "lro_state \<Rightarrow> lro_state \<Rightarrow> bool" where
  Create: "freshID \<noteq> [] \<Longrightarrow> lro_step s (snd (add_job freshID jobID name now s))"
| Started: "ptr \<in> set (starting s) \<Longrightarrow> lro_step s (start_job ptr s)"
| Finish: "ptr < length (heap s) \<Longrightarrow> IsDone (heap s ! ptr) = Some False \<Longrightarrow>
    lro_step s (finish_job MarshalFrom out ptr s)"
| Cancelled: "CancelOperation s name = Some (e, s') \<Longrightarrow> lro_step s s'"
| Deleted: "lro_step s (snd (DeleteOperation s name now))"
| Expire: "DeleteExpiredJobs now ttlAfterDelete ttlAfterComplete s = Some s' \<Longrightarrow> lro_step s s'"

definition NewServer :: lro_state where
  "NewServer = \<lparr>jobs = [], heap = [], starting = []\<rparr>"

abbreviation lro_reachable :: "lro_state \<Rightarrow> bool" where
  "lro_reachable s \<equiv> lro_step\<^sup>*\<^sup>* NewServer s"

subsection \<open>The registry of jobs\<close>

text \<open>What the daemon's handlers rely on: an operation is registered under a free id only, and is
  then found under that id.\<close>

locale job_registry =
  fixes lookup :: "'s \<Rightarrow> string \<Rightarrow> 'j option"
    and register :: "'s \<Rightarrow> string \<Rightarrow> 'v \<Rightarrow> go_error option \<times> 's"
    and entry :: "'v \<Rightarrow> 'j"
  assumes register_free: "lookup s k = None \<Longrightarrow>
      \<exists>s'. register s k v = (None, s') \<and> (\<forall>k'. lookup s' k' = (if k' = k then Some (entry v) else lookup s k'))"
    and register_taken: "lookup s k \<noteq> None \<Longrightarrow>
      \<exists>m. register s k v = (Some (GoError AlreadyExists m), s)"
begin

lemma first_wins:
  assumes "register s k v = (None, s1)"
  shows "\<exists>m. register s1 k w = (Some (GoError AlreadyExists m), s1) \<and> lookup s1 k = Some (entry v)"
proof -
  have "lookup s k = None" using assms register_taken [of s k v] by (cases "lookup s k") auto
  with register_free [of s k v] assms have "lookup s1 k = Some (entry v)" by auto
  with register_taken [of s1 k w] show ?thesis by auto
qed

lemma others_kept: "register s k v = (e, s1) \<Longrightarrow> lookup s k' = Some j \<Longrightarrow> lookup s1 k' = Some j"
  using register_free [of s k v] register_taken [of s k v] by (cases "lookup s k") auto

end

lemma AddJob_free: "getJob s jobID = None \<Longrightarrow>
  AddJob s jobID ptr now = (None, s\<lparr>jobs := AList.update jobID
    \<lparr>tj_job = ptr, tj_startTime = now, tj_completeTime = 0, tj_deleteTime = 0\<rparr> (jobs s)\<rparr>)"
  by (simp add: AddJob_def getJob_def)

interpretation registry: job_registry getJob "\<lambda>s k (ptr, now). AddJob s k ptr now"
  "\<lambda>(ptr, now). \<lparr>tj_job = ptr, tj_startTime = now, tj_completeTime = 0, tj_deleteTime = 0\<rparr>"
  by unfold_locales (auto simp: AddJob_def getJob_def update_conv' split: prod.splits)

subsection \<open>Invariant and stability of results\<close>

definition lro_inv :: "lro_state \<Rightarrow> bool" where
  "lro_inv s \<longleftrightarrow> distinct (map fst (jobs s)) \<and> distinct (map (tj_job \<circ> snd) (jobs s)) \<and>
     (\<forall>(k, tj)\<in>set (jobs s). k \<noteq> [] \<and> tj_job tj < length (heap s) \<and> j_id (heap s ! tj_job tj) = k) \<and>
     distinct (starting s) \<and>
     (\<forall>p\<in>set (starting s). p < length (heap s) \<and> j_task (heap s ! p) = None)"

text \<open>How a job may change: its id stays, and once it is done its status stays.\<close>

definition job_evolves :: "Job \<Rightarrow> Job \<Rightarrow> bool" where
  "job_evolves j j' \<longleftrightarrow> j_id j' = j_id j \<and> j_name j' = j_name j \<and>
     (IsDone j = Some True \<longrightarrow> IsDone j' = Some True \<and> Job_Status j' = Job_Status j)"

definition heap_evolves :: "Job list \<Rightarrow> Job list \<Rightarrow> bool" where
  "heap_evolves h h' \<longleftrightarrow> length h \<le> length h' \<and> (\<forall>p<length h. job_evolves (h ! p) (h' ! p))"

lemma job_evolves_refl [simp]: "job_evolves j j"
  by (simp add: job_evolves_def)

lemma heap_evolves_refl [simp]: "heap_evolves h h"
  by (simp add: heap_evolves_def)

lemma heap_evolves_trans: "heap_evolves h h1 \<Longrightarrow> heap_evolves h1 h2 \<Longrightarrow> heap_evolves h h2"
  by (fastforce simp: heap_evolves_def job_evolves_def)

lemma heap_evolves_update:
  "(p < length h \<Longrightarrow> job_evolves (h ! p) j) \<Longrightarrow> heap_evolves h (h[p := j])"
  unfolding heap_evolves_def
  by (metis job_evolves_refl le_refl length_list_update nth_list_update_eq nth_list_update_neq)

lemma heap_evolves_append: "heap_evolves h (h @ js)"
  by (simp add: heap_evolves_def nth_append)

lemma job_evolves_body: "IsDone j = Some False \<Longrightarrow> job_evolves j (run_body M out j)"
  by (auto simp: job_evolves_def run_body_def Let_def split: call_outcome.splits sum.splits)

lemma job_evolves_start: "j_task j = None \<Longrightarrow> job_evolves j (Job_start j)"
  by (auto simp: job_evolves_def Job_start_def IsDone_def)

lemma job_evolves_cancel: "Job_Cancel j = Some j' \<Longrightarrow> job_evolves j j'"
  by (auto simp: job_evolves_def Job_Cancel_def task_Cancel_def IsDone_def Job_Status_def
      split: option.splits)

lemma job_ids [simp]: "j_id (run_body M out j) = j_id j" "j_id (Job_start j) = j_id j"
  by (auto simp: run_body_def Job_start_def Let_def split: call_outcome.splits sum.splits)

lemma j_task_body: "j_task (run_body M out j) = map_option (\<lambda>t. t\<lparr>t_closed := True\<rparr>) (j_task j)"
  by (auto simp: run_body_def Let_def split: call_outcome.splits sum.splits)

text \<open>The entry an expiry keeps is an entry of before with the same job.\<close>

lemma expire_entry_job: "expire_entry hp now d c tj = Some (tj', b) \<Longrightarrow> tj_job tj' = tj_job tj"
  by (auto simp: expire_entry_def Let_def split: option.splits if_splits)

lemma expire_loop_Cons:
  "expire_loop hp now d c ((k, tj) # js) = Some js' \<longleftrightarrow>
     (\<exists>tj' b js1. expire_entry hp now d c tj = Some (tj', b) \<and> expire_loop hp now d c js = Some js1 \<and>
        js' = (if b then js1 else (k, tj') # js1))"
  by (auto split: option.splits)

declare expire_loop.simps(2) [simp del]

lemma expire_loop_set:
  "expire_loop hp now d c js = Some js' \<Longrightarrow> (k, tj') \<in> set js' \<Longrightarrow>
     \<exists>tj. (k, tj) \<in> set js \<and> tj_job tj' = tj_job tj"
  by (induction js arbitrary: js')
    (fastforce simp: expire_loop_Cons dest: expire_entry_job split: if_splits)+

lemma expire_loop_distinct:
  assumes "expire_loop hp now d c js = Some js'"
    and "distinct (map fst js)" and "distinct (map (tj_job \<circ> snd) js)"
  shows "distinct (map fst js') \<and> distinct (map (tj_job \<circ> snd) js')"
  using assms
proof (induction js arbitrary: js')
  case (Cons e js)
  obtain k tj where e: "e = (k, tj)" by fastforce
  from Cons.prems(1) e obtain tj' b js1 where
    x: "expire_entry hp now d c tj = Some (tj', b)" and l: "expire_loop hp now d c js = Some js1"
    and js': "js' = (if b then js1 else (k, tj') # js1)" by (auto simp: expire_loop_Cons)
  have "k \<notin> fst ` set js1" "tj_job tj' \<notin> (tj_job \<circ> snd) ` set js1"
    using Cons.prems(2,3) e expire_loop_set [OF l] expire_entry_job [OF x] by (force simp: image_iff)+
  with Cons.IH [OF l] Cons.prems(2,3) js' show ?case by auto
qed simp

lemma validate_Inr: "validateAndGetOperation s name = Inr tj \<Longrightarrow> name \<noteq> [] \<and> getJob s name = Some tj"
  by (auto simp: validateAndGetOperation_def split: if_splits option.splits)

lemma getJob_fun: "getJob s = map_of (jobs s)"
  by (rule ext) (simp add: getJob_def)

lemma getJob_in: "getJob s k = Some tj \<Longrightarrow> (k, tj) \<in> set (jobs s)"
  by (simp add: getJob_def map_of_SomeD)

lemma inv_tracked:
  assumes "lro_inv s" and "getJob s k = Some tj"
  shows "k \<noteq> []" "tj_job tj < length (heap s)" "j_id (heap s ! tj_job tj) = k"
  using assms(1) getJob_in [OF assms(2)] by (auto simp: lro_inv_def)

lemma set_jobs_AddJob:
  assumes "getJob s k = None"
  shows "set (AList.update k v (jobs s)) = insert (k, v) (set (jobs s))"
    and "map fst (AList.update k v (jobs s)) = map fst (jobs s) @ [k]"
    and "map (f \<circ> snd) (AList.update k v (jobs s)) = map (f \<circ> snd) (jobs s) @ [f v]"
proof -
  have "k \<notin> fst ` set js \<Longrightarrow> AList.update k v js = js @ [(k, v)]" for js
    by (induction js) auto
  moreover have "k \<notin> fst ` set (jobs s)" using assms by (simp add: getJob_def map_of_eq_None_iff)
  ultimately have u: "AList.update k v (jobs s) = jobs s @ [(k, v)]" by simp
  show "set (AList.update k v (jobs s)) = insert (k, v) (set (jobs s))"
    "map fst (AList.update k v (jobs s)) = map fst (jobs s) @ [k]"
    "map (f \<circ> snd) (AList.update k v (jobs s)) = map (f \<circ> snd) (jobs s) @ [f v]"
    by (simp_all add: u)
qed

lemma inv_heap_update:
  assumes "lro_inv s" and "j_id j = j_id (heap s ! p)" and "p \<in> set (starting s) \<Longrightarrow> j_task j = None"
  shows "lro_inv (s\<lparr>heap := (heap s)[p := j]\<rparr>)"
proof -
  have "j_id ((heap s)[p := j] ! q) = j_id (heap s ! q)" for q
    using assms(2) by (cases "q = p"; cases "p < length (heap s)") (auto simp: list_update_beyond)
  moreover have "j_task ((heap s)[p := j] ! q) = None" if "q \<in> set (starting s)" for q
    using that assms(1,3) by (cases "q = p") (auto simp: lro_inv_def)
  ultimately show ?thesis using assms(1) by (auto simp: lro_inv_def)
qed

lemma inv_heap_append:
  assumes "lro_inv s"
  shows "lro_inv (s\<lparr>heap := heap s @ [j]\<rparr>)"
  using assms by (fastforce simp: lro_inv_def nth_append)

lemma inv_add:
  assumes "lro_inv s" and "freshID \<noteq> []"
  shows "lro_inv (snd (add_job freshID jobID name now s))"
proof -
  let ?id = "if jobID = [] then freshID else jobID"
  let ?j = "\<lparr>j_id = ?id, j_name = name, j_resp = None, j_err = None, j_task = None\<rparr>"
  let ?s1 = "s\<lparr>heap := heap s @ [?j]\<rparr>"
  have inv1: "lro_inv ?s1" by (rule inv_heap_append [OF assms(1)])
  show ?thesis
  proof (cases "getJob ?s1 ?id")
    case (Some tj)
    then show ?thesis using inv1 by (simp add: add_job_def AddJob_def Let_def getJob_def)
  next
    case None
    then have free: "getJob s ?id = None" by (simp add: getJob_def)
    have "length (heap s) \<notin> tj_job ` snd ` set (jobs s)" "length (heap s) \<notin> set (starting s)"
      using assms(1) by (auto simp: lro_inv_def)
    moreover have "?id \<notin> fst ` set (jobs s)" using free by (simp add: getJob_def map_of_eq_None_iff)
    ultimately show ?thesis
      using inv1 assms(2) AddJob_free [OF None, of "length (heap s)" now]
      by (simp add: add_job_def Let_def lro_inv_def set_jobs_AddJob [OF free]) (auto simp: image_image)
  qed
qed

lemma inv_delete_operation: "lro_inv s \<Longrightarrow> lro_inv (snd (DeleteOperation s name now))"
proof (cases "validateAndGetOperation s name")
  case (Inr tj)
  assume inv: "lro_inv s"
  from Inr have tj: "getJob s name = Some tj" by (simp add: validate_Inr)
  let ?tj = "tj\<lparr>tj_deleteTime := now\<rparr>"
  have keys: "map_of js name = Some tj \<Longrightarrow>
      map fst (AList.update name ?tj js) = map fst js \<and>
      map (tj_job \<circ> snd) (AList.update name ?tj js) = map (tj_job \<circ> snd) js" for js
    by (induction js) (auto split: if_splits)
  have entries: "(\<forall>(k, t)\<in>set js. P k (tj_job t)) \<longleftrightarrow>
      list_all2 P (map fst js) (map (tj_job \<circ> snd) js)" for P and js :: "(string \<times> ttlJob) list"
    by (induction js) auto
  show ?thesis
    using inv keys [of "jobs s"] tj
    by (simp add: DeleteOperation_def Inr lro_inv_def getJob_def
        entries [of _ "\<lambda>k p. k \<noteq> [] \<and> p < length (heap s) \<and> j_id (heap s ! p) = k"])
qed (simp add: DeleteOperation_def)

lemma inv_expire:
  assumes "lro_inv s" and "DeleteExpiredJobs now d c s = Some s'"
  shows "lro_inv s'"
proof -
  from assms(2) obtain js where js: "expire_loop (heap s) now d c (jobs s) = Some js" "s' = s\<lparr>jobs := js\<rparr>"
    by (auto simp: DeleteExpiredJobs_def)
  with assms(1) expire_loop_distinct [OF js(1)] show ?thesis
    by (auto simp: lro_inv_def dest!: expire_loop_set [OF js(1)])
qed

lemma lro_inv_step: "lro_step s s' \<Longrightarrow> lro_inv s \<Longrightarrow> lro_inv s'"
proof (induction rule: lro_step.induct)
  case (Create freshID s jobID name now)
  then show ?case by (simp add: inv_add)
next
  case (Started ptr s)
  have "lro_inv (s\<lparr>starting := remove1 ptr (starting s)\<rparr>)"
    using Started.prems by (auto simp: lro_inv_def notin_set_remove1 dest: in_set_remove1 [THEN iffD1])
  from inv_heap_update [OF this, of "Job_start (heap s ! ptr)" ptr] show ?case
    using Started.prems by (simp add: start_job_def lro_inv_def)
next
  case (Finish ptr s M out)
  then have "ptr \<notin> set (starting s)" by (auto simp: lro_inv_def IsDone_def)
  with Finish show ?case unfolding finish_job_def by (intro inv_heap_update) auto
next
  case (Cancelled s name e s')
  then show ?case
  proof (cases "validateAndGetOperation s name")
    case (Inr tj)
    with Cancelled.hyps obtain j where j: "Job_Cancel (heap s ! tj_job tj) = Some j"
      "s' = s\<lparr>heap := (heap s)[tj_job tj := j]\<rparr>" by (auto simp: CancelOperation_def)
    then have "tj_job tj \<notin> set (starting s)" "j_id j = j_id (heap s ! tj_job tj)"
      using Cancelled.prems by (auto simp: lro_inv_def Job_Cancel_def)
    with Cancelled.prems show ?thesis unfolding j(2) by (intro inv_heap_update) auto
  qed (simp add: CancelOperation_def)
next
  case (Deleted s name now)
  then show ?case by (simp add: inv_delete_operation)
next
  case (Expire now s s')
  then show ?case by (simp add: inv_expire)
qed

lemma lro_inv_reachable: "lro_reachable s \<Longrightarrow> lro_inv s"
proof (induction rule: rtranclp_induct)
  case base
  then show ?case by (simp add: NewServer_def lro_inv_def)
qed (rule lro_inv_step)

lemma heap_evolves_step: "lro_step s s' \<Longrightarrow> lro_inv s \<Longrightarrow> heap_evolves (heap s) (heap s')"
proof (induction rule: lro_step.induct)
  case (Create freshID s jobID name now)
  then show ?case
    by (auto simp: add_job_def AddJob_def Let_def heap_evolves_append)
next
  case (Started ptr s)
  then show ?case
    by (auto simp: start_job_def lro_inv_def intro!: heap_evolves_update job_evolves_start)
next
  case (Finish ptr s M out)
  then show ?case by (auto simp: finish_job_def intro!: heap_evolves_update job_evolves_body)
next
  case (Cancelled s name e s')
  then show ?case
    by (auto simp: CancelOperation_def split: sum.splits intro!: heap_evolves_update job_evolves_cancel)
next
  case (Deleted s name now)
  then show ?case by (simp add: DeleteOperation_def split: sum.splits)
next
  case (Expire now s s')
  then show ?case by (auto simp: DeleteExpiredJobs_def)
qed

lemma heap_evolves_steps:
  assumes "lro_step\<^sup>*\<^sup>* s s'" and "lro_inv s"
  shows "heap_evolves (heap s) (heap s') \<and> lro_inv s'"
  using assms
  by (induction rule: rtranclp_induct) (auto intro: heap_evolves_trans heap_evolves_step lro_inv_step)

subsection \<open>Paging\<close>

lemma list_loop_eq:
  assumes "0 \<le> n" and "int (length page) \<le> n"
  shows "list_loop ks tok n page =
    (let fs = filter (\<lambda>k. tok = [] \<or> tok \<le> k) ks; m = nat n - length page
     in (page @ take m fs, if m < length fs then fs ! m else []))"
  using assms(2)
proof (induction ks arbitrary: page)
  case (Cons k ks)
  show ?case
  proof (cases "tok = [] \<or> tok \<le> k")
    case True
    show ?thesis
    proof (cases "int (length page) = n")
      case False
      then have "nat n - length page = Suc (nat n - length (page @ [k]))" using Cons.prems by simp
      with True False Cons.prems Cons.IH [of "page @ [k]"] show ?thesis by (auto simp: Let_def)
    qed (use True in \<open>auto simp: Let_def\<close>)
  qed (use Cons in \<open>auto simp: Let_def\<close>)
qed simp

text \<open>A client that asks for page after page, starting from \<open>tok\<close>.\<close>

fun all_pages :: "nat \<Rightarrow> lro_state \<Rightarrow> int \<Rightarrow> string \<Rightarrow> string list option" where
  "all_pages 0 s n tok = None"
| "all_pages (Suc fuel) s n tok =
     (case ListOperations_ids s n tok of
        (page, nextID) \<Rightarrow>
          if nextID = [] then Some page else map_option ((@) page) (all_pages fuel s n nextID))"

lemma filter_from:
  assumes "sorted ks" and "distinct ks" and "i < length ks"
  shows "filter (\<lambda>k. ks ! i \<le> k) ks = drop i ks"
proof -
  have "filter (\<lambda>k. ks ! i \<le> k) (take i ks) = []"
    using assms by (auto simp: filter_empty_conv in_set_conv_nth)
      (metis antisym nat_less_le nth_eq_iff_index_eq order_less_trans sorted_nth_mono)
  moreover have "filter (\<lambda>k. ks ! i \<le> k) (drop i ks) = drop i ks"
    using assms by (auto intro!: filter_True simp: in_set_conv_nth sorted_nth_mono)
  ultimately show ?thesis by (metis append_Nil append_take_drop_id filter_append)
qed

lemma ListOperations_ids_drop:
  assumes "sortedMapKeys (jobs s) = ks" and "distinct ks" and "0 < n"
    and "tok = [] \<and> i = 0 \<or> i < length ks \<and> tok = ks ! i"
  shows "ListOperations_ids s n tok =
    (take (nat n) (drop i ks), if i + nat n < length ks then ks ! (i + nat n) else [])"
proof -
  have "sorted ks" using assms(1) by (auto simp: sortedMapKeys_def)
  then have "filter (\<lambda>k. tok = [] \<or> tok \<le> k) ks = drop i ks"
    using assms(2,4) filter_from [of ks i] by (cases "tok = []") (auto split: if_splits)
  with assms(1,3) show ?thesis
    by (auto simp: ListOperations_ids_def list_loop_eq Let_def add.commute)
qed

lemma all_pages_drop:
  assumes "sortedMapKeys (jobs s) = ks" and "distinct ks" and "[] \<notin> set ks" and "0 < n"
    and "tok = [] \<and> i = 0 \<or> i < length ks \<and> tok = ks ! i" and "length ks - i < fuel"
  shows "all_pages fuel s n tok = Some (drop i ks)"
  using assms(5,6)
proof (induction fuel arbitrary: tok i)
  case (Suc fuel)
  note page = ListOperations_ids_drop [OF assms(1,2,4) Suc.prems(1)]
  show ?case
  proof (cases "i + nat n < length ks")
    case False
    with page show ?thesis by simp
  next
    case True
    then have "ks ! (i + nat n) \<noteq> []" using assms(3) by (metis nth_mem)
    moreover have "all_pages fuel s n (ks ! (i + nat n)) = Some (drop (i + nat n) ks)"
      using True Suc.prems assms(4) by (intro Suc.IH) auto
    ultimately show ?thesis
      using page True by simp (metis add.commute append_take_drop_id drop_drop)
  qed
qed simp

subsection \<open>Properties\<close>

definition sample_lro :: lro_state where
  "sample_lro = finish_job Inr (ReturnsAny ''ok'' None) 0 (start_job 0 (snd (add_job ''f'' ''a'' ''n'' 1 NewServer)))"

lemma sample_lro_eq:
  "sample_lro = \<lparr>jobs = [(''a'', \<lparr>tj_job = 0, tj_startTime = 1, tj_completeTime = 0, tj_deleteTime = 0\<rparr>)],
     heap = [\<lparr>j_id = ''a'', j_name = ''n'', j_resp = Some ''ok'', j_err = None,
       j_task = Some \<lparr>t_cancelled = False, t_closed = True\<rparr>\<rparr>], starting = []\<rparr>"
  by (simp add: sample_lro_def add_job_def AddJob_def start_job_def finish_job_def run_body_def
      NewServer_def Job_start_def detach_Go_def Let_def)

lemma sample_lro_reachable: "lro_reachable sample_lro"
proof -
  let ?s1 = "snd (add_job ''f'' ''a'' ''n'' 1 NewServer)"
  have "lro_step NewServer ?s1" by (rule lro_step.Create) simp
  moreover have "lro_step ?s1 (start_job 0 ?s1)"
    by (rule lro_step.Started) (simp add: add_job_def AddJob_def NewServer_def Let_def)
  moreover have "lro_step (start_job 0 ?s1) sample_lro"
    unfolding sample_lro_def
    by (rule lro_step.Finish) (simp_all add: start_job_def add_job_def AddJob_def NewServer_def
        Job_start_def IsDone_def detach_Go_def Let_def)
  ultimately show ?thesis by (meson converse_rtranclp_into_rtranclp rtranclp.rtrancl_refl)
qed

text \<open>
  Once an operation is reported as done, every later report of the same job, whatever calls,
  cancellations and other jobs come in between, is the same: result and error never change.
\<close>

theorem GetOperation_stable:
  assumes "lro_reachable s" and "lro_step\<^sup>*\<^sup>* s s'"
    and "GetOperation s name = Some (Inr oper)" and "op_Done oper"
    and "getJob s name = Some tj" and "getJob s' name = Some tj'" and "tj_job tj' = tj_job tj"
  shows "GetOperation s' name = Some (Inr oper)"
proof -
  have inv: "lro_inv s" by (rule lro_inv_reachable [OF assms(1)])
  let ?p = "tj_job tj"
  have p: "name \<noteq> []" "?p < length (heap s)" using inv_tracked [OF inv assms(5)] by auto
  have ev: "job_evolves (heap s ! ?p) (heap s' ! ?p)"
    using heap_evolves_steps [OF assms(2) inv] p(2) by (auto simp: heap_evolves_def)
  have data: "GetOperationData name (heap s ! ?p) = Some oper"
    using assms(3,5) p(1) by (auto simp: GetOperation_def validateAndGetOperation_def)
  then have "IsDone (heap s ! ?p) = Some True"
    using assms(4)
    by (auto simp: GetOperationData_def Job_Status_def BuildOperation_def split: if_splits)
  with ev have "GetOperationData name (heap s' ! ?p) = Some oper"
    using data by (simp add: GetOperationData_def job_evolves_def)
  then show ?thesis using assms(6,7) p(1) by (simp add: GetOperation_def validateAndGetOperation_def)
qed

theorem GetOperation_stable_witness:
  "\<exists>s'. lro_step sample_lro s' \<and> GetOperation s' ''a'' =
     Some (Inr \<lparr>op_Name = ''a'', op_Done = True, op_Result = ResponseResult ''ok''\<rparr>)"
proof -
  let ?s' = "snd (DeleteOperation sample_lro ''a'' 2)"
  have step: "lro_step sample_lro ?s'" by (rule lro_step.Deleted)
  have "GetOperation sample_lro ''a'' =
      Some (Inr \<lparr>op_Name = ''a'', op_Done = True, op_Result = ResponseResult ''ok''\<rparr>)"
    by (simp add: sample_lro_eq GetOperation_def validateAndGetOperation_def getJob_def
        GetOperationData_def Job_Status_def IsDone_def BuildOperation_def)
  from GetOperation_stable [OF sample_lro_reachable r_into_rtranclp [of lro_step, OF step] this] step show ?thesis
    by (fastforce simp: sample_lro_eq DeleteOperation_def getJob_def validateAndGetOperation_def)
qed

text \<open>
  While no job is added or removed, asking \<open>ListOperations\<close> for page after page, with any positive
  page size, ends after at most one request more than there are jobs and returns every operation
  exactly once, sorted by id.
\<close>

theorem ListOperations_pages_complete:
  assumes "lro_reachable s" and "0 < n" and "length (jobs s) < fuel"
  shows "\<exists>ids. all_pages fuel s n [] = Some ids \<and> sorted ids \<and> distinct ids \<and> set ids = dom (getJob s)"
proof -
  have inv: "lro_inv s" by (rule lro_inv_reachable [OF assms(1)])
  let ?ks = "sortedMapKeys (jobs s)"
  have "all_pages fuel s n [] = Some (drop 0 ?ks)"
  proof (rule all_pages_drop [OF refl])
    show "distinct ?ks" "[] \<notin> set ?ks" "length ?ks - 0 < fuel"
      using inv assms(3) by (auto simp: sortedMapKeys_def lro_inv_def)
  qed (use assms(2) in simp_all)
  moreover have "set ?ks = dom (getJob s)"
    by (simp add: sortedMapKeys_def getJob_fun dom_map_of_conv_image_fst)
  ultimately show ?thesis using inv by (auto simp: sortedMapKeys_def lro_inv_def)
qed

theorem ListOperations_pages_complete_witness:
  "\<exists>ids. all_pages 2 sample_lro 1 [] = Some ids \<and> set ids = {''a''}"
  using ListOperations_pages_complete [OF sample_lro_reachable, of 1 2]
  by (auto simp: sample_lro_eq getJob_fun split: if_splits)

definition expires :: "go_time \<Rightarrow> duration \<Rightarrow> duration \<Rightarrow> Job \<Rightarrow> ttlJob \<Rightarrow> bool" where
  "expires now ttlDel ttlComp j tj \<longleftrightarrow>
     isDeletedJobExpired tj now ttlDel \<or>
     tj_completeTime tj \<noteq> 0 \<and> time_Sub now (tj_completeTime tj) > ttlComp"

lemma expire_entry_expires:
  assumes "expire_entry hp now d c tj = Some (tj', b)" and "0 \<le> c"
  shows "b = expires now d c (hp ! tj_job tj) tj \<and> tj_job tj' = tj_job tj \<and>
    tj_deleteTime tj' = tj_deleteTime tj"
  using assms
  by (auto simp: expire_entry_def expires_def Let_def time_Sub_def split: option.splits if_splits)

definition expiry_of ::
    "Job list \<Rightarrow> go_time \<Rightarrow> duration \<Rightarrow> duration \<Rightarrow> ttlJob option \<Rightarrow> ttlJob option \<Rightarrow> bool" where
  "expiry_of hp now ttlDel ttlComp old new =
     (case old of
        None \<Rightarrow> new = None
      | Some tj \<Rightarrow>
          if expires now ttlDel ttlComp (hp ! tj_job tj) tj then new = None
          else (\<exists>tj'. new = Some tj' \<and> tj_job tj' = tj_job tj \<and> tj_deleteTime tj' = tj_deleteTime tj))"

lemma expire_loop_exact:
  assumes "expire_loop hp now d c js = Some js'" and "0 \<le> c" and "distinct (map fst js)"
  shows "expiry_of hp now d c (map_of js k) (map_of js' k)"
  using assms(1,3)
proof (induction js arbitrary: js')
  case Nil
  then show ?case by (simp add: expiry_of_def)
next
  case (Cons e js)
  obtain k0 tj where e: "e = (k0, tj)" by fastforce
  from Cons.prems(1) e obtain tj' b js1 where
    x: "expire_entry hp now d c tj = Some (tj', b)" and l: "expire_loop hp now d c js = Some js1"
    and js': "js' = (if b then js1 else (k0, tj') # js1)" by (auto simp: expire_loop_Cons)
  have none: "map_of js1 k0 = None"
    using Cons.prems(2) e expire_loop_set [OF l] by (force simp: map_of_eq_None_iff image_iff)
  show ?case
  proof (cases "k = k0")
    case True
    with e js' none expire_entry_expires [OF x assms(2)] show ?thesis by (simp add: expiry_of_def)
  next
    case False
    with Cons.IH [OF l] Cons.prems(2) e js' show ?thesis by simp
  qed
qed

text \<open>
  When the expiry pass ends, it has kept exactly the jobs that were not deleted longer than the
  delete time-to-live ago and have not been known as complete for longer than the completion
  time-to-live, each with its job and delete time; a job that is still running is dropped all the
  same once it was deleted long enough ago.
\<close>

theorem DeleteExpiredJobs_exact:
  assumes "DeleteExpiredJobs now ttlDel ttlComp s = Some s'" and "0 \<le> ttlComp" and "lro_reachable s"
  shows "heap s' = heap s \<and> (\<forall>k. expiry_of (heap s) now ttlDel ttlComp (getJob s k) (getJob s' k))"
proof -
  from assms(1) obtain js where js: "expire_loop (heap s) now ttlDel ttlComp (jobs s) = Some js"
    "s' = s\<lparr>jobs := js\<rparr>" by (auto simp: DeleteExpiredJobs_def)
  have "distinct (map fst (jobs s))" using lro_inv_reachable [OF assms(3)] by (simp add: lro_inv_def)
  with js assms(2) show ?thesis by (simp add: getJob_fun expire_loop_exact)
qed

theorem DeleteExpiredJobs_exact_witness:
  "\<exists>s'. DeleteExpiredJobs 5 ttlAfterDelete ttlAfterComplete sample_lro = Some s' \<and> getJob s' ''a'' \<noteq> None"
proof -
  have "DeleteExpiredJobs 5 ttlAfterDelete ttlAfterComplete sample_lro = Some (sample_lro\<lparr>jobs :=
      [(''a'', \<lparr>tj_job = 0, tj_startTime = 1, tj_completeTime = 5, tj_deleteTime = 0\<rparr>)]\<rparr>)"
    by (simp add: DeleteExpiredJobs_def sample_lro_eq expire_loop.simps expire_entry_def IsDone_def
        isDeletedJobExpired_def time_Sub_def Let_def)
  with DeleteExpiredJobs_exact [OF this _ sample_lro_reachable] show ?thesis
    by (auto simp: getJob_fun)
qed

text \<open>
  \<open>AddJob\<close> makes a new job visible before \<open>start\<close> has set its task: there is a reachable state in
  which reporting it, listing the operations and the expiry pass all dereference a nil task.
\<close>

theorem GetOperation_before_start:
  "\<exists>s. lro_reachable s \<and> getJob s ''a'' \<noteq> None \<and> GetOperation s ''a'' = None \<and>
     ListOperations s 0 [] = None \<and> DeleteExpiredJobs now ttlAfterDelete ttlAfterComplete s = None"
proof -
  let ?s = "snd (add_job ''f'' ''a'' ''n'' 1 NewServer)"
  have s: "?s = \<lparr>jobs = [(''a'', \<lparr>tj_job = 0, tj_startTime = 1, tj_completeTime = 0, tj_deleteTime = 0\<rparr>)],
     heap = [\<lparr>j_id = ''a'', j_name = ''n'', j_resp = None, j_err = None, j_task = None\<rparr>], starting = [0]\<rparr>"
    by (simp add: add_job_def AddJob_def NewServer_def Let_def)
  have "lro_reachable ?s" by (rule r_into_rtranclp [of lro_step], rule lro_step.Create) simp
  then show ?thesis
    by (intro exI [of _ ?s]) (simp add: s getJob_def GetOperation_def validateAndGetOperation_def
        GetOperationData_def Job_Status_def IsDone_def ListOperations_def ListOperations_ids_def
        sortedMapKeys_def DeleteExpiredJobs_def expire_loop.simps expire_entry_def Let_def)
qed

subsection \<open>One job per id\<close>

text \<open>A job that was registered and has not ended, started yet or not.\<close>

definition running :: "lro_state \<Rightarrow> nat \<Rightarrow> bool" where
  "running s p \<longleftrightarrow> p < length (heap s) \<and> (p \<in> set (starting s) \<or> IsDone (heap s ! p) = Some False)"

text \<open>The clients delete an operation only when its job has ended, as the controllers do.\<close>

definition deleted_done :: "lro_state \<Rightarrow> bool" where
  "deleted_done s \<longleftrightarrow>
     (\<forall>k tj. getJob s k = Some tj \<and> tj_deleteTime tj \<noteq> 0 \<longrightarrow> IsDone (heap s ! tj_job tj) = Some True)"

definition careful_step :: "lro_state \<Rightarrow> lro_state \<Rightarrow> bool" where
  "careful_step s s' \<longleftrightarrow> lro_step s s' \<and> deleted_done s'"

abbreviation lro_careful :: "lro_state \<Rightarrow> bool" where
  "lro_careful s \<equiv> careful_step\<^sup>*\<^sup>* NewServer s"

text \<open>Entries known as complete are, and a job that has not ended is the one its id stands for.\<close>

definition registered :: "lro_state \<Rightarrow> bool" where
  "registered s \<longleftrightarrow>
     (\<forall>k tj. getJob s k = Some tj \<and> tj_completeTime tj \<noteq> 0 \<longrightarrow> IsDone (heap s ! tj_job tj) = Some True) \<and>
     (\<forall>p. running s p \<longrightarrow> (\<exists>tj. getJob s (j_id (heap s ! p)) = Some tj \<and> tj_job tj = p))"

lemma registered_heap:
  assumes "registered s" and "heap_evolves (heap s) (heap s')" and "lro_inv s"
    and "\<And>k tj'. getJob s' k = Some tj' \<Longrightarrow> \<exists>tj. getJob s k = Some tj \<and> tj_job tj = tj_job tj' \<and> tj_completeTime tj = tj_completeTime tj'"
    and "\<And>k tj. getJob s k = Some tj \<Longrightarrow> \<exists>tj'. getJob s' k = Some tj' \<and> tj_job tj' = tj_job tj"
    and "\<And>p. running s' p \<Longrightarrow> running s p"
  shows "registered s'"
  unfolding registered_def
proof (intro conjI allI impI)
  fix k tj'
  assume "getJob s' k = Some tj' \<and> tj_completeTime tj' \<noteq> 0"
  then obtain tj where tj: "getJob s k = Some tj" "tj_job tj = tj_job tj'" "tj_completeTime tj \<noteq> 0"
    using assms(4) by metis
  then have "IsDone (heap s ! tj_job tj') = Some True"
    using assms(1) unfolding registered_def by metis
  then show "IsDone (heap s' ! tj_job tj') = Some True"
    using assms(2) inv_tracked(2) [OF assms(3) tj(1)] tj(2) by (simp add: heap_evolves_def job_evolves_def)
next
  fix p
  assume "running s' p"
  then have p: "running s p" by (rule assms(6))
  then obtain tj where tj: "getJob s (j_id (heap s ! p)) = Some tj" "tj_job tj = p"
    using assms(1) unfolding registered_def by blast
  moreover have "j_id (heap s' ! p) = j_id (heap s ! p)"
    using assms(2) p by (simp add: heap_evolves_def job_evolves_def running_def)
  ultimately show "\<exists>tj. getJob s' (j_id (heap s' ! p)) = Some tj \<and> tj_job tj = p"
    using assms(5) [OF tj(1)] by auto
qed

lemma registered_add:
  assumes "registered s" and "lro_inv s" and "freshID \<noteq> []"
  shows "registered (snd (add_job freshID jobID name now s))"
proof -
  let ?id = "if jobID = [] then freshID else jobID"
  let ?s = "snd (add_job freshID jobID name now s)"
  show ?thesis
  proof (cases "getJob s ?id")
    case (Some tj)
    then have "heap ?s = heap s @ [\<lparr>j_id = ?id, j_name = name, j_resp = None, j_err = None, j_task = None\<rparr>]"
        "getJob ?s = getJob s" "starting ?s = starting s"
      by (auto simp: add_job_def AddJob_def Let_def getJob_def fun_eq_iff)
    then show ?thesis
      using assms(1,2) by (intro registered_heap [OF assms(1)])
        (auto simp: running_def heap_evolves_append nth_append IsDone_def lro_inv_def split: if_splits)
  next
    case None
    let ?n = "length (heap s)"
    have s: "heap ?s = heap s @ [\<lparr>j_id = ?id, j_name = name, j_resp = None, j_err = None, j_task = None\<rparr>]"
        "getJob ?s = (getJob s)(?id \<mapsto> \<lparr>tj_job = ?n, tj_startTime = now, tj_completeTime = 0, tj_deleteTime = 0\<rparr>)"
        "starting ?s = ?n # starting s"
      using None by (simp_all add: add_job_def AddJob_def Let_def getJob_def fun_eq_iff update_conv')
    have old: "p < ?n" if "getJob s k = Some tj" "tj_job tj = p" for k tj p
      using inv_tracked(2) [OF assms(2) that(1)] that(2) by simp
    have run: "running s p" if "running ?s p" "p \<noteq> ?n" for p
      using that by (auto simp: running_def s nth_append)
    show ?thesis
      unfolding registered_def
    proof (intro conjI allI impI)
      fix k tj
      assume "getJob ?s k = Some tj \<and> tj_completeTime tj \<noteq> 0"
      then show "IsDone (heap ?s ! tj_job tj) = Some True"
        using assms(1) old by (auto simp: s registered_def nth_append split: if_splits)
    next
      fix p
      assume p: "running ?s p"
      show "\<exists>tj. getJob ?s (j_id (heap ?s ! p)) = Some tj \<and> tj_job tj = p"
      proof (cases "p = ?n")
        case False
        with run [OF p] obtain tj where tj: "getJob s (j_id (heap s ! p)) = Some tj" "tj_job tj = p"
          using assms(1) unfolding registered_def by blast
        with None have "j_id (heap s ! p) \<noteq> ?id" by auto
        with tj False run [OF p] show ?thesis by (auto simp: s nth_append running_def)
      qed (simp add: s)
    qed
  qed
qed

lemma expire_entry_complete:
  assumes "expire_entry hp now d c tj = Some (tj', b)"
  shows "tj_completeTime tj' = tj_completeTime tj \<or> IsDone (hp ! tj_job tj) = Some True"
  using assms by (auto simp: expire_entry_def Let_def split: option.splits if_splits)

lemma expire_loop_complete:
  "expire_loop hp now d c js = Some js' \<Longrightarrow> (k, tj') \<in> set js' \<Longrightarrow>
     \<exists>tj. (k, tj) \<in> set js \<and> tj_job tj' = tj_job tj \<and>
       (tj_completeTime tj' = tj_completeTime tj \<or> IsDone (hp ! tj_job tj) = Some True)"
  by (induction js arbitrary: js')
    (fastforce simp: expire_loop_Cons dest: expire_entry_job expire_entry_complete split: if_splits)+

lemma registered_expire:
  assumes "registered s" and "lro_inv s" and "deleted_done s" and "DeleteExpiredJobs now d c s = Some s'" and "0 \<le> c"
  shows "registered s'"
proof -
  obtain js where js: "expire_loop (heap s) now d c (jobs s) = Some js" "s' = s\<lparr>jobs := js\<rparr>"
    using assms(4) by (auto simp: DeleteExpiredJobs_def)
  have dist: "distinct (map fst (jobs s))" "distinct (map fst js)"
    using assms(2) expire_loop_distinct [OF js(1)] by (auto simp: lro_inv_def)
  have keep: "\<exists>tj'. getJob s' k = Some tj' \<and> tj_job tj' = tj_job tj"
    if "getJob s k = Some tj" "IsDone (heap s ! tj_job tj) \<noteq> Some True" for k tj
    using expire_loop_exact [OF js(1) assms(5) dist(1), of k] that assms(1,3)
    by (auto simp: expiry_of_def expires_def isDeletedJobExpired_def deleted_done_def registered_def getJob_def js(2) split: if_splits)
  have ended: "IsDone (heap s' ! tj_job tj') = Some True" if "getJob s' k = Some tj'" "tj_completeTime tj' \<noteq> 0" for k tj'
  proof -
    have "(k, tj') \<in> set js" using getJob_in [OF that(1)] js(2) by simp
    then obtain tj where "(k, tj) \<in> set (jobs s)" "tj_job tj' = tj_job tj"
        "tj_completeTime tj' = tj_completeTime tj \<or> IsDone (heap s ! tj_job tj) = Some True"
      using expire_loop_complete [OF js(1)] by blast
    then show ?thesis
      using assms(1) that(2) dist(1) by (auto simp: registered_def getJob_def js(2))
  qed
  show ?thesis
    unfolding registered_def
  proof (intro conjI allI impI)
    fix p
    assume "running s' p"
    then have p: "running s p" by (simp add: running_def js(2))
    then obtain tj where tj: "getJob s (j_id (heap s ! p)) = Some tj" "tj_job tj = p"
      using assms(1) unfolding registered_def by blast
    have "IsDone (heap s ! p) \<noteq> Some True"
      using p assms(2) by (auto simp: running_def lro_inv_def IsDone_def)
    with keep tj show "\<exists>tj. getJob s' (j_id (heap s' ! p)) = Some tj \<and> tj_job tj = p"
      by (fastforce simp: js(2))
  qed (use ended in blast)
qed

lemma running_update:
  assumes "running (s\<lparr>heap := (heap s)[p := j], starting := st\<rparr>) q" and "set st \<subseteq> set (starting s)"
    and "IsDone j = Some False \<Longrightarrow> p \<in> set (starting s) \<or> IsDone (heap s ! p) = Some False"
  shows "running s q"
  using assms by (cases "q = p") (auto simp: running_def)

lemma registered_step:
  assumes "lro_step s s'" and "lro_inv s" and "deleted_done s" and "registered s"
  shows "registered s'"
  using assms(1)
proof cases
  case (Create freshID jobID name now)
  then show ?thesis using registered_add assms by simp
next
  case (Expire now)
  then show ?thesis using registered_expire assms by simp
next
  case (Started ptr)
  have "running s q" if "running s' q" for q
    using that Started running_update [where s = s and p = ptr and j = "Job_start (heap s ! ptr)" and st = "remove1 ptr (starting s)" and q = q]
    by (auto simp: start_job_def set_remove1_subset)
  then show ?thesis
    using Started heap_evolves_step [OF assms(1,2)] by (intro registered_heap [OF assms(4) _ assms(2)]) (auto simp: start_job_def getJob_def)
next
  case (Finish ptr M out)
  have "running s q" if "running s' q" for q
    using that Finish running_update [where s = s and p = ptr and j = "run_body M out (heap s ! ptr)" and st = "starting s" and q = q]
    by (auto simp: finish_job_def IsDone_def j_task_body)
  then show ?thesis
    using Finish heap_evolves_step [OF assms(1,2)] by (intro registered_heap [OF assms(4) _ assms(2)]) (auto simp: finish_job_def getJob_def)
next
  case (Cancelled name e)
  show ?thesis
  proof (cases "validateAndGetOperation s name")
    case (Inr tj)
    with Cancelled obtain j where j: "Job_Cancel (heap s ! tj_job tj) = Some j" "s' = s\<lparr>heap := (heap s)[tj_job tj := j]\<rparr>"
      by (auto simp: CancelOperation_def)
    have "running s q" if "running s' q" for q
      using that j running_update [where s = s and p = "tj_job tj" and j = j and st = "starting s" and q = q]
      by (auto simp: Job_Cancel_def IsDone_def task_Cancel_def)
    then show ?thesis
      using j heap_evolves_step [OF assms(1,2)] by (intro registered_heap [OF assms(4) _ assms(2)]) (auto simp: getJob_def)
  qed (use Cancelled assms in \<open>simp add: CancelOperation_def\<close>)
next
  case (Deleted name now)
  show ?thesis
  proof (cases "validateAndGetOperation s name")
    case (Inr tj)
    then show ?thesis
      using Deleted validate_Inr [OF Inr] heap_evolves_step [OF assms(1,2)]
      by (intro registered_heap [OF assms(4) _ assms(2)]) (auto simp: DeleteOperation_def getJob_def update_conv' running_def split: if_splits)
  qed (use Deleted assms in \<open>simp add: DeleteOperation_def\<close>)
qed

lemma careful_inv: "lro_careful s \<Longrightarrow> lro_inv s \<and> deleted_done s \<and> registered s"
proof (induction rule: rtranclp_induct)
  case base
  then show ?case
    by (simp add: NewServer_def lro_inv_def deleted_done_def registered_def running_def getJob_def)
next
  case (step s s')
  then show ?case using lro_inv_step registered_step by (auto simp: careful_step_def)
qed

text \<open>
  C24: While operations are deleted only after their jobs have ended, as the controllers do, at most one job runs under an id at any
  time, however requests, starts, ends, cancellations, deletions and expiry interleave; and it is the job the server reports on and
  cancels under that id.
\<close>

theorem one_running_job_per_id:
  assumes "lro_careful s" and "running s p"
  shows "\<exists>tj. getJob s (j_id (heap s ! p)) = Some tj \<and> tj_job tj = p \<and>
    (\<forall>q. running s q \<and> j_id (heap s ! q) = j_id (heap s ! p) \<longrightarrow> q = p)"
proof -
  have reg: "\<exists>tj. getJob s (j_id (heap s ! q)) = Some tj \<and> tj_job tj = q" if "running s q" for q
    using careful_inv [OF assms(1)] that by (simp add: registered_def)
  obtain tj where tj: "getJob s (j_id (heap s ! p)) = Some tj" "tj_job tj = p"
    using reg [OF assms(2)] by blast
  moreover have "q = p" if "running s q" "j_id (heap s ! q) = j_id (heap s ! p)" for q
    using reg [OF that(1)] that(2) tj by auto
  ultimately show ?thesis by blast
qed

definition busy_lro :: lro_state where
  "busy_lro = snd (add_job ''g'' ''a'' ''again'' 2 (start_job 0 (snd (add_job ''f'' ''a'' ''n'' 1 NewServer))))"

lemma busy_lro_eq:
  "busy_lro = \<lparr>jobs = [(''a'', \<lparr>tj_job = 0, tj_startTime = 1, tj_completeTime = 0, tj_deleteTime = 0\<rparr>)],
     heap = [\<lparr>j_id = ''a'', j_name = ''n'', j_resp = None, j_err = None, j_task = Some \<lparr>t_cancelled = False, t_closed = False\<rparr>\<rparr>,
             \<lparr>j_id = ''a'', j_name = ''again'', j_resp = None, j_err = None, j_task = None\<rparr>], starting = []\<rparr>"
  by (simp add: busy_lro_def add_job_def AddJob_def start_job_def NewServer_def Job_start_def detach_Go_def Let_def)

lemma busy_lro_careful: "lro_careful busy_lro"
proof -
  let ?s1 = "snd (add_job ''f'' ''a'' ''n'' 1 NewServer)"
  let ?s2 = "start_job 0 ?s1"
  have "lro_step NewServer ?s1" "lro_step ?s2 busy_lro"
    unfolding busy_lro_def by (auto intro: lro_step.Create)
  moreover have "lro_step ?s1 ?s2"
    by (rule lro_step.Started) (simp add: add_job_def AddJob_def NewServer_def Let_def)
  moreover have "deleted_done ?s1" "deleted_done ?s2" "deleted_done busy_lro"
    by (auto simp: deleted_done_def getJob_def busy_lro_eq)
       (auto simp: add_job_def AddJob_def start_job_def NewServer_def Let_def split: if_splits)
  ultimately have "careful_step NewServer ?s1" "careful_step ?s1 ?s2" "careful_step ?s2 busy_lro"
    unfolding careful_step_def by blast+
  then show ?thesis by (meson converse_rtranclp_into_rtranclp rtranclp.rtrancl_refl)
qed

theorem one_running_job_per_id_witness:
  "running busy_lro 0 \<and> \<not> running busy_lro 1 \<and> (\<exists>tj. getJob busy_lro ''a'' = Some tj \<and> tj_job tj = 0)"
proof -
  have "running busy_lro 0" "\<not> running busy_lro 1" "j_id (heap busy_lro ! 0) = ''a''"
    by (auto simp: running_def busy_lro_eq IsDone_def)
  then show ?thesis
    using one_running_job_per_id [OF busy_lro_careful, of 0] by auto
qed

end
