(* ===== verification/GoStd.thy ===== *)
theory GoStd
  imports Prelude
begin

text \<open>
  What the instance controller uses of Go's standard library beyond the prelude:
  \<open>strings.ToLower\<close>, \<open>strings.SplitN\<close>, \<open>strconv.ParseInt\<close>, the text of a \<open>time.Duration\<close>, and dates:
  \<open>time.Time.Format\<close> for the layouts \<open>20060102\<close> and RFC 3339 in a location, and \<open>time.Parse\<close> for
  RFC 3339. Go maps of strings that may be nil are the type \<open>gomap\<close>.
\<close>

subsection \<open>Maps\<close>

type_synonym gomap = "(string \<rightharpoonup> string) option"

text \<open>Reading a map: the zero value for a key that is absent, and from a nil map.\<close>

definition map_get :: "gomap \<Rightarrow> string \<Rightarrow> string" where
  "map_get m k = (case m of None \<Rightarrow> [] | Some f \<Rightarrow> (case f k of None \<Rightarrow> [] | Some v \<Rightarrow> v))"

definition map_has :: "gomap \<Rightarrow> string \<Rightarrow> bool" where
  "map_has m k = (case m of None \<Rightarrow> False | Some f \<Rightarrow> f k \<noteq> None)"

subsection \<open>Strings\<close>

definition lower_char :: "char \<Rightarrow> char" where
  "lower_char c = (let n = of_char c :: nat in if 65 \<le> n \<and> n \<le> 90 then char_of (n + 32) else c)"

definition ToLower :: "string \<Rightarrow> string" where
  "ToLower s = map lower_char s"

text \<open>\<open>strings.SplitN(s, ".", 2)[1]\<close> for an \<open>s\<close> that contains a dot: what follows the first one.\<close>

fun after_dot :: "string \<Rightarrow> string" where
  "after_dot [] = []"
| "after_dot (c # s) = (if c = CHR ''.'' then s else after_dot s)"

subsection \<open>Integers\<close>

definition digit_val :: "char \<Rightarrow> int option" where
  "digit_val c = (let n = of_char c :: nat in if 48 \<le> n \<and> n \<le> 57 then Some (int n - 48) else None)"

fun digits_val :: "string \<Rightarrow> int \<Rightarrow> int option" where
  "digits_val [] acc = Some acc"
| "digits_val (c # s) acc =
     (case digit_val c of None \<Rightarrow> None | Some d \<Rightarrow> digits_val s (acc * 10 + d))"

definition unsigned_val :: "string \<Rightarrow> int option" where
  "unsigned_val s = (if s = [] then None else digits_val s 0)"

text \<open>\<open>strconv.ParseInt(s, 10, 64)\<close>: an optional sign and decimal digits, within the range of int64.\<close>

definition ParseInt :: "string \<Rightarrow> go_error + int" where
  "ParseInt s =
     (let v = (case s of
                 [] \<Rightarrow> None
               | c # r \<Rightarrow> if c = CHR ''-'' then map_option uminus (unsigned_val r)
                          else if c = CHR ''+'' then unsigned_val r else unsigned_val s)
      in case v of
           None \<Rightarrow> Inl (Errorf (''strconv.ParseInt: parsing '' @ s @ '': invalid syntax''))
         | Some n \<Rightarrow> if n < min_int64 \<or> max_int64 < n
             then Inl (Errorf (''strconv.ParseInt: parsing '' @ s @ '': value out of range''))
             else Inr n)"

definition pad :: "nat \<Rightarrow> int \<Rightarrow> string" where
  "pad w n = (let d = itoa n in replicate (w - length d) (CHR ''0'') @ d)"

subsection \<open>Durations\<close>

fun drop_zeros :: "string \<Rightarrow> string" where
  "drop_zeros [] = []"
| "drop_zeros (c # s) = (if c = CHR ''0'' then drop_zeros s else c # s)"

text \<open>The fraction \<open>.ddd\<close> of \<open>n / 10^w\<close>, without trailing zeros and without the dot if it is zero.\<close>

definition frac :: "nat \<Rightarrow> int \<Rightarrow> string" where
  "frac w n = (let s = rev (drop_zeros (rev (pad w n))) in if s = [] then [] else ''.'' @ s)"

definition duration_String :: "duration \<Rightarrow> string" where
  "duration_String d =
     (let u = abs d;
          body = (if u = 0 then ''0s''
                  else if u < 1000 then itoa u @ ''ns''
                  else if u < 1000000 then itoa (u div 1000) @ frac 3 (u mod 1000) @ [CHR 0xC2, CHR 0xB5, CHR ''s'']
                  else if u < Second then itoa (u div 1000000) @ frac 6 (u mod 1000000) @ ''ms''
                  else (let s = u div Second; m = s div 60; h = m div 60 in
                        (if h > 0 then itoa h @ ''h'' else []) @
                        (if m > 0 then itoa (m mod 60) @ ''m'' else []) @
                        itoa (s mod 60) @ frac 9 (u mod Second) @ ''s''))
      in if d < 0 then ''-'' @ body else body)"

subsection \<open>Dates\<close>

abbreviation Day :: duration where "Day \<equiv> 86400000000000"

text \<open>The proleptic Gregorian date of a day number, day 0 being 1 January of the year 1: the days are
  counted from 1 March of the year 0, in eras of 400 years.\<close>

definition civil_from_days :: "int \<Rightarrow> int \<times> int \<times> int" where
  "civil_from_days days =
     (let z = days + 306;
          era = z div 146097;
          doe = z mod 146097;
          yoe = (doe - doe div 1460 + doe div 36524 - doe div 146096) div 365;
          doy = doe - (365 * yoe + yoe div 4 - yoe div 100);
          mp = (5 * doy + 2) div 153;
          d = doy - (153 * mp + 2) div 5 + 1;
          m = (if mp < 10 then mp + 3 else mp - 9)
      in (yoe + era * 400 + (if m \<le> 2 then 1 else 0), m, d))"

definition days_from_civil :: "int \<Rightarrow> int \<Rightarrow> int \<Rightarrow> int" where
  "days_from_civil year m d =
     (let y = (if m \<le> 2 then year - 1 else year);
          era = y div 400;
          yoe = y mod 400;
          doy = (153 * (if m > 2 then m - 3 else m + 9) + 2) div 5 + d - 1;
          doe = yoe * 365 + yoe div 4 - yoe div 100 + doy
      in era * 146097 + doe - 306)"

definition days_in_month :: "int \<Rightarrow> int \<Rightarrow> int" where
  "days_in_month y m =
     (if m = 2 then (if y mod 4 = 0 \<and> (y mod 100 \<noteq> 0 \<or> y mod 400 = 0) then 29 else 28)
      else if m = 4 \<or> m = 6 \<or> m = 9 \<or> m = 11 then 30 else 31)"

text \<open>
  A \<open>time.Location\<close> is the offset from UTC it has at each instant. Times are formatted in their location, which
  for \<open>time.Now\<close> and for times decoded by \<open>metav1.Time\<close> is \<open>time.Local\<close>. Neither the images nor the manifests
  of the operator and its agents set a time zone, so local time in their containers is UTC: that is assumed in the
  definition of \<open>time_Local\<close> and nowhere else.
\<close>

type_synonym location = "go_time \<Rightarrow> duration"

definition time_UTC :: location where
  "time_UTC = (\<lambda>_. 0)"

definition time_Local :: location where
  "time_Local = time_UTC"

definition in_zone :: "location \<Rightarrow> go_time \<Rightarrow> go_time" where
  "in_zone loc t = t + loc t"

lemma in_zone_Local [simp]: "in_zone time_UTC t = t" "in_zone time_Local t = t"
  by (simp_all add: in_zone_def time_Local_def time_UTC_def)

text \<open>\<open>time.Date(y, m, d, 0, 0, 0, 0, loc)\<close> and its like: the instant at which clocks in the location show a civil
  time, given as nanoseconds.\<close>

definition time_Date :: "location \<Rightarrow> go_time \<Rightarrow> go_time" where
  "time_Date loc t = (if loc t = 0 then t else t - loc (t - loc t))"

definition Format_date :: "location \<Rightarrow> go_time \<Rightarrow> string" where
  "Format_date loc t = (case civil_from_days (in_zone loc t div Day) of (y, m, d) \<Rightarrow> pad 4 y @ pad 2 m @ pad 2 d)"

definition zone_text :: "duration \<Rightarrow> string" where
  "zone_text off =
     (let z = \<bar>off\<bar> div (60 * Second) in
      if off = 0 then ''Z''
      else (if off < 0 \<and> 0 < z then ''-'' else ''+'') @ pad 2 (z div 60) @ '':'' @ pad 2 (z mod 60))"

definition Format_RFC3339 :: "location \<Rightarrow> go_time \<Rightarrow> string" where
  "Format_RFC3339 loc t =
     (let s = (in_zone loc t mod Day) div Second in
      case civil_from_days (in_zone loc t div Day) of
        (y, m, d) \<Rightarrow> pad 4 y @ ''-'' @ pad 2 m @ ''-'' @ pad 2 d @ ''T'' @
          pad 2 (s div 3600) @ '':'' @ pad 2 (s div 60 mod 60) @ '':'' @ pad 2 (s mod 60) @ zone_text (loc t))"

definition time_Nanosecond :: "go_time \<Rightarrow> int" where
  "time_Nanosecond t = t mod Second"

text \<open>\<open>time.Parse(time.RFC3339, s)\<close>: date, time with an optional fraction of a second, and \<open>Z\<close> or a
  numeric offset, each field with its range.\<close>

definition field :: "nat \<Rightarrow> string \<Rightarrow> int \<Rightarrow> int \<Rightarrow> (int \<times> string) option" where
  "field w s lo hi =
     (if length s < w then None
      else case unsigned_val (take w s) of
             None \<Rightarrow> None
           | Some v \<Rightarrow> if lo \<le> v \<and> v \<le> hi then Some (v, drop w s) else None)"

definition lit :: "char \<Rightarrow> string \<Rightarrow> string option" where
  "lit c s = (case s of [] \<Rightarrow> None | d # r \<Rightarrow> if c = d then Some r else None)"

definition is_dec :: "char \<Rightarrow> bool" where
  "is_dec c = (digit_val c \<noteq> None)"

definition fraction :: "string \<Rightarrow> (int \<times> string) option" where
  "fraction s =
     (case s of
        c # r \<Rightarrow>
          if c = CHR ''.'' \<or> c = CHR '','' then
            (let ds = takeWhile is_dec r; nine = take 9 (ds @ replicate 9 (CHR ''0'')) in
             if ds = [] then None else map_option (\<lambda>v. (v, dropWhile is_dec r)) (unsigned_val nine))
          else Some (0, s)
      | [] \<Rightarrow> Some (0, s))"

definition zone :: "string \<Rightarrow> duration option" where
  "zone s =
     (if s = ''Z'' then Some 0
      else case s of
        [] \<Rightarrow> None
      | c # r \<Rightarrow> if c = CHR ''+'' \<or> c = CHR ''-'' then
          Option.bind (field 2 r 0 24) (\<lambda>(h, r). Option.bind (lit (CHR '':'') r) (\<lambda>r.
          Option.bind (field 2 r 0 60) (\<lambda>(m, r).
            if r = [] then Some ((if c = CHR ''+'' then 1 else -1) * (h * 3600 + m * 60) * Second) else None)))
        else None)"

definition Parse_RFC3339_opt :: "string \<Rightarrow> go_time option" where
  "Parse_RFC3339_opt s =
     Option.bind (field 4 s 0 9999) (\<lambda>(y, s). Option.bind (lit (CHR ''-'') s) (\<lambda>s.
     Option.bind (field 2 s 1 12) (\<lambda>(m, s). Option.bind (lit (CHR ''-'') s) (\<lambda>s.
     Option.bind (field 2 s 1 (days_in_month y m)) (\<lambda>(d, s). Option.bind (lit (CHR ''T'') s) (\<lambda>s.
     Option.bind (field 2 s 0 23) (\<lambda>(hh, s). Option.bind (lit (CHR '':'') s) (\<lambda>s.
     Option.bind (field 2 s 0 59) (\<lambda>(mm, s). Option.bind (lit (CHR '':'') s) (\<lambda>s.
     Option.bind (field 2 s 0 59) (\<lambda>(ss, s). Option.bind (fraction s) (\<lambda>(ns, s).
     map_option (\<lambda>off. days_from_civil y m d * Day + (hh * 3600 + mm * 60 + ss) * Second + ns - off)
       (zone s)))))))))))))"

definition Parse_RFC3339 :: "string \<Rightarrow> go_error + go_time" where
  "Parse_RFC3339 s =
     (case Parse_RFC3339_opt s of
        None \<Rightarrow> Inl (Errorf (''parsing time '' @ s))
      | Some t \<Rightarrow> Inr t)"

end
