(* ===== verification/Instance.thy ===== *)
theory Instance
  imports Conditions Maintenance Lro GoStd
begin

text \<open>
  The objects the instance controller works on: the instance
  (\<open>oracle/api/v1alpha1/instance_types.go\<close> over \<open>common/api/v1alpha1/instance.go\<close>), disks, the
  operator's config, backups and PITR objects, and the parts of the Kubernetes objects the code
  reads and builds. A \<open>resource.Quantity\<close> is its integer value.

  The handlers of the instance controller take an environment \<open>inst_env\<close>, whose fields are the
  answers of the API server and of the database daemon as functions of the log of the calls made so
  far, and the in-memory object, and return the object and the log as they are at the end.
  A Go map that may be nil is a \<open>gomap\<close>; \<open>reflect.DeepEqual\<close> tells a nil map from an empty one, and
  so does equality here. An object passed by value shares its condition slice with the caller's, so
  an \<open>Upsert\<close> of a condition that exists is visible to the caller.
\<close>

subsection \<open>Custom resources\<close>

record DiskSpec =
  ds_Name :: string
  ds_Size :: int
  ds_StorageClass :: string
  ds_Annotations :: gomap

record ConfigSpec =
  cfg_Images :: gomap
  cfg_Platform :: string
  cfg_Disks :: "DiskSpec list option"
  cfg_StorageClass :: string
  cfg_VolumeSnapshotClass :: string
  cfg_LogLevel :: gomap

record BackupReference =
  bref_Namespace :: string
  bref_Name :: string

record PITRReference =
  pref_Namespace :: string
  pref_Name :: string

record PITRRestoreSpec =
  prs_Incarnation :: string
  prs_Timestamp :: "go_time option"
  prs_SCN :: string
  prs_PITRRef :: "PITRReference option"

record RestoreSpec =
  rs_BackupType :: string
  rs_BackupID :: string
  rs_BackupRef :: "BackupReference option"
  rs_PITRRestore :: "PITRRestoreSpec option"
  rs_Dop :: int
  rs_TimeLimitMinutes :: int
  rs_Force :: bool
  rs_RequestTime :: go_time

record ResourceRequirements =
  rr_Limits :: "(string \<rightharpoonup> int) option"
  rr_Requests :: "(string \<rightharpoonup> int) option"

text \<open>The credential of the primary's user is its reference to the secret manager: project, secret and version.\<close>

record ReplicationSettings =
  rep_PrimaryHost :: string
  rep_PrimaryPort :: int
  rep_PrimaryServiceName :: string
  rep_PrimaryUser :: string
  rep_GsmSecretRef :: "(string \<times> string \<times> string) option"
  rep_PasswordFileURI :: string
  rep_BackupURI :: string

record InstanceSpec =
  is_Images :: gomap
  is_Disks :: "DiskSpec list option"
  is_RetainDisks :: bool
  is_Parameters :: gomap
  is_Services :: "string \<Rightarrow> bool"
  is_DatabaseResources :: ResourceRequirements
  is_MaintenanceWindow :: "MaintenanceWindowSpec option"
  is_DatabasePatchingTimeout :: "duration option"
  is_Restore :: "RestoreSpec option"
  is_DatabaseUID :: "int option"
  is_DatabaseGID :: "int option"
  is_Tolerations :: "string list"
  is_Affinity :: "string option"
  is_CDBName :: string
  is_DBUniqueName :: string
  is_DBDomain :: string
  is_Mode :: string
  is_IsStopped :: "bool option"
  is_EnableDnfs :: bool
  is_ReplicationSettings :: "ReplicationSettings option"
  is_CharacterSet :: string
  is_MemoryPercent :: int
  is_Version :: string

text \<open>The output of Data Guard: when it was read, and its lines.\<close>

record InstanceStatus =
  ist_Conditions :: "Condition list"
  ist_Description :: string
  ist_ObservedGeneration :: int
  ist_IsChangeApplied :: "ConditionStatus option"
  ist_BackupID :: string
  ist_LastRestoreTime :: "go_time option"
  ist_CurrentParameters :: gomap
  ist_LastFailedParameterUpdate :: gomap
  ist_LastDatabaseIncarnation :: string
  ist_CurrentDatabaseIncarnation :: string
  ist_ActiveImages :: gomap
  ist_LastFailedImages :: gomap
  ist_CurrentActiveStateMachine :: string
  ist_LockedByController :: string
  ist_DatabaseNames :: "string list"
  ist_Endpoint :: string
  ist_URL :: string
  ist_DnfsEnabled :: bool
  ist_CurrentReplicationSettings :: "ReplicationSettings option"
  ist_DataGuardOutput :: "(go_time \<times> string list) option"

record Instance =
  inst_Name :: string
  inst_Namespace :: string
  inst_UID :: string
  inst_Generation :: int
  inst_DeletionTimestamp :: "go_time option"
  inst_Finalizers :: "string list"
  inst_Labels :: gomap
  inst_Spec :: InstanceSpec
  inst_Status :: InstanceStatus

abbreviation inst_cond :: "Instance \<Rightarrow> string \<Rightarrow> Condition option" where
  "inst_cond inst name \<equiv> FindCondition (ist_Conditions (inst_Status inst)) name"

definition InstanceUpsertCondition ::
    "go_time \<Rightarrow> Instance \<Rightarrow> string \<Rightarrow> ConditionStatus \<Rightarrow> string \<Rightarrow> string \<Rightarrow> Instance" where
  "InstanceUpsertCondition v1Now inst name status reason message =
     inst\<lparr>inst_Status := (inst_Status inst)
       \<lparr>ist_Conditions := Upsert v1Now (ist_Conditions (inst_Status inst)) name status reason message\<rparr>\<rparr>"

record Backup =
  bk_Name :: string
  bk_Namespace :: string
  bk_Labels :: gomap
  bk_Annotations :: gomap
  bk_Type :: string
  bk_Subtype :: string
  bk_Backupset :: "bool option"
  bk_Dop :: int
  bk_LocalPath :: string
  bk_GcsPath :: string
  bk_GcsDir :: string
  bk_Conditions :: "Condition list"
  bk_BackupID :: string

text \<open>\<open>Spec.InstanceRef\<close> of a PITR object is a pointer the schema of the resource requires: it is the
  name it holds.\<close>

record PITR =
  pitr_Name :: string
  pitr_Namespace :: string
  pitr_InstanceRef :: string
  pitr_StorageURI :: string
  pitr_CurrentDatabaseIncarnation :: string

subsection \<open>Kubernetes objects\<close>

record PersistentVolumeClaim =
  pvc_Namespace :: string
  pvc_Name :: string
  pvc_Annotations :: gomap
  pvc_OwnerReferences :: "string list"
  pvc_Storage :: int
  pvc_Capacity :: int
  pvc_StorageClassName :: "string option"
  pvc_DataSource :: "string option"

record VolumeMount =
  vm_Name :: string
  vm_MountPath :: string
  vm_ReadOnly :: bool

record Container =
  c_Name :: string
  c_Image :: string
  c_Resources :: ResourceRequirements
  c_Command :: "string list"
  c_Args :: "string list"
  c_Env :: "(string \<times> string) list"
  c_EnvFrom :: "string list"
  c_Ports :: "(string \<times> string \<times> int) list"
  c_VolumeMounts :: "VolumeMount list"
  c_AllowPrivilegeEscalation :: bool
  c_Drop :: "string list"
  c_RunAs :: "(int \<times> int \<times> bool) option"
  c_ImagePullPolicy :: string

text \<open>A downward API volume with one item: path, container, resource and divisor.\<close>

datatype VolumeSource = EmptyDir | DownwardAPI string string string int

record PodTemplate =
  pt_Labels :: "(string \<times> string) list"
  pt_Namespace :: string
  pt_Containers :: "Container list"
  pt_InitContainers :: "Container list"
  pt_Volumes :: "(string \<times> VolumeSource) list"
  pt_RunAsUser :: int
  pt_RunAsGroup :: int
  pt_FSGroup :: int
  pt_RunAsNonRoot :: bool
  pt_ShareProcessNamespace :: bool
  pt_Tolerations :: "string list"
  pt_Affinity :: "string option"

record StatefulSet =
  sts_Namespace :: string
  sts_Name :: string
  sts_DeletionTimestamp :: "go_time option"
  sts_Replicas :: "int option"
  sts_MatchLabels :: "(string \<times> string) list"
  sts_Template :: PodTemplate
  sts_VolumeClaimTemplates :: "PersistentVolumeClaim list"
  sts_CurrentReplicas :: int
  sts_ReadyReplicas :: int

record PodCondition =
  pc_Type :: string
  pc_Status :: string
  pc_Reason :: string
  pc_Message :: string

record Pod =
  pod_Name :: string
  pod_Phase :: string
  pod_Conditions :: "PodCondition list"
  pod_ContainerStatuses :: "(string \<times> bool) list"
  pod_InitContainerStatuses :: "(string \<times> bool) list"

text \<open>\<open>snap_Error\<close> is the message of the error, if both are non-nil.\<close>

record SnapshotStatus =
  snap_Error :: "string option"
  snap_ReadyToUse :: "bool option"

text \<open>\<open>controllers.StsParams\<close> without the logger and the scheme. Its pointer \<open>Inst\<close> is an argument of
  the functions that follow it.\<close>

record StsParams =
  sp_Namespace :: string
  sp_Images :: gomap
  sp_SvcName :: string
  sp_StsName :: string
  sp_PrivEscalation :: bool
  sp_ConfigMap :: string
  sp_Restore :: "RestoreSpec option"
  sp_Disks :: "DiskSpec list"
  sp_Config :: "ConfigSpec option"

record PhysicalRestoreRequest =
  prr_InstanceName :: string
  prr_CdbName :: string
  prr_Dop :: int
  prr_LocalPath :: string
  prr_GcsPath :: string
  prr_OperationId :: string
  prr_LogGcsPath :: string
  prr_Incarnation :: string
  prr_BackupIncarnation :: string
  prr_StartTime :: "go_time option"
  prr_EndTime :: "go_time option"
  prr_StartScn :: int
  prr_EndScn :: int

record BootstrapDatabaseRequest =
  bdr_CdbName :: string
  bdr_DbUniqueName :: string
  bdr_Dbdomain :: string
  bdr_Mode :: string

subsection \<open>The environment\<close>

datatype inst_event = NormalEvent | WarningEvent

record CreateCDBRequest =
  cdb_OracleHome :: string
  cdb_Sid :: string
  cdb_DbUniqueName :: string
  cdb_CharacterSet :: string
  cdb_MemoryPercent :: int
  cdb_AdditionalParams :: "string list"
  cdb_Version :: string
  cdb_DbDomain :: string
  cdb_OperationId :: string

text \<open>The calls that only the main reconcile loop and the standby state machine make. A custom resource of a
  migrated database is its namespace, its name, the instance, and the users with their privileges.\<close>

type_synonym migrated_pdb = "string \<times> (string \<times> string list) list"

datatype ctl_call =
    CGetInstance
  | CListConfigs string
  | CApplyConfigMap string string
  | CApplyService string string
  | CDeleteService string string
  | CGetDeployment string string
  | CDeleteDeployment string string
  | CMonitoringDeployment string string int gomap
  | CGetDatabase string string
  | CDeleteDatabase string string
  | CCreateDatabase string string migrated_pdb
  | CApplyDatabase string string migrated_pdb
  | CListDatabases string
  | CPauseLock string
  | CFetchImageMetaData
  | CCreateCDB CreateCDBRequest
  | CBootstrapCDB BootstrapDatabaseRequest string
  | CFetchIncarnation
  | CSetDnfs bool
  | CShutdown string
  | CStartup string
  | CVerifyStandby ReplicationSettings string string string
  | CCreateStandby ReplicationSettings string string int string
  | CSetUpDataGuard ReplicationSettings string string
  | CPromoteStandby ReplicationSettings string string
  | CDataGuardStatus string
  | CBootstrapStandby string string string

datatype inst_call =
    IStatusUpdate Instance
  | IUpdate Instance
  | IEvent inst_event string string
  | IListSTS string
  | IListPods string "(string \<times> string) list"
  | IGetSTS string string
  | IDeleteSTS string string
  | IApplySTS StatefulSet
  | ICreateOrUpdateSTS StatefulSet
  | IGetPVC string string
  | IDeletePVC string string
  | IPatchPVC string string int
  | IGetStorageClass string
  | IApplySnapshot string string string
  | IGetSnapshot string string
  | IGetService string string
  | IListBackups string "(string \<times> string) list"
  | IGetBackup string string
  | IListPITR string
  | IGetPITR string string
  | IReconcileMonitoring gomap
  | ICheckStatus string
  | IApplyDataPatch string
  | IGetLRO string
  | IDeleteLRO string
  | IPhysicalRestore PhysicalRestoreRequest
  | IBootstrapDatabase BootstrapDatabaseRequest
  | ISetParameter string string
  | IGetParameterTypeValue "string list"
  | IBounceDatabase string
  | IRecoverConfigFile string
  | ICtl ctl_call

type_synonym inst_log = "inst_call list"

text \<open>\<open>ie_ctl\<close> has the answers to the calls of \<open>ctl_call\<close>, named after
  them; an object that is read only to see whether it exists is no answer, and \<open>ce_ApplyService\<close> answers with the
  ingress points of the service. \<open>ce_marshal\<close> is the JSON text of the settings. The log has the latest call last. Each field gives the answer to a call made when the log is as
  given: an error or the object read. \<open>ie_StatusUpdate\<close> is the API server's \<open>Status().Update\<close>;
  \<open>ie_Update\<close> returns the object the server answers with, which replaces the caller's.
  \<open>ie_SetControllerReference\<close> and \<open>ie_Memory\<close> are the library's \<open>ctrl.SetControllerReference\<close> and
  \<open>ResourceList.Memory\<close>. \<open>ie_range\<close> is the order in which Go happens to range over a map.\<close>

record ctl_env =
  ce_Images :: gomap
  ce_GetInstance :: "inst_log \<Rightarrow> go_error + Instance"
  ce_ListConfigs :: "inst_log \<Rightarrow> string \<Rightarrow> go_error + ConfigSpec list"
  ce_ApplyConfigMap :: "inst_log \<Rightarrow> string \<Rightarrow> go_error option"
  ce_ApplyService :: "inst_log \<Rightarrow> string \<Rightarrow> go_error + string list"
  ce_DeleteService :: "inst_log \<Rightarrow> string \<Rightarrow> go_error option"
  ce_GetDeployment :: "inst_log \<Rightarrow> string \<Rightarrow> go_error option"
  ce_DeleteDeployment :: "inst_log \<Rightarrow> string \<Rightarrow> go_error option"
  ce_MonitoringDeployment :: "inst_log \<Rightarrow> string \<Rightarrow> int \<Rightarrow> go_error option"
  ce_GetDatabase :: "inst_log \<Rightarrow> string \<Rightarrow> go_error option"
  ce_DeleteDatabase :: "inst_log \<Rightarrow> string \<Rightarrow> go_error option"
  ce_CreateDatabase :: "inst_log \<Rightarrow> migrated_pdb \<Rightarrow> go_error option"
  ce_ApplyDatabase :: "inst_log \<Rightarrow> migrated_pdb \<Rightarrow> go_error option"
  ce_FetchImageMetaData :: "inst_log \<Rightarrow> go_error + bool"
  ce_CreateCDB :: "inst_log \<Rightarrow> CreateCDBRequest \<Rightarrow> go_error + Operation"
  ce_BootstrapCDB :: "inst_log \<Rightarrow> BootstrapDatabaseRequest \<Rightarrow> string \<Rightarrow> go_error + Operation"
  ce_FetchIncarnation :: "inst_log \<Rightarrow> go_error + string"
  ce_SetDnfs :: "inst_log \<Rightarrow> bool \<Rightarrow> go_error option"
  ce_Shutdown :: "inst_log \<Rightarrow> string \<Rightarrow> go_error option"
  ce_Startup :: "inst_log \<Rightarrow> string \<Rightarrow> go_error option"
  ce_VerifyStandby :: "inst_log \<Rightarrow> ReplicationSettings \<Rightarrow> go_error + (string \<times> string) list"
  ce_CreateStandby :: "inst_log \<Rightarrow> ReplicationSettings \<Rightarrow> string \<Rightarrow> go_error + Operation"
  ce_SetUpDataGuard :: "inst_log \<Rightarrow> ReplicationSettings \<Rightarrow> string \<Rightarrow> go_error option"
  ce_PromoteStandby :: "inst_log \<Rightarrow> ReplicationSettings \<Rightarrow> string \<Rightarrow> go_error option"
  ce_DataGuardStatus :: "inst_log \<Rightarrow> string \<Rightarrow> go_error + string list"
  ce_BootstrapStandby :: "inst_log \<Rightarrow> go_error + migrated_pdb list"
  ce_marshal :: "ReplicationSettings option \<Rightarrow> string"

record inst_env =
  ie_now :: "inst_log \<Rightarrow> go_time"
  ie_range :: "inst_log \<Rightarrow> gomap \<Rightarrow> (string \<times> string) list"
  ie_SetControllerReference :: "Instance \<Rightarrow> string \<Rightarrow> go_error option"
  ie_Memory :: "(string \<rightharpoonup> int) \<Rightarrow> int option"
  ie_StatusUpdate :: "inst_log \<Rightarrow> Instance \<Rightarrow> go_error option"
  ie_Update :: "inst_log \<Rightarrow> Instance \<Rightarrow> go_error + Instance"
  ie_ListSTS :: "inst_log \<Rightarrow> string \<Rightarrow> go_error + StatefulSet list"
  ie_ListPods :: "inst_log \<Rightarrow> string \<Rightarrow> (string \<times> string) list \<Rightarrow> go_error + Pod list"
  ie_GetSTS :: "inst_log \<Rightarrow> string \<Rightarrow> string \<Rightarrow> go_error + StatefulSet"
  ie_DeleteSTS :: "inst_log \<Rightarrow> string \<Rightarrow> string \<Rightarrow> go_error option"
  ie_ApplySTS :: "inst_log \<Rightarrow> StatefulSet \<Rightarrow> go_error option"
  ie_CreateOrUpdateSTS :: "inst_log \<Rightarrow> StatefulSet \<Rightarrow> go_error option"
  ie_GetPVC :: "inst_log \<Rightarrow> string \<Rightarrow> string \<Rightarrow> go_error + PersistentVolumeClaim"
  ie_DeletePVC :: "inst_log \<Rightarrow> string \<Rightarrow> string \<Rightarrow> go_error option"
  ie_PatchPVC :: "inst_log \<Rightarrow> string \<Rightarrow> string \<Rightarrow> int \<Rightarrow> go_error option"
  ie_GetStorageClass :: "inst_log \<Rightarrow> string \<Rightarrow> go_error + bool option"
  ie_ApplySnapshot :: "inst_log \<Rightarrow> string \<Rightarrow> string \<Rightarrow> string \<Rightarrow> go_error option"
  ie_GetSnapshot :: "inst_log \<Rightarrow> string \<Rightarrow> string \<Rightarrow> go_error + SnapshotStatus option"
  ie_GetService :: "inst_log \<Rightarrow> string \<Rightarrow> string \<Rightarrow> go_error + string list"
  ie_ListBackups :: "inst_log \<Rightarrow> string \<Rightarrow> (string \<times> string) list \<Rightarrow> go_error + Backup list"
  ie_GetBackup :: "inst_log \<Rightarrow> string \<Rightarrow> string \<Rightarrow> go_error + Backup"
  ie_ListPITR :: "inst_log \<Rightarrow> string \<Rightarrow> go_error + PITR list"
  ie_GetPITR :: "inst_log \<Rightarrow> string \<Rightarrow> string \<Rightarrow> go_error + PITR"
  ie_ReconcileMonitoring :: "inst_log \<Rightarrow> Instance \<Rightarrow> gomap \<Rightarrow> ctrl_Result \<times> go_error option"
  ie_CheckStatus :: "inst_log \<Rightarrow> Instance \<Rightarrow> go_error + string"
  ie_ApplyDataPatch :: "inst_log \<Rightarrow> string \<Rightarrow> go_error option"
  ie_GetLRO :: "inst_log \<Rightarrow> string \<Rightarrow> go_error + Operation"
  ie_DeleteLRO :: "inst_log \<Rightarrow> string \<Rightarrow> go_error option"
  ie_PhysicalRestore :: "inst_log \<Rightarrow> PhysicalRestoreRequest \<Rightarrow> go_error + Operation"
  ie_BootstrapDatabase :: "inst_log \<Rightarrow> BootstrapDatabaseRequest \<Rightarrow> go_error option"
  ie_SetParameter :: "inst_log \<Rightarrow> string \<Rightarrow> string \<Rightarrow> go_error + bool"
  ie_GetParameterTypeValue :: "inst_log \<Rightarrow> string list \<Rightarrow> go_error + string list \<times> string list"
  ie_BounceDatabase :: "inst_log \<Rightarrow> string \<Rightarrow> go_error option"
  ie_RecoverConfigFile :: "inst_log \<Rightarrow> string \<Rightarrow> go_error option"
  ie_ctl :: ctl_env

definition upsert ::
    "inst_env \<Rightarrow> inst_log \<Rightarrow> Instance \<Rightarrow> string \<Rightarrow> ConditionStatus \<Rightarrow> string \<Rightarrow> string \<Rightarrow> Instance" where
  "upsert env l inst name status reason message =
     InstanceUpsertCondition (ie_now env l) inst name status reason message"

text \<open>What a handler returns: the object, the log, the result, the error, and whether the handler
  has dealt with the request.\<close>

type_synonym handler_result = "Instance \<times> inst_log \<times> ctrl_Result \<times> go_error option \<times> bool"

lemma cond_InstanceUpsertCondition [simp]:
  "reason_of (ist_Conditions (inst_Status (InstanceUpsertCondition now inst name st r m))) n =
     (if n = name then r else reason_of (ist_Conditions (inst_Status inst)) n)"
  by (simp add: InstanceUpsertCondition_def)

lemma upsert_fields [simp]:
  "reason_of (ist_Conditions (inst_Status (upsert env l inst name st r m))) n =
     (if n = name then r else reason_of (ist_Conditions (inst_Status inst)) n)"
  "inst_Spec (upsert env l inst name st r m) = inst_Spec inst"
  "inst_Name (upsert env l inst name st r m) = inst_Name inst"
  "inst_Namespace (upsert env l inst name st r m) = inst_Namespace inst"
  "inst_UID (upsert env l inst name st r m) = inst_UID inst"
  "ist_CurrentActiveStateMachine (inst_Status (upsert env l inst name st r m)) =
     ist_CurrentActiveStateMachine (inst_Status inst)"
  "ist_LockedByController (inst_Status (upsert env l inst name st r m)) =
     ist_LockedByController (inst_Status inst)"
  "ist_ActiveImages (inst_Status (upsert env l inst name st r m)) = ist_ActiveImages (inst_Status inst)"
  "ist_LastFailedImages (inst_Status (upsert env l inst name st r m)) =
     ist_LastFailedImages (inst_Status inst)"
  "ist_BackupID (inst_Status (upsert env l inst name st r m)) = ist_BackupID (inst_Status inst)"
  "ist_LastRestoreTime (inst_Status (upsert env l inst name st r m)) =
     ist_LastRestoreTime (inst_Status inst)"
  by (simp_all add: upsert_def InstanceUpsertCondition_def)

lemma cond_upsert [simp]:
  "ConditionStatusEquals (inst_cond (upsert env l inst name st r m) name) st' = (st = st')"
  "ConditionReasonEquals (inst_cond (upsert env l inst name st r m) name) r' = (r = r')"
  by (simp_all add: upsert_def InstanceUpsertCondition_def)

text \<open>The instance and the environment the evaluations use: every call succeeds, the stateful set and its
  pod are running, and every other named object is absent.\<close>

definition sample_instance :: Instance where
  "sample_instance =
     \<lparr>inst_Name = ''mydb'', inst_Namespace = ''db'', inst_UID = ''uid-1'', inst_Generation = 1,
      inst_DeletionTimestamp = None, inst_Finalizers = [''oracle.db.anthosapis.com''], inst_Labels = None,
      inst_Spec = \<lparr>is_Images = Some [''service'' \<mapsto> ''v2''],
        is_Disks = Some [\<lparr>ds_Name = ''DataDisk'', ds_Size = 0, ds_StorageClass = [], ds_Annotations = None\<rparr>,
                         \<lparr>ds_Name = ''LogDisk'', ds_Size = 0, ds_StorageClass = [], ds_Annotations = None\<rparr>],
        is_RetainDisks = False, is_Parameters = None, is_Services = (\<lambda>s. s = ''Patching''),
        is_DatabaseResources = \<lparr>rr_Limits = None, rr_Requests = None\<rparr>, is_MaintenanceWindow = None,
        is_DatabasePatchingTimeout = None, is_Restore = None, is_DatabaseUID = None, is_DatabaseGID = None,
        is_Tolerations = [], is_Affinity = None, is_CDBName = ''GCLOUD'', is_DBUniqueName = [], is_DBDomain = [],
        is_Mode = [], is_IsStopped = None, is_EnableDnfs = False, is_ReplicationSettings = None, is_CharacterSet = [],
        is_MemoryPercent = 0, is_Version = []\<rparr>,
      inst_Status = \<lparr>ist_Conditions =
          [\<lparr>Type = k8s_Ready, Status = ConditionTrue, LastTransitionTime = 0, Reason = k8s_CreateComplete, Message = []\<rparr>,
           \<lparr>Type = k8s_DatabaseInstanceReady, Status = ConditionTrue, LastTransitionTime = 0,
            Reason = k8s_CreateComplete, Message = []\<rparr>],
        ist_Description = [], ist_ObservedGeneration = 1, ist_IsChangeApplied = Some ConditionTrue, ist_BackupID = [],
        ist_LastRestoreTime = None, ist_CurrentParameters = None, ist_LastFailedParameterUpdate = None,
        ist_LastDatabaseIncarnation = [], ist_CurrentDatabaseIncarnation = ''1'',
        ist_ActiveImages = Some [''service'' \<mapsto> ''v1''], ist_LastFailedImages = None,
        ist_CurrentActiveStateMachine = [], ist_LockedByController = [], ist_DatabaseNames = [],
        ist_Endpoint = [], ist_URL = [], ist_DnfsEnabled = False, ist_CurrentReplicationSettings = None,
        ist_DataGuardOutput = None\<rparr>\<rparr>"

definition sample_sts :: StatefulSet where
  "sample_sts =
     \<lparr>sts_Namespace = ''db'', sts_Name = ''mydb-sts'', sts_DeletionTimestamp = None, sts_Replicas = Some 1,
      sts_MatchLabels = [],
      sts_Template = \<lparr>pt_Labels = [], pt_Namespace = ''db'', pt_Containers = [], pt_InitContainers = [], pt_Volumes = [],
        pt_RunAsUser = 0, pt_RunAsGroup = 0, pt_FSGroup = 0, pt_RunAsNonRoot = True, pt_ShareProcessNamespace = True,
        pt_Tolerations = [], pt_Affinity = None\<rparr>,
      sts_VolumeClaimTemplates = [], sts_CurrentReplicas = 1, sts_ReadyReplicas = 1\<rparr>"

definition sample_pod :: Pod where
  "sample_pod =
     \<lparr>pod_Name = ''mydb-sts-0'', pod_Phase = ''Running'', pod_Conditions = [], pod_ContainerStatuses = [],
      pod_InitContainerStatuses = []\<rparr>"

definition sample_ctl :: ctl_env where
  "sample_ctl =
     \<lparr>ce_Images = Some [''service'' \<mapsto> ''v1''], ce_GetInstance = (\<lambda>_. Inr sample_instance), ce_ListConfigs = (\<lambda>_ _. Inr []),
      ce_ApplyConfigMap = (\<lambda>_ _. None), ce_ApplyService = (\<lambda>_ _. Inr [''10.0.0.1'']), ce_DeleteService = (\<lambda>_ _. None),
      ce_GetDeployment = (\<lambda>_ _. Some (GoError NotFound ''not found'')), ce_DeleteDeployment = (\<lambda>_ _. None),
      ce_MonitoringDeployment = (\<lambda>_ _ _. None), ce_GetDatabase = (\<lambda>_ _. Some (GoError NotFound ''not found'')),
      ce_DeleteDatabase = (\<lambda>_ _. None), ce_CreateDatabase = (\<lambda>_ _. None), ce_ApplyDatabase = (\<lambda>_ _. None),
      ce_FetchImageMetaData = (\<lambda>_. Inr False),
      ce_CreateCDB = (\<lambda>_ req. Inr \<lparr>op_Name = cdb_OperationId req, op_Done = False, op_Result = NoResult\<rparr>),
      ce_BootstrapCDB = (\<lambda>_ _ id. Inr \<lparr>op_Name = id, op_Done = False, op_Result = NoResult\<rparr>),
      ce_FetchIncarnation = (\<lambda>_. Inr ''1''), ce_SetDnfs = (\<lambda>_ _. None), ce_Shutdown = (\<lambda>_ _. None), ce_Startup = (\<lambda>_ _. None),
      ce_VerifyStandby = (\<lambda>_ _. Inr []),
      ce_CreateStandby = (\<lambda>_ _ id. Inr \<lparr>op_Name = id, op_Done = True, op_Result = ResponseResult []\<rparr>),
      ce_SetUpDataGuard = (\<lambda>_ _ _. None), ce_PromoteStandby = (\<lambda>_ _ _. None), ce_DataGuardStatus = (\<lambda>_ _. Inr []),
      ce_BootstrapStandby = (\<lambda>_. Inr []), ce_marshal = (\<lambda>_. [])\<rparr>"

definition sample_env :: inst_env where
  "sample_env =
     \<lparr>ie_now = (\<lambda>_. 0),
      ie_range = (\<lambda>_ m. []),
      ie_SetControllerReference = (\<lambda>_ _. None),
      ie_Memory = (\<lambda>r. Some (case r ''memory'' of None \<Rightarrow> 0 | Some n \<Rightarrow> n)),
      ie_StatusUpdate = (\<lambda>_ _. None),
      ie_Update = (\<lambda>_ inst. Inr inst),
      ie_ListSTS = (\<lambda>_ _. Inr [sample_sts]),
      ie_ListPods = (\<lambda>_ _ _. Inr [sample_pod]),
      ie_GetSTS = (\<lambda>_ _ _. Inr sample_sts),
      ie_DeleteSTS = (\<lambda>_ _ _. None),
      ie_ApplySTS = (\<lambda>_ _. None),
      ie_CreateOrUpdateSTS = (\<lambda>_ _. None),
      ie_GetPVC = (\<lambda>_ _ _. Inl (GoError NotFound ''not found'')),
      ie_DeletePVC = (\<lambda>_ _ _. None),
      ie_PatchPVC = (\<lambda>_ _ _ _. None),
      ie_GetStorageClass = (\<lambda>_ _. Inr (Some True)),
      ie_ApplySnapshot = (\<lambda>_ _ _ _. None),
      ie_GetSnapshot = (\<lambda>_ _ _. Inr (Some \<lparr>snap_Error = None, snap_ReadyToUse = Some True\<rparr>)),
      ie_GetService = (\<lambda>_ _ _. Inr [''10.0.0.1'']),
      ie_ListBackups = (\<lambda>_ _ _. Inr []),
      ie_GetBackup = (\<lambda>_ _ _. Inl (GoError NotFound ''not found'')),
      ie_ListPITR = (\<lambda>_ _. Inr []),
      ie_GetPITR = (\<lambda>_ _ _. Inl (GoError NotFound ''not found'')),
      ie_ReconcileMonitoring = (\<lambda>_ _ _. (Result_zero, None)),
      ie_CheckStatus = (\<lambda>_ _. Inr ''Ready''),
      ie_ApplyDataPatch = (\<lambda>_ _. None),
      ie_GetLRO = (\<lambda>_ id. Inr \<lparr>op_Name = id, op_Done = True, op_Result = ResponseResult []\<rparr>),
      ie_DeleteLRO = (\<lambda>_ _. None),
      ie_PhysicalRestore = (\<lambda>_ req. Inr \<lparr>op_Name = prr_OperationId req, op_Done = False, op_Result = NoResult\<rparr>),
      ie_BootstrapDatabase = (\<lambda>_ _. None),
      ie_SetParameter = (\<lambda>_ _ _. Inr False),
      ie_GetParameterTypeValue = (\<lambda>_ ks. Inr (map (\<lambda>_. ''IMMEDIATE'') ks, map (\<lambda>_. []) ks)),
      ie_BounceDatabase = (\<lambda>_ _. None),
      ie_RecoverConfigFile = (\<lambda>_ _. None),
      ie_ctl = sample_ctl\<rparr>"

end
