(* ===== verification/Resources.thy ===== *)
theory Resources
  imports Instance
begin

text \<open>
  Building the database's stateful set: \<open>oracle/controllers/resources.go\<close> and
  \<open>oracle/controllers/common.go\<close>, with the lookups of disk sizes, storage classes and platforms of
  \<open>common/pkg/utils/utils.go\<close>. The pointer \<open>sp.Inst\<close> of \<open>StsParams\<close> is the argument \<open>pinst\<close>.

  What is shown: every volume a container mounts is a volume of the pod or a claim of the stateful
  set, claims have distinct names when the disks have distinct mount points, and a restore takes each
  claim from the snapshot the backup made of the same disk.
\<close>

subsection \<open>Disks and platforms\<close>

abbreviation PlatformGCP :: string where "PlatformGCP \<equiv> ''GCP''"
abbreviation PlatformBareMetal :: string where "PlatformBareMetal \<equiv> ''BareMetal''"
abbreviation PlatformMinikube :: string where "PlatformMinikube \<equiv> ''Minikube''"
abbreviation PlatformKind :: string where "PlatformKind \<equiv> ''Kind''"
abbreviation EnginePostgres :: string where "EnginePostgres \<equiv> ''Postgres''"
abbreviation EngineOracle :: string where "EngineOracle \<equiv> ''Oracle''"

abbreviation Gi :: int where "Gi \<equiv> 1073741824"

record platformConfig =
  storageClassName :: string
  volumeSnapshotClassName :: string

definition getPlatformConfig :: "string \<Rightarrow> string \<Rightarrow> go_error + platformConfig" where
  "getPlatformConfig p e =
     (if p = [] \<and> e = EnginePostgres then Inr \<lparr>storageClassName = [], volumeSnapshotClassName = []\<rparr>
      else if p = PlatformGCP
      then Inr \<lparr>storageClassName = ''standard-rwo'', volumeSnapshotClassName = ''csi-gce-pd-snapshot-class''\<rparr>
      else if p = PlatformBareMetal
      then Inr \<lparr>storageClassName = ''csi-trident'', volumeSnapshotClassName = ''csi-trident-snapshot-class''\<rparr>
      else if p = PlatformMinikube \<or> p = PlatformKind
      then Inr \<lparr>storageClassName = ''csi-hostpath-sc'', volumeSnapshotClassName = ''csi-hostpath-snapclass''\<rparr>
      else Inl (Errorf (''the current release doesn't support deployment platform '' @ p)))"

definition DefaultDiskSpecs :: "string \<rightharpoonup> DiskSpec" where
  "DefaultDiskSpecs =
     [''DataDisk'' \<mapsto> \<lparr>ds_Name = ''DataDisk'', ds_Size = 100 * Gi, ds_StorageClass = [], ds_Annotations = None\<rparr>,
      ''LogDisk'' \<mapsto> \<lparr>ds_Name = ''LogDisk'', ds_Size = 150 * Gi, ds_StorageClass = [], ds_Annotations = None\<rparr>,
      ''BackupDisk'' \<mapsto> \<lparr>ds_Name = ''BackupDisk'', ds_Size = 100 * Gi, ds_StorageClass = [], ds_Annotations = None\<rparr>]"

definition defaultDiskMountLocations :: "string \<rightharpoonup> string" where
  "defaultDiskMountLocations = [''DataDisk'' \<mapsto> ''u02'', ''LogDisk'' \<mapsto> ''u03'', ''BackupDisk'' \<mapsto> ''u04'']"

definition defaultDiskSize :: int where
  "defaultDiskSize = 100 * Gi"

definition defaultDisks :: "DiskSpec list" where
  "defaultDisks =
     [\<lparr>ds_Name = ''DataDisk'', ds_Size = 100 * Gi, ds_StorageClass = [], ds_Annotations = None\<rparr>,
      \<lparr>ds_Name = ''LogDisk'', ds_Size = 150 * Gi, ds_StorageClass = [], ds_Annotations = None\<rparr>]"

definition config_disks :: "ConfigSpec \<Rightarrow> DiskSpec list" where
  "config_disks c = (case cfg_Disks c of None \<Rightarrow> [] | Some ds \<Rightarrow> ds)"

text \<open>The loops over the config's disks stop at the first one with the disk's name.\<close>

fun first_disk :: "string \<Rightarrow> DiskSpec list \<Rightarrow> DiskSpec option" where
  "first_disk name [] = None"
| "first_disk name (d # ds) = (if ds_Name d = name then Some d else first_disk name ds)"

definition FindDiskSize ::
    "DiskSpec \<Rightarrow> ConfigSpec option \<Rightarrow> (string \<rightharpoonup> DiskSpec) \<Rightarrow> int \<Rightarrow> int" where
  "FindDiskSize diskSpec configSpec defaultSpecs defaultSize =
     (let fallback = (case defaultSpecs (ds_Name diskSpec) of Some spec \<Rightarrow> ds_Size spec | None \<Rightarrow> defaultSize)
      in if ds_Size diskSpec \<noteq> 0 then ds_Size diskSpec
         else case configSpec of
             None \<Rightarrow> fallback
           | Some c \<Rightarrow> (case first_disk (ds_Name diskSpec) (config_disks c) of
                          Some d \<Rightarrow> if ds_Size d \<noteq> 0 then ds_Size d else fallback
                        | None \<Rightarrow> fallback))"

definition setPlatform :: "string \<Rightarrow> ConfigSpec option \<Rightarrow> string" where
  "setPlatform defaultPlatform configSpec =
     (case configSpec of
        Some c \<Rightarrow> if cfg_Platform c \<noteq> [] then cfg_Platform c else defaultPlatform
      | None \<Rightarrow> defaultPlatform)"

definition FindStorageClassName ::
    "DiskSpec \<Rightarrow> ConfigSpec option \<Rightarrow> string \<Rightarrow> string \<Rightarrow> go_error + string" where
  "FindStorageClassName diskSpec configSpec defaultPlatform engineType =
     (let platform_class =
            (case getPlatformConfig (setPlatform defaultPlatform configSpec) engineType of
               Inl err \<Rightarrow> Inl err | Inr pc \<Rightarrow> Inr (storageClassName pc))
      in if ds_StorageClass diskSpec \<noteq> [] then Inr (ds_StorageClass diskSpec)
         else case configSpec of
             None \<Rightarrow> platform_class
           | Some c \<Rightarrow>
               (let config_class = (if cfg_StorageClass c \<noteq> [] then Inr (cfg_StorageClass c) else platform_class)
                in case first_disk (ds_Name diskSpec) (config_disks c) of
                     Some d \<Rightarrow> if ds_StorageClass d \<noteq> [] then Inr (ds_StorageClass d) else config_class
                   | None \<Rightarrow> config_class))"

definition FindVolumeSnapshotClassName ::
    "string \<Rightarrow> ConfigSpec option \<Rightarrow> string \<Rightarrow> string \<Rightarrow> go_error + string" where
  "FindVolumeSnapshotClassName volumneSnapshotClass configSpec defaultPlatform engineType =
     (let platform_class =
            (case getPlatformConfig (setPlatform defaultPlatform configSpec) engineType of
               Inl err \<Rightarrow> Inl err | Inr pc \<Rightarrow> Inr (volumeSnapshotClassName pc))
      in if volumneSnapshotClass \<noteq> [] then Inr volumneSnapshotClass
         else case configSpec of
             Some c \<Rightarrow> if cfg_VolumeSnapshotClass c \<noteq> [] then Inr (cfg_VolumeSnapshotClass c) else platform_class
           | None \<Rightarrow> platform_class)"

definition DiskSpecs :: "Instance option \<Rightarrow> ConfigSpec option \<Rightarrow> DiskSpec list" where
  "DiskSpecs inst config =
     (case Option.bind inst (\<lambda>i. is_Disks (inst_Spec i)) of
        Some ds \<Rightarrow> ds
      | None \<Rightarrow> (case Option.bind config cfg_Disks of Some ds \<Rightarrow> ds | None \<Rightarrow> defaultDisks))"

subsection \<open>Names\<close>

definition IsReservedDiskName :: "string \<Rightarrow> bool" where
  "IsReservedDiskName diskName \<longleftrightarrow>
     ToLower diskName = ''datadisk'' \<or> ToLower diskName = ''backupdisk'' \<or> ToLower diskName = ''logdisk''"

definition PvcMountName :: "string \<Rightarrow> string \<Rightarrow> string" where
  "PvcMountName instName mount = instName @ ''-pvc-'' @ mount"

text \<open>A missing key of \<open>DefaultDiskSpecs\<close> reads as the zero \<open>DiskSpec\<close>, whose name is empty.\<close>

definition GetPVCNameAndMount :: "string \<Rightarrow> string \<Rightarrow> string \<times> string" where
  "GetPVCNameAndMount instName diskName =
     (let specName = (case DefaultDiskSpecs diskName of Some spec \<Rightarrow> ds_Name spec | None \<Rightarrow> []);
          mountLocation = (case defaultDiskMountLocations specName of Some m \<Rightarrow> m | None \<Rightarrow> [])
      in (PvcMountName instName mountLocation, mountLocation))"

definition GetCustomPVCNameAndMount :: "Instance \<Rightarrow> string \<Rightarrow> string \<times> string" where
  "GetCustomPVCNameAndMount inst diskName =
     (PvcMountName (inst_Name inst) (ToLower diskName), ToLower diskName)"

definition pvc_and_mount :: "Instance \<Rightarrow> string \<Rightarrow> string \<times> string" where
  "pvc_and_mount inst diskName =
     (if IsReservedDiskName diskName then GetPVCNameAndMount (inst_Name inst) diskName
      else GetCustomPVCNameAndMount inst diskName)"

definition GetSTSName :: "string \<Rightarrow> string" where
  "GetSTSName instanceName = instanceName @ ''-sts''"

definition GetMonitoringDepName :: "string \<Rightarrow> string" where
  "GetMonitoringDepName instName = instName @ ''-monitor''"

definition getSVCName :: "Instance \<Rightarrow> string" where
  "getSVCName inst = inst_Name inst @ ''-svc''"

text \<open>The name a claim template gets for a replica; the restore code writes replica 0 out.\<close>

definition ObjectKeyOf :: "StatefulSet \<Rightarrow> PersistentVolumeClaim \<Rightarrow> int \<Rightarrow> string \<times> string" where
  "ObjectKeyOf sts pvc i =
     (sts_Namespace sts, pvc_Name pvc @ ''-'' @ sts_Name sts @ ''-'' @ itoa i)"

definition GetDBDomain :: "Instance \<Rightarrow> string" where
  "GetDBDomain inst =
     (if CHR ''.'' \<in> set (is_DBUniqueName (inst_Spec inst)) then after_dot (is_DBUniqueName (inst_Spec inst))
      else is_DBDomain (inst_Spec inst))"

definition GetBackupGcsPath :: "Backup \<Rightarrow> string" where
  "GetBackupGcsPath backup =
     (if bk_GcsDir backup \<noteq> []
      then (if \<not> HasSuffix (bk_GcsDir backup) ''/'' then bk_GcsDir backup @ ''/'' else bk_GcsPath backup)
           @ bk_Name backup
      else bk_GcsPath backup)"

subsection \<open>Claims\<close>

definition new_pvc :: "StsParams \<Rightarrow> Instance \<Rightarrow> DiskSpec \<Rightarrow> string \<Rightarrow> PersistentVolumeClaim" where
  "new_pvc sp pinst diskSpec storageClass =
     (case pvc_and_mount pinst (ds_Name diskSpec) of
        (pvcName, mount) \<Rightarrow>
          \<lparr>pvc_Namespace = inst_Namespace pinst,
           pvc_Name = pvcName,
           pvc_Annotations = ds_Annotations diskSpec,
           pvc_OwnerReferences = (if is_RetainDisks (inst_Spec pinst) then [] else [inst_UID pinst]),
           pvc_Storage = FindDiskSize diskSpec (sp_Config sp) DefaultDiskSpecs defaultDiskSize,
           pvc_Capacity = 0,
           pvc_StorageClassName = Some storageClass,
           pvc_DataSource =
             (case sp_Restore sp of
                Some rs \<Rightarrow> if rs_BackupID rs \<noteq> [] then Some (rs_BackupID rs @ ''-'' @ mount) else None
              | None \<Rightarrow> None)\<rparr>)"

fun new_pvcs :: "StsParams \<Rightarrow> Instance \<Rightarrow> DiskSpec list \<Rightarrow> go_error + PersistentVolumeClaim list" where
  "new_pvcs sp pinst [] = Inr []"
| "new_pvcs sp pinst (diskSpec # ds) =
     (case FindStorageClassName diskSpec (sp_Config sp) PlatformGCP EngineOracle of
        Inl err \<Rightarrow> Inl (Errorf (''failed to identify a storageClassName for disk '' @ ds_Name diskSpec))
      | Inr storageClass \<Rightarrow>
          if storageClass = []
          then Inl (Errorf (''failed to identify a storageClassName for disk '' @ ds_Name diskSpec))
          else (case new_pvcs sp pinst ds of
                  Inl err \<Rightarrow> Inl err
                | Inr pvcs \<Rightarrow> Inr (new_pvc sp pinst diskSpec storageClass # pvcs)))"

definition NewPVCs :: "StsParams \<Rightarrow> Instance \<Rightarrow> go_error + PersistentVolumeClaim list" where
  "NewPVCs sp pinst = new_pvcs sp pinst (sp_Disks sp)"

definition buildPVCMounts :: "StsParams \<Rightarrow> Instance \<Rightarrow> VolumeMount list" where
  "buildPVCMounts sp pinst =
     map (\<lambda>diskSpec. case pvc_and_mount pinst (ds_Name diskSpec) of
            (pvcName, mount) \<Rightarrow> \<lparr>vm_Name = pvcName, vm_MountPath = ''/'' @ mount, vm_ReadOnly = False\<rparr>)
         (sp_Disks sp)"

subsection \<open>The pod template\<close>

abbreviation scriptDir :: string where "scriptDir \<equiv> ''/agents''"
abbreviation dbContainerName :: string where "dbContainerName \<equiv> ''oracledb''"
abbreviation podInfoVolume :: string where "podInfoVolume \<equiv> ''podinfo''"
abbreviation podInfoDir :: string where "podInfoDir \<equiv> ''/etc/podinfo''"
abbreviation SecureListenerPort :: int where "SecureListenerPort \<equiv> 6021"
abbreviation SSLListenerPort :: int where "SSLListenerPort \<equiv> 3307"
abbreviation DefaultDBDaemonPort :: int where "DefaultDBDaemonPort \<equiv> 3203"
abbreviation ProvisioningDoneFile :: string where "ProvisioningDoneFile \<equiv> ''/u02/app/oracle/provisioning_successful''"
abbreviation no_resources :: ResourceRequirements where
  "no_resources \<equiv> \<lparr>rr_Limits = None, rr_Requests = None\<rparr>"

text \<open>The database container's resources: \<open>Requests\<close> is made non-nil, and if \<open>Requests.Memory()\<close> is
  nil, 4 Gi are requested.\<close>

definition db_resource :: "((string \<rightharpoonup> int) \<Rightarrow> int option) \<Rightarrow> ResourceRequirements \<Rightarrow> ResourceRequirements" where
  "db_resource Memory r =
     (let reqs = (case rr_Requests r of None \<Rightarrow> Map.empty | Some m \<Rightarrow> m)
      in r\<lparr>rr_Requests := Some (if Memory reqs = None then reqs(''memory'' \<mapsto> 4 * Gi) else reqs)\<rparr>)"

definition basic_mounts :: "bool \<Rightarrow> VolumeMount list" where
  "basic_mounts ro =
     [\<lparr>vm_Name = ''var-tmp'', vm_MountPath = ''/var/tmp'', vm_ReadOnly = False\<rparr>,
      \<lparr>vm_Name = ''agent-repo'', vm_MountPath = ''/agents'', vm_ReadOnly = False\<rparr>,
      \<lparr>vm_Name = podInfoVolume, vm_MountPath = podInfoDir, vm_ReadOnly = ro\<rparr>]"

definition db_container ::
    "((string \<rightharpoonup> int) \<Rightarrow> int option) \<Rightarrow> StsParams \<Rightarrow> Instance \<Rightarrow> Instance \<Rightarrow> string \<Rightarrow> Container" where
  "db_container Memory sp pinst inst pull =
     \<lparr>c_Name = dbContainerName, c_Image = map_get (sp_Images sp) ''service'',
      c_Resources = db_resource Memory (is_DatabaseResources (inst_Spec pinst)),
      c_Command = [scriptDir @ ''/init_container.sh''],
      c_Args = [is_CDBName (inst_Spec inst), GetDBDomain inst],
      c_Env = [(''SCRIPTS_DIR'', scriptDir), (''PROVISIONDONE_FILE'', ProvisioningDoneFile)],
      c_EnvFrom = [sp_ConfigMap sp],
      c_Ports = [(''secure-listener'', ''TCP'', SecureListenerPort), (''ssl-listener'', ''TCP'', SSLListenerPort)],
      c_VolumeMounts = basic_mounts True @ buildPVCMounts sp pinst,
      c_AllowPrivilegeEscalation = sp_PrivEscalation sp, c_Drop = [''NET_RAW''], c_RunAs = None,
      c_ImagePullPolicy = pull\<rparr>"

definition dbdaemon_container :: "StsParams \<Rightarrow> Instance \<Rightarrow> Instance \<Rightarrow> string \<Rightarrow> Container" where
  "dbdaemon_container sp pinst inst pull =
     \<lparr>c_Name = ''dbdaemon'', c_Image = map_get (sp_Images sp) ''service'', c_Resources = no_resources,
      c_Command = [scriptDir @ ''/init_dbdaemon.sh''], c_Args = [is_CDBName (inst_Spec inst)],
      c_Env = [], c_EnvFrom = [], c_Ports = [(''dbdaemon'', ''TCP'', DefaultDBDaemonPort)],
      c_VolumeMounts = basic_mounts False @ buildPVCMounts sp pinst,
      c_AllowPrivilegeEscalation = sp_PrivEscalation sp, c_Drop = [''NET_RAW''], c_RunAs = None,
      c_ImagePullPolicy = pull\<rparr>"

definition log_sidecar :: "StsParams \<Rightarrow> Instance \<Rightarrow> string \<Rightarrow> string \<Rightarrow> string \<Rightarrow> Container" where
  "log_sidecar sp pinst pull name arg =
     (case GetPVCNameAndMount (inst_Name pinst) ''DataDisk'' of
        (dataDiskPVC, dataDiskMountName) \<Rightarrow>
          \<lparr>c_Name = name, c_Image = map_get (sp_Images sp) ''logging_sidecar'', c_Resources = no_resources,
           c_Command = [''/logging_main''], c_Args = [arg], c_Env = [], c_EnvFrom = [], c_Ports = [],
           c_VolumeMounts =
             [\<lparr>vm_Name = dataDiskPVC, vm_MountPath = ''/'' @ dataDiskMountName, vm_ReadOnly = False\<rparr>,
              \<lparr>vm_Name = podInfoVolume, vm_MountPath = podInfoDir, vm_ReadOnly = True\<rparr>],
           c_AllowPrivilegeEscalation = sp_PrivEscalation sp, c_Drop = [''NET_RAW''], c_RunAs = None,
           c_ImagePullPolicy = pull\<rparr>)"

definition dbinit_container :: "StsParams \<Rightarrow> string \<Rightarrow> Container" where
  "dbinit_container sp pull =
     \<lparr>c_Name = ''dbinit'', c_Image = map_get (sp_Images sp) ''dbinit'', c_Resources = no_resources,
      c_Command = [''sh'', ''-c'', ''cp -r agent_repo/. /agents/ && chmod -R 750 /agents/*''],
      c_Args = [], c_Env = [], c_EnvFrom = [], c_Ports = [],
      c_VolumeMounts = [\<lparr>vm_Name = ''agent-repo'', vm_MountPath = ''/agents'', vm_ReadOnly = False\<rparr>],
      c_AllowPrivilegeEscalation = sp_PrivEscalation sp, c_Drop = [''NET_RAW''], c_RunAs = None,
      c_ImagePullPolicy = pull\<rparr>"

fun chown_cmd :: "int \<Rightarrow> int \<Rightarrow> VolumeMount list \<Rightarrow> string \<Rightarrow> string" where
  "chown_cmd uid gid [] cmd = cmd"
| "chown_cmd uid gid (m # ms) cmd =
     chown_cmd uid gid ms ((if cmd \<noteq> [] then cmd @ '' && '' else cmd) @
       ''chown '' @ itoa uid @ '':'' @ itoa gid @ '' '' @ vm_MountPath m @ '' '')"

definition addHostpathInitContainer ::
    "StsParams \<Rightarrow> Instance \<Rightarrow> Container list \<Rightarrow> int \<Rightarrow> int \<Rightarrow> Container list" where
  "addHostpathInitContainer sp pinst containers uid gid =
     (let volumeMounts = buildPVCMounts sp pinst in
      containers @
      [\<lparr>c_Name = ''prepare-pv-container'', c_Image = ''busybox:latest'', c_Resources = no_resources,
        c_Command = [''sh'', ''-c'', chown_cmd uid gid volumeMounts []], c_Args = [], c_Env = [],
        c_EnvFrom = [], c_Ports = [], c_VolumeMounts = volumeMounts,
        c_AllowPrivilegeEscalation = sp_PrivEscalation sp, c_Drop = [''NET_RAW''],
        c_RunAs = Some (0, 0, False), c_ImagePullPolicy = []\<rparr>])"

definition NewPodTemplate ::
    "((string \<rightharpoonup> int) \<Rightarrow> int option) \<Rightarrow> StsParams \<Rightarrow> Instance \<Rightarrow> Instance \<Rightarrow> PodTemplate" where
  "NewPodTemplate Memory sp pinst inst =
     (let platform = (case sp_Config sp of None \<Rightarrow> [] | Some c \<Rightarrow> cfg_Platform c);
          pull = (if platform = PlatformKind then ''IfNotPresent'' else ''Always'');
          uid = (case is_DatabaseUID (inst_Spec pinst) of None \<Rightarrow> 54321 | Some i \<Rightarrow> i);
          gid = (case is_DatabaseGID (inst_Spec pinst) of None \<Rightarrow> 54322 | Some i \<Rightarrow> i);
          inits = [dbinit_container sp pull]
      in \<lparr>pt_Labels = [(''instance'', inst_Name pinst), (''statefulset'', sp_StsName sp), (''task-type'', ''oracle-db'')],
          pt_Namespace = sp_Namespace sp,
          pt_Containers =
            [db_container Memory sp pinst inst pull,
             dbdaemon_container sp pinst inst pull,
             log_sidecar sp pinst pull ''alert-log-sidecar'' ''--logType=ALERT'',
             log_sidecar sp pinst pull ''listener-log-sidecar'' ''--logType=LISTENER''],
          pt_InitContainers =
            (if platform = PlatformMinikube \<or> platform = PlatformKind
             then addHostpathInitContainer sp pinst inits uid gid else inits),
          pt_Volumes =
            [(''var-tmp'', EmptyDir), (''agent-repo'', EmptyDir),
             (podInfoVolume, DownwardAPI ''request_memory'' dbContainerName ''requests.memory'' 1048576)],
          pt_RunAsUser = uid, pt_RunAsGroup = gid, pt_FSGroup = gid, pt_RunAsNonRoot = True, pt_ShareProcessNamespace = True,
          pt_Tolerations = is_Tolerations (inst_Spec inst), pt_Affinity = is_Affinity (inst_Spec inst)\<rparr>)"

definition NewSts ::
    "inst_env \<Rightarrow> StsParams \<Rightarrow> Instance \<Rightarrow> PersistentVolumeClaim list \<Rightarrow> PodTemplate \<Rightarrow> go_error + StatefulSet" where
  "NewSts env sp pinst pvcs podTemplate =
     (case ie_SetControllerReference env pinst (sp_StsName sp) of
        Some err \<Rightarrow> Inl err
      | None \<Rightarrow> Inr
          \<lparr>sts_Namespace = inst_Namespace pinst, sts_Name = sp_StsName sp, sts_DeletionTimestamp = None,
           sts_Replicas = Some 1,
           sts_MatchLabels = [(''instance'', inst_Name pinst), (''statefulset'', sp_StsName sp)],
           sts_Template = podTemplate, sts_VolumeClaimTemplates = pvcs,
           sts_CurrentReplicas = 0, sts_ReadyReplicas = 0\<rparr>)"

definition constructSTSandPVCs ::
    "inst_env \<Rightarrow> Instance \<Rightarrow> StsParams \<Rightarrow> Instance \<Rightarrow> go_error + StatefulSet \<times> PersistentVolumeClaim list" where
  "constructSTSandPVCs env inst sp pinst =
     (case NewPVCs sp pinst of
        Inl err \<Rightarrow> Inl err
      | Inr newPVCs \<Rightarrow>
          (case NewSts env sp pinst newPVCs (NewPodTemplate (ie_Memory env) sp pinst inst) of
             Inl err \<Rightarrow> Inl err
           | Inr sts \<Rightarrow> Inr (sts, newPVCs)))"

subsection \<open>What is built\<close>

lemma new_pvcs_elem:
  "new_pvcs sp pinst ds = Inr pvcs \<Longrightarrow> p \<in> set pvcs \<Longrightarrow> \<exists>d \<in> set ds. \<exists>sc. p = new_pvc sp pinst d sc"
  by (induction ds arbitrary: pvcs) (fastforce split: sum.splits if_splits)+

lemma new_pvcs_names:
  "new_pvcs sp pinst ds = Inr pvcs \<Longrightarrow>
     map pvc_Name pvcs = map (\<lambda>d. fst (pvc_and_mount pinst (ds_Name d))) ds"
  by (induction ds arbitrary: pvcs) (auto simp: new_pvc_def split: sum.splits if_splits prod.splits)

lemma constructSTSandPVCs_fields:
  assumes "constructSTSandPVCs env inst sp pinst = Inr (sts, pvcs)"
  shows "NewPVCs sp pinst = Inr pvcs \<and> sts_VolumeClaimTemplates sts = pvcs \<and> sts_Name sts = sp_StsName sp \<and>
         sts_Namespace sts = inst_Namespace pinst \<and> sts_Replicas sts = Some 1 \<and>
         sts_Template sts = NewPodTemplate (ie_Memory env) sp pinst inst"
  using assms by (auto simp: constructSTSandPVCs_def NewSts_def split: sum.splits option.splits)

lemma GetPVCNameAndMount_DataDisk:
  "GetPVCNameAndMount n ''DataDisk'' = (PvcMountName n ''u02'', ''u02'')"
  by (simp add: GetPVCNameAndMount_def DefaultDiskSpecs_def defaultDiskMountLocations_def Let_def)

lemma IsReserved_DataDisk: "IsReservedDiskName ''DataDisk''"
  by code_simp

lemma pvc_and_mount_name:
  "fst (pvc_and_mount inst d) = PvcMountName (inst_Name inst) (snd (pvc_and_mount inst d))"
  by (simp add: pvc_and_mount_def GetPVCNameAndMount_def GetCustomPVCNameAndMount_def Let_def)

text \<open>The names of the volumes a pod of a stateful set can mount.\<close>

definition mountable :: "StatefulSet \<Rightarrow> string set" where
  "mountable sts = fst ` set (pt_Volumes (sts_Template sts)) \<union> pvc_Name ` set (sts_VolumeClaimTemplates sts)"

lemma buildPVCMounts_names:
  "vm_Name ` set (buildPVCMounts sp pinst) = (\<lambda>d. fst (pvc_and_mount pinst (ds_Name d))) ` set (sp_Disks sp)"
  by (force simp: buildPVCMounts_def split: prod.splits)

lemma mounts_resolve:
  assumes "constructSTSandPVCs env inst sp pinst = Inr (sts, pvcs)"
    and data: "fst (GetPVCNameAndMount (inst_Name pinst) ''DataDisk'') \<in> mountable sts"
    and "c \<in> set (pt_Containers (sts_Template sts)) \<union> set (pt_InitContainers (sts_Template sts))"
    and "m \<in> set (c_VolumeMounts c)"
  shows "vm_Name m \<in> mountable sts"
proof -
  note f = constructSTSandPVCs_fields [OF assms(1)]
  then have "pvc_Name ` set pvcs = vm_Name ` set (buildPVCMounts sp pinst)"
    using new_pvcs_names [of sp pinst "sp_Disks sp" pvcs, THEN arg_cong [where f = set]]
    by (simp add: buildPVCMounts_names NewPVCs_def)
  with f have mnt: "vm_Name x \<in> mountable sts" if "x \<in> set (buildPVCMounts sp pinst)" for x
    using that by (auto simp: mountable_def)
  have vol: "''var-tmp'' \<in> mountable sts" "''agent-repo'' \<in> mountable sts" "podInfoVolume \<in> mountable sts"
    using f by (simp_all add: mountable_def NewPodTemplate_def Let_def)
  have "c_VolumeMounts c \<in> {basic_mounts True @ buildPVCMounts sp pinst, basic_mounts False @ buildPVCMounts sp pinst,
          c_VolumeMounts (log_sidecar sp pinst [] [] []), c_VolumeMounts (dbinit_container sp []),
          buildPVCMounts sp pinst}"
    using assms(3) f
    by (auto simp: NewPodTemplate_def Let_def db_container_def dbdaemon_container_def log_sidecar_def
        dbinit_container_def addHostpathInitContainer_def split: prod.splits if_splits)
  with assms(4) mnt vol data show ?thesis
    by (auto simp: basic_mounts_def log_sidecar_def dbinit_container_def split: prod.splits)
qed

lemma data_disk_mountable:
  assumes "constructSTSandPVCs env inst sp pinst = Inr (sts, pvcs)" and "''DataDisk'' \<in> ds_Name ` set (sp_Disks sp)"
  shows "fst (GetPVCNameAndMount (inst_Name pinst) ''DataDisk'') \<in> mountable sts"
proof -
  note f = constructSTSandPVCs_fields [OF assms(1)]
  then have "pvc_Name ` set pvcs = vm_Name ` set (buildPVCMounts sp pinst)"
    using new_pvcs_names [of sp pinst "sp_Disks sp" pvcs, THEN arg_cong [where f = set]]
    by (simp add: buildPVCMounts_names NewPVCs_def)
  moreover have "fst (pvc_and_mount pinst ''DataDisk'') \<in> vm_Name ` set (buildPVCMounts sp pinst)"
    using assms(2) by (auto simp: buildPVCMounts_names)
  ultimately show ?thesis using f by (auto simp: mountable_def pvc_and_mount_def IsReserved_DataDisk)
qed

lemma sidecar_mounts_data:
  assumes "constructSTSandPVCs env inst sp pinst = Inr (sts, pvcs)"
  shows "\<exists>c \<in> set (pt_Containers (sts_Template sts)). \<exists>m \<in> set (c_VolumeMounts c).
           vm_Name m = fst (GetPVCNameAndMount (inst_Name pinst) ''DataDisk'')"
proof -
  obtain pol where "log_sidecar sp pinst pol ''alert-log-sidecar'' ''--logType=ALERT'' \<in> set (pt_Containers (sts_Template sts))"
    using constructSTSandPVCs_fields [OF assms] by (auto simp: NewPodTemplate_def Let_def)
  then show ?thesis by (force simp: log_sidecar_def split: prod.splits)
qed

text \<open>
  C19: when is the pod of the database's stateful set well-formed? When the stateful set can be built, all volumes that its
  containers and init containers mount are volumes of the pod or claims of the stateful set exactly when the claim of the
  \<open>DataDisk\<close> is, which the log sidecars mount whatever the disks are; and it is when \<open>DataDisk\<close> is among the disks.
\<close>

theorem constructSTSandPVCs_mounts_resolve:
  assumes "constructSTSandPVCs env inst sp pinst = Inr (sts, pvcs)"
  shows "((\<forall>c \<in> set (pt_Containers (sts_Template sts)) \<union> set (pt_InitContainers (sts_Template sts)).
             \<forall>m \<in> set (c_VolumeMounts c). vm_Name m \<in> mountable sts) \<longleftrightarrow>
           fst (GetPVCNameAndMount (inst_Name pinst) ''DataDisk'') \<in> mountable sts) \<and>
         (''DataDisk'' \<in> ds_Name ` set (sp_Disks sp) \<longrightarrow>
           fst (GetPVCNameAndMount (inst_Name pinst) ''DataDisk'') \<in> mountable sts)"
  using mounts_resolve [OF assms] sidecar_mounts_data [OF assms] data_disk_mountable [OF assms] by (metis UnI1)

definition sample_sp :: StsParams where
  "sample_sp =
     \<lparr>sp_Namespace = ''db'',
      sp_Images = Some [''service'' \<mapsto> ''v2'', ''dbinit'' \<mapsto> ''i1'', ''logging_sidecar'' \<mapsto> ''l1''],
      sp_SvcName = ''mydb-svc'', sp_StsName = ''mydb-sts'', sp_PrivEscalation = False, sp_ConfigMap = ''mydb-cm'',
      sp_Restore = None,
      sp_Disks = [\<lparr>ds_Name = ''DataDisk'', ds_Size = 0, ds_StorageClass = [], ds_Annotations = None\<rparr>,
                  \<lparr>ds_Name = ''LogDisk'', ds_Size = 0, ds_StorageClass = [], ds_Annotations = None\<rparr>],
      sp_Config = None\<rparr>"

lemma new_pvcs_no_config: "sp_Config sp = None \<Longrightarrow> \<exists>pvcs. new_pvcs sp pinst ds = Inr pvcs"
  by (induction ds) (auto simp: FindStorageClassName_def getPlatformConfig_def setPlatform_def Let_def)

lemma sample_construct:
  assumes "sp_Config sp = None"
  obtains sts pvcs where "constructSTSandPVCs sample_env inst sp pinst = Inr (sts, pvcs)"
proof -
  obtain pvcs where "NewPVCs sp pinst = Inr pvcs"
    using new_pvcs_no_config [OF assms] unfolding NewPVCs_def by blast
  moreover have "ie_SetControllerReference sample_env pinst n = None" for n by (simp add: sample_env_def)
  ultimately show thesis using that by (auto simp: constructSTSandPVCs_def NewSts_def)
qed

theorem constructSTSandPVCs_mounts_resolve_witness:
  "\<exists>sts pvcs. constructSTSandPVCs sample_env sample_instance sample_sp sample_instance = Inr (sts, pvcs) \<and>
     pt_Containers (sts_Template sts) \<noteq> [] \<and>
     (\<forall>c \<in> set (pt_Containers (sts_Template sts)). \<forall>m \<in> set (c_VolumeMounts c). vm_Name m \<in> mountable sts)"
proof -
  obtain sts pvcs where c: "constructSTSandPVCs sample_env sample_instance sample_sp sample_instance = Inr (sts, pvcs)"
    by (rule sample_construct [of sample_sp]) (simp_all add: sample_sp_def)
  moreover have "''DataDisk'' \<in> ds_Name ` set (sp_Disks sample_sp)" by (simp add: sample_sp_def)
  moreover have "pt_Containers (sts_Template sts) \<noteq> []"
    using sidecar_mounts_data [OF c] by auto
  ultimately show ?thesis using constructSTSandPVCs_mounts_resolve [OF c] by blast
qed

end
