(* ===== verification/Sql.thy ===== *)
theory Sql
  imports Prelude
begin

text \<open>
  \<open>oracle/pkg/agents/common/sql/sql.go\<close>: quoting of identifiers and string parameters and the
  statements built from them, and \<open>RandOraclePassword\<close> of \<open>pkg/agents/security/security.go\<close>. A
  panic is \<open>None\<close>. What the quoting is for is stated with a lexer of SQL text, \<open>lex\<close>: a statement
  built from hostile names and values has exactly the tokens of its template.
\<close>

abbreviation dquote :: char where "dquote \<equiv> CHR 0x22"
abbreviation squote :: char where "squote \<equiv> CHR 0x27"

definition ErrQuoteInIdentifier :: go_error where
  "ErrQuoteInIdentifier = Errorf ''identifier contains double quotes''"

definition Identifier :: "string \<Rightarrow> go_error + string" where
  "Identifier ident =
     (if dquote \<in> set ident then Inl ErrQuoteInIdentifier else Inr ([dquote] @ ident @ [dquote]))"

definition ObjectName :: "string \<Rightarrow> go_error + string" where
  "ObjectName ident = Identifier (ToUpper ident)"

definition MustBeIdentifier :: "string \<Rightarrow> string option" where
  "MustBeIdentifier ident = (case Identifier ident of Inl err \<Rightarrow> None | Inr s \<Rightarrow> Some s)"

definition MustBeObjectName :: "string \<Rightarrow> string option" where
  "MustBeObjectName ident = (case ObjectName ident of Inl err \<Rightarrow> None | Inr s \<Rightarrow> Some s)"

fun StringParam :: "string \<Rightarrow> string" where
  "StringParam [] = []"
| "StringParam (c # s) = (if c = squote then squote # squote # StringParam s else c # StringParam s)"

definition is_letter :: "char \<Rightarrow> bool" where
  "is_letter c \<longleftrightarrow> (let n = of_char c :: nat in (65 \<le> n \<and> n \<le> 90) \<or> (97 \<le> n \<and> n \<le> 122))"

definition is_digit :: "char \<Rightarrow> bool" where
  "is_digit c \<longleftrightarrow> (let n = of_char c :: nat in 48 \<le> n \<and> n \<le> 57)"

text \<open>The regular expressions \<open>^[A-Za-z ,_]+$\<close> and \<open>^[A-Za-z0-9-]+$\<close>.\<close>

definition IsPrivilege :: "string \<Rightarrow> bool" where
  "IsPrivilege p \<longleftrightarrow> p \<noteq> [] \<and> list_all (\<lambda>c. is_letter c \<or> c = CHR '' '' \<or> c = CHR '','' \<or> c = CHR ''_'') p"

definition mustBePrivilege :: "string \<Rightarrow> string option" where
  "mustBePrivilege p = (if \<not> IsPrivilege p then None else Some p)"

definition IsValidParameterValue :: "string \<Rightarrow> bool \<Rightarrow> bool" where
  "IsValidParameterValue v isTypeString \<longleftrightarrow>
     isTypeString \<or> (v \<noteq> [] \<and> list_all (\<lambda>c. is_letter c \<or> is_digit c \<or> c = CHR ''-'') v)"

subsection \<open>Statements\<close>

definition quoted :: "string \<Rightarrow> string" where
  "quoted s = [squote] @ StringParam s @ [squote]"

definition bind2 :: "string option \<Rightarrow> string option \<Rightarrow> (string \<Rightarrow> string \<Rightarrow> string) \<Rightarrow> string option" where
  "bind2 a b f = (case (a, b) of (Some x, Some y) \<Rightarrow> Some (f x y) | _ \<Rightarrow> None)"

definition QueryCreateUser :: "string \<Rightarrow> string \<Rightarrow> string option" where
  "QueryCreateUser name pass =
     bind2 (MustBeObjectName name) (MustBeIdentifier pass)
       (\<lambda>n p. ''create user '' @ n @ '' identified by '' @ p)"

definition QueryAlterUser :: "string \<Rightarrow> string \<Rightarrow> string option" where
  "QueryAlterUser name pass =
     bind2 (MustBeObjectName name) (MustBeIdentifier pass)
       (\<lambda>n p. ''alter user '' @ n @ '' identified by '' @ p)"

definition QueryCreateDir :: "string \<Rightarrow> string \<Rightarrow> string option" where
  "QueryCreateDir dirName path =
     map_option (\<lambda>d. ''create directory '' @ d @ '' as '' @ quoted path) (MustBeObjectName dirName)"

definition QuerySetSessionContainer :: "string \<Rightarrow> string option" where
  "QuerySetSessionContainer pdbName =
     map_option (\<lambda>p. ''alter session set container='' @ p) (MustBeObjectName pdbName)"

definition QueryCreatePDB ::
    "string \<Rightarrow> string \<Rightarrow> string \<Rightarrow> string \<Rightarrow> string \<Rightarrow> string \<Rightarrow> string \<Rightarrow> string \<Rightarrow> string option" where
  "QueryCreatePDB pdbName adminUser adminUserPass dataFilesDir defaultTablespace
     defaultTablespaceDatafile fileConvertFrom fileConvertTo =
     (case (MustBeObjectName pdbName, MustBeObjectName adminUser, MustBeIdentifier adminUserPass,
            MustBeObjectName defaultTablespace) of
        (Some pdb, Some user, Some pass, Some ts) \<Rightarrow>
          Some (''create pluggable database '' @ pdb @ '' admin user '' @ user @ '' identified by '' @ pass @
                '' create_file_dest='' @ quoted dataFilesDir @ '' default tablespace '' @ ts @
                '' datafile '' @ quoted defaultTablespaceDatafile @
                '' size 1G autoextend on storage unlimited file_name_convert=('' @ quoted fileConvertFrom @
                '', '' @ quoted fileConvertTo @ '')'')
      | _ \<Rightarrow> None)"

definition QueryGrantPrivileges :: "string \<Rightarrow> string \<Rightarrow> string option" where
  "QueryGrantPrivileges privileges grantee =
     bind2 (mustBePrivilege privileges) (MustBeObjectName grantee) (\<lambda>p g. ''grant '' @ p @ '' to '' @ g)"

definition QueryRevokePrivileges :: "string \<Rightarrow> string \<Rightarrow> string option" where
  "QueryRevokePrivileges privileges grantee =
     bind2 (mustBePrivilege privileges) (MustBeObjectName grantee) (\<lambda>p g. ''revoke '' @ p @ '' from '' @ g)"

definition QuerySetSystemParameterNoPanic :: "string \<Rightarrow> string \<Rightarrow> bool \<Rightarrow> go_error + string" where
  "QuerySetSystemParameterNoPanic name v isTypeString =
     (if \<not> IsValidParameterValue v isTypeString
      then Inl (Errorf (''unsupported value '' @ v @ '' for parameter '' @ name))
      else Inr (''alter system set '' @ name @ ''='' @ (if isTypeString then quoted v else v)))"

subsection \<open>Passwords\<close>

abbreviation passLength :: nat where "passLength \<equiv> 10"

definition chars :: string where
  "chars = ''ABCDEFGHIJKLMNOPQRSTUVWXYZabcdefghijklmnopqrstuvwxyz''"

definition numbers :: string where
  "numbers = ''0123456789''"

definition alphanumeric :: string where
  "alphanumeric = chars @ numbers"

text \<open>\<open>randInt k m\<close> is the k-th random number drawn, below \<open>m\<close>.\<close>

fun password_loop :: "(nat \<Rightarrow> nat \<Rightarrow> go_error + nat) \<Rightarrow> nat \<Rightarrow> nat \<Rightarrow> go_error + string" where
  "password_loop randInt k 0 = Inr []"
| "password_loop randInt k (Suc n) =
     (case randInt k (length alphanumeric) of
        Inl err \<Rightarrow> Inl err
      | Inr aRand \<Rightarrow>
          (case password_loop randInt (Suc k) n of
             Inl err \<Rightarrow> Inl err
           | Inr rest \<Rightarrow> Inr (alphanumeric ! aRand # rest)))"

definition RandOraclePassword :: "(nat \<Rightarrow> nat \<Rightarrow> go_error + nat) \<Rightarrow> go_error + string" where
  "RandOraclePassword randInt =
     (case password_loop randInt 0 (passLength - 1) of
        Inl err \<Rightarrow> Inl err
      | Inr result \<Rightarrow>
          (let k = passLength - 1;
               replaced = (if list_ex is_digit result then Inr (k, result)
                 else case randInt k (length numbers) of
                        Inl err \<Rightarrow> Inl err
                      | Inr nRand \<Rightarrow>
                          (case randInt (Suc k) (passLength - 1) of
                             Inl err \<Rightarrow> Inl err
                           | Inr iRand \<Rightarrow> Inr (Suc (Suc k), result[iRand := numbers ! nRand])))
           in case replaced of
                Inl err \<Rightarrow> Inl err
              | Inr (k', result') \<Rightarrow>
                  (case randInt k' (length chars) of
                     Inl err \<Rightarrow> Inl err
                   | Inr cRand \<Rightarrow> Inr (chars ! cRand # result'))))"

subsection \<open>A lexer of SQL text\<close>

datatype sql_token = Word string | QuotedIdent string | StringLit string | Sym char

fun read_ident :: "string \<Rightarrow> (string \<times> string) option" where
  "read_ident [] = None"
| "read_ident (c # s) =
     (if c = dquote then Some ([], s) else map_option (\<lambda>(i, rest). (c # i, rest)) (read_ident s))"

fun read_string :: "string \<Rightarrow> (string \<times> string) option" where
  "read_string [] = None"
| "read_string (c # s) =
     (if c = squote
      then (case s of
              d # s' \<Rightarrow> if d = squote then map_option (\<lambda>(t, rest). (squote # t, rest)) (read_string s')
                       else Some ([], s)
            | [] \<Rightarrow> Some ([], s))
      else map_option (\<lambda>(t, rest). (c # t, rest)) (read_string s))"

definition flush :: "string \<Rightarrow> sql_token list \<Rightarrow> sql_token list" where
  "flush w ts = (if w = [] then ts else Word (rev w) # ts)"

definition symbols :: "char list" where
  "symbols = ''=,();''"

lemma read_ident_length: "read_ident s = Some (i, rest) \<Longrightarrow> length rest < length s"
  by (induction s arbitrary: i) (fastforce split: if_splits)+

lemma read_string_length: "read_string s = Some (t, rest) \<Longrightarrow> length rest < length s"
  by (induction s arbitrary: t rest rule: read_string.induct)
    (fastforce split: if_splits list.splits)+

function lex :: "string \<Rightarrow> string \<Rightarrow> sql_token list option" where
  "lex [] w = Some (flush w [])"
| "lex (c # s) w =
     (if c = dquote
      then (case read_ident s of
              None \<Rightarrow> None
            | Some (i, rest) \<Rightarrow> map_option (\<lambda>ts. flush w (QuotedIdent i # ts)) (lex rest []))
      else if c = squote
      then (case read_string s of
              None \<Rightarrow> None
            | Some (t, rest) \<Rightarrow> map_option (\<lambda>ts. flush w (StringLit t # ts)) (lex rest []))
      else if c = CHR '' '' then map_option (flush w) (lex s [])
      else if c \<in> set symbols then map_option (\<lambda>ts. flush w (Sym c # ts)) (lex s [])
      else lex s (c # w))"
  by pat_completeness auto

termination
  by (relation "measure (\<lambda>(s, w). length s)")
    (auto dest: read_ident_length read_string_length)

declare lex.simps [simp del]

definition starts_squote :: "string \<Rightarrow> bool" where
  "starts_squote s \<longleftrightarrow> (case s of [] \<Rightarrow> False | c # _ \<Rightarrow> c = squote)"

lemma read_ident_append: "dquote \<notin> set i \<Longrightarrow> read_ident (i @ dquote # rest) = Some (i, rest)"
  by (induction i) auto

lemma read_string_StringParam:
  "\<not> starts_squote rest \<Longrightarrow> read_string (StringParam s @ squote # rest) = Some (s, rest)"
  by (induction s) (auto simp: starts_squote_def split: list.splits)

text \<open>Plain text of a template: no quotes.\<close>

definition plain :: "char \<Rightarrow> bool" where
  "plain c \<longleftrightarrow> c \<noteq> dquote \<and> c \<noteq> squote \<and> c \<noteq> CHR '' '' \<and> c \<notin> set symbols"

lemma lex_plain: "list_all plain xs \<Longrightarrow> lex (xs @ s) w = lex s (rev xs @ w)"
  by (induction xs arbitrary: w) (auto simp: plain_def lex.simps)

lemma lex_space: "lex (CHR '' '' # s) w = map_option (flush w) (lex s [])"
  by (simp add: lex.simps)

lemma lex_sym: "c \<in> set symbols \<Longrightarrow> lex (c # s) w = map_option (\<lambda>ts. flush w (Sym c # ts)) (lex s [])"
  by (auto simp: lex.simps symbols_def)

lemma lex_identifier:
  "Identifier i = Inr q \<Longrightarrow> lex (q @ s) w = map_option (\<lambda>ts. flush w (QuotedIdent i # ts)) (lex s [])"
  by (auto simp: Identifier_def lex.simps read_ident_append split: if_splits)

lemma lex_identifier_end: "Identifier i = Inr q \<Longrightarrow> lex q w = Some (flush w [QuotedIdent i])"
  using lex_identifier [of i q "[]" w] by (simp add: lex.simps flush_def)

lemma lex_quoted:
  "\<not> starts_squote s \<Longrightarrow>
     lex (quoted t @ s) w = map_option (\<lambda>ts. flush w (StringLit t # ts)) (lex s [])"
  by (simp add: quoted_def lex.simps read_string_StringParam)

lemma flush_Nil [simp]: "flush [] ts = ts"
  by (simp add: flush_def)

lemma lex_word:
  "list_all plain xs \<Longrightarrow> xs \<noteq> [] \<Longrightarrow>
     lex (xs @ CHR '' '' # s) [] = map_option ((#) (Word xs)) (lex s [])"
  by (simp add: lex_plain lex_space flush_def [abs_def])

lemma plain_letters: "list_all is_letter xs \<Longrightarrow> list_all plain xs"
  by (induction xs) (auto simp: is_letter_def plain_def symbols_def Let_def)

text \<open>A word of a template followed by a blank.\<close>

lemma lex_create: "lex (''create '' @ s) [] = map_option ((#) (Word ''create'')) (lex s [])"
  and lex_user: "lex (''user '' @ s) [] = map_option ((#) (Word ''user'')) (lex s [])"
  and lex_alter: "lex (''alter '' @ s) [] = map_option ((#) (Word ''alter'')) (lex s [])"
  and lex_identified: "lex (''identified '' @ s) [] = map_option ((#) (Word ''identified'')) (lex s [])"
  and lex_by: "lex (''by '' @ s) [] = map_option ((#) (Word ''by'')) (lex s [])"
  and lex_directory: "lex (''directory '' @ s) [] = map_option ((#) (Word ''directory'')) (lex s [])"
  and lex_as: "lex (''as '' @ s) [] = map_option ((#) (Word ''as'')) (lex s [])"
  and lex_grant: "lex (''grant '' @ s) [] = map_option ((#) (Word ''grant'')) (lex s [])"
  and lex_revoke: "lex (''revoke '' @ s) [] = map_option ((#) (Word ''revoke'')) (lex s [])"
  and lex_to: "lex (''to '' @ s) [] = map_option ((#) (Word ''to'')) (lex s [])"
  and lex_from: "lex (''from '' @ s) [] = map_option ((#) (Word ''from'')) (lex s [])"
  and lex_system: "lex (''system '' @ s) [] = map_option ((#) (Word ''system'')) (lex s [])"
  and lex_set: "lex (''set '' @ s) [] = map_option ((#) (Word ''set'')) (lex s [])"
  using lex_word [of "''create''" s] lex_word [of "''user''" s] lex_word [of "''alter''" s]
    lex_word [of "''identified''" s] lex_word [of "''by''" s] lex_word [of "''directory''" s]
    lex_word [of "''as''" s] lex_word [of "''grant''" s] lex_word [of "''revoke''" s]
    lex_word [of "''to''" s] lex_word [of "''from''" s] lex_word [of "''system''" s] lex_word [of "''set''" s]
  by (simp_all add: plain_def symbols_def)

lemma MustBe_Identifier: "MustBeIdentifier i = Some q \<longleftrightarrow> Identifier i = Inr q"
  "MustBeObjectName i = Some q \<longleftrightarrow> Identifier (ToUpper i) = Inr q"
  by (auto simp: MustBeIdentifier_def MustBeObjectName_def ObjectName_def split: sum.splits)

lemma bind2_Some: "bind2 a b f = Some q \<longleftrightarrow> (\<exists>x y. a = Some x \<and> b = Some y \<and> q = f x y)"
  by (auto simp: bind2_def split: option.splits)

subsection \<open>Properties\<close>

text \<open>
  C16: Whatever the user name and the password hold, a statement \<open>create user\<close> or \<open>alter user\<close> that is
  built at all has exactly the tokens of its template, with the upper-cased name and the password as
  quoted identifiers: neither can end its quotes and add text of its own. Building it panics exactly
  when one of them has a double quote.
\<close>

theorem user_statements_are_injection_free:
  "(case QueryCreateUser name pass of
      None \<Rightarrow> dquote \<in> set (ToUpper name) \<union> set pass
    | Some q \<Rightarrow> lex q [] = Some [Word ''create'', Word ''user'', QuotedIdent (ToUpper name),
                               Word ''identified'', Word ''by'', QuotedIdent pass]) \<and>
   (case QueryAlterUser name pass of
      None \<Rightarrow> dquote \<in> set (ToUpper name) \<union> set pass
    | Some q \<Rightarrow> lex q [] = Some [Word ''alter'', Word ''user'', QuotedIdent (ToUpper name),
                               Word ''identified'', Word ''by'', QuotedIdent pass])"
proof (cases "dquote \<in> set (ToUpper name) \<union> set pass")
  case True
  then show ?thesis
    by (auto simp: QueryCreateUser_def QueryAlterUser_def bind2_def MustBeObjectName_def
        MustBeIdentifier_def ObjectName_def Identifier_def split: option.splits)
next
  case False
  then obtain n p where n: "Identifier (ToUpper name) = Inr n" and p: "Identifier pass = Inr p"
    by (auto simp: Identifier_def)
  have by_p: "lex ('' identified by '' @ p) [] = Some [Word ''identified'', Word ''by'', QuotedIdent pass]"
    using lex_space [of "''identified by '' @ p" "[]"] lex_identified [of "''by '' @ p"] lex_by [of p]
    by (simp add: lex_identifier_end [OF p])
  have "lex (''user '' @ n @ '' identified by '' @ p) [] = Some [Word ''user'', QuotedIdent (ToUpper name),
      Word ''identified'', Word ''by'', QuotedIdent pass]"
    unfolding lex_user lex_identifier [OF n] by_p by simp
  then have "lex (''create user '' @ n @ '' identified by '' @ p) [] = Some [Word ''create'', Word ''user'',
      QuotedIdent (ToUpper name), Word ''identified'', Word ''by'', QuotedIdent pass]"
    "lex (''alter user '' @ n @ '' identified by '' @ p) [] = Some [Word ''alter'', Word ''user'',
      QuotedIdent (ToUpper name), Word ''identified'', Word ''by'', QuotedIdent pass]"
    using lex_create [of "''user '' @ n @ '' identified by '' @ p"]
      lex_alter [of "''user '' @ n @ '' identified by '' @ p"] by simp_all
  then show ?thesis
    using n p by (simp add: QueryCreateUser_def QueryAlterUser_def bind2_def MustBe_Identifier
        MustBeObjectName_def MustBeIdentifier_def ObjectName_def)
qed

text \<open>
  A string parameter written to \<open>alter system set\<close> is read back by the lexer as the very value
  given, quotes and all, and ends the statement; a value of another type is refused unless it is
  letters, digits and dashes.
\<close>

theorem QuerySetSystemParameter_value:
  assumes "list_all plain name" and "name \<noteq> []"
  shows "(\<exists>q. QuerySetSystemParameterNoPanic name v True = Inr q \<and>
      lex q [] = Some [Word ''alter'', Word ''system'', Word ''set'', Word name, Sym (CHR ''=''), StringLit v]) \<and>
    (case QuerySetSystemParameterNoPanic name v False of
       Inl e \<Rightarrow> v = [] \<or> \<not> list_all (\<lambda>c. is_letter c \<or> is_digit c \<or> c = CHR ''-'') v
     | Inr q \<Rightarrow> lex q [] = Some [Word ''alter'', Word ''system'', Word ''set'', Word name, Sym (CHR ''=''), Word v])"
proof
  let ?tail = "\<lambda>t. name @ CHR ''='' # t"
  have eq: "lex (?tail t) [] = map_option (\<lambda>ts. Word name # Sym (CHR ''='') # ts) (lex t [])" for t
    using assms by (simp add: lex_plain lex_sym symbols_def flush_def)
  have all: "lex (''alter system set '' @ ?tail t) [] = map_option (\<lambda>ts. Word ''alter'' # Word ''system'' #
      Word ''set'' # Word name # Sym (CHR ''='') # ts) (lex t [])" for t
    using lex_alter [of "''system set '' @ ?tail t"] lex_system [of "''set '' @ ?tail t"] lex_set [of "?tail t"]
    by (simp add: eq option.map_comp comp_def)
  have "lex (quoted v) [] = Some [StringLit v]"
    using lex_quoted [of "[]" v "[]"] by (simp add: starts_squote_def lex.simps flush_def)
  with all [of "quoted v"] show "\<exists>q. QuerySetSystemParameterNoPanic name v True = Inr q \<and>
      lex q [] = Some [Word ''alter'', Word ''system'', Word ''set'', Word name, Sym (CHR ''=''), StringLit v]"
    by (simp add: QuerySetSystemParameterNoPanic_def IsValidParameterValue_def)
  have plain_value: "list_all (\<lambda>c. is_letter c \<or> is_digit c \<or> c = CHR ''-'') xs \<Longrightarrow> list_all plain xs" for xs
    by (induction xs) (auto simp: is_letter_def is_digit_def plain_def symbols_def Let_def)
  have "lex v [] = Some [Word v]"
    if "v \<noteq> []" "list_all (\<lambda>c. is_letter c \<or> is_digit c \<or> c = CHR ''-'') v"
    using that lex_plain [OF plain_value [OF that(2)], of "[]" "[]"] by (simp add: lex.simps flush_def)
  with all [of v] show "case QuerySetSystemParameterNoPanic name v False of
       Inl e \<Rightarrow> v = [] \<or> \<not> list_all (\<lambda>c. is_letter c \<or> is_digit c \<or> c = CHR ''-'') v
     | Inr q \<Rightarrow> lex q [] = Some [Word ''alter'', Word ''system'', Word ''set'', Word name, Sym (CHR ''=''), Word v]"
    by (auto simp: QuerySetSystemParameterNoPanic_def IsValidParameterValue_def)
qed

theorem QuerySetSystemParameter_value_witness:
  "\<exists>q. QuerySetSystemParameterNoPanic ''p'' [squote] True = Inr q \<and>
     lex q [] = Some [Word ''alter'', Word ''system'', Word ''set'', Word ''p'', Sym (CHR ''=''), StringLit [squote]]"
  using QuerySetSystemParameter_value [of "''p''" "[squote]"] by (simp add: plain_def symbols_def)

lemma in_alphanumeric: "list_all (\<lambda>c. is_letter c \<or> is_digit c) alphanumeric"
  by (simp add: alphanumeric_def chars_def numbers_def is_letter_def is_digit_def)

lemma in_chars: "list_all is_letter chars"
  by (simp add: chars_def is_letter_def)

lemma in_numbers: "list_all is_digit numbers"
  by (simp add: numbers_def is_digit_def)

lemma lengths [simp]: "length chars = 52" "length numbers = 10" "length alphanumeric = 62"
  by (simp_all add: alphanumeric_def chars_def numbers_def)

lemma password_loop_chars:
  assumes "password_loop randInt k n = Inr r" and "\<And>k m v. randInt k m = Inr v \<Longrightarrow> v < m"
  shows "length r = n \<and> list_all (\<lambda>c. is_letter c \<or> is_digit c) r"
  using assms(1)
proof (induction n arbitrary: k r)
  case (Suc n)
  then obtain a rest where a: "randInt k (length alphanumeric) = Inr a"
    and rest: "password_loop randInt (Suc k) n = Inr rest" and r: "r = alphanumeric ! a # rest"
    by (auto split: sum.splits)
  have "is_letter (alphanumeric ! a) \<or> is_digit (alphanumeric ! a)"
    using in_alphanumeric assms(2) [OF a] by (simp add: list_all_length)
  with Suc.IH [OF rest] r show ?case by simp
qed simp

text \<open>
  A password made by \<open>RandOraclePassword\<close> has ten characters, starts with a letter, is made of
  letters and digits, and has a digit.
\<close>

theorem RandOraclePassword_wellformed:
  assumes "\<And>k m v. randInt k m = Inr v \<Longrightarrow> v < m" and "RandOraclePassword randInt = Inr p"
  shows "length p = 10 \<and> is_letter (hd p) \<and> list_all (\<lambda>c. is_letter c \<or> is_digit c) p \<and> list_ex is_digit p"
proof -
  obtain result where loop: "password_loop randInt 0 9 = Inr result"
    using assms(2) by (auto simp: RandOraclePassword_def split: sum.splits)
  have r: "length result = 9 \<and> list_all (\<lambda>c. is_letter c \<or> is_digit c) result"
    using password_loop_chars [OF loop] assms(1) by blast
  obtain k' result' cRand where c: "randInt k' (length chars) = Inr cRand" and p: "p = chars ! cRand # result'"
    and repl: "list_ex is_digit result \<and> result' = result \<or>
      (\<exists>k k2 n i. randInt k (length numbers) = Inr n \<and> randInt k2 9 = Inr i \<and> result' = result[i := numbers ! n])"
    using assms(2) loop
    by (auto simp: RandOraclePassword_def Let_def split: sum.splits if_splits) blast+
  have first: "is_letter (chars ! cRand)" using in_chars assms(1) [OF c] by (simp add: list_all_length)
  from repl show ?thesis
  proof (elim disjE exE conjE)
    assume "list_ex is_digit result" "result' = result"
    with r first p show ?thesis by auto
  next
    fix k k2 n i
    assume n: "randInt k (length numbers) = Inr n" and i: "randInt k2 9 = Inr i"
      and result': "result' = result[i := numbers ! n]"
    have "is_digit (numbers ! n)" using in_numbers assms(1) [OF n] by (simp add: list_all_length)
    moreover have "i < length result" using assms(1) [OF i] r by simp
    ultimately have "list_ex is_digit result'" "list_all (\<lambda>c. is_letter c \<or> is_digit c) result'"
      using r set_update_subset_insert [of result i "numbers ! n"]
      by (auto simp: result' list_ex_length list_all_iff intro!: exI [of _ i])
    with r first p result' show ?thesis by auto
  qed
qed

definition sample_rand :: "nat \<Rightarrow> nat \<Rightarrow> go_error + nat" where
  "sample_rand k m = (if m = 0 then Inl (Errorf []) else Inr 0)"

lemma sample_rand_below: "sample_rand k m = Inr v \<Longrightarrow> v < m"
  by (simp add: sample_rand_def split: if_splits)

lemma sample_password_loop: "password_loop sample_rand k n = Inr (replicate n (CHR ''A''))"
proof (induction n arbitrary: k)
  case (Suc n)
  have "alphanumeric ! 0 = CHR ''A''" by (simp add: alphanumeric_def chars_def)
  with Suc show ?case by (simp add: sample_rand_def)
qed simp

theorem RandOraclePassword_wellformed_witness:
  "\<exists>p. RandOraclePassword sample_rand = Inr p \<and> length p = 10 \<and> list_ex is_digit p"
proof -
  have "\<not> is_digit (CHR ''A'')" by (simp add: is_digit_def)
  then have "\<exists>p. RandOraclePassword sample_rand = Inr p"
    by (simp add: RandOraclePassword_def sample_password_loop list_ex_iff Let_def) (simp add: sample_rand_def)
  then obtain p where "RandOraclePassword sample_rand = Inr p" ..
  with RandOraclePassword_wellformed [of sample_rand p] sample_rand_below show ?thesis by blast
qed

end
