(* ===== verification/InstanceUtils.thy ===== *)
theory InstanceUtils
  imports Resources Sql
begin

text \<open>
  The helpers of \<open>oracle/controllers/instancecontroller/utils.go\<close>: the progress of a stateful set,
  images, the entry condition of patching, the database's status and its patching job, disk resizing
  and the maintenance lock. A handler returns the instance, the log of calls and its results.
\<close>

subsection \<open>Specification and images\<close>

text \<open>The configs of a namespace as \<open>List\<close> answers; at most one is allowed.\<close>

definition loadConfig :: "go_error + ConfigSpec list \<Rightarrow> go_error + ConfigSpec option" where
  "loadConfig listed =
     (case listed of
        Inl err \<Rightarrow> Inl err
      | Inr items \<Rightarrow>
          if length items = 0 then Inr None
          else if length items \<noteq> 1
          then Inl (Errorf (''number of customer provided configs is not one: '' @ itoa (int (length items))))
          else Inr (Some (hd items)))"

definition validateSpec :: "Instance \<Rightarrow> go_error option" where
  "validateSpec inst =
     (let spec = inst_Spec inst;
          domainFromName = after_dot (is_DBUniqueName spec);
          cdb = (if is_CDBName spec = [] then None
                 else case Identifier (is_CDBName spec) of
                        Inl err \<Rightarrow> Some (Errorf (''validateSpec: cdbName is not valid: '' @ err_msg err))
                      | Inr _ \<Rightarrow> None)
      in if CHR ''.'' \<in> set (is_DBUniqueName spec) \<and> is_DBDomain spec \<noteq> [] \<and> domainFromName \<noteq> is_DBDomain spec
         then Some (Errorf (''validateSpec: domain '' @ domainFromName @ '' provided in DBUniqueName '' @
                is_DBUniqueName spec @ '' does not match with provided DBDomain '' @ is_DBDomain spec))
         else cdb)"

definition updateIsChangeApplied :: "Instance \<Rightarrow> Instance" where
  "updateIsChangeApplied inst =
     (let st = inst_Status inst;
          st1 = (if ist_ObservedGeneration st < inst_Generation inst
                 then st\<lparr>ist_IsChangeApplied := Some ConditionFalse, ist_ObservedGeneration := inst_Generation inst\<rparr>
                 else st);
          parameterUpdateDone = (is_Parameters (inst_Spec inst) = None \<or>
                                 ist_CurrentParameters st1 = is_Parameters (inst_Spec inst));
          st2 = (if ist_IsChangeApplied st1 = Some ConditionTrue then st1
                 else if parameterUpdateDone then st1\<lparr>ist_IsChangeApplied := Some ConditionTrue\<rparr> else st1)
      in inst\<lparr>inst_Status := st2\<rparr>)"

definition CloneMap :: "gomap \<Rightarrow> gomap" where
  "CloneMap source = Some (case source of None \<Rightarrow> Map.empty | Some f \<Rightarrow> f)"

text \<open>\<open>if _, ok := images[k]; ok { images[k] = v }\<close> for every entry of the second map.\<close>

definition override_images :: "gomap \<Rightarrow> gomap \<Rightarrow> gomap" where
  "override_images images src =
     map_option (\<lambda>im k. if im k \<noteq> None \<and> map_has src k then Some (map_get src k) else im k) images"

definition overrideDefaultImages ::
    "ConfigSpec option \<Rightarrow> gomap \<Rightarrow> Instance \<Rightarrow> go_error option \<times> gomap" where
  "overrideDefaultImages config images inst =
     (let platform_ok = (case config of None \<Rightarrow> True
            | Some c \<Rightarrow> cfg_Platform c = PlatformGCP \<or> cfg_Platform c = PlatformBareMetal \<or>
                        cfg_Platform c = PlatformMinikube \<or> cfg_Platform c = PlatformKind);
          images1 = (case config of None \<Rightarrow> images | Some c \<Rightarrow> override_images images (cfg_Images c));
          images2 = override_images images1 (is_Images (inst_Spec inst));
          serviceImageDefined = (map_has (is_Images (inst_Spec inst)) ''service'' \<or>
            (case config of None \<Rightarrow> False | Some c \<Rightarrow> map_has (cfg_Images c) ''service''))
      in if \<not> platform_ok
         then (Some (Errorf (''Unsupported platform: '' @ (case config of None \<Rightarrow> [] | Some c \<Rightarrow> cfg_Platform c))), images)
         else if is_CDBName (inst_Spec inst) = []
         then (Some (Errorf ''overrideDefaultImages: CDBName isn't defined in the config''), images2)
         else if \<not> serviceImageDefined
         then (Some (Errorf ''overrideDefaultImages: Service image isn't defined in the config''), images2)
         else (None, images2))"

subsection \<open>Progress of the stateful set\<close>

text \<open>The loops keep the last element with the name.\<close>

definition last_match :: "('a \<Rightarrow> bool) \<Rightarrow> 'a list \<Rightarrow> 'a option" where
  "last_match P xs = (case filter P xs of [] \<Rightarrow> None | y # ys \<Rightarrow> Some (last (y # ys)))"

fun pod_condition_error :: "string \<Rightarrow> string \<Rightarrow> PodCondition list \<Rightarrow> go_error option" where
  "pod_condition_error name phase [] = None"
| "pod_condition_error name phase (c # cs) =
     (if pc_Type c = ''Ready'' \<and> pc_Status c = ''False''
      then Some (Errorf (''failed to find the right Pod '' @ name @ ''-0 in status Running: '' @ phase))
      else if pc_Type c = ''ContainersReady'' \<and> pc_Status c = ''False''
      then Some (Errorf ''statusProgress: podCondition.Type ContainersReady is False'')
      else pod_condition_error name phase cs)"

fun not_ready_error :: "string \<Rightarrow> (string \<times> bool) list \<Rightarrow> go_error option" where
  "not_ready_error kind [] = None"
| "not_ready_error kind ((name, ready) # cs) =
     (if \<not> ready then Some (Errorf (kind @ '' '' @ name @ '' is not ready'')) else not_ready_error kind cs)"

definition pod_progress :: "string \<Rightarrow> Pod list \<Rightarrow> int \<times> go_error option" where
  "pod_progress name pods =
     (if pods = [] then (65, Some (Errorf ''failed to find enough pods, found: 0 pods''))
      else case last_match (\<lambda>p. pod_Name p = name @ ''-0'') pods of
        None \<Rightarrow> (75, Some (Errorf (''failed to find the right Pod '' @ name @ ''-0 (out of '' @
                            itoa (int (length pods)) @ '')'')))
      | Some p \<Rightarrow>
          if pod_Phase p \<noteq> ''Running''
          then (85, Some (Errorf (''failed to find the right Pod '' @ name @ ''-0 in status Running: '' @ pod_Phase p)))
          else (case pod_condition_error name (pod_Phase p) (pod_Conditions p) of
             Some e \<Rightarrow> (85, Some e)
           | None \<Rightarrow> (case not_ready_error ''container'' (pod_ContainerStatuses p) of
                Some e \<Rightarrow> (85, Some e)
              | None \<Rightarrow> (case not_ready_error ''init container'' (pod_InitContainerStatuses p) of
                   Some e \<Rightarrow> (85, Some e)
                 | None \<Rightarrow> (100, None)))))"

definition statusProgress ::
    "inst_env \<Rightarrow> inst_log \<Rightarrow> string \<Rightarrow> string \<Rightarrow> inst_log \<times> int \<times> go_error option" where
  "statusProgress env l ns name =
     (let l1 = l @ [IListSTS ns] in
      case ie_ListSTS env l ns of
        Inl err \<Rightarrow> (l1, 0, Some err)
      | Inr items \<Rightarrow>
          if items = [] then (l1, 0, Some (Errorf ''failed to find a StatefulSet, found: 0''))
          else (case last_match (\<lambda>s. sts_Name s = name) items of
            None \<Rightarrow> (l1, 0, Some (Errorf (''failed to find the right StatefulSet '' @ name @ '' (out of '' @
                              itoa (int (length items)) @ '')'')))
          | Some s \<Rightarrow>
              if sts_CurrentReplicas s \<noteq> 1
              then (l1, 10, Some (Errorf (''StatefulSet is not ready yet? (failed to find the expected number of current replicas): '' @
                     itoa (sts_CurrentReplicas s))))
              else if sts_ReadyReplicas s \<noteq> 1
              then (l1, 50, Some (Errorf (''StatefulSet is not ready yet? (failed to find the expected number of ready replicas): '' @
                     itoa (sts_ReadyReplicas s))))
              else (let labels = [(''statefulset'', name)]; l2 = l1 @ [IListPods ns labels] in
                    case ie_ListPods env l1 ns labels of
                      Inl err \<Rightarrow> (l2, 60, Some err)
                    | Inr pods \<Rightarrow> (l2, pod_progress name pods))))"

definition updateProgressCondition ::
    "inst_env \<Rightarrow> inst_log \<Rightarrow> Instance \<Rightarrow> string \<Rightarrow> string \<Rightarrow> Instance \<times> inst_log \<times> bool" where
  "updateProgressCondition env l inst ns op =
     (case statusProgress env l ns (GetSTSName (inst_Name inst)) of
        (l1, progress, err) \<Rightarrow>
          (case inst_cond inst k8s_Ready of
             Some c \<Rightarrow>
               if progress > 0
               then (upsert env l1 inst (Type c) (Status c) (Reason c) (op @ '': '' @ itoa progress @ ''%''), l1, err = None)
               else (inst, l1, err = None)
           | None \<Rightarrow> (inst, l1, err = None)))"

subsection \<open>Database status and patching\<close>

definition IsPatchingStateMachineEntryCondition ::
    "(string \<Rightarrow> bool) \<Rightarrow> gomap \<Rightarrow> gomap \<Rightarrow> gomap \<Rightarrow> Condition option \<Rightarrow> Condition option \<Rightarrow> bool" where
  "IsPatchingStateMachineEntryCondition enabledServices activeImages spImages lastFailedImages
     instanceReadyCond dbInstanceCond =
     (if \<not> (enabledServices ''Patching'' \<and> instanceReadyCond \<noteq> None \<and> dbInstanceCond \<noteq> None \<and>
            ConditionStatusEquals instanceReadyCond ConditionTrue)
      then False
      else activeImages \<noteq> spImages \<and> (lastFailedImages = None \<or> lastFailedImages \<noteq> spImages))"

definition isOracleUpAndRunning :: "inst_env \<Rightarrow> inst_log \<Rightarrow> Instance \<Rightarrow> inst_log \<times> (go_error + bool)" where
  "isOracleUpAndRunning env l inst =
     (l @ [ICheckStatus (inst_Name inst)],
      case ie_CheckStatus env l inst of
        Inl err \<Rightarrow> Inr False
      | Inr status \<Rightarrow> if status \<noteq> ''Ready'' then Inr False else Inr True)"

definition lroPatchingOperationID :: "Instance \<Rightarrow> string" where
  "lroPatchingOperationID inst = ''DatabasePatch_'' @ inst_UID inst"

definition startDatabasePatching :: "inst_env \<Rightarrow> inst_log \<Rightarrow> Instance \<Rightarrow> inst_log \<times> go_error option" where
  "startDatabasePatching env l inst =
     (let id = lroPatchingOperationID inst in
      (l @ [IApplyDataPatch id],
       map_option (\<lambda>err. GoError (err_code err) (''failed on ApplyDataPatch gRPC call: '' @ err_msg err))
         (ie_ApplyDataPatch env l id)))"

definition op_error :: "Operation \<Rightarrow> go_error option" where
  "op_error operation = (case op_Result operation of ErrorResult e \<Rightarrow> Some e | _ \<Rightarrow> None)"

text \<open>Done without an error, done with one, or not done: the pair of a flag and an error.\<close>

definition isDatabasePatchingDone :: "inst_env \<Rightarrow> inst_log \<Rightarrow> Instance \<Rightarrow> inst_log \<times> bool \<times> go_error option" where
  "isDatabasePatchingDone env l inst =
     (let id = lroPatchingOperationID inst; l1 = l @ [IGetLRO id] in
      case ie_GetLRO env l id of
        Inl err \<Rightarrow> (l1, False, None)
      | Inr operation \<Rightarrow>
          if \<not> op_Done operation then (l1, False, None)
          else (let l2 = l1 @ [IDeleteLRO id] in
            case ie_DeleteLRO env l1 id of
              Some err \<Rightarrow> (l2, False, Some (Errorf (''DeleteLROOperation returned an error: '' @ err_msg err)))
            | None \<Rightarrow> (case op_error operation of
                Some e \<Rightarrow> (l2, False, Some (Errorf (''config_agent.ApplyDataPatch() failed: '' @ err_msg e)))
              | None \<Rightarrow> (l2, True, None))))"

subsection \<open>Resizing\<close>

fun findContainer :: "Container list \<Rightarrow> string \<Rightarrow> Container option" where
  "findContainer [] name = None"
| "findContainer (c # cs) name = (if c_Name c = name then Some c else findContainer cs name)"

text \<open>Setting the resources of the container \<open>findContainer\<close> points to.\<close>

fun set_resources :: "string \<Rightarrow> ResourceRequirements \<Rightarrow> Container list \<Rightarrow> Container list" where
  "set_resources name r [] = []"
| "set_resources name r (c # cs) =
     (if c_Name c = name then c\<lparr>c_Resources := r\<rparr> # cs else c # set_resources name r cs)"

definition IsReadyWithObj :: "StatefulSet \<Rightarrow> bool \<times> string" where
  "IsReadyWithObj sts =
     (let want = (case sts_Replicas sts of None \<Rightarrow> 0 | Some n \<Rightarrow> n); have = sts_ReadyReplicas sts in
      if want = have
      then (if want = 0
            then (False, ''Statefulset '' @ sts_Namespace sts @ ''/'' @ sts_Name sts @ '' has zero replicas'')
            else (True, ''Statefulset '' @ sts_Namespace sts @ ''/'' @ sts_Name sts @ '' is running''))
      else (False, ''StatefulSet is not ready (current replicas: '' @ itoa have @ '' expected replicas: '' @
              itoa want @ '')''))"

definition FilterDiskWithSizeChanged ::
    "PersistentVolumeClaim list \<Rightarrow> PersistentVolumeClaim list \<Rightarrow> PersistentVolumeClaim list" where
  "FilterDiskWithSizeChanged old new =
     (let oldDisks = map_of (rev (map (\<lambda>c. (pvc_Name c, pvc_Storage c)) old)) in
      filter (\<lambda>c. case oldDisks (pvc_Name c) of None \<Rightarrow> False | Some sz \<Rightarrow> sz \<noteq> pvc_Storage c) new)"

text \<open>The pairs of a replica and a claim the nested loops visit, in order. \<open>Replicas\<close> of a stateful
  set made by \<open>NewSts\<close> is never nil.\<close>

definition replica_pvcs :: "StatefulSet \<Rightarrow> PersistentVolumeClaim list \<Rightarrow> (int \<times> PersistentVolumeClaim) list" where
  "replica_pvcs sts pvcs =
     concat (map (\<lambda>i. map (Pair i) pvcs) (case sts_Replicas sts of None \<Rightarrow> [] | Some n \<Rightarrow> [0..n - 1]))"

definition CheckSinglePvc :: "inst_env \<Rightarrow> inst_log \<Rightarrow> string \<times> string \<Rightarrow> inst_log \<times> go_error option" where
  "CheckSinglePvc env l key =
     (case key of (ns, name) \<Rightarrow>
      (let l1 = l @ [IGetPVC ns name] in
       case ie_GetPVC env l ns name of
         Inl err \<Rightarrow> (l1, Some (Errorf (''error getting pvc ['' @ ns @ ''/'' @ name @ '']: '' @ err_msg err)))
       | Inr tpvc \<Rightarrow>
           (case pvc_StorageClassName tpvc of
              None \<Rightarrow> (l1, Some (Errorf (''cannot resize manually provisioned pvc ['' @ ns @ ''/'' @ name @ '']'')))
            | Some scName \<Rightarrow>
                if scName = []
                then (l1, Some (Errorf (''cannot resize manually provisioned pvc ['' @ ns @ ''/'' @ name @ '']'')))
                else (let l2 = l1 @ [IGetStorageClass scName] in
                  case ie_GetStorageClass env l1 scName of
                    Inl err \<Rightarrow> (l2, Some (Errorf (''error getting storageclass ['' @ scName @ '']: '' @ err_msg err)))
                  | Inr allow \<Rightarrow>
                      if allow \<noteq> Some True
                      then (l2, Some (Errorf (''storageclass ['' @ scName @ ''] does not allow expansion for volume ['' @
                              pvc_Name tpvc @ '']'')))
                      else (l2, None)))))"

fun pvcs_expandable ::
    "inst_env \<Rightarrow> StatefulSet \<Rightarrow> inst_log \<Rightarrow> (int \<times> PersistentVolumeClaim) list \<Rightarrow> inst_log \<times> go_error option" where
  "pvcs_expandable env sts l [] = (l, None)"
| "pvcs_expandable env sts l ((i, pvc) # ps) =
     (case CheckSinglePvc env l (ObjectKeyOf sts pvc i) of
        (l1, Some err) \<Rightarrow> (l1, Some err)
      | (l1, None) \<Rightarrow> pvcs_expandable env sts l1 ps)"

definition PvcsCanBeExpanded ::
    "inst_env \<Rightarrow> inst_log \<Rightarrow> StatefulSet \<Rightarrow> PersistentVolumeClaim list \<Rightarrow> inst_log \<times> go_error option" where
  "PvcsCanBeExpanded env l sts pvcs = pvcs_expandable env sts l (replica_pvcs sts pvcs)"

fun resize_loop ::
    "inst_env \<Rightarrow> StatefulSet \<Rightarrow> inst_log \<Rightarrow> bool \<Rightarrow> (int \<times> PersistentVolumeClaim) list \<Rightarrow>
     inst_log \<times> (go_error + bool)" where
  "resize_loop env sts l done [] = (l, Inr done)"
| "resize_loop env sts l done ((i, pvc) # ps) =
     (case ObjectKeyOf sts pvc i of (ns, name) \<Rightarrow>
      (let newSize = pvc_Storage pvc; l1 = l @ [IGetPVC ns name] in
       case ie_GetPVC env l ns name of
         Inl err \<Rightarrow> (l1, Inl (Errorf (''error getting pvc ['' @ ns @ ''/'' @ name @ '']: '' @ err_msg err)))
       | Inr cur \<Rightarrow>
           if newSize = pvc_Storage cur
           then resize_loop env sts l1 (if newSize \<noteq> pvc_Capacity cur then False else done) ps
           else (let l2 = l1 @ [IPatchPVC ns name newSize] in
             case ie_PatchPVC env l1 ns name newSize of
               Some err \<Rightarrow> (l2, Inl (Errorf (''error resizing pvc ['' @ ns @ ''/'' @ name @ '']: '' @ err_msg err)))
             | None \<Rightarrow> resize_loop env sts l2 False ps)))"

definition resizePvcs ::
    "inst_env \<Rightarrow> inst_log \<Rightarrow> StatefulSet \<Rightarrow> PersistentVolumeClaim list \<Rightarrow> inst_log \<times> (go_error + bool)" where
  "resizePvcs env l sts disks = resize_loop env sts l True (replica_pvcs sts disks)"

definition tryResizeDisksOf :: "inst_env \<Rightarrow> inst_log \<Rightarrow> StatefulSet \<Rightarrow> inst_log \<times> (go_error + bool)" where
  "tryResizeDisksOf env l newSts =
     (let ns = sts_Namespace newSts; name = sts_Name newSts; l1 = l @ [IGetSTS ns name] in
      case ie_GetSTS env l ns name of
        Inl err \<Rightarrow>
          if IsNotFound err then (l1, Inr False)
          else (l1, Inl (Errorf (''error getting statefulset ['' @ ns @ ''/'' @ name @ '']: '' @ err_msg err)))
      | Inr oldSts \<Rightarrow>
          if sts_DeletionTimestamp oldSts \<noteq> None then (l1, Inr False)
          else (let changedDisks = FilterDiskWithSizeChanged (sts_VolumeClaimTemplates oldSts) (sts_VolumeClaimTemplates newSts)
            in if changedDisks = [] then (l1, Inr True)
               else (case PvcsCanBeExpanded env l1 newSts changedDisks of
                  (l2, Some err) \<Rightarrow> (l2, Inl (Errorf ''pvcs may not be expanded''))
                | (l2, None) \<Rightarrow>
                    (case resizePvcs env l2 newSts changedDisks of
                       (l3, Inl err) \<Rightarrow> (l3, Inl err)
                     | (l3, Inr done) \<Rightarrow>
                         if \<not> done then (l3, Inr False)
                         else (let l4 = l3 @ [IDeleteSTS (sts_Namespace oldSts) (sts_Name oldSts)] in
                           case ie_DeleteSTS env l3 (sts_Namespace oldSts) (sts_Name oldSts) of
                             Some err \<Rightarrow> (l4, Inl (Errorf (''error while deleting sts ['' @ ns @ ''/'' @ name @ '']: '' @ err_msg err)))
                           | None \<Rightarrow> (l4, Inr False))))))"

datatype pods_error = ErrNoResources string | ErrPodUnschedulable string | ErrListPods go_error

fun GetPodCondition :: "PodCondition list \<Rightarrow> string \<Rightarrow> PodCondition option" where
  "GetPodCondition [] condType = None"
| "GetPodCondition (c # cs) condType = (if pc_Type c = condType then Some c else GetPodCondition cs condType)"

fun verify_pods :: "Pod list \<Rightarrow> pods_error option" where
  "verify_pods [] = None"
| "verify_pods (p # ps) =
     (case GetPodCondition (pod_Conditions p) ''PodScheduled'' of
        Some c \<Rightarrow>
          if pc_Reason c = ''Unschedulable''
          then (if Contains_str (pc_Message c) ''Insufficient memory'' \<or> Contains_str (pc_Message c) ''Insufficient cpu'' \<or>
                   Contains_str (pc_Message c) ''enough free storage''
                then Some (ErrNoResources (pc_Message c)) else Some (ErrPodUnschedulable (pc_Message c)))
          else verify_pods ps
      | None \<Rightarrow> verify_pods ps)"

definition VerifyPodsStatus :: "inst_env \<Rightarrow> inst_log \<Rightarrow> StatefulSet \<Rightarrow> inst_log \<times> pods_error option" where
  "VerifyPodsStatus env l sts =
     (l @ [IListPods (sts_Namespace sts) (sts_MatchLabels sts)],
      case ie_ListPods env l (sts_Namespace sts) (sts_MatchLabels sts) of
        Inl err \<Rightarrow> Some (ErrListPods err)
      | Inr pods \<Rightarrow> verify_pods pods)"

text \<open>\<open>createStatefulSet\<close>: \<open>CreateOrUpdate\<close> of the constructed object.\<close>

definition createStatefulSet ::
    "inst_env \<Rightarrow> inst_log \<Rightarrow> Instance \<Rightarrow> StsParams \<Rightarrow> inst_log \<times> go_error option" where
  "createStatefulSet env l inst sp =
     (case constructSTSandPVCs env inst sp inst of
        Inl err \<Rightarrow> (l, Some err)
      | Inr (sts, _) \<Rightarrow> (l @ [ICreateOrUpdateSTS sts], ie_CreateOrUpdateSTS env l sts))"

definition buildStatefulSet :: "inst_env \<Rightarrow> Instance \<Rightarrow> StsParams \<Rightarrow> go_error + StatefulSet" where
  "buildStatefulSet env inst sp =
     (case constructSTSandPVCs env inst sp inst of Inl err \<Rightarrow> Inl err | Inr (sts, _) \<Rightarrow> Inr sts)"

text \<open>The tail of \<open>handleResize\<close> once CPU, memory and disks are as wanted.\<close>

definition finish_resize ::
    "inst_env \<Rightarrow> inst_log \<Rightarrow> Instance \<Rightarrow> Condition option \<Rightarrow> StatefulSet \<Rightarrow> Container \<Rightarrow>
     Instance \<times> inst_log \<times> ctrl_Result \<times> go_error option" where
  "finish_resize env l inst instanceReadyCond sts dbContainer =
     (if \<not> ConditionReasonEquals instanceReadyCond k8s_ResizingInProgress then (inst, l, Result_zero, None)
      else case IsReadyWithObj sts of
        (ready, msg) \<Rightarrow>
          if ready \<and> is_DatabaseResources (inst_Spec inst) = c_Resources dbContainer
          then (upsert env l inst k8s_Ready ConditionTrue k8s_CreateComplete msg, l, requeue_now, None)
          else (case VerifyPodsStatus env l sts of
             (l1, Some (ErrPodUnschedulable m)) \<Rightarrow>
               (inst, l1, Result_zero, Some (Errorf (''Unschedulable pod '' @ m @ '': Pod is unschedulable'')))
           | (l1, Some (ErrNoResources m)) \<Rightarrow>
               (inst, l1, Result_zero, Some (Errorf (''Insufficient Resources '' @ m @ '': Insufficient resources to create Pod'')))
           | (l1, _) \<Rightarrow> (inst, l1, Result_zero, None)))"

definition resize_disks ::
    "inst_env \<Rightarrow> inst_log \<Rightarrow> Instance \<Rightarrow> Condition option \<Rightarrow> StsParams \<Rightarrow> StatefulSet \<Rightarrow> Container \<Rightarrow>
     Instance \<times> inst_log \<times> ctrl_Result \<times> go_error option" where
  "resize_disks env l inst instanceReadyCond sp sts dbContainer =
     (case buildStatefulSet env inst sp of
        Inl err \<Rightarrow> (inst, l, Result_zero, Some err)
      | Inr newSts \<Rightarrow>
          (case tryResizeDisksOf env l newSts of
             (l1, Inl err) \<Rightarrow> (inst, l1, Result_zero, Some err)
           | (l1, Inr False) \<Rightarrow>
               (upsert env l1 inst k8s_Ready ConditionFalse k8s_ResizingInProgress ''Resizing disk'', l1,
                requeue_in (10 * Second), None)
           | (l1, Inr True) \<Rightarrow> finish_resize env l1 inst instanceReadyCond sts dbContainer))"

text \<open>The object \<open>CreateOrUpdate\<close> sends for a CPU or memory change is the stateful set as read, with
  the database container's resources replaced.\<close>

definition handleResize ::
    "inst_env \<Rightarrow> inst_log \<Rightarrow> Instance \<Rightarrow> Condition option \<Rightarrow> Condition option \<Rightarrow> StsParams \<Rightarrow>
     Instance \<times> inst_log \<times> ctrl_Result \<times> go_error option" where
  "handleResize env l inst instanceReadyCond dbInstanceCond sp =
     (if \<not> ConditionStatusEquals instanceReadyCond ConditionTrue \<and> \<not> ConditionStatusEquals dbInstanceCond ConditionTrue \<and>
         \<not> ConditionReasonEquals instanceReadyCond k8s_ResizingInProgress
      then (inst, l, Result_zero, None)
      else (let ns = inst_Namespace inst; l1 = l @ [IGetSTS ns (sp_StsName sp)] in
        case ie_GetSTS env l ns (sp_StsName sp) of
          Inl err \<Rightarrow>
            if \<not> IsNotFound err
            then (inst, l1, Result_zero, Some (Errorf (''failed to get statefulset: '' @ err_msg err)))
            else (let inst1 = upsert env l1 inst k8s_Ready ConditionFalse k8s_ResizingInProgress ''Recreating statefulset'' in
              case createStatefulSet env l1 inst1 sp of
                (l2, Some e) \<Rightarrow> (inst1, l2, Result_zero, Some e)
              | (l2, None) \<Rightarrow> (inst1, l2, requeue_in (5 * Second), None))
        | Inr sts \<Rightarrow>
            (case findContainer (pt_Containers (sts_Template sts)) dbContainerName of
               None \<Rightarrow> (inst, l1, Result_zero, Some (Errorf ''could not find database container in pod template''))
             | Some dbContainer \<Rightarrow>
                 if is_DatabaseResources (inst_Spec inst) \<noteq> c_Resources dbContainer
                 then (let inst1 = upsert env l1 inst k8s_Ready ConditionFalse k8s_ResizingInProgress ''Resizing cpu/memory'';
                           t = sts_Template sts;
                           want = sts\<lparr>sts_Template := t\<lparr>pt_Containers := set_resources dbContainerName
                                    (is_DatabaseResources (inst_Spec inst)) (pt_Containers t)\<rparr>\<rparr>;
                           l2 = l1 @ [ICreateOrUpdateSTS want]
                       in case ie_CreateOrUpdateSTS env l1 want of
                            Some e \<Rightarrow> (inst1, l2, Result_zero, Some (Errorf (''failed to update statefulset resources: '' @ err_msg e)))
                          | None \<Rightarrow> (inst1, l2, requeue_in (5 * Second), None))
                 else resize_disks env l1 inst instanceReadyCond sp sts dbContainer)))"

subsection \<open>The maintenance lock\<close>

definition set_lock :: "string \<Rightarrow> Instance \<Rightarrow> Instance" where
  "set_lock o1 inst = inst\<lparr>inst_Status := (inst_Status inst)\<lparr>ist_LockedByController := o1\<rparr>\<rparr>"

text \<open>What \<open>AcquireInstanceMaintenanceLock\<close> and \<open>ReleaseInstanceMaintenanceLock\<close> write to the field
  and, for the former, the error it returns if the update succeeds.\<close>

definition acquire_field :: "string \<Rightarrow> string \<Rightarrow> string \<times> go_error option" where
  "acquire_field lock owner =
     (if lock = [] then (owner, None)
      else if lock = owner then (lock, None)
      else (lock, Some (Errorf (''requested owner: '' @ owner @ '', instance already locked by '' @ lock))))"

definition release_field :: "string \<Rightarrow> string \<Rightarrow> string" where
  "release_field lock owner = (if lock = [] then lock else if lock = owner then [] else lock)"

definition AcquireInstanceMaintenanceLock ::
    "inst_env \<Rightarrow> inst_log \<Rightarrow> Instance \<Rightarrow> string \<Rightarrow> Instance \<times> inst_log \<times> go_error option" where
  "AcquireInstanceMaintenanceLock env l inst owner =
     (case acquire_field (ist_LockedByController (inst_Status inst)) owner of
        (lock, result) \<Rightarrow>
          (let inst1 = set_lock lock inst in
           (inst1, l @ [IStatusUpdate inst1],
            case ie_StatusUpdate env l inst1 of
              Some err \<Rightarrow> Some (Errorf (''requested owner: '' @ owner @ '', failed to update the instance status: '' @ err_msg err))
            | None \<Rightarrow> result)))"

definition ReleaseInstanceMaintenanceLock ::
    "inst_env \<Rightarrow> inst_log \<Rightarrow> Instance \<Rightarrow> string \<Rightarrow> Instance \<times> inst_log \<times> go_error option" where
  "ReleaseInstanceMaintenanceLock env l inst owner =
     (let inst1 = set_lock (release_field (ist_LockedByController (inst_Status inst)) owner) inst in
      (inst1, l @ [IStatusUpdate inst1],
       map_option (\<lambda>err. Errorf (''requested owner: '' @ owner @ '', failed to update the instance status: '' @ err_msg err))
         (ie_StatusUpdate env l inst1)))"

subsection \<open>Progress\<close>

lemma pod_condition_error_None:
  "pod_condition_error name phase cs = None \<longleftrightarrow>
     (\<forall>c \<in> set cs. \<not> (pc_Status c = ''False'' \<and> (pc_Type c = ''Ready'' \<or> pc_Type c = ''ContainersReady'')))"
  by (induction cs) auto

lemma not_ready_error_None: "not_ready_error kind cs = None \<longleftrightarrow> (\<forall>(n, ready) \<in> set cs. ready)"
  by (induction kind cs rule: not_ready_error.induct) (auto split: if_splits)

definition pod_up :: "Pod \<Rightarrow> bool" where
  "pod_up p \<longleftrightarrow> pod_Phase p = ''Running'' \<and>
     (\<forall>c \<in> set (pod_Conditions p).
        \<not> (pc_Status c = ''False'' \<and> (pc_Type c = ''Ready'' \<or> pc_Type c = ''ContainersReady''))) \<and>
     (\<forall>(n, ready) \<in> set (pod_ContainerStatuses p). ready) \<and>
     (\<forall>(n, ready) \<in> set (pod_InitContainerStatuses p). ready)"

lemma pod_up_errors:
  "pod_up p \<longleftrightarrow> pod_Phase p = ''Running'' \<and> pod_condition_error name (pod_Phase p) (pod_Conditions p) = None \<and>
     not_ready_error ''container'' (pod_ContainerStatuses p) = None \<and>
     not_ready_error ''init container'' (pod_InitContainerStatuses p) = None"
  unfolding pod_up_def pod_condition_error_None not_ready_error_None by blast

lemma pod_progress_None:
  "snd (pod_progress name pods) = None \<longleftrightarrow>
     (\<exists>p. last_match (\<lambda>p. pod_Name p = name @ ''-0'') pods = Some p \<and> pod_up p)"
  unfolding pod_progress_def pod_up_errors [of _ name]
  by (cases "pods = []") (auto simp: last_match_def [of _ "[]"] split: option.splits)

lemma pod_progress_value:
  "fst (pod_progress name pods) = (if snd (pod_progress name pods) = None then 100 else fst (pod_progress name pods)) \<and>
   fst (pod_progress name pods) \<in> {65, 75, 85, 100} \<and>
   (fst (pod_progress name pods) = 100 \<longleftrightarrow> snd (pod_progress name pods) = None)"
  by (auto simp: pod_progress_def split: option.splits)

lemma last_match_Nil [simp]: "last_match P [] = None"
  by (simp add: last_match_def)

text \<open>
  An instance is reported as created only when it is up. \<open>statusProgress\<close> returns no error exactly
  when the namespace lists the instance's stateful set with one current and one ready replica, and its
  pod is listed, is running, has no false readiness condition and only ready containers and init
  containers; the percentage is 100 exactly in that case, and below 100 otherwise.
\<close>

theorem statusProgress_complete:
  "(snd (snd (statusProgress env l ns name)) = None \<longleftrightarrow>
      (\<exists>items s pods p.
         ie_ListSTS env l ns = Inr items \<and> last_match (\<lambda>s. sts_Name s = name) items = Some s \<and>
         sts_CurrentReplicas s = 1 \<and> sts_ReadyReplicas s = 1 \<and>
         ie_ListPods env (l @ [IListSTS ns]) ns [(''statefulset'', name)] = Inr pods \<and>
         last_match (\<lambda>p. pod_Name p = name @ ''-0'') pods = Some p \<and> pod_up p)) \<and>
   (fst (snd (statusProgress env l ns name)) = 100 \<longleftrightarrow> snd (snd (statusProgress env l ns name)) = None) \<and>
   0 \<le> fst (snd (statusProgress env l ns name)) \<and> fst (snd (statusProgress env l ns name)) \<le> 100"
proof (cases "ie_ListSTS env l ns")
  case (Inl e)
  then show ?thesis by (simp add: statusProgress_def Let_def)
next
  case (Inr items)
  note items = Inr
  show ?thesis
  proof (cases "last_match (\<lambda>s. sts_Name s = name) items")
    case None
    then show ?thesis using items by (simp add: statusProgress_def Let_def)
  next
    case (Some s)
    then have ne: "items \<noteq> []" by auto
    show ?thesis
    proof (cases "sts_CurrentReplicas s = 1 \<and> sts_ReadyReplicas s = 1")
      case False
      then show ?thesis using items Some ne by (auto simp: statusProgress_def Let_def)
    next
      case True
      show ?thesis
      proof (cases "ie_ListPods env (l @ [IListSTS ns]) ns [(''statefulset'', name)]")
        case (Inl e)
        then show ?thesis using items Some ne True by (simp add: statusProgress_def Let_def)
      next
        case (Inr pods)
        then show ?thesis
          using items Some ne True pod_progress_None [of name pods] pod_progress_value [of name pods]
          by (auto simp: statusProgress_def Let_def)
      qed
    qed
  qed
qed

subsection \<open>Resizing is safe\<close>

text \<open>A claim was read with the wanted size both requested and provisioned.\<close>

definition seen_resized :: "inst_env \<Rightarrow> inst_log \<Rightarrow> string \<times> string \<Rightarrow> int \<Rightarrow> bool" where
  "seen_resized env l key sz \<longleftrightarrow>
     (\<exists>l1 l2 cur. l = l1 @ IGetPVC (fst key) (snd key) # l2 \<and> ie_GetPVC env l1 (fst key) (snd key) = Inr cur \<and>
                  pvc_Storage cur = sz \<and> pvc_Capacity cur = sz)"

lemma seen_resized_append: "seen_resized env l key sz \<Longrightarrow> seen_resized env (l @ cs) key sz"
  unfolding seen_resized_def by fastforce

lemma resize_loop_extends: "resize_loop env sts l fin ps = (l', r) \<Longrightarrow> \<exists>cs. l' = l @ cs"
proof (induction ps arbitrary: l fin)
  case (Cons p ps)
  obtain i q where p: "p = (i, q)" by fastforce
  obtain ns name where k: "ObjectKeyOf sts q i = (ns, name)" by fastforce
  have "\<exists>cs. l' = l @ cs" if "resize_loop env sts (l @ ds) f ps = (l', r)" for ds f
    using Cons.IH [OF that] by auto
  with Cons.prems p k show ?case
    by (auto simp: Let_def split: sum.splits if_splits option.splits)
qed simp

lemma resize_loop_done:
  "resize_loop env sts l fin ps = (l', Inr True) \<Longrightarrow> (i, pvc) \<in> set ps \<Longrightarrow>
     seen_resized env l' (ObjectKeyOf sts pvc i) (pvc_Storage pvc)"
proof (induction ps arbitrary: l fin)
  case (Cons p ps)
  obtain j q where p: "p = (j, q)" by fastforce
  obtain ns name where k: "ObjectKeyOf sts q j = (ns, name)" by fastforce
  let ?l = "l @ [IGetPVC ns name]"
  have never: "resize_loop env sts l0 False ps \<noteq> (l', Inr True)" for l0
  proof (induction ps arbitrary: l0)
    case (Cons a ps)
    then show ?case
      by (cases a) (auto simp: Let_def split: prod.splits sum.splits if_splits option.splits)
  qed simp
  from Cons.prems(1) p k never obtain cur where cur: "ie_GetPVC env l ns name = Inr cur"
    "pvc_Storage q = pvc_Storage cur" "pvc_Storage q = pvc_Capacity cur"
    and rest: "resize_loop env sts ?l fin ps = (l', Inr True)"
    by (auto simp: Let_def split: sum.splits if_splits option.splits)
  have "seen_resized env ?l (ObjectKeyOf sts q j) (pvc_Storage q)"
    using cur k by (auto simp: seen_resized_def)
  moreover obtain cs where "l' = ?l @ cs" using resize_loop_extends [OF rest] by blast
  ultimately have "seen_resized env l' (ObjectKeyOf sts q j) (pvc_Storage q)"
    using seen_resized_append by blast
  with Cons.IH [OF rest] Cons.prems(2) p show ?case by auto
qed simp

lemma pvcs_expandable_extends:
  "pvcs_expandable env sts l ps = (l', r) \<Longrightarrow> \<exists>cs. l' = l @ cs \<and> (\<forall>c \<in> set cs. \<forall>ns n. c \<noteq> IDeleteSTS ns n)"
proof (induction ps arbitrary: l)
  case (Cons p ps)
  obtain i q where p: "p = (i, q)" by fastforce
  have "\<exists>cs. l1 = l @ cs \<and> (\<forall>c \<in> set cs. \<forall>ns n. c \<noteq> IDeleteSTS ns n)"
    if "CheckSinglePvc env l k = (l1, e)" for k l1 e
    using that by (auto simp: CheckSinglePvc_def Let_def split: prod.splits sum.splits option.splits if_splits)
  note chk = this
  obtain l1 e where c: "CheckSinglePvc env l (ObjectKeyOf sts q i) = (l1, e)" by fastforce
  from chk [OF c] obtain cs where cs: "l1 = l @ cs" "\<forall>c \<in> set cs. \<forall>ns n. c \<noteq> IDeleteSTS ns n" by blast
  show ?case
  proof (cases e)
    case None
    with Cons.prems p c have "pvcs_expandable env sts l1 ps = (l', r)" by simp
    from Cons.IH [OF this] obtain ds where "l' = l1 @ ds" "\<forall>c \<in> set ds. \<forall>ns n. c \<noteq> IDeleteSTS ns n" by blast
    with cs show ?thesis by (intro exI [of _ "cs @ ds"]) auto
  next
    case (Some a)
    with Cons.prems p c cs show ?thesis by auto
  qed
qed simp

lemma resize_loop_no_delete:
  "resize_loop env sts l fin ps = (l @ cs, r) \<Longrightarrow> IDeleteSTS ns n \<notin> set cs"
proof (induction ps arbitrary: l fin cs)
  case (Cons p ps)
  obtain i q where p: "p = (i, q)" by fastforce
  obtain kn name where k: "ObjectKeyOf sts q i = (kn, name)" by fastforce
  have "resize_loop env sts (l @ ds) f ps = (l @ cs, r) \<Longrightarrow> IDeleteSTS ns n \<notin> set ds \<Longrightarrow> IDeleteSTS ns n \<notin> set cs" for ds f
  proof -
    assume a: "resize_loop env sts (l @ ds) f ps = (l @ cs, r)" "IDeleteSTS ns n \<notin> set ds"
    then obtain es where "cs = ds @ es" using resize_loop_extends [OF a(1)] by auto
    with a Cons.IH [of "l @ ds" f es] show ?thesis by simp
  qed
  from this [of "[IGetPVC kn name]"] this [of "[IGetPVC kn name, IPatchPVC kn name (pvc_Storage q)]"] Cons.prems p k
  show ?case
    by (auto simp: Let_def split: sum.splits if_splits option.splits)
qed simp

text \<open>
  C18: the stateful set is deleted for a resize only when its disks have been resized. If
  \<open>tryResizeDisksOf\<close> deletes the stateful set, then the existing one was read and is not being deleted,
  and every claim of every replica whose size changed was read with the new size as its request and as
  its capacity.
\<close>

theorem tryResizeDisksOf_deletes_only_resized:
  assumes "tryResizeDisksOf env l newSts = (l @ calls, r)" and "IDeleteSTS ns n \<in> set calls"
  shows "\<exists>oldSts. ie_GetSTS env l (sts_Namespace newSts) (sts_Name newSts) = Inr oldSts \<and>
           sts_DeletionTimestamp oldSts = None \<and> (ns, n) = (sts_Namespace oldSts, sts_Name oldSts) \<and>
           (\<forall>(i, pvc) \<in> set (replica_pvcs newSts
               (FilterDiskWithSizeChanged (sts_VolumeClaimTemplates oldSts) (sts_VolumeClaimTemplates newSts))).
              seen_resized env (l @ calls) (ObjectKeyOf newSts pvc i) (pvc_Storage pvc))"
proof -
  let ?l1 = "l @ [IGetSTS (sts_Namespace newSts) (sts_Name newSts)]"
  from assms obtain old where old: "ie_GetSTS env l (sts_Namespace newSts) (sts_Name newSts) = Inr old"
    "sts_DeletionTimestamp old = None"
    by (auto simp: tryResizeDisksOf_def Let_def split: sum.splits if_splits)
  let ?ch = "FilterDiskWithSizeChanged (sts_VolumeClaimTemplates old) (sts_VolumeClaimTemplates newSts)"
  have ch: "?ch \<noteq> []" using assms old by (auto simp: tryResizeDisksOf_def Let_def)
  obtain l2 e where x: "PvcsCanBeExpanded env ?l1 newSts ?ch = (l2, e)" by fastforce
  then obtain cs where cs: "l2 = ?l1 @ cs" "IDeleteSTS ns n \<notin> set cs"
    using pvcs_expandable_extends unfolding PvcsCanBeExpanded_def by metis
  have e: "e = None" using assms old ch x cs by (auto simp: tryResizeDisksOf_def Let_def split: option.splits)
  obtain l3 res where y: "resizePvcs env l2 newSts ?ch = (l3, res)" by fastforce
  then obtain ds where ds: "l3 = l2 @ ds" "IDeleteSTS ns n \<notin> set ds"
    using resize_loop_extends resize_loop_no_delete unfolding resizePvcs_def by metis
  have res: "res = Inr True" and calls: "l @ calls = l3 @ [IDeleteSTS (sts_Namespace old) (sts_Name old)]"
    using assms old ch x y e cs ds by (auto simp: tryResizeDisksOf_def Let_def split: option.splits sum.splits if_splits)
  have "(ns, n) = (sts_Namespace old, sts_Name old)"
    using assms(2) calls cs ds by auto
  moreover have "seen_resized env (l @ calls) (ObjectKeyOf newSts pvc i) (pvc_Storage pvc)"
    if "(i, pvc) \<in> set (replica_pvcs newSts ?ch)" for i pvc
    unfolding calls
    using resize_loop_done [OF y [unfolded res resizePvcs_def] that] by (rule seen_resized_append)
  ultimately show ?thesis using old by auto
qed

text \<open>A claim that has grown from one to two.\<close>

definition resize_env :: inst_env where
  "resize_env = sample_env\<lparr>ie_GetSTS := (\<lambda>_ _ _. Inr (sample_sts\<lparr>sts_VolumeClaimTemplates :=
       [\<lparr>pvc_Namespace = ''db'', pvc_Name = ''p'', pvc_Annotations = None, pvc_OwnerReferences = [], pvc_Storage = 1,
         pvc_Capacity = 0, pvc_StorageClassName = Some ''sc'', pvc_DataSource = None\<rparr>]\<rparr>)),
     ie_GetPVC := (\<lambda>_ ns n. Inr \<lparr>pvc_Namespace = ns, pvc_Name = n, pvc_Annotations = None, pvc_OwnerReferences = [],
         pvc_Storage = 2, pvc_Capacity = 2, pvc_StorageClassName = Some ''sc'', pvc_DataSource = None\<rparr>)\<rparr>"

definition resized_sts :: StatefulSet where
  "resized_sts = sample_sts\<lparr>sts_VolumeClaimTemplates :=
     [\<lparr>pvc_Namespace = ''db'', pvc_Name = ''p'', pvc_Annotations = None, pvc_OwnerReferences = [], pvc_Storage = 2,
       pvc_Capacity = 0, pvc_StorageClassName = Some ''sc'', pvc_DataSource = None\<rparr>]\<rparr>"

lemma resize_env_calls:
  "\<exists>calls r. tryResizeDisksOf resize_env [] resized_sts = ([] @ calls, r) \<and> IDeleteSTS ''db'' ''mydb-sts'' \<in> set calls"
  by (simp add: tryResizeDisksOf_def resize_env_def resized_sts_def sample_sts_def sample_env_def Let_def
      FilterDiskWithSizeChanged_def PvcsCanBeExpanded_def resizePvcs_def replica_pvcs_def ObjectKeyOf_def
      CheckSinglePvc_def)

theorem tryResizeDisksOf_deletes_only_resized_witness:
  "\<exists>calls r. tryResizeDisksOf resize_env [] resized_sts = ([] @ calls, r) \<and>
     (\<exists>oldSts. ie_GetSTS resize_env [] (sts_Namespace resized_sts) (sts_Name resized_sts) = Inr oldSts \<and>
        sts_DeletionTimestamp oldSts = None)"
proof -
  obtain calls r where R: "tryResizeDisksOf resize_env [] resized_sts = ([] @ calls, r)"
    "IDeleteSTS ''db'' ''mydb-sts'' \<in> set calls"
    using resize_env_calls by blast
  then show ?thesis using tryResizeDisksOf_deletes_only_resized [OF R] by blast
qed

end
