(* ===== verification/Lock.thy ===== *)
theory Lock
  imports InstanceUtils
begin

text \<open>
  The maintenance lock between controllers. \<open>AcquireInstanceMaintenanceLock\<close> and
  \<open>ReleaseInstanceMaintenanceLock\<close> of \<open>instancecontroller/utils.go\<close> rely on the optimistic
  concurrency of the API server: an update of the status is applied only if the object sent is of the
  server's current version. Here the controllers that call them are interleaved: each owner has one
  in-memory copy of the instance, read from a cache that may be stale, and may at any time refresh
  it, change other parts of its status, acquire or release the lock, or commit the copy by an update
  of the status or of the spec. An update may fail without being applied, and may also be applied
  although the caller gets an error. \<open>lw_holding\<close> records who may believe to hold the lock: an owner
  is added when \<open>Acquire\<close> returns nil and removed when it calls \<open>Release\<close>.
\<close>

subsection \<open>The field\<close>

text \<open>What the calls promise of the field \<open>LockedByController\<close>.\<close>

locale lock_field =
  fixes acq :: "string \<Rightarrow> string \<Rightarrow> string \<times> go_error option"
    and rel :: "string \<Rightarrow> string \<Rightarrow> string"
  assumes acq_grant: "acq lock p = (lock', None) \<Longrightarrow> (lock = [] \<or> lock = p) \<and> lock' = p"
    and acq_refuse: "acq lock p = (lock', Some e) \<Longrightarrow> lock' = lock \<and> lock \<noteq> [] \<and> lock \<noteq> p"
    and rel_free: "rel lock p = (if lock = p then [] else lock)"
begin

text \<open>How the lock in the copy of \<open>p\<close> may differ from the server's while the copy is current.\<close>

definition agrees :: "string \<Rightarrow> string \<Rightarrow> string \<Rightarrow> bool \<Rightarrow> bool" where
  "agrees srv cp p held \<longleftrightarrow>
     cp = srv \<or> (srv = [] \<and> cp = p) \<or> (srv = p \<and> cp = [] \<and> \<not> held)"

lemma agrees_acq:
  assumes "agrees srv cp p held" and "acq cp p = (lock, res)"
  shows "agrees srv lock p held"
  using assms acq_grant [of cp p lock] acq_refuse [of cp p lock]
  by (cases res) (auto simp: agrees_def)

lemma agrees_rel: "agrees srv cp p held \<Longrightarrow> agrees srv (rel cp p) p False"
  by (auto simp: agrees_def rel_free)

end

interpretation lf: lock_field acquire_field release_field
  by unfold_locales (auto simp: acquire_field_def release_field_def split: if_splits)

subsection \<open>Controllers and the server\<close>

record lock_world =
  lw_ver :: nat
  lw_srv :: Instance
  lw_copy :: "string \<Rightarrow> nat \<times> Instance"
  lw_holding :: "string set"

abbreviation lock_of :: "Instance \<Rightarrow> string" where
  "lock_of inst \<equiv> ist_LockedByController (inst_Status inst)"

text \<open>An update of the status sent by \<open>p\<close>: \<open>applied\<close> says whether the server stores the object,
  \<open>e\<close> is the error the caller gets. The copy gets the new version only if there is none.\<close>

definition send_status :: "lock_world \<Rightarrow> string \<Rightarrow> Instance \<Rightarrow> bool \<Rightarrow> go_error option \<Rightarrow> lock_world" where
  "send_status w p inst applied e =
     w\<lparr>lw_ver := (if applied then Suc (lw_ver w) else lw_ver w),
       lw_srv := (if applied then inst else lw_srv w),
       lw_copy := (lw_copy w)(p := (if e = None then Suc (lw_ver w) else fst (lw_copy w p), inst))\<rparr>"

text \<open>The contract of the API server: a stale object is rejected, and no error means applied.\<close>

definition outcome_ok :: "lock_world \<Rightarrow> string \<Rightarrow> bool \<Rightarrow> go_error option \<Rightarrow> bool" where
  "outcome_ok w p applied e \<longleftrightarrow>
     (applied \<longrightarrow> fst (lw_copy w p) = lw_ver w) \<and> (e = None \<longrightarrow> applied)"

inductive lock_step :: "inst_env \<Rightarrow> lock_world \<Rightarrow> lock_world \<Rightarrow> bool" for env where
  read_current:
    "p \<noteq> [] \<Longrightarrow> lock_step env w (w\<lparr>lw_copy := (lw_copy w)(p := (lw_ver w, lw_srv w))\<rparr>)"
| read_stale:
    "p \<noteq> [] \<Longrightarrow> v < lw_ver w \<Longrightarrow> lock_step env w (w\<lparr>lw_copy := (lw_copy w)(p := (v, inst))\<rparr>)"
| modify:
    "p \<noteq> [] \<Longrightarrow> lock_of inst = lock_of (snd (lw_copy w p)) \<Longrightarrow>
     lock_step env w (w\<lparr>lw_copy := (lw_copy w)(p := (fst (lw_copy w p), inst))\<rparr>)"
| commit:
    "p \<noteq> [] \<Longrightarrow> outcome_ok w p applied e \<Longrightarrow>
     lock_step env w (send_status w p (snd (lw_copy w p)) applied e)"
| update_spec:
    "p \<noteq> [] \<Longrightarrow> fst (lw_copy w p) = lw_ver w \<Longrightarrow> lock_of inst = lock_of (lw_srv w) \<Longrightarrow>
     lock_step env w (w\<lparr>lw_ver := Suc (lw_ver w), lw_srv := inst,
                        lw_copy := (lw_copy w)(p := (Suc (lw_ver w), inst))\<rparr>)"
| acquire:
    "p \<noteq> [] \<Longrightarrow> outcome_ok w p applied (ie_StatusUpdate env l inst') \<Longrightarrow>
     AcquireInstanceMaintenanceLock env l (snd (lw_copy w p)) p = (inst', l', result) \<Longrightarrow>
     lock_step env w ((send_status w p inst' applied (ie_StatusUpdate env l inst'))
       \<lparr>lw_holding := (if result = None then insert p (lw_holding w) else lw_holding w)\<rparr>)"
| release:
    "p \<noteq> [] \<Longrightarrow> outcome_ok w p applied (ie_StatusUpdate env l inst') \<Longrightarrow>
     ReleaseInstanceMaintenanceLock env l (snd (lw_copy w p)) p = (inst', l', result) \<Longrightarrow>
     lock_step env w ((send_status w p inst' applied (ie_StatusUpdate env l inst'))
       \<lparr>lw_holding := lw_holding w - {p}\<rparr>)"

inductive lock_reachable :: "inst_env \<Rightarrow> lock_world \<Rightarrow> lock_world \<Rightarrow> bool" for env w0 where
  start: "lock_reachable env w0 w0"
| step: "lock_reachable env w0 w \<Longrightarrow> lock_step env w w' \<Longrightarrow> lock_reachable env w0 w'"

text \<open>Where the system starts: nobody holds the lock, and no copy is newer than the server or
  differs from it at the same version.\<close>

definition lock_initial :: "lock_world \<Rightarrow> bool" where
  "lock_initial w \<longleftrightarrow> lw_holding w = {} \<and>
     (\<forall>p. fst (lw_copy w p) < lw_ver w \<or> lw_copy w p = (lw_ver w, lw_srv w))"

definition lock_inv :: "lock_world \<Rightarrow> bool" where
  "lock_inv w \<longleftrightarrow>
     (\<forall>p \<in> lw_holding w. p \<noteq> [] \<and> lock_of (lw_srv w) = p) \<and>
     (\<forall>p. fst (lw_copy w p) \<le> lw_ver w) \<and>
     (\<forall>p. p \<noteq> [] \<longrightarrow> fst (lw_copy w p) = lw_ver w \<longrightarrow>
        lf.agrees (lock_of (lw_srv w)) (lock_of (snd (lw_copy w p))) p (p \<in> lw_holding w))"

lemma lock_inv_initial:
  assumes "lock_initial w"
  shows "lock_inv w"
proof -
  have copy: "fst (lw_copy w p) < lw_ver w \<or> lw_copy w p = (lw_ver w, lw_srv w)" for p
    using assms by (simp add: lock_initial_def)
  then have "fst (lw_copy w p) \<le> lw_ver w" for p by (metis fst_conv le_less)
  moreover have "snd (lw_copy w p) = lw_srv w" if "fst (lw_copy w p) = lw_ver w" for p
    using copy [of p] that by auto
  ultimately show ?thesis
    using assms by (simp add: lock_initial_def lock_inv_def lf.agrees_def)
qed

lemma lock_of_set_lock [simp]: "lock_of (set_lock o1 inst) = o1"
  by (simp add: set_lock_def)

text \<open>Sending a copy whose lock field agrees with the server keeps the invariant, as long as no other
  owner loses the lock: shared by all steps that send the status.\<close>

lemma lock_inv_send:
  assumes inv: "lock_inv w" and p: "p \<noteq> []" and ok: "outcome_ok w p applied e"
    and agr: "fst (lw_copy w p) = lw_ver w \<Longrightarrow>
                lf.agrees (lock_of (lw_srv w)) (lock_of inst) p (p \<in> H)"
    and H: "\<And>q. q \<in> H \<Longrightarrow> q \<noteq> [] \<and> lock_of (if applied then inst else lw_srv w) = q"
    and sub: "\<And>q. q \<noteq> p \<Longrightarrow> q \<in> H \<longleftrightarrow> q \<in> lw_holding w"
  shows "lock_inv ((send_status w p inst applied e)\<lparr>lw_holding := H\<rparr>)"
proof (cases applied)
  case True
  then have cur: "fst (lw_copy w p) = lw_ver w" using ok by (simp add: outcome_ok_def)
  have "fst (lw_copy w q) \<le> lw_ver w" for q using inv by (simp add: lock_inv_def)
  then have le: "fst (lw_copy w q) \<noteq> Suc (lw_ver w)" for q by (metis Suc_n_not_le_n)
  show ?thesis
    using True H le inv cur
    by (auto simp: lock_inv_def send_status_def lf.agrees_def intro: le_SucI)
next
  case False
  then have "e \<noteq> None" using ok by (auto simp: outcome_ok_def)
  then show ?thesis
    using False H inv agr sub p by (auto simp: lock_inv_def send_status_def)
qed

lemma lock_inv_step:
  assumes "lock_step env w w'" and inv: "lock_inv w"
  shows "lock_inv w'"
  using assms
proof (induction rule: lock_step.induct)
  case (read_current p w)
  then show ?case by (auto simp: lock_inv_def lf.agrees_def)
next
  case (read_stale p v w inst)
  then show ?case by (auto simp: lock_inv_def)
next
  case (modify p inst w)
  then show ?case by (auto simp: lock_inv_def)
next
  case (commit p w applied e)
  have eq: "send_status w p (snd (lw_copy w p)) applied e =
      (send_status w p (snd (lw_copy w p)) applied e)\<lparr>lw_holding := lw_holding w\<rparr>"
    by (simp add: send_status_def)
  show ?case
    using commit
    by (subst eq, intro lock_inv_send) (auto simp: lock_inv_def lf.agrees_def outcome_ok_def)
next
  case (update_spec p w inst)
  then have "fst (lw_copy w q) \<le> lw_ver w" for q by (simp add: lock_inv_def)
  then have "fst (lw_copy w q) \<noteq> Suc (lw_ver w)" for q by (metis Suc_n_not_le_n)
  with update_spec show ?case by (auto simp: lock_inv_def lf.agrees_def intro: le_SucI)
next
  case (acquire p w applied l inst' l' result)
  obtain lock res where f: "acquire_field (lock_of (snd (lw_copy w p))) p = (lock, res)" by fastforce
  with acquire have lock: "lock_of inst' = lock"
    by (auto simp: AcquireInstanceMaintenanceLock_def Let_def)
  have res: "result = None \<Longrightarrow> res = None \<and> ie_StatusUpdate env l inst' = None"
    using acquire f by (auto simp: AcquireInstanceMaintenanceLock_def Let_def split: option.splits)
  have agr: "fst (lw_copy w p) = lw_ver w \<Longrightarrow>
      lf.agrees (lock_of (lw_srv w)) lock p (p \<in> lw_holding w)"
    using acquire f lf.agrees_acq by (auto simp: lock_inv_def)
  have granted: "res = None \<Longrightarrow> lock = p" using f lf.acq_grant by blast
  let ?H = "if result = None then insert p (lw_holding w) else lw_holding w"
  have H: "q \<noteq> [] \<and> lock_of (if applied then inst' else lw_srv w) = q" if q: "q \<in> ?H" for q
  proof (cases applied)
    case True
    then have cur: "fst (lw_copy w p) = lw_ver w" using acquire by (simp add: outcome_ok_def)
    show ?thesis
      using True q res granted agr [OF cur] acquire(1) acquire(4) lock
      by (auto simp: lock_inv_def lf.agrees_def split: if_splits)
  next
    case False
    then have "ie_StatusUpdate env l inst' \<noteq> None" using acquire(2) by (auto simp: outcome_ok_def)
    with res have "result \<noteq> None" by blast
    then show ?thesis using False q acquire(4) by (auto simp: lock_inv_def)
  qed
  show ?case
  proof (rule lock_inv_send)
    show "lf.agrees (lock_of (lw_srv w)) (lock_of inst') p (p \<in> ?H)"
      if "fst (lw_copy w p) = lw_ver w"
      using agr [OF that] lock granted res acquire(1) by (auto simp: lf.agrees_def)
  qed (use acquire H in auto)
next
  case (release p w applied l inst' l' result)
  let ?lock = "release_field (lock_of (snd (lw_copy w p))) p"
  have lock: "lock_of inst' = ?lock"
    using release by (auto simp: ReleaseInstanceMaintenanceLock_def Let_def)
  have agr: "fst (lw_copy w p) = lw_ver w \<Longrightarrow> lf.agrees (lock_of (lw_srv w)) ?lock p False"
    using release lf.agrees_rel by (auto simp: lock_inv_def)
  show ?case
  proof (rule lock_inv_send)
    fix q assume "q \<in> lw_holding w - {p}"
    then show "q \<noteq> [] \<and> lock_of (if applied then inst' else lw_srv w) = q"
      using release agr lock by (auto simp: lock_inv_def lf.agrees_def outcome_ok_def)
  qed (use release agr lock in auto)
qed

lemma lock_inv_reachable: "lock_reachable env w0 w \<Longrightarrow> lock_inv w0 \<Longrightarrow> lock_inv w"
  by (induction rule: lock_reachable.induct) (auto intro: lock_inv_step)

text \<open>
  C2: the maintenance lock excludes. However the controllers' reads, changes, commits, acquisitions
  and releases interleave, and whichever of their updates fail or are applied with an error returned,
  at most one owner at a time may believe to hold the lock, and then the server's object names it.
\<close>

theorem maintenance_lock_excludes:
  assumes "lock_initial w0" and "lock_reachable env w0 w" and "p \<in> lw_holding w"
  shows "ist_LockedByController (inst_Status (lw_srv w)) = p \<and> lw_holding w = {p}"
proof -
  have "lock_of (lw_srv w) = q" if "q \<in> lw_holding w" for q
    using lock_inv_reachable [OF assms(2) lock_inv_initial [OF assms(1)]] that
    by (simp add: lock_inv_def)
  with assms(3) show ?thesis by auto
qed

text \<open>One controller acquires the lock.\<close>

definition sample_lock_world :: lock_world where
  "sample_lock_world =
     \<lparr>lw_ver = 1, lw_srv = sample_instance, lw_copy = (\<lambda>_. (1, sample_instance)), lw_holding = {}\<rparr>"

definition sample_locked_world :: lock_world where
  "sample_locked_world =
     (send_status sample_lock_world ''instancecontroller'' (set_lock ''instancecontroller'' sample_instance) True None)
       \<lparr>lw_holding := {''instancecontroller''}\<rparr>"

lemma sample_update [simp]: "ie_StatusUpdate sample_env l inst = None"
  by (simp add: sample_env_def)

lemma sample_unlocked [simp]: "lock_of sample_instance = []"
  by (simp add: sample_instance_def)

lemma sample_lock_step: "lock_step sample_env sample_lock_world sample_locked_world"
  using lock_step.acquire [of "''instancecontroller''" sample_lock_world True sample_env "[]"
      "set_lock ''instancecontroller'' sample_instance"
      "[IStatusUpdate (set_lock ''instancecontroller'' sample_instance)]" None]
  by (simp add: sample_lock_world_def sample_locked_world_def outcome_ok_def
      AcquireInstanceMaintenanceLock_def acquire_field_def send_status_def Let_def)

theorem maintenance_lock_excludes_witness:
  "ist_LockedByController (inst_Status (lw_srv sample_locked_world)) = ''instancecontroller'' \<and>
   lw_holding sample_locked_world = {''instancecontroller''}"
proof (rule maintenance_lock_excludes)
  show "lock_initial sample_lock_world" by (simp add: lock_initial_def sample_lock_world_def)
  show "lock_reachable sample_env sample_lock_world sample_locked_world"
    by (rule lock_reachable.step [OF lock_reachable.start sample_lock_step])
  show "''instancecontroller'' \<in> lw_holding sample_locked_world"
    by (simp add: sample_locked_world_def)
qed

end
