(* ===== verification/StsRestore.thy ===== *)
theory StsRestore
  imports InstanceUtils
begin

text \<open>
  Removing the old stateful set with its claims and creating it anew from snapshots: the helpers of
  \<open>instance_controller_restore.go\<close> that the restore and the patching state machines share.
\<close>

text \<open>The loop over the claims of \<open>deleteOldSTSandPVCs\<close>: the flag says that all are gone. The error of a
  failed deletion is only logged.\<close>

fun delete_pvcs ::
    "inst_env \<Rightarrow> inst_log \<Rightarrow> string \<Rightarrow> PersistentVolumeClaim list \<Rightarrow> inst_log \<times> (go_error + bool)" where
  "delete_pvcs env l stsName [] = (l, Inr True)"
| "delete_pvcs env l stsName (pvc # pvcs) =
     (let ns = pvc_Namespace pvc; name = pvc_Name pvc @ ''-'' @ stsName @ ''-0''; l1 = l @ [IGetPVC ns name] in
      case ie_GetPVC env l ns name of
        Inr existing \<Rightarrow> (l1 @ [IDeletePVC ns name], Inr False)
      | Inl err \<Rightarrow> if IsNotFound err then delete_pvcs env l1 stsName pvcs else (l1, Inl err))"

definition deleteOldSTSandPVCs ::
    "inst_env \<Rightarrow> inst_log \<Rightarrow> Instance \<Rightarrow> StsParams \<Rightarrow> inst_log \<times> (go_error + bool)" where
  "deleteOldSTSandPVCs env l inst sp =
     (case constructSTSandPVCs env inst sp inst of
        Inl err \<Rightarrow> (l, Inl err)
      | Inr (sts, newPVCs) \<Rightarrow>
          (let ns = sts_Namespace sts; name = sts_Name sts; l1 = l @ [IGetSTS ns name] in
           case ie_GetSTS env l ns name of
             Inr existing \<Rightarrow> (l1 @ [IDeleteSTS ns name], Inr False)
           | Inl err \<Rightarrow>
               if IsNotFound err then delete_pvcs env l1 (sp_StsName sp) newPVCs else (l1, Inl err)))"

text \<open>\<open>inst\<close> is passed by value, so its \<open>Spec.Restore\<close> may differ from that of \<open>pinst\<close>, the instance
  \<open>sp.Inst\<close> points to.\<close>

definition restoreSnapshot ::
    "inst_env \<Rightarrow> inst_log \<Rightarrow> Instance \<Rightarrow> StsParams \<Rightarrow> Instance \<Rightarrow> inst_log \<times> go_error option" where
  "restoreSnapshot env l inst sp pinst =
     (let sp1 = sp\<lparr>sp_Restore := is_Restore (inst_Spec inst)\<rparr> in
      case constructSTSandPVCs env inst sp1 pinst of
        Inl err \<Rightarrow> (l, Some err)
      | Inr (sts, _) \<Rightarrow> (l @ [ICreateOrUpdateSTS sts], ie_CreateOrUpdateSTS env l sts))"

definition isSnapshotRestoreDone :: "inst_env \<Rightarrow> inst_log \<Rightarrow> Instance \<Rightarrow> inst_log \<times> bool" where
  "isSnapshotRestoreDone env l inst =
     (case statusProgress env l (inst_Namespace inst) (GetSTSName (inst_Name inst)) of
        (l1, _, err) \<Rightarrow> (l1, err = None))"

end
