(* ===== verification/Patching.thy ===== *)
theory Patching
  imports StsRestore
begin

text \<open>
  \<open>oracle/controllers/instancecontroller/instance_controller_patching.go\<close>: the patching state machine.
  Its state is the reason of the instance's \<open>Ready\<close> condition. \<open>patchingStateMachine\<close> makes one
  transition; \<open>patch_round\<close> adds the entry condition of \<open>Reconcile\<close>. Two readings of the clock within
  one expression are one reading here.
\<close>

abbreviation deploymentPatchingTimeout :: duration where "deploymentPatchingTimeout \<equiv> 3 * Minute"

abbreviation PatchingStateMachine :: string where "PatchingStateMachine \<equiv> ''PatchingStateMachine''"

definition statefulSetImages :: "string list" where
  "statefulSetImages = [''service'', ''dbinit'', ''logging_sidecar'']"

definition isStatefulSetPatchingRequired :: "gomap \<Rightarrow> gomap \<Rightarrow> bool" where
  "isStatefulSetPatchingRequired currentImages newImages =
     list_ex (\<lambda>image. map_get currentImages image \<noteq> map_get newImages image) statefulSetImages"

definition inst_disks :: "Instance \<Rightarrow> DiskSpec list" where
  "inst_disks inst = (case is_Disks (inst_Spec inst) of None \<Rightarrow> [] | Some ds \<Rightarrow> ds)"

text \<open>Claim and snapshot of a disk for a backup.\<close>

definition disk_snapshot :: "Instance \<Rightarrow> string \<Rightarrow> DiskSpec \<Rightarrow> string \<times> string" where
  "disk_snapshot inst backupID diskSpec =
     (case pvc_and_mount inst (ds_Name diskSpec) of
        (shortPVCName, mount) \<Rightarrow>
          (shortPVCName @ ''-'' @ GetSTSName (inst_Name inst) @ ''-0'', backupID @ ''-'' @ mount))"

abbreviation patching_vsc :: string where "patching_vsc \<equiv> ''csi-gce-pd-snapshot-class''"

fun snapshot_disks ::
    "inst_env \<Rightarrow> inst_log \<Rightarrow> Instance \<Rightarrow> string \<Rightarrow> DiskSpec list \<Rightarrow> inst_log \<times> go_error option" where
  "snapshot_disks env l inst backupID [] = (l, None)"
| "snapshot_disks env l inst backupID (diskSpec # ds) =
     (case disk_snapshot inst backupID diskSpec of
        (fullPVCName, snapshotName) \<Rightarrow>
          (case ie_SetControllerReference env inst snapshotName of
             Some err \<Rightarrow> (l, Some err)
           | None \<Rightarrow>
               (let l1 = l @ [IApplySnapshot fullPVCName snapshotName patching_vsc] in
                case ie_ApplySnapshot env l fullPVCName snapshotName patching_vsc of
                  Some err \<Rightarrow> (l1, Some err)
                | None \<Rightarrow> snapshot_disks env l1 inst backupID ds)))"

definition patching_backup_id :: "Instance \<Rightarrow> go_time \<Rightarrow> string" where
  "patching_backup_id inst now =
     ''patching-backup-'' @ inst_Name inst @ Format_date time_Local now @ itoa (time_Nanosecond now)"

definition prePatchBackup :: "inst_env \<Rightarrow> inst_log \<Rightarrow> Instance \<Rightarrow> inst_log \<times> (go_error + string)" where
  "prePatchBackup env l inst =
     (let backupID = patching_backup_id inst (ie_now env l) in
      case snapshot_disks env l inst backupID (inst_disks inst) of
        (l1, Some err) \<Rightarrow> (l1, Inl err)
      | (l1, None) \<Rightarrow> (l1, Inr backupID))"

definition startPatchingBackup ::
    "inst_env \<Rightarrow> inst_log \<Rightarrow> Instance \<Rightarrow> Instance \<times> inst_log \<times> ctrl_Result \<times> go_error option" where
  "startPatchingBackup env l inst =
     (case prePatchBackup env l inst of
        (l1, Inl err) \<Rightarrow> (inst, l1, Result_zero, Some err)
      | (l1, Inr backupID) \<Rightarrow>
          (inst\<lparr>inst_Status := (inst_Status inst)\<lparr>ist_BackupID := backupID\<rparr>\<rparr>, l1, requeue_in (30 * Second), None))"

fun snapshots_completed ::
    "inst_env \<Rightarrow> inst_log \<Rightarrow> Instance \<Rightarrow> string \<Rightarrow> DiskSpec list \<Rightarrow> inst_log \<times> bool \<times> go_error option" where
  "snapshots_completed env l inst backupID [] = (l, True, None)"
| "snapshots_completed env l inst backupID (diskSpec # ds) =
     (let snapshotName = snd (disk_snapshot inst backupID diskSpec) in
      case ie_SetControllerReference env inst snapshotName of
        Some err \<Rightarrow> (l, False, Some err)
      | None \<Rightarrow>
          (let ns = inst_Namespace inst; l1 = l @ [IGetSnapshot ns snapshotName] in
           case ie_GetSnapshot env l ns snapshotName of
             Inl err \<Rightarrow> (l1, False, Some err)
           | Inr None \<Rightarrow> (l1, False, None)
           | Inr (Some status) \<Rightarrow>
               (case snap_Error status of
                  Some m \<Rightarrow> (l1, False, Some (Errorf (''Snapshot Error: '' @ m)))
                | None \<Rightarrow>
                    if snap_ReadyToUse status = Some False then (l1, False, None)
                    else snapshots_completed env l1 inst backupID ds)))"

definition isPatchingBackupCompleted ::
    "inst_env \<Rightarrow> inst_log \<Rightarrow> Instance \<Rightarrow> inst_log \<times> bool \<times> go_error option" where
  "isPatchingBackupCompleted env l inst =
     snapshots_completed env l inst (ist_BackupID (inst_Status inst)) (inst_disks inst)"

definition retrieveStatefulSetByName ::
    "inst_env \<Rightarrow> inst_log \<Rightarrow> string \<Rightarrow> string \<Rightarrow> inst_log \<times> (go_error + StatefulSet)" where
  "retrieveStatefulSetByName env l ns stsName = (l @ [IGetSTS ns stsName], ie_GetSTS env l ns stsName)"

text \<open>\<open>inst\<close> is passed by value, but the \<open>Ready\<close> condition it upserts is the caller's.\<close>

definition startStatefulSetPatching ::
    "inst_env \<Rightarrow> inst_log \<Rightarrow> Instance \<Rightarrow> StsParams \<Rightarrow> Instance \<times> inst_log \<times> go_error option" where
  "startStatefulSetPatching env l inst sp =
     (case retrieveStatefulSetByName env l (inst_Namespace inst) (sp_StsName sp) of
        (l1, Inl err) \<Rightarrow> (inst, l1, Some err)
      | (l1, Inr existingSTS) \<Rightarrow>
          (let ns = sts_Namespace existingSTS; name = sts_Name existingSTS; l2 = l1 @ [IDeleteSTS ns name] in
           case ie_DeleteSTS env l1 ns name of
             Some err \<Rightarrow> (upsert env l2 inst k8s_Ready ConditionFalse k8s_StatefulSetPatchingFailure
                            ''Error while deleting STS'', l2, Some err)
           | None \<Rightarrow>
               (case constructSTSandPVCs env inst sp inst of
                  Inl err \<Rightarrow> (inst, l2, Some err)
                | Inr (sts, _) \<Rightarrow>
                    (let l3 = l2 @ [IApplySTS sts] in
                     case ie_ApplySTS env l2 sts of
                       Some err \<Rightarrow> (upsert env l3 inst k8s_Ready ConditionFalse k8s_StatefulSetPatchingFailure
                                      ''Error while creating patched STS'', l3, Some err)
                     | None \<Rightarrow> (upsert env l3 inst k8s_Ready ConditionFalse k8s_StatefulSetPatchingInProgress
                                  ''Creating new STS'', l3, None)))))"

definition buildRestoreSpecUsingSnapshotBackupID :: "go_time \<Rightarrow> string \<Rightarrow> RestoreSpec" where
  "buildRestoreSpecUsingSnapshotBackupID now backupID =
     \<lparr>rs_BackupType = ''Snapshot'', rs_BackupID = backupID, rs_BackupRef = None, rs_PITRRestore = None,
      rs_Dop = 0, rs_TimeLimitMinutes = 0, rs_Force = False, rs_RequestTime = now\<rparr>"

definition recoverFromPatchingFailure ::
    "inst_env \<Rightarrow> inst_log \<Rightarrow> Instance \<Rightarrow> StsParams \<Rightarrow> inst_log \<times> go_error option" where
  "recoverFromPatchingFailure env l inst sp =
     (let rs = buildRestoreSpecUsingSnapshotBackupID (ie_now env l) (ist_BackupID (inst_Status inst));
          inst1 = inst\<lparr>inst_Spec := (inst_Spec inst)\<lparr>is_Restore := Some rs\<rparr>\<rparr>;
          sp1 = sp\<lparr>sp_Images := CloneMap (ist_ActiveImages (inst_Status inst))\<rparr>
      in restoreSnapshot env l inst1 sp1 inst)"

definition isRecoveryFromPatchingFailureComplete ::
    "inst_env \<Rightarrow> inst_log \<Rightarrow> Instance \<Rightarrow> Instance \<times> inst_log \<times> bool" where
  "isRecoveryFromPatchingFailureComplete env l inst =
     updateProgressCondition env l inst (inst_Namespace inst) k8s_PatchingRecoveryInProgress"

subsection \<open>The cases of the state machine\<close>

definition set_active :: "string \<Rightarrow> Instance \<Rightarrow> Instance" where
  "set_active m inst = inst\<lparr>inst_Status := (inst_Status inst)\<lparr>ist_CurrentActiveStateMachine := m\<rparr>\<rparr>"

text \<open>The \<open>Ready\<close> condition set to false with a reason, the result and the error of the round.\<close>

definition to_state ::
    "inst_env \<Rightarrow> inst_log \<Rightarrow> Instance \<Rightarrow> string \<Rightarrow> string \<Rightarrow> ctrl_Result \<Rightarrow> go_error option \<Rightarrow> handler_result" where
  "to_state env l inst reason msg res err =
     (upsert env l inst k8s_Ready ConditionFalse reason msg, l, res, err, True)"

definition waiting :: "Instance \<Rightarrow> inst_log \<Rightarrow> ctrl_Result \<Rightarrow> handler_result" where
  "waiting inst l res = (inst, l, res, None, True)"

definition case_entry :: "inst_env \<Rightarrow> inst_log \<Rightarrow> Instance \<Rightarrow> Condition \<Rightarrow> handler_result" where
  "case_entry env l inst ready =
     (if Reason ready = k8s_PatchingRecoveryCompleted \<and>
         is_Images (inst_Spec inst) = ist_LastFailedImages (inst_Status inst)
      then (inst, l, Result_zero, None, True)
      else case startPatchingBackup env l (set_active PatchingStateMachine inst) of
             (inst1, l1, result, Some err) \<Rightarrow>
               (if \<not> IsConflict err then to_state env l1 inst1 k8s_PatchingBackupFailure [] result (Some err)
                else (inst1, l1, result, Some err, True))
           | (inst1, l1, result, None) \<Rightarrow>
               to_state env l1 inst1 k8s_PatchingBackupStarted ''Patching Backup Started'' requeue_now None)"

definition case_backup_started :: "inst_env \<Rightarrow> inst_log \<Rightarrow> Instance \<Rightarrow> handler_result" where
  "case_backup_started env l inst =
     (case isPatchingBackupCompleted env l inst of
        (l1, completed, Some err) \<Rightarrow> to_state env l1 inst k8s_PatchingBackupFailure [] Result_zero (Some err)
      | (l1, completed, None) \<Rightarrow>
          if \<not> completed then waiting inst l1 (requeue_in (30 * Second))
          else to_state env l1 inst k8s_DeploymentSetPatchingInProgress
                 ''Patching backup completed, continuing patching'' requeue_now None)"

definition case_deployment ::
    "inst_env \<Rightarrow> inst_log \<Rightarrow> Instance \<Rightarrow> Condition \<Rightarrow> StsParams \<Rightarrow> handler_result" where
  "case_deployment env l inst ready sp =
     (if ElapsedTimeFromLastTransitionTime (ie_now env l) (Some ready) > deploymentPatchingTimeout
      then (let msg = ''agentPatchingStateMachine: Agent patching timed out after '' @ duration_String deploymentPatchingTimeout
            in to_state env (l @ [IEvent WarningEvent ''InstanceReady'' msg]) inst
                 k8s_DeploymentSetPatchingRollbackInProgress msg Result_zero (Some (Errorf msg)))
      else let l1 = l @ [IReconcileMonitoring (sp_Images sp)] in
        case ie_ReconcileMonitoring env l inst (sp_Images sp) of
          (_, Some err) \<Rightarrow> to_state env l1 inst k8s_DeploymentSetPatchingRollbackInProgress [] Result_zero (Some err)
        | (res, None) \<Rightarrow>
            if RequeueAfter res > 0 then waiting inst l1 res
            else to_state env l1 inst k8s_DeploymentSetPatchingComplete [] requeue_now None)"

definition case_deployment_complete ::
    "inst_env \<Rightarrow> inst_log \<Rightarrow> Instance \<Rightarrow> StsParams \<Rightarrow> handler_result" where
  "case_deployment_complete env l inst sp =
     (case isOracleUpAndRunning env l inst of
        (l1, Inl err) \<Rightarrow> to_state env l1 inst k8s_DatabasePatchingFailure ''Failed to check Oracle status'' Result_zero (Some err)
      | (l1, Inr oracleRunning) \<Rightarrow>
          if \<not> oracleRunning then waiting inst l1 (requeue_in (10 * Second))
          else if \<not> isStatefulSetPatchingRequired (ist_ActiveImages (inst_Status inst)) (is_Images (inst_Spec inst))
          then to_state env l1 inst k8s_StatefulSetPatchingComplete [] requeue_now None
          else (case startStatefulSetPatching env l1 inst sp of
                  (inst1, l2, Some err) \<Rightarrow> to_state env l2 inst1 k8s_StatefulSetPatchingFailure [] Result_zero (Some err)
                | (inst1, l2, None) \<Rightarrow> to_state env l2 inst1 k8s_StatefulSetPatchingInProgress [] requeue_now None))"

definition case_deployment_rollback :: "inst_env \<Rightarrow> inst_log \<Rightarrow> Instance \<Rightarrow> Condition \<Rightarrow> handler_result" where
  "case_deployment_rollback env l inst ready =
     (if ElapsedTimeFromLastTransitionTime (ie_now env l) (Some ready) > deploymentPatchingTimeout
      then (let msg = ''agentPatchingStateMachine: Agent patching timed out after '' @ duration_String deploymentPatchingTimeout
            in to_state env l inst k8s_PatchingRecoveryFailure msg Result_zero (Some (Errorf msg)))
      else let images = ist_ActiveImages (inst_Status inst); l1 = l @ [IReconcileMonitoring images] in
        case ie_ReconcileMonitoring env l inst images of
          (_, Some err) \<Rightarrow> to_state env l1 inst k8s_PatchingRecoveryFailure [] Result_zero (Some err)
        | (res, None) \<Rightarrow>
            if RequeueAfter res > 0 then waiting inst l1 res
            else to_state env l1 inst k8s_PatchingRecoveryCompleted [] requeue_now None)"

definition case_sts_patching ::
    "inst_env \<Rightarrow> inst_log \<Rightarrow> Instance \<Rightarrow> Condition \<Rightarrow> duration \<Rightarrow> handler_result" where
  "case_sts_patching env l inst ready databasePatchingTimeout =
     (if ElapsedTimeFromLastTransitionTime (ie_now env l) (Some ready) > databasePatchingTimeout
      then (let msg = ''Software patching timed out after '' @ duration_String databasePatchingTimeout
            in to_state env (l @ [IEvent WarningEvent ''InstanceReady'' msg]) inst
                 k8s_StatefulSetPatchingFailure msg Result_zero (Some (Errorf msg)))
      else case updateProgressCondition env l inst (inst_Namespace inst) k8s_StatefulSetPatchingInProgress of
             (inst1, l1, ok) \<Rightarrow>
               if \<not> ok then waiting inst1 l1 (requeue_in (10 * Second))
               else to_state env l1 inst1 k8s_StatefulSetPatchingComplete [] requeue_now None)"

definition case_sts_complete :: "inst_env \<Rightarrow> inst_log \<Rightarrow> Instance \<Rightarrow> handler_result" where
  "case_sts_complete env l inst =
     (case isOracleUpAndRunning env l inst of
        (l1, Inl err) \<Rightarrow> to_state env l1 inst k8s_DatabasePatchingFailure ''Failed to check Oracle status'' Result_zero (Some err)
      | (l1, Inr oracleRunning) \<Rightarrow>
          if \<not> oracleRunning then waiting inst l1 (requeue_in (10 * Second))
          else (case startDatabasePatching env l1 inst of
                  (l2, Some err) \<Rightarrow> to_state env l2 inst k8s_DatabasePatchingFailure
                                      ''Failed to start database patching'' Result_zero (Some err)
                | (l2, None) \<Rightarrow> to_state env l2 inst k8s_DatabasePatchingInProgress ''Calling ApplyDataPatch()'' requeue_now None))"

definition case_db_patching ::
    "inst_env \<Rightarrow> inst_log \<Rightarrow> Instance \<Rightarrow> Condition \<Rightarrow> duration \<Rightarrow> handler_result" where
  "case_db_patching env l inst ready databasePatchingTimeout =
     (if ElapsedTimeFromLastTransitionTime (ie_now env l) (Some ready) > databasePatchingTimeout
      then (let msg = ''Database patching timed out after '' @ duration_String databasePatchingTimeout
            in to_state env (l @ [IEvent WarningEvent ''InstanceReady'' msg]) inst
                 k8s_DatabasePatchingFailure msg Result_zero (Some (Errorf msg)))
      else case isDatabasePatchingDone env l inst of
             (l1, done, Some err) \<Rightarrow> to_state env l1 inst k8s_DatabasePatchingFailure
                                       ''Failed to check datapatch status'' Result_zero (Some err)
           | (l1, done, None) \<Rightarrow>
               if \<not> done then waiting inst l1 (requeue_in (10 * Second))
               else to_state env l1 inst k8s_DatabasePatchingComplete ''Calling ApplyDataPatch()'' requeue_now None)"

definition case_db_complete :: "inst_env \<Rightarrow> inst_log \<Rightarrow> Instance \<Rightarrow> StsParams \<Rightarrow> handler_result" where
  "case_db_complete env l inst sp =
     (let inst1 = upsert env l inst k8s_Ready ConditionTrue k8s_CreateComplete [];
          inst2 = inst1\<lparr>inst_Status := (inst_Status inst1)\<lparr>ist_ActiveImages := CloneMap (sp_Images sp)\<rparr>\<rparr>
      in (set_active [] inst2, l, Result_zero, None, True))"

definition case_failure :: "inst_env \<Rightarrow> inst_log \<Rightarrow> Instance \<Rightarrow> StsParams \<Rightarrow> handler_result" where
  "case_failure env l inst sp =
     (case deleteOldSTSandPVCs env l inst sp of
        (l1, Inl err) \<Rightarrow> to_state env l1 inst k8s_PatchingRecoveryFailure
                          ''Failed to restore from snapshot after patching failure'' Result_zero (Some err)
      | (l1, Inr done) \<Rightarrow>
          if \<not> done then waiting inst l1 requeue_now
          else to_state env l1 inst k8s_PatchingRecoveryInProgress ''Restoring snapshot due to patching failure'' requeue_now None)"

definition case_recovery :: "inst_env \<Rightarrow> inst_log \<Rightarrow> Instance \<Rightarrow> StsParams \<Rightarrow> handler_result" where
  "case_recovery env l inst sp =
     (case recoverFromPatchingFailure env l inst sp of
        (l1, Some err) \<Rightarrow> (inst, l1, Result_zero, Some err, True)
      | (l1, None) \<Rightarrow>
          (case isRecoveryFromPatchingFailureComplete env l1 inst of
             (inst1, l2, complete) \<Rightarrow>
               if \<not> complete then waiting inst1 l2 (requeue_in (10 * Second))
               else (case isOracleUpAndRunning env l2 inst1 of
                  (l3, Inl err) \<Rightarrow> to_state env l3 inst1 k8s_PatchingRecoveryFailure
                    ''Failed to restore from snapshot after patching failure. Could not retrieve status of Oracle''
                    Result_zero (Some err)
                | (l3, Inr oracleRunning) \<Rightarrow>
                    if \<not> oracleRunning then waiting inst1 l3 (requeue_in (10 * Second))
                    else (let inst2 = inst1\<lparr>inst_Status := (inst_Status inst1)
                                 \<lparr>ist_LastFailedImages := CloneMap (is_Images (inst_Spec inst1))\<rparr>\<rparr>;
                              inst3 = upsert env l3 inst2 k8s_Ready ConditionTrue k8s_PatchingRecoveryCompleted
                                        ''Finished restoring from snapshot after patching failure''
                          in (set_active [] inst3, l3, Result_zero, None, True)))))"

definition patchingStateMachine ::
    "inst_env \<Rightarrow> inst_log \<Rightarrow> Condition option \<Rightarrow> Condition option \<Rightarrow> Instance \<Rightarrow> StsParams \<Rightarrow> duration \<Rightarrow>
     handler_result" where
  "patchingStateMachine env l instanceReadyCond dbInstanceCond inst sp databasePatchingTimeout =
     (case (instanceReadyCond, dbInstanceCond) of
        (Some ready, Some db) \<Rightarrow>
          (let r = Reason ready in
           if r = k8s_CreateComplete \<or> r = k8s_ExportComplete \<or> r = k8s_RestoreComplete \<or>
              r = k8s_ImportComplete \<or> r = k8s_PatchingRecoveryCompleted
           then case_entry env l inst ready
           else if r = k8s_PatchingBackupStarted then case_backup_started env l inst
           else if r = k8s_DeploymentSetPatchingInProgress then case_deployment env l inst ready sp
           else if r = k8s_DeploymentSetPatchingComplete then case_deployment_complete env l inst sp
           else if r = k8s_DeploymentSetPatchingRollbackInProgress then case_deployment_rollback env l inst ready
           else if r = k8s_StatefulSetPatchingInProgress then case_sts_patching env l inst ready databasePatchingTimeout
           else if r = k8s_StatefulSetPatchingComplete then case_sts_complete env l inst
           else if r = k8s_DatabasePatchingInProgress then case_db_patching env l inst ready databasePatchingTimeout
           else if r = k8s_DatabasePatchingComplete then case_db_complete env l inst sp
           else if r = k8s_StatefulSetPatchingFailure \<or> r = k8s_DatabasePatchingFailure
           then case_failure env l inst sp
           else if r = k8s_PatchingRecoveryInProgress then case_recovery env l inst sp
           else (inst, l, Result_zero, None, False))
      | _ \<Rightarrow> (inst, l, Result_zero, None, False))"

text \<open>What \<open>Reconcile\<close> does about patching: it runs the state machine when patching is wanted or under
  way.\<close>

definition patching_round :: "inst_env \<Rightarrow> inst_log \<Rightarrow> Instance \<Rightarrow> StsParams \<Rightarrow> handler_result" where
  "patching_round env l inst sp =
     (let ready = inst_cond inst k8s_Ready; db = inst_cond inst k8s_DatabaseInstanceReady;
          st = inst_Status inst;
          databasePatchingTimeout = (case is_DatabasePatchingTimeout (inst_Spec inst) of
                                       None \<Rightarrow> 25 * Minute | Some d \<Rightarrow> d)
      in if IsPatchingStateMachineEntryCondition (is_Services (inst_Spec inst)) (ist_ActiveImages st)
              (sp_Images sp) (ist_LastFailedImages st) ready db \<or>
            ist_CurrentActiveStateMachine st = PatchingStateMachine
         then patchingStateMachine env l ready db inst sp databasePatchingTimeout
         else (inst, l, Result_zero, None, False))"

subsection \<open>Transitions\<close>

abbreviation ready_reason :: "Instance \<Rightarrow> string" where
  "ready_reason inst \<equiv> reason_of (ist_Conditions (inst_Status inst)) k8s_Ready"

definition patching_next :: "string \<Rightarrow> string set" where
  "patching_next r =
     (if r \<in> {k8s_CreateComplete, k8s_ExportComplete, k8s_RestoreComplete, k8s_ImportComplete, k8s_PatchingRecoveryCompleted}
      then {k8s_PatchingBackupStarted, k8s_PatchingBackupFailure}
      else if r = k8s_PatchingBackupStarted then {k8s_DeploymentSetPatchingInProgress, k8s_PatchingBackupFailure}
      else if r = k8s_DeploymentSetPatchingInProgress
      then {k8s_DeploymentSetPatchingComplete, k8s_DeploymentSetPatchingRollbackInProgress}
      else if r = k8s_DeploymentSetPatchingComplete
      then {k8s_StatefulSetPatchingInProgress, k8s_StatefulSetPatchingComplete, k8s_StatefulSetPatchingFailure}
      else if r = k8s_DeploymentSetPatchingRollbackInProgress
      then {k8s_PatchingRecoveryCompleted, k8s_PatchingRecoveryFailure}
      else if r = k8s_StatefulSetPatchingInProgress then {k8s_StatefulSetPatchingComplete, k8s_StatefulSetPatchingFailure}
      else if r = k8s_StatefulSetPatchingComplete then {k8s_DatabasePatchingInProgress, k8s_DatabasePatchingFailure}
      else if r = k8s_DatabasePatchingInProgress then {k8s_DatabasePatchingComplete, k8s_DatabasePatchingFailure}
      else if r = k8s_DatabasePatchingComplete then {k8s_CreateComplete}
      else if r \<in> {k8s_StatefulSetPatchingFailure, k8s_DatabasePatchingFailure}
      then {k8s_PatchingRecoveryInProgress, k8s_PatchingRecoveryFailure}
      else if r = k8s_PatchingRecoveryInProgress then {k8s_PatchingRecoveryCompleted}
      else {})"

lemma to_state_simps [simp]:
  "to_state env l inst reason msg res err = (inst', l', res', err', done) \<longleftrightarrow>
     inst' = upsert env l inst k8s_Ready ConditionFalse reason msg \<and> l' = l \<and> res' = res \<and> err' = err \<and> done"
  by (auto simp: to_state_def)

lemma waiting_simps [simp]:
  "waiting inst l res = (inst', l', res', err', done) \<longleftrightarrow> inst' = inst \<and> l' = l \<and> res' = res \<and> err' = None \<and> done"
  by (auto simp: waiting_def)

lemma ready_reason_set_active [simp]: "ready_reason (set_active m inst) = ready_reason inst"
  by (simp add: set_active_def)

lemma isOracleUpAndRunning_Inl [simp]: "isOracleUpAndRunning env l inst \<noteq> (l', Inl err)"
  by (auto simp: isOracleUpAndRunning_def split: sum.splits)

lemma startPatchingBackup_reason:
  "startPatchingBackup env l inst = (inst', l', res, err) \<Longrightarrow> ready_reason inst' = ready_reason inst"
  by (auto simp: startPatchingBackup_def split: prod.splits sum.splits)

text \<open>What a case never changes: the disks, the names and the backup.\<close>

definition same_backup :: "Instance \<Rightarrow> Instance \<Rightarrow> bool" where
  "same_backup inst inst' \<longleftrightarrow>
     is_Disks (inst_Spec inst') = is_Disks (inst_Spec inst) \<and> inst_Name inst' = inst_Name inst \<and>
     inst_Namespace inst' = inst_Namespace inst \<and>
     ist_BackupID (inst_Status inst') = ist_BackupID (inst_Status inst)"

lemma same_backup_refl [simp]: "same_backup inst inst"
  by (simp add: same_backup_def)

lemma same_backup_upsert [simp]:
  "same_backup inst (upsert env l inst' name st r m) = same_backup inst inst'"
  by (simp add: same_backup_def)

lemma same_backup_set_active [simp]: "same_backup inst (set_active m inst') = same_backup inst inst'"
  by (simp add: same_backup_def set_active_def)

lemma updateProgressCondition_keeps:
  assumes "updateProgressCondition env l inst ns op = (inst', l', ok)"
  shows "ready_reason inst' = ready_reason inst \<and> same_backup inst inst'"
proof (cases "inst_cond inst k8s_Ready")
  case None
  with assms show ?thesis by (auto simp: updateProgressCondition_def split: prod.splits)
next
  case (Some c)
  then have "Type c = k8s_Ready" by (rule FindCondition_Type)
  moreover from Some have "ready_reason inst = Reason c" by (simp add: reason_of_def)
  ultimately show ?thesis
    using assms Some by (auto simp: updateProgressCondition_def split: prod.splits if_splits)
qed

lemma startStatefulSetPatching_keeps:
  "startStatefulSetPatching env l inst sp = (inst', l', err) \<Longrightarrow> same_backup inst inst'"
  by (auto simp: startStatefulSetPatching_def Let_def split: prod.splits option.splits sum.splits)

lemmas case_defs = case_backup_started_def case_deployment_def case_deployment_complete_def
  case_deployment_rollback_def case_sts_patching_def case_sts_complete_def case_db_patching_def
  case_db_complete_def case_failure_def case_recovery_def

lemma case_entry_next:
  assumes "case_entry env l inst ready = (inst', l', res, err, done)"
  shows "ready_reason inst' \<in> {ready_reason inst, k8s_PatchingBackupStarted, k8s_PatchingBackupFailure}"
  using assms
  by (auto simp: case_entry_def dest!: startPatchingBackup_reason split: prod.splits option.splits if_splits)

lemma case_db_complete_reason:
  "case_db_complete env l inst sp = (inst', l', res, err, done) \<Longrightarrow>
     ready_reason inst' = k8s_CreateComplete \<and> same_backup inst inst'"
  by (auto simp: case_db_complete_def Let_def same_backup_def set_active_def)

lemma case_recovery_reason:
  assumes "case_recovery env l inst sp = (inst', l', res, err, done)"
  shows "ready_reason inst' \<in> {ready_reason inst, k8s_PatchingRecoveryCompleted} \<and> same_backup inst inst'"
proof -
  have "ready_reason inst1 = ready_reason inst \<and> same_backup inst inst1"
    if "isRecoveryFromPatchingFailureComplete env l1 inst = (inst1, l2, c)" for l1 inst1 l2 c
    using that updateProgressCondition_keeps unfolding isRecoveryFromPatchingFailureComplete_def by blast
  with assms show ?thesis
    by (fastforce simp: case_recovery_def Let_def same_backup_def set_active_def
        split: prod.splits option.splits if_splits sum.splits)
qed

lemma case_backup_started_next:
  "case_backup_started env l inst = (inst', l', res, err, done) \<Longrightarrow>
     ready_reason inst' \<in> {ready_reason inst, k8s_DeploymentSetPatchingInProgress, k8s_PatchingBackupFailure} \<and>
     same_backup inst inst'"
  by (auto simp: case_backup_started_def split: prod.splits option.splits if_splits)

lemma case_deployment_next:
  "case_deployment env l inst ready sp = (inst', l', res, err, done) \<Longrightarrow>
     ready_reason inst' \<in> {ready_reason inst, k8s_DeploymentSetPatchingComplete,
                           k8s_DeploymentSetPatchingRollbackInProgress} \<and> same_backup inst inst'"
  by (auto simp: case_deployment_def Let_def split: prod.splits option.splits if_splits)

lemma case_deployment_complete_next:
  "case_deployment_complete env l inst sp = (inst', l', res, err, done) \<Longrightarrow>
     ready_reason inst' \<in> {ready_reason inst, k8s_StatefulSetPatchingInProgress, k8s_StatefulSetPatchingComplete,
                           k8s_StatefulSetPatchingFailure} \<and> same_backup inst inst'"
  by (auto simp: case_deployment_complete_def dest: startStatefulSetPatching_keeps
      split: prod.splits sum.splits if_splits option.splits)

lemma case_deployment_rollback_next:
  "case_deployment_rollback env l inst ready = (inst', l', res, err, done) \<Longrightarrow>
     ready_reason inst' \<in> {ready_reason inst, k8s_PatchingRecoveryCompleted, k8s_PatchingRecoveryFailure} \<and>
     same_backup inst inst'"
  by (auto simp: case_deployment_rollback_def Let_def split: prod.splits option.splits if_splits)

lemma case_sts_patching_next:
  "case_sts_patching env l inst ready t = (inst', l', res, err, done) \<Longrightarrow>
     ready_reason inst' \<in> {ready_reason inst, k8s_StatefulSetPatchingComplete, k8s_StatefulSetPatchingFailure} \<and>
     same_backup inst inst'"
  by (auto simp: case_sts_patching_def Let_def dest!: updateProgressCondition_keeps
      split: prod.splits if_splits)

lemma case_sts_complete_next:
  "case_sts_complete env l inst = (inst', l', res, err, done) \<Longrightarrow>
     ready_reason inst' \<in> {ready_reason inst, k8s_DatabasePatchingInProgress, k8s_DatabasePatchingFailure} \<and>
     same_backup inst inst'"
  by (auto simp: case_sts_complete_def split: prod.splits sum.splits if_splits option.splits)

lemma case_db_patching_next:
  "case_db_patching env l inst ready t = (inst', l', res, err, done) \<Longrightarrow>
     ready_reason inst' \<in> {ready_reason inst, k8s_DatabasePatchingComplete, k8s_DatabasePatchingFailure} \<and>
     same_backup inst inst'"
  by (auto simp: case_db_patching_def Let_def split: prod.splits option.splits if_splits)

lemma case_failure_next:
  "case_failure env l inst sp = (inst', l', res, err, done) \<Longrightarrow>
     ready_reason inst' \<in> {ready_reason inst, k8s_PatchingRecoveryInProgress, k8s_PatchingRecoveryFailure} \<and>
     same_backup inst inst'"
  by (auto simp: case_failure_def split: prod.splits sum.splits if_splits)

lemmas case_next = case_backup_started_next case_deployment_next case_deployment_complete_next
  case_deployment_rollback_next case_sts_patching_next case_sts_complete_next case_db_patching_next
  case_failure_next case_db_complete_reason case_recovery_reason

definition patching_entries :: "string set" where
  "patching_entries =
     {k8s_CreateComplete, k8s_ExportComplete, k8s_RestoreComplete, k8s_ImportComplete, k8s_PatchingRecoveryCompleted}"

text \<open>The cases of the switch, as a rule for case analysis.\<close>

lemma patchingStateMachine_cases [consumes 1, case_names no_conditions entry backup_started deployment
    deployment_complete rollback sts_patching sts_complete db_patching db_complete failure recovery other]:
  assumes "patchingStateMachine env l rc db inst sp t = R"
  obtains "rc = None \<or> db = None" and "R = (inst, l, Result_zero, None, False)"
  | ready where "rc = Some ready" and "Reason ready \<in> patching_entries" and "case_entry env l inst ready = R"
  | ready where "rc = Some ready" and "Reason ready = k8s_PatchingBackupStarted"
      and "case_backup_started env l inst = R"
  | ready where "rc = Some ready" and "Reason ready = k8s_DeploymentSetPatchingInProgress"
      and "case_deployment env l inst ready sp = R"
  | ready where "rc = Some ready" and "Reason ready = k8s_DeploymentSetPatchingComplete"
      and "case_deployment_complete env l inst sp = R"
  | ready where "rc = Some ready" and "Reason ready = k8s_DeploymentSetPatchingRollbackInProgress"
      and "case_deployment_rollback env l inst ready = R"
  | ready where "rc = Some ready" and "Reason ready = k8s_StatefulSetPatchingInProgress"
      and "case_sts_patching env l inst ready t = R"
  | ready where "rc = Some ready" and "Reason ready = k8s_StatefulSetPatchingComplete"
      and "case_sts_complete env l inst = R"
  | ready where "rc = Some ready" and "Reason ready = k8s_DatabasePatchingInProgress"
      and "case_db_patching env l inst ready t = R"
  | ready where "rc = Some ready" and "Reason ready = k8s_DatabasePatchingComplete"
      and "case_db_complete env l inst sp = R"
  | ready where "rc = Some ready" and "Reason ready = k8s_StatefulSetPatchingFailure \<or> Reason ready = k8s_DatabasePatchingFailure"
      and "case_failure env l inst sp = R"
  | ready where "rc = Some ready" and "Reason ready = k8s_PatchingRecoveryInProgress"
      and "case_recovery env l inst sp = R"
  | ready where "rc = Some ready" and "patching_next (Reason ready) = {}" and "R = (inst, l, Result_zero, None, False)"
proof (cases "rc = None \<or> db = None")
  case True
  with assms have "R = (inst, l, Result_zero, None, False)"
    by (auto simp: patchingStateMachine_def split: option.splits)
  with True show ?thesis by (rule that(1))
next
  case False
  then obtain ready d where c: "rc = Some ready" "db = Some d" by auto
  consider (1) "Reason ready \<in> patching_entries"
    | (2) "Reason ready = k8s_PatchingBackupStarted"
    | (3) "Reason ready = k8s_DeploymentSetPatchingInProgress"
    | (4) "Reason ready = k8s_DeploymentSetPatchingComplete"
    | (5) "Reason ready = k8s_DeploymentSetPatchingRollbackInProgress"
    | (6) "Reason ready = k8s_StatefulSetPatchingInProgress"
    | (7) "Reason ready = k8s_StatefulSetPatchingComplete"
    | (8) "Reason ready = k8s_DatabasePatchingInProgress"
    | (9) "Reason ready = k8s_DatabasePatchingComplete"
    | (10) "Reason ready = k8s_StatefulSetPatchingFailure \<or> Reason ready = k8s_DatabasePatchingFailure"
    | (11) "Reason ready = k8s_PatchingRecoveryInProgress"
    | (12) "Reason ready \<notin> patching_entries"
        and "Reason ready \<noteq> k8s_PatchingBackupStarted"
        and "Reason ready \<noteq> k8s_DeploymentSetPatchingInProgress"
        and "Reason ready \<noteq> k8s_DeploymentSetPatchingComplete"
        and "Reason ready \<noteq> k8s_DeploymentSetPatchingRollbackInProgress"
        and "Reason ready \<noteq> k8s_StatefulSetPatchingInProgress"
        and "Reason ready \<noteq> k8s_StatefulSetPatchingComplete"
        and "Reason ready \<noteq> k8s_DatabasePatchingInProgress"
        and "Reason ready \<noteq> k8s_DatabasePatchingComplete"
        and "Reason ready \<noteq> k8s_StatefulSetPatchingFailure"
        and "Reason ready \<noteq> k8s_DatabasePatchingFailure"
        and "Reason ready \<noteq> k8s_PatchingRecoveryInProgress"
    by blast
  then show ?thesis
  proof cases
    case 1
    with assms c show ?thesis
      by (intro that(2) [OF c(1)]) (auto simp: patchingStateMachine_def patching_entries_def Let_def)
  next
    case 2
    with assms c show ?thesis
      by (intro that(3) [OF c(1)]) (auto simp: patchingStateMachine_def patching_entries_def Let_def)
  next
    case 3
    with assms c show ?thesis
      by (intro that(4) [OF c(1)]) (auto simp: patchingStateMachine_def patching_entries_def Let_def)
  next
    case 4
    with assms c show ?thesis
      by (intro that(5) [OF c(1)]) (auto simp: patchingStateMachine_def patching_entries_def Let_def)
  next
    case 5
    with assms c show ?thesis
      by (intro that(6) [OF c(1)]) (auto simp: patchingStateMachine_def patching_entries_def Let_def)
  next
    case 6
    with assms c show ?thesis
      by (intro that(7) [OF c(1)]) (auto simp: patchingStateMachine_def patching_entries_def Let_def)
  next
    case 7
    with assms c show ?thesis
      by (intro that(8) [OF c(1)]) (auto simp: patchingStateMachine_def patching_entries_def Let_def)
  next
    case 8
    with assms c show ?thesis
      by (intro that(9) [OF c(1)]) (auto simp: patchingStateMachine_def patching_entries_def Let_def)
  next
    case 9
    with assms c show ?thesis
      by (intro that(10) [OF c(1)]) (auto simp: patchingStateMachine_def patching_entries_def Let_def)
  next
    case 10
    with assms c show ?thesis
      by (intro that(11) [OF c(1)]) (auto simp: patchingStateMachine_def patching_entries_def Let_def)
  next
    case 11
    with assms c show ?thesis
      by (intro that(12) [OF c(1)]) (auto simp: patchingStateMachine_def patching_entries_def Let_def)
  next
    case 12
    then have "patching_next (Reason ready) = {}" by (simp add: patching_next_def patching_entries_def)
    with 12 assms c show ?thesis
      by (intro that(13) [OF c(1)]) (auto simp: patchingStateMachine_def patching_entries_def Let_def)
  qed
qed

text \<open>
  C15: every round of the patching state machine moves along the documented diagram. From the reason it
  finds it stays, or goes to one of the successors \<open>patching_next\<close> lists; in a state that is none of
  the machine's, or before the conditions exist, it leaves the instance and the log alone and hands
  the request on.
\<close>

theorem patchingStateMachine_transitions:
  assumes "patchingStateMachine env l (inst_cond inst k8s_Ready) db inst sp t = (inst', l', res, err, done)"
  shows "(ready_reason inst' = ready_reason inst \<or> ready_reason inst' \<in> patching_next (ready_reason inst)) \<and>
         (patching_next (ready_reason inst) = {} \<longrightarrow> inst' = inst \<and> l' = l \<and> err = None \<and> \<not> done)"
proof -
  have r: "ready_reason inst = Reason c" if "inst_cond inst k8s_Ready = Some c" for c
    using that by (simp add: reason_of_def)
  from assms show ?thesis
  proof (cases rule: patchingStateMachine_cases)
    case (entry ready)
    then show ?thesis using r case_entry_next [OF entry(3)] by (auto simp: patching_next_def patching_entries_def)
  next
    case (failure ready)
    then show ?thesis using r case_failure_next [OF failure(3)] by (auto simp: patching_next_def)
  qed (auto simp: patching_next_def r dest!: case_next)
qed

subsection \<open>What a round calls\<close>

fun destructive :: "inst_call \<Rightarrow> bool" where
  "destructive (IDeleteSTS ns name) = True"
| "destructive (IDeletePVC ns name) = True"
| "destructive _ = False"

text \<open>\<open>l'\<close> extends \<open>l\<close>; with \<open>harmless\<close>, by calls that delete nothing.\<close>

definition extends :: "inst_log \<Rightarrow> inst_log \<Rightarrow> bool" where
  "extends l l' \<longleftrightarrow> (\<exists>cs. l' = l @ cs)"

definition harmless :: "inst_log \<Rightarrow> inst_log \<Rightarrow> bool" where
  "harmless l l' \<longleftrightarrow> (\<exists>cs. l' = l @ cs \<and> (\<forall>c \<in> set cs. \<not> destructive c))"

lemma harmless_refl [simp]: "harmless l l"
  by (simp add: harmless_def)

lemma harmless_append [simp]: "harmless l (l @ cs) \<longleftrightarrow> (\<forall>c \<in> set cs. \<not> destructive c)"
  by (auto simp: harmless_def)

lemma harmless_step: "harmless l l' \<Longrightarrow> \<forall>c \<in> set cs. \<not> destructive c \<Longrightarrow> harmless l (l' @ cs)"
  unfolding harmless_def by fastforce

lemma harmless_from: "harmless (l @ cs) l' \<Longrightarrow> \<forall>c \<in> set cs. \<not> destructive c \<Longrightarrow> harmless l l'"
  unfolding harmless_def by fastforce

lemma harmless_trans: "harmless l l1 \<Longrightarrow> harmless l1 l2 \<Longrightarrow> harmless l l2"
  unfolding harmless_def by auto

lemma harmless_extends: "harmless l l' \<Longrightarrow> extends l l'"
  by (auto simp: harmless_def extends_def)

lemma extends_refl [simp]: "extends l l"
  by (simp add: extends_def)

lemma extends_trans: "extends l l1 \<Longrightarrow> extends l1 l2 \<Longrightarrow> extends l l2"
  by (auto simp: extends_def)

lemma extends_snoc [intro]: "extends l l' \<Longrightarrow> extends l (l' @ [c])"
  by (auto simp: extends_def)

lemma harmless_statusProgress: "statusProgress env l ns name = (l', p, e) \<Longrightarrow> harmless l l'"
  by (auto simp: statusProgress_def Let_def split: sum.splits option.splits if_splits prod.splits)

lemma harmless_updateProgressCondition:
  "updateProgressCondition env l inst ns op = (inst', l', ok) \<Longrightarrow> harmless l l'"
  by (auto simp: updateProgressCondition_def dest: harmless_statusProgress
      split: prod.splits option.splits if_splits)

lemma harmless_snapshot_disks: "snapshot_disks env l inst b ds = (l', e) \<Longrightarrow> harmless l l'"
proof (induction ds arbitrary: l)
  case (Cons d ds)
  obtain pvc snap where d: "disk_snapshot inst b d = (pvc, snap)" by fastforce
  let ?l = "l @ [IApplySnapshot pvc snap patching_vsc]"
  have "harmless ?l l' \<Longrightarrow> harmless l l'" by (erule harmless_from) simp
  with Cons.IH [of ?l] Cons.prems d show ?case
    by (auto simp: Let_def split: option.splits)
qed simp

lemma harmless_snapshots_completed: "snapshots_completed env l inst b ds = (l', c, e) \<Longrightarrow> harmless l l'"
proof (induction ds arbitrary: l)
  case (Cons d ds)
  let ?l = "l @ [IGetSnapshot (inst_Namespace inst) (snd (disk_snapshot inst b d))]"
  have "harmless ?l l' \<Longrightarrow> harmless l l'" by (erule harmless_from) simp
  with Cons.IH [of ?l] Cons.prems show ?case
    by (auto simp: Let_def split: option.splits sum.splits if_splits)
qed simp

lemma harmless_restoreSnapshot: "restoreSnapshot env l inst sp pinst = (l', e) \<Longrightarrow> harmless l l'"
  by (auto simp: restoreSnapshot_def Let_def split: sum.splits)

lemma harmless_isOracle: "isOracleUpAndRunning env l inst = (l', e) \<Longrightarrow> harmless l l'"
  by (auto simp: isOracleUpAndRunning_def)

lemma harmless_isDatabasePatchingDone: "isDatabasePatchingDone env l inst = (l', d, e) \<Longrightarrow> harmless l l'"
  by (auto simp: isDatabasePatchingDone_def Let_def split: sum.splits option.splits if_splits)

lemmas harmless_calls = harmless_updateProgressCondition harmless_snapshot_disks
  harmless_snapshots_completed harmless_restoreSnapshot harmless_isOracle harmless_isDatabasePatchingDone

subsection \<open>Nothing is destroyed without a backup\<close>

text \<open>A snapshot was requested, and was read back without an error and not as unready. As in the code, a snapshot whose
  \<open>readyToUse\<close> is absent is accepted.\<close>

definition requested :: "inst_env \<Rightarrow> inst_log \<Rightarrow> string \<times> string \<Rightarrow> bool" where
  "requested env l ps \<longleftrightarrow>
     (\<exists>l1 l2. l = l1 @ IApplySnapshot (fst ps) (snd ps) patching_vsc # l2 \<and>
              ie_ApplySnapshot env l1 (fst ps) (snd ps) patching_vsc = None)"

definition snapshot_accepted :: "inst_env \<Rightarrow> inst_log \<Rightarrow> string \<Rightarrow> string \<Rightarrow> bool" where
  "snapshot_accepted env l ns snap \<longleftrightarrow>
     (\<exists>l1 l2 st. l = l1 @ IGetSnapshot ns snap # l2 \<and> ie_GetSnapshot env l1 ns snap = Inr (Some st) \<and>
                 snap_Error st = None \<and> snap_ReadyToUse st \<noteq> Some False)"

definition all_requested :: "inst_env \<Rightarrow> inst_log \<Rightarrow> Instance \<Rightarrow> bool" where
  "all_requested env l inst \<longleftrightarrow>
     ist_BackupID (inst_Status inst) \<noteq> [] \<and>
     (\<forall>d \<in> set (inst_disks inst). requested env l (disk_snapshot inst (ist_BackupID (inst_Status inst)) d))"

definition all_accepted :: "inst_env \<Rightarrow> inst_log \<Rightarrow> Instance \<Rightarrow> bool" where
  "all_accepted env l inst \<longleftrightarrow>
     (\<forall>d \<in> set (inst_disks inst). snapshot_accepted env l (inst_Namespace inst)
        (snd (disk_snapshot inst (ist_BackupID (inst_Status inst)) d)))"

lemma requested_mono: "requested env l ps \<Longrightarrow> extends l l' \<Longrightarrow> requested env l' ps"
  by (force simp: requested_def extends_def)

lemma snapshot_accepted_mono: "snapshot_accepted env l ns s \<Longrightarrow> extends l l' \<Longrightarrow> snapshot_accepted env l' ns s"
  by (force simp: snapshot_accepted_def extends_def)

lemma snapshot_disks_requested:
  "snapshot_disks env l inst b ds = (l', None) \<Longrightarrow> d \<in> set ds \<Longrightarrow> requested env l' (disk_snapshot inst b d)"
proof (induction ds arbitrary: l)
  case (Cons e ds)
  obtain pvc snap where e: "disk_snapshot inst b e = (pvc, snap)" by fastforce
  let ?l = "l @ [IApplySnapshot pvc snap patching_vsc]"
  from Cons.prems(1) e have ok: "ie_ApplySnapshot env l pvc snap patching_vsc = None"
    and rest: "snapshot_disks env ?l inst b ds = (l', None)"
    by (auto simp: Let_def split: option.splits)
  have "requested env ?l (pvc, snap)" using ok by (auto simp: requested_def)
  moreover have "extends ?l l'" using rest by (intro harmless_extends harmless_snapshot_disks)
  ultimately show ?case
    using Cons.IH [OF rest] Cons.prems(2) e requested_mono by auto
qed simp

lemma snapshots_completed_seen:
  "snapshots_completed env l inst b ds = (l', True, None) \<Longrightarrow> d \<in> set ds \<Longrightarrow>
     snapshot_accepted env l' (inst_Namespace inst) (snd (disk_snapshot inst b d))"
proof (induction ds arbitrary: l)
  case (Cons e ds)
  let ?s = "snd (disk_snapshot inst b e)"
  let ?l = "l @ [IGetSnapshot (inst_Namespace inst) ?s]"
  from Cons.prems(1) obtain st where st: "ie_GetSnapshot env l (inst_Namespace inst) ?s = Inr (Some st)"
    "snap_Error st = None" "snap_ReadyToUse st \<noteq> Some False"
    and rest: "snapshots_completed env ?l inst b ds = (l', True, None)"
    by (auto simp: Let_def split: option.splits sum.splits if_splits)
  have "snapshot_accepted env ?l (inst_Namespace inst) ?s" using st by (auto simp: snapshot_accepted_def)
  moreover have "extends ?l l'" using rest by (intro harmless_extends harmless_snapshots_completed)
  ultimately show ?case
    using Cons.IH [OF rest] Cons.prems(2) snapshot_accepted_mono by auto
qed simp

definition after_backup :: "string set" where
  "after_backup =
     {k8s_DeploymentSetPatchingInProgress, k8s_DeploymentSetPatchingComplete,
      k8s_DeploymentSetPatchingRollbackInProgress, k8s_StatefulSetPatchingInProgress,
      k8s_StatefulSetPatchingComplete, k8s_DatabasePatchingInProgress, k8s_DatabasePatchingComplete,
      k8s_StatefulSetPatchingFailure, k8s_DatabasePatchingFailure, k8s_PatchingRecoveryInProgress}"

definition backup_inv :: "inst_env \<Rightarrow> Instance \<Rightarrow> inst_log \<Rightarrow> bool" where
  "backup_inv env inst l \<longleftrightarrow>
     (ready_reason inst = k8s_PatchingBackupStarted \<or> ready_reason inst \<in> after_backup \<longrightarrow> all_requested env l inst) \<and>
     (ready_reason inst \<in> after_backup \<longrightarrow> all_accepted env l inst)"

lemma disk_snapshot_same:
  "same_backup inst inst' \<Longrightarrow> disk_snapshot inst' b d = disk_snapshot inst b d"
  "same_backup inst inst' \<Longrightarrow> inst_disks inst' = inst_disks inst"
  by (auto simp: same_backup_def inst_disks_def disk_snapshot_def pvc_and_mount_def
      GetCustomPVCNameAndMount_def split: prod.splits)

lemma all_requested_same:
  assumes "all_requested env l inst" and "same_backup inst inst'" and "extends l l'"
  shows "all_requested env l' inst'"
proof -
  from assms(2) have "ist_BackupID (inst_Status inst') = ist_BackupID (inst_Status inst)"
    "inst_Namespace inst' = inst_Namespace inst" by (simp_all add: same_backup_def)
  with assms show ?thesis
    unfolding all_requested_def by (simp add: disk_snapshot_same [OF assms(2)]) (blast intro: requested_mono)
qed

lemma all_accepted_same:
  assumes "all_accepted env l inst" and "same_backup inst inst'" and "extends l l'"
  shows "all_accepted env l' inst'"
proof -
  from assms(2) have "ist_BackupID (inst_Status inst') = ist_BackupID (inst_Status inst)"
    "inst_Namespace inst' = inst_Namespace inst" by (simp_all add: same_backup_def)
  with assms show ?thesis
    unfolding all_accepted_def by (simp add: disk_snapshot_same [OF assms(2)]) (blast intro: snapshot_accepted_mono)
qed

text \<open>A case that keeps the backup and does not enter a state after the backup from outside keeps the
  invariant.\<close>

lemma backup_inv_same:
  assumes "backup_inv env inst l" and "same_backup inst inst'" and "extends l l'"
    and "ready_reason inst' \<in> after_backup \<Longrightarrow> ready_reason inst \<in> after_backup"
    and "ready_reason inst' = k8s_PatchingBackupStarted \<Longrightarrow> ready_reason inst = k8s_PatchingBackupStarted"
  shows "backup_inv env inst' l'"
  using assms all_requested_same all_accepted_same unfolding backup_inv_def by blast

text \<open>The calls of each case extend the log; only two cases delete anything.\<close>

lemma case_entry_harmless: "case_entry env l inst ready = (inst', l', res, err, done) \<Longrightarrow> harmless l l'"
  by (auto simp: case_entry_def startPatchingBackup_def prePatchBackup_def Let_def dest: harmless_snapshot_disks
      split: prod.splits option.splits sum.splits if_splits)

lemma case_backup_started_harmless:
  "case_backup_started env l inst = (inst', l', res, err, done) \<Longrightarrow> harmless l l'"
  by (auto simp: case_backup_started_def isPatchingBackupCompleted_def dest: harmless_snapshots_completed
      split: prod.splits option.splits if_splits)

lemma case_deployment_harmless: "case_deployment env l inst ready sp = (inst', l', res, err, done) \<Longrightarrow> harmless l l'"
  by (auto simp: case_deployment_def Let_def split: prod.splits option.splits if_splits)

lemma case_deployment_rollback_harmless:
  "case_deployment_rollback env l inst ready = (inst', l', res, err, done) \<Longrightarrow> harmless l l'"
  by (auto simp: case_deployment_rollback_def Let_def split: prod.splits option.splits if_splits)

lemma case_sts_patching_harmless:
  "case_sts_patching env l inst ready t = (inst', l', res, err, done) \<Longrightarrow> harmless l l'"
  by (auto simp: case_sts_patching_def Let_def dest: harmless_updateProgressCondition split: prod.splits if_splits)

lemma case_sts_complete_harmless: "case_sts_complete env l inst = (inst', l', res, err, done) \<Longrightarrow> harmless l l'"
  by (auto simp: case_sts_complete_def startDatabasePatching_def Let_def
      dest!: harmless_isOracle intro: harmless_step
      split: prod.splits sum.splits if_splits option.splits)

lemma case_db_patching_harmless:
  "case_db_patching env l inst ready t = (inst', l', res, err, done) \<Longrightarrow> harmless l l'"
  by (auto simp: case_db_patching_def Let_def dest: harmless_isDatabasePatchingDone
      split: prod.splits option.splits if_splits)

lemma case_db_complete_harmless: "case_db_complete env l inst sp = (inst', l', res, err, done) \<Longrightarrow> harmless l l'"
  by (auto simp: case_db_complete_def Let_def)

lemma case_recovery_harmless: "case_recovery env l inst sp = (inst', l', res, err, done) \<Longrightarrow> harmless l l'"
  by (auto simp: case_recovery_def recoverFromPatchingFailure_def isRecoveryFromPatchingFailureComplete_def Let_def
      dest!: harmless_restoreSnapshot harmless_updateProgressCondition harmless_isOracle
      intro: harmless_trans split: prod.splits option.splits sum.splits if_splits)

lemma extends_delete_pvcs: "delete_pvcs env l n pvcs = (l', r) \<Longrightarrow> extends l l'"
proof (induction pvcs arbitrary: l)
  case (Cons p ps)
  let ?l = "l @ [IGetPVC (pvc_Namespace p) (pvc_Name p @ ''-'' @ n @ ''-0'')]"
  have "extends l ?l" by (simp add: extends_def)
  with Cons.IH [of ?l] Cons.prems show ?case
    by (auto simp: Let_def extends_def split: sum.splits if_splits)
qed simp

lemma case_failure_extends: "case_failure env l inst sp = (inst', l', res, err, done) \<Longrightarrow> extends l l'"
  by (auto simp: case_failure_def deleteOldSTSandPVCs_def Let_def extends_def
      dest!: extends_delete_pvcs split: prod.splits sum.splits if_splits)

lemma case_deployment_complete_extends:
  "case_deployment_complete env l inst sp = (inst', l', res, err, done) \<Longrightarrow> extends l l'"
  by (auto simp: case_deployment_complete_def startStatefulSetPatching_def retrieveStatefulSetByName_def
      Let_def extends_def dest!: harmless_isOracle [THEN harmless_extends]
      split: prod.splits sum.splits if_splits option.splits)

lemmas case_harmless = case_entry_harmless case_backup_started_harmless case_deployment_harmless
  case_deployment_rollback_harmless case_sts_patching_harmless case_sts_complete_harmless
  case_db_patching_harmless case_db_complete_harmless case_recovery_harmless

lemma entries_not_after:
  "r \<in> patching_entries \<Longrightarrow> r \<notin> after_backup \<and> r \<noteq> k8s_PatchingBackupStarted"
  by (auto simp: patching_entries_def after_backup_def)

lemma backup_inv_outside:
  "ready_reason inst \<notin> after_backup \<Longrightarrow> ready_reason inst \<noteq> k8s_PatchingBackupStarted \<Longrightarrow> backup_inv env inst l"
  by (simp add: backup_inv_def)

lemma startPatchingBackup_requests:
  assumes "startPatchingBackup env l inst = (inst', l', res, None)"
  shows "all_requested env l' inst'"
proof -
  let ?b = "patching_backup_id inst (ie_now env l)"
  from assms have snap: "snapshot_disks env l inst ?b (inst_disks inst) = (l', None)"
    and inst': "inst' = inst\<lparr>inst_Status := (inst_Status inst)\<lparr>ist_BackupID := ?b\<rparr>\<rparr>"
    by (auto simp: startPatchingBackup_def prePatchBackup_def Let_def split: prod.splits sum.splits option.splits)
  have "inst_disks inst' = inst_disks inst" "disk_snapshot inst' b d = disk_snapshot inst b d" for b d
    by (simp_all add: inst' inst_disks_def disk_snapshot_def pvc_and_mount_def GetCustomPVCNameAndMount_def)
  then show ?thesis
    using snapshot_disks_requested [OF snap] by (simp add: all_requested_def inst' patching_backup_id_def)
qed

lemma case_entry_inv:
  assumes "case_entry env l inst ready = (inst', l', res, err, done)"
    and "ready_reason inst \<in> patching_entries"
  shows "backup_inv env inst' l'"
proof (cases "ready_reason inst' = k8s_PatchingBackupStarted")
  case False
  then have "ready_reason inst' \<in> {ready_reason inst, k8s_PatchingBackupFailure}"
    using case_entry_next [OF assms(1)] by blast
  moreover have "k8s_PatchingBackupFailure \<notin> after_backup" by (simp add: after_backup_def)
  ultimately show ?thesis
    using False entries_not_after [OF assms(2)] by (intro backup_inv_outside) auto
next
  case True
  with assms entries_not_after [OF assms(2)] obtain inst1 l1 result where
    b: "startPatchingBackup env l (set_active PatchingStateMachine inst) = (inst1, l1, result, None)"
    and i: "inst' = upsert env l1 inst1 k8s_Ready ConditionFalse k8s_PatchingBackupStarted ''Patching Backup Started''"
      "l' = l1"
    by (auto simp: case_entry_def dest!: startPatchingBackup_reason
        split: prod.splits option.splits if_splits)
  have "same_backup inst1 inst'" by (simp add: i)
  with startPatchingBackup_requests [OF b] have "all_requested env l' inst'"
    by (rule all_requested_same) (simp add: i)
  with True show ?thesis by (simp add: backup_inv_def after_backup_def)
qed

lemma case_backup_started_inv:
  assumes "case_backup_started env l inst = (inst', l', res, err, done)"
    and "backup_inv env inst l" and "ready_reason inst = k8s_PatchingBackupStarted"
  shows "backup_inv env inst' l'"
proof -
  have req: "all_requested env l' inst'"
    using assms case_backup_started_next [OF assms(1)] case_backup_started_harmless [OF assms(1)]
    by (auto simp: backup_inv_def intro: all_requested_same harmless_extends)
  have "all_accepted env l' inst'" if "ready_reason inst' \<in> after_backup"
  proof -
    from that assms have c: "isPatchingBackupCompleted env l inst = (l', True, None)" and s: "same_backup inst inst'"
      by (auto simp: case_backup_started_def after_backup_def split: prod.splits option.splits if_splits)
    from c have "all_accepted env l' inst"
      by (auto simp: isPatchingBackupCompleted_def all_accepted_def dest: snapshots_completed_seen)
    then show ?thesis using s by (rule all_accepted_same) simp
  qed
  with req show ?thesis by (simp add: backup_inv_def)
qed

lemma patchingStateMachine_inv:
  assumes R: "patchingStateMachine env l (inst_cond inst k8s_Ready) db inst sp t = (inst', l', res, err, done)"
    and inv: "backup_inv env inst l"
  shows "backup_inv env inst' l'"
proof -
  have r: "ready_reason inst = Reason c" if "inst_cond inst k8s_Ready = Some c" for c
    using that by (simp add: reason_of_def)
  note outside = inv backup_inv_same [OF inv]
  from R show ?thesis
  proof (cases rule: patchingStateMachine_cases)
    case (entry ready)
    then show ?thesis using case_entry_inv r by simp
  next
    case (backup_started ready)
    then show ?thesis using case_backup_started_inv inv r by simp
  next
    case (deployment_complete ready)
    then show ?thesis
      using r case_deployment_complete_next [OF deployment_complete(3)] case_deployment_complete_extends [OF deployment_complete(3)]
      by (intro outside) (auto simp: after_backup_def)
  next
    case (failure ready)
    then show ?thesis
      using r case_failure_next [OF failure(3)] case_failure_extends [OF failure(3)]
      by (intro outside) (auto simp: after_backup_def)
  qed (use inv r in \<open>auto intro!: outside simp: after_backup_def dest: case_next case_harmless [THEN harmless_extends]\<close>)
qed

subsection \<open>Runs\<close>

text \<open>
  An instance over many reconciles. A round is either persisted by the status update at the end of
  \<open>Reconcile\<close> or lost, when that update fails; its calls have been made in both cases. In between,
  the user may edit the specification, except for the disks, and while patching is in none of its
  states the rest of the operator may do anything.
\<close>

inductive patching_run ::
    "inst_env \<Rightarrow> Instance \<Rightarrow> inst_log \<Rightarrow> Instance \<Rightarrow> inst_log \<Rightarrow> bool" for env inst0 l0 where
  run_start: "patching_run env inst0 l0 inst0 l0"
| run_round: "patching_run env inst0 l0 inst l \<Longrightarrow> patching_round env l inst sp = (inst', l', res, err, done) \<Longrightarrow>
     patching_run env inst0 l0 inst' l'"
| run_lost: "patching_run env inst0 l0 inst l \<Longrightarrow> patching_round env l inst sp = (inst', l', res, err, done) \<Longrightarrow>
     patching_run env inst0 l0 inst l'"
| run_edit: "patching_run env inst0 l0 inst l \<Longrightarrow> is_Disks spec = is_Disks (inst_Spec inst) \<Longrightarrow>
     patching_run env inst0 l0 (inst\<lparr>inst_Spec := spec\<rparr>) l"
| run_other: "patching_run env inst0 l0 inst l \<Longrightarrow> ready_reason inst \<notin> insert k8s_PatchingBackupStarted after_backup \<Longrightarrow>
     ready_reason inst' \<notin> insert k8s_PatchingBackupStarted after_backup \<Longrightarrow>
     patching_run env inst0 l0 inst' (l @ cs)"

text \<open>A round is a call of the state machine or nothing.\<close>

lemma patching_round_cases:
  assumes "patching_round env l inst sp = R"
  obtains t where "patchingStateMachine env l (inst_cond inst k8s_Ready) (inst_cond inst k8s_DatabaseInstanceReady)
                     inst sp t = R"
  | "R = (inst, l, Result_zero, None, False)"
  using assms by (auto simp: patching_round_def Let_def split: if_splits)

lemma patching_round_inv:
  assumes "patching_round env l inst sp = (inst', l', res, err, done)" and "backup_inv env inst l"
  shows "backup_inv env inst' l'"
  using assms(1) by (cases rule: patching_round_cases) (auto intro: patchingStateMachine_inv assms(2))

lemma patchingStateMachine_extends:
  assumes "patchingStateMachine env l rc db inst sp t = (inst', l', res, err, done)"
  shows "extends l l'"
  using assms
  by (cases rule: patchingStateMachine_cases)
    (auto dest: case_harmless [THEN harmless_extends] case_failure_extends case_deployment_complete_extends)

lemma patching_round_extends:
  "patching_round env l inst sp = (inst', l', res, err, done) \<Longrightarrow> extends l l'"
  by (erule patching_round_cases) (auto intro: patchingStateMachine_extends)

lemma backup_inv_extends: "backup_inv env inst l \<Longrightarrow> extends l l' \<Longrightarrow> backup_inv env inst l'"
  by (rule backup_inv_same) auto

lemma patching_run_inv:
  assumes "patching_run env inst0 l0 inst l" and "ready_reason inst0 \<notin> insert k8s_PatchingBackupStarted after_backup"
  shows "backup_inv env inst l"
  using assms(1)
proof (induction rule: patching_run.induct)
  case run_start
  then show ?case using assms(2) by (auto intro: backup_inv_outside)
next
  case run_round
  then show ?case by (auto intro: patching_round_inv)
next
  case run_lost
  then show ?case by (auto intro: backup_inv_extends patching_round_extends)
next
  case (run_edit inst l spec)
  then show ?case by (intro backup_inv_same [OF run_edit.IH]) (simp_all add: same_backup_def)
next
  case (run_other inst l inst' cs)
  then show ?case by (auto intro: backup_inv_outside)
qed

lemma patching_round_destructive:
  assumes R: "patching_round env l inst sp = (inst', l', res, err, done)" and "\<not> harmless l l'"
  shows "ready_reason inst \<in> {k8s_DeploymentSetPatchingComplete, k8s_StatefulSetPatchingFailure, k8s_DatabasePatchingFailure}"
proof -
  have r: "ready_reason inst = Reason c" if "inst_cond inst k8s_Ready = Some c" for c
    using that by (simp add: reason_of_def)
  from R show ?thesis
  proof (cases rule: patching_round_cases)
    case (1 t)
    then show ?thesis
      using assms(2) by (cases rule: patchingStateMachine_cases) (auto simp: r dest: case_harmless)
  qed (use assms(2) in auto)
qed

lemma delete_pvcs_names:
  "delete_pvcs env l n pvcs = (l @ calls, r) \<Longrightarrow> IDeletePVC ns name \<in> set calls \<Longrightarrow>
     \<exists>p \<in> set pvcs. name = pvc_Name p @ ''-'' @ n @ ''-0''"
proof (induction pvcs arbitrary: l calls)
  case (Cons p ps)
  let ?n = "pvc_Name p @ ''-'' @ n @ ''-0''"
  let ?l = "l @ [IGetPVC (pvc_Namespace p) ?n]"
  show ?case
  proof (cases "ie_GetPVC env l (pvc_Namespace p) ?n")
    case (Inl err)
    show ?thesis
    proof (cases "IsNotFound err")
      case True
      with Inl Cons.prems(1) have d: "delete_pvcs env ?l n ps = (l @ calls, r)" by (simp add: Let_def)
      then obtain cs where "l @ calls = ?l @ cs" using extends_delete_pvcs by (fastforce simp: extends_def)
      with d Cons.prems(2) show ?thesis using Cons.IH [of ?l cs] by auto
    qed (use Inl Cons.prems in \<open>auto simp: Let_def\<close>)
  qed (use Cons.prems in \<open>auto simp: Let_def\<close>)
qed simp

lemma deleteOld_names:
  assumes "deleteOldSTSandPVCs env l inst sp = (l @ calls, r)" and "IDeletePVC ns name \<in> set calls"
  shows "\<exists>d \<in> set (sp_Disks sp). name = fst (pvc_and_mount inst (ds_Name d)) @ ''-'' @ sp_StsName sp @ ''-0''"
proof -
  obtain sts pvcs where c: "constructSTSandPVCs env inst sp inst = Inr (sts, pvcs)"
    using assms by (auto simp: deleteOldSTSandPVCs_def split: sum.splits)
  let ?l = "l @ [IGetSTS (sts_Namespace sts) (sts_Name sts)]"
  obtain cs where "delete_pvcs env ?l (sp_StsName sp) pvcs = (?l @ cs, r)" "calls = IGetSTS (sts_Namespace sts) (sts_Name sts) # cs"
    using assms c extends_delete_pvcs by (fastforce simp: deleteOldSTSandPVCs_def Let_def extends_def split: sum.splits if_splits)
  with assms(2) obtain p where p: "p \<in> set pvcs" "name = pvc_Name p @ ''-'' @ sp_StsName sp @ ''-0''"
    using delete_pvcs_names [of env ?l "sp_StsName sp" pvcs cs r ns name] by auto
  have "pvc_Name ` set pvcs = (\<lambda>d. fst (pvc_and_mount inst (ds_Name d))) ` set (sp_Disks sp)"
    using constructSTSandPVCs_fields [OF c] new_pvcs_names [of sp inst "sp_Disks sp" pvcs, THEN arg_cong [where f = set]]
    by (simp add: NewPVCs_def)
  with p show ?thesis by (auto simp: image_iff)
qed

lemma sts_patching_spares_claims:
  "case_deployment_complete env l inst sp = (inst', l @ calls, res, err, done) \<Longrightarrow> IDeletePVC ns name \<notin> set calls"
  by (auto simp: case_deployment_complete_def startStatefulSetPatching_def retrieveStatefulSetByName_def isOracleUpAndRunning_def
      to_state_def waiting_def Let_def split: prod.splits sum.splits if_splits option.splits)

lemma patching_round_claims:
  assumes R: "patching_round env l inst sp = (inst', l @ calls, res, err, done)" and "IDeletePVC ns name \<in> set calls"
  shows "\<exists>d \<in> set (sp_Disks sp). name = fst (pvc_and_mount inst (ds_Name d)) @ ''-'' @ sp_StsName sp @ ''-0''"
proof -
  have touched: "\<not> harmless l (l @ calls)" using assms(2) by fastforce
  from R show ?thesis
  proof (cases rule: patching_round_cases)
    case (1 t)
    then show ?thesis
    proof (cases rule: patchingStateMachine_cases)
      case (failure ready)
      then obtain r where "deleteOldSTSandPVCs env l inst sp = (l @ calls, r)"
        by (auto simp: case_failure_def to_state_def waiting_def split: prod.splits sum.splits if_splits)
      then show ?thesis using assms(2) by (rule deleteOld_names)
    next
      case (deployment_complete ready)
      then show ?thesis using sts_patching_spares_claims assms(2) by blast
    qed (use touched in \<open>auto dest: case_harmless\<close>)
  qed (use assms(2) in auto)
qed

text \<open>The disks of an instance that lists them are all there is: no defaults are added.\<close>

lemma listed_disks: "is_Disks (inst_Spec inst) = Some ds \<Longrightarrow> DiskSpecs (Some inst) config = inst_disks inst"
  by (simp add: DiskSpecs_def inst_disks_def)

text \<open>
  C1: patching an instance that lists its disks destroys nothing it cannot restore. In every run of rounds, lost status
  updates, edits of the specification and activity of the rest of the operator, a round that deletes the stateful set or
  a claim does so only when, before the round began, a snapshot of every disk had been requested under the recorded backup
  id and read back without an error and not as unready; and a claim it deletes is the claim of one of these disks. (The
  code takes no snapshot of a disk that comes from the configuration or from the defaults, and accepts a snapshot whose
  \<open>readyToUse\<close> is absent.)
\<close>

theorem patching_destroys_only_what_is_backed_up:
  assumes "ready_reason inst0 \<notin> insert k8s_PatchingBackupStarted after_backup"
    and "patching_run env inst0 l0 inst l"
    and "is_Disks (inst_Spec inst) = Some ds"
    and "sp_Disks sp = DiskSpecs (Some inst) config" and "sp_StsName sp = GetSTSName (inst_Name inst)"
    and "patching_round env l inst sp = (inst', l @ calls, res, err, done)"
    and "IDeletePVC ns name \<in> set calls \<or> IDeleteSTS ns name \<in> set calls"
  shows "(\<forall>d \<in> set (sp_Disks sp).
            requested env l (disk_snapshot inst (ist_BackupID (inst_Status inst)) d) \<and>
            snapshot_accepted env l (inst_Namespace inst) (snd (disk_snapshot inst (ist_BackupID (inst_Status inst)) d))) \<and>
         (IDeletePVC ns name \<in> set calls \<longrightarrow>
            (\<exists>d \<in> set (sp_Disks sp). name = fst (disk_snapshot inst (ist_BackupID (inst_Status inst)) d)))"
proof -
  have "\<not> harmless l (l @ calls)" using assms(7) by fastforce
  from patching_round_destructive [OF assms(6) this] have "ready_reason inst \<in> after_backup"
    by (auto simp: after_backup_def)
  with patching_run_inv [OF assms(2,1)] have "\<forall>d \<in> set (sp_Disks sp).
      requested env l (disk_snapshot inst (ist_BackupID (inst_Status inst)) d) \<and>
      snapshot_accepted env l (inst_Namespace inst) (snd (disk_snapshot inst (ist_BackupID (inst_Status inst)) d))"
    unfolding assms(4) listed_disks [OF assms(3)] by (auto simp: backup_inv_def all_requested_def all_accepted_def)
  moreover have "\<exists>d \<in> set (sp_Disks sp). name = fst (disk_snapshot inst (ist_BackupID (inst_Status inst)) d)"
    if "IDeletePVC ns name \<in> set calls"
    using patching_round_claims [OF assms(6) that] assms(5) by (simp add: disk_snapshot_def case_prod_unfold)
  ultimately show ?thesis by blast
qed

fun status_call :: "inst_call \<Rightarrow> bool" where
  "status_call (IListSTS ns) = True"
| "status_call (IListPods ns ls) = True"
| "status_call (ICheckStatus n) = True"
| "status_call _ = False"

lemma status_calls_progress:
  "updateProgressCondition env l inst ns op = (inst', l', ok) \<Longrightarrow> \<exists>cs. l' = l @ cs \<and> (\<forall>c \<in> set cs. status_call c)"
  by (auto simp: updateProgressCondition_def statusProgress_def Let_def
      split: prod.splits sum.splits option.splits if_splits)

lemma status_calls_oracle:
  "isOracleUpAndRunning env l inst = (l', r) \<Longrightarrow> \<exists>cs. l' = l @ cs \<and> (\<forall>c \<in> set cs. status_call c)"
  by (auto simp: isOracleUpAndRunning_def)

lemma case_recovery_creates:
  assumes "case_recovery env l inst sp = (inst', l @ calls, res, err, done)"
    and "ICreateOrUpdateSTS sts \<in> set calls"
  shows "\<exists>e. recoverFromPatchingFailure env l inst sp = (l @ [ICreateOrUpdateSTS sts], e)"
proof -
  obtain l1 e where r: "recoverFromPatchingFailure env l inst sp = (l1, e)" by fastforce
  have l1: "l1 = l \<and> e \<noteq> None \<or> (\<exists>s. l1 = l @ [ICreateOrUpdateSTS s])"
    using r by (auto simp: recoverFromPatchingFailure_def restoreSnapshot_def Let_def split: sum.splits)
  have "\<exists>cs. l @ calls = l1 @ cs \<and> (\<forall>c \<in> set cs. status_call c)"
    using assms(1) r
    by (fastforce simp: case_recovery_def isRecoveryFromPatchingFailureComplete_def Let_def
        dest!: status_calls_progress status_calls_oracle split: prod.splits option.splits if_splits sum.splits)
  then obtain cs where cs: "l @ calls = l1 @ cs" "\<forall>c \<in> set cs. status_call c" by blast
  then have "ICreateOrUpdateSTS sts \<notin> set cs" by fastforce
  with cs(1) assms(2) l1 show ?thesis
    using r by (cases "l1 = l") auto
qed

lemma recovery_sts:
  assumes "recoverFromPatchingFailure env l inst sp = (l @ [ICreateOrUpdateSTS sts], e)"
    and "ist_BackupID (inst_Status inst) \<noteq> []" and "pvc \<in> set (sts_VolumeClaimTemplates sts)"
  shows "\<exists>d \<in> set (sp_Disks sp).
     pvc_Name pvc = fst (pvc_and_mount inst (ds_Name d)) \<and>
     pvc_DataSource pvc = Some (snd (disk_snapshot inst (ist_BackupID (inst_Status inst)) d)) \<and>
     map c_Image (filter (\<lambda>c. c_Name c = dbContainerName) (pt_Containers (sts_Template sts))) =
       [map_get (ist_ActiveImages (inst_Status inst)) ''service'']"
proof -
  let ?rs = "buildRestoreSpecUsingSnapshotBackupID (ie_now env l) (ist_BackupID (inst_Status inst))"
  let ?inst = "inst\<lparr>inst_Spec := (inst_Spec inst)\<lparr>is_Restore := Some ?rs\<rparr>\<rparr>"
  let ?sp = "sp\<lparr>sp_Images := CloneMap (ist_ActiveImages (inst_Status inst)), sp_Restore := Some ?rs\<rparr>"
  obtain pvcs where c: "constructSTSandPVCs env ?inst ?sp inst = Inr (sts, pvcs)"
    using assms(1) by (auto simp: recoverFromPatchingFailure_def restoreSnapshot_def Let_def split: sum.splits)
  note f = constructSTSandPVCs_fields [OF c]
  then obtain d sc where d: "d \<in> set (sp_Disks sp)" "pvc = new_pvc ?sp inst d sc"
    using new_pvcs_elem [of ?sp inst "sp_Disks sp" pvcs pvc] assms(3) by (auto simp: NewPVCs_def)
  have "map_get (CloneMap m) k = map_get m k" for m k
    by (simp add: map_get_def CloneMap_def split: option.splits)
  with f have "map c_Image (filter (\<lambda>c. c_Name c = dbContainerName) (pt_Containers (sts_Template sts))) =
       [map_get (ist_ActiveImages (inst_Status inst)) ''service'']"
    by (simp add: NewPodTemplate_def Let_def db_container_def dbdaemon_container_def log_sidecar_def
        GetPVCNameAndMount_DataDisk)
  with d assms(2) show ?thesis
    by (intro bexI [of _ d])
      (auto simp: new_pvc_def disk_snapshot_def buildRestoreSpecUsingSnapshotBackupID_def split: prod.splits)
qed

text \<open>
  C14: recovery restores the backup of an instance that lists its disks. In every run, when a round in the state
  \<open>PatchingRecoveryInProgress\<close> recreates the stateful set, each claim of it is made from the snapshot of its own disk under
  the recorded backup id, that snapshot had been read back without an error and not as unready, and the database container
  runs the image that was active before patching began.
\<close>

theorem patching_recovery_restores_the_backup:
  assumes "ready_reason inst0 \<notin> insert k8s_PatchingBackupStarted after_backup"
    and "patching_run env inst0 l0 inst l"
    and "ready_reason inst = k8s_PatchingRecoveryInProgress"
    and "is_Disks (inst_Spec inst) = Some ds" and "sp_Disks sp = DiskSpecs (Some inst) config"
    and "patching_round env l inst sp = (inst', l @ calls, res, err, done)"
    and "ICreateOrUpdateSTS sts \<in> set calls"
    and "pvc \<in> set (sts_VolumeClaimTemplates sts)"
  shows "\<exists>d \<in> set (sp_Disks sp). \<exists>snap.
           disk_snapshot inst (ist_BackupID (inst_Status inst)) d =
             (pvc_Name pvc @ ''-'' @ GetSTSName (inst_Name inst) @ ''-0'', snap) \<and>
           pvc_DataSource pvc = Some snap \<and> snapshot_accepted env l (inst_Namespace inst) snap \<and>
           map c_Image (filter (\<lambda>c. c_Name c = dbContainerName) (pt_Containers (sts_Template sts))) =
             [map_get (ist_ActiveImages (inst_Status inst)) ''service'']"
proof -
  have inv: "ist_BackupID (inst_Status inst) \<noteq> []" "all_accepted env l inst"
    using patching_run_inv [OF assms(2,1)] assms(3)
    by (auto simp: backup_inv_def all_requested_def after_backup_def)
  obtain t where "patchingStateMachine env l (inst_cond inst k8s_Ready) (inst_cond inst k8s_DatabaseInstanceReady)
      inst sp t = (inst', l @ calls, res, err, done)"
    using assms(6,7) by (cases rule: patching_round_cases) auto
  then have "case_recovery env l inst sp = (inst', l @ calls, res, err, done)"
    using assms(3,7) by (cases rule: patchingStateMachine_cases)
      (auto simp: reason_of_def patching_entries_def patching_next_def)
  from case_recovery_creates [OF this assms(7)] obtain e where
    "recoverFromPatchingFailure env l inst sp = (l @ [ICreateOrUpdateSTS sts], e)" by blast
  from recovery_sts [OF this inv(1) assms(8)] obtain d where d: "d \<in> set (sp_Disks sp)"
    "pvc_Name pvc = fst (pvc_and_mount inst (ds_Name d))"
    "pvc_DataSource pvc = Some (snd (disk_snapshot inst (ist_BackupID (inst_Status inst)) d))"
    "map c_Image (filter (\<lambda>c. c_Name c = dbContainerName) (pt_Containers (sts_Template sts))) =
       [map_get (ist_ActiveImages (inst_Status inst)) ''service'']"
    by (elim bexE conjE) (rule that)
  let ?snap = "snd (disk_snapshot inst (ist_BackupID (inst_Status inst)) d)"
  have "disk_snapshot inst (ist_BackupID (inst_Status inst)) d =
      (pvc_Name pvc @ ''-'' @ GetSTSName (inst_Name inst) @ ''-0'', ?snap)"
    unfolding d(2) disk_snapshot_def by (simp split: prod.splits)
  moreover have "snapshot_accepted env l (inst_Namespace inst) ?snap"
    using inv(2) d(1) unfolding all_accepted_def assms(5) listed_disks [OF assms(4)] by blast
  ultimately show ?thesis
    using d(3,4) by (intro bexI [OF _ d(1)] exI [of _ ?snap] conjI)
qed

end
