(* ===== verification/PatchingRun.thy ===== *)
theory PatchingRun
  imports Patching
begin

text \<open>
  Whole runs of the patching state machine: with calls that succeed, patching ends with the new images
  active; and the concrete runs behind the witnesses of the theory \<open>Patching\<close>.
\<close>

subsection \<open>Rounds that succeed\<close>

text \<open>The machine is under way in the state \<open>r\<close>, entered at time \<open>T\<close>.\<close>

definition under_way :: "string \<Rightarrow> go_time \<Rightarrow> Instance \<Rightarrow> bool" where
  "under_way r T inst \<longleftrightarrow>
     (\<exists>c. inst_cond inst k8s_Ready = Some c \<and> Reason c = r \<and> LastTransitionTime c = T) \<and>
     inst_cond inst k8s_DatabaseInstanceReady \<noteq> None \<and>
     ist_CurrentActiveStateMachine (inst_Status inst) = PatchingStateMachine"

text \<open>What the machine does not touch on the way.\<close>

definition same_work :: "Instance \<Rightarrow> Instance \<Rightarrow> bool" where
  "same_work inst inst' \<longleftrightarrow>
     inst_Spec inst' = inst_Spec inst \<and> inst_Name inst' = inst_Name inst \<and>
     inst_Namespace inst' = inst_Namespace inst \<and>
     ist_ActiveImages (inst_Status inst') = ist_ActiveImages (inst_Status inst)"

text \<open>The calls succeed: the snapshots are taken and ready, the monitoring deployment and the database are
  up, and no time passes; for \<open>cooperative\<close>, the stateful set comes up and the data patch runs without
  an error, too.\<close>

definition prepared :: "inst_env \<Rightarrow> go_time \<Rightarrow> bool" where
  "prepared env T \<longleftrightarrow>
     (\<forall>l. ie_now env l = T) \<and>
     (\<forall>i n. ie_SetControllerReference env i n = None) \<and>
     (\<forall>l p s v. ie_ApplySnapshot env l p s v = None) \<and>
     (\<forall>l ns s. ie_GetSnapshot env l ns s = Inr (Some \<lparr>snap_Error = None, snap_ReadyToUse = Some True\<rparr>)) \<and>
     (\<forall>l i m. ie_ReconcileMonitoring env l i m = (Result_zero, None)) \<and>
     (\<forall>l i. ie_CheckStatus env l i = Inr ''Ready'')"

definition cooperative :: "inst_env \<Rightarrow> go_time \<Rightarrow> Instance \<Rightarrow> StsParams \<Rightarrow> bool" where
  "cooperative env T inst0 sp \<longleftrightarrow>
     prepared env T \<and>
     (\<forall>l ns n. \<exists>sts. ie_GetSTS env l ns n = Inr sts) \<and>
     (\<forall>l ns n. ie_DeleteSTS env l ns n = None) \<and>
     (\<forall>l s. ie_ApplySTS env l s = None) \<and>
     (\<forall>l. \<exists>l'. statusProgress env l (inst_Namespace inst0) (GetSTSName (inst_Name inst0)) = (l', 100, None)) \<and>
     (\<forall>l i. ie_ApplyDataPatch env l i = None) \<and>
     (\<forall>l i. ie_GetLRO env l i = Inr \<lparr>op_Name = i, op_Done = True, op_Result = ResponseResult []\<rparr>) \<and>
     (\<forall>l i. ie_DeleteLRO env l i = None) \<and>
     (\<forall>i. \<exists>pvcs. NewPVCs sp i = Inr pvcs)"

fun patching_rounds :: "inst_env \<Rightarrow> StsParams \<Rightarrow> nat \<Rightarrow> Instance \<Rightarrow> inst_log \<Rightarrow> Instance \<times> inst_log" where
  "patching_rounds env sp 0 inst l = (inst, l)"
| "patching_rounds env sp (Suc n) inst l =
     (case patching_round env l inst sp of (inst', l', _) \<Rightarrow> patching_rounds env sp n inst' l')"

lemma under_way_upsert:
  assumes "under_way r T inst" and "ie_now env l = T"
  shows "under_way r' T (upsert env l inst k8s_Ready st r' m)"
proof -
  obtain c where "inst_cond inst k8s_Ready = Some c" "LastTransitionTime c = T"
    using assms by (auto simp: under_way_def)
  then show ?thesis
    using assms
    by (auto simp: under_way_def upsert_def InstanceUpsertCondition_def FindCondition_Upsert upserted_def
        set_condition_time)
qed

lemma under_way_set_condition:
  assumes "inst_cond inst k8s_Ready = Some c" and "Reason c \<noteq> r" and "ie_now env l = T"
    and "inst_cond inst k8s_DatabaseInstanceReady \<noteq> None"
    and "ist_CurrentActiveStateMachine (inst_Status inst) = PatchingStateMachine"
  shows "under_way r T (upsert env l inst k8s_Ready st r m)"
  using assms
  by (auto simp: under_way_def upsert_def InstanceUpsertCondition_def FindCondition_Upsert upserted_def
      set_condition_time)

lemma same_work_refl [simp]: "same_work inst inst"
  by (simp add: same_work_def)

lemma same_work_trans: "same_work a b \<Longrightarrow> same_work b c \<Longrightarrow> same_work a c"
  by (simp add: same_work_def)

lemma same_work_upsert [simp]: "same_work inst (upsert env l inst' n st r m) = same_work inst inst'"
  by (simp add: same_work_def)

lemma round_under_way:
  assumes "under_way r T inst"
  obtains c d t where "inst_cond inst k8s_Ready = Some c" "Reason c = r" "LastTransitionTime c = T"
    and "patching_round env l inst sp = patchingStateMachine env l (Some c) (Some d) inst sp t"
    and "t = (case is_DatabasePatchingTimeout (inst_Spec inst) of None \<Rightarrow> 25 * Minute | Some d \<Rightarrow> d)"
  using assms that by (auto simp: under_way_def patching_round_def Let_def)

lemma elapsed_zero: "ElapsedTimeFromLastTransitionTime T (Some c) = 0" if "LastTransitionTime c = T"
  using that by (simp add: ElapsedTimeFromLastTransitionTime_def time_Sub_def round_Second_def)

text \<open>One round from \<open>r\<close> to \<open>r'\<close> with everything else as it was.\<close>

definition round_to :: "inst_env \<Rightarrow> StsParams \<Rightarrow> go_time \<Rightarrow> string \<Rightarrow> Instance \<Rightarrow> inst_log \<Rightarrow> bool" where
  "round_to env sp T r' inst l \<longleftrightarrow>
     (\<exists>inst' l'. patching_round env l inst sp = (inst', l', requeue_now, None, True) \<and>
                 under_way r' T inst' \<and> same_work inst inst')"

lemma snapshots_completed_ok:
  assumes "\<And>i n. ie_SetControllerReference env i n = None"
    and "\<And>l ns s. ie_GetSnapshot env l ns s = Inr (Some \<lparr>snap_Error = None, snap_ReadyToUse = Some True\<rparr>)"
  shows "\<exists>l'. snapshots_completed env l inst b ds = (l', True, None)"
  by (induction ds arbitrary: l) (auto simp: assms Let_def)

lemma snapshot_disks_ok:
  assumes "\<And>i n. ie_SetControllerReference env i n = None" and "\<And>l p s v. ie_ApplySnapshot env l p s v = None"
  shows "\<exists>l'. snapshot_disks env l inst b ds = (l', None)"
  by (induction ds arbitrary: l) (auto simp: assms Let_def split: prod.splits)

lemma round_backup_started:
  assumes "prepared env T" and "under_way k8s_PatchingBackupStarted T inst"
  shows "round_to env sp T k8s_DeploymentSetPatchingInProgress inst l"
proof -
  have now: "ie_now env l' = T" for l' using assms(1) by (simp add: prepared_def)
  obtain c d t where c: "Reason c = k8s_PatchingBackupStarted"
    and r: "patching_round env l inst sp = patchingStateMachine env l (Some c) (Some d) inst sp t"
    using round_under_way [OF assms(2)] by metis
  obtain l' where "isPatchingBackupCompleted env l inst = (l', True, None)"
    using snapshots_completed_ok assms(1) unfolding prepared_def isPatchingBackupCompleted_def by metis
  with r c show ?thesis
    unfolding round_to_def
    by (simp add: patchingStateMachine_def case_backup_started_def to_state_def under_way_upsert [OF assms(2) now])
qed

lemma round_deployment:
  assumes "prepared env T" and "under_way k8s_DeploymentSetPatchingInProgress T inst"
  shows "round_to env sp T k8s_DeploymentSetPatchingComplete inst l"
proof -
  have now: "ie_now env l' = T" for l' using assms(1) by (simp add: prepared_def)
  obtain c d t where c: "Reason c = k8s_DeploymentSetPatchingInProgress" "LastTransitionTime c = T"
    and r: "patching_round env l inst sp = patchingStateMachine env l (Some c) (Some d) inst sp t"
    using round_under_way [OF assms(2)] by metis
  have "ie_ReconcileMonitoring env l inst (sp_Images sp) = (Result_zero, None)"
    using assms(1) by (simp add: prepared_def)
  with r c show ?thesis
    unfolding round_to_def
    by (simp add: patchingStateMachine_def case_deployment_def to_state_def now elapsed_zero Let_def
        under_way_upsert [OF assms(2) now])
qed

lemma cooperative_prepared: "cooperative env T inst0 sp \<Longrightarrow> prepared env T"
  by (simp add: cooperative_def)

lemma oracle_running:
  "prepared env T \<Longrightarrow> isOracleUpAndRunning env l inst = (l @ [ICheckStatus (inst_Name inst)], Inr True)"
  by (simp add: prepared_def isOracleUpAndRunning_def)

lemma start_sts_ok:
  assumes "cooperative env T inst0 sp" and "under_way r T inst"
  shows "\<exists>inst' sts ns n. startStatefulSetPatching env l inst sp =
           (inst', l @ [IGetSTS (inst_Namespace inst) (sp_StsName sp), IDeleteSTS ns n, IApplySTS sts], None) \<and>
         under_way k8s_StatefulSetPatchingInProgress T inst' \<and> same_work inst inst'"
proof -
  have now: "ie_now env l' = T" for l' using assms(1) by (simp add: cooperative_def prepared_def)
  obtain pvcs where "NewPVCs sp inst = Inr pvcs" using assms(1) unfolding cooperative_def by metis
  then obtain sts pvcs where c: "constructSTSandPVCs env inst sp inst = Inr (sts, pvcs)"
    using assms(1) by (auto simp: cooperative_def prepared_def constructSTSandPVCs_def NewSts_def)
  obtain old where "ie_GetSTS env l (inst_Namespace inst) (sp_StsName sp) = Inr old"
    using assms(1) unfolding cooperative_def by metis
  with c show ?thesis
    using assms(1) under_way_upsert [OF assms(2) now]
    by (auto simp: cooperative_def startStatefulSetPatching_def retrieveStatefulSetByName_def Let_def)
qed

lemma round_deployment_complete:
  assumes "cooperative env T inst0 sp" and "under_way k8s_DeploymentSetPatchingComplete T inst"
  shows "round_to env sp T
    (if isStatefulSetPatchingRequired (ist_ActiveImages (inst_Status inst)) (is_Images (inst_Spec inst))
     then k8s_StatefulSetPatchingInProgress else k8s_StatefulSetPatchingComplete) inst l"
proof -
  have now: "ie_now env l' = T" for l' using assms(1) by (simp add: cooperative_def prepared_def)
  obtain c d t where c: "Reason c = k8s_DeploymentSetPatchingComplete"
    and r: "patching_round env l inst sp = patchingStateMachine env l (Some c) (Some d) inst sp t"
    using round_under_way [OF assms(2)] by metis
  let ?l = "l @ [ICheckStatus (inst_Name inst)]"
  obtain inst1 l1 where s: "startStatefulSetPatching env ?l inst sp = (inst1, l1, None)"
    "under_way k8s_StatefulSetPatchingInProgress T inst1" "same_work inst inst1"
    using start_sts_ok [OF assms, of ?l] by blast
  show ?thesis
    unfolding round_to_def r
    using c oracle_running [OF cooperative_prepared [OF assms(1)]] s under_way_upsert [OF s(2) now] under_way_upsert [OF assms(2) now]
    by (simp add: patchingStateMachine_def case_deployment_complete_def to_state_def)
qed

lemma round_sts_patching:
  assumes "cooperative env T inst0 sp" and "same_work inst0 inst"
    and "under_way k8s_StatefulSetPatchingInProgress T inst"
    and "0 \<le> (case is_DatabasePatchingTimeout (inst_Spec inst) of None \<Rightarrow> 25 * Minute | Some d \<Rightarrow> d)"
  shows "round_to env sp T k8s_StatefulSetPatchingComplete inst l"
proof -
  have now: "ie_now env l' = T" for l' using assms(1) by (simp add: cooperative_def prepared_def)
  obtain c d t where c: "inst_cond inst k8s_Ready = Some c" "Reason c = k8s_StatefulSetPatchingInProgress" "LastTransitionTime c = T"
    and r: "patching_round env l inst sp = patchingStateMachine env l (Some c) (Some d) inst sp t"
    and t: "t = (case is_DatabasePatchingTimeout (inst_Spec inst) of None \<Rightarrow> 25 * Minute | Some d \<Rightarrow> d)"
    using round_under_way [OF assms(3)] by metis
  obtain l1 where "statusProgress env l (inst_Namespace inst) (GetSTSName (inst_Name inst)) = (l1, 100, None)"
    using assms(1,2) unfolding cooperative_def same_work_def by metis
  then obtain m where u: "updateProgressCondition env l inst (inst_Namespace inst) k8s_StatefulSetPatchingInProgress =
      (upsert env l1 inst (Type c) (Status c) (Reason c) m, l1, True)"
    by (auto simp: updateProgressCondition_def c)
  have "Type c = k8s_Ready" using c(1) by (rule FindCondition_Type)
  with c u r have "patching_round env l inst sp =
     (upsert env l1 (upsert env l1 inst k8s_Ready (Status c) k8s_StatefulSetPatchingInProgress m) k8s_Ready ConditionFalse
        k8s_StatefulSetPatchingComplete [], l1, requeue_now, None, True)"
    using assms(4) t by (simp add: patchingStateMachine_def case_sts_patching_def to_state_def now elapsed_zero Let_def)
  then show ?thesis
    unfolding round_to_def
    using under_way_upsert [OF under_way_upsert [OF assms(3) now] now] by simp
qed

lemma round_sts_complete:
  assumes "cooperative env T inst0 sp" and "under_way k8s_StatefulSetPatchingComplete T inst"
  shows "round_to env sp T k8s_DatabasePatchingInProgress inst l"
proof -
  have now: "ie_now env l' = T" for l' using assms(1) by (simp add: cooperative_def prepared_def)
  have patch: "ie_ApplyDataPatch env l' i = None" for l' i using assms(1) by (simp add: cooperative_def prepared_def)
  obtain c d t where c: "Reason c = k8s_StatefulSetPatchingComplete"
    and r: "patching_round env l inst sp = patchingStateMachine env l (Some c) (Some d) inst sp t"
    using round_under_way [OF assms(2)] by metis
  show ?thesis
    unfolding round_to_def r
    using c oracle_running [OF cooperative_prepared [OF assms(1)]] under_way_upsert [OF assms(2) now]
    by (simp add: patchingStateMachine_def case_sts_complete_def startDatabasePatching_def patch to_state_def Let_def)
qed

lemma round_db_patching:
  assumes "cooperative env T inst0 sp" and "under_way k8s_DatabasePatchingInProgress T inst"
    and "0 \<le> (case is_DatabasePatchingTimeout (inst_Spec inst) of None \<Rightarrow> 25 * Minute | Some d \<Rightarrow> d)"
  shows "round_to env sp T k8s_DatabasePatchingComplete inst l"
proof -
  have now: "ie_now env l' = T" for l' using assms(1) by (simp add: cooperative_def prepared_def)
  obtain c d t where c: "Reason c = k8s_DatabasePatchingInProgress" "LastTransitionTime c = T"
    and r: "patching_round env l inst sp = patchingStateMachine env l (Some c) (Some d) inst sp t"
    and t: "t = (case is_DatabasePatchingTimeout (inst_Spec inst) of None \<Rightarrow> 25 * Minute | Some d \<Rightarrow> d)"
    using round_under_way [OF assms(2)] by metis
  have "isDatabasePatchingDone env l inst =
      (l @ [IGetLRO (lroPatchingOperationID inst), IDeleteLRO (lroPatchingOperationID inst)], True, None)"
    using assms(1) by (simp add: cooperative_def isDatabasePatchingDone_def op_error_def Let_def)
  then show ?thesis
    unfolding round_to_def r
    using c assms(3) t under_way_upsert [OF assms(2) now]
    by (simp add: patchingStateMachine_def case_db_patching_def to_state_def now elapsed_zero Let_def)
qed

lemma round_entry:
  assumes "prepared env T" and "inst_cond inst k8s_Ready = Some c" and "Reason c = k8s_CreateComplete"
    and "inst_cond inst k8s_DatabaseInstanceReady = Some d"
    and "IsPatchingStateMachineEntryCondition (is_Services (inst_Spec inst)) (ist_ActiveImages (inst_Status inst))
           (sp_Images sp) (ist_LastFailedImages (inst_Status inst)) (Some c) (Some d)"
  shows "round_to env sp T k8s_PatchingBackupStarted inst l"
proof -
  have now: "ie_now env l' = T" for l' using assms(1) by (simp add: prepared_def)
  let ?b = "patching_backup_id (set_active PatchingStateMachine inst) T"
  let ?i = "(set_active PatchingStateMachine inst)
    \<lparr>inst_Status := (inst_Status (set_active PatchingStateMachine inst))\<lparr>ist_BackupID := ?b\<rparr>\<rparr>"
  obtain l' where s: "startPatchingBackup env l (set_active PatchingStateMachine inst) =
      (?i, l', requeue_in (30 * Second), None)"
    using snapshot_disks_ok [of env l "set_active PatchingStateMachine inst" ?b
        "inst_disks (set_active PatchingStateMachine inst)"] assms(1) now
    by (auto simp: prepared_def startPatchingBackup_def prePatchBackup_def Let_def)
  have fields: "inst_cond ?i k8s_Ready = Some c" "inst_cond ?i k8s_DatabaseInstanceReady = Some d"
    "ist_CurrentActiveStateMachine (inst_Status ?i) = PatchingStateMachine" "same_work inst ?i"
    using assms by (simp_all add: set_active_def same_work_def)
  have "under_way k8s_PatchingBackupStarted T
      (upsert env l' ?i k8s_Ready ConditionFalse k8s_PatchingBackupStarted ''Patching Backup Started'')"
    by (rule under_way_set_condition [of _ c]) (use fields assms(3) now in auto)
  moreover have "patching_round env l inst sp =
      (upsert env l' ?i k8s_Ready ConditionFalse k8s_PatchingBackupStarted ''Patching Backup Started'', l',
       requeue_now, None, True)"
    using assms s by (simp add: patching_round_def patchingStateMachine_def case_entry_def to_state_def Let_def)
  ultimately show ?thesis unfolding round_to_def using fields(4) by simp
qed

lemma round_db_complete:
  assumes "under_way k8s_DatabasePatchingComplete T inst"
  shows "\<exists>inst'. patching_round env l inst sp = (inst', l, Result_zero, None, True) \<and>
    ConditionStatusEquals (inst_cond inst' k8s_Ready) ConditionTrue \<and> ready_reason inst' = k8s_CreateComplete \<and>
    ist_ActiveImages (inst_Status inst') = CloneMap (sp_Images sp) \<and>
    ist_CurrentActiveStateMachine (inst_Status inst') = [] \<and> inst_Spec inst' = inst_Spec inst"
proof -
  obtain c d t where c: "Reason c = k8s_DatabasePatchingComplete"
    and r: "patching_round env l inst sp = patchingStateMachine env l (Some c) (Some d) inst sp t"
    using round_under_way [OF assms] by metis
  show ?thesis
    using c unfolding r
    by (simp add: patchingStateMachine_def case_db_complete_def set_active_def Let_def)
qed

lemma rounds_step:
  assumes "round_to env sp T r inst l"
    and "\<And>inst' l'. under_way r T inst' \<Longrightarrow> same_work inst inst' \<Longrightarrow> \<exists>m \<le> n. Q (patching_rounds env sp m inst' l')"
  shows "\<exists>m \<le> Suc n. Q (patching_rounds env sp m inst l)"
proof -
  obtain inst' l' where r: "patching_round env l inst sp = (inst', l', requeue_now, None, True)"
    "under_way r T inst'" "same_work inst inst'"
    using assms(1) by (auto simp: round_to_def)
  obtain m where "m \<le> n" "Q (patching_rounds env sp m inst' l')" using assms(2) [OF r(2,3)] by blast
  then show ?thesis using r(1) by (intro exI [of _ "Suc m"]) simp
qed

definition patched :: "Instance \<Rightarrow> StsParams \<Rightarrow> Instance \<times> inst_log \<Rightarrow> bool" where
  "patched inst sp w \<longleftrightarrow>
     ConditionStatusEquals (inst_cond (fst w) k8s_Ready) ConditionTrue \<and> ready_reason (fst w) = k8s_CreateComplete \<and>
     ist_ActiveImages (inst_Status (fst w)) = CloneMap (sp_Images sp) \<and>
     ist_CurrentActiveStateMachine (inst_Status (fst w)) = [] \<and> inst_Spec (fst w) = inst_Spec inst"

text \<open>From the completed stateful set, three more rounds finish.\<close>

lemma finish_patching:
  assumes co: "cooperative env T inst0 sp"
    and t: "0 \<le> (case is_DatabasePatchingTimeout (inst_Spec inst0) of None \<Rightarrow> 25 * Minute | Some d \<Rightarrow> d)"
    and "under_way k8s_StatefulSetPatchingComplete T inst" and w: "same_work inst0 inst"
  shows "\<exists>m \<le> 3. patched inst0 sp (patching_rounds env sp m inst l)"
proof -
  have "\<exists>m \<le> Suc (Suc (Suc 0)). patched inst0 sp (patching_rounds env sp m inst l)"
  proof (rule rounds_step [OF round_sts_complete [OF co assms(3)]])
    fix i1 l1 assume i1: "under_way k8s_DatabasePatchingInProgress T i1" "same_work inst i1"
    then have spec: "inst_Spec i1 = inst_Spec inst0" using w by (simp add: same_work_def)
    show "\<exists>m \<le> Suc (Suc 0). patched inst0 sp (patching_rounds env sp m i1 l1)"
    proof (rule rounds_step [OF round_db_patching [OF co i1(1)]])
      show "0 \<le> (case is_DatabasePatchingTimeout (inst_Spec i1) of None \<Rightarrow> 25 * Minute | Some d \<Rightarrow> d)"
        using t spec by simp
    next
      fix i2 l2 assume i2: "under_way k8s_DatabasePatchingComplete T i2" "same_work i1 i2"
      obtain i3 where "patching_round env l2 i2 sp = (i3, l2, Result_zero, None, True)"
        "patched i2 sp (i3, l2)"
        using round_db_complete [OF i2(1), of env l2 sp] by (auto simp: patched_def)
      then show "\<exists>m \<le> Suc 0. patched inst0 sp (patching_rounds env sp m i2 l2)"
        using i2(2) spec by (intro exI [of _ "Suc 0"]) (auto simp: patched_def same_work_def)
    qed
  qed
  then show ?thesis by (simp add: numeral_eq_Suc)
qed

text \<open>
  C3: patching gets done. If patching is wanted for an instance that is ready, and the calls to the API
  server and the database daemon succeed, then after at most eight reconciles the instance is ready
  again in the state \<open>CreateComplete\<close>, the requested images are recorded as active, no state machine
  is active and the specification is untouched.
\<close>

theorem patching_completes:
  assumes "cooperative env T inst sp"
    and "0 \<le> (case is_DatabasePatchingTimeout (inst_Spec inst) of None \<Rightarrow> 25 * Minute | Some d \<Rightarrow> d)"
    and "inst_cond inst k8s_Ready = Some c" and "Reason c = k8s_CreateComplete"
    and "inst_cond inst k8s_DatabaseInstanceReady = Some d"
    and "IsPatchingStateMachineEntryCondition (is_Services (inst_Spec inst)) (ist_ActiveImages (inst_Status inst))
           (sp_Images sp) (ist_LastFailedImages (inst_Status inst)) (Some c) (Some d)"
  shows "\<exists>n \<le> 8. patched inst sp (patching_rounds env sp n inst l)"
proof -
  note co = assms(1) and t = assms(2) and prep = cooperative_prepared [OF assms(1)]
  have "\<exists>n \<le> Suc (Suc (Suc (Suc 4))). patched inst sp (patching_rounds env sp n inst l)"
  proof (rule rounds_step [OF round_entry [OF prep assms(3-)]])
    fix i1 l1 assume i1: "under_way k8s_PatchingBackupStarted T i1" "same_work inst i1"
    show "\<exists>n \<le> Suc (Suc (Suc 4)). patched inst sp (patching_rounds env sp n i1 l1)"
    proof (rule rounds_step [OF round_backup_started [OF prep i1(1)]])
      fix i2 l2 assume i2: "under_way k8s_DeploymentSetPatchingInProgress T i2" "same_work i1 i2"
      show "\<exists>n \<le> Suc (Suc 4). patched inst sp (patching_rounds env sp n i2 l2)"
      proof (rule rounds_step [OF round_deployment [OF prep i2(1)]])
        fix i3 l3 assume i3: "under_way k8s_DeploymentSetPatchingComplete T i3" "same_work i2 i3"
        then have w3: "same_work inst i3" using i1 i2 same_work_trans by blast
        show "\<exists>n \<le> Suc 4. patched inst sp (patching_rounds env sp n i3 l3)"
        proof (rule rounds_step [OF round_deployment_complete [OF co i3(1)]])
          fix i4 l4
          assume i4: "under_way (if isStatefulSetPatchingRequired (ist_ActiveImages (inst_Status i3)) (is_Images (inst_Spec i3))
              then k8s_StatefulSetPatchingInProgress else k8s_StatefulSetPatchingComplete) T i4" "same_work i3 i4"
          then have w4: "same_work inst i4" using w3 same_work_trans by blast
          have "\<exists>n \<le> Suc 3. patched inst sp (patching_rounds env sp n i4 l4)"
          proof (cases "under_way k8s_StatefulSetPatchingComplete T i4")
            case True
            then show ?thesis using finish_patching [OF co t True w4, of l4] le_Suc_eq by blast
          next
            case False
            with i4(1) have "under_way k8s_StatefulSetPatchingInProgress T i4" by (simp split: if_splits)
            moreover have "inst_Spec i4 = inst_Spec inst" using w4 by (simp add: same_work_def)
            ultimately show ?thesis
              using t by (intro rounds_step [OF round_sts_patching [OF co w4]])
                (auto intro: finish_patching [OF co t] same_work_trans [OF w4])
          qed
          then show "\<exists>n \<le> 4. patched inst sp (patching_rounds env sp n i4 l4)" by simp
        qed
      qed
    qed
  qed
  then show ?thesis by simp
qed

subsection \<open>Timeouts\<close>

text \<open>How long a state may last and where it goes afterwards.\<close>

definition patching_deadline :: "duration \<Rightarrow> string \<Rightarrow> (duration \<times> string) option" where
  "patching_deadline t r =
     (if r = k8s_DeploymentSetPatchingInProgress
      then Some (deploymentPatchingTimeout, k8s_DeploymentSetPatchingRollbackInProgress)
      else if r = k8s_DeploymentSetPatchingRollbackInProgress
      then Some (deploymentPatchingTimeout, k8s_PatchingRecoveryFailure)
      else if r = k8s_StatefulSetPatchingInProgress then Some (t, k8s_StatefulSetPatchingFailure)
      else if r = k8s_DatabasePatchingInProgress then Some (t, k8s_DatabasePatchingFailure)
      else None)"

text \<open>
  C17: no stage of patching lasts for ever. Whatever the calls answer, a round that finds the deployment,
  its rollback, the stateful set or the database patching in progress for longer than its limit moves
  to that stage's failure state and returns an error.
\<close>

theorem patching_times_out:
  assumes "patching_deadline t (Reason c) = Some (limit, r')"
    and "ElapsedTimeFromLastTransitionTime (ie_now env l) (Some c) > limit"
    and "patchingStateMachine env l (Some c) (Some d) inst sp t = (inst', l', res, err, done)"
  shows "ready_reason inst' = r' \<and> ConditionStatusEquals (inst_cond inst' k8s_Ready) ConditionFalse \<and>
         err \<noteq> None \<and> done"
  using assms
  by (auto simp: patching_deadline_def patchingStateMachine_def case_deployment_def case_deployment_rollback_def
      case_sts_patching_def case_db_patching_def Let_def split: if_splits)

subsection \<open>Retrying failed images\<close>

lemma round_rollback:
  assumes "prepared env T" and "under_way k8s_DeploymentSetPatchingRollbackInProgress T inst"
  shows "round_to env sp T k8s_PatchingRecoveryCompleted inst l \<and>
    ist_LastFailedImages (inst_Status (fst (patching_round env l inst sp))) = ist_LastFailedImages (inst_Status inst)"
proof -
  have now: "ie_now env l' = T" for l' using assms(1) by (simp add: prepared_def)
  obtain c d t where c: "Reason c = k8s_DeploymentSetPatchingRollbackInProgress" "LastTransitionTime c = T"
    and r: "patching_round env l inst sp = patchingStateMachine env l (Some c) (Some d) inst sp t"
    using round_under_way [OF assms(2)] by metis
  have "ie_ReconcileMonitoring env l inst m = (Result_zero, None)" for m
    using assms(1) by (simp add: prepared_def)
  with c show ?thesis
    unfolding round_to_def r
    by (simp add: patchingStateMachine_def case_deployment_rollback_def to_state_def now elapsed_zero Let_def
        under_way_upsert [OF assms(2) now])
qed

lemma round_entry_again:
  assumes "prepared env T" and "under_way k8s_PatchingRecoveryCompleted T inst"
    and "is_Images (inst_Spec inst) \<noteq> ist_LastFailedImages (inst_Status inst)"
  shows "round_to env sp T k8s_PatchingBackupStarted inst l"
proof -
  have now: "ie_now env l' = T" for l' using assms(1) by (simp add: prepared_def)
  obtain c d t where c: "inst_cond inst k8s_Ready = Some c" "Reason c = k8s_PatchingRecoveryCompleted" "LastTransitionTime c = T"
    and r: "patching_round env l inst sp = patchingStateMachine env l (Some c) (Some d) inst sp t"
    using round_under_way [OF assms(2)] by metis
  let ?a = "set_active PatchingStateMachine inst"
  let ?b = "patching_backup_id ?a T"
  let ?i = "?a\<lparr>inst_Status := (inst_Status ?a)\<lparr>ist_BackupID := ?b\<rparr>\<rparr>"
  obtain l' where s: "startPatchingBackup env l ?a = (?i, l', requeue_in (30 * Second), None)"
    using snapshot_disks_ok [of env l ?a ?b "inst_disks ?a"] assms(1) now
    by (auto simp: prepared_def startPatchingBackup_def prePatchBackup_def Let_def)
  have "under_way k8s_PatchingRecoveryCompleted T ?i" "same_work inst ?i"
    using assms(2) by (simp_all add: under_way_def set_active_def same_work_def)
  then show ?thesis
    unfolding round_to_def r using s c assms(3) under_way_upsert [OF _ now]
    by (simp add: patchingStateMachine_def case_entry_def to_state_def)
qed

text \<open>
  Images whose deployment failed are tried again without end. When the rollback of the monitoring
  deployment succeeds, the machine goes to \<open>PatchingRecoveryCompleted\<close> without recording the images as
  failed and stays active, so the next round starts over with a backup for the same images; the check
  against \<open>LastFailedImages\<close>, which is there to stop this loop, does not apply.
\<close>

theorem patching_rollback_retries:
  assumes "prepared env T" and "under_way k8s_DeploymentSetPatchingRollbackInProgress T inst"
    and "is_Images (inst_Spec inst) \<noteq> ist_LastFailedImages (inst_Status inst)"
  shows "under_way k8s_PatchingBackupStarted T (fst (patching_rounds env sp 2 inst l)) \<and>
         same_work inst (fst (patching_rounds env sp 2 inst l))"
proof -
  obtain i1 l1 where r1: "patching_round env l inst sp = (i1, l1, requeue_now, None, True)"
    "under_way k8s_PatchingRecoveryCompleted T i1" "same_work inst i1"
    and f: "ist_LastFailedImages (inst_Status i1) = ist_LastFailedImages (inst_Status inst)"
    using round_rollback [OF assms(1,2), of sp l] by (auto simp: round_to_def)
  have "is_Images (inst_Spec i1) \<noteq> ist_LastFailedImages (inst_Status i1)"
    using f r1(3) assms(3) by (simp add: same_work_def)
  from round_entry_again [OF assms(1) r1(2) this, of sp l1] obtain i2 l2 where
    r2: "patching_round env l1 i1 sp = (i2, l2, requeue_now, None, True)"
      "under_way k8s_PatchingBackupStarted T i2" "same_work i1 i2"
    by (auto simp: round_to_def)
  show ?thesis
    using r1 r2 same_work_trans [OF r1(3) r2(3)] by (simp add: numeral_2_eq_2)
qed

subsection \<open>Concrete runs\<close>

lemma sample_prepared: "prepared sample_env 0"
  by (simp add: prepared_def sample_env_def)

lemma sample_progress:
  "statusProgress sample_env l (inst_Namespace sample_instance) (GetSTSName (inst_Name sample_instance)) =
     (l @ [IListSTS ''db'', IListPods ''db'' [(''statefulset'', ''mydb-sts'')]], 100, None)"
  by (simp add: statusProgress_def sample_env_def sample_instance_def sample_sts_def sample_pod_def GetSTSName_def
      last_match_def pod_progress_def Let_def)

lemma sample_cooperative: "cooperative sample_env 0 sample_instance sample_sp"
proof -
  have "\<exists>pvcs. NewPVCs sample_sp i = Inr pvcs" for i
    unfolding NewPVCs_def by (rule new_pvcs_no_config) (simp add: sample_sp_def)
  then show ?thesis
    unfolding cooperative_def sample_progress using sample_prepared by (simp add: sample_env_def)
qed

lemma sample_wanted:
  "\<exists>c d. inst_cond sample_instance k8s_Ready = Some c \<and> Reason c = k8s_CreateComplete \<and>
     inst_cond sample_instance k8s_DatabaseInstanceReady = Some d \<and>
     IsPatchingStateMachineEntryCondition (is_Services (inst_Spec sample_instance))
       (ist_ActiveImages (inst_Status sample_instance)) (sp_Images sample_sp)
       (ist_LastFailedImages (inst_Status sample_instance)) (Some c) (Some d)"
proof -
  have "Some [''service'' \<mapsto> ''v1''] \<noteq> sp_Images sample_sp"
    by (auto simp: sample_sp_def dest: fun_cong [where x = "''service''"])
  then show ?thesis
    by (simp add: sample_instance_def IsPatchingStateMachineEntryCondition_def ConditionStatusEquals_def)
qed

theorem patching_completes_witness:
  "\<exists>n \<le> 8. patched sample_instance sample_sp (patching_rounds sample_env sample_sp n sample_instance [])"
proof -
  obtain c d where w: "inst_cond sample_instance k8s_Ready = Some c" "Reason c = k8s_CreateComplete"
     "inst_cond sample_instance k8s_DatabaseInstanceReady = Some d"
     "IsPatchingStateMachineEntryCondition (is_Services (inst_Spec sample_instance))
       (ist_ActiveImages (inst_Status sample_instance)) (sp_Images sample_sp)
       (ist_LastFailedImages (inst_Status sample_instance)) (Some c) (Some d)"
    using sample_wanted by blast
  show ?thesis
    by (rule patching_completes [OF sample_cooperative _ w]) (simp add: sample_instance_def)
qed

theorem patchingStateMachine_transitions_witness:
  "\<exists>inst' l' res err done.
     patchingStateMachine sample_env [] (inst_cond sample_instance k8s_Ready)
       (inst_cond sample_instance k8s_DatabaseInstanceReady) sample_instance sample_sp 0 = (inst', l', res, err, done) \<and>
     (ready_reason inst' = ready_reason sample_instance \<or> ready_reason inst' \<in> patching_next (ready_reason sample_instance))"
proof -
  obtain inst' l' res err fin where
    "patchingStateMachine sample_env [] (inst_cond sample_instance k8s_Ready)
       (inst_cond sample_instance k8s_DatabaseInstanceReady) sample_instance sample_sp 0 = (inst', l', res, err, fin)"
    by (metis prod_cases5)
  with patchingStateMachine_transitions [OF this] show ?thesis by blast
qed

text \<open>Three rounds lead to the state \<open>DeploymentSetPatchingComplete\<close>.\<close>

lemma run_round_to:
  assumes "patching_run env inst0 l0 inst l" and "round_to env sp T r inst l"
  obtains inst' l' where "patching_run env inst0 l0 inst' l'" "under_way r T inst'" "same_work inst inst'"
  using assms run_round unfolding round_to_def by metis

lemma patching_sample_run:
  assumes "prepared env 0"
  obtains inst l where "patching_run env sample_instance [] inst l"
    and "under_way k8s_DeploymentSetPatchingComplete 0 inst" and "same_work sample_instance inst"
proof -
  obtain c d where w: "inst_cond sample_instance k8s_Ready = Some c" "Reason c = k8s_CreateComplete"
     "inst_cond sample_instance k8s_DatabaseInstanceReady = Some d"
     "IsPatchingStateMachineEntryCondition (is_Services (inst_Spec sample_instance))
       (ist_ActiveImages (inst_Status sample_instance)) (sp_Images sample_sp)
       (ist_LastFailedImages (inst_Status sample_instance)) (Some c) (Some d)"
    using sample_wanted by blast
  obtain i1 l1 where 1: "patching_run env sample_instance [] i1 l1"
    "under_way k8s_PatchingBackupStarted 0 i1" "same_work sample_instance i1"
    by (rule run_round_to [OF run_start round_entry [OF assms w]])
  obtain i2 l2 where 2: "patching_run env sample_instance [] i2 l2"
    "under_way k8s_DeploymentSetPatchingInProgress 0 i2" "same_work i1 i2"
    by (rule run_round_to [OF 1(1) round_backup_started [OF assms 1(2)]])
  obtain i3 l3 where 3: "patching_run env sample_instance [] i3 l3"
    "under_way k8s_DeploymentSetPatchingComplete 0 i3" "same_work i2 i3"
    by (rule run_round_to [OF 2(1) round_deployment [OF assms 2(2)]])
  show thesis
    by (rule that [OF 3(1,2)]) (use 1(3) 2(3) 3(3) same_work_trans in blast)
qed

lemma sample_outside: "ready_reason sample_instance \<notin> insert k8s_PatchingBackupStarted after_backup"
  by (simp add: sample_instance_def reason_of_def after_backup_def)

lemma sample_required:
  "same_work sample_instance inst \<Longrightarrow>
     isStatefulSetPatchingRequired (ist_ActiveImages (inst_Status inst)) (is_Images (inst_Spec inst))"
  by (simp add: same_work_def sample_instance_def isStatefulSetPatchingRequired_def statefulSetImages_def map_get_def)

lemma sample_disks: "same_work sample_instance inst \<Longrightarrow> inst_disks inst = sp_Disks sample_sp"
  by (simp add: same_work_def sample_instance_def inst_disks_def sample_sp_def)

theorem patching_destroys_only_what_is_backed_up_witness:
  "\<exists>inst l. patching_run sample_env sample_instance [] inst l \<and> length (sp_Disks sample_sp) = 2 \<and>
     (\<forall>d \<in> set (sp_Disks sample_sp).
        requested sample_env l (disk_snapshot inst (ist_BackupID (inst_Status inst)) d) \<and>
        snapshot_accepted sample_env l (inst_Namespace inst) (snd (disk_snapshot inst (ist_BackupID (inst_Status inst)) d)))"
proof -
  obtain inst l where run: "patching_run sample_env sample_instance [] inst l"
    and u: "under_way k8s_DeploymentSetPatchingComplete 0 inst" and w: "same_work sample_instance inst"
    by (rule patching_sample_run [OF sample_prepared])
  let ?l = "l @ [ICheckStatus (inst_Name inst)]"
  obtain c d t where c: "Reason c = k8s_DeploymentSetPatchingComplete"
    and r: "patching_round sample_env l inst sample_sp =
        patchingStateMachine sample_env l (Some c) (Some d) inst sample_sp t"
    using round_under_way [OF u] by metis
  obtain inst1 sts ns n where s: "startStatefulSetPatching sample_env ?l inst sample_sp =
      (inst1, ?l @ [IGetSTS (inst_Namespace inst) (sp_StsName sample_sp), IDeleteSTS ns n, IApplySTS sts], None)"
    using start_sts_ok [OF sample_cooperative u, of ?l] by blast
  obtain inst' where R: "patching_round sample_env l inst sample_sp =
      (inst', l @ [ICheckStatus (inst_Name inst), IGetSTS (inst_Namespace inst) (sp_StsName sample_sp),
         IDeleteSTS ns n, IApplySTS sts], requeue_now, None, True)"
    unfolding r using c s sample_required [OF w] oracle_running [OF sample_prepared]
    by (simp add: patchingStateMachine_def case_deployment_complete_def to_state_def)
  have listed: "is_Disks (inst_Spec inst) = Some (sp_Disks sample_sp)" "inst_Name inst = inst_Name sample_instance"
    using w by (simp_all add: same_work_def sample_instance_def sample_sp_def)
  have "\<forall>d \<in> set (sp_Disks sample_sp).
      requested sample_env l (disk_snapshot inst (ist_BackupID (inst_Status inst)) d) \<and>
      snapshot_accepted sample_env l (inst_Namespace inst) (snd (disk_snapshot inst (ist_BackupID (inst_Status inst)) d))"
    using patching_destroys_only_what_is_backed_up [OF sample_outside run listed(1) _ _ R, of None ns n]
    by (simp add: listed_disks [OF listed(1)] sample_disks [OF w] listed(2))
       (simp add: sample_instance_def sample_sp_def GetSTSName_def)
  with run show ?thesis by (intro exI [of _ inst] exI [of _ l]) (simp add: sample_sp_def)
qed

text \<open>The stateful set is gone when patching is about to replace it: patching fails and recovers.\<close>

definition lost_sts_env :: inst_env where
  "lost_sts_env = sample_env\<lparr>ie_GetSTS := (\<lambda>_ _ _. Inl (GoError NotFound ''not found''))\<rparr>"

lemma lost_prepared: "prepared lost_sts_env 0"
  by (simp add: prepared_def sample_env_def lost_sts_env_def)

lemma lost_construct:
  assumes "sp_Config sp = None"
  obtains sts pvcs where "constructSTSandPVCs lost_sts_env inst sp pinst = Inr (sts, pvcs)"
proof -
  have "constructSTSandPVCs lost_sts_env inst sp pinst = constructSTSandPVCs sample_env inst sp pinst"
    by (simp add: constructSTSandPVCs_def NewSts_def lost_sts_env_def split: sum.splits)
  then show thesis using sample_construct [OF assms] that by metis
qed

lemma lost_deployment_complete:
  assumes "under_way k8s_DeploymentSetPatchingComplete 0 inst" and "same_work sample_instance inst"
  obtains inst' l' where "patching_round lost_sts_env l inst sample_sp = (inst', l',
      Result_zero, Some (GoError NotFound ''not found''), True)"
    and "under_way k8s_StatefulSetPatchingFailure 0 inst'" and "same_work inst inst'"
proof -
  have now: "ie_now lost_sts_env l' = 0" for l' by (simp add: lost_sts_env_def sample_env_def)
  obtain c d t where c: "Reason c = k8s_DeploymentSetPatchingComplete"
    and r: "patching_round lost_sts_env l inst sample_sp =
        patchingStateMachine lost_sts_env l (Some c) (Some d) inst sample_sp t"
    using round_under_way [OF assms(1)] by metis
  have "startStatefulSetPatching lost_sts_env l' inst sample_sp =
      (inst, l' @ [IGetSTS (inst_Namespace inst) (sp_StsName sample_sp)], Some (GoError NotFound ''not found''))" for l'
    by (simp add: startStatefulSetPatching_def retrieveStatefulSetByName_def lost_sts_env_def)
  with c show thesis
    using sample_required [OF assms(2)] oracle_running [OF lost_prepared] under_way_upsert [OF assms(1) now]
    by (intro that) (auto simp: r patchingStateMachine_def case_deployment_complete_def to_state_def)
qed

lemma lost_failure:
  assumes "under_way k8s_StatefulSetPatchingFailure 0 inst"
  shows "round_to lost_sts_env sample_sp 0 k8s_PatchingRecoveryInProgress inst l"
proof -
  have now: "ie_now lost_sts_env l' = 0" for l' by (simp add: lost_sts_env_def sample_env_def)
  have pvcs: "\<exists>l'. delete_pvcs lost_sts_env l1 n pvcs = (l', Inr True)" for l1 n pvcs
    by (induction pvcs arbitrary: l1) (auto simp: Let_def lost_sts_env_def sample_env_def IsNotFound_def)
  obtain c d t where c: "Reason c = k8s_StatefulSetPatchingFailure"
    and r: "patching_round lost_sts_env l inst sample_sp =
        patchingStateMachine lost_sts_env l (Some c) (Some d) inst sample_sp t"
    using round_under_way [OF assms] by metis
  obtain sts pvcs where "constructSTSandPVCs lost_sts_env inst sample_sp inst = Inr (sts, pvcs)"
    by (rule lost_construct [of sample_sp]) (simp_all add: sample_sp_def)
  moreover have "ie_GetSTS lost_sts_env l' ns n = Inl (GoError NotFound ''not found'')" for l' ns n
    by (simp add: lost_sts_env_def)
  moreover obtain l' where "delete_pvcs lost_sts_env (l @ [IGetSTS (sts_Namespace sts) (sts_Name sts)])
      (sp_StsName sample_sp) pvcs = (l', Inr True)"
    using pvcs by blast
  ultimately have "deleteOldSTSandPVCs lost_sts_env l inst sample_sp = (l', Inr True)"
    by (simp add: deleteOldSTSandPVCs_def IsNotFound_def Let_def)
  then show ?thesis
    unfolding round_to_def r using c under_way_upsert [OF assms now]
    by (simp add: patchingStateMachine_def case_failure_def to_state_def)
qed

lemma lost_recovery:
  assumes "under_way k8s_PatchingRecoveryInProgress 0 inst"
  obtains inst' calls res err fin sts where
    "patching_round lost_sts_env l inst sample_sp = (inst', l @ calls, res, err, fin)"
    "ICreateOrUpdateSTS sts \<in> set calls" "length (sts_VolumeClaimTemplates sts) = 2"
proof -
  obtain c d t where c: "Reason c = k8s_PatchingRecoveryInProgress"
    and r: "patching_round lost_sts_env l inst sample_sp =
        patchingStateMachine lost_sts_env l (Some c) (Some d) inst sample_sp t"
    using round_under_way [OF assms] by metis
  let ?rs = "buildRestoreSpecUsingSnapshotBackupID (ie_now lost_sts_env l) (ist_BackupID (inst_Status inst))"
  let ?inst = "inst\<lparr>inst_Spec := (inst_Spec inst)\<lparr>is_Restore := Some ?rs\<rparr>\<rparr>"
  let ?sp = "sample_sp\<lparr>sp_Images := CloneMap (ist_ActiveImages (inst_Status inst)), sp_Restore := Some ?rs\<rparr>"
  obtain sts pvcs where s: "constructSTSandPVCs lost_sts_env ?inst ?sp inst = Inr (sts, pvcs)"
    by (rule lost_construct [of ?sp]) (simp_all add: sample_sp_def)
  then have rec: "recoverFromPatchingFailure lost_sts_env l inst sample_sp = (l @ [ICreateOrUpdateSTS sts], None)"
    by (simp add: recoverFromPatchingFailure_def restoreSnapshot_def Let_def lost_sts_env_def sample_env_def)
  obtain inst' l' res err fin where R: "case_recovery lost_sts_env l inst sample_sp = (inst', l', res, err, fin)"
    by (metis prod_cases5)
  then have "extends (l @ [ICreateOrUpdateSTS sts]) l'"
    by (fastforce simp: case_recovery_def rec isRecoveryFromPatchingFailureComplete_def extends_def Let_def
        dest!: status_calls_progress status_calls_oracle split: prod.splits option.splits if_splits sum.splits)
  then obtain cs where "l' = l @ ICreateOrUpdateSTS sts # cs" by (auto simp: extends_def)
  moreover have "length (sts_VolumeClaimTemplates sts) = 2"
    using constructSTSandPVCs_fields [OF s] new_pvcs_names [of ?sp inst "sp_Disks sample_sp" pvcs, THEN map_eq_imp_length_eq]
    by (simp add: NewPVCs_def sample_sp_def)
  ultimately show thesis
    using R c by (intro that) (auto simp: r patchingStateMachine_def)
qed

theorem patching_recovery_restores_the_backup_witness:
  "\<exists>inst l (sts :: StatefulSet). patching_run lost_sts_env sample_instance [] inst l \<and> length (sts_VolumeClaimTemplates sts) = 2 \<and>
     (\<forall>pvc \<in> set (sts_VolumeClaimTemplates sts). \<exists>d \<in> set (sp_Disks sample_sp). \<exists>snap.
        disk_snapshot inst (ist_BackupID (inst_Status inst)) d =
          (pvc_Name pvc @ ''-'' @ GetSTSName (inst_Name inst) @ ''-0'', snap) \<and>
        pvc_DataSource pvc = Some snap \<and> snapshot_accepted lost_sts_env l (inst_Namespace inst) snap)"
proof -
  obtain i1 l1 where 1: "patching_run lost_sts_env sample_instance [] i1 l1"
    "under_way k8s_DeploymentSetPatchingComplete 0 i1" "same_work sample_instance i1"
    by (rule patching_sample_run [OF lost_prepared])
  obtain i2 l2 where r2: "patching_round lost_sts_env l1 i1 sample_sp =
      (i2, l2, Result_zero, Some (GoError NotFound ''not found''), True)"
    and u2: "under_way k8s_StatefulSetPatchingFailure 0 i2" and w2: "same_work i1 i2"
    by (rule lost_deployment_complete [OF 1(2,3)])
  obtain inst l where run: "patching_run lost_sts_env sample_instance [] inst l"
    and u: "under_way k8s_PatchingRecoveryInProgress 0 inst" and w: "same_work i2 inst"
    by (rule run_round_to [OF run_round [OF 1(1) r2] lost_failure [OF u2]])
  obtain inst' calls res err fin sts where R: "patching_round lost_sts_env l inst sample_sp = (inst', l @ calls, res, err, fin)"
    "ICreateOrUpdateSTS sts \<in> set calls" "length (sts_VolumeClaimTemplates sts) = 2"
    by (rule lost_recovery [OF u])
  have all: "same_work sample_instance inst" using same_work_trans [OF same_work_trans [OF 1(3) w2] w] .
  then have listed: "is_Disks (inst_Spec inst) = Some (sp_Disks sample_sp)"
    by (simp add: same_work_def sample_instance_def sample_sp_def)
  have disks: "sp_Disks sample_sp = DiskSpecs (Some inst) None"
    using sample_disks [OF all] listed_disks [OF listed] by simp
  have reason: "ready_reason inst = k8s_PatchingRecoveryInProgress"
    using u by (auto simp: under_way_def reason_of_def)
  have "\<exists>d \<in> set (sp_Disks sample_sp). \<exists>snap.
        disk_snapshot inst (ist_BackupID (inst_Status inst)) d =
          (pvc_Name pvc @ ''-'' @ GetSTSName (inst_Name inst) @ ''-0'', snap) \<and>
        pvc_DataSource pvc = Some snap \<and> snapshot_accepted lost_sts_env l (inst_Namespace inst) snap"
    if "pvc \<in> set (sts_VolumeClaimTemplates sts)" for pvc
    using patching_recovery_restores_the_backup [OF sample_outside run reason listed disks R(1,2) that]
    by (elim bexE exE conjE) (intro bexI exI conjI)
  with run R(3) show ?thesis by (intro exI [of _ inst] exI [of _ l] exI [of _ sts]) simp
qed

definition rollback_instance :: Instance where
  "rollback_instance =
     sample_instance\<lparr>inst_Status := (inst_Status sample_instance)
       \<lparr>ist_Conditions :=
          [\<lparr>Type = k8s_Ready, Status = ConditionFalse, LastTransitionTime = 0,
            Reason = k8s_DeploymentSetPatchingRollbackInProgress, Message = []\<rparr>,
           \<lparr>Type = k8s_DatabaseInstanceReady, Status = ConditionTrue, LastTransitionTime = 0,
            Reason = k8s_CreateComplete, Message = []\<rparr>],
        ist_CurrentActiveStateMachine := PatchingStateMachine\<rparr>\<rparr>"

theorem patching_rollback_retries_witness:
  "under_way k8s_PatchingBackupStarted 0 (fst (patching_rounds sample_env sample_sp 2 rollback_instance [])) \<and>
   same_work rollback_instance (fst (patching_rounds sample_env sample_sp 2 rollback_instance []))"
  by (rule patching_rollback_retries [OF sample_prepared])
    (simp_all add: rollback_instance_def under_way_def sample_instance_def)

theorem patching_times_out_witness:
  "\<exists>inst' l' res err done.
     patchingStateMachine (sample_env\<lparr>ie_now := (\<lambda>_. 4 * Minute)\<rparr>) [] (inst_cond rollback_instance k8s_Ready)
       (inst_cond rollback_instance k8s_DatabaseInstanceReady) rollback_instance sample_sp 0 = (inst', l', res, err, done) \<and>
     ready_reason inst' = k8s_PatchingRecoveryFailure \<and> err \<noteq> None"
proof -
  obtain c where c: "inst_cond rollback_instance k8s_Ready = Some c" "LastTransitionTime c = 0"
      "Reason c = k8s_DeploymentSetPatchingRollbackInProgress"
    by (simp add: rollback_instance_def)
  obtain d where d: "inst_cond rollback_instance k8s_DatabaseInstanceReady = Some d"
    by (simp add: rollback_instance_def)
  obtain inst' l' res err fin where R: "patchingStateMachine (sample_env\<lparr>ie_now := (\<lambda>_. 4 * Minute)\<rparr>) []
      (Some c) (Some d) rollback_instance sample_sp 0 = (inst', l', res, err, fin)"
    by (metis prod_cases5)
  have "ready_reason inst' = k8s_PatchingRecoveryFailure \<and>
      ConditionStatusEquals (inst_cond inst' k8s_Ready) ConditionFalse \<and> err \<noteq> None \<and> fin"
    by (rule patching_times_out [OF _ _ R, of deploymentPatchingTimeout])
      (simp_all add: patching_deadline_def c ElapsedTimeFromLastTransitionTime_def time_Sub_def round_Second_def)
  with R c d show ?thesis by auto
qed

end
