(* ===== verification/RestorePITR.thy ===== *)
theory RestorePITR
  imports StsRestore
begin

text \<open>
  \<open>oracle/controllers/instancecontroller/instance_controller_restore_pitr.go\<close> and
  \<open>findBackupForRestore\<close> of \<open>instance_controller_restore.go\<close>: which backup a restore starts from. The
  text of an error leaves out the structs it prints.
\<close>

abbreviation PITRLabel :: string where "PITRLabel \<equiv> ''pitr''"
abbreviation IncarnationLabel :: string where "IncarnationLabel \<equiv> ''incarnation''"
abbreviation ParentIncarnationLabel :: string where "ParentIncarnationLabel \<equiv> ''parent-incarnation''"
abbreviation SCNAnnotation :: string where "SCNAnnotation \<equiv> ''scn''"
abbreviation TimestampAnnotation :: string where "TimestampAnnotation \<equiv> ''timestamp''"
abbreviation DatabaseImageAnnotation :: string where "DatabaseImageAnnotation \<equiv> ''database-image''"

subsection \<open>The closest backup\<close>

definition backup_ready :: "Backup \<Rightarrow> bool" where
  "backup_ready b = ConditionStatusEquals (FindCondition (bk_Conditions b) k8s_Ready) ConditionTrue"

text \<open>The time and the SCN a ready backup was taken at, if its annotation can be parsed: the loops skip
  every other backup.\<close>

definition backup_time :: "Backup \<Rightarrow> go_time option" where
  "backup_time b =
     (if \<not> backup_ready b \<or> map_get (bk_Annotations b) TimestampAnnotation = [] then None
      else case Parse_RFC3339 (map_get (bk_Annotations b) TimestampAnnotation) of
             Inl err \<Rightarrow> None
           | Inr t \<Rightarrow> Some t)"

definition backup_scn :: "Backup \<Rightarrow> int option" where
  "backup_scn b =
     (if \<not> backup_ready b \<or> map_get (bk_Annotations b) SCNAnnotation = [] then None
      else case ParseInt (map_get (bk_Annotations b) SCNAnnotation) of
             Inl err \<Rightarrow> None
           | Inr n \<Rightarrow> Some n)"

text \<open>One round of the loops: the backup found so far and its distance to the target.\<close>

definition timestamp_round :: "go_time \<Rightarrow> Backup \<Rightarrow> Backup option \<times> duration \<Rightarrow> Backup option \<times> duration" where
  "timestamp_round targetTimestamp b st =
     (case backup_time b of
        None \<Rightarrow> st
      | Some currentTimestamp \<Rightarrow>
          (let dist = time_Sub targetTimestamp currentTimestamp in
           if 0 \<le> dist \<and> dist < snd st then (Some b, dist) else st))"

definition findPITRBackupBasedonTimestamp :: "Backup list \<Rightarrow> go_time \<Rightarrow> go_error + Backup" where
  "findPITRBackupBasedonTimestamp backups targetTimestamp =
     (case fst (fold (timestamp_round targetTimestamp) backups (None, max_int64)) of
        None \<Rightarrow> Inl (Errorf ''findPITRBackupBasedonTimestamp: failed to find valid backup for PITR restore based on timestamp'')
      | Some b \<Rightarrow> Inr b)"

definition scn_round :: "int \<Rightarrow> Backup \<Rightarrow> Backup option \<times> int \<Rightarrow> Backup option \<times> int" where
  "scn_round targetSCN b st =
     (case backup_scn b of
        None \<Rightarrow> st
      | Some currentSCN \<Rightarrow>
          (let dist = int64 (targetSCN - currentSCN) in
           if 0 \<le> dist \<and> dist < snd st then (Some b, dist) else st))"

definition findPITRBackupBasedonSCN :: "Backup list \<Rightarrow> int \<Rightarrow> go_error + Backup" where
  "findPITRBackupBasedonSCN backups targetSCN =
     (case fst (fold (scn_round targetSCN) backups (None, max_int64)) of
        None \<Rightarrow> Inl (Errorf ''findPITRBackupBasedonSCN: failed to find valid backup for PITR restore based on scn'')
      | Some b \<Rightarrow> Inr b)"

definition findPITRBackup :: "Backup list \<Rightarrow> PITRRestoreSpec \<Rightarrow> go_error + Backup" where
  "findPITRBackup backups spec =
     (if backups = [] then Inl (Errorf ''failed to find any backup for a PITR restore'')
      else case prs_Timestamp spec of
        Some t \<Rightarrow> findPITRBackupBasedonTimestamp backups t
      | None \<Rightarrow>
          (case ParseInt (prs_SCN spec) of
             Inl err \<Rightarrow> Inl (Errorf (''failed to parse .pitrRestore.scn: '' @ err_msg err))
           | Inr targetSCN \<Rightarrow> findPITRBackupBasedonSCN backups targetSCN))"

subsection \<open>Finding the PITR object and the backup\<close>

text \<open>The loop only decides whether there is a PITR object for the instance: what is returned is the first
  object of the list.\<close>

definition findRestorePITR :: "inst_env \<Rightarrow> inst_log \<Rightarrow> Instance \<Rightarrow> PITRRestoreSpec option \<Rightarrow> inst_log \<times> (go_error + PITR)" where
  "findRestorePITR env l inst pitrRestore =
     (case pitrRestore of
        None \<Rightarrow> (l, Inl (Errorf ''failed to get a PITR object, pitrRestore must be specified''))
      | Some spec \<Rightarrow>
          (case prs_PITRRef spec of
             Some ref \<Rightarrow>
               (l @ [IGetPITR (pref_Namespace ref) (pref_Name ref)],
                case ie_GetPITR env l (pref_Namespace ref) (pref_Name ref) of
                  Inl err \<Rightarrow> Inl (Errorf (''failed to get a PITR object for a PITR restore: '' @ err_msg err))
                | Inr p \<Rightarrow> Inr p)
           | None \<Rightarrow>
               (l @ [IListPITR (inst_Namespace inst)],
                case ie_ListPITR env l (inst_Namespace inst) of
                  Inl err \<Rightarrow> Inl (Errorf (''failed to get a PITR object for a PITR restore: '' @ err_msg err))
                | Inr items \<Rightarrow>
                    if list_ex (\<lambda>candidate. pitr_InstanceRef candidate = inst_Name inst) items then Inr (hd items)
                    else Inl (Errorf ''PITR preflight check: instance doesn't have PITR enabled or specified''))))"

definition restore_incarnation :: "Instance \<Rightarrow> PITRRestoreSpec \<Rightarrow> PITR \<Rightarrow> string" where
  "restore_incarnation inst spec p =
     (if prs_Incarnation spec \<noteq> [] then prs_Incarnation spec
      else if prs_PITRRef spec \<noteq> None then pitr_CurrentDatabaseIncarnation p
      else ist_CurrentDatabaseIncarnation (inst_Status inst))"

definition pitr_labels :: "PITR \<Rightarrow> string \<Rightarrow> (string \<times> string) list" where
  "pitr_labels p inc = [(PITRLabel, pitr_Name p), (IncarnationLabel, inc)]"

definition findPITRBackupForRestore ::
    "inst_env \<Rightarrow> inst_log \<Rightarrow> Instance \<Rightarrow> PITRRestoreSpec \<Rightarrow> inst_log \<times> (go_error + Backup)" where
  "findPITRBackupForRestore env l inst spec =
     (if prs_SCN spec = [] \<and> prs_Timestamp spec = None
      then (l, Inl (Errorf ''PITR preflight check: must specify either .PITRRestore.SCN or .PITRRestore.Time''))
      else if prs_SCN spec \<noteq> [] \<and> prs_Timestamp spec \<noteq> None
      then (l, Inl (Errorf ''PITR preflight check: .PITRRestore.SCN and .PITRRestore.Time cannot be specified at the same time''))
      else case findRestorePITR env l inst (Some spec) of
        (l1, Inl err) \<Rightarrow> (l1, Inl err)
      | (l1, Inr p) \<Rightarrow>
          (let labels = pitr_labels p (restore_incarnation inst spec p); ns = pitr_Namespace p;
               l2 = l1 @ [IListBackups ns labels]
           in case ie_ListBackups env l1 ns labels of
                Inl err \<Rightarrow> (l2, Inl (Errorf (''failed to get backups for a PITR restore: '' @ err_msg err)))
              | Inr [] \<Rightarrow> (l2, Inl (Errorf ''failed to find any backup for a PITR restore''))
              | Inr (b0 # bs) \<Rightarrow>
                  (case findPITRBackup (b0 # bs) spec of
                     Inr b \<Rightarrow> (l2, Inr b)
                   | Inl _ \<Rightarrow>
                       (let parent = pitr_labels p (map_get (bk_Labels b0) ParentIncarnationLabel) in
                        (l2 @ [IListBackups ns parent],
                         case ie_ListBackups env l2 ns parent of
                           Inl err \<Rightarrow> Inl (Errorf (''failed to get backups for a PITR restore: '' @ err_msg err))
                         | Inr items \<Rightarrow> findPITRBackup items spec)))))"

definition check_type :: "RestoreSpec \<Rightarrow> Backup \<Rightarrow> go_error + Backup" where
  "check_type rs backup =
     (if bk_Type backup \<noteq> rs_BackupType rs
      then Inl (Errorf (''preflight check: located a backup of type '' @ bk_Type backup @ '', wanted: '' @ rs_BackupType rs))
      else Inr backup)"

abbreviation only_one :: go_error where
  "only_one \<equiv> Errorf ''preflight check: specify only one of BackupID/BackupRef/PITRRestore''"

definition findBackupForRestore ::
    "inst_env \<Rightarrow> inst_log \<Rightarrow> Instance \<Rightarrow> RestoreSpec \<Rightarrow> string \<Rightarrow> inst_log \<times> (go_error + Backup)" where
  "findBackupForRestore env l inst rs namespace =
     (case rs_BackupRef rs of
        Some ref \<Rightarrow>
          if rs_BackupID rs \<noteq> [] \<or> rs_PITRRestore rs \<noteq> None then (l, Inl only_one)
          else (l @ [IGetBackup (bref_Namespace ref) (bref_Name ref)],
                case ie_GetBackup env l (bref_Namespace ref) (bref_Name ref) of
                  Inl err \<Rightarrow> Inl (Errorf (''preflight check: failed to get backup for a restore: '' @ err_msg err))
                | Inr backup \<Rightarrow> check_type rs backup)
      | None \<Rightarrow>
          if rs_BackupID rs \<noteq> [] then
            (if rs_PITRRestore rs \<noteq> None then (l, Inl only_one)
             else (l @ [IListBackups namespace []],
                   case ie_ListBackups env l namespace [] of
                     Inl err \<Rightarrow> Inl (Errorf (''preflight check: failed to list backups for a restore: '' @ err_msg err))
                   | Inr items \<Rightarrow>
                       (let missing = Inl (Errorf (''preflight check: failed to locate the requested backup '' @ rs_BackupID rs)) in
                        case last_match (\<lambda>b. bk_BackupID b = rs_BackupID rs) items of
                          None \<Rightarrow> missing
                        | Some backup \<Rightarrow> if bk_Type backup = [] then missing else check_type rs backup)))
          else (case rs_PITRRestore rs of
                  None \<Rightarrow> (l, Inl (Errorf ''preflight check: either BackupID or BackupRef or PITRRestore must be set to perform a restore''))
                | Some spec \<Rightarrow>
                    (case findPITRBackupForRestore env l inst spec of
                       (l1, Inl err) \<Rightarrow> (l1, Inl (Errorf (''preflight check: failed to locate a backup for PITR restore: '' @ err_msg err)))
                     | (l1, Inr backup) \<Rightarrow> (l1, check_type rs backup))))"

subsection \<open>What the search for the closest backup finds\<close>

text \<open>The reference: among the backups whose position is at or before the target, and not so far before it
  that the distance is the largest integer, the first of those with the latest position.\<close>

definition in_reach :: "('b \<Rightarrow> int option) \<Rightarrow> int \<Rightarrow> 'b \<Rightarrow> bool" where
  "in_reach pos t b = (case pos b of None \<Rightarrow> False | Some u \<Rightarrow> u \<le> t \<and> t - u < max_int64)"

definition first_max :: "('b \<Rightarrow> int) \<Rightarrow> 'b list \<Rightarrow> 'b option" where
  "first_max k bs = (if bs = [] then None else List.find (\<lambda>b. k b = Max (set (map k bs))) bs)"

definition latest_before :: "('b \<Rightarrow> int option) \<Rightarrow> int \<Rightarrow> 'b list \<Rightarrow> 'b option" where
  "latest_before pos t bs = first_max (\<lambda>b. the (pos b)) (filter (in_reach pos t) bs)"

lemma find_append: "List.find P (xs @ ys) = (case List.find P xs of None \<Rightarrow> List.find P ys | Some x \<Rightarrow> Some x)"
  by (induction xs) auto

lemma first_max_Some:
  assumes "bs \<noteq> []"
  obtains b where "first_max k bs = Some b" and "b \<in> set bs" and "k b = Max (set (map k bs))"
proof -
  from assms have "Max (set (map k bs)) \<in> set (map k bs)" by (intro Max_in) auto
  then obtain x where x: "x \<in> set bs" "k x = Max (set (map k bs))" by auto
  then have "List.find (\<lambda>b. k b = Max (set (map k bs))) bs \<noteq> None" by (auto simp: find_None_iff)
  then obtain b where b: "List.find (\<lambda>b. k b = Max (set (map k bs))) bs = Some b" by blast
  then have "b \<in> set bs" "k b = Max (set (map k bs))" by (auto simp: find_Some_iff)
  with b assms that show thesis by (simp add: first_max_def)
qed

lemma first_max_le:
  assumes "first_max k bs = Some b"
  shows "b \<in> set bs" and "x \<in> set bs \<Longrightarrow> k x \<le> k b"
proof -
  from assms have "bs \<noteq> []" by (auto simp: first_max_def)
  then obtain c where "first_max k bs = Some c" "c \<in> set bs" "k c = Max (set (map k bs))"
    by (rule first_max_Some)
  with assms show "b \<in> set bs" and "x \<in> set bs \<Longrightarrow> k x \<le> k b" by auto
qed

lemma first_max_snoc:
  "first_max k (bs @ [b]) =
     (case first_max k bs of None \<Rightarrow> Some b | Some c \<Rightarrow> if k c < k b then Some b else Some c)"
proof (cases "bs = []")
  case False
  then obtain c where c: "first_max k bs = Some c" "c \<in> set bs" "k c = Max (set (map k bs))"
    by (rule first_max_Some)
  have M: "Max (set (map k (bs @ [b]))) = max (k b) (k c)" using False c(3) by simp
  show ?thesis
  proof (cases "k c < k b")
    case True
    then have "\<forall>x \<in> set bs. k x \<noteq> k b" using first_max_le(2) [OF c(1)] by force
    then have "List.find (\<lambda>x. k x = k b) bs = None" by (auto simp: find_None_iff)
    with True M c(1) show ?thesis by (simp add: first_max_def [of k "bs @ [b]"] find_append max_def)
  next
    case False
    moreover have "List.find (\<lambda>x. k x = k c) bs = Some c"
      using c \<open>bs \<noteq> []\<close> by (simp add: first_max_def)
    ultimately show ?thesis using M c(1) by (simp add: first_max_def [of k "bs @ [b]"] find_append max_def)
  qed
qed (simp add: first_max_def)

text \<open>The loops on timestamps and on SCNs share a contract: the distance they compute tells what is in
  reach, and is exact there.\<close>

locale closest =
  fixes pos :: "'b \<Rightarrow> int option" and dist :: "int \<Rightarrow> int \<Rightarrow> int" and ok :: "int \<Rightarrow> bool"
    and rnd :: "int \<Rightarrow> 'b \<Rightarrow> 'b option \<times> int \<Rightarrow> 'b option \<times> int"
  assumes rnd_None: "pos b = None \<Longrightarrow> rnd t b st = st"
    and rnd_Some: "pos b = Some u \<Longrightarrow>
          rnd t b st = (if 0 \<le> dist t u \<and> dist t u < snd st then (Some b, dist t u) else st)"
    and dist_reach: "ok t \<Longrightarrow> pos b = Some u \<Longrightarrow> 0 \<le> dist t u \<Longrightarrow> dist t u < max_int64 \<Longrightarrow> in_reach pos t b"
    and dist_exact: "ok t \<Longrightarrow> pos b = Some u \<Longrightarrow> in_reach pos t b \<Longrightarrow> dist t u = t - u"
begin

lemma search_state:
  assumes "ok t"
  shows "fold (rnd t) bs (None, max_int64) =
    (latest_before pos t bs, case latest_before pos t bs of None \<Rightarrow> max_int64 | Some c \<Rightarrow> t - the (pos c))"
proof (induction bs rule: rev_induct)
  case Nil
  show ?case by (simp add: latest_before_def first_max_def)
next
  case (snoc b bs)
  let ?L = "latest_before pos t bs"
  let ?st = "(?L, case ?L of None \<Rightarrow> max_int64 | Some c \<Rightarrow> t - the (pos c))"
  have found: "in_reach pos t c" if "?L = Some c" for c
    using first_max_le(1) [OF that [unfolded latest_before_def]] by simp
  have lim: "snd ?st \<le> max_int64"
    using found by (auto simp: in_reach_def split: option.splits)
  show ?case
  proof (cases "in_reach pos t b")
    case True
    then obtain u where u: "pos b = Some u" "u \<le> t" "t - u < max_int64"
      by (auto simp: in_reach_def split: option.splits)
    have "dist t u = t - u" by (rule dist_exact [OF assms u(1) True])
    then show ?thesis using snoc u True
      by (auto simp: latest_before_def first_max_snoc rnd_Some split: option.splits)
  next
    case False
    then have "rnd t b ?st = ?st"
      using rnd_None rnd_Some dist_reach [OF assms] lim by (cases "pos b") auto
    with False snoc show ?thesis by (simp add: latest_before_def)
  qed
qed

lemma search: "ok t \<Longrightarrow> fst (fold (rnd t) bs (None, max_int64)) = latest_before pos t bs"
  by (simp add: search_state)

end

interpretation by_time: closest backup_time time_Sub "\<lambda>_. True" timestamp_round
  by unfold_locales
    (auto simp: timestamp_round_def Let_def in_reach_def time_Sub_def split: option.splits)

lemma ParseInt_range: "ParseInt s = Inr n \<Longrightarrow> min_int64 \<le> n \<and> n \<le> max_int64"
  by (auto simp: ParseInt_def Let_def split: option.splits if_splits)

lemma backup_scn_range: "backup_scn b = Some n \<Longrightarrow> min_int64 \<le> n \<and> n \<le> max_int64"
  by (auto simp: backup_scn_def dest: ParseInt_range split: if_splits sum.splits)

text \<open>A target that is not negative: the difference may be too large for an \<open>int64\<close>, and is negative then.\<close>

lemma int64_wraps: "2 ^ 63 \<le> x \<Longrightarrow> x < 2 ^ 64 \<Longrightarrow> int64 x = x - 2 ^ 64"
proof -
  assume x: "2 ^ 63 \<le> x" "x < 2 ^ 64"
  have "int64 x = int64 (x - 2 ^ 64)"
    unfolding int64_def by (rule signed_take_bit_eq_iff_take_bit_eq [THEN iffD2]) (simp add: take_bit_eq_mod)
  then show ?thesis using x int64_id [of "x - 2 ^ 64"] by simp
qed

lemma scn_distance:
  assumes "0 \<le> t" "t \<le> max_int64" "min_int64 \<le> u" "u \<le> max_int64"
  shows "int64 (t - u) = (if t - u \<le> max_int64 then t - u else t - u - 2 ^ 64)"
  using assms int64_id [of "t - u"] int64_wraps [of "t - u"] by simp

interpretation by_scn: closest backup_scn "\<lambda>t u. int64 (t - u)" "\<lambda>t. 0 \<le> t \<and> t \<le> max_int64" scn_round
proof unfold_locales
  fix t u b assume t: "0 \<le> t \<and> t \<le> max_int64" and u: "backup_scn b = Some u"
  then have d: "int64 (t - u) = (if t - u \<le> max_int64 then t - u else t - u - 2 ^ 64)"
    using backup_scn_range scn_distance by blast
  show "in_reach backup_scn t b" if "0 \<le> int64 (t - u)" "int64 (t - u) < max_int64"
    using d that t u backup_scn_range [OF u] by (auto simp: in_reach_def split: if_splits)
  show "int64 (t - u) = t - u" if "in_reach backup_scn t b"
    using d that u by (auto simp: in_reach_def)
qed (auto simp: scn_round_def Let_def split: option.splits)

text \<open>
  C7: a restore to a point in time starts from the right backup. The search by timestamp returns exactly
  what the reference says: of the ready backups with a valid timestamp at or before the target (and less
  than 292 years before it), the first with the latest timestamp, and an error if there is none.
\<close>

theorem findPITRBackupBasedonTimestamp_latest:
  "findPITRBackupBasedonTimestamp backups t =
     (case latest_before backup_time t backups of
        None \<Rightarrow> Inl (Errorf ''findPITRBackupBasedonTimestamp: failed to find valid backup for PITR restore based on timestamp'')
      | Some b \<Rightarrow> Inr b)"
  by (simp add: findPITRBackupBasedonTimestamp_def by_time.search)

lemma latest_before_Some:
  assumes "latest_before pos t bs = Some b"
  obtains u where "b \<in> set bs" "pos b = Some u" "u \<le> t" "\<forall>c \<in> set bs. \<forall>v. pos c = Some v \<and> v \<le> t \<longrightarrow> v \<le> u"
proof -
  note m = first_max_le [OF assms [unfolded latest_before_def]]
  from m(1) obtain u where u: "b \<in> set bs" "pos b = Some u" "u \<le> t" "t - u < max_int64"
    by (auto simp: in_reach_def split: option.splits)
  have "v \<le> u" if "c \<in> set bs" "pos c = Some v" "v \<le> t" for c v
  proof (cases "t - v < max_int64")
    case True
    with that m(2) [of c] u show ?thesis by (auto simp: in_reach_def)
  next
    case False
    with u show ?thesis by linarith
  qed
  with u that show thesis by blast
qed

lemma latest_before_None:
  "latest_before pos t bs = None \<longleftrightarrow> (\<forall>c \<in> set bs. \<forall>v. pos c = Some v \<and> v \<le> t \<longrightarrow> max_int64 \<le> t - v)"
proof -
  have "latest_before pos t bs = None \<longleftrightarrow> filter (in_reach pos t) bs = []"
    unfolding latest_before_def by (metis first_max_Some first_max_def option.distinct(1))
  also have "\<dots> \<longleftrightarrow> (\<forall>c \<in> set bs. \<forall>v. pos c = Some v \<and> v \<le> t \<longrightarrow> max_int64 \<le> t - v)"
    by (auto simp: filter_empty_conv in_reach_def split: option.splits)
  finally show ?thesis .
qed

text \<open>
  The same for a restore to an SCN that is not negative: the backup returned is one of the list, it
  is ready, its SCN is at or before the target and no other such backup has a later SCN; an error is
  returned only if every such backup is \<open>2^63 - 1\<close> or more before the target. Subtraction that overflows
  does not change this.
\<close>

theorem findPITRBackupBasedonSCN_latest:
  assumes "0 \<le> t" and "t \<le> max_int64"
  shows "case findPITRBackupBasedonSCN backups t of
           Inr b \<Rightarrow> b \<in> set backups \<and>
             (\<exists>u. backup_scn b = Some u \<and> u \<le> t \<and>
                  (\<forall>c \<in> set backups. \<forall>v. backup_scn c = Some v \<and> v \<le> t \<longrightarrow> v \<le> u))
         | Inl _ \<Rightarrow> (\<forall>c \<in> set backups. \<forall>v. backup_scn c = Some v \<and> v \<le> t \<longrightarrow> max_int64 \<le> t - v)"
proof -
  have f: "fst (fold (scn_round t) backups (None, max_int64)) = latest_before backup_scn t backups"
    using assms by (intro by_scn.search) simp
  show ?thesis
  proof (cases "latest_before backup_scn t backups")
    case None
    then show ?thesis using latest_before_None [of backup_scn t backups] f
      by (simp add: findPITRBackupBasedonSCN_def)
  next
    case (Some b)
    from Some have "b \<in> set backups \<and> (\<exists>u. backup_scn b = Some u \<and> u \<le> t \<and>
        (\<forall>c \<in> set backups. \<forall>v. backup_scn c = Some v \<and> v \<le> t \<longrightarrow> v \<le> u))"
      by (rule latest_before_Some) blast
    then show ?thesis using Some f by (simp add: findPITRBackupBasedonSCN_def)
  qed
qed

definition sample_backup :: "string \<Rightarrow> Backup" where
  "sample_backup scn =
     \<lparr>bk_Name = ''b'' @ scn, bk_Namespace = ''db'', bk_Labels = Some [IncarnationLabel \<mapsto> ''1''],
      bk_Annotations = Some [SCNAnnotation \<mapsto> scn, DatabaseImageAnnotation \<mapsto> ''v1''],
      bk_Type = ''Physical'', bk_Subtype = ''Instance'', bk_Backupset = Some True, bk_Dop = 0,
      bk_LocalPath = [], bk_GcsPath = ''gs://b/'' @ scn, bk_GcsDir = [],
      bk_Conditions = [\<lparr>Type = k8s_Ready, Status = ConditionTrue, LastTransitionTime = 0,
                        Reason = k8s_BackupReady, Message = []\<rparr>],
      bk_BackupID = ''id'' @ scn\<rparr>"

lemma sample_scns: "backup_scn (sample_backup ''7'') = Some 7" "backup_scn (sample_backup ''12'') = Some 12"
  by code_simp+

theorem findPITRBackupBasedonSCN_latest_witness:
  "findPITRBackupBasedonSCN [sample_backup ''7'', sample_backup ''12''] 10 = Inr (sample_backup ''7'') \<and>
   (\<exists>u. backup_scn (sample_backup ''7'') = Some u \<and> u \<le> 10)"
proof -
  have "findPITRBackupBasedonSCN [sample_backup ''7'', sample_backup ''12''] 10 = Inr (sample_backup ''7'')"
    by (simp add: findPITRBackupBasedonSCN_def scn_round_def sample_scns Let_def int64_id)
  then show ?thesis
    using findPITRBackupBasedonSCN_latest [of 10 "[sample_backup ''7'', sample_backup ''12'']"] by auto
qed

end
