(* ===== verification/Restore.thy ===== *)
theory Restore
  imports RestorePITR
begin

text \<open>
  \<open>oracle/controllers/instancecontroller/instance_controller_restore.go\<close>: the restore state machine. Its
  state is the reason of the instance's \<open>Ready\<close> condition. An argument \<open>rs\<close> is what \<open>inst.Spec.Restore\<close>
  points to. The result of the state machine is \<open>None\<close> when the code follows a nil pointer. The time
  limit of the call that starts a physical restore is not modelled: it only bounds how long the call
  may take to answer.
\<close>

abbreviation physicalRestore :: string where "physicalRestore \<equiv> ''PhysicalRestore''"
abbreviation restore_owner :: string where "restore_owner \<equiv> ''instancecontroller''"

definition IsAlreadyExistsError :: "go_error \<Rightarrow> bool" where
  "IsAlreadyExistsError e \<longleftrightarrow> err_code e = AlreadyExists"

text \<open>Format of a nil \<open>LastRestoreTime\<close> panics.\<close>

definition lroRestoreOperationID :: "string \<Rightarrow> Instance \<Rightarrow> string option" where
  "lroRestoreOperationID opType inst =
     map_option (\<lambda>t. opType @ ''_'' @ inst_UID inst @ ''_'' @ Format_RFC3339 time_Local t) (ist_LastRestoreTime (inst_Status inst))"

definition IsLROOperationDone :: "inst_env \<Rightarrow> inst_log \<Rightarrow> string \<Rightarrow> inst_log \<times> bool \<times> go_error option" where
  "IsLROOperationDone env l opid =
     (let l1 = l @ [IGetLRO opid] in
      case ie_GetLRO env l opid of
        Inl err \<Rightarrow> (l1, False, Some err)
      | Inr operation \<Rightarrow>
          if \<not> op_Done operation then (l1, False, None)
          else (l1, True, map_option (\<lambda>e. Errorf (''Operation failed with err: '' @ err_msg e @ ''. <nil>'')) (op_error operation)))"

definition restoreDOP :: "int \<Rightarrow> int \<Rightarrow> int" where
  "restoreDOP r b = (if r > 0 then r else if b > 0 then b else 1)"

definition restored_description :: "go_time \<Rightarrow> RestoreSpec \<Rightarrow> string" where
  "restored_description now rs =
     ''Restored on '' @ Format_date time_Local now @ ''-'' @ itoa (time_Nanosecond now) @ '' from backup '' @ rs_BackupID rs @
     '' (type '' @ rs_BackupType rs @ '')''"

definition clear_restore :: "Instance \<Rightarrow> Instance" where
  "clear_restore inst = inst\<lparr>inst_Spec := (inst_Spec inst)\<lparr>is_Restore := None\<rparr>\<rparr>"

definition setRestoreSucceeded ::
    "inst_env \<Rightarrow> inst_log \<Rightarrow> Instance \<Rightarrow> RestoreSpec \<Rightarrow> string \<Rightarrow> Instance \<times> inst_log \<times> go_error option" where
  "setRestoreSucceeded env l inst rs message =
     (case ReleaseInstanceMaintenanceLock env l inst restore_owner of
        (inst1, l1, Some err) \<Rightarrow> (inst1, l1, Some (Errorf (''ReleaseInstanceMaintenanceLock failed: '' @ err_msg err)))
      | (inst1, l1, None) \<Rightarrow>
          (let description = restored_description (ie_now env l1) rs;
               l2 = l1 @ [IEvent WarningEvent ''RestoreComplete'' message];
               inst2 = clear_restore inst1;
               l3 = l2 @ [IUpdate inst2]
           in case ie_Update env l2 inst2 of
                Inl err \<Rightarrow> (inst2, l3, Some (Errorf (''failed to update instance spec: '' @ err_msg err)))
              | Inr inst3 \<Rightarrow>
                  (let inst4 = upsert env l3 inst3 k8s_Ready ConditionTrue k8s_RestoreComplete message in
                   (inst4\<lparr>inst_Status := (inst_Status inst4)\<lparr>ist_Description := description\<rparr>\<rparr>, l3, None))))"

definition setRestoreFailed ::
    "inst_env \<Rightarrow> inst_log \<Rightarrow> Instance \<Rightarrow> string \<Rightarrow> Instance \<times> inst_log \<times> go_error option" where
  "setRestoreFailed env l inst reason =
     (case ReleaseInstanceMaintenanceLock env l inst restore_owner of
        (inst1, l1, Some err) \<Rightarrow> (inst1, l1, Some (Errorf (''ReleaseInstanceMaintenanceLock failed: '' @ err_msg err)))
      | (inst1, l1, None) \<Rightarrow>
          (let l2 = l1 @ [IEvent WarningEvent ''RestoreFailed'' reason];
               inst2 = clear_restore inst1;
               l3 = l2 @ [IUpdate inst2]
           in case ie_Update env l2 inst2 of
                Inl err \<Rightarrow> (inst2, l3, Some (Errorf (''failed to update instance spec: '' @ err_msg err)))
              | Inr inst3 \<Rightarrow> (upsert env l3 inst3 k8s_Ready ConditionFalse k8s_RestoreFailed reason, l3, None)))"

definition restorePhysicalPreflightCheck ::
    "inst_env \<Rightarrow> inst_log \<Rightarrow> string \<Rightarrow> string \<Rightarrow> inst_log \<times> go_error option" where
  "restorePhysicalPreflightCheck env l namespace instName =
     (let name = instName @ ''-svc'' in
      (l @ [IGetService namespace name],
       case ie_GetService env l namespace name of
         Inl err \<Rightarrow> Some err
       | Inr ingress \<Rightarrow>
           if ingress = [] then Some (Errorf ''preflight check: physical backup: external LB is NOT ready'') else None))"

text \<open>The part of \<open>restorePhysical\<close> for a restore to a point in time: start and end SCN, start and end
  time, the PITR object's storage and the incarnation.\<close>

definition pitr_range ::
    "inst_env \<Rightarrow> inst_log \<Rightarrow> Instance \<Rightarrow> Backup \<Rightarrow> PITRRestoreSpec \<Rightarrow>
     inst_log \<times> (go_error + int \<times> int \<times> go_time option \<times> go_time option \<times> string \<times> string)" where
  "pitr_range env l inst backup spec =
     (let scns = (if prs_SCN spec = [] then Inr (0, 0)
                  else case ParseInt (map_get (bk_Annotations backup) SCNAnnotation) of
                    Inl err \<Rightarrow> Inl (Errorf (''PITR restore preflight check: failed to parse backup SCN '' @ err_msg err))
                  | Inr s \<Rightarrow>
                      (case ParseInt (prs_SCN spec) of
                         Inl err \<Rightarrow> Inl (Errorf (''PITR restore preflight check: failed to parse restore SCN '' @ err_msg err))
                       | Inr e \<Rightarrow> Inr (s, e)))
      in case scns of
           Inl err \<Rightarrow> (l, Inl err)
         | Inr (sSCN, eSCN) \<Rightarrow>
             (let times = (case prs_Timestamp spec of
                             None \<Rightarrow> Inr (None, None)
                           | Some t \<Rightarrow>
                               (case Parse_RFC3339 (map_get (bk_Annotations backup) TimestampAnnotation) of
                                  Inl err \<Rightarrow> Inl err
                                | Inr u \<Rightarrow> Inr (Some u, Some t)))
              in case times of
                   Inl err \<Rightarrow> (l, Inl err)
                 | Inr (sTime, eTime) \<Rightarrow>
                     (case findRestorePITR env l inst (Some spec) of
                        (l1, Inl err) \<Rightarrow> (l1, Inl err)
                      | (l1, Inr p) \<Rightarrow>
                          (l1, Inr (sSCN, eSCN, sTime, eTime, pitr_StorageURI p, restore_incarnation inst spec p)))))"

definition restore_range ::
    "inst_env \<Rightarrow> inst_log \<Rightarrow> Instance \<Rightarrow> RestoreSpec \<Rightarrow> Backup \<Rightarrow>
     inst_log \<times> (go_error + int \<times> int \<times> go_time option \<times> go_time option \<times> string \<times> string)" where
  "restore_range env l inst rs backup =
     (case rs_PITRRestore rs of
        None \<Rightarrow> (l, Inr (0, 0, None, None, [], map_get (bk_Labels backup) IncarnationLabel))
      | Some spec \<Rightarrow> pitr_range env l inst backup spec)"

definition physical_request ::
    "Instance \<Rightarrow> RestoreSpec \<Rightarrow> Backup \<Rightarrow> string \<Rightarrow>
     int \<times> int \<times> go_time option \<times> go_time option \<times> string \<times> string \<Rightarrow> PhysicalRestoreRequest" where
  "physical_request inst rs backup opid rng =
     (case rng of (sSCN, eSCN, sTime, eTime, logGcsPath, incarnation) \<Rightarrow>
        \<lparr>prr_InstanceName = inst_Name inst, prr_CdbName = is_CDBName (inst_Spec inst),
         prr_Dop = restoreDOP (rs_Dop rs) (bk_Dop backup), prr_LocalPath = bk_LocalPath backup,
         prr_GcsPath = bk_GcsPath backup, prr_OperationId = opid, prr_LogGcsPath = logGcsPath,
         prr_Incarnation = incarnation, prr_BackupIncarnation = map_get (bk_Labels backup) IncarnationLabel,
         prr_StartTime = sTime, prr_EndTime = eTime, prr_StartScn = sSCN, prr_EndScn = eSCN\<rparr>)"

text \<open>The checks on the backup before a physical restore.\<close>

definition check_physical :: "Backup \<Rightarrow> go_error option" where
  "check_physical backup =
     (if bk_Backupset backup = Some False
      then Some (Errorf ''preflight check: located a physical backup, but in this release the auto-restore is only supported from a Backupset backup'')
      else if bk_Subtype backup \<noteq> [] \<and> bk_Subtype backup \<noteq> ''Instance''
      then Some (Errorf (''preflight check: located a physical backup, but in this release the auto-restore is only supported from a Backupset taken at the Instance level: '' @ bk_Subtype backup))
      else None)"

definition restorePhysical ::
    "inst_env \<Rightarrow> inst_log \<Rightarrow> Instance \<Rightarrow> RestoreSpec \<Rightarrow> Backup \<Rightarrow> string \<Rightarrow>
     (inst_log \<times> (go_error + Operation)) option" where
  "restorePhysical env l inst rs backup namespace =
     (case restorePhysicalPreflightCheck env l namespace (inst_Name inst) of
        (l1, Some err) \<Rightarrow> Some (l1, Inl err)
      | (l1, None) \<Rightarrow>
          (case check_physical backup of
             Some err \<Rightarrow> Some (l1, Inl err)
           | None \<Rightarrow>
               (case restore_range env l1 inst rs backup of
                  (l2, Inl err) \<Rightarrow> Some (l2, Inl err)
                | (l2, Inr rng) \<Rightarrow>
                    (case lroRestoreOperationID physicalRestore inst of
                       None \<Rightarrow> None
                     | Some opid \<Rightarrow>
                         (let req = physical_request inst rs backup opid rng in
                          Some (l2 @ [IPhysicalRestore req],
                            case ie_PhysicalRestore env l2 req of
                              Inl err \<Rightarrow> Inl (Errorf (''failed on PhysicalRestore gRPC call: '' @ err_msg err))
                            | Inr resp \<Rightarrow> Inr resp))))))"

subsection \<open>The cases of the state machine\<close>

type_synonym restore_result = "Instance \<times> inst_log \<times> ctrl_Result \<times> go_error option"

text \<open>\<open>r.Status().Update(ctx, inst)\<close> as the error that ends a case.\<close>

definition commit :: "inst_env \<Rightarrow> inst_log \<Rightarrow> Instance \<Rightarrow> ctrl_Result \<Rightarrow> restore_result" where
  "commit env l inst res = (inst, l @ [IStatusUpdate inst], res, ie_StatusUpdate env l inst)"

text \<open>\<open>setRestoreFailed\<close>, whose own error goes before \<open>err\<close>.\<close>

definition restore_failed :: "inst_env \<Rightarrow> inst_log \<Rightarrow> Instance \<Rightarrow> string \<Rightarrow> go_error option \<Rightarrow> restore_result" where
  "restore_failed env l inst reason err =
     (case setRestoreFailed env l inst reason of
        (inst1, l1, Some e) \<Rightarrow> (inst1, l1, Result_zero, Some e)
      | (inst1, l1, None) \<Rightarrow> (inst1, l1, Result_zero, err))"

definition restore_entry :: "inst_env \<Rightarrow> inst_log \<Rightarrow> Instance \<Rightarrow> RestoreSpec \<Rightarrow> restore_result" where
  "restore_entry env l inst rs =
     (if rs_BackupType rs \<noteq> ''Snapshot'' \<and> rs_BackupType rs \<noteq> ''Physical'' then (inst, l, Result_zero, None)
      else if (case ist_LastRestoreTime (inst_Status inst) of
                 None \<Rightarrow> False | Some t \<Rightarrow> \<not> Rfc3339Copy (rs_RequestTime rs) > t)
      then (inst, l, Result_zero, None)
      else case AcquireInstanceMaintenanceLock env l inst restore_owner of
        (inst1, l1, Some e) \<Rightarrow> (inst1, l1, requeue_in (5 * Second), Some e)
      | (inst1, l1, None) \<Rightarrow>
          (let inst2 = inst1\<lparr>inst_Status := (inst_Status inst1)
                 \<lparr>ist_LastRestoreTime := Some (rs_RequestTime rs), ist_BackupID := []\<rparr>\<rparr>;
               inst3 = upsert env l1 inst2 k8s_Ready ConditionFalse k8s_RestorePreparationInProgress []
           in (inst3, l1 @ [IStatusUpdate inst3],
               if ie_StatusUpdate env l1 inst3 = None then requeue_now else Result_zero, ie_StatusUpdate env l1 inst3)))"

definition restore_preparation :: "inst_env \<Rightarrow> inst_log \<Rightarrow> Instance \<Rightarrow> RestoreSpec \<Rightarrow> StsParams \<Rightarrow> restore_result" where
  "restore_preparation env l inst rs sp =
     (let next = (\<lambda>l1. (upsert env l1 inst k8s_Ready ConditionFalse k8s_RestorePreparationComplete [], l1, requeue_now, None)) in
      if rs_BackupType rs = ''Snapshot'' then
        (case deleteOldSTSandPVCs env l inst sp of
           (l1, Inl err) \<Rightarrow> restore_failed env l1 inst (err_msg err) (Some err)
         | (l1, Inr gone) \<Rightarrow> if \<not> gone then (inst, l1, requeue_in (5 * Second), None) else next l1)
      else next l)"

definition done_message :: "go_time \<Rightarrow> Instance \<Rightarrow> string" where
  "done_message now inst =
     ''Physical restore done. Elapsed Time: '' @
     duration_String (ElapsedTimeFromLastTransitionTime now (inst_cond inst k8s_Ready))"

definition restore_launch ::
    "inst_env \<Rightarrow> inst_log \<Rightarrow> Instance \<Rightarrow> RestoreSpec \<Rightarrow> StsParams \<Rightarrow> Backup \<Rightarrow> string \<Rightarrow> restore_result option" where
  "restore_launch env l inst rs sp backup namespace =
     (let inst1 = upsert env l inst k8s_Ready ConditionFalse k8s_RestoreInProgress []; l1 = l @ [IStatusUpdate inst1] in
      case ie_StatusUpdate env l inst1 of
        Some err \<Rightarrow> Some (inst1, l1, Result_zero, Some err)
      | None \<Rightarrow>
          if rs_BackupType rs = ''Snapshot'' then
            (case restoreSnapshot env l1 inst1 sp inst1 of
               (l2, Some err) \<Rightarrow> Some (inst1, l2, Result_zero, Some err)
             | (l2, None) \<Rightarrow> Some (inst1, l2, requeue_now, None))
          else if rs_BackupType rs = ''Physical'' then
            (case restorePhysical env l1 inst1 rs backup namespace of
               None \<Rightarrow> None
             | Some (l2, Inl err) \<Rightarrow>
                 if IsAlreadyExistsError err then Some (inst1, l2, requeue_now, None)
                 else Some (inst1, l2, Result_zero, Some err)
             | Some (l2, Inr operation) \<Rightarrow>
                 if \<not> op_Done operation then Some (inst1, l2, requeue_now, None)
                 else (case setRestoreSucceeded env l2 inst1 rs (done_message (ie_now env l2) inst1) of
                         (inst2, l3, Some e) \<Rightarrow> Some (inst2, l3, Result_zero, Some e)
                       | (inst2, l3, None) \<Rightarrow> Some (inst2, l3, requeue_now, None)))
          else Some (inst1, l1, requeue_now, None))"

text \<open>Whether the restore is done, and its error.\<close>

definition restore_poll ::
    "inst_env \<Rightarrow> inst_log \<Rightarrow> Instance \<Rightarrow> RestoreSpec \<Rightarrow> (inst_log \<times> bool \<times> go_error option) option" where
  "restore_poll env l inst rs =
     (if rs_BackupType rs = ''Snapshot''
      then (case isSnapshotRestoreDone env l inst of (l1, fin) \<Rightarrow> Some (l1, fin, None))
      else case lroRestoreOperationID physicalRestore inst of
        None \<Rightarrow> None
      | Some opid \<Rightarrow>
          (case IsLROOperationDone env l opid of
             (l1, fin, err) \<Rightarrow>
               if \<not> fin then Some (l1, fin, err)
               else (let l2 = l1 @ [IDeleteLRO opid]; now = ie_now env l2 in
                 Some (l2, fin, map_option (\<lambda>e. Errorf (''Failed to restore on '' @ Format_date time_Local now @ ''-'' @
                   itoa (time_Nanosecond now) @ '' from backup '' @ rs_BackupID rs @ '' (type '' @ rs_BackupType rs @
                   ''): '' @ err_msg e @ ''.'')) err))))"

definition restore_in_progress :: "inst_env \<Rightarrow> inst_log \<Rightarrow> Instance \<Rightarrow> RestoreSpec \<Rightarrow> restore_result option" where
  "restore_in_progress env l inst rs =
     (if rs_BackupType rs \<noteq> ''Snapshot'' \<and> rs_BackupType rs \<noteq> ''Physical''
      then Some (restore_failed env l inst ''Unknown restore type'' None)
      else case restore_poll env l inst rs of
        None \<Rightarrow> None
      | Some (l1, fin, err) \<Rightarrow> Some
          (if \<not> fin then (if err \<noteq> None then (inst, l1, Result_zero, err) else (inst, l1, requeue_in (10 * Second), None))
           else case err of
             Some e \<Rightarrow> restore_failed env l1 inst (err_msg e) (Some e)
           | None \<Rightarrow> commit env l1 (upsert env l1 inst k8s_Ready ConditionFalse k8s_PostRestoreBootstrapInProgress []) requeue_now))"

definition restore_bootstrap :: "inst_env \<Rightarrow> inst_log \<Rightarrow> Instance \<Rightarrow> RestoreSpec \<Rightarrow> restore_result" where
  "restore_bootstrap env l inst rs =
     (let next = (\<lambda>l1. commit env l1 (upsert env l1 inst k8s_Ready ConditionFalse k8s_PostRestoreBootstrapComplete []) requeue_now) in
      if rs_BackupType rs = ''Snapshot'' then
        (case isOracleUpAndRunning env l inst of
           (l1, Inl err) \<Rightarrow> (inst, l1, Result_zero, Some err)
         | (l1, Inr oracleRunning) \<Rightarrow> if \<not> oracleRunning then (inst, l1, requeue_in (10 * Second), None) else next l1)
      else if rs_BackupType rs = ''Physical'' then
        (let req = \<lparr>bdr_CdbName = is_CDBName (inst_Spec inst), bdr_DbUniqueName = is_DBUniqueName (inst_Spec inst),
                    bdr_Dbdomain = GetDBDomain inst, bdr_Mode = ''Restore''\<rparr>;
             l1 = l @ [IBootstrapDatabase req]
         in case ie_BootstrapDatabase env l req of
              Some err \<Rightarrow> restore_failed env l1 inst (''Post restore bootstrap failed with '' @ err_msg err) None
            | None \<Rightarrow> next l1)
      else next l)"

text \<open>After a failure to start or to check datapatch the error of \<open>setRestoreFailed\<close> is dropped.\<close>

definition datapatch_failed :: "inst_env \<Rightarrow> inst_log \<Rightarrow> Instance \<Rightarrow> string \<Rightarrow> go_error \<Rightarrow> restore_result" where
  "datapatch_failed env l inst message err =
     (let inst1 = upsert env l inst k8s_Ready ConditionFalse k8s_RestoreFailed message in
      case setRestoreFailed env l inst1 (''Post restore database patching failed with '' @ err_msg err) of
        (inst2, l1, _) \<Rightarrow> (inst2, l1, Result_zero, None))"

definition restore_bootstrapped :: "inst_env \<Rightarrow> inst_log \<Rightarrow> Instance \<Rightarrow> RestoreSpec \<Rightarrow> Backup \<Rightarrow> restore_result" where
  "restore_bootstrapped env l inst rs backup =
     (if map_get (bk_Annotations backup) DatabaseImageAnnotation = map_get (ist_ActiveImages (inst_Status inst)) ''service''
      then (case setRestoreSucceeded env l inst rs (restored_description (ie_now env l) rs) of
              (inst1, l1, _) \<Rightarrow> commit env l1 inst1 Result_zero)
      else case startDatabasePatching env l inst of
        (l1, Some err) \<Rightarrow> datapatch_failed env l1 inst ''Failed to start database patching'' err
      | (l1, None) \<Rightarrow> commit env l1 (upsert env l1 inst k8s_Ready ConditionFalse
                        k8s_PostRestoreDatabasePatchingInProgress ''Calling ApplyDataPatch()'') requeue_now)"

definition restore_datapatch :: "inst_env \<Rightarrow> inst_log \<Rightarrow> Instance \<Rightarrow> RestoreSpec \<Rightarrow> restore_result" where
  "restore_datapatch env l inst rs =
     (case isDatabasePatchingDone env l inst of
        (l1, fin, Some err) \<Rightarrow> datapatch_failed env l1 inst ''Failed to check datapatch status'' err
      | (l1, fin, None) \<Rightarrow>
          if \<not> fin then (inst, l1, requeue_in (10 * Second), None)
          else (case setRestoreSucceeded env l1 inst rs (restored_description (ie_now env l1) rs) of
                  (inst1, l2, Some e) \<Rightarrow> (inst1, l2, Result_zero, Some e)
                | (inst1, l2, None) \<Rightarrow> (inst1, l2, requeue_now, None)))"

definition restore_switch ::
    "inst_env \<Rightarrow> inst_log \<Rightarrow> string \<Rightarrow> Instance \<Rightarrow> RestoreSpec \<Rightarrow> StsParams \<Rightarrow> Backup \<Rightarrow> string \<Rightarrow> restore_result option" where
  "restore_switch env l r inst rs sp backup namespace =
     (if r = k8s_RestoreComplete \<or> r = k8s_CreateComplete \<or> r = k8s_RestoreFailed then Some (restore_entry env l inst rs)
      else if r = k8s_RestorePreparationInProgress then Some (restore_preparation env l inst rs sp)
      else if r = k8s_RestorePreparationComplete then restore_launch env l inst rs sp backup namespace
      else if r = k8s_RestoreInProgress then restore_in_progress env l inst rs
      else if r = k8s_PostRestoreBootstrapInProgress then Some (restore_bootstrap env l inst rs)
      else if r = k8s_PostRestoreBootstrapComplete then Some (restore_bootstrapped env l inst rs backup)
      else if r = k8s_PostRestoreDatabasePatchingInProgress then Some (restore_datapatch env l inst rs)
      else Some (inst, l, Result_zero, None))"

definition restoreStateMachine ::
    "inst_env \<Rightarrow> inst_log \<Rightarrow> Condition option \<Rightarrow> Condition option \<Rightarrow> Instance \<Rightarrow> StsParams \<Rightarrow> string \<Rightarrow>
     restore_result option" where
  "restoreStateMachine env l instanceReadyCond dbInstanceCond inst sp namespace =
     (case instanceReadyCond of
        None \<Rightarrow> Some (inst, l, Result_zero, None)
      | Some ready \<Rightarrow>
          if Reason ready = k8s_CreateInProgress then Some (inst, l, Result_zero, None)
          else if dbInstanceCond = None \<or>
              \<not> ConditionReasonEquals dbInstanceCond k8s_RestorePending \<and> \<not> ConditionReasonEquals dbInstanceCond k8s_CreateComplete
          then Some (inst, l, Result_zero, None)
          else case is_Restore (inst_Spec inst) of
            None \<Rightarrow> None
          | Some rs \<Rightarrow>
              if \<not> rs_Force rs then Some (inst, l, Result_zero, None)
              else (case findBackupForRestore env l inst rs namespace of
                 (l1, Inl err) \<Rightarrow> Some (restore_failed env l1 inst
                    (''Could not find a matching backup for BackupID: '' @ rs_BackupID rs @ '', BackupType: '' @
                     rs_BackupType rs @ ''. Error message: '' @ err_msg err) None)
               | (l1, Inr backup) \<Rightarrow>
                   (let backupReadyCond = FindCondition (bk_Conditions backup) k8s_Ready in
                    if \<not> ConditionStatusEquals backupReadyCond ConditionTrue then
                      (if ConditionReasonEquals backupReadyCond k8s_BackupFailed
                       then Some (restore_failed env l1 inst ''Backup is in failed state'' None)
                       else Some (inst, l1, requeue_in (10 * Second), None))
                    else restore_switch env l1 (Reason ready) inst rs sp backup namespace)))"

end
