(* ===== verification/Dates.thy ===== *)
theory Dates
  imports GoStd
begin

text \<open>
  Writing a time in RFC 3339 and reading it back. The calendar arithmetic behind \<open>time.Time.Format\<close> and
  \<open>time.Parse\<close> is inverse, and the fields are read as they were written. The operator keys long running
  operations and backups by such texts.
\<close>

subsection \<open>The calendar\<close>

text \<open>A day within an era of 400 years, counted from 1 March: century, block of four years, year in the
  block and day of the year. Only the last year of a block may have a day 365, and not in the last block
  of a century, except the last.\<close>

definition era_day :: "int \<Rightarrow> int \<Rightarrow> int \<Rightarrow> int \<Rightarrow> bool" where
  "era_day c f g d \<longleftrightarrow> 0 \<le> c \<and> c \<le> 3 \<and> 0 \<le> f \<and> f \<le> 24 \<and> 0 \<le> g \<and> g \<le> 3 \<and> 0 \<le> d \<and>
     (d \<le> 364 \<or> d = 365 \<and> g = 3 \<and> (f \<noteq> 24 \<or> c = 3))"

lemma era_day_exists:
  assumes "0 \<le> doe" and "doe < 146097"
  obtains c f g d where "era_day c f g d" and "doe = 36524 * c + 1461 * f + 365 * g + d"
proof -
  define c where "c = min 3 (doe div 36524)"
  define r where "r = doe - 36524 * c"
  have c: "0 \<le> c" "c \<le> 3" and r: "0 \<le> r" "r < 36524 \<or> c = 3 \<and> r = 36524"
    using assms unfolding c_def r_def by (auto simp: min_def)
  define f where "f = r div 1461"
  define s where "s = r - 1461 * f"
  have f: "0 \<le> f" "f \<le> 24" and s: "0 \<le> s" "s \<le> 1460" "f = 24 \<longrightarrow> s \<le> 1459 \<or> c = 3"
    using r unfolding f_def s_def by auto
  define g where "g = min 3 (s div 365)"
  define d where "d = s - 365 * g"
  have g: "0 \<le> g" "g \<le> 3" and d: "0 \<le> d" "d \<le> 364 \<or> d = 365 \<and> g = 3 \<and> s = 1460"
    using s unfolding g_def d_def by (auto simp: min_def)
  have "era_day c f g d" using c f g d s by (auto simp: era_day_def)
  moreover have "doe = 36524 * c + 1461 * f + 365 * g + d" by (simp add: r_def s_def d_def)
  ultimately show thesis by (rule that)
qed

lemma year_of_era:
  assumes "era_day c f g d" and "doe = 36524 * c + 1461 * f + 365 * g + d"
  shows "(doe - doe div 1460 + doe div 36524 - doe div 146096) div 365 = 100 * c + 4 * f + g"
proof (cases "doe = 146096")
  case True
  with assms have "c = 3" "f = 24" "g = 3" "d = 365" by (auto simp: era_day_def)
  with True show ?thesis by simp
next
  case False
  note a = assms(1) [unfolded era_day_def]
  have lt: "doe < 146096" "36524 * c \<le> doe" "doe < 36524 * (c + 1)"
    using a assms(2) False by auto
  then have q: "doe div 146096 = 0" "doe div 36524 = c"
    using a assms(2) by (auto intro!: div_pos_pos_trivial int_div_pos_eq [of _ _ c "doe - 36524 * c"])
  let ?s = "24 * c + f + 365 * g + d"
  have s: "doe = 1460 * (25 * c + f) + ?s" using assms(2) by simp
  show ?thesis
  proof (cases "?s < 1460")
    case True
    then have "doe div 1460 = 25 * c + f" using s a by (intro int_div_pos_eq) auto
    then show ?thesis using q a assms(2) by (intro int_div_pos_eq [of _ _ _ "d"]) auto
  next
    case False
    then have g: "g = 3" and "?s < 2920" using a by auto
    then have "doe div 1460 = 25 * c + f + 1" using s False by (intro int_div_pos_eq [of _ _ _ "?s - 1460"]) auto
    then show ?thesis using q a assms(2) False g by (intro int_div_pos_eq [of _ _ _ "d - 1"]) auto
  qed
qed

text \<open>The month of a day of the year counted from 1 March, with 1 March in month 0, and the day in it.\<close>

lemma month_of_year_day:
  fixes d :: int
  assumes "0 \<le> d" and "d \<le> 365"
  defines "mp \<equiv> (5 * d + 2) div 153"
  defines "m \<equiv> (if mp < 10 then mp + 3 else mp - 9)"
  defines "day \<equiv> d - (153 * mp + 2) div 5 + 1"
  shows "0 \<le> mp" "mp \<le> 11" "1 \<le> day" "day \<le> 31"
    and "m \<in> {4, 6, 9, 11} \<Longrightarrow> day \<le> 30" and "m = 2 \<Longrightarrow> day \<le> 29" and "m = 2 \<Longrightarrow> d \<le> 364 \<Longrightarrow> day \<le> 28"
proof -
  have mp: "0 \<le> mp" "mp \<le> 11" "153 * mp \<le> 5 * d + 2" "5 * d + 2 < 153 * mp + 153"
    using assms(1,2) unfolding mp_def by auto
  from mp(1,2) have "mp = 0 \<or> mp = 1 \<or> mp = 2 \<or> mp = 3 \<or> mp = 4 \<or> mp = 5 \<or> mp = 6 \<or> mp = 7 \<or>
      mp = 8 \<or> mp = 9 \<or> mp = 10 \<or> mp = 11" by presburger
  then have "1 \<le> day \<and> day \<le> 31 \<and> (m \<in> {4, 6, 9, 11} \<longrightarrow> day \<le> 30) \<and> (m = 2 \<longrightarrow> day \<le> 29) \<and>
      (m = 2 \<longrightarrow> d \<le> 364 \<longrightarrow> day \<le> 28)"
    using mp assms(1,2) unfolding m_def day_def by (elim disjE) simp_all
  with mp show "0 \<le> mp" "mp \<le> 11" "1 \<le> day" "day \<le> 31" "m \<in> {4, 6, 9, 11} \<Longrightarrow> day \<le> 30"
    "m = 2 \<Longrightarrow> day \<le> 29" "m = 2 \<Longrightarrow> d \<le> 364 \<Longrightarrow> day \<le> 28" by blast+
qed

text \<open>A day's date is a date of the calendar, and gives the day back.\<close>

lemma civil_days:
  assumes "civil_from_days n = (y, m, d)"
  shows "1 \<le> m" "m \<le> 12" "1 \<le> d" "d \<le> days_in_month y m" "days_from_civil y m d = n"
proof -
  define z where "z = n + 306"
  define era where "era = z div 146097"
  define doe where "doe = z mod 146097"
  have "0 \<le> doe" "doe < 146097" by (simp_all add: doe_def)
  then obtain c f g e where eg: "era_day c f g e" "doe = 36524 * c + 1461 * f + 365 * g + e"
    by (rule era_day_exists)
  define yoe where "yoe = 100 * c + 4 * f + g"
  note a = eg(1) [unfolded era_day_def]
  have yoe: "0 \<le> yoe" "yoe < 400" "yoe div 4 = 25 * c + f" "yoe div 100 = c"
    using a unfolding yoe_def
    by (auto intro!: int_div_pos_eq [of _ _ _ g] int_div_pos_eq [of _ 100 _ "4 * f + g"])
  have doy: "doe - (365 * yoe + yoe div 4 - yoe div 100) = e"
    using eg(2) yoe by (simp add: yoe_def)
  define mp where "mp = (5 * e + 2) div 153"
  have e: "0 \<le> e" "e \<le> 365" using a by auto
  note month = month_of_year_day [OF e, folded mp_def]
  define k where "k = (153 * mp + 2) div 5"
  have m: "m = (if mp < 10 then mp + 3 else mp - 9)" and d: "d = e - k + 1"
    and y: "y = yoe + era * 400 + (if m \<le> 2 then 1 else 0)"
    using assms unfolding civil_from_days_def Let_def z_def [symmetric]
      era_def [symmetric] doe_def [symmetric] year_of_era [OF eg, folded yoe_def] doy mp_def [symmetric]
      k_def [symmetric] by auto
  show m12: "1 \<le> m" "m \<le> 12" using month(1,2) m by (auto split: if_splits)
  show "1 \<le> d" using month(3) d by (simp add: k_def)
  show "d \<le> days_in_month y m"
  proof (cases "m = 2")
    case True
    show ?thesis
    proof (cases "e \<le> 364")
      case False
      then have g: "g = 3" "f \<noteq> 24 \<or> c = 3" using a by auto
      then have y4: "y = 4 * (25 * c + f + 1 + 100 * era)" using y True by (simp add: yoe_def)
      have "y mod 100 \<noteq> 0 \<or> y mod 400 = 0"
      proof (cases "f = 24")
        case True
        then have "y = 400 * (1 + era)" using g y4 by simp
        then show ?thesis by simp
      next
        case False
        then have "y = 100 * (c + 4 * era) + 4 * (f + 1)" "0 < 4 * (f + 1)" "4 * (f + 1) < 100"
          using a y4 by auto
        then have "y mod 100 = 4 * (f + 1)" by (intro int_mod_pos_eq [of _ _ "c + 4 * era"]) auto
        with \<open>0 < 4 * (f + 1)\<close> show ?thesis by linarith
      qed
      moreover have "y mod 4 = 0" using y4 by simp
      ultimately show ?thesis using True month(6) m d by (auto simp: days_in_month_def k_def)
    qed (use True month(7) m d in \<open>auto simp: days_in_month_def k_def\<close>)
  qed (use month(4,5) m d in \<open>auto simp: days_in_month_def k_def\<close>)
  have y': "(if m \<le> 2 then y - 1 else y) = yoe + era * 400" using y by simp
  have "(yoe + era * 400) div 400 = era" "(yoe + era * 400) mod 400 = yoe" using yoe by auto
  moreover have "(if m > 2 then m - 3 else m + 9) = mp" using m month(1,2) by auto
  moreover have "doe = yoe * 365 + yoe div 4 - yoe div 100 + e" using doy by simp
  moreover have "n = era * 146097 + doe - 306" by (simp add: era_def doe_def z_def)
  ultimately show "days_from_civil y m d = n"
    unfolding days_from_civil_def Let_def y' by (simp add: k_def [symmetric] d)
qed

lemma civil_year:
  assumes "civil_from_days n = (y, m, d)" and "0 \<le> n" and "n < 3652059"
  shows "0 \<le> y" "y \<le> 9999"
proof -
  note c = civil_days [OF assms(1)]
  have dim: "days_in_month y m \<le> 31" by (simp add: days_in_month_def)
  define y' where "y' = (if m \<le> 2 then y - 1 else y)"
  define q where "q = (153 * (if m > 2 then m - 3 else m + 9) + 2) div 5"
  have yoe: "0 \<le> y' mod 400" "y' mod 400 \<le> 399" "y' = 400 * (y' div 400) + y' mod 400"
    by (simp_all add: pos_mod_bound [of 400 y', simplified])
  have q: "0 \<le> q" "q \<le> 337" "m \<le> 2 \<Longrightarrow> 306 \<le> q" using c(1,2) unfolding q_def by auto
  have n: "n = y' div 400 * 146097 + (y' mod 400 * 365 + y' mod 400 div 4 - y' mod 400 div 100 + (q + d - 1)) - 306"
    using c(5) unfolding days_from_civil_def Let_def y'_def [symmetric] q_def [symmetric] by simp
  have leap: "y' mod 400 div 100 \<le> y' mod 400 div 4" "y' mod 400 div 4 \<le> 99" "0 \<le> y' mod 400 div 100"
    using yoe by auto
  show "0 \<le> y"
  proof (rule ccontr)
    assume "\<not> 0 \<le> y"
    then have "y' div 400 \<le> - 1" by (auto simp: y'_def)
    then show False using n yoe q leap c(4) dim assms(2) by linarith
  qed
  show "y \<le> 9999"
  proof (rule ccontr)
    assume "\<not> y \<le> 9999"
    then have "m \<le> 2 \<and> y' = 9999 \<or> 10000 \<le> y'" unfolding y'_def by auto
    then consider "m \<le> 2" "y' = 9999" | "y' div 400 \<ge> 25" by fastforce
    then show False
    proof cases
      case 1
      then show False using n q(3) c(3) assms(3) by simp
    next
      case 2
      then show False using n yoe q leap c(3) assms(3) by linarith
    qed
  qed
qed

subsection \<open>Fields\<close>

lemma digit_val_char: "n < 10 \<Longrightarrow> digit_val (char_of (48 + n)) = Some (int n)"
  by (simp add: digit_val_def Let_def)

lemma digits_val_append:
  "digits_val (s @ t) acc = Option.bind (digits_val s acc) (digits_val t)"
  by (induction s acc rule: digits_val.induct) (auto split: option.splits)

lemma digits_val_digits_nat:
  "digits_val (digits_nat n) 0 = Some (int n)" "digits_nat n \<noteq> []"
proof (induction n rule: digits_nat.induct)
  case (1 n)
  show "digits_val (digits_nat n) 0 = Some (int n)"
  proof (cases "n < 10")
    case True
    then show ?thesis by (subst digits_nat.simps) (simp add: digit_val_char)
  next
    case False
    then have "digits_val (digits_nat n) 0 = Some (int (n div 10) * 10 + int (n mod 10))"
      using 1 by (subst digits_nat.simps) (simp add: digits_val_append digit_val_char)
    also have "int (n div 10) * 10 + int (n mod 10) = int n"
      by (metis mult.commute div_mult_mod_eq of_nat_add of_nat_mult of_nat_numeral)
    finally show ?thesis .
  qed
  show "digits_nat n \<noteq> []" by (subst digits_nat.simps) simp
qed

lemma digits_val_zeros: "digits_val (replicate k (CHR ''0'') @ s) 0 = digits_val s 0"
proof (induction k)
  case (Suc k)
  have "digit_val (CHR ''0'') = Some 0" by code_simp
  with Suc show ?case by simp
qed simp

lemma length_digits_nat: "n < 10 ^ Suc w \<Longrightarrow> length (digits_nat n) \<le> Suc w"
proof (induction w arbitrary: n)
  case 0
  then show ?case by (subst digits_nat.simps) simp
next
  case (Suc w)
  show ?case
  proof (cases "n < 10")
    case False
    have "n div 10 < 10 ^ Suc w" using Suc.prems by (simp add: div_less_iff_less_mult)
    with Suc.IH False show ?thesis by (subst digits_nat.simps) simp
  qed (subst digits_nat.simps, simp)
qed

lemma pad_field:
  assumes "0 \<le> n" and "n < 10 ^ Suc w"
  shows "length (pad (Suc w) n) = Suc w" and "unsigned_val (pad (Suc w) n) = Some n"
proof -
  have "nat n < 10 ^ Suc w" using assms by (simp add: nat_less_iff)
  then have len: "length (itoa n) \<le> Suc w" using length_digits_nat assms(1) by (simp add: itoa_def)
  then show "length (pad (Suc w) n) = Suc w" by (simp add: pad_def Let_def)
  have "itoa n \<noteq> []" "digits_val (itoa n) 0 = Some n"
    using digits_val_digits_nat [of "nat n"] assms(1) by (simp_all add: itoa_def)
  then show "unsigned_val (pad (Suc w) n) = Some n"
    by (simp add: unsigned_val_def pad_def Let_def digits_val_zeros)
qed

text \<open>A padded number is read back and the rest is left.\<close>

lemma field_pad:
  assumes "w > 0" "0 \<le> n" "n < 10 ^ w" "lo \<le> n" "n \<le> hi"
  shows "field w (pad w n @ s) lo hi = Some (n, s)"
proof -
  obtain v where w: "w = Suc v" using assms(1) by (cases w) auto
  have "length (pad w n) = w" "unsigned_val (pad w n) = Some n" using pad_field assms w by auto
  then show ?thesis using assms(4,5) by (simp add: field_def)
qed

lemma lit_same [simp]: "lit c (c # s) = Some s"
  by (simp add: lit_def)

text \<open>Reading back the text of a time between the years 1 and 9999 gives the time without the fraction of
  its second, as \<open>Rfc3339Copy\<close> does.\<close>

definition valid_time :: "go_time \<Rightarrow> bool" where
  "valid_time t \<longleftrightarrow> 0 \<le> t \<and> t < 3652059 * Day"

lemma Parse_Format_RFC3339:
  assumes "valid_time t"
  shows "Parse_RFC3339 (Format_RFC3339 time_Local t) = Inr (Rfc3339Copy t)"
proof -
  define n s where "n = t div Day" and "s = (t mod Day) div Second"
  obtain y m d where c: "civil_from_days n = (y, m, d)" by (metis prod_cases3)
  have n: "0 \<le> n" "n < 3652059" using assms by (auto simp: n_def valid_time_def)
  note date = civil_days [OF c] and year = civil_year [OF c n]
  have dim: "days_in_month y m \<le> 31" by (simp add: days_in_month_def)
  have s: "0 \<le> s" "s < 86400" by (auto simp: s_def)
  then have fields: "0 \<le> s div 3600" "s div 3600 \<le> 23" "0 \<le> s div 60 mod 60" "s div 60 mod 60 \<le> 59"
    "0 \<le> s mod 60" "s mod 60 \<le> 59" by auto
  have hms: "s div 3600 * 3600 + s div 60 mod 60 * 60 + s mod 60 = s"
  proof -
    have "s div 3600 = s div 60 div 60" using zdiv_zmult2_eq [of 60 s 60] by simp
    then have "s div 3600 * 3600 + s div 60 mod 60 * 60 = (s div 60 div 60 * 60 + s div 60 mod 60) * 60"
      by (simp only: distrib_right mult.assoc)
    then show ?thesis by (simp only: div_mult_mod_eq)
  qed
  have "Format_RFC3339 time_Local t = pad 4 y @ CHR ''-'' # pad 2 m @ CHR ''-'' # pad 2 d @ CHR ''T'' #
      pad 2 (s div 3600) @ CHR '':'' # pad 2 (s div 60 mod 60) @ CHR '':'' # pad 2 (s mod 60) @ ''Z''"
    using c by (simp add: Format_RFC3339_def zone_text_def time_Local_def time_UTC_def in_zone_def Let_def n_def [symmetric] s_def [symmetric])
  moreover have "field 4 (pad 4 y @ r) 0 9999 = Some (y, r)" "field 2 (pad 2 m @ r) 1 12 = Some (m, r)"
    "field 2 (pad 2 d @ r) 1 (days_in_month y m) = Some (d, r)" for r
    using date(1-4) year dim by (auto intro!: field_pad)
  moreover have "field 2 (pad 2 (s div 3600) @ r) 0 23 = Some (s div 3600, r)"
    "field 2 (pad 2 (s div 60 mod 60) @ r) 0 59 = Some (s div 60 mod 60, r)"
    "field 2 (pad 2 (s mod 60) @ r) 0 59 = Some (s mod 60, r)" for r
    using fields by (auto intro!: field_pad)
  moreover have "fraction ''Z'' = Some (0, ''Z'')" "zone ''Z'' = Some 0"
    by (simp_all add: fraction_def zone_def)
  ultimately have "Parse_RFC3339_opt (Format_RFC3339 time_Local t) =
      Some (days_from_civil y m d * Day + (s div 3600 * 3600 + s div 60 mod 60 * 60 + s mod 60) * Second + 0 - 0)"
    by (simp only: Parse_RFC3339_opt_def Option.bind.simps prod.case lit_same option.map)
  then have "Parse_RFC3339_opt (Format_RFC3339 time_Local t) =
      Some (days_from_civil y m d * Day + (s div 3600 * 3600 + s div 60 mod 60 * 60 + s mod 60) * Second)"
    by (simp only: add_0_right diff_0_right)
  also have "days_from_civil y m d * Day + (s div 3600 * 3600 + s div 60 mod 60 * 60 + s mod 60) * Second = n * Day + s * Second"
    by (simp only: hms date(5))
  also have "n * Day + s * Second = Rfc3339Copy t"
  proof -
    have "t mod Day mod Second = t mod Second" by (rule mod_mod_cancel) simp
    then have "s * Second = t mod Day - t mod Second"
      unfolding s_def by (metis minus_mod_eq_div_mult)
    then show ?thesis using div_mult_mod_eq [of t Day] by (simp add: n_def Rfc3339Copy_def)
  qed
  finally show ?thesis by (simp add: Parse_RFC3339_def)
qed

lemma Format_RFC3339_eq:
  assumes "valid_time t" and "valid_time u" and "Format_RFC3339 time_Local t = Format_RFC3339 time_Local u"
  shows "Rfc3339Copy t = Rfc3339Copy u"
  using Parse_Format_RFC3339 [OF assms(1)] Parse_Format_RFC3339 [OF assms(2)] assms(3) by simp

end
