(* ===== verification/RestoreRun.thy ===== *)
theory RestoreRun
  imports Restore Dates
begin

text \<open>
  The restore state machine over many reconciles: a physical restore is launched at most once for each
  request, even when updates of the status are lost; what a launch requires; that a restore ends when the
  calls succeed; and where it gets stuck.
\<close>

subsection \<open>Calls\<close>

text \<open>\<open>grows l l' P\<close>: the log grew from \<open>l\<close> to \<open>l'\<close> by calls that satisfy \<open>P\<close>.\<close>

definition grows :: "inst_log \<Rightarrow> inst_log \<Rightarrow> (inst_call \<Rightarrow> bool) \<Rightarrow> bool" where
  "grows l l' P \<longleftrightarrow> (\<exists>cs. l' = l @ cs \<and> (\<forall>c \<in> set cs. P c))"

lemma grows_refl [simp, intro]: "grows l l P"
  by (simp add: grows_def)

lemma grows_calls [simp]: "grows l (l @ cs) P \<longleftrightarrow> (\<forall>c \<in> set cs. P c)"
  by (simp add: grows_def)

lemma grows_trans: "grows l l1 P \<Longrightarrow> grows l1 l2 P \<Longrightarrow> grows l l2 P"
  by (fastforce simp: grows_def)

lemma grows_mono: "grows l l' P \<Longrightarrow> (\<And>c. P c \<Longrightarrow> Q c) \<Longrightarrow> grows l l' Q"
  by (auto simp: grows_def)

lemma grows_then [simp]: "grows l l1 P \<Longrightarrow> grows l (l1 @ cs) P \<longleftrightarrow> (\<forall>c \<in> set cs. P c)"
  by (auto simp: grows_def)

lemma grows_first: "grows (l @ [c]) l' P \<Longrightarrow> P c \<Longrightarrow> grows l l' P"
  by (auto simp: grows_def)

text \<open>Calls that neither write the instance nor launch a physical restore.\<close>

fun plain_call :: "inst_call \<Rightarrow> bool" where
  "plain_call (IStatusUpdate _) = False"
| "plain_call (IUpdate _) = False"
| "plain_call (IPhysicalRestore _) = False"
| "plain_call _ = True"

text \<open>Calls that change the database or its storage.\<close>

fun invasive :: "inst_call \<Rightarrow> bool" where
  "invasive (IDeleteSTS _ _) = True"
| "invasive (IDeletePVC _ _) = True"
| "invasive (ICreateOrUpdateSTS _) = True"
| "invasive (IPhysicalRestore _) = True"
| "invasive (IBootstrapDatabase _) = True"
| "invasive (IApplyDataPatch _) = True"
| "invasive _ = False"

abbreviation reading :: "inst_call \<Rightarrow> bool" where
  "reading c \<equiv> plain_call c \<and> \<not> invasive c"

lemma findRestorePITR_reading: "findRestorePITR env l inst spec = (l', r) \<Longrightarrow> grows l l' reading"
  by (auto simp: findRestorePITR_def split: option.splits sum.splits if_splits)

lemma findPITRBackupForRestore_reading:
  "findPITRBackupForRestore env l inst spec = (l', r) \<Longrightarrow> grows l l' reading"
  by (auto simp: findPITRBackupForRestore_def Let_def dest!: findRestorePITR_reading
      split: if_splits prod.splits sum.splits list.splits)

lemma findBackupForRestore_reading:
  "findBackupForRestore env l inst rs ns = (l', r) \<Longrightarrow> grows l l' reading"
  by (auto simp: findBackupForRestore_def Let_def dest: findPITRBackupForRestore_reading
      split: if_splits prod.splits sum.splits option.splits)

lemma reading_plain: "grows l l' reading \<Longrightarrow> grows l l' plain_call"
  by (auto simp: grows_def)

lemmas findRestorePITR_plain = findRestorePITR_reading [THEN reading_plain]
  and findBackupForRestore_plain = findBackupForRestore_reading [THEN reading_plain]

lemma plain_first:
  "grows (l @ [IGetPVC ns n]) l' plain_call \<Longrightarrow> grows l l' plain_call"
  "grows (l @ [IGetSTS ns n]) l' plain_call \<Longrightarrow> grows l l' plain_call"
  by (erule grows_first, simp)+

lemma delete_pvcs_plain: "delete_pvcs env l n pvcs = (l', r) \<Longrightarrow> grows l l' plain_call"
proof (induction pvcs arbitrary: l)
  case (Cons pvc pvcs)
  then show ?case
    by (auto simp: Let_def dest!: Cons.IH split: sum.splits if_splits intro: plain_first)
qed simp

lemma deleteOldSTSandPVCs_plain:
  "deleteOldSTSandPVCs env l inst sp = (l', r) \<Longrightarrow> grows l l' plain_call"
  by (auto simp: deleteOldSTSandPVCs_def Let_def dest!: delete_pvcs_plain
      intro: plain_first split: sum.splits if_splits)

lemma restoreSnapshot_plain: "restoreSnapshot env l inst sp p = (l', r) \<Longrightarrow> grows l l' plain_call"
  by (auto simp: restoreSnapshot_def Let_def split: sum.splits)

lemma statusProgress_plain: "statusProgress env l ns name = (l', r) \<Longrightarrow> grows l l' plain_call"
  by (auto simp: statusProgress_def Let_def split: sum.splits option.splits if_splits prod.splits)

lemma isSnapshotRestoreDone_plain: "isSnapshotRestoreDone env l inst = (l', r) \<Longrightarrow> grows l l' plain_call"
  by (auto simp: isSnapshotRestoreDone_def dest: statusProgress_plain split: prod.splits)

lemma IsLROOperationDone_plain: "IsLROOperationDone env l opid = (l', r) \<Longrightarrow> grows l l' plain_call"
  by (auto simp: IsLROOperationDone_def Let_def split: sum.splits if_splits)

lemma startDatabasePatching_plain: "startDatabasePatching env l inst = (l', r) \<Longrightarrow> grows l l' plain_call"
  by (auto simp: startDatabasePatching_def Let_def)

lemma isDatabasePatchingDone_plain: "isDatabasePatchingDone env l inst = (l', r) \<Longrightarrow> grows l l' plain_call"
  by (auto simp: isDatabasePatchingDone_def Let_def split: sum.splits if_splits option.splits)

lemma isOracleUpAndRunning_plain: "isOracleUpAndRunning env l inst = (l', r) \<Longrightarrow> grows l l' plain_call"
  by (auto simp: isOracleUpAndRunning_def)

lemma restorePhysicalPreflightCheck_plain:
  "restorePhysicalPreflightCheck env l ns n = (l', r) \<Longrightarrow> grows l l' plain_call"
  by (auto simp: restorePhysicalPreflightCheck_def Let_def)

lemma pitr_range_plain: "pitr_range env l inst backup spec = (l', r) \<Longrightarrow> grows l l' plain_call"
  by (auto simp: pitr_range_def Let_def dest: findRestorePITR_plain split: sum.splits prod.splits option.splits if_splits)

lemma restore_poll_plain: "restore_poll env l inst rs = Some (l', r) \<Longrightarrow> grows l l' plain_call"
  by (auto simp: restore_poll_def Let_def dest!: isSnapshotRestoreDone_plain IsLROOperationDone_plain
      split: if_splits prod.splits option.splits)

subsection \<open>What a round writes\<close>

definition preparing :: "string set" where
  "preparing = {k8s_RestorePreparationInProgress, k8s_RestorePreparationComplete}"

abbreviation status_reason :: "InstanceStatus \<Rightarrow> string" where
  "status_reason st \<equiv> reason_of (ist_Conditions st) k8s_Ready"

text \<open>A status with the given time of the last restore, that is only in a state before the launch if \<open>b\<close>
  allows it.\<close>

definition steady :: "go_time option \<Rightarrow> bool \<Rightarrow> InstanceStatus \<Rightarrow> bool" where
  "steady L b st \<longleftrightarrow> ist_LastRestoreTime st = L \<and> (status_reason st \<in> preparing \<longrightarrow> b)"

definition valid_restore :: "Instance \<Rightarrow> bool" where
  "valid_restore inst \<longleftrightarrow> (case is_Restore (inst_Spec inst) of None \<Rightarrow> True | Some rs \<Rightarrow> valid_time (rs_RequestTime rs))"

definition steady_inst :: "string \<Rightarrow> go_time option \<Rightarrow> bool \<Rightarrow> Instance \<Rightarrow> bool" where
  "steady_inst u L b inst \<longleftrightarrow> inst_UID inst = u \<and> valid_restore inst \<and> steady L b (inst_Status inst)"

fun writes_steady :: "string \<Rightarrow> go_time option \<Rightarrow> bool \<Rightarrow> inst_call \<Rightarrow> bool" where
  "writes_steady u L b (IStatusUpdate i) = steady L b (inst_Status i)"
| "writes_steady u L b (IUpdate i) = steady_inst u L b i"
| "writes_steady u L b c = plain_call c"

lemma plain_writes: "plain_call c \<Longrightarrow> writes_steady u L b c"
  by (cases c) simp_all

lemma plain_grows: "grows l l' plain_call \<Longrightarrow> grows l l' (writes_steady u L b)"
  by (auto simp: grows_def plain_writes)

text \<open>The API server's answer to an update of the object: what was sent, as far as the restore goes. The
  status is that of the server, and a successful update of the same object's status always comes right
  before.\<close>

definition update_faithful :: "inst_env \<Rightarrow> bool" where
  "update_faithful env \<longleftrightarrow> (\<forall>l i i'. ie_Update env l i = Inr i' \<longrightarrow>
     inst_UID i' = inst_UID i \<and> inst_Status i' = inst_Status i \<and>
     is_Restore (inst_Spec i') = is_Restore (inst_Spec i))"

lemma steady_set_lock [simp]:
  "steady_inst u L b (set_lock o1 inst) = steady_inst u L b inst"
  "steady L b (inst_Status (set_lock o1 inst)) = steady L b (inst_Status inst)"
  by (simp_all add: steady_inst_def steady_def set_lock_def valid_restore_def)

lemma steady_clear [simp]: "steady_inst u L b inst \<Longrightarrow> steady_inst u L b (clear_restore inst)"
  by (simp add: steady_inst_def clear_restore_def valid_restore_def)

lemma steady_upsert [simp]:
  "steady_inst u L b inst \<Longrightarrow> r \<in> preparing \<longrightarrow> b \<Longrightarrow> steady_inst u L b (upsert env l inst k8s_Ready st r m)"
  by (simp add: steady_inst_def steady_def valid_restore_def)

lemma steady_weaken: "steady_inst u L False inst \<Longrightarrow> steady_inst u L b inst"
  by (simp add: steady_inst_def steady_def)

lemma steady_status: "steady_inst u L b inst \<Longrightarrow> steady L b (inst_Status inst)"
  by (simp add: steady_inst_def)

lemma steady_description [simp]:
  "steady_inst u L b (inst\<lparr>inst_Status := (inst_Status inst)\<lparr>ist_Description := d\<rparr>\<rparr>) = steady_inst u L b inst"
  by (simp add: steady_inst_def steady_def valid_restore_def)

lemma steady_answer:
  "update_faithful env \<Longrightarrow> ie_Update env l i = Inr i' \<Longrightarrow> steady_inst u L b i \<Longrightarrow> steady_inst u L b i'"
  by (auto simp: update_faithful_def steady_inst_def valid_restore_def)

lemma final_reasons [simp]:
  "k8s_RestoreFailed \<notin> preparing" "k8s_RestoreComplete \<notin> preparing" "k8s_RestoreInProgress \<notin> preparing"
  "k8s_PostRestoreBootstrapInProgress \<notin> preparing" "k8s_PostRestoreBootstrapComplete \<notin> preparing"
  "k8s_PostRestoreDatabasePatchingInProgress \<notin> preparing"
  by (simp_all add: preparing_def)

lemma setRestoreFailed_steady:
  assumes "setRestoreFailed env l inst m = (inst', l', err)" "update_faithful env" "steady_inst u L b inst"
  shows "steady_inst u L b inst' \<and> grows l l' (writes_steady u L b)"
  using assms
  by (auto simp: setRestoreFailed_def ReleaseInstanceMaintenanceLock_def Let_def steady_answer
      dest: steady_status split: option.splits sum.splits)

lemma setRestoreSucceeded_steady:
  assumes "setRestoreSucceeded env l inst rs m = (inst', l', err)" "update_faithful env" "steady_inst u L b inst"
  shows "steady_inst u L b inst' \<and> grows l l' (writes_steady u L b)"
  using assms
  by (auto simp: setRestoreSucceeded_def ReleaseInstanceMaintenanceLock_def Let_def steady_answer
      dest: steady_status split: option.splits sum.splits)

lemma restore_failed_steady:
  assumes "restore_failed env l inst m e = (inst', l', res, err)" "update_faithful env" "steady_inst u L b inst"
  shows "steady_inst u L b inst' \<and> grows l l' (writes_steady u L b)"
  using assms setRestoreFailed_steady by (fastforce simp: restore_failed_def split: prod.splits option.splits)

lemma datapatch_failed_steady:
  assumes "datapatch_failed env l inst m e = (inst', l', res, err)" "update_faithful env" "steady_inst u L b inst"
  shows "steady_inst u L b inst' \<and> grows l l' (writes_steady u L b)"
  using assms setRestoreFailed_steady by (fastforce simp: datapatch_failed_def Let_def split: prod.splits)

lemma commit_steady:
  assumes "commit env l inst r = (inst', l', res, err)" "steady_inst u L b inst"
  shows "steady_inst u L b inst' \<and> grows l l' (writes_steady u L b)"
  using assms by (auto simp: commit_def dest: steady_status)

subsection \<open>The cases\<close>

lemma grows_plain_then:
  "grows l l1 plain_call \<Longrightarrow> grows l1 l' (writes_steady u L b) \<Longrightarrow> grows l l' (writes_steady u L b)"
  by (rule grows_trans [OF plain_grows])

lemma restore_preparation_steady:
  assumes "restore_preparation env l inst rs sp = (inst', l', res, err)" "update_faithful env" "steady_inst u L True inst"
  shows "steady_inst u L True inst' \<and> grows l l' (writes_steady u L True)"
proof (cases "rs_BackupType rs = ''Snapshot''")
  case True
  obtain l1 r where d: "deleteOldSTSandPVCs env l inst sp = (l1, r)" by fastforce
  note p = deleteOldSTSandPVCs_plain [OF d]
  show ?thesis
  proof (cases r)
    case (Inl e)
    with assms(1) True d have "restore_failed env l1 inst (err_msg e) (Some e) = (inst', l', res, err)"
      by (simp add: restore_preparation_def)
    from restore_failed_steady [OF this assms(2,3)] p show ?thesis by (blast intro: grows_plain_then)
  next
    case (Inr gone)
    have up: "steady_inst u L True (upsert env l1 inst k8s_Ready ConditionFalse k8s_RestorePreparationComplete [])"
      using assms(3) by simp
    from assms(1) d True Inr have "l' = l1"
      "inst' = inst \<or> inst' = upsert env l1 inst k8s_Ready ConditionFalse k8s_RestorePreparationComplete []"
      by (auto simp: restore_preparation_def Let_def split: if_splits)
    then show ?thesis using up assms(3) plain_grows [OF p] by auto
  qed
next
  case False
  with assms show ?thesis by (auto simp: restore_preparation_def Let_def)
qed

lemma restore_in_progress_steady:
  assumes "restore_in_progress env l inst rs = Some (inst', l', res, err)" "update_faithful env" "steady_inst u L b inst"
  shows "steady_inst u L b inst' \<and> grows l l' (writes_steady u L b)"
proof (cases "rs_BackupType rs \<noteq> ''Snapshot'' \<and> rs_BackupType rs \<noteq> ''Physical''")
  case True
  with assms(1) have "restore_failed env l inst ''Unknown restore type'' None = (inst', l', res, err)"
    by (simp add: restore_in_progress_def)
  from restore_failed_steady [OF this assms(2,3)] show ?thesis .
next
  case False
  with assms(1) obtain l1 fin e where p: "restore_poll env l inst rs = Some (l1, fin, e)"
    by (fastforce simp: restore_in_progress_def split: option.splits if_splits)
  note x = restore_poll_plain [OF p]
  consider "\<not> fin" | e' where "fin" "e = Some e'" | "fin" "e = None" by (cases e) auto
  then show ?thesis
  proof cases
    case 1
    with assms False p x show ?thesis
      by (auto simp: restore_in_progress_def intro: plain_grows split: if_splits)
  next
    case 2
    with assms(1) False p have "restore_failed env l1 inst (err_msg e') (Some e') = (inst', l', res, err)"
      by (simp add: restore_in_progress_def split: if_splits)
    from restore_failed_steady [OF this assms(2,3)] x show ?thesis by (blast intro: grows_plain_then)
  next
    case 3
    with assms(1) False p have c: "commit env l1 (upsert env l1 inst k8s_Ready ConditionFalse
        k8s_PostRestoreBootstrapInProgress []) requeue_now = (inst', l', res, err)"
      by (simp add: restore_in_progress_def split: if_splits)
    from commit_steady [OF c] assms(3) x show ?thesis by (auto intro: grows_plain_then)
  qed
qed

lemma restore_bootstrap_steady:
  assumes "restore_bootstrap env l inst rs = (inst', l', res, err)" "update_faithful env" "steady_inst u L b inst"
  shows "steady_inst u L b inst' \<and> grows l l' (writes_steady u L b)"
proof -
  let ?up = "\<lambda>l1. upsert env l1 inst k8s_Ready ConditionFalse k8s_PostRestoreBootstrapComplete []"
  have "steady_inst u L b (?up l1)" for l1 using assms(3) by simp
  note next_case = commit_steady [OF _ this]
  obtain l0 o1 where o: "isOracleUpAndRunning env l inst = (l0, o1)" by fastforce
  note x = isOracleUpAndRunning_plain [OF o]
  define req where "req = \<lparr>bdr_CdbName = is_CDBName (inst_Spec inst), bdr_DbUniqueName = is_DBUniqueName (inst_Spec inst),
                    bdr_Dbdomain = GetDBDomain inst, bdr_Mode = ''Restore''\<rparr>"
  have y: "grows l (l @ [IBootstrapDatabase req]) plain_call" by simp
  consider l1 where "grows l l1 plain_call" "commit env l1 (?up l1) requeue_now = (inst', l', res, err)"
    | l1 m where "grows l l1 plain_call" "restore_failed env l1 inst m None = (inst', l', res, err)"
    | "grows l l' plain_call" "inst' = inst"
  proof (cases "rs_BackupType rs = ''Snapshot''")
    case True
    with assms(1) o x that show ?thesis
      by (cases o1) (simp_all add: restore_bootstrap_def Let_def split: if_splits)
  next
    case snap: False
    show ?thesis
    proof (cases "rs_BackupType rs = ''Physical''")
      case True
      with assms(1) snap that(1) [OF y] that(2) [OF y] show ?thesis
        by (simp add: restore_bootstrap_def Let_def req_def [symmetric] split: option.splits)
    next
      case False
      with assms(1) snap that(1) [of l] show ?thesis by (simp add: restore_bootstrap_def Let_def)
    qed
  qed
  then show ?thesis
  proof cases
    case 1
    then show ?thesis using next_case [OF 1(2)] by (blast intro: grows_plain_then)
  next
    case 2
    then show ?thesis using restore_failed_steady [OF 2(2) assms(2,3)] by (blast intro: grows_plain_then)
  next
    case 3
    then show ?thesis using assms(3) by (blast intro: plain_grows)
  qed
qed

lemma restore_bootstrapped_steady:
  assumes "restore_bootstrapped env l inst rs backup = (inst', l', res, err)" "update_faithful env" "steady_inst u L b inst"
  shows "steady_inst u L b inst' \<and> grows l l' (writes_steady u L b)"
proof (cases "map_get (bk_Annotations backup) DatabaseImageAnnotation = map_get (ist_ActiveImages (inst_Status inst)) ''service''")
  case True
  obtain i1 l1 e where s: "setRestoreSucceeded env l inst rs (restored_description (ie_now env l) rs) = (i1, l1, e)"
    by (metis prod_cases3)
  with assms(1) True have c: "commit env l1 i1 Result_zero = (inst', l', res, err)"
    by (simp add: restore_bootstrapped_def)
  from setRestoreSucceeded_steady [OF s assms(2,3)] commit_steady [OF c] show ?thesis
    by (blast intro: grows_trans)
next
  case False
  obtain l1 e where p: "startDatabasePatching env l inst = (l1, e)" by fastforce
  note x = startDatabasePatching_plain [OF p]
  show ?thesis
  proof (cases e)
    case None
    with assms(1) False p have c: "commit env l1 (upsert env l1 inst k8s_Ready ConditionFalse
        k8s_PostRestoreDatabasePatchingInProgress ''Calling ApplyDataPatch()'') requeue_now = (inst', l', res, err)"
      by (simp add: restore_bootstrapped_def)
    from commit_steady [OF c] assms(3) x show ?thesis by (auto intro: grows_plain_then)
  next
    case (Some e')
    with assms(1) False p have "datapatch_failed env l1 inst ''Failed to start database patching'' e' = (inst', l', res, err)"
      by (simp add: restore_bootstrapped_def)
    from datapatch_failed_steady [OF this assms(2,3)] x show ?thesis by (blast intro: grows_plain_then)
  qed
qed

lemma restore_datapatch_steady:
  assumes "restore_datapatch env l inst rs = (inst', l', res, err)" "update_faithful env" "steady_inst u L b inst"
  shows "steady_inst u L b inst' \<and> grows l l' (writes_steady u L b)"
proof -
  obtain l1 fin e where p: "isDatabasePatchingDone env l inst = (l1, fin, e)" by (metis prod_cases3)
  note x = isDatabasePatchingDone_plain [OF p]
  show ?thesis
  proof (cases e)
    case (Some e')
    with assms(1) p have "datapatch_failed env l1 inst ''Failed to check datapatch status'' e' = (inst', l', res, err)"
      by (simp add: restore_datapatch_def)
    from datapatch_failed_steady [OF this assms(2,3)] x show ?thesis by (blast intro: grows_plain_then)
  next
    case None
    obtain i1 l2 e2 where s: "setRestoreSucceeded env l1 inst rs (restored_description (ie_now env l1) rs) = (i1, l2, e2)"
      by (metis prod_cases3)
    with assms(1) p None have "inst' = inst \<and> l' = l1 \<or> inst' = i1 \<and> l' = l2"
      by (auto simp: restore_datapatch_def split: if_splits option.splits)
    with setRestoreSucceeded_steady [OF s assms(2,3)] assms(3) x show ?thesis
      by (blast intro: grows_plain_then plain_grows)
  qed
qed

definition newer :: "go_time option \<Rightarrow> go_time \<Rightarrow> bool" where
  "newer L t \<longleftrightarrow> (case L of None \<Rightarrow> True | Some t0 \<Rightarrow> Rfc3339Copy t > t0)"

text \<open>The first status written by the entry case takes the lock; the second starts the restore.\<close>

lemma restore_entry_cases:
  assumes "restore_entry env l inst rs = (inst', l', res, err)" "steady_inst u L b inst"
  obtains (idle) "steady_inst u L b inst'" "grows l l' (writes_steady u L b)"
  | (started) i1 where "newer L (rs_RequestTime rs)" "l' = l @ [IStatusUpdate i1, IStatusUpdate inst']"
      "steady L b (inst_Status i1)" "inst_Spec inst' = inst_Spec inst" "inst_UID inst' = u"
      "steady (Some (rs_RequestTime rs)) True (inst_Status inst')"
proof -
  obtain i1 l1 e where a: "AcquireInstanceMaintenanceLock env l inst restore_owner = (i1, l1, e)"
    by (metis prod_cases3)
  then obtain o1 where i1: "i1 = set_lock o1 inst" and l1: "l1 = l @ [IStatusUpdate i1]"
    by (auto simp: AcquireInstanceMaintenanceLock_def Let_def split: prod.splits)
  have st: "steady_inst u L b i1" using assms(2) i1 by simp
  have L: "ist_LastRestoreTime (inst_Status inst) = L" using assms(2) by (simp add: steady_inst_def steady_def)
  show thesis
  proof (cases "(rs_BackupType rs \<noteq> ''Snapshot'' \<and> rs_BackupType rs \<noteq> ''Physical'') \<or> \<not> newer L (rs_RequestTime rs) \<or> e \<noteq> None")
    case True
    then have "inst' = inst \<and> l' = l \<or> inst' = i1 \<and> l' = l1"
      using assms(1) a L by (auto simp: restore_entry_def newer_def split: if_splits option.splits)
    moreover have "grows l l1 (writes_steady u L b)" using l1 steady_status [OF st] by simp
    ultimately show thesis using idle st assms(2) by blast
  next
    case False
    then show thesis using assms a L i1 l1 started st
      by (auto simp: restore_entry_def newer_def Let_def set_lock_def steady_def steady_inst_def split: if_splits option.splits)
  qed
qed

definition operation_id :: "string \<Rightarrow> go_time \<Rightarrow> string" where
  "operation_id u t = physicalRestore @ ''_'' @ u @ ''_'' @ Format_RFC3339 time_Local t"

lemma restorePhysical_cases:
  assumes "restorePhysical env l inst rs backup ns = Some (l', r)" "steady_inst u L b inst"
  obtains (refused) "grows l l' plain_call"
  | (called) l1 req t where "grows l l1 plain_call" "l' = l1 @ [IPhysicalRestore req]" "L = Some t"
      "prr_OperationId req = operation_id u t"
proof -
  obtain l1 e where p: "restorePhysicalPreflightCheck env l ns (inst_Name inst) = (l1, e)" by fastforce
  note x = restorePhysicalPreflightCheck_plain [OF p]
  have L: "lroRestoreOperationID physicalRestore inst = map_option (operation_id u) L"
    using assms(2) by (cases L) (simp_all add: lroRestoreOperationID_def operation_id_def steady_inst_def steady_def)
  obtain l2 q where Q: "restore_range env l1 inst rs backup = (l2, q)" by fastforce
  have y: "grows l1 l2 plain_call"
    using Q unfolding restore_range_def by (auto dest: pitr_range_plain split: option.splits)
  have id: "prr_OperationId (physical_request inst rs backup opid v) = opid" for opid v
    by (simp add: physical_request_def split: prod.splits)
  show thesis
  proof (cases "e \<noteq> None \<or> check_physical backup \<noteq> None \<or> isl q")
    case True
    then have "l' = l1 \<or> l' = l2"
      using assms(1) p Q
      by (cases e; cases "check_physical backup"; cases q) (auto simp: restorePhysical_def)
    then show thesis using refused x y by (blast intro: grows_trans)
  next
    case False
    then obtain v where "e = None" "check_physical backup = None" "q = Inr v" by (cases q) auto
    then obtain t where "L = Some t" "l' = l2 @ [IPhysicalRestore (physical_request inst rs backup (operation_id u t) v)]"
      using assms(1) p Q L by (cases L) (simp_all add: restorePhysical_def Let_def)
    then show thesis using called [OF grows_trans [OF x y]] id by blast
  qed
qed

text \<open>The launch: the status that says so is committed first, and nothing is launched if that fails.\<close>

lemma restore_launch_cases:
  assumes "restore_launch env l inst rs sp backup ns = Some (inst', l', res, err)" "update_faithful env"
    "steady_inst u L True inst"
  obtains (not_saved) "steady_inst u L False inst'" "l' = l @ [IStatusUpdate inst']" "ie_StatusUpdate env l inst' \<noteq> None"
  | (not_launched) i1 where "steady L False (inst_Status i1)" "ie_StatusUpdate env l i1 = None"
      "steady_inst u L False inst'" "grows (l @ [IStatusUpdate i1]) l' (writes_steady u L False)"
  | (launched) i1 l2 req t where "steady L False (inst_Status i1)" "ie_StatusUpdate env l i1 = None"
      "steady_inst u L False inst'" "grows (l @ [IStatusUpdate i1]) l2 plain_call" "L = Some t"
      "prr_OperationId req = operation_id u t"
      "grows (l2 @ [IPhysicalRestore req]) l' (writes_steady u L False)"
proof -
  define i1 where "i1 = upsert env l inst k8s_Ready ConditionFalse k8s_RestoreInProgress []"
  let ?l1 = "l @ [IStatusUpdate i1]"
  have st: "steady_inst u L False i1" using assms(3) by (simp add: i1_def steady_inst_def steady_def valid_restore_def)
  note st1 = steady_status [OF st]
  show thesis
  proof (cases "ie_StatusUpdate env l i1")
    case (Some e)
    with assms(1) have "inst' = i1" "l' = ?l1" by (auto simp: restore_launch_def Let_def i1_def [symmetric])
    with Some st not_saved show thesis by simp
  next
    case saved: None
    consider (snapshot) "rs_BackupType rs = ''Snapshot''" | (physical) "rs_BackupType rs = ''Physical''"
      | (other) "rs_BackupType rs \<noteq> ''Snapshot''" "rs_BackupType rs \<noteq> ''Physical''" by blast
    then show thesis
    proof cases
      case snapshot
      obtain l2 e where r: "restoreSnapshot env ?l1 i1 sp i1 = (l2, e)" by fastforce
      with assms(1) saved snapshot have "inst' = i1" "l' = l2"
        by (auto simp: restore_launch_def Let_def i1_def [symmetric] split: option.splits)
      with not_launched [OF st1 saved] st plain_grows [OF restoreSnapshot_plain [OF r]] show thesis by simp
    next
      case other
      with assms(1) saved have "inst' = i1" "l' = ?l1"
        by (auto simp: restore_launch_def Let_def i1_def [symmetric])
      with not_launched [OF st1 saved] st show thesis by simp
    next
      case physical
      with assms(1) saved obtain l2 r where r: "restorePhysical env ?l1 i1 rs backup ns = Some (l2, r)"
        by (fastforce simp: restore_launch_def Let_def i1_def [symmetric] split: option.splits)
      have fin: "steady_inst u L False inst' \<and> grows l2 l' (writes_steady u L False)"
      proof (cases "\<exists>op. r = Inr op \<and> op_Done op")
        case False
        then have "inst' = i1 \<and> l' = l2" using assms(1) saved physical r
          by (cases r) (auto simp: restore_launch_def Let_def i1_def [symmetric] split: if_splits)
        with st show ?thesis by simp
      next
        case True
        then obtain op where op: "r = Inr op" "op_Done op" by blast
        obtain i2 l3 e where s: "setRestoreSucceeded env l2 i1 rs (done_message (ie_now env l2) i1) = (i2, l3, e)"
          by (metis prod_cases3)
        have "inst' = i2 \<and> l' = l3" using assms(1) saved physical r op s
          by (cases e) (auto simp: restore_launch_def Let_def i1_def [symmetric])
        with setRestoreSucceeded_steady [OF s assms(2) st] show ?thesis by simp
      qed
      from r st show thesis
      proof (cases rule: restorePhysical_cases)
        case refused
        then show thesis using not_launched [OF st1 saved] fin by (blast intro: grows_plain_then)
      next
        case (called l1 req t)
        then show thesis using launched [OF st1 saved _ called(1,3,4)] fin by blast
      qed
    qed
  qed
qed

subsection \<open>Runs\<close>

text \<open>What the server stores after the calls of a round: every update that succeeds is applied.\<close>

fun committed :: "inst_env \<Rightarrow> inst_log \<Rightarrow> inst_call list \<Rightarrow> Instance \<Rightarrow> Instance" where
  "committed env l [] s = s"
| "committed env l (c # cs) s = committed env (l @ [c]) cs
     (case c of
        IStatusUpdate i \<Rightarrow> if ie_StatusUpdate env l i = None then s\<lparr>inst_Status := inst_Status i\<rparr> else s
      | IUpdate i \<Rightarrow> (case ie_Update env l i of Inl _ \<Rightarrow> s | Inr i' \<Rightarrow> i')
      | _ \<Rightarrow> s)"

text \<open>No update of a round succeeds: the server refuses an object that is not current.\<close>

fun all_refused :: "inst_env \<Rightarrow> inst_log \<Rightarrow> inst_call list \<Rightarrow> bool" where
  "all_refused env l [] = True"
| "all_refused env l (c # cs) = (all_refused env (l @ [c]) cs \<and>
     (case c of
        IStatusUpdate i \<Rightarrow> ie_StatusUpdate env l i \<noteq> None
      | IUpdate i \<Rightarrow> (case ie_Update env l i of Inl _ \<Rightarrow> True | Inr _ \<Rightarrow> False)
      | _ \<Rightarrow> True))"

definition launches :: "inst_log \<Rightarrow> string list" where
  "launches l = List.map_filter (\<lambda>c. case c of IPhysicalRestore req \<Rightarrow> Some (prr_OperationId req) | _ \<Rightarrow> None) l"

definition restore_round :: "inst_env \<Rightarrow> inst_log \<Rightarrow> Instance \<Rightarrow> StsParams \<Rightarrow> string \<Rightarrow> restore_result option" where
  "restore_round env l inst sp namespace =
     (if is_Restore (inst_Spec inst) = None then Some (inst, l, Result_zero, None)
      else restoreStateMachine env l (inst_cond inst k8s_Ready) (inst_cond inst k8s_DatabaseInstanceReady) inst sp namespace)"

text \<open>
  The instance on the server over many reconciles. After a round the status is stored by the deferred
  update of \<open>Reconcile\<close> or that update is lost, and then only what the round committed itself is stored.
  A round may also start from a stale copy. In between, users and other parts of the operator may do
  anything except set the time of the last restore, or move the instance into a state of preparation.
\<close>

inductive restore_run :: "inst_env \<Rightarrow> Instance \<Rightarrow> Instance \<Rightarrow> inst_log \<Rightarrow> bool" for env inst0 where
  run_start: "restore_run env inst0 inst0 []"
| run_saved: "restore_run env inst0 s l \<Longrightarrow> restore_round env l s sp ns = Some (inst', l @ cs, res, err) \<Longrightarrow>
     restore_run env inst0 ((committed env l cs s)\<lparr>inst_Status := inst_Status inst'\<rparr>) (l @ cs)"
| run_lost: "restore_run env inst0 s l \<Longrightarrow> restore_round env l s sp ns = Some (inst', l @ cs, res, err) \<Longrightarrow>
     restore_run env inst0 (committed env l cs s) (l @ cs)"
| run_stale: "restore_run env inst0 s l \<Longrightarrow> restore_round env l old sp ns = Some (inst', l @ cs, res, err) \<Longrightarrow>
     inst_UID old = inst_UID s \<Longrightarrow> valid_restore old \<Longrightarrow> all_refused env l cs \<Longrightarrow> restore_run env inst0 s (l @ cs)"
| run_others: "restore_run env inst0 s l \<Longrightarrow> inst_UID s' = inst_UID s \<Longrightarrow> valid_restore s' \<Longrightarrow>
     ist_LastRestoreTime (inst_Status s') = ist_LastRestoreTime (inst_Status s) \<Longrightarrow>
     (status_reason (inst_Status s') \<in> preparing \<Longrightarrow> status_reason (inst_Status s) \<in> preparing) \<Longrightarrow>
     launches cs = [] \<Longrightarrow> restore_run env inst0 s' (l @ cs)"

lemma steady_weaken_calls: "grows l l' (writes_steady u L False) \<Longrightarrow> grows l l' (writes_steady u L b)"
proof -
  have "writes_steady u L False c \<Longrightarrow> writes_steady u L b c" for c
    by (cases c) (auto simp: steady_def intro: steady_weaken)
  then show "grows l l' (writes_steady u L False) \<Longrightarrow> grows l l' (writes_steady u L b)"
    by (auto simp: grows_def)
qed

text \<open>A round leaves the request alone, starts a newer one, or launches the one prepared.\<close>

lemma restore_switch_cases:
  assumes "restore_switch env l r inst rs sp backup ns = Some (inst', l', res, err)" "update_faithful env"
    "steady_inst u L b inst" "r \<in> preparing \<longrightarrow> b" "is_Restore (inst_Spec inst) = Some rs"
  obtains (quiet) "steady_inst u L b inst'" "grows l l' (writes_steady u L b)"
  | (started) i1 t where "newer L t" "valid_time t" "l' = l @ [IStatusUpdate i1, IStatusUpdate inst']"
      "steady L b (inst_Status i1)" "steady_inst u (Some t) True inst'"
  | (launched) i1 l2 req t where "b" "steady L False (inst_Status i1)" "ie_StatusUpdate env l i1 = None"
      "steady_inst u L False inst'" "grows (l @ [IStatusUpdate i1]) l2 plain_call" "L = Some t"
      "prr_OperationId req = operation_id u t"
      "grows (l2 @ [IPhysicalRestore req]) l' (writes_steady u L False)"
proof -
  note a = assms(1) [unfolded restore_switch_def]
  consider (entry) "r = k8s_RestoreComplete \<or> r = k8s_CreateComplete \<or> r = k8s_RestoreFailed"
    | (prep) "r = k8s_RestorePreparationInProgress" | (launch) "r = k8s_RestorePreparationComplete"
    | (prog) "r = k8s_RestoreInProgress" | (boot) "r = k8s_PostRestoreBootstrapInProgress"
    | (booted) "r = k8s_PostRestoreBootstrapComplete" | (patch) "r = k8s_PostRestoreDatabasePatchingInProgress"
    | (none) "inst' = inst" "l' = l"
    using a by (auto split: if_splits)
  then show thesis
  proof cases
    case entry
    then have "restore_entry env l inst rs = (inst', l', res, err)" using a by auto
    then show thesis using assms(3)
    proof (cases rule: restore_entry_cases)
      case idle
      then show thesis by (rule quiet)
    next
      case (started i1)
      moreover have "valid_restore inst" using assms(3) by (simp add: steady_inst_def)
      ultimately show thesis using that(2) assms(5) by (simp add: steady_inst_def valid_restore_def)
    qed
  next
    case prep
    then have "restore_preparation env l inst rs sp = (inst', l', res, err)" and b: "b"
      using a assms(4) by (auto simp: preparing_def)
    with restore_preparation_steady [OF this(1) assms(2)] assms(3) quiet show thesis by simp
  next
    case launch
    then have b: "b" using assms(4) by (simp add: preparing_def)
    from launch have l: "restore_launch env l inst rs sp backup ns = Some (inst', l', res, err)" using a by simp
    from l assms(2) assms(3) [simplified b] show thesis
    proof (cases rule: restore_launch_cases)
      case not_saved
      then show thesis using quiet steady_weaken [of u L inst'] steady_status [of u L False inst']
        by (simp add: steady_def)
    next
      case (not_launched i1)
      then have "steady L b (inst_Status i1)" by (simp add: steady_def)
      then have "grows l l' (writes_steady u L b)"
        using grows_first [OF steady_weaken_calls [OF not_launched(4), of b]] by simp
      then show thesis using quiet steady_weaken [OF not_launched(3)] by blast
    next
      case (launched i1 l2 req t)
      then show thesis using that(3) b by blast
    qed
  next
    case prog
    then have "restore_in_progress env l inst rs = Some (inst', l', res, err)" using a by simp
    from restore_in_progress_steady [OF this assms(2,3)] quiet show thesis by blast
  next
    case boot
    then have "restore_bootstrap env l inst rs = (inst', l', res, err)" using a by simp
    from restore_bootstrap_steady [OF this assms(2,3)] quiet show thesis by blast
  next
    case booted
    then have "restore_bootstrapped env l inst rs backup = (inst', l', res, err)" using a by simp
    from restore_bootstrapped_steady [OF this assms(2,3)] quiet show thesis by blast
  next
    case patch
    then have "restore_datapatch env l inst rs = (inst', l', res, err)" using a by simp
    from restore_datapatch_steady [OF this assms(2,3)] quiet show thesis by blast
  next
    case none
    then show thesis using quiet assms(3) by simp
  qed
qed

text \<open>A round does nothing, fails the request, or gets to the cases with a ready backup.\<close>

lemma restore_round_cases:
  assumes "restore_round env l inst sp ns = Some (inst', l', res, err)"
  obtains (untouched) "inst' = inst" "grows l l' reading"
  | (failed) l1 m where "grows l l1 reading" "restore_failed env l1 inst m None = (inst', l', res, err)"
  | (switch) rs backup l1 where "is_Restore (inst_Spec inst) = Some rs" "rs_Force rs" "grows l l1 reading"
      "findBackupForRestore env l inst rs ns = (l1, Inr backup)" "backup_ready backup"
      "restore_switch env l1 (status_reason (inst_Status inst)) inst rs sp backup ns = Some (inst', l', res, err)"
proof -
  note a = assms [unfolded restore_round_def restoreStateMachine_def]
  consider (idle) "inst' = inst" "l' = l"
    | (search) rs ready where "is_Restore (inst_Spec inst) = Some rs" "rs_Force rs" "inst_cond inst k8s_Ready = Some ready"
        "restoreStateMachine env l (inst_cond inst k8s_Ready) (inst_cond inst k8s_DatabaseInstanceReady) inst sp ns
           = Some (inst', l', res, err)" "Reason ready \<noteq> k8s_CreateInProgress"
        "\<not> (inst_cond inst k8s_DatabaseInstanceReady = None \<or>
            \<not> ConditionReasonEquals (inst_cond inst k8s_DatabaseInstanceReady) k8s_RestorePending \<and>
            \<not> ConditionReasonEquals (inst_cond inst k8s_DatabaseInstanceReady) k8s_CreateComplete)"
    using a assms unfolding restore_round_def by (auto split: if_splits option.splits)
  then show thesis
  proof cases
    case idle
    show thesis by (rule untouched) (simp_all add: idle)
  next
    case search
    obtain l1 f where f: "findBackupForRestore env l inst rs ns = (l1, f)" by fastforce
    note x = findBackupForRestore_reading [OF f]
    have r: "status_reason (inst_Status inst) = Reason ready" using search by (simp add: reason_of_def)
    show thesis
    proof (cases f)
      case (Inl e)
      then show thesis using failed [OF x] search f by (simp add: restoreStateMachine_def)
    next
      case (Inr backup)
      note sm = search(4) [unfolded restoreStateMachine_def]
      show thesis
      proof (cases "backup_ready backup")
        case True
        then show thesis using switch [OF search(1,2) x f [unfolded Inr] True] sm search f Inr r
          by (simp add: backup_ready_def Let_def)
      next
        case False
        then have "inst' = inst \<and> l' = l1 \<or>
            restore_failed env l1 inst ''Backup is in failed state'' None = (inst', l', res, err)"
          using sm search f Inr by (auto simp: backup_ready_def Let_def split: if_splits)
        then show thesis
        proof
          assume "inst' = inst \<and> l' = l1"
          with x show thesis by (intro untouched) simp_all
        qed (rule failed [OF x])
      qed
    qed
  qed
qed

text \<open>The log of launches against the time of the last restore: each has its own second, not after that
  time, and before it while the current request is still being prepared.\<close>

definition spent :: "string \<Rightarrow> go_time option \<Rightarrow> bool \<Rightarrow> inst_log \<Rightarrow> bool" where
  "spent u L b l \<longleftrightarrow> distinct (launches l) \<and> (\<forall>t. L = Some t \<longrightarrow> valid_time t) \<and>
     (\<forall>x \<in> set (launches l). \<exists>t t1. x = operation_id u t \<and> valid_time t \<and> L = Some t1 \<and>
        Rfc3339Copy t \<le> Rfc3339Copy t1 \<and> (b \<longrightarrow> Rfc3339Copy t < Rfc3339Copy t1))"

definition run_inv :: "string \<Rightarrow> Instance \<Rightarrow> inst_log \<Rightarrow> bool" where
  "run_inv u s l \<longleftrightarrow> inst_UID s = u \<and> valid_restore s \<and>
     spent u (ist_LastRestoreTime (inst_Status s)) (status_reason (inst_Status s) \<in> preparing) l"

lemma launches_append [simp]: "launches (l @ cs) = launches l @ launches cs"
  by (simp add: launches_def map_filter_def)

lemma launches_simps [simp]:
  "launches [] = []" "launches (IPhysicalRestore req # l) = prr_OperationId req # launches l"
  "launches (IStatusUpdate i # l) = launches l"
  by (simp_all add: launches_def map_filter_def)

lemma launches_writes: "\<forall>c \<in> set cs. writes_steady u L b c \<Longrightarrow> launches cs = []"
proof (induction cs)
  case (Cons c cs)
  then have "launches [c] = []" by (cases c) (auto simp: launches_def map_filter_def)
  with Cons launches_append [of "[c]" cs] show ?case by simp
qed (simp add: launches_def map_filter_def)

lemma launches_plain: "\<forall>c \<in> set cs. plain_call c \<Longrightarrow> launches cs = []"
  by (rule launches_writes) (auto intro: plain_writes)

lemma committed_append: "committed env l (cs @ ds) s = committed env (l @ cs) ds (committed env l cs s)"
  by (induction cs arbitrary: l s) simp_all

lemma committed_plain: "\<forall>c \<in> set cs. plain_call c \<Longrightarrow> committed env l cs s = s"
proof (induction cs arbitrary: l)
  case (Cons c cs)
  then show ?case by (cases c) simp_all
qed simp

lemma committed_steady:
  assumes "\<forall>c \<in> set cs. writes_steady u L b c" "update_faithful env" "steady_inst u L b s"
  shows "steady_inst u L b (committed env l cs s)"
  using assms(1,3)
proof (induction cs arbitrary: l s)
  case (Cons c cs)
  show ?case
  proof (cases c)
    case (IStatusUpdate i)
    then have "steady_inst u L b (s\<lparr>inst_Status := inst_Status i\<rparr>)"
      using Cons.prems by (simp add: steady_inst_def valid_restore_def)
    with IStatusUpdate Cons show ?thesis by simp
  next
    case (IUpdate i)
    then show ?thesis using Cons steady_answer [OF assms(2), of l i] by (auto split: sum.splits)
  qed (use Cons in simp_all)
qed simp

lemma steady_with_status:
  "steady_inst u L b s \<Longrightarrow> steady_inst u L b i \<Longrightarrow> steady_inst u L b (s\<lparr>inst_Status := inst_Status i\<rparr>)"
  by (simp add: steady_inst_def valid_restore_def)

lemma spent_weaken: "spent u L b l \<Longrightarrow> spent u L False l"
  by (fastforce simp: spent_def)

lemma steady_run_inv: "steady_inst u L b s \<Longrightarrow> spent u L b l \<Longrightarrow> run_inv u s l"
  unfolding run_inv_def steady_inst_def steady_def
  by (cases "status_reason (inst_Status s) \<in> preparing") (auto intro: spent_weaken)

lemma spent_newer:
  assumes "spent u L b l" "newer L t" "valid_time t"
  shows "spent u (Some t) b' l"
proof -
  have "Rfc3339Copy t' < Rfc3339Copy t" if "L = Some t1" "Rfc3339Copy t' \<le> Rfc3339Copy t1" for t' t1
    using that assms(2) Rfc3339Copy_le [of t1] by (simp add: newer_def)
  with assms(1,3) show ?thesis unfolding spent_def by (fastforce intro: less_imp_le)
qed

lemma spent_launch:
  assumes "spent u (Some t) True l" "prr_OperationId req = operation_id u t"
    and that: "launches ps = []" "launches qs = []"
  shows "spent u (Some t) False (l @ ps @ [IPhysicalRestore req] @ qs)"
proof -
  have t: "valid_time t" using assms(1) by (simp add: spent_def)
  have "operation_id u t \<notin> set (launches l)"
  proof
    assume "operation_id u t \<in> set (launches l)"
    then obtain t' where "operation_id u t = operation_id u t'" "valid_time t'" "Rfc3339Copy t' < Rfc3339Copy t"
      using assms(1) unfolding spent_def by fastforce
    then show False using Format_RFC3339_eq [OF t] by (fastforce simp: operation_id_def)
  qed
  moreover have "launches (l @ ps @ [IPhysicalRestore req] @ qs) = launches l @ [operation_id u t]"
    using that assms(2) by simp
  ultimately show ?thesis using assms(1) t unfolding spent_def by auto
qed

lemma launches_call_free: "grows l l' (writes_steady u L b) \<Longrightarrow> launches l' = launches l"
  by (auto simp: grows_def dest: launches_writes)

lemma restore_round_inv:
  assumes round: "restore_round env l s sp ns = Some (inst', l @ cs, res, err)"
    and env: "update_faithful env" and inv: "run_inv u s l"
  shows "run_inv u (committed env l cs s) (l @ cs)"
    and "run_inv u ((committed env l cs s)\<lparr>inst_Status := inst_Status inst'\<rparr>) (l @ cs)"
proof -
  define L where "L = ist_LastRestoreTime (inst_Status s)"
  define b where "b = (status_reason (inst_Status s) \<in> preparing)"
  have s: "steady_inst u L b s" and sp: "spent u L b l"
    using inv by (simp_all add: run_inv_def steady_inst_def steady_def L_def b_def)
  have quiet_case: "run_inv u (committed env l cs s) (l @ cs) \<and>
      run_inv u ((committed env l cs s)\<lparr>inst_Status := inst_Status inst'\<rparr>) (l @ cs)"
    if "steady_inst u L b inst'" "grows l (l @ cs) (writes_steady u L b)"
  proof -
    have cs: "\<forall>c \<in> set cs. writes_steady u L b c" using that(2) by simp
    have c: "steady_inst u L b (committed env l cs s)" by (rule committed_steady [OF cs env s])
    have "spent u L b (l @ cs)" using sp launches_writes [OF cs] by (simp add: spent_def)
    with c steady_with_status [OF c that(1)] show ?thesis by (blast intro: steady_run_inv)
  qed
  have "run_inv u (committed env l cs s) (l @ cs) \<and>
      run_inv u ((committed env l cs s)\<lparr>inst_Status := inst_Status inst'\<rparr>) (l @ cs)"
    using round
  proof (cases rule: restore_round_cases)
    case untouched
    then show ?thesis using quiet_case s by (simp add: plain_writes)
  next
    case (failed l1 m)
    from restore_failed_steady [OF failed(2) env s] reading_plain [OF failed(1)] show ?thesis
      using quiet_case by (blast intro: grows_plain_then)
  next
    case (switch rs backup l1)
    from reading_plain [OF switch(3)] obtain ps where ps: "l1 = l @ ps" "\<forall>c \<in> set ps. plain_call c" by (auto simp: grows_def)
    have "status_reason (inst_Status s) \<in> preparing \<longrightarrow> b" by (simp add: b_def)
    from switch(6) env s this switch(1) show ?thesis
    proof (cases rule: restore_switch_cases)
      case quiet
      then show ?thesis using quiet_case reading_plain [OF switch(3)] by (blast intro: grows_plain_then)
    next
      case (started i1 t)
      then have cs: "cs = ps @ [IStatusUpdate i1, IStatusUpdate inst']" using ps by simp
      have 1: "steady_inst u L b (s\<lparr>inst_Status := inst_Status i1\<rparr>)"
        using s started(4) by (simp add: steady_inst_def valid_restore_def)
      have 2: "steady_inst u (Some t) True (x\<lparr>inst_Status := inst_Status inst'\<rparr>)"
        if "steady_inst u L b x" for x
        using that started(5) by (simp add: steady_inst_def valid_restore_def)
      define s1 where "s1 = committed env (l @ ps) [IStatusUpdate i1] s"
      have s1: "steady_inst u L b s1" using s 1 by (simp add: s1_def)
      have "committed env l cs s = committed env (l @ ps @ [IStatusUpdate i1]) [IStatusUpdate inst'] s1"
        using committed_append [of env "l @ ps" "[IStatusUpdate i1]" "[IStatusUpdate inst']" s]
        by (simp add: cs committed_append committed_plain ps(2) s1_def)
      then have c: "steady_inst u L b (committed env l cs s) \<or> steady_inst u (Some t) True (committed env l cs s)"
        using s1 2 [OF s1] by simp
      have l: "launches cs = []" by (simp add: cs launches_plain ps(2))
      then have "spent u L b (l @ cs)" using sp by (simp add: spent_def)
      moreover from this have "spent u (Some t) True (l @ cs)" using started(1,2) by (rule spent_newer)
      moreover have "steady_inst u (Some t) True ((committed env l cs s)\<lparr>inst_Status := inst_Status inst'\<rparr>)"
        using c started(5) by (auto simp: steady_inst_def valid_restore_def)
      ultimately show ?thesis using c by (blast intro: steady_run_inv)
    next
      case (launched i1 l2 req t)
      obtain qs where qs: "l2 = l1 @ IStatusUpdate i1 # qs" "\<forall>c \<in> set qs. plain_call c"
        using launched(5) by (auto simp: grows_def)
      obtain rest where r: "l @ cs = l2 @ IPhysicalRestore req # rest" "\<forall>c \<in> set rest. writes_steady u L False c"
        using launched(8) by (auto simp: grows_def)
      have cs: "cs = ps @ [IStatusUpdate i1] @ qs @ [IPhysicalRestore req] @ rest" using ps qs r by simp
      have i1: "steady_inst u L False (s\<lparr>inst_Status := inst_Status i1\<rparr>)"
        using s launched(2) by (simp add: steady_inst_def valid_restore_def)
      have "committed env l cs s = committed env (l2 @ [IPhysicalRestore req]) rest (s\<lparr>inst_Status := inst_Status i1\<rparr>)"
        using launched(3) ps qs by (simp add: cs committed_append committed_plain)
      then have c: "steady_inst u L False (committed env l cs s)"
        using committed_steady [OF r(2) env i1] by simp
      have "spent u L False (l @ (ps @ [IStatusUpdate i1] @ qs) @ [IPhysicalRestore req] @ rest)"
        unfolding launched(6)
      proof (rule spent_launch)
        show "spent u (Some t) True l" using sp launched(1,6) by simp
        show "launches (ps @ [IStatusUpdate i1] @ qs) = []"
          by (simp add: launches_plain ps(2) qs(2))
      qed (use launched(7) launches_writes [OF r(2)] in simp_all)
      then have "spent u L False (l @ cs)" by (simp add: cs)
      with c steady_with_status [OF c launched(4)] show ?thesis by (blast intro: steady_run_inv)
    qed
  qed
  then show "run_inv u (committed env l cs s) (l @ cs)"
    and "run_inv u ((committed env l cs s)\<lparr>inst_Status := inst_Status inst'\<rparr>) (l @ cs)" by blast+
qed

text \<open>A launch follows a status update that succeeded.\<close>

lemma restore_round_launch_saved:
  assumes "restore_round env l s sp ns = Some (inst', l @ cs, res, err)" "update_faithful env" "valid_restore s"
    and "launches cs \<noteq> []"
  obtains ps i rest where "cs = ps @ IStatusUpdate i # rest" "ie_StatusUpdate env (l @ ps) i = None"
    "status_reason (inst_Status i) \<notin> preparing"
proof -
  define L where "L = ist_LastRestoreTime (inst_Status s)"
  define b where "b = (status_reason (inst_Status s) \<in> preparing)"
  have s: "steady_inst (inst_UID s) L b s"
    using assms(3) by (simp add: steady_inst_def steady_def L_def b_def)
  have "\<not> grows l (l @ cs) (writes_steady (inst_UID s) L b)"
    using assms(4) launches_writes unfolding grows_calls by blast
  with assms(1) show thesis
  proof (cases rule: restore_round_cases)
    case untouched
    then show thesis using assms(4) launches_plain by simp
  next
    case (failed l1 m)
    from restore_failed_steady [OF failed(2) assms(2) s] reading_plain [OF failed(1)] show thesis
      using \<open>\<not> grows _ _ _\<close> by (blast intro: grows_plain_then)
  next
    case (switch rs backup l1)
    from reading_plain [OF switch(3)] obtain ps where ps: "l1 = l @ ps" "\<forall>c \<in> set ps. plain_call c" by (auto simp: grows_def)
    have "status_reason (inst_Status s) \<in> preparing \<longrightarrow> b" by (simp add: b_def)
    from switch(6) assms(2) s this switch(1) show thesis
    proof (cases rule: restore_switch_cases)
      case quiet
      then show thesis using \<open>\<not> grows _ _ _\<close> reading_plain [OF switch(3)] by (blast intro: grows_plain_then)
    next
      case (started i1 t)
      then show thesis using assms(4) ps launches_plain by simp
    next
      case (launched i1 l2 req t)
      then show thesis using that [of ps i1] ps by (auto simp: grows_def steady_def)
    qed
  qed
qed

lemma all_refused_saved: "all_refused env l (ps @ IStatusUpdate i # rest) \<Longrightarrow> ie_StatusUpdate env (l @ ps) i \<noteq> None"
proof (induction ps arbitrary: l)
  case (Cons c ps)
  then show ?case using Cons.IH [of "l @ [c]"] by simp
qed simp

lemma restore_run_inv:
  assumes "restore_run env inst0 s l" "update_faithful env" "run_inv u inst0 []"
  shows "run_inv u s l"
  using assms(1)
proof induction
  case (run_stale s l old sp ns inst' cs res err)
  have "launches cs = []"
  proof (rule ccontr)
    assume "launches cs \<noteq> []"
    with run_stale(2) assms(2) run_stale(4) obtain ps i rest
      where "cs = ps @ IStatusUpdate i # rest" "ie_StatusUpdate env (l @ ps) i = None"
      by (rule restore_round_launch_saved)
    with run_stale(5) all_refused_saved show False by blast
  qed
  with run_stale(6) show ?case by (simp add: run_inv_def spent_def)
next
  case (run_others s l s' cs)
  then have "steady_inst u (ist_LastRestoreTime (inst_Status s)) (status_reason (inst_Status s) \<in> preparing) s'"
    "spent u (ist_LastRestoreTime (inst_Status s)) (status_reason (inst_Status s) \<in> preparing) (l @ cs)"
    by (auto simp: run_inv_def steady_inst_def steady_def spent_def)
  then show ?case by (rule steady_run_inv)
qed (use assms(2,3) restore_round_inv in blast)+

text \<open>
  C4: a restore request is carried out at most once. Whatever status updates fail or are lost, whichever
  copies are stale and whatever users and other controllers do in between, no two calls that launch a
  physical restore have the same operation id, and every id is that of a restore of this instance.
\<close>

theorem restore_launched_once:
  assumes "restore_run env inst0 s l" and "update_faithful env" and "valid_restore inst0"
    and "\<forall>t. ist_LastRestoreTime (inst_Status inst0) = Some t \<longrightarrow> valid_time t"
  shows "distinct (launches l) \<and> (\<forall>x \<in> set (launches l). \<exists>t. x = operation_id (inst_UID inst0) t)"
proof -
  have "run_inv (inst_UID inst0) inst0 []" using assms(3,4) by (simp add: run_inv_def spent_def)
  with restore_run_inv [OF assms(1,2)] show ?thesis unfolding run_inv_def spent_def by blast
qed

text \<open>A physical restore from a backup by its id, prepared and not launched yet.\<close>

definition sample_request :: RestoreSpec where
  "sample_request = \<lparr>rs_BackupType = ''Physical'', rs_BackupID = ''id7'', rs_BackupRef = None, rs_PITRRestore = None,
     rs_Dop = 0, rs_TimeLimitMinutes = 0, rs_Force = True, rs_RequestTime = 63000000000 * Second\<rparr>"

definition with_reason :: "string \<Rightarrow> Instance \<Rightarrow> Instance" where
  "with_reason r inst = upsert sample_env [] inst k8s_Ready ConditionFalse r []"

definition sample_restoring :: Instance where
  "sample_restoring = with_reason k8s_RestorePreparationComplete
     (sample_instance\<lparr>inst_Spec := (inst_Spec sample_instance)\<lparr>is_Restore := Some sample_request\<rparr>,
        inst_Status := (inst_Status sample_instance)\<lparr>ist_LastRestoreTime := Some (63000000000 * Second),
          ist_LockedByController := restore_owner\<rparr>\<rparr>)"

definition restore_env :: inst_env where
  "restore_env = sample_env\<lparr>ie_ListBackups := (\<lambda>_ _ _. Inr [sample_backup ''7'', sample_backup ''12''])\<rparr>"

definition round_launches :: "restore_result option \<Rightarrow> string list" where
  "round_launches r = (case r of None \<Rightarrow> [] | Some (_, l, _) \<Rightarrow> launches l)"

lemma sample_launch:
  "round_launches (restore_round restore_env [] sample_restoring sample_sp ''db'') =
     [''PhysicalRestore_uid-1_1997-05-23T16:00:00Z'']"
  by code_simp

theorem restore_launched_once_witness:
  "\<exists>s l. restore_run restore_env sample_restoring s l \<and> launches l \<noteq> [] \<and> distinct (launches l)"
proof -
  obtain inst' l res err where r: "restore_round restore_env [] sample_restoring sample_sp ''db'' = Some (inst', [] @ l, res, err)"
    and l: "launches l \<noteq> []"
    using sample_launch by (fastforce simp: round_launches_def split: option.splits)
  have run: "restore_run restore_env sample_restoring (committed restore_env [] l sample_restoring) ([] @ l)"
    by (rule run_lost [OF run_start r])
  have "update_faithful restore_env" by (simp add: update_faithful_def restore_env_def sample_env_def)
  moreover have "valid_restore sample_restoring"
    by (simp add: valid_restore_def sample_restoring_def with_reason_def sample_request_def valid_time_def)
  moreover have "ist_LastRestoreTime (inst_Status sample_restoring) = Some (63000000000 * Second)"
    by (simp add: sample_restoring_def with_reason_def)
  ultimately have "distinct (launches ([] @ l))"
    using restore_launched_once [OF run] by (auto simp: valid_time_def)
  with run l show ?thesis by auto
qed

subsection \<open>What a restore requires\<close>

definition restoring :: "string set" where
  "restoring = {k8s_RestorePreparationInProgress, k8s_RestorePreparationComplete, k8s_RestoreInProgress,
     k8s_PostRestoreBootstrapInProgress, k8s_PostRestoreBootstrapComplete, k8s_PostRestoreDatabasePatchingInProgress}"

lemma setRestoreFailed_harmless:
  "setRestoreFailed env l inst m = (inst', l', e) \<Longrightarrow> grows l l' (\<lambda>c. \<not> invasive c)"
  by (auto simp: setRestoreFailed_def ReleaseInstanceMaintenanceLock_def Let_def split: option.splits sum.splits)

lemma restore_failed_harmless:
  "restore_failed env l inst m e = (inst', l', res, err) \<Longrightarrow> grows l l' (\<lambda>c. \<not> invasive c)"
  by (auto simp: restore_failed_def dest: setRestoreFailed_harmless split: prod.splits option.splits)

lemma restore_entry_harmless:
  "restore_entry env l inst rs = (inst', l', res, err) \<Longrightarrow> grows l l' (\<lambda>c. \<not> invasive c)"
  by (auto simp: restore_entry_def AcquireInstanceMaintenanceLock_def Let_def split: if_splits prod.splits option.splits)

lemma restore_switch_harmless:
  assumes "restore_switch env l r inst rs sp backup ns = Some (inst', l', res, err)" and "r \<notin> restoring"
  shows "grows l l' (\<lambda>c. \<not> invasive c)"
proof (cases "r = k8s_RestoreComplete \<or> r = k8s_CreateComplete \<or> r = k8s_RestoreFailed")
  case True
  then have "restore_entry env l inst rs = (inst', l', res, err)"
    using assms(1) unfolding restore_switch_def by simp
  then show ?thesis by (rule restore_entry_harmless)
next
  case False
  with assms have "l' = l" unfolding restore_switch_def restoring_def by simp
  then show ?thesis by simp
qed

lemma findBackupForRestore_type:
  "findBackupForRestore env l inst rs ns = (l', Inr backup) \<Longrightarrow> bk_Type backup = rs_BackupType rs"
  by (auto simp: findBackupForRestore_def check_type_def Let_def split: if_splits prod.splits sum.splits option.splits)

text \<open>
  C5: the database and its storage are touched only for a forced restore from a good backup. If a round
  of the restore deletes or recreates the stateful set or a claim, starts a physical restore, bootstraps
  the database or starts datapatch, then the restore has \<open>force\<close> set, a backup of the requested type was
  found and is ready, and an earlier round has accepted the request.
\<close>

theorem restore_requires_force_and_backup:
  assumes "restore_round env l inst sp ns = Some (inst', l @ cs, res, err)" and "c \<in> set cs" and "invasive c"
  shows "\<exists>rs backup l1. is_Restore (inst_Spec inst) = Some rs \<and> rs_Force rs \<and>
           findBackupForRestore env l inst rs ns = (l1, Inr backup) \<and> backup_ready backup \<and>
           bk_Type backup = rs_BackupType rs \<and> status_reason (inst_Status inst) \<in> restoring"
proof -
  have touched: "\<not> grows l (l @ cs) (\<lambda>c. \<not> invasive c)" using assms(2,3) by auto
  have harmless: "grows l l1 (\<lambda>c. \<not> invasive c)" if "findBackupForRestore env l inst rs ns = (l1, f)" for rs l1 f
    using findBackupForRestore_reading [OF that] by (auto simp: grows_def)
  from assms(1) show ?thesis
  proof (cases rule: restore_round_cases)
    case untouched
    then show ?thesis using touched by (simp add: grows_def)
  next
    case (failed l1 m)
    from failed(1) have "grows l l1 (\<lambda>c. \<not> invasive c)" by (auto simp: grows_def)
    from grows_trans [OF this restore_failed_harmless [OF failed(2)]] touched show ?thesis by blast
  next
    case (switch rs backup l1)
    have "status_reason (inst_Status inst) \<in> restoring"
      using restore_switch_harmless [OF switch(6)] touched grows_trans [OF harmless [OF switch(4)]] by blast
    with switch findBackupForRestore_type show ?thesis by blast
  qed
qed

theorem restore_requires_force_and_backup_witness:
  "\<exists>rs backup l1. is_Restore (inst_Spec sample_restoring) = Some rs \<and> rs_Force rs \<and>
     findBackupForRestore restore_env [] sample_restoring rs ''db'' = (l1, Inr backup) \<and> backup_ready backup"
proof -
  obtain inst' l res err where r: "restore_round restore_env [] sample_restoring sample_sp ''db'' = Some (inst', [] @ l, res, err)"
    and l: "launches l \<noteq> []"
    using sample_launch by (fastforce simp: round_launches_def split: option.splits)
  from l have "\<exists>c \<in> set l. invasive c"
  proof (induction l)
    case (Cons c l)
    then show ?case by (cases c) (auto simp: launches_def map_filter_def)
  qed simp
  then show ?thesis using restore_requires_force_and_backup [OF r] by blast
qed

end
