(* ===== verification/RestoreEnd.thy ===== *)
theory RestoreEnd
  imports RestoreRun
begin

text \<open>
  How a physical restore ends: in six or seven reconciles when the calls succeed, and never when the launch fails
  after its state has been committed.
\<close>

text \<open>Reconciles in a row, each with its status stored.\<close>

fun restore_rounds ::
    "inst_env \<Rightarrow> StsParams \<Rightarrow> string \<Rightarrow> nat \<Rightarrow> Instance \<Rightarrow> inst_log \<Rightarrow> (Instance \<times> inst_log) option" where
  "restore_rounds env sp ns 0 inst l = Some (inst, l)"
| "restore_rounds env sp ns (Suc n) inst l =
     (case restore_round env l inst sp ns of
        None \<Rightarrow> None
      | Some (inst', l', _) \<Rightarrow> restore_rounds env sp ns n inst' l')"

text \<open>A forced physical restore, not to a point in time, whose backup is found on every search and is ready.\<close>

definition backup_found :: "inst_env \<Rightarrow> RestoreSpec \<Rightarrow> Backup \<Rightarrow> string \<Rightarrow> bool" where
  "backup_found env rs backup ns \<longleftrightarrow>
     rs_BackupType rs = ''Physical'' \<and> rs_PITRRestore rs = None \<and> rs_Force rs \<and> backup_ready backup \<and>
     (\<forall>l inst. \<exists>cs. findBackupForRestore env l inst rs ns = (l @ cs, Inr backup) \<and> launches cs = [])"

text \<open>So it is for a backup named by its id or by a reference.\<close>

lemma found_by_id:
  assumes "rs_BackupType rs = ''Physical''" "rs_BackupID rs \<noteq> []" "rs_BackupRef rs = None" "rs_PITRRestore rs = None"
    "rs_Force rs" "bk_Type backup = ''Physical''" "backup_ready backup"
    "\<And>l. \<exists>items. ie_ListBackups env l ns [] = Inr items \<and> last_match (\<lambda>b. bk_BackupID b = rs_BackupID rs) items = Some backup"
  shows "backup_found env rs backup ns"
proof -
  have "findBackupForRestore env l inst rs ns = (l @ [IListBackups ns []], Inr backup)" for l inst
  proof -
    obtain items where "ie_ListBackups env l ns [] = Inr items" "last_match (\<lambda>b. bk_BackupID b = rs_BackupID rs) items = Some backup"
      using assms(8) by blast
    with assms(1-7) show ?thesis by (simp add: findBackupForRestore_def check_type_def)
  qed
  with assms show ?thesis by (auto simp: backup_found_def launches_def map_filter_def)
qed

lemma found_by_reference:
  assumes "rs_BackupType rs = ''Physical''" "rs_BackupRef rs = Some ref" "rs_BackupID rs = []" "rs_PITRRestore rs = None"
    "rs_Force rs" "bk_Type backup = ''Physical''" "backup_ready backup"
    "\<And>l. ie_GetBackup env l (bref_Namespace ref) (bref_Name ref) = Inr backup"
  shows "backup_found env rs backup ns"
proof -
  have "findBackupForRestore env l inst rs ns = (l @ [IGetBackup (bref_Namespace ref) (bref_Name ref)], Inr backup)" for l inst
    using assms by (simp add: findBackupForRestore_def check_type_def)
  with assms show ?thesis by (auto simp: backup_found_def launches_def map_filter_def)
qed

text \<open>The restore is under way: the state, the request, the lock and what the other rounds rely on.\<close>

definition under_restore :: "RestoreSpec \<Rightarrow> Instance \<Rightarrow> string \<Rightarrow> Instance \<Rightarrow> bool" where
  "under_restore rs inst0 r inst \<longleftrightarrow>
     is_Restore (inst_Spec inst) = Some rs \<and> status_reason (inst_Status inst) = r \<and>
     reason_of (ist_Conditions (inst_Status inst)) k8s_DatabaseInstanceReady = k8s_CreateComplete \<and>
     ist_LastRestoreTime (inst_Status inst) = Some (rs_RequestTime rs) \<and>
     ist_LockedByController (inst_Status inst) = restore_owner \<and>
     ist_ActiveImages (inst_Status inst) = ist_ActiveImages (inst_Status inst0) \<and> inst_UID inst = inst_UID inst0"

lemma reason_of_cond:
  "r \<noteq> [] \<Longrightarrow> reason_of cs n = r \<Longrightarrow> \<exists>c. FindCondition cs n = Some c \<and> Reason c = r"
  by (auto simp: reason_of_def split: option.splits)

lemma round_switch:
  assumes "backup_found env rs backup ns" "is_Restore (inst_Spec inst) = Some rs"
    "status_reason (inst_Status inst) = r" "r \<noteq> []" "r \<noteq> k8s_CreateInProgress"
    "reason_of (ist_Conditions (inst_Status inst)) k8s_DatabaseInstanceReady = k8s_CreateComplete"
  shows "\<exists>cs. launches cs = [] \<and> restore_round env l inst sp ns = restore_switch env (l @ cs) r inst rs sp backup ns"
proof -
  obtain c d where "inst_cond inst k8s_Ready = Some c" "Reason c = r"
    "inst_cond inst k8s_DatabaseInstanceReady = Some d" "Reason d = k8s_CreateComplete"
    using reason_of_cond [OF assms(4,3)] reason_of_cond [OF _ assms(6)] by auto
  moreover have "rs_Force rs" "ConditionStatusEquals (FindCondition (bk_Conditions backup) k8s_Ready) ConditionTrue"
    using assms(1) by (simp_all add: backup_found_def backup_ready_def)
  moreover obtain cs where "findBackupForRestore env l inst rs ns = (l @ cs, Inr backup)" "launches cs = []"
    using assms(1) unfolding backup_found_def by blast
  ultimately show ?thesis using assms
    by (intro exI [of _ cs]) (simp add: restore_round_def restoreStateMachine_def Let_def ConditionReasonEquals_def)
qed

lemma under_switch:
  assumes "backup_found env rs backup ns" "under_restore rs inst0 r inst" "r \<in> restoring"
  shows "\<exists>cs. launches cs = [] \<and> restore_round env l inst sp ns = restore_switch env (l @ cs) r inst rs sp backup ns"
  using assms(2,3) by (intro round_switch [OF assms(1)]) (auto simp: under_restore_def restoring_def)

lemma under_upsert:
  "under_restore rs inst0 r inst \<Longrightarrow> under_restore rs inst0 r' (upsert env l inst k8s_Ready st r' m)"
  by (simp add: under_restore_def)

lemma found_physical: "backup_found env rs backup ns \<Longrightarrow> rs_BackupType rs = ''Physical''"
  by (simp add: backup_found_def)

lemma launches_other [simp]:
  "launches (IListBackups ns ls # l) = launches l" "launches (IGetService ns n # l) = launches l"
  "launches (IGetLRO i # l) = launches l" "launches (IDeleteLRO i # l) = launches l"
  "launches (IBootstrapDatabase b # l) = launches l" "launches (IUpdate o1 # l) = launches l"
  "launches (IEvent e a b' # l) = launches l" "launches (IApplyDataPatch i # l) = launches l"
  by (simp_all add: launches_def map_filter_def)

subsection \<open>Stuck\<close>






lemma sample_backup_ready: "backup_ready (sample_backup scn)"
  by (simp add: backup_ready_def sample_backup_def ConditionStatusEquals_def)

lemma sample_found: "backup_found env sample_request (sample_backup ''7'') ns"
  if "\<And>l. ie_ListBackups env l ns [] = Inr [sample_backup ''7'', sample_backup ''12'']" for env
proof (rule found_by_id)
  show "\<exists>items. ie_ListBackups env l ns [] = Inr items \<and>
      last_match (\<lambda>b. bk_BackupID b = rs_BackupID sample_request) items = Some (sample_backup ''7'')" for l
    using that by (simp add: sample_request_def last_match_def) (simp add: sample_backup_def)
qed (simp_all add: sample_request_def sample_backup_ready, simp add: sample_backup_def)





subsection \<open>Completion\<close>

text \<open>Every call succeeds: updates return what was sent, the load balancer is up, the physical restore is
  started as a long running operation that is done without an error when asked, and bootstrap and datapatch work.\<close>

definition restore_succeeds :: "inst_env \<Rightarrow> bool" where
  "restore_succeeds env \<longleftrightarrow>
     (\<forall>l i. ie_StatusUpdate env l i = None) \<and> (\<forall>l i. ie_Update env l i = Inr i) \<and>
     (\<forall>l ns n. \<exists>a as. ie_GetService env l ns n = Inr (a # as)) \<and>
     (\<forall>l req. \<exists>op. ie_PhysicalRestore env l req = Inr op \<and> \<not> op_Done op) \<and>
     (\<forall>l opid. \<exists>op. ie_GetLRO env l opid = Inr op \<and> op_Done op \<and> op_error op = None) \<and>
     (\<forall>l req. ie_BootstrapDatabase env l req = None) \<and>
     (\<forall>l opid. ie_ApplyDataPatch env l opid = None) \<and> (\<forall>l opid. ie_DeleteLRO env l opid = None)"

definition good_backup :: "Backup \<Rightarrow> bool" where
  "good_backup backup \<longleftrightarrow> check_physical backup = None"

text \<open>One round moves the restore from one state to the next, with the launches it makes.\<close>

definition round_to :: "inst_env \<Rightarrow> StsParams \<Rightarrow> string \<Rightarrow> inst_log \<Rightarrow> Instance \<Rightarrow> (Instance \<Rightarrow> bool) \<Rightarrow> string list \<Rightarrow> bool" where
  "round_to env sp ns l inst Q xs \<longleftrightarrow>
     (\<exists>s l' res. restore_round env l inst sp ns = Some (s, l', res, None) \<and> Q s \<and> launches l' = launches l @ xs)"

lemma rounds_to:
  assumes "round_to env sp ns l inst Q xs"
    and "\<And>s l'. Q s \<Longrightarrow> launches l' = launches l @ xs \<Longrightarrow>
           \<exists>s2 l2. restore_rounds env sp ns n s l' = Some (s2, l2) \<and> P s2 \<and> launches l2 = launches l' @ ys"
  shows "\<exists>s2 l2. restore_rounds env sp ns (Suc n) inst l = Some (s2, l2) \<and> P s2 \<and> launches l2 = launches l @ xs @ ys"
proof -
  obtain s l' res where r: "restore_round env l inst sp ns = Some (s, l', res, None)" "Q s" "launches l' = launches l @ xs"
    using assms(1) by (auto simp: round_to_def)
  from assms(2) [OF r(2,3)] r show ?thesis by auto
qed

lemma restore_round_entry:
  assumes "restore_succeeds env" "backup_found env rs backup ns"
    "is_Restore (inst_Spec inst) = Some rs" "status_reason (inst_Status inst) \<in> {k8s_CreateComplete, k8s_RestoreComplete, k8s_RestoreFailed}"
    "reason_of (ist_Conditions (inst_Status inst)) k8s_DatabaseInstanceReady = k8s_CreateComplete"
    "newer (ist_LastRestoreTime (inst_Status inst)) (rs_RequestTime rs)"
    "ist_LockedByController (inst_Status inst) \<in> {[], restore_owner}"
  shows "round_to env sp ns l inst (under_restore rs inst k8s_RestorePreparationInProgress) []"
proof -
  let ?r = "status_reason (inst_Status inst)"
  obtain cs where cs: "launches cs = []"
    "restore_round env l inst sp ns = restore_switch env (l @ cs) ?r inst rs sp backup ns"
    using assms(4) round_switch [OF assms(2,3) refl _ _ assms(5), of l sp] by auto
  let ?l = "l @ cs"
  note cs(2)
  also have "\<dots> = Some (restore_entry env ?l inst rs)" using assms(4) by (auto simp: restore_switch_def)
  finally have r: "restore_round env l inst sp ns = Some (restore_entry env ?l inst rs)" .
  have ok: "ie_StatusUpdate env l i = None" for l i using assms(1) by (simp add: restore_succeeds_def)
  define i1 where "i1 = set_lock restore_owner inst"
  have acq: "AcquireInstanceMaintenanceLock env ?l inst restore_owner = (i1, ?l @ [IStatusUpdate i1], None)"
    using assms(7) ok by (auto simp: AcquireInstanceMaintenanceLock_def acquire_field_def i1_def Let_def)
  define i2 where "i2 = upsert env (?l @ [IStatusUpdate i1]) (i1\<lparr>inst_Status := (inst_Status i1)
      \<lparr>ist_LastRestoreTime := Some (rs_RequestTime rs), ist_BackupID := []\<rparr>\<rparr>) k8s_Ready ConditionFalse
      k8s_RestorePreparationInProgress []"
  have guard: "\<not> (case ist_LastRestoreTime (inst_Status inst) of
                 None \<Rightarrow> False | Some t \<Rightarrow> \<not> Rfc3339Copy (rs_RequestTime rs) > t)"
    using assms(6) by (auto simp: newer_def split: option.splits)
  have "restore_entry env ?l inst rs = (i2, ?l @ [IStatusUpdate i1] @ [IStatusUpdate i2], requeue_now, None)"
    using guard found_physical [OF assms(2)] ok acq
    by (simp add: restore_entry_def i2_def Let_def)
  moreover have "under_restore rs inst k8s_RestorePreparationInProgress i2"
    using assms(3,5) by (simp add: under_restore_def i2_def i1_def set_lock_def)
  ultimately show ?thesis using r cs(1) by (auto simp: round_to_def)
qed

lemma round_preparation:
  assumes "backup_found env rs backup ns" "under_restore rs inst0 k8s_RestorePreparationInProgress inst"
  shows "round_to env sp ns l inst (under_restore rs inst0 k8s_RestorePreparationComplete) []"
  using under_switch [OF assms, of l sp] under_upsert [OF assms(2)] found_physical [OF assms(1)]
  by (auto simp: round_to_def restoring_def restore_switch_def restore_preparation_def Let_def)

lemma round_launch:
  assumes "restore_succeeds env" "backup_found env rs backup ns" "good_backup backup"
    "under_restore rs inst0 k8s_RestorePreparationComplete inst"
  shows "round_to env sp ns l inst (under_restore rs inst0 k8s_RestoreInProgress)
           [operation_id (inst_UID inst0) (rs_RequestTime rs)]"
proof -
  obtain cs where cs: "launches cs = []" "restore_round env l inst sp ns = restore_switch env (l @ cs) k8s_RestorePreparationComplete inst rs sp backup ns"
    using under_switch [OF assms(2,4)] by (auto simp: restoring_def)
  define l1 where "l1 = l @ cs"
  have l1: "launches l1 = launches l" using cs(1) by (simp add: l1_def)
  define i1 where "i1 = upsert env l1 inst k8s_Ready ConditionFalse k8s_RestoreInProgress []"
  define l2 where "l2 = l1 @ [IStatusUpdate i1]"
  have u: "under_restore rs inst0 k8s_RestoreInProgress i1" unfolding i1_def by (rule under_upsert [OF assms(4)])
  then have id: "lroRestoreOperationID physicalRestore i1 = Some (operation_id (inst_UID inst0) (rs_RequestTime rs))"
    by (simp add: under_restore_def lroRestoreOperationID_def operation_id_def)
  obtain a as where svc: "ie_GetService env l2 ns (inst_Name i1 @ ''-svc'') = Inr (a # as)"
    using assms(1) unfolding restore_succeeds_def by blast
  define l3 where "l3 = l2 @ [IGetService ns (inst_Name i1 @ ''-svc'')]"
  have pre: "restorePhysicalPreflightCheck env l2 ns (inst_Name i1) = (l3, None)"
    using svc by (simp add: restorePhysicalPreflightCheck_def l3_def)
  have rng: "restore_range env l3 i1 rs backup = (l3, Inr (0, 0, None, None, [], map_get (bk_Labels backup) IncarnationLabel))"
    using assms(2) by (simp add: restore_range_def backup_found_def)
  define req where "req = physical_request i1 rs backup (operation_id (inst_UID inst0) (rs_RequestTime rs))
      (0, 0, None, None, [], map_get (bk_Labels backup) IncarnationLabel)"
  obtain op where op: "ie_PhysicalRestore env l3 req = Inr op" "\<not> op_Done op"
    using assms(1) unfolding restore_succeeds_def by blast
  have "restorePhysical env l2 i1 rs backup ns = Some (l3 @ [IPhysicalRestore req], Inr op)"
    using pre rng id op assms(3) by (simp add: restorePhysical_def good_backup_def Let_def req_def)
  moreover have "ie_StatusUpdate env l1 i1 = None" using assms(1) by (simp add: restore_succeeds_def)
  ultimately have "restore_launch env l1 inst rs sp backup ns = Some (i1, l3 @ [IPhysicalRestore req], requeue_now, None)"
    using found_physical [OF assms(2)] op
    by (simp add: restore_launch_def Let_def i1_def [symmetric] l2_def [symmetric])
  then have "restore_round env l inst sp ns = Some (i1, l3 @ [IPhysicalRestore req], requeue_now, None)"
    using cs(2) l1 by (simp add: restoring_def restore_switch_def l1_def)
  moreover have "launches (l3 @ [IPhysicalRestore req]) = launches l @ [operation_id (inst_UID inst0) (rs_RequestTime rs)]"
    by (simp add: l3_def l2_def l1 req_def physical_request_def)
  ultimately show ?thesis using u by (auto simp: round_to_def)
qed

lemma round_in_progress:
  assumes "restore_succeeds env" "backup_found env rs backup ns" "under_restore rs inst0 k8s_RestoreInProgress inst"
  shows "round_to env sp ns l inst (under_restore rs inst0 k8s_PostRestoreBootstrapInProgress) []"
proof -
  obtain cs where cs: "launches cs = []" "restore_round env l inst sp ns = restore_switch env (l @ cs) k8s_RestoreInProgress inst rs sp backup ns"
    using under_switch [OF assms(2,3)] by (auto simp: restoring_def)
  define l1 where "l1 = l @ cs"
  have l1: "launches l1 = launches l" using cs(1) by (simp add: l1_def)
  obtain opid where opid: "lroRestoreOperationID physicalRestore inst = Some opid"
    using assms(3) by (simp add: under_restore_def lroRestoreOperationID_def)
  obtain op where op: "ie_GetLRO env l1 opid = Inr op" "op_Done op" "op_error op = None"
    using assms(1) unfolding restore_succeeds_def by blast
  have "ie_StatusUpdate env l2 i = None" for l2 i using assms(1) by (simp add: restore_succeeds_def)
  then have "\<exists>s l2. restore_in_progress env l1 inst rs = Some (s, l2, requeue_now, None) \<and>
      under_restore rs inst0 k8s_PostRestoreBootstrapInProgress s \<and> launches l2 = launches l1"
    using opid op found_physical [OF assms(2)] under_upsert [OF assms(3)]
    by (simp add: restore_in_progress_def restore_poll_def IsLROOperationDone_def commit_def Let_def)
  then show ?thesis using cs(2) l1
    by (auto simp: round_to_def restoring_def restore_switch_def l1_def)
qed

lemma round_bootstrap:
  assumes "restore_succeeds env" "backup_found env rs backup ns" "under_restore rs inst0 k8s_PostRestoreBootstrapInProgress inst"
  shows "round_to env sp ns l inst (under_restore rs inst0 k8s_PostRestoreBootstrapComplete) []"
proof -
  obtain cs where cs: "launches cs = []" "restore_round env l inst sp ns = restore_switch env (l @ cs) k8s_PostRestoreBootstrapInProgress inst rs sp backup ns"
    using under_switch [OF assms(2,3)] by (auto simp: restoring_def)
  define l1 where "l1 = l @ cs"
  have l1: "launches l1 = launches l" using cs(1) by (simp add: l1_def)
  have "ie_StatusUpdate env l2 i = None" "ie_BootstrapDatabase env l2 req = None" for l2 i req
    using assms(1) by (simp_all add: restore_succeeds_def)
  then have "\<exists>s l2. restore_bootstrap env l1 inst rs = (s, l2, requeue_now, None) \<and>
      under_restore rs inst0 k8s_PostRestoreBootstrapComplete s \<and> launches l2 = launches l1"
    using found_physical [OF assms(2)] under_upsert [OF assms(3)]
    by (simp add: restore_bootstrap_def commit_def Let_def)
  then show ?thesis using cs(2) l1
    by (auto simp: round_to_def restoring_def restore_switch_def l1_def)
qed

text \<open>The end: the request is removed, the lock is free and the time of the restore is recorded.\<close>

definition restored :: "RestoreSpec \<Rightarrow> Instance \<Rightarrow> bool" where
  "restored rs inst \<longleftrightarrow>
     is_Restore (inst_Spec inst) = None \<and> status_reason (inst_Status inst) = k8s_RestoreComplete \<and>
     ConditionStatusEquals (inst_cond inst k8s_Ready) ConditionTrue \<and>
     ist_LockedByController (inst_Status inst) = [] \<and>
     ist_LastRestoreTime (inst_Status inst) = Some (rs_RequestTime rs)"

lemma succeeded_restored:
  assumes "restore_succeeds env" "under_restore rs inst0 r inst"
  shows "\<exists>s l2. setRestoreSucceeded env l1 inst rs m = (s, l2, None) \<and> restored rs s \<and> launches l2 = launches l1"
proof -
  have ok: "ie_StatusUpdate env l2 i = None" "ie_Update env l2 i = Inr i" for l2 i
    using assms(1) by (simp_all add: restore_succeeds_def)
  have "ist_LockedByController (inst_Status inst) = restore_owner" using assms(2) by (simp add: under_restore_def)
  then have "ReleaseInstanceMaintenanceLock env l1 inst restore_owner = (set_lock [] inst, l1 @ [IStatusUpdate (set_lock [] inst)], None)"
    using ok by (simp add: ReleaseInstanceMaintenanceLock_def release_field_def Let_def)
  then show ?thesis
    using ok assms(2)
    by (simp add: setRestoreSucceeded_def Let_def restored_def clear_restore_def under_restore_def set_lock_def)
qed

abbreviation same_image :: "Backup \<Rightarrow> Instance \<Rightarrow> bool" where
  "same_image backup inst \<equiv>
     map_get (bk_Annotations backup) DatabaseImageAnnotation = map_get (ist_ActiveImages (inst_Status inst)) ''service''"

lemma round_bootstrapped:
  assumes "restore_succeeds env" "backup_found env rs backup ns" "under_restore rs inst0 k8s_PostRestoreBootstrapComplete inst"
    "same_image backup inst0"
  shows "round_to env sp ns l inst (restored rs) []"
proof -
  obtain cs where cs: "launches cs = []" "restore_round env l inst sp ns = restore_switch env (l @ cs) k8s_PostRestoreBootstrapComplete inst rs sp backup ns"
    using under_switch [OF assms(2,3)] by (auto simp: restoring_def)
  obtain s l2 where "setRestoreSucceeded env (l @ cs) inst rs (restored_description (ie_now env (l @ cs)) rs) = (s, l2, None)"
    "restored rs s" "launches l2 = launches (l @ cs)" using succeeded_restored [OF assms(1,3)] by blast
  moreover have "ie_StatusUpdate env l3 i = None" for l3 i using assms(1) by (simp add: restore_succeeds_def)
  ultimately have "\<exists>l3. restore_bootstrapped env (l @ cs) inst rs backup = (s, l3, Result_zero, None) \<and> restored rs s \<and> launches l3 = launches l"
    using assms(3,4) cs(1) by (simp add: restore_bootstrapped_def commit_def under_restore_def)
  then show ?thesis using cs(2) by (auto simp: round_to_def restore_switch_def)
qed

lemma round_starts_datapatch:
  assumes "restore_succeeds env" "backup_found env rs backup ns" "under_restore rs inst0 k8s_PostRestoreBootstrapComplete inst"
    "\<not> same_image backup inst0"
  shows "round_to env sp ns l inst (under_restore rs inst0 k8s_PostRestoreDatabasePatchingInProgress) []"
proof -
  obtain cs where cs: "launches cs = []" "restore_round env l inst sp ns = restore_switch env (l @ cs) k8s_PostRestoreBootstrapComplete inst rs sp backup ns"
    using under_switch [OF assms(2,3)] by (auto simp: restoring_def)
  have "ie_StatusUpdate env l3 i = None" "ie_ApplyDataPatch env l3 j = None" for l3 i j
    using assms(1) by (simp_all add: restore_succeeds_def)
  then have "\<exists>s l3. restore_bootstrapped env (l @ cs) inst rs backup = (s, l3, requeue_now, None) \<and>
      under_restore rs inst0 k8s_PostRestoreDatabasePatchingInProgress s \<and> launches l3 = launches l"
    using assms(3,4) cs(1) under_upsert [OF assms(3)]
    by (simp add: restore_bootstrapped_def commit_def startDatabasePatching_def Let_def) (simp add: under_restore_def)
  then show ?thesis using cs(2) by (auto simp: round_to_def restore_switch_def)
qed

lemma round_datapatch:
  assumes "restore_succeeds env" "backup_found env rs backup ns" "under_restore rs inst0 k8s_PostRestoreDatabasePatchingInProgress inst"
  shows "round_to env sp ns l inst (restored rs) []"
proof -
  obtain cs where cs: "launches cs = []"
      "restore_round env l inst sp ns = restore_switch env (l @ cs) k8s_PostRestoreDatabasePatchingInProgress inst rs sp backup ns"
    using under_switch [OF assms(2,3)] by (auto simp: restoring_def)
  define l1 where "l1 = l @ cs"
  let ?id = "lroPatchingOperationID inst"
  obtain op where op: "ie_GetLRO env l1 ?id = Inr op" "op_Done op" "op_error op = None"
    using assms(1) unfolding restore_succeeds_def by blast
  have "ie_DeleteLRO env l2 i = None" for l2 i using assms(1) by (simp add: restore_succeeds_def)
  with op have "isDatabasePatchingDone env l1 inst = (l1 @ [IGetLRO ?id] @ [IDeleteLRO ?id], True, None)"
    by (simp add: isDatabasePatchingDone_def Let_def)
  moreover obtain s l2 where "setRestoreSucceeded env (l1 @ [IGetLRO ?id] @ [IDeleteLRO ?id]) inst rs
      (restored_description (ie_now env (l1 @ [IGetLRO ?id] @ [IDeleteLRO ?id])) rs) = (s, l2, None)"
    "restored rs s" "launches l2 = launches (l1 @ [IGetLRO ?id] @ [IDeleteLRO ?id])"
    using succeeded_restored [OF assms(1,3)] by blast
  ultimately have "restore_datapatch env l1 inst rs = (s, l2, requeue_now, None)" "restored rs s" "launches l2 = launches l"
    using cs(1) by (simp_all add: restore_datapatch_def l1_def)
  then show ?thesis using cs(2) by (auto simp: round_to_def restore_switch_def l1_def)
qed

text \<open>
  C6: a physical restore ends. When the calls succeed, a forced restore of a ready instance, not to a point in time, from a
  ready backup that is found has been launched exactly once, under the id of this request, and is complete after six
  reconciles when the backup was taken with the active image, and after seven, with a run of datapatch, when it was taken
  with another: the instance is ready with the reason \<open>RestoreComplete\<close>, the request is gone from the specification and the
  maintenance lock is free.
\<close>

theorem restore_completes:
  assumes "restore_succeeds env" and "backup_found env rs backup ns" and "good_backup backup"
    and "is_Restore (inst_Spec inst) = Some rs"
    and "status_reason (inst_Status inst) \<in> {k8s_CreateComplete, k8s_RestoreComplete, k8s_RestoreFailed}"
    and "reason_of (ist_Conditions (inst_Status inst)) k8s_DatabaseInstanceReady = k8s_CreateComplete"
    and "newer (ist_LastRestoreTime (inst_Status inst)) (rs_RequestTime rs)"
    and "ist_LockedByController (inst_Status inst) \<in> {[], restore_owner}"
  shows "\<exists>s l'. restore_rounds env sp ns
             (if map_get (bk_Annotations backup) DatabaseImageAnnotation = map_get (ist_ActiveImages (inst_Status inst)) ''service''
              then 6 else 7) inst l = Some (s, l') \<and> restored rs s \<and>
           launches l' = launches l @ [operation_id (inst_UID inst) (rs_RequestTime rs)]"
proof -
  let ?id = "operation_id (inst_UID inst) (rs_RequestTime rs)"
  let ?n = "if same_image backup inst then Suc 0 else Suc (Suc 0)"
  note e = assms(1) and b = assms(2)
  define ends where "ends n s l1 xs \<longleftrightarrow>
    (\<exists>s2 l2. restore_rounds env sp ns n s l1 = Some (s2, l2) \<and> restored rs s2 \<and> launches l2 = launches l1 @ xs)"
    for n s l1 xs
  have next_round: "ends (Suc n) s l1 (xs @ ys)"
    if "round_to env sp ns l1 s Q xs" "\<And>s' l'. Q s' \<Longrightarrow> ends n s' l' ys" for n s l1 Q xs ys
    using rounds_to [OF that(1)] that(2) unfolding ends_def by blast
  have 0: "ends 0 s l1 []" if "restored rs s" for s l1 using that by (simp add: ends_def)
  have p: "ends (Suc 0) s l1 ([] @ [])" if "under_restore rs inst k8s_PostRestoreDatabasePatchingInProgress s" for s l1
    by (rule next_round [OF round_datapatch [OF e b that] 0])
  have 1: "ends ?n s l1 []" if "under_restore rs inst k8s_PostRestoreBootstrapComplete s" for s l1
    using next_round [OF round_bootstrapped [OF e b that] 0] next_round [OF round_starts_datapatch [OF e b that] p [simplified]]
    by simp
  have 2: "ends (Suc ?n) s l1 ([] @ [])" if "under_restore rs inst k8s_PostRestoreBootstrapInProgress s" for s l1
    by (rule next_round [OF round_bootstrap [OF e b that] 1])
  have 3: "ends (Suc (Suc ?n)) s l1 ([] @ [])" if "under_restore rs inst k8s_RestoreInProgress s" for s l1
    by (rule next_round [OF round_in_progress [OF e b that] 2 [simplified append_Nil]])
  have 4: "ends (Suc (Suc (Suc ?n))) s l1 ([?id] @ [])" if "under_restore rs inst k8s_RestorePreparationComplete s" for s l1
    by (rule next_round [OF round_launch [OF e b assms(3) that] 3 [simplified append_Nil]])
  have 5: "ends (Suc (Suc (Suc (Suc ?n)))) s l1 ([] @ [?id])" if "under_restore rs inst k8s_RestorePreparationInProgress s" for s l1
    by (rule next_round [OF round_preparation [OF b that] 4 [simplified append_Nil2]])
  have "ends (Suc (Suc (Suc (Suc (Suc ?n))))) inst l ([] @ [?id])"
    by (rule next_round [OF restore_round_entry [OF e b assms(4-8)] 5 [simplified append_Nil]])
  moreover have "Suc (Suc (Suc (Suc (Suc ?n)))) = (if same_image backup inst then 6 else 7)" by simp
  ultimately show ?thesis unfolding ends_def by simp
qed

definition sample_requested :: Instance where
  "sample_requested = sample_instance\<lparr>inst_Spec := (inst_Spec sample_instance)\<lparr>is_Restore := Some sample_request\<rparr>\<rparr>"

theorem restore_completes_witness:
  "(\<exists>s l'. restore_rounds restore_env sample_sp ''db'' 6 sample_requested [] = Some (s, l') \<and> restored sample_request s \<and>
     launches l' = [operation_id ''uid-1'' (63000000000 * Second)])"
proof -
  have "restore_succeeds restore_env"
    by (simp add: restore_succeeds_def restore_env_def sample_env_def op_error_def)
  moreover have "backup_found restore_env sample_request (sample_backup ''7'') ''db''"
    by (rule sample_found) (simp add: restore_env_def)
  moreover have "good_backup (sample_backup ''7'')"
    by (simp add: good_backup_def check_physical_def sample_backup_def)
  moreover have "same_image (sample_backup ''7'') sample_requested"
    by (simp add: sample_backup_def sample_requested_def sample_instance_def map_get_def)
  moreover have "status_reason (inst_Status sample_requested) = k8s_CreateComplete"
    "reason_of (ist_Conditions (inst_Status sample_requested)) k8s_DatabaseInstanceReady = k8s_CreateComplete"
    "newer (ist_LastRestoreTime (inst_Status sample_requested)) (rs_RequestTime sample_request)"
    "ist_LockedByController (inst_Status sample_requested) = []" "inst_UID sample_requested = ''uid-1''"
    "is_Restore (inst_Spec sample_requested) = Some sample_request"
    by (simp_all add: sample_requested_def sample_instance_def reason_of_def newer_def)
  ultimately show ?thesis
    using restore_completes [of restore_env sample_request "sample_backup ''7''" "''db''" sample_requested sample_sp "[]"]
    by (simp add: sample_request_def)
qed

end
