(* ===== verification/Parameters.thy ===== *)
theory Parameters
  imports Instance
begin

text \<open>
  \<open>oracle/controllers/instancecontroller/instance_controller_parameters.go\<close>: the parameter update state
  machine. The instance is passed by value: what the machine changes reaches the server through its
  status updates only. A panic is \<open>None\<close>.
\<close>

definition reservedParameters :: "string list" where
  "reservedParameters =
     [''audit_file_dest'', ''audit_trail'', ''compatible'', ''control_files'', ''db_block_size'',
      ''db_recovery_file_dest'', ''diagnostic_dest'', ''dispatchers'', ''enable_pluggable_database'',
      ''filesystemio_options'', ''local_listener'', ''remote_login_passwordfile'', ''undo_tablespace'',
      ''log_archive_dest_1'', ''log_archive_dest_state_1'', ''log_archive_format'', ''standby_file_management'']"

abbreviation ParameterUpdateStateMachine :: string where
  "ParameterUpdateStateMachine \<equiv> ''ParameterUpdateStateMachine''"

definition set_machine :: "string \<Rightarrow> Instance \<Rightarrow> Instance" where
  "set_machine s inst = inst\<lparr>inst_Status := (inst_Status inst)\<lparr>ist_CurrentActiveStateMachine := s\<rparr>\<rparr>"

definition set_current :: "gomap \<Rightarrow> Instance \<Rightarrow> Instance" where
  "set_current m inst = inst\<lparr>inst_Status := (inst_Status inst)\<lparr>ist_CurrentParameters := m\<rparr>\<rparr>"

definition set_last_failed :: "gomap \<Rightarrow> Instance \<Rightarrow> Instance" where
  "set_last_failed m inst = inst\<lparr>inst_Status := (inst_Status inst)\<lparr>ist_LastFailedParameterUpdate := m\<rparr>\<rparr>"

text \<open>An error of the status update is only logged.\<close>

definition recordEventAndUpdateStatus ::
    "inst_env \<Rightarrow> inst_log \<Rightarrow> Instance \<Rightarrow> ConditionStatus \<Rightarrow> string \<Rightarrow> string \<Rightarrow> Instance \<times> inst_log" where
  "recordEventAndUpdateStatus env l inst conditionStatus reason msg =
     (let l1 = l @ [IEvent (if conditionStatus = ConditionTrue then NormalEvent else WarningEvent) reason msg];
          inst1 = upsert env l1 inst k8s_Ready conditionStatus reason msg
      in (inst1, l1 @ [IStatusUpdate inst1]))"

text \<open>\<open>%v\<close> of a slice of strings prints its elements with a blank between them.\<close>

fun join :: "string \<Rightarrow> string list \<Rightarrow> string" where
  "join sep [] = []"
| "join sep [s] = s"
| "join sep (s # t # ts) = s @ sep @ join sep (t # ts)"

text \<open>The loop over the types: the static and the dynamic parameters with their current values.\<close>

definition split_types :: "string list \<Rightarrow> string list \<Rightarrow> string list \<Rightarrow> (string \<rightharpoonup> string) \<times> (string \<rightharpoonup> string)" where
  "split_types keys types vals =
     fold (\<lambda>(t, k, v) (s, d). if t = ''FALSE'' then (s(k \<mapsto> v), d) else (s, d(k \<mapsto> v)))
       (zip types (zip keys vals)) (Map.empty, Map.empty)"

definition fetchCurrentParameterState ::
    "inst_env \<Rightarrow> inst_log \<Rightarrow> Instance \<Rightarrow> (inst_log \<times> (go_error + gomap \<times> gomap)) option" where
  "fetchCurrentParameterState env l inst =
     (let spec = inst_Spec inst;
          keys = map fst (ie_range env l (is_Parameters spec));
          unacceptableParams = filter (\<lambda>k. k \<in> set reservedParameters) keys
      in if unacceptableParams \<noteq> []
         then Some (l, Inl (Errorf (''fetchCurrentParameterState: parameter list contains reserved parameters:['' @
                join '' '' unacceptableParams @ '']'')))
         else
           (let l1 = l @ [IGetParameterTypeValue keys] in
            case ie_GetParameterTypeValue env l keys of
              Inl err \<Rightarrow> Some (l1, Inl (Errorf (''fetchCurrentParameterState: error while querying parameter type:'' @ err_msg err)))
            | Inr (types, vals) \<Rightarrow>
                if length types > length keys \<or> length types > length vals then None
                else
                  (let restartRequired = (''FALSE'' \<in> set types);
                       (staticParams, dynamicParams) = split_types keys types vals
                   in if restartRequired \<and> \<not> HasValidTimeRanges (is_MaintenanceWindow spec)
                      then Some (l1, Inl (Errorf ''maintenanceWindow for db downtime not specified for static parameter update''))
                      else case InRange (is_MaintenanceWindow spec) (ie_now env l1) of
                        None \<Rightarrow> None
                      | Some False \<Rightarrow> Some (l1, Inl (Errorf ''current time is not in a maintenance window that allows db restarts''))
                      | Some True \<Rightarrow> Some (l1, Inr (Some staticParams, Some dynamicParams)))))"

text \<open>The loop of \<open>setParameters\<close>; the flag says whether a static parameter was set.\<close>

fun set_loop :: "inst_env \<Rightarrow> inst_log \<Rightarrow> bool \<Rightarrow> (string \<times> string) list \<Rightarrow> inst_log \<times> (go_error + bool)" where
  "set_loop env l restart [] = (l, Inr restart)"
| "set_loop env l restart ((k, v) # kvs) =
     (let l1 = l @ [ISetParameter k v] in
      case ie_SetParameter env l k v of
        Inl err \<Rightarrow> (l1, Inl err)
      | Inr isStatic \<Rightarrow> set_loop env l1 (restart \<or> isStatic) kvs)"

text \<open>The values are read back, but one that differs is only logged; too short an answer is a panic.\<close>

definition setParameters :: "inst_env \<Rightarrow> inst_log \<Rightarrow> Instance \<Rightarrow> (inst_log \<times> (go_error + bool)) option" where
  "setParameters env l inst =
     (let kvs = ie_range env l (is_Parameters (inst_Spec inst)) in
      case set_loop env l False kvs of
        (l1, Inl err) \<Rightarrow> Some (l1, Inl err)
      | (l1, Inr requireDatabaseRestart) \<Rightarrow>
          (let keys = map fst kvs; l2 = l1 @ [IGetParameterTypeValue keys] in
           case ie_GetParameterTypeValue env l1 keys of
             Inl err \<Rightarrow> Some (l2, Inl err)
           | Inr (types, vals) \<Rightarrow> if length vals < length keys then None else Some (l2, Inr requireDatabaseRestart)))"

definition isParameterUpdateStateMachineEntryCondition :: "Instance \<Rightarrow> bool" where
  "isParameterUpdateStateMachineEntryCondition inst =
     (ParameterUpdateStateMachine = ist_CurrentActiveStateMachine (inst_Status inst) \<or>
      ConditionStatusEquals (inst_cond inst k8s_Ready) ConditionTrue \<and>
      ConditionStatusEquals (inst_cond inst k8s_DatabaseInstanceReady) ConditionTrue \<and>
      is_Parameters (inst_Spec inst) \<noteq> None)"

text \<open>The loop that sets the dynamic parameters back.\<close>

fun rollback_loop :: "inst_env \<Rightarrow> inst_log \<Rightarrow> (string \<times> string) list \<Rightarrow> inst_log \<times> go_error option" where
  "rollback_loop env l [] = (l, None)"
| "rollback_loop env l ((k, v) # kvs) =
     (let l1 = l @ [ISetParameter k v] in
      case ie_SetParameter env l k v of
        Inl err \<Rightarrow> (l1, Some err)
      | Inr _ \<Rightarrow> rollback_loop env l1 kvs)"

definition initiateRecovery :: "inst_env \<Rightarrow> inst_log \<Rightarrow> Instance \<Rightarrow> gomap \<Rightarrow> inst_log \<times> go_error option" where
  "initiateRecovery env l inst dynamicParams =
     (let cdb = is_CDBName (inst_Spec inst); l1 = l @ [IRecoverConfigFile cdb] in
      case ie_RecoverConfigFile env l cdb of
        Some err \<Rightarrow> (l1, Some err)
      | None \<Rightarrow>
          (let l2 = l1 @ [IBounceDatabase cdb] in
           case ie_BounceDatabase env l1 cdb of
             Some err \<Rightarrow> (l2, Some err)
           | None \<Rightarrow> rollback_loop env l2 (ie_range env l2 dynamicParams)))"

definition sanityCheckTimeRange :: "Instance \<Rightarrow> go_time \<Rightarrow> (ctrl_Result \<times> go_error option) option" where
  "sanityCheckTimeRange inst now =
     (let mw = is_MaintenanceWindow (inst_Spec inst) in
      if \<not> HasValidTimeRanges mw
      then Some (Result_zero, Some (Errorf ''MaintenanceWindow specification is not valid''))
      else case InRange mw now of
        None \<Rightarrow> None
      | Some True \<Rightarrow> Some (Result_zero, None)
      | Some False \<Rightarrow>
          (case NextWindow mw now of
             None \<Rightarrow> None
           | Some (Inl err) \<Rightarrow> Some (Result_zero, Some (Errorf ''current time is past the maintenance time range''))
           | Some (Inr (nextStart, _)) \<Rightarrow>
               Some (requeue_in (time_Sub nextStart now), Some (Errorf ''current time is not within the maintenance window''))))"

subsection \<open>The state machine\<close>

type_synonym param_result = "Instance \<times> inst_log \<times> ctrl_Result \<times> go_error option"

definition param_entry :: "inst_env \<Rightarrow> inst_log \<Rightarrow> Instance \<Rightarrow> param_result option" where
  "param_entry env l inst =
     (let inst1 = set_machine ParameterUpdateStateMachine inst in
      case fetchCurrentParameterState env l inst1 of
        None \<Rightarrow> None
      | Some (l1, Inl err) \<Rightarrow>
          (case recordEventAndUpdateStatus env l1 inst1 ConditionFalse k8s_ParameterUpdateRollbackInProgress
                  (''parameterUpdateStateMachine: Sanity check failed for instance parameters: '' @ err_msg err) of
             (inst2, l2) \<Rightarrow> Some (inst2, l2, requeue_now, Some err))
      | Some (l1, Inr (_, dynamicParamsRollbackState)) \<Rightarrow>
          (case recordEventAndUpdateStatus env l1 (set_current dynamicParamsRollbackState inst1) ConditionFalse
                  k8s_ParameterUpdateInProgress ''parameterUpdateStateMachine: parameter update in progress'' of
             (inst2, l2) \<Rightarrow> Some (inst2, l2, Result_zero, None)))"

definition param_in_progress :: "inst_env \<Rightarrow> inst_log \<Rightarrow> Instance \<Rightarrow> param_result option" where
  "param_in_progress env l inst =
     (let roll = (\<lambda>l1 msg. case recordEventAndUpdateStatus env l1 inst ConditionFalse k8s_ParameterUpdateRollbackInProgress msg of
                     (inst2, l2) \<Rightarrow> Some (inst2, l2, requeue_now, None));
          complete = (\<lambda>l1. case recordEventAndUpdateStatus env l1 inst ConditionFalse k8s_ParameterUpdateComplete [] of
                     (inst2, l2) \<Rightarrow> Some (inst2, l2, requeue_now, None))
      in case setParameters env l inst of
           None \<Rightarrow> None
         | Some (l1, Inl err) \<Rightarrow>
             roll l1 (''parameterUpdateStateMachine: Error while setting instance parameters: '' @ err_msg err)
         | Some (l1, Inr restartRequired) \<Rightarrow>
             if restartRequired
             then (case ie_BounceDatabase env l1 (is_CDBName (inst_Spec inst)) of
                     Some err \<Rightarrow> roll (l1 @ [IBounceDatabase (is_CDBName (inst_Spec inst))])
                       (''parameterUpdateStateMachine: error while restarting database after setting static parameters: '' @ err_msg err)
                   | None \<Rightarrow> complete (l1 @ [IBounceDatabase (is_CDBName (inst_Spec inst))]))
             else complete l1)"

definition param_complete :: "inst_env \<Rightarrow> inst_log \<Rightarrow> Instance \<Rightarrow> param_result" where
  "param_complete env l inst =
     (case recordEventAndUpdateStatus env l (set_current (is_Parameters (inst_Spec inst)) inst) ConditionTrue
             k8s_CreateComplete ''parameterUpdateStateMachine: Parameter update successful'' of
        (inst1, l1) \<Rightarrow> (set_machine [] inst1, l1, Result_zero, None))"

definition param_rollback :: "inst_env \<Rightarrow> inst_log \<Rightarrow> Instance \<Rightarrow> param_result" where
  "param_rollback env l inst =
     (case initiateRecovery env l inst (ist_CurrentParameters (inst_Status inst)) of
        (l1, Some err) \<Rightarrow> (inst, l1, Result_zero, Some err)
      | (l1, None) \<Rightarrow>
          (case recordEventAndUpdateStatus env l1 (set_last_failed (is_Parameters (inst_Spec inst)) inst) ConditionTrue
                  k8s_CreateComplete ''parameterUpdateStateMachine: instance recovered after bad parameter update'' of
             (inst1, l2) \<Rightarrow> (set_machine [] inst1, l2, Result_zero, None)))"

definition parameterUpdateStateMachine :: "inst_env \<Rightarrow> inst_log \<Rightarrow> Instance \<Rightarrow> param_result option" where
  "parameterUpdateStateMachine env l inst =
     (let spec = inst_Spec inst; st = inst_Status inst in
      if \<not> isParameterUpdateStateMachineEntryCondition inst then Some (inst, l, Result_zero, None)
      else if is_Parameters spec = ist_CurrentParameters st then Some (inst, l, Result_zero, None)
      else if is_Parameters spec = ist_LastFailedParameterUpdate st then Some (inst, l, Result_zero, None)
      else case sanityCheckTimeRange inst (ie_now env l) of
        None \<Rightarrow> None
      | Some (result, Some err) \<Rightarrow> Some (inst, l, result, Some err)
      | Some (_, None) \<Rightarrow>
          (case inst_cond inst k8s_Ready of
             None \<Rightarrow> None
           | Some cond \<Rightarrow>
               if Reason cond = k8s_CreateComplete then param_entry env l inst
               else if Reason cond = k8s_ParameterUpdateInProgress then param_in_progress env l inst
               else if Reason cond = k8s_ParameterUpdateComplete then Some (param_complete env l inst)
               else if Reason cond = k8s_ParameterUpdateRollbackInProgress then Some (param_rollback env l inst)
               else Some (inst, l, Result_zero, None)))"

text \<open>For the database creation, DBCA takes the parameters as texts.\<close>

definition mapsToStringArray :: "(string \<times> string) list \<Rightarrow> string list" where
  "mapsToStringArray kvs = map (\<lambda>(k, v). k @ ''='' @ v) kvs"

subsection \<open>Rounds\<close>

text \<open>The instance as the server has it after a round: as the last status update wrote it.\<close>

fun last_written :: "Instance \<Rightarrow> inst_log \<Rightarrow> Instance" where
  "last_written inst [] = inst"
| "last_written inst (IStatusUpdate i # l) = last_written i l"
| "last_written inst (_ # l) = last_written inst l"

definition param_round :: "inst_env \<Rightarrow> Instance \<times> inst_log \<Rightarrow> (Instance \<times> inst_log) option" where
  "param_round env s =
     (case s of (inst, l) \<Rightarrow>
        map_option (\<lambda>(_, l', _, _). (last_written inst (drop (length l) l'), l')) (parameterUpdateStateMachine env l inst))"

definition ready :: "Instance \<Rightarrow> string" where
  "ready inst = reason_of (ist_Conditions (inst_Status inst)) k8s_Ready"

lemma last_written_append [simp]: "last_written inst (l @ l') = last_written (last_written inst l) l'"
  by (induction inst l rule: last_written.induct) simp_all

text \<open>The contract of the calls: the range of a map with keys among \<open>ks\<close>; the daemon reports the value of a
  parameter, and setting a parameter that can be changed at once changes its value and no other. Oracle
  converts a value before it stores it (\<open>conv\<close>: upper case, units), so that what is read back need not be
  what was set; a value as the database reports it is stored as it is.\<close>

definition ranges_over :: "inst_env \<Rightarrow> string list \<Rightarrow> bool" where
  "ranges_over env ks \<longleftrightarrow>
     (\<forall>l f. dom f \<subseteq> set ks \<longrightarrow> distinct (map fst (ie_range env l (Some f))) \<and> map_of (ie_range env l (Some f)) = f)"

definition parameter_db ::
    "inst_env \<Rightarrow> (inst_log \<Rightarrow> string \<Rightarrow> string) \<Rightarrow> (string \<Rightarrow> string \<Rightarrow> string) \<Rightarrow> (string \<Rightarrow> bool) \<Rightarrow> bool" where
  "parameter_db env val conv imm \<longleftrightarrow>
     (\<forall>l ks. \<exists>ts. ie_GetParameterTypeValue env l ks = Inr (ts, map (val l) ks) \<and> length ts = length ks \<and>
        (\<forall>i < length ks. imm (ks ! i) \<longrightarrow> ts ! i \<noteq> ''FALSE'')) \<and>
     (\<forall>l k v b. imm k \<longrightarrow> ie_SetParameter env l k v = Inr b \<longrightarrow> val (l @ [ISetParameter k v]) k = conv k v) \<and>
     (\<forall>l k. conv k (val l k) = val l k) \<and>
     (\<forall>l k v j. j \<noteq> k \<longrightarrow> val (l @ [ISetParameter k v]) j = val l j) \<and>
     (\<forall>l k v. \<not> imm k \<longrightarrow> val (l @ [ISetParameter k v]) k = val l k) \<and>
     (\<forall>l c. (\<forall>k v. c \<noteq> ISetParameter k v) \<longrightarrow> (\<forall>n. c \<noteq> IBounceDatabase n) \<longrightarrow> val (l @ [c]) = val l)"

subsection \<open>The steps of an update\<close>

lemma split_types_dynamic:
  assumes "distinct keys" "length types = length keys" "dynamicParams = snd (split_types keys types (map val keys))"
  shows "dynamicParams k = (if \<exists>i < length keys. keys ! i = k \<and> types ! i \<noteq> ''FALSE'' then Some (val k) else None)"
proof -
  have "snd (fold (\<lambda>(t, k, v) (s, d). if t = ''FALSE'' then (s(k \<mapsto> v), d) else (s, d(k \<mapsto> v)))
      (zip types (zip keys (map val keys))) (s0, d0)) k =
    (if \<exists>i < length keys. keys ! i = k \<and> types ! i \<noteq> ''FALSE'' then Some (val k) else d0 k)" for s0 d0
    using assms(1,2)
  proof (induction keys arbitrary: types s0 d0)
    case (Cons k' keys)
    then obtain t ts where t: "types = t # ts" "length ts = length keys" by (cases types) auto
    have ih: "snd (fold (\<lambda>(t, k, v) (s, d). if t = ''FALSE'' then (s(k \<mapsto> v), d) else (s, d(k \<mapsto> v)))
        (zip ts (zip keys (map val keys))) (s0, d0)) k =
      (if \<exists>i < length keys. keys ! i = k \<and> ts ! i \<noteq> ''FALSE'' then Some (val k) else d0 k)" for s0 d0
      using Cons t(2) by simp
    have ex: "(\<exists>i < length (k' # keys). (k' # keys) ! i = k \<and> types ! i \<noteq> ''FALSE'') \<longleftrightarrow>
        k' = k \<and> t \<noteq> ''FALSE'' \<or> (\<exists>i < length keys. keys ! i = k \<and> ts ! i \<noteq> ''FALSE'')"
      unfolding t(1) by (auto simp: less_Suc_eq_0_disj)
    show ?case unfolding ex unfolding t(1) by (cases "t = ''FALSE''"; cases "k' = k") (auto simp: ih)
  qed simp
  from this [of Map.empty Map.empty] show ?thesis by (simp add: assms(3) split_types_def)
qed

lemma set_loop_done:
  "set_loop env l r kvs = (l', Inr r') \<Longrightarrow> (k, v) \<in> set kvs \<Longrightarrow>
     \<exists>l1 l2 b. l' = l1 @ ISetParameter k v # l2 \<and> ie_SetParameter env l1 k v = Inr b"
proof (induction env l r kvs rule: set_loop.induct)
  case (2 env l restart k' v' kvs)
  then obtain b where b: "ie_SetParameter env l k' v' = Inr b"
    and rec: "set_loop env (l @ [ISetParameter k' v']) (restart \<or> b) kvs = (l', Inr r')"
    by (auto simp: Let_def split: sum.splits)
  have "\<exists>cs. l' = l @ ISetParameter k' v' # cs"
  proof -
    have "set_loop env m q xs = (m', x) \<Longrightarrow> \<exists>cs. m' = m @ cs" for m q xs m' x
      by (induction env m q xs rule: set_loop.induct) (fastforce simp: Let_def split: sum.splits)+
    from this [OF rec] show ?thesis by auto
  qed
  with 2 b rec show ?case by auto
qed simp

lemma rollback_loop_sets:
  assumes "parameter_db env val conv imm" "rollback_loop env l kvs = (l', None)" "distinct (map fst kvs)" "imm k"
  shows "val l' k = (case map_of kvs k of None \<Rightarrow> val l k | Some v \<Rightarrow> conv k v)"
  using assms(2,3)
proof (induction kvs arbitrary: l)
  case (Cons kv kvs)
  obtain k' v' where kv: "kv = (k', v')" by (cases kv)
  with Cons.prems obtain b where b: "ie_SetParameter env l k' v' = Inr b"
    and rec: "rollback_loop env (l @ [ISetParameter k' v']) kvs = (l', None)"
    by (auto simp: Let_def split: sum.splits)
  have e: "val l' k = (case map_of kvs k of None \<Rightarrow> val (l @ [ISetParameter k' v']) k | Some v \<Rightarrow> conv k v)"
    using Cons.IH [OF rec] Cons.prems by simp
  show ?case
  proof (cases "k = k'")
    case True
    then have "map_of kvs k = None" using Cons.prems kv by (auto simp: map_of_eq_None_iff)
    with True e b assms(1,4) show ?thesis by (simp add: kv parameter_db_def)
  next
    case False
    with e assms(1) show ?thesis unfolding parameter_db_def by (simp add: kv split: option.splits)
  qed
qed simp

lemma rollback_loop_ok:
  assumes "\<forall>l' k v. IRecoverConfigFile cdb \<in> set l' \<longrightarrow> (\<exists>b. ie_SetParameter env l' k v = Inr b)" "IRecoverConfigFile cdb \<in> set l"
  shows "\<exists>cs. rollback_loop env l kvs = (l @ cs, None) \<and> (\<forall>c \<in> set cs. \<forall>j. c \<noteq> IStatusUpdate j)"
  using assms(2)
proof (induction kvs arbitrary: l)
  case (Cons kv kvs)
  obtain k v where kv: "kv = (k, v)" by (cases kv)
  obtain b where "ie_SetParameter env l k v = Inr b" using assms(1) Cons.prems by blast
  with Cons.IH [of "l @ [ISetParameter k v]"] Cons.prems show ?case by (auto simp: kv)
qed simp

text \<open>What the server has during an update: the reason, the recorded and the last failed parameters.\<close>

definition at_stage :: "Instance \<Rightarrow> InstanceSpec \<Rightarrow> string \<Rightarrow> gomap \<Rightarrow> gomap \<Rightarrow> bool" where
  "at_stage inst spec r cur failed \<longleftrightarrow>
     inst_Spec inst = spec \<and> ready inst = r \<and> ist_CurrentParameters (inst_Status inst) = cur \<and>
     ist_LastFailedParameterUpdate (inst_Status inst) = failed \<and> isParameterUpdateStateMachineEntryCondition inst"

definition in_window :: "inst_env \<Rightarrow> InstanceSpec \<Rightarrow> bool" where
  "in_window env spec \<longleftrightarrow> HasValidTimeRanges (is_MaintenanceWindow spec) \<and>
     (\<forall>l. InRange (is_MaintenanceWindow spec) (ie_now env l) = Some True)"

lemma recorded:
  assumes "recordEventAndUpdateStatus env l inst st r m = (inst1, l1)"
  shows "\<exists>e. l1 = l @ [IEvent e r m, IStatusUpdate inst1]" "ready inst1 = r" "inst_Spec inst1 = inst_Spec inst"
    "ist_CurrentParameters (inst_Status inst1) = ist_CurrentParameters (inst_Status inst)"
    "ist_LastFailedParameterUpdate (inst_Status inst1) = ist_LastFailedParameterUpdate (inst_Status inst)"
    "ist_CurrentActiveStateMachine (inst_Status inst1) = ist_CurrentActiveStateMachine (inst_Status inst)"
    "ConditionStatusEquals (inst_cond inst1 k8s_Ready) st"
  using assms by (auto simp: recordEventAndUpdateStatus_def Let_def ready_def upsert_def InstanceUpsertCondition_def)

lemma machine_at:
  assumes "at_stage inst spec r cur failed" "in_window env spec" "is_Parameters spec \<noteq> cur" "is_Parameters spec \<noteq> failed" "r \<noteq> []"
  shows "parameterUpdateStateMachine env l inst =
    (if r = k8s_CreateComplete then param_entry env l inst
     else if r = k8s_ParameterUpdateInProgress then param_in_progress env l inst
     else if r = k8s_ParameterUpdateComplete then Some (param_complete env l inst)
     else if r = k8s_ParameterUpdateRollbackInProgress then Some (param_rollback env l inst)
     else Some (inst, l, Result_zero, None))"
proof -
  from assms(1,5) obtain c where c: "inst_cond inst k8s_Ready = Some c" "Reason c = r"
    by (auto simp: at_stage_def ready_def reason_of_def split: option.splits)
  have "sanityCheckTimeRange inst (ie_now env l) = Some (Result_zero, None)"
    using assms(1,2) by (simp add: sanityCheckTimeRange_def at_stage_def in_window_def)
  with c assms show ?thesis by (simp add: parameterUpdateStateMachine_def at_stage_def Let_def)
qed

lemma machine_ends: "parameterUpdateStateMachine env l inst = Some (i, l @ cs, res, err) \<Longrightarrow>
    param_round env (inst, l) = Some (last_written inst cs, l @ cs)"
  by (simp add: param_round_def)

lemma other_calls_keep:
  assumes "parameter_db env val conv imm" "\<forall>c \<in> set cs. (\<forall>k v. c \<noteq> ISetParameter k v) \<and> (\<forall>n. c \<noteq> IBounceDatabase n)"
  shows "val (l @ cs) = val l"
  using assms(2)
proof (induction cs rule: rev_induct)
  case (snoc c cs)
  have "\<forall>l c. (\<forall>k v. c \<noteq> ISetParameter k v) \<longrightarrow> (\<forall>n. c \<noteq> IBounceDatabase n) \<longrightarrow> val (l @ [c]) = val l"
    using assms(1) unfolding parameter_db_def by (elim conjE)
  from this [rule_format, of c "l @ cs"] snoc show ?case by simp
qed simp

lemma fetch_dynamic:
  assumes "parameter_db env val conv imm" "ranges_over env ks" "in_window env (inst_Spec inst)"
    "is_Parameters (inst_Spec inst) = Some p" "dom p \<subseteq> set ks" "dom p \<inter> set reservedParameters = {}"
  obtains keys st d where "fetchCurrentParameterState env l inst = Some (l @ [IGetParameterTypeValue keys], Inr (st, Some d))"
    "\<forall>k v. d k = Some v \<longrightarrow> k \<in> dom p \<and> v = val l k" "\<forall>k. k \<in> dom p \<longrightarrow> imm k \<longrightarrow> d k = Some (val l k)"
proof -
  define keys where "keys = map fst (ie_range env l (Some p))"
  have k: "distinct keys" "set keys = dom p"
    using assms(2,5) unfolding ranges_over_def keys_def by (auto simp: dom_map_of_conv_image_fst [symmetric])
  from assms(1) obtain ts where t: "ie_GetParameterTypeValue env l keys = Inr (ts, map (val l) keys)" "length ts = length keys"
    "\<forall>i < length keys. imm (keys ! i) \<longrightarrow> ts ! i \<noteq> ''FALSE''"
    unfolding parameter_db_def by blast
  define d where "d = snd (split_types keys ts (map (val l) keys))"
  have un: "filter (\<lambda>k. k \<in> set reservedParameters) keys = []" using k(2) assms(6) by (auto simp: filter_empty_conv)
  have d: "d k = (if \<exists>i < length keys. keys ! i = k \<and> ts ! i \<noteq> ''FALSE'' then Some (val l k) else None)" for k
    by (rule split_types_dynamic [OF k(1) t(2) d_def])
  have "fetchCurrentParameterState env l inst =
      Some (l @ [IGetParameterTypeValue keys], Inr (Some (fst (split_types keys ts (map (val l) keys))), Some d))"
    using t un assms(3,4)
    by (simp add: fetchCurrentParameterState_def keys_def [symmetric] d_def in_window_def Let_def split_beta)
  then show thesis
  proof (rule that)
    show "\<forall>k v. d k = Some v \<longrightarrow> k \<in> dom p \<and> v = val l k"
      using k(2) by (auto simp: d split: if_splits)
    show "\<forall>k. k \<in> dom p \<longrightarrow> imm k \<longrightarrow> d k = Some (val l k)"
    proof (intro allI impI)
      fix k assume "k \<in> dom p" "imm k"
      then obtain i where "i < length keys" "keys ! i = k" using k(2) by (metis in_set_conv_nth)
      with t(3) \<open>imm k\<close> show "d k = Some (val l k)" by (auto simp: d)
    qed
  qed
qed

lemma param_round_entry:
  assumes "parameter_db env val conv imm" "ranges_over env ks" "in_window env spec"
    "is_Parameters spec = Some p" "dom p \<subseteq> set ks" "dom p \<inter> set reservedParameters = {}"
    "at_stage inst spec k8s_CreateComplete cur failed" "Some p \<noteq> cur" "Some p \<noteq> failed"
  obtains inst1 l1 d where "param_round env (inst, l) = Some (inst1, l1)"
    "at_stage inst1 spec k8s_ParameterUpdateInProgress (Some d) failed" "val l1 = val l"
    "ist_CurrentActiveStateMachine (inst_Status inst1) = ParameterUpdateStateMachine"
    "ConditionStatusEquals (inst_cond inst1 k8s_Ready) ConditionFalse"
    "\<forall>k v. d k = Some v \<longrightarrow> k \<in> dom p \<and> v = val l k" "\<forall>k. k \<in> dom p \<longrightarrow> imm k \<longrightarrow> d k = Some (val l k)"
proof -
  let ?i = "set_machine ParameterUpdateStateMachine inst"
  have i: "inst_Spec ?i = spec" "is_Parameters (inst_Spec ?i) = Some p" using assms(4,7) by (simp_all add: set_machine_def at_stage_def)
  from fetch_dynamic [OF assms(1,2) assms(3) [folded i(1)] i(2) assms(5,6)] obtain keys st d where f:
    "fetchCurrentParameterState env l ?i = Some (l @ [IGetParameterTypeValue keys], Inr (st, Some d))"
    "\<forall>k v. d k = Some v \<longrightarrow> k \<in> dom p \<and> v = val l k" "\<forall>k. k \<in> dom p \<longrightarrow> imm k \<longrightarrow> d k = Some (val l k)" .
  obtain inst1 l1 where r: "recordEventAndUpdateStatus env (l @ [IGetParameterTypeValue keys]) (set_current (Some d) ?i) ConditionFalse
      k8s_ParameterUpdateInProgress ''parameterUpdateStateMachine: parameter update in progress'' = (inst1, l1)"
    by (cases "recordEventAndUpdateStatus env (l @ [IGetParameterTypeValue keys]) (set_current (Some d) ?i) ConditionFalse
      k8s_ParameterUpdateInProgress ''parameterUpdateStateMachine: parameter update in progress''")
  note rec = recorded [OF r]
  from rec(1) obtain e where l1: "l1 = l @ [IGetParameterTypeValue keys, IEvent e k8s_ParameterUpdateInProgress
      ''parameterUpdateStateMachine: parameter update in progress'', IStatusUpdate inst1]" by auto
  have "parameterUpdateStateMachine env l inst = Some (inst1, l1, Result_zero, None)"
    using machine_at [OF assms(7,3)] assms(4,8,9) f(1) r by (simp add: param_entry_def Let_def)
  then have "param_round env (inst, l) = Some (inst1, l1)" using machine_ends [of env l inst] by (simp add: l1)
  moreover have "at_stage inst1 spec k8s_ParameterUpdateInProgress (Some d) failed"
    using rec assms(7)
    by (simp add: at_stage_def set_machine_def set_current_def isParameterUpdateStateMachineEntryCondition_def)
  moreover have "val l1 = val l" unfolding l1 by (rule other_calls_keep [OF assms(1)]) auto
  moreover have "ist_CurrentActiveStateMachine (inst_Status inst1) = ParameterUpdateStateMachine"
    using rec(6) by (simp add: set_machine_def set_current_def)
  ultimately show thesis using that rec(7) f(2,3) by blast
qed

text \<open>A case of the machine that ends with a status update.\<close>

lemma param_round_records:
  assumes "at_stage inst spec r cur failed" "ist_CurrentActiveStateMachine (inst_Status inst) = ParameterUpdateStateMachine"
    "recordEventAndUpdateStatus env (l @ cs) inst' st r' m = (inst1, l1)" "inst_Spec inst' = spec"
    "ist_CurrentActiveStateMachine (inst_Status inst') = ParameterUpdateStateMachine"
    "parameterUpdateStateMachine env l inst = Some (i, l1, res, err)" "\<forall>c \<in> set cs. \<forall>j. c \<noteq> IStatusUpdate j"
  shows "param_round env (inst, l) = Some (inst1, l1)"
    "at_stage inst1 spec r' (ist_CurrentParameters (inst_Status inst')) (ist_LastFailedParameterUpdate (inst_Status inst'))"
    "ist_CurrentActiveStateMachine (inst_Status inst1) = ParameterUpdateStateMachine"
    "ConditionStatusEquals (inst_cond inst1 k8s_Ready) st"
proof -
  note rec = recorded [OF assms(3)]
  from rec(1) obtain e where l1: "l1 = l @ cs @ [IEvent e r' m, IStatusUpdate inst1]" by auto
  have "last_written inst cs = inst" using assms(7)
    by (induction inst cs rule: last_written.induct) auto
  then show "param_round env (inst, l) = Some (inst1, l1)"
    using machine_ends [of env l inst] assms(6) by (simp add: l1)
  show "at_stage inst1 spec r' (ist_CurrentParameters (inst_Status inst')) (ist_LastFailedParameterUpdate (inst_Status inst'))"
    "ist_CurrentActiveStateMachine (inst_Status inst1) = ParameterUpdateStateMachine"
    "ConditionStatusEquals (inst_cond inst1 k8s_Ready) st"
    using rec assms(4,5) by (auto simp: at_stage_def isParameterUpdateStateMachineEntryCondition_def)
qed

lemma set_loop_log:
  "set_loop env l r kvs = (l', x) \<Longrightarrow> \<exists>cs. l' = l @ cs \<and> (\<forall>c \<in> set cs. \<forall>j. c \<noteq> IStatusUpdate j)"
  by (induction env l r kvs rule: set_loop.induct) (fastforce simp: Let_def split: sum.splits)+

lemma setParameters_log:
  assumes "setParameters env l inst = Some (l', x)"
  shows "\<exists>cs. l' = l @ cs \<and> (\<forall>c \<in> set cs. \<forall>j. c \<noteq> IStatusUpdate j)"
proof -
  obtain l1 y where s: "set_loop env l False (ie_range env l (is_Parameters (inst_Spec inst))) = (l1, y)"
    by (cases "set_loop env l False (ie_range env l (is_Parameters (inst_Spec inst)))")
  with set_loop_log [OF s] assms show ?thesis
    by (auto simp: setParameters_def Let_def split: sum.splits if_splits)
qed

lemma setParameters_total:
  assumes "parameter_db env val conv imm"
  shows "\<exists>l' x. setParameters env l inst = Some (l', x)"
proof -
  obtain l1 y where s: "set_loop env l False (ie_range env l (is_Parameters (inst_Spec inst))) = (l1, y)"
    by (cases "set_loop env l False (ie_range env l (is_Parameters (inst_Spec inst)))")
  have "\<exists>ts. ie_GetParameterTypeValue env l1 ks = Inr (ts, map (val l1) ks)" for ks
    using assms unfolding parameter_db_def by blast
  then obtain ts where "ie_GetParameterTypeValue env l1 (map fst (ie_range env l (is_Parameters (inst_Spec inst)))) =
      Inr (ts, map (val l1) (map fst (ie_range env l (is_Parameters (inst_Spec inst)))))" by blast
  with s show ?thesis by (cases y) (auto simp: setParameters_def Let_def)
qed

text \<open>Every parameter of the map has been set, as the log shows.\<close>

definition all_set :: "inst_env \<Rightarrow> inst_log \<Rightarrow> (string \<rightharpoonup> string) \<Rightarrow> bool" where
  "all_set env l p \<longleftrightarrow> (\<forall>k v. p k = Some v \<longrightarrow>
     (\<exists>l1 l2 b. l = l1 @ ISetParameter k v # l2 \<and> ie_SetParameter env l1 k v = Inr b))"

lemma all_set_append: "all_set env l p \<Longrightarrow> all_set env (l @ cs) p"
  unfolding all_set_def by (metis append.assoc append_Cons)

lemma setParameters_all_set:
  assumes "setParameters env l inst = Some (l', Inr r)" "is_Parameters (inst_Spec inst) = Some p" "ranges_over env ks" "dom p \<subseteq> set ks"
  shows "all_set env l' p"
proof -
  have m: "map_of (ie_range env l (Some p)) = p" using assms(3,4) by (simp add: ranges_over_def)
  from assms(1,2) obtain l1 r1 where s: "set_loop env l False (ie_range env l (Some p)) = (l1, Inr r1)"
    by (auto simp: setParameters_def Let_def split: prod.splits sum.splits)
  have "all_set env l1 p" unfolding all_set_def
    using set_loop_done [OF s] m by (metis map_of_SomeD)
  moreover have "\<exists>cs. l' = l1 @ cs" using assms(1,2) s by (auto simp: setParameters_def Let_def split: sum.splits if_splits)
  ultimately show ?thesis using all_set_append by blast
qed

lemma param_round_in_progress:
  assumes "parameter_db env val conv imm" "ranges_over env ks" "in_window env spec" "is_Parameters spec = Some p" "dom p \<subseteq> set ks"
    "at_stage inst spec k8s_ParameterUpdateInProgress cur failed" "Some p \<noteq> cur" "Some p \<noteq> failed"
    "ist_CurrentActiveStateMachine (inst_Status inst) = ParameterUpdateStateMachine"
  obtains inst1 l1 r where "param_round env (inst, l) = Some (inst1, l1)" "at_stage inst1 spec r cur failed"
    "ist_CurrentActiveStateMachine (inst_Status inst1) = ParameterUpdateStateMachine"
    "r = k8s_ParameterUpdateRollbackInProgress \<or> r = k8s_ParameterUpdateComplete \<and> all_set env l1 p"
proof -
  have i: "inst_Spec inst = spec" "ist_CurrentParameters (inst_Status inst) = cur"
    "ist_LastFailedParameterUpdate (inst_Status inst) = failed" using assms(6) by (simp_all add: at_stage_def)
  have disp: "parameterUpdateStateMachine env l inst = param_in_progress env l inst"
    using machine_at [OF assms(6,3)] assms(4,7,8) by simp
  from setParameters_total [OF assms(1)] obtain l' x where s: "setParameters env l inst = Some (l', x)" by blast
  from setParameters_log [OF s] obtain cs where cs: "l' = l @ cs" "\<forall>c \<in> set cs. \<forall>j. c \<noteq> IStatusUpdate j" by blast
  let ?b = "[IBounceDatabase (is_CDBName spec)]"
  let ?e = "\<lambda>ds r' m. param_in_progress env l inst =
      (case recordEventAndUpdateStatus env (l @ cs @ ds) inst ConditionFalse r' m of (i2, l2) \<Rightarrow> Some (i2, l2, requeue_now, None))"
  have "\<exists>ds r' m. ?e ds r' m \<and> (ds = [] \<or> ds = ?b) \<and>
      (r' = k8s_ParameterUpdateRollbackInProgress \<or> r' = k8s_ParameterUpdateComplete \<and> all_set env l' p)"
  proof (cases x)
    case (Inl err)
    have "?e [] k8s_ParameterUpdateRollbackInProgress
        (''parameterUpdateStateMachine: Error while setting instance parameters: '' @ err_msg err)"
      using s cs(1) Inl by (simp add: param_in_progress_def Let_def)
    then show ?thesis by blast
  next
    case (Inr restart)
    have a: "all_set env l' p" using s Inr i(1) assms(2,4,5) by (auto intro: setParameters_all_set)
    show ?thesis
    proof (cases "if restart then ie_BounceDatabase env l' (is_CDBName spec) else None")
      case (Some err)
      then have "?e ?b k8s_ParameterUpdateRollbackInProgress
        (''parameterUpdateStateMachine: error while restarting database after setting static parameters: '' @ err_msg err)"
        using s Inr cs(1) i(1) by (simp add: param_in_progress_def Let_def split: if_splits)
      then show ?thesis by blast
    next
      case None
      then have "?e (if restart then ?b else []) k8s_ParameterUpdateComplete []"
        using s Inr cs(1) i(1) by (simp add: param_in_progress_def Let_def split: if_splits)
      moreover have "(if restart then ?b else []) = [] \<or> (if restart then ?b else []) = ?b" by simp
      ultimately show ?thesis using a by blast
    qed
  qed
  then obtain ds r' m where e: "?e ds r' m" "ds = [] \<or> ds = ?b"
    "r' = k8s_ParameterUpdateRollbackInProgress \<or> r' = k8s_ParameterUpdateComplete \<and> all_set env l' p" by blast
  obtain i2 l2 where i2: "recordEventAndUpdateStatus env (l @ cs @ ds) inst ConditionFalse r' m = (i2, l2)"
    by (cases "recordEventAndUpdateStatus env (l @ cs @ ds) inst ConditionFalse r' m")
  have "param_in_progress env l inst = Some (i2, l2, requeue_now, None)" using e(1) i2 by simp
  note g = this i2 e(2,3)
  have "\<forall>c \<in> set (cs @ ds). \<forall>j. c \<noteq> IStatusUpdate j" using cs(2) g(3) by auto
  note rr = param_round_records [OF assms(6,9) g(2) i(1) assms(9) disp [unfolded g(1)] this]
  have "\<exists>es. l2 = l' @ es" using recorded(1) [OF g(2)] cs(1) by auto
  then have "r' = k8s_ParameterUpdateRollbackInProgress \<or> r' = k8s_ParameterUpdateComplete \<and> all_set env l2 p"
    using g(4) all_set_append by blast
  with rr(1,3) rr(2) [unfolded i] that show thesis by blast
qed

lemma param_round_complete:
  assumes "in_window env spec" "at_stage inst spec k8s_ParameterUpdateComplete cur failed" "is_Parameters spec \<noteq> cur"
    "is_Parameters spec \<noteq> failed" "ist_CurrentActiveStateMachine (inst_Status inst) = ParameterUpdateStateMachine"
  obtains inst1 cs where "param_round env (inst, l) = Some (inst1, l @ cs)"
    "at_stage inst1 spec k8s_CreateComplete (is_Parameters spec) failed"
    "ConditionStatusEquals (inst_cond inst1 k8s_Ready) ConditionTrue"
proof -
  let ?m = "''parameterUpdateStateMachine: Parameter update successful''"
  let ?i = "set_current (is_Parameters spec) inst"
  obtain inst1 l1 where r: "recordEventAndUpdateStatus env (l @ []) ?i ConditionTrue k8s_CreateComplete ?m = (inst1, l1)"
    by (cases "recordEventAndUpdateStatus env (l @ []) ?i ConditionTrue k8s_CreateComplete ?m")
  have i: "inst_Spec inst = spec" "ist_LastFailedParameterUpdate (inst_Status inst) = failed" using assms(2) by (simp_all add: at_stage_def)
  have d: "parameterUpdateStateMachine env l inst = Some (set_machine [] inst1, l1, Result_zero, None)"
    using machine_at [OF assms(2,1,3,4)] r i(1) by (simp add: param_complete_def)
  have f: "inst_Spec ?i = spec" "ist_CurrentActiveStateMachine (inst_Status ?i) = ParameterUpdateStateMachine"
    "ist_CurrentParameters (inst_Status ?i) = is_Parameters spec" "ist_LastFailedParameterUpdate (inst_Status ?i) = failed"
    using assms(5) i by (simp_all add: set_current_def)
  note rr = param_round_records [OF assms(2,5) r f(1,2) d, simplified, unfolded f]
  show thesis using that rr recorded(1) [OF r] by auto
qed

lemma param_round_rollback:
  assumes "parameter_db env val conv imm" "ranges_over env ks" "in_window env spec"
    "at_stage inst spec k8s_ParameterUpdateRollbackInProgress (Some d) failed" "is_Parameters spec \<noteq> Some d"
    "is_Parameters spec \<noteq> failed" "ist_CurrentActiveStateMachine (inst_Status inst) = ParameterUpdateStateMachine"
    "dom d \<subseteq> set ks" "\<forall>l'. ie_RecoverConfigFile env l' (is_CDBName spec) = None"
    "\<forall>l'. IRecoverConfigFile (is_CDBName spec) \<in> set l' \<longrightarrow> ie_BounceDatabase env l' (is_CDBName spec) = None"
    "\<forall>l' k v. IRecoverConfigFile (is_CDBName spec) \<in> set l' \<longrightarrow> (\<exists>b. ie_SetParameter env l' k v = Inr b)"
  obtains inst1 l1 where "param_round env (inst, l) = Some (inst1, l1)"
    "at_stage inst1 spec k8s_CreateComplete (Some d) (is_Parameters spec)"
    "ConditionStatusEquals (inst_cond inst1 k8s_Ready) ConditionTrue" "\<forall>k v. imm k \<longrightarrow> d k = Some v \<longrightarrow> val l1 k = conv k v"
proof -
  let ?m = "''parameterUpdateStateMachine: instance recovered after bad parameter update''"
  let ?i = "set_last_failed (is_Parameters spec) inst"
  let ?l = "l @ [IRecoverConfigFile (is_CDBName spec)] @ [IBounceDatabase (is_CDBName spec)]"
  let ?kvs = "ie_range env ?l (Some d)"
  have i: "inst_Spec inst = spec" "ist_CurrentParameters (inst_Status inst) = Some d" using assms(4) by (simp_all add: at_stage_def)
  have kvs: "distinct (map fst ?kvs)" "map_of ?kvs = d" using assms(2,8) by (simp_all add: ranges_over_def)
  have "IRecoverConfigFile (is_CDBName spec) \<in> set ?l" by simp
  from rollback_loop_ok [OF assms(11) this] obtain cs where lo: "rollback_loop env ?l ?kvs = (?l @ cs, None)"
    and cs: "\<forall>c \<in> set cs. \<forall>j. c \<noteq> IStatusUpdate j" by blast
  obtain inst1 l1 where r: "recordEventAndUpdateStatus env (?l @ cs) ?i ConditionTrue k8s_CreateComplete ?m = (inst1, l1)"
    by (cases "recordEventAndUpdateStatus env (?l @ cs) ?i ConditionTrue k8s_CreateComplete ?m")
  have "initiateRecovery env l inst (Some d) = (?l @ cs, None)"
    using lo assms(9,10) i(1) by (simp add: initiateRecovery_def Let_def)
  then have disp: "parameterUpdateStateMachine env l inst = Some (set_machine [] inst1, l1, Result_zero, None)"
    using machine_at [OF assms(4,3,5,6)] r i by (simp add: param_rollback_def)
  have f: "inst_Spec ?i = spec" "ist_CurrentActiveStateMachine (inst_Status ?i) = ParameterUpdateStateMachine"
    "ist_CurrentParameters (inst_Status ?i) = Some d" "ist_LastFailedParameterUpdate (inst_Status ?i) = is_Parameters spec"
    using assms(7) i by (simp_all add: set_last_failed_def)
  have q: "\<forall>c \<in> set ([IRecoverConfigFile (is_CDBName spec), IBounceDatabase (is_CDBName spec)] @ cs). \<forall>j. c \<noteq> IStatusUpdate j"
    using cs by auto
  from r have r': "recordEventAndUpdateStatus env
      (l @ ([IRecoverConfigFile (is_CDBName spec), IBounceDatabase (is_CDBName spec)] @ cs)) ?i ConditionTrue k8s_CreateComplete ?m =
      (inst1, l1)" by simp
  note rr = param_round_records [OF assms(4,7) r' f(1,2) disp q, unfolded f]
  have v: "\<forall>k v. imm k \<longrightarrow> d k = Some v \<longrightarrow> val (?l @ cs) k = conv k v"
    using rollback_loop_sets [OF assms(1) lo kvs(1)] kvs(2) by simp
  obtain e where l1: "l1 = (?l @ cs) @ [IEvent e k8s_CreateComplete ?m, IStatusUpdate inst1]" using recorded(1) [OF r] by blast
  have "val l1 = val (?l @ cs)" unfolding l1 by (rule other_calls_keep [OF assms(1)]) auto
  with v have "\<forall>k v. imm k \<longrightarrow> d k = Some v \<longrightarrow> val l1 k = conv k v" by simp
  with that rr(1,2,4) show thesis by blast
qed

fun param_rounds :: "inst_env \<Rightarrow> nat \<Rightarrow> Instance \<times> inst_log \<Rightarrow> (Instance \<times> inst_log) option" where
  "param_rounds env 0 s = Some s"
| "param_rounds env (Suc n) s = (case param_round env s of None \<Rightarrow> None | Some s' \<Rightarrow> param_rounds env n s')"

text \<open>
  C13: a parameter update is all or nothing. From a ready instance, three reconciles in the maintenance
  window end with the instance ready again, and either every requested parameter has been set and the
  request is recorded as current, or the request is recorded as failed and every requested parameter
  that takes effect at once has the value it had before, whichever of the settings or the restart
  failed. At least one of the requested texts has to differ from the value the database reports (otherwise
  the update never ends, \<open>parameter_update_stuck\<close>), none may be reserved, and the calls of the recovery
  have to succeed: recovering the config file, and the restart and the settings after it.
\<close>

theorem parameter_update_all_or_nothing:
  assumes "parameter_db env val conv imm" and "ranges_over env ks" and "in_window env spec"
    and "is_Parameters spec = Some p" and "dom p \<subseteq> set ks" and "dom p \<inter> set reservedParameters = {}"
    and "at_stage inst spec k8s_CreateComplete cur failed" and "Some p \<noteq> cur" and "Some p \<noteq> failed"
    and "\<exists>k v. p k = Some v \<and> val l k \<noteq> v"
    and "\<forall>l'. ie_RecoverConfigFile env l' (is_CDBName spec) = None"
    and "\<forall>l'. IRecoverConfigFile (is_CDBName spec) \<in> set l' \<longrightarrow> ie_BounceDatabase env l' (is_CDBName spec) = None"
    and "\<forall>l' k v. IRecoverConfigFile (is_CDBName spec) \<in> set l' \<longrightarrow> (\<exists>b. ie_SetParameter env l' k v = Inr b)"
  shows "\<exists>inst' l'. param_rounds env 3 (inst, l) = Some (inst', l') \<and> ready inst' = k8s_CreateComplete \<and>
    ConditionStatusEquals (inst_cond inst' k8s_Ready) ConditionTrue \<and>
    (ist_CurrentParameters (inst_Status inst') = Some p \<and> all_set env l' p \<or>
     ist_LastFailedParameterUpdate (inst_Status inst') = Some p \<and> (\<forall>k \<in> dom p. imm k \<longrightarrow> val l' k = val l k))"
proof -
  obtain i1 l1 d where r1: "param_round env (inst, l) = Some (i1, l1)"
    "at_stage i1 spec k8s_ParameterUpdateInProgress (Some d) failed" "val l1 = val l"
    "ist_CurrentActiveStateMachine (inst_Status i1) = ParameterUpdateStateMachine"
    "ConditionStatusEquals (inst_cond i1 k8s_Ready) ConditionFalse"
    "\<forall>k v. d k = Some v \<longrightarrow> k \<in> dom p \<and> v = val l k" "\<forall>k. k \<in> dom p \<longrightarrow> imm k \<longrightarrow> d k = Some (val l k)"
    by (rule param_round_entry [OF assms(1-9)])
  have pd: "Some p \<noteq> Some d" using assms(10) r1(6) by auto
  have np: "is_Parameters spec \<noteq> Some d" "is_Parameters spec \<noteq> failed" using pd assms(4,9) by simp_all
  have dd: "dom d \<subseteq> set ks" using r1(6) assms(5) by blast
  obtain i2 l2 r where r2:
    "param_round env (i1, l1) = Some (i2, l2)" "at_stage i2 spec r (Some d) failed"
    "ist_CurrentActiveStateMachine (inst_Status i2) = ParameterUpdateStateMachine"
    "r = k8s_ParameterUpdateRollbackInProgress \<or> r = k8s_ParameterUpdateComplete \<and> all_set env l2 p"
    by (rule param_round_in_progress [OF assms(1-5) r1(2) pd assms(9) r1(4)])
  have three: "param_rounds env 3 (inst, l) = param_round env (i2, l2)"
    using r1(1) r2(1) by (simp add: numeral_3_eq_3 split: option.splits)
  from r2(4) show ?thesis
  proof
    assume "r = k8s_ParameterUpdateRollbackInProgress"
    with r2(2) have st: "at_stage i2 spec k8s_ParameterUpdateRollbackInProgress (Some d) failed" by simp
    obtain i3 l3 where
      r3: "param_round env (i2, l2) = Some (i3, l3)" "at_stage i3 spec k8s_CreateComplete (Some d) (is_Parameters spec)"
      "ConditionStatusEquals (inst_cond i3 k8s_Ready) ConditionTrue" "\<forall>k v. imm k \<longrightarrow> d k = Some v \<longrightarrow> val l3 k = conv k v"
      by (rule param_round_rollback [OF assms(1-3) st np r2(3) dd assms(11-13)])
    have "conv k (val l k) = val l k" for k using assms(1) unfolding parameter_db_def by blast
    with three r1(7) r3 assms(4) show ?thesis by (simp add: at_stage_def)
  next
    assume c: "r = k8s_ParameterUpdateComplete \<and> all_set env l2 p"
    with r2(2) have st: "at_stage i2 spec k8s_ParameterUpdateComplete (Some d) failed" by simp
    obtain i3 cs where
      r3: "param_round env (i2, l2) = Some (i3, l2 @ cs)" "at_stage i3 spec k8s_CreateComplete (is_Parameters spec) failed"
      "ConditionStatusEquals (inst_cond i3 k8s_Ready) ConditionTrue"
      by (rule param_round_complete [OF assms(3) st np r2(3)])
    with three c assms(4) show ?thesis by (simp add: at_stage_def all_set_append)
  qed
qed

text \<open>
  An update that asks for the values the database already has never ends. If every requested
  parameter takes effect at once and has its requested value, the first reconcile records the values
  read for a rollback as the current parameters, which equal the request, and sets the instance to not
  ready; every later reconcile then returns at once, whatever the calls answer, and the instance stays
  not ready.
\<close>

theorem parameter_update_stuck:
  assumes "parameter_db env val conv imm" and "ranges_over env ks" and "in_window env spec"
    and "is_Parameters spec = Some p" and "dom p \<subseteq> set ks" and "dom p \<inter> set reservedParameters = {}"
    and "at_stage inst spec k8s_CreateComplete cur failed" and "Some p \<noteq> cur" and "Some p \<noteq> failed"
    and "\<forall>k v. p k = Some v \<longrightarrow> imm k \<and> val l k = v"
  shows "\<exists>inst' l'. param_round env (inst, l) = Some (inst', l') \<and> ready inst' = k8s_ParameterUpdateInProgress \<and>
    ConditionStatusEquals (inst_cond inst' k8s_Ready) ConditionFalse \<and>
    (\<forall>env' n. param_rounds env' n (inst', l') = Some (inst', l'))"
proof -
  obtain i1 l1 d where r1: "param_round env (inst, l) = Some (i1, l1)"
    "at_stage i1 spec k8s_ParameterUpdateInProgress (Some d) failed" "val l1 = val l"
    "ist_CurrentActiveStateMachine (inst_Status i1) = ParameterUpdateStateMachine"
    "ConditionStatusEquals (inst_cond i1 k8s_Ready) ConditionFalse"
    "\<forall>k v. d k = Some v \<longrightarrow> k \<in> dom p \<and> v = val l k" "\<forall>k. k \<in> dom p \<longrightarrow> imm k \<longrightarrow> d k = Some (val l k)"
    by (rule param_round_entry [OF assms(1-9)])
  have "d k = p k" for k
  proof (cases "p k")
    case None
    then show ?thesis using r1(6) by (cases "d k") auto
  next
    case (Some v)
    with assms(10) r1(7) show ?thesis by (simp add: domI)
  qed
  then have "d = p" ..
  then have "is_Parameters (inst_Spec i1) = ist_CurrentParameters (inst_Status i1)"
    using r1(2) assms(4) by (simp add: at_stage_def)
  then have "parameterUpdateStateMachine env' l1 i1 = Some (i1, l1, Result_zero, None)" for env'
    by (simp add: parameterUpdateStateMachine_def Let_def)
  then have "param_round env' (i1, l1) = Some (i1, l1)" for env' by (simp add: param_round_def)
  then have "param_rounds env' n (i1, l1) = Some (i1, l1)" for env' n by (induction n) auto
  with r1(1,2,5) show ?thesis unfolding at_stage_def by blast
qed

subsection \<open>A database\<close>

text \<open>A database with a parameter that takes effect at once and a static one, which cannot be set before the
  config file has been recovered. Numbers are stored without leading zeros.\<close>

definition demo_keys :: "string list" where
  "demo_keys = [''open_cursors'', ''processes'']"

definition demo_conv :: "string \<Rightarrow> string \<Rightarrow> string" where
  "demo_conv k v = dropWhile (\<lambda>ch. ch = CHR ''0'') v"

definition demo_value :: "inst_log \<Rightarrow> string \<Rightarrow> string" where
  "demo_value l k = foldl (\<lambda>x c. case c of ISetParameter j v \<Rightarrow> if j = k \<and> k \<noteq> ''processes'' then demo_conv k v else x | _ \<Rightarrow> x) ''300'' l"

definition demo_params_env :: inst_env where
  "demo_params_env = sample_env
     \<lparr>ie_range := (\<lambda>l m. case m of None \<Rightarrow> []
        | Some f \<Rightarrow> concat (map (\<lambda>k. case f k of None \<Rightarrow> [] | Some v \<Rightarrow> [(k, v)]) demo_keys)),
      ie_SetParameter := (\<lambda>l k v.
        if k = ''processes'' \<and> IRecoverConfigFile ''GCLOUD'' \<notin> set l then Inl (Errorf ''ORA-02097'') else Inr (k = ''processes'')),
      ie_GetParameterTypeValue := (\<lambda>l ks.
        Inr (map (\<lambda>k. if k = ''processes'' then ''FALSE'' else ''IMMEDIATE'') ks, map (demo_value l) ks))\<rparr>"

definition demo_instance :: "(string \<rightharpoonup> string) \<Rightarrow> Instance" where
  "demo_instance p = sample_instance\<lparr>inst_Spec := (inst_Spec sample_instance)
     \<lparr>is_Parameters := Some p,
      is_MaintenanceWindow := Some \<lparr>TimeRanges = [\<lparr>Start = Some 0, Duration = Some (3600 * Second)\<rparr>]\<rparr>\<rparr>\<rparr>"

lemma demo_ranges: "ranges_over demo_params_env demo_keys"
  unfolding ranges_over_def
proof (intro allI impI)
  fix l and f :: "string \<rightharpoonup> string" assume d: "dom f \<subseteq> set demo_keys"
  have "map_of (ie_range demo_params_env l (Some f)) k = f k" for k
  proof (cases "k \<in> set demo_keys")
    case True
    then show ?thesis by (auto simp: demo_params_env_def demo_keys_def split: option.splits)
  next
    case False
    with d have "f k = None" by blast
    with False show ?thesis by (auto simp: demo_params_env_def demo_keys_def split: option.splits)
  qed
  then show "distinct (map fst (ie_range demo_params_env l (Some f))) \<and> map_of (ie_range demo_params_env l (Some f)) = f"
    by (auto simp: demo_params_env_def demo_keys_def split: option.splits)
qed

lemma demo_value_step:
  "demo_value (l @ [c]) k = (case c of ISetParameter j v \<Rightarrow> if j = k \<and> k \<noteq> ''processes'' then demo_conv k v else demo_value l k | _ \<Rightarrow> demo_value l k)"
  by (cases c) (simp_all add: demo_value_def)

lemma demo_value_conv: "demo_conv k (demo_value l k) = demo_value l k"
proof (induction l rule: rev_induct)
  case Nil
  then show ?case by (simp add: demo_conv_def demo_value_def)
next
  case (snoc c l)
  then show ?case by (cases c) (simp_all add: demo_value_step, simp add: demo_conv_def)
qed

lemma demo_parameter_db: "parameter_db demo_params_env demo_value demo_conv (\<lambda>k. k \<noteq> ''processes'')"
  unfolding parameter_db_def
proof (intro conjI allI impI)
  fix l and ks :: "string list"
  show "\<exists>ts. ie_GetParameterTypeValue demo_params_env l ks = Inr (ts, map (demo_value l) ks) \<and> length ts = length ks \<and>
      (\<forall>i < length ks. ks ! i \<noteq> ''processes'' \<longrightarrow> ts ! i \<noteq> ''FALSE'')"
    by (simp add: demo_params_env_def)
next
  fix l c assume "\<forall>k v. c \<noteq> ISetParameter k v"
  then show "demo_value (l @ [c]) = demo_value l" by (intro ext) (cases c; simp add: demo_value_step)
qed (simp_all add: demo_value_step demo_value_conv)

lemma demo_window: "in_window demo_params_env (inst_Spec (demo_instance p))"
  by (simp add: in_window_def demo_params_env_def demo_instance_def sample_env_def HasValidTimeRanges_def timeRangeIsValid_def
      InRange_def timeRangeInRange_def Rfc3339Copy_def)

lemma demo_stage: "at_stage (demo_instance p) (inst_Spec (demo_instance p)) k8s_CreateComplete None None"
  by (simp add: at_stage_def demo_instance_def sample_instance_def ready_def reason_of_def
      isParameterUpdateStateMachineEntryCondition_def ConditionStatusEquals_def)

lemma demo_spec [simp]: "is_Parameters (inst_Spec (demo_instance p)) = Some p" "is_CDBName (inst_Spec (demo_instance p)) = ''GCLOUD''"
  by (simp_all add: demo_instance_def sample_instance_def)

abbreviation demo_request :: "string \<rightharpoonup> string" where
  "demo_request \<equiv> [''open_cursors'' \<mapsto> ''0500'', ''processes'' \<mapsto> ''200'']"

theorem parameter_update_all_or_nothing_witness:
  "\<exists>inst' l'. param_rounds demo_params_env 3 (demo_instance demo_request, []) = Some (inst', l') \<and>
    ready inst' = k8s_CreateComplete \<and> ConditionStatusEquals (inst_cond inst' k8s_Ready) ConditionTrue \<and>
    (ist_CurrentParameters (inst_Status inst') = Some demo_request \<and> all_set demo_params_env l' demo_request \<or>
     ist_LastFailedParameterUpdate (inst_Status inst') = Some demo_request \<and>
     (\<forall>k \<in> dom demo_request. k \<noteq> ''processes'' \<longrightarrow> demo_value l' k = demo_value [] k))"
proof (rule parameter_update_all_or_nothing [OF demo_parameter_db demo_ranges demo_window demo_spec(1) _ _ demo_stage])
  show "\<exists>k v. demo_request k = Some v \<and> demo_value [] k \<noteq> v"
    by (intro exI [of _ "''open_cursors''"] exI [of _ "''0500''"]) (simp add: demo_value_def)
qed (auto simp: demo_keys_def reservedParameters_def demo_params_env_def sample_env_def split: if_splits)

theorem parameter_update_stuck_witness:
  "\<exists>inst' l'. param_round demo_params_env (demo_instance [''open_cursors'' \<mapsto> ''300''], []) = Some (inst', l') \<and>
    ready inst' = k8s_ParameterUpdateInProgress \<and> ConditionStatusEquals (inst_cond inst' k8s_Ready) ConditionFalse \<and>
    (\<forall>env' n. param_rounds env' n (inst', l') = Some (inst', l'))"
proof (rule parameter_update_stuck [OF demo_parameter_db demo_ranges demo_window demo_spec(1) _ _ demo_stage])
  show "\<forall>k v. [''open_cursors'' \<mapsto> ''300''] k = Some v \<longrightarrow> k \<noteq> ''processes'' \<and> demo_value [] k = v"
    by (auto simp: demo_value_def split: if_splits)
qed (auto simp: demo_keys_def reservedParameters_def)

end
