(* ===== verification/Users.thy ===== *)
theory Users
  imports Sql
begin

text \<open>
  \<open>oracle/controllers/user_repository.go\<close>, and \<open>UsersChanged\<close> and \<open>UpdateUsers\<close> of
  \<open>config_agent_helpers.go\<close>: the users of a pluggable database are compared with the specification and
  brought in line with it. The database daemon's client is a parameter, a record of functions on a state
  \<open>'w\<close> of the database: running statements, running a query (its answer is a list of JSON texts),
  \<open>json.Unmarshal\<close> into a map of strings, the secret manager, and \<open>Elements\<close> of the package \<open>stringset\<close>.
  A result \<open>None\<close> is a panic: the statement builders panic on a name they cannot quote.

  The code keeps pointers to the users in a map by upper-case name and changes them through the pointers;
  here a user is looked up by that name, and the lists of pointers are lists of names. The users a failed
  \<open>users.diff\<close> leaves behind are not returned: both its callers return at once and nothing else refers to
  them.
\<close>

record 'w db_client =
  dc_run :: "'w \<Rightarrow> string list \<Rightarrow> 'w \<times> go_error option"
  dc_query :: "'w \<Rightarrow> string list \<Rightarrow> go_error + string list"
  dc_unmarshal :: "string \<Rightarrow> go_error + (string \<rightharpoonup> string)"
  dc_secret :: "'w \<Rightarrow> string \<Rightarrow> go_error + string"
  dc_elements :: "string set \<Rightarrow> string list"

record GsmSecretReference =
  gsm_ProjectId :: string
  gsm_SecretId :: string
  gsm_Version :: string
  gsm_LastVersion :: string

record User =
  u_Name :: string
  u_Password :: string
  u_Privileges :: "string list"
  u_PasswordGsmSecretRef :: "GsmSecretReference option"
  u_LastPassword :: string

record user =
  databaseName :: string
  userName :: string
  specPrivs :: "string list"
  envDbaSysPrivs :: "string list"
  envDbaRolePrivs :: "string list"
  gsmSecNewVer :: string
  gsmSecCurVer :: string
  newPassword :: string
  curPassword :: string

record users =
  us_databaseName :: string
  us_databaseRoles :: "string list"
  us_nameToUser :: "(string \<times> user) list"
  us_envUserNames :: "string list"

abbreviation pdbAdmin :: string where "pdbAdmin \<equiv> ''GPDB_ADMIN''"

subsection \<open>Queries\<close>

fun parseSQLResponse :: "'w db_client \<Rightarrow> string list \<Rightarrow> go_error + (string \<rightharpoonup> string) list" where
  "parseSQLResponse c [] = Inr []"
| "parseSQLResponse c (msg # msgs) =
     (case dc_unmarshal c msg of
        Inl err \<Rightarrow> Inl (Errorf (''failed to parse '' @ msg @ '': '' @ err_msg err))
      | Inr row \<Rightarrow>
          (case parseSQLResponse c msgs of
             Inl err \<Rightarrow> Inl err
           | Inr rows \<Rightarrow> Inr (row # rows)))"

fun queryRowsByKey :: "(string \<rightharpoonup> string) list \<Rightarrow> string \<Rightarrow> (string \<Rightarrow> bool) \<Rightarrow> go_error + string list" where
  "queryRowsByKey [] rowKey flt = Inr []"
| "queryRowsByKey (row # rows) rowKey flt =
     (case row rowKey of
        None \<Rightarrow> Inl (Errorf (''failed to retrieve '' @ rowKey))
      | Some v \<Rightarrow>
          (case queryRowsByKey rows rowKey flt of
             Inl err \<Rightarrow> Inl err
           | Inr vs \<Rightarrow> Inr (if flt v then v # vs else vs)))"

definition queryDB ::
    "'w db_client \<Rightarrow> 'w \<Rightarrow> string \<Rightarrow> string \<Rightarrow> string \<Rightarrow> (string \<Rightarrow> bool) \<Rightarrow> (go_error + string list) option" where
  "queryDB c w db sqlQuery key flt =
     (case QuerySetSessionContainer db of
        None \<Rightarrow> None
      | Some setc \<Rightarrow> Some
          (case dc_query c w [setc, sqlQuery] of
             Inl err \<Rightarrow> Inl (Errorf (''queryDB failed to query data: '' @ err_msg err))
           | Inr resp \<Rightarrow>
               (case parseSQLResponse c resp of
                  Inl err \<Rightarrow> Inl (Errorf (''queryDB failed to parse data: '' @ err_msg err))
                | Inr rows \<Rightarrow>
                    (case queryRowsByKey rows key flt of
                       Inl err \<Rightarrow> Inl (Errorf (''failed to retrieve '' @ key))
                     | Inr vs \<Rightarrow> Inr vs))))"

definition compare :: "'w db_client \<Rightarrow> string list \<Rightarrow> string list \<Rightarrow> string list \<times> string list \<times> string list" where
  "compare c left right =
     (dc_elements c (set left - set right), dc_elements c (set left \<inter> set right), dc_elements c (set right - set left))"

subsection \<open>A user\<close>

definition newUser :: "string \<Rightarrow> User \<Rightarrow> user" where
  "newUser dbName specUser =
     \<lparr>databaseName = ToUpper dbName, userName = ToUpper (u_Name specUser),
      specPrivs = filter (\<lambda>p. \<not> Contains_str p '' ON '') (map ToUpper (u_Privileges specUser)),
      envDbaSysPrivs = [], envDbaRolePrivs = [],
      gsmSecNewVer = (case u_PasswordGsmSecretRef specUser of
                        None \<Rightarrow> []
                      | Some r \<Rightarrow> ''projects/'' @ gsm_ProjectId r @ ''/secrets/'' @ gsm_SecretId r @ ''/versions/'' @ gsm_Version r),
      gsmSecCurVer = (case u_PasswordGsmSecretRef specUser of None \<Rightarrow> [] | Some r \<Rightarrow> gsm_LastVersion r),
      newPassword = u_Password specUser, curPassword = u_LastPassword specUser\<rparr>"

definition newNoSpecUser :: "string \<Rightarrow> string \<Rightarrow> user" where
  "newNoSpecUser dbName name =
     \<lparr>databaseName = ToUpper dbName, userName = ToUpper name, specPrivs = [], envDbaSysPrivs = [], envDbaRolePrivs = [],
      gsmSecNewVer = [], gsmSecCurVer = [], newPassword = [], curPassword = []\<rparr>"

definition sys_privs_sql :: "string \<Rightarrow> string" where
  "sys_privs_sql n = ''select privilege from dba_sys_privs where grantee='' @ quoted n"

definition role_privs_sql :: "string \<Rightarrow> string" where
  "role_privs_sql n = ''select granted_role from dba_role_privs where grantee='' @ quoted n"

text \<open>The user as changed through its pointer, also when the second query fails, and the error.\<close>

definition user_readEnv :: "'w db_client \<Rightarrow> 'w \<Rightarrow> user \<Rightarrow> (user \<times> go_error option) option" where
  "user_readEnv c w u =
     (case queryDB c w (databaseName u) (sys_privs_sql (userName u)) ''PRIVILEGE'' (\<lambda>_. True) of
        None \<Rightarrow> None
      | Some (Inl err) \<Rightarrow> Some (u, Some (Errorf (''failed to query dba sys privileges: '' @ err_msg err)))
      | Some (Inr sysPrivs) \<Rightarrow>
          (case queryDB c w (databaseName u) (role_privs_sql (userName u)) ''GRANTED_ROLE'' (\<lambda>_. True) of
             None \<Rightarrow> None
           | Some (Inl err) \<Rightarrow>
               Some (u\<lparr>envDbaSysPrivs := sysPrivs\<rparr>, Some (Errorf (''failed to query dba role privileges: '' @ err_msg err)))
           | Some (Inr rolePrivs) \<Rightarrow> Some (u\<lparr>envDbaSysPrivs := sysPrivs, envDbaRolePrivs := rolePrivs\<rparr>, None)))"

text \<open>\<open>strings.EqualFold\<close> on ASCII text.\<close>

definition EqualFold :: "string \<Rightarrow> string \<Rightarrow> bool" where
  "EqualFold s t = (ToUpper s = ToUpper t)"

definition update_gsm :: "user \<Rightarrow> bool" where
  "update_gsm u =
     (gsmSecNewVer u \<noteq> [] \<and> \<not> EqualFold (gsmSecNewVer u) (gsmSecCurVer u) \<or> HasSuffix (gsmSecNewVer u) ''latest'')"

text \<open>The user as changed through its pointer, also when there is an error, the privileges to grant and to
  revoke, and whether the password has to be updated.\<close>

definition user_diff ::
    "'w db_client \<Rightarrow> 'w \<Rightarrow> user \<Rightarrow> (user \<times> (go_error + string list \<times> string list \<times> bool)) option" where
  "user_diff c w u =
     (case user_readEnv c w u of
        None \<Rightarrow> None
      | Some (u1, Some err) \<Rightarrow> Some (u1, Inl (Errorf (''failed to read the env user: '' @ err_msg err)))
      | Some (u1, None) \<Rightarrow>
          (case compare c (specPrivs u1) (envDbaSysPrivs u1 @ envDbaRolePrivs u1) of
             (toGrant, _, toRevoke) \<Rightarrow>
               (let plain = (\<lambda>u2. curPassword u2 \<noteq> [] \<and> curPassword u2 \<noteq> newPassword u2) in
                if update_gsm u1 then
                  (case dc_secret c w (gsmSecNewVer u1) of
                     Inl err \<Rightarrow> Some (u1, Inl (Errorf (''failed to read GSM secret: '' @ err_msg err)))
                   | Inr pwd \<Rightarrow> Some (u1\<lparr>newPassword := pwd\<rparr>, Inr (toGrant, toRevoke, True)))
                else Some (u1, Inr (toGrant, toRevoke, plain u1)))))"

text \<open>Statements for a list, or a panic if one of them panics.\<close>

fun all_some :: "'a option list \<Rightarrow> 'a list option" where
  "all_some [] = Some []"
| "all_some (None # xs) = None"
| "all_some (Some x # xs) = map_option ((#) x) (all_some xs)"

text \<open>\<open>RunSQLPlus\<close> with statements in the container of the user's database.\<close>

definition run_in_container ::
    "'w db_client \<Rightarrow> 'w \<Rightarrow> user \<Rightarrow> string option list \<Rightarrow> string \<Rightarrow> ('w \<times> go_error option) option" where
  "run_in_container c w u cmds what =
     (case all_some (QuerySetSessionContainer (databaseName u) # cmds) of
        None \<Rightarrow> None
      | Some sqls \<Rightarrow>
          (case dc_run c w sqls of
             (w1, None) \<Rightarrow> Some (w1, None)
           | (w1, Some err) \<Rightarrow> Some (w1, Some (Errorf (''failed to '' @ what @ '' user '' @ userName u @ '': '' @ err_msg err)))))"

definition user_create :: "'w db_client \<Rightarrow> 'w \<Rightarrow> user \<Rightarrow> ('w \<times> go_error option) option" where
  "user_create c w u =
     run_in_container c w u
       (QueryCreateUser (userName u) (newPassword u) # map (\<lambda>p. QueryGrantPrivileges p (userName u)) (specPrivs u))
       ''create''"

definition updatePassword :: "'w db_client \<Rightarrow> 'w \<Rightarrow> user \<Rightarrow> ('w \<times> go_error option) option" where
  "updatePassword c w u = run_in_container c w u [QueryAlterUser (userName u) (newPassword u)] ''alter''"

definition user_grant :: "'w db_client \<Rightarrow> 'w \<Rightarrow> user \<Rightarrow> string list \<Rightarrow> ('w \<times> go_error option) option" where
  "user_grant c w u toGrant =
     (if toGrant = [] then Some (w, None)
      else run_in_container c w u (map (\<lambda>p. QueryGrantPrivileges p (userName u)) toGrant) ''grant'')"

definition user_revoke :: "'w db_client \<Rightarrow> 'w \<Rightarrow> user \<Rightarrow> string list \<Rightarrow> ('w \<times> go_error option) option" where
  "user_revoke c w u toRevoke =
     (if toRevoke = [] then Some (w, None)
      else run_in_container c w u (map (\<lambda>p. QueryRevokePrivileges p (userName u)) toRevoke) ''revoke'')"

text \<open>The common part of \<open>updateRolePrivs\<close> and \<open>updateSysPrivs\<close>: grant and revoke what satisfies \<open>sel\<close>.\<close>

definition update_privs ::
    "'w db_client \<Rightarrow> 'w \<Rightarrow> user \<Rightarrow> (string \<Rightarrow> bool) \<Rightarrow> ('w \<times> user \<times> go_error option) option" where
  "update_privs c w u sel =
     (case user_diff c w u of
        None \<Rightarrow> None
      | Some (u1, Inl err) \<Rightarrow> Some (w, u1, Some (Errorf (''failed to get diff to update user: '' @ err_msg err)))
      | Some (u1, Inr (toGrant, toRevoke, _)) \<Rightarrow>
          (case user_grant c w u1 (filter sel toGrant) of
             None \<Rightarrow> None
           | Some (w1, Some err) \<Rightarrow> Some (w1, u1, Some (Errorf (''failed to grant: '' @ err_msg err)))
           | Some (w1, None) \<Rightarrow>
               (case user_revoke c w1 u1 (filter sel toRevoke) of
                  None \<Rightarrow> None
                | Some (w2, Some err) \<Rightarrow> Some (w2, u1, Some (Errorf (''failed to revoke: '' @ err_msg err)))
                | Some (w2, None) \<Rightarrow> Some (w2, u1, None))))"

definition updateRolePrivs ::
    "'w db_client \<Rightarrow> 'w \<Rightarrow> user \<Rightarrow> string list \<Rightarrow> ('w \<times> user \<times> go_error option) option" where
  "updateRolePrivs c w u roles = update_privs c w u (\<lambda>p. p \<in> set roles)"

definition updateSysPrivs ::
    "'w db_client \<Rightarrow> 'w \<Rightarrow> user \<Rightarrow> string list \<Rightarrow> ('w \<times> user \<times> go_error option) option" where
  "updateSysPrivs c w u roles = update_privs c w u (\<lambda>p. p \<notin> set roles)"

definition user_update ::
    "'w db_client \<Rightarrow> 'w \<Rightarrow> user \<Rightarrow> string list \<Rightarrow> ('w \<times> user \<times> go_error option) option" where
  "user_update c w u roles =
     (case updateRolePrivs c w u roles of
        None \<Rightarrow> None
      | Some (w1, u1, Some err) \<Rightarrow> Some (w1, u1, Some err)
      | Some (w1, u1, None) \<Rightarrow> updateSysPrivs c w1 u1 roles)"

definition user_delete :: "user \<Rightarrow> string option" where
  "user_delete u =
     bind2 (QuerySetSessionContainer (databaseName u)) (MustBeObjectName (userName u))
       (\<lambda>s n. s @ ''; DROP USER '' @ n @ '' CASCADE;'')"

subsection \<open>All users\<close>

fun put :: "string \<Rightarrow> user \<Rightarrow> (string \<times> user) list \<Rightarrow> (string \<times> user) list" where
  "put k u [] = [(k, u)]"
| "put k u ((k', u') # m) = (if k = k' then (k, u) # m else (k', u') # put k u m)"

definition newUsers :: "string \<Rightarrow> User list \<Rightarrow> users" where
  "newUsers dbName userSpecs =
     \<lparr>us_databaseName = ToUpper dbName, us_databaseRoles = [],
      us_nameToUser = fold (\<lambda>us m. put (ToUpper (u_Name us)) (newUser dbName us) m) userSpecs [],
      us_envUserNames = []\<rparr>"

abbreviation users_sql :: string where
  "users_sql \<equiv> ''select username from dba_users where ORACLE_MAINTAINED='' @ quoted ''N'' @ '' and INHERITED='' @ quoted ''NO''"

definition users_readEnv :: "'w db_client \<Rightarrow> 'w \<Rightarrow> users \<Rightarrow> (go_error + users) option" where
  "users_readEnv c w us =
     (case queryDB c w (us_databaseName us) users_sql ''USERNAME'' (\<lambda>n. n \<noteq> pdbAdmin) of
        None \<Rightarrow> None
      | Some (Inl err) \<Rightarrow> Some (Inl (Errorf (''failed to load users from DB '' @ err_msg err)))
      | Some (Inr names) \<Rightarrow>
          (case queryDB c w (us_databaseName us) ''select role from dba_roles'' ''ROLE'' (\<lambda>_. True) of
             None \<Rightarrow> None
           | Some (Inl err) \<Rightarrow> Some (Inl (Errorf (''failed to load roles from DB '' @ err_msg err)))
           | Some (Inr roles) \<Rightarrow> Some (Inr (us\<lparr>us_envUserNames := names, us_databaseRoles := roles\<rparr>))))"

definition getUsers :: "users \<Rightarrow> string list \<Rightarrow> go_error + string list" where
  "getUsers us names =
     (case List.find (\<lambda>n. map_of (us_nameToUser us) n = None) names of
        Some n \<Rightarrow> Inl (Errorf (''failed to find '' @ n))
      | None \<Rightarrow> Inr names)"

fun read_deleted :: "'w db_client \<Rightarrow> 'w \<Rightarrow> string \<Rightarrow> string list \<Rightarrow> (go_error + user list) option" where
  "read_deleted c w db [] = Some (Inr [])"
| "read_deleted c w db (d # ds) =
     (case user_readEnv c w (newNoSpecUser db d) of
        None \<Rightarrow> None
      | Some (_, Some err) \<Rightarrow> Some (Inl (Errorf (''failed to read the env user '' @ d @ '': '' @ err_msg err)))
      | Some (du, None) \<Rightarrow>
          (case read_deleted c w db ds of
             None \<Rightarrow> None
           | Some (Inl err) \<Rightarrow> Some (Inl err)
           | Some (Inr dus) \<Rightarrow> Some (Inr (du # dus))))"

text \<open>The loop over the users on both sides: the map with the users as changed, the names to update and the
  names whose password is to be updated.\<close>

fun check_users ::
    "'w db_client \<Rightarrow> 'w \<Rightarrow> (string \<times> user) list \<Rightarrow> string list \<Rightarrow>
     (go_error + (string \<times> user) list \<times> string list \<times> string list) option" where
  "check_users c w m [] = Some (Inr (m, [], []))"
| "check_users c w m (n # ns) =
     (case map_of m n of
        None \<Rightarrow> Some (Inl (Errorf (''failed to find '' @ n)))
      | Some u \<Rightarrow>
          (case user_diff c w u of
             None \<Rightarrow> None
           | Some (_, Inl err) \<Rightarrow> Some (Inl (Errorf (''failed to read the env user '' @ n @ '': '' @ err_msg err)))
           | Some (u1, Inr (toGrant, toRevoke, toUpdatePwd)) \<Rightarrow>
               (case check_users c w (put n u1 m) ns of
                  None \<Rightarrow> None
                | Some (Inl err) \<Rightarrow> Some (Inl err)
                | Some (Inr (m', upd, pwd)) \<Rightarrow>
                    Some (Inr (m', (if toGrant \<noteq> [] \<or> toRevoke \<noteq> [] then n # upd else upd),
                               (if toUpdatePwd then n # pwd else pwd))))))"

definition users_diff ::
    "'w db_client \<Rightarrow> 'w \<Rightarrow> users \<Rightarrow> (go_error + users \<times> string list \<times> string list \<times> user list \<times> string list) option" where
  "users_diff c w us =
     (case users_readEnv c w us of
        None \<Rightarrow> None
      | Some (Inl err) \<Rightarrow> Some (Inl (Errorf (''failed to read the env users: '' @ err_msg err)))
      | Some (Inr us1) \<Rightarrow>
          (case compare c (map fst (us_nameToUser us1)) (us_envUserNames us1) of
             (toCreate, toCheck, toDelete) \<Rightarrow>
               (case getUsers us1 toCreate of
                  Inl err \<Rightarrow> Some (Inl err)
                | Inr toCreateUsers \<Rightarrow>
                    (case getUsers us1 toCheck of
                       Inl err \<Rightarrow> Some (Inl err)
                     | Inr toCheckUsers \<Rightarrow>
                         (case read_deleted c w (us_databaseName us1) toDelete of
                            None \<Rightarrow> None
                          | Some (Inl err) \<Rightarrow> Some (Inl err)
                          | Some (Inr toDeleteUsers) \<Rightarrow>
                              (case check_users c w (us_nameToUser us1) toCheckUsers of
                                 None \<Rightarrow> None
                               | Some (Inl err) \<Rightarrow> Some (Inl err)
                               | Some (Inr (m, toUpdate, toUpdatePwd)) \<Rightarrow>
                                   Some (Inr (us1\<lparr>us_nameToUser := m\<rparr>, toCreateUsers, toUpdate, toDeleteUsers, toUpdatePwd))))))))"

subsection \<open>Comparing and updating\<close>

datatype suppressed = SuppressedDelete string string | SuppressedCreate string

definition users_changed ::
    "'w db_client \<Rightarrow> 'w \<Rightarrow> string \<Rightarrow> User list \<Rightarrow> (go_error + bool \<times> suppressed list) option" where
  "users_changed c w pdbName userSpecs =
     (case users_diff c w (newUsers pdbName userSpecs) of
        None \<Rightarrow> None
      | Some (Inl err) \<Rightarrow> Some (Inl (Errorf (''config_agent_helpers/UsersChanged: failed to get difference between env and spec for users: '' @ err_msg err)))
      | Some (Inr (us, toCreate, toUpdate, toDelete, toUpdatePwd)) \<Rightarrow>
          (case all_some (map (\<lambda>du. map_option (SuppressedDelete (userName du)) (user_delete du)) toDelete) of
             None \<Rightarrow> None
           | Some deleted \<Rightarrow>
               (let created = concat (map (\<lambda>n. case map_of (us_nameToUser us) n of
                                 None \<Rightarrow> []
                               | Some cu \<Rightarrow> if newPassword cu = [] then [SuppressedCreate (userName cu)] else []) toCreate)
                in Some (Inr (toCreate \<noteq> [] \<or> toUpdate \<noteq> [] \<or> toUpdatePwd \<noteq> [], deleted @ created)))))"

text \<open>The loops of \<open>UpdateUsers\<close>: the state, and whether an error was found.\<close>

fun create_loop :: "'w db_client \<Rightarrow> 'w \<Rightarrow> bool \<Rightarrow> (string \<times> user) list \<Rightarrow> string list \<Rightarrow> ('w \<times> bool) option" where
  "create_loop c w foundErr m [] = Some (w, foundErr)"
| "create_loop c w foundErr m (n # ns) =
     (case map_of m n of
        None \<Rightarrow> None
      | Some u \<Rightarrow>
          (case user_create c w u of
             None \<Rightarrow> None
           | Some (w1, err) \<Rightarrow> create_loop c w1 (foundErr \<or> err \<noteq> None) m ns))"

fun update_loop ::
    "'w db_client \<Rightarrow> string list \<Rightarrow> 'w \<Rightarrow> bool \<Rightarrow> (string \<times> user) list \<Rightarrow> string list \<Rightarrow>
     ('w \<times> (string \<times> user) list \<times> bool) option" where
  "update_loop c roles w foundErr m [] = Some (w, m, foundErr)"
| "update_loop c roles w foundErr m (n # ns) =
     (case map_of m n of
        None \<Rightarrow> None
      | Some u \<Rightarrow>
          (case user_update c w u roles of
             None \<Rightarrow> None
           | Some (w1, u1, err) \<Rightarrow> update_loop c roles w1 (foundErr \<or> err \<noteq> None) (put n u1 m) ns))"

fun password_updates :: "'w db_client \<Rightarrow> 'w \<Rightarrow> bool \<Rightarrow> (string \<times> user) list \<Rightarrow> string list \<Rightarrow> ('w \<times> bool) option" where
  "password_updates c w foundErr m [] = Some (w, foundErr)"
| "password_updates c w foundErr m (n # ns) =
     (case map_of m n of
        None \<Rightarrow> None
      | Some u \<Rightarrow>
          (case updatePassword c w u of
             None \<Rightarrow> None
           | Some (w1, err) \<Rightarrow> password_updates c w1 (foundErr \<or> err \<noteq> None) m ns))"

definition update_users :: "'w db_client \<Rightarrow> 'w \<Rightarrow> string \<Rightarrow> User list \<Rightarrow> ('w \<times> go_error option) option" where
  "update_users c w pdbName userSpecs =
     (case users_diff c w (newUsers pdbName userSpecs) of
        None \<Rightarrow> None
      | Some (Inl err) \<Rightarrow> Some (w, Some (Errorf (''config_agent_helpers/UpdateUsers: failed to get difference between env and spec for users: '' @ err_msg err)))
      | Some (Inr (us, toCreate, toUpdate, _, toUpdatePwd)) \<Rightarrow>
          (case create_loop c w False (us_nameToUser us) toCreate of
             None \<Rightarrow> None
           | Some (w1, e1) \<Rightarrow>
               (case update_loop c (us_databaseRoles us) w1 e1 (us_nameToUser us) toUpdate of
                  None \<Rightarrow> None
                | Some (w2, m, e2) \<Rightarrow>
                    (case password_updates c w2 e2 m toUpdatePwd of
                       None \<Rightarrow> None
                     | Some (w3, e3) \<Rightarrow> Some (w3, if e3 then Some (Errorf ''failed to update users'') else None)))))"

text \<open>The two helpers with the client's construction, which may fail.\<close>

definition UsersChanged ::
    "go_error + 'w db_client \<Rightarrow> 'w \<Rightarrow> string \<Rightarrow> User list \<Rightarrow> (go_error + bool \<times> suppressed list) option" where
  "UsersChanged conn w pdbName userSpecs =
     (case conn of
        Inl err \<Rightarrow> Some (Inl err)
      | Inr c \<Rightarrow> users_changed c w pdbName userSpecs)"

definition UpdateUsers ::
    "go_error + 'w db_client \<Rightarrow> 'w \<Rightarrow> string \<Rightarrow> User list \<Rightarrow> ('w \<times> go_error option) option" where
  "UpdateUsers conn w pdbName userSpecs =
     (case conn of
        Inl err \<Rightarrow> Some (w, Some (Errorf (''config_agent_helpers/UpdateUsers: failed to create database daemon client: '' @ err_msg err)))
      | Inr c \<Rightarrow> update_users c w pdbName userSpecs)"

end
