(* ===== verification/Daemon.thy ===== *)
theory Daemon
  imports Users Instance
begin

text \<open>
  The helpers of \<open>oracle/controllers/config_agent_helpers.go\<close> that talk to the database daemon: pluggable
  databases and their users, parameters, restarts, status, provisioning, and the metadata of a backup.
  The daemon is a parameter: a record of its remote calls as functions of a state \<open>'w\<close>. A statement
  builder that panics makes the result \<open>None\<close>.
\<close>

record bounce_request =
  br_Startup :: bool
  br_DatabaseName :: string
  br_Option :: string
  br_AvoidConfigBackup :: bool

record listener_request =
  lr_DatabaseName :: string
  lr_Port :: int
  lr_Protocol :: string
  lr_OracleHome :: string
  lr_DbDomain :: string

text \<open>\<open>d_RunSQLPlusFormatted\<close> is the call for statements that change the database, \<open>d_range\<close> the order in which Go
  ranges over a row, and \<open>d_bootstrap_unseeded\<close> is the provisioning task for an unseeded image,
  which makes calls of its own. The file mode of the directories is always 0760.\<close>

record 'w daemon =
  d_client :: "'w db_client"
  d_RunSQLPlusFormatted :: "'w \<Rightarrow> string list \<Rightarrow> 'w \<times> (go_error + string list)"
  d_range :: "(string \<rightharpoonup> string) \<Rightarrow> (string \<times> string) list"
  d_CheckDatabaseState :: "'w \<Rightarrow> string \<Rightarrow> string \<Rightarrow> go_error option"
  d_CreateDirs :: "'w \<Rightarrow> string list \<Rightarrow> 'w \<times> go_error option"
  d_BounceDatabase :: "'w \<Rightarrow> bounce_request \<Rightarrow> 'w \<times> go_error option"
  d_RecoverConfigFile :: "'w \<Rightarrow> string \<Rightarrow> 'w \<times> go_error option"
  d_FileExists :: "'w \<Rightarrow> string \<Rightarrow> go_error + bool"
  d_CreateFile :: "'w \<Rightarrow> string \<Rightarrow> 'w \<times> go_error option"
  d_CreateListener :: "'w \<Rightarrow> listener_request \<Rightarrow> 'w \<times> go_error option"
  d_CreateCDBAsync :: "'w \<Rightarrow> CreateCDBRequest \<Rightarrow> 'w \<times> (go_error + Operation)"
  d_BootstrapDatabaseAsync :: "'w \<Rightarrow> string \<Rightarrow> string \<Rightarrow> string \<Rightarrow> 'w \<times> (go_error + Operation)"
  d_bootstrap_unseeded :: "'w \<Rightarrow> string \<Rightarrow> string \<Rightarrow> string \<Rightarrow> 'w \<times> go_error option"
  d_RunRMAN :: "'w \<Rightarrow> string list \<Rightarrow> 'w \<times> (go_error + string list)"

text \<open>\<open>GRPCDatabaseClientFactory.New\<close>: when the daemon's service cannot be read, the function that closes the
  connection is nil; when the daemon cannot be dialled, it does nothing.\<close>

datatype 'w conn = NoService go_error | NoDial go_error | Conn "'w daemon"

definition New :: "go_error + string \<Rightarrow> (string \<Rightarrow> go_error + 'w daemon) \<Rightarrow> 'w conn" where
  "New svc dial =
     (case svc of
        Inl err \<Rightarrow> NoService err
      | Inr clusterIP \<Rightarrow>
          (case dial (clusterIP @ '':3203'') of
             Inl err \<Rightarrow> NoDial err
           | Inr d \<Rightarrow> Conn d))"

definition opened :: "'w conn \<Rightarrow> go_error + 'w daemon" where
  "opened c = (case c of NoService err \<Rightarrow> Inl err | NoDial err \<Rightarrow> Inl err | Conn d \<Rightarrow> Inr d)"

abbreviation run_sql :: "'w daemon \<Rightarrow> 'w \<Rightarrow> string list \<Rightarrow> 'w \<times> go_error option" where
  "run_sql d \<equiv> dc_run (d_client d)"

abbreviation query_sql :: "'w daemon \<Rightarrow> 'w \<Rightarrow> string list \<Rightarrow> go_error + string list" where
  "query_sql d \<equiv> dc_query (d_client d)"

subsection \<open>Creating and restarting a container database\<close>

definition CreateCDB :: "'w conn \<Rightarrow> 'w \<Rightarrow> CreateCDBRequest \<Rightarrow> 'w \<times> (go_error + Operation)" where
  "CreateCDB conn w req =
     (case opened conn of
        Inl err \<Rightarrow> (w, Inl (Errorf (''config_agent_helpers/CreateCDB: failed to create database daemon dbdClient: '' @ err_msg err)))
      | Inr d \<Rightarrow>
          (case d_CreateCDBAsync d w req of
             (w1, Inl err) \<Rightarrow> (w1, Inl (Errorf (''config_agent_helpers/CreateCDB: failed to create CDB: '' @ err_msg err)))
           | (w1, Inr lro) \<Rightarrow> (w1, Inr lro)))"

definition BounceDatabase :: "'w conn \<Rightarrow> 'w \<Rightarrow> string \<Rightarrow> bool \<Rightarrow> 'w \<times> go_error option" where
  "BounceDatabase conn w sid avoidConfigBackup =
     (case opened conn of
        Inl err \<Rightarrow> (w, Some err)
      | Inr d \<Rightarrow>
          (case d_BounceDatabase d w \<lparr>br_Startup = False, br_DatabaseName = sid, br_Option = ''immediate'', br_AvoidConfigBackup = False\<rparr> of
             (w1, Some err) \<Rightarrow> (w1, Some (Errorf (''config_agent_helpers/BounceDatabase: error while shutting db: '' @ err_msg err)))
           | (w1, None) \<Rightarrow>
               (case d_BounceDatabase d w1 \<lparr>br_Startup = True, br_DatabaseName = sid, br_Option = [],
                                            br_AvoidConfigBackup = avoidConfigBackup\<rparr> of
                  (w2, Some err) \<Rightarrow> (w2, Some (Errorf (''config_agent_helpers/BounceDatabase: error while starting db: '' @ err_msg err)))
                | (w2, None) \<Rightarrow> (w2, None))))"

definition RecoverConfigFile :: "'w conn \<Rightarrow> 'w \<Rightarrow> string \<Rightarrow> 'w \<times> go_error option" where
  "RecoverConfigFile conn w cdbName =
     (case opened conn of
        Inl err \<Rightarrow> (w, Some err)
      | Inr d \<Rightarrow>
          (case d_RecoverConfigFile d w cdbName of
             (w1, Some err) \<Rightarrow> (w1, Some (Errorf (''config_agent_helpers/RecoverConfigFile: failed to recover config file due to: '' @ err_msg err)))
           | (w1, None) \<Rightarrow> (w1, None)))"

subsection \<open>Pluggable databases\<close>

text \<open>\<open>filepath.Join\<close> of a rooted path and an element: the joined path is cleaned of empty elements and dots.\<close>

fun split_slash :: "string \<Rightarrow> string list" where
  "split_slash [] = [[]]"
| "split_slash (c # s) =
     (if c = CHR ''/'' then [] # split_slash s
      else case split_slash s of [] \<Rightarrow> [[c]] | e # es \<Rightarrow> (c # e) # es)"

fun clean_elements :: "string list \<Rightarrow> string list \<Rightarrow> string list" where
  "clean_elements acc [] = rev acc"
| "clean_elements acc (e # es) =
     (if e = [] \<or> e = ''.'' then clean_elements acc es
      else if e = ''..'' then clean_elements (case acc of [] \<Rightarrow> [] | _ # acc' \<Rightarrow> acc') es
      else clean_elements (e # acc) es)"

definition filepath_Join :: "string \<Rightarrow> string \<Rightarrow> string" where
  "filepath_Join root elem =
     (case clean_elements [] (split_slash (root @ ''/'' @ elem)) of
        [] \<Rightarrow> ''/''
      | es \<Rightarrow> concat (map (\<lambda>e. ''/'' @ e) es))"

record pdb =
  containerDatabaseName :: string
  dataFilesDir :: string
  defaultTablespace :: string
  defaultTablespaceDatafile :: string
  fileConvertFrom :: string
  fileConvertTo :: string
  hostName :: string
  listenerDir :: string
  pathPrefix :: string
  pluggableAdminPasswd :: string
  pluggableDatabaseName :: string
  skipUserCheck :: bool
  pdb_version :: string

definition DataDir :: "string \<Rightarrow> string" where
  "DataDir cdbName = ''/u02/app/oracle/oradata/'' @ cdbName"

definition PDBDataDir :: "string \<Rightarrow> string \<Rightarrow> string" where
  "PDBDataDir cdbName pdbName = DataDir cdbName @ ''/'' @ pdbName @ ''/data''"

definition buildPDB :: "go_error + string \<Rightarrow> string \<Rightarrow> string \<Rightarrow> string \<Rightarrow> string \<Rightarrow> bool \<Rightarrow> go_error + pdb" where
  "buildPDB hostname cdbName name pdbAdminPass version skip =
     (let pdbName = ToUpper name in
      case hostname of
        Inl err \<Rightarrow> Inl err
      | Inr host \<Rightarrow> Inr
          \<lparr>containerDatabaseName = cdbName, dataFilesDir = PDBDataDir cdbName pdbName,
           defaultTablespace = pdbName @ ''_USERS'',
           defaultTablespaceDatafile = PDBDataDir cdbName pdbName @ ''/'' @ ToLower pdbName @ ''_users.dbf'',
           fileConvertFrom = DataDir cdbName @ ''/pdbseed'', fileConvertTo = PDBDataDir cdbName pdbName,
           hostName = host, listenerDir = ''/u02/app/oracle/oraconfig/network'',
           pathPrefix = DataDir cdbName @ ''/'' @ pdbName, pluggableAdminPasswd = pdbAdminPass,
           pluggableDatabaseName = pdbName, skipUserCheck = skip, pdb_version = version\<rparr>)"

record CreateDatabaseRequest =
  cdr_CdbName :: string
  cdr_Name :: string
  cdr_Password :: string
  cdr_DbDomain :: string
  cdr_AdminPasswordGsmSecretRef :: "GsmSecretReference option"
  cdr_LastPassword :: string

definition pdb_check_sql :: "string \<Rightarrow> string" where
  "pdb_check_sql name = ''select open_mode, restricted from v$pdbs where name = '' @ quoted name"

definition update_plaintext :: "CreateDatabaseRequest \<Rightarrow> bool" where
  "update_plaintext req = (cdr_Password req \<noteq> [] \<and> cdr_Password req \<noteq> cdr_LastPassword req)"

definition update_gsm_admin :: "CreateDatabaseRequest \<Rightarrow> bool" where
  "update_gsm_admin req =
     (case cdr_AdminPasswordGsmSecretRef req of
        None \<Rightarrow> False
      | Some r \<Rightarrow> gsm_Version r \<noteq> gsm_LastVersion r \<or> gsm_Version r = ''latest'')"

definition gsm_name :: "GsmSecretReference \<Rightarrow> string" where
  "gsm_name r = ''projects/'' @ gsm_ProjectId r @ ''/secrets/'' @ gsm_SecretId r @ ''/versions/'' @ gsm_Version r"

text \<open>The password: of the specification, or from the secret manager.\<close>

definition admin_password :: "(string \<Rightarrow> go_error + string) \<Rightarrow> CreateDatabaseRequest \<Rightarrow> go_error + string" where
  "admin_password secret req =
     (let pwd = (if update_plaintext req then cdr_Password req else []) in
      case cdr_AdminPasswordGsmSecretRef req of
        Some r \<Rightarrow>
          if update_gsm_admin req then
            (case secret (gsm_name r) of
               Inl err \<Rightarrow> Inl (Errorf (''config_agent_helpers/CreateDatabase: failed to retrieve secret from Google Secret Manager: '' @ err_msg err))
             | Inr s \<Rightarrow> Inr s)
          else Inr pwd
      | None \<Rightarrow> Inr pwd)"

text \<open>A list of statements is run; the error is wrapped in a text.\<close>

definition run_all ::
    "'w daemon \<Rightarrow> 'w \<Rightarrow> string option list \<Rightarrow> string \<Rightarrow> ('w \<times> go_error option) option" where
  "run_all d w cmds what =
     map_option (\<lambda>sqls. case run_sql d w sqls of
                    (w1, None) \<Rightarrow> (w1, None)
                  | (w1, Some err) \<Rightarrow> (w1, Some (Errorf (what @ '': '' @ err_msg err)))) (all_some cmds)"

definition open_pdb_statements :: "string \<Rightarrow> string option list" where
  "open_pdb_statements name =
     [map_option (\<lambda>n. ''alter pluggable database '' @ n @ '' open read write'') (MustBeObjectName name),
      map_option (\<lambda>n. ''alter pluggable database '' @ n @ '' save state'') (MustBeObjectName name)]"

definition loader_privileges :: string where
  "loader_privileges =
     ''create session, resource, datapump_imp_full_database, datapump_exp_full_database, unlimited tablespace''"

abbreviation PDBLoaderUser :: string where "PDBLoaderUser \<equiv> ''gcsql$pdbloader''"
abbreviation DpdumpOracle :: string where "DpdumpOracle \<equiv> ''PDB_DATA_PUMP_DIR''"

definition create_dirs :: "string \<Rightarrow> string \<Rightarrow> string list" where
  "create_dirs cdbName name =
     (let pdbDir = filepath_Join (DataDir cdbName) (ToUpper name) in
      [pdbDir @ ''/data'', pdbDir @ ''/dmp'', ''/u02/app/oracle/rman''])"

text \<open>Errors of the last two groups of statements are only logged.\<close>

definition create_pdb :: "'w daemon \<Rightarrow> 'w \<Rightarrow> CreateDatabaseRequest \<Rightarrow> pdb \<Rightarrow> ('w \<times> (go_error + string)) option" where
  "create_pdb d w req p =
     (let name = pluggableDatabaseName p in
      case d_CreateDirs d w (create_dirs (cdr_CdbName req) (cdr_Name req)) of
        (w1, Some err) \<Rightarrow> Some (w1, Inl (Errorf (''failed to create PDB dirs: '' @ err_msg err)))
      | (w1, None) \<Rightarrow>
      (case run_all d w1 [QueryCreatePDB name pdbAdmin (pluggableAdminPasswd p) (dataFilesDir p) (defaultTablespace p)
                            (defaultTablespaceDatafile p) (fileConvertFrom p) (fileConvertTo p)]
              (''config_agent_helpers/CreateDatabase: failed to create a PDB '' @ name) of
         None \<Rightarrow> None
       | Some (w2, Some err) \<Rightarrow> Some (w2, Inl err)
       | Some (w2, None) \<Rightarrow>
      (case run_all d w2 (open_pdb_statements name) (''config_agent_helpers/CreatePDBDatabase: PDB '' @ name @ '' open failed'') of
         None \<Rightarrow> None
       | Some (w3, Some err) \<Rightarrow> Some (w3, Inl err)
       | Some (w3, None) \<Rightarrow>
      (case run_all d w3 [QuerySetSessionContainer name, QueryGrantPrivileges ''create session, dba'' pdbAdmin,
                          QueryGrantPrivileges loader_privileges PDBLoaderUser] [] of
         None \<Rightarrow> None
       | Some (w4, _) \<Rightarrow>
      (case run_all d w4 [QuerySetSessionContainer name,
                          QueryCreateDir DpdumpOracle (filepath_Join (pathPrefix p) ''dmp''),
                          QueryGrantPrivileges (''read,write on directory '' @ DpdumpOracle) PDBLoaderUser] [] of
         None \<Rightarrow> None
       | Some (w5, _) \<Rightarrow> Some (w5, Inr ''Ready''))))))"

definition CreateDatabase ::
    "'w conn \<Rightarrow> go_error + string \<Rightarrow> (string \<Rightarrow> go_error + string) \<Rightarrow> 'w \<Rightarrow> CreateDatabaseRequest \<Rightarrow>
     ('w \<times> (go_error + string)) option" where
  "CreateDatabase conn hostname secret w req =
     (case admin_password secret req of
        Inl err \<Rightarrow> Some (w, Inl err)
      | Inr pwd \<Rightarrow>
      (case buildPDB hostname (cdr_CdbName req) (cdr_Name req) pwd ''12.2'' True of
         Inl err \<Rightarrow> Some (w, Inl err)
       | Inr p \<Rightarrow>
      (case opened conn of
         Inl err \<Rightarrow> Some (w, Inl (Errorf (''config_agent_helpers/CreateDatabase: failed to create database daemon dbdClient: '' @ err_msg err)))
       | Inr d \<Rightarrow>
      (case d_CheckDatabaseState d w (cdr_CdbName req) (cdr_DbDomain req) of
         Some err \<Rightarrow> Some (w, Inl (Errorf (''config_agent_helpers/CreateDatabase: failed to check a CDB state: '' @ err_msg err)))
       | None \<Rightarrow>
      (case query_sql d w [pdb_check_sql (pluggableDatabaseName p)] of
         Inl err \<Rightarrow> Some (w, Inl (Errorf (''config_agent_helpers/CreateDatabase: failed to check if a PDB called '' @
                      pluggableDatabaseName p @ '' already exists: '' @ err_msg err)))
       | Inr msgs \<Rightarrow>
           if msgs \<noteq> [] then
             if update_gsm_admin req \<or> update_plaintext req then
               (case run_all d w [QuerySetSessionContainer (pluggableDatabaseName p), QueryAlterUser pdbAdmin pwd]
                       (''failed to alter user '' @ pdbAdmin) of
                  None \<Rightarrow> None
                | Some (w1, Some err) \<Rightarrow> Some (w1, Inl err)
                | Some (w1, None) \<Rightarrow> Some (w1, Inr ''AdminUserSyncCompleted''))
             else Some (w, Inr ''AlreadyExists'')
           else create_pdb d w req p)))))"

text \<open>The name is put into the statements that close and drop the database by \<open>StringParam\<close>, without quotes.\<close>

definition close_pdb_sql :: "string \<Rightarrow> string" where
  "close_pdb_sql name = ''alter pluggable database '' @ StringParam name @ '' close immediate''"

definition drop_pdb_sql :: "string \<Rightarrow> string" where
  "drop_pdb_sql name = ''drop pluggable database '' @ StringParam name @ '' including datafiles''"

definition DeleteDatabase :: "'w conn \<Rightarrow> 'w \<Rightarrow> string \<Rightarrow> 'w \<times> go_error option" where
  "DeleteDatabase conn w name =
     (case opened conn of
        Inl err \<Rightarrow> (w, Some (Errorf (''config_agent_helpers/CreateDatabase: failed to create database daemon dbdClient: '' @ err_msg err)))
      | Inr d \<Rightarrow>
          (let pdbName = ToUpper name in
           case query_sql d w [pdb_check_sql pdbName] of
             Inl err \<Rightarrow> (w, Some (Errorf (''config_agent_helpers/DeleteDatabase: failed to check if a PDB named '' @ pdbName @
                                           '' already exists: '' @ err_msg err)))
           | Inr msgs \<Rightarrow>
               if msgs = [] then (w, None)
               else
                 (case d_RunSQLPlusFormatted d w [close_pdb_sql pdbName] of
                    (w1, Inl err) \<Rightarrow> (w1, Some (Errorf (''config_agent_helpers/DeleteDatabase: failed to close the PDB named '' @
                                                       pdbName @ '': '' @ err_msg err)))
                  | (w1, Inr _) \<Rightarrow>
                      (case d_RunSQLPlusFormatted d w1 [drop_pdb_sql pdbName] of
                         (w2, Inl err) \<Rightarrow> (w2, Some (Errorf (''config_agent_helpers/DeleteDatabase: failed to delete the PDB named '' @
                                                       pdbName @ '': '' @ err_msg err)))
                       | (w2, Inr _) \<Rightarrow> (w2, None)))))"

subsection \<open>Users of a new database\<close>

record CreateUsersRequest =
  cur_CdbName :: string
  cur_PdbName :: string
  cur_CreateUsersCmd :: "string list"
  cur_GrantPrivsCmd :: "string list"
  cur_DbDomain :: string
  cur_User :: "User list"

text \<open>The statements for the users with a secret, in order.\<close>

fun secret_users :: "(string \<Rightarrow> go_error + string) \<Rightarrow> User list \<Rightarrow> (go_error + string list) option" where
  "secret_users secret [] = Some (Inr [])"
| "secret_users secret (u # us) =
     (case u_PasswordGsmSecretRef u of
        Some r \<Rightarrow>
          if u_Name u = [] then secret_users secret us
          else
            (case secret (gsm_name r) of
               Inl err \<Rightarrow> Some (Inl (Errorf (''config_agent_helpers/CreateUsers: failed to retrieve secret from Google Secret Manager: '' @ err_msg err)))
             | Inr pwd \<Rightarrow>
                 (case Identifier pwd of
                    Inl err \<Rightarrow> Some (Inl (Errorf (''config_agent_helpers/CreateUsers: Google Secret Manager contains an invalid password for user '' @
                                 u_Name u @ '': '' @ err_msg err)))
                  | Inr _ \<Rightarrow>
                      (case QueryCreateUser (u_Name u) pwd of
                         None \<Rightarrow> None
                       | Some sql \<Rightarrow> map_option (map_sum id ((#) sql)) (secret_users secret us))))
      | None \<Rightarrow> secret_users secret us)"

definition CreateUsers ::
    "'w conn \<Rightarrow> go_error + string \<Rightarrow> (string \<Rightarrow> go_error + string) \<Rightarrow> 'w \<Rightarrow> CreateUsersRequest \<Rightarrow>
     ('w \<times> (go_error + string)) option" where
  "CreateUsers conn hostname secret w req =
     (case buildPDB hostname (cur_CdbName req) (cur_PdbName req) [] ''12.2'' True of
        Inl err \<Rightarrow> Some (w, Inl err)
      | Inr p \<Rightarrow>
      (case opened conn of
         Inl err \<Rightarrow> Some (w, Inl (Errorf (''config_agent_helpers/CreateUsers: failed to create database daemon client: '' @ err_msg err)))
       | Inr d \<Rightarrow>
      (case d_CheckDatabaseState d w (cur_CdbName req) (cur_DbDomain req) of
         Some err \<Rightarrow> Some (w, Inl (Errorf (''config_agent_helpers/CreateUsers: failed to check a CDB state: '' @ err_msg err)))
       | None \<Rightarrow>
      (case QuerySetSessionContainer (pluggableDatabaseName p) of
         None \<Rightarrow> None
       | Some setc \<Rightarrow>
      (case secret_users secret (cur_User req) of
         None \<Rightarrow> None
       | Some (Inl err) \<Rightarrow> Some (w, Inl err)
       | Some (Inr secretCmds) \<Rightarrow>
      (case run_sql d w (setc # cur_CreateUsersCmd req @ secretCmds) of
         (w1, Some err) \<Rightarrow> Some (w1, Inl (Errorf (''config_agent_helpers/CreateUsers: failed to create users in a PDB '' @
                               pluggableDatabaseName p @ '': '' @ err_msg err)))
       | (w1, None) \<Rightarrow>
      (case run_sql d w1 (setc # cur_GrantPrivsCmd req) of
         (w2, Some err) \<Rightarrow> Some (w2, Inl (Errorf (''config_agent_helpers/CreateUsers: failed to grant privileges in a PDB '' @
                               pluggableDatabaseName p @ '': '' @ err_msg err)))
       | (w2, None) \<Rightarrow> Some (w2, Inr ''Ready''))))))))"

subsection \<open>Parameters\<close>

text \<open>The values of rows with a single column.\<close>

fun single_values :: "'w daemon \<Rightarrow> (string \<rightharpoonup> string) list \<Rightarrow> go_error + string list" where
  "single_values d [] = Inr []"
| "single_values d (row # rows) =
     (case d_range d row of
        [(k, v)] \<Rightarrow>
          (case single_values d rows of
             Inl err \<Rightarrow> Inl err
           | Inr vs \<Rightarrow> Inr (v # vs))
      | _ \<Rightarrow> Inl (Errorf ''config_agent_helpers/fetchAndParseSingleColumnMultiRowQueriesFromEM: # of cols returned by query != 1''))"

definition fetchAndParseSingleResultQuery :: "'w daemon \<Rightarrow> 'w \<Rightarrow> string \<Rightarrow> go_error + string" where
  "fetchAndParseSingleResultQuery d w query =
     (case query_sql d w [query] of
        Inl err \<Rightarrow> Inl (Errorf (''failed to run query '' @ query @ ''; error: '' @ err_msg err))
      | Inr resp \<Rightarrow>
          (case parseSQLResponse (d_client d) resp of
             Inl err \<Rightarrow> Inl (Errorf (''error while parsing query response: '' @ query @ ''; error: '' @ err_msg err))
           | Inr result \<Rightarrow>
               (case single_values d result of
                  Inl err \<Rightarrow> Inl err
                | Inr rows \<Rightarrow> Inr (case rows of [] \<Rightarrow> [] | v # _ \<Rightarrow> v))))"

definition param_sql :: "string \<Rightarrow> string \<Rightarrow> string" where
  "param_sql column key = ''select '' @ column @ '' from v$parameter where name='' @ quoted key"

definition overrideParamTypeStatic :: "string \<Rightarrow> bool" where
  "overrideParamTypeStatic key = (key = ''sga_target'')"

definition set_command :: "string \<Rightarrow> string \<Rightarrow> string \<Rightarrow> string" where
  "set_command key paramType command =
     (let command1 = (if paramType = ''FALSE'' \<or> overrideParamTypeStatic key then command @ '' scope=spfile'' else command)
      in if paramType = ''DEFERRED'' then command1 @ '' deferred'' else command1)"

definition SetParameter :: "'w conn \<Rightarrow> 'w \<Rightarrow> string \<Rightarrow> string \<Rightarrow> 'w \<times> (go_error + bool)" where
  "SetParameter conn w key v =
     (case opened conn of
        Inl err \<Rightarrow> (w, Inl err)
      | Inr d \<Rightarrow>
      (case fetchAndParseSingleResultQuery d w (param_sql ''issys_modifiable'' key) of
         Inl err \<Rightarrow> (w, Inl (Errorf (''config_agent_helpers/SetParameter: error while inferring parameter type: '' @ err_msg err)))
       | Inr paramType \<Rightarrow>
      (case fetchAndParseSingleResultQuery d w (param_sql ''type'' key) of
         Inl err \<Rightarrow> (w, Inl (Errorf (''config_agent_helpers/SetParameter: error while inferring parameter data type: '' @ err_msg err)))
       | Inr paramDatatype \<Rightarrow>
      (case QuerySetSystemParameterNoPanic key v (paramDatatype = ''2'') of
         Inl err \<Rightarrow> (w, Inl (Errorf (''config_agent_helpers/SetParameter: error constructing set parameter query: '' @ err_msg err)))
       | Inr command \<Rightarrow>
      (case run_sql d w [set_command key paramType command] of
         (w1, Some err) \<Rightarrow> (w1, Inl (Errorf (''config_agent_helpers/SetParameter: error while executing parameter command: '' @
                              set_command key paramType command)))
       | (w1, None) \<Rightarrow> (w1, Inr (paramType = ''FALSE'' \<or> overrideParamTypeStatic key)))))))"

fun fetch_column :: "'w daemon \<Rightarrow> 'w \<Rightarrow> string \<Rightarrow> string \<Rightarrow> string list \<Rightarrow> go_error + string list" where
  "fetch_column d w column what [] = Inr []"
| "fetch_column d w column what (key # keys) =
     (case fetchAndParseSingleResultQuery d w (param_sql column key) of
        Inl err \<Rightarrow> Inl (Errorf (''config_agent_helpers/GetParameterTypeValue: error while fetching '' @ what @ '' for '' @ key @ '': '' @ err_msg err))
      | Inr v \<Rightarrow>
          (case fetch_column d w column what keys of
             Inl err \<Rightarrow> Inl err
           | Inr vs \<Rightarrow> Inr (v # vs)))"

definition GetParameterTypeValue :: "'w conn \<Rightarrow> 'w \<Rightarrow> string list \<Rightarrow> go_error + string list \<times> string list" where
  "GetParameterTypeValue conn w keys =
     (case opened conn of
        Inl err \<Rightarrow> Inl (Errorf (''config_agent_helpers/GetParameterTypeValue: failed to create database daemon client: '' @ err_msg err))
      | Inr d \<Rightarrow>
          (case fetch_column d w ''issys_modifiable'' ''type'' keys of
             Inl err \<Rightarrow> Inl err
           | Inr types \<Rightarrow>
               (case fetch_column d w ''value'' ''value'' keys of
                  Inl err \<Rightarrow> Inl err
                | Inr vals \<Rightarrow> Inr (types, vals))))"

subsection \<open>Status and provisioning\<close>

abbreviation ProvisioningDoneFile :: string where
  "ProvisioningDoneFile \<equiv> ''/u02/app/oracle/provisioning_successful''"

abbreviation SecureListenerPort :: int where "SecureListenerPort \<equiv> 6021"

text \<open>The type of check is \<open>True\<close> for the check of an instance, the only one supported.\<close>

definition CheckStatus :: "'w conn \<Rightarrow> 'w \<Rightarrow> bool \<Rightarrow> string \<Rightarrow> string \<Rightarrow> go_error + string" where
  "CheckStatus conn w instance_check cdbName dbDomain =
     (if \<not> instance_check then Inl (Errorf ''config_agent_helpers/CheckStatus: unsupported in this release check status type'')
      else case opened conn of
        Inl err \<Rightarrow> Inl (Errorf (''config_agent_helpers/CheckStatus: failed to create database daemon client: '' @ err_msg err))
      | Inr d \<Rightarrow>
      (case d_FileExists d w ProvisioningDoneFile of
         Inl err \<Rightarrow> Inl (Errorf (''config_agent_helpers/CheckStatus: failed to check a provisioning file: '' @ err_msg err))
       | Inr False \<Rightarrow> Inr ''InProgress''
       | Inr True \<Rightarrow>
      (case d_CheckDatabaseState d w cdbName dbDomain of
         Some err \<Rightarrow> Inl (Errorf (''config_agent_helpers/CheckStatus: failed to check a Database Instance state: '' @ err_msg err))
       | None \<Rightarrow>
      (case query_sql d w [''select open_mode, restricted from v$pdbs''] of
         Inl err \<Rightarrow> Inl (Errorf (''config_agent_helpers/CheckStatus: failed to get a list of available PDBs: '' @ err_msg err))
       | Inr _ \<Rightarrow> Inr ''Ready''))))"

definition CheckStatusInstanceFunc :: "'w conn \<Rightarrow> 'w \<Rightarrow> string \<Rightarrow> string \<Rightarrow> go_error + string" where
  "CheckStatusInstanceFunc conn w cdbName dbDomain =
     (case CheckStatus conn w True cdbName dbDomain of
        Inl err \<Rightarrow> Inl (Errorf (''resource/checkStatusInstance: failed on CheckStatus call: '' @ err_msg err))
      | Inr status \<Rightarrow> Inr status)"

definition CreateListener :: "'w conn \<Rightarrow> 'w \<Rightarrow> listener_request \<Rightarrow> 'w \<times> go_error option" where
  "CreateListener conn w req =
     (case opened conn of
        Inl err \<Rightarrow> (w, Some (Errorf (''config_agent_helpers/CreateListener: failed to create listener: '' @ err_msg err)))
      | Inr d \<Rightarrow>
          (case d_CreateListener d w req of
             (w1, Some err) \<Rightarrow> (w1, Some (Errorf (''config_agent_helpers/CreateListener: error while creating listener: '' @ err_msg err)))
           | (w1, None) \<Rightarrow> (w1, None)))"

datatype bootstrap_mode = ProvisionUnseeded | ProvisionSeeded | RestoreMode

definition done_operation :: Operation where
  "done_operation = \<lparr>op_Name = [], op_Done = True, op_Result = NoResult\<rparr>"

text \<open>The end of \<open>BootstrapDatabase\<close>, for all modes but the seeded one: the listener, then the file that marks the
  end of provisioning.\<close>

definition finish_bootstrap :: "'w daemon \<Rightarrow> 'w \<Rightarrow> string \<Rightarrow> string \<Rightarrow> 'w \<times> (go_error + Operation)" where
  "finish_bootstrap d w cdbName dbdomain =
     (case d_CreateListener d w \<lparr>lr_DatabaseName = cdbName, lr_Port = SecureListenerPort, lr_Protocol = ''TCP'',
                                  lr_OracleHome = [], lr_DbDomain = dbdomain\<rparr> of
        (w1, Some err) \<Rightarrow> (w1, Inl (Errorf (''config_agent_helpers/BootstrapDatabase: error while creating listener: '' @ err_msg err)))
      | (w1, None) \<Rightarrow>
          (case d_CreateFile d w1 ProvisioningDoneFile of
             (w2, Some err) \<Rightarrow> (w2, Inl (Errorf (''config_agent_helpers/BootstrapDatabase: error while creating provisioning done file: '' @ err_msg err)))
           | (w2, None) \<Rightarrow> (w2, Inr done_operation)))"

definition BootstrapDatabase ::
    "'w conn \<Rightarrow> 'w \<Rightarrow> string \<Rightarrow> string \<Rightarrow> string \<Rightarrow> bootstrap_mode \<Rightarrow> string \<Rightarrow> 'w \<times> (go_error + Operation)" where
  "BootstrapDatabase conn w cdbName dbUniqueName dbdomain mode operationId =
     (case opened conn of
        Inl err \<Rightarrow> (w, Inl (Errorf (''config_agent_helpers/BootstrapDatabase: failed to create database daemon client: '' @ err_msg err)))
      | Inr d \<Rightarrow>
      (case d_FileExists d w ProvisioningDoneFile of
         Inl err \<Rightarrow> (w, Inl (Errorf (''config_agent_helpers/BootstrapDatabase: failed to check a provisioning file: '' @ err_msg err)))
       | Inr True \<Rightarrow> (w, Inr done_operation)
       | Inr False \<Rightarrow>
      (case mode of
         ProvisionUnseeded \<Rightarrow>
           (case d_bootstrap_unseeded d w cdbName dbUniqueName dbdomain of
              (w1, Some err) \<Rightarrow> (w1, Inl (Errorf (''config_agent_helpers/BootstrapDatabase: failed to bootstrap database : '' @ err_msg err)))
            | (w1, None) \<Rightarrow> finish_bootstrap d w1 cdbName dbdomain)
       | ProvisionSeeded \<Rightarrow>
           (case d_BootstrapDatabaseAsync d w cdbName dbdomain operationId of
              (w1, Inl err) \<Rightarrow> (w1, Inl (Errorf (''config_agent_helpers/BootstrapDatabase: error while call dbdaemon/BootstrapDatabase: '' @ err_msg err)))
            | (w1, Inr lro) \<Rightarrow> (w1, Inr lro))
       | RestoreMode \<Rightarrow> finish_bootstrap d w cdbName dbdomain)))"

subsection \<open>The metadata of a backup\<close>

text \<open>The function that closes the connection is called on return also when it is nil: a panic.\<close>

definition FetchDatabaseIncarnation :: "'w conn \<Rightarrow> 'w \<Rightarrow> (go_error + string) option" where
  "FetchDatabaseIncarnation conn w =
     (case conn of
        NoService err \<Rightarrow> None
      | NoDial err \<Rightarrow> Some (Inl (Errorf (''config_agent_helpers/FetchDatabaseIncarnation: failed to create database daemon client: '' @ err_msg err)))
      | Conn d \<Rightarrow> Some
          (case fetchAndParseSingleResultQuery d w (''select incarnation# from v$database_incarnation where status='' @ quoted ''CURRENT'') of
             Inl err \<Rightarrow> Inl (Errorf (''config_agent_helpers/FetchDatabaseIncarnation: failed to query database incarnation: '' @ err_msg err))
           | Inr inc \<Rightarrow> Inr inc))"

text \<open>\<open>bufio.ScanLines\<close>: lines end with a newline, a carriage return before it is dropped, and a last line
  without a newline counts unless it is empty. Lines over 64 KB are not modelled.\<close>

definition drop_cr :: "string \<Rightarrow> string" where
  "drop_cr s = (if s \<noteq> [] \<and> last s = CHR 0x0D then butlast s else s)"

fun scan_lines :: "string \<Rightarrow> string \<Rightarrow> string list" where
  "scan_lines cur [] = (if cur = [] then [] else [drop_cr (rev cur)])"
| "scan_lines cur (c # s) = (if c = CHR 0x0A then drop_cr (rev cur) # scan_lines [] s else scan_lines (c # cur) s)"

text \<open>\<open>strings.Fields\<close> on ASCII text.\<close>

definition is_space :: "char \<Rightarrow> bool" where
  "is_space c = (c \<in> {CHR 0x09, CHR 0x0A, CHR 0x0B, CHR 0x0C, CHR 0x0D, CHR '' ''})"

fun fields_from :: "string \<Rightarrow> string \<Rightarrow> string list" where
  "fields_from cur [] = (if cur = [] then [] else [rev cur])"
| "fields_from cur (c # s) =
     (if is_space c then (if cur = [] then fields_from [] s else rev cur # fields_from [] s) else fields_from (c # cur) s)"

definition Fields :: "string \<Rightarrow> string list" where
  "Fields s = fields_from [] s"

text \<open>The loop over the lines, with the last two lines before the current one: the largest \<open>Next SCN\<close> so far.\<close>

fun scn_loop :: "string \<Rightarrow> string \<Rightarrow> int \<Rightarrow> string list \<Rightarrow> go_error + int" where
  "scn_loop b1 b2 maxSCN [] = Inr maxSCN"
| "scn_loop b1 b2 maxSCN (line # lines) =
     (if Contains_str b1 ''Next SCN'' then
        (if length (Fields line) \<noteq> 6
         then Inl (Errorf (''config_agent_helpers/PhysicalBackupMetadata: unexpected number of fields: '' @ line))
         else case ParseInt (Fields line ! 4) of
           Inl err \<Rightarrow> Inl (Errorf (''config_agent_helpers/PhysicalBackupMetadata: failed to parse Next SCN '' @ Fields line ! 2 @ '': '' @ err_msg err))
         | Inr currentSCN \<Rightarrow> scn_loop b2 line (if currentSCN > maxSCN then currentSCN else maxSCN) lines)
      else scn_loop b2 line maxSCN lines)"

record PhysicalBackupMetadataResponse =
  pbm_BackupScn :: string
  pbm_BackupIncarnation :: string
  pbm_BackupTimestamp :: go_time

definition list_backup_script :: "string \<Rightarrow> string" where
  "list_backup_script tag = ''list backup of archivelog all tag '' @ [squote] @ tag @ [squote] @ '';''"

definition scn_time_sql :: "int \<Rightarrow> string" where
  "scn_time_sql scn =
     ''select to_char(scn_to_timestamp('' @ itoa scn @ '') at time zone '' @ quoted ''UTC'' @ '', '' @
     quoted (''YYYY-MM-DD'' @ [dquote] @ ''T'' @ [dquote] @ ''HH24:MI:SS'' @ [dquote] @ ''Z'' @ [dquote]) @
     '') as backuptime from dual''"

text \<open>A response \<open>None\<close> inside is the nil response without an error.\<close>

definition backup_times ::
    "'w conn \<Rightarrow> 'w daemon \<Rightarrow> 'w \<Rightarrow> int \<Rightarrow> (go_error + PhysicalBackupMetadataResponse option) option" where
  "backup_times conn d w maxSCN =
     (case fetchAndParseSingleResultQuery d w (scn_time_sql maxSCN) of
        Inl err \<Rightarrow> Some (Inl (Errorf (''config_agent_helpers/PhysicalBackupMetadata: failed to query backup time: '' @ err_msg err)))
      | Inr text \<Rightarrow>
          if text = [] then Some (Inr None)
          else
            (case Parse_RFC3339 text of
               Inl err \<Rightarrow> Some (Inl (Errorf (''config_agent_helpers/PhysicalBackupMetadata: failed to parse backup time: '' @ err_msg err)))
             | Inr backupTime \<Rightarrow>
                 (case FetchDatabaseIncarnation conn w of
                    None \<Rightarrow> None
                  | Some (Inl err) \<Rightarrow> Some (Inl (Errorf (''config_agent_helpers/PhysicalBackupMetadata: failed to query database incarnation: '' @ err_msg err)))
                  | Some (Inr inc) \<Rightarrow>
                      Some (Inr (Some \<lparr>pbm_BackupScn = itoa maxSCN, pbm_BackupIncarnation = inc,
                                       pbm_BackupTimestamp = backupTime\<rparr>)))))"

definition PhysicalBackupMetadata ::
    "'w conn \<Rightarrow> 'w \<Rightarrow> string \<Rightarrow> 'w \<times> (go_error + PhysicalBackupMetadataResponse option) option" where
  "PhysicalBackupMetadata conn w backupTag =
     (case opened conn of
        Inl err \<Rightarrow> (w, Some (Inl (Errorf (''config_agent_helpers/PhysicalBackupMetadata: failed to create database daemon client: '' @ err_msg err))))
      | Inr d \<Rightarrow>
      (case d_RunRMAN d w [list_backup_script backupTag] of
         (w1, Inl err) \<Rightarrow> (w1, Some (Inl (Errorf (''config_agent_helpers/PhysicalBackupMetadata: failed to list backup of archivelog: '' @ err_msg err))))
       | (w1, Inr []) \<Rightarrow> (w1, None)
       | (w1, Inr (out # _)) \<Rightarrow>
      (case scn_loop [] [] (-1) (scan_lines [] out) of
         Inl err \<Rightarrow> (w1, Some (Inl err))
       | Inr maxSCN \<Rightarrow>
           if maxSCN < 0 then (w1, Some (Inl (Errorf ''config_agent_helpers/PhysicalBackupMetadata: failed to find backup scn'')))
           else (w1, backup_times conn d w1 maxSCN))))"

end
