(* ===== verification/Database.thy ===== *)
theory Database
  imports Daemon Resources
begin

text \<open>
  \<open>oracle/controllers/databasecontroller\<close>: the controller of pluggable databases (\<open>database_controller.go\<close>) and
  the work it does in the database (\<open>database_resources.go\<close>). The world \<open>'w\<close> holds the API server and the
  database; the environment is a record of the calls on it. A panic is \<open>None\<close>.
\<close>

record GsmRef =
  gr_ProjectId :: string
  gr_SecretId :: string
  gr_Version :: string

record UserSpec =
  usp_Name :: string
  usp_Password :: string
  usp_GsmSecretRef :: "GsmRef option"
  usp_Privileges :: "string list"

record DatabaseSpec =
  dbs_Instance :: string
  dbs_Name :: string
  dbs_AdminPassword :: string
  dbs_AdminPasswordGsmSecretRef :: "GsmRef option"
  dbs_Users :: "UserSpec list"

record DatabaseStatus =
  dst_Phase :: string
  dst_Conditions :: "Condition list"
  dst_UserNames :: "string list"
  dst_UserResourceVersions :: gomap
  dst_ObservedGeneration :: int
  dst_IsChangeApplied :: "ConditionStatus option"

record Database =
  db_Name :: string
  db_Namespace :: string
  db_Generation :: int
  db_DeletionTimestamp :: "go_time option"
  db_Finalizers :: "string list"
  db_Spec :: DatabaseSpec
  db_Status :: DatabaseStatus

text \<open>The instance with the fields this controller uses beside those of \<open>Instance\<close>.\<close>

record DbInstance = Instance +
  di_IsStopped :: "bool option"
  di_DatabaseNames :: "string list"

text \<open>A pod is the list of the names of its containers; the load balancer is the list of its ingress points.\<close>

record 'w db_env =
  de_GetDatabase :: "'w \<Rightarrow> go_error + Database"
  de_GetInstance :: "'w \<Rightarrow> string \<Rightarrow> go_error + DbInstance"
  de_ListPods :: "'w \<Rightarrow> string \<Rightarrow> go_error + string list list"
  de_GetService :: "'w \<Rightarrow> string \<Rightarrow> go_error + string list"
  de_Update :: "'w \<Rightarrow> Database \<Rightarrow> 'w \<times> (go_error + Database)"
  de_StatusUpdate :: "'w \<Rightarrow> Database \<Rightarrow> 'w \<times> go_error option"
  de_InstanceStatusUpdate :: "'w \<Rightarrow> DbInstance \<Rightarrow> 'w \<times> go_error option"
  de_Event :: "'w \<Rightarrow> inst_event \<Rightarrow> string \<Rightarrow> string \<Rightarrow> 'w"
  de_now :: "'w \<Rightarrow> go_time"
  de_New :: "'w \<Rightarrow> 'w conn"
  de_secret :: "'w \<Rightarrow> string \<Rightarrow> go_error + string"
  de_hostname :: "go_error + string"

abbreviation FinalizerName :: string where "FinalizerName \<equiv> ''oracle.db.anthosapis.com''"
abbreviation pdbAdminUserName :: string where "pdbAdminUserName \<equiv> ''GPDB_ADMIN''"

definition db_upsert :: "go_time \<Rightarrow> Database \<Rightarrow> string \<Rightarrow> ConditionStatus \<Rightarrow> string \<Rightarrow> string \<Rightarrow> Database" where
  "db_upsert now db name status reason message =
     db\<lparr>db_Status := (db_Status db)
       \<lparr>dst_Conditions := Upsert now (dst_Conditions (db_Status db)) name status reason message\<rparr>\<rparr>"

definition set_phase :: "string \<Rightarrow> Database \<Rightarrow> Database" where
  "set_phase ph db = db\<lparr>db_Status := (db_Status db)\<lparr>dst_Phase := ph\<rparr>\<rparr>"

definition set_versions :: "gomap \<Rightarrow> Database \<Rightarrow> Database" where
  "set_versions m db = db\<lparr>db_Status := (db_Status db)\<lparr>dst_UserResourceVersions := m\<rparr>\<rparr>"

definition set_names :: "string list \<Rightarrow> Database \<Rightarrow> Database" where
  "set_names ns db = db\<lparr>db_Status := (db_Status db)\<lparr>dst_UserNames := ns\<rparr>\<rparr>"

definition put_version :: "string \<Rightarrow> string \<Rightarrow> gomap \<Rightarrow> gomap" where
  "put_version k v m = Some ((case m of None \<Rightarrow> Map.empty | Some f \<Rightarrow> f)(k \<mapsto> v))"

definition resource_version :: "GsmRef \<Rightarrow> string" where
  "resource_version r = ''projects/'' @ gr_ProjectId r @ ''/secrets/'' @ gr_SecretId r @ ''/versions/'' @ gr_Version r"

definition updateIsChangeApplied_db :: "Database \<Rightarrow> Database" where
  "updateIsChangeApplied_db db =
     (let st = db_Status db;
          st1 = (if dst_ObservedGeneration st < db_Generation db
                 then st\<lparr>dst_IsChangeApplied := Some ConditionFalse, dst_ObservedGeneration := db_Generation db\<rparr> else st);
          userUpdateDone = ConditionStatusEquals (FindCondition (dst_Conditions st1) k8s_UserReady) ConditionTrue;
          st2 = (if dst_IsChangeApplied st1 = Some ConditionTrue then st1
                 else if userUpdateDone then st1\<lparr>dst_IsChangeApplied := Some ConditionTrue\<rparr> else st1)
      in db\<lparr>db_Status := st2\<rparr>)"

definition user_password_clash :: "UserSpec \<Rightarrow> bool" where
  "user_password_clash u = (usp_Password u \<noteq> [] \<and> usp_GsmSecretRef u \<noteq> None)"

definition invalid :: "string \<Rightarrow> go_error" where
  "invalid what = Errorf (''resources/validateSpec: '' @ what)"

definition user_error :: "UserSpec \<Rightarrow> go_error option" where
  "user_error u =
     (case ObjectName (usp_Name u) of
        Inl err \<Rightarrow> Some (invalid (''invalid user '' @ usp_Name u @ '': '' @ err_msg err))
      | Inr _ \<Rightarrow>
          (case (if usp_Password u \<noteq> [] then Identifier (usp_Password u) else Inr []) of
             Inl err \<Rightarrow> Some (invalid (''password for user '' @ usp_Name u @ '' is not valid: '' @ err_msg err))
           | Inr _ \<Rightarrow> map_option (\<lambda>p. invalid (''invalid privilege '' @ p @ '' for user '' @ usp_Name u))
                        (List.find (\<lambda>p. \<not> IsPrivilege p) (usp_Privileges u))))"

fun first_error :: "('a \<Rightarrow> go_error option) \<Rightarrow> 'a list \<Rightarrow> go_error option" where
  "first_error f [] = None"
| "first_error f (x # xs) = (case f x of Some err \<Rightarrow> Some err | None \<Rightarrow> first_error f xs)"

definition validateSpec_db :: "Database \<Rightarrow> go_error option" where
  "validateSpec_db db =
     (let spec = db_Spec db in
      if dbs_AdminPassword spec \<noteq> [] \<and> dbs_AdminPasswordGsmSecretRef spec \<noteq> None
      then Some (invalid ''invalid database admin password spec; you can only specify either admin_password or adminPasswordGsmSecretRef'')
      else case List.find user_password_clash (dbs_Users spec) of
        Some u \<Rightarrow> Some (invalid (''invalid database user password spec for user '' @ usp_Name u))
      | None \<Rightarrow>
      (case Identifier (dbs_Name spec) of
         Inl err \<Rightarrow> Some (invalid (''pdb name is not valid: '' @ err_msg err))
       | Inr _ \<Rightarrow>
      (case (if dbs_AdminPassword spec \<noteq> [] then Identifier (dbs_AdminPassword spec) else Inr []) of
         Inl err \<Rightarrow> Some (invalid (''admin_password is not valid: '' @ err_msg err))
       | Inr _ \<Rightarrow> first_error user_error (dbs_Users spec))))"

text \<open>The error is returned whether or not the status could be updated.\<close>

definition handlePreflightCheckError :: "'w db_env \<Rightarrow> 'w \<Rightarrow> Database \<Rightarrow> go_error \<Rightarrow> 'w \<times> go_error" where
  "handlePreflightCheckError env w db err =
     (let w1 = de_Event env w WarningEvent k8s_CreatePending (err_msg err);
          db1 = db_upsert (de_now env w1) (set_phase ''Creating'' db) k8s_Ready ConditionFalse k8s_CreatePending (err_msg err)
      in (fst (de_StatusUpdate env w1 db1), err))"

subsection \<open>Creating the database\<close>

definition create_request :: "Database \<Rightarrow> string \<Rightarrow> string \<Rightarrow> CreateDatabaseRequest" where
  "create_request db dbDomain cdbName =
     (let spec = db_Spec db; lastVer = map_get (dst_UserResourceVersions (db_Status db)) pdbAdminUserName in
      \<lparr>cdr_CdbName = cdbName, cdr_Name = dbs_Name spec, cdr_Password = dbs_AdminPassword spec, cdr_DbDomain = dbDomain,
       cdr_AdminPasswordGsmSecretRef =
         map_option (\<lambda>r. \<lparr>gsm_ProjectId = gr_ProjectId r, gsm_SecretId = gr_SecretId r, gsm_Version = gr_Version r,
                          gsm_LastVersion = lastVer\<rparr>) (dbs_AdminPasswordGsmSecretRef spec),
       cdr_LastPassword = (if dbs_AdminPassword spec \<noteq> [] then lastVer else [])\<rparr>)"

definition admin_version :: "DatabaseSpec \<Rightarrow> string" where
  "admin_version spec =
     (case dbs_AdminPasswordGsmSecretRef spec of
        Some r \<Rightarrow> resource_version r
      | None \<Rightarrow> dbs_AdminPassword spec)"

definition NewDatabase ::
    "'w db_env \<Rightarrow> 'w \<Rightarrow> Database \<Rightarrow> string \<Rightarrow> string \<Rightarrow> ('w \<times> Database \<times> (go_error + bool)) option" where
  "NewDatabase env w db dbDomain cdbName =
     (let name = dbs_Name (db_Spec db);
          w1 = de_Event env w NormalEvent ''Creating'' (''Creating new database '' @ name);
          record_admin = (\<lambda>d. set_versions (put_version pdbAdminUserName (admin_version (db_Spec d))
                                (dst_UserResourceVersions (db_Status d))) d)
      in case CreateDatabase (de_New env w1) (de_hostname env) (de_secret env w1) w1 (create_request db dbDomain cdbName) of
           None \<Rightarrow> None
         | Some (w2, Inl err) \<Rightarrow> Some (w2, db, Inl (Errorf (''resource/NewDatabase: failed on CreateDatabase gRPC call: '' @ err_msg err)))
         | Some (w2, Inr cdOut) \<Rightarrow>
             if cdOut = ''AdminUserSyncCompleted'' then
               Some (de_Event env w2 WarningEvent ''DatabaseAlreadyExists'' (''Database '' @ name @ '' already exists, sync admin user performed''),
                     record_admin db, Inr True)
             else if cdOut = ''AlreadyExists'' then
               Some (de_Event env w2 WarningEvent ''DatabaseAlreadyExists'' (''Database '' @ name @ '' already exists''), db, Inr True)
             else Some (w2, record_admin db, Inr False))"

subsection \<open>Users\<close>

text \<open>The first three names, then dots.\<close>

definition some_names :: "string list \<Rightarrow> string list" where
  "some_names ns = (if length ns \<le> 3 then ns else take 3 ns @ [''...''])"

definition admin_entry :: "Database \<Rightarrow> string \<rightharpoonup> string" where
  "admin_entry db =
     (case dst_UserResourceVersions (db_Status db) of
        None \<Rightarrow> Map.empty
      | Some f \<Rightarrow> (case f pdbAdminUserName of None \<Rightarrow> Map.empty | Some v \<Rightarrow> [pdbAdminUserName \<mapsto> v]))"

definition user_versions :: "UserSpec list \<Rightarrow> (string \<rightharpoonup> string) \<Rightarrow> (string \<rightharpoonup> string)" where
  "user_versions us m0 =
     fold (\<lambda>u m. let m1 = (if usp_Password u \<noteq> [] then m(usp_Name u \<mapsto> usp_Password u) else m)
                 in case usp_GsmSecretRef u of None \<Rightarrow> m1 | Some r \<Rightarrow> m1(usp_Name u \<mapsto> resource_version r)) us m0"

definition secret_spec :: "UserSpec \<Rightarrow> User list" where
  "secret_spec u =
     (case usp_GsmSecretRef u of
        None \<Rightarrow> []
      | Some r \<Rightarrow> [\<lparr>u_Name = usp_Name u, u_Password = [], u_Privileges = [],
                   u_PasswordGsmSecretRef = Some \<lparr>gsm_ProjectId = gr_ProjectId r, gsm_SecretId = gr_SecretId r,
                     gsm_Version = gr_Version r, gsm_LastVersion = []\<rparr>, u_LastPassword = []\<rparr>])"

definition NewUsers ::
    "'w db_env \<Rightarrow> 'w \<Rightarrow> Database \<Rightarrow> string \<Rightarrow> string \<Rightarrow> ('w \<times> Database \<times> go_error option) option" where
  "NewUsers env w db dbDomain cdbName =
     (let us = dbs_Users (db_Spec db); usernames = some_names (map usp_Name us) in
      case (all_some (map (\<lambda>u. QueryCreateUser (usp_Name u) (usp_Password u)) (filter (\<lambda>u. usp_Password u \<noteq> []) us)),
            all_some (concat (map (\<lambda>u. map (\<lambda>p. QueryGrantPrivileges p (usp_Name u)) (usp_Privileges u)) us))) of
        (Some usersCmds, Some grantsCmds) \<Rightarrow>
          (let w1 = de_Event env w NormalEvent ''Creating'' ''Creating new users'';
               req = \<lparr>cur_CdbName = cdbName, cur_PdbName = dbs_Name (db_Spec db), cur_CreateUsersCmd = usersCmds,
                      cur_GrantPrivsCmd = grantsCmds, cur_DbDomain = dbDomain, cur_User = concat (map secret_spec us)\<rparr>
           in case CreateUsers (de_New env w1) (de_hostname env) (de_secret env w1) w1 req of
                None \<Rightarrow> None
              | Some (w2, _) \<Rightarrow>
                  (let w3 = de_Event env w2 NormalEvent ''Created'' ''Created new users'';
                       db1 = db_upsert (de_now env w3) db k8s_UserReady ConditionTrue k8s_CreateComplete [];
                       db2 = updateIsChangeApplied_db
                               (set_versions (Some (user_versions us (admin_entry db))) (set_names usernames db1))
                   in case de_StatusUpdate env w3 db2 of (w4, err) \<Rightarrow> Some (w4, db2, err)))
      | _ \<Rightarrow> None)"

text \<open>What \<open>UsersChanged\<close> and \<open>UpdateUsers\<close> are asked for.\<close>

definition sync_spec :: "gomap \<Rightarrow> UserSpec \<Rightarrow> User" where
  "sync_spec versions u =
     \<lparr>u_Name = usp_Name u, u_Password = usp_Password u, u_Privileges = usp_Privileges u,
      u_PasswordGsmSecretRef =
        map_option (\<lambda>r. \<lparr>gsm_ProjectId = gr_ProjectId r, gsm_SecretId = gr_SecretId r, gsm_Version = gr_Version r,
                         gsm_LastVersion = map_get versions (usp_Name u)\<rparr>) (usp_GsmSecretRef u),
      u_LastPassword = (if usp_Password u \<noteq> [] then map_get versions (usp_Name u) else [])\<rparr>"

definition suppressed_text :: "suppressed \<Rightarrow> string" where
  "suppressed_text s =
     (case s of
        SuppressedDelete n sql \<Rightarrow> ''User '' @ n @ '' not defined in database spec, supposed to be deleted. suppressed SQL '' @ sql @
          ''. Fix by deleting the user in DB or updating DB spec to include the user''
      | SuppressedCreate n \<Rightarrow> ''User '' @ n @ '' cannot be created, password is not provided. Fix by creating the user in DB or updating DB spec to include password'')"

text \<open>\<open>strings.Join\<close>.\<close>

fun join_with :: "string \<Rightarrow> string list \<Rightarrow> string" where
  "join_with sep [] = []"
| "join_with sep [s] = s"
| "join_with sep (s # t # ts) = s @ sep @ join_with sep (t # ts)"

definition users_conn :: "'w conn \<Rightarrow> go_error + 'w db_client" where
  "users_conn conn = map_sum id d_client (opened conn)"

text \<open>The end of \<open>SyncUsers\<close>: the condition, the versions and the names are recorded.\<close>

definition finish_sync :: "'w db_env \<Rightarrow> 'w \<Rightarrow> Database \<Rightarrow> (string \<rightharpoonup> string) \<Rightarrow> suppressed list \<Rightarrow> 'w \<times> Database \<times> go_error option" where
  "finish_sync env w db versions supp =
     (let status = (if supp = [] then ConditionTrue else ConditionFalse);
          reason = (if supp = [] then k8s_SyncComplete else k8s_UserOutOfSync);
          msg = (if supp = [] then [] else join_with ''.'' (map suppressed_text supp));
          w1 = (if supp = [] then de_Event env w NormalEvent ''Synced'' (''Synced users for database '' @ dbs_Name (db_Spec db))
                else de_Event env w WarningEvent ''Failed'' (''Failed to sync users for database '' @ dbs_Name (db_Spec db) @ '', '' @ msg));
          db1 = db_upsert (de_now env w1) db k8s_UserReady status reason msg;
          db2 = updateIsChangeApplied_db
                  (set_names (some_names (map usp_Name (dbs_Users (db_Spec db)))) (set_versions (Some versions) db1))
      in case de_StatusUpdate env w1 db2 of (w2, err) \<Rightarrow> (w2, db2, err))"

definition SyncUsers :: "'w db_env \<Rightarrow> 'w \<Rightarrow> Database \<Rightarrow> ('w \<times> Database \<times> go_error option) option" where
  "SyncUsers env w db =
     (let us = dbs_Users (db_Spec db); name = dbs_Name (db_Spec db);
          w0 = de_Event env w NormalEvent ''Syncing'' (''Syncing users for database '' @ name);
          versions = user_versions us (admin_entry db);
          userSpecs = map (sync_spec (dst_UserResourceVersions (db_Status db))) us
      in case UsersChanged (users_conn (de_New env w0)) w0 name userSpecs of
           None \<Rightarrow> None
         | Some (Inl err) \<Rightarrow> Some (w0, db, Some err)
         | Some (Inr (changed, supp)) \<Rightarrow>
             if \<not> changed then Some (finish_sync env w0 db versions supp)
             else
               (let db1 = db_upsert (de_now env w0) (set_phase ''Updating'' db) k8s_UserReady ConditionFalse k8s_SyncInProgress [] in
                case de_StatusUpdate env w0 db1 of
                  (w1, Some err) \<Rightarrow> Some (w1, db1, Some err)
                | (w1, None) \<Rightarrow>
                    (case UpdateUsers (users_conn (de_New env w1)) w1 name userSpecs of
                       None \<Rightarrow> None
                     | Some (w2, Some err) \<Rightarrow> Some (w2, db1, Some err)
                     | Some (w2, None) \<Rightarrow> Some (finish_sync env w2 db1 versions supp))))"

subsection \<open>Reconciling\<close>

type_synonym 'w db_result = "('w \<times> ctrl_Result \<times> go_error option) option"

definition preflight :: "'w db_env \<Rightarrow> 'w \<Rightarrow> Database \<Rightarrow> string \<Rightarrow> 'w db_result" where
  "preflight env w db msg =
     (case handlePreflightCheckError env w db (Errorf msg) of (w1, err) \<Rightarrow> Some (w1, Result_zero, Some err))"

text \<open>The end of the creation: the name of the new database is added to the instance's list.\<close>

definition register_database :: "'w db_env \<Rightarrow> 'w \<Rightarrow> DbInstance \<Rightarrow> Database \<Rightarrow> 'w db_result" where
  "register_database env w inst db =
     (let name = dbs_Name (db_Spec db);
          inst1 = (if name \<in> set (di_DatabaseNames inst) then inst
                   else inst\<lparr>di_DatabaseNames := di_DatabaseNames inst @ [name]\<rparr>)
      in case de_InstanceStatusUpdate env w inst1 of (w1, err) \<Rightarrow> Some (w1, Result_zero, err))"

text \<open>The part after the checks.\<close>

definition create_and_sync :: "'w db_env \<Rightarrow> 'w \<Rightarrow> DbInstance \<Rightarrow> Database \<Rightarrow> 'w db_result" where
  "create_and_sync env w inst db =
     (let domain = GetDBDomain (Instance.Instance.truncate inst); cdbName = is_CDBName (inst_Spec inst) in
      case NewDatabase env w db domain cdbName of
        None \<Rightarrow> None
      | Some (w1, db1, Inl err) \<Rightarrow> Some (w1, Result_zero, Some err)
      | Some (w1, db1, Inr alreadyExists) \<Rightarrow>
          (let w2 = de_Event env w1 NormalEvent ''Created'' (''Created new database '' @ dbs_Name (db_Spec db1));
               db2 = db_upsert (de_now env w2) (set_phase ''Ready'' db1) k8s_Ready ConditionTrue k8s_CreateComplete []
           in case de_StatusUpdate env w2 db2 of
                (w3, Some err) \<Rightarrow> Some (w3, Result_zero, Some err)
              | (w3, None) \<Rightarrow>
                  if alreadyExists then
                    (case SyncUsers env w3 db2 of
                       None \<Rightarrow> None
                     | Some (w4, _, err) \<Rightarrow> Some (w4, Result_zero, err))
                  else
                    (case NewUsers env w3 db2 domain cdbName of
                       None \<Rightarrow> None
                     | Some (w4, db3, Some err) \<Rightarrow> Some (w4, Result_zero, Some err)
                     | Some (w4, db3, None) \<Rightarrow> register_database env w4 inst db3)))"

definition ReconcileDatabaseCreation :: "'w db_env \<Rightarrow> 'w \<Rightarrow> 'w db_result" where
  "ReconcileDatabaseCreation env w =
     (case de_GetDatabase env w of
        Inl err \<Rightarrow> Some (w, Result_zero, IgnoreNotFound err)
      | Inr db \<Rightarrow>
      (case validateSpec_db db of
         Some err \<Rightarrow> (case handlePreflightCheckError env w db err of (w1, e) \<Rightarrow> Some (w1, Result_zero, Some e))
       | None \<Rightarrow>
      (case de_GetInstance env w (dbs_Instance (db_Spec db)) of
         Inl err \<Rightarrow> preflight env w db (''failed to find instance '' @ dbs_Instance (db_Spec db) @ '' for database '' @ db_Name db)
       | Inr inst \<Rightarrow>
      (case de_ListPods env w (dbs_Instance (db_Spec db)) of
         Inl err \<Rightarrow> preflight env w db ''failed to find a pod''
       | Inr pods \<Rightarrow>
           if length pods \<noteq> 1 then preflight env w db (''expected 1 pod, found '' @ itoa (int (length pods)))
           else if ''oracledb'' \<notin> set (hd pods)
           then Some (w, Result_zero, Some (Errorf ''failed to find a container oracledb in a pod''))
           else
      (case CheckStatusInstanceFunc (de_New env w) w (is_CDBName (inst_Spec inst)) (GetDBDomain (Instance.Instance.truncate inst)) of
         Inl err \<Rightarrow> Some (w, Result_zero, Some err)
       | Inr istatus \<Rightarrow>
           if istatus \<noteq> ''Ready'' then preflight env w db ''database instance doesn't appear to be ready yet''
           else
      (case de_GetService env w (dbs_Instance (db_Spec db) @ ''-svc'') of
         Inl err \<Rightarrow> Some (w, Result_zero, Some err)
       | Inr ingress \<Rightarrow>
           if ingress = [] then Some (w, Result_zero, Some (Errorf ''preflight check: createDatabase: external LB is NOT ready''))
           else if FinalizerName \<in> set (db_Finalizers db) then create_and_sync env w inst db
           else
             (case de_Update env w (db\<lparr>db_Finalizers := db_Finalizers db @ [FinalizerName]\<rparr>) of
                (w1, Inl err) \<Rightarrow> Some (w1, Result_zero, Some err)
              | (w1, Inr db1) \<Rightarrow> create_and_sync env w1 inst db1)))))))"

definition IsStopped :: "DbInstance \<Rightarrow> bool" where
  "IsStopped inst = (di_IsStopped inst = Some True)"

text \<open>Taking the database off the instance's list, and the finalizer off the database.\<close>

definition remove_database :: "'w db_env \<Rightarrow> 'w \<Rightarrow> DbInstance \<Rightarrow> Database \<Rightarrow> 'w db_result" where
  "remove_database env w inst db =
     (let name = dbs_Name (db_Spec db);
          inst1 = inst\<lparr>di_DatabaseNames := (if name \<in> set (di_DatabaseNames inst)
                                            then filter (\<lambda>n. n \<noteq> name) (di_DatabaseNames inst) else di_DatabaseNames inst)\<rparr>
      in case de_InstanceStatusUpdate env w inst1 of
           (w1, Some err) \<Rightarrow> Some (w1, Result_zero, Some err)
         | (w1, None) \<Rightarrow>
             (case de_Update env w1 (db\<lparr>db_Finalizers := filter (\<lambda>f. f \<noteq> FinalizerName) (db_Finalizers db)\<rparr>) of
                (w2, Inl err) \<Rightarrow> Some (w2, Result_zero, Some err)
              | (w2, Inr _) \<Rightarrow> Some (w2, Result_zero, None)))"

definition ReconcileDatabaseDeletion :: "'w db_env \<Rightarrow> 'w \<Rightarrow> 'w db_result" where
  "ReconcileDatabaseDeletion env w =
     (case de_GetDatabase env w of
        Inl err \<Rightarrow> Some (w, Result_zero, IgnoreNotFound err)
      | Inr db \<Rightarrow>
      (case de_GetInstance env w (dbs_Instance (db_Spec db)) of
         Inl err \<Rightarrow> Some (w, Result_zero, Some err)
       | Inr inst \<Rightarrow>
           if FinalizerName \<notin> set (db_Finalizers db) then Some (w, Result_zero, None)
           else if IsStopped inst then remove_database env w inst db
           else
             (case DeleteDatabase (de_New env w) w (dbs_Name (db_Spec db)) of
                (w1, Some err) \<Rightarrow> Some (w1, Result_zero, Some err)
              | (w1, None) \<Rightarrow> remove_database env w1 inst db)))"

definition Reconcile_db :: "'w db_env \<Rightarrow> 'w \<Rightarrow> 'w db_result" where
  "Reconcile_db env w =
     (case de_GetDatabase env w of
        Inl err \<Rightarrow> Some (w, Result_zero, IgnoreNotFound err)
      | Inr db \<Rightarrow>
          if db_DeletionTimestamp db \<noteq> None then ReconcileDatabaseDeletion env w else ReconcileDatabaseCreation env w)"

text \<open>Which databases an event of an instance is for, and which events count: the database instance becoming ready.\<close>

definition instanceToDatabases :: "DbInstance \<Rightarrow> (string \<times> string) list" where
  "instanceToDatabases inst = map (\<lambda>n. (inst_Namespace inst, n)) (di_DatabaseNames inst)"

definition databaseInstanceReadyPredicate :: "DbInstance \<Rightarrow> DbInstance \<Rightarrow> bool" where
  "databaseInstanceReadyPredicate oldInstance newInstance =
     (let ready = (\<lambda>i. ConditionStatusEquals (FindCondition (ist_Conditions (inst_Status i)) k8s_DatabaseInstanceReady) ConditionTrue)
      in \<not> ready oldInstance \<and> ready newInstance)"

end
