(* ===== verification/UsersSync.thy ===== *)
theory UsersSync
  imports Users "HOL-Library.List_Lexorder" "HOL-Library.Char_ord"
begin

text \<open>
  What \<open>UpdateUsers\<close> achieves. The database is described by what the code relies on: a view of its state
  (users and roles of a container, system privileges and roles granted to a user, and \<open>ov_names\<close>, the
  names of system privileges and roles as the data dictionary spells them) and how queries and statements
  that succeed relate to the view. Nothing is said of a statement with an entry that is not such a name: a
  name in lower case, \<open>ALL PRIVILEGES\<close>, which Oracle expands, or several names separated by commas. Granting or revoking a role may change the system
  privileges of the user as well, which is why the code updates roles before system privileges.
\<close>

record 'w ora_view =
  ov_users :: "'w \<Rightarrow> string \<Rightarrow> string set"
  ov_roles :: "'w \<Rightarrow> string \<Rightarrow> string set"
  ov_sys :: "'w \<Rightarrow> string \<Rightarrow> string \<Rightarrow> string set"
  ov_granted :: "'w \<Rightarrow> string \<Rightarrow> string \<Rightarrow> string set"
  ov_names :: "string set"

definition privs :: "'w ora_view \<Rightarrow> 'w \<Rightarrow> string \<Rightarrow> string \<Rightarrow> string set" where
  "privs v w db n = ov_sys v w db n \<union> ov_granted v w db n"

text \<open>The rows of a query hold the values of a set in a column.\<close>

definition answers :: "'w db_client \<Rightarrow> 'w \<Rightarrow> string \<Rightarrow> string \<Rightarrow> string \<Rightarrow> string set \<Rightarrow> bool" where
  "answers c w db sql key S \<longleftrightarrow>
     (\<forall>setc resp rows. QuerySetSessionContainer db = Some setc \<longrightarrow> dc_query c w [setc, sql] = Inr resp \<longrightarrow>
        parseSQLResponse c resp = Inr rows \<longrightarrow>
        (\<forall>row \<in> set rows. row key \<noteq> None) \<and> {x. \<exists>row \<in> set rows. row key = Some x} = S)"

text \<open>Names as Oracle stores them, and lists of names of the data dictionary.\<close>

definition upper :: "string \<Rightarrow> bool" where
  "upper n \<longleftrightarrow> ToUpper n = n"

definition listed :: "'w ora_view \<Rightarrow> string list \<Rightarrow> bool" where
  "listed v ps \<longleftrightarrow> set ps \<subseteq> ov_names v"

definition oracle_reads :: "'w db_client \<Rightarrow> 'w ora_view \<Rightarrow> bool" where
  "oracle_reads c v \<longleftrightarrow>
     (\<forall>w db. upper db \<longrightarrow> answers c w db users_sql ''USERNAME'' (ov_users v w db) \<and>
             answers c w db ''select role from dba_roles'' ''ROLE'' (ov_roles v w db) \<and>
             (\<forall>n. answers c w db (sys_privs_sql n) ''PRIVILEGE'' (ov_sys v w db n) \<and>
                  answers c w db (role_privs_sql n) ''GRANTED_ROLE'' (ov_granted v w db n)))"

text \<open>
  Granted roles are roles, no system privilege is a role, what a user can have is in the data dictionary,
  and the dictionary spells it in upper case, as one name and without the abbreviation for all of them.
\<close>

definition oracle_names :: "'w ora_view \<Rightarrow> bool" where
  "oracle_names v \<longleftrightarrow>
     (\<forall>w db n. ov_granted v w db n \<subseteq> ov_roles v w db \<and> ov_sys v w db n \<inter> ov_roles v w db = {} \<and>
        ov_roles v w db \<union> ov_sys v w db n \<subseteq> ov_names v) \<and>
     (\<forall>p \<in> ov_names v. upper p \<and> CHR '','' \<notin> set p \<and> p \<noteq> ''ALL PRIVILEGES'')"

text \<open>Only the user \<open>n\<close> of the container \<open>db\<close> may have changed.\<close>

definition frame :: "'w ora_view \<Rightarrow> string \<Rightarrow> string \<Rightarrow> 'w \<Rightarrow> 'w \<Rightarrow> bool" where
  "frame v db n w w' \<longleftrightarrow> (\<forall>d. ov_roles v w' d = ov_roles v w d) \<and>
     (\<forall>d k. (d, k) \<noteq> (db, n) \<longrightarrow>
        (k \<in> ov_users v w' d \<longleftrightarrow> k \<in> ov_users v w d) \<and> ov_sys v w' d k = ov_sys v w d k \<and>
        ov_granted v w' d k = ov_granted v w d k)"

definition grants :: "string \<Rightarrow> string list \<Rightarrow> string option list" where
  "grants n ps = map (\<lambda>p. QueryGrantPrivileges p n) ps"

definition revokes :: "string \<Rightarrow> string list \<Rightarrow> string option list" where
  "revokes n ps = map (\<lambda>p. QueryRevokePrivileges p n) ps"

text \<open>Statements for a user in a container that run without an error.\<close>

definition runs :: "'w db_client \<Rightarrow> string \<Rightarrow> string \<Rightarrow> string option list \<Rightarrow> 'w \<Rightarrow> 'w \<Rightarrow> bool" where
  "runs c db n cmds w w' \<longleftrightarrow>
     (\<exists>sqls. upper db \<and> upper n \<and> all_some (QuerySetSessionContainer db # cmds) = Some sqls \<and> dc_run c w sqls = (w', None))"

definition oracle_writes :: "'w db_client \<Rightarrow> 'w ora_view \<Rightarrow> bool" where
  "oracle_writes c v \<longleftrightarrow>
     (\<forall>db n ps w w'. listed v ps \<longrightarrow> runs c db n (grants n ps) w w' \<longrightarrow>
        frame v db n w w' \<and> ov_users v w' db = ov_users v w db \<and>
        ov_granted v w' db n = ov_granted v w db n \<union> (set ps \<inter> ov_roles v w db) \<and>
        (set ps \<inter> ov_roles v w db = {} \<longrightarrow> ov_sys v w' db n = ov_sys v w db n \<union> set ps)) \<and>
     (\<forall>db n ps w w'. listed v ps \<longrightarrow> runs c db n (revokes n ps) w w' \<longrightarrow>
        frame v db n w w' \<and> ov_users v w' db = ov_users v w db \<and>
        ov_granted v w' db n = ov_granted v w db n - set ps \<and>
        (set ps \<inter> ov_roles v w db = {} \<longrightarrow> ov_sys v w' db n = ov_sys v w db n - set ps)) \<and>
     (\<forall>db n pw ps w w'. listed v ps \<longrightarrow> runs c db n (QueryCreateUser n pw # grants n ps) w w' \<longrightarrow>
        frame v db n w w' \<and> n \<in> ov_users v w' db \<and> set ps \<subseteq> privs v w' db n) \<and>
     (\<forall>db n pw w w'. runs c db n [QueryAlterUser n pw] w w' \<longrightarrow>
        frame v db n w w' \<and> ov_users v w' db = ov_users v w db \<and>
        ov_granted v w' db n = ov_granted v w db n \<and> ov_sys v w' db n = ov_sys v w db n)"

definition set_elements :: "'w db_client \<Rightarrow> bool" where
  "set_elements c \<longleftrightarrow> (\<forall>S. finite S \<longrightarrow> set (dc_elements c S) = S \<and> distinct (dc_elements c S))"

definition oracle_contract :: "'w db_client \<Rightarrow> 'w ora_view \<Rightarrow> bool" where
  "oracle_contract c v \<longleftrightarrow> oracle_reads c v \<and> oracle_names v \<and> oracle_writes c v \<and> set_elements c"

lemma privs_listed:
  assumes "oracle_contract c v"
  shows "privs v w db n \<subseteq> ov_names v"
proof -
  have "oracle_names v" using assms by (simp add: oracle_contract_def)
  then have "ov_granted v w db n \<subseteq> ov_roles v w db" "ov_roles v w db \<union> ov_sys v w db n \<subseteq> ov_names v"
    unfolding oracle_names_def by blast+
  then show ?thesis by (auto simp: privs_def)
qed

subsection \<open>Reading\<close>

lemma queryRowsByKey_set:
  "queryRowsByKey rows key flt = Inr vs \<Longrightarrow> set vs = {x. (\<exists>row \<in> set rows. row key = Some x) \<and> flt x}"
  by (induction rows arbitrary: vs) (auto split: option.splits sum.splits if_splits)

lemma queryDB_set:
  assumes "answers c w db sql key S" "queryDB c w db sql key flt = Some (Inr vs)"
  shows "set vs = {x \<in> S. flt x}"
  using assms by (auto simp: queryDB_def answers_def dest!: queryRowsByKey_set split: option.splits sum.splits)

definition core :: "user \<Rightarrow> string \<times> string \<times> string list" where
  "core u = (databaseName u, userName u, specPrivs u)"

lemma user_readEnv_set:
  assumes "oracle_reads c v" "user_readEnv c w u = Some (u1, None)" "upper (databaseName u)"
  shows "set (envDbaSysPrivs u1) = ov_sys v w (databaseName u) (userName u)"
    "set (envDbaRolePrivs u1) = ov_granted v w (databaseName u) (userName u)" "core u1 = core u"
  using assms
  by (auto simp: user_readEnv_def oracle_reads_def core_def dest!: queryDB_set [rotated]
      split: option.splits sum.splits)

lemma user_diff_set:
  assumes "oracle_contract c v" "user_diff c w u = Some (u1, Inr (toGrant, toRevoke, pwd))" "upper (databaseName u)"
  shows "set toGrant = set (specPrivs u) - privs v w (databaseName u) (userName u)"
    "set toRevoke = privs v w (databaseName u) (userName u) - set (specPrivs u)" "core u1 = core u"
proof -
  have reads: "oracle_reads c v" and el: "set_elements c" using assms(1) by (simp_all add: oracle_contract_def)
  from assms(2) obtain u2 where r: "user_readEnv c w u = Some (u2, None)"
    by (auto simp: user_diff_def split: option.splits sum.splits)
  note e = user_readEnv_set [OF reads r assms(3)]
  have s: "specPrivs u2 = specPrivs u" using e(3) by (simp add: core_def)
  have "set toGrant = set (specPrivs u2) - set (envDbaSysPrivs u2 @ envDbaRolePrivs u2)"
    "set toRevoke = set (envDbaSysPrivs u2 @ envDbaRolePrivs u2) - set (specPrivs u2)" "core u1 = core u2"
    using assms(2) r el
    by (auto simp: user_diff_def compare_def set_elements_def Let_def core_def split: if_splits sum.splits)
  with e s show "set toGrant = set (specPrivs u) - privs v w (databaseName u) (userName u)"
    "set toRevoke = privs v w (databaseName u) (userName u) - set (specPrivs u)" "core u1 = core u"
    by (simp_all add: privs_def)
qed

subsection \<open>Updating one user\<close>

lemma frame_refl [simp]: "frame v db n w w"
  by (simp add: frame_def)

lemma frame_trans: "frame v db n w w1 \<Longrightarrow> frame v db n w1 w2 \<Longrightarrow> frame v db n w w2"
  by (auto simp: frame_def)

lemma frame_other:
  assumes "frame v db n w w'" "k \<noteq> n"
  shows "k \<in> ov_users v w' db \<longleftrightarrow> k \<in> ov_users v w db" "privs v w' db k = privs v w db k"
  using assms by (auto simp: frame_def privs_def)

lemma run_in_container_runs:
  "run_in_container c w u cmds what = Some (w', None) \<Longrightarrow> upper (databaseName u) \<Longrightarrow> upper (userName u) \<Longrightarrow>
     runs c (databaseName u) (userName u) cmds w w'"
  by (auto simp: run_in_container_def runs_def split: option.splits prod.splits)

text \<open>A user's record belongs to a container and a name in upper case, and lists names of the data dictionary.\<close>

definition good_user :: "'w ora_view \<Rightarrow> string \<Rightarrow> string \<Rightarrow> string list \<Rightarrow> user \<Rightarrow> bool" where
  "good_user v db n ps u \<longleftrightarrow> core u = (db, n, ps) \<and> upper db \<and> upper n \<and> listed v ps"

lemma user_grant_effect:
  assumes "oracle_contract c v" "user_grant c w u ps = Some (w', None)" "good_user v db n qs u" "listed v ps"
  shows "frame v db n w w'" "ov_users v w' db = ov_users v w db"
    "ov_granted v w' db n = ov_granted v w db n \<union> (set ps \<inter> ov_roles v w db)"
    "set ps \<inter> ov_roles v w db = {} \<Longrightarrow> ov_sys v w' db n = ov_sys v w db n \<union> set ps"
proof -
  have u: "databaseName u = db" "userName u = n" "upper db" "upper n" using assms(3) by (auto simp: good_user_def core_def)
  have "ps = [] \<and> w' = w \<or> runs c db n (grants n ps) w w'"
    using assms(2) u run_in_container_runs [of c w u "grants n ps" "''grant''" w']
    by (auto simp: user_grant_def grants_def split: if_splits)
  moreover have "oracle_writes c v" using assms(1) by (simp add: oracle_contract_def)
  ultimately show "frame v db n w w'" "ov_users v w' db = ov_users v w db"
    "ov_granted v w' db n = ov_granted v w db n \<union> (set ps \<inter> ov_roles v w db)"
    "set ps \<inter> ov_roles v w db = {} \<Longrightarrow> ov_sys v w' db n = ov_sys v w db n \<union> set ps"
    using assms(4) unfolding oracle_writes_def by auto
qed

lemma user_revoke_effect:
  assumes "oracle_contract c v" "user_revoke c w u ps = Some (w', None)" "good_user v db n qs u" "listed v ps"
  shows "frame v db n w w'" "ov_users v w' db = ov_users v w db"
    "ov_granted v w' db n = ov_granted v w db n - set ps"
    "set ps \<inter> ov_roles v w db = {} \<Longrightarrow> ov_sys v w' db n = ov_sys v w db n - set ps"
proof -
  have u: "databaseName u = db" "userName u = n" "upper db" "upper n" using assms(3) by (auto simp: good_user_def core_def)
  have "ps = [] \<and> w' = w \<or> runs c db n (revokes n ps) w w'"
    using assms(2) u run_in_container_runs [of c w u "revokes n ps" "''revoke''" w']
    by (auto simp: user_revoke_def revokes_def split: if_splits)
  moreover have "oracle_writes c v" using assms(1) by (simp add: oracle_contract_def)
  ultimately show "frame v db n w w'" "ov_users v w' db = ov_users v w db"
    "ov_granted v w' db n = ov_granted v w db n - set ps"
    "set ps \<inter> ov_roles v w db = {} \<Longrightarrow> ov_sys v w' db n = ov_sys v w db n - set ps"
    using assms(4) unfolding oracle_writes_def by auto
qed

lemma update_privs_steps:
  assumes "oracle_contract c v" "update_privs c w u sel = Some (w', u', None)" "good_user v db n ps u"
  obtains w1 toGrant toRevoke where
    "set toGrant = set ps - privs v w db n" "set toRevoke = privs v w db n - set ps"
    "user_grant c w u' (filter sel toGrant) = Some (w1, None)" "user_revoke c w1 u' (filter sel toRevoke) = Some (w', None)"
    "good_user v db n ps u'" "listed v (filter sel toGrant)" "listed v (filter sel toRevoke)"
proof -
  from assms(2) obtain toGrant toRevoke pwd where d: "user_diff c w u = Some (u', Inr (toGrant, toRevoke, pwd))"
    by (auto simp: update_privs_def split: option.splits sum.splits prod.splits)
  from assms(2) d obtain w1 where g: "user_grant c w u' (filter sel toGrant) = Some (w1, None)"
    "user_revoke c w1 u' (filter sel toRevoke) = Some (w', None)"
    by (auto simp: update_privs_def split: option.splits prod.splits)
  have u: "databaseName u = db" "userName u = n" "specPrivs u = ps" "listed v ps" "upper (databaseName u)"
    using assms(3) by (auto simp: good_user_def core_def)
  note s = user_diff_set [OF assms(1) d u(5), unfolded u(1-3)]
  have "good_user v db n ps u'" using assms(3) s(3) by (simp add: good_user_def)
  moreover have "listed v (filter sel toGrant)" using u(4) s(1) by (auto simp: listed_def)
  moreover have "listed v (filter sel toRevoke)"
    using privs_listed [OF assms(1), of w db n] s(2) by (auto simp: listed_def)
  ultimately show thesis using that s g by blast
qed

lemma updateRolePrivs_effect:
  assumes "oracle_contract c v" "updateRolePrivs c w u roles = Some (w', u', None)" "good_user v db n ps u"
    "set roles = ov_roles v w db"
  shows "frame v db n w w'" "ov_users v w' db = ov_users v w db" "good_user v db n ps u'"
    "ov_granted v w' db n = set ps \<inter> ov_roles v w db"
proof -
  from assms(1) assms(2) [unfolded updateRolePrivs_def] assms(3) obtain w1 toGrant toRevoke where s:
    "set toGrant = set ps - privs v w db n" "set toRevoke = privs v w db n - set ps"
    "user_grant c w u' (filter (\<lambda>p. p \<in> set roles) toGrant) = Some (w1, None)"
    "user_revoke c w1 u' (filter (\<lambda>p. p \<in> set roles) toRevoke) = Some (w', None)"
    "good_user v db n ps u'" "listed v (filter (\<lambda>p. p \<in> set roles) toGrant)" "listed v (filter (\<lambda>p. p \<in> set roles) toRevoke)"
    by (rule update_privs_steps)
  note g = user_grant_effect [OF assms(1) s(3,5,6)] and r = user_revoke_effect [OF assms(1) s(4,5,7)]
  show "frame v db n w w'" using g(1) r(1) by (rule frame_trans)
  show "ov_users v w' db = ov_users v w db" using g(2) r(2) by simp
  show "good_user v db n ps u'" by (rule s(5))
  have nm: "ov_granted v w db n \<subseteq> ov_roles v w db" "ov_sys v w db n \<inter> ov_roles v w db = {}"
    using assms(1) by (auto simp: oracle_contract_def oracle_names_def)
  have "ov_granted v w' db n = (ov_granted v w db n \<union> ((set ps - privs v w db n) \<inter> ov_roles v w db)) -
      ((privs v w db n - set ps) \<inter> ov_roles v w db)"
    using g(3) r(3) s(1,2) assms(4) by auto
  also have "\<dots> = set ps \<inter> ov_roles v w db" using nm by (auto simp: privs_def)
  finally show "ov_granted v w' db n = set ps \<inter> ov_roles v w db" .
qed

lemma updateSysPrivs_effect:
  assumes "oracle_contract c v" "updateSysPrivs c w u roles = Some (w', u', None)" "good_user v db n ps u"
    "set roles = ov_roles v w db"
  shows "frame v db n w w'" "ov_users v w' db = ov_users v w db" "good_user v db n ps u'"
    "ov_granted v w' db n = ov_granted v w db n" "ov_sys v w' db n = set ps - ov_roles v w db"
proof -
  from assms(1) assms(2) [unfolded updateSysPrivs_def] assms(3) obtain w1 toGrant toRevoke where s:
    "set toGrant = set ps - privs v w db n" "set toRevoke = privs v w db n - set ps"
    "user_grant c w u' (filter (\<lambda>p. p \<notin> set roles) toGrant) = Some (w1, None)"
    "user_revoke c w1 u' (filter (\<lambda>p. p \<notin> set roles) toRevoke) = Some (w', None)"
    "good_user v db n ps u'" "listed v (filter (\<lambda>p. p \<notin> set roles) toGrant)" "listed v (filter (\<lambda>p. p \<notin> set roles) toRevoke)"
    by (rule update_privs_steps)
  note g = user_grant_effect [OF assms(1) s(3,5,6)] and r = user_revoke_effect [OF assms(1) s(4,5,7)]
  show "frame v db n w w'" using g(1) r(1) by (rule frame_trans)
  show "ov_users v w' db = ov_users v w db" using g(2) r(2) by simp
  show "good_user v db n ps u'" by (rule s(5))
  have nm: "ov_granted v w db n \<subseteq> ov_roles v w db" "ov_sys v w db n \<inter> ov_roles v w db = {}"
    using assms(1) by (auto simp: oracle_contract_def oracle_names_def)
  have ro: "ov_roles v w1 db = ov_roles v w db" using g(1) by (simp add: frame_def)
  have "ov_granted v w' db n = (ov_granted v w db n \<union> ({p \<in> set ps - privs v w db n. p \<notin> ov_roles v w db} \<inter> ov_roles v w db)) -
      {p \<in> privs v w db n - set ps. p \<notin> ov_roles v w db}"
    using g(3) r(3) s(1,2) assms(4) by simp
  then show "ov_granted v w' db n = ov_granted v w db n" using nm by blast
  have "ov_sys v w1 db n = ov_sys v w db n \<union> {p \<in> set ps - privs v w db n. p \<notin> ov_roles v w db}"
    using g(4) s(1) assms(4) by auto
  moreover have "ov_sys v w' db n = ov_sys v w1 db n - {p \<in> privs v w db n - set ps. p \<notin> ov_roles v w db}"
    using r(4) s(2) assms(4) ro by auto
  ultimately show "ov_sys v w' db n = set ps - ov_roles v w db"
    using nm by (auto simp: privs_def)
qed

lemma user_update_effect:
  assumes "oracle_contract c v" "user_update c w u roles = Some (w', u', None)" "good_user v db n ps u"
    "set roles = ov_roles v w db"
  shows "frame v db n w w'" "ov_users v w' db = ov_users v w db" "good_user v db n ps u'" "privs v w' db n = set ps"
proof -
  from assms(2) obtain w1 u1 where r: "updateRolePrivs c w u roles = Some (w1, u1, None)"
    and s: "updateSysPrivs c w1 u1 roles = Some (w', u', None)"
    by (auto simp: user_update_def split: option.splits)
  note r = updateRolePrivs_effect [OF assms(1) r assms(3,4)]
  have ro: "ov_roles v w1 db = ov_roles v w db" using r(1) by (simp add: frame_def)
  note s = updateSysPrivs_effect [OF assms(1) s r(3) assms(4) [folded ro]]
  show "frame v db n w w'" using r(1) s(1) by (rule frame_trans)
  show "ov_users v w' db = ov_users v w db" using r(2) s(2) by simp
  show "good_user v db n ps u'" by (rule s(3))
  show "privs v w' db n = set ps" using r(4) s(4,5) ro by (auto simp: privs_def)
qed

subsection \<open>The loops\<close>

definition good_map :: "'w ora_view \<Rightarrow> string \<Rightarrow> (string \<Rightarrow> string list) \<Rightarrow> (string \<times> user) list \<Rightarrow> bool" where
  "good_map v db spec m \<longleftrightarrow> (\<forall>n u. map_of m n = Some u \<longrightarrow> good_user v db n (spec n) u)"

lemma map_of_put [simp]: "map_of (put n u m) = (map_of m)(n \<mapsto> u)"
  by (induction m) auto

lemma good_map_put: "good_map v db spec m \<Longrightarrow> good_user v db n (spec n) u \<Longrightarrow> good_map v db spec (put n u m)"
  by (simp add: good_map_def)

text \<open>Only users in \<open>N\<close> may have changed.\<close>

definition frame_set :: "'w ora_view \<Rightarrow> string \<Rightarrow> string set \<Rightarrow> 'w \<Rightarrow> 'w \<Rightarrow> bool" where
  "frame_set v db N w w' \<longleftrightarrow> ov_roles v w' db = ov_roles v w db \<and>
     (\<forall>k. k \<notin> N \<longrightarrow> (k \<in> ov_users v w' db \<longleftrightarrow> k \<in> ov_users v w db) \<and> privs v w' db k = privs v w db k)"

lemma frame_set_step:
  "frame v db n w w1 \<Longrightarrow> frame_set v db N w1 w2 \<Longrightarrow> frame_set v db (insert n N) w w2"
  by (simp add: frame_set_def frame_def privs_def)

text \<open>An error that was found is not forgotten.\<close>

lemma update_loop_errors: "update_loop c roles w e m ns = Some (w', m', e') \<Longrightarrow> e \<Longrightarrow> e'"
  by (induction ns arbitrary: w e m) (auto split: option.splits prod.splits)

lemma password_updates_errors: "password_updates c w e m ns = Some (w', e') \<Longrightarrow> e \<Longrightarrow> e'"
  by (induction ns arbitrary: w e) (auto split: option.splits prod.splits)

lemma create_loop_effect:
  assumes "oracle_contract c v" "good_map v db spec m"
  shows "create_loop c w e m ns = Some (w', False) \<Longrightarrow> distinct ns \<Longrightarrow>
    \<not> e \<and> frame_set v db (set ns) w w' \<and> (\<forall>n \<in> set ns. n \<in> ov_users v w' db \<and> set (spec n) \<subseteq> privs v w' db n)"
proof (induction ns arbitrary: w e)
  case (Cons n ns)
  from Cons.prems(1) obtain u w1 err where u: "map_of m n = Some u" "user_create c w u = Some (w1, err)"
    "create_loop c w1 (e \<or> err \<noteq> None) m ns = Some (w', False)"
    by (auto split: option.splits prod.splits)
  from Cons.IH [OF u(3)] Cons.prems(2) have ih: "\<not> e" "err = None" "frame_set v db (set ns) w1 w'"
    "\<forall>n \<in> set ns. n \<in> ov_users v w' db \<and> set (spec n) \<subseteq> privs v w' db n" by auto
  have g: "good_user v db n (spec n) u" using assms(2) u(1) by (simp add: good_map_def)
  then have gu: "databaseName u = db" "userName u = n" "specPrivs u = spec n" "upper db" "upper n" "listed v (spec n)"
    by (auto simp: good_user_def core_def)
  have "runs c db n (QueryCreateUser n (newPassword u) # grants n (spec n)) w w1"
    using run_in_container_runs [of c w u _ "''create''" w1] u(2) ih(2) gu by (simp add: user_create_def grants_def)
  then have eff: "frame v db n w w1" "n \<in> ov_users v w1 db" "set (spec n) \<subseteq> privs v w1 db n"
    using assms(1) gu(6) unfolding oracle_contract_def oracle_writes_def by blast+
  have "n \<notin> set ns" using Cons.prems(2) by simp
  then have "n \<in> ov_users v w' db" "set (spec n) \<subseteq> privs v w' db n"
    using ih(3) eff by (auto simp: frame_set_def)
  with ih frame_set_step [OF eff(1) ih(3)] show ?case by simp
qed (simp add: frame_set_def)

lemma update_loop_effect:
  assumes "oracle_contract c v"
  shows "update_loop c roles w e m ns = Some (w', m', False) \<Longrightarrow> distinct ns \<Longrightarrow> good_map v db spec m \<Longrightarrow>
    set roles = ov_roles v w db \<Longrightarrow>
    \<not> e \<and> frame_set v db (set ns) w w' \<and> ov_users v w' db = ov_users v w db \<and> good_map v db spec m' \<and>
    (\<forall>n \<in> set ns. privs v w' db n = set (spec n))"
proof (induction ns arbitrary: w e m)
  case (Cons n ns)
  from Cons.prems(1) obtain u w1 u1 err where u: "map_of m n = Some u" "user_update c w u roles = Some (w1, u1, err)"
    "update_loop c roles w1 (e \<or> err \<noteq> None) (put n u1 m) ns = Some (w', m', False)"
    by (auto split: option.splits prod.splits)
  have g: "good_user v db n (spec n) u" using Cons.prems(3) u(1) by (simp add: good_map_def)
  show ?case
  proof (cases err)
    case None
    note eff = user_update_effect [OF assms u(2) [unfolded None] g Cons.prems(4)]
    have ro: "set roles = ov_roles v w1 db" using eff(1) Cons.prems(4) by (simp add: frame_def)
    from Cons.IH [OF u(3) _ good_map_put [OF Cons.prems(3) eff(3)] ro] Cons.prems(2) None
    have ih: "\<not> e" "frame_set v db (set ns) w1 w'" "ov_users v w' db = ov_users v w1 db" "good_map v db spec m'"
      "\<forall>n \<in> set ns. privs v w' db n = set (spec n)" by auto
    have "n \<notin> set ns" using Cons.prems(2) by simp
    then have "privs v w' db n = set (spec n)" using ih(2) eff(4) by (simp add: frame_set_def)
    with ih eff(2) frame_set_step [OF eff(1) ih(2)] show ?thesis by simp
  next
    case (Some a)
    with u(3) update_loop_errors [OF u(3)] show ?thesis by simp
  qed
qed (simp add: frame_set_def)

lemma password_updates_effect:
  assumes "oracle_contract c v" "good_map v db spec m"
  shows "password_updates c w e m ns = Some (w', False) \<Longrightarrow>
    \<not> e \<and> ov_users v w' db = ov_users v w db \<and> (\<forall>k. privs v w' db k = privs v w db k)"
proof (induction ns arbitrary: w e)
  case (Cons n ns)
  from Cons.prems obtain u w1 err where u: "map_of m n = Some u" "updatePassword c w u = Some (w1, err)"
    "password_updates c w1 (e \<or> err \<noteq> None) m ns = Some (w', False)"
    by (auto split: option.splits prod.splits)
  from Cons.IH [OF u(3)] have ih: "\<not> e" "err = None" "ov_users v w' db = ov_users v w1 db"
    "\<forall>k. privs v w' db k = privs v w1 db k" by auto
  have "databaseName u = db" "userName u = n" "upper db" "upper n"
    using assms(2) u(1) by (auto simp: good_map_def good_user_def core_def)
  then have "runs c db n [QueryAlterUser n (newPassword u)] w w1"
    using run_in_container_runs [of c w u _ "''alter''" w1] u(2) ih(2) by (simp add: updatePassword_def)
  then have eff: "frame v db n w w1" "ov_users v w1 db = ov_users v w db"
    "ov_granted v w1 db n = ov_granted v w db n" "ov_sys v w1 db n = ov_sys v w db n"
    using assms(1) unfolding oracle_contract_def oracle_writes_def by blast+
  then have "privs v w1 db k = privs v w db k" for k
    using frame_other(2) [OF eff(1), of k] by (cases "k = n") (simp_all add: privs_def)
  with ih eff(2) show ?case by simp
qed simp

lemma check_users_effect:
  assumes "oracle_contract c v"
  shows "check_users c w m ns = Some (Inr (m', upd, pwd)) \<Longrightarrow> good_map v db spec m \<Longrightarrow>
    good_map v db spec m' \<and> set upd \<subseteq> set ns \<and> (distinct ns \<longrightarrow> distinct upd) \<and>
    (\<forall>n \<in> set ns. n \<notin> set upd \<longrightarrow> privs v w db n = set (spec n))"
proof (induction ns arbitrary: m m' upd pwd)
  case (Cons n ns)
  from Cons.prems(1) obtain u u1 toGrant toRevoke p upd' pwd' where u: "map_of m n = Some u"
    "user_diff c w u = Some (u1, Inr (toGrant, toRevoke, p))"
    "check_users c w (put n u1 m) ns = Some (Inr (m', upd', pwd'))"
    "upd = (if toGrant \<noteq> [] \<or> toRevoke \<noteq> [] then n # upd' else upd')"
    by (auto split: option.splits sum.splits prod.splits)
  have g: "good_user v db n (spec n) u" using Cons.prems(2) u(1) by (simp add: good_map_def)
  then have "upper (databaseName u)" by (auto simp: good_user_def core_def)
  note d = user_diff_set [OF assms u(2) this]
  have "good_user v db n (spec n) u1" using g d(3) by (simp add: good_user_def)
  from Cons.IH [OF u(3) good_map_put [OF Cons.prems(2) this]]
  have ih: "good_map v db spec m'" "set upd' \<subseteq> set ns" "distinct ns \<longrightarrow> distinct upd'"
    "\<forall>n \<in> set ns. n \<notin> set upd' \<longrightarrow> privs v w db n = set (spec n)" by auto
  have "databaseName u = db" "userName u = n" "specPrivs u = spec n" using g by (auto simp: good_user_def core_def)
  then have "toGrant = [] \<and> toRevoke = [] \<longrightarrow> privs v w db n = set (spec n)" using d(1,2) by auto
  with ih u(4) show ?case by (auto split: if_splits)
qed simp

subsection \<open>Synchronisation\<close>

definition spec_privs :: "User \<Rightarrow> string list" where
  "spec_privs us = filter (\<lambda>p. \<not> Contains_str p '' ON '') (map ToUpper (u_Privileges us))"

lemma upper_ToUpper [simp]: "upper (ToUpper n)"
  by (simp add: upper_def)

text \<open>The map of the specification's users, with different names.\<close>

lemma newUsers_map:
  assumes "distinct (map (\<lambda>us. ToUpper (u_Name us)) specs)"
  shows "map_of (us_nameToUser (newUsers pdb specs)) =
    map_of (map (\<lambda>us. (ToUpper (u_Name us), newUser pdb us)) specs)"
proof -
  have "map_of (fold (\<lambda>us m. put (ToUpper (u_Name us)) (newUser pdb us) m) specs m0) =
      map_of m0 ++ map_of (map (\<lambda>us. (ToUpper (u_Name us), newUser pdb us)) specs)"
    if "distinct (map (\<lambda>us. ToUpper (u_Name us)) specs)" for m0
    using that
  proof (induction specs arbitrary: m0)
    case (Cons us specs)
    then have "map_of (map (\<lambda>us. (ToUpper (u_Name us), newUser pdb us)) specs) (ToUpper (u_Name us)) = None"
      by (auto simp: map_of_eq_None_iff image_image)
    with Cons show ?case by (auto simp: map_add_def fun_eq_iff split: option.splits)
  qed simp
  from this [OF assms, of "[]"] show ?thesis by (simp add: newUsers_def)
qed

lemma users_diff_steps:
  assumes "users_diff c w us = Some (Inr (us', toCreate, toUpdate, toDelete, toUpdatePwd))"
    "oracle_contract c v" "us_databaseName us = db" "upper db" "good_map v db spec (us_nameToUser us)"
  obtains toCheck where
    "set toCreate = fst ` set (us_nameToUser us) - (ov_users v w db - {pdbAdmin})" "distinct toCreate"
    "set toCheck = fst ` set (us_nameToUser us) \<inter> (ov_users v w db - {pdbAdmin})" "distinct toUpdate"
    "set toUpdate \<subseteq> set toCheck" "good_map v db spec (us_nameToUser us')" "set (us_databaseRoles us') = ov_roles v w db"
    "\<forall>n \<in> set toCheck. n \<notin> set toUpdate \<longrightarrow> privs v w db n = set (spec n)"
proof -
  from assms(1) obtain us1 where r: "users_readEnv c w us = Some (Inr us1)"
    by (auto simp: users_diff_def split: option.splits sum.splits)
  then have n: "us_nameToUser us1 = us_nameToUser us" by (auto simp: users_readEnv_def split: option.splits sum.splits)
  have reads: "oracle_reads c v" and el: "set_elements c" using assms(2) by (simp_all add: oracle_contract_def)
  from r reads assms(3,4) have e: "set (us_envUserNames us1) = ov_users v w db - {pdbAdmin}"
    "set (us_databaseRoles us1) = ov_roles v w db"
    by (auto simp: users_readEnv_def oracle_reads_def dest!: queryDB_set [rotated] split: option.splits sum.splits)
  define toCheck where "toCheck = dc_elements c (set (map fst (us_nameToUser us1)) \<inter> set (us_envUserNames us1))"
  have g: "getUsers us1 xs = Inr ys \<Longrightarrow> ys = xs" for xs ys by (auto simp: getUsers_def split: option.splits)
  from assms(1) r obtain m where d: "toCreate = dc_elements c (set (map fst (us_nameToUser us1)) - set (us_envUserNames us1))"
    "check_users c w (us_nameToUser us1) toCheck = Some (Inr (m, toUpdate, toUpdatePwd))" "us' = us1\<lparr>us_nameToUser := m\<rparr>"
    by (auto simp: users_diff_def compare_def toCheck_def dest!: g split: option.splits sum.splits)
  note ch = check_users_effect [OF assms(2) d(2), of db spec, unfolded n, OF assms(5)]
  show thesis
    using el e n d ch by (intro that [of toCheck]) (auto simp: set_elements_def toCheck_def)
qed

text \<open>What the specification asks for, by name.\<close>

definition spec_of :: "string \<Rightarrow> User list \<Rightarrow> string \<Rightarrow> string list" where
  "spec_of pdb specs n =
     (case map_of (us_nameToUser (newUsers pdb specs)) n of None \<Rightarrow> [] | Some u \<Rightarrow> specPrivs u)"

abbreviation spec_names :: "User list \<Rightarrow> string set" where
  "spec_names specs \<equiv> (\<lambda>us. ToUpper (u_Name us)) ` set specs"

lemma newUsers_keys:
  assumes "distinct (map (\<lambda>us. ToUpper (u_Name us)) specs)"
  shows "fst ` set (us_nameToUser (newUsers pdb specs)) = spec_names specs"
  unfolding dom_map_of_conv_image_fst [symmetric] newUsers_map [OF assms]
  by (simp add: dom_map_of_conv_image_fst image_image)

lemma spec_of_spec_privs:
  assumes "distinct (map (\<lambda>us. ToUpper (u_Name us)) specs)" "us \<in> set specs"
  shows "spec_of pdb specs (ToUpper (u_Name us)) = spec_privs us"
proof -
  have "map_of (map (\<lambda>us. (ToUpper (u_Name us), newUser pdb us)) specs) (ToUpper (u_Name us)) = Some (newUser pdb us)"
    using assms by (intro map_of_is_SomeI) (simp_all add: comp_def)
  then show ?thesis by (simp add: spec_of_def newUsers_map [OF assms(1)] newUser_def spec_privs_def)
qed

lemma newUsers_good:
  assumes "distinct (map (\<lambda>us. ToUpper (u_Name us)) specs)" "\<forall>us \<in> set specs. listed v (spec_privs us)"
  shows "good_map v (ToUpper pdb) (spec_of pdb specs) (us_nameToUser (newUsers pdb specs))"
  unfolding good_map_def newUsers_map [OF assms(1)]
proof (intro allI impI)
  fix n u assume "map_of (map (\<lambda>us. (ToUpper (u_Name us), newUser pdb us)) specs) n = Some u"
  then obtain s where s: "s \<in> set specs" "n = ToUpper (u_Name s)" "u = newUser pdb s"
    by (drule_tac map_of_SomeD) auto
  have "spec_of pdb specs n = spec_privs s" using spec_of_spec_privs [OF assms(1) s(1)] s(2) by simp
  moreover have "core u = (ToUpper pdb, n, spec_privs s)"
    unfolding s(2,3) core_def newUser_def spec_privs_def by simp
  moreover have "listed v (spec_privs s)" using assms(2) s(1) by blast
  ultimately show "good_user v (ToUpper pdb) n (spec_of pdb specs n) u" using s(2) by (simp add: good_user_def)
qed

text \<open>The users that are created, those that are updated, and what happens to each.\<close>

lemma UpdateUsers_effect:
  assumes "oracle_contract c v" "UpdateUsers (Inr c) w pdb specs = Some (w', None)"
    "distinct (map (\<lambda>us. ToUpper (u_Name us)) specs)" "\<forall>us \<in> set specs. listed v (spec_privs us)"
  obtains toCreate toUpdate where
    "set toCreate = spec_names specs - (ov_users v w (ToUpper pdb) - {pdbAdmin})"
    "set toUpdate \<subseteq> spec_names specs \<inter> (ov_users v w (ToUpper pdb) - {pdbAdmin})"
    "\<forall>k. k \<notin> set toCreate \<longrightarrow> (k \<in> ov_users v w' (ToUpper pdb) \<longleftrightarrow> k \<in> ov_users v w (ToUpper pdb))"
    "\<forall>k. k \<notin> set toCreate \<longrightarrow> k \<notin> set toUpdate \<longrightarrow> privs v w' (ToUpper pdb) k = privs v w (ToUpper pdb) k"
    "\<forall>k. k \<in> set toCreate \<longrightarrow> k \<notin> set toUpdate \<longrightarrow>
       k \<in> ov_users v w' (ToUpper pdb) \<and> set (spec_of pdb specs k) \<subseteq> privs v w' (ToUpper pdb) k"
    "\<forall>k. k \<in> set toUpdate \<longrightarrow> privs v w' (ToUpper pdb) k = set (spec_of pdb specs k)"
    "\<forall>k. k \<in> spec_names specs \<inter> (ov_users v w (ToUpper pdb) - {pdbAdmin}) \<longrightarrow> k \<notin> set toUpdate \<longrightarrow>
       privs v w (ToUpper pdb) k = set (spec_of pdb specs k)"
proof -
  let ?db = "ToUpper pdb" and ?us = "newUsers pdb specs" and ?spec = "spec_of pdb specs"
  from assms(2) obtain us' toCreate toUpdate toDelete toUpdatePwd w1 e1 w2 m2 e2 where
    d: "users_diff c w ?us = Some (Inr (us', toCreate, toUpdate, toDelete, toUpdatePwd))"
    and l: "create_loop c w False (us_nameToUser us') toCreate = Some (w1, e1)"
      "update_loop c (us_databaseRoles us') w1 e1 (us_nameToUser us') toUpdate = Some (w2, m2, e2)"
      "password_updates c w2 e2 m2 toUpdatePwd = Some (w', False)"
    by (auto simp: UpdateUsers_def update_users_def split: option.splits sum.splits if_splits)
  have "us_databaseName ?us = ?db" by (simp add: newUsers_def)
  from d assms(1) this upper_ToUpper newUsers_good [OF assms(3,4)] obtain toCheck where s:
    "set toCreate = fst ` set (us_nameToUser ?us) - (ov_users v w ?db - {pdbAdmin})" "distinct toCreate"
    "set toCheck = fst ` set (us_nameToUser ?us) \<inter> (ov_users v w ?db - {pdbAdmin})" "distinct toUpdate"
    "set toUpdate \<subseteq> set toCheck" "good_map v ?db ?spec (us_nameToUser us')" "set (us_databaseRoles us') = ov_roles v w ?db"
    "\<forall>n \<in> set toCheck. n \<notin> set toUpdate \<longrightarrow> privs v w ?db n = set (?spec n)"
    by (rule users_diff_steps)
  note keys = newUsers_keys [OF assms(3), of pdb]
  have e2: "\<not> e2" and e1: "\<not> e1"
    using password_updates_errors [OF l(3)] update_loop_errors [OF l(2)] by blast+
  note c = create_loop_effect [OF assms(1) s(6) l(1) [simplified e1] s(2)]
  have ro: "set (us_databaseRoles us') = ov_roles v w1 ?db" using c s(7) by (simp add: frame_set_def)
  note u = update_loop_effect [OF assms(1) l(2) [simplified e2] s(4,6) ro]
  have p: "ov_users v w' ?db = ov_users v w2 ?db" "privs v w' ?db k = privs v w2 ?db k" for k
    using password_updates_effect [OF assms(1) _ l(3)] u by blast+
  show thesis
    by (rule that [of toCreate toUpdate]) (use s keys p u c in \<open>auto simp: frame_set_def\<close>)
qed

lemma update_users_implements:
  assumes "oracle_contract c v" and "UpdateUsers (Inr c) w pdb specs = Some (w', None)"
    and "distinct (map (\<lambda>us. ToUpper (u_Name us)) specs)" and "\<forall>us \<in> set specs. listed v (spec_privs us)"
    and "us \<in> set specs" and "ToUpper (u_Name us) \<noteq> pdbAdmin"
  shows "ToUpper (u_Name us) \<in> ov_users v w' (ToUpper pdb) \<and>
    set (spec_privs us) \<subseteq> privs v w' (ToUpper pdb) (ToUpper (u_Name us)) \<and>
    (ToUpper (u_Name us) \<in> ov_users v w (ToUpper pdb) \<longrightarrow>
       privs v w' (ToUpper pdb) (ToUpper (u_Name us)) = set (spec_privs us)) \<and>
    (\<forall>k. k \<notin> spec_names specs \<longrightarrow>
       (k \<in> ov_users v w' (ToUpper pdb) \<longleftrightarrow> k \<in> ov_users v w (ToUpper pdb)) \<and>
       privs v w' (ToUpper pdb) k = privs v w (ToUpper pdb) k)"
proof -
  let ?n = "ToUpper (u_Name us)" and ?db = "ToUpper pdb"
  from assms(1-4) obtain toCreate toUpdate where e:
    "set toCreate = spec_names specs - (ov_users v w ?db - {pdbAdmin})"
    "set toUpdate \<subseteq> spec_names specs \<inter> (ov_users v w ?db - {pdbAdmin})"
    "\<forall>k. k \<notin> set toCreate \<longrightarrow> (k \<in> ov_users v w' ?db \<longleftrightarrow> k \<in> ov_users v w ?db)"
    "\<forall>k. k \<notin> set toCreate \<longrightarrow> k \<notin> set toUpdate \<longrightarrow> privs v w' ?db k = privs v w ?db k"
    "\<forall>k. k \<in> set toCreate \<longrightarrow> k \<notin> set toUpdate \<longrightarrow>
       k \<in> ov_users v w' ?db \<and> set (spec_of pdb specs k) \<subseteq> privs v w' ?db k"
    "\<forall>k. k \<in> set toUpdate \<longrightarrow> privs v w' ?db k = set (spec_of pdb specs k)"
    "\<forall>k. k \<in> spec_names specs \<inter> (ov_users v w ?db - {pdbAdmin}) \<longrightarrow> k \<notin> set toUpdate \<longrightarrow>
       privs v w ?db k = set (spec_of pdb specs k)"
    by (rule UpdateUsers_effect)
  have n: "?n \<in> spec_names specs" using assms(5) by simp
  have sp: "spec_of pdb specs ?n = spec_privs us" by (rule spec_of_spec_privs [OF assms(3,5)])
  have others: "(k \<in> ov_users v w' ?db \<longleftrightarrow> k \<in> ov_users v w ?db) \<and> privs v w' ?db k = privs v w ?db k"
    if "k \<notin> spec_names specs" for k
    using that e(1-4) by blast
  show ?thesis
  proof (cases "?n \<in> ov_users v w ?db")
    case True
    then have ch: "?n \<in> spec_names specs \<inter> (ov_users v w ?db - {pdbAdmin})" "?n \<notin> set toCreate"
      using n e(1) assms(6) by auto
    then have "privs v w' ?db ?n = set (spec_of pdb specs ?n)"
      using e(4,6,7) by (cases "?n \<in> set toUpdate") auto
    with True e(3) ch(2) sp others show ?thesis by simp
  next
    case False
    then have cr: "?n \<in> set toCreate" "?n \<notin> set toUpdate" using n e(1,2) by auto
    then have "?n \<in> ov_users v w' ?db" "set (spec_privs us) \<subseteq> privs v w' ?db ?n" using e(5) sp by metis+
    with False others show ?thesis by simp
  qed
qed

lemma users_unchanged_synced:
  assumes "oracle_contract c v" "users_changed c w pdb specs = Some (Inr (False, supp))"
    "distinct (map (\<lambda>us. ToUpper (u_Name us)) specs)" "\<forall>us \<in> set specs. listed v (spec_privs us)"
    "us \<in> set specs"
  shows "ToUpper (u_Name us) \<in> ov_users v w (ToUpper pdb)"
    "privs v w (ToUpper pdb) (ToUpper (u_Name us)) = set (spec_privs us)"
proof -
  let ?db = "ToUpper pdb" and ?us = "newUsers pdb specs" and ?n = "ToUpper (u_Name us)"
  from assms(2) obtain us' toCreate toUpdate toDelete toUpdatePwd where
    d: "users_diff c w ?us = Some (Inr (us', toCreate, toUpdate, toDelete, toUpdatePwd))"
    and e: "toCreate = []" "toUpdate = []"
    by (auto simp: users_changed_def Let_def split: option.splits sum.splits)
  have "us_databaseName ?us = ?db" by (simp add: newUsers_def)
  from d assms(1) this upper_ToUpper newUsers_good [OF assms(3,4)] obtain toCheck where s:
    "set toCreate = fst ` set (us_nameToUser ?us) - (ov_users v w ?db - {pdbAdmin})" "distinct toCreate"
    "set toCheck = fst ` set (us_nameToUser ?us) \<inter> (ov_users v w ?db - {pdbAdmin})" "distinct toUpdate"
    "set toUpdate \<subseteq> set toCheck" "good_map v ?db (spec_of pdb specs) (us_nameToUser us')"
    "set (us_databaseRoles us') = ov_roles v w ?db"
    "\<forall>n \<in> set toCheck. n \<notin> set toUpdate \<longrightarrow> privs v w ?db n = set (spec_of pdb specs n)"
    by (rule users_diff_steps)
  have n: "?n \<in> fst ` set (us_nameToUser ?us)" unfolding newUsers_keys [OF assms(3)] using assms(5) by simp
  then have "?n \<in> ov_users v w ?db - {pdbAdmin}" using s(1) e(1) by auto
  with n s(3,8) e(2) show "?n \<in> ov_users v w ?db" "privs v w ?db ?n = set (spec_privs us)"
    by (auto simp: spec_of_spec_privs [OF assms(3,5)])
qed

text \<open>
  C8: the users of a database are brought in line with the specification. If \<open>UpdateUsers\<close> reports no
  error, then every user of the specification exists afterwards; one that existed before has exactly the
  privileges and roles specified (object privileges left out), also when roles bring system privileges
  with them; a new one has at least those; and users that are not specified keep theirs.
\<close>

theorem UpdateUsers_syncs:
  assumes "oracle_contract c v" and "UpdateUsers (Inr c) w pdb specs = Some (w', None)"
    and "distinct (map (\<lambda>us. ToUpper (u_Name us)) specs)" and "\<forall>us \<in> set specs. listed v (spec_privs us)"
    and "us \<in> set specs" and "ToUpper (u_Name us) \<noteq> pdbAdmin"
  shows "ToUpper (u_Name us) \<in> ov_users v w' (ToUpper pdb) \<and>
    set (spec_privs us) \<subseteq> privs v w' (ToUpper pdb) (ToUpper (u_Name us)) \<and>
    (ToUpper (u_Name us) \<in> ov_users v w (ToUpper pdb) \<longrightarrow>
       privs v w' (ToUpper pdb) (ToUpper (u_Name us)) = set (spec_privs us)) \<and>
    (\<forall>k. k \<notin> spec_names specs \<longrightarrow>
       (k \<in> ov_users v w' (ToUpper pdb) \<longleftrightarrow> k \<in> ov_users v w (ToUpper pdb)) \<and>
       privs v w' (ToUpper pdb) k = privs v w (ToUpper pdb) k)"
  by (rule update_users_implements [OF assms])

subsection \<open>A database\<close>

text \<open>A database with one user, who lacks a privilege; the state says whether it has been granted.\<close>

abbreviation demo_set :: string where "demo_set \<equiv> ''alter session set container='' @ [dquote] @ ''PDB1'' @ [dquote]"
abbreviation demo_grant :: string where
  "demo_grant \<equiv> ''grant '' @ ''CREATE SESSION'' @ '' to '' @ [dquote] @ ''SCOTT'' @ [dquote]"

definition demo_client :: "bool db_client" where
  "demo_client =
     \<lparr>dc_run = (\<lambda>w sqls. if \<not> w \<and> sqls = [demo_set, demo_grant] then (True, None) else (w, Some (Errorf ''ORA-00900''))),
      dc_query = (\<lambda>w sqls.
        if sqls = [demo_set, users_sql] then Inr [''U'']
        else if sqls = [demo_set, ''select role from dba_roles''] then Inr []
        else if sqls = [demo_set, sys_privs_sql ''SCOTT''] then Inr (if w then [''P''] else [])
        else if sqls = [demo_set, role_privs_sql ''SCOTT''] then Inr []
        else Inl (Errorf ''ORA-00942'')),
      dc_unmarshal = (\<lambda>msg. Inr (if msg = ''U'' then [''USERNAME'' \<mapsto> ''SCOTT''] else [''PRIVILEGE'' \<mapsto> ''CREATE SESSION''])),
      dc_secret = (\<lambda>_ _. Inl (Errorf ''no secret'')),
      dc_elements = sorted_list_of_set\<rparr>"

definition demo_view :: "bool ora_view" where
  "demo_view =
     \<lparr>ov_users = (\<lambda>w db. if db = ''PDB1'' then {''SCOTT''} else {}),
      ov_roles = (\<lambda>w db. {}),
      ov_sys = (\<lambda>w db n. if w \<and> db = ''PDB1'' \<and> n = ''SCOTT'' then {''CREATE SESSION''} else {}),
      ov_granted = (\<lambda>w db n. {}), ov_names = {''CREATE SESSION''}\<rparr>"

definition demo_user :: User where
  "demo_user = \<lparr>u_Name = ''scott'', u_Password = ''tiger'', u_Privileges = [''create session''],
     u_PasswordGsmSecretRef = None, u_LastPassword = ''tiger''\<rparr>"

lemma quoted_inj: "quoted s = quoted t \<longleftrightarrow> s = t"
proof
  assume "quoted s = quoted t"
  then have "StringParam s @ [squote] = StringParam t @ [squote]" by (simp add: quoted_def)
  then have "read_string (StringParam s @ squote # []) = read_string (StringParam t @ squote # [])" by simp
  then show "s = t" using read_string_StringParam [of "[]" s] read_string_StringParam [of "[]" t]
    by (simp add: starts_squote_def)
qed simp

lemma set_container_PDB1: "QuerySetSessionContainer db = Some demo_set \<Longrightarrow> upper db \<Longrightarrow> db = ''PDB1''"
  by (auto simp: QuerySetSessionContainer_def MustBeObjectName_def ObjectName_def Identifier_def upper_def
      split: sum.splits if_splits)

lemma append_delimiter:
  "d \<notin> set a \<Longrightarrow> d \<notin> set b \<Longrightarrow> a @ d # s = b @ d # t \<Longrightarrow> a = b \<and> s = t"
proof (induction a arbitrary: b)
  case Nil
  then show ?case by (cases b) auto
next
  case (Cons x a)
  then show ?case by (cases b) auto
qed

lemma demo_grant_unique:
  assumes "QueryGrantPrivileges p n = Some demo_grant" "upper n"
  shows "p = ''CREATE SESSION''" "n = ''SCOTT''"
proof -
  from assms have e: "''grant '' @ p @ '' to '' @ [dquote] @ n @ [dquote] = demo_grant" and p: "IsPrivilege p"
    by (auto simp: QueryGrantPrivileges_def bind2_Some mustBePrivilege_def MustBeObjectName_def ObjectName_def
        Identifier_def upper_def split: if_splits)
  from e have e1: "(p @ '' to '') @ dquote # (n @ [dquote]) =
      (''CREATE SESSION'' @ '' to '') @ dquote # (''SCOTT'' @ [dquote])"
    by simp
  have "dquote \<notin> set (p @ '' to '')" using p by (auto simp: IsPrivilege_def list_all_iff is_letter_def)
  from append_delimiter [OF this _ e1]
  have "p @ '' to '' = ''CREATE SESSION'' @ '' to ''" "n @ [dquote] = ''SCOTT'' @ [dquote]" by simp_all
  then show "p = ''CREATE SESSION''" "n = ''SCOTT''" by (simp_all only: append_same_eq)
qed

lemma demo_runs:
  assumes "runs demo_client db n cmds w w'"
  shows "\<not> w \<and> w' \<and> db = ''PDB1'' \<and> upper n \<and> cmds = [Some demo_grant]"
proof -
  from assms obtain sqls where s: "upper db" "upper n" "all_some (QuerySetSessionContainer db # cmds) = Some sqls"
    "\<not> w" "w'" "sqls = [demo_set, demo_grant]"
    by (auto simp: runs_def demo_client_def split: if_splits)
  from s(3,6) have "QuerySetSessionContainer db = Some demo_set" "cmds = [Some demo_grant]"
    by (cases "QuerySetSessionContainer db"; cases cmds; cases "hd cmds"; cases "tl cmds"; cases "hd (tl cmds)"; auto)+
  with s set_container_PDB1 show ?thesis by blast
qed

lemma demo_statements:
  "sys_privs_sql n = sys_privs_sql k \<longleftrightarrow> n = k" "role_privs_sql n = role_privs_sql k \<longleftrightarrow> n = k"
  "sys_privs_sql n \<noteq> users_sql" "role_privs_sql n \<noteq> users_sql" "sys_privs_sql n \<noteq> role_privs_sql k"
  "sys_privs_sql n \<noteq> ''select role from dba_roles''" "role_privs_sql n \<noteq> ''select role from dba_roles''"
  "users_sql \<noteq> ''select role from dba_roles''"
  by (simp_all add: sys_privs_sql_def role_privs_sql_def quoted_inj)

lemma demo_answers:
  assumes "upper db" "dc_query demo_client w [demo_set, sql] = r" "\<forall>resp rows. db = ''PDB1'' \<longrightarrow> r = Inr resp \<longrightarrow>
    parseSQLResponse demo_client resp = Inr rows \<longrightarrow>
    (\<forall>row \<in> set rows. row key \<noteq> None) \<and> {x. \<exists>row \<in> set rows. row key = Some x} = S"
  shows "answers demo_client w db sql key S"
  unfolding answers_def
proof (intro allI impI)
  fix setc resp rows
  assume a: "QuerySetSessionContainer db = Some setc" "dc_query demo_client w [setc, sql] = Inr resp"
    "parseSQLResponse demo_client resp = Inr rows"
  then have "setc = demo_set" by (simp add: demo_client_def split: if_splits)
  with a assms set_container_PDB1 [of db] show
    "(\<forall>row \<in> set rows. row key \<noteq> None) \<and> {x. \<exists>row \<in> set rows. row key = Some x} = S"
    by blast
qed

lemma demo_query:
  "dc_query demo_client w [demo_set, users_sql] = Inr [''U'']"
  "dc_query demo_client w [demo_set, ''select role from dba_roles''] = Inr []"
  "dc_query demo_client w [demo_set, sys_privs_sql n] =
     (if n = ''SCOTT'' then Inr (if w then [''P''] else []) else Inl (Errorf ''ORA-00942''))"
  "dc_query demo_client w [demo_set, role_privs_sql n] = (if n = ''SCOTT'' then Inr [] else Inl (Errorf ''ORA-00942''))"
  unfolding demo_client_def db_client.simps by (simp_all only: demo_statements not_sym [OF demo_statements(5)] list.inject refl simp_thms if_True if_False
     not_sym [OF demo_statements(8)])

lemma demo_rows:
  "parseSQLResponse demo_client [] = Inr []"
  "parseSQLResponse demo_client [''U''] = Inr [[''USERNAME'' \<mapsto> ''SCOTT'']]"
  "parseSQLResponse demo_client [''P''] = Inr [[''PRIVILEGE'' \<mapsto> ''CREATE SESSION'']]"
  by (simp_all add: demo_client_def)

lemma demo_reads: "oracle_reads demo_client demo_view"
  unfolding oracle_reads_def
proof (intro allI impI conjI)
  fix w :: bool and db n assume u: "upper db"
  show "answers demo_client w db users_sql ''USERNAME'' (ov_users demo_view w db)"
    by (rule demo_answers [OF u demo_query(1)]) (auto simp: demo_rows demo_view_def simp del: parseSQLResponse.simps)
  show "answers demo_client w db ''select role from dba_roles'' ''ROLE'' (ov_roles demo_view w db)"
    by (rule demo_answers [OF u demo_query(2)]) (auto simp: demo_rows demo_view_def simp del: parseSQLResponse.simps)
  show "answers demo_client w db (sys_privs_sql n) ''PRIVILEGE'' (ov_sys demo_view w db n)"
    by (rule demo_answers [OF u demo_query(3)])
      (auto simp: demo_rows demo_view_def simp del: parseSQLResponse.simps split: if_splits)
  show "answers demo_client w db (role_privs_sql n) ''GRANTED_ROLE'' (ov_granted demo_view w db n)"
    by (rule demo_answers [OF u demo_query(4)])
      (auto simp: demo_rows demo_view_def simp del: parseSQLResponse.simps split: if_splits)
qed

lemma demo_revoke: "QueryRevokePrivileges p n \<noteq> Some demo_grant"
  by (auto simp: QueryRevokePrivileges_def bind2_Some)

lemma demo_alter: "QueryAlterUser n pw \<noteq> Some demo_grant" "QueryCreateUser n pw \<noteq> Some demo_grant"
  by (auto simp: QueryAlterUser_def QueryCreateUser_def bind2_Some)

lemma demo_writes: "oracle_writes demo_client demo_view"
proof -
  have g: "\<not> w \<and> w' \<and> db = ''PDB1'' \<and> n = ''SCOTT'' \<and> ps = [''CREATE SESSION'']"
    if "runs demo_client db n (grants n ps) w w'" for db n ps w w'
  proof -
    from demo_runs [OF that] obtain p where "ps = [p]" "QueryGrantPrivileges p n = Some demo_grant" "upper n"
      "\<not> w" "w'" "db = ''PDB1''"
      by (auto simp: grants_def)
    with demo_grant_unique show ?thesis by blast
  qed
  have r: "\<not> runs demo_client db n (revokes n ps) w w'" for db n ps w w'
    using demo_runs [of db n "revokes n ps" w w'] demo_revoke by (auto simp: revokes_def simp del: append.simps)
  have a: "\<not> runs demo_client db n [QueryAlterUser n pw] w w'" "\<not> runs demo_client db n (QueryCreateUser n pw # cs) w w'"
    for db n pw cs w w'
    using demo_runs demo_alter by blast+
  show ?thesis
    unfolding oracle_writes_def
  proof (intro conjI allI impI)
    fix db n ps and w w' :: bool assume x: "runs demo_client db n (grants n ps) w w'"
    note e = g [OF x]
    then show "frame demo_view db n w w'" "ov_users demo_view w' db = ov_users demo_view w db"
      "ov_granted demo_view w' db n = ov_granted demo_view w db n \<union> (set ps \<inter> ov_roles demo_view w db)"
      "ov_sys demo_view w' db n = ov_sys demo_view w db n \<union> set ps"
      by (auto simp: frame_def demo_view_def)
  qed (use r a in blast)+
qed

lemma demo_contract: "oracle_contract demo_client demo_view"
  unfolding oracle_contract_def
proof (intro conjI demo_reads demo_writes)
  have "upper ''CREATE SESSION''" by code_simp
  then show "oracle_names demo_view" by (simp add: oracle_names_def demo_view_def privs_def)
  show "set_elements demo_client" by (simp add: set_elements_def demo_client_def)
qed

lemma demo_update: "UpdateUsers (Inr demo_client) False ''pdb1'' [demo_user] = Some (True, None)"
  by code_simp

theorem UpdateUsers_syncs_witness:
  "privs demo_view False ''PDB1'' ''SCOTT'' = {} \<and> privs demo_view True ''PDB1'' ''SCOTT'' = {''CREATE SESSION''}"
proof -
  have s: "ToUpper (u_Name demo_user) = ''SCOTT''" "ToUpper ''pdb1'' = ''PDB1''" "spec_privs demo_user = [''CREATE SESSION'']"
    "pdbAdmin \<noteq> ''SCOTT''" "listed demo_view (spec_privs demo_user)"
    by code_simp+
  have "''SCOTT'' \<in> ov_users demo_view False ''PDB1''" by (simp add: demo_view_def)
  then have "privs demo_view True ''PDB1'' ''SCOTT'' = set (spec_privs demo_user)"
    using UpdateUsers_syncs [OF demo_contract demo_update, of demo_user] s by auto
  then show ?thesis unfolding s(3) by (simp add: privs_def demo_view_def)
qed

end
