(* ===== verification/DatabaseLaws.thy ===== *)
theory DatabaseLaws
  imports Database UsersSync
begin

text \<open>
  What the helpers and the database controller achieve: the users of a database are in line with the
  specification when the controller says so, a database is created once, the reported SCN of a backup
  is the largest one read, and the places where the status does not say what has happened.
\<close>

subsection \<open>Users\<close>

text \<open>The API server's calls leave the database alone, and the daemon is the Oracle database of the view.\<close>

definition same_view :: "'w ora_view \<Rightarrow> 'w \<Rightarrow> 'w \<Rightarrow> bool" where
  "same_view v w w' \<longleftrightarrow> ov_users v w' = ov_users v w \<and> ov_sys v w' = ov_sys v w \<and> ov_granted v w' = ov_granted v w"

definition users_contract :: "'w db_env \<Rightarrow> 'w ora_view \<Rightarrow> bool" where
  "users_contract env v \<longleftrightarrow>
     (\<forall>w k r m. same_view v w (de_Event env w k r m)) \<and> (\<forall>w db. same_view v w (fst (de_StatusUpdate env w db))) \<and>
     (\<forall>w d. opened (de_New env w) = Inr d \<longrightarrow> oracle_contract (d_client d) v)"

lemma same_view_trans: "same_view v w w1 \<Longrightarrow> same_view v w1 w2 \<Longrightarrow> same_view v w w2"
  by (simp add: same_view_def)

lemma same_view_privs: "same_view v w w' \<Longrightarrow> privs v w' = privs v w"
  by (simp add: same_view_def privs_def fun_eq_iff)

lemma user_ready_after:
  "ConditionStatusEquals (FindCondition (dst_Conditions (db_Status (updateIsChangeApplied_db db))) n) st =
   ConditionStatusEquals (FindCondition (dst_Conditions (db_Status db)) n) st"
  by (simp add: updateIsChangeApplied_db_def Let_def)

lemma finish_sync_effect:
  assumes "users_contract env v" "finish_sync env w db versions supp = (w', db', err)"
  shows "same_view v w w'"
    "ConditionStatusEquals (FindCondition (dst_Conditions (db_Status db')) k8s_UserReady) ConditionTrue \<longleftrightarrow> supp = []"
proof -
  have ev: "same_view v w (de_Event env w k r m)" for k r m using assms(1) by (simp add: users_contract_def)
  have su: "same_view v w1 w2" if "de_StatusUpdate env w1 x = (w2, e)" for w1 x w2 e
    using assms(1) that unfolding users_contract_def by (metis fst_conv)
  show "same_view v w w'"
    using assms(2) by (cases supp) (auto simp: finish_sync_def Let_def intro: same_view_trans [OF ev su] split: prod.splits)
  show "ConditionStatusEquals (FindCondition (dst_Conditions (db_Status db')) k8s_UserReady) ConditionTrue \<longleftrightarrow> supp = []"
    using assms(2)
    by (auto simp: finish_sync_def Let_def user_ready_after set_names_def set_versions_def db_upsert_def split: prod.splits if_splits)
qed

lemma sync_spec_fields [simp]:
  "u_Name (sync_spec m u) = usp_Name u" "u_Privileges (sync_spec m u) = usp_Privileges u"
  by (simp_all add: sync_spec_def)

lemma spec_privs_sync [simp]: "spec_privs (sync_spec m u) = filter (\<lambda>p. \<not> Contains_str p '' ON '') (map ToUpper (usp_Privileges u))"
  by (simp add: spec_privs_def)

text \<open>The privileges a user of the specification is to have; object privileges are not managed.\<close>

definition wanted_privs :: "UserSpec \<Rightarrow> string set" where
  "wanted_privs u = {p. \<exists>q \<in> set (usp_Privileges u). p = ToUpper q \<and> \<not> Contains_str p '' ON ''}"

lemma wanted_privs_sync: "set (spec_privs (sync_spec m u)) = wanted_privs u"
  by (auto simp: wanted_privs_def)

lemma users_conn_Inr: "users_conn conn = Inr c \<Longrightarrow> \<exists>d. opened conn = Inr d \<and> c = d_client d"
  by (cases "opened conn") (auto simp: users_conn_def)

text \<open>
  The controller's word on the users of a database can be relied on. When \<open>SyncUsers\<close> ends without an
  error and reports the users as ready, every user of the specification exists in the database and has
  at least the privileges specified, whether users had to be created or updated or nothing had to be
  done.
\<close>

theorem SyncUsers_ready_means_synced:
  assumes "users_contract env v" and "SyncUsers env w db = Some (w', db', None)"
    and "ConditionStatusEquals (FindCondition (dst_Conditions (db_Status db')) k8s_UserReady) ConditionTrue"
    and "distinct (map (\<lambda>u. ToUpper (usp_Name u)) (dbs_Users (db_Spec db)))"
    and "\<forall>u \<in> set (dbs_Users (db_Spec db)). wanted_privs u \<subseteq> ov_names v"
    and "u \<in> set (dbs_Users (db_Spec db))" and "ToUpper (usp_Name u) \<noteq> pdbAdmin"
  shows "ToUpper (usp_Name u) \<in> ov_users v w' (ToUpper (dbs_Name (db_Spec db))) \<and>
    wanted_privs u \<subseteq> privs v w' (ToUpper (dbs_Name (db_Spec db))) (ToUpper (usp_Name u))"
proof -
  let ?name = "dbs_Name (db_Spec db)" and ?m = "dst_UserResourceVersions (db_Status db)"
  let ?us = "map (sync_spec ?m) (dbs_Users (db_Spec db))" and ?s = "sync_spec ?m u"
  define w0 where "w0 = de_Event env w NormalEvent ''Syncing'' (''Syncing users for database '' @ ?name)"
  have spec: "distinct (map (\<lambda>us. ToUpper (u_Name us)) ?us)" "\<forall>us \<in> set ?us. listed v (spec_privs us)" "?s \<in> set ?us"
    using assms(4-6) by (simp_all add: comp_def listed_def wanted_privs_sync del: spec_privs_sync)
  from assms(2) obtain changed supp where uc: "UsersChanged (users_conn (de_New env w0)) w0 ?name ?us = Some (Inr (changed, supp))"
    by (auto simp: SyncUsers_def Let_def w0_def split: option.splits sum.splits)
  then obtain c where c: "users_conn (de_New env w0) = Inr c" "users_changed c w0 ?name ?us = Some (Inr (changed, supp))"
    by (auto simp: UsersChanged_def split: sum.splits)
  have oc: "oracle_contract c v" if "users_conn (de_New env w1) = Inr c" for w1 c
    using users_conn_Inr [OF that] assms(1) unfolding users_contract_def by blast
  have "\<exists>w2 db2. finish_sync env w2 db2 (user_versions (dbs_Users (db_Spec db)) (admin_entry db)) supp = (w', db', None) \<and>
      ToUpper (u_Name ?s) \<in> ov_users v w2 (ToUpper ?name) \<and> set (spec_privs ?s) \<subseteq> privs v w2 (ToUpper ?name) (ToUpper (u_Name ?s))"
  proof (cases changed)
    case False
    have "finish_sync env w0 db (user_versions (dbs_Users (db_Spec db)) (admin_entry db)) supp = (w', db', None)"
      using assms(2) uc False by (auto simp: SyncUsers_def Let_def w0_def)
    moreover have "users_changed c w0 ?name ?us = Some (Inr (False, supp))" using c(2) False by simp
    ultimately show ?thesis using users_unchanged_synced [OF oc [OF c(1)] _ spec] by blast
  next
    case True
    then obtain w1 w2 db1 where "UpdateUsers (users_conn (de_New env w1)) w1 ?name ?us = Some (w2, None)"
      and f: "finish_sync env w2 db1 (user_versions (dbs_Users (db_Spec db)) (admin_entry db)) supp = (w', db', None)"
      using assms(2) uc by (auto simp: SyncUsers_def Let_def w0_def split: option.splits prod.splits)
    then obtain c1 where u1: "users_conn (de_New env w1) = Inr c1" "UpdateUsers (Inr c1) w1 ?name ?us = Some (w2, None)"
      by (cases "users_conn (de_New env w1)") (auto simp: UpdateUsers_def)
    have "ToUpper (u_Name ?s) \<noteq> pdbAdmin" using assms(7) by simp
    from update_users_implements [OF oc [OF u1(1)] u1(2) spec this] f show ?thesis by blast
  qed
  then obtain w2 db2 where f: "finish_sync env w2 db2 (user_versions (dbs_Users (db_Spec db)) (admin_entry db)) supp = (w', db', None)"
    and r: "ToUpper (usp_Name u) \<in> ov_users v w2 (ToUpper ?name)"
      "set (spec_privs ?s) \<subseteq> privs v w2 (ToUpper ?name) (ToUpper (usp_Name u))" by (auto simp del: spec_privs_sync)
  note e = finish_sync_effect(1) [OF assms(1) f]
  from r same_view_privs [OF e] e show ?thesis unfolding wanted_privs_sync by (simp add: same_view_def)
qed

subsection \<open>A controller on the sample database\<close>

definition demo_daemon :: "bool daemon" where
  "demo_daemon =
     \<lparr>d_client = demo_client, d_RunSQLPlusFormatted = (\<lambda>w _. (w, Inr [])), d_range = (\<lambda>_. []),
      d_CheckDatabaseState = (\<lambda>_ _ _. None), d_CreateDirs = (\<lambda>w _. (w, None)), d_BounceDatabase = (\<lambda>w _. (w, None)),
      d_RecoverConfigFile = (\<lambda>w _. (w, None)), d_FileExists = (\<lambda>_ _. Inr True), d_CreateFile = (\<lambda>w _. (w, None)),
      d_CreateListener = (\<lambda>w _. (w, None)), d_CreateCDBAsync = (\<lambda>w _. (w, Inr done_operation)),
      d_BootstrapDatabaseAsync = (\<lambda>w _ _ _. (w, Inr done_operation)), d_bootstrap_unseeded = (\<lambda>w _ _ _. (w, None)),
      d_RunRMAN = (\<lambda>w _. (w, Inr []))\<rparr>"

definition demo_user_spec :: UserSpec where
  "demo_user_spec = \<lparr>usp_Name = ''scott'', usp_Password = ''tiger'', usp_GsmSecretRef = None, usp_Privileges = [''create session'']\<rparr>"

definition demo_database :: Database where
  "demo_database =
     \<lparr>db_Name = ''pdb1'', db_Namespace = ''db'', db_Generation = 1, db_DeletionTimestamp = None, db_Finalizers = [FinalizerName],
      db_Spec = \<lparr>dbs_Instance = ''mydb'', dbs_Name = ''pdb1'', dbs_AdminPassword = ''secret'', dbs_AdminPasswordGsmSecretRef = None,
        dbs_Users = [demo_user_spec]\<rparr>,
      db_Status = \<lparr>dst_Phase = [], dst_Conditions = [], dst_UserNames = [], dst_UserResourceVersions = None,
        dst_ObservedGeneration = 0, dst_IsChangeApplied = None\<rparr>\<rparr>"

definition demo_db_env :: "bool db_env" where
  "demo_db_env =
     \<lparr>de_GetDatabase = (\<lambda>_. Inr demo_database), de_GetInstance = (\<lambda>_ _. Inl (Errorf ''not found'')),
      de_ListPods = (\<lambda>_ _. Inr []), de_GetService = (\<lambda>_ _. Inr []), de_Update = (\<lambda>w db. (w, Inr db)),
      de_StatusUpdate = (\<lambda>w _. (w, None)), de_InstanceStatusUpdate = (\<lambda>w _. (w, None)), de_Event = (\<lambda>w _ _ _. w),
      de_now = (\<lambda>_. 0), de_New = (\<lambda>_. Conn demo_daemon), de_secret = (\<lambda>_ _. Inl (Errorf ''no secret'')),
      de_hostname = Inr ''host''\<rparr>"

lemma demo_users_contract: "users_contract demo_db_env demo_view"
  by (simp add: users_contract_def demo_db_env_def same_view_def opened_def demo_daemon_def demo_contract)

lemma demo_sync:
  "case SyncUsers demo_db_env False demo_database of
     Some (w', db', None) \<Rightarrow> w' \<and>
       ConditionStatusEquals (FindCondition (dst_Conditions (db_Status db')) k8s_UserReady) ConditionTrue
   | _ \<Rightarrow> False"
  by code_simp

theorem SyncUsers_ready_means_synced_witness:
  "privs demo_view False ''PDB1'' ''SCOTT'' = {} \<and> ''CREATE SESSION'' \<in> privs demo_view True ''PDB1'' ''SCOTT''"
proof -
  from demo_sync obtain db' where s: "SyncUsers demo_db_env False demo_database = Some (True, db', None)"
    "ConditionStatusEquals (FindCondition (dst_Conditions (db_Status db')) k8s_UserReady) ConditionTrue"
    by (auto split: option.splits prod.splits)
  let ?u = demo_user_spec
  have e: "ToUpper (usp_Name ?u) = ''SCOTT''" "ToUpper (dbs_Name (db_Spec demo_database)) = ''PDB1''"
    "pdbAdmin \<noteq> ''SCOTT''"
    "ToUpper ''create session'' = ''CREATE SESSION''" "\<not> Contains_str ''CREATE SESSION'' '' ON ''"
    by code_simp+
  have us: "dbs_Users (db_Spec demo_database) = [?u]" by (simp add: demo_database_def)
  have "''CREATE SESSION'' \<in> wanted_privs ?u" unfolding wanted_privs_def using e(4,5)
    by (auto simp: demo_user_spec_def)
  moreover have "wanted_privs ?u \<subseteq> ov_names demo_view"
    unfolding wanted_privs_def using e(4) by (auto simp: demo_user_spec_def demo_view_def)
  then have "wanted_privs ?u \<subseteq> privs demo_view True ''PDB1'' ''SCOTT''"
    using SyncUsers_ready_means_synced [OF demo_users_contract s, of ?u] e us by auto
  ultimately show ?thesis by (auto simp: privs_def demo_view_def)
qed

subsection \<open>The metadata of a backup\<close>

text \<open>The SCNs in the fifth column of the lines two below a header.\<close>

definition next_scns :: "string list \<Rightarrow> int set" where
  "next_scns ls = {v. \<exists>i. i + 2 < length ls \<and> Contains_str (ls ! i) ''Next SCN'' \<and> ParseInt (Fields (ls ! (i + 2)) ! 4) = Inr v}"

lemma next_scns_short [simp]: "next_scns [a, b] = {}"
  by (simp add: next_scns_def)

lemma next_scns_step:
  "next_scns (a # b # l # ls) =
     (if Contains_str a ''Next SCN'' then {v. ParseInt (Fields l ! 4) = Inr v} else {}) \<union> next_scns (b # l # ls)"
proof -
  have "(\<exists>i. Q i) \<longleftrightarrow> Q 0 \<or> (\<exists>i. Q (Suc i))" for Q :: "nat \<Rightarrow> bool" by (metis nat.exhaust)
  from this [of "\<lambda>i. i + 2 < length (a # b # l # ls) \<and> Contains_str ((a # b # l # ls) ! i) ''Next SCN'' \<and>
      ParseInt (Fields ((a # b # l # ls) ! (i + 2)) ! 4) = Inr v" for v]
  show ?thesis unfolding next_scns_def by auto
qed

lemma next_scns_finite: "finite (next_scns ls)"
proof -
  have "next_scns ls \<subseteq> (\<lambda>i. case ParseInt (Fields (ls ! (i + 2)) ! 4) of Inr v \<Rightarrow> v | Inl _ \<Rightarrow> 0) ` {..< length ls}"
    (is "_ \<subseteq> ?f ` _")
  proof
    fix v assume "v \<in> next_scns ls"
    then obtain i where i: "i + 2 < length ls" "ParseInt (Fields (ls ! (i + 2)) ! 4) = Inr v"
      unfolding next_scns_def by blast
    then show "v \<in> ?f ` {..< length ls}" by (intro image_eqI [of _ _ i]) simp_all
  qed
  then show ?thesis by (rule finite_subset) simp
qed

lemma next_scns_pad: "next_scns ([] # [] # ls) = next_scns ls"
proof -
  have n: "\<not> Contains_str [] ''Next SCN''" by code_simp
  have "next_scns ([] # ls') = next_scns ls'" for ls'
  proof (cases ls')
    case (Cons b m)
    then show ?thesis using next_scns_step [of "[]" b] n by (cases m) (auto simp: next_scns_def)
  qed (simp add: next_scns_def)
  then show ?thesis by simp
qed

lemma scn_loop_Max: "scn_loop a b m ls = Inr r \<Longrightarrow> r = Max (insert m (next_scns (a # b # ls)))"
proof (induction a b m ls rule: scn_loop.induct)
  case (2 a b m l ls)
  note fin = next_scns_finite [of "b # l # ls"]
  show ?case
  proof (cases "Contains_str a ''Next SCN''")
    case True
    with "2.prems" obtain v where v: "length (Fields l) = 6" "ParseInt (Fields l ! 4) = Inr v"
      "scn_loop b l (if v > m then v else m) ls = Inr r" by (auto split: if_splits sum.splits)
    have "r = Max (insert (max m v) (next_scns (b # l # ls)))"
      using "2.IH"(1) [OF True _ v(2)] v by (auto simp: max_def split: if_splits)
    also have "\<dots> = Max (insert m (insert v (next_scns (b # l # ls))))"
      using fin by (cases "next_scns (b # l # ls) = {}") (simp_all add: max.assoc)
    finally show ?thesis using True v(2) by (simp add: next_scns_step)
  next
    case False
    with 2 show ?thesis by (simp add: next_scns_step)
  qed
qed simp

text \<open>
  The SCN in the metadata of a backup is the largest \<open>Next SCN\<close> of the archived logs that RMAN lists, as
  far as the code reads them: it takes the first line below each header of a table. There is at least
  one, and the SCN is not negative.
\<close>

theorem PhysicalBackupMetadata_scn:
  assumes "PhysicalBackupMetadata (Conn d) w tag = (w1, Some (Inr (Some r)))"
    and "d_RunRMAN d w [list_backup_script tag] = (w1, Inr (out # outs))"
  shows "next_scns (scan_lines [] out) \<noteq> {} \<and> pbm_BackupScn r = itoa (Max (next_scns (scan_lines [] out))) \<and>
    0 \<le> Max (next_scns (scan_lines [] out))"
proof -
  let ?S = "next_scns (scan_lines [] out)"
  from assms obtain m where m: "scn_loop [] [] (-1) (scan_lines [] out) = Inr m" "0 \<le> m"
    "backup_times (Conn d) d w1 m = Some (Inr (Some r))"
    by (auto simp: PhysicalBackupMetadata_def opened_def split: sum.splits if_splits)
  have "m = Max (insert (-1) ?S)" using scn_loop_Max [OF m(1)] by (simp add: next_scns_pad)
  with m(2) have ne: "?S \<noteq> {}" by auto
  with \<open>m = _\<close> m(2) have "m = Max ?S" using next_scns_finite [of "scan_lines [] out"] by (simp add: max_def split: if_splits)
  moreover have "pbm_BackupScn r = itoa m"
    using m(3) by (auto simp: backup_times_def split: sum.splits option.splits if_splits)
  ultimately show ?thesis using ne m(2) by simp
qed

text \<open>A sample: two tables of RMAN, the first with the later log.\<close>

definition demo_rman_output :: string where
  "demo_rman_output =
     ''Thrd Seq Low SCN Low Time Next SCN Next Time'' @ [CHR 0x0A] @ ''---- --- -------'' @ [CHR 0x0A] @
     ''1 5 1500 01-JAN 1734 02-JAN'' @ [CHR 0x0A] @ [CHR 0x0A] @
     ''Thrd Seq Low SCN Low Time Next SCN Next Time'' @ [CHR 0x0A] @ ''---- --- -------'' @ [CHR 0x0A] @
     ''1 4 1200 01-JAN 1500 01-JAN'' @ [CHR 0x0A]"

definition demo_backup_daemon :: "bool daemon" where
  "demo_backup_daemon = demo_daemon
     \<lparr>d_RunRMAN := (\<lambda>w _. (w, Inr [demo_rman_output])),
      d_range := (\<lambda>m. case m ''BACKUPTIME'' of Some v \<Rightarrow> [(''BACKUPTIME'', v)] | None \<Rightarrow> [(''INCARNATION#'', ''2'')]),
      d_client := demo_client
        \<lparr>dc_query := (\<lambda>w qs. Inr [if qs = [scn_time_sql 1734] then ''T'' else ''I'']),
         dc_unmarshal := (\<lambda>msg. Inr (if msg = ''T'' then [''BACKUPTIME'' \<mapsto> ''2021-01-02T10:00:00Z'']
                                       else [''INCARNATION#'' \<mapsto> ''2'']))\<rparr>\<rparr>"

lemma demo_metadata:
  "case PhysicalBackupMetadata (Conn demo_backup_daemon) False ''t'' of
     (w, Some (Inr (Some r))) \<Rightarrow> \<not> w \<and> pbm_BackupScn r = ''1734''
   | _ \<Rightarrow> False"
  by code_simp

lemma demo_rman: "d_RunRMAN demo_backup_daemon False [list_backup_script ''t''] = (False, Inr [demo_rman_output])"
  by (simp add: demo_backup_daemon_def)

theorem PhysicalBackupMetadata_scn_witness:
  "next_scns (scan_lines [] demo_rman_output) \<noteq> {} \<and> itoa (Max (next_scns (scan_lines [] demo_rman_output))) = ''1734''"
proof -
  from demo_metadata obtain r where r: "PhysicalBackupMetadata (Conn demo_backup_daemon) False ''t'' = (False, Some (Inr (Some r)))"
    "pbm_BackupScn r = ''1734''"
    by (auto split: prod.splits option.splits sum.splits)
  from PhysicalBackupMetadata_scn [OF r(1) demo_rman] r(2) show ?thesis by auto
qed

subsection \<open>Pluggable databases\<close>

definition pdb_statement :: "string \<Rightarrow> bool" where
  "pdb_statement s = (HasPrefix s ''create pluggable '' \<or> HasPrefix s ''drop '')"

text \<open>
  What the Oracle database does with the pluggable database \<open>name\<close>, \<open>present\<close> saying whether it exists: the query
  on \<open>v$pdbs\<close> finds it exactly when it does, a creation that succeeds creates it, a drop that succeeds
  removes it, a statement that fails leaves things as they are, and no other statement creates or
  removes it.
\<close>

definition pdb_contract :: "'w daemon \<Rightarrow> ('w \<Rightarrow> bool) \<Rightarrow> string \<Rightarrow> bool" where
  "pdb_contract d present name \<longleftrightarrow>
     (\<forall>w msgs. query_sql d w [pdb_check_sql name] = Inr msgs \<longrightarrow> (msgs \<noteq> [] \<longleftrightarrow> present w)) \<and>
     (\<forall>w dirs. present (fst (d_CreateDirs d w dirs)) = present w) \<and>
     (\<forall>w user pass dir ts file from to sql w' err.
        QueryCreatePDB name user pass dir ts file from to = Some sql \<longrightarrow> run_sql d w [sql] = (w', err) \<longrightarrow>
        present w' = (err = None \<or> present w)) \<and>
     (\<forall>w sqls. (\<forall>s \<in> set sqls. \<not> pdb_statement s) \<longrightarrow> present (fst (run_sql d w sqls)) = present w) \<and>
     (\<forall>w. present (fst (d_RunSQLPlusFormatted d w [close_pdb_sql name])) = present w) \<and>
     (\<forall>w w' r. d_RunSQLPlusFormatted d w [drop_pdb_sql name] = (w', r) \<longrightarrow> present w' = (present w \<and> (\<exists>e. r = Inl e)))"

lemma pdb_laws:
  assumes "pdb_contract d present name"
  shows "query_sql d w [pdb_check_sql name] = Inr msgs \<Longrightarrow> (msgs = []) = (\<not> present w)"
    and "QueryCreatePDB name user pass dir ts file from to = Some sql \<Longrightarrow> run_sql d w [sql] = (w', err) \<Longrightarrow>
      present w' = (err = None \<or> present w)"
    and "d_RunSQLPlusFormatted d w [drop_pdb_sql name] = (w', r) \<Longrightarrow> present w' = (present w \<and> (\<exists>e. r = Inl e))"
  using assms unfolding pdb_contract_def by (metis, metis, metis)

lemma plain_statements:
  "QuerySetSessionContainer n = Some s \<Longrightarrow> \<not> pdb_statement s"
  "QueryAlterUser n p = Some s \<Longrightarrow> \<not> pdb_statement s"
  "QueryGrantPrivileges n p = Some s \<Longrightarrow> \<not> pdb_statement s"
  "QueryCreateDir n p = Some s \<Longrightarrow> \<not> pdb_statement s"
  "Some s \<in> set (open_pdb_statements n) \<Longrightarrow> \<not> pdb_statement s"
  by (cases "MustBeObjectName n"; cases "mustBePrivilege n"; cases "MustBeObjectName p"; cases "MustBeIdentifier p";
      auto simp: QuerySetSessionContainer_def QueryAlterUser_def QueryGrantPrivileges_def QueryCreateDir_def pdb_statement_def
      bind2_def open_pdb_statements_def)+

lemma all_some_mem: "all_some xs = Some ys \<Longrightarrow> y \<in> set ys \<Longrightarrow> Some y \<in> set xs"
proof (induction xs arbitrary: ys)
  case (Cons a xs)
  then show ?case by (cases a; cases "all_some xs") auto
qed simp

lemma run_all_keeps:
  assumes "pdb_contract d present name" "run_all d w cmds what = Some (w', err)"
    and "\<forall>s. Some s \<in> set cmds \<longrightarrow> \<not> pdb_statement s"
  shows "present w' = present w"
proof -
  from assms(2) obtain sqls where s: "all_some cmds = Some sqls" "w' = fst (run_sql d w sqls)"
    by (cases "all_some cmds"; cases "run_sql d w (the (all_some cmds))") (auto simp: run_all_def split: option.splits)
  with assms(3) all_some_mem [OF s(1)] have "\<forall>s \<in> set sqls. \<not> pdb_statement s"
    by blast
  with assms(1) s(2) show ?thesis by (simp add: pdb_contract_def)
qed

lemma create_pdb_creates:
  assumes c: "pdb_contract d present (pluggableDatabaseName p)" and r: "create_pdb d w req p = Some (w', Inr out)"
  shows "present w' \<and> out = ''Ready''"
proof -
  let ?n = "pluggableDatabaseName p"
  let ?sql = "QueryCreatePDB ?n pdbAdmin (pluggableAdminPasswd p) (dataFilesDir p) (defaultTablespace p)
    (defaultTablespaceDatafile p) (fileConvertFrom p) (fileConvertTo p)"
  let ?t1 = "''config_agent_helpers/CreateDatabase: failed to create a PDB '' @ ?n"
  let ?t2 = "''config_agent_helpers/CreatePDBDatabase: PDB '' @ ?n @ '' open failed''"
  let ?g = "[QuerySetSessionContainer ?n, QueryGrantPrivileges ''create session, dba'' pdbAdmin,
    QueryGrantPrivileges loader_privileges PDBLoaderUser]"
  let ?h = "[QuerySetSessionContainer ?n, QueryCreateDir DpdumpOracle (filepath_Join (pathPrefix p) ''dmp''),
    QueryGrantPrivileges (''read,write on directory '' @ DpdumpOracle) PDBLoaderUser]"
  note r = r [unfolded create_pdb_def Let_def]
  obtain w1 e1 where a: "d_CreateDirs d w (create_dirs (cdr_CdbName req) (cdr_Name req)) = (w1, e1)" by (rule prod.exhaust)
  with r have e1: "e1 = None" by (cases e1) simp_all
  note r = r [unfolded a e1, simplified prod.case option.case]
  obtain w2 where s1: "run_all d w1 [?sql] ?t1 = Some (w2, None)"
    using r by (cases "run_all d w1 [?sql] ?t1") (simp_all split: prod.splits option.splits)
  note r = r [unfolded s1, simplified prod.case option.case]
  obtain w3 where s2: "run_all d w2 (open_pdb_statements ?n) ?t2 = Some (w3, None)"
    using r by (cases "run_all d w2 (open_pdb_statements ?n) ?t2") (simp_all split: prod.splits option.splits)
  note r = r [unfolded s2, simplified prod.case option.case]
  obtain w4 e4 where s3: "run_all d w3 ?g [] = Some (w4, e4)"
    using r by (cases "run_all d w3 ?g []") auto
  note r = r [unfolded s3, simplified prod.case option.case]
  obtain e5 where s4: "run_all d w4 ?h [] = Some (w', e5)" "out = ''Ready''"
    using r by (cases "run_all d w4 ?h []") auto
  from s1 obtain sql where q: "?sql = Some sql" "run_sql d w1 [sql] = (w2, None)"
    by (cases ?sql) (auto simp: run_all_def split: prod.splits option.splits)
  have "present w2" using pdb_laws(2) [OF c q] by simp
  moreover have "present w3 = present w2" by (rule run_all_keeps [OF c s2]) (blast dest: plain_statements)
  moreover have "present w4 = present w3"
    by (rule run_all_keeps [OF c s3]) (use plain_statements(1,3) in \<open>simp only: list.set, metis insert_iff empty_iff\<close>)
  moreover have "present w' = present w4"
    by (rule run_all_keeps [OF c s4(1)]) (use plain_statements(1,3,4) in \<open>simp only: list.set, metis insert_iff empty_iff\<close>)
  ultimately show ?thesis using s4(2) by simp
qed

text \<open>
  C9: a database is created at most once, and what is created can be removed. When \<open>CreateDatabase\<close> succeeds, the
  pluggable database exists, and the answer \<open>Ready\<close>, which makes the controller create the users from scratch,
  is given exactly when it did not exist before; when a later \<open>DeleteDatabase\<close> succeeds, it is gone.
\<close>

theorem CreateDatabase_once:
  assumes "pdb_contract d present (ToUpper (cdr_Name req))"
    and "CreateDatabase (Conn d) hostname secret w req = Some (w1, Inr out)"
  shows "present w1 \<and> (out = ''Ready'' \<longleftrightarrow> \<not> present w) \<and>
    (\<forall>w2. DeleteDatabase (Conn d) w1 (cdr_Name req) = (w2, None) \<longrightarrow> \<not> present w2)"
proof -
  let ?n = "ToUpper (cdr_Name req)"
  note q = pdb_laws(1) [OF assms(1)]
  from assms(2) obtain pwd p msgs where
    p: "admin_password secret req = Inr pwd" "buildPDB hostname (cdr_CdbName req) (cdr_Name req) pwd ''12.2'' True = Inr p"
      "query_sql d w [pdb_check_sql (pluggableDatabaseName p)] = Inr msgs"
    by (auto simp: CreateDatabase_def opened_def split: sum.splits option.splits)
  from p(2) have n: "pluggableDatabaseName p = ?n" by (auto simp: buildPDB_def Let_def split: sum.splits)
  have "present w1 \<and> (out = ''Ready'' \<longleftrightarrow> \<not> present w)"
  proof (cases "msgs = []")
    case True
    then have "create_pdb d w req p = Some (w1, Inr out)" "\<not> present w"
      using assms(2) p q [OF p(3) [unfolded n]] by (auto simp: CreateDatabase_def opened_def split: option.splits)
    with create_pdb_creates [of d present p] assms(1) n show ?thesis by auto
  next
    case False
    then have "present w" using q [OF p(3) [unfolded n]] by simp
    moreover have "out \<noteq> ''Ready'' \<and> present w1 = present w"
    proof (cases "update_gsm_admin req \<or> update_plaintext req")
      case True
      then have a: "run_all d w [QuerySetSessionContainer ?n, QueryAlterUser pdbAdmin pwd]
          (''failed to alter user '' @ pdbAdmin) = Some (w1, None)" "out = ''AdminUserSyncCompleted''"
        using assms(2) p n False by (auto simp: CreateDatabase_def opened_def split: option.splits)
      have "present w1 = present w"
        using plain_statements(1,2) by (intro run_all_keeps [OF assms(1) a(1)]) (auto dest: sym)
      with a show ?thesis by simp
    next
      case no: False
      then show ?thesis using assms(2) p False by (auto simp: CreateDatabase_def opened_def split: option.splits)
    qed
    ultimately show ?thesis by simp
  qed
  moreover have "\<not> present w2" if del: "DeleteDatabase (Conn d) w1 (cdr_Name req) = (w2, None)" for w2
  proof -
    from del obtain msgs where m: "query_sql d w1 [pdb_check_sql ?n] = Inr msgs"
      by (auto simp: DeleteDatabase_def opened_def Let_def split: sum.splits)
    show ?thesis
    proof (cases "msgs = []")
      case True
      then show ?thesis using del m q [OF m] by (simp add: DeleteDatabase_def opened_def Let_def)
    next
      case False
      then obtain w3 x where "d_RunSQLPlusFormatted d w3 [drop_pdb_sql ?n] = (w2, Inr x)"
        using del m
        by (cases "d_RunSQLPlusFormatted d w1 [close_pdb_sql ?n]"; cases "snd (d_RunSQLPlusFormatted d w1 [close_pdb_sql ?n])")
          (auto simp: DeleteDatabase_def opened_def Let_def split: prod.splits sum.splits)
      then show ?thesis using pdb_laws(3) [OF assms(1)] by blast
    qed
  qed
  ultimately show ?thesis by blast
qed

definition demo_pdb_daemon :: "bool daemon" where
  "demo_pdb_daemon = demo_daemon
     \<lparr>d_client := demo_client\<lparr>dc_run := (\<lambda>w sqls. (w \<or> list_ex (\<lambda>s. HasPrefix s ''create pluggable '') sqls, None)),
        dc_query := (\<lambda>w _. Inr (if w then [''P''] else []))\<rparr>,
      d_RunSQLPlusFormatted := (\<lambda>w sqls. (w \<and> \<not> list_ex (\<lambda>s. HasPrefix s ''drop '') sqls, Inr []))\<rparr>"

definition demo_create_request :: CreateDatabaseRequest where
  "demo_create_request =
     \<lparr>cdr_CdbName = ''GCLOUD'', cdr_Name = ''pdb1'', cdr_Password = ''secret'', cdr_DbDomain = [],
      cdr_AdminPasswordGsmSecretRef = None, cdr_LastPassword = []\<rparr>"

lemma demo_pdb_contract: "pdb_contract demo_pdb_daemon (\<lambda>w. w) ''PDB1''"
proof -
  have "HasPrefix (drop_pdb_sql n) ''drop ''" "\<not> HasPrefix (close_pdb_sql n) ''drop ''" for n
    by (simp_all add: drop_pdb_sql_def close_pdb_sql_def)
  moreover have "HasPrefix sql ''create pluggable ''" if "QueryCreatePDB a b c d e f g h = Some sql" for a b c d e f g h sql
    using that by (auto simp: QueryCreatePDB_def split: option.splits)
  ultimately show ?thesis
    by (auto simp: pdb_contract_def demo_pdb_daemon_def demo_daemon_def demo_client_def pdb_statement_def list_ex_iff)
qed

lemma demo_creation:
  "CreateDatabase (Conn demo_pdb_daemon) (Inr ''host'') (\<lambda>_. Inr []) False demo_create_request = Some (True, Inr ''Ready'')"
  by code_simp

theorem CreateDatabase_once_witness:
  "\<not> fst (DeleteDatabase (Conn demo_pdb_daemon) True ''pdb1'')"
proof -
  have n: "ToUpper (cdr_Name demo_create_request) = ''PDB1''" "cdr_Name demo_create_request = ''pdb1''"
    by code_simp+
  have "DeleteDatabase (Conn demo_pdb_daemon) True ''pdb1'' = (False, None)" by code_simp
  with CreateDatabase_once [OF _ demo_creation] demo_pdb_contract n show ?thesis by auto
qed

subsection \<open>Where the status does not say what has happened\<close>

text \<open>
  The version recorded for the administrator's secret is the full path of the secret, and what the next
  reconciliation compares with it is the bare version: once the password is to be synced it is to be synced again
  after every success, whatever the instance's domain and name.
\<close>

lemma resource_version_longer: "resource_version r \<noteq> gr_Version r"
proof
  assume "resource_version r = gr_Version r"
  then have "length (resource_version r) = length (gr_Version r)" by (rule arg_cong)
  then show False by (simp add: resource_version_def)
qed

lemma recorded_admin [simp]: "map_get (put_version k v m) k = v"
  by (simp add: put_version_def map_get_def)

lemma admin_sync_repeats:
  assumes "NewDatabase env w db domain cdb = Some (w1, db1, Inr exists)"
    and "update_gsm_admin (create_request db domain cdb)"
  shows "update_gsm_admin (create_request db1 domain' cdb')"
proof -
  from assms(2) obtain r where r: "dbs_AdminPasswordGsmSecretRef (db_Spec db) = Some r"
    by (auto simp: update_gsm_admin_def create_request_def Let_def split: option.splits)
  have "db1 = db \<or> db1 = set_versions (put_version pdbAdminUserName (resource_version r) (dst_UserResourceVersions (db_Status db))) db"
    using assms(1) r by (auto simp: NewDatabase_def Let_def admin_version_def split: option.splits sum.splits if_splits)
  then show ?thesis
  proof
    assume "db1 = db"
    with assms(2) show ?thesis by (simp add: update_gsm_admin_def create_request_def Let_def)
  next
    assume "db1 = set_versions (put_version pdbAdminUserName (resource_version r) (dst_UserResourceVersions (db_Status db))) db"
    then show ?thesis using resource_version_longer [of r] r
      by (simp add: update_gsm_admin_def create_request_def Let_def set_versions_def)
  qed
qed

text \<open>The users are reported as ready whatever became of the statements that create them.\<close>

lemma NewUsers_always_ready:
  assumes "NewUsers env w db domain cdb = Some (w', db', err)"
  shows "ConditionStatusEquals (FindCondition (dst_Conditions (db_Status db')) k8s_UserReady) ConditionTrue \<and>
    dst_UserNames (db_Status db') = some_names (map usp_Name (dbs_Users (db_Spec db)))"
proof -
  from assms obtain now where
    "db' = updateIsChangeApplied_db (set_versions (Some (user_versions (dbs_Users (db_Spec db)) (admin_entry db)))
       (set_names (some_names (map usp_Name (dbs_Users (db_Spec db)))) (db_upsert now db k8s_UserReady ConditionTrue k8s_CreateComplete [])))"
    by (auto simp: NewUsers_def Let_def split: option.splits prod.splits)
  then show ?thesis
    by (simp add: user_ready_after set_versions_def set_names_def db_upsert_def updateIsChangeApplied_db_def Let_def)
qed

text \<open>
  A database that exists already is not put on the instance's list of databases: the instance's status is
  never updated then.
\<close>

lemma existing_database_not_registered:
  assumes "NewDatabase env w db (GetDBDomain (Instance.Instance.truncate inst)) (is_CDBName (inst_Spec inst)) = Some (w1, db1, Inr True)"
  shows "create_and_sync env w inst db = create_and_sync (env\<lparr>de_InstanceStatusUpdate := f\<rparr>) w inst db"
proof -
  have "NewDatabase (env\<lparr>de_InstanceStatusUpdate := f\<rparr>) = NewDatabase env"
    by (simp add: fun_eq_iff NewDatabase_def Let_def cong del: option.case_cong_weak sum.case_cong_weak prod.case_cong_weak if_weak_cong)
  moreover have "SyncUsers (env\<lparr>de_InstanceStatusUpdate := f\<rparr>) = SyncUsers env"
    by (simp add: fun_eq_iff SyncUsers_def finish_sync_def Let_def
        cong del: option.case_cong_weak sum.case_cong_weak prod.case_cong_weak if_weak_cong)
  ultimately show ?thesis using assms by (simp add: create_and_sync_def Let_def)
qed

end
