(* ===== verification/BackupAgent.thy ===== *)
theory BackupAgent
  imports Daemon InstanceUtils
begin

text \<open>
  \<open>oracle/pkg/agents/backup\<close>: the RMAN scripts of a physical backup (\<open>backup.go\<close>) and of a restore
  (\<open>restore.go\<close>), and the helpers of \<open>config_agent_helpers.go\<close> that call them. The calls of the daemon beyond
  those of \<open>Daemon\<close> are a record of functions of the world.
\<close>

subsection \<open>Requests\<close>

record rman_request =
  rr_Scripts :: "string list"
  rr_GcsPath :: string
  rr_LocalPath :: string
  rr_OperationId :: string

text \<open>A timestamp of a file: \<open>CheckValid\<close> may refuse it.\<close>

record FileInfo =
  fi_Name :: string
  fi_AbsPath :: string
  fi_IsDir :: bool
  fi_ModTime :: "go_error + go_time"

record pitr_input =
  pi_LogGcsPath :: string
  pi_Incarnation :: string
  pi_StartTime :: "go_time option"
  pi_EndTime :: "go_time option"
  pi_StartScn :: int
  pi_EndScn :: int

record restore_request =
  rq_RestoreStatement :: string
  rq_LatestRecoverableScnQuery :: string
  rq_RecoverStatementTemplate :: string
  rq_PitrRestoreInput :: "pitr_input option"
  rq_OperationId :: string

text \<open>\<open>rc_GCSDelete\<close> is the Cloud Storage client of the operator itself.\<close>

record 'w rman_calls =
  rc_RunRMANAsync :: "'w \<Rightarrow> rman_request \<Rightarrow> 'w \<times> (go_error + Operation)"
  rc_DownloadDirectoryFromGCS :: "'w \<Rightarrow> string \<Rightarrow> string \<Rightarrow> bool \<Rightarrow> 'w \<times> go_error option"
  rc_ReadDir :: "'w \<Rightarrow> string \<Rightarrow> go_error + FileInfo list"
  rc_DeleteDir :: "'w \<Rightarrow> string \<Rightarrow> 'w \<times> go_error option"
  rc_PhysicalRestoreAsync :: "'w \<Rightarrow> restore_request \<Rightarrow> 'w \<times> (go_error + Operation)"
  rc_GetOperation :: "'w \<Rightarrow> string \<Rightarrow> go_error + Operation"
  rc_DeleteOperation :: "'w \<Rightarrow> string \<Rightarrow> 'w \<times> go_error option"
  rc_GCSDelete :: "'w \<Rightarrow> string \<Rightarrow> 'w \<times> go_error option"

record Params =
  pa_CDBName :: string
  pa_Granularity :: string
  pa_Backupset :: bool
  pa_DOP :: int
  pa_CheckLogical :: bool
  pa_Compressed :: bool
  pa_Level :: int
  pa_Filesperset :: int
  pa_SectionSize :: int
  pa_LocalPath :: string
  pa_GCSPath :: string
  pa_BackupTag :: string
  pa_OperationID :: string
  pa_LogGcsDir :: string
  pa_Incarnation :: string
  pa_BackupIncarnation :: string
  pa_StartTime :: "go_time option"
  pa_EndTime :: "go_time option"
  pa_StartSCN :: int
  pa_EndSCN :: int

definition Params_zero :: Params where
  "Params_zero =
     \<lparr>pa_CDBName = [], pa_Granularity = [], pa_Backupset = False, pa_DOP = 0, pa_CheckLogical = False, pa_Compressed = False,
      pa_Level = 0, pa_Filesperset = 0, pa_SectionSize = 0, pa_LocalPath = [], pa_GCSPath = [], pa_BackupTag = [],
      pa_OperationID = [], pa_LogGcsDir = [], pa_Incarnation = [], pa_BackupIncarnation = [], pa_StartTime = None,
      pa_EndTime = None, pa_StartSCN = 0, pa_EndSCN = 0\<rparr>"

abbreviation DefaultRMANDir :: string where "DefaultRMANDir \<equiv> ''/u03/app/oracle/rman''"
abbreviation RMANStagingDir :: string where "RMANStagingDir \<equiv> ''/u03/app/oracle/rmanstaging''"

subsection \<open>The script of a backup\<close>

text \<open>A line of a script, indented by tabs.\<close>

definition ln :: "nat \<Rightarrow> string \<Rightarrow> string" where
  "ln n s = replicate n (CHR 0x09) @ s @ [CHR 0x0A]"

definition allocateChannels :: "int \<Rightarrow> string" where
  "allocateChannels dop =
     concat (map (\<lambda>i. ''allocate channel disk'' @ itoa i @ '' device type disk;'' @ [CHR 0x0A]) [1..dop])"

text \<open>Go's integer division by a positive divisor truncates towards zero.\<close>

definition quot :: "int \<Rightarrow> int \<Rightarrow> int" where
  "quot x y = (if x < 0 then - ((- x) div y) else x div y)"

definition sectionSize :: "int \<Rightarrow> string" where
  "sectionSize siz =
     (if siz = 0 then []
      else if quot siz 1000000000 > 0 then ''section size '' @ itoa (quot siz 1000000000) @ ''G''
      else if quot siz 1000000 > 0 then ''section size '' @ itoa (quot siz 1000000) @ ''M''
      else if quot siz 1000 > 0 then ''section size '' @ itoa (quot siz 1000) @ ''K''
      else ''section size '' @ itoa siz)"

definition backupStmt :: "Params \<Rightarrow> string \<Rightarrow> string \<Rightarrow> string" where
  "backupStmt p backupDir granularity =
     (let compressed = (if pa_Compressed p then ''compressed'' else []);
          backupset = (if pa_Backupset p then ''backupset'' else ''copy'');
          checklogical = (if pa_CheckLogical p then ''check logical'' else []);
          filesperset = (if pa_Filesperset p \<noteq> 0 then ''filesperset '' @ itoa (pa_Filesperset p) else []);
          initStatement = ''CONFIGURE SNAPSHOT CONTROLFILE NAME TO '' @ [squote] @ backupDir @ ''/snapcf_'' @ pa_CDBName p @ ''.f'' @
            [squote] @ '';'';
          tag = [squote] @ pa_BackupTag p @ [squote]
      in ln 0 ''run {'' @ ln 3 initStatement @ ln 3 (allocateChannels (pa_DOP p)) @ ln 3 ''backup'' @
         ln 4 (''as '' @ compressed @ '' '' @ backupset) @ ln 4 checklogical @ ln 4 filesperset @ ln 4 (sectionSize (pa_SectionSize p)) @
         ln 4 (''incremental level '' @ itoa (pa_Level p)) @
         ln 4 (''to destination '' @ [squote] @ backupDir @ [squote]) @
         ln 4 (''tag='' @ tag @ '' ('' @ granularity @ '')'') @ ln 4 ''plus archivelog;'' @
         ln 3 ''backup'' @ ln 4 (''to destination '' @ [squote] @ backupDir @ [squote]) @
         '' '' @ ln 4 (''tag='' @ tag) @ ln 4 ''(spfile) (current controlfile);'' @ ln 2 ''}'' @ [CHR 0x09])"

definition backup_dir :: "Params \<Rightarrow> string" where
  "backup_dir p =
     (if pa_GCSPath p \<noteq> [] then RMANStagingDir else if pa_LocalPath p \<noteq> [] then pa_LocalPath p else DefaultRMANDir)"

definition agent_PhysicalBackup ::
    "'w daemon \<Rightarrow> 'w rman_calls \<Rightarrow> 'w \<Rightarrow> Params \<Rightarrow> 'w \<times> (go_error + Operation)" where
  "agent_PhysicalBackup d rc w p =
     (let granularity = (if pa_Granularity p \<noteq> [] then pa_Granularity p else ''database'');
          backupDir = backup_dir p
      in case d_CreateDirs d w [backupDir] of
           (w1, Some err) \<Rightarrow> (w1, Inl (Errorf (''failed to create a backup dir '' @ backupDir @ '': '' @ err_msg err)))
         | (w1, None) \<Rightarrow>
             if pa_Compressed p \<and> \<not> pa_Backupset p
             then (w1, Inl (Errorf ''oracle/PhysicalBackup: failed a pre-flight check: Image Copy type of backup is not compatible with a Compress setting''))
             else
               (case rc_RunRMANAsync rc w1 \<lparr>rr_Scripts = [backupStmt p backupDir granularity], rr_GcsPath = pa_GCSPath p,
                       rr_LocalPath = pa_LocalPath p, rr_OperationId = pa_OperationID p\<rparr> of
                  (w2, Inl err) \<Rightarrow> (w2, Inl (Errorf (''oracle/PhysicalBackup: failed to create database backup request: '' @ err_msg err)))
                | (w2, Inr operation) \<Rightarrow> (w2, Inr operation)))"

definition backupDeletionStmt :: "string \<Rightarrow> string" where
  "backupDeletionStmt tag = ''delete noprompt backup tag='' @ [squote] @ tag @ [squote] @ '';''"

definition agent_PhysicalBackupDelete :: "'w daemon \<Rightarrow> 'w rman_calls \<Rightarrow> 'w \<Rightarrow> Params \<Rightarrow> 'w \<times> go_error option" where
  "agent_PhysicalBackupDelete d rc w p =
     (if pa_GCSPath p \<noteq> [] then
        (case rc_GCSDelete rc w (pa_GCSPath p) of
           (w1, Some err) \<Rightarrow> (w1, Some (Errorf (''oracle/PhysicalBackupDelete: failed to delete backup from GCS: '' @ err_msg err)))
         | (w1, None) \<Rightarrow> (w1, None))
      else
        (case d_RunRMAN d w [backupDeletionStmt (pa_BackupTag p)] of
           (w1, Inl err) \<Rightarrow> (w1, Some (Errorf (''oracle/PhysicalBackupDelete: failed to delete physical backup: '' @ err_msg err @
                              ''. RMAN output: <nil>'')))
         | (w1, Inr _) \<Rightarrow> (w1, None)))"

subsection \<open>The script of a restore\<close>

definition later :: "string \<times> go_time \<Rightarrow> string \<times> go_time \<Rightarrow> bool" where
  "later a b = (snd a > snd b)"

text \<open>The files whose name contains the text, with their times; the first time that is not valid is an error.\<close>

fun piece_times :: "string \<Rightarrow> FileInfo list \<Rightarrow> go_error + (string \<times> go_time) list" where
  "piece_times substr [] = Inr []"
| "piece_times substr (fi # fis) =
     (if \<not> fi_IsDir fi \<and> Contains_str (fi_Name fi) substr then
        (case fi_ModTime fi of
           Inl err \<Rightarrow> Inl (Errorf (''findLatestBackupPiece: failed to convert timestamp: '' @ err_msg err))
         | Inr modTime \<Rightarrow> map_sum id (\<lambda>ts. (fi_AbsPath fi, modTime) # ts) (piece_times substr fis))
      else piece_times substr fis)"

definition findLatestBackupPiece :: "FileInfo list \<Rightarrow> string \<Rightarrow> go_error + string" where
  "findLatestBackupPiece subPaths substr =
     (case piece_times substr subPaths of
        Inl err \<Rightarrow> Inl err
      | Inr fileTimes \<Rightarrow>
          if length fileTimes < 1
          then Inl (Errorf (''findLatestBackupPiece: failed to find candidates for substr '' @ substr @ '': '' @ itoa (int (length fileTimes))))
          else Inr (fst (sort_Slice later fileTimes ! 0)))"

definition ConfigDir :: "string \<Rightarrow> string" where
  "ConfigDir cdbName = ''/u02/app/oracle/oraconfig/'' @ cdbName"

definition spfileLoc :: "string \<Rightarrow> string" where
  "spfileLoc cdbName = filepath_Join (ConfigDir cdbName) (''spfile'' @ cdbName @ ''.ora'')"

text \<open>Errors are only logged.\<close>

definition deleteFilesForRestore :: "'w rman_calls \<Rightarrow> 'w \<Rightarrow> string \<Rightarrow> 'w" where
  "deleteFilesForRestore rc w cdbName =
     fst (rc_DeleteDir rc (fst (rc_DeleteDir rc w (spfileLoc cdbName))) ''/u02/app/oracle/oradata/*'')"

definition restore_dirs :: "string \<Rightarrow> string list" where
  "restore_dirs cdbName =
     [filepath_Join ''/u02/app/oracle/admin'' (cdbName @ ''/adump''), ConfigDir cdbName, DataDir cdbName,
      ''/u03/app/oracle/fast_recovery_area/'' @ cdbName]"

definition createDirsForRestore :: "'w daemon \<Rightarrow> 'w \<Rightarrow> string \<Rightarrow> 'w \<times> go_error option" where
  "createDirsForRestore d w cdbName =
     (case d_CreateDirs d w (restore_dirs cdbName) of
        (w1, Some err) \<Rightarrow> (w1, Some (Errorf (''createDirsForRestore: failed to create dirs: '' @ err_msg err)))
      | (w1, None) \<Rightarrow> (w1, None))"

definition restoreStmt :: "string \<Rightarrow> string \<Rightarrow> string \<Rightarrow> Params \<Rightarrow> string" where
  "restoreStmt spfile spfilePiece controlPiece p =
     ln 0 [] @ ln 1 ''run {'' @ ln 4 ''startup force nomount;'' @
     ln 4 (''restore spfile to '' @ [squote] @ spfile @ [squote] @ '' from '' @ [squote] @ spfilePiece @ [squote] @ '';'') @
     ln 4 ''shutdown immediate;'' @ ln 4 ''startup nomount;'' @
     ln 4 (''restore controlfile from '' @ [squote] @ controlPiece @ [squote] @ '';'') @ ln 4 ''startup mount;'' @ ln 2 ''}'' @
     ln 1 (''reset database to incarnation '' @ pa_BackupIncarnation p @ '';'') @ ln 1 ''run {'' @
     ln 4 (allocateChannels (pa_DOP p)) @ ln 4 ''restore database;'' @ ln 4 ''delete foreign archivelog all;'' @ ln 2 ''}'' @
     ln 1 (''reset database to incarnation '' @ pa_Incarnation p @ '';'') @ [CHR 0x09]"

definition maxSCNquery :: string where
  "maxSCNquery =
     ln 0 [] @ ln 4 ''select max(next_change#) as scn'' @ ln 4 ''from v$archived_log'' @ ln 4 ''where resetlogs_id=('' @
     ln 5 ''select resetlogs_id'' @ ln 5 ''from v$database_incarnation'' @
     ln 5 (''where status='' @ [squote] @ ''CURRENT'' @ [squote]) @ ln 4 '')'' @ [CHR 0x09]"

definition recoverStmtTemplate :: string where
  "recoverStmtTemplate =
     ln 0 ''run {'' @ ln 4 ''recover database until %s;'' @ ln 4 ''alter database open resetlogs;'' @
     ln 4 ''alter pluggable database all open;'' @ ln 2 ''}'' @ [CHR 0x09]"

text \<open>To a point in time, or up to the last archived log.\<close>

definition restore_request_of :: "string \<Rightarrow> Params \<Rightarrow> restore_request" where
  "restore_request_of stmt p =
     (if pa_EndTime p \<noteq> None \<or> pa_EndSCN p \<noteq> 0 then
        \<lparr>rq_RestoreStatement = stmt, rq_LatestRecoverableScnQuery = [], rq_RecoverStatementTemplate = recoverStmtTemplate,
         rq_PitrRestoreInput = Some \<lparr>pi_LogGcsPath = pa_LogGcsDir p, pi_Incarnation = pa_Incarnation p, pi_StartTime = pa_StartTime p,
           pi_EndTime = pa_EndTime p, pi_StartScn = pa_StartSCN p, pi_EndScn = pa_EndSCN p\<rparr>,
         rq_OperationId = pa_OperationID p\<rparr>
      else
        \<lparr>rq_RestoreStatement = stmt, rq_LatestRecoverableScnQuery = maxSCNquery, rq_RecoverStatementTemplate = recoverStmtTemplate,
         rq_PitrRestoreInput = None, rq_OperationId = pa_OperationID p\<rparr>)"

text \<open>The part after the backup has been downloaded.\<close>

definition restore_from_dir ::
    "'w daemon \<Rightarrow> 'w rman_calls \<Rightarrow> 'w \<Rightarrow> Params \<Rightarrow> string \<Rightarrow> 'w \<times> (go_error + Operation)" where
  "restore_from_dir d rc w p backupDir =
     (case rc_ReadDir rc w backupDir of
        Inl err \<Rightarrow> (w, Inl (Errorf (''PhysicalRestore: failed to read backup dir: '' @ err_msg err)))
      | Inr resp \<Rightarrow>
      (case findLatestBackupPiece resp ''nnsnf'' of
         Inl err \<Rightarrow> (w, Inl (Errorf (''PhysicalRestore: failed to find latest spfile backup piece: '' @ err_msg err)))
       | Inr latestSpfileBackup \<Rightarrow>
      (case findLatestBackupPiece resp ''ncnnf'' of
         Inl err \<Rightarrow> (w, Inl (Errorf (''PhysicalRestore: failed to find latest control file backup piece: '' @ err_msg err)))
       | Inr latestControlfileBackup \<Rightarrow>
      (case createDirsForRestore d (deleteFilesForRestore rc w (pa_CDBName p)) (pa_CDBName p) of
         (w2, Some err) \<Rightarrow> (w2, Inl (Errorf (''PhysicalRestore: failed to createDirsForRestore: '' @ err_msg err)))
       | (w2, None) \<Rightarrow>
      (case rc_PhysicalRestoreAsync rc w2 (restore_request_of
               (restoreStmt (spfileLoc (pa_CDBName p)) latestSpfileBackup latestControlfileBackup p) p) of
         (w3, Inl err) \<Rightarrow> (w3, Inl (Errorf (''oracle/PhysicalRestore: failed to create database restore request: '' @ err_msg err)))
       | (w3, Inr operation) \<Rightarrow> (w3, Inr operation))))))"

definition agent_PhysicalRestore ::
    "'w daemon \<Rightarrow> 'w rman_calls \<Rightarrow> 'w \<Rightarrow> Params \<Rightarrow> 'w \<times> (go_error + Operation)" where
  "agent_PhysicalRestore d rc w p =
     (if pa_GCSPath p \<noteq> [] then
        (case rc_DownloadDirectoryFromGCS rc w (pa_GCSPath p) RMANStagingDir False of
           (w1, Some err) \<Rightarrow> (w1, Inl (Errorf (''PhysicalRestore: failed to download rman backup from GCS bucket '' @ err_msg err)))
         | (w1, None) \<Rightarrow> restore_from_dir d rc w1 p RMANStagingDir)
      else restore_from_dir d rc w p (if pa_LocalPath p \<noteq> [] then pa_LocalPath p else DefaultRMANDir))"

subsection \<open>The helpers of the controllers\<close>

datatype PhysicalBackupRequest_Type = UNKNOWN_TYPE | INSTANCE | DATABASE | TABLESPACE | DATAFILE

record PhysicalBackupRequest =
  pbr_BackupSubType :: PhysicalBackupRequest_Type
  pbr_BackupItems :: "string list option"
  pbr_Backupset :: bool
  pbr_Compressed :: bool
  pbr_CheckLogical :: bool
  pbr_Dop :: int
  pbr_Level :: int
  pbr_Filesperset :: int
  pbr_SectionSize :: int
  pbr_LocalPath :: string
  pbr_GcsPath :: string
  pbr_OperationId :: string
  pbr_BackupTag :: string

definition type_number :: "PhysicalBackupRequest_Type \<Rightarrow> int" where
  "type_number t = (case t of UNKNOWN_TYPE \<Rightarrow> 0 | INSTANCE \<Rightarrow> 1 | DATABASE \<Rightarrow> 2 | TABLESPACE \<Rightarrow> 3 | DATAFILE \<Rightarrow> 4)"

fun comma_items :: "string list \<Rightarrow> string" where
  "comma_items [] = []"
| "comma_items [pdb] = pdb"
| "comma_items (pdb # q # pdbs) = pdb @ '', '' @ comma_items (q # pdbs)"

definition backup_granularity :: "PhysicalBackupRequest \<Rightarrow> go_error + string" where
  "backup_granularity req =
     (case pbr_BackupSubType req of
        INSTANCE \<Rightarrow> Inr ''database''
      | DATABASE \<Rightarrow>
          (case pbr_BackupItems req of
             None \<Rightarrow> Inl (Errorf ''config_agent_helpers/PhysicalBackup: failed a pre-flight check: a PDB backup is requested, but no PDB name(s) given'')
           | Some items \<Rightarrow> Inr (''pluggable database '' @ comma_items items))
      | t \<Rightarrow> Inl (Errorf (''config_agent_helpers/PhysicalBackup: unsupported in this release sub backup type of '' @ itoa (type_number t))))"

text \<open>The name of the container database is not passed on.\<close>

definition backup_params :: "PhysicalBackupRequest \<Rightarrow> string \<Rightarrow> Params" where
  "backup_params req granularity = Params_zero
     \<lparr>pa_Granularity := granularity, pa_Backupset := pbr_Backupset req, pa_CheckLogical := pbr_CheckLogical req,
      pa_Compressed := pbr_Compressed req, pa_DOP := pbr_Dop req, pa_Level := pbr_Level req,
      pa_Filesperset := pbr_Filesperset req, pa_SectionSize := pbr_SectionSize req, pa_LocalPath := pbr_LocalPath req,
      pa_GCSPath := pbr_GcsPath req, pa_BackupTag := pbr_BackupTag req, pa_OperationID := pbr_OperationId req\<rparr>"

definition PhysicalBackup ::
    "'w conn \<Rightarrow> 'w rman_calls \<Rightarrow> 'w \<Rightarrow> PhysicalBackupRequest \<Rightarrow> 'w \<times> (go_error + Operation)" where
  "PhysicalBackup conn rc w req =
     (case backup_granularity req of
        Inl err \<Rightarrow> (w, Inl err)
      | Inr granularity \<Rightarrow>
      (case opened conn of
         Inl err \<Rightarrow> (w, Inl (Errorf (''config_agent_helpers/PhysicalBackup: failed to create database daemon client: '' @ err_msg err)))
       | Inr d \<Rightarrow> agent_PhysicalBackup d rc w (backup_params req granularity)))"

definition PhysicalRestore ::
    "'w conn \<Rightarrow> 'w rman_calls \<Rightarrow> 'w \<Rightarrow> PhysicalRestoreRequest \<Rightarrow> 'w \<times> (go_error + Operation)" where
  "PhysicalRestore conn rc w req =
     (case opened conn of
        Inl err \<Rightarrow> (w, Inl (Errorf (''config_agent_helpers/PhysicalRestore: failed to create database daemon client: '' @ err_msg err)))
      | Inr d \<Rightarrow> agent_PhysicalRestore d rc w (Params_zero
          \<lparr>pa_CDBName := prr_CdbName req, pa_DOP := prr_Dop req, pa_LocalPath := prr_LocalPath req, pa_GCSPath := prr_GcsPath req,
           pa_OperationID := prr_OperationId req, pa_LogGcsDir := prr_LogGcsPath req, pa_Incarnation := prr_Incarnation req,
           pa_BackupIncarnation := prr_BackupIncarnation req, pa_StartTime := prr_StartTime req, pa_EndTime := prr_EndTime req,
           pa_StartSCN := prr_StartScn req, pa_EndSCN := prr_EndScn req\<rparr>))"

definition PhysicalBackupDelete ::
    "'w conn \<Rightarrow> 'w rman_calls \<Rightarrow> 'w \<Rightarrow> string \<Rightarrow> string \<Rightarrow> string \<Rightarrow> 'w \<times> go_error option" where
  "PhysicalBackupDelete conn rc w backupTag localPath gcsPath =
     (case opened conn of
        Inl err \<Rightarrow> (w, Some (Errorf (''config_agent_helpers/PhysicalBackupDelete: failed to create database daemon client: '' @ err_msg err)))
      | Inr d \<Rightarrow>
          (case agent_PhysicalBackupDelete d rc w (Params_zero\<lparr>pa_LocalPath := localPath, pa_GCSPath := gcsPath, pa_BackupTag := backupTag\<rparr>) of
             (w1, Some err) \<Rightarrow> (w1, Some (Errorf (''config_agent_helpers/PhysicalBackupDelete: failed to delete physical backup: '' @ err_msg err)))
           | (w1, None) \<Rightarrow> (w1, None)))"

text \<open>The result without an error is the list of what is wrong with the backup.\<close>

definition VerifyPhysicalBackup :: "'w conn \<Rightarrow> 'w rman_calls \<Rightarrow> 'w \<Rightarrow> string \<Rightarrow> 'w \<times> (go_error + string list)" where
  "VerifyPhysicalBackup conn rc w gcsPath =
     (case opened conn of
        Inl err \<Rightarrow> (w, Inl (Errorf (''config_agent_helpers/VerifyPhysicalBackup: failed to create a database daemon dbdClient: '' @ err_msg err)))
      | Inr d \<Rightarrow>
          (case rc_DownloadDirectoryFromGCS rc w gcsPath [] True of
             (w1, Some err) \<Rightarrow> (w1, Inr [err_msg err])
           | (w1, None) \<Rightarrow> (w1, Inr [])))"

definition GetLROOperation :: "'w conn \<Rightarrow> 'w rman_calls \<Rightarrow> 'w \<Rightarrow> string \<Rightarrow> go_error + Operation" where
  "GetLROOperation conn rc w opid = (case opened conn of Inl err \<Rightarrow> Inl err | Inr d \<Rightarrow> rc_GetOperation rc w opid)"

definition DeleteLROOperation :: "'w conn \<Rightarrow> 'w rman_calls \<Rightarrow> 'w \<Rightarrow> string \<Rightarrow> 'w \<times> go_error option" where
  "DeleteLROOperation conn rc w opid = (case opened conn of Inl err \<Rightarrow> (w, Some err) | Inr d \<Rightarrow> rc_DeleteOperation rc w opid)"

subsection \<open>The pieces of a backup\<close>

lemma strict_weak_later: "strict_weak later"
  by (auto simp: strict_weak_def later_def)

interpretation by_mod: go_sort later "sort_Slice later"
  by unfold_locales (simp_all add: sorted_sort_Slice strict_weak_later)

definition is_piece :: "string \<Rightarrow> FileInfo \<Rightarrow> bool" where
  "is_piece substr fi = (\<not> fi_IsDir fi \<and> Contains_str (fi_Name fi) substr)"

text \<open>What a latest backup piece is: a file with the text in its name, none of them modified later.\<close>

definition latest_piece :: "FileInfo list \<Rightarrow> string \<Rightarrow> string \<Rightarrow> bool" where
  "latest_piece fis substr path \<longleftrightarrow>
     (\<exists>fi \<in> set fis. \<exists>t. is_piece substr fi \<and> fi_AbsPath fi = path \<and> fi_ModTime fi = Inr t \<and>
        (\<forall>fi' \<in> set fis. is_piece substr fi' \<longrightarrow> (\<exists>t'. fi_ModTime fi' = Inr t' \<and> t' \<le> t)))"

lemma piece_times_Inr:
  "piece_times substr fis = Inr ts \<Longrightarrow>
     set ts = {(fi_AbsPath fi, t) | fi t. fi \<in> set fis \<and> is_piece substr fi \<and> fi_ModTime fi = Inr t} \<and>
     (\<forall>fi \<in> set fis. is_piece substr fi \<longrightarrow> (\<exists>t. fi_ModTime fi = Inr t))"
proof (induction fis arbitrary: ts)
  case (Cons fi fis)
  show ?case
  proof (cases "is_piece substr fi")
    case True
    with Cons.prems obtain t ts' where "fi_ModTime fi = Inr t" "piece_times substr fis = Inr ts'" "ts = (fi_AbsPath fi, t) # ts'"
      by (cases "fi_ModTime fi"; cases "piece_times substr fis") (auto simp: is_piece_def)
    with Cons.IH [of ts'] True show ?thesis by auto
  next
    case False
    with Cons.prems Cons.IH show ?thesis by (auto simp: is_piece_def)
  qed
qed simp

lemma findLatestBackupPiece_Inr:
  assumes "findLatestBackupPiece fis substr = Inr path"
  shows "latest_piece fis substr path"
proof -
  from assms obtain ts where ts: "piece_times substr fis = Inr ts" "ts \<noteq> []" "path = fst (sort_Slice later ts ! 0)"
    by (auto simp: findLatestBackupPiece_def split: sum.splits if_splits)
  let ?x = "sort_Slice later ts ! 0"
  note pt = piece_times_Inr [OF ts(1)]
  have "?x \<in> set ts" using ts(2) by_mod.srt_set by_mod.srt_length by (metis length_greater_0_conv nth_mem)
  with pt obtain fi t where fi: "fi \<in> set fis" "is_piece substr fi" "fi_ModTime fi = Inr t" "?x = (fi_AbsPath fi, t)" by auto
  have mx: "snd y \<le> snd ?x" if "y \<in> set ts" for y
  proof -
    from that obtain j where "j < length ts" "y = sort_Slice later ts ! j"
      using by_mod.srt_set by_mod.srt_length by (metis in_set_conv_nth)
    then show ?thesis using by_mod.srt_nth [of 0 j ts] by (cases "j = 0") (auto simp: later_def)
  qed
  have "\<exists>t'. fi_ModTime fi' = Inr t' \<and> t' \<le> t" if f': "fi' \<in> set fis" "is_piece substr fi'" for fi'
  proof -
    from pt f' obtain t' where t': "fi_ModTime fi' = Inr t'" by blast
    with pt f' have "(fi_AbsPath fi', t') \<in> set ts" by blast
    from mx [OF this] fi(4) t' show ?thesis by simp
  qed
  moreover have "fi_AbsPath fi = path" using ts(3) fi(4) by simp
  ultimately show ?thesis unfolding latest_piece_def using fi(1-3) by blast
qed

text \<open>
  C12: a physical restore does not touch the database before it has found what it restores from. Whatever the
  daemon answers, either the restore ends with an error in the state in which the backup was read, nothing
  deleted, or the latest pieces of the parameter file and of the control file were found in the backup; and
  the restore that is launched names these pieces.
\<close>

theorem PhysicalRestore_needs_pieces:
  assumes "agent_PhysicalRestore d rc w p = (w', r)"
  defines "w1 \<equiv> if pa_GCSPath p \<noteq> [] then fst (rc_DownloadDirectoryFromGCS rc w (pa_GCSPath p) RMANStagingDir False) else w"
  shows "(w' = w1 \<and> (\<exists>e. r = Inl e)) \<or>
    (\<exists>files spf ctl w2. rc_ReadDir rc w1 (backup_dir p) = Inr files \<and> latest_piece files ''nnsnf'' spf \<and> latest_piece files ''ncnnf'' ctl \<and>
       createDirsForRestore d (deleteFilesForRestore rc w1 (pa_CDBName p)) (pa_CDBName p) = w2 \<and>
       (\<forall>op. r = Inr op \<longrightarrow> rc_PhysicalRestoreAsync rc (fst w2)
          (restore_request_of (restoreStmt (spfileLoc (pa_CDBName p)) spf ctl p) p) = (w', Inr op)))"
proof -
  have "(w' = w1 \<and> (\<exists>e. r = Inl e)) \<or> restore_from_dir d rc w1 p (backup_dir p) = (w', r)"
    using assms(1) by (auto simp: agent_PhysicalRestore_def w1_def backup_dir_def split: prod.splits option.splits if_splits)
  then show ?thesis
  proof
    assume a: "restore_from_dir d rc w1 p (backup_dir p) = (w', r)"
    show ?thesis
    proof (cases "\<exists>files spf ctl. rc_ReadDir rc w1 (backup_dir p) = Inr files \<and>
        findLatestBackupPiece files ''nnsnf'' = Inr spf \<and> findLatestBackupPiece files ''ncnnf'' = Inr ctl")
      case True
      then obtain files spf ctl where f: "rc_ReadDir rc w1 (backup_dir p) = Inr files"
        "findLatestBackupPiece files ''nnsnf'' = Inr spf" "findLatestBackupPiece files ''ncnnf'' = Inr ctl" by blast
      obtain w2 e2 where c: "createDirsForRestore d (deleteFilesForRestore rc w1 (pa_CDBName p)) (pa_CDBName p) = (w2, e2)"
        by (rule prod.exhaust)
      have "\<forall>op. r = Inr op \<longrightarrow> rc_PhysicalRestoreAsync rc w2
          (restore_request_of (restoreStmt (spfileLoc (pa_CDBName p)) spf ctl p) p) = (w', Inr op)"
        using a f c by (cases e2) (auto simp: restore_from_dir_def split: prod.splits sum.splits)
      with f c findLatestBackupPiece_Inr [OF f(2)] findLatestBackupPiece_Inr [OF f(3)] show ?thesis by auto
    next
      case False
      have "w' = w1 \<and> (\<exists>e. r = Inl e)"
      proof (cases "rc_ReadDir rc w1 (backup_dir p)")
        case (Inr files)
        show ?thesis
        proof (cases "findLatestBackupPiece files ''nnsnf''")
          case spf: (Inr spf)
          with False Inr a show ?thesis
            by (cases "findLatestBackupPiece files ''ncnnf''") (auto simp: restore_from_dir_def)
        qed (use Inr a in \<open>auto simp: restore_from_dir_def\<close>)
      qed (use a in \<open>auto simp: restore_from_dir_def\<close>)
      then show ?thesis by blast
    qed
  qed simp
qed

text \<open>A sample daemon whose world is the list of the paths that were deleted and created.\<close>

definition quiet_daemon :: "string list daemon" where
  "quiet_daemon =
     \<lparr>d_client = \<lparr>dc_run = (\<lambda>w _. (w, None)), dc_query = (\<lambda>_ _. Inr []), dc_unmarshal = (\<lambda>_. Inr Map.empty),
        dc_secret = (\<lambda>_ _. Inl (Errorf ''no secret'')), dc_elements = sorted_list_of_set\<rparr>,
      d_RunSQLPlusFormatted = (\<lambda>w _. (w, Inr [])), d_range = (\<lambda>_. []),
      d_CheckDatabaseState = (\<lambda>_ _ _. None), d_CreateDirs = (\<lambda>w ds. (w @ map (\<lambda>s. ''mkdir '' @ s) ds, None)),
      d_BounceDatabase = (\<lambda>w _. (w, None)),
      d_RecoverConfigFile = (\<lambda>w _. (w, None)), d_FileExists = (\<lambda>_ _. Inr True), d_CreateFile = (\<lambda>w _. (w, None)),
      d_CreateListener = (\<lambda>w _. (w, None)), d_CreateCDBAsync = (\<lambda>w _. (w, Inr done_operation)),
      d_BootstrapDatabaseAsync = (\<lambda>w _ _ _. (w, Inr done_operation)), d_bootstrap_unseeded = (\<lambda>w _ _ _. (w, None)),
      d_RunRMAN = (\<lambda>w _. (w, Inr []))\<rparr>"

definition sample_files :: "FileInfo list" where
  "sample_files =
     [\<lparr>fi_Name = ''o1_mf_nnsnf_a.bkp'', fi_AbsPath = ''/s/a'', fi_IsDir = False, fi_ModTime = Inr 5\<rparr>,
      \<lparr>fi_Name = ''o1_mf_nnsnf_b.bkp'', fi_AbsPath = ''/s/b'', fi_IsDir = False, fi_ModTime = Inr 9\<rparr>,
      \<lparr>fi_Name = ''o1_mf_nnndf_c.bkp'', fi_AbsPath = ''/s/c'', fi_IsDir = False, fi_ModTime = Inr 11\<rparr>]"

definition sample_calls :: "string list rman_calls" where
  "sample_calls =
     \<lparr>rc_RunRMANAsync = (\<lambda>w r. (w @ [''backup''], Inr done_operation)),
      rc_DownloadDirectoryFromGCS = (\<lambda>w _ _ _. (w, None)), rc_ReadDir = (\<lambda>_ _. Inr sample_files),
      rc_DeleteDir = (\<lambda>w path. (w @ [path], None)), rc_PhysicalRestoreAsync = (\<lambda>w r. (w @ [''restore''], Inr done_operation)),
      rc_GetOperation = (\<lambda>_ _. Inr done_operation), rc_DeleteOperation = (\<lambda>w _. (w, None)), rc_GCSDelete = (\<lambda>w path. (w @ [path], None))\<rparr>"

lemma sample_restore:
  "case agent_PhysicalRestore quiet_daemon sample_calls [] (Params_zero\<lparr>pa_CDBName := ''GCLOUD''\<rparr>) of (w', r) \<Rightarrow> w' = [] \<and> isl r"
  by code_simp

lemma no_control_piece: "\<not> latest_piece sample_files ''ncnnf'' ctl"
  by (simp add: latest_piece_def sample_files_def is_piece_def)

theorem PhysicalRestore_needs_pieces_witness:
  "\<exists>e. agent_PhysicalRestore quiet_daemon sample_calls [] (Params_zero\<lparr>pa_CDBName := ''GCLOUD''\<rparr>) = ([], Inl e)"
proof -
  obtain w' r where a: "agent_PhysicalRestore quiet_daemon sample_calls [] (Params_zero\<lparr>pa_CDBName := ''GCLOUD''\<rparr>) = (w', r)"
    by (rule prod.exhaust)
  have r: "rc_ReadDir sample_calls v dir = Inr sample_files" for v dir by (simp add: sample_calls_def)
  have g: "pa_GCSPath (Params_zero\<lparr>pa_CDBName := ''GCLOUD''\<rparr>) = []" by (simp add: Params_zero_def)
  from PhysicalRestore_needs_pieces [OF a] no_control_piece show ?thesis by (auto simp: a r g)
qed

subsection \<open>Section sizes\<close>

text \<open>
  The section size in the script is at most the size asked for, and less than one unit below it, for
  sizes that fit into 32 bits.
\<close>

lemma sectionSize_bounds:
  assumes "0 < v" and "v < 2 ^ 31"
  shows "\<exists>n u m. sectionSize (int32 v) = ''section size '' @ itoa n @ u \<and> (u, m) \<in> {(''G'', 10 ^ 9), (''M'', 10 ^ 6), (''K'', 1000), ([], 1)} \<and>
    0 < n \<and> n * m \<le> v \<and> v < (n + 1) * m"
proof -
  have v: "int32 v = v" using assms by (simp add: int32_id)
  have q: "v div m * m \<le> v \<and> v < (v div m + 1) * m" if "0 < m" for m :: int
  proof -
    have e: "v = m * (v div m) + v mod m" "0 \<le> v mod m" "v mod m < m" using that by simp_all
    have d: "v div m * m = m * (v div m)" "(v div m + 1) * m = m * (v div m) + m" by (simp_all add: algebra_simps)
    show ?thesis unfolding d using e by linarith
  qed
  have qu: "quot v m = v div m" for m using assms(1) by (simp add: quot_def)
  consider (G) "0 < v div 1000000000" | (M) "\<not> 0 < v div 1000000000" "0 < v div 1000000"
    | (K) "\<not> 0 < v div 1000000000" "\<not> 0 < v div 1000000" "0 < v div 1000"
    | (B) "\<not> 0 < v div 1000000000" "\<not> 0 < v div 1000000" "\<not> 0 < v div 1000" by blast
  then show ?thesis
  proof cases
    case G
    then show ?thesis using q [of "10 ^ 9"] assms(1) unfolding v sectionSize_def qu
      by (intro exI [of _ "v div 10 ^ 9"] exI [of _ "''G''"] exI [of _ "10 ^ 9"]) simp
  next
    case M
    then show ?thesis using q [of "10 ^ 6"] assms(1) unfolding v sectionSize_def qu
      by (intro exI [of _ "v div 10 ^ 6"] exI [of _ "''M''"] exI [of _ "10 ^ 6"]) simp
  next
    case K
    then show ?thesis using q [of 1000] assms(1) unfolding v sectionSize_def qu
      by (intro exI [of _ "v div 1000"] exI [of _ "''K''"] exI [of _ 1000]) simp
  next
    case B
    then show ?thesis using assms(1) unfolding v sectionSize_def qu
      by (simp only: if_False if_not_P refl) (rule exI [of _ v], rule exI [of _ "[]"], rule exI [of _ 1], simp)
  qed
qed

text \<open>Larger sizes wrap: four gigabytes are dropped and three become negative.\<close>

lemma sectionSize_wraps: "sectionSize (int32 4294967296) = [] \<and> sectionSize (int32 3000000000) = ''section size '' @ itoa (- 1294967296)"
proof -
  have "int32 4294967296 = 0" "int32 3000000000 = -1294967296" by (simp_all add: int32_def signed_take_bit_eq_take_bit_shift take_bit_eq_mod)
  moreover have "sectionSize 0 = []" "sectionSize (- 1294967296) = ''section size '' @ itoa (- 1294967296)"
    by (simp_all add: sectionSize_def quot_def)
  ultimately show ?thesis by simp
qed

end
