(* ===== verification/BackupController.thy ===== *)
theory BackupController
  imports BackupAgent Restore
begin

text \<open>
  \<open>oracle/controllers/backupcontroller\<close>: the controller of backups (\<open>backup_controller.go\<close>, \<open>operations.go\<close>) and the
  two kinds of backup (\<open>oracle_backup.go\<close>). The state of the machine is the reason of the \<open>Ready\<close> condition. The
  world \<open>'w\<close> holds the API server and the database. A panic is \<open>None\<close>. Time limits of calls are not modelled.
\<close>

abbreviation phase_Pending :: string where "phase_Pending \<equiv> ''Pending''"
abbreviation phase_InProgress :: string where "phase_InProgress \<equiv> ''InProgress''"
abbreviation phase_Failed :: string where "phase_Failed \<equiv> ''Failed''"
abbreviation phase_Succeeded :: string where "phase_Succeeded \<equiv> ''Succeeded''"
abbreviation BackupFinalizer :: string where "BackupFinalizer \<equiv> ''oracle.db.anthosapis.com''"
abbreviation verifyExistsInterval :: duration where "verifyExistsInterval \<equiv> 300 * Second"
abbreviation requeueInterval :: duration where "requeueInterval \<equiv> Second"
abbreviation statusCheckInterval :: duration where "statusCheckInterval \<equiv> 60 * Second"
abbreviation msgSep :: string where "msgSep \<equiv> ''; ''"
abbreviation DatabaseImageAnnotation :: string where "DatabaseImageAnnotation \<equiv> ''database-image''"

text \<open>The backup with the fields this controller uses beside those of \<open>Backup\<close>. Of the quantity \<open>SectionSize\<close> it is
  the value as an integer, when it is one, and the digits without the scale.\<close>

record BackupObj = Backup +
  bo_UID :: string
  bo_DeletionTimestamp :: "go_time option"
  bo_Finalizers :: "string list"
  bo_Mode :: string
  bo_Instance :: string
  bo_VolumeSnapshotClass :: string
  bo_BackupItems :: "string list option"
  bo_Compressed :: bool
  bo_CheckLogical :: bool
  bo_Level :: int
  bo_Filesperset :: int
  bo_SectionSize :: "int option \<times> int"
  bo_Phase :: string
  bo_GcsPath :: string
  bo_BackupTime :: string
  bo_StartTime :: "go_time option"
  bo_Duration :: "duration option"

abbreviation plain_backup :: "BackupObj \<Rightarrow> Backup" where
  "plain_backup b \<equiv> Instance.Backup.truncate b"

definition backup_upsert :: "go_time \<Rightarrow> BackupObj \<Rightarrow> ConditionStatus \<Rightarrow> string \<Rightarrow> string \<Rightarrow> BackupObj" where
  "backup_upsert now b status reason message = b\<lparr>bk_Conditions := Upsert now (bk_Conditions b) k8s_Ready status reason message\<rparr>"

definition backup_reason :: "BackupObj \<Rightarrow> string" where
  "backup_reason b = reason_of (bk_Conditions b) k8s_Ready"

record snapshot_object =
  so_Name :: string
  so_Namespace :: string
  so_ClaimName :: string
  so_Class :: string

text \<open>A volume snapshot as listed: no status yet, or an error whose message may be missing, and whether it is ready.\<close>

record vs_status =
  vss_Error :: "string option option"
  vss_ReadyToUse :: "bool option"

record VolumeSnapshot =
  vs_Name :: string
  vs_Status :: "vs_status option"

text \<open>\<open>be_ListSnapshots\<close> has the namespace and the requirements of the label selector as arguments, \<open>be_NewRequirement\<close>
  the check of a requirement, \<open>be_owner\<close> the setting of the owner reference.\<close>

record 'w backup_env =
  be_GetBackup :: "'w \<Rightarrow> go_error + BackupObj"
  be_GetInstance :: "'w \<Rightarrow> string \<Rightarrow> string \<Rightarrow> go_error + Instance"
  be_ListConfigs :: "'w \<Rightarrow> string \<Rightarrow> go_error + ConfigSpec list"
  be_ListSnapshots :: "'w \<Rightarrow> string \<Rightarrow> (string \<times> string list) list \<Rightarrow> go_error + VolumeSnapshot list"
  be_NewRequirement :: "string \<Rightarrow> string list \<Rightarrow> go_error option"
  be_owner :: "BackupObj \<Rightarrow> snapshot_object \<Rightarrow> go_error option"
  be_Patch :: "'w \<Rightarrow> snapshot_object \<Rightarrow> 'w \<times> go_error option"
  be_Update :: "'w \<Rightarrow> BackupObj \<Rightarrow> 'w \<times> (go_error + BackupObj)"
  be_StatusUpdate :: "'w \<Rightarrow> BackupObj \<Rightarrow> 'w \<times> go_error option"
  be_InstanceStatusUpdate :: "'w \<Rightarrow> Instance \<Rightarrow> 'w \<times> go_error option"
  be_Event :: "'w \<Rightarrow> inst_event \<Rightarrow> string \<Rightarrow> string \<Rightarrow> 'w"
  be_now :: "'w \<Rightarrow> go_time"
  be_New :: "'w \<Rightarrow> 'w conn"
  be_calls :: "'w rman_calls"

subsection \<open>Validation\<close>

fun join_msgs :: "string list \<Rightarrow> string" where
  "join_msgs [] = []"
| "join_msgs [m] = m"
| "join_msgs (m # n # ms) = m @ msgSep @ join_msgs (n # ms)"

definition backup_spec_errors :: "BackupObj \<Rightarrow> string list" where
  "backup_spec_errors b =
     (if bk_Type b \<noteq> ''Snapshot'' \<and> bk_Type b \<noteq> ''Physical'' then [''backup does not support type '' @ bk_Type b] else []) @
     (if bk_Type b = ''Snapshot'' \<and> bk_Subtype b \<noteq> [] \<and> bk_Subtype b \<noteq> ''Instance''
      then [bk_Type b @ '' backup only support .spec.subtype Instance''] else []) @
     (if bo_Instance b = [] then [''spec.Instance is not set in the backup request''] else [])"

text \<open>The reason of the condition stays as it is.\<close>

definition ValidateBackupSpec :: "go_time \<Rightarrow> BackupObj \<Rightarrow> BackupObj \<times> bool" where
  "ValidateBackupSpec now b =
     (if backup_spec_errors b = [] then (b, True)
      else (backup_upsert now b ConditionUnknown (backup_reason b) (join_msgs (backup_spec_errors b)), False))"

definition instReady :: "'w backup_env \<Rightarrow> 'w \<Rightarrow> BackupObj \<Rightarrow> go_error + Instance" where
  "instReady env w b =
     (case be_GetInstance env w (bo_Instance b) (bk_Namespace b) of
        Inl err \<Rightarrow> Inl (Errorf (''error finding instance - '' @ err_msg err))
      | Inr inst \<Rightarrow>
          if \<not> ConditionStatusEquals (inst_cond inst k8s_Ready) ConditionTrue
          then Inl (Errorf ''instance is not in a ready state'') else Inr inst)"

definition LoadConfig :: "go_error + ConfigSpec list \<Rightarrow> go_error + ConfigSpec option" where
  "LoadConfig listed =
     (case listed of
        Inl err \<Rightarrow> Inl err
      | Inr items \<Rightarrow>
          if length items = 0 then Inr None
          else if length items > 1
          then Inl (Errorf (''this release only supports a single customer provided config (received '' @ itoa (int (length items)) @ '')''))
          else Inr (Some (hd items)))"

subsection \<open>Snapshot backups\<close>

definition snapshot_of :: "BackupObj \<Rightarrow> Instance \<Rightarrow> string \<Rightarrow> DiskSpec \<Rightarrow> snapshot_object" where
  "snapshot_of b inst vsc spec =
     (case pvc_and_mount inst (ds_Name spec) of
        (shortPVCName, mount) \<Rightarrow>
          \<lparr>so_Name = bk_BackupID b @ ''-'' @ mount, so_Namespace = bk_Namespace b,
           so_ClaimName = shortPVCName @ ''-'' @ GetSTSName (inst_Name inst) @ ''-0'', so_Class = vsc\<rparr>)"

fun SnapshotDisks :: "'w backup_env \<Rightarrow> 'w \<Rightarrow> BackupObj \<Rightarrow> snapshot_object list \<Rightarrow> 'w \<times> go_error option" where
  "SnapshotDisks env w owner [] = (w, None)"
| "SnapshotDisks env w owner (snap # snaps) =
     (case be_owner env owner snap of
        Some err \<Rightarrow> (w, Some err)
      | None \<Rightarrow>
          (case be_Patch env w snap of
             (w1, Some err) \<Rightarrow> (w1, Some err)
           | (w1, None) \<Rightarrow> SnapshotDisks env w1 owner snaps))"

definition snapshot_create :: "'w backup_env \<Rightarrow> 'w \<Rightarrow> BackupObj \<Rightarrow> Instance \<Rightarrow> 'w \<times> go_error option" where
  "snapshot_create env w b inst =
     (case LoadConfig (be_ListConfigs env w (bk_Namespace b)) of
        Inl err \<Rightarrow> (w, Some err)
      | Inr config \<Rightarrow>
          (let failed = Errorf (''failed to identify a volumeSnapshotClassName for instance: '' @ bo_Instance b) in
           case FindVolumeSnapshotClassName (bo_VolumeSnapshotClass b) config ''GCP'' ''Oracle'' of
             Inl err \<Rightarrow> (w, Some failed)
           | Inr vsc \<Rightarrow>
               if vsc = [] then (w, Some failed)
               else SnapshotDisks env w b (map (snapshot_of b inst vsc) (DiskSpecs (Some inst) config))))"

text \<open>The snapshots are looked at in turn; a missing message or flag is a nil pointer.\<close>

fun snapshot_states :: "BackupObj \<Rightarrow> VolumeSnapshot list \<Rightarrow> (bool \<times> go_error option) option" where
  "snapshot_states b [] = Some (True, None)"
| "snapshot_states b (vs # vss) =
     (case vs_Status vs of
        None \<Rightarrow> Some (False, None)
      | Some st \<Rightarrow>
          (case vss_Error st of
             Some None \<Rightarrow> None
           | Some (Some m) \<Rightarrow> Some (True, Some (Errorf (''volumeSnapshot '' @ bk_Namespace b @ ''/'' @ vs_Name vs @ '' failed with: '' @ m)))
           | None \<Rightarrow>
               (case vss_ReadyToUse st of
                  None \<Rightarrow> None
                | Some False \<Rightarrow> Some (False, None)
                | Some True \<Rightarrow> snapshot_states b vss)))"

text \<open>The requirements are built and checked, but what \<open>sel.Add\<close> returns is dropped: the selector stays empty.\<close>

definition snapshot_status :: "'w backup_env \<Rightarrow> 'w \<Rightarrow> BackupObj \<Rightarrow> (bool \<times> go_error option) option" where
  "snapshot_status env w b =
     (case be_NewRequirement env ''name'' [bk_BackupID b @ ''-u02'', bk_BackupID b @ ''-u03''] of
        Some err \<Rightarrow> Some (False, Some err)
      | None \<Rightarrow>
      (case be_NewRequirement env ''namespace'' [bk_Namespace b] of
         Some err \<Rightarrow> Some (False, Some err)
       | None \<Rightarrow>
      (case be_ListSnapshots env w (bk_Namespace b) [] of
         Inl err \<Rightarrow> Some (False, Some err)
       | Inr items \<Rightarrow>
           if length items < 1 then Some (False, Some (Errorf ''no volume snapshots found''))
           else snapshot_states b items)))"

subsection \<open>Physical backups\<close>

definition backupSubType :: "string \<Rightarrow> PhysicalBackupRequest_Type" where
  "backupSubType st =
     (if st = ''Instance'' then INSTANCE else if st = ''Database'' then DATABASE else if st = ''Tablespace'' then TABLESPACE
      else if st = ''Datafile'' then DATAFILE else INSTANCE)"

definition SectionSize :: "BackupObj \<Rightarrow> int" where
  "SectionSize b = int32 (case fst (bo_SectionSize b) of Some v \<Rightarrow> v | None \<Rightarrow> int64 (snd (bo_SectionSize b)))"

definition lroOperationID_backup :: "BackupObj \<Rightarrow> string" where
  "lroOperationID_backup b = ''Backup_'' @ bo_UID b"

definition physical_backup_request :: "BackupObj \<Rightarrow> PhysicalBackupRequest" where
  "physical_backup_request b =
     \<lparr>pbr_BackupSubType = backupSubType (bk_Subtype b), pbr_BackupItems = bo_BackupItems b,
      pbr_Backupset = (case bk_Backupset b of None \<Rightarrow> True | Some v \<Rightarrow> v), pbr_Compressed = bo_Compressed b,
      pbr_CheckLogical = bo_CheckLogical b, pbr_Dop = (if bk_Dop b \<noteq> 0 then bk_Dop b else 1), pbr_Level = bo_Level b,
      pbr_Filesperset = bo_Filesperset b, pbr_SectionSize = SectionSize b, pbr_LocalPath = bk_LocalPath b,
      pbr_GcsPath = bk_GcsPath b, pbr_OperationId = lroOperationID_backup b, pbr_BackupTag = bo_BackupTime b\<rparr>"

definition physical_create :: "'w backup_env \<Rightarrow> 'w \<Rightarrow> BackupObj \<Rightarrow> 'w \<times> go_error option" where
  "physical_create env w b =
     (case PhysicalBackup (be_New env w) (be_calls env) w (physical_backup_request b) of
        (w1, Inl err) \<Rightarrow>
          (w1, if IsAlreadyExistsError err then None else Some (Errorf (''failed on PhysicalBackup gRPC call: '' @ err_msg err)))
      | (w1, Inr _) \<Rightarrow> (w1, None))"

definition physical_delete :: "'w backup_env \<Rightarrow> 'w \<Rightarrow> BackupObj \<Rightarrow> 'w \<times> go_error option" where
  "physical_delete env w b =
     (case PhysicalBackupDelete (be_New env w) (be_calls env) w (bo_BackupTime b) (bk_LocalPath b) (GetBackupGcsPath (plain_backup b)) of
        (w1, Some err) \<Rightarrow> (w1, Some (Errorf (''failed on PhysicalBackupDelete call: '' @ err_msg err)))
      | (w1, None) \<Rightarrow> (w1, None))"

definition physical_status :: "'w backup_env \<Rightarrow> 'w \<Rightarrow> BackupObj \<Rightarrow> 'w \<times> bool \<times> go_error option" where
  "physical_status env w b =
     (let opid = lroOperationID_backup b in
      case GetLROOperation (be_New env w) (be_calls env) w opid of
        Inl err \<Rightarrow> (w, False, Some err)
      | Inr operation \<Rightarrow>
          if op_Done operation
          then (fst (DeleteLROOperation (be_New env w) (be_calls env) w opid), True,
                map_option (\<lambda>e. Errorf (err_msg e)) (op_error operation))
          else (w, False, None))"

record oracleBackupMetadata =
  obm_timestamp :: "go_time option"
  obm_incarnation :: string
  obm_parentIncarnation :: string
  obm_scn :: string
  obm_databaseImage :: string

definition physical_metadata ::
    "'w backup_env \<Rightarrow> 'w \<Rightarrow> BackupObj \<Rightarrow> 'w \<times> (go_error + oracleBackupMetadata option) option" where
  "physical_metadata env w b =
     (case PhysicalBackupMetadata (be_New env w) w (bo_BackupTime b) of
        (w1, None) \<Rightarrow> (w1, None)
      | (w1, Some (Inl err)) \<Rightarrow> (w1, Some (Inl (Errorf (''failed to fetch physical backup metadata: '' @ err_msg err))))
      | (w1, Some (Inr None)) \<Rightarrow> (w1, Some (Inr None))
      | (w1, Some (Inr (Some resp))) \<Rightarrow> (w1, Some (Inr (Some
          \<lparr>obm_timestamp = Some (pbm_BackupTimestamp resp), obm_incarnation = pbm_BackupIncarnation resp, obm_parentIncarnation = [],
           obm_scn = pbm_BackupScn resp, obm_databaseImage = []\<rparr>))))"

subsection \<open>Either kind\<close>

definition is_snapshot :: "BackupObj \<Rightarrow> bool" where
  "is_snapshot b = (bk_Type b = ''Snapshot'')"

definition generateID :: "go_time \<Rightarrow> BackupObj \<Rightarrow> string" where
  "generateID now b =
     bo_Instance b @ ''-'' @ Format_date time_Local now @ ''-'' @ (if is_snapshot b then ''snap'' else ''phys'') @ ''-'' @ itoa (time_Nanosecond now)"

definition backup_create :: "'w backup_env \<Rightarrow> 'w \<Rightarrow> BackupObj \<Rightarrow> Instance \<Rightarrow> 'w \<times> go_error option" where
  "backup_create env w b inst = (if is_snapshot b then snapshot_create env w b inst else physical_create env w b)"

definition backup_status :: "'w backup_env \<Rightarrow> 'w \<Rightarrow> BackupObj \<Rightarrow> ('w \<times> bool \<times> go_error option) option" where
  "backup_status env w b =
     (if is_snapshot b then map_option (Pair w) (snapshot_status env w b) else Some (physical_status env w b))"

definition backup_metadata ::
    "'w backup_env \<Rightarrow> 'w \<Rightarrow> BackupObj \<Rightarrow> 'w \<times> (go_error + oracleBackupMetadata option) option" where
  "backup_metadata env w b = (if is_snapshot b then (w, Some (Inr None)) else physical_metadata env w b)"

definition backup_delete :: "'w backup_env \<Rightarrow> 'w \<Rightarrow> BackupObj \<Rightarrow> 'w \<times> go_error option" where
  "backup_delete env w b = (if is_snapshot b then (w, None) else physical_delete env w b)"

definition Format_compact :: "go_time \<Rightarrow> string" where
  "Format_compact t =
     (let sec = (in_zone time_Local t mod Day) div Second in
      Format_date time_Local t @ pad 2 (sec div 3600) @ pad 2 (sec div 60 mod 60) @ pad 2 (sec mod 60))"

subsection \<open>Status and metadata\<close>

definition map_put :: "string \<Rightarrow> string \<Rightarrow> gomap \<Rightarrow> gomap" where
  "map_put k v m = (if v = [] then m else map_option (\<lambda>f. f(k \<mapsto> v)) m)"

definition made :: "gomap \<Rightarrow> gomap" where
  "made m = (case m of None \<Rightarrow> Some Map.empty | Some f \<Rightarrow> Some f)"

text \<open>Only what is not empty is added.\<close>

definition with_metadata :: "oracleBackupMetadata \<Rightarrow> BackupObj \<Rightarrow> BackupObj" where
  "with_metadata m b =
     b\<lparr>bk_Labels := map_put ParentIncarnationLabel (obm_parentIncarnation m)
         (map_put IncarnationLabel (obm_incarnation m) (made (bk_Labels b))),
       bk_Annotations := map_put DatabaseImageAnnotation (obm_databaseImage m) (map_put SCNAnnotation (obm_scn m)
         (map_put TimestampAnnotation (case obm_timestamp m of None \<Rightarrow> [] | Some t \<Rightarrow> Format_RFC3339 time_UTC t) (made (bk_Annotations b))))\<rparr>"

definition addBackupMetadata ::
    "'w backup_env \<Rightarrow> 'w \<Rightarrow> BackupObj \<Rightarrow> oracleBackupMetadata option \<Rightarrow> 'w \<times> (go_error + BackupObj)" where
  "addBackupMetadata env w b m =
     (case m of None \<Rightarrow> (w, Inr b) | Some md \<Rightarrow> be_Update env w (with_metadata md b))"

definition updateBackupStatus :: "'w backup_env \<Rightarrow> 'w \<Rightarrow> BackupObj \<Rightarrow> Instance \<Rightarrow> 'w \<times> BackupObj \<times> go_error option" where
  "updateBackupStatus env w b inst =
     (let reason = FindCondition (bk_Conditions b) k8s_Ready in
      if ConditionReasonEquals reason k8s_BackupReady then
        (let b1 = b\<lparr>bo_Phase := phase_Succeeded\<rparr> in
         case be_StatusUpdate env w b1 of
           (w1, Some err) \<Rightarrow> (w1, b1, Some err)
         | (w1, None) \<Rightarrow>
             (case be_InstanceStatusUpdate env w1 (inst\<lparr>inst_Status := (inst_Status inst)\<lparr>ist_BackupID := bk_BackupID b1\<rparr>\<rparr>) of
                (w2, err) \<Rightarrow> (w2, b1, err)))
      else
        (let b1 = b\<lparr>bo_Phase := (if ConditionReasonEquals reason k8s_BackupPending then phase_Pending
                                 else if ConditionReasonEquals reason k8s_BackupInProgress then phase_InProgress
                                 else if ConditionReasonEquals reason k8s_BackupFailed then phase_Failed else [])\<rparr>
         in case be_StatusUpdate env w b1 of (w1, err) \<Rightarrow> (w1, b1, err)))"

subsection \<open>Reconciling\<close>

type_synonym 'w backup_result = "('w \<times> ctrl_Result \<times> go_error option) option"

definition done_with :: "ctrl_Result \<Rightarrow> 'w \<times> BackupObj \<times> go_error option \<Rightarrow> 'w backup_result" where
  "done_with res r = (case r of (w, _, err) \<Rightarrow> Some (w, res, err))"

definition update_and :: "'w backup_env \<Rightarrow> 'w \<Rightarrow> BackupObj \<Rightarrow> ctrl_Result \<Rightarrow> 'w backup_result" where
  "update_and env w b res = (case be_StatusUpdate env w b of (w1, err) \<Rightarrow> Some (w1, res, err))"

definition verify_errors :: "BackupObj \<Rightarrow> string list" where
  "verify_errors b =
     (if bk_Type b \<noteq> ''Physical'' then [bk_Type b @ '' backup does not support VerifyExists mode''] else []) @
     (if GetBackupGcsPath (plain_backup b) = []
      then [''Either .spec.gcsPath or .spec.gcsDir must be specified, VerifyExists mode only support GCS based physical backup''] else [])"

definition reconcileVerifyExists :: "'w backup_env \<Rightarrow> 'w \<Rightarrow> BackupObj \<Rightarrow> 'w backup_result" where
  "reconcileVerifyExists env w b =
     (if verify_errors b \<noteq> [] then
        (let msg = join_msgs (verify_errors b);
             w1 = be_Event env w WarningEvent k8s_NotSupported msg
         in update_and env w1 (backup_upsert (be_now env w1) (b\<lparr>bo_Phase := phase_Failed\<rparr>) ConditionFalse k8s_NotSupported msg) Result_zero)
      else case instReady env w b of
        Inl err \<Rightarrow> Some (w, requeue_in requeueInterval, None)
      | Inr inst \<Rightarrow>
          (case VerifyPhysicalBackup (be_New env w) (be_calls env) w (bk_GcsPath b) of
             (w1, Inl err) \<Rightarrow> Some (w1, requeue_now, None)
           | (w1, Inr errMsgs) \<Rightarrow>
               if errMsgs = [] then
                 (let msg = ''verified the existence of a physical backup'';
                      w2 = be_Event env w1 NormalEvent ''BackupVerified'' msg
                  in update_and env w2 (backup_upsert (be_now env w2) (b\<lparr>bo_Phase := phase_Succeeded\<rparr>) ConditionTrue k8s_BackupReady msg)
                       (requeue_in verifyExistsInterval))
               else
                 (let msg = ''Failed to verify the existence of a physical backup: '' @ join_msgs errMsgs;
                      w2 = be_Event env w1 WarningEvent ''BackupVerifyFailed'' msg
                  in update_and env w2 (backup_upsert (be_now env w2) (b\<lparr>bo_Phase := phase_Failed\<rparr>) ConditionFalse k8s_BackupFailed msg)
                       (requeue_in verifyExistsInterval))))"

definition backup_pending :: "'w backup_env \<Rightarrow> 'w \<Rightarrow> BackupObj \<Rightarrow> 'w backup_result" where
  "backup_pending env w b =
     (case instReady env w b of
        Inl err \<Rightarrow>
          (let msg = ''instance not ready: '' @ err_msg err;
               w1 = be_Event env w WarningEvent k8s_BackupFailed msg
           in update_and env w1 ((backup_upsert (be_now env w1) b ConditionFalse k8s_BackupFailed msg)\<lparr>bo_Phase := phase_Failed\<rparr>) Result_zero)
      | Inr inst \<Rightarrow>
          if bk_BackupID b = [] \<or> bo_BackupTime b = [] \<or> bo_StartTime b = None then
            (let now = be_now env w;
                 b1 = b\<lparr>bk_BackupID := generateID now b, bo_BackupTime := Format_compact now, bo_StartTime := Some now\<rparr>
             in done_with (requeue_in requeueInterval) (updateBackupStatus env w b1 inst))
          else
            (case addBackupMetadata env w b (Some
                    \<lparr>obm_timestamp = None, obm_incarnation = ist_CurrentDatabaseIncarnation (inst_Status inst),
                     obm_parentIncarnation = ist_LastDatabaseIncarnation (inst_Status inst), obm_scn = [],
                     obm_databaseImage = map_get (ist_ActiveImages (inst_Status inst)) ''service''\<rparr>) of
               (w1, Inl err) \<Rightarrow> Some (w1, Result_zero, Some err)
             | (w1, Inr b1) \<Rightarrow>
                 (case backup_create env w1 b1 inst of
                    (w2, Some err) \<Rightarrow> Some (w2, Result_zero, Some err)
                  | (w2, None) \<Rightarrow>
                      done_with (requeue_in requeueInterval)
                        (updateBackupStatus env w2 (backup_upsert (be_now env w2) b1 ConditionFalse k8s_BackupInProgress
                           ''Starting to create a backup.'') inst))))"

text \<open>The backup is done without an error.\<close>

definition backup_completed :: "'w backup_env \<Rightarrow> 'w \<Rightarrow> BackupObj \<Rightarrow> Instance \<Rightarrow> 'w backup_result" where
  "backup_completed env w b inst =
     (let w1 = be_Event env w NormalEvent ''BackupCompleted'' (''BackupId:'' @ bk_BackupID b @ '', Elapsed time: '' @
        duration_String (ElapsedTimeFromLastTransitionTime (be_now env w) (FindCondition (bk_Conditions b) k8s_Ready))) in
      case backup_metadata env w1 b of
        (w2, None) \<Rightarrow> None
      | (w2, Some (Inl err)) \<Rightarrow> Some (w2, Result_zero, Some err)
      | (w2, Some (Inr md)) \<Rightarrow>
          (case addBackupMetadata env w2 b md of
             (w3, Inl err) \<Rightarrow> Some (w3, Result_zero, Some err)
           | (w3, Inr b1) \<Rightarrow>
               (case bo_StartTime b1 of
                  None \<Rightarrow> None
                | Some start \<Rightarrow>
                    (let b2 = (backup_upsert (be_now env w3) b1 ConditionTrue k8s_BackupReady [])
                           \<lparr>bo_Duration := Some (time_Sub (be_now env w3) start), bo_GcsPath := GetBackupGcsPath (plain_backup b1)\<rparr>
                     in done_with Result_zero (updateBackupStatus env w3 b2 inst)))))"

definition backup_in_progress :: "'w backup_env \<Rightarrow> 'w \<Rightarrow> BackupObj \<Rightarrow> 'w backup_result" where
  "backup_in_progress env w b =
     (case be_GetInstance env w (bo_Instance b) (bk_Namespace b) of
        Inl err \<Rightarrow> Some (w, Result_zero, Some err)
      | Inr inst \<Rightarrow>
          (case backup_status env w b of
             None \<Rightarrow> None
           | Some (w1, isdone, err) \<Rightarrow>
               (case err of
                  None \<Rightarrow>
                    if isdone then backup_completed env w1 b inst else Some (w1, requeue_in statusCheckInterval, None)
                | Some e \<Rightarrow>
                    if Contains_str (err_msg e) ''code = NotFound'' then
                      done_with Result_zero (updateBackupStatus env w1
                        (backup_upsert (be_now env w1) b ConditionFalse k8s_BackupFailed ''Backup interrupted'') inst)
                    else if isdone then
                      (let w2 = be_Event env w1 WarningEvent ''BackupFailed'' (err_msg e) in
                       done_with Result_zero (updateBackupStatus env w2
                         (backup_upsert (be_now env w2) b ConditionFalse k8s_BackupFailed (err_msg e)) inst))
                    else Some (w1, requeue_in statusCheckInterval, None))))"

definition update_object :: "'w backup_env \<Rightarrow> 'w \<Rightarrow> BackupObj \<Rightarrow> 'w backup_result" where
  "update_object env w b =
     (case be_Update env w b of (w1, Inl err) \<Rightarrow> Some (w1, Result_zero, Some err) | (w1, Inr _) \<Rightarrow> Some (w1, Result_zero, None))"

definition reconcileBackupCreation :: "'w backup_env \<Rightarrow> 'w \<Rightarrow> BackupObj \<Rightarrow> 'w backup_result" where
  "reconcileBackupCreation env w b =
     (case ValidateBackupSpec (be_now env w) b of
        (b1, False) \<Rightarrow> update_and env w b1 Result_zero
      | (b1, True) \<Rightarrow>
          (let state = backup_reason b1 in
           if state = [] then
             update_and env w ((backup_upsert (be_now env w) b1 ConditionFalse k8s_BackupPending ''Waiting for the instance to be ready.'')
               \<lparr>bo_Phase := phase_Pending\<rparr>) (requeue_in requeueInterval)
           else if state = k8s_BackupPending then backup_pending env w b1
           else if state = k8s_BackupInProgress then backup_in_progress env w b1
           else if state = k8s_BackupReady then
             (if BackupFinalizer \<notin> set (bo_Finalizers b1)
              then update_object env w (b1\<lparr>bo_Finalizers := bo_Finalizers b1 @ [BackupFinalizer]\<rparr>)
              else Some (w, Result_zero, None))
           else Some (w, Result_zero, None)))"

definition remove_finalizer :: "BackupObj \<Rightarrow> BackupObj" where
  "remove_finalizer b = b\<lparr>bo_Finalizers := filter (\<lambda>f. f \<noteq> BackupFinalizer) (bo_Finalizers b)\<rparr>"

definition reconcileBackupDeletion :: "'w backup_env \<Rightarrow> 'w \<Rightarrow> BackupObj \<Rightarrow> 'w backup_result" where
  "reconcileBackupDeletion env w b =
     (if BackupFinalizer \<notin> set (bo_Finalizers b) then Some (w, Result_zero, None)
      else if bo_Phase b \<noteq> k8s_BackupDeleting then
        update_and env w ((backup_upsert (be_now env w) b ConditionFalse k8s_BackupDeleting ''Backup delete in progress.'')
          \<lparr>bo_Phase := k8s_BackupDeleting\<rparr>) Result_zero
      else case be_GetInstance env w (bo_Instance b) (bk_Namespace b) of
        Inl err \<Rightarrow> if \<not> IsNotFound err then Some (w, Result_zero, Some err) else update_object env w (remove_finalizer b)
      | Inr _ \<Rightarrow>
          (case backup_delete env w b of
             (w1, Some err) \<Rightarrow> Some (w1, Result_zero, Some (Errorf (''error deleting backup - '' @ err_msg err)))
           | (w1, None) \<Rightarrow> update_object env w1 (remove_finalizer b)))"

definition Reconcile_backup :: "'w backup_env \<Rightarrow> 'w \<Rightarrow> 'w backup_result" where
  "Reconcile_backup env w =
     (case be_GetBackup env w of
        Inl err \<Rightarrow> Some (w, Result_zero, IgnoreNotFound err)
      | Inr b \<Rightarrow>
          if bo_Mode b = ''VerifyExists'' then reconcileVerifyExists env w b
          else if bo_DeletionTimestamp b \<noteq> None then reconcileBackupDeletion env w b
          else reconcileBackupCreation env w b)"

end
