(* ===== verification/BackupLaws.thy ===== *)
theory BackupLaws
  imports BackupController
begin

text \<open>
  What the backup controller guarantees: a backup is started only once its id is recorded, and it completes when
  the calls succeed.
\<close>

lemma backup_reason_upsert [simp]: "backup_reason (backup_upsert now b st r m) = r"
  by (simp add: backup_reason_def backup_upsert_def)

lemma backup_upsert_fields [simp]:
  "bk_Type (backup_upsert now b st r m) = bk_Type b" "bk_Subtype (backup_upsert now b st r m) = bk_Subtype b"
  "bo_Instance (backup_upsert now b st r m) = bo_Instance b" "bk_BackupID (backup_upsert now b st r m) = bk_BackupID b"
  "bo_BackupTime (backup_upsert now b st r m) = bo_BackupTime b" "bo_StartTime (backup_upsert now b st r m) = bo_StartTime b"
  "bo_Mode (backup_upsert now b st r m) = bo_Mode b" "bo_DeletionTimestamp (backup_upsert now b st r m) = bo_DeletionTimestamp b"
  by (simp_all add: backup_upsert_def)

lemma reason_fields [simp]:
  "backup_reason (b\<lparr>bo_Phase := p\<rparr>) = backup_reason b" "backup_reason (b\<lparr>bk_BackupID := i\<rparr>) = backup_reason b"
  "backup_reason (b\<lparr>bo_BackupTime := i\<rparr>) = backup_reason b" "backup_reason (b\<lparr>bo_StartTime := t\<rparr>) = backup_reason b"
  "backup_reason (b\<lparr>bo_Duration := q\<rparr>) = backup_reason b" "backup_reason (b\<lparr>bo_GcsPath := i\<rparr>) = backup_reason b"
  "backup_reason (b\<lparr>bk_Labels := x\<rparr>) = backup_reason b" "backup_reason (b\<lparr>bk_Annotations := x\<rparr>) = backup_reason b"
  by (simp_all add: backup_reason_def)

lemma reason_equals [simp]:
  "r \<noteq> [] \<Longrightarrow> ConditionReasonEquals (FindCondition (bk_Conditions b) k8s_Ready) r \<longleftrightarrow> backup_reason b = r"
  by (simp add: backup_reason_def reason_of_iff)

text \<open>What \<open>updateBackupStatus\<close> stores.\<close>

definition phase_for :: "string \<Rightarrow> string" where
  "phase_for reason =
     (if reason = k8s_BackupReady then phase_Succeeded else if reason = k8s_BackupPending then phase_Pending
      else if reason = k8s_BackupInProgress then phase_InProgress else if reason = k8s_BackupFailed then phase_Failed else [])"

subsection \<open>Completion\<close>

text \<open>
  An environment in which calls succeed: the instance is ready, what is written is stored, the daemon
  accepts the backup, its operation ends without an error and the metadata can be read. \<open>stored\<close> is the backup on
  the API server.
\<close>

definition keeps :: "'w backup_env \<Rightarrow> 'w \<Rightarrow> 'w \<Rightarrow> bool" where
  "keeps env w w' \<longleftrightarrow> be_GetBackup env w' = be_GetBackup env w"

definition calm_server :: "'w backup_env \<Rightarrow> Instance \<Rightarrow> bool" where
  "calm_server env inst \<longleftrightarrow>
     (\<forall>w n ns. be_GetInstance env w n ns = Inr inst) \<and> ConditionStatusEquals (inst_cond inst k8s_Ready) ConditionTrue \<and>
     (\<forall>w b. \<exists>w'. be_StatusUpdate env w b = (w', None) \<and> be_GetBackup env w' = Inr b) \<and>
     (\<forall>w b. \<exists>w'. be_Update env w b = (w', Inr b) \<and> be_GetBackup env w' = Inr b) \<and>
     (\<forall>w i. \<exists>w'. be_InstanceStatusUpdate env w i = (w', None) \<and> keeps env w w') \<and>
     (\<forall>w k r m. keeps env w (be_Event env w k r m))"

definition calm_daemon :: "'w backup_env \<Rightarrow> 'w daemon \<Rightarrow> bool" where
  "calm_daemon env d \<longleftrightarrow>
     (\<forall>w. be_New env w = Conn d) \<and> (\<forall>w dirs. \<exists>w'. d_CreateDirs d w dirs = (w', None) \<and> keeps env w w') \<and>
     (\<forall>w req. \<exists>w' op. rc_RunRMANAsync (be_calls env) w req = (w', Inr op) \<and> keeps env w w') \<and>
     (\<forall>w opid. \<exists>op. rc_GetOperation (be_calls env) w opid = Inr op \<and> op_Done op \<and> op_error op = None) \<and>
     (\<forall>w opid. keeps env w (fst (rc_DeleteOperation (be_calls env) w opid))) \<and>
     (\<forall>w tag. \<exists>w' r. PhysicalBackupMetadata (Conn d) w tag = (w', Some (Inr (Some r))) \<and> keeps env w w')"

text \<open>Reconciles one after the other, as long as none of them fails.\<close>

fun backup_rounds :: "'w backup_env \<Rightarrow> nat \<Rightarrow> 'w \<Rightarrow> 'w option" where
  "backup_rounds env 0 w = Some w"
| "backup_rounds env (Suc n) w =
     (case Reconcile_backup env w of Some (w1, _, None) \<Rightarrow> backup_rounds env n w1 | _ \<Rightarrow> None)"

definition good_spec :: "BackupObj \<Rightarrow> bool" where
  "good_spec b \<longleftrightarrow>
     bk_Type b = ''Physical'' \<and> bo_Instance b \<noteq> [] \<and> bo_Mode b \<noteq> ''VerifyExists'' \<and> bo_DeletionTimestamp b = None \<and>
     bk_Subtype b \<in> {[], ''Instance''} \<and> \<not> (bo_Compressed b \<and> bk_Backupset b = Some False)"

lemma good_spec_upsert [simp]: "good_spec (backup_upsert now b st r m) = good_spec b"
  by (simp add: good_spec_def backup_upsert_def)

lemma good_spec_fields [simp]:
  "good_spec (b\<lparr>bo_Phase := p\<rparr>) = good_spec b" "good_spec (b\<lparr>bk_BackupID := i\<rparr>) = good_spec b"
  "good_spec (b\<lparr>bo_BackupTime := i\<rparr>) = good_spec b" "good_spec (b\<lparr>bo_StartTime := t\<rparr>) = good_spec b"
  "good_spec (with_metadata m b) = good_spec b"
  by (simp_all add: good_spec_def with_metadata_def)

lemma with_metadata_fields [simp]:
  "backup_reason (with_metadata m b) = backup_reason b" "bk_BackupID (with_metadata m b) = bk_BackupID b"
  "bo_StartTime (with_metadata m b) = bo_StartTime b" "bo_BackupTime (with_metadata m b) = bo_BackupTime b"
  by (simp_all add: with_metadata_def)

lemma good_spec_valid: "good_spec b \<Longrightarrow> ValidateBackupSpec now b = (b, True)"
  by (auto simp: good_spec_def ValidateBackupSpec_def backup_spec_errors_def)

lemma reconcile_creation:
  "good_spec b \<Longrightarrow> be_GetBackup env w = Inr b \<Longrightarrow>
   Reconcile_backup env w =
     (let state = backup_reason b in
      if state = [] then
        update_and env w ((backup_upsert (be_now env w) b ConditionFalse k8s_BackupPending ''Waiting for the instance to be ready.'')
          \<lparr>bo_Phase := phase_Pending\<rparr>) (requeue_in requeueInterval)
      else if state = k8s_BackupPending then backup_pending env w b
      else if state = k8s_BackupInProgress then backup_in_progress env w b
      else if state = k8s_BackupReady then
        (if BackupFinalizer \<notin> set (bo_Finalizers b)
         then update_object env w (b\<lparr>bo_Finalizers := bo_Finalizers b @ [BackupFinalizer]\<rparr>)
         else Some (w, Result_zero, None))
      else Some (w, Result_zero, None))"
  unfolding Reconcile_backup_def reconcileBackupCreation_def
  by (simp add: good_spec_valid) (simp add: good_spec_def)

lemma stored_status:
  assumes "calm_server env inst" and "updateBackupStatus env w b i = (w', b', err)" and "backup_reason b \<noteq> []"
  shows "err = None \<and> be_GetBackup env w' = Inr (b\<lparr>bo_Phase := phase_for (backup_reason b)\<rparr>)"
proof -
  have su: "\<exists>w1. be_StatusUpdate env w x = (w1, None) \<and> be_GetBackup env w1 = Inr x" for w x
    using assms(1) unfolding calm_server_def by blast
  have iu: "\<exists>w1. be_InstanceStatusUpdate env w x = (w1, None) \<and> keeps env w w1" for w x
    using assms(1) unfolding calm_server_def by blast
  obtain w1 where w1: "be_StatusUpdate env w (b\<lparr>bo_Phase := phase_for (backup_reason b)\<rparr>) = (w1, None)"
    "be_GetBackup env w1 = Inr (b\<lparr>bo_Phase := phase_for (backup_reason b)\<rparr>)" using su by blast
  show ?thesis
  proof (cases "backup_reason b = k8s_BackupReady")
    case True
    then have "phase_for (backup_reason b) = phase_Succeeded" by (simp add: phase_for_def)
    moreover obtain w2 where "be_InstanceStatusUpdate env w1
        (i\<lparr>inst_Status := (inst_Status i)\<lparr>ist_BackupID := bk_BackupID b\<rparr>\<rparr>) = (w2, None)" "keeps env w1 w2" using iu by blast
    ultimately show ?thesis using assms(2) w1 True by (auto simp: updateBackupStatus_def Let_def keeps_def)
  next
    case False
    then have "phase_for (backup_reason b) =
      (if backup_reason b = k8s_BackupPending then phase_Pending else if backup_reason b = k8s_BackupInProgress then phase_InProgress
       else if backup_reason b = k8s_BackupFailed then phase_Failed else [])" by (simp add: phase_for_def)
    then show ?thesis using assms(2) w1 False by (auto simp: updateBackupStatus_def Let_def)
  qed
qed

lemma pad_nonempty: "pad n x \<noteq> []"
proof -
  have "digits_nat k \<noteq> []" for k by (subst digits_nat.simps) simp
  then show ?thesis by (simp add: pad_def Let_def itoa_def)
qed

lemma id_nonempty: "bo_Instance b \<noteq> [] \<Longrightarrow> generateID now b \<noteq> []"
  by (simp add: generateID_def)

lemma time_nonempty: "Format_compact t \<noteq> []"
  by (simp add: Format_compact_def Let_def pad_nonempty)

lemma round_fresh:
  assumes "calm_server env inst" "good_spec b" "be_GetBackup env w = Inr b" "backup_reason b = []"
  shows "\<exists>w1 res b1. Reconcile_backup env w = Some (w1, res, None) \<and> be_GetBackup env w1 = Inr b1 \<and> good_spec b1 \<and>
    backup_reason b1 = k8s_BackupPending \<and> bk_BackupID b1 = bk_BackupID b"
proof -
  let ?b1 = "(backup_upsert (be_now env w) b ConditionFalse k8s_BackupPending ''Waiting for the instance to be ready.'')\<lparr>bo_Phase := phase_Pending\<rparr>"
  obtain w1 where "be_StatusUpdate env w ?b1 = (w1, None)" "be_GetBackup env w1 = Inr ?b1"
    using assms(1) unfolding calm_server_def by blast
  then show ?thesis using assms(2,4) by (simp add: reconcile_creation [OF assms(2,3)] update_and_def)
qed

lemma instReady_calm: "calm_server env inst \<Longrightarrow> instReady env w b = Inr inst"
  by (simp add: calm_server_def instReady_def)

lemma round_commits_id:
  assumes "calm_server env inst" "good_spec b" "be_GetBackup env w = Inr b" "backup_reason b = k8s_BackupPending" "bk_BackupID b = []"
  shows "\<exists>w1 res b1. Reconcile_backup env w = Some (w1, res, None) \<and> be_GetBackup env w1 = Inr b1 \<and> good_spec b1 \<and>
    backup_reason b1 = k8s_BackupPending \<and> bk_BackupID b1 \<noteq> [] \<and> bo_BackupTime b1 \<noteq> [] \<and> bo_StartTime b1 \<noteq> None"
proof -
  let ?b1 = "b\<lparr>bk_BackupID := generateID (be_now env w) b, bo_BackupTime := Format_compact (be_now env w), bo_StartTime := Some (be_now env w)\<rparr>"
  obtain w1 b1 err where u: "updateBackupStatus env w ?b1 inst = (w1, b1, err)" by (metis prod_cases3)
  have "bo_Instance b \<noteq> []" using assms(2) by (simp add: good_spec_def)
  moreover have "err = None \<and> be_GetBackup env w1 = Inr (?b1\<lparr>bo_Phase := phase_for (backup_reason ?b1)\<rparr>)"
    using assms(4) by (intro stored_status [OF assms(1) u]) simp
  moreover have "Reconcile_backup env w = Some (w1, requeue_in requeueInterval, err)"
    using assms(4,5) u by (simp add: reconcile_creation [OF assms(2,3)] backup_pending_def instReady_calm [OF assms(1)] Let_def done_with_def)
  ultimately show ?thesis using assms(2,4) by (simp add: id_nonempty time_nonempty)
qed

lemma calm_create:
  assumes "calm_daemon env d" "good_spec b"
  shows "\<exists>w1. backup_create env w b inst = (w1, None) \<and> keeps env w w1"
proof -
  have new: "be_New env w = Conn d" using assms(1) by (simp add: calm_daemon_def)
  have gr: "backup_granularity (physical_backup_request b) = Inr ''database''" and sn: "\<not> is_snapshot b"
    and cp: "\<not> (pa_Compressed (backup_params (physical_backup_request b) g) \<and> \<not> pa_Backupset (backup_params (physical_backup_request b) g))" for g
    using assms(2) by (auto simp: good_spec_def backup_granularity_def physical_backup_request_def backupSubType_def is_snapshot_def
        backup_params_def split: option.splits)
  let ?p = "backup_params (physical_backup_request b) ''database''"
  obtain w1 where w1: "d_CreateDirs d w [backup_dir ?p] = (w1, None)" "keeps env w w1"
    using assms(1) unfolding calm_daemon_def by blast
  let ?r = "\<lparr>rr_Scripts = [backupStmt ?p (backup_dir ?p) (if pa_Granularity ?p \<noteq> [] then pa_Granularity ?p else ''database'')],
    rr_GcsPath = pa_GCSPath ?p, rr_LocalPath = pa_LocalPath ?p, rr_OperationId = pa_OperationID ?p\<rparr>"
  obtain w2 op where w2: "rc_RunRMANAsync (be_calls env) w1 ?r = (w2, Inr op)" "keeps env w1 w2"
    using assms(1) unfolding calm_daemon_def by blast
  have "PhysicalBackup (be_New env w) (be_calls env) w (physical_backup_request b) = (w2, Inr op)"
    using w1(1) w2(1) cp [of "''database''"] by (simp add: PhysicalBackup_def gr new opened_def agent_PhysicalBackup_def Let_def)
  then show ?thesis using w1(2) w2(2) sn by (auto simp: backup_create_def physical_create_def keeps_def)
qed

lemma round_starts:
  assumes "calm_server env inst" "calm_daemon env d" "good_spec b" "be_GetBackup env w = Inr b" "backup_reason b = k8s_BackupPending"
    and "bk_BackupID b \<noteq> []" "bo_BackupTime b \<noteq> []" "bo_StartTime b \<noteq> None"
  shows "\<exists>w1 res b1. Reconcile_backup env w = Some (w1, res, None) \<and> be_GetBackup env w1 = Inr b1 \<and> good_spec b1 \<and>
    backup_reason b1 = k8s_BackupInProgress \<and> bk_BackupID b1 = bk_BackupID b \<and> bo_StartTime b1 \<noteq> None"
proof -
  let ?m = "\<lparr>obm_timestamp = None, obm_incarnation = ist_CurrentDatabaseIncarnation (inst_Status inst),
    obm_parentIncarnation = ist_LastDatabaseIncarnation (inst_Status inst), obm_scn = [],
    obm_databaseImage = map_get (ist_ActiveImages (inst_Status inst)) ''service''\<rparr>"
  let ?b1 = "with_metadata ?m b"
  from assms(8) obtain t where start: "bo_StartTime b = Some t" by auto
  obtain w1 where w1: "be_Update env w ?b1 = (w1, Inr ?b1)" using assms(1) unfolding calm_server_def by blast
  obtain w2 where w2: "backup_create env w1 ?b1 inst = (w2, None)" using calm_create [OF assms(2), of ?b1 w1 inst] assms(3) by auto
  let ?b2 = "backup_upsert (be_now env w2) ?b1 ConditionFalse k8s_BackupInProgress ''Starting to create a backup.''"
  obtain w3 b3 err where u: "updateBackupStatus env w2 ?b2 inst = (w3, b3, err)" by (metis prod_cases3)
  have "err = None \<and> be_GetBackup env w3 = Inr (?b2\<lparr>bo_Phase := phase_for (backup_reason ?b2)\<rparr>)"
    by (intro stored_status [OF assms(1) u]) simp
  moreover have "Reconcile_backup env w = Some (w3, requeue_in requeueInterval, err)"
    using assms(5-7) start u w1 w2
    by (simp add: reconcile_creation [OF assms(3,4)] backup_pending_def instReady_calm [OF assms(1)] addBackupMetadata_def done_with_def)
  ultimately show ?thesis using assms(3,8) by simp
qed

lemma round_completes:
  assumes "calm_server env inst" "calm_daemon env d" "good_spec b" "be_GetBackup env w = Inr b" "backup_reason b = k8s_BackupInProgress"
    and "bo_StartTime b \<noteq> None"
  shows "\<exists>w1 res b1. Reconcile_backup env w = Some (w1, res, None) \<and> be_GetBackup env w1 = Inr b1 \<and>
    backup_reason b1 = k8s_BackupReady \<and> bk_BackupID b1 = bk_BackupID b \<and> bo_Phase b1 = phase_Succeeded"
proof -
  let ?id = "lroOperationID_backup b"
  have new: "be_New env v = Conn d" for v using assms(2) by (simp add: calm_daemon_def)
  have gi: "be_GetInstance env w (bo_Instance b) (bk_Namespace b) = Inr inst" using assms(1) by (simp add: calm_server_def)
  have sn: "\<not> is_snapshot b" using assms(3) by (auto simp: good_spec_def is_snapshot_def)
  obtain op where op: "rc_GetOperation (be_calls env) w ?id = Inr op" "op_Done op" "op_error op = None"
    using assms(2) unfolding calm_daemon_def by blast
  define w1 where "w1 = fst (rc_DeleteOperation (be_calls env) w ?id)"
  have st: "backup_status env w b = Some (w1, True, None)"
    using op sn by (simp add: backup_status_def physical_status_def GetLROOperation_def DeleteLROOperation_def new opened_def Let_def w1_def)
  define w2 where "w2 = be_Event env w1 NormalEvent ''BackupCompleted'' (''BackupId:'' @ bk_BackupID b @ '', Elapsed time: '' @
        duration_String (ElapsedTimeFromLastTransitionTime (be_now env w1) (FindCondition (bk_Conditions b) k8s_Ready)))"
  obtain w3 r where r: "PhysicalBackupMetadata (Conn d) w2 (bo_BackupTime b) = (w3, Some (Inr (Some r)))"
    using assms(2) unfolding calm_daemon_def by blast
  let ?m = "\<lparr>obm_timestamp = Some (pbm_BackupTimestamp r), obm_incarnation = pbm_BackupIncarnation r, obm_parentIncarnation = [],
           obm_scn = pbm_BackupScn r, obm_databaseImage = []\<rparr>"
  have md: "backup_metadata env w2 b = (w3, Some (Inr (Some ?m)))"
    using r sn by (simp add: backup_metadata_def physical_metadata_def new)
  let ?b1 = "with_metadata ?m b"
  obtain w4 where w4: "be_Update env w3 ?b1 = (w4, Inr ?b1)" using assms(1) unfolding calm_server_def by blast
  from assms(6) obtain start where start: "bo_StartTime b = Some start" by auto
  let ?b2 = "(backup_upsert (be_now env w4) ?b1 ConditionTrue k8s_BackupReady [])
      \<lparr>bo_Duration := Some (time_Sub (be_now env w4) start), bo_GcsPath := GetBackupGcsPath (plain_backup ?b1)\<rparr>"
  obtain w5 b5 err where u: "updateBackupStatus env w4 ?b2 inst = (w5, b5, err)" by (metis prod_cases3)
  have "err = None \<and> be_GetBackup env w5 = Inr (?b2\<lparr>bo_Phase := phase_for (backup_reason ?b2)\<rparr>)"
    by (intro stored_status [OF assms(1) u]) simp
  moreover have "Reconcile_backup env w = Some (w5, Result_zero, err)"
  proof -
    have "backup_completed env w1 b inst = Some (w5, Result_zero, err)"
      unfolding backup_completed_def Let_def w2_def [symmetric] md
      using w4 start u by (simp add: addBackupMetadata_def done_with_def)
    then show ?thesis using assms(5) st gi by (simp add: reconcile_creation [OF assms(3,4)] backup_in_progress_def)
  qed
  ultimately show ?thesis by (simp add: phase_for_def)
qed

subsection \<open>When a backup is started\<close>

text \<open>The environment with other answers to the calls that start a backup.\<close>

definition other_start ::
    "('w \<Rightarrow> snapshot_object \<Rightarrow> 'w \<times> go_error option) \<Rightarrow> ('w \<Rightarrow> rman_request \<Rightarrow> 'w \<times> (go_error + Operation)) \<Rightarrow> 'w backup_env \<Rightarrow> 'w backup_env" where
  "other_start f g env = env\<lparr>be_Patch := f, be_calls := (be_calls env)\<lparr>rc_RunRMANAsync := g\<rparr>\<rparr>"

lemma other_start_fields [simp]:
  "be_GetBackup (other_start f g env) = be_GetBackup env" "be_GetInstance (other_start f g env) = be_GetInstance env"
  "be_ListSnapshots (other_start f g env) = be_ListSnapshots env" "be_NewRequirement (other_start f g env) = be_NewRequirement env"
  "be_Update (other_start f g env) = be_Update env" "be_StatusUpdate (other_start f g env) = be_StatusUpdate env"
  "be_InstanceStatusUpdate (other_start f g env) = be_InstanceStatusUpdate env" "be_Event (other_start f g env) = be_Event env"
  "be_now (other_start f g env) = be_now env" "be_New (other_start f g env) = be_New env"
  "be_calls (other_start f g env) = (be_calls env)\<lparr>rc_RunRMANAsync := g\<rparr>"
  by (simp_all add: other_start_def)

lemma other_start_helpers [simp]:
  "VerifyPhysicalBackup conn (rc\<lparr>rc_RunRMANAsync := g\<rparr>) = VerifyPhysicalBackup conn rc"
  "GetLROOperation conn (rc\<lparr>rc_RunRMANAsync := g\<rparr>) = GetLROOperation conn rc"
  "DeleteLROOperation conn (rc\<lparr>rc_RunRMANAsync := g\<rparr>) = DeleteLROOperation conn rc"
  "PhysicalBackupDelete conn (rc\<lparr>rc_RunRMANAsync := g\<rparr>) = PhysicalBackupDelete conn rc"
  by (simp_all add: fun_eq_iff VerifyPhysicalBackup_def GetLROOperation_def DeleteLROOperation_def PhysicalBackupDelete_def
      agent_PhysicalBackupDelete_def cong del: option.case_cong_weak sum.case_cong_weak prod.case_cong_weak if_weak_cong)

lemmas same_calls = fun_eq_iff instReady_def update_and_def update_object_def

lemma other_start_steps [simp]:
  "instReady (other_start f g env) = instReady env" "update_and (other_start f g env) = update_and env"
  "update_object (other_start f g env) = update_object env" "updateBackupStatus (other_start f g env) = updateBackupStatus env"
  "addBackupMetadata (other_start f g env) = addBackupMetadata env" "backup_status (other_start f g env) = backup_status env"
  "backup_metadata (other_start f g env) = backup_metadata env" "backup_delete (other_start f g env) = backup_delete env"
  by (simp_all add: same_calls updateBackupStatus_def addBackupMetadata_def backup_status_def physical_status_def snapshot_status_def
      backup_metadata_def physical_metadata_def backup_delete_def physical_delete_def Let_def
      cong del: option.case_cong_weak sum.case_cong_weak prod.case_cong_weak if_weak_cong)

lemma other_start_states [simp]:
  "reconcileVerifyExists (other_start f g env) = reconcileVerifyExists env"
  "reconcileBackupDeletion (other_start f g env) = reconcileBackupDeletion env"
  "backup_in_progress (other_start f g env) = backup_in_progress env"
  by (simp_all add: fun_eq_iff reconcileVerifyExists_def reconcileBackupDeletion_def backup_in_progress_def backup_completed_def Let_def
      cong del: option.case_cong_weak sum.case_cong_weak prod.case_cong_weak if_weak_cong)

definition committed :: "BackupObj \<Rightarrow> bool" where
  "committed b \<longleftrightarrow> backup_reason b = k8s_BackupPending \<and> bk_BackupID b \<noteq> [] \<and> bo_BackupTime b \<noteq> [] \<and> bo_StartTime b \<noteq> None"

text \<open>Unless the stored backup is committed, valid and its instance is ready, the reconcile does not depend on these calls.\<close>

lemma start_calls_idle:
  assumes "be_GetBackup env w = Inr b"
    and "\<not> (committed b \<and> bo_Mode b \<noteq> ''VerifyExists'' \<and> bo_DeletionTimestamp b = None \<and> backup_spec_errors b = [] \<and>
           isl (instReady env w b) = False)"
  shows "Reconcile_backup (other_start f g env) w = Reconcile_backup env w"
proof -
  have v: "b1 = b" if "ValidateBackupSpec now b = (b1, True)" for now b1
    using that by (auto simp: ValidateBackupSpec_def split: if_splits)
  have p: "backup_pending (other_start f g env) w b = backup_pending env w b"
    if "backup_reason b = k8s_BackupPending" "\<not> (committed b \<and> isl (instReady env w b) = False)"
    using that by (cases "instReady env w b") (auto simp: backup_pending_def committed_def Let_def)
  have "reconcileBackupCreation (other_start f g env) w b = reconcileBackupCreation env w b"
    if "bo_Mode b \<noteq> ''VerifyExists''" "bo_DeletionTimestamp b = None"
  proof (cases "backup_spec_errors b = []")
    case True
    with that assms(2) p show ?thesis
      by (cases "backup_reason b = k8s_BackupPending") (simp_all add: reconcileBackupCreation_def ValidateBackupSpec_def Let_def)
  next
    case False
    then show ?thesis by (simp add: reconcileBackupCreation_def ValidateBackupSpec_def)
  qed
  then show ?thesis using assms(1) by (simp add: Reconcile_backup_def)
qed

text \<open>
  C10: with an instance that is ready and calls that succeed, a new physical backup is complete after four
  reconciles: it is reported as ready, in the phase \<open>Succeeded\<close>. The first two reconciles make no call that
  starts a backup (they are the same whatever such a call would do), and after them the id that the backup is
  completed under, its tag and its start time are stored.
\<close>

theorem backup_completes:
  assumes "calm_server env inst" and "calm_daemon env d" and "good_spec b" and "be_GetBackup env w = Inr b"
    and "backup_reason b = []" and "bk_BackupID b = []"
  shows "\<exists>w2 b2 w' b'.
    (\<forall>f g. backup_rounds (other_start f g env) 2 w = Some w2) \<and> be_GetBackup env w2 = Inr b2 \<and> committed b2 \<and>
    backup_rounds env 4 w = Some w' \<and> be_GetBackup env w' = Inr b' \<and> backup_reason b' = k8s_BackupReady \<and>
    bo_Phase b' = phase_Succeeded \<and> bk_BackupID b' = bk_BackupID b2"
proof -
  obtain w1 r1 b1 where 1: "Reconcile_backup env w = Some (w1, r1, None)" "be_GetBackup env w1 = Inr b1" "good_spec b1"
    "backup_reason b1 = k8s_BackupPending" "bk_BackupID b1 = []" using round_fresh [OF assms(1,3,4,5)] assms(6) by auto
  obtain w2 r2 b2 where 2: "Reconcile_backup env w1 = Some (w2, r2, None)" "be_GetBackup env w2 = Inr b2" "good_spec b2"
    "backup_reason b2 = k8s_BackupPending" "bk_BackupID b2 \<noteq> []" "bo_BackupTime b2 \<noteq> []" "bo_StartTime b2 \<noteq> None"
    using round_commits_id [OF assms(1) 1(3,2,4,5)] by blast
  obtain w3 r3 b3 where 3: "Reconcile_backup env w2 = Some (w3, r3, None)" "be_GetBackup env w3 = Inr b3" "good_spec b3"
    "backup_reason b3 = k8s_BackupInProgress" "bk_BackupID b3 = bk_BackupID b2" "bo_StartTime b3 \<noteq> None"
    using round_starts [OF assms(1,2) 2(3,2,4-7)] by blast
  obtain w4 r4 b4 where 4: "Reconcile_backup env w3 = Some (w4, r4, None)" "be_GetBackup env w4 = Inr b4"
    "backup_reason b4 = k8s_BackupReady" "bk_BackupID b4 = bk_BackupID b3" "bo_Phase b4 = phase_Succeeded"
    using round_completes [OF assms(1,2) 3(3,2,4,6)] by blast
  have "backup_rounds env 4 w = Some w4" using 1(1) 2(1) 3(1) 4(1) by (simp add: numeral_nat)
  moreover have "backup_rounds (other_start f g env) 2 w = Some w2" for f g
  proof -
    have "Reconcile_backup (other_start f g env) w = Reconcile_backup env w" "Reconcile_backup (other_start f g env) w1 = Reconcile_backup env w1"
      using start_calls_idle [OF assms(4)] start_calls_idle [OF 1(2)] assms(5) 1(5) by (simp_all add: committed_def)
    then show ?thesis using 1(1) 2(1) by (simp add: numeral_2_eq_2)
  qed
  moreover have "committed b2" using 2(4-7) by (simp add: committed_def)
  ultimately show ?thesis using 2(2) 3(5) 4 by auto
qed

text \<open>
  C11: a backup is started only when it may be. A reconcile makes a call that starts a backup (the RMAN script, or
  a volume snapshot) only for a stored backup that waits in \<open>BackupPending\<close> with its id, its tag and its start
  time recorded, that is not being deleted or only verified, and whose instance is ready: in every other case
  the reconcile is the same whatever these calls would do.
\<close>

theorem backup_started_only_when_committed:
  assumes "be_GetBackup env w = Inr b"
    and "\<not> (committed b \<and> bo_Mode b \<noteq> ''VerifyExists'' \<and> bo_DeletionTimestamp b = None \<and> backup_spec_errors b = [] \<and>
           isl (instReady env w b) = False)"
  shows "Reconcile_backup (other_start f g env) w = Reconcile_backup env w"
  using assms by (rule start_calls_idle)

subsection \<open>A sample controller\<close>

text \<open>A daemon that answers RMAN with a given text, and a server whose state is the stored backup and whether the
  operation was deleted; \<open>forget\<close> says whether a deleted operation can no longer be found.\<close>

definition still_daemon :: "string \<Rightarrow> 'w daemon" where
  "still_daemon out =
     \<lparr>d_client = \<lparr>dc_run = (\<lambda>w _. (w, None)), dc_query = (\<lambda>_ _. Inr [''T'']),
        dc_unmarshal = (\<lambda>_. Inr [''V'' \<mapsto> ''2021-01-02T10:00:00Z'']),
        dc_secret = (\<lambda>_ _. Inl (Errorf ''no secret'')), dc_elements = sorted_list_of_set\<rparr>,
      d_RunSQLPlusFormatted = (\<lambda>w _. (w, Inr [])), d_range = (\<lambda>_. [(''V'', ''2021-01-02T10:00:00Z'')]),
      d_CheckDatabaseState = (\<lambda>_ _ _. None), d_CreateDirs = (\<lambda>w ds. (w, None)), d_BounceDatabase = (\<lambda>w _. (w, None)),
      d_RecoverConfigFile = (\<lambda>w _. (w, None)), d_FileExists = (\<lambda>_ _. Inr True), d_CreateFile = (\<lambda>w _. (w, None)),
      d_CreateListener = (\<lambda>w _. (w, None)), d_CreateCDBAsync = (\<lambda>w _. (w, Inr done_operation)),
      d_BootstrapDatabaseAsync = (\<lambda>w _ _ _. (w, Inr done_operation)), d_bootstrap_unseeded = (\<lambda>w _ _ _. (w, None)),
      d_RunRMAN = (\<lambda>w _. (w, Inr [out]))\<rparr>"

definition sample_log_list :: string where
  "sample_log_list = ''Next SCN'' @ [CHR 0x0A] @ ''---'' @ [CHR 0x0A] @ ''1 5 1500 01-JAN 1734 02-JAN'' @ [CHR 0x0A]"

lemma sample_metadata:
  "\<exists>r. PhysicalBackupMetadata (Conn (still_daemon sample_log_list)) w tag = (w, Some (Inr (Some r)))"
proof -
  have "case backup_times (Conn (still_daemon sample_log_list)) (still_daemon sample_log_list) w 1734 of Some (Inr (Some r)) \<Rightarrow> True | _ \<Rightarrow> False"
    by code_simp
  moreover have "scn_loop [] [] (-1) (scan_lines [] sample_log_list) = Inr 1734" by code_simp
  moreover have "d_RunRMAN (still_daemon sample_log_list) w x = (w, Inr [sample_log_list])" for x by (simp add: still_daemon_def)
  ultimately show ?thesis
    by (auto simp: PhysicalBackupMetadata_def opened_def split: option.splits sum.splits)
qed

definition sample_backup_env :: "string \<Rightarrow> bool \<Rightarrow> (BackupObj \<times> bool) backup_env" where
  "sample_backup_env out forget =
     \<lparr>be_GetBackup = (\<lambda>w. Inr (fst w)), be_GetInstance = (\<lambda>_ _ _. Inr sample_instance), be_ListConfigs = (\<lambda>_ _. Inr []),
      be_ListSnapshots = (\<lambda>_ _ _. Inr []), be_NewRequirement = (\<lambda>_ _. None), be_owner = (\<lambda>_ _. None), be_Patch = (\<lambda>w _. (w, None)),
      be_Update = (\<lambda>w b. ((b, snd w), Inr b)), be_StatusUpdate = (\<lambda>w b. ((b, snd w), None)),
      be_InstanceStatusUpdate = (\<lambda>w _. (w, None)), be_Event = (\<lambda>w _ _ _. w), be_now = (\<lambda>_. 0),
      be_New = (\<lambda>_. Conn (still_daemon out)),
      be_calls = \<lparr>rc_RunRMANAsync = (\<lambda>w r. (w, Inr done_operation)),
        rc_DownloadDirectoryFromGCS = (\<lambda>w _ _ _. (w, None)), rc_ReadDir = (\<lambda>_ _. Inr []),
        rc_DeleteDir = (\<lambda>w path. (w, None)), rc_PhysicalRestoreAsync = (\<lambda>w r. (w, Inr done_operation)),
        rc_GetOperation = (\<lambda>w _. if forget \<and> snd w then Inl (GoError NotFound ''rpc error: code = NotFound'') else Inr done_operation),
        rc_DeleteOperation = (\<lambda>w _. ((fst w, True), None)), rc_GCSDelete = (\<lambda>w path. (w, None))\<rparr>\<rparr>"

definition sample_backup_obj :: BackupObj where
  "sample_backup_obj =
     \<lparr>bk_Name = ''b1'', bk_Namespace = ''db'', bk_Labels = None, bk_Annotations = None, bk_Type = ''Physical'', bk_Subtype = [],
      bk_Backupset = None, bk_Dop = 0, bk_LocalPath = [], bk_GcsPath = [], bk_GcsDir = [], bk_Conditions = [], bk_BackupID = [],
      bo_UID = ''u'', bo_DeletionTimestamp = None, bo_Finalizers = [], bo_Mode = [], bo_Instance = ''mydb'', bo_VolumeSnapshotClass = [],
      bo_BackupItems = None, bo_Compressed = False, bo_CheckLogical = False, bo_Level = 0, bo_Filesperset = 0,
      bo_SectionSize = (Some 0, 0), bo_Phase = [], bo_GcsPath = [], bo_BackupTime = [], bo_StartTime = None, bo_Duration = None\<rparr>"

lemma sample_done: "op_Done done_operation" "op_error done_operation = None"
  by code_simp+

lemma sample_calm:
  "calm_server (sample_backup_env out forget) sample_instance"
  "calm_daemon (sample_backup_env sample_log_list False) (still_daemon sample_log_list)"
proof -
  have "ConditionStatusEquals (inst_cond sample_instance k8s_Ready) ConditionTrue" by code_simp
  then show "calm_server (sample_backup_env out forget) sample_instance"
    by (simp add: calm_server_def sample_backup_env_def keeps_def)
  have "d_CreateDirs (still_daemon sample_log_list) w dirs = (w, None)" for w :: "BackupObj \<times> bool" and dirs
    by (simp add: still_daemon_def)
  then show "calm_daemon (sample_backup_env sample_log_list False) (still_daemon sample_log_list)"
    using sample_metadata sample_done by (fastforce simp: calm_daemon_def sample_backup_env_def keeps_def)
qed

lemma sample_good: "good_spec sample_backup_obj" "backup_reason sample_backup_obj = []" "bk_BackupID sample_backup_obj = []"
  by (simp_all add: good_spec_def sample_backup_obj_def backup_reason_def reason_of_def)

theorem backup_completes_witness:
  "\<exists>w2 w'. (\<forall>f g. backup_rounds (other_start f g (sample_backup_env sample_log_list False)) 2 (sample_backup_obj, False) = Some w2) \<and>
     committed (fst w2) \<and> backup_rounds (sample_backup_env sample_log_list False) 4 (sample_backup_obj, False) = Some w' \<and>
     backup_reason (fst w') = k8s_BackupReady \<and> bk_BackupID (fst w') = bk_BackupID (fst w2)"
  using backup_completes [OF sample_calm(1,2) sample_good(1), of "(sample_backup_obj, False)"] sample_good(2,3)
  by (auto simp: sample_backup_env_def)

theorem backup_started_only_when_committed_witness:
  "Reconcile_backup (other_start (\<lambda>w _. (w, Some (Errorf ''refused''))) (\<lambda>w _. (w, Inl (Errorf ''refused''))) (sample_backup_env [] True))
     (sample_backup_obj, False) = Reconcile_backup (sample_backup_env [] True) (sample_backup_obj, False)"
  by (rule backup_started_only_when_committed [where b = sample_backup_obj])
    (simp_all add: sample_backup_env_def committed_def sample_good)

subsection \<open>Further facts\<close>

text \<open>The state of a snapshot backup is that of all snapshots of the namespace: it does not depend on the id.\<close>

lemma snapshot_status_ignores_id:
  assumes "\<forall>k vs. be_NewRequirement env k vs = None"
  shows "snapshot_status env w (b\<lparr>bk_BackupID := i\<rparr>) = snapshot_status env w b"
proof -
  have "snapshot_states (b\<lparr>bk_BackupID := i\<rparr>) vss = snapshot_states b vss" for vss
    by (induction vss) (auto split: option.splits bool.splits)
  with assms show ?thesis by (auto simp: snapshot_status_def split: sum.splits)
qed

text \<open>With a directory for the backups, the request for the backup has no path in Cloud Storage, although the status
  reports one: the backup stays on the local disk.\<close>

lemma gcs_dir_not_used:
  assumes "bk_GcsDir b \<noteq> []" "bk_GcsPath b = []" "bk_Name b \<noteq> []"
  shows "pbr_GcsPath (physical_backup_request b) = [] \<and> GetBackupGcsPath (plain_backup b) \<noteq> []"
  using assms by (auto simp: physical_backup_request_def GetBackupGcsPath_def Instance.Backup.truncate_def)

end
