(* ===== verification/Pitr.thy ===== *)
theory Pitr
  imports Daemon "HOL-Library.Word"
begin

text \<open>
  \<open>oracle/pkg/agents/pitr/pitr.go\<close>: the agent that copies archived redo logs to a bucket, keeps a catalog of them,
  deletes expired ones and stages them for a recovery. Storage clients are records of functions of the
  world \<open>'w\<close>; what gob and JSON encode is a parameter. A reader's or writer's error on closing is part of the answer
  of the read or write. The zero time is \<open>0\<close>.
\<close>

abbreviation gsPrefix :: string where "gsPrefix \<equiv> ''gs://''"
abbreviation MetadataStorePath :: string where "MetadataStorePath \<equiv> ''catalog''"
abbreviation archiveLagParam :: string where "archiveLagParam \<equiv> ''archive_lag_target''"

subsection \<open>Storage\<close>

fun index_slash :: "string \<Rightarrow> nat option" where
  "index_slash [] = None"
| "index_slash (c # s) = (if c = CHR ''/'' then Some 0 else map_option Suc (index_slash s))"

definition splitURI :: "string \<Rightarrow> go_error + string \<times> string" where
  "splitURI url =
     (if \<not> HasPrefix url gsPrefix then Inl (Errorf (''URL '' @ url @ '' is missing the prefix'')) else
      let u = drop (length gsPrefix) url in
      case index_slash u of
        Some i \<Rightarrow> if 2 \<le> i then Inr (take i u, drop (i + 1) u)
                  else Inl (Errorf (''URL '' @ url @ '' does not specify a bucket and a name''))
      | None \<Rightarrow> Inl (Errorf (''URL '' @ url @ '' does not specify a bucket and a name'')))"

record 'w storage =
  sc_hash :: "'w \<Rightarrow> string \<Rightarrow> go_error + string"
  sc_mtime :: "'w \<Rightarrow> string \<Rightarrow> go_error + go_time"
  sc_mkdirp :: "'w \<Rightarrow> string \<Rightarrow> 'w \<times> go_error option"
  sc_read :: "'w \<Rightarrow> string \<Rightarrow> go_error + string"
  sc_write :: "'w \<Rightarrow> string \<Rightarrow> string \<Rightarrow> 'w \<times> go_error option"
  sc_delete :: "'w \<Rightarrow> string \<Rightarrow> bool \<Rightarrow> 'w \<times> go_error option"

text \<open>The Cloud Storage library: attributes of a bucket, the checksum of an object, its content with the time of its
  last change, writing and deleting an object.\<close>

record 'w gcs_api =
  ga_bucket :: "'w \<Rightarrow> string \<Rightarrow> go_error option"
  ga_crc :: "'w \<Rightarrow> string \<Rightarrow> string \<Rightarrow> go_error + 32 word"
  ga_reader :: "'w \<Rightarrow> string \<Rightarrow> string \<Rightarrow> go_error + string \<times> go_time"
  ga_write :: "'w \<Rightarrow> string \<Rightarrow> string \<Rightarrow> string \<Rightarrow> 'w \<times> go_error option"
  ga_delete :: "'w \<Rightarrow> string \<Rightarrow> string \<Rightarrow> 'w \<times> go_error option"

definition big_endian :: "32 word \<Rightarrow> string" where
  "big_endian c = map (\<lambda>i. char_of (uint (drop_bit (8 * i) c) mod 256)) [3, 2, 1, 0]"

definition gcs_object :: "'w gcs_api \<Rightarrow> 'w \<Rightarrow> string \<Rightarrow> go_error + string \<times> go_time" where
  "gcs_object api w path =
     (case splitURI path of
        Inl err \<Rightarrow> Inl err
      | Inr (bucket, name) \<Rightarrow> (case ga_bucket api w bucket of Some err \<Rightarrow> Inl err | None \<Rightarrow> ga_reader api w bucket name))"

definition gcs_hash :: "'w gcs_api \<Rightarrow> 'w \<Rightarrow> string \<Rightarrow> go_error + string" where
  "gcs_hash api w path =
     (case splitURI path of
        Inl err \<Rightarrow> Inl err
      | Inr (bucket, name) \<Rightarrow> (case ga_crc api w bucket name of Inl err \<Rightarrow> Inl err | Inr c \<Rightarrow> Inr (big_endian c)))"

definition gcs_write :: "'w gcs_api \<Rightarrow> 'w \<Rightarrow> string \<Rightarrow> string \<Rightarrow> 'w \<times> go_error option" where
  "gcs_write api w path bytes =
     (case splitURI path of
        Inl err \<Rightarrow> (w, Some err)
      | Inr (bucket, name) \<Rightarrow> (case ga_bucket api w bucket of Some err \<Rightarrow> (w, Some err) | None \<Rightarrow> ga_write api w bucket name bytes))"

definition gcs_delete :: "'w gcs_api \<Rightarrow> 'w \<Rightarrow> string \<Rightarrow> bool \<Rightarrow> 'w \<times> go_error option" where
  "gcs_delete api w path ignoreNotExists =
     (case splitURI path of
        Inl err \<Rightarrow> (w, Some err)
      | Inr (bucket, name) \<Rightarrow>
          (case ga_delete api w bucket name of
             (w1, Some err) \<Rightarrow> (w1, if ignoreNotExists \<and> IsNotFound err then None
                                     else Some (Errorf (''Bucket('' @ bucket @ '').Object('' @ name @ '').Delete: '' @ err_msg err)))
           | (w1, None) \<Rightarrow> (w1, None)))"

definition gcsClient :: "'w gcs_api \<Rightarrow> 'w storage" where
  "gcsClient api =
     \<lparr>sc_hash = gcs_hash api, sc_mtime = (\<lambda>w path. map_sum id snd (gcs_object api w path)), sc_mkdirp = (\<lambda>w _. (w, None)),
      sc_read = (\<lambda>w path. map_sum id fst (gcs_object api w path)), sc_write = gcs_write api, sc_delete = gcs_delete api\<rparr>"

text \<open>The operating system: reading a file, its time, making a directory with its parents, writing and removing a file.\<close>

record 'w os_api =
  os_open :: "'w \<Rightarrow> string \<Rightarrow> go_error + string"
  os_stat :: "'w \<Rightarrow> string \<Rightarrow> go_error + go_time"
  os_mkdirall :: "'w \<Rightarrow> string \<Rightarrow> 'w \<times> go_error option"
  os_write :: "'w \<Rightarrow> string \<Rightarrow> string \<Rightarrow> 'w \<times> go_error option"
  os_remove :: "'w \<Rightarrow> string \<Rightarrow> 'w \<times> go_error option"
  os_dir :: "string \<Rightarrow> string"

text \<open>CRC-32C, bit by bit with the reflected polynomial.\<close>

definition crc_bit :: "32 word \<Rightarrow> 32 word" where
  "crc_bit c = (if bit c 0 then xor (drop_bit 1 c) 0x82F63B78 else drop_bit 1 c)"

definition crc32c :: "string \<Rightarrow> 32 word" where
  "crc32c s = not (foldl (\<lambda>c b. (crc_bit ^^ 8) (xor c (of_nat (of_char b)))) (not 0) s)"

definition fs_write :: "'w os_api \<Rightarrow> 'w \<Rightarrow> string \<Rightarrow> string \<Rightarrow> 'w \<times> go_error option" where
  "fs_write api w path bytes =
     (case os_stat api w (os_dir api path) of
        Inl err \<Rightarrow>
          if IsNotFound err then
            (case os_mkdirall api w (os_dir api path) of
               (w1, Some e) \<Rightarrow> (w1, Some e)
             | (w1, None) \<Rightarrow> os_write api w1 path bytes)
          else os_write api w path bytes
      | Inr _ \<Rightarrow> os_write api w path bytes)"

definition fs_delete :: "'w os_api \<Rightarrow> 'w \<Rightarrow> string \<Rightarrow> bool \<Rightarrow> 'w \<times> go_error option" where
  "fs_delete api w path ignoreNotExists =
     (case os_remove api w path of
        (w1, Some err) \<Rightarrow> (w1, if ignoreNotExists \<and> IsNotFound err then None else Some err)
      | (w1, None) \<Rightarrow> (w1, None))"

definition fsClient :: "'w os_api \<Rightarrow> 'w storage" where
  "fsClient api =
     \<lparr>sc_hash = (\<lambda>w path. map_sum id (\<lambda>b. big_endian (crc32c b)) (os_open api w path)), sc_mtime = os_stat api,
      sc_mkdirp = os_mkdirall api, sc_read = os_open api, sc_write = fs_write api, sc_delete = fs_delete api\<rparr>"

text \<open>\<open>base64.StdEncoding\<close>.\<close>

definition b64_char :: "nat \<Rightarrow> char" where
  "b64_char n =
     (if n < 26 then char_of (65 + n) else if n < 52 then char_of (71 + n) else if n < 62 then char_of (n - 4)
      else if n = 62 then CHR ''+'' else CHR ''/'')"

fun base64 :: "nat list \<Rightarrow> string" where
  "base64 [] = []"
| "base64 [a] = [b64_char (a div 4), b64_char (a mod 4 * 16), CHR ''='', CHR ''='']"
| "base64 [a, b] = [b64_char (a div 4), b64_char (a mod 4 * 16 + b div 16), b64_char (b mod 16 * 4), CHR ''='']"
| "base64 (a # b # c # s) =
     b64_char (a div 4) # b64_char (a mod 4 * 16 + b div 16) # b64_char (b mod 16 * 4 + c div 64) # b64_char (c mod 64) # base64 s"

definition EncodeToString :: "string \<Rightarrow> string" where
  "EncodeToString s = base64 (map of_char s)"

subsection \<open>The catalog\<close>

record LogHashEntry =
  lh_Crc32cHash :: string
  lh_ReplicaPath :: string
  lh_ModTime :: go_time

definition LogHashEntry_zero :: LogHashEntry where
  "LogHashEntry_zero = \<lparr>lh_Crc32cHash = [], lh_ReplicaPath = [], lh_ModTime = 0\<rparr>"

record LogMetadataEntry =
  lm_Hash :: LogHashEntry
  lm_SrcPath :: string
  lm_FirstChange :: string
  lm_NextChange :: string
  lm_FirstTime :: go_time
  lm_NextTime :: go_time
  lm_CompletionTime :: string
  lm_Sequence :: string
  lm_Incarnation :: string
  lm_Thread :: string

abbreviation replica :: "LogMetadataEntry \<Rightarrow> string" where
  "replica e \<equiv> lh_ReplicaPath (lm_Hash e)"

text \<open>\<open>LogMetadata\<close> is its map; a nil map is used like an empty one.\<close>

type_synonym LogMetadata = "string \<rightharpoonup> LogMetadataEntry"

text \<open>\<open>gob\<close>, and the order in which a range goes over a map.\<close>

record gob =
  gob_hash :: "LogHashEntry \<Rightarrow> string"
  gob_unhash :: "string \<Rightarrow> go_error + LogHashEntry"
  gob_meta :: "LogMetadata \<Rightarrow> string"
  gob_unmeta :: "string \<Rightarrow> go_error + LogMetadata"
  gob_order :: "LogMetadata \<Rightarrow> string list"

record 'w SimpleStore =
  ss_c :: "'w storage"
  ss_dataDir :: string

definition NewSimpleStore :: "go_error + 'w storage \<Rightarrow> 'w storage \<Rightarrow> string \<Rightarrow> go_error + 'w SimpleStore" where
  "NewSimpleStore gcs local dataDir =
     (let dir = (if HasSuffix dataDir ''/'' then dataDir else dataDir @ ''/'') in
      if HasPrefix dataDir gsPrefix then (case gcs of Inl err \<Rightarrow> Inl err | Inr c \<Rightarrow> Inr \<lparr>ss_c = c, ss_dataDir = dir\<rparr>)
      else Inr \<lparr>ss_c = local, ss_dataDir = dir\<rparr>)"

definition store_Read :: "'w SimpleStore \<Rightarrow> (string \<Rightarrow> go_error + 'a) \<Rightarrow> 'w \<Rightarrow> string \<Rightarrow> go_error + 'a" where
  "store_Read s dec w path =
     (case sc_read (ss_c s) w (ss_dataDir s @ path) of Inl err \<Rightarrow> Inl err | Inr bytes \<Rightarrow> dec bytes)"

definition store_write :: "'w SimpleStore \<Rightarrow> ('a \<Rightarrow> string) \<Rightarrow> 'w \<Rightarrow> string \<Rightarrow> 'a \<Rightarrow> 'w \<times> go_error option" where
  "store_write s enc w path x = sc_write (ss_c s) w (ss_dataDir s @ path) (enc x)"

text \<open>The path is used as it is, without the directory of the store.\<close>

definition store_delete :: "'w SimpleStore \<Rightarrow> 'w \<Rightarrow> string \<Rightarrow> 'w \<times> go_error option" where
  "store_delete s w path = sc_delete (ss_c s) w path True"

subsection \<open>Replication\<close>

record srcDest =
  sd_src :: string
  sd_dest :: string

record 'w replicationGroup =
  rg_srcClient :: "'w storage"
  rg_destClient :: "'w storage"

definition rg_copy :: "'w replicationGroup \<Rightarrow> 'w \<Rightarrow> srcDest \<Rightarrow> 'w \<times> go_error option" where
  "rg_copy g w sd =
     (case sc_read (rg_srcClient g) w (sd_src sd) of
        Inl err \<Rightarrow> (w, Some err)
      | Inr bytes \<Rightarrow> sc_write (rg_destClient g) w (sd_dest sd) bytes)"

definition validateHash :: "'w replicationGroup \<Rightarrow> 'w \<Rightarrow> string \<Rightarrow> string \<Rightarrow> go_error + string" where
  "validateHash g w src dest =
     (case sc_hash (rg_srcClient g) w src of
        Inl err \<Rightarrow> Inl err
      | Inr srcHash \<Rightarrow>
          (case sc_hash (rg_destClient g) w dest of
             Inl err \<Rightarrow> Inl err
           | Inr destHash \<Rightarrow>
               if EncodeToString srcHash \<noteq> EncodeToString destHash
               then Inl (Errorf (''hash mismatched src '' @ src @ '', dest '' @ dest)) else Inr (EncodeToString destHash)))"

definition rg_changed :: "'w replicationGroup \<Rightarrow> gob \<Rightarrow> 'w \<Rightarrow> string \<Rightarrow> 'w SimpleStore \<Rightarrow> bool \<times> go_error option" where
  "rg_changed g gb w src hashStore =
     (case store_Read hashStore (gob_unhash gb) w src of
        Inl err \<Rightarrow> (True, Some err)
      | Inr storedHash \<Rightarrow>
          if lh_ReplicaPath storedHash = [] then (True, None)
          else case sc_mtime (rg_srcClient g) w src of
            Inl err \<Rightarrow> (True, Some err)
          | Inr currentModTime \<Rightarrow> (currentModTime \<noteq> lh_ModTime storedHash, None))"

text \<open>The number is what \<open>errCount\<close> grows by.\<close>

definition rg_sync :: "'w replicationGroup \<Rightarrow> gob \<Rightarrow> 'w \<Rightarrow> srcDest \<Rightarrow> 'w SimpleStore \<Rightarrow> 'w \<times> nat" where
  "rg_sync g gb w sd hashStore =
     (if rg_changed g gb w (sd_src sd) hashStore = (False, None) then (w, 0) else
      case rg_copy g w sd of
        (w1, Some err) \<Rightarrow> (w1, 1)
      | (w1, None) \<Rightarrow>
          (case validateHash g w1 (sd_src sd) (sd_dest sd) of
             Inl err \<Rightarrow> (w1, 1)
           | Inr hash \<Rightarrow>
               (let mt = sc_mtime (rg_srcClient g) w1 (sd_src sd);
                    t = (case mt of Inl _ \<Rightarrow> 0 | Inr t \<Rightarrow> t);
                    n = (case mt of Inl _ \<Rightarrow> 1 | Inr _ \<Rightarrow> 0)
                in case store_write hashStore (gob_hash gb) w1 (sd_src sd)
                         \<lparr>lh_Crc32cHash = hash, lh_ReplicaPath = sd_dest sd, lh_ModTime = t\<rparr> of
                     (w2, Some err) \<Rightarrow> (w2, n + 1)
                   | (w2, None) \<Rightarrow> (w2, n))))"

text \<open>What \<open>filepath.WalkDir\<close> visits: a path with the error it was visited with, the answer of \<open>Info\<close>, its path
  relative to the root, and whether it is a directory.\<close>

record walk_entry =
  we_path :: string
  we_err :: "go_error option"
  we_info :: "go_error option"
  we_rel :: "go_error + string"
  we_isDir :: bool

definition dest_path :: "string \<Rightarrow> string \<Rightarrow> string" where
  "dest_path destDir sub = (if HasSuffix destDir ''/'' then destDir @ sub else destDir @ ''/'' @ sub)"

text \<open>What the walk does itself: it makes the directories and sends the files to the workers, until an error ends it.\<close>

fun walk_loop ::
    "'w replicationGroup \<Rightarrow> string \<Rightarrow> 'w \<Rightarrow> walk_entry list \<Rightarrow> 'w \<times> srcDest list \<times> go_error option" where
  "walk_loop g destDir w [] = (w, [], None)"
| "walk_loop g destDir w (e # es) =
     (case we_err e of
        Some err \<Rightarrow> (w, [], Some err)
      | None \<Rightarrow>
      (case we_info e of
         Some err \<Rightarrow> (w, [], Some err)
       | None \<Rightarrow>
      (case we_rel e of
         Inl err \<Rightarrow> (w, [], Some err)
       | Inr sub \<Rightarrow>
           (let dest = dest_path destDir sub in
            if we_isDir e then
              (case sc_mkdirp (rg_destClient g) w dest of
                 (w1, Some err) \<Rightarrow> (w1, [], Some err)
               | (w1, None) \<Rightarrow> walk_loop g destDir w1 es)
            else
              (case walk_loop g destDir w es of
                 (w1, sent, err) \<Rightarrow> (w1, \<lparr>sd_src = we_path e, sd_dest = dest\<rparr> # sent, err))))))"

text \<open>What the workers do with the files, in the order in which they finish them; the number is \<open>errCount\<close>.\<close>

fun runSync :: "'w replicationGroup \<Rightarrow> gob \<Rightarrow> 'w SimpleStore \<Rightarrow> 'w \<Rightarrow> nat \<Rightarrow> srcDest list \<Rightarrow> 'w \<times> nat" where
  "runSync g gb hashStore w errs [] = (w, errs)"
| "runSync g gb hashStore w errs (sd # sds) =
     (case rg_sync g gb w sd hashStore of (w1, n) \<Rightarrow> runSync g gb hashStore w1 (errs + n) sds)"

text \<open>
  The workers run beside the walk and beside each other. Which files each worker takes and in which order they are
  finished is left to the scheduler: \<open>sched\<close> is any order of the files sent, as a run of the workers gives it
  (\<open>pool_step\<close>, \<open>pool_order\<close>). A file is synced in one step: workers sync different files, and the hash store
  is locked.
\<close>

definition runReplication ::
    "(string \<Rightarrow> walk_entry list) \<Rightarrow> (srcDest list \<Rightarrow> srcDest list) \<Rightarrow> gob \<Rightarrow> 'w storage \<Rightarrow> 'w storage \<Rightarrow> 'w SimpleStore \<Rightarrow>
     'w \<Rightarrow> string \<Rightarrow> string \<Rightarrow> 'w \<times> go_error option" where
  "runReplication walk sched gb localClient remoteClient hashStore w srcDir destDir =
     (let g = \<lparr>rg_srcClient = localClient, rg_destClient = remoteClient\<rparr> in
      case walk_loop g destDir w (walk srcDir) of
        (w1, sent, err) \<Rightarrow>
      (case runSync g gb hashStore w1 0 (sched sent) of
         (w2, errCount) \<Rightarrow>
           if errCount > 0 \<or> err \<noteq> None
           then (w2, Some (Errorf (''replication completed with errors sync error count: '' @ itoa (int errCount) @ '', walk dir error: '' @
                   (case err of None \<Rightarrow> ''<nil>'' | Some e \<Rightarrow> err_msg e))))
           else (w2, None)))"

definition getArchivedLogDir :: "'w daemon \<Rightarrow> 'w \<Rightarrow> go_error + string" where
  "getArchivedLogDir d w =
     (case query_sql d w [''select name from v$recovery_file_dest''] of
        Inl err \<Rightarrow> Inl err
      | Inr [] \<Rightarrow> Inl (Errorf ''getArchivedLogDir: failed to find the recovery_file_dest'')
      | Inr (msg # _) \<Rightarrow>
          (case dc_unmarshal (d_client d) msg of
             Inl err \<Rightarrow> Inl err
           | Inr row \<Rightarrow> Inr (case row ''NAME'' of None \<Rightarrow> [] | Some v \<Rightarrow> v)))"

text \<open>A tick of the syncer: the second component is the directory it reads. The test of the error is as in the code.\<close>

definition syncer_tick ::
    "'w daemon \<Rightarrow> (string \<Rightarrow> walk_entry list) \<Rightarrow> (srcDest list \<Rightarrow> srcDest list) \<Rightarrow> gob \<Rightarrow> 'w storage \<Rightarrow> 'w storage \<Rightarrow> 'w SimpleStore \<Rightarrow> string \<Rightarrow> 'w \<times> string \<Rightarrow> 'w \<times> string" where
  "syncer_tick d walk sched gb local remote hashStore dest = (\<lambda>(w, src).
     case runReplication walk sched gb local remote hashStore w src dest of
       (w1, Some err) \<Rightarrow> (w1, src)
     | (w1, None) \<Rightarrow>
         (case getArchivedLogDir d w1 of
            Inl err \<Rightarrow> (w1, [])
          | Inr newSrc \<Rightarrow> (w1, src)))"

text \<open>The syncer until it is cancelled, after \<open>n\<close> ticks.\<close>

definition syncer_run ::
    "'w daemon \<Rightarrow> (string \<Rightarrow> walk_entry list) \<Rightarrow> (srcDest list \<Rightarrow> srcDest list) \<Rightarrow> gob \<Rightarrow> 'w storage \<Rightarrow> 'w storage \<Rightarrow> 'w SimpleStore \<Rightarrow> string \<Rightarrow> nat \<Rightarrow> 'w \<Rightarrow>
     'w \<times> go_error option" where
  "syncer_run d walk sched gb local remote hashStore dest n w =
     (case getArchivedLogDir d w of
        Inl err \<Rightarrow> (w, Some err)
      | Inr src \<Rightarrow>
          (case runReplication walk sched gb local remote hashStore w src dest of
             (w1, _) \<Rightarrow> (fst ((syncer_tick d walk sched gb local remote hashStore dest ^^ n) (w1, src)), None)))"

definition RunLogReplication ::
    "'w daemon \<Rightarrow> (string \<Rightarrow> walk_entry list) \<Rightarrow> (srcDest list \<Rightarrow> srcDest list) \<Rightarrow> gob \<Rightarrow> 'w storage \<Rightarrow> go_error + 'w storage \<Rightarrow> 'w SimpleStore \<Rightarrow> string \<Rightarrow> nat \<Rightarrow> 'w \<Rightarrow>
     'w \<times> go_error option" where
  "RunLogReplication d walk sched gb local gcs hashStore dest n w =
     (if HasPrefix dest gsPrefix then
        (case gcs of Inl err \<Rightarrow> (w, Some err) | Inr c \<Rightarrow> syncer_run d walk sched gb local c hashStore dest n w)
      else syncer_run d walk sched gb local local hashStore dest n w)"

definition archive_lag_sql :: string where
  "archive_lag_sql = ''select value from v$parameter where name='' @ [squote] @ archiveLagParam @ [squote]"

definition SetArchiveLag :: "'w daemon \<Rightarrow> 'w \<Rightarrow> 'w \<times> go_error option" where
  "SetArchiveLag d w =
     (case query_sql d w [archive_lag_sql] of
        Inl err \<Rightarrow> (w, Some (Errorf (''SetArchiveLag: failed to get archive lag value : '' @ err_msg err)))
      | Inr msgs \<Rightarrow>
          (case (case msgs of
                   [] \<Rightarrow> Inr ''0''
                 | msg # _ \<Rightarrow>
                     (case dc_unmarshal (d_client d) msg of
                        Inl err \<Rightarrow> Inl (Errorf ''SetArchiveLag: failed to parse'')
                      | Inr row \<Rightarrow> Inr (case row ''VALUE'' of None \<Rightarrow> [] | Some v \<Rightarrow> v))) of
             Inl err \<Rightarrow> (w, Some err)
           | Inr lag \<Rightarrow>
               if lag \<noteq> ''0'' then (w, None)
               else
                 (let cmd = ''alter system set '' @ archiveLagParam @ ''=600 scope=both'' in
                  case run_sql d w [cmd] of
                    (w1, Some err) \<Rightarrow> (w1, Some (Errorf (''SetArchiveLag: failed to exectue parameter command: '' @ cmd)))
                  | (w1, None) \<Rightarrow> (w1, None))))"

subsection \<open>Updating the catalog\<close>

definition to_char :: "string \<Rightarrow> string \<Rightarrow> string" where
  "to_char column format = ''TO_CHAR(v$archived_log.'' @ column @ '', '' @ [squote] @ format @ [squote] @ '') as '' @ column @ '', ''"

definition rfc_format :: "string \<Rightarrow> string" where
  "rfc_format suffix =
     ''YYYY-MM-DD'' @ [dquote] @ ''T'' @ [dquote] @ ''HH24:MI:SS'' @ [dquote] @ suffix @ [dquote]"

definition archived_log_sql :: "string \<Rightarrow> string" where
  "archived_log_sql archiveDir =
     ''select v$archived_log.NAME, v$archived_log.FIRST_CHANGE#, '' @ to_char ''FIRST_TIME'' (rfc_format ''Z'') @
     ''v$archived_log.NEXT_CHANGE#, '' @ to_char ''NEXT_TIME'' (rfc_format ''Z'') @ ''v$archived_log.SEQUENCE#, '' @
     to_char ''COMPLETION_TIME'' (rfc_format ''Z00:00'') @ ''v$database_incarnation.INCARNATION#, v$archived_log.THREAD# '' @
     ''from v$archived_log left join v$database_incarnation on v$archived_log.RESETLOGS_ID=v$database_incarnation.RESETLOGS_ID '' @
     ''where v$archived_log.COMPLETION_TIME >= (SYSDATE - 30) AND  v$archived_log.NAME LIKE '' @ [squote] @ archiveDir @ ''%'' @ [squote]"

definition col :: "(string \<rightharpoonup> string) \<Rightarrow> string \<Rightarrow> string" where
  "col row k = (case row k of None \<Rightarrow> [] | Some v \<Rightarrow> v)"

definition log_key :: "(string \<rightharpoonup> string) \<Rightarrow> string" where
  "log_key row = col row ''THREAD#'' @ ''-'' @ col row ''INCARNATION#'' @ ''-'' @ col row ''SEQUENCE#''"

definition log_entry :: "(string \<rightharpoonup> string) \<Rightarrow> go_time \<Rightarrow> go_time \<Rightarrow> LogHashEntry \<Rightarrow> LogMetadataEntry" where
  "log_entry row startTime nextTime h =
     \<lparr>lm_Hash = h, lm_SrcPath = col row ''NAME'', lm_FirstChange = col row ''FIRST_CHANGE#'', lm_NextChange = col row ''NEXT_CHANGE#'',
      lm_FirstTime = startTime, lm_NextTime = nextTime, lm_CompletionTime = col row ''COMPLETION_TIME'',
      lm_Sequence = col row ''SEQUENCE#'', lm_Incarnation = col row ''INCARNATION#'', lm_Thread = col row ''THREAD#''\<rparr>"

text \<open>One row of the view.\<close>

definition add_row :: "gob \<Rightarrow> 'w SimpleStore \<Rightarrow> 'w \<Rightarrow> (string \<rightharpoonup> string) \<Rightarrow> LogMetadata \<Rightarrow> LogMetadata" where
  "add_row gb hashStore w row m =
     (case Parse_RFC3339 (col row ''FIRST_TIME'') of
        Inl _ \<Rightarrow> m
      | Inr startTime \<Rightarrow>
      (case Parse_RFC3339 (col row ''NEXT_TIME'') of
         Inl _ \<Rightarrow> m
       | Inr nextTime \<Rightarrow>
           (case m (log_key row) of
              Some existing \<Rightarrow> if replica existing \<noteq> [] then m
                else m(log_key row \<mapsto> log_entry row startTime nextTime
                  (case store_Read hashStore (gob_unhash gb) w (col row ''NAME'') of Inl _ \<Rightarrow> LogHashEntry_zero | Inr h \<Rightarrow> h))
            | None \<Rightarrow> m(log_key row \<mapsto> log_entry row startTime nextTime
                  (case store_Read hashStore (gob_unhash gb) w (col row ''NAME'') of Inl _ \<Rightarrow> LogHashEntry_zero | Inr h \<Rightarrow> h)))))"

fun add_rows :: "'w daemon \<Rightarrow> gob \<Rightarrow> 'w SimpleStore \<Rightarrow> 'w \<Rightarrow> string list \<Rightarrow> LogMetadata \<Rightarrow> LogMetadata" where
  "add_rows d gb hashStore w [] m = m"
| "add_rows d gb hashStore w (msg # msgs) m =
     (case dc_unmarshal (d_client d) msg of
        Inl _ \<Rightarrow> add_rows d gb hashStore w msgs m
      | Inr row \<Rightarrow> add_rows d gb hashStore w msgs (add_row gb hashStore w row m))"

text \<open>The six attempts to read the catalog read the same world and are one. When it cannot be read, it is empty.\<close>

definition metadataUpdate :: "'w daemon \<Rightarrow> gob \<Rightarrow> 'w SimpleStore \<Rightarrow> 'w SimpleStore \<Rightarrow> 'w \<Rightarrow> 'w \<times> go_error option" where
  "metadataUpdate d gb hashStore metadataStore w =
     (case getArchivedLogDir d w of
        Inl err \<Rightarrow> (w, Some err)
      | Inr archiveDir \<Rightarrow>
      (case query_sql d w [archived_log_sql archiveDir] of
         Inl err \<Rightarrow> (w, Some err)
       | Inr msgs \<Rightarrow>
           (let metadata = (case store_Read metadataStore (gob_unmeta gb) w MetadataStorePath of Inl _ \<Rightarrow> Map.empty | Inr m \<Rightarrow> m)
            in store_write metadataStore (gob_meta gb) w MetadataStorePath (add_rows d gb hashStore w msgs metadata))))"

subsection \<open>Retention\<close>

text \<open>\<open>filepath.Base(filepath.Dir(path))\<close>: the elements before the last slash, cleaned, and the last of them.\<close>

fun clean_path :: "bool \<Rightarrow> string list \<Rightarrow> string list \<Rightarrow> string list" where
  "clean_path rooted acc [] = acc"
| "clean_path rooted acc (e # es) =
     (if e = [] \<or> e = ''.'' then clean_path rooted acc es
      else if e = ''..'' then
        (case acc of
           [] \<Rightarrow> clean_path rooted (if rooted then [] else [''..'']) es
         | a # as \<Rightarrow> if a = ''..'' then clean_path rooted (''..'' # acc) es else clean_path rooted as es)
      else clean_path rooted (e # acc) es)"

definition dir_name :: "string \<Rightarrow> string" where
  "dir_name path =
     (let rooted = HasPrefix path ''/'' in
      case clean_path rooted [] (butlast (split_slash path)) of
        [] \<Rightarrow> if rooted then ''/'' else ''.''
      | e # _ \<Rightarrow> e)"

text \<open>\<open>time.Parse("2006_01_02", s)\<close>.\<close>

definition Parse_day :: "string \<Rightarrow> go_time option" where
  "Parse_day s =
     Option.bind (field 4 s 0 9999) (\<lambda>(y, s). Option.bind (lit (CHR ''_'') s) (\<lambda>s.
     Option.bind (field 2 s 1 12) (\<lambda>(m, s). Option.bind (lit (CHR ''_'') s) (\<lambda>s.
     Option.bind (field 2 s 1 (days_in_month y m)) (\<lambda>(d, s).
       if s = [] then Some (days_from_civil y m d * Day) else None)))))"

definition deleteLog :: "'w storage \<Rightarrow> 'w SimpleStore \<Rightarrow> 'w \<Rightarrow> LogMetadataEntry \<Rightarrow> go_time \<Rightarrow> 'w \<times> go_error option" where
  "deleteLog c hashStore w entry expire =
     (let dateDir = dir_name (replica entry) in
      case Parse_day dateDir of
        None \<Rightarrow> (w, Some (Errorf (''failed to parse time from dir '' @ dateDir)))
      | Some tFromDir \<Rightarrow>
          if \<not> tFromDir < expire then (w, Some (Errorf (''skip deletion, date in the path('' @ replica entry @ '') not expired'')))
          else
            (case sc_delete c w (replica entry) True of
               (w1, Some err) \<Rightarrow> (w1, Some (Errorf (''failed to delete '' @ replica entry @ '': '' @ err_msg err)))
             | (w1, None) \<Rightarrow> store_delete hashStore w1 (lm_SrcPath entry)))"

text \<open>Midnight of the day \<open>retentionDays\<close> before today, in the location of \<open>timeNow()\<close>.\<close>

definition expire_time :: "location \<Rightarrow> go_time \<Rightarrow> int \<Rightarrow> go_time" where
  "expire_time loc now retentionDays =
     (let e = time_Date loc (in_zone loc now - retentionDays * Day)
      in time_Date loc (in_zone loc e div Day * Day))"

fun cleanup_loop ::
    "'w storage \<Rightarrow> 'w SimpleStore \<Rightarrow> go_time \<Rightarrow> 'w \<Rightarrow> LogMetadata \<Rightarrow> string list \<Rightarrow> LogMetadata \<Rightarrow> 'w \<times> LogMetadata" where
  "cleanup_loop c hashStore expire w m [] new = (w, new)"
| "cleanup_loop c hashStore expire w m (k # ks) new =
     (case m k of
        None \<Rightarrow> cleanup_loop c hashStore expire w m ks new
      | Some v \<Rightarrow>
          if lm_NextTime v < expire then
            (case deleteLog c hashStore w v expire of
               (w1, None) \<Rightarrow> cleanup_loop c hashStore expire w1 m ks new
             | (w1, Some err) \<Rightarrow> cleanup_loop c hashStore expire w1 m ks (new(k \<mapsto> v)))
          else cleanup_loop c hashStore expire w m ks (new(k \<mapsto> v)))"

definition cleanUpLogs ::
    "location \<Rightarrow> gob \<Rightarrow> 'w storage \<Rightarrow> go_time \<Rightarrow> int \<Rightarrow> 'w SimpleStore \<Rightarrow> 'w SimpleStore \<Rightarrow> 'w \<Rightarrow> 'w \<times> go_error option" where
  "cleanUpLogs loc gb c now retentionDays metadataStore hashStore w =
     (case store_Read metadataStore (gob_unmeta gb) w MetadataStorePath of
        Inl err \<Rightarrow> (w, Some err)
      | Inr m \<Rightarrow>
          (case cleanup_loop c hashStore (expire_time loc now retentionDays) w m (gob_order gb m) Map.empty of
             (w1, newMetadata) \<Rightarrow> store_write metadataStore (gob_meta gb) w1 MetadataStorePath newMetadata))"

text \<open>The loops that run until they are cancelled: after \<open>n\<close> ticks, and on the ticks at given times.\<close>

definition RunMetadataUpdate :: "'w daemon \<Rightarrow> gob \<Rightarrow> 'w SimpleStore \<Rightarrow> 'w SimpleStore \<Rightarrow> nat \<Rightarrow> 'w \<Rightarrow> 'w" where
  "RunMetadataUpdate d gb hashStore metadataStore n w = ((\<lambda>w. fst (metadataUpdate d gb hashStore metadataStore w)) ^^ Suc n) w"

definition RunLogRetention ::
    "location \<Rightarrow> gob \<Rightarrow> ('w \<Rightarrow> go_error + 'w storage) \<Rightarrow> int \<Rightarrow> 'w SimpleStore \<Rightarrow> 'w SimpleStore \<Rightarrow> go_time list \<Rightarrow> 'w \<Rightarrow> 'w" where
  "RunLogRetention loc gb newGcsClient retentionDays metadataStore hashStore ticks w =
     fold (\<lambda>now w. case newGcsClient w of Inl err \<Rightarrow> w | Inr c \<Rightarrow> fst (cleanUpLogs loc gb c now retentionDays metadataStore hashStore w))
       ticks w"

subsection \<open>Time ranges\<close>

definition first_before :: "LogMetadata \<Rightarrow> string \<Rightarrow> string \<Rightarrow> bool" where
  "first_before m j k = (lm_FirstTime (the (m j)) < lm_FirstTime (the (m k)))"

text \<open>The current range is a pair of keys; the code has the empty key for none, which no log has (a key has two dashes).\<close>

fun merge_loop :: "LogMetadata \<Rightarrow> (string \<times> string) option \<Rightarrow> string list \<Rightarrow> (string \<times> string) list" where
  "merge_loop m cur [] = (case cur of None \<Rightarrow> [] | Some r \<Rightarrow> [r])"
| "merge_loop m cur (k # ks) =
     (if replica (the (m k)) = [] then merge_loop m cur ks
      else case cur of
        None \<Rightarrow> merge_loop m (Some (k, k)) ks
      | Some (currStartKey, currEndKey) \<Rightarrow>
          if lm_NextTime (the (m currEndKey)) = lm_FirstTime (the (m k)) then merge_loop m (Some (currStartKey, k)) ks
          else (currStartKey, currEndKey) # merge_loop m (Some (k, k)) ks)"

definition Merge :: "gob \<Rightarrow> LogMetadata \<Rightarrow> (string \<times> string) list" where
  "Merge gb m = merge_loop m None (sort_Slice (first_before m) (gob_order gb m))"

text \<open>The server's answer: first time, SCN and incarnation of the first log, and the end of the last one.\<close>

record pitr_range =
  pr_StartTime :: go_time
  pr_StartScn :: string
  pr_StartIncarnation :: string
  pr_EndTime :: go_time
  pr_EndScn :: string
  pr_EndIncarnation :: string

definition range_of :: "LogMetadata \<Rightarrow> string \<times> string \<Rightarrow> pitr_range" where
  "range_of m = (\<lambda>(a, b).
     \<lparr>pr_StartTime = lm_FirstTime (the (m a)), pr_StartScn = lm_FirstChange (the (m a)), pr_StartIncarnation = lm_Incarnation (the (m a)),
      pr_EndTime = lm_NextTime (the (m b)), pr_EndScn = lm_NextChange (the (m b)), pr_EndIncarnation = lm_Incarnation (the (m b))\<rparr>)"

definition PITRServer_Status :: "gob \<Rightarrow> 'w SimpleStore \<Rightarrow> 'w \<Rightarrow> go_error + pitr_range list" where
  "PITRServer_Status gb metadataStore w =
     (case store_Read metadataStore (gob_unmeta gb) w MetadataStorePath of
        Inl err \<Rightarrow> Inl (Errorf (''failed to read metadata: '' @ err_msg err))
      | Inr m \<Rightarrow> Inr (map (range_of m) (Merge gb m)))"

subsection \<open>Staging logs for a recovery\<close>

fun copy_all :: "'w replicationGroup \<Rightarrow> 'w \<Rightarrow> nat \<Rightarrow> srcDest list \<Rightarrow> 'w \<times> nat" where
  "copy_all g w errs [] = (w, errs)"
| "copy_all g w errs (sd # sds) =
     (case rg_copy g w sd of
        (w1, Some err) \<Rightarrow> copy_all g w1 (errs + 1) sds
      | (w1, None) \<Rightarrow> copy_all g w1 errs sds)"

definition base_name :: "string \<Rightarrow> string" where
  "base_name path =
     (let p = rev (dropWhile (\<lambda>c. c = CHR ''/'') (rev path)) in
      if path = [] then ''.'' else if p = [] then ''/'' else last (split_slash p))"

definition stage_list :: "string \<Rightarrow> LogMetadataEntry list \<Rightarrow> srcDest list" where
  "stage_list destDir es = map (\<lambda>e. \<lparr>sd_src = replica e, sd_dest = filepath_Join destDir (base_name (lm_SrcPath e))\<rparr>) es"

definition StageLogs ::
    "gob \<Rightarrow> 'w storage \<Rightarrow> go_error + 'w storage \<Rightarrow> (LogMetadataEntry \<Rightarrow> bool) \<Rightarrow> 'w \<Rightarrow> string \<Rightarrow> string \<Rightarrow> 'w \<times> go_error option" where
  "StageLogs gb local gcs incl w destDir logPath =
     (case NewSimpleStore gcs local logPath of
        Inl err \<Rightarrow> (w, Some (Errorf (''failed to create a metadata store '' @ err_msg err)))
      | Inr metadataStore \<Rightarrow>
      (case store_Read metadataStore (gob_unmeta gb) w MetadataStorePath of
         Inl err \<Rightarrow> (w, Some (Errorf (''failed to read metadata: '' @ err_msg err)))
       | Inr m \<Rightarrow>
           (let entries = filter incl (map (\<lambda>k. the (m k)) (gob_order gb m));
                toStage = filter (\<lambda>e. replica e \<noteq> []) entries;
                notReplicated = filter (\<lambda>e. replica e = []) entries
            in if gob_order gb m = [] then (w, Some (Errorf ''empty metadata''))
               else if notReplicated \<noteq> [] then (w, Some (Errorf ''cannot find redo logs in replica location''))
               else if toStage = [] then (w, None)
               else case (if HasPrefix (replica (hd toStage)) gsPrefix then gcs else Inr local) of
                 Inl err \<Rightarrow> (w, Some err)
               | Inr srcClient \<Rightarrow>
               (case sc_mkdirp srcClient w destDir of
                  (w1, Some err) \<Rightarrow> (w1, Some (Errorf (''failed to create the stage dir: '' @ err_msg err)))
                | (w1, None) \<Rightarrow>
                    (case copy_all \<lparr>rg_srcClient = srcClient, rg_destClient = local\<rparr> w1 0 (stage_list destDir toStage) of
                       (w2, errCount) \<Rightarrow>
                         if errCount > 0 then (w2, Some (Errorf (''stage completed with errors error count: '' @ itoa (int errCount))))
                         else (w2, None))))))"

end
