(* ===== verification/PitrLaws.thy ===== *)
theory PitrLaws
  imports Pitr "HOL-Library.Countable"
begin

text \<open>
  What the log agent guarantees: the workers of a replication share out the files, the time ranges it reports are
  covered by replicated logs, only expired logs are deleted, a replication or a staging without errors is
  complete, and where the agent hangs or its catalog goes wrong.
\<close>

subsection \<open>The workers of a replication\<close>

text \<open>
  \<open>runSync\<close> and \<open>runCopy\<close> start workers that receive files from an unbuffered channel; the walk sends the files,
  closes the channel and waits. A worker that sees the context cancelled while it waits for a file exits.
\<close>

datatype 'a worker = Idle | Busy 'a | Exited

record 'a pool =
  p_todo :: "'a list"
  p_closed :: bool
  p_cancelled :: bool
  p_workers :: "'a worker list"
  p_done :: "'a list"

inductive pool_step :: "'a pool \<Rightarrow> 'a pool \<Rightarrow> bool" where
  send: "p_todo s = x # xs \<Longrightarrow> i < length (p_workers s) \<Longrightarrow> p_workers s ! i = Idle \<Longrightarrow>
    pool_step s (s\<lparr>p_todo := xs, p_workers := (p_workers s)[i := Busy x]\<rparr>)"
| finish: "i < length (p_workers s) \<Longrightarrow> p_workers s ! i = Busy x \<Longrightarrow>
    pool_step s (s\<lparr>p_workers := (p_workers s)[i := Idle], p_done := p_done s @ [x]\<rparr>)"
| cancel: "pool_step s (s\<lparr>p_cancelled := True\<rparr>)"
| quit: "p_cancelled s \<Longrightarrow> i < length (p_workers s) \<Longrightarrow> p_workers s ! i = Idle \<Longrightarrow>
    pool_step s (s\<lparr>p_workers := (p_workers s)[i := Exited]\<rparr>)"
| close: "p_todo s = [] \<Longrightarrow> \<not> p_closed s \<Longrightarrow> pool_step s (s\<lparr>p_closed := True\<rparr>)"
| stop: "p_closed s \<Longrightarrow> i < length (p_workers s) \<Longrightarrow> p_workers s ! i = Idle \<Longrightarrow>
    pool_step s (s\<lparr>p_workers := (p_workers s)[i := Exited]\<rparr>)"

inductive_cases pool_stepE: "pool_step s t"

definition pool_start :: "nat \<Rightarrow> 'a list \<Rightarrow> 'a pool" where
  "pool_start n files = \<lparr>p_todo = files, p_closed = False, p_cancelled = False, p_workers = replicate n Idle, p_done = []\<rparr>"

text \<open>The walk returns: the channel is closed and every worker has exited.\<close>

definition pool_finished :: "'a pool \<Rightarrow> bool" where
  "pool_finished s \<longleftrightarrow> p_closed s \<and> set (p_workers s) \<subseteq> {Exited}"

fun held :: "'a worker \<Rightarrow> 'a multiset" where
  "held (Busy x) = {#x#}"
| "held Idle = {#}"
| "held Exited = {#}"

definition owned :: "'a pool \<Rightarrow> 'a multiset" where
  "owned s = mset (p_todo s) + sum_list (map held (p_workers s)) + mset (p_done s)"

lemma held_update:
  "i < length ws \<Longrightarrow> sum_list (map held (ws[i := v])) + held (ws ! i) = sum_list (map held ws) + held v"
proof (induction ws arbitrary: i)
  case (Cons w ws)
  then show ?case by (cases i) (auto simp: ac_simps)
qed simp

text \<open>A file is with the walk, with a worker or done, and never lost or doubled.\<close>

lemma pool_step_owned: "pool_step s t \<Longrightarrow> owned t = owned s"
proof (induction rule: pool_step.induct)
  case (send s x xs i)
  then show ?case using held_update [of i "p_workers s" "Busy x"] by (auto simp: owned_def)
next
  case (finish i s x)
  then have "sum_list (map held (p_workers s)) = add_mset x (sum_list (map held ((p_workers s)[i := Idle])))"
    using held_update [of i "p_workers s" Idle] by simp
  then show ?case by (simp add: owned_def)
next
  case (quit s i)
  then show ?case using held_update [of i "p_workers s" Exited] by (simp add: owned_def)
next
  case (stop s i)
  then show ?case using held_update [of i "p_workers s" Exited] by (simp add: owned_def)
qed (simp_all add: owned_def)

lemma pool_steps_owned: "pool_step\<^sup>*\<^sup>* s t \<Longrightarrow> owned t = owned s"
  by (induction rule: rtranclp_induct) (simp_all add: pool_step_owned)

text \<open>The channel is closed only after the last file was sent, and without cancellation workers exit only then.\<close>

lemma pool_steps_inv:
  assumes "pool_step\<^sup>*\<^sup>* (pool_start n files) s"
  shows "(p_closed s \<longrightarrow> p_todo s = []) \<and> length (p_workers s) = n \<and>
    (\<not> p_cancelled s \<longrightarrow> Exited \<in> set (p_workers s) \<longrightarrow> p_closed s)"
  using assms
proof (induction rule: rtranclp_induct)
  case base
  then show ?case by (simp add: pool_start_def)
next
  case (step s t)
  have upd: "Exited \<in> set (ws[i := v]) \<Longrightarrow> v \<noteq> Exited \<Longrightarrow> Exited \<in> set ws" for ws :: "'a worker list" and i v
    using set_update_subset_insert by fastforce
  from step(2,3) show ?case
    by (cases rule: pool_step.cases) (auto dest: upd)
qed

lemma held_exited: "set ws \<subseteq> {Exited} \<Longrightarrow> sum_list (map held ws) = {#}"
  by (induction ws) auto

lemma held_idle: "sum_list (replicate n ({#} :: 'a multiset)) = {#}"
  by (induction n) auto

lemma pool_goes_on:
  assumes "pool_step\<^sup>*\<^sup>* (pool_start n files) s" and "0 < n" "\<not> p_cancelled s" "\<not> pool_finished s"
  shows "\<exists>t. pool_step s t \<and> t \<noteq> s \<and> \<not> p_cancelled t"
proof -
  note inv = pool_steps_inv [OF assms(1)]
  consider (busy) x where "Busy x \<in> set (p_workers s)" | (calm) "\<forall>w \<in> set (p_workers s). w = Idle \<or> w = Exited"
    by (metis worker.exhaust)
  then show ?thesis
  proof cases
    case busy
    then obtain i where i: "i < length (p_workers s)" "p_workers s ! i = Busy x" by (metis in_set_conv_nth)
    let ?t = "s\<lparr>p_workers := (p_workers s)[i := Idle], p_done := p_done s @ [x]\<rparr>"
    have "p_done ?t \<noteq> p_done s" "\<not> p_cancelled ?t" using assms(3) by simp_all
    then show ?thesis using pool_step.finish [OF i] by metis
  next
    case calm
    show ?thesis
    proof (cases "p_todo s")
      case (Cons x xs)
      with inv assms(3) have "Exited \<notin> set (p_workers s)" by auto
      moreover have len: "0 < length (p_workers s)" using inv assms(2) by simp
      moreover have "p_workers s ! 0 \<in> set (p_workers s)" using len by (rule nth_mem)
      ultimately have i: "0 < length (p_workers s)" "p_workers s ! 0 = Idle" using calm by metis+
      let ?t = "s\<lparr>p_todo := xs, p_workers := (p_workers s)[0 := Busy x]\<rparr>"
      have "p_todo ?t \<noteq> p_todo s" "\<not> p_cancelled ?t" using Cons assms(3) by simp_all
      then show ?thesis using pool_step.send [OF Cons i] by metis
    next
      case Nil
      show ?thesis
      proof (cases "p_closed s")
        case True
        with assms(4) obtain w where "w \<in> set (p_workers s)" "w \<noteq> Exited" by (auto simp: pool_finished_def)
        with calm obtain i where i: "i < length (p_workers s)" "p_workers s ! i = Idle" by (metis in_set_conv_nth)
        let ?t = "s\<lparr>p_workers := (p_workers s)[i := Exited]\<rparr>"
        have "p_workers ?t ! i \<noteq> p_workers s ! i" "\<not> p_cancelled ?t" using i assms(3) by simp_all
        then show ?thesis using pool_step.stop [OF True i] by metis
      next
        case False
        let ?t = "s\<lparr>p_closed := True\<rparr>"
        have "p_closed ?t \<noteq> p_closed s" "\<not> p_cancelled ?t" using False assms(3) by simp_all
        then show ?thesis using pool_step.close [OF Nil False] by metis
      qed
    qed
  qed
qed

text \<open>
  The workers share out the files. In every interleaving, when the walk returns it has handed every file to
  exactly one worker, which has processed it to the end; and as long as nothing is cancelled, a pool that is
  not finished can always go on.
\<close>

theorem pool_shares_files:
  assumes "pool_step\<^sup>*\<^sup>* (pool_start n files) s"
  shows "(pool_finished s \<longrightarrow> mset (p_done s) = mset files) \<and>
    (0 < n \<and> \<not> p_cancelled s \<and> \<not> pool_finished s \<longrightarrow> (\<exists>t. pool_step s t \<and> t \<noteq> s \<and> \<not> p_cancelled t))"
proof -
  note inv = pool_steps_inv [OF assms]
  have own: "owned s = mset files"
    using pool_steps_owned [OF assms] held_idle by (simp add: owned_def pool_start_def)
  have "mset (p_done s) = mset files" if "pool_finished s"
    using that inv own held_exited [of "p_workers s"] by (simp add: pool_finished_def owned_def)
  then show ?thesis using pool_goes_on [OF assms] by blast
qed

text \<open>The orders in which a run of the workers finishes the files.\<close>

definition pool_order :: "nat \<Rightarrow> 'a list \<Rightarrow> 'a list \<Rightarrow> bool" where
  "pool_order n files order \<longleftrightarrow> (\<exists>s. pool_step\<^sup>*\<^sup>* (pool_start n files) s \<and> pool_finished s \<and> p_done s = order)"

lemma pool_order_mset: "pool_order n files order \<Longrightarrow> mset order = mset files"
  using pool_shares_files unfolding pool_order_def by blast

lemma pool_order_single: "pool_order 1 [x] [x]"
proof -
  let ?s0 = "pool_start 1 [x]"
  let ?s1 = "?s0\<lparr>p_todo := [], p_workers := (p_workers ?s0)[0 := Busy x]\<rparr>"
  let ?s2 = "?s1\<lparr>p_workers := (p_workers ?s1)[0 := Idle], p_done := p_done ?s1 @ [x]\<rparr>"
  let ?s3 = "?s2\<lparr>p_closed := True\<rparr>"
  let ?s4 = "?s3\<lparr>p_workers := (p_workers ?s3)[0 := Exited]\<rparr>"
  have 1: "pool_step ?s0 ?s1" by (rule pool_step.send) (simp_all add: pool_start_def)
  have 2: "pool_step ?s1 ?s2" by (rule pool_step.finish) (simp_all add: pool_start_def)
  have 3: "pool_step ?s2 ?s3" by (rule pool_step.close) (simp_all add: pool_start_def)
  have 4: "pool_step ?s3 ?s4" by (rule pool_step.stop) (simp_all add: pool_start_def)
  from 1 2 3 4 have "pool_step\<^sup>*\<^sup>* ?s0 ?s4" by (meson converse_rtranclp_into_rtranclp rtranclp.rtrancl_refl)
  moreover have "pool_finished ?s4" "p_done ?s4 = [x]" by (simp_all add: pool_finished_def pool_start_def)
  ultimately show ?thesis unfolding pool_order_def by blast
qed

subsection \<open>A replication that hangs\<close>

definition pool_abandoned :: "nat \<Rightarrow> 'a list \<Rightarrow> 'a pool" where
  "pool_abandoned n files = \<lparr>p_todo = files, p_closed = False, p_cancelled = True, p_workers = replicate n Exited, p_done = []\<rparr>"

lemma workers_quit:
  "k \<le> n \<Longrightarrow> pool_step\<^sup>*\<^sup>* (pool_start n files)
     \<lparr>p_todo = files, p_closed = False, p_cancelled = True, p_workers = replicate k Exited @ replicate (n - k) Idle, p_done = []\<rparr>"
proof (induction k)
  case 0
  show ?case using pool_step.cancel [of "pool_start n files"] by (simp add: pool_start_def r_into_rtranclp)
next
  case (Suc k)
  let ?s = "\<lparr>p_todo = files, p_closed = False, p_cancelled = True, p_workers = replicate k Exited @ replicate (n - k) Idle, p_done = []\<rparr>"
  have k: "replicate (n - k) Idle = Idle # replicate (n - Suc k) (Idle :: 'a worker)" using Suc.prems
    by (metis Suc_diff_Suc Suc_le_lessD replicate_Suc)
  have "pool_step ?s (?s\<lparr>p_workers := (p_workers ?s)[k := Exited]\<rparr>)"
    by (rule pool_step.quit) (use Suc.prems k in \<open>simp_all add: nth_append\<close>)
  moreover have "(p_workers ?s)[k := Exited] = replicate (Suc k) Exited @ replicate (n - Suc k) Idle"
    unfolding k by (simp add: list_update_append replicate_append_same)
  ultimately show ?case using Suc by (simp del: replicate_Suc)
qed

lemma abandoned_stays: "pool_step\<^sup>*\<^sup>* (pool_abandoned n (x # xs)) t \<Longrightarrow> t = pool_abandoned n (x # xs)"
proof (induction rule: rtranclp_induct)
  case (step s t)
  from step(2) show ?case unfolding step(3)
    by (cases rule: pool_step.cases) (auto simp: pool_abandoned_def)
qed simp

text \<open>
  A replication that runs into its time limit hangs for ever. The walk sends files without looking at the
  context: once the workers have exited because it was cancelled, the walk waits for a receiver that will
  never come, and neither it nor any later replication of the agent makes progress.
\<close>

theorem replication_hangs_after_timeout:
  "pool_step\<^sup>*\<^sup>* (pool_start n (x # xs)) (pool_abandoned n (x # xs)) \<and>
   {t. pool_step\<^sup>*\<^sup>* (pool_abandoned n (x # xs)) t} = {pool_abandoned n (x # xs)} \<and> \<not> pool_finished (pool_abandoned n (x # xs))"
proof -
  have "pool_step\<^sup>*\<^sup>* (pool_start n (x # xs)) (pool_abandoned n (x # xs))"
    using workers_quit [of n n "x # xs"] by (simp add: pool_abandoned_def)
  moreover have "\<not> pool_finished (pool_abandoned n (x # xs))" by (simp add: pool_finished_def pool_abandoned_def)
  ultimately show ?thesis using abandoned_stays [of n x xs] by auto
qed

subsection \<open>Time ranges\<close>

text \<open>One log follows another when it begins where the other ends.\<close>

definition follows :: "LogMetadata \<Rightarrow> string \<Rightarrow> string \<Rightarrow> bool" where
  "follows m j k \<longleftrightarrow> lm_NextTime (the (m j)) = lm_FirstTime (the (m k))"

definition replicated :: "LogMetadata \<Rightarrow> string \<Rightarrow> bool" where
  "replicated m k \<longleftrightarrow> replica (the (m k)) \<noteq> []"

text \<open>The logs cut into chains, as long as possible.\<close>

definition chain_partition :: "LogMetadata \<Rightarrow> string list list \<Rightarrow> string list \<Rightarrow> bool" where
  "chain_partition m cs ks \<longleftrightarrow>
     concat cs = ks \<and> list_all (\<lambda>c. c \<noteq> [] \<and> successively (follows m) c) cs \<and>
     successively (\<lambda>c d. \<not> follows m (last c) (hd d)) cs"

abbreviation ends :: "string list \<Rightarrow> string \<times> string" where "ends c \<equiv> (hd c, last c)"

lemma merge_loop_Some:
  assumes "c0 \<noteq> []" "successively (follows m) c0"
  shows "\<exists>c cs. merge_loop m (Some (ends c0)) ks = ends (c0 @ c) # map ends cs \<and>
    chain_partition m ((c0 @ c) # cs) (c0 @ filter (replicated m) ks)"
  using assms
proof (induction ks arbitrary: c0)
  case Nil
  then show ?case by (intro exI [of _ "[]"]) (simp add: chain_partition_def)
next
  case (Cons k ks)
  show ?case
  proof (cases "replicated m k")
    case False
    with Cons.IH [OF Cons.prems] show ?thesis by (simp add: replicated_def)
  next
    case True
    show ?thesis
    proof (cases "follows m (last c0) k")
      case f: True
      have "successively (follows m) (c0 @ [k])" using Cons.prems f by (simp add: successively_append_iff)
      from Cons.IH [OF _ this] obtain c cs where "merge_loop m (Some (ends (c0 @ [k]))) ks = ends ((c0 @ [k]) @ c) # map ends cs"
        "chain_partition m (((c0 @ [k]) @ c) # cs) ((c0 @ [k]) @ filter (replicated m) ks)" by auto
      moreover have "merge_loop m (Some (ends c0)) (k # ks) = merge_loop m (Some (ends (c0 @ [k]))) ks"
        using True f Cons.prems(1) by (simp add: replicated_def follows_def)
      ultimately show ?thesis using True by (intro exI [of _ "k # c"] exI [of _ cs]) simp
    next
      case f: False
      from Cons.IH [of "[k]"] obtain c cs where i: "merge_loop m (Some (k, k)) ks = ends ([k] @ c) # map ends cs"
        "chain_partition m (([k] @ c) # cs) ([k] @ filter (replicated m) ks)" by auto
      have "merge_loop m (Some (ends c0)) (k # ks) = ends c0 # merge_loop m (Some (k, k)) ks"
        using True f by (simp add: replicated_def follows_def)
      moreover have "chain_partition m ((c0 @ []) # ([k] @ c) # cs) (c0 @ filter (replicated m) (k # ks))"
        using i(2) f True Cons.prems by (simp add: chain_partition_def)
      ultimately show ?thesis using i(1) by (intro exI [of _ "[]"] exI [of _ "([k] @ c) # cs"]) simp
    qed
  qed
qed

lemma merge_loop_None: "\<exists>cs. merge_loop m None ks = map ends cs \<and> chain_partition m cs (filter (replicated m) ks)"
proof (induction ks)
  case Nil
  show ?case by (intro exI [of _ "[]"]) (simp add: chain_partition_def)
next
  case (Cons k ks)
  show ?case
  proof (cases "replicated m k")
    case True
    have "merge_loop m None (k # ks) = merge_loop m (Some (ends [k])) ks" using True by (simp add: replicated_def)
    moreover obtain c cs where "merge_loop m (Some (ends [k])) ks = ends ([k] @ c) # map ends cs"
      "chain_partition m (([k] @ c) # cs) ([k] @ filter (replicated m) ks)" using merge_loop_Some [of "[k]" m ks] by auto
    ultimately show ?thesis using True by (intro exI [of _ "([k] @ c) # cs"]) simp
  next
    case False
    with Cons show ?thesis by (simp add: replicated_def)
  qed
qed

lemma strict_weak_first: "strict_weak (first_before m)"
  by (auto simp: strict_weak_def first_before_def)

interpretation by_first: go_sort "first_before m" "sort_Slice (first_before m)" for m
  by unfold_locales (simp_all add: sorted_sort_Slice strict_weak_first)

text \<open>
  C27: the time ranges that \<open>Merge\<close> reports are right. The replicated logs of the catalog, each exactly once and in
  the order of their first times, are cut into chains in which every log begins where the one before it ends,
  none of which continues another; the ranges are the first and the last log of each chain.
\<close>

theorem Merge_ranges:
  assumes "set (gob_order gb m) = dom m" and "distinct (gob_order gb m)"
  shows "\<exists>cs. Merge gb m = map ends cs \<and> chain_partition m cs (concat cs) \<and> distinct (concat cs) \<and>
    set (concat cs) = {k \<in> dom m. replicated m k} \<and> sorted (map (\<lambda>k. lm_FirstTime (the (m k))) (concat cs))"
proof -
  let ?ks = "sort_Slice (first_before m) (gob_order gb m)"
  obtain cs where cs: "Merge gb m = map ends cs" "chain_partition m cs (filter (replicated m) ?ks)"
    using merge_loop_None [of m ?ks] by (auto simp: Merge_def)
  then have c: "concat cs = filter (replicated m) ?ks" by (simp add: chain_partition_def)
  have "sorted_wrt (\<lambda>j k. \<not> first_before m k j) (concat cs)"
    unfolding c using by_first.srt_sorted by (rule sorted_wrt_filter)
  then have "sorted (map (\<lambda>k. lm_FirstTime (the (m k))) (concat cs))"
    by (simp add: sorted_wrt_map first_before_def linorder_not_less)
  moreover have "set (concat cs) = {k \<in> dom m. replicated m k}" using assms(1) by_first.srt_set c by auto
  moreover have "distinct (concat cs)" using assms(2) by_first.srt_distinct c by simp
  moreover have "chain_partition m cs (concat cs)" using cs(2) c by simp
  ultimately show ?thesis using cs(1) by blast
qed

definition sample_log :: "string \<Rightarrow> go_time \<Rightarrow> go_time \<Rightarrow> LogMetadataEntry" where
  "sample_log path a b =
     \<lparr>lm_Hash = \<lparr>lh_Crc32cHash = ''h'', lh_ReplicaPath = path, lh_ModTime = 0\<rparr>, lm_SrcPath = ''/a/'' @ path, lm_FirstChange = [],
      lm_NextChange = [], lm_FirstTime = a, lm_NextTime = b, lm_CompletionTime = [], lm_Sequence = [], lm_Incarnation = [], lm_Thread = []\<rparr>"

definition sample_catalog :: LogMetadata where
  "sample_catalog = [''k1'' \<mapsto> sample_log ''r1'' 10 20, ''k2'' \<mapsto> sample_log ''r2'' 20 30, ''k3'' \<mapsto> sample_log ''r3'' 40 50]"

definition sample_gob :: gob where
  "sample_gob =
     \<lparr>gob_hash = lh_ReplicaPath, gob_unhash = (\<lambda>s. Inr \<lparr>lh_Crc32cHash = ''h'', lh_ReplicaPath = s, lh_ModTime = 0\<rparr>),
      gob_meta = (\<lambda>m. concat (filter (\<lambda>k. m k \<noteq> None) [''k3'', ''k2'', ''k1''])),
      gob_unmeta = (\<lambda>s. Inr (\<lambda>k. if Contains_str s k then sample_catalog k else None)),
      gob_order = (\<lambda>m. filter (\<lambda>k. m k \<noteq> None) [''k3'', ''k2'', ''k1''])\<rparr>"

theorem Merge_ranges_witness:
  "Merge sample_gob sample_catalog = [(''k1'', ''k2''), (''k3'', ''k3'')] \<and>
   (\<exists>cs. map ends cs = [(''k1'', ''k2''), (''k3'', ''k3'')] \<and> set (concat cs) = {''k1'', ''k2'', ''k3''})"
proof -
  have d: "set (gob_order sample_gob sample_catalog) = dom sample_catalog" "distinct (gob_order sample_gob sample_catalog)"
    by (auto simp: sample_gob_def sample_catalog_def)
  have m: "Merge sample_gob sample_catalog = [(''k1'', ''k2''), (''k3'', ''k3'')]" by code_simp
  have "{k \<in> dom sample_catalog. replicated sample_catalog k} = {''k1'', ''k2'', ''k3''}"
    by (auto simp: sample_catalog_def replicated_def sample_log_def)
  with Merge_ranges [OF d] m show ?thesis by metis
qed

subsection \<open>Retention\<close>

text \<open>
  What deletions there are: the world is followed by \<open>gone\<close>, the set of the paths deleted so far, whichever client
  deletes them. A deletion adds at most its path. The agent uses clients of one kind for the replicas and for the
  stores, so that deleting a hash counts as well.
\<close>

definition deletion_view :: "'w storage \<Rightarrow> 'w SimpleStore \<Rightarrow> ('w \<Rightarrow> string set) \<Rightarrow> bool" where
  "deletion_view c hashStore gone \<longleftrightarrow>
     (\<forall>w p b. gone (fst (sc_delete c w p b)) \<subseteq> insert p (gone w)) \<and>
     (\<forall>w p b. gone (fst (sc_delete (ss_c hashStore) w p b)) \<subseteq> insert p (gone w))"

definition expired :: "LogMetadataEntry \<Rightarrow> go_time \<Rightarrow> bool" where
  "expired e expire \<longleftrightarrow> lm_NextTime e < expire \<and> (\<exists>t. Parse_day (dir_name (replica e)) = Some t \<and> t < expire)"

lemma deleteLog_deletes:
  assumes "deletion_view c hashStore gone" "deleteLog c hashStore w e expire = (w', err)" "p \<in> gone w'" "p \<notin> gone w"
  shows "p \<in> {replica e, lm_SrcPath e} \<and> (\<exists>t. Parse_day (dir_name (replica e)) = Some t \<and> t < expire)"
proof -
  from assms(2-4) obtain t where t: "Parse_day (dir_name (replica e)) = Some t" "t < expire"
    by (auto simp: deleteLog_def Let_def split: option.splits if_splits)
  obtain w1 e1 where d: "sc_delete c w (replica e) True = (w1, e1)" by (rule prod.exhaust)
  have g1: "gone w1 \<subseteq> insert (replica e) (gone w)" using assms(1) d unfolding deletion_view_def by (metis fst_conv)
  have "gone w' \<subseteq> insert (lm_SrcPath e) (gone w1)"
  proof (cases e1)
    case None
    then have "w' = fst (sc_delete (ss_c hashStore) w1 (lm_SrcPath e) True)"
      using assms(2) t d by (simp add: deleteLog_def store_delete_def)
    then show ?thesis using assms(1) unfolding deletion_view_def by blast
  next
    case (Some x)
    then have "w' = w1" using assms(2) t d by (simp add: deleteLog_def)
    then show ?thesis by blast
  qed
  with g1 t assms(3,4) show ?thesis by blast
qed

lemma cleanup_loop_deletes:
  "deletion_view c hashStore gone \<Longrightarrow> cleanup_loop c hashStore expire w m ks new = (w', new') \<Longrightarrow> p \<in> gone w' \<Longrightarrow> p \<notin> gone w \<Longrightarrow>
   \<exists>k e. m k = Some e \<and> p \<in> {replica e, lm_SrcPath e} \<and> expired e expire"
proof (induction ks arbitrary: w new)
  case (Cons k ks)
  show ?case
  proof (cases "m k")
    case (Some v)
    show ?thesis
    proof (cases "lm_NextTime v < expire")
      case True
      obtain w1 err where d: "deleteLog c hashStore w v expire = (w1, err)" by (rule prod.exhaust)
      then obtain new1 where r: "cleanup_loop c hashStore expire w1 m ks new1 = (w', new')"
        using Cons.prems(2) Some True by (cases err) auto
      show ?thesis
      proof (cases "p \<in> gone w1")
        case g: True
        from deleteLog_deletes [OF Cons.prems(1) d g Cons.prems(4)] Some True show ?thesis by (auto simp: expired_def)
      qed (use Cons.IH [OF Cons.prems(1) r Cons.prems(3)] in blast)
    qed (use Cons Some in simp)
  qed (use Cons in simp)
qed simp

text \<open>The entries that stay in the catalog.\<close>

lemma cleanup_loop_keeps:
  "cleanup_loop c hashStore expire w m ks new = (w', new') \<Longrightarrow>
   new k = Some e \<and> m k = Some e \<or> k \<in> set ks \<and> m k = Some e \<and> \<not> lm_NextTime e < expire \<Longrightarrow> new' k = Some e"
proof (induction ks arbitrary: w new)
  case (Cons j ks)
  show ?case
  proof (cases "m j")
    case (Some v)
    show ?thesis
    proof (cases "lm_NextTime v < expire")
      case True
      obtain w1 err where d: "deleteLog c hashStore w v expire = (w1, err)" by (rule prod.exhaust)
      show ?thesis
      proof (cases err)
        case None
        then have "cleanup_loop c hashStore expire w1 m ks new = (w', new')" using Cons.prems(1) Some True d by simp
        moreover have "new k = Some e \<and> m k = Some e \<or> k \<in> set ks \<and> m k = Some e \<and> \<not> lm_NextTime e < expire"
          using Cons.prems(2) Some True by auto
        ultimately show ?thesis by (rule Cons.IH)
      next
        case err: (Some x)
        then have "cleanup_loop c hashStore expire w1 m ks (new(j \<mapsto> v)) = (w', new')" using Cons.prems(1) Some True d by simp
        moreover have "(new(j \<mapsto> v)) k = Some e \<and> m k = Some e \<or> k \<in> set ks \<and> m k = Some e \<and> \<not> lm_NextTime e < expire"
          using Cons.prems(2) Some True by auto
        ultimately show ?thesis by (rule Cons.IH)
      qed
    next
      case False
      then have "cleanup_loop c hashStore expire w m ks (new(j \<mapsto> v)) = (w', new')" using Cons.prems(1) Some by simp
      moreover have "(new(j \<mapsto> v)) k = Some e \<and> m k = Some e \<or> k \<in> set ks \<and> m k = Some e \<and> \<not> lm_NextTime e < expire"
        using Cons.prems(2) Some by auto
      ultimately show ?thesis by (rule Cons.IH)
    qed
  next
    case None
    then show ?thesis using Cons by auto
  qed
qed simp

text \<open>
  C28: only expired logs are deleted. Every path a clean-up deletes, in the bucket or in the hash store, is the replica
  or the source path of a log of the catalog that ends before midnight of the first day to keep, and whose replica
  lies in a directory with an earlier date; every log that ends later stays in the catalog that is written.
\<close>

theorem cleanUpLogs_deletes_only_expired:
  assumes "deletion_view c hashStore gone" and "\<forall>w p b. gone (fst (sc_write (ss_c metadataStore) w p b)) \<subseteq> gone w"
    and "store_Read metadataStore (gob_unmeta gb) w MetadataStorePath = Inr m" and "set (gob_order gb m) = dom m"
    and "cleanUpLogs loc gb c now days metadataStore hashStore w = (w', err)"
  shows "(\<forall>p \<in> gone w' - gone w. \<exists>k e. m k = Some e \<and> p \<in> {replica e, lm_SrcPath e} \<and> expired e (expire_time loc now days)) \<and>
    (\<exists>w1 new. (w', err) = store_write metadataStore (gob_meta gb) w1 MetadataStorePath new \<and>
       (\<forall>k e. m k = Some e \<and> \<not> lm_NextTime e < expire_time loc now days \<longrightarrow> new k = Some e))"
proof -
  obtain w1 new where l: "cleanup_loop c hashStore (expire_time loc now days) w m (gob_order gb m) Map.empty = (w1, new)" by (rule prod.exhaust)
  with assms(3,5) have w: "(w', err) = store_write metadataStore (gob_meta gb) w1 MetadataStorePath new"
    by (simp add: cleanUpLogs_def)
  then have "gone w' \<subseteq> gone w1" using assms(2) unfolding store_write_def by (metis fst_conv)
  then have "\<forall>p \<in> gone w' - gone w. \<exists>k e. m k = Some e \<and> p \<in> {replica e, lm_SrcPath e} \<and> expired e (expire_time loc now days)"
    using cleanup_loop_deletes [OF assms(1) l] by blast
  moreover have "new k = Some e" if "m k = Some e" "\<not> lm_NextTime e < expire_time loc now days" for k e
    using cleanup_loop_keeps [OF l, where k = k and e = e] that assms(4) by auto
  ultimately show ?thesis using w by blast
qed

text \<open>A Cloud Storage whose world is the list of the objects deleted, and a catalog of one expired log.\<close>

definition sample_api :: "string list gcs_api" where
  "sample_api =
     \<lparr>ga_bucket = (\<lambda>_ _. None), ga_crc = (\<lambda>_ _ _. Inr 0), ga_reader = (\<lambda>_ _ _. Inr (''k1'', 0)), ga_write = (\<lambda>w _ _ _. (w, None)),
      ga_delete = (\<lambda>w bucket name. (w @ [gsPrefix @ bucket @ ''/'' @ name], None))\<rparr>"

definition old_log :: LogMetadataEntry where
  "old_log = sample_log ''gs://bucket/2021_09_13/o1.arc'' 0 10"

definition old_gob :: gob where
  "old_gob = sample_gob\<lparr>gob_unmeta := (\<lambda>_. Inr [''k1'' \<mapsto> old_log]), gob_order := (\<lambda>m. filter (\<lambda>k. m k \<noteq> None) [''k1''])\<rparr>"

abbreviation sample_store :: "string list SimpleStore" where
  "sample_store \<equiv> \<lparr>ss_c = gcsClient sample_api, ss_dataDir = ''gs://bucket/''\<rparr>"

abbreviation sample_hash_store :: "string list SimpleStore" where
  "sample_hash_store \<equiv> \<lparr>ss_c = gcsClient sample_api, ss_dataDir = ''gs://bucket/hash/''\<rparr>"

lemma index_slash_split: "index_slash u = Some i \<Longrightarrow> u = take i u @ CHR ''/'' # drop (i + 1) u"
  by (induction u arbitrary: i) (auto split: if_splits)

lemma splitURI_join: "splitURI url = Inr (bucket, name) \<Longrightarrow> url = gsPrefix @ bucket @ ''/'' @ name"
proof -
  assume a: "splitURI url = Inr (bucket, name)"
  let ?u = "drop (length gsPrefix) url"
  from a have p: "HasPrefix url gsPrefix" by (simp add: splitURI_def split: if_splits)
  then have url: "url = gsPrefix @ ?u" by (auto simp: HasPrefix_iff)
  from a p obtain i where "index_slash ?u = Some i" "bucket = take i ?u" "name = drop (i + 1) ?u"
    by (auto simp: splitURI_def Let_def split: option.splits if_splits)
  with index_slash_split [of ?u i] url show ?thesis by simp
qed

lemma sample_deletion_view: "deletion_view (gcsClient sample_api) sample_hash_store set"
proof -
  have "set (fst (gcs_delete sample_api w p b)) \<subseteq> insert p (set w)" for w p b
    using splitURI_join [of p] by (auto simp: gcs_delete_def sample_api_def split: sum.splits)
  then show ?thesis by (simp add: deletion_view_def gcsClient_def)
qed

lemma sample_catalog_read: "store_Read sample_store (gob_unmeta old_gob) w MetadataStorePath = Inr [''k1'' \<mapsto> old_log]"
proof -
  have "splitURI ''gs://bucket/catalog'' = Inr (''bucket'', ''catalog'')" by code_simp
  then show ?thesis by (simp add: store_Read_def gcsClient_def gcs_object_def sample_api_def old_gob_def)
qed

lemma sample_catalog_written: "store_write sample_store (gob_meta old_gob) v MetadataStorePath x = (v, None)"
proof -
  have "splitURI ''gs://bucket/catalog'' = Inr (''bucket'', ''catalog'')" by code_simp
  then show ?thesis by (simp add: store_write_def gcsClient_def gcs_write_def sample_api_def)
qed

lemma sample_order: "set (gob_order old_gob [''k1'' \<mapsto> old_log]) = dom [''k1'' \<mapsto> old_log]"
  by (simp add: old_gob_def)

theorem cleanUpLogs_deletes_only_expired_witness:
  "case cleanUpLogs time_UTC old_gob (gcsClient sample_api) (800000 * Day) 30 sample_store sample_hash_store [] of
   (w', err) \<Rightarrow> w' = [''gs://bucket/2021_09_13/o1.arc''] \<and> expired old_log (expire_time time_UTC (800000 * Day) 30)"
proof -
  have wr: "\<forall>w p b. set (fst (sc_write (ss_c sample_store) w p b)) \<subseteq> set w"
    by (simp add: gcsClient_def gcs_write_def sample_api_def split: sum.splits)
  have c: "cleanUpLogs time_UTC old_gob (gcsClient sample_api) (800000 * Day) 30 sample_store sample_hash_store [] =
      ([''gs://bucket/2021_09_13/o1.arc''], None)"
    by code_simp
  with cleanUpLogs_deletes_only_expired [OF sample_deletion_view wr sample_catalog_read sample_order c] c
  show ?thesis by (auto split: if_splits)
qed

subsection \<open>The catalog after a clean-up\<close>

lemma splitURI_needs_prefix: "\<not> HasPrefix url gsPrefix \<Longrightarrow> \<exists>e. splitURI url = Inl e"
  by (simp add: splitURI_def)

lemma deleteLog_never_succeeds:
  assumes "ss_c hashStore = gcsClient api" "\<not> HasPrefix (lm_SrcPath e) gsPrefix"
  shows "\<exists>err. snd (deleteLog c hashStore w e expire) = Some err"
proof -
  from splitURI_needs_prefix [OF assms(2)] obtain x where x: "splitURI (lm_SrcPath e) = Inl x" by blast
  have s: "store_delete hashStore v (lm_SrcPath e) = (v, Some x)" for v
    using x by (simp add: store_delete_def assms(1) gcsClient_def gcs_delete_def)
  show ?thesis
    by (auto simp: deleteLog_def Let_def s split: option.splits prod.splits)
qed

lemma cleanup_loop_all:
  assumes "ss_c hashStore = gcsClient api"
  shows "(\<forall>k e. m k = Some e \<longrightarrow> \<not> HasPrefix (lm_SrcPath e) gsPrefix) \<Longrightarrow> (\<forall>k. new k = None \<or> new k = m k) \<Longrightarrow>
    dom m \<subseteq> set ks \<union> dom new \<Longrightarrow> snd (cleanup_loop c hashStore expire w m ks new) = m"
proof (induction ks arbitrary: w new)
  case Nil
  have "new k = m k" for k
  proof (cases "m k")
    case None
    with Nil.prems(2) show ?thesis by metis
  next
    case (Some v)
    with Nil.prems(3) have "new k \<noteq> None" by auto
    with Nil.prems(2) show ?thesis by metis
  qed
  then show ?case by (auto simp: fun_eq_iff)
next
  case (Cons k ks)
  show ?case
  proof (cases "m k")
    case None
    then have "dom m \<subseteq> set ks \<union> dom new" using Cons.prems(3) by auto
    with Cons.IH [OF Cons.prems(1,2)] None show ?thesis by simp
  next
    case (Some v)
    have step: "snd (cleanup_loop c hashStore expire v' m ks (new(k \<mapsto> v))) = m" for v'
      by (rule Cons.IH) (use Cons.prems Some in auto)
    show ?thesis
    proof (cases "lm_NextTime v < expire")
      case True
      from deleteLog_never_succeeds [OF assms, of v c w expire] Cons.prems(1) Some
      obtain w1 err where "deleteLog c hashStore w v expire = (w1, Some err)" by (metis prod.collapse)
      with True Some step show ?thesis by simp
    next
      case False
      with Some step show ?thesis by simp
    qed
  qed
qed

text \<open>
  The catalog never forgets a deleted log. The agent keeps its hashes in a bucket; the deletion of a hash is
  given the local path of the log, which is not the address of an object, and fails. So every deletion of an expired
  log is taken for failed, after the replica is gone: the clean-up writes back the catalog as it was, and
  the ranges reported and the logs staged include logs that were deleted.
\<close>

theorem cleanup_keeps_deleted_logs:
  assumes "ss_c hashStore = gcsClient api" and "\<forall>k e. m k = Some e \<longrightarrow> \<not> HasPrefix (lm_SrcPath e) gsPrefix"
    and "store_Read metadataStore (gob_unmeta gb) w MetadataStorePath = Inr m" and "set (gob_order gb m) = dom m"
  shows "\<exists>w1. cleanUpLogs loc gb c now days metadataStore hashStore w = store_write metadataStore (gob_meta gb) w1 MetadataStorePath m"
proof -
  obtain w1 new where l: "cleanup_loop c hashStore (expire_time loc now days) w m (gob_order gb m) Map.empty = (w1, new)" by (rule prod.exhaust)
  moreover have "new = m"
    using cleanup_loop_all [OF assms(1,2), of Map.empty "gob_order gb m" c "expire_time loc now days" w] assms(4) l by simp
  ultimately show ?thesis using assms(3) by (simp add: cleanUpLogs_def) blast
qed

theorem cleanup_keeps_deleted_logs_witness:
  "\<exists>w1. cleanUpLogs time_UTC old_gob (gcsClient sample_api) (800000 * Day) 30 sample_store sample_hash_store [] = (w1, None) \<and>
     store_write sample_store (gob_meta old_gob) w1 MetadataStorePath [''k1'' \<mapsto> old_log] = (w1, None)"
proof -
  have "\<not> HasPrefix (lm_SrcPath old_log) gsPrefix" by (simp add: old_log_def sample_log_def)
  then show ?thesis
    using cleanup_keeps_deleted_logs [where hashStore = sample_hash_store and api = sample_api and loc = time_UTC,
        OF _ _ sample_catalog_read sample_order, of "gcsClient sample_api" "800000 * Day" 30 "[]"] sample_catalog_written
    by (auto split: if_splits)
qed

subsection \<open>The directory that is replicated\<close>

text \<open>
  A tick replaces the directory only when the new one could not be read, by the empty one: a change of the location
  of the archived logs is never followed.
\<close>

lemma syncer_tick_directory: "snd (syncer_tick d walk sched gb local remote hs dest (w, src)) \<in> {src, []}"
  by (simp add: syncer_tick_def split: prod.splits option.splits sum.splits)

subsection \<open>A replication without errors is complete\<close>

text \<open>
  What the parts of a replication see of the world, for the destinations in \<open>ds\<close> and the sources in \<open>ps\<close>: content
  and times of the sources, content of the replicas, and the stored hashes. Writing a replica changes only what is
  seen at its path, writing a hash only that hash, which can then be read, and making a directory nothing. The
  hashes may be stored beside the replicas, in the same bucket.
\<close>

definition sees :: "'w replicationGroup \<Rightarrow> 'w SimpleStore \<Rightarrow> string set \<Rightarrow> string set \<Rightarrow> 'w \<Rightarrow> 'w \<Rightarrow> bool" where
  "sees g hs ds ps w w' \<longleftrightarrow>
     sc_hash (rg_srcClient g) w' = sc_hash (rg_srcClient g) w \<and> sc_mtime (rg_srcClient g) w' = sc_mtime (rg_srcClient g) w \<and>
     (\<forall>q \<in> ds. sc_hash (rg_destClient g) w' q = sc_hash (rg_destClient g) w q) \<and>
     (\<forall>p \<in> ps. sc_read (ss_c hs) w' (ss_dataDir hs @ p) = sc_read (ss_c hs) w (ss_dataDir hs @ p))"

definition replication_view :: "'w replicationGroup \<Rightarrow> 'w SimpleStore \<Rightarrow> string set \<Rightarrow> string set \<Rightarrow> bool" where
  "replication_view g hs ds ps \<longleftrightarrow>
     (\<forall>w p b. p \<in> ds \<longrightarrow> sees g hs (ds - {p}) ps w (fst (sc_write (rg_destClient g) w p b))) \<and>
     (\<forall>w p. sees g hs ds ps w (fst (sc_mkdirp (rg_destClient g) w p))) \<and>
     (\<forall>w p b. p \<in> ps \<longrightarrow> sees g hs ds (ps - {p}) w (fst (sc_write (ss_c hs) w (ss_dataDir hs @ p) b)) \<and>
        (snd (sc_write (ss_c hs) w (ss_dataDir hs @ p) b) = None \<longrightarrow>
         sc_read (ss_c hs) (fst (sc_write (ss_c hs) w (ss_dataDir hs @ p) b)) (ss_dataDir hs @ p) = Inr b))"

text \<open>A file is synced: source and replica have the same hash, which is stored with the path of the replica.\<close>

definition synced :: "'w replicationGroup \<Rightarrow> gob \<Rightarrow> 'w SimpleStore \<Rightarrow> 'w \<Rightarrow> srcDest \<Rightarrow> bool" where
  "synced g gb hs w sd \<longleftrightarrow>
     (\<exists>h t. validateHash g w (sd_src sd) (sd_dest sd) = Inr h \<and>
        store_Read hs (gob_unhash gb) w (sd_src sd) = Inr \<lparr>lh_Crc32cHash = h, lh_ReplicaPath = sd_dest sd, lh_ModTime = t\<rparr>)"

text \<open>A file is recorded: the hash store has an entry with a replica and with the time the file has.\<close>

definition recorded :: "'w replicationGroup \<Rightarrow> gob \<Rightarrow> 'w SimpleStore \<Rightarrow> 'w \<Rightarrow> srcDest \<Rightarrow> bool" where
  "recorded g gb hs w sd \<longleftrightarrow>
     (\<exists>e. store_Read hs (gob_unhash gb) w (sd_src sd) = Inr e \<and> lh_ReplicaPath e \<noteq> [] \<and>
        sc_mtime (rg_srcClient g) w (sd_src sd) = Inr (lh_ModTime e))"

text \<open>What becomes of a file: it is recorded afterwards; it has been synced, unless it was recorded before, and then it
  is as it was.\<close>

definition replicated_file :: "'w replicationGroup \<Rightarrow> gob \<Rightarrow> 'w SimpleStore \<Rightarrow> 'w \<Rightarrow> 'w \<Rightarrow> srcDest \<Rightarrow> bool" where
  "replicated_file g gb hs w w' sd \<longleftrightarrow> recorded g gb hs w' sd \<and>
     (if recorded g gb hs w sd then synced g gb hs w' sd = synced g gb hs w sd else synced g gb hs w' sd)"

lemma sees_validateHash:
  assumes "sees g hs ds ps w w'" "d \<in> ds"
  shows "validateHash g w' s d = validateHash g w s d"
proof -
  have "sc_hash (rg_srcClient g) w' s = sc_hash (rg_srcClient g) w s" "sc_hash (rg_destClient g) w' d = sc_hash (rg_destClient g) w d"
    using assms by (simp_all add: sees_def)
  then show ?thesis unfolding validateHash_def by presburger
qed

lemma sees_synced:
  assumes "sees g hs ds ps w w'" "sd_dest sd \<in> ds" "sd_src sd \<in> ps"
  shows "synced g gb hs w' sd = synced g gb hs w sd" "recorded g gb hs w' sd = recorded g gb hs w sd"
proof -
  have "store_Read hs dec w' (sd_src sd) = store_Read hs dec w (sd_src sd)" for dec :: "string \<Rightarrow> go_error + LogHashEntry"
    using assms by (simp add: sees_def store_Read_def)
  moreover have "sc_mtime (rg_srcClient g) w' (sd_src sd) = sc_mtime (rg_srcClient g) w (sd_src sd)"
    using assms by (simp add: sees_def)
  ultimately show "synced g gb hs w' sd = synced g gb hs w sd" "recorded g gb hs w' sd = recorded g gb hs w sd"
    using sees_validateHash [OF assms(1,2)] by (simp_all add: synced_def recorded_def)
qed

lemma sees_trans:
  "sees g hs ds ps w w1 \<Longrightarrow> sees g hs ds' ps' w1 w2 \<Longrightarrow> sees g hs (ds \<inter> ds') (ps \<inter> ps') w w2"
  by (simp add: sees_def)

lemma sees_subset: "sees g hs ds ps w w' \<Longrightarrow> ds' \<subseteq> ds \<Longrightarrow> ps' \<subseteq> ps \<Longrightarrow> sees g hs ds' ps' w w'"
  unfolding sees_def by blast

lemma rg_changed_recorded: "rg_changed g gb w (sd_src sd) hs = (False, None) \<longleftrightarrow> recorded g gb hs w sd"
  by (auto simp: rg_changed_def recorded_def split: sum.splits)

lemma rg_sync_syncs:
  assumes "replication_view g hs ds ps" and gob: "\<forall>h. gob_unhash gb (gob_hash gb h) = Inr h"
    and "sd_dest sd \<in> ds" "sd_src sd \<in> ps" "sd_dest sd \<noteq> []" and "rg_sync g gb w sd hs = (w', 0)"
  shows "replicated_file g gb hs w w' sd \<and> sees g hs (ds - {sd_dest sd}) (ps - {sd_src sd}) w w'"
proof (cases "rg_changed g gb w (sd_src sd) hs = (False, None)")
  case True
  with assms(6) show ?thesis by (simp add: rg_sync_def replicated_file_def rg_changed_recorded sees_def)
next
  case False
  obtain b where b: "sc_read (rg_srcClient g) w (sd_src sd) = Inr b"
    using assms(6) False by (cases "sc_read (rg_srcClient g) w (sd_src sd)") (simp_all add: rg_sync_def rg_copy_def)
  obtain w1 e1 where w1: "sc_write (rg_destClient g) w (sd_dest sd) b = (w1, e1)" by (rule prod.exhaust)
  have e1: "e1 = None" using assms(6) False b w1 by (cases e1) (simp_all add: rg_sync_def rg_copy_def)
  have c: "rg_copy g w sd = (w1, None)" using b w1 e1 by (simp add: rg_copy_def)
  obtain h where h: "validateHash g w1 (sd_src sd) (sd_dest sd) = Inr h"
    using assms(6) False c by (cases "validateHash g w1 (sd_src sd) (sd_dest sd)") (simp_all add: rg_sync_def)
  obtain t where t: "sc_mtime (rg_srcClient g) w1 (sd_src sd) = Inr t"
    using assms(6) False c h
    by (cases "sc_mtime (rg_srcClient g) w1 (sd_src sd)") (auto simp: rg_sync_def Let_def split: prod.splits option.splits)
  let ?entry = "\<lparr>lh_Crc32cHash = h, lh_ReplicaPath = sd_dest sd, lh_ModTime = t\<rparr>"
  have w2: "sc_write (ss_c hs) w1 (ss_dataDir hs @ sd_src sd) (gob_hash gb ?entry) = (w', None)"
    using assms(6) False c h t by (auto simp: rg_sync_def Let_def store_write_def split: prod.splits option.splits)
  have s1: "sees g hs (ds - {sd_dest sd}) ps w w1"
    using assms(1,3) w1 unfolding replication_view_def by (metis fst_conv)
  have s2: "sees g hs ds (ps - {sd_src sd}) w1 w'" and r: "sc_read (ss_c hs) w' (ss_dataDir hs @ sd_src sd) = Inr (gob_hash gb ?entry)"
    using assms(1,4) w2 unfolding replication_view_def by (metis fst_conv snd_conv)+
  have "validateHash g w' (sd_src sd) (sd_dest sd) = Inr h" using h sees_validateHash [OF s2 assms(3)] by simp
  moreover have read: "store_Read hs (gob_unhash gb) w' (sd_src sd) = Inr ?entry" using r gob by (simp add: store_Read_def)
  ultimately have "synced g gb hs w' sd" unfolding synced_def by blast
  moreover have "recorded g gb hs w' sd" using read t s2 assms(5) by (simp add: recorded_def sees_def)
  moreover have "sees g hs (ds - {sd_dest sd}) (ps - {sd_src sd}) w w'"
    by (rule sees_subset [OF sees_trans [OF s1 s2]]) auto
  ultimately show ?thesis using False by (simp add: replicated_file_def rg_changed_recorded)
qed

lemma replicated_file_cong:
  assumes "recorded g gb hs v sd = recorded g gb hs w sd" "synced g gb hs v sd = synced g gb hs w sd"
    "recorded g gb hs v' sd = recorded g gb hs w' sd" "synced g gb hs v' sd = synced g gb hs w' sd"
  shows "replicated_file g gb hs v v' sd = replicated_file g gb hs w w' sd"
  unfolding replicated_file_def assms ..

lemma runSync_counts: "runSync g gb hs w errs sds = (w', errs') \<Longrightarrow> errs \<le> errs'"
proof (induction sds arbitrary: w errs)
  case (Cons sd sds)
  obtain w1 n where "rg_sync g gb w sd hs = (w1, n)" by (rule prod.exhaust)
  with Cons.prems Cons.IH [of w1 "errs + n"] show ?case by simp
qed simp

lemma runSync_syncs:
  assumes v: "replication_view g hs ds ps" and gob: "\<forall>h. gob_unhash gb (gob_hash gb h) = Inr h"
  shows "runSync g gb hs w 0 sds = (w', 0) \<Longrightarrow> distinct (map sd_src sds) \<Longrightarrow> distinct (map sd_dest sds) \<Longrightarrow>
    sd_dest ` set sds \<subseteq> ds - {[]} \<Longrightarrow> sd_src ` set sds \<subseteq> ps \<Longrightarrow>
    (\<forall>sd \<in> set sds. replicated_file g gb hs w w' sd) \<and> sees g hs (ds - sd_dest ` set sds) (ps - sd_src ` set sds) w w'"
proof (induction sds arbitrary: w)
  case Nil
  then show ?case by (simp add: sees_def)
next
  case (Cons f sds)
  obtain w1 n where y: "rg_sync g gb w f hs = (w1, n)" by (rule prod.exhaust)
  have l: "runSync g gb hs w1 n sds = (w', 0)" using Cons.prems(1) y by simp
  with runSync_counts have n: "n = 0" by fastforce
  have d: "sd_dest f \<in> ds" "sd_src f \<in> ps" "sd_dest f \<noteq> []" using Cons.prems(4,5) by auto
  from rg_sync_syncs [OF v gob d y [unfolded n]]
  have s: "replicated_file g gb hs w w1 f" "sees g hs (ds - {sd_dest f}) (ps - {sd_src f}) w w1" by simp_all
  have p: "distinct (map sd_src sds)" "distinct (map sd_dest sds)" "sd_dest ` set sds \<subseteq> ds - {[]}" "sd_src ` set sds \<subseteq> ps"
    using Cons.prems(2-5) by simp_all
  from Cons.IH [OF l [unfolded n] p] have i: "\<forall>sd \<in> set sds. replicated_file g gb hs w1 w' sd"
    "sees g hs (ds - sd_dest ` set sds) (ps - sd_src ` set sds) w1 w'" by blast+
  have "replicated_file g gb hs w w' sd" if "sd \<in> set sds" for sd
  proof -
    have im: "sd_dest sd \<in> sd_dest ` set sds" "sd_src sd \<in> sd_src ` set sds" using that by simp_all
    have "sd_dest f \<notin> sd_dest ` set sds" "sd_src f \<notin> sd_src ` set sds" using Cons.prems(2,3) by simp_all
    then have "sd_dest sd \<noteq> sd_dest f" "sd_src sd \<noteq> sd_src f" using im by metis+
    then have "sd_dest sd \<in> ds - {sd_dest f}" "sd_src sd \<in> ps - {sd_src f}" using im p(3,4) by blast+
    note e = sees_synced [OF s(2) this]
    have "replicated_file g gb hs w1 w' sd" using i(1) that by blast
    then show ?thesis using replicated_file_cong [OF e(2,1) refl refl] by simp
  qed
  moreover have "replicated_file g gb hs w w' f"
  proof -
    have "sd_dest f \<in> ds - sd_dest ` set sds" "sd_src f \<in> ps - sd_src ` set sds" using d Cons.prems(2,3) by auto
    note e = sees_synced [OF i(2) this]
    show ?thesis using s(1) replicated_file_cong [OF refl refl e(2,1)] by simp
  qed
  moreover have "sees g hs (ds - sd_dest ` set (f # sds)) (ps - sd_src ` set (f # sds)) w w'"
    by (rule sees_subset [OF sees_trans [OF s(2) i(2)]]) auto
  ultimately show ?case by simp
qed

definition walked :: "string \<Rightarrow> walk_entry list \<Rightarrow> srcDest list" where
  "walked destDir es =
     map (\<lambda>e. \<lparr>sd_src = we_path e, sd_dest = dest_path destDir (case we_rel e of Inl _ \<Rightarrow> [] | Inr sub \<Rightarrow> sub)\<rparr>)
       (filter (\<lambda>e. \<not> we_isDir e) es)"

text \<open>A walk that ends without an error has sent every file, and has changed nothing that a replication sees.\<close>

lemma walk_loop_sends:
  assumes v: "replication_view g hs ds ps"
  shows "walk_loop g destDir w es = (w', sent, None) \<Longrightarrow> sent = walked destDir es \<and> sees g hs ds ps w w'"
proof (induction es arbitrary: w sent)
  case Nil
  then show ?case by (simp add: walked_def sees_def)
next
  case (Cons e es)
  obtain sub where sub: "we_err e = None" "we_info e = None" "we_rel e = Inr sub"
    using Cons.prems by (cases "we_err e"; cases "we_info e"; cases "we_rel e") simp_all
  let ?dest = "dest_path destDir sub"
  show ?case
  proof (cases "we_isDir e")
    case True
    obtain w1 r where m: "sc_mkdirp (rg_destClient g) w ?dest = (w1, r)" by (rule prod.exhaust)
    have l: "walk_loop g destDir w1 es = (w', sent, None)"
      using Cons.prems sub True m by (simp add: Let_def split: option.splits)
    have s: "sees g hs ds ps w w1" using v m unfolding replication_view_def by (metis fst_conv)
    from Cons.IH [OF l] sees_trans [OF s] True show ?thesis by (simp add: walked_def) (metis Int_absorb)
  next
    case False
    then obtain sent' where l: "walk_loop g destDir w es = (w', sent', None)" "sent = \<lparr>sd_src = we_path e, sd_dest = ?dest\<rparr> # sent'"
      using Cons.prems sub by (auto simp: Let_def split: prod.splits)
    from Cons.IH [OF l(1)] l(2) False sub show ?thesis by (simp add: walked_def)
  qed
qed

lemma dest_path_nonempty: "dest_path d s \<noteq> []"
  by (auto simp: dest_path_def HasSuffix_def)

text \<open>
  C26: a replication that reports no error is complete, in whichever order its workers finish the files. Every file
  of the walk is recorded afterwards with the time it has; a file that was not recorded before, or with another time,
  has a replica of the same hash, and that hash is stored with the path of the replica; a file that was recorded with
  its time is left as it was, whether its replica is right or not.
\<close>

theorem runReplication_complete:
  assumes "replication_view \<lparr>rg_srcClient = local, rg_destClient = remote\<rparr> hs (sd_dest ` set (walked destDir (walk srcDir)))
      (sd_src ` set (walked destDir (walk srcDir)))"
    and "\<forall>h. gob_unhash gb (gob_hash gb h) = Inr h"
    and "distinct (map sd_src (walked destDir (walk srcDir)))" and "distinct (map sd_dest (walked destDir (walk srcDir)))"
    and "pool_order n (walked destDir (walk srcDir)) (sched (walked destDir (walk srcDir)))"
    and "runReplication walk sched gb local remote hs w srcDir destDir = (w', None)"
    and "sd \<in> set (walked destDir (walk srcDir))"
  shows "recorded \<lparr>rg_srcClient = local, rg_destClient = remote\<rparr> gb hs w' sd \<and>
    (\<not> recorded \<lparr>rg_srcClient = local, rg_destClient = remote\<rparr> gb hs w sd \<longrightarrow>
       synced \<lparr>rg_srcClient = local, rg_destClient = remote\<rparr> gb hs w' sd) \<and>
    (recorded \<lparr>rg_srcClient = local, rg_destClient = remote\<rparr> gb hs w sd \<longrightarrow>
       synced \<lparr>rg_srcClient = local, rg_destClient = remote\<rparr> gb hs w' sd =
       synced \<lparr>rg_srcClient = local, rg_destClient = remote\<rparr> gb hs w sd)"
proof -
  let ?g = "\<lparr>rg_srcClient = local, rg_destClient = remote\<rparr>" and ?fs = "walked destDir (walk srcDir)"
  let ?ds = "sd_dest ` set ?fs" and ?ps = "sd_src ` set ?fs"
  obtain w1 sent r where l: "walk_loop ?g destDir w (walk srcDir) = (w1, sent, r)" by (metis prod_cases3)
  obtain w2 k where y: "runSync ?g gb hs w1 0 (sched sent) = (w2, k)" by (rule prod.exhaust)
  from assms(6) l y have e: "r = None" "k = 0" "w2 = w'" by (auto simp: runReplication_def split: if_splits)
  note s = walk_loop_sends [OF assms(1) l [unfolded e]]
  have ms: "mset (sched ?fs) = mset ?fs" by (rule pool_order_mset [OF assms(5)])
  then have "mset (map sd_src (sched ?fs)) = mset (map sd_src ?fs)" "mset (map sd_dest (sched ?fs)) = mset (map sd_dest ?fs)"
    by simp_all
  then have d: "distinct (map sd_src (sched ?fs))" "distinct (map sd_dest (sched ?fs))"
    using assms(3,4) mset_eq_imp_distinct_iff by blast+
  have st: "set (sched ?fs) = set ?fs" using ms by (rule mset_eq_setD)
  have "[] \<notin> ?ds" by (auto simp: walked_def dest_path_nonempty dest_path_nonempty [symmetric])
  then have im: "sd_dest ` set (sched ?fs) \<subseteq> ?ds - {[]}" "sd_src ` set (sched ?fs) \<subseteq> ?ps" using st by auto
  have "runSync ?g gb hs w1 0 (sched ?fs) = (w', 0)" using y s e by simp
  note c = runSync_syncs [OF assms(1,2) this d im]
  have "sd \<in> set (sched ?fs)" using st assms(7) by simp
  with c have "replicated_file ?g gb hs w1 w' sd" by (simp only: Ball_def)
  moreover have "synced ?g gb hs w1 sd = synced ?g gb hs w sd" "recorded ?g gb hs w1 sd = recorded ?g gb hs w sd"
    using sees_synced [OF conjunct2 [OF s], of sd gb] assms(7) by simp_all
  ultimately show ?thesis by (simp add: replicated_file_def split: if_splits)
qed

text \<open>A world of two maps: local files, and a bucket with the replicas and the hashes. The hash of a file is its content.\<close>

type_synonym sample_world = "(string \<rightharpoonup> string) \<times> (string \<rightharpoonup> string)"

definition get_file :: "(string \<rightharpoonup> string) \<Rightarrow> string \<Rightarrow> go_error + string" where
  "get_file m p = (case m p of None \<Rightarrow> Inl (Errorf ''not found'') | Some b \<Rightarrow> Inr b)"

definition local_files :: "sample_world storage" where
  "local_files =
     \<lparr>sc_hash = (\<lambda>(l, b). get_file l), sc_mtime = (\<lambda>_ _. Inr 7), sc_mkdirp = (\<lambda>w _. (w, None)), sc_read = (\<lambda>(l, b). get_file l),
      sc_write = (\<lambda>(l, b) p x. ((l(p \<mapsto> x), b), None)), sc_delete = (\<lambda>(l, b) p _. ((l(p := None), b), None))\<rparr>"

definition bucket_files :: "sample_world storage" where
  "bucket_files =
     \<lparr>sc_hash = (\<lambda>(l, b). get_file b), sc_mtime = (\<lambda>_ _. Inr 7), sc_mkdirp = (\<lambda>w _. (w, None)), sc_read = (\<lambda>(l, b). get_file b),
      sc_write = (\<lambda>(l, b) p x. ((l, b(p \<mapsto> x)), None)), sc_delete = (\<lambda>(l, b) p _. ((l, b(p := None)), None))\<rparr>"

abbreviation bucket_hashes :: "sample_world SimpleStore" where
  "bucket_hashes \<equiv> \<lparr>ss_c = bucket_files, ss_dataDir = ''gs://b/hash/''\<rparr>"

definition sample_walk :: "string \<Rightarrow> walk_entry list" where
  "sample_walk d =
     [\<lparr>we_path = ''/a'', we_err = None, we_info = None, we_rel = Inr ''.'', we_isDir = True\<rparr>,
      \<lparr>we_path = ''/a/1'', we_err = None, we_info = None, we_rel = Inr ''1'', we_isDir = False\<rparr>]"

definition sample_hashes :: gob where
  "sample_hashes = sample_gob
     \<lparr>gob_hash := (\<lambda>h. replicate (to_nat (lh_Crc32cHash h, lh_ReplicaPath h, lh_ModTime h)) CHR ''x''),
      gob_unhash := (\<lambda>s. case from_nat (length s) of (c, r, t) \<Rightarrow> Inr \<lparr>lh_Crc32cHash = c, lh_ReplicaPath = r, lh_ModTime = t\<rparr>)\<rparr>"

text \<open>A log whose stored entry is of another time, and whose replica is an older one.\<close>

definition stale_world :: sample_world where
  "stale_world = ([''/a/1'' \<mapsto> ''log''], [''gs://b/1'' \<mapsto> ''old'',
     ''gs://b/hash//a/1'' \<mapsto> gob_hash sample_hashes \<lparr>lh_Crc32cHash = EncodeToString ''old'', lh_ReplicaPath = ''gs://b/1'', lh_ModTime = 3\<rparr>])"

theorem runReplication_complete_witness:
  "\<exists>w'. runReplication sample_walk id sample_hashes local_files bucket_files bucket_hashes stale_world ''/a'' ''gs://b'' = (w', None) \<and>
     synced \<lparr>rg_srcClient = local_files, rg_destClient = bucket_files\<rparr> sample_hashes bucket_hashes w' \<lparr>sd_src = ''/a/1'', sd_dest = ''gs://b/1''\<rparr>"
proof -
  let ?g = "\<lparr>rg_srcClient = local_files, rg_destClient = bucket_files\<rparr>" and ?sd = "\<lparr>sd_src = ''/a/1'', sd_dest = ''gs://b/1''\<rparr>"
  have k: "walked ''gs://b'' (sample_walk ''/a'') = [?sd]"
    by (simp add: walked_def sample_walk_def dest_path_def HasSuffix_def)
  have v: "replication_view ?g bucket_hashes (sd_dest ` set (walked ''gs://b'' (sample_walk ''/a'')))
      (sd_src ` set (walked ''gs://b'' (sample_walk ''/a'')))"
    unfolding k by (auto simp: replication_view_def sees_def local_files_def bucket_files_def get_file_def fun_eq_iff split: prod.splits)
  have gob: "\<forall>h. gob_unhash sample_hashes (gob_hash sample_hashes h) = Inr h" by (simp add: sample_hashes_def)
  have n: "\<not> recorded ?g sample_hashes bucket_hashes stale_world ?sd"
    by (simp add: recorded_def store_Read_def bucket_files_def local_files_def stale_world_def get_file_def gob)
  then have c: "rg_changed ?g sample_hashes stale_world ''/a/1'' bucket_hashes \<noteq> (False, None)"
    using rg_changed_recorded [of ?g sample_hashes stale_world ?sd bucket_hashes] by simp
  have d: "distinct (map sd_src (walked ''gs://b'' (sample_walk ''/a'')))" "distinct (map sd_dest (walked ''gs://b'' (sample_walk ''/a'')))"
    by (simp_all add: k)
  have o: "pool_order 1 (walked ''gs://b'' (sample_walk ''/a'')) (id (walked ''gs://b'' (sample_walk ''/a'')))"
    using pool_order_single by (simp add: k)
  have "\<exists>w'. rg_sync ?g sample_hashes stale_world ?sd bucket_hashes = (w', 0)"
    using c unfolding rg_sync_def srcDest.simps
    by (simp add: rg_copy_def validateHash_def store_write_def local_files_def bucket_files_def stale_world_def get_file_def)
  then obtain w' where r: "runReplication sample_walk id sample_hashes local_files bucket_files bucket_hashes stale_world ''/a'' ''gs://b'' = (w', None)"
    by (auto simp: runReplication_def sample_walk_def dest_path_def HasSuffix_def bucket_files_def)
  from runReplication_complete [OF v gob d o r, of ?sd] r n show ?thesis by (auto simp: k)
qed

end
