(* ===== verification/Standby.thy ===== *)
theory Standby
  imports Parameters InstanceUtils
begin

text \<open>
  \<open>oracle/controllers/instancecontroller/instance_controller_standby.go\<close>: the state machine that makes an
  instance a standby of another database, keeps it replicating and promotes it. Its state is the reason
  of the condition \<open>StandbyDRReady\<close>; it changes the instance in memory only and the reconcile loop writes it.
\<close>

abbreviation standbyErrorRetryInterval :: duration where "standbyErrorRetryInterval \<equiv> 60 * Second"
abbreviation StandbyReconcileInterval :: duration where "StandbyReconcileInterval \<equiv> 60 * Second"
abbreviation createStandby :: string where "createStandby \<equiv> ''CreateStandby''"

definition isStandbyDR :: "Instance \<Rightarrow> bool" where
  "isStandbyDR inst =
     (if is_ReplicationSettings (inst_Spec inst) \<noteq> None then True
      else case inst_cond inst k8s_StandbyDRReady of None \<Rightarrow> False | Some c \<Rightarrow> Status c \<noteq> ConditionTrue)"

text \<open>\<open>lroOperationID\<close> for an operation that is not a physical restore.\<close>

definition lroOperationID :: "string \<Rightarrow> Instance \<Rightarrow> string" where
  "lroOperationID opType inst = opType @ ''_'' @ inst_UID inst"

definition internalErrToMsg :: "go_error \<Rightarrow> string" where
  "internalErrToMsg err = ''Internal error: '' @ err_msg err @ '' .''"

definition toCredentialReq :: "ReplicationSettings \<Rightarrow> go_error + string \<times> string \<times> string" where
  "toCredentialReq s =
     (case rep_GsmSecretRef s of
        Some ref \<Rightarrow> Inr ref
      | None \<Rightarrow> Inl (Errorf ''failed to find a valid credential spec''))"

definition findLogDiskSize :: "Instance \<Rightarrow> int" where
  "findLogDiskSize inst =
     (case find (\<lambda>d. ds_Name d = ''LogDisk'' \<and> ds_Size d \<noteq> 0) (case is_Disks (inst_Spec inst) of None \<Rightarrow> [] | Some ds \<Rightarrow> ds) of
        Some d \<Rightarrow> ds_Size d
      | None \<Rightarrow> (case DefaultDiskSpecs ''LogDisk'' of None \<Rightarrow> 0 | Some d \<Rightarrow> ds_Size d))"

definition replicationSettingsNilErr :: "inst_env \<Rightarrow> ReplicationSettings option \<Rightarrow> string" where
  "replicationSettingsNilErr env settings =
     ''spec.replicationSettings must be specified for a standby instance before promotion ready state. '' @
     ''Try adding back spec.replicationSettings to the instance Kubernetes manifest. '' @
     ''Last known replicationSettings: '' @ ce_marshal (ie_ctl env) settings"

definition updateStandbyDataReplicationStatus ::
    "inst_env \<Rightarrow> inst_log \<Rightarrow> Instance \<Rightarrow> ConditionStatus \<Rightarrow> string \<Rightarrow> string \<Rightarrow> string list \<Rightarrow> Instance" where
  "updateStandbyDataReplicationStatus env l inst cs nextState msg errMsgs =
     upsert env l inst k8s_StandbyDRReady cs nextState
       (if errMsgs \<noteq> [] then msg @ [CHR 0x0A] @ join [CHR 0x0A] (sort errMsgs) else msg)"

text \<open>The settings of the primary whose standby the instance is.\<close>

definition set_replication :: "ReplicationSettings option \<Rightarrow> Instance \<Rightarrow> Instance" where
  "set_replication s inst = inst\<lparr>inst_Status := (inst_Status inst)\<lparr>ist_CurrentReplicationSettings := s\<rparr>\<rparr>"

definition set_data_guard :: "(go_time \<times> string list) option \<Rightarrow> Instance \<Rightarrow> Instance" where
  "set_data_guard out inst = inst\<lparr>inst_Status := (inst_Status inst)\<lparr>ist_DataGuardOutput := out\<rparr>\<rparr>"

text \<open>The messages for the user, or an internal error.\<close>

definition verifySettings :: "inst_env \<Rightarrow> inst_log \<Rightarrow> Instance \<Rightarrow> inst_log \<times> (go_error + string list)" where
  "verifySettings env l inst =
     (let spec = inst_Spec inst in
      if is_DBUniqueName spec = []
      then (l, Inr [''spec.dbUniqueName is required for standby replication, try adding spec.dbUniqueName in the instance Kubernetes manifest.''])
      else if is_CDBName spec = []
      then (l, Inr [''spec.cdbName is required for standby replication, try adding spec.cdbName in the instance Kubernetes manifest.''])
      else if map_get (is_Images spec) ''service'' = []
      then (l, Inr [''spec.images.service is required for standby replication, try adding spec.images.service in the instance Kubernetes manifest.''])
      else case is_ReplicationSettings spec of
        None \<Rightarrow> (l, Inr [''spec.replicationSettings is required for standby replication, try adding spec.replicationSettings in the instance Kubernetes manifest.''])
      | Some s \<Rightarrow>
          if rep_GsmSecretRef s = None
          then (l, Inr [''spec.replicationSettings.primaryCredential.gsmSecretRef is required for standby replication, '' @
                 ''try creating a secret to store password in Google Secret Manager and add corresponding spec.replicationSettings.primaryCredential.gsmSecretRef in the instance Kubernetes manifest.''])
          else if rep_PrimaryUser s \<noteq> ''sys''
          then (l, Inr [''spec.replicationSettings.primaryUser.name must be sys for standby replication.''])
          else (case toCredentialReq s of
             Inl err \<Rightarrow> (l, Inl err)
           | Inr _ \<Rightarrow>
               (l @ [ICtl (CVerifyStandby s (is_DBUniqueName spec) (is_CDBName spec) (is_Version spec))],
                case ce_VerifyStandby (ie_ctl env) l s of
                  Inl err \<Rightarrow> Inl err
                | Inr errs \<Rightarrow> Inr (map (\<lambda>(kind, detail). kind @ '': '' @ detail) errs))))"

text \<open>The load balancer's first ingress point, which is a host name or an address.\<close>

definition getStandbyHost :: "inst_env \<Rightarrow> inst_log \<Rightarrow> Instance \<Rightarrow> inst_log \<times> (go_error + string)" where
  "getStandbyHost env l inst =
     (let name = inst_Name inst @ ''-svc'' in
      (l @ [IGetService (inst_Namespace inst) name],
       case ie_GetService env l (inst_Namespace inst) name of
         Inl err \<Rightarrow> Inl err
       | Inr ingress \<Rightarrow>
           (case ingress of
              [] \<Rightarrow> Inl (Errorf ''load balancer service not ready'')
            | host # _ \<Rightarrow> if host = [] then Inl (Errorf ''load balancer service not ready'') else Inr host)))"

text \<open>Follows \<open>inst.Spec.ReplicationSettings\<close>; a nil pointer is a panic, \<open>None\<close>.\<close>

definition reconcileDataGuard :: "inst_env \<Rightarrow> inst_log \<Rightarrow> Instance \<Rightarrow> (Instance \<times> inst_log \<times> go_error option) option" where
  "reconcileDataGuard env l inst =
     (case getStandbyHost env l inst of
        (l1, Inl err) \<Rightarrow> Some (inst, l1, Some err)
      | (l1, Inr standbyHost) \<Rightarrow>
          (case is_ReplicationSettings (inst_Spec inst) of
             None \<Rightarrow> None
           | Some s \<Rightarrow>
               (case toCredentialReq s of
                  Inl err \<Rightarrow> Some (inst, l1, Some err)
                | Inr _ \<Rightarrow>
                    (let l2 = l1 @ [ICtl (CSetUpDataGuard s (is_DBUniqueName (inst_Spec inst)) standbyHost)] in
                     case ce_SetUpDataGuard (ie_ctl env) l1 s standbyHost of
                       Some err \<Rightarrow> Some (inst, l2, Some err)
                     | None \<Rightarrow> Some (set_replication (Some s) inst, l2, None)))))"

definition updateDataGuardStatus :: "inst_env \<Rightarrow> inst_log \<Rightarrow> Instance \<Rightarrow> duration \<Rightarrow> Instance \<times> inst_log" where
  "updateDataGuardStatus env l inst interval =
     (let query = (let u = is_DBUniqueName (inst_Spec inst); l1 = l @ [ICtl (CDataGuardStatus u)] in
             (set_data_guard (Some (ie_now env l1,
                case ce_DataGuardStatus (ie_ctl env) l u of Inr out \<Rightarrow> out | Inl err \<Rightarrow> [internalErrToMsg err])) inst, l1))
      in case ist_DataGuardOutput (inst_Status inst) of
           Some (lastUpdateTime, _) \<Rightarrow> if time_Sub (ie_now env l) lastUpdateTime < interval then (inst, l) else query
         | None \<Rightarrow> query)"

fun create_databases :: "inst_env \<Rightarrow> inst_log \<Rightarrow> Instance \<Rightarrow> migrated_pdb list \<Rightarrow> inst_log \<times> go_error option" where
  "create_databases env l inst [] = (l, None)"
| "create_databases env l inst (pdb # pdbs) =
     (let l1 = l @ [ICtl (CCreateDatabase (inst_Namespace inst) (inst_Name inst) pdb)] in
      case ce_CreateDatabase (ie_ctl env) l pdb of
        None \<Rightarrow> create_databases env l1 inst pdbs
      | Some err \<Rightarrow>
          if err_code err = AlreadyExists then
            (let l2 = l1 @ [ICtl (CApplyDatabase (inst_Namespace inst) (inst_Name inst) pdb)] in
             case ce_ApplyDatabase (ie_ctl env) l1 pdb of
               Some e \<Rightarrow> (l2, Some (Errorf (''bootstrapStandby failed to patch database resource: '' @ err_msg e)))
             | None \<Rightarrow> create_databases env l2 inst pdbs)
          else (l1, Some (Errorf (''bootstrapStandby failed to create database resource: '' @ err_msg err))))"

definition bootstrapStandby :: "inst_env \<Rightarrow> inst_log \<Rightarrow> Instance \<Rightarrow> inst_log \<times> go_error option" where
  "bootstrapStandby env l inst =
     (let l1 = l @ [ICtl (CBootstrapStandby (is_CDBName (inst_Spec inst)) (is_Version (inst_Spec inst)) (GetDBDomain inst))] in
      case ce_BootstrapStandby (ie_ctl env) l of
        Inl err \<Rightarrow> (l1, Some (Errorf (''failed to bootstrap the standby instance: '' @ err_msg err)))
      | Inr migratedPDBs \<Rightarrow> create_databases env l1 inst migratedPDBs)"

definition reconcilePromoteStandby :: "inst_env \<Rightarrow> inst_log \<Rightarrow> Instance \<Rightarrow> inst_log \<times> go_error option" where
  "reconcilePromoteStandby env l inst =
     (case ist_CurrentReplicationSettings (inst_Status inst) of
        None \<Rightarrow> (l, None)
      | Some s \<Rightarrow>
          (case getStandbyHost env l inst of
             (l1, Inl err) \<Rightarrow> (l1, Some err)
           | (l1, Inr standbyHost) \<Rightarrow>
               (case toCredentialReq s of
                  Inl err \<Rightarrow> (l1, Some err)
                | Inr _ \<Rightarrow>
                    (l1 @ [ICtl (CPromoteStandby s (is_DBUniqueName (inst_Spec inst)) standbyHost)],
                     ce_PromoteStandby (ie_ctl env) l1 s standbyHost))))"

subsection \<open>The state machine\<close>

text \<open>The machine never returns an error of its own.\<close>

type_synonym standby_result = "Instance \<times> inst_log \<times> ctrl_Result"

definition standby_verify :: "inst_env \<Rightarrow> inst_log \<Rightarrow> Instance \<Rightarrow> standby_result" where
  "standby_verify env l inst =
     (let st = (\<lambda>l inst. updateStandbyDataReplicationStatus env l inst ConditionFalse) in
      case verifySettings env l inst of
        (l1, Inl err) \<Rightarrow>
          (st l1 inst k8s_StandbyDRVerifyFailed ''validate replication settings failed'' [internalErrToMsg err], l1,
           requeue_in standbyErrorRetryInterval)
      | (l1, Inr externalErrMsgs) \<Rightarrow>
          if externalErrMsgs \<noteq> []
          then (st l1 inst k8s_StandbyDRVerifyFailed ''validate replication settings failed'' externalErrMsgs, l1,
                requeue_in standbyErrorRetryInterval)
          else (st l1 inst k8s_StandbyDRVerifyCompleted ''validate replication settings completed'' [], l1, requeue_now))"

definition standby_create :: "inst_env \<Rightarrow> inst_log \<Rightarrow> Instance \<Rightarrow> standby_result" where
  "standby_create env l inst =
     (let st = (\<lambda>l inst. updateStandbyDataReplicationStatus env l inst ConditionFalse) in
      case is_ReplicationSettings (inst_Spec inst) of
        None \<Rightarrow> (st l inst k8s_StandbyDRCreateInProgress
                   (replicationSettingsNilErr env (ist_CurrentReplicationSettings (inst_Status inst))) [], l, Result_zero)
      | Some s \<Rightarrow>
          (let inst1 = set_replication (Some s) inst; operationId = lroOperationID createStandby inst1 in
           case toCredentialReq s of
             Inl err \<Rightarrow> (st l inst1 k8s_StandbyDRCreateInProgress ''create standby instance failed'' [internalErrToMsg err], l,
                         requeue_in standbyErrorRetryInterval)
           | Inr _ \<Rightarrow>
               (let l1 = l @ [ICtl (CCreateStandby s (is_DBDomain (inst_Spec inst)) (is_DBUniqueName (inst_Spec inst))
                                (findLogDiskSize inst1) operationId)] in
                case ce_CreateStandby (ie_ctl env) l s operationId of
                  Inl err \<Rightarrow> (st l1 inst1 k8s_StandbyDRCreateFailed ''create standby instance failed'' [internalErrToMsg err], l1, Result_zero)
                | Inr operation \<Rightarrow>
                    (case op_error operation of
                       Some e \<Rightarrow>
                         (let l2 = l1 @ [IDeleteLRO operationId] in
                          (st l2 inst1 k8s_StandbyDRCreateFailed ''create standby instance failed'' [err_msg e], l2, Result_zero))
                     | None \<Rightarrow>
                         if \<not> op_Done operation
                         then (st l1 inst1 k8s_StandbyDRCreateInProgress ''create standby instance in progress'' [], l1,
                               requeue_in StandbyReconcileInterval)
                         else (st l1 inst1 k8s_StandbyDRCreateCompleted ''create standby instance completed'' [], l1, Result_zero)))))"

text \<open>\<open>StandbyDRCreateCompleted\<close> and \<open>StandbyDRSetUpDataGuardFailed\<close>; \<open>state\<close> is the one it is in.\<close>

definition standby_set_up :: "inst_env \<Rightarrow> inst_log \<Rightarrow> Instance \<Rightarrow> string \<Rightarrow> standby_result option" where
  "standby_set_up env l inst state =
     (let st = (\<lambda>l inst. updateStandbyDataReplicationStatus env l inst ConditionFalse) in
      case is_ReplicationSettings (inst_Spec inst) of
        None \<Rightarrow> Some (st l inst state (replicationSettingsNilErr env (ist_CurrentReplicationSettings (inst_Status inst))) [], l, Result_zero)
      | Some s \<Rightarrow>
          (case reconcileDataGuard env l (set_replication (Some s) inst) of
             None \<Rightarrow> None
           | Some (inst1, l1, Some err) \<Rightarrow>
               Some (st l1 inst1 k8s_StandbyDRSetUpDataGuardFailed ''set up Data Guard failed'' [internalErrToMsg err], l1,
                     requeue_in standbyErrorRetryInterval)
           | Some (inst1, l1, None) \<Rightarrow>
               Some (st l1 inst1 k8s_StandbyDRSetUpDataGuardCompleted ''set up Data Guard completed'' [], l1, requeue_now)))"

text \<open>A promotion; \<open>again\<close> is the result after a failure.\<close>

definition standby_promote :: "inst_env \<Rightarrow> inst_log \<Rightarrow> Instance \<Rightarrow> ctrl_Result \<Rightarrow> standby_result" where
  "standby_promote env l inst again =
     (let st = (\<lambda>l inst. updateStandbyDataReplicationStatus env l inst ConditionFalse) in
      case reconcilePromoteStandby env l inst of
        (l1, Some err) \<Rightarrow> (st l1 inst k8s_StandbyDRPromoteFailed ''promote standby failed'' [internalErrToMsg err], l1, again)
      | (l1, None) \<Rightarrow> (st l1 inst k8s_StandbyDRPromoteCompleted ''promote standby completed'' [], l1, requeue_now))"

definition standby_replicate :: "inst_env \<Rightarrow> inst_log \<Rightarrow> Instance \<Rightarrow> standby_result option" where
  "standby_replicate env l inst =
     (let st = (\<lambda>l inst. updateStandbyDataReplicationStatus env l inst ConditionFalse k8s_StandbyDRDataGuardReplicationInProgress) in
      if is_ReplicationSettings (inst_Spec inst) = None then Some (standby_promote env l inst Result_zero)
      else case reconcileDataGuard env l inst of
             None \<Rightarrow> None
           | Some (inst1, l1, Some err) \<Rightarrow>
               (case updateDataGuardStatus env l1
                       (st l1 inst1 ''Data Guard data replication in progress with errors'' [internalErrToMsg err]) standbyErrorRetryInterval of
                  (inst2, l2) \<Rightarrow> Some (inst2, l2, requeue_in standbyErrorRetryInterval))
           | Some (inst1, l1, None) \<Rightarrow>
               (case updateDataGuardStatus env l1 (st l1 inst1 ''Data Guard data replication in progress'' []) StandbyReconcileInterval of
                  (inst2, l2) \<Rightarrow> Some (inst2, l2, requeue_in StandbyReconcileInterval)))"

definition standby_finish :: "inst_env \<Rightarrow> inst_log \<Rightarrow> Instance \<Rightarrow> Instance" where
  "standby_finish env l inst =
     upsert env l (upsert env l
       (updateStandbyDataReplicationStatus env l inst ConditionTrue k8s_StandbyDRBootstrapCompleted ''bootstrap standby completed'' [])
       k8s_Ready ConditionTrue k8s_CreateComplete ''bootstrap standby completed'')
       k8s_DatabaseInstanceReady ConditionTrue k8s_CreateComplete ''bootstrap standby completed''"

definition standby_bootstrap :: "inst_env \<Rightarrow> inst_log \<Rightarrow> Instance \<Rightarrow> standby_result" where
  "standby_bootstrap env l inst =
     (let inst1 = set_data_guard None (set_replication None inst) in
      case bootstrapStandby env l inst1 of
        (l1, Some err) \<Rightarrow>
          (updateStandbyDataReplicationStatus env l1 inst1 ConditionFalse k8s_StandbyDRBootstrapFailed ''bootstrap standby failed''
             [internalErrToMsg err], l1, requeue_in standbyErrorRetryInterval)
      | (l1, None) \<Rightarrow> (standby_finish env l1 inst1, l1, requeue_now))"

definition standby_state :: "Instance \<Rightarrow> string" where
  "standby_state inst =
     (case inst_cond inst k8s_StandbyDRReady of None \<Rightarrow> k8s_StandbyDRVerifyFailed | Some c \<Rightarrow> Reason c)"

definition standbyStateMachine :: "inst_env \<Rightarrow> inst_log \<Rightarrow> Instance \<Rightarrow> standby_result option" where
  "standbyStateMachine env l inst =
     (let state = standby_state inst;
          st = (\<lambda>inst. updateStandbyDataReplicationStatus env l inst ConditionFalse)
      in if state = k8s_StandbyDRVerifyFailed then Some (standby_verify env l inst)
         else if state = k8s_StandbyDRVerifyCompleted then
           Some (st (set_replication (is_ReplicationSettings (inst_Spec inst)) inst) k8s_StandbyDRCreateInProgress
                   ''create standby instance in progress'' [], l, requeue_now)
         else if state = k8s_StandbyDRCreateInProgress then Some (standby_create env l inst)
         else if state = k8s_StandbyDRCreateFailed then Some (inst, l, Result_zero)
         else if state = k8s_StandbyDRCreateCompleted \<or> state = k8s_StandbyDRSetUpDataGuardFailed
         then standby_set_up env l inst state
         else if state = k8s_StandbyDRSetUpDataGuardCompleted then
           Some (st inst k8s_StandbyDRDataGuardReplicationInProgress ''Data Guard data replication in progress'' [], l, requeue_now)
         else if state = k8s_StandbyDRDataGuardReplicationInProgress then standby_replicate env l inst
         else if state = k8s_StandbyDRPromoteFailed then Some (standby_promote env l inst (requeue_in standbyErrorRetryInterval))
         else if state = k8s_StandbyDRPromoteCompleted \<or> state = k8s_StandbyDRBootstrapFailed
         then Some (standby_bootstrap env l inst)
         else if state = k8s_StandbyDRBootstrapCompleted then Some (standby_finish env l inst, l, requeue_now)
         else Some (inst, l, Result_zero))"

end
