(* ===== verification/InstanceController.thy ===== *)
theory InstanceController
  imports Standby Patching Restore
begin

text \<open>
  \<open>oracle/controllers/instancecontroller/instance_controller.go\<close> with the rest of \<open>utils.go\<close>: the main reconcile loop
  of an instance, which runs the standby, parameter, patching and restore state machines and the resizing in turn,
  creates the Kubernetes objects, and then the state machine \<open>reconcileDatabaseInstance\<close> that creates the
  database. A panic is \<open>None\<close>. The pointers to the conditions \<open>Ready\<close> and \<open>DatabaseInstanceReady\<close> point into the
  instance: they are read again where they are used.
\<close>

abbreviation InstanceReadyTimeout :: duration where "InstanceReadyTimeout \<equiv> 120 * Minute"
abbreviation DatabaseInstanceReadyTimeoutSeeded :: duration where "DatabaseInstanceReadyTimeoutSeeded \<equiv> 30 * Minute"
abbreviation DatabaseInstanceReadyTimeoutUnseeded :: duration where "DatabaseInstanceReadyTimeoutUnseeded \<equiv> 60 * Minute"
abbreviation FinalizerName :: string where "FinalizerName \<equiv> ''oracle.db.anthosapis.com''"
abbreviation PauseInstanceMode :: string where "PauseInstanceMode \<equiv> ''Pause''"
abbreviation ManuallySetUpStandby :: string where "ManuallySetUpStandby \<equiv> ''ManuallySetUpStandby''"
abbreviation StoppedReplicaCnt :: int where "StoppedReplicaCnt \<equiv> 0"

subsection \<open>Objects of an instance\<close>

definition GetMonitoringDepName :: "string \<Rightarrow> string" where
  "GetMonitoringDepName instName = instName @ ''-monitor''"

definition getSVCName :: "Instance \<Rightarrow> string" where
  "getSVCName inst = inst_Name inst @ ''-svc''"

abbreviation AgentSVCName :: "Instance \<Rightarrow> string" where "AgentSVCName inst \<equiv> inst_Name inst @ ''-agent-svc''"
abbreviation DbDaemonSVCName :: "Instance \<Rightarrow> string" where "DbDaemonSVCName inst \<equiv> inst_Name inst @ ''-dbdaemon-svc''"

definition inst_IsStopped :: "Instance \<Rightarrow> bool" where
  "inst_IsStopped inst \<longleftrightarrow> is_IsStopped (inst_Spec inst) = Some True"

definition IsDeleting :: "Instance \<Rightarrow> bool" where
  "IsDeleting inst \<longleftrightarrow> inst_DeletionTimestamp inst \<noteq> None"

text \<open>\<open>net.JoinHostPort\<close> puts a host with a colon into brackets.\<close>

definition LoadBalancerURL :: "string list \<Rightarrow> int \<Rightarrow> string" where
  "LoadBalancerURL ingress port =
     (case ingress of
        [] \<Rightarrow> []
      | host # _ \<Rightarrow> (if CHR '':'' \<in> set host then ''['' @ host @ '']'' else host) @ '':'' @ itoa port)"

definition load_config :: "inst_env \<Rightarrow> inst_log \<Rightarrow> string \<Rightarrow> inst_log \<times> (go_error + ConfigSpec option)" where
  "load_config env l ns = (l @ [ICtl (CListConfigs ns)], loadConfig (ce_ListConfigs (ie_ctl env) l ns))"

definition createMonitoringDeployment :: "inst_env \<Rightarrow> inst_log \<Rightarrow> Instance \<Rightarrow> int \<Rightarrow> gomap \<Rightarrow> inst_log \<times> go_error option" where
  "createMonitoringDeployment env l inst replicas images =
     (let name = GetMonitoringDepName (inst_Name inst) in
      (l @ [ICtl (CMonitoringDeployment (inst_Namespace inst) name replicas images)],
       ce_MonitoringDeployment (ie_ctl env) l name replicas))"

definition removeMonitoringDeployment :: "inst_env \<Rightarrow> inst_log \<Rightarrow> Instance \<Rightarrow> inst_log \<times> (go_error + bool)" where
  "removeMonitoringDeployment env l inst =
     (let ns = inst_Namespace inst; name = GetMonitoringDepName (inst_Name inst); l1 = l @ [ICtl (CGetDeployment ns name)] in
      case ce_GetDeployment (ie_ctl env) l name of
        None \<Rightarrow>
          (l1 @ [ICtl (CDeleteDeployment ns name)],
           case ce_DeleteDeployment (ie_ctl env) l1 name of Some err \<Rightarrow> Inl err | None \<Rightarrow> Inr True)
      | Some err \<Rightarrow> (l1, if \<not> IsNotFound err then Inl err else Inr False))"

definition stopMonitoringDeployment :: "inst_env \<Rightarrow> inst_log \<Rightarrow> Instance \<Rightarrow> inst_log \<times> go_error option" where
  "stopMonitoringDeployment env l inst =
     (case load_config env l (inst_Namespace inst) of
        (l1, Inl err) \<Rightarrow> (l1, Some err)
      | (l1, Inr config) \<Rightarrow>
          (case overrideDefaultImages config (CloneMap (ce_Images (ie_ctl env))) inst of
             (Some err, _) \<Rightarrow> (l1, Some err)
           | (None, images) \<Rightarrow> createMonitoringDeployment env l1 inst StoppedReplicaCnt images))"

definition stopDBStatefulset :: "inst_env \<Rightarrow> inst_log \<Rightarrow> inst_log \<times> go_error option" where
  "stopDBStatefulset env l =
     (let l1 = l @ [ICtl CGetInstance] in
      case ce_GetInstance (ie_ctl env) l of
        Inl err \<Rightarrow> (l1, IgnoreNotFound err)
      | Inr inst \<Rightarrow>
          (let ns = inst_Namespace inst; name = GetSTSName (inst_Name inst); l2 = l1 @ [IGetSTS ns name] in
           case ie_GetSTS env l1 ns name of
             Inl err \<Rightarrow> (l2, Some (Errorf (''failed to get statefulset: '' @ err_msg err)))
           | Inr sts \<Rightarrow>
               (let sts1 = sts\<lparr>sts_Replicas := Some StoppedReplicaCnt\<rparr> in
                (l2 @ [ICreateOrUpdateSTS sts1], ie_CreateOrUpdateSTS env l2 sts1))))"

text \<open>\<open>deleteAgentSVC\<close>, \<open>deleteDBDSVC\<close> and \<open>deleteDBLoadBalancer\<close> for their service.\<close>

definition delete_service :: "inst_env \<Rightarrow> inst_log \<Rightarrow> Instance \<Rightarrow> string \<Rightarrow> inst_log \<times> go_error option" where
  "delete_service env l inst name =
     (l @ [ICtl (CDeleteService (inst_Namespace inst) name)],
      case ce_DeleteService (ie_ctl env) l name of None \<Rightarrow> None | Some err \<Rightarrow> if \<not> IsNotFound err then Some err else None)"

definition apply_service :: "inst_env \<Rightarrow> inst_log \<Rightarrow> Instance \<Rightarrow> string \<Rightarrow> inst_log \<times> (go_error + string list)" where
  "apply_service env l inst name =
     (case ie_SetControllerReference env inst name of
        Some err \<Rightarrow> (l, Inl err)
      | None \<Rightarrow> (l @ [ICtl (CApplyService (inst_Namespace inst) name)], ce_ApplyService (ie_ctl env) l name))"

text \<open>The answer has the ingress points of the load balancer.\<close>

definition createDBLoadBalancer :: "inst_env \<Rightarrow> inst_log \<Rightarrow> Instance \<Rightarrow> inst_log \<times> (go_error + string list)" where
  "createDBLoadBalancer env l inst = apply_service env l inst (getSVCName inst)"

text \<open>\<open>NewAgentSvc\<close> makes a service only when monitoring is enabled.\<close>

definition createDataplaneServices :: "inst_env \<Rightarrow> inst_log \<Rightarrow> Instance \<Rightarrow> inst_log \<times> go_error option" where
  "createDataplaneServices env l inst =
     (case apply_service env l inst (DbDaemonSVCName inst) of
        (l1, Inl err) \<Rightarrow> (l1, Some err)
      | (l1, Inr _) \<Rightarrow>
          if \<not> is_Services (inst_Spec inst) ''Monitoring'' then (l1, None)
          else (case apply_service env l1 inst (AgentSVCName inst) of
             (l2, Inl err) \<Rightarrow> (l2, Some err)
           | (l2, Inr _) \<Rightarrow> (l2, None)))"

definition isImageSeeded :: "inst_env \<Rightarrow> inst_log \<Rightarrow> inst_log \<times> (go_error + bool)" where
  "isImageSeeded env l = (l @ [ICtl CFetchImageMetaData], ce_FetchImageMetaData (ie_ctl env) l)"

definition updateDatabaseIncarnationStatus :: "inst_env \<Rightarrow> inst_log \<Rightarrow> Instance \<Rightarrow> Instance \<times> inst_log \<times> go_error option" where
  "updateDatabaseIncarnationStatus env l inst =
     (let l1 = l @ [ICtl CFetchIncarnation]; st = inst_Status inst in
      case ce_FetchIncarnation (ie_ctl env) l of
        Inl err \<Rightarrow> (inst, l1, Some (Errorf (''failed to fetch current database incarnation: '' @ err_msg err)))
      | Inr incarnation \<Rightarrow>
          (inst\<lparr>inst_Status := st\<lparr>ist_LastDatabaseIncarnation :=
               (if ist_CurrentDatabaseIncarnation st \<noteq> incarnation then ist_CurrentDatabaseIncarnation st
                else ist_LastDatabaseIncarnation st),
             ist_CurrentDatabaseIncarnation := incarnation\<rparr>\<rparr>, l1, None))"

definition setDnfs :: "inst_env \<Rightarrow> inst_log \<Rightarrow> Instance \<Rightarrow> bool \<Rightarrow> inst_log \<times> go_error option" where
  "setDnfs env l inst enable =
     (let cdb = is_CDBName (inst_Spec inst); l1 = l @ [ICtl (CSetDnfs enable)] in
      case ce_SetDnfs (ie_ctl env) l enable of
        Some err \<Rightarrow> (l1, Some (Errorf (''error while enabling dNFS: '' @ err_msg err)))
      | None \<Rightarrow>
          (let l2 = l1 @ [ICtl (CShutdown cdb)] in
           case ce_Shutdown (ie_ctl env) l1 cdb of
             Some err \<Rightarrow> (l2, Some (Errorf (''BounceDatabase: error while shutting db: '' @ err_msg err)))
           | None \<Rightarrow>
               (l2 @ [ICtl (CStartup cdb)],
                map_option (\<lambda>err. Errorf (''dbClient/BounceDatabase: error while starting db: '' @ err_msg err))
                  (ce_Startup (ie_ctl env) l2 cdb))))"

subsection \<open>Deletion and stopping\<close>

fun delete_databases :: "inst_env \<Rightarrow> inst_log \<Rightarrow> string \<Rightarrow> string list \<Rightarrow> inst_log \<times> ctrl_Result \<times> go_error option" where
  "delete_databases env l ns [] = (l, requeue_in (10 * Second), None)"
| "delete_databases env l ns (dbName # dbNames) =
     (let l1 = l @ [ICtl (CGetDatabase ns dbName)] in
      case ce_GetDatabase (ie_ctl env) l dbName of
        Some err \<Rightarrow> (l1, Result_zero, IgnoreNotFound err)
      | None \<Rightarrow>
          (let l2 = l1 @ [ICtl (CDeleteDatabase ns dbName)] in
           case ce_DeleteDatabase (ie_ctl env) l1 dbName of
             Some err \<Rightarrow> (l2, Result_zero, Some err)
           | None \<Rightarrow> delete_databases env l2 ns dbNames))"

definition remove_finalizer :: "Instance \<Rightarrow> Instance" where
  "remove_finalizer inst = inst\<lparr>inst_Finalizers := filter (\<lambda>f. f \<noteq> FinalizerName) (inst_Finalizers inst)\<rparr>"

definition reconcileInstanceDeletion :: "inst_env \<Rightarrow> inst_log \<Rightarrow> inst_log \<times> ctrl_Result \<times> go_error option" where
  "reconcileInstanceDeletion env l =
     (let l1 = l @ [ICtl CGetInstance] in
      case ce_GetInstance (ie_ctl env) l of
        Inl err \<Rightarrow> (l1, Result_zero, IgnoreNotFound err)
      | Inr inst \<Rightarrow>
          (case removeMonitoringDeployment env l1 inst of
             (l2, Inl err) \<Rightarrow> (l2, Result_zero, Some err)
           | (l2, Inr True) \<Rightarrow> (l2, requeue_now, None)
           | (l2, Inr False) \<Rightarrow>
               if ist_DatabaseNames (inst_Status inst) = []
               then (l2 @ [IUpdate (remove_finalizer inst)], Result_zero,
                     case ie_Update env l2 (remove_finalizer inst) of Inl err \<Rightarrow> Some err | Inr _ \<Rightarrow> None)
               else delete_databases env l2 (inst_Namespace inst) (ist_DatabaseNames (inst_Status inst))))"

definition reconcileInstanceStop :: "inst_env \<Rightarrow> inst_log \<Rightarrow> inst_log \<times> ctrl_Result \<times> go_error option" where
  "reconcileInstanceStop env l =
     (let l1 = l @ [ICtl CGetInstance] in
      case ce_GetInstance (ie_ctl env) l of
        Inl err \<Rightarrow> (l1, Result_zero, IgnoreNotFound err)
      | Inr inst0 \<Rightarrow>
      (case recordEventAndUpdateStatus env l1 inst0 ConditionFalse k8s_InstanceStoppingInProgress ''Instance is being stopped'' of
         (inst, l2) \<Rightarrow>
      (case stopDBStatefulset env l2 of
         (l3, Some err) \<Rightarrow> (l3, Result_zero, Some err)
       | (l3, None) \<Rightarrow>
      (case stopMonitoringDeployment env l3 inst of
         (l4, Some err) \<Rightarrow> (l4, Result_zero, Some err)
       | (l4, None) \<Rightarrow>
      (case delete_service env l4 inst (getSVCName inst) of
         (l5, Some err) \<Rightarrow> (l5, Result_zero, Some err)
       | (l5, None) \<Rightarrow>
      (case delete_service env l5 inst (DbDaemonSVCName inst) of
         (l6, Some err) \<Rightarrow> (l6, Result_zero, Some err)
       | (l6, None) \<Rightarrow>
      (case delete_service env l6 inst (AgentSVCName inst) of
         (l7, Some err) \<Rightarrow> (l7, Result_zero, Some err)
       | (l7, None) \<Rightarrow>
           (let l8 = l7 @ [ICtl CGetInstance] in
            case ce_GetInstance (ie_ctl env) l7 of
              Inl err \<Rightarrow> (l8, Result_zero, IgnoreNotFound err)
            | Inr inst1 \<Rightarrow>
                (let l9 = l8 @ [IGetService (inst_Namespace inst1) (getSVCName inst1)] in
                 case ie_GetService env l8 (inst_Namespace inst1) (getSVCName inst1) of
                   Inr _ \<Rightarrow> (l9, Result_zero, None)
                 | Inl err \<Rightarrow>
                     if \<not> IsNotFound err then (l9, Result_zero, Some err)
                     else (case recordEventAndUpdateStatus env l9 inst1 ConditionTrue k8s_InstanceStopped ''Instance has been stopped'' of
                        (_, l10) \<Rightarrow> (l10, Result_zero, None)))))))))))"

subsection \<open>The database\<close>

definition lroCreateCDBOperationID :: "Instance \<Rightarrow> string" where
  "lroCreateCDBOperationID inst = ''CreateCDB_'' @ inst_UID inst"

definition lroBootstrapCDBOperationID :: "Instance \<Rightarrow> string" where
  "lroBootstrapCDBOperationID inst = ''BootstrapCDB_'' @ inst_UID inst"

type_synonym ctl_result = "Instance \<times> inst_log \<times> ctrl_Result \<times> go_error option"

text \<open>A transition of the database's condition, written at once.\<close>

definition db_to :: "inst_env \<Rightarrow> inst_log \<Rightarrow> Instance \<Rightarrow> ConditionStatus \<Rightarrow> string \<Rightarrow> string \<Rightarrow> ctl_result" where
  "db_to env l inst st reason msg =
     (let inst1 = upsert env l inst k8s_DatabaseInstanceReady st reason msg in
      (inst1, l @ [IStatusUpdate inst1], requeue_now, ie_StatusUpdate env l inst1))"

definition db_initial :: "inst_env \<Rightarrow> inst_log \<Rightarrow> Instance \<Rightarrow> bool \<Rightarrow> ctl_result" where
  "db_initial env l inst seeded =
     (if is_Restore (inst_Spec inst) \<noteq> None then db_to env l inst ConditionFalse k8s_RestorePending ''Awaiting restore CDB''
      else if \<not> seeded then db_to env l inst ConditionFalse k8s_CreatePending ''Awaiting create CDB''
      else db_to env l inst ConditionFalse k8s_BootstrapPending ''Awaiting bootstrap CDB'')"

definition create_cdb_request :: "inst_env \<Rightarrow> inst_log \<Rightarrow> Instance \<Rightarrow> CreateCDBRequest" where
  "create_cdb_request env l inst =
     (let spec = inst_Spec inst in
      \<lparr>cdb_OracleHome = [], cdb_Sid = is_CDBName spec, cdb_DbUniqueName = is_DBUniqueName spec, cdb_CharacterSet = is_CharacterSet spec,
       cdb_MemoryPercent = int32 (is_MemoryPercent spec),
       cdb_AdditionalParams = mapsToStringArray (ie_range env l (is_Parameters spec)), cdb_Version = [],
       cdb_DbDomain = GetDBDomain inst, cdb_OperationId = lroCreateCDBOperationID inst\<rparr>)"

definition db_create_pending :: "inst_env \<Rightarrow> inst_log \<Rightarrow> Instance \<Rightarrow> ctl_result" where
  "db_create_pending env l inst =
     (let req = create_cdb_request env l inst; l1 = l @ [ICtl (CCreateCDB req)];
          started = db_to env l1 inst ConditionFalse k8s_CreateInProgress ''Database creation in progress''
      in case ce_CreateCDB (ie_ctl env) l req of
           Inl err \<Rightarrow> if \<not> IsAlreadyExistsError err then (inst, l1, Result_zero, Some err) else started
         | Inr _ \<Rightarrow> started)"

text \<open>\<open>CreateInProgress\<close> and \<open>BootstrapInProgress\<close>: the operation is polled, removed, and the state follows.\<close>

definition db_poll :: "inst_env \<Rightarrow> inst_log \<Rightarrow> Instance \<Rightarrow> string \<Rightarrow> string \<Rightarrow> string \<Rightarrow> string \<Rightarrow> ctl_result" where
  "db_poll env l inst opid failure nextState nextMsg =
     (case IsLROOperationDone env l opid of
        (l1, False, _) \<Rightarrow> (inst, l1, requeue_in (15 * Second), None)
      | (l1, True, err) \<Rightarrow>
          (let l2 = l1 @ [IDeleteLRO opid] in
           case err of
             Some _ \<Rightarrow> db_to env l2 inst ConditionFalse k8s_CreateFailed failure
           | None \<Rightarrow> db_to env l2 inst ConditionFalse nextState nextMsg))"

definition db_bootstrap_pending :: "inst_env \<Rightarrow> inst_log \<Rightarrow> Instance \<Rightarrow> bool \<Rightarrow> ctl_result" where
  "db_bootstrap_pending env l inst seeded =
     (let req = \<lparr>bdr_CdbName = is_CDBName (inst_Spec inst), bdr_DbUniqueName = is_DBUniqueName (inst_Spec inst),
                 bdr_Dbdomain = GetDBDomain inst, bdr_Mode = (if seeded then ''ProvisionSeeded'' else ''ProvisionUnseeded'')\<rparr>;
          opid = lroBootstrapCDBOperationID inst; l1 = l @ [ICtl (CBootstrapCDB req opid)];
          started = db_to env l1 inst ConditionFalse k8s_BootstrapInProgress ''Database bootstrap in progress''
      in case ce_BootstrapCDB (ie_ctl env) l req opid of
           Inl err \<Rightarrow> if \<not> IsAlreadyExistsError err then (inst, l1, Result_zero, Some err) else started
         | Inr lro \<Rightarrow> if op_Done lro then db_to env l1 inst ConditionFalse k8s_ReconcileServices ''Services starting'' else started)"

definition db_services :: "inst_env \<Rightarrow> inst_log \<Rightarrow> Instance \<Rightarrow> gomap \<Rightarrow> ctl_result" where
  "db_services env l inst images =
     (let l1 = l @ [IReconcileMonitoring images] in
      case ie_ReconcileMonitoring env l inst images of
        (res, err) \<Rightarrow>
          if err = None \<and> RequeueAfter res = 0 then db_to env l1 inst ConditionTrue k8s_CreateComplete [] else (inst, l1, res, err))"

definition creation_timeout :: "bool \<Rightarrow> duration" where
  "creation_timeout seeded = (if seeded then DatabaseInstanceReadyTimeoutSeeded else DatabaseInstanceReadyTimeoutUnseeded)"

definition db_timed_out :: "inst_env \<Rightarrow> inst_log \<Rightarrow> Instance \<Rightarrow> Condition \<Rightarrow> bool \<Rightarrow> ctl_result" where
  "db_timed_out env l inst db seeded =
     (let l1 = (if \<not> Contains_str (Message db) ''Warning''
                then l @ [IEvent WarningEvent k8s_DatabaseInstanceTimeout (''DatabaseInstance has been in progress for over '' @
                       duration_String (creation_timeout seeded) @ '', please try delete and recreate.'')]
                else l)
      in (upsert env l1 inst k8s_DatabaseInstanceReady ConditionFalse (Reason db)
            ''Warning: db instance is taking too long to start up - please try delete and recreate'', l1, Result_zero, None))"

definition db_switch :: "inst_env \<Rightarrow> inst_log \<Rightarrow> Instance \<Rightarrow> Condition \<Rightarrow> bool \<Rightarrow> gomap \<Rightarrow> ctl_result" where
  "db_switch env l inst db seeded images =
     (let r = Reason db in
      if r = k8s_CreatePending then db_create_pending env l inst
      else if r = k8s_CreateInProgress
      then db_poll env l inst (lroCreateCDBOperationID inst) ''CreateCDB LRO returned error'' k8s_BootstrapPending []
      else if r = k8s_BootstrapPending then db_bootstrap_pending env l inst seeded
      else if r = k8s_BootstrapInProgress
      then db_poll env l inst (lroBootstrapCDBOperationID inst) ''BootstrapDatabase LRO returned error'' k8s_ReconcileServices ''Services starting''
      else if r = k8s_ReconcileServices then db_services env l inst images
      else if r = k8s_RestorePending \<and> ConditionReasonEquals (inst_cond inst k8s_Ready) k8s_RestoreComplete
      then db_to env l inst ConditionTrue k8s_CreateComplete []
      else (inst, l, Result_zero, None))"

definition reconcileDatabaseInstance :: "inst_env \<Rightarrow> inst_log \<Rightarrow> Instance \<Rightarrow> gomap \<Rightarrow> ctl_result" where
  "reconcileDatabaseInstance env l inst images =
     (if \<not> ConditionStatusEquals (inst_cond inst k8s_Ready) ConditionTrue then (inst, l, requeue_now, None)
      else case isImageSeeded env l of
        (l1, Inl err) \<Rightarrow> (inst, l1, Result_zero, Some err)
      | (l1, Inr seeded) \<Rightarrow>
          (case inst_cond inst k8s_DatabaseInstanceReady of
             None \<Rightarrow> db_initial env l1 inst seeded
           | Some db \<Rightarrow>
               if Status db \<noteq> ConditionTrue \<and>
                  \<not> ElapsedTimeFromLastTransitionTime (ie_now env l1) (Some db) < creation_timeout seeded
               then db_timed_out env l1 inst db seeded
               else db_switch env l1 inst db seeded images))"

subsection \<open>The reconcile loop\<close>

text \<open>The fields \<open>Endpoint\<close> and \<open>URL\<close>; what the instance becomes when it is ready.\<close>

definition set_endpoint :: "string list \<Rightarrow> Instance \<Rightarrow> Instance" where
  "set_endpoint ingress inst = inst\<lparr>inst_Status := (inst_Status inst)
     \<lparr>ist_Endpoint := getSVCName inst @ ''.'' @ inst_Namespace inst, ist_URL := LoadBalancerURL ingress 6021\<rparr>\<rparr>"

definition set_active_images :: "gomap \<Rightarrow> Instance \<Rightarrow> Instance" where
  "set_active_images images inst = inst\<lparr>inst_Status := (inst_Status inst)\<lparr>ist_ActiveImages := CloneMap images\<rparr>\<rparr>"

definition set_dnfs_status :: "bool \<Rightarrow> Instance \<Rightarrow> Instance" where
  "set_dnfs_status b inst = inst\<lparr>inst_Status := (inst_Status inst)\<lparr>ist_DnfsEnabled := b\<rparr>\<rparr>"

text \<open>What the caller sees of an instance that was passed by value: the condition that exists is shared.\<close>

definition seen_by_caller :: "Instance \<Rightarrow> Instance \<Rightarrow> Instance" where
  "seen_by_caller inst inst' =
     inst\<lparr>inst_Status := (inst_Status inst)\<lparr>ist_Conditions := ist_Conditions (inst_Status inst')\<rparr>\<rparr>"

definition StsParams_of :: "Instance \<Rightarrow> gomap \<Rightarrow> ConfigSpec option \<Rightarrow> StsParams" where
  "StsParams_of inst images config =
     \<lparr>sp_Namespace = inst_Namespace inst, sp_Images = images, sp_SvcName = getSVCName inst, sp_StsName = GetSTSName (inst_Name inst),
      sp_PrivEscalation = False, sp_ConfigMap = inst_Name inst @ ''-cm'', sp_Restore = None,
      sp_Disks = DiskSpecs (Some inst) config, sp_Config = config\<rparr>"

text \<open>The end of the loop: standby, or the database. The list of databases that is read is only logged.\<close>

definition reconcile_database :: "inst_env \<Rightarrow> inst_log \<Rightarrow> Instance \<Rightarrow> gomap \<Rightarrow> ctl_result" where
  "reconcile_database env l inst images =
     (if isStandbyDR inst
      then (upsert env l inst k8s_Ready ConditionFalse k8s_StandbyDRInProgress ''standby DR in progress'', l, requeue_now, None)
      else if is_Mode (inst_Spec inst) = ManuallySetUpStandby
      then (upsert env l
              (upsert env l inst k8s_Ready ConditionFalse k8s_ManuallySetUpStandbyInProgress
                 (''Setting up standby database in progress, remove spec.mode '' @ ManuallySetUpStandby @ '' to promote the instance''))
              k8s_StandbyReady ConditionTrue k8s_CreateComplete
              ''standby instance creation complete, ready to set up standby database in the instance'',
            l, Result_zero, None)
      else if ConditionStatusEquals (inst_cond inst k8s_StandbyReady) ConditionTrue
      then (let l1 = l @ [IEvent NormalEvent k8s_PromoteStandbyInProgress []] in
            case bootstrapStandby env l1 inst of
              (l2, Some err) \<Rightarrow>
                (inst, l2 @ [IEvent WarningEvent k8s_PromoteStandbyFailed (''Error promoting standby: '' @ err_msg err)], Result_zero, Some err)
            | (l2, None) \<Rightarrow>
                (let l3 = l2 @ [IEvent NormalEvent k8s_PromoteStandbyComplete []] in
                 (upsert env l3
                    (upsert env l3 (upsert env l3 inst k8s_Ready ConditionTrue k8s_CreateComplete [])
                       k8s_DatabaseInstanceReady ConditionTrue k8s_CreateComplete [])
                    k8s_StandbyReady ConditionFalse k8s_PromoteStandbyComplete [], l3, requeue_now, None)))
      else reconcileDatabaseInstance env (l @ [ICtl (CListDatabases (inst_Namespace inst))]) inst images)"

text \<open>The label that marks the instance.\<close>

definition reconcile_labels :: "inst_env \<Rightarrow> inst_log \<Rightarrow> Instance \<Rightarrow> gomap \<Rightarrow> ctl_result" where
  "reconcile_labels env l inst images =
     (if inst_Labels inst = None
      then (let inst1 = inst\<lparr>inst_Labels := Some [''instance'' \<mapsto> inst_Name inst]\<rparr>; l1 = l @ [IUpdate inst1] in
            case ie_Update env l inst1 of
              Inl err \<Rightarrow> (inst1, l1, Result_zero, Some err)
            | Inr inst2 \<Rightarrow> reconcile_database env l1 inst2 images)
      else reconcile_database env l inst images)"

text \<open>Waiting for the stateful set and the load balancer.\<close>

definition reconcile_create :: "inst_env \<Rightarrow> inst_log \<Rightarrow> Instance \<Rightarrow> gomap \<Rightarrow> ctl_result" where
  "reconcile_create env l inst images =
     (let ready = inst_cond inst k8s_Ready; elapsed = ElapsedTimeFromLastTransitionTime (ie_now env l) ready in
      if \<not> ConditionReasonEquals ready k8s_CreateInProgress then reconcile_labels env l inst images
      else if elapsed > InstanceReadyTimeout
      then (let l1 = l @ [IEvent WarningEvent ''InstanceReady'' (''Instance provision timed out after '' @ duration_String InstanceReadyTimeout)] in
            (upsert env l1 inst k8s_Ready ConditionFalse k8s_CreateInProgress
               (''Instance provision timed out. Elapsed Time: '' @ duration_String elapsed), l1, Result_zero, None))
      else case updateProgressCondition env l inst (inst_Namespace inst) ''CreateInProgress'' of
        (inst1, l1, False) \<Rightarrow> (inst1, l1, requeue_in (30 * Second), None)
      | (inst1, l1, True) \<Rightarrow>
          if ist_URL (inst_Status inst1) \<noteq> []
          then (let l2 = l1 @ [IEvent NormalEvent ''InstanceReady'' (''Instance has been created successfully. Elapsed Time: '' @ duration_String elapsed)] in
                (set_active_images images (upsert env l2 inst1 k8s_Ready ConditionTrue k8s_CreateComplete []), l2, requeue_now, None))
          else reconcile_labels env l1 inst1 images)"

text \<open>The objects of an instance that is not ready yet.\<close>

definition reconcile_objects :: "inst_env \<Rightarrow> inst_log \<Rightarrow> Instance \<Rightarrow> StsParams \<Rightarrow> ctl_result" where
  "reconcile_objects env l inst sp =
     (case createStatefulSet env l inst sp of
        (l1, Some err) \<Rightarrow> (inst, l1, Result_zero, Some err)
      | (l1, None) \<Rightarrow>
      (case createDBLoadBalancer env l1 inst of
         (l2, Inl err) \<Rightarrow> (inst, l2, Result_zero, Some err)
       | (l2, Inr ingress) \<Rightarrow>
      (case createDataplaneServices env l2 inst of
         (l3, Some err) \<Rightarrow> (inst, l3, Result_zero, Some err)
       | (l3, None) \<Rightarrow>
           (let inst1 = (if inst_cond inst k8s_Ready = None
                         then upsert env l3 inst k8s_Ready ConditionFalse k8s_CreateInProgress [] else inst)
            in reconcile_create env l3 (set_endpoint ingress inst1) (sp_Images sp)))))"

text \<open>The restore machine until \<open>Spec.Restore\<close> is removed, the resizing, and an instance that is ready.\<close>

definition reconcile_restore :: "inst_env \<Rightarrow> inst_log \<Rightarrow> Instance \<Rightarrow> StsParams \<Rightarrow> ctl_result option" where
  "reconcile_restore env l inst sp =
     (let rest = (\<lambda>inst l.
            case handleResize env l inst (inst_cond inst k8s_Ready) (inst_cond inst k8s_DatabaseInstanceReady) sp of
              (inst1, l1, _, Some err) \<Rightarrow> (inst1, l1, Result_zero, Some err)
            | (inst1, l1, res, None) \<Rightarrow>
                if \<not> Result_IsZero res then (inst1, l1, res, None)
                else if ConditionStatusEquals (inst_cond inst1 k8s_Ready) ConditionTrue \<and>
                        ConditionStatusEquals (inst_cond inst1 k8s_DatabaseInstanceReady) ConditionTrue
                then (let l2 = l1 @ [IReconcileMonitoring (sp_Images sp)] in
                      case ie_ReconcileMonitoring env l1 inst1 (sp_Images sp) of
                        (res, err) \<Rightarrow>
                          if err \<noteq> None \<or> RequeueAfter res > 0 then (inst1, l2, res, err)
                          else (case updateDatabaseIncarnationStatus env l2 inst1 of
                             (inst2, l3, err) \<Rightarrow> (inst2, l3, Result_zero, err)))
                else reconcile_objects env l1 inst1 sp)
      in if is_Restore (inst_Spec inst) = None then Some (rest inst l)
         else case restoreStateMachine env l (inst_cond inst k8s_Ready) (inst_cond inst k8s_DatabaseInstanceReady) inst sp (inst_Namespace inst) of
           None \<Rightarrow> None
         | Some (inst1, l1, res, Some err) \<Rightarrow> Some (inst1, l1, res, Some err)
         | Some (inst1, l1, res, None) \<Rightarrow>
             if \<not> Result_IsZero res then Some (inst1, l1, res, None) else Some (rest inst1 l1))"

text \<open>Config, images, config map and patching.\<close>

definition reconcile_config :: "inst_env \<Rightarrow> inst_log \<Rightarrow> Instance \<Rightarrow> ctl_result option" where
  "reconcile_config env l inst =
     (case load_config env l (inst_Namespace inst) of
        (l1, Inl err) \<Rightarrow> Some (inst, l1, Result_zero, Some err)
      | (l1, Inr config) \<Rightarrow>
      (case overrideDefaultImages config (CloneMap (ce_Images (ie_ctl env))) inst of
         (Some err, _) \<Rightarrow> Some (inst, l1, Result_zero, Some err)
       | (None, images) \<Rightarrow>
           (let cm = inst_Name inst @ ''-cm'' in
            case ie_SetControllerReference env inst cm of
              Some err \<Rightarrow> Some (inst, l1, Result_zero, Some err)
            | None \<Rightarrow>
                (let l2 = l1 @ [ICtl (CApplyConfigMap (inst_Namespace inst) cm)] in
                 case ce_ApplyConfigMap (ie_ctl env) l1 cm of
                   Some err \<Rightarrow> Some (inst, l2, Result_zero, Some err)
                 | None \<Rightarrow>
                     (let sp = StsParams_of inst images config in
                      case patching_round env l2 inst sp of
                        (inst1, l3, res, err, True) \<Rightarrow> Some (inst1, l3, res, err)
                      | (inst1, l3, _, _, False) \<Rightarrow> reconcile_restore env l3 inst1 sp)))))"

text \<open>Direct NFS.\<close>

definition reconcile_dnfs :: "inst_env \<Rightarrow> inst_log \<Rightarrow> Instance \<Rightarrow> ctl_result option" where
  "reconcile_dnfs env l inst =
     (let want = is_EnableDnfs (inst_Spec inst) in
      if ConditionStatusEquals (inst_cond inst k8s_Ready) ConditionTrue \<and>
         ConditionStatusEquals (inst_cond inst k8s_DatabaseInstanceReady) ConditionTrue \<and>
         want \<noteq> ist_DnfsEnabled (inst_Status inst)
      then (case setDnfs env l inst want of
              (l1, Some err) \<Rightarrow> Some (inst, l1, Result_zero, Some err)
            | (l1, None) \<Rightarrow> reconcile_config env l1 (set_dnfs_status want inst))
      else reconcile_config env l inst)"

text \<open>Pause mode, standby and parameters. The total disk space is only logged.\<close>

definition reconcile_active :: "inst_env \<Rightarrow> inst_log \<Rightarrow> Instance \<Rightarrow> ctl_result option" where
  "reconcile_active env l inst =
     (let ready = inst_cond inst k8s_Ready in
      if is_Mode (inst_Spec inst) = PauseInstanceMode \<and> ConditionReasonEquals ready k8s_CreateComplete \<and>
         inst_cond inst k8s_DatabaseInstanceReady \<noteq> None
      then (let l1 = l @ [ICtl (CPauseLock (inst_Namespace inst @ ''-'' @ inst_Name inst))] in
            Some (upsert env l1 inst k8s_Ready ConditionFalse k8s_PauseMode ''Instance switched to pause mode'', l1, Result_zero, None))
      else if ConditionReasonEquals ready k8s_StandbyDRInProgress \<and> isStandbyDR inst
      then map_option (\<lambda>(inst1, l1, res). (inst1, l1, res, None)) (standbyStateMachine env l inst)
      else case parameterUpdateStateMachine env l inst of
        None \<Rightarrow> None
      | Some (inst1, l1, res, Some err) \<Rightarrow> Some (seen_by_caller inst inst1, l1, res, Some err)
      | Some (inst1, l1, _, None) \<Rightarrow> reconcile_dnfs env l1 (seen_by_caller inst inst1))"

definition reconcile_finalizer :: "inst_env \<Rightarrow> inst_log \<Rightarrow> Instance \<Rightarrow> ctl_result option" where
  "reconcile_finalizer env l inst =
     (if FinalizerName \<notin> set (inst_Finalizers inst)
      then (let inst1 = inst\<lparr>inst_Finalizers := inst_Finalizers inst @ [FinalizerName]\<rparr>; l1 = l @ [IUpdate inst1] in
            case ie_Update env l inst1 of
              Inl err \<Rightarrow> Some (inst1, l1, Result_zero, Some err)
            | Inr inst2 \<Rightarrow> reconcile_active env l1 inst2)
      else reconcile_active env l inst)"

definition reconcile_body :: "inst_env \<Rightarrow> inst_log \<Rightarrow> Instance \<Rightarrow> ctl_result option" where
  "reconcile_body env l inst =
     (let stopped = ConditionReasonEquals (inst_cond inst k8s_Ready) k8s_InstanceStopped in
      if IsDeleting inst then (case reconcileInstanceDeletion env l of (l1, res, err) \<Rightarrow> Some (inst, l1, res, err))
      else if inst_IsStopped inst \<and> \<not> stopped then (case reconcileInstanceStop env l of (l1, res, err) \<Rightarrow> Some (inst, l1, res, err))
      else if \<not> inst_IsStopped inst \<and> stopped
      then reconcile_finalizer env l (upsert env l inst k8s_Ready ConditionFalse k8s_CreateInProgress ''Restarting Instance'')
      else reconcile_finalizer env l inst)"

text \<open>The deferred function writes the status at the end.\<close>

definition Reconcile_instance :: "inst_env \<Rightarrow> inst_log \<Rightarrow> (inst_log \<times> ctrl_Result \<times> go_error option) option" where
  "Reconcile_instance env l =
     (let l1 = l @ [ICtl CGetInstance] in
      case ce_GetInstance (ie_ctl env) l of
        Inl err \<Rightarrow> Some (l1, Result_zero, IgnoreNotFound err)
      | Inr inst \<Rightarrow>
          if validateSpec inst \<noteq> None then Some (l1, Result_zero, None)
          else case reconcile_body env l1 inst of
            None \<Rightarrow> None
          | Some (inst1, l2, res, err) \<Rightarrow>
              (let inst2 = updateIsChangeApplied inst1 in
               Some (l2 @ [IStatusUpdate inst2], res, if err = None then ie_StatusUpdate env l2 inst2 else err)))"

end
