(* ===== verification/StandbyLaws.thy ===== *)
theory StandbyLaws
  imports Standby
begin

text \<open>
  What the standby state machine guarantees over runs in which status updates are lost and the user changes
  the specification: a standby is promoted only after Data Guard was set up for its primary, and
  bootstrapped only after it was promoted; it ends; and where it does not.
\<close>

subsection \<open>Conditions of the machine\<close>

lemma inst_cond_upsert:
  "inst_cond (upsert env l inst name st r m) n =
     (if n = name then Some (upserted (ie_now env l) (inst_cond inst name) name st r m) else inst_cond inst n)"
  by (simp add: upsert_def InstanceUpsertCondition_def FindCondition_Upsert)

lemma current_upsert [simp]:
  "ist_CurrentReplicationSettings (inst_Status (upsert env l inst name st r m)) = ist_CurrentReplicationSettings (inst_Status inst)"
  "ist_DataGuardOutput (inst_Status (upsert env l inst name st r m)) = ist_DataGuardOutput (inst_Status inst)"
  by (simp_all add: upsert_def InstanceUpsertCondition_def)

lemma standby_state_upsert [simp]:
  "standby_state (upsert env l inst name st r m) = (if name = k8s_StandbyDRReady then r else standby_state inst)"
  by (simp add: standby_state_def inst_cond_upsert)

lemma status_simps [simp]:
  "standby_state (updateStandbyDataReplicationStatus env l inst cs next msg es) = next"
  "ist_CurrentReplicationSettings (inst_Status (updateStandbyDataReplicationStatus env l inst cs next msg es)) =
     ist_CurrentReplicationSettings (inst_Status inst)"
  "inst_Spec (updateStandbyDataReplicationStatus env l inst cs next msg es) = inst_Spec inst"
  "ist_DataGuardOutput (inst_Status (updateStandbyDataReplicationStatus env l inst cs next msg es)) = ist_DataGuardOutput (inst_Status inst)"
  by (simp_all add: updateStandbyDataReplicationStatus_def)

lemma setter_simps [simp]:
  "standby_state (set_replication s inst) = standby_state inst"
  "standby_state (set_data_guard d inst) = standby_state inst"
  "ist_CurrentReplicationSettings (inst_Status (set_replication s inst)) = s"
  "ist_CurrentReplicationSettings (inst_Status (set_data_guard d inst)) = ist_CurrentReplicationSettings (inst_Status inst)"
  "ist_DataGuardOutput (inst_Status (set_replication s inst)) = ist_DataGuardOutput (inst_Status inst)"
  "ist_DataGuardOutput (inst_Status (set_data_guard d inst)) = d"
  "inst_Spec (set_replication s inst) = inst_Spec inst"
  "inst_Spec (set_data_guard d inst) = inst_Spec inst"
  by (simp_all add: set_replication_def set_data_guard_def standby_state_def)

lemma standby_finish_simps [simp]:
  "standby_state (standby_finish env l inst) = k8s_StandbyDRBootstrapCompleted"
  "ist_CurrentReplicationSettings (inst_Status (standby_finish env l inst)) = ist_CurrentReplicationSettings (inst_Status inst)"
  "inst_Spec (standby_finish env l inst) = inst_Spec inst"
  by (simp_all add: standby_finish_def)

subsection \<open>The order of the calls\<close>

text \<open>A predicate of each call and the log before it, along the calls that follow a log.\<close>

fun calls_ok :: "(inst_log \<Rightarrow> inst_call \<Rightarrow> bool) \<Rightarrow> inst_log \<Rightarrow> inst_log \<Rightarrow> bool" where
  "calls_ok P l [] = True"
| "calls_ok P l (c # cs) = (P l c \<and> calls_ok P (l @ [c]) cs)"

lemma calls_ok_append [simp]: "calls_ok P l (cs @ ds) = (calls_ok P l cs \<and> calls_ok P (l @ cs) ds)"
  by (induction cs arbitrary: l) auto

lemma calls_ok_at: "calls_ok P l (cs @ c # ds) \<Longrightarrow> P (l @ cs) c"
  by simp

definition set_up_done :: "inst_env \<Rightarrow> inst_log \<Rightarrow> ReplicationSettings \<Rightarrow> bool" where
  "set_up_done env l s \<longleftrightarrow>
     (\<exists>l1 l2 u h. l = l1 @ ICtl (CSetUpDataGuard s u h) # l2 \<and> ce_SetUpDataGuard (ie_ctl env) l1 s h = None)"

definition promoted :: "inst_env \<Rightarrow> inst_log \<Rightarrow> bool" where
  "promoted env l \<longleftrightarrow>
     (\<exists>l1 l2 s u h. l = l1 @ ICtl (CPromoteStandby s u h) # l2 \<and> ce_PromoteStandby (ie_ctl env) l1 s h = None \<and> set_up_done env l1 s)"

lemma set_up_done_append: "set_up_done env l s \<Longrightarrow> set_up_done env (l @ cs) s"
  unfolding set_up_done_def by fastforce

lemma promoted_append: "promoted env l \<Longrightarrow> promoted env (l @ cs)"
  unfolding promoted_def by fastforce

fun in_order :: "inst_env \<Rightarrow> inst_log \<Rightarrow> inst_call \<Rightarrow> bool" where
  "in_order env l (ICtl (CPromoteStandby s u h)) = set_up_done env l s"
| "in_order env l (ICtl (CBootstrapStandby c v d)) = promoted env l"
| "in_order env l c = True"

fun plain_standby_call :: "inst_call \<Rightarrow> bool" where
  "plain_standby_call (ICtl (CPromoteStandby s u h)) = False"
| "plain_standby_call (ICtl (CBootstrapStandby c v d)) = False"
| "plain_standby_call c = True"

lemma in_order_plain: "plain_standby_call c \<Longrightarrow> in_order env l c"
  by (cases "(env, l, c)" rule: in_order.cases) simp_all

lemma calls_ok_plain: "\<forall>c \<in> set cs. plain_standby_call c \<Longrightarrow> calls_ok (in_order env) l cs"
  by (induction cs arbitrary: l) (simp_all add: in_order_plain)

text \<open>What is known in each state.\<close>

definition standby_knows :: "inst_env \<Rightarrow> Instance \<Rightarrow> inst_log \<Rightarrow> bool" where
  "standby_knows env inst l \<longleftrightarrow>
     (standby_state inst \<in> {k8s_StandbyDRSetUpDataGuardCompleted, k8s_StandbyDRDataGuardReplicationInProgress, k8s_StandbyDRPromoteFailed} \<longrightarrow>
        (\<exists>s. ist_CurrentReplicationSettings (inst_Status inst) = Some s \<and> set_up_done env l s)) \<and>
     (standby_state inst \<in> {k8s_StandbyDRPromoteCompleted, k8s_StandbyDRBootstrapFailed} \<longrightarrow> promoted env l)"

lemma standby_knows_append: "standby_knows env inst l \<Longrightarrow> standby_knows env inst (l @ cs)"
  unfolding standby_knows_def using set_up_done_append promoted_append by meson

text \<open>What a round does: calls in order, and the next state knows what it must.\<close>

definition good_round :: "inst_env \<Rightarrow> inst_log \<Rightarrow> standby_result \<Rightarrow> bool" where
  "good_round env l = (\<lambda>(inst', l', r). \<exists>cs. l' = l @ cs \<and> calls_ok (in_order env) l cs \<and> standby_knows env inst' l')"

lemma good_roundI:
  "l' = l @ cs \<Longrightarrow> calls_ok (in_order env) l cs \<Longrightarrow> standby_knows env inst' l' \<Longrightarrow> good_round env l (inst', l', r)"
  by (auto simp: good_round_def)

lemma verify_good: "good_round env l (standby_verify env l inst)"
proof -
  obtain l1 x where v: "verifySettings env l inst = (l1, x)" by (rule prod.exhaust)
  then have l1: "\<exists>cs. l1 = l @ cs \<and> (\<forall>c \<in> set cs. plain_standby_call c)"
    by (auto simp: verifySettings_def Let_def split: if_splits option.splits sum.splits)
  then obtain cs where "l1 = l @ cs" "calls_ok (in_order env) l cs" using calls_ok_plain by blast
  with v show ?thesis
    by (cases x) (auto simp: standby_verify_def Let_def standby_knows_def intro!: good_roundI)
qed

lemma create_good: "good_round env l (standby_create env l inst)"
  by (auto simp: standby_create_def Let_def standby_knows_def intro!: good_roundI split: option.split sum.split)

lemma host_calls:
  assumes "getStandbyHost env l inst = (l1, x)"
  shows "\<exists>ns n. l1 = l @ [IGetService ns n]"
  using assms by (auto simp: getStandbyHost_def Let_def)

lemma data_guard_calls:
  assumes "reconcileDataGuard env l inst = Some (inst', l', e)"
  shows "\<exists>cs. l' = l @ cs \<and> calls_ok (in_order env) l cs \<and> standby_state inst' = standby_state inst \<and>
    (e = None \<longrightarrow> (\<exists>s. ist_CurrentReplicationSettings (inst_Status inst') = Some s \<and> set_up_done env l' s)) \<and>
    (e \<noteq> None \<longrightarrow> ist_CurrentReplicationSettings (inst_Status inst') = ist_CurrentReplicationSettings (inst_Status inst))"
proof -
  obtain l1 x where h: "getStandbyHost env l inst = (l1, x)" by (rule prod.exhaust)
  from host_calls [OF h] obtain ns n where l1: "l1 = l @ [IGetService ns n]" by blast
  show ?thesis
  proof (cases x)
    case (Inl a)
    with assms h l1 show ?thesis by (auto simp: reconcileDataGuard_def)
  next
    case (Inr host)
    from assms h Inr obtain s where s: "is_ReplicationSettings (inst_Spec inst) = Some s"
      by (auto simp: reconcileDataGuard_def split: option.splits)
    show ?thesis
    proof (cases "toCredentialReq s")
      case (Inl a)
      with assms h Inr s l1 show ?thesis by (auto simp: reconcileDataGuard_def)
    next
      case c: (Inr b)
      let ?call = "ICtl (CSetUpDataGuard s (is_DBUniqueName (inst_Spec inst)) host)"
      have l': "l' = l @ [IGetService ns n, ?call]"
        using assms h Inr s c l1 by (auto simp: reconcileDataGuard_def Let_def split: option.splits)
      have "ce_SetUpDataGuard (ie_ctl env) l1 s host = None \<Longrightarrow> set_up_done env l' s"
        unfolding set_up_done_def l' l1 by (metis append_Cons append_Nil append_assoc)
      with assms h Inr s c l' show ?thesis by (auto simp: reconcileDataGuard_def Let_def split: option.splits)
    qed
  qed
qed

lemma set_up_good:
  assumes "standby_set_up env l inst state = Some r" "state \<in> {k8s_StandbyDRCreateCompleted, k8s_StandbyDRSetUpDataGuardFailed}"
  shows "good_round env l r"
proof (cases "is_ReplicationSettings (inst_Spec inst)")
  case None
  with assms show ?thesis by (auto simp: standby_set_up_def Let_def standby_knows_def intro!: good_roundI)
next
  case (Some s)
  then obtain inst1 l1 e where d: "reconcileDataGuard env l (set_replication (Some s) inst) = Some (inst1, l1, e)"
    using assms(1) by (auto simp: standby_set_up_def Let_def split: option.splits)
  from data_guard_calls [OF d] obtain cs where cs: "l1 = l @ cs" "calls_ok (in_order env) l cs" 
    "e = None \<longrightarrow> (\<exists>s. ist_CurrentReplicationSettings (inst_Status inst1) = Some s \<and> set_up_done env l1 s)" by blast
  show ?thesis
  proof (cases e)
    case None
    with assms(1) Some d have "r = (updateStandbyDataReplicationStatus env l1 inst1 ConditionFalse k8s_StandbyDRSetUpDataGuardCompleted
        ''set up Data Guard completed'' [], l1, requeue_now)"
      by (simp add: standby_set_up_def)
    with None cs show ?thesis by (auto simp: standby_knows_def intro!: good_roundI)
  next
    case (Some x)
    with assms(1) \<open>is_ReplicationSettings (inst_Spec inst) = Some s\<close> d
    have "r = (updateStandbyDataReplicationStatus env l1 inst1 ConditionFalse k8s_StandbyDRSetUpDataGuardFailed
        ''set up Data Guard failed'' [internalErrToMsg x], l1, requeue_in standbyErrorRetryInterval)"
      by (simp add: standby_set_up_def)
    with cs show ?thesis by (auto simp: standby_knows_def intro!: good_roundI)
  qed
qed

lemma promote_good:
  assumes "ist_CurrentReplicationSettings (inst_Status inst) = Some s" "set_up_done env l s"
  shows "good_round env l (standby_promote env l inst again)"
proof -
  obtain l1 x where h: "getStandbyHost env l inst = (l1, x)" by (rule prod.exhaust)
  from host_calls [OF h] obtain ns n where l1: "l1 = l @ [IGetService ns n]" by blast
  have up: "set_up_done env l1 s" "set_up_done env (l1 @ cs) s" for cs
    using assms(2) set_up_done_append unfolding l1 by blast+
  obtain l2 e where p: "reconcilePromoteStandby env l inst = (l2, e)" by (rule prod.exhaust)
  have k: "\<exists>cs. l2 = l @ cs \<and> calls_ok (in_order env) l cs \<and> set_up_done env l2 s \<and> (e = None \<longrightarrow> promoted env l2)"
  proof (cases x)
    case (Inl a)
    with p h assms(1) l1 up show ?thesis by (auto simp: reconcilePromoteStandby_def)
  next
    case (Inr host)
    show ?thesis
    proof (cases "toCredentialReq s")
      case (Inl a)
      with p h assms(1) l1 up Inr show ?thesis by (auto simp: reconcilePromoteStandby_def)
    next
      case c: (Inr b)
      let ?call = "ICtl (CPromoteStandby s (is_DBUniqueName (inst_Spec inst)) host)"
      have l2: "l2 = l1 @ [?call]" and e: "e = ce_PromoteStandby (ie_ctl env) l1 s host"
        using p h assms(1) Inr c by (auto simp: reconcilePromoteStandby_def)
      have "promoted env l2" if "e = None"
        unfolding promoted_def l2
        by (intro exI [of _ l1] exI [of _ "[]"] exI [of _ s] exI [of _ "is_DBUniqueName (inst_Spec inst)"] exI [of _ host])
           (use that e up(1) in simp)
      moreover have "calls_ok (in_order env) l [IGetService ns n, ?call]" using up(1) l1 by simp
      ultimately show ?thesis using l1 l2 up by (intro exI [of _ "[IGetService ns n, ?call]"]) simp
    qed
  qed
  then obtain cs where cs: "l2 = l @ cs" "calls_ok (in_order env) l cs" "set_up_done env l2 s" "e = None \<longrightarrow> promoted env l2" by blast
  with p assms(1) show ?thesis
    by (cases e) (auto simp: standby_promote_def standby_knows_def intro!: good_roundI)
qed

lemma data_guard_status_calls:
  assumes "updateDataGuardStatus env l inst i = (inst', l')"
  shows "\<exists>cs. l' = l @ cs \<and> calls_ok (in_order env) l cs \<and> standby_state inst' = standby_state inst \<and>
    ist_CurrentReplicationSettings (inst_Status inst') = ist_CurrentReplicationSettings (inst_Status inst)"
  using assms by (auto simp: updateDataGuardStatus_def Let_def split: option.splits if_splits)

lemma replicate_good:
  assumes "standby_replicate env l inst = Some r" "ist_CurrentReplicationSettings (inst_Status inst) = Some s" "set_up_done env l s"
  shows "good_round env l r"
proof (cases "is_ReplicationSettings (inst_Spec inst) = None")
  case True
  with assms promote_good show ?thesis by (auto simp: standby_replicate_def)
next
  case False
  then obtain inst1 l1 e where d: "reconcileDataGuard env l inst = Some (inst1, l1, e)"
    using assms(1) by (auto simp: standby_replicate_def Let_def split: option.splits)
  from data_guard_calls [OF d] obtain cs where cs: "l1 = l @ cs" "calls_ok (in_order env) l cs"
    "e = None \<longrightarrow> (\<exists>s. ist_CurrentReplicationSettings (inst_Status inst1) = Some s \<and> set_up_done env l1 s)"
    "e \<noteq> None \<longrightarrow> ist_CurrentReplicationSettings (inst_Status inst1) = Some s" using assms(2) by auto
  then obtain s1 where s1: "ist_CurrentReplicationSettings (inst_Status inst1) = Some s1" "set_up_done env l1 s1"
    using assms(3) set_up_done_append by (cases e) auto
  obtain msg es i inst2 l2 where u: "updateDataGuardStatus env l1 (updateStandbyDataReplicationStatus env l1 inst1 ConditionFalse
      k8s_StandbyDRDataGuardReplicationInProgress msg es) i = (inst2, l2)" "r = (inst2, l2, requeue_in i)"
    using assms(1) False d by (cases e) (auto simp: standby_replicate_def Let_def split: prod.splits)
  from data_guard_status_calls [OF u(1)] obtain ds where ds: "l2 = l1 @ ds" "calls_ok (in_order env) l1 ds"
    "standby_state inst2 = k8s_StandbyDRDataGuardReplicationInProgress" "ist_CurrentReplicationSettings (inst_Status inst2) = Some s1"
    using s1 by auto
  with s1 set_up_done_append have "standby_knows env inst2 l2" by (auto simp: standby_knows_def)
  with ds cs u(2) show ?thesis by (auto intro!: good_roundI)
qed

lemma create_databases_calls:
  "create_databases env l inst pdbs = (l', e) \<Longrightarrow> \<exists>cs. l' = l @ cs \<and> calls_ok (in_order env) l cs"
proof (induction pdbs arbitrary: l)
  case (Cons pdb pdbs)
  let ?c = "ICtl (CCreateDatabase (inst_Namespace inst) (inst_Name inst) pdb)"
  let ?d = "ICtl (CApplyDatabase (inst_Namespace inst) (inst_Name inst) pdb)"
  from Cons.prems consider "create_databases env (l @ [?c]) inst pdbs = (l', e)"
    | "create_databases env (l @ [?c, ?d]) inst pdbs = (l', e)" | "l' = l @ [?c]" | "l' = l @ [?c, ?d]"
    by (auto simp: Let_def split: option.splits if_splits)
  then show ?case
  proof cases
    case 1
    from Cons.IH [OF 1] obtain cs where "l' = l @ (?c # cs)" "calls_ok (in_order env) l (?c # cs)" by auto
    then show ?thesis by blast
  next
    case 2
    from Cons.IH [OF 2] obtain cs where "l' = l @ (?c # ?d # cs)" "calls_ok (in_order env) l (?c # ?d # cs)" by auto
    then show ?thesis by blast
  qed auto
qed simp

lemma bootstrap_good:
  assumes "promoted env l"
  shows "good_round env l (standby_bootstrap env l inst)"
proof -
  let ?inst = "set_data_guard None (set_replication None inst)"
  obtain l1 e where b: "bootstrapStandby env l ?inst = (l1, e)" by (rule prod.exhaust)
  let ?c = "ICtl (CBootstrapStandby (is_CDBName (inst_Spec ?inst)) (is_Version (inst_Spec ?inst)) (GetDBDomain ?inst))"
  have "\<exists>cs. l1 = l @ cs \<and> calls_ok (in_order env) l cs"
  proof (cases "ce_BootstrapStandby (ie_ctl env) l")
    case (Inl a)
    with b assms show ?thesis by (auto simp: bootstrapStandby_def Let_def)
  next
    case (Inr pdbs)
    with b have "create_databases env (l @ [?c]) ?inst pdbs = (l1, e)" by (simp add: bootstrapStandby_def Let_def)
    from create_databases_calls [OF this] obtain cs where "l1 = l @ (?c # cs)" "calls_ok (in_order env) l (?c # cs)"
      using assms by auto
    then show ?thesis by blast
  qed
  with b assms promoted_append show ?thesis
    by (cases e) (auto simp: standby_bootstrap_def Let_def standby_knows_def intro!: good_roundI)
qed

lemma standby_round_good:
  assumes "standbyStateMachine env l inst = Some r" "standby_knows env inst l"
  shows "good_round env l r"
proof -
  have stay: "good_round env l (inst, l, x)" for x
    using assms(2) by (auto intro!: good_roundI [where cs = "[]"])
  have to: "good_round env l (i, l, x)" if "standby_state i \<in> {k8s_StandbyDRCreateInProgress, k8s_StandbyDRBootstrapCompleted}" for i x
    using that by (auto simp: standby_knows_def intro!: good_roundI [where cs = "[]"])
  have rep: "good_round env l (updateStandbyDataReplicationStatus env l inst cs k8s_StandbyDRDataGuardReplicationInProgress m es, l, x)"
    if "standby_state inst = k8s_StandbyDRSetUpDataGuardCompleted" for cs m es x
    using that assms(2) by (auto simp: standby_knows_def intro!: good_roundI [where cs = "[]"])
  have ex: "\<exists>s. ist_CurrentReplicationSettings (inst_Status inst) = Some s \<and> set_up_done env l s"
    if "standby_state inst \<in> {k8s_StandbyDRDataGuardReplicationInProgress, k8s_StandbyDRPromoteFailed}"
    using that assms(2) by (auto simp: standby_knows_def)
  have pr: "promoted env l" if "standby_state inst \<in> {k8s_StandbyDRPromoteCompleted, k8s_StandbyDRBootstrapFailed}"
    using that assms(2) by (auto simp: standby_knows_def)
  consider "standby_state inst = k8s_StandbyDRVerifyFailed" | "standby_state inst = k8s_StandbyDRVerifyCompleted"
    | "standby_state inst = k8s_StandbyDRCreateInProgress"
    | "standby_state inst \<in> {k8s_StandbyDRCreateCompleted, k8s_StandbyDRSetUpDataGuardFailed}"
    | "standby_state inst = k8s_StandbyDRSetUpDataGuardCompleted" | "standby_state inst = k8s_StandbyDRDataGuardReplicationInProgress"
    | "standby_state inst = k8s_StandbyDRPromoteFailed"
    | "standby_state inst \<in> {k8s_StandbyDRPromoteCompleted, k8s_StandbyDRBootstrapFailed}"
    | "standby_state inst = k8s_StandbyDRBootstrapCompleted"
    | "standby_state inst \<notin> {k8s_StandbyDRVerifyFailed, k8s_StandbyDRVerifyCompleted, k8s_StandbyDRCreateInProgress,
         k8s_StandbyDRCreateCompleted, k8s_StandbyDRSetUpDataGuardFailed, k8s_StandbyDRSetUpDataGuardCompleted,
         k8s_StandbyDRDataGuardReplicationInProgress, k8s_StandbyDRPromoteFailed, k8s_StandbyDRPromoteCompleted,
         k8s_StandbyDRBootstrapFailed, k8s_StandbyDRBootstrapCompleted}"
    by blast
  then show ?thesis
  proof cases
    case 1
    with assms(1) verify_good show ?thesis by (auto simp: standbyStateMachine_def)
  next
    case 2
    with assms(1) show ?thesis by (auto simp: standbyStateMachine_def intro: to)
  next
    case 3
    with assms(1) create_good show ?thesis by (auto simp: standbyStateMachine_def)
  next
    case 4
    then have "standby_set_up env l inst (standby_state inst) = Some r" using assms(1) by (auto simp: standbyStateMachine_def)
    from set_up_good [OF this 4] show ?thesis .
  next
    case 5
    with assms(1) rep show ?thesis by (auto simp: standbyStateMachine_def)
  next
    case 6
    with assms(1) have "standby_replicate env l inst = Some r" by (simp add: standbyStateMachine_def)
    with ex 6 replicate_good show ?thesis by blast
  next
    case 7
    with assms(1) have "r = standby_promote env l inst (requeue_in standbyErrorRetryInterval)" by (simp add: standbyStateMachine_def)
    with ex 7 promote_good show ?thesis by blast
  next
    case 8
    with assms(1) have "r = standby_bootstrap env l inst" by (auto simp: standbyStateMachine_def)
    with pr 8 bootstrap_good show ?thesis by blast
  next
    case 9
    with assms(1) show ?thesis by (auto simp: standbyStateMachine_def intro: to)
  next
    case 10
    then have "r = (inst, l, Result_zero)" using assms(1)
      by (cases "standby_state inst = k8s_StandbyDRCreateFailed") (simp_all add: standbyStateMachine_def Let_def)
    with stay show ?thesis by simp
  qed
qed

subsection \<open>Runs\<close>

text \<open>
  A round that is written, one whose status update is lost, and everything else: the user and other parts of the
  operator may change the instance except the two fields of the machine, and calls of other kinds are made.
\<close>

inductive standby_step :: "inst_env \<Rightarrow> Instance \<times> inst_log \<Rightarrow> Instance \<times> inst_log \<Rightarrow> bool" for env where
  round: "standbyStateMachine env l inst = Some (inst', l', r) \<Longrightarrow> standby_step env (inst, l) (inst', l')"
| lost: "standbyStateMachine env l inst = Some (inst', l', r) \<Longrightarrow> standby_step env (inst, l) (inst, l')"
| other: "standby_state inst' = standby_state inst \<Longrightarrow>
    ist_CurrentReplicationSettings (inst_Status inst') = ist_CurrentReplicationSettings (inst_Status inst) \<Longrightarrow>
    \<forall>c \<in> set cs. plain_standby_call c \<Longrightarrow> standby_step env (inst, l) (inst', l @ cs)"

lemma standby_steps_ok:
  assumes "(standby_step env)\<^sup>*\<^sup>* (inst0, l0) s" and "inst_cond inst0 k8s_StandbyDRReady = None" and "\<forall>c \<in> set l0. plain_standby_call c"
  shows "standby_knows env (fst s) (snd s) \<and> calls_ok (in_order env) [] (snd s)"
  using assms(1)
proof (induction rule: rtranclp_induct)
  case base
  then show ?case using assms(2,3) by (simp add: standby_knows_def standby_state_def calls_ok_plain)
next
  case (step s t)
  obtain inst l where s: "s = (inst, l)" by (rule prod.exhaust)
  from step.IH s have k: "standby_knows env inst l" "calls_ok (in_order env) [] l" by simp_all
  from step.hyps(2) show ?case
  proof (cases rule: standby_step.cases)
    case (round l1 inst1 inst' l' r)
    with s standby_round_good [OF _ k(1)] k(2) show ?thesis by (fastforce simp: good_round_def)
  next
    case (lost l1 inst1 inst' l' r)
    with s standby_round_good [OF _ k(1)] k standby_knows_append [OF k(1)] show ?thesis by (fastforce simp: good_round_def)
  next
    case (other inst' inst1 cs l1)
    with s k standby_knows_append [OF k(1), of cs] calls_ok_plain show ?thesis by (auto simp: standby_knows_def)
  qed
qed

text \<open>
  C29: a standby is promoted and opened in order. Over every run, with lost status updates and changes of the
  specification, Data Guard was set up successfully for a primary before the standby is promoted from it, and
  the standby is bootstrapped only after a promotion that succeeded.
\<close>

theorem standby_promoted_in_order:
  assumes "(standby_step env)\<^sup>*\<^sup>* (inst0, l0) (inst, l)" and "inst_cond inst0 k8s_StandbyDRReady = None" and "\<forall>c \<in> set l0. plain_standby_call c"
  shows "(\<forall>l1 s u h l2. l = l1 @ ICtl (CPromoteStandby s u h) # l2 \<longrightarrow> set_up_done env l1 s) \<and>
    (\<forall>l1 c v d l2. l = l1 @ ICtl (CBootstrapStandby c v d) # l2 \<longrightarrow> promoted env l1)"
proof -
  have ok: "calls_ok (in_order env) [] l" using standby_steps_ok [OF assms] by simp
  have "in_order env l1 c" if "l = l1 @ c # l2" for l1 c l2
    using ok calls_ok_at [of "in_order env" "[]" l1 c l2] unfolding that by simp
  from this [of _ "ICtl (CPromoteStandby _ _ _)"] this [of _ "ICtl (CBootstrapStandby _ _ _)"] show ?thesis by auto
qed

subsection \<open>Completion\<close>

fun standby_rounds :: "inst_env \<Rightarrow> nat \<Rightarrow> Instance \<times> inst_log \<Rightarrow> (Instance \<times> inst_log) option" where
  "standby_rounds env 0 s = Some s"
| "standby_rounds env (Suc n) (inst, l) =
     (case standbyStateMachine env l inst of
        None \<Rightarrow> None
      | Some (inst', l', _) \<Rightarrow> standby_rounds env n (inst', l'))"

text \<open>Calls that succeed.\<close>

definition standby_calls_succeed :: "inst_env \<Rightarrow> bool" where
  "standby_calls_succeed env \<longleftrightarrow>
     (\<forall>l s. ce_VerifyStandby (ie_ctl env) l s = Inr []) \<and>
     (\<forall>l s i. \<exists>op. ce_CreateStandby (ie_ctl env) l s i = Inr op \<and> op_Done op \<and> op_error op = None) \<and>
     (\<forall>l ns n. \<exists>h hs. ie_GetService env l ns n = Inr (h # hs) \<and> h \<noteq> []) \<and>
     (\<forall>l s h. ce_SetUpDataGuard (ie_ctl env) l s h = None) \<and> (\<forall>l s h. ce_PromoteStandby (ie_ctl env) l s h = None) \<and>
     (\<forall>l. \<exists>pdbs. ce_BootstrapStandby (ie_ctl env) l = Inr pdbs) \<and> (\<forall>l pdb. ce_CreateDatabase (ie_ctl env) l pdb = None)"

definition valid_standby_spec :: "InstanceSpec \<Rightarrow> ReplicationSettings \<Rightarrow> bool" where
  "valid_standby_spec spec s \<longleftrightarrow>
     is_DBUniqueName spec \<noteq> [] \<and> is_CDBName spec \<noteq> [] \<and> map_get (is_Images spec) ''service'' \<noteq> [] \<and>
     is_ReplicationSettings spec = Some s \<and> rep_GsmSecretRef s \<noteq> None \<and> rep_PrimaryUser s = ''sys''"

definition without_replication :: "Instance \<Rightarrow> Instance" where
  "without_replication inst = inst\<lparr>inst_Spec := (inst_Spec inst)\<lparr>is_ReplicationSettings := None\<rparr>\<rparr>"

lemma credential: "rep_GsmSecretRef s \<noteq> None \<Longrightarrow> \<exists>r. toCredentialReq s = Inr r"
  by (auto simp: toCredentialReq_def)

lemma valid_credential: "valid_standby_spec spec s \<Longrightarrow> \<exists>r. toCredentialReq s = Inr r"
  by (rule credential) (simp add: valid_standby_spec_def)

lemma host_found:
  assumes "standby_calls_succeed env"
  shows "\<exists>h. getStandbyHost env l inst = (l @ [IGetService (inst_Namespace inst) (inst_Name inst @ ''-svc'')], Inr h)"
proof -
  from assms obtain h hs where "ie_GetService env l (inst_Namespace inst) (inst_Name inst @ ''-svc'') = Inr (h # hs)" "h \<noteq> []"
    unfolding standby_calls_succeed_def by meson
  then show ?thesis by (simp add: getStandbyHost_def Let_def)
qed

lemma round_verify:
  assumes "standby_calls_succeed env" "valid_standby_spec (inst_Spec inst) s" "standby_state inst = k8s_StandbyDRVerifyFailed"
  shows "\<exists>inst' l' r. standbyStateMachine env l inst = Some (inst', l', r) \<and> standby_state inst' = k8s_StandbyDRVerifyCompleted \<and>
    inst_Spec inst' = inst_Spec inst"
proof -
  from valid_credential [OF assms(2)] obtain r where "toCredentialReq s = Inr r" by blast
  then have "\<exists>l1. verifySettings env l inst = (l1, Inr [])"
    using assms(1,2) by (auto simp: verifySettings_def valid_standby_spec_def standby_calls_succeed_def Let_def)
  then show ?thesis using assms(3) by (auto simp: standbyStateMachine_def standby_verify_def)
qed

lemma round_create:
  assumes "standby_calls_succeed env" "valid_standby_spec (inst_Spec inst) s" "standby_state inst = k8s_StandbyDRCreateInProgress"
  shows "\<exists>inst' l' r. standbyStateMachine env l inst = Some (inst', l', r) \<and> standby_state inst' = k8s_StandbyDRCreateCompleted \<and>
    inst_Spec inst' = inst_Spec inst"
proof -
  from valid_credential [OF assms(2)] obtain r where c: "toCredentialReq s = Inr r" by blast
  have s: "is_ReplicationSettings (inst_Spec inst) = Some s" using assms(2) by (simp add: valid_standby_spec_def)
  obtain op where op: "ce_CreateStandby (ie_ctl env) l s (lroOperationID createStandby (set_replication (Some s) inst)) = Inr op"
    "op_Done op" "op_error op = None"
    using assms(1) unfolding standby_calls_succeed_def by meson
  show ?thesis using assms(3) s c op by (simp add: standbyStateMachine_def standby_create_def Let_def)
qed

lemma data_guard_succeeds:
  assumes "standby_calls_succeed env" "is_ReplicationSettings (inst_Spec inst) = Some s" "rep_GsmSecretRef s \<noteq> None"
  shows "\<exists>l'. reconcileDataGuard env l inst = Some (set_replication (Some s) inst, l', None)"
proof -
  from credential [OF assms(3)] host_found [OF assms(1), of l inst] obtain r h where
    "toCredentialReq s = Inr r" "getStandbyHost env l inst = (l @ [IGetService (inst_Namespace inst) (inst_Name inst @ ''-svc'')], Inr h)"
    by blast
  with assms show ?thesis by (simp add: reconcileDataGuard_def standby_calls_succeed_def)
qed

lemma round_set_up:
  assumes "standby_calls_succeed env" "valid_standby_spec (inst_Spec inst) s" "standby_state inst = k8s_StandbyDRCreateCompleted"
  shows "\<exists>inst' l' r. standbyStateMachine env l inst = Some (inst', l', r) \<and> standby_state inst' = k8s_StandbyDRSetUpDataGuardCompleted \<and>
    inst_Spec inst' = inst_Spec inst \<and> ist_CurrentReplicationSettings (inst_Status inst') = Some s"
proof -
  have s: "is_ReplicationSettings (inst_Spec inst) = Some s" "rep_GsmSecretRef s \<noteq> None"
    using assms(2) by (simp_all add: valid_standby_spec_def)
  with data_guard_succeeds [OF assms(1), of "set_replication (Some s) inst" s l] obtain l' where
    "reconcileDataGuard env l (set_replication (Some s) inst) = Some (set_replication (Some s) (set_replication (Some s) inst), l', None)"
    by auto
  with assms(3) s show ?thesis by (simp add: standbyStateMachine_def standby_set_up_def)
qed

lemma create_databases_succeed:
  "standby_calls_succeed env \<Longrightarrow> \<exists>l'. create_databases env l inst pdbs = (l', None)"
  by (induction pdbs arbitrary: l) (auto simp: standby_calls_succeed_def Let_def)

text \<open>Seven rounds, with the removal of the settings between the fifth and the sixth.\<close>

lemma standby_seven_rounds:
  assumes "standby_calls_succeed env" and "valid_standby_spec (inst_Spec inst) s" and "inst_cond inst k8s_StandbyDRReady = None"
  shows "\<exists>inst5 l5. standby_rounds env 5 (inst, l) = Some (inst5, l5) \<and>
    standby_state inst5 = k8s_StandbyDRDataGuardReplicationInProgress \<and>
    (\<exists>inst7 l7. standby_rounds env 2 (without_replication inst5, l5) = Some (inst7, l7) \<and>
       (\<exists>u h. ICtl (CPromoteStandby s u h) \<in> set l7) \<and> standby_state inst7 = k8s_StandbyDRBootstrapCompleted \<and>
       ConditionStatusEquals (inst_cond inst7 k8s_Ready) ConditionTrue \<and>
       ConditionStatusEquals (inst_cond inst7 k8s_DatabaseInstanceReady) ConditionTrue)"
proof -
  have "standby_state inst = k8s_StandbyDRVerifyFailed" using assms(3) by (simp add: standby_state_def)
  from round_verify [OF assms(1,2) this, of l] obtain i1 l1 r1 where 1: "standbyStateMachine env l inst = Some (i1, l1, r1)"
    "standby_state i1 = k8s_StandbyDRVerifyCompleted" "inst_Spec i1 = inst_Spec inst" by blast
  obtain i2 l2 r2 where 2: "standbyStateMachine env l1 i1 = Some (i2, l2, r2)" "standby_state i2 = k8s_StandbyDRCreateInProgress"
    "inst_Spec i2 = inst_Spec inst"
    using 1(2,3) by (simp add: standbyStateMachine_def)
  from round_create [OF assms(1) _ 2(2), of s l2] assms(2) 2(3) obtain i3 l3 r3 where
    3: "standbyStateMachine env l2 i2 = Some (i3, l3, r3)" "standby_state i3 = k8s_StandbyDRCreateCompleted" "inst_Spec i3 = inst_Spec inst"
    by auto
  from round_set_up [OF assms(1) _ 3(2), of s l3] assms(2) 3(3) obtain i4 l4 r4 where
    4: "standbyStateMachine env l3 i3 = Some (i4, l4, r4)" "standby_state i4 = k8s_StandbyDRSetUpDataGuardCompleted"
    "inst_Spec i4 = inst_Spec inst" "ist_CurrentReplicationSettings (inst_Status i4) = Some s"
    by auto
  obtain i5 l5 r5 where 5: "standbyStateMachine env l4 i4 = Some (i5, l5, r5)"
    "standby_state i5 = k8s_StandbyDRDataGuardReplicationInProgress" "ist_CurrentReplicationSettings (inst_Status i5) = Some s"
    using 4(2,4) by (simp add: standbyStateMachine_def)
  let ?i = "without_replication i5"
  from valid_credential [OF assms(2)] obtain r where c: "toCredentialReq s = Inr r" by blast
  from host_found [OF assms(1), of l5 ?i] obtain h where h: "getStandbyHost env l5 ?i =
    (l5 @ [IGetService (inst_Namespace ?i) (inst_Name ?i @ ''-svc'')], Inr h)" by blast
  have w: "standby_state ?i = k8s_StandbyDRDataGuardReplicationInProgress" "is_ReplicationSettings (inst_Spec ?i) = None"
    "ist_CurrentReplicationSettings (inst_Status ?i) = Some s"
    using 5(2,3) by (simp_all add: without_replication_def standby_state_def)
  obtain l6 where p: "reconcilePromoteStandby env l5 ?i = (l6, None)" "\<exists>u h. ICtl (CPromoteStandby s u h) \<in> set l6"
    using w(3) h c assms(1) by (auto simp: reconcilePromoteStandby_def standby_calls_succeed_def)
  obtain i6 r6 where 6: "standbyStateMachine env l5 ?i = Some (i6, l6, r6)" "standby_state i6 = k8s_StandbyDRPromoteCompleted"
    using w p(1) by (simp add: standbyStateMachine_def standby_replicate_def standby_promote_def)
  obtain l7 where b: "bootstrapStandby env l6 (set_data_guard None (set_replication None i6)) = (l7, None)" "set l6 \<subseteq> set l7"
  proof -
    obtain pdbs where "ce_BootstrapStandby (ie_ctl env) l6 = Inr pdbs" using assms(1) unfolding standby_calls_succeed_def by meson
    moreover obtain l7 where d: "create_databases env (l6 @ [ICtl (CBootstrapStandby (is_CDBName (inst_Spec i6)) (is_Version (inst_Spec i6))
        (GetDBDomain (set_data_guard None (set_replication None i6))))]) (set_data_guard None (set_replication None i6)) pdbs = (l7, None)"
      using create_databases_succeed [OF assms(1)] by blast
    ultimately show ?thesis using that create_databases_calls [OF d] by (fastforce simp: bootstrapStandby_def Let_def)
  qed
  let ?i7 = "standby_finish env l7 (set_data_guard None (set_replication None i6))"
  have 7: "standbyStateMachine env l6 i6 = Some (?i7, l7, requeue_now)"
    using 6(2) b(1) by (simp add: standbyStateMachine_def standby_bootstrap_def)
  have "ConditionStatusEquals (inst_cond ?i7 k8s_Ready) ConditionTrue" "ConditionStatusEquals (inst_cond ?i7 k8s_DatabaseInstanceReady) ConditionTrue"
    by (simp_all add: standby_finish_def inst_cond_upsert ConditionStatusEquals_def)
  with 1 2 3 4 5 6 7 p(2) b(2) show ?thesis by (auto simp: numeral_eq_Suc)
qed

text \<open>
  C30: a standby completes. With a valid specification and calls that succeed, five rounds bring a new standby to
  replication; when the user then removes the replication settings, two rounds promote it from the recorded
  primary and leave the instance and its database ready.
\<close>

theorem standby_completes:
  assumes "standby_calls_succeed env" and "valid_standby_spec (inst_Spec inst) s" and "inst_cond inst k8s_StandbyDRReady = None"
  shows "\<exists>inst5 l5. standby_rounds env 5 (inst, l) = Some (inst5, l5) \<and>
    standby_state inst5 = k8s_StandbyDRDataGuardReplicationInProgress \<and>
    (\<exists>inst7 l7. standby_rounds env 2 (without_replication inst5, l5) = Some (inst7, l7) \<and>
       (\<exists>u h. ICtl (CPromoteStandby s u h) \<in> set l7) \<and> standby_state inst7 = k8s_StandbyDRBootstrapCompleted \<and>
       ConditionStatusEquals (inst_cond inst7 k8s_Ready) ConditionTrue \<and>
       ConditionStatusEquals (inst_cond inst7 k8s_DatabaseInstanceReady) ConditionTrue)"
  by (rule standby_seven_rounds [OF assms])

definition sample_settings :: ReplicationSettings where
  "sample_settings =
     \<lparr>rep_PrimaryHost = ''p'', rep_PrimaryPort = 6021, rep_PrimaryServiceName = ''GCLOUD'', rep_PrimaryUser = ''sys'',
      rep_GsmSecretRef = Some (''prj'', ''pw'', ''1''), rep_PasswordFileURI = ''gs://b/pw'', rep_BackupURI = []\<rparr>"

definition sample_standby :: Instance where
  "sample_standby = sample_instance\<lparr>inst_Spec := (inst_Spec sample_instance)
     \<lparr>is_DBUniqueName := ''GCLOUD_sb'', is_ReplicationSettings := Some sample_settings\<rparr>\<rparr>"

lemma sample_standby_ok:
  "standby_calls_succeed sample_env" "valid_standby_spec (inst_Spec sample_standby) sample_settings"
  "inst_cond sample_standby k8s_StandbyDRReady = None"
  by (simp_all add: standby_calls_succeed_def sample_env_def sample_ctl_def op_error_def valid_standby_spec_def sample_standby_def
      sample_settings_def sample_instance_def map_get_def)

theorem standby_completes_witness:
  "\<exists>inst5 l5 inst7 l7. standby_rounds sample_env 5 (sample_standby, []) = Some (inst5, l5) \<and>
     standby_rounds sample_env 2 (without_replication inst5, l5) = Some (inst7, l7) \<and>
     ConditionStatusEquals (inst_cond inst7 k8s_Ready) ConditionTrue"
  using standby_completes [OF sample_standby_ok, of "[]"] by blast

lemma standby_rounds_steps:
  "standby_rounds env n s = Some t \<Longrightarrow> (standby_step env)\<^sup>*\<^sup>* s t"
proof (induction n arbitrary: s)
  case (Suc n)
  obtain inst l where s: "s = (inst, l)" by (rule prod.exhaust)
  with Suc.prems obtain inst' l' r where m: "standbyStateMachine env l inst = Some (inst', l', r)" "standby_rounds env n (inst', l') = Some t"
    by (auto split: option.splits)
  with Suc.IH [OF m(2)] standby_step.round [OF m(1)] s show ?case by (metis converse_rtranclp_into_rtranclp)
qed simp

theorem standby_promoted_in_order_witness:
  "\<exists>inst l l1 s u h l2. (standby_step sample_env)\<^sup>*\<^sup>* (sample_standby, []) (inst, l) \<and>
     l = l1 @ ICtl (CPromoteStandby s u h) # l2 \<and> set_up_done sample_env l1 s"
proof -
  from standby_seven_rounds [OF sample_standby_ok, of "[]"] obtain i5 l5 i7 l7 u h where
    a: "standby_rounds sample_env 5 (sample_standby, []) = Some (i5, l5)"
       "standby_rounds sample_env 2 (without_replication i5, l5) = Some (i7, l7)" "ICtl (CPromoteStandby sample_settings u h) \<in> set l7" by blast
  have "standby_step sample_env (i5, l5) (without_replication i5, l5 @ [])"
    by (rule standby_step.other) (simp_all add: without_replication_def standby_state_def)
  with standby_rounds_steps [OF a(1)] standby_rounds_steps [OF a(2)]
  have r: "(standby_step sample_env)\<^sup>*\<^sup>* (sample_standby, []) (i7, l7)" by (metis append_Nil2 rtranclp.rtrancl_into_rtrancl rtranclp_trans)
  from a(3) obtain l1 l2 where "l7 = l1 @ ICtl (CPromoteStandby sample_settings u h) # l2" by (metis split_list)
  with r standby_promoted_in_order [OF r sample_standby_ok(3)] show ?thesis by fastforce
qed

subsection \<open>A failed creation\<close>

text \<open>
  One error of the call that creates the standby, or of the connection to the daemon, ends the set-up: the state
  \<open>StandbyDRCreateFailed\<close> is never left, while every other failure is tried again.
\<close>

lemma create_failed_is_final:
  assumes "standby_state inst = k8s_StandbyDRCreateFailed"
  shows "standby_rounds env n (inst, l) = Some (inst, l)"
  using assms by (induction n) (simp_all add: standbyStateMachine_def)

end
