(* ===== verification/InstanceLaws.thy ===== *)
theory InstanceLaws
  imports InstanceController RestoreRun StandbyLaws
begin

text \<open>
  What the end of the reconcile loop of an instance guarantees: the calls that lie behind each state of the creation
  of a database, and where an instance that is created from a backup gets stuck.
\<close>

subsection \<open>The creation of the database\<close>

abbreviation db_reason :: "Instance \<Rightarrow> string" where
  "db_reason inst \<equiv> reason_of (ist_Conditions (inst_Status inst)) k8s_DatabaseInstanceReady"

text \<open>What happened in a log: some call \<open>c\<close> made after \<open>l\<close> satisfies \<open>P l c\<close>.\<close>

fun happened_from :: "(inst_log \<Rightarrow> inst_call \<Rightarrow> bool) \<Rightarrow> inst_log \<Rightarrow> inst_log \<Rightarrow> bool" where
  "happened_from P l [] = False"
| "happened_from P l (c # cs) = (P l c \<or> happened_from P (l @ [c]) cs)"

abbreviation happened :: "(inst_log \<Rightarrow> inst_call \<Rightarrow> bool) \<Rightarrow> inst_log \<Rightarrow> bool" where
  "happened P l \<equiv> happened_from P [] l"

lemma happened_append [simp]: "happened_from P l (xs @ ys) = (happened_from P l xs \<or> happened_from P (l @ xs) ys)"
  by (induction xs arbitrary: l) auto

text \<open>The image said whether it has a database (\<open>b\<close>); a request was taken, now or before; an operation succeeded.\<close>

definition image_said :: "inst_env \<Rightarrow> bool \<Rightarrow> inst_log \<Rightarrow> bool" where
  "image_said env b = happened (\<lambda>l c. c = ICtl CFetchImageMetaData \<and> ce_FetchImageMetaData (ie_ctl env) l = Inr b)"

definition taken :: "go_error + 'a \<Rightarrow> bool" where
  "taken r = (case r of Inl err \<Rightarrow> IsAlreadyExistsError err | Inr _ \<Rightarrow> True)"

definition op_succeeded :: "inst_env \<Rightarrow> string \<Rightarrow> inst_log \<Rightarrow> inst_call \<Rightarrow> bool" where
  "op_succeeded env opid l c \<longleftrightarrow> c = IGetLRO opid \<and>
     (case ie_GetLRO env l opid of Inl _ \<Rightarrow> False | Inr operation \<Rightarrow> op_Done operation \<and> op_error operation = None)"

text \<open>The creation of the database was requested; it was, and after that its operation succeeded.\<close>

definition create_requested :: "inst_env \<Rightarrow> Instance \<Rightarrow> inst_log \<Rightarrow> bool" where
  "create_requested env inst = happened (\<lambda>l c.
     case c of
       ICtl (CCreateCDB req) \<Rightarrow>
         cdb_OperationId req = lroCreateCDBOperationID inst \<and> cdb_Sid req = is_CDBName (inst_Spec inst) \<and>
         taken (ce_CreateCDB (ie_ctl env) l req)
     | _ \<Rightarrow> False)"

definition created :: "inst_env \<Rightarrow> Instance \<Rightarrow> inst_log \<Rightarrow> bool" where
  "created env inst = happened (\<lambda>l c. op_succeeded env (lroCreateCDBOperationID inst) l c \<and> create_requested env inst l)"

text \<open>There is a database to bootstrap; its bootstrap was requested, in the mode the image asks for, with the answer \<open>ok\<close>;
  the bootstrap succeeded.\<close>

definition has_database :: "inst_env \<Rightarrow> Instance \<Rightarrow> inst_log \<Rightarrow> bool" where
  "has_database env inst l \<longleftrightarrow> image_said env True l \<or> created env inst l"

definition bootstrap_call :: "inst_env \<Rightarrow> Instance \<Rightarrow> (go_error + Operation \<Rightarrow> bool) \<Rightarrow> inst_log \<Rightarrow> inst_call \<Rightarrow> bool" where
  "bootstrap_call env inst ok l c =
     (case c of
        ICtl (CBootstrapCDB req opid) \<Rightarrow>
          opid = lroBootstrapCDBOperationID inst \<and> bdr_CdbName req = is_CDBName (inst_Spec inst) \<and>
          image_said env (bdr_Mode req = ''ProvisionSeeded'') l \<and> has_database env inst l \<and> ok (ce_BootstrapCDB (ie_ctl env) l req opid)
      | _ \<Rightarrow> False)"

definition done_at_once :: "go_error + Operation \<Rightarrow> bool" where
  "done_at_once r = (case r of Inl _ \<Rightarrow> False | Inr lro \<Rightarrow> op_Done lro)"

definition bootstrapped :: "inst_env \<Rightarrow> Instance \<Rightarrow> inst_log \<Rightarrow> bool" where
  "bootstrapped env inst = happened (\<lambda>l c.
     op_succeeded env (lroBootstrapCDBOperationID inst) l c \<and> happened (bootstrap_call env inst taken) l \<or>
     bootstrap_call env inst done_at_once l c)"

definition services_started :: "inst_env \<Rightarrow> Instance \<Rightarrow> inst_log \<Rightarrow> bool" where
  "services_started env inst = happened (\<lambda>l c.
     bootstrapped env inst l \<and>
     (\<exists>images i res. c = IReconcileMonitoring images \<and> ie_ReconcileMonitoring env l i images = (res, None) \<and> RequeueAfter res = 0))"

text \<open>What has happened when the database is in a state.\<close>

definition db_history :: "inst_env \<Rightarrow> Instance \<Rightarrow> string \<Rightarrow> inst_log \<Rightarrow> bool" where
  "db_history env inst r l =
     (if r = k8s_CreatePending then image_said env False l
      else if r = k8s_CreateInProgress then create_requested env inst l
      else if r = k8s_BootstrapPending then has_database env inst l
      else if r = k8s_BootstrapInProgress then happened (bootstrap_call env inst taken) l
      else if r = k8s_ReconcileServices then bootstrapped env inst l
      else if r = k8s_CreateComplete then services_started env inst l
      else r = [] \<or> r = k8s_CreateFailed)"

lemmas db_history_defs = image_said_def create_requested_def created_def has_database_def bootstrapped_def services_started_def

lemma db_history_grows: "db_history env inst r l \<Longrightarrow> db_history env inst r (l @ cs)"
  by (auto simp: db_history_def db_history_defs split: if_splits)

lemma db_history_same:
  "inst_UID i = inst_UID j \<Longrightarrow> inst_Spec i = inst_Spec j \<Longrightarrow> db_history env i = db_history env j"
proof -
  assume same: "inst_UID i = inst_UID j" "inst_Spec i = inst_Spec j"
  have ids: "lroCreateCDBOperationID i = lroCreateCDBOperationID j" "lroBootstrapCDBOperationID i = lroBootstrapCDBOperationID j"
    using same by (simp_all add: lroCreateCDBOperationID_def lroBootstrapCDBOperationID_def)
  have 1: "create_requested env i = create_requested env j" unfolding create_requested_def ids same ..
  have 2: "created env i = created env j" unfolding created_def ids 1 ..
  have 3: "has_database env i = has_database env j" unfolding has_database_def fun_eq_iff 2 by simp
  have 4: "bootstrap_call env i = bootstrap_call env j" unfolding bootstrap_call_def fun_eq_iff ids same 3 by simp
  have 5: "bootstrapped env i = bootstrapped env j" unfolding bootstrapped_def ids 4 ..
  have 6: "services_started env i = services_started env j" unfolding services_started_def 5 ..
  show ?thesis unfolding fun_eq_iff db_history_def 1 3 4 5 6 by simp
qed

text \<open>A round leaves the specification alone, its log grows, and the new state has its history.\<close>

definition good_round :: "inst_env \<Rightarrow> inst_log \<Rightarrow> Instance \<Rightarrow> ctl_result \<Rightarrow> bool" where
  "good_round env l inst = (\<lambda>(inst', l', _, _). inst_Spec inst' = inst_Spec inst \<and> inst_UID inst' = inst_UID inst \<and>
     take (length l) l' = l \<and> db_history env inst (db_reason inst') l')"

lemma db_to_good: "db_history env inst r (l @ cs) \<Longrightarrow> good_round env l inst (db_to env (l @ cs) inst st r m)"
  using db_history_grows [of env inst r "l @ cs"] by (simp add: good_round_def db_to_def Let_def)

lemma stay_good: "db_history env inst (db_reason inst) l \<Longrightarrow> good_round env l inst (inst, l @ cs, res, err)"
  by (simp add: good_round_def db_history_grows)

lemma db_initial_good:
  assumes "is_Restore (inst_Spec inst) = None" "image_said env seeded l"
  shows "good_round env l inst (db_initial env l inst seeded)"
  using assms db_to_good [of env inst _ l "[]"] by (auto simp: db_initial_def db_history_def has_database_def)

lemma db_create_pending_good:
  assumes "db_history env inst (db_reason inst) l"
  shows "good_round env l inst (db_create_pending env l inst)"
proof -
  let ?req = "create_cdb_request env l inst"
  have "db_history env inst k8s_CreateInProgress (l @ [ICtl (CCreateCDB ?req)])" if "taken (ce_CreateCDB (ie_ctl env) l ?req)"
    using that by (simp add: db_history_def create_requested_def create_cdb_request_def Let_def)
  from db_to_good [OF this] stay_good [OF assms] show ?thesis
    by (auto simp: db_create_pending_def Let_def taken_def split: sum.splits)
qed

lemma db_poll_good:
  assumes "db_history env inst (db_reason inst) l"
    and "op_succeeded env opid l (IGetLRO opid) \<Longrightarrow> db_history env inst nx (l @ [IGetLRO opid])"
  shows "good_round env l inst (db_poll env l inst opid f nx m)"
proof -
  have s: "good_round env l inst (db_to env (l @ [IGetLRO opid] @ [IDeleteLRO opid]) inst ConditionFalse nx m)"
    if "op_succeeded env opid l (IGetLRO opid)"
    using db_to_good [of env inst nx l "[IGetLRO opid] @ [IDeleteLRO opid]"] db_history_grows [OF assms(2) [OF that]] by simp
  have f: "good_round env l inst (db_to env (l @ [IGetLRO opid] @ [IDeleteLRO opid]) inst ConditionFalse k8s_CreateFailed f)"
    by (rule db_to_good) (simp add: db_history_def)
  show ?thesis
    using stay_good [OF assms(1), of "[IGetLRO opid]"] s f
    by (auto simp: db_poll_def IsLROOperationDone_def op_succeeded_def Let_def split: sum.splits option.splits)
qed

lemma db_bootstrap_pending_good:
  assumes "db_reason inst = k8s_BootstrapPending" "has_database env inst l" "image_said env seeded l"
  shows "good_round env l inst (db_bootstrap_pending env l inst seeded)"
proof -
  let ?req = "\<lparr>bdr_CdbName = is_CDBName (inst_Spec inst), bdr_DbUniqueName = is_DBUniqueName (inst_Spec inst),
     bdr_Dbdomain = GetDBDomain inst, bdr_Mode = (if seeded then ''ProvisionSeeded'' else ''ProvisionUnseeded'')\<rparr>"
  let ?id = "lroBootstrapCDBOperationID inst"
  let ?c = "ICtl (CBootstrapCDB ?req ?id)" and ?answer = "ce_BootstrapCDB (ie_ctl env) l ?req ?id"
  have h: "db_history env inst (db_reason inst) l" using assms(1,2) by (simp add: db_history_def)
  have call: "bootstrap_call env inst ok l ?c = ok ?answer" for ok
    using assms(2,3) by (cases seeded) (simp_all add: bootstrap_call_def)
  have "db_history env inst k8s_BootstrapInProgress (l @ [?c])" if "taken ?answer"
    using that call [of taken] by (simp add: db_history_def)
  note started = db_to_good [OF this]
  have "db_history env inst k8s_ReconcileServices (l @ [?c])" if "done_at_once ?answer"
    using that call [of done_at_once] by (simp add: db_history_def bootstrapped_def)
  note finished = db_to_good [OF this]
  show ?thesis
    using started finished stay_good [OF h, of "[?c]"]
    by (auto simp: db_bootstrap_pending_def Let_def taken_def done_at_once_def split: sum.splits)
qed

lemma db_services_good:
  assumes "db_reason inst = k8s_ReconcileServices" "bootstrapped env inst l"
  shows "good_round env l inst (db_services env l inst images)"
proof -
  obtain res err where a: "ie_ReconcileMonitoring env l inst images = (res, err)" by (rule prod.exhaust)
  have h: "db_history env inst (db_reason inst) l" using assms by (simp add: db_history_def)
  have "db_history env inst k8s_CreateComplete (l @ [IReconcileMonitoring images])" if "err = None" "RequeueAfter res = 0"
    using that a assms(2) by (auto simp: db_history_def services_started_def)
  from db_to_good [OF this] stay_good [OF h] a show ?thesis by (simp add: db_services_def Let_def)
qed

lemma db_switch_good:
  assumes "inst_cond inst k8s_DatabaseInstanceReady = Some db" "db_history env inst (Reason db) l" "image_said env seeded l"
  shows "good_round env l inst (db_switch env l inst db seeded images)"
proof -
  have r: "db_reason inst = Reason db" using assms(1) by (simp add: reason_of_def)
  note h = assms(2) [folded r]
  have cr: "db_history env inst k8s_BootstrapPending (l @ [IGetLRO (lroCreateCDBOperationID inst)])"
    if "Reason db = k8s_CreateInProgress" "op_succeeded env (lroCreateCDBOperationID inst) l (IGetLRO (lroCreateCDBOperationID inst))"
    using that assms(2) by (simp add: db_history_def has_database_def created_def)
  have bo: "db_history env inst k8s_ReconcileServices (l @ [IGetLRO (lroBootstrapCDBOperationID inst)])"
    if "Reason db = k8s_BootstrapInProgress" "op_succeeded env (lroBootstrapCDBOperationID inst) l (IGetLRO (lroBootstrapCDBOperationID inst))"
    using that assms(2) by (simp add: db_history_def bootstrapped_def)
  consider "Reason db = k8s_CreatePending" | "Reason db = k8s_CreateInProgress" | "Reason db = k8s_BootstrapPending"
    | "Reason db = k8s_BootstrapInProgress" | "Reason db = k8s_ReconcileServices" | "Reason db \<in> {k8s_CreateComplete, [], k8s_CreateFailed}"
    using assms(2) by (auto simp: db_history_def split: if_splits)
  then show ?thesis
  proof cases
    case 1
    then show ?thesis using db_create_pending_good [OF h] by (simp add: db_switch_def)
  next
    case 2
    then show ?thesis using db_poll_good [OF h cr] by (simp add: db_switch_def)
  next
    case 3
    then show ?thesis using db_bootstrap_pending_good [of inst env l seeded] assms(2,3) r by (simp add: db_switch_def db_history_def)
  next
    case 4
    then show ?thesis using db_poll_good [OF h bo] by (simp add: db_switch_def)
  next
    case 5
    then show ?thesis using db_services_good [of inst env l images] assms(2) r by (simp add: db_switch_def db_history_def)
  next
    case 6
    then show ?thesis using stay_good [OF h, of "[]"] by (auto simp: db_switch_def)
  qed
qed

lemma db_timed_out_good:
  assumes "db_history env inst (Reason db) l"
  shows "good_round env l inst (db_timed_out env l inst db seeded)"
  using assms db_history_grows [OF assms] by (simp add: good_round_def db_timed_out_def Let_def)

lemma good_round_before:
  assumes "good_round env (l @ cs) inst x"
  shows "good_round env l inst x"
proof (cases x)
  case (fields inst' l' res err)
  then have t: "take (length l + length cs) l' = l @ cs" using assms by (simp add: good_round_def)
  have "take (length l) l' = take (length l) (take (length l + length cs) l')" by (simp add: min_def)
  then show ?thesis using assms t fields by (simp add: good_round_def)
qed

lemma reconcileDatabaseInstance_good:
  assumes "is_Restore (inst_Spec inst) = None" "db_history env inst (db_reason inst) l"
  shows "good_round env l inst (reconcileDatabaseInstance env l inst images)"
proof -
  let ?c = "ICtl CFetchImageMetaData"
  show ?thesis
  proof (cases "ce_FetchImageMetaData (ie_ctl env) l")
    case (Inl err)
    with stay_good [OF assms(2), of "[]"] stay_good [OF assms(2), of "[?c]"] show ?thesis
      by (simp add: reconcileDatabaseInstance_def isImageSeeded_def)
  next
    case (Inr seeded)
    then have s: "image_said env seeded (l @ [?c])" by (simp add: image_said_def)
    have h: "db_history env inst (db_reason inst) (l @ [?c])" by (rule db_history_grows [OF assms(2)])
    have i: "good_round env (l @ [?c]) inst (db_initial env (l @ [?c]) inst seeded)" by (rule db_initial_good [OF assms(1) s])
    have d: "good_round env (l @ [?c]) inst (db_timed_out env (l @ [?c]) inst db seeded)"
      "good_round env (l @ [?c]) inst (db_switch env (l @ [?c]) inst db seeded images)"
      if "inst_cond inst k8s_DatabaseInstanceReady = Some db" for db
      using db_timed_out_good [of env inst db] db_switch_good [OF that _ s] h that by (simp_all add: reason_of_def)
    from stay_good [OF assms(2), of "[]"] i [THEN good_round_before] d [THEN good_round_before] Inr show ?thesis
      by (auto simp: reconcileDatabaseInstance_def isImageSeeded_def split: option.splits)
  qed
qed

text \<open>
  Rounds of the reconcile loop: the status that a round computes reaches the server or is lost, and between rounds
  other parts of the operator make calls and change the instance, but not its specification nor the database's
  condition.
\<close>

inductive db_step :: "inst_env \<Rightarrow> Instance \<times> inst_log \<Rightarrow> Instance \<times> inst_log \<Rightarrow> bool" for env where
  round: "reconcileDatabaseInstance env l inst images = (inst', l', res, err) \<Longrightarrow> db_step env (inst, l) (inst', l')"
| lost: "reconcileDatabaseInstance env l inst images = (inst', l', res, err) \<Longrightarrow> db_step env (inst, l) (inst, l')"
| other: "inst_cond inst' k8s_DatabaseInstanceReady = inst_cond inst k8s_DatabaseInstanceReady \<Longrightarrow> inst_Spec inst' = inst_Spec inst \<Longrightarrow>
    inst_UID inst' = inst_UID inst \<Longrightarrow> db_step env (inst, l) (inst', l @ cs)"

definition db_inv :: "inst_env \<Rightarrow> Instance \<Rightarrow> Instance \<times> inst_log \<Rightarrow> bool" where
  "db_inv env inst0 = (\<lambda>(inst, l). inst_Spec inst = inst_Spec inst0 \<and> inst_UID inst = inst_UID inst0 \<and>
     db_history env inst0 (db_reason inst) l)"

lemma db_step_inv:
  assumes "db_step env s t" "is_Restore (inst_Spec inst0) = None" "db_inv env inst0 s"
  shows "db_inv env inst0 t"
  using assms(1)
proof cases
  case (round l inst images inst' l' res err)
  with assms(2,3) reconcileDatabaseInstance_good [of inst env l images] show ?thesis
    by (simp add: db_inv_def good_round_def db_history_same [of inst inst0])
next
  case (lost l inst images inst' l' res err)
  with assms(2,3) have "good_round env l inst (inst', l', res, err)"
    using reconcileDatabaseInstance_good [of inst env l images] by (simp add: db_inv_def db_history_same [of inst inst0])
  then have "l' = l @ drop (length l) l'" by (simp add: good_round_def) (metis append_take_drop_id)
  with lost assms(3) show ?thesis using db_history_grows [of env inst0 _ l] by (simp add: db_inv_def) metis
next
  case (other inst' inst l cs)
  with assms(3) show ?thesis by (simp add: db_inv_def reason_of_def db_history_grows)
qed

text \<open>
  C31: a database is created in order. Take any sequence of rounds of an instance that has no database yet and is not
  made from a backup, with lost status updates, and whatever the calls answer. When its database is bootstrapped or waits
  for the bootstrap, the image has said that it has one, or its creation was requested and that operation succeeded;
  the bootstrap is requested in the mode the image asked for; services start only after the bootstrap succeeded; and it
  is complete only after they did. A database whose creation or bootstrap failed goes no further than failed.
\<close>

theorem database_created_in_order:
  assumes "(db_step env)\<^sup>*\<^sup>* (inst0, l0) (inst, l)" and "inst_cond inst0 k8s_DatabaseInstanceReady = None"
    and "is_Restore (inst_Spec inst0) = None"
  shows "db_history env inst0 (db_reason inst) l"
proof -
  have "db_inv env inst0 s" if "(db_step env)\<^sup>*\<^sup>* (inst0, l0) s" for s
    using that
  proof (induction rule: rtranclp_induct)
    case base
    show ?case using assms(2) by (simp add: db_inv_def db_history_def reason_of_def)
  next
    case (step s t)
    from db_step_inv [OF step(2) assms(3) step(3)] show ?case .
  qed
  from this [OF assms(1)] show ?thesis by (simp add: db_inv_def)
qed

text \<open>An instance that is ready, with no database yet, in an environment whose calls succeed and whose image has no database.\<close>

definition fresh_instance :: Instance where
  "fresh_instance = sample_instance\<lparr>inst_Status := (inst_Status sample_instance)\<lparr>ist_Conditions :=
     [\<lparr>Type = k8s_Ready, Status = ConditionTrue, LastTransitionTime = 0, Reason = k8s_CreateComplete, Message = []\<rparr>]\<rparr>\<rparr>"

fun db_rounds :: "inst_env \<Rightarrow> gomap \<Rightarrow> nat \<Rightarrow> Instance \<times> inst_log \<Rightarrow> Instance \<times> inst_log" where
  "db_rounds env images 0 s = s"
| "db_rounds env images (Suc n) (inst, l) =
     (case reconcileDatabaseInstance env l inst images of (inst', l', _, _) \<Rightarrow> db_rounds env images n (inst', l'))"

lemma db_rounds_steps: "(db_step env)\<^sup>*\<^sup>* s (db_rounds env images n s)"
proof (induction n arbitrary: s)
  case (Suc n)
  obtain inst l where s: "s = (inst, l)" by (rule prod.exhaust)
  obtain inst' l' res err where r: "reconcileDatabaseInstance env l inst images = (inst', l', res, err)" by (metis prod_cases4)
  from converse_rtranclp_into_rtranclp [OF db_step.round [OF r] Suc.IH] show ?case by (simp add: s r)
qed simp

theorem database_created_in_order_witness:
  "case db_rounds sample_env None 6 (fresh_instance, []) of
     (inst, l) \<Rightarrow> db_reason inst = k8s_CreateComplete \<and> services_started sample_env fresh_instance l"
proof -
  obtain inst l where r: "db_rounds sample_env None 6 (fresh_instance, []) = (inst, l)" by (rule prod.exhaust)
  have "db_reason (fst (db_rounds sample_env None 6 (fresh_instance, []))) = k8s_CreateComplete" by code_simp
  then have c: "db_reason inst = k8s_CreateComplete" by (simp add: r)
  have "db_history sample_env fresh_instance (db_reason inst) l"
    using database_created_in_order [OF db_rounds_steps [of sample_env "(fresh_instance, [])" None 6, unfolded r]]
    by (simp add: fresh_instance_def sample_instance_def)
  with c r show ?thesis by (simp add: db_history_def)
qed

subsection \<open>An instance created from a backup\<close>

text \<open>
  C32: an instance whose restore takes longer than the creation of a database may is never ready. The limit of thirty
  minutes, or sixty for an unseeded image, runs from \<open>RestorePending\<close>, which the restore itself does not leave;
  once it has passed, no round notices that the restore is complete, and the database's condition
  stays false.
\<close>

theorem restored_instance_never_ready:
  assumes "inst_cond inst k8s_DatabaseInstanceReady = Some db" and "Status db = ConditionFalse" and "Reason db = k8s_RestorePending"
    and "ConditionStatusEquals (inst_cond inst k8s_Ready) ConditionTrue"
    and "ConditionReasonEquals (inst_cond inst k8s_Ready) k8s_RestoreComplete"
    and "\<forall>l. ce_FetchImageMetaData (ie_ctl env) l = Inr seeded"
    and "\<forall>l. creation_timeout seeded \<le> ElapsedTimeFromLastTransitionTime (ie_now env l) (Some db)"
  shows "ConditionStatusEquals (inst_cond (fst (db_rounds env images n (inst, l))) k8s_DatabaseInstanceReady) ConditionFalse \<and>
    db_reason (fst (db_rounds env images n (inst, l))) = k8s_RestorePending"
  using assms(1-5,7)
proof (induction n arbitrary: inst l db)
  case 0
  then show ?case by (simp add: ConditionStatusEquals_def reason_of_def)
next
  case (Suc n)
  obtain inst' l' res err where t: "db_timed_out env (l @ [ICtl CFetchImageMetaData]) inst db seeded = (inst', l', res, err)"
    by (metis prod_cases4)
  have r: "reconcileDatabaseInstance env l inst images = (inst', l', res, err)"
    using Suc.prems assms(6) t by (simp add: reconcileDatabaseInstance_def isImageSeeded_def linorder_not_less)
  define db' where "db' = upserted (ie_now env l') (Some db) k8s_DatabaseInstanceReady ConditionFalse (Reason db)
     ''Warning: db instance is taking too long to start up - please try delete and recreate''"
  have c: "inst_cond inst' k8s_DatabaseInstanceReady = Some db'" "inst_cond inst' k8s_Ready = inst_cond inst k8s_Ready"
    using t Suc.prems(1) by (auto simp: db_timed_out_def Let_def inst_cond_upsert db'_def split: if_splits)
  have d: "Status db' = ConditionFalse" "Reason db' = k8s_RestorePending" "LastTransitionTime db' = LastTransitionTime db"
    using Suc.prems(2,3) by (simp_all add: db'_def upserted_def set_condition_time)
  have "\<forall>l. creation_timeout seeded \<le> ElapsedTimeFromLastTransitionTime (ie_now env l) (Some db')"
    using Suc.prems(6) d(3) by (simp add: ElapsedTimeFromLastTransitionTime_def)
  from Suc.IH [OF c(1) d(1,2) _ _ this] Suc.prems(4,5) c(2) r show ?case by simp
qed

definition restored_instance :: Instance where
  "restored_instance = sample_instance\<lparr>inst_Status := (inst_Status sample_instance)\<lparr>ist_Conditions :=
     [\<lparr>Type = k8s_Ready, Status = ConditionTrue, LastTransitionTime = 0, Reason = k8s_RestoreComplete, Message = []\<rparr>,
      \<lparr>Type = k8s_DatabaseInstanceReady, Status = ConditionFalse, LastTransitionTime = 0, Reason = k8s_RestorePending, Message = []\<rparr>]\<rparr>\<rparr>"

theorem restored_instance_never_ready_witness:
  "ConditionStatusEquals (inst_cond (fst (db_rounds (sample_env\<lparr>ie_now := \<lambda>_. 2 * Hour\<rparr>) None 5 (restored_instance, [])))
     k8s_DatabaseInstanceReady) ConditionFalse"
proof -
  let ?db = "\<lparr>Type = k8s_DatabaseInstanceReady, Status = ConditionFalse, LastTransitionTime = 0, Reason = k8s_RestorePending, Message = []\<rparr>"
  have 1: "inst_cond restored_instance k8s_DatabaseInstanceReady = Some ?db" by (simp add: restored_instance_def)
  have 2: "ConditionStatusEquals (inst_cond restored_instance k8s_Ready) ConditionTrue"
    "ConditionReasonEquals (inst_cond restored_instance k8s_Ready) k8s_RestoreComplete"
    by (simp_all add: restored_instance_def ConditionStatusEquals_def ConditionReasonEquals_def)
  have 3: "\<forall>l. ce_FetchImageMetaData (ie_ctl (sample_env\<lparr>ie_now := \<lambda>_. 2 * Hour\<rparr>)) l = Inr False"
    by (simp add: sample_env_def sample_ctl_def)
  have "creation_timeout False \<le> ElapsedTimeFromLastTransitionTime (2 * Hour) (Some ?db)" by code_simp
  then have 4: "\<forall>l. creation_timeout False \<le> ElapsedTimeFromLastTransitionTime (ie_now (sample_env\<lparr>ie_now := \<lambda>_. 2 * Hour\<rparr>) l) (Some ?db)"
    by simp
  show ?thesis using restored_instance_never_ready [OF 1 _ _ 2 3 4, where n = 5] by simp
qed

end
