(* ===== verification/InstanceSafety.thy ===== *)
theory InstanceSafety
  imports InstanceLaws
begin

text \<open>
  What a whole reconcile of an instance may destroy. Every function of the loop is shown to keep the claims and the
  data files, except patching and the restore, which need a request.
\<close>

subsection \<open>What is destroyed\<close>

text \<open>Calls that keep the claims and the data files.\<close>

fun keeps_data :: "inst_call \<Rightarrow> bool" where
  "keeps_data (IDeletePVC _ _) = False"
| "keeps_data (IPhysicalRestore _) = False"
| "keeps_data _ = True"

abbreviation keeping :: "inst_log \<Rightarrow> inst_log \<Rightarrow> bool" where
  "keeping l l' \<equiv> grows l l' keeps_data"

lemma grows_prefix: "grows (l @ cs) l' P \<Longrightarrow> \<forall>c \<in> set cs. P c \<Longrightarrow> grows l l' P"
  by (auto simp: grows_def)

lemma resize_loop_keeping: "resize_loop env sts l fin ps = (l', r) \<Longrightarrow> keeping l l'"
proof (induction ps arbitrary: l fin)
  case (Cons p ps)
  obtain i q where p: "p = (i, q)" by fastforce
  obtain ns name where k: "ObjectKeyOf sts q i = (ns, name)" by fastforce
  have "keeping l l'" if "resize_loop env sts (l @ ds) f ps = (l', r)" "\<forall>c \<in> set ds. keeps_data c" for ds f
    using Cons.IH [OF that(1)] that(2) by (auto simp: grows_def)
  from this [of "[IGetPVC ns name]"] this [of "[IGetPVC ns name, IPatchPVC ns name (pvc_Storage q)]"] Cons.prems p k show ?case
    by (auto simp: Let_def split: sum.splits if_splits option.splits)
qed simp

lemma pvcs_expandable_keeping: "pvcs_expandable env sts l ps = (l', r) \<Longrightarrow> keeping l l'"
proof (induction ps arbitrary: l)
  case (Cons p ps)
  obtain i q where p: "p = (i, q)" by fastforce
  obtain l1 e where c: "CheckSinglePvc env l (ObjectKeyOf sts q i) = (l1, e)" by fastforce
  then have k: "keeping l l1"
    by (auto simp: CheckSinglePvc_def Let_def split: prod.splits sum.splits option.splits if_splits)
  show ?case
  proof (cases e)
    case None
    with Cons.prems p c have "pvcs_expandable env sts l1 ps = (l', r)" by simp
    from Cons.IH [OF this] k show ?thesis by (blast intro: grows_trans)
  qed (use Cons.prems p c k in simp)
qed simp

lemma tryResizeDisksOf_keeping:
  assumes "tryResizeDisksOf env l sts = (l', r)"
  shows "keeping l l'"
proof -
  let ?l1 = "l @ [IGetSTS (sts_Namespace sts) (sts_Name sts)]"
  show ?thesis
  proof (cases "ie_GetSTS env l (sts_Namespace sts) (sts_Name sts)")
    case (Inl e)
    with assms show ?thesis by (auto simp: tryResizeDisksOf_def Let_def split: if_splits)
  next
    case (Inr old)
    let ?ch = "FilterDiskWithSizeChanged (sts_VolumeClaimTemplates old) (sts_VolumeClaimTemplates sts)"
    obtain l2 e where x: "PvcsCanBeExpanded env ?l1 sts ?ch = (l2, e)" by fastforce
    have k2: "keeping l l2"
      by (rule grows_prefix [OF pvcs_expandable_keeping [OF x [unfolded PvcsCanBeExpanded_def]]]) simp
    obtain l3 res where y: "resizePvcs env l2 sts ?ch = (l3, res)" by fastforce
    have k3: "keeping l l3" by (rule grows_trans [OF k2 resize_loop_keeping [OF y [unfolded resizePvcs_def]]])
    from assms Inr x y k2 k3 show ?thesis
      by (auto simp: tryResizeDisksOf_def Let_def split: option.splits sum.splits if_splits)
  qed
qed

lemma createStatefulSet_keeping: "createStatefulSet env l inst sp = (l', e) \<Longrightarrow> keeping l l'"
  by (auto simp: createStatefulSet_def split: sum.splits)

lemma finish_resize_keeping: "finish_resize env l inst c sts d = (inst', l', r) \<Longrightarrow> keeping l l'"
  by (auto simp: finish_resize_def VerifyPodsStatus_def split: if_splits prod.splits option.splits pods_error.splits)

lemma resize_disks_keeping:
  assumes "resize_disks env l inst c sp sts d = (inst', l', r)"
  shows "keeping l l'"
proof (cases "buildStatefulSet env inst sp")
  case (Inl e)
  with assms show ?thesis by (simp add: resize_disks_def)
next
  case (Inr new)
  obtain l1 x where t: "tryResizeDisksOf env l new = (l1, x)" by fastforce
  note k = tryResizeDisksOf_keeping [OF t]
  from assms Inr t consider "l' = l1" | "finish_resize env l1 inst c sts d = (inst', l', r)"
    by (auto simp: resize_disks_def split: sum.splits bool.splits)
  then show ?thesis using k finish_resize_keeping grows_trans by cases blast+
qed

lemma handleResize_keeping:
  assumes "handleResize env l inst rc dc sp = (inst', l', r)"
  shows "keeping l l'"
proof -
  let ?ns = "inst_Namespace inst" and ?n = "sp_StsName sp"
  have cs: "keeping l l2" if "createStatefulSet env (l @ [IGetSTS ?ns ?n]) i sp = (l2, e)" for i l2 e
    by (rule grows_prefix [OF createStatefulSet_keeping [OF that]]) simp
  have rd: "keeping l l2" if "resize_disks env (l @ [IGetSTS ?ns ?n]) inst rc sp sts d = (i, l2, x)" for sts d i l2 x
    by (rule grows_prefix [OF resize_disks_keeping [OF that]]) simp
  from assms show ?thesis
    by (auto simp: handleResize_def Let_def split: if_splits sum.splits prod.splits option.splits dest: cs rd)
qed

lemma service_keeping: "apply_service env l inst n = (l', r) \<Longrightarrow> keeping l l'"
  by (auto simp: apply_service_def split: option.splits)

lemma dataplane_keeping:
  assumes "createDataplaneServices env l inst = (l', r)"
  shows "keeping l l'"
proof -
  obtain l1 x where a: "apply_service env l inst (DbDaemonSVCName inst) = (l1, x)" by fastforce
  obtain l2 y where b: "apply_service env l1 inst (AgentSVCName inst) = (l2, y)" by fastforce
  have "l' = l1 \<or> l' = l2" using assms a b by (auto simp: createDataplaneServices_def split: sum.splits if_splits)
  with service_keeping [OF a] service_keeping [OF b] grows_trans show ?thesis by blast
qed

lemma progress_keeping: "updateProgressCondition env l inst ns op = (inst', l', r) \<Longrightarrow> keeping l l'"
  by (auto simp: updateProgressCondition_def statusProgress_def Let_def split: prod.splits sum.splits if_splits option.splits)

lemma create_databases_keeping: "create_databases env l inst pdbs = (l', e) \<Longrightarrow> keeping l l'"
proof (induction pdbs arbitrary: l)
  case (Cons pdb pdbs)
  then show ?case
    by (auto simp: Let_def split: option.splits if_splits dest!: Cons.IH elim!: grows_prefix)
qed simp

lemma bootstrapStandby_keeping: "bootstrapStandby env l inst = (l', e) \<Longrightarrow> keeping l l'"
  by (auto simp: bootstrapStandby_def Let_def split: sum.splits dest!: create_databases_keeping elim!: grows_prefix)

lemma db_to_keeping: "db_to env l inst st r m = (inst', l', x) \<Longrightarrow> keeping l l'"
  by (auto simp: db_to_def Let_def)

lemma db_poll_keeping: "db_poll env l inst i f next m = (inst', l', x) \<Longrightarrow> keeping l l'"
  by (auto simp: db_poll_def IsLROOperationDone_def Let_def
      split: prod.splits option.splits bool.splits sum.splits if_splits dest!: db_to_keeping elim!: grows_prefix)

lemma db_switch_keeping:
  assumes "db_switch env l inst db seeded images = (inst', l', x)"
  shows "keeping l l'"
proof -
  have 1: "keeping l l'" if "db_create_pending env l inst = (inst', l', x)"
    using that by (auto simp: db_create_pending_def Let_def split: sum.splits if_splits dest!: db_to_keeping elim!: grows_prefix)
  have 2: "keeping l l'" if "db_bootstrap_pending env l inst seeded = (inst', l', x)"
    using that by (auto simp: db_bootstrap_pending_def Let_def split: sum.splits if_splits dest!: db_to_keeping elim!: grows_prefix)
  have 3: "keeping l l'" if "db_services env l inst images = (inst', l', x)"
    using that by (auto simp: db_services_def Let_def split: prod.splits if_splits dest!: db_to_keeping elim!: grows_prefix)
  from assms consider "db_create_pending env l inst = (inst', l', x)" | "db_bootstrap_pending env l inst seeded = (inst', l', x)"
    | "db_services env l inst images = (inst', l', x)" | "\<exists>i f n m. db_poll env l inst i f n m = (inst', l', x)"
    | "\<exists>st r m. db_to env l inst st r m = (inst', l', x)" | "l' = l"
    by (simp add: db_switch_def Let_def split: if_splits) blast+
  then show ?thesis
  proof cases
    case 4
    with db_poll_keeping show ?thesis by blast
  next
    case 5
    with db_to_keeping show ?thesis by blast
  qed (use 1 2 3 in auto)
qed

lemma db_initial_keeping: "db_initial env l inst s = (inst', l', x) \<Longrightarrow> keeping l l'"
  by (auto simp: db_initial_def split: if_splits dest!: db_to_keeping)

lemma db_timed_out_keeping: "db_timed_out env l inst db s = (inst', l', x) \<Longrightarrow> keeping l l'"
  by (auto simp: db_timed_out_def Let_def split: if_splits)

lemma database_keeping:
  assumes "reconcileDatabaseInstance env l inst images = (inst', l', x)"
  shows "keeping l l'"
proof -
  let ?l = "l @ [ICtl CFetchImageMetaData]"
  have "keeping ?l l' \<Longrightarrow> keeping l l'" by (erule grows_prefix) simp
  moreover note db_initial_keeping [of env ?l inst _ inst' l' x] db_timed_out_keeping [of env ?l inst _ _ inst' l' x]
  moreover note db_switch_keeping [of env ?l inst _ _ images inst' l' x]
  moreover have "keeping l ?l" by simp
  ultimately show ?thesis using assms
    by (simp add: reconcileDatabaseInstance_def isImageSeeded_def split: if_splits sum.splits option.splits)
qed

lemma reconcile_database_keeping:
  assumes "reconcile_database env l inst images = (inst', l', x)"
  shows "keeping l l'"
proof -
  have b: "keeping l l1" if "bootstrapStandby env (l @ [IEvent NormalEvent k8s_PromoteStandbyInProgress []]) inst = (l1, e)" for l1 e
    by (rule grows_prefix [OF bootstrapStandby_keeping [OF that]]) simp
  have d: "keeping l l'" if "reconcileDatabaseInstance env (l @ [ICtl (CListDatabases (inst_Namespace inst))]) inst images = (inst', l', x)"
    by (rule grows_prefix [OF database_keeping [OF that]]) simp
  obtain l1 e where l1: "bootstrapStandby env (l @ [IEvent NormalEvent k8s_PromoteStandbyInProgress []]) inst = (l1, e)"
    by (rule prod.exhaust)
  from assms l1 consider "l' = l" | "\<exists>k r m. l' = l1 @ [IEvent k r m]"
    | "reconcileDatabaseInstance env (l @ [ICtl (CListDatabases (inst_Namespace inst))]) inst images = (inst', l', x)"
    by (simp add: reconcile_database_def Let_def split: if_splits option.splits) blast+
  then show ?thesis using b [OF l1] d by cases auto
qed

lemma reconcile_labels_keeping:
  assumes "reconcile_labels env l inst images = (inst', l', x)"
  shows "keeping l l'"
  using assms
  by (auto simp: reconcile_labels_def Let_def split: if_splits sum.splits dest!: reconcile_database_keeping elim!: grows_prefix)

lemma reconcile_create_keeping:
  assumes "reconcile_create env l inst images = (inst', l', x)"
  shows "keeping l l'"
proof -
  obtain i1 l1 b where u: "updateProgressCondition env l inst (inst_Namespace inst) ''CreateInProgress'' = (i1, l1, b)" by (metis prod_cases3)
  note k = progress_keeping [OF u]
  have "keeping l l'" if "reconcile_labels env l1 i1 images = (inst', l', x)"
    using grows_trans [OF k reconcile_labels_keeping [OF that]] .
  with assms u k reconcile_labels_keeping [of env l inst images inst' l' x] show ?thesis
    by (auto simp: reconcile_create_def Let_def split: if_splits bool.splits)
qed

lemma reconcile_objects_keeping:
  assumes "reconcile_objects env l inst sp = (inst', l', x)"
  shows "keeping l l'"
proof -
  obtain l1 e1 where 1: "createStatefulSet env l inst sp = (l1, e1)" by (rule prod.exhaust)
  obtain l2 e2 where 2: "createDBLoadBalancer env l1 inst = (l2, e2)" by (rule prod.exhaust)
  obtain l3 e3 where 3: "createDataplaneServices env l2 inst = (l3, e3)" by (rule prod.exhaust)
  have k1: "keeping l l1" using 1 by (rule createStatefulSet_keeping)
  have k2: "keeping l l2" using grows_trans [OF k1] 2 service_keeping unfolding createDBLoadBalancer_def by blast
  have k3: "keeping l l3" using grows_trans [OF k2 dataplane_keeping [OF 3]] .
  have "keeping l l'" if "reconcile_create env l3 i images = (inst', l', x)" for i images
    using grows_trans [OF k3 reconcile_create_keeping [OF that]] .
  with assms 1 2 3 k1 k2 k3 show ?thesis
    by (auto simp: reconcile_objects_def Let_def split: option.splits sum.splits if_splits)
qed

lemma recordEvent_keeping: "recordEventAndUpdateStatus env l inst cs r m = (inst', l') \<Longrightarrow> keeping l l'"
  by (auto simp: recordEventAndUpdateStatus_def Let_def)

lemma deletion_keeping: "delete_databases env l ns names = (l', x) \<Longrightarrow> keeping l l'"
proof (induction names arbitrary: l)
  case (Cons n names)
  then show ?case by (auto simp: Let_def split: option.splits dest!: Cons.IH elim!: grows_prefix)
qed simp

lemma reconcileInstanceDeletion_keeping: "reconcileInstanceDeletion env l = (l', x) \<Longrightarrow> keeping l l'"
  by (auto simp: reconcileInstanceDeletion_def removeMonitoringDeployment_def Let_def
      split: sum.splits option.splits bool.splits if_splits dest!: deletion_keeping elim!: grows_prefix)

lemma set_loop_keeping: "set_loop env l r kvs = (l', x) \<Longrightarrow> keeping l l'"
proof (induction env l r kvs rule: set_loop.induct)
  case (2 env l restart k v kvs)
  show ?case
  proof (cases "ie_SetParameter env l k v")
    case (Inr b)
    with 2 have "keeping (l @ [ISetParameter k v]) l'" by simp
    then show ?thesis by (rule grows_prefix) simp
  qed (use 2 in auto)
qed simp

lemma rollback_loop_keeping: "rollback_loop env l kvs = (l', x) \<Longrightarrow> keeping l l'"
proof (induction env l kvs rule: rollback_loop.induct)
  case (2 env l k v kvs)
  show ?case
  proof (cases "ie_SetParameter env l k v")
    case (Inr b)
    with 2 have "keeping (l @ [ISetParameter k v]) l'" by simp
    then show ?thesis by (rule grows_prefix) simp
  qed (use 2 in auto)
qed simp

lemma setParameters_keeping:
  assumes "setParameters env l inst = Some (l', x)"
  shows "keeping l l'"
proof -
  obtain l1 y where a: "set_loop env l False (ie_range env l (is_Parameters (inst_Spec inst))) = (l1, y)" by (rule prod.exhaust)
  from assms a have "l' = l1 \<or> (\<exists>ks. l' = l1 @ [IGetParameterTypeValue ks])"
    by (auto simp: setParameters_def Let_def split: sum.splits if_splits)
  then show ?thesis using set_loop_keeping [OF a] by auto
qed

lemma initiateRecovery_keeping: "initiateRecovery env l inst d = (l', x) \<Longrightarrow> keeping l l'"
  by (auto simp: initiateRecovery_def Let_def split: option.splits dest!: rollback_loop_keeping elim!: grows_prefix)

lemma fetch_keeping: "fetchCurrentParameterState env l inst = Some (l', x) \<Longrightarrow> keeping l l'"
  by (auto simp: fetchCurrentParameterState_def Let_def split: if_splits sum.splits prod.splits option.splits bool.splits)

lemma param_entry_keeping:
  assumes "param_entry env l inst = Some (inst', l', x)"
  shows "keeping l l'"
proof -
  from assms obtain l1 y where f: "fetchCurrentParameterState env l (set_machine ParameterUpdateStateMachine inst) = Some (l1, y)"
    by (auto simp: param_entry_def Let_def split: option.splits)
  with assms obtain i cs r m where "recordEventAndUpdateStatus env l1 i cs r m = (inst', l')"
    by (auto simp: param_entry_def Let_def split: sum.splits prod.splits)
  from grows_trans [OF fetch_keeping [OF f] recordEvent_keeping [OF this]] show ?thesis .
qed

lemma param_in_progress_keeping:
  assumes "param_in_progress env l inst = Some (inst', l', x)"
  shows "keeping l l'"
proof -
  from assms obtain l1 y where f: "setParameters env l inst = Some (l1, y)"
    by (auto simp: param_in_progress_def Let_def split: option.splits)
  have k: "keeping l (l1 @ cs)" if "cs = [] \<or> (\<exists>n. cs = [IBounceDatabase n])" for cs
    using setParameters_keeping [OF f] that by auto
  have e: "keeping l l'" if "recordEventAndUpdateStatus env l2 inst cs r m = (inst', l')" "l2 = l1 \<or> (\<exists>n. l2 = l1 @ [IBounceDatabase n])" for l2 cs r m
  proof -
    have "keeping l l2" using that(2) k [of "[]"] k by auto
    from grows_trans [OF this recordEvent_keeping [OF that(1)]] show ?thesis .
  qed
  show ?thesis
  proof (cases y)
    case (Inl a)
    with assms f e [of l1] show ?thesis by (simp add: param_in_progress_def Let_def split: prod.splits)
  next
    case (Inr b)
    let ?n = "is_CDBName (inst_Spec inst)"
    from assms f Inr e [of l1] e [of "l1 @ [IBounceDatabase ?n]"] show ?thesis
      by (simp add: param_in_progress_def Let_def split: prod.splits if_splits option.splits)
  qed
qed

lemma parameterUpdate_keeping:
  assumes "parameterUpdateStateMachine env l inst = Some (inst', l', x)"
  shows "keeping l l'"
proof -
  have c: "keeping l l'" if "param_complete env l inst = (inst', l', x)"
    using that by (auto simp: param_complete_def split: prod.splits dest!: recordEvent_keeping)
  have r: "keeping l l'" if "param_rollback env l inst = (inst', l', x)"
    using that by (auto simp: param_rollback_def split: prod.splits option.splits dest!: recordEvent_keeping initiateRecovery_keeping
        intro: grows_trans)
  from assms consider "l' = l" | "param_entry env l inst = Some (inst', l', x)" | "param_in_progress env l inst = Some (inst', l', x)"
    | "param_complete env l inst = (inst', l', x)" | "param_rollback env l inst = (inst', l', x)"
    by (simp add: parameterUpdateStateMachine_def Let_def split: if_splits option.splits prod.splits)
  then show ?thesis using param_entry_keeping param_in_progress_keeping c r by cases auto
qed

lemma host_keeping: "getStandbyHost env l inst = (l', x) \<Longrightarrow> keeping l l'"
  by (auto simp: getStandbyHost_def Let_def)

lemma data_guard_keeping:
  "reconcileDataGuard env l inst = Some (inst', l', x) \<Longrightarrow> keeping l l'"
  by (auto simp: reconcileDataGuard_def Let_def split: prod.splits sum.splits option.splits dest!: host_keeping)

lemma data_guard_status_keeping: "updateDataGuardStatus env l inst i = (inst', l') \<Longrightarrow> keeping l l'"
  by (auto simp: updateDataGuardStatus_def Let_def split: option.splits if_splits)

lemma promote_keeping: "standby_promote env l inst a = (inst', l', x) \<Longrightarrow> keeping l l'"
  by (auto simp: standby_promote_def reconcilePromoteStandby_def Let_def split: prod.splits sum.splits option.splits dest!: host_keeping)

lemma replicate_keeping:
  assumes "standby_replicate env l inst = Some (inst', l', x)"
  shows "keeping l l'"
proof -
  from assms consider "standby_promote env l inst Result_zero = (inst', l', x)"
    | i1 l1 e i2 d where "reconcileDataGuard env l inst = Some (i1, l1, e)" "updateDataGuardStatus env l1 i2 d = (inst', l')"
    by (auto simp: standby_replicate_def Let_def split: if_splits option.splits prod.splits)
  then show ?thesis
  proof cases
    case 1
    then show ?thesis by (rule promote_keeping)
  next
    case 2
    from grows_trans [OF data_guard_keeping [OF 2(1)] data_guard_status_keeping [OF 2(2)]] show ?thesis .
  qed
qed

lemma set_up_keeping: "standby_set_up env l inst st = Some (inst', l', x) \<Longrightarrow> keeping l l'"
  by (auto simp: standby_set_up_def Let_def split: option.splits prod.splits dest!: data_guard_keeping)

lemma verify_keeping: "standby_verify env l inst = (inst', l', x) \<Longrightarrow> keeping l l'"
  by (auto simp: standby_verify_def verifySettings_def Let_def split: option.splits prod.splits sum.splits if_splits)

lemma standby_create_keeping: "standby_create env l inst = (inst', l', x) \<Longrightarrow> keeping l l'"
  by (auto simp: standby_create_def Let_def split: option.splits sum.splits if_splits)

lemma standby_bootstrap_keeping: "standby_bootstrap env l inst = (inst', l', x) \<Longrightarrow> keeping l l'"
  by (auto simp: standby_bootstrap_def Let_def split: option.splits prod.splits dest!: bootstrapStandby_keeping)

lemma standby_keeping:
  assumes "standbyStateMachine env l inst = Some (inst', l', x)"
  shows "keeping l l'"
proof -
  from assms consider "l' = l" | "standby_verify env l inst = (inst', l', x)" | "standby_create env l inst = (inst', l', x)"
    | "\<exists>st. standby_set_up env l inst st = Some (inst', l', x)" | "standby_replicate env l inst = Some (inst', l', x)"
    | "\<exists>a. standby_promote env l inst a = (inst', l', x)" | "standby_bootstrap env l inst = (inst', l', x)"
    by (simp add: standbyStateMachine_def Let_def split: if_splits) blast+
  then show ?thesis
    using verify_keeping standby_create_keeping set_up_keeping replicate_keeping promote_keeping standby_bootstrap_keeping by cases auto
qed

lemma stopDBStatefulset_keeping: "stopDBStatefulset env l = (l', x) \<Longrightarrow> keeping l l'"
  by (auto simp: stopDBStatefulset_def Let_def split: sum.splits)

lemma stopMonitoring_keeping: "stopMonitoringDeployment env l inst = (l', x) \<Longrightarrow> keeping l l'"
  by (auto simp: stopMonitoringDeployment_def createMonitoringDeployment_def load_config_def Let_def split: sum.splits prod.splits option.splits)

lemma delete_service_keeping: "delete_service env l inst n = (l', x) \<Longrightarrow> keeping l l'"
  by (auto simp: delete_service_def)

lemma reconcileInstanceStop_keeping:
  assumes "reconcileInstanceStop env l = (l', x)"
  shows "keeping l l'"
proof (cases "ce_GetInstance (ie_ctl env) l")
  case (Inl e)
  with assms show ?thesis by (simp add: reconcileInstanceStop_def) auto
next
  case (Inr inst0)
  let ?l = "l @ [ICtl CGetInstance]"
  obtain inst l2 where 2: "recordEventAndUpdateStatus env ?l inst0 ConditionFalse k8s_InstanceStoppingInProgress ''Instance is being stopped'' = (inst, l2)"
    by (rule prod.exhaust)
  obtain l3 e3 where 3: "stopDBStatefulset env l2 = (l3, e3)" by (rule prod.exhaust)
  obtain l4 e4 where 4: "stopMonitoringDeployment env l3 inst = (l4, e4)" by (rule prod.exhaust)
  obtain l5 e5 where 5: "delete_service env l4 inst (getSVCName inst) = (l5, e5)" by (rule prod.exhaust)
  obtain l6 e6 where 6: "delete_service env l5 inst (DbDaemonSVCName inst) = (l6, e6)" by (rule prod.exhaust)
  obtain l7 e7 where 7: "delete_service env l6 inst (AgentSVCName inst) = (l7, e7)" by (rule prod.exhaust)
  have k2: "keeping l l2" by (rule grows_prefix [OF recordEvent_keeping [OF 2]]) simp
  note k3 = grows_trans [OF k2 stopDBStatefulset_keeping [OF 3]]
  note k4 = grows_trans [OF k3 stopMonitoring_keeping [OF 4]]
  note k5 = grows_trans [OF k4 delete_service_keeping [OF 5]]
  note k6 = grows_trans [OF k5 delete_service_keeping [OF 6]]
  note k7 = grows_trans [OF k6 delete_service_keeping [OF 7]]
  have "l' \<in> {l3, l4, l5, l6, l7} \<or> keeping l l'"
  proof (cases "e3 = None \<and> e4 = None \<and> e5 = None \<and> e6 = None \<and> e7 = None")
    case True
    show ?thesis
    proof (cases "ce_GetInstance (ie_ctl env) l7")
      case a: (Inl e)
      with assms Inr 2 3 4 5 6 7 True k7 show ?thesis by (auto simp: reconcileInstanceStop_def Let_def)
    next
      case a: (Inr inst1)
      let ?l9 = "l7 @ [ICtl CGetInstance, IGetService (inst_Namespace inst1) (getSVCName inst1)]"
      have k9: "keeping l ?l9" using k7 by simp
      obtain i l10 where 10: "recordEventAndUpdateStatus env ?l9 inst1 ConditionTrue k8s_InstanceStopped ''Instance has been stopped'' = (i, l10)"
        by (rule prod.exhaust)
      have k10: "keeping l l10" using grows_trans [OF k9 recordEvent_keeping [OF 10]] .
      from assms Inr 2 3 4 5 6 7 True a 10 have "l' = ?l9 \<or> l' = l10"
        by (auto simp: reconcileInstanceStop_def Let_def split: sum.splits if_splits)
      with k9 k10 show ?thesis by blast
    qed
  next
    case False
    with assms Inr 2 3 4 5 6 7 show ?thesis
      by (cases e3; cases e4; cases e5; cases e6; cases e7) (auto simp: reconcileInstanceStop_def Let_def)
  qed
  with k3 k4 k5 k6 k7 show ?thesis by auto
qed

lemma setDnfs_keeping: "setDnfs env l inst b = (l', x) \<Longrightarrow> keeping l l'"
  by (auto simp: setDnfs_def Let_def split: option.splits)

lemma incarnation_keeping: "updateDatabaseIncarnationStatus env l inst = (inst', l', x) \<Longrightarrow> keeping l l'"
  by (auto simp: updateDatabaseIncarnationStatus_def Let_def split: sum.splits)

lemma reconcile_restore_keeping:
  assumes "reconcile_restore env l inst sp = Some (inst', l', x)" and "is_Restore (inst_Spec inst) = None"
  shows "keeping l l'"
proof -
  obtain i1 l1 r e where h: "handleResize env l inst (inst_cond inst k8s_Ready) (inst_cond inst k8s_DatabaseInstanceReady) sp = (i1, l1, r, e)"
    by (metis prod_cases4)
  note k = handleResize_keeping [OF h]
  let ?l2 = "l1 @ [IReconcileMonitoring (sp_Images sp)]"
  have k2: "keeping l ?l2" using k by simp
  obtain i3 l3 e3 where u: "updateDatabaseIncarnationStatus env ?l2 i1 = (i3, l3, e3)" by (metis prod_cases3)
  have k3: "keeping l l3" using grows_trans [OF k2 incarnation_keeping [OF u]] .
  obtain i4 l4 x4 where o: "reconcile_objects env l1 i1 sp = (i4, l4, x4)" by (metis prod_cases3)
  have k4: "keeping l l4" using grows_trans [OF k reconcile_objects_keeping [OF o]] .
  have "l' \<in> {l1, ?l2, l3, l4}"
    using assms h u o by (auto simp: reconcile_restore_def Let_def split: option.splits if_splits prod.splits)
  with k k2 k3 k4 show ?thesis by blast
qed

text \<open>A restore or a change of the images is wanted or under way.\<close>

definition change_wanted :: "Instance \<Rightarrow> bool" where
  "change_wanted inst \<longleftrightarrow>
     is_Restore (inst_Spec inst) \<noteq> None \<or> is_Services (inst_Spec inst) ''Patching'' \<or>
     ist_CurrentActiveStateMachine (inst_Status inst) = PatchingStateMachine"

lemma reconcile_config_keeping:
  assumes "reconcile_config env l inst = Some (inst', l', x)" and "\<not> change_wanted inst"
  shows "keeping l l'"
proof -
  let ?ns = "inst_Namespace inst" and ?cm = "inst_Name inst @ ''-cm''"
  let ?l1 = "l @ [ICtl (CListConfigs ?ns)]" and ?l2 = "l @ [ICtl (CListConfigs ?ns), ICtl (CApplyConfigMap ?ns ?cm)]"
  have p: "patching_round env m inst sp = (inst, m, Result_zero, None, False)" for m sp
    using assms(2) by (simp add: patching_round_def IsPatchingStateMachineEntryCondition_def change_wanted_def)
  from assms(1) have "l' \<in> {?l1, ?l2} \<or> (\<exists>sp. reconcile_restore env ?l2 inst sp = Some (inst', l', x))"
    by (auto simp: reconcile_config_def load_config_def p Let_def split: sum.splits prod.splits option.splits)
  then show ?thesis
  proof
    assume "\<exists>sp. reconcile_restore env ?l2 inst sp = Some (inst', l', x)"
    then obtain sp where "reconcile_restore env ?l2 inst sp = Some (inst', l', x)" by blast
    from reconcile_restore_keeping [OF this] assms(2) have "keeping ?l2 l'" by (simp add: change_wanted_def)
    then show ?thesis by (rule grows_prefix) simp
  qed auto
qed

lemma reconcile_active_keeping:
  assumes "reconcile_active env l inst = Some (inst', l', x)" and "\<not> change_wanted inst"
  shows "keeping l l'"
proof -
  have dn: "keeping l l'" if r: "reconcile_dnfs env m i = Some (inst', l', x)" and k: "keeping l m" and c: "\<not> change_wanted i" for m i
  proof -
    obtain m1 e where d: "setDnfs env m i (is_EnableDnfs (inst_Spec i)) = (m1, e)" by (rule prod.exhaust)
    have k1: "keeping l m1" using grows_trans [OF k setDnfs_keeping [OF d]] .
    have c1: "\<not> change_wanted (set_dnfs_status b i)" for b using c by (simp add: change_wanted_def set_dnfs_status_def)
    from r d consider "l' = m1" | "\<exists>b. reconcile_config env m1 (set_dnfs_status b i) = Some (inst', l', x)"
      | "reconcile_config env m i = Some (inst', l', x)"
      by (simp add: reconcile_dnfs_def Let_def split: if_splits option.splits) blast+
    then show ?thesis
    proof cases
      case 2
      then show ?thesis using reconcile_config_keeping c1 grows_trans [OF k1] by blast
    next
      case 3
      from grows_trans [OF k reconcile_config_keeping [OF 3 c]] show ?thesis .
    qed (use k1 in simp)
  qed
  have v: "\<not> change_wanted (seen_by_caller inst i)" for i using assms(2) by (simp add: change_wanted_def seen_by_caller_def)
  from assms(1) consider "l' = l @ [ICtl (CPauseLock (inst_Namespace inst @ ''-'' @ inst_Name inst))]"
    | "\<exists>r. standbyStateMachine env l inst = Some (inst', l', r)"
    | "\<exists>i r. parameterUpdateStateMachine env l inst = Some (i, l', r)"
    | "\<exists>i m r. parameterUpdateStateMachine env l inst = Some (i, m, r) \<and> reconcile_dnfs env m (seen_by_caller inst i) = Some (inst', l', x)"
    by (auto simp: reconcile_active_def Let_def split: if_splits option.splits prod.splits)
  then show ?thesis
  proof cases
    case 4
    then obtain i m r where m: "parameterUpdateStateMachine env l inst = Some (i, m, r)"
      "reconcile_dnfs env m (seen_by_caller inst i) = Some (inst', l', x)" by blast
    from dn [OF m(2) parameterUpdate_keeping [OF m(1)] v] show ?thesis .
  qed (use standby_keeping parameterUpdate_keeping in auto)
qed

text \<open>
  C33: claims are deleted and a database is restored over only on request. Whatever the answers of the server and of the
  daemon, a reconcile of an instance that wants no restore, has patching disabled and is not being
  patched deletes no claim and launches no physical restore, also when it is stopped, resized, deleted, changed
  in its parameters or made a standby; only an update of the object that answers with another specification
  is excluded.
\<close>

theorem data_destroyed_only_on_request:
  assumes "Reconcile_instance env l = Some (l', res, err)"
    and "\<forall>inst. ce_GetInstance (ie_ctl env) l = Inr inst \<longrightarrow> \<not> change_wanted inst"
    and "\<forall>l i j. ie_Update env l i = Inr j \<longrightarrow> change_wanted j = change_wanted i"
  shows "\<exists>calls. l' = l @ calls \<and> (\<forall>ns n. IDeletePVC ns n \<notin> set calls) \<and> (\<forall>req. IPhysicalRestore req \<notin> set calls)"
proof -
  let ?l = "l @ [ICtl CGetInstance]"
  have fin: "keeping m m'" if "reconcile_finalizer env m i = Some (j, m', y)" "\<not> change_wanted i" for m m' i j y
  proof -
    let ?i = "i\<lparr>inst_Finalizers := inst_Finalizers i @ [FinalizerName]\<rparr>"
    have c: "\<not> change_wanted ?i" using that(2) by (simp add: change_wanted_def)
    from that(1) consider "m' = m @ [IUpdate ?i]"
      | "\<exists>k. ie_Update env m ?i = Inr k \<and> reconcile_active env (m @ [IUpdate ?i]) k = Some (j, m', y)"
      | "reconcile_active env m i = Some (j, m', y)"
      by (auto simp: reconcile_finalizer_def Let_def split: if_splits sum.splits)
    then show ?thesis
    proof cases
      case 2
      then have "keeping (m @ [IUpdate ?i]) m'" using reconcile_active_keeping c assms(3) by blast
      then show ?thesis by (rule grows_prefix) simp
    qed (use reconcile_active_keeping that(2) in auto)
  qed
  have body: "keeping m m'" if b: "reconcile_body env m i = Some (j, m', y)" and c: "\<not> change_wanted i" for m m' i j y
  proof -
    have c1: "\<not> change_wanted (upsert env m i k8s_Ready ConditionFalse k8s_CreateInProgress ''Restarting Instance'')"
      using c by (simp add: change_wanted_def)
    from b consider "\<exists>z. reconcileInstanceDeletion env m = (m', z)" | "\<exists>z. reconcileInstanceStop env m = (m', z)"
      | "reconcile_finalizer env m (upsert env m i k8s_Ready ConditionFalse k8s_CreateInProgress ''Restarting Instance'') = Some (j, m', y)"
      | "reconcile_finalizer env m i = Some (j, m', y)"
      by (auto simp: reconcile_body_def Let_def split: if_splits prod.splits)
    then show ?thesis using reconcileInstanceDeletion_keeping reconcileInstanceStop_keeping fin c c1 by cases blast+
  qed
  have "keeping l l'"
  proof (cases "\<exists>inst i l2 r. ce_GetInstance (ie_ctl env) l = Inr inst \<and> reconcile_body env ?l inst = Some (i, l2, r) \<and>
      l' = l2 @ [IStatusUpdate (updateIsChangeApplied i)]")
    case True
    then obtain inst i l2 r where b: "ce_GetInstance (ie_ctl env) l = Inr inst" "reconcile_body env ?l inst = Some (i, l2, r)"
      "l' = l2 @ [IStatusUpdate (updateIsChangeApplied i)]" by blast
    have "keeping l l2" by (rule grows_prefix [OF body [OF b(2)]]) (use assms(2) b(1) in simp_all)
    with b(3) show ?thesis by simp
  next
    case False
    with assms(1) have "l' = ?l" by (auto simp: Reconcile_instance_def Let_def split: sum.splits if_splits option.splits)
    then show ?thesis by simp
  qed
  then obtain calls where "l' = l @ calls" "\<forall>c \<in> set calls. keeps_data c" by (auto simp: grows_def)
  then show ?thesis by fastforce
qed

text \<open>An instance without patching that is being deleted.\<close>

definition deleted_instance :: Instance where
  "deleted_instance = sample_instance\<lparr>inst_DeletionTimestamp := Some 5, inst_Spec := (inst_Spec sample_instance)\<lparr>is_Services := (\<lambda>_. False)\<rparr>\<rparr>"

definition deleted_env :: inst_env where
  "deleted_env = sample_env\<lparr>ie_ctl := sample_ctl\<lparr>ce_GetInstance := (\<lambda>_. Inr deleted_instance)\<rparr>\<rparr>"

lemma validate_sample: "is_CDBName (inst_Spec i) = ''GCLOUD'' \<Longrightarrow> is_DBUniqueName (inst_Spec i) = [] \<Longrightarrow> validateSpec i = None"
proof -
  assume a: "is_CDBName (inst_Spec i) = ''GCLOUD''" "is_DBUniqueName (inst_Spec i) = []"
  have "\<exists>x. Identifier ''GCLOUD'' = Inr x" by (simp add: Identifier_def)
  then show ?thesis using a by (auto simp: validateSpec_def)
qed

theorem data_destroyed_only_on_request_witness:
  "\<exists>calls res err. Reconcile_instance deleted_env [] = Some (calls, res, err) \<and> (\<exists>i. IUpdate i \<in> set calls \<and> inst_Finalizers i = []) \<and>
     (\<forall>ns n. IDeletePVC ns n \<notin> set calls)"
proof -
  have v: "validateSpec deleted_instance = None" by (rule validate_sample) (simp_all add: deleted_instance_def sample_instance_def)
  let ?i = "remove_finalizer deleted_instance"
  obtain l' res err where r: "Reconcile_instance deleted_env [] = Some (l', res, err)" "IUpdate ?i \<in> set l'"
    using v by (simp add: Reconcile_instance_def deleted_env_def reconcile_body_def IsDeleting_def deleted_instance_def
        reconcileInstanceDeletion_def removeMonitoringDeployment_def sample_env_def sample_ctl_def sample_instance_def IsNotFound_def)
  have g: "\<forall>inst. ce_GetInstance (ie_ctl deleted_env) [] = Inr inst \<longrightarrow> \<not> change_wanted inst"
    by (simp add: deleted_env_def deleted_instance_def change_wanted_def sample_instance_def)
  have u: "\<forall>l i j. ie_Update deleted_env l i = Inr j \<longrightarrow> change_wanted j = change_wanted i" by (simp add: deleted_env_def sample_env_def)
  have "inst_Finalizers ?i = []" by (simp add: remove_finalizer_def deleted_instance_def sample_instance_def)
  with data_destroyed_only_on_request [OF r(1) g u] r show ?thesis by auto
qed

end
