(* ===== verification/Host.thy ===== *)
theory Host
  imports Sql GoStd
begin

text \<open>
  The host on which the database daemon and its proxy run: the operating system, the database driver and Cloud
  Storage as an environment of answers, the two processes as a state, and the code that both servers share
  (\<open>pkg/database/provision/common.go\<close>, the \<open>osUtil\<close> of \<open>pkg/database/dbdaemon/utils.go\<close>, connection strings
  of \<open>pkg/agents/common\<close> and \<open>pkg/agents/security\<close>). Every call that changes something is recorded in a log, and an
  answer is a function of the log, so any behaviour of the host is an environment. Reads are not recorded.
\<close>

subsection \<open>The state of the two servers and the calls they make\<close>

text \<open>\<open>shutdownEnumMap\<close> answers \<open>ShutdownDefault\<close>, the zero value, for a name it does not have.\<close>

datatype shutdown_mode = ShutdownDefault | ShutdownImmediate | ShutdownTransactional | ShutdownAbort | ShutdownFinal

text \<open>Calls of the database carry the value of \<open>ORACLE_SID\<close> in the process that makes them, since it selects the
  instance.\<close>

datatype host_call =
    HRun string string "string list" string
  | HShutdown string shutdown_mode
  | HStartup string bool
  | HExec string string string
  | HGetLine string string
  | HQuery string string string
  | HMkdirAll string
  | HCreate string
  | HWrite string string
  | HFlush string
  | HRemove string
  | HRemoveAll string
  | HSymlink string string
  | HGcsWrite string string string
  | HGcsClose string string
  | HGcsDelete string string
  | HStageLogs string string

type_synonym host_log = "host_call list"

text \<open>How a command ends badly: with an exit code, or without having run.\<close>

datatype cmd_error = ExitError int string | NotRun string

fun cmd_msg :: "cmd_error \<Rightarrow> string" where
  "cmd_msg (ExitError _ m) = m"
| "cmd_msg (NotRun m) = m"

record host_file =
  hf_Name :: string
  hf_IsDir :: bool
  hf_ModTime :: go_time

text \<open>The rows of a query: the columns, and each row or the error of reading it.\<close>

type_synonym query_rows = "(go_error + string list) \<times> (go_error + string list) list"

text \<open>\<open>he_blocks\<close> is what reading an open file bit by bit gives: the blocks, and the error that ended it, if any.
  \<open>he_gzip_write\<close> and \<open>he_gzip_close\<close> are what a gzip writer passes on when a block is written after others, and when it
  is closed.\<close>

record host_env =
  he_err :: "host_log \<Rightarrow> host_call \<Rightarrow> go_error option"
  he_run :: "host_log \<Rightarrow> string \<Rightarrow> string \<Rightarrow> string list \<Rightarrow> string \<Rightarrow> string \<times> cmd_error option"
  he_open :: "host_log \<Rightarrow> string \<Rightarrow> string \<Rightarrow> go_error option"
  he_ping :: "host_log \<Rightarrow> string \<Rightarrow> string \<Rightarrow> go_error option"
  he_conn :: "host_log \<Rightarrow> string \<Rightarrow> string \<Rightarrow> go_error option"
  he_lines :: "host_log \<Rightarrow> string \<Rightarrow> string \<Rightarrow> string list \<times> go_error option"
  he_query :: "host_log \<Rightarrow> string \<Rightarrow> string \<Rightarrow> string \<Rightarrow> go_error + query_rows"
  he_setenv :: "string \<Rightarrow> string \<Rightarrow> go_error option"
  he_stat :: "host_log \<Rightarrow> string \<Rightarrow> go_error + host_file"
  he_lstat :: "host_log \<Rightarrow> string \<Rightarrow> go_error option"
  he_openf :: "host_log \<Rightarrow> string \<Rightarrow> go_error option"
  he_read :: "host_log \<Rightarrow> string \<Rightarrow> go_error + string"
  he_dir :: "host_log \<Rightarrow> string \<Rightarrow> go_error + host_file list"
  he_walk :: "host_log \<Rightarrow> string \<Rightarrow> (string \<times> (go_error + host_file)) list"
  he_hostname :: "host_log \<Rightarrow> go_error + string"
  he_gcs :: "host_log \<Rightarrow> go_error option"
  he_attrs :: "host_log \<Rightarrow> string \<Rightarrow> go_error option"
  he_objects :: "host_log \<Rightarrow> string \<Rightarrow> string \<Rightarrow> (go_error + string) list"
  he_object :: "host_log \<Rightarrow> string \<Rightarrow> string \<Rightarrow> go_error + (go_error + string)"
  he_blocks :: "host_log \<Rightarrow> string \<Rightarrow> string list \<times> go_error option"
  he_gzip_write :: "string list \<Rightarrow> string \<Rightarrow> string"
  he_gzip_close :: "string list \<Rightarrow> string"
  he_retries :: nat
  he_url_join :: "string \<Rightarrow> string \<Rightarrow> go_error + string"
  he_rpc :: "go_error \<Rightarrow> go_error"
  he_marshal :: "(string \<times> string) list \<Rightarrow> go_error + string"
  he_unmarshal :: "string \<Rightarrow> go_error + (string \<rightharpoonup> string)"
  he_range :: "(string \<rightharpoonup> string) \<Rightarrow> (string \<times> string) list"
  he_elements :: "string set \<Rightarrow> string list"
  he_rand :: "host_log \<Rightarrow> nat \<Rightarrow> nat \<Rightarrow> go_error + nat"
  he_now :: "host_log \<Rightarrow> go_time"
  he_user :: "string \<Rightarrow> go_error + string \<times> string \<times> string"
  he_group :: "string \<Rightarrow> go_error + string"
  he_template :: "string \<Rightarrow> (string \<times> string list) list \<Rightarrow> go_error + string"

text \<open>The daemon's \<open>Server\<close> (\<open>ds\<close>) and the proxy's (\<open>px\<close>), each with the environment variables of its process.\<close>

record dstate =
  ds_log :: host_log
  ds_env :: "string \<Rightarrow> string"
  ds_sid :: string
  ds_home :: string
  ds_hostName :: string
  ds_pdbConnStr :: string
  px_env :: "string \<Rightarrow> string"
  px_sid :: string
  px_home :: string
  px_version :: string

type_synonym 'a dres = "dstate \<times> (go_error + 'a)"

subsection \<open>Sequences of calls\<close>

text \<open>\<open>and_then r wrap k\<close>: an error of \<open>r\<close> is returned as \<open>wrap\<close> makes it, otherwise \<open>k\<close> goes on. \<open>ignoring\<close> goes on in
  any case, when an error is only logged.\<close>

definition and_then :: "'a dres \<Rightarrow> (go_error \<Rightarrow> go_error) \<Rightarrow> (dstate \<Rightarrow> 'a \<Rightarrow> 'b dres) \<Rightarrow> 'b dres" where
  "and_then r wrap k = (case r of (s, Inl err) \<Rightarrow> (s, Inl (wrap err)) | (s, Inr x) \<Rightarrow> k s x)"

definition ignoring :: "'a dres \<Rightarrow> (dstate \<Rightarrow> 'b dres) \<Rightarrow> 'b dres" where
  "ignoring r k = k (fst r)"

definition prefixed :: "string \<Rightarrow> go_error \<Rightarrow> go_error" where
  "prefixed p err = Errorf (p @ err_msg err)"

abbreviation done_ok :: "dstate \<Rightarrow> unit dres" where "done_ok s \<equiv> (s, Inr ())"

definition res :: "go_error option \<Rightarrow> go_error + unit" where
  "res e = (case e of None \<Rightarrow> Inr () | Some err \<Rightarrow> Inl err)"

definition call :: "host_env \<Rightarrow> dstate \<Rightarrow> host_call \<Rightarrow> unit dres" where
  "call he s c = (s\<lparr>ds_log := ds_log s @ [c]\<rparr>, res (he_err he (ds_log s) c))"

lemma and_then_ok [simp]: "and_then (s, Inr x) wrap k = k s x"
  and and_then_err [simp]: "and_then (s, Inl err) wrap k = (s, Inl (wrap err))"
  by (simp_all add: and_then_def)

lemma and_then_Inr: "and_then r wrap k = (s', Inr y) \<longleftrightarrow> (\<exists>s x. r = (s, Inr x) \<and> k s x = (s', Inr y))"
  by (auto simp: and_then_def split: prod.splits sum.splits)

lemma and_then_cases:
  assumes "and_then r wrap k = (s', y)"
  obtains (err) err where "r = (s', Inl err)" "y = Inl (wrap err)" | (ok) s x where "r = (s, Inr x)" "k s x = (s', y)"
  using assms by (auto simp: and_then_def split: prod.splits sum.splits)

lemma res_simps [simp]: "res None = Inr ()" "res (Some err) = Inl err"
  by (simp_all add: res_def)

lemma res_Inr [simp]: "res e = Inr u \<longleftrightarrow> e = None"
  by (cases e) simp_all

lemma call_log [simp]: "ds_log (fst (call he s c)) = ds_log s @ [c]"
  by (simp add: call_def)

lemma call_Inr: "call he s c = (s', Inr u) \<longleftrightarrow> s' = s\<lparr>ds_log := ds_log s @ [c]\<rparr> \<and> he_err he (ds_log s) c = None"
  by (auto simp: call_def)

subsection \<open>Files and paths\<close>

text \<open>\<open>strings.Split\<close> with a separator of one character.\<close>

fun split_on :: "char \<Rightarrow> string \<Rightarrow> string list" where
  "split_on x [] = [[]]"
| "split_on x (c # s) =
     (if c = x then [] # split_on x s
      else case split_on x s of [] \<Rightarrow> [[c]] | e # es \<Rightarrow> (c # e) # es)"

lemma split_on_ne [simp]: "split_on x s \<noteq> []"
  by (cases s) (simp_all split: list.splits)

text \<open>\<open>path/filepath\<close>: \<open>Clean\<close>, \<open>Join\<close>, \<open>Dir\<close> and \<open>Rel\<close>.\<close>

fun clean_els :: "bool \<Rightarrow> string list \<Rightarrow> string list \<Rightarrow> string list" where
  "clean_els rooted acc [] = rev acc"
| "clean_els rooted acc (e # es) =
     (if e = [] \<or> e = ''.'' then clean_els rooted acc es
      else if e = ''..'' then
        (case acc of
           [] \<Rightarrow> clean_els rooted (if rooted then [] else [''..'']) es
         | a # as \<Rightarrow> if a = ''..'' then clean_els rooted (''..'' # acc) es else clean_els rooted as es)
      else clean_els rooted (e # acc) es)"

definition rooted :: "string \<Rightarrow> bool" where
  "rooted p = HasPrefix p ''/''"

definition path_els :: "string \<Rightarrow> string list" where
  "path_els p = clean_els (rooted p) [] (split_on (CHR ''/'') p)"

definition path_Clean :: "string \<Rightarrow> string" where
  "path_Clean p =
     (let es = path_els p in
      if rooted p then ''/'' @ Join es ''/'' else if es = [] then ''.'' else Join es ''/'')"

definition path_Join :: "string list \<Rightarrow> string" where
  "path_Join ps = (case filter (\<lambda>p. p \<noteq> []) ps of [] \<Rightarrow> [] | qs \<Rightarrow> path_Clean (Join qs ''/''))"

definition path_Dir :: "string \<Rightarrow> string" where
  "path_Dir p = path_Clean (rev (dropWhile (\<lambda>c. c \<noteq> CHR ''/'') (rev p)))"

fun drop_common :: "string list \<Rightarrow> string list \<Rightarrow> string list \<times> string list" where
  "drop_common (b # bs) (t # ts) = (if b = t then drop_common bs ts else (b # bs, t # ts))"
| "drop_common bs ts = (bs, ts)"

definition path_Rel :: "string \<Rightarrow> string \<Rightarrow> go_error + string" where
  "path_Rel base targ =
     (if rooted base \<noteq> rooted targ then Inl (Errorf (''Rel: can'' @ [squote] @ ''t make '' @ targ @ '' relative to '' @ base))
      else case drop_common (path_els base) (path_els targ) of
        (bs, ts) \<Rightarrow>
          if ''..'' \<in> set bs then Inl (Errorf (''Rel: can'' @ [squote] @ ''t make '' @ targ @ '' relative to '' @ base))
          else Inr (if bs = [] \<and> ts = [] then ''.'' else Join (map (\<lambda>_. ''..'') bs @ ts) ''/''))"

text \<open>\<open>osUtilImpl.createFile\<close>: what the buffered writer could not flush at the end is only logged.\<close>

definition osUtil_createFile :: "host_env \<Rightarrow> dstate \<Rightarrow> string \<Rightarrow> go_error + string \<Rightarrow> unit dres" where
  "osUtil_createFile he s file content =
     and_then (call he s (HMkdirAll (path_Dir file))) (prefixed ''couldn't create dir err: '') (\<lambda>s _.
     and_then (call he s (HCreate file)) (prefixed ''couldn't create file err: '') (\<lambda>s _.
     (case content of
        Inl err \<Rightarrow> (fst (call he s (HFlush file)), Inl (prefixed ''copying contents failed: '' err))
      | Inr text \<Rightarrow>
          (case call he s (HWrite file text) of
             (s1, Inl err) \<Rightarrow> (fst (call he s1 (HFlush file)), Inl (prefixed ''copying contents failed: '' err))
           | (s1, Inr _) \<Rightarrow> done_ok (fst (call he s1 (HFlush file)))))))"

text \<open>\<open>osUtilImpl.isReturnCodeEqual\<close>.\<close>

definition isReturnCodeEqual :: "cmd_error \<Rightarrow> int \<Rightarrow> bool" where
  "isReturnCodeEqual err code = (case err of ExitError c _ \<Rightarrow> c = code | NotRun _ \<Rightarrow> False)"

end
