(* ===== verification/Provision.thy ===== *)
theory Provision
  imports Host
begin

text \<open>
  \<open>pkg/database/provision/common.go\<close>: directories, configuration files and their links, initial parameters, and what
  is known of the image. The text templates are a parameter.
\<close>

abbreviation DataMount :: string where "DataMount \<equiv> ''u02''"
abbreviation OracleBase :: string where "OracleBase \<equiv> ''/u02/app/oracle''"
abbreviation ProvisioningDoneFile :: string where "ProvisioningDoneFile \<equiv> ''/u02/app/oracle/provisioning_successful''"
abbreviation SeededImageFile :: string where "SeededImageFile \<equiv> ''/tmp/seeded_image''"
abbreviation UnseededImageFile :: string where "UnseededImageFile \<equiv> ''/tmp/unseeded_image''"

definition cdb_data_dir :: "string \<Rightarrow> string" where
  "cdb_data_dir cdb = ''/u02/app/oracle/oradata/'' @ cdb"

definition cdb_config_dir :: "string \<Rightarrow> string" where
  "cdb_config_dir cdb = ''/u02/app/oracle/oraconfig/'' @ cdb"

subsection \<open>Files\<close>

fun MakeDirs :: "host_env \<Rightarrow> dstate \<Rightarrow> string list \<Rightarrow> unit dres" where
  "MakeDirs he s [] = done_ok s"
| "MakeDirs he s (odir # dirs) =
     and_then (call he s (HMkdirAll odir)) (prefixed (''create a directory '' @ odir @ '' failed: ''))
       (\<lambda>s _. MakeDirs he s dirs)"

text \<open>\<open>bytes.Replace\<close> of all occurrences; an empty text is found before every character and at the end.\<close>

function replace_all :: "string \<Rightarrow> string \<Rightarrow> string \<Rightarrow> string" where
  "replace_all old new [] = (if old = [] then new else [])"
| "replace_all old new (c # s) =
     (if old = [] then new @ c # replace_all old new s
      else if HasPrefix (c # s) old then new @ replace_all old new (drop (length old) (c # s))
      else c # replace_all old new s)"
  by pat_completeness auto
termination by (relation "measure (\<lambda>(_, _, s). length s)") auto

definition replace_in_file :: "host_env \<Rightarrow> dstate \<Rightarrow> string \<Rightarrow> string \<Rightarrow> string \<Rightarrow> unit dres" where
  "replace_in_file he s outFile old new =
     (case he_read he (ds_log s) outFile of
        Inl err \<Rightarrow> (s, Inl (prefixed (''replace: reading '' @ outFile @ '' failed: '') err))
      | Inr input \<Rightarrow>
          and_then (call he s (HWrite outFile (replace_all old new input))) (prefixed ''replace: error writing file: '')
            (\<lambda>s _. done_ok s))"

definition MoveFile :: "host_env \<Rightarrow> dstate \<Rightarrow> string \<Rightarrow> string \<Rightarrow> unit dres" where
  "MoveFile he s sourceFile destFile =
     (case he_openf he (ds_log s) sourceFile of
        Some err \<Rightarrow> (s, Inl (prefixed ''couldn't open source file: '' err))
      | None \<Rightarrow>
          and_then (call he s (HCreate destFile)) (prefixed ''couldn't open dest file: '') (\<lambda>s _.
          (case he_read he (ds_log s) sourceFile of
             Inl err \<Rightarrow> (s, Inl (prefixed ''writing to output file failed: '' err))
           | Inr text \<Rightarrow>
               and_then (call he s (HWrite destFile text)) (prefixed ''writing to output file failed: '') (\<lambda>s _.
               call he s (HRemove sourceFile)))))"

fun move_config_loop :: "host_env \<Rightarrow> dstate \<Rightarrow> string \<Rightarrow> string \<Rightarrow> string list \<Rightarrow> unit dres" where
  "move_config_loop he s sourceConfigDir configDir [] = done_ok s"
| "move_config_loop he s sourceConfigDir configDir (f # fs) =
     (let sf = path_Join [sourceConfigDir, f]; tf = path_Join [configDir, f]; tfDir = path_Dir tf in
      and_then (call he s (HMkdirAll tfDir)) (prefixed (''MoveConfigFiles: failed to create dir '' @ tfDir @ '': '')) (\<lambda>s _.
      and_then (MoveFile he s sf tf) (prefixed (''MoveConfigFiles: move config file '' @ sf @ '' to '' @ tf @ '' failed: '')) (\<lambda>s _.
      move_config_loop he s sourceConfigDir configDir fs)))"

definition MoveConfigFiles :: "host_env \<Rightarrow> dstate \<Rightarrow> string \<Rightarrow> string \<Rightarrow> unit dres" where
  "MoveConfigFiles he s oracleHome cdb =
     move_config_loop he s (path_Join [oracleHome, ''dbs'']) (cdb_config_dir cdb) [''spfile'' @ cdb @ ''.ora'', ''orapw'' @ cdb]"

definition getConfigFilesMapping :: "string \<Rightarrow> string \<Rightarrow> string \<rightharpoonup> string" where
  "getConfigFilesMapping oracleHome cdb =
     foldl (\<lambda>m f. m(path_Join [path_Join [oracleHome, ''dbs''], f] \<mapsto> path_Join [cdb_config_dir cdb, f])) Map.empty
       [''spfile'' @ cdb @ ''.ora'', ''init'' @ cdb @ ''.ora'', ''orapw'' @ cdb]"

fun remove_links :: "host_env \<Rightarrow> dstate \<Rightarrow> (string \<times> string) list \<Rightarrow> unit dres" where
  "remove_links he s [] = done_ok s"
| "remove_links he s ((link, file) # ls) =
     (if he_lstat he (ds_log s) link = None
      then and_then (call he s (HRemove link)) (prefixed (''RemoveConfigFileLinks: unable to delete existing link '' @ link @ '': ''))
             (\<lambda>s _. remove_links he s ls)
      else remove_links he s ls)"

definition RemoveConfigFileLinks :: "host_env \<Rightarrow> dstate \<Rightarrow> string \<Rightarrow> string \<Rightarrow> unit dres" where
  "RemoveConfigFileLinks he s oracleHome cdb = remove_links he s (he_range he (getConfigFilesMapping oracleHome cdb))"

fun make_links :: "host_env \<Rightarrow> dstate \<Rightarrow> (string \<times> string) list \<Rightarrow> unit dres" where
  "make_links he s [] = done_ok s"
| "make_links he s ((link, file) # ls) =
     and_then (call he s (HSymlink file link))
       (prefixed (''RelinkConfigFiles: symlink creation failed from '' @ link @ '' to oracle directories '' @ file @ '': ''))
       (\<lambda>s _. make_links he s ls)"

definition RelinkConfigFiles :: "host_env \<Rightarrow> dstate \<Rightarrow> string \<Rightarrow> string \<Rightarrow> unit dres" where
  "RelinkConfigFiles he s oracleHome cdb =
     and_then (RemoveConfigFileLinks he s oracleHome cdb) (prefixed ''RelinkConfigFiles: unable to delete existing links: '') (\<lambda>s _.
     make_links he s (he_range he (getConfigFilesMapping oracleHome cdb)))"

subsection \<open>Users\<close>

definition parse_uint32 :: "string \<Rightarrow> go_error + int" where
  "parse_uint32 t =
     (case unsigned_val t of
        None \<Rightarrow> Inl (Errorf (''strconv.ParseUint: parsing '' @ t @ '': invalid syntax''))
      | Some v \<Rightarrow> if v < 4294967296 then Inr v else Inl (Errorf (''strconv.ParseUint: parsing '' @ t @ '': value out of range'')))"

text \<open>\<open>he_user\<close> answers with the name, the user id and the group id.\<close>

definition oracleUser :: "host_env \<Rightarrow> go_error + int \<times> int" where
  "oracleUser he =
     (case he_user he ''oracle'' of
        Inl err \<Rightarrow> Inl (prefixed ''oracleUser: could not determine the current user: '' err)
      | Inr (name, uid, gid) \<Rightarrow>
          if name = ''root''
          then Inl (Errorf (''oracleUser: this program is designed to run by the Oracle software installation owner (e.g. oracle), not '' @ name))
          else if gid \<in> set (concat (map (\<lambda>g. case he_group he g of Inl _ \<Rightarrow> [] | Inr i \<Rightarrow> [i]) [''dba'', ''oinstall'']))
          then (case parse_uint32 uid of
                  Inl err \<Rightarrow> Inl err
                | Inr usr \<Rightarrow> map_sum id (\<lambda>grp. (usr, grp)) (parse_uint32 gid))
          else Inl (Errorf (''oracleUser: current user's primary group (GID='' @ gid @ '') is not dba|oinstall'')))"

definition CreateUserCmd :: "string \<Rightarrow> string \<Rightarrow> string" where
  "CreateUserCmd usr identifier = ''create user '' @ usr @ '' identified by '' @ identifier"

definition ChangePasswordCmd :: "string \<Rightarrow> string \<Rightarrow> string" where
  "ChangePasswordCmd usr newIdentifier = ''alter user '' @ usr @ '' identified by '' @ newIdentifier @ '' ''"

definition GrantUserCmd :: "string \<Rightarrow> string \<Rightarrow> string" where
  "GrantUserCmd usr permissions = ''grant '' @ permissions @ '' to '' @ usr"

subsection \<open>The image\<close>

text \<open>A home without a slash makes the index negative: a panic.\<close>

definition getOracleVersionUsingOracleHome :: "string \<Rightarrow> string option" where
  "getOracleVersionUsingOracleHome oracleHome =
     (let tokens = split_on (CHR ''/'') oracleHome in
      if length tokens < 2 then None else Some (tokens ! (length tokens - 2)))"

definition not_exist :: "host_env \<Rightarrow> host_log \<Rightarrow> string \<Rightarrow> bool" where
  "not_exist he l p = (case he_stat he l p of Inl err \<Rightarrow> IsNotFound err | Inr _ \<Rightarrow> False)"

text \<open>Oracle home, name of the container database and version; the proxy calls it. It returns no error.\<close>

definition FetchMetaDataFromImage :: "host_env \<Rightarrow> dstate \<Rightarrow> (string \<times> string \<times> string) option" where
  "FetchMetaDataFromImage he s =
     (let sid = px_env s ''ORACLE_SID''; home = px_env s ''ORACLE_HOME'';
          cdb = (if sid \<noteq> [] \<and> not_exist he (ds_log s) (px_env s ''ORACLE_BASE'' @ ''/oradata/'' @ sid) \<and>
                    not_exist he (ds_log s) (cdb_data_dir sid)
                 then [] else sid)
      in map_option (\<lambda>version. (home, cdb, version)) (getOracleVersionUsingOracleHome home))"

subsection \<open>Initial parameters\<close>

definition GetDefaultInitParams :: "string \<Rightarrow> string \<rightharpoonup> string" where
  "GetDefaultInitParams dbName =
     [''log_archive_dest_1'' \<mapsto> [squote] @ ''LOCATION=USE_DB_RECOVERY_FILE_DEST'' @ [squote],
      ''enable_pluggable_database'' \<mapsto> ''TRUE'',
      ''common_user_prefix'' \<mapsto> [squote] @ ''gcsql$'' @ [squote],
      ''control_files'' \<mapsto> [squote] @ path_Join [cdb_data_dir dbName, ''control01.ctl''] @ [squote]]"

definition MapToSlice :: "host_env \<Rightarrow> (string \<rightharpoonup> string) \<Rightarrow> string list" where
  "MapToSlice he kv = map (\<lambda>(k, v). k @ ''='' @ v) (he_range he kv)"

fun merge_user_params :: "(string \<rightharpoonup> string) \<Rightarrow> string list \<Rightarrow> go_error + (string \<rightharpoonup> string)" where
  "merge_user_params m [] = Inr m"
| "merge_user_params m (p # ps) =
     (case split_on (CHR ''='') p of
        [k, v] \<Rightarrow> merge_user_params (m(k \<mapsto> v)) ps
      | _ \<Rightarrow> Inl (Errorf (''MergeInitParam: user param '' @ p @ '' is not separated by ='')))"

text \<open>The parameters of the operator override those of the user.\<close>

definition MergeInitParams :: "(string \<rightharpoonup> string) \<Rightarrow> string list \<Rightarrow> go_error + (string \<rightharpoonup> string)" where
  "MergeInitParams defaultParams userParams = map_sum id (\<lambda>m. m ++ defaultParams) (merge_user_params Map.empty userParams)"

subsection \<open>Listeners\<close>

record ListenerInput =
  li_PluggableDatabaseNames :: "string list"
  li_DatabaseName :: string
  li_DatabaseBase :: string
  li_DatabaseHome :: string
  li_ListenerName :: string
  li_ListenerPort :: string
  li_ListenerProtocol :: string
  li_DatabaseHost :: string
  li_DBDomain :: string
  li_CDBServiceName :: string

text \<open>The fields as the templates see them.\<close>

definition listener_fields :: "ListenerInput \<Rightarrow> (string \<times> string list) list" where
  "listener_fields i =
     [(''PluggableDatabaseNames'', li_PluggableDatabaseNames i), (''DatabaseName'', [li_DatabaseName i]), (''DatabaseBase'', [li_DatabaseBase i]),
      (''DatabaseHome'', [li_DatabaseHome i]), (''ListenerName'', [li_ListenerName i]), (''ListenerPort'', [li_ListenerPort i]),
      (''ListenerProtocol'', [li_ListenerProtocol i]), (''DatabaseHost'', [li_DatabaseHost i]), (''DBDomain'', [li_DBDomain i]),
      (''CDBServiceName'', [li_CDBServiceName i])]"

text \<open>The texts of \<open>listener.ora\<close>, \<open>tnsnames.ora\<close> and \<open>sqlnet.ora\<close>; parsing and executing a template are one step.\<close>

definition LoadTemplateListener ::
    "host_env \<Rightarrow> host_log \<Rightarrow> ListenerInput \<Rightarrow> string \<Rightarrow> string \<Rightarrow> string \<Rightarrow> go_error + string \<times> string \<times> string" where
  "LoadTemplateListener he l i name port protocol =
     (let fs = listener_fields (i\<lparr>li_ListenerName := name, li_ListenerPort := port, li_ListenerProtocol := protocol\<rparr>) in
      case he_template he ''/agents/bootstrap-database-listener.template'' fs of
        Inl err \<Rightarrow> Inl (prefixed ''LoadTemplateListener: executing /agents/bootstrap-database-listener.template failed: '' err)
      | Inr listener \<Rightarrow>
      (case he_template he ''/agents/bootstrap-database-tnsnames.template'' fs of
         Inl err \<Rightarrow> Inl (prefixed ''LoadTemplateListener: executing /agents/bootstrap-database-tnsnames.template failed: '' err)
       | Inr tns \<Rightarrow>
      (case he_read he l ''/agents/sqlnet.ora'' of
         Inl err \<Rightarrow> Inl (prefixed ''initDBListeners: unable to read sqlnet from scripts directory: '' err)
       | Inr sqlnet \<Rightarrow> Inr (listener, tns, sqlnet))))"

end
