(* ===== verification/Proxy.thy ===== *)
theory Proxy
  imports Provision
begin

text \<open>
  \<open>pkg/database/dbdaemonproxy/dbdaemon_proxy.go\<close>: the proxy that runs beside the database processes. It starts and
  stops the database and the listener, and runs \<open>dbca\<close>, \<open>nid\<close>, \<open>make\<close> and the initialisation program.
\<close>

datatype bounce_operation = STARTUP | SHUTDOWN | UNKNOWN_OPERATION
datatype DatabaseState = READY | STOPPED | DATABASE_STATE_ERROR

record BounceDatabaseRequest =
  bd_Operation :: bounce_operation
  bd_DatabaseName :: string
  bd_Option :: string
  bd_AvoidConfigBackup :: bool

datatype listener_operation = LISTENER_START | LISTENER_STOP | UNKNOWN_LISTENER_OPERATION

text \<open>Errors of \<open>os.Setenv\<close> are not looked at in the proxy.\<close>

definition px_setenv :: "host_env \<Rightarrow> dstate \<Rightarrow> string \<Rightarrow> string \<Rightarrow> dstate" where
  "px_setenv he s k v = (case he_setenv he k v of None \<Rightarrow> s\<lparr>px_env := (px_env s)(k := v)\<rparr> | Some _ \<Rightarrow> s)"

abbreviation px_SID :: "dstate \<Rightarrow> string" where "px_SID s \<equiv> px_env s ''ORACLE_SID''"

abbreviation sysdba :: string where "sysdba \<equiv> ''oracle://?sysdba=1''"
abbreviation sysdba_prelim :: string where "sysdba_prelim \<equiv> ''oracle://?sysdba=1&prelim=1''"

subsection \<open>Starting and stopping the database\<close>

definition opened_conn :: "host_env \<Rightarrow> dstate \<Rightarrow> string \<Rightarrow> string \<Rightarrow> go_error + unit" where
  "opened_conn he s sid url =
     (case he_open he (ds_log s) sid url of Some err \<Rightarrow> Inl err | None \<Rightarrow> res (he_conn he (ds_log s) sid url))"

text \<open>The statements that close and dismount: \<open>ORA-01507\<close> says that it is done already.\<close>

definition exec_unless_done :: "host_env \<Rightarrow> dstate \<Rightarrow> string \<Rightarrow> string \<Rightarrow> unit dres" where
  "exec_unless_done he s sid stmt =
     (case call he s (HExec sid sysdba stmt) of
        (s1, Inl err) \<Rightarrow> if Contains_str (err_msg err) ''ORA-01507:'' then done_ok s1 else (s1, Inl err)
      | (s1, Inr _) \<Rightarrow> done_ok s1)"

definition shutdownDatabase :: "host_env \<Rightarrow> dstate \<Rightarrow> shutdown_mode \<Rightarrow> unit dres" where
  "shutdownDatabase he s mode =
     (let sid = px_SID s in
      and_then (s, opened_conn he s sid sysdba) id (\<lambda>s _.
      and_then (call he s (HShutdown sid mode)) id (\<lambda>s _.
      if mode = ShutdownAbort then done_ok s
      else
        and_then (exec_unless_done he s sid ''alter database close normal'') id (\<lambda>s _.
        and_then (exec_unless_done he s sid ''alter database dismount'') id (\<lambda>s _.
        call he s (HShutdown sid ShutdownFinal))))))"

definition startupDatabase :: "host_env \<Rightarrow> dstate \<Rightarrow> bool \<Rightarrow> string \<Rightarrow> unit dres" where
  "startupDatabase he s force state =
     (let sid = px_SID s in
      and_then (s, opened_conn he s sid sysdba_prelim) id (\<lambda>s _.
      and_then (call he s (HStartup sid force)) id (\<lambda>s _.
      if ToLower state = ''nomount'' then done_ok s
      else
        and_then (s, res (he_open he (ds_log s) sid sysdba)) id (\<lambda>s _.
        and_then (call he s (HExec sid sysdba ''alter database mount'')) id (\<lambda>s _.
        if ToLower state = ''mount'' then done_ok s
        else call he s (HExec sid sysdba ''alter database open''))))))"

abbreviation validStartupOptions :: "string set" where
  "validStartupOptions \<equiv> {''nomount'', ''mount'', ''open'', ''force_nomount''}"

abbreviation validShutdownOptions :: "string set" where
  "validShutdownOptions \<equiv> {''immediate'', ''transactional'', ''abort''}"

definition shutdownEnumMap :: "string \<Rightarrow> shutdown_mode" where
  "shutdownEnumMap opt =
     (if opt = ''immediate'' then ShutdownImmediate else if opt = ''transactional'' then ShutdownTransactional
      else if opt = ''abort'' then ShutdownAbort else ShutdownDefault)"

definition illegal_option :: "BounceDatabaseRequest \<Rightarrow> bool" where
  "illegal_option req =
     (bd_Option req \<noteq> [] \<and>
      bd_Option req \<notin> (if bd_Operation req = STARTUP then validStartupOptions else validShutdownOptions))"

text \<open>An illegal option is reported in the response, not as an error.\<close>

definition px_BounceDatabase :: "host_env \<Rightarrow> dstate \<Rightarrow> BounceDatabaseRequest \<Rightarrow> (DatabaseState \<times> string list) dres" where
  "px_BounceDatabase he s req =
     (if bd_Operation req = UNKNOWN_OPERATION then (s, Inl (Errorf ''illegal operation requested''))
      else if illegal_option req
      then (s, Inr (DATABASE_STATE_ERROR, [''illegal option '' @ bd_Option req @ '' requested for operation '' @
              (if bd_Operation req = STARTUP then ''STARTUP'' else ''SHUTDOWN'')]))
      else
        (let s1 = px_setenv he s ''ORACLE_SID'' (bd_DatabaseName req) in
         if bd_Operation req = SHUTDOWN then
           (case shutdownDatabase he s1 (shutdownEnumMap (bd_Option req)) of
              (s2, Inl err) \<Rightarrow> if Contains_str (err_msg err) ''ORA-01034:'' then (s2, Inr (STOPPED, [])) else (s2, Inl err)
            | (s2, Inr _) \<Rightarrow> (s2, Inr (STOPPED, [])))
         else
           and_then
             (if bd_Option req = ''force_nomount'' then startupDatabase he s1 True ''nomount''
              else startupDatabase he s1 False (bd_Option req)) id
             (\<lambda>s _. (s, Inr (READY, [])))))"

subsection \<open>Commands\<close>

abbreviation bin_of :: "string \<Rightarrow> string \<Rightarrow> string" where
  "bin_of home name \<equiv> path_Join [home, ''bin'', name]"

text \<open>\<open>osUtilImpl.runCommand\<close> of the proxy. The path of the binary is looked up in the environment's Oracle home.\<close>

definition px_osUtil_runCommand :: "host_env \<Rightarrow> dstate \<Rightarrow> string \<Rightarrow> string list \<Rightarrow> unit dres" where
  "px_osUtil_runCommand he s bin params =
     (let ohome = px_env s ''ORACLE_HOME'' in
      if bin \<notin> set (map (bin_of ohome) [''lsnrctl'', ''rman'', ''orapwd'', ''dbca'', ''nid'']) \<and> bin \<noteq> ''/usr/bin/make''
      then (s, Inl (Errorf (''command '' @ bin @ '' is not supported'')))
      else
        (s\<lparr>ds_log := ds_log s @ [HRun (px_SID s) bin params []]\<rparr>,
         case snd (he_run he (ds_log s) (px_SID s) bin params []) of
           None \<Rightarrow> Inr ()
         | Some e \<Rightarrow> Inl (Errorf (''command '' @ bin @ '' failed: '' @ cmd_msg e))))"

definition px_runCommand :: "host_env \<Rightarrow> dstate \<Rightarrow> string \<Rightarrow> string list \<Rightarrow> unit dres" where
  "px_runCommand he s bin params = px_osUtil_runCommand he (px_setenv he s ''ORACLE_SID'' (px_sid s)) bin params"

definition px_BounceListener :: "host_env \<Rightarrow> dstate \<Rightarrow> listener_operation \<Rightarrow> string \<Rightarrow> string \<Rightarrow> unit dres" where
  "px_BounceListener he s oper listenerName tnsAdmin =
     (if oper = UNKNOWN_LISTENER_OPERATION
      then (s, Inl (Errorf (''illegal operation requested for listener '' @ listenerName)))
      else
        and_then
          (px_runCommand he (px_setenv he s ''TNS_ADMIN'' tnsAdmin) (bin_of (px_home s) ''lsnrctl'')
             [if oper = LISTENER_START then ''start'' else ''stop'', listenerName])
          (prefixed (''a listener '' @ listenerName @ '' command failed: '')) (\<lambda>s _. done_ok s))"

definition dot_env :: "string \<Rightarrow> string \<Rightarrow> string \<Rightarrow> string list" where
  "dot_env dbHome base dbName =
     map (\<lambda>t. t @ [CHR 0x0A])
       [''export ORACLE_HOME='' @ dbHome, ''export ORACLE_BASE='' @ base, ''export ORACLE_SID='' @ dbName,
        ''export PATH='' @ dbHome @ ''/bin:'' @ dbHome @
          ''/OPatch:/usr/local/bin:/usr/local/sbin:/sbin:/bin:/usr/sbin:/usr/bin:/root/bin'',
        ''export LD_LIBRARY_PATH='' @ dbHome @ ''/lib:/usr/lib'']"

text \<open>Errors of writing are not looked at; the error of closing is that of the last flush.\<close>

definition createDotEnv :: "host_env \<Rightarrow> dstate \<Rightarrow> string \<Rightarrow> string \<Rightarrow> unit dres" where
  "createDotEnv he s dbHome dbName =
     (let file = ''/home/oracle/'' @ dbName @ ''.env'' in
      and_then (call he s (HCreate file)) id (\<lambda>s _.
      call he (foldl (\<lambda>s t. fst (call he s (HWrite file t))) s (dot_env dbHome (px_env s ''ORACLE_BASE'') dbName)) (HFlush file)))"

definition initializeEnvironment :: "host_env \<Rightarrow> dstate \<Rightarrow> string \<Rightarrow> string \<Rightarrow> unit dres" where
  "initializeEnvironment he s home dbName = createDotEnv he (s\<lparr>px_home := home, px_sid := dbName\<rparr>) home dbName"

definition ProxyRunDbca :: "host_env \<Rightarrow> dstate \<Rightarrow> string \<Rightarrow> string \<Rightarrow> string list \<Rightarrow> unit dres" where
  "ProxyRunDbca he s oracleHome dbName params =
     and_then (RemoveConfigFileLinks he s oracleHome dbName) id (\<lambda>s _.
     and_then (px_osUtil_runCommand he s (bin_of oracleHome ''dbca'') params) (prefixed ''dbca cmd failed: '') (\<lambda>s _.
     and_then (initializeEnvironment he s oracleHome dbName) id (\<lambda>s _.
     and_then (MoveConfigFiles he s oracleHome dbName) id (\<lambda>s _.
     RelinkConfigFiles he s oracleHome dbName))))"

definition ProxyRunNID :: "host_env \<Rightarrow> dstate \<Rightarrow> string list \<Rightarrow> string \<Rightarrow> unit dres" where
  "ProxyRunNID he s params destDbName =
     and_then (px_osUtil_runCommand he s (bin_of (px_home s) ''nid'') params) (prefixed ''nid cmd failed: '') (\<lambda>s _.
     createDotEnv he (s\<lparr>px_sid := destDbName\<rparr>) (px_home s) destDbName)"

definition ProxyRunInitOracle :: "host_env \<Rightarrow> dstate \<Rightarrow> string list \<Rightarrow> unit dres" where
  "ProxyRunInitOracle he s params =
     (s\<lparr>ds_log := ds_log s @ [HRun (px_SID s) ''./agents/init_oracle'' params []]\<rparr>,
      case snd (he_run he (ds_log s) (px_SID s) ''./agents/init_oracle'' params []) of
        None \<Rightarrow> Inr ()
      | Some e \<Rightarrow> Inl (Errorf (''init_oracle failed: '' @ cmd_msg e)))"

text \<open>Version, container database, Oracle home, and whether the image is seeded. A panic is \<open>None\<close>.\<close>

definition ProxyFetchServiceImageMetaData ::
    "host_env \<Rightarrow> dstate \<Rightarrow> (go_error + string \<times> string \<times> string \<times> bool) option" where
  "ProxyFetchServiceImageMetaData he s =
     (case FetchMetaDataFromImage he s of
        None \<Rightarrow> None
      | Some (oracleHome, cdbName, version) \<Rightarrow>
          Some (case he_stat he (ds_log s) SeededImageFile of
             Inr _ \<Rightarrow> Inr (version, cdbName, oracleHome, True)
           | Inl _ \<Rightarrow>
               (case he_stat he (ds_log s) UnseededImageFile of
                  Inr _ \<Rightarrow> Inr (version, cdbName, oracleHome, False)
                | Inl err \<Rightarrow> Inl (prefixed ''could not determine if image is seeded or not: '' err))))"

definition px_SetDnfsState :: "host_env \<Rightarrow> dstate \<Rightarrow> bool \<Rightarrow> unit dres" where
  "px_SetDnfsState he s enable =
     and_then
       (px_runCommand he s ''/usr/bin/make''
          [''-f'', px_env s ''ORACLE_HOME'' @ ''/rdbms/lib/ins_rdbms.mk'', if enable then ''dnfs_on'' else ''dnfs_off''])
       (\<lambda>_. Errorf ''dbdaemon/SetDnfsState error while running dNFS turning on command'') (\<lambda>s _. done_ok s)"

text \<open>\<open>New\<close>: a panic is \<open>None\<close>.\<close>

definition px_New :: "host_env \<Rightarrow> dstate \<Rightarrow> string \<Rightarrow> unit dres option" where
  "px_New he s cdbNameFromYaml =
     (case FetchMetaDataFromImage he s of
        None \<Rightarrow> None
      | Some (oracleHome, _, version) \<Rightarrow>
          Some
            (and_then (initializeEnvironment he (s\<lparr>px_version := version\<rparr>) oracleHome cdbNameFromYaml)
               (prefixed ''an error occured while initializing the environment for Oracle: '') (\<lambda>s _.
             case he_stat he (ds_log s) UnseededImageFile of
               Inr _ \<Rightarrow> RelinkConfigFiles he s oracleHome cdbNameFromYaml
             | Inl _ \<Rightarrow> done_ok s)))"

end
