(* ===== verification/Gcs.thy ===== *)
theory Gcs
  imports Host
begin

text \<open>
  \<open>pkg/util/utils.go\<close>: reading, writing and deleting objects of Cloud Storage, over the answers of the storage client.
\<close>

fun first_slash :: "string \<Rightarrow> nat option" where
  "first_slash [] = None"
| "first_slash (c # s) = (if c = CHR ''/'' then Some 0 else map_option Suc (first_slash s))"

definition gcs_SplitURI :: "string \<Rightarrow> go_error + string \<times> string" where
  "gcs_SplitURI url =
     (if \<not> HasPrefix url ''gs://'' then Inl (Errorf (''URL '' @ url @ '' is missing the gs:// prefix'')) else
      let u = drop 5 url in
      case first_slash u of
        Some i \<Rightarrow> if i \<ge> 2 then Inr (take i u, drop (i + 1) u)
                  else Inl (Errorf (''URL '' @ url @ '' does not specify a bucket and a name''))
      | None \<Rightarrow> Inl (Errorf (''URL '' @ url @ '' does not specify a bucket and a name'')))"

text \<open>The contents are read later, which may fail too.\<close>

definition gcs_Download :: "host_env \<Rightarrow> host_log \<Rightarrow> string \<Rightarrow> go_error + (go_error + string)" where
  "gcs_Download he l gcsPath =
     (case gcs_SplitURI gcsPath of
        Inl err \<Rightarrow> Inl err
      | Inr (bucket, name) \<Rightarrow>
          (case he_gcs he l of
             Some err \<Rightarrow> Inl (prefixed ''failed to init GCS client: '' err)
           | None \<Rightarrow>
               (case he_object he l bucket name of
                  Inl err \<Rightarrow> Inl (prefixed (''failed to read URL '' @ gcsPath @ '': '') err)
                | Inr reader \<Rightarrow> Inr reader)))"

text \<open>A write to the object, and \<open>io.Copy\<close>, which writes each block as it is read; a gzip writer in between keeps back what it
  has not compressed yet. The result has the blocks written and the error that ended the copying.\<close>

definition gcs_put :: "host_env \<Rightarrow> dstate \<Rightarrow> string \<Rightarrow> string \<Rightarrow> string \<Rightarrow> unit dres" where
  "gcs_put he s bucket name bytes = (if bytes = [] then done_ok s else call he s (HGcsWrite bucket name bytes))"

fun copy_blocks ::
    "host_env \<Rightarrow> bool \<Rightarrow> string \<Rightarrow> string \<Rightarrow> dstate \<Rightarrow> string list \<Rightarrow> string list \<Rightarrow> dstate \<times> string list \<times> go_error option" where
  "copy_blocks he gz bucket name s copied [] = (s, copied, None)"
| "copy_blocks he gz bucket name s copied (b # bs) =
     (case gcs_put he s bucket name (if gz then he_gzip_write he copied b else b) of
        (s1, Inl err) \<Rightarrow> (s1, copied @ [b], Some err)
      | (s1, Inr _) \<Rightarrow> copy_blocks he gz bucket name s1 (copied @ [b]) bs)"

text \<open>
  The writers are closed by deferred calls, whose errors are dropped: the gzip writer, which only then passes on the rest of
  its data (unless a write has failed), and after it the writer of the object.
\<close>

definition gcs_uploadFile :: "host_env \<Rightarrow> dstate \<Rightarrow> string \<Rightarrow> string \<Rightarrow> unit dres" where
  "gcs_uploadFile he s gcsPath filePath =
     (let l = ds_log s; gz = HasSuffix gcsPath ''.gz'' in
      case gcs_SplitURI gcsPath of
        Inl err \<Rightarrow> (s, Inl err)
      | Inr (bucket, name) \<Rightarrow>
          (case he_openf he l filePath of
             Some err \<Rightarrow> (s, Inl err)
           | None \<Rightarrow>
          (case he_gcs he l of
             Some err \<Rightarrow> (s, Inl (prefixed ''failed to init GCS client: '' err))
           | None \<Rightarrow>
          (case he_attrs he l bucket of
             Some err \<Rightarrow> (s, Inl err)
           | None \<Rightarrow>
               (let failed = prefixed (''failed to write file '' @ filePath @ '' to '' @ gcsPath @ '': '');
                    closed = (\<lambda>s. fst (call he s (HGcsClose bucket name)))
                in case he_blocks he l filePath of
                     (blocks, readErr) \<Rightarrow>
                       (case copy_blocks he gz bucket name s [] blocks of
                          (s1, _, Some err) \<Rightarrow> (closed s1, Inl (failed err))
                        | (s1, copied, None) \<Rightarrow>
                            (closed (if gz then fst (gcs_put he s1 bucket name (he_gzip_close he copied)) else s1),
                             case readErr of Some err \<Rightarrow> Inl (failed err) | None \<Rightarrow> Inr ())))))))"

text \<open>\<open>retry.OnError\<close> with \<open>n\<close> further attempts.\<close>

fun upload_attempts :: "host_env \<Rightarrow> nat \<Rightarrow> dstate \<Rightarrow> string \<Rightarrow> string \<Rightarrow> unit dres" where
  "upload_attempts he 0 s gcsPath filePath = gcs_uploadFile he s gcsPath filePath"
| "upload_attempts he (Suc n) s gcsPath filePath =
     (case gcs_uploadFile he s gcsPath filePath of
        (s1, Inl err) \<Rightarrow>
          if Contains_str (err_msg err) ''compute: Received 500 '' then upload_attempts he n s1 gcsPath filePath else (s1, Inl err)
      | (s1, Inr _) \<Rightarrow> done_ok s1)"

definition gcs_UploadFile :: "host_env \<Rightarrow> dstate \<Rightarrow> string \<Rightarrow> string \<Rightarrow> unit dres" where
  "gcs_UploadFile he s gcsPath filePath = upload_attempts he (he_retries he) s gcsPath filePath"

fun delete_objects :: "host_env \<Rightarrow> dstate \<Rightarrow> string \<Rightarrow> (go_error + string) list \<Rightarrow> unit dres" where
  "delete_objects he s bucket [] = done_ok s"
| "delete_objects he s bucket (Inl err # os) = (s, Inl (prefixed (''Bucket('' @ bucket @ '').Objects(): '') err))"
| "delete_objects he s bucket (Inr name # os) =
     and_then (call he s (HGcsDelete bucket name)) (prefixed (''failed to Delete object('' @ name @ ''): ''))
       (\<lambda>s _. delete_objects he s bucket os)"

definition gcs_Delete :: "host_env \<Rightarrow> dstate \<Rightarrow> string \<Rightarrow> unit dres" where
  "gcs_Delete he s gcsPath =
     (case gcs_SplitURI gcsPath of
        Inl err \<Rightarrow> (s, Inl err)
      | Inr (bucket, prefix) \<Rightarrow>
          (case he_gcs he (ds_log s) of
             Some err \<Rightarrow> (s, Inl (prefixed ''failed to init GCS client: '' err))
           | None \<Rightarrow> delete_objects he s bucket (he_objects he (ds_log s) bucket prefix)))"

definition util_Contains :: "string list \<Rightarrow> string \<Rightarrow> bool" where
  "util_Contains xs e \<longleftrightarrow> e \<in> set xs"

definition util_Filter :: "string list \<Rightarrow> string \<Rightarrow> string list" where
  "util_Filter xs e = filter (\<lambda>x. x \<noteq> e) xs"

end
