(* ===== verification/DaemonServer.thy ===== *)
theory DaemonServer
  imports Proxy Gcs
begin

text \<open>
  \<open>pkg/database/dbdaemon/dbdaemon_server.go\<close>, the calls of the database daemon that run statements, RMAN, Data Guard and
  commands, start and stop the database, and work on files. Calls to the proxy are its own operations, with the
  errors as gRPC hands them over. The locks serialise the calls: one call is one function.
\<close>

subsection \<open>Environment variables and commands\<close>

definition ds_setenv :: "host_env \<Rightarrow> dstate \<Rightarrow> string \<Rightarrow> string \<Rightarrow> unit dres" where
  "ds_setenv he s k v =
     (case he_setenv he k v of
        None \<Rightarrow> done_ok (s\<lparr>ds_env := (ds_env s)(k := v)\<rparr>)
      | Some err \<Rightarrow> (s, Inl err))"

abbreviation setenv_err :: "go_error \<Rightarrow> go_error" where
  "setenv_err \<equiv> prefixed ''failed to set env variable: ''"

definition ds_unsetenv :: "dstate \<Rightarrow> string \<Rightarrow> dstate" where
  "ds_unsetenv s k = s\<lparr>ds_env := (ds_env s)(k := [])\<rparr>"

abbreviation ds_SID :: "dstate \<Rightarrow> string" where "ds_SID s \<equiv> ds_env s ''ORACLE_SID''"

text \<open>A call of the proxy.\<close>

definition via_proxy :: "host_env \<Rightarrow> 'a dres \<Rightarrow> 'a dres" where
  "via_proxy he r = and_then r (he_rpc he) (\<lambda>s x. (s, Inr x))"

type_synonym 'a cres = "dstate \<times> (cmd_error + 'a)"

text \<open>\<open>osUtilImpl.runCommand\<close>. For \<open>rman\<close>, \<open>impdp\<close> and \<open>expdp\<close> the first parameter is dropped from the log message, so an
  empty list panics; the callers always pass one.\<close>

definition osUtil_runCommand :: "host_env \<Rightarrow> dstate \<Rightarrow> string \<Rightarrow> string list \<Rightarrow> unit cres" where
  "osUtil_runCommand he s bin params =
     (let ohome = ds_env s ''ORACLE_HOME'' in
      if bin \<notin> set (map (bin_of ohome) [''rman'', ''impdp'', ''expdp'', ''lsnrctl'', ''orapwd'']) \<and>
         bin \<noteq> path_Join [ohome, ''OPatch'', ''datapatch'']
      then (s, Inl (NotRun (''command '' @ bin @ '' is not supported'')))
      else
        (s\<lparr>ds_log := ds_log s @ [HRun (ds_SID s) bin params []]\<rparr>,
         case snd (he_run he (ds_log s) (ds_SID s) bin params []) of None \<Rightarrow> Inr () | Some e \<Rightarrow> Inl e))"

definition srv_runCommand :: "host_env \<Rightarrow> dstate \<Rightarrow> string \<Rightarrow> string list \<Rightarrow> unit cres" where
  "srv_runCommand he s bin params =
     (case ds_setenv he s ''ORACLE_SID'' (ds_sid s) of
        (s1, Inl err) \<Rightarrow> (s1, Inl (NotRun (''failed to set env variable: '' @ err_msg err)))
      | (s1, Inr _) \<Rightarrow> osUtil_runCommand he s1 bin params)"

definition cmd_err :: "cmd_error \<Rightarrow> go_error" where
  "cmd_err e = Errorf (cmd_msg e)"

subsection \<open>Statements\<close>

text \<open>\<open>DBMS_OUTPUT.GET_LINE\<close> until no line is left. The buffer of a session is finite: \<open>he_lines\<close> are the lines in it, and
  the error that ends the loop when it is not the end of the buffer.\<close>

fun output_loop :: "host_env \<Rightarrow> dstate \<Rightarrow> string \<Rightarrow> string \<Rightarrow> string list \<Rightarrow> go_error option \<Rightarrow> string list \<Rightarrow> string list dres" where
  "output_loop he s sid url [] e lines =
     (s\<lparr>ds_log := ds_log s @ [HGetLine sid url]\<rparr>, case e of None \<Rightarrow> Inr lines | Some err \<Rightarrow> Inl err)"
| "output_loop he s sid url (t # ts) e lines =
     output_loop he (s\<lparr>ds_log := ds_log s @ [HGetLine sid url]\<rparr>) sid url ts e (lines @ [t])"

definition dbmsOutputGetLines :: "host_env \<Rightarrow> dstate \<Rightarrow> string \<Rightarrow> string \<Rightarrow> string list dres" where
  "dbmsOutputGetLines he s sid url = (case he_lines he (ds_log s) sid url of (ts, e) \<Rightarrow> output_loop he s sid url ts e [])"

text \<open>\<open>open\<close> answers with the data source of the connection it returns.\<close>

definition srv_open :: "host_env \<Rightarrow> dstate \<Rightarrow> string \<Rightarrow> bool \<Rightarrow> go_error + string" where
  "srv_open he s dbURL prelim =
     (let l = ds_log s; sid = ds_SID s;
          first = (case he_open he l sid dbURL of Some err \<Rightarrow> Some err | None \<Rightarrow> he_ping he l sid dbURL)
      in case first of
           None \<Rightarrow> Inr dbURL
         | Some err \<Rightarrow>
             if \<not> prelim then Inl err
             else (case he_open he l sid (dbURL @ ''&prelim=1'') of Some err \<Rightarrow> Inl err | None \<Rightarrow> Inr (dbURL @ ''&prelim=1'')))"

fun run_statements :: "host_env \<Rightarrow> dstate \<Rightarrow> string \<Rightarrow> bool \<Rightarrow> string list \<Rightarrow> string list \<Rightarrow> string list dres" where
  "run_statements he s url prelim out [] = (s, Inr out)"
| "run_statements he s url prelim out (sql # sqls) =
     and_then (call he s (HExec (ds_SID s) url sql)) id (\<lambda>s1 _.
     (case dbmsOutputGetLines he s1 (ds_SID s1) url of
        (s2, Inl err) \<Rightarrow> if \<not> prelim then (s2, Inl err) else run_statements he s2 url prelim out sqls
      | (s2, Inr lines) \<Rightarrow> run_statements he s2 url prelim (out @ lines) sqls))"

definition runSQL :: "host_env \<Rightarrow> dstate \<Rightarrow> string list \<Rightarrow> bool \<Rightarrow> string \<Rightarrow> string list dres" where
  "runSQL he s sqls prelim url =
     (case call he s (HExec (ds_SID s) url ''BEGIN DBMS_OUTPUT.ENABLE(); END;'') of
        (s1, Inl err) \<Rightarrow> if \<not> prelim then (s1, Inl err) else run_statements he s1 url prelim [] sqls
      | (s1, Inr _) \<Rightarrow> run_statements he s1 url prelim [] sqls)"

text \<open>The rows as JSON objects. A failure of the driver between two rows ends the loop like the end of the rows: the code does
  not ask for it afterwards.\<close>

fun rows_json :: "host_env \<Rightarrow> string list \<Rightarrow> (go_error + string list) list \<Rightarrow> go_error + string list" where
  "rows_json he cols [] = Inr []"
| "rows_json he cols (Inl err # rows) = Inl err"
| "rows_json he cols (Inr data # rows) =
     (case he_marshal he (zip cols data) of
        Inl err \<Rightarrow> Inl err
      | Inr j \<Rightarrow> map_sum id (\<lambda>js. j # js) (rows_json he cols rows))"

fun exec_all :: "host_env \<Rightarrow> dstate \<Rightarrow> string \<Rightarrow> string list \<Rightarrow> unit dres" where
  "exec_all he s url [] = done_ok s"
| "exec_all he s url (sql # sqls) = and_then (call he s (HExec (ds_SID s) url sql)) id (\<lambda>s _. exec_all he s url sqls)"

definition runQuery :: "host_env \<Rightarrow> dstate \<Rightarrow> string list \<Rightarrow> string \<Rightarrow> string list dres" where
  "runQuery he s sqls url =
     and_then (exec_all he s url (butlast sqls)) id (\<lambda>s _.
     (s\<lparr>ds_log := ds_log s @ [HQuery (ds_SID s) url (last sqls)]\<rparr>,
      case he_query he (ds_log s) (ds_SID s) url (last sqls) of
        Inl err \<Rightarrow> Inl err
      | Inr (Inl err, _) \<Rightarrow> Inl err
      | Inr (Inr cols, rows) \<Rightarrow> rows_json he cols rows))"

datatype connect_info = Dsn string | DatabaseName string | Local

record RunSQLPlusCMDRequest =
  sq_Commands :: "string list"
  sq_TnsAdmin :: string
  sq_ConnectInfo :: connect_info

abbreviation local_sql :: "string list \<Rightarrow> RunSQLPlusCMDRequest" where
  "local_sql cs \<equiv> \<lparr>sq_Commands = cs, sq_TnsAdmin = [], sq_ConnectInfo = Local\<rparr>"

definition is_prelim :: "bool \<Rightarrow> string list \<Rightarrow> bool" where
  "is_prelim formattedSQL sqls \<longleftrightarrow>
     \<not> formattedSQL \<and> (HasPrefix (ToLower (hd sqls)) ''create spfile'' \<or> HasPrefix (ToLower (hd sqls)) ''create pfile'')"

definition sql_connected :: "host_env \<Rightarrow> dstate \<Rightarrow> RunSQLPlusCMDRequest \<Rightarrow> string dres" where
  "sql_connected he s req =
     (case sq_ConnectInfo req of
        Dsn dsn \<Rightarrow> (s, Inr dsn)
      | DatabaseName db \<Rightarrow> and_then (ds_setenv he s ''ORACLE_SID'' db) setenv_err (\<lambda>s _. (s, Inr sysdba))
      | Local \<Rightarrow> and_then (ds_setenv he s ''ORACLE_SID'' (ds_sid s)) setenv_err (\<lambda>s _. (s, Inr sysdba)))"

definition sql_body :: "host_env \<Rightarrow> dstate \<Rightarrow> RunSQLPlusCMDRequest \<Rightarrow> bool \<Rightarrow> string list dres" where
  "sql_body he s req formattedSQL =
     (let sqls = sq_Commands req; prelim = is_prelim formattedSQL sqls in
      if sqls = [] then (s, Inl (Errorf ''dbdaemon/RunSQLPlus requires a sql statement to run, provided: 0''))
      else
        and_then (sql_connected he s req) id (\<lambda>s connectString.
        and_then (s, srv_open he s connectString prelim) (prefixed ''dbdaemon/RunSQLPlus failed to open a database connection: '') (\<lambda>s url.
        if formattedSQL then runQuery he s sqls url else runSQL he s sqls prelim url)))"

definition runSQLPlusHelper :: "host_env \<Rightarrow> dstate \<Rightarrow> RunSQLPlusCMDRequest \<Rightarrow> bool \<Rightarrow> string list dres" where
  "runSQLPlusHelper he s req formattedSQL =
     (if sq_TnsAdmin req = [] then sql_body he s req formattedSQL
      else
        and_then (ds_setenv he s ''TNS_ADMIN'' (sq_TnsAdmin req)) setenv_err (\<lambda>s _.
        (case sql_body he s req formattedSQL of (s2, r) \<Rightarrow> (ds_unsetenv s2 ''TNS_ADMIN'', r))))"

definition srv_RunSQLPlus :: "host_env \<Rightarrow> dstate \<Rightarrow> RunSQLPlusCMDRequest \<Rightarrow> string list dres" where
  "srv_RunSQLPlus he s req = runSQLPlusHelper he s req False"

definition srv_RunSQLPlusFormatted :: "host_env \<Rightarrow> dstate \<Rightarrow> RunSQLPlusCMDRequest \<Rightarrow> string list dres" where
  "srv_RunSQLPlusFormatted he s req = runSQLPlusHelper he s req True"

subsection \<open>Connection strings\<close>

text \<open>\<open>common.EZ\<close> and the functions of \<open>pkg/agents/security\<close> that give a user a new password.\<close>

definition EZ :: "string \<Rightarrow> string \<Rightarrow> string \<Rightarrow> string \<Rightarrow> string \<Rightarrow> bool \<Rightarrow> string" where
  "EZ usr pass host port svc asSysDba =
     (if host = [] then []
      else
        (let cs = rev (dropWhile (\<lambda>c. c = CHR '':'') (rev ((if CHR '':'' \<in> set host then ''['' @ host @ '']'' else host) @ '':'' @ port)));
             uPart = (if pass \<noteq> [] then usr @ ''/'' @ pass else usr);
             cs = (if uPart \<noteq> [] then uPart @ ''@'' @ cs else cs);
             cs = (if svc \<noteq> [] then cs @ ''/'' @ svc else cs)
         in if asSysDba then cs @ '' AS SYSDBA'' else cs))"

definition alterUserSQL :: "string \<Rightarrow> string \<Rightarrow> string" where
  "alterUserSQL usr passwd = ''alter user '' @ usr @ '' identified by '' @ passwd"

definition service_name :: "string \<Rightarrow> string \<Rightarrow> string" where
  "service_name db dbDomain = (if dbDomain \<noteq> [] then db @ ''.'' @ dbDomain else db)"

abbreviation SecurityUser :: string where "SecurityUser \<equiv> ''gcsql$security''"
abbreviation PDBLoaderUser :: string where "PDBLoaderUser \<equiv> ''gcsql$pdbloader''"

definition new_password :: "host_env \<Rightarrow> dstate \<Rightarrow> string \<Rightarrow> string dres" where
  "new_password he s username =
     and_then (s, RandOraclePassword (he_rand he (ds_log s))) id (\<lambda>s passwd.
     and_then (srv_RunSQLPlus he s (local_sql [alterUserSQL username passwd])) id (\<lambda>s _. (s, Inr passwd)))"

definition SetupUserPwConnStringOnServer :: "host_env \<Rightarrow> dstate \<Rightarrow> string \<Rightarrow> string \<Rightarrow> string \<Rightarrow> string dres" where
  "SetupUserPwConnStringOnServer he s username db dbDomain =
     and_then (new_password he s username) id (\<lambda>s passwd.
     (s, Inr (EZ username passwd ''localhost'' ''6021'' (service_name db dbDomain) False)))"

definition SetupConnStringOnServer :: "host_env \<Rightarrow> dstate \<Rightarrow> string \<Rightarrow> string \<Rightarrow> string \<Rightarrow> (string \<times> string) dres" where
  "SetupConnStringOnServer he s username db dbDomain =
     and_then (new_password he s username) id (\<lambda>s passwd.
     (s, Inr (EZ [] [] ''localhost'' ''6021'' (service_name db dbDomain) False, passwd)))"

subsection \<open>The state of the databases\<close>

fun column_values :: "host_env \<Rightarrow> string \<Rightarrow> string list \<Rightarrow> go_error + string list" where
  "column_values he col [] = Inr []"
| "column_values he col (msg # msgs) =
     (case he_unmarshal he msg of
        Inl err \<Rightarrow> Inl err
      | Inr row \<Rightarrow>
          map_sum id (\<lambda>vs. (case row col of Some v \<Rightarrow> v # vs | None \<Rightarrow> vs)) (column_values he col msgs))"

definition known_pdbs_sql :: "bool \<Rightarrow> bool \<Rightarrow> string" where
  "known_pdbs_sql includeSeed onlyOpen =
     ''select name from v$containers where name !='' @ [squote] @ ''CDB$ROOT'' @ [squote] @
     (if includeSeed then [] else '' and name != '' @ [squote] @ ''PDB$SEED'' @ [squote]) @
     (if onlyOpen then '' and open_mode = '' @ [squote] @ ''READ WRITE'' @ [squote] else [])"

definition knownPDBs :: "host_env \<Rightarrow> dstate \<Rightarrow> bool \<Rightarrow> bool \<Rightarrow> string list dres" where
  "knownPDBs he s includeSeed onlyOpen =
     and_then (runSQLPlusHelper he s (local_sql [known_pdbs_sql includeSeed onlyOpen]) True) id (\<lambda>s msgs.
     (s, column_values he ''NAME'' msgs))"

definition isKnownPDB :: "host_env \<Rightarrow> dstate \<Rightarrow> string \<Rightarrow> bool \<Rightarrow> bool \<Rightarrow> dstate \<times> bool" where
  "isKnownPDB he s name includeSeed onlyOpen =
     (case knownPDBs he s includeSeed onlyOpen of
        (s1, Inl _) \<Rightarrow> (s1, False)
      | (s1, Inr pdbs) \<Rightarrow> (s1, ToUpper name \<in> set pdbs))"

text \<open>The data source for a check: for a pluggable database the one made by the first check is kept.\<close>

abbreviation quoted_text :: "string \<Rightarrow> string" where "quoted_text t \<equiv> [dquote] @ t @ [dquote]"

definition check_url :: "host_env \<Rightarrow> dstate \<Rightarrow> string \<Rightarrow> bool \<Rightarrow> string \<Rightarrow> string dres" where
  "check_url he s db isCdb dbDomain =
     (let failed = (\<lambda>_. Errorf (''dbdaemon/CheckDatabaseState: failed to alter user '' @ SecurityUser)) in
      if isCdb then
        and_then (ds_setenv he s ''ORACLE_SID'' db) id (\<lambda>s _.
        and_then (SetupConnStringOnServer he s SecurityUser db dbDomain) failed (\<lambda>s (cs, pass).
        (s, Inr (''user='' @ quoted_text SecurityUser @ '' password='' @ quoted_text pass @ '' connectString='' @ quoted_text cs @
           '' standaloneConnection=true''))))
      else
        (case isKnownPDB he s db False False of
           (s1, False) \<Rightarrow> (s1, Inl (Errorf (db @ '' is not in the known PDB list'')))
         | (s1, True) \<Rightarrow>
             if ds_pdbConnStr s1 = [] then
               and_then (SetupUserPwConnStringOnServer he s1 SecurityUser db dbDomain) failed (\<lambda>s cs.
               (s\<lparr>ds_pdbConnStr := cs\<rparr>, Inr cs))
             else (s1, Inr (ds_pdbConnStr s1))))"

definition CheckDatabaseState :: "host_env \<Rightarrow> dstate \<Rightarrow> string \<Rightarrow> bool \<Rightarrow> string \<Rightarrow> unit dres" where
  "CheckDatabaseState he s db isCdb dbDomain =
     (if db = []
      then (s, Inl (Errorf ''a database check is requested, but a mandatory database name parameter is not provided''))
      else
        and_then (check_url he s db isCdb dbDomain) id (\<lambda>s dbURL.
        and_then (s, res (he_open he (ds_log s) (ds_SID s) dbURL)) id (\<lambda>s _.
        and_then (s, res (he_ping he (ds_log s) (ds_SID s) dbURL)) (prefixed (''cannot connect to database '' @ db @ '': '')) (\<lambda>s _.
        done_ok s))))"

definition GetDatabaseName :: "dstate \<Rightarrow> string" where
  "GetDatabaseName s = ds_sid s"

datatype oracle_type = ORACLE_12_2_ENTERPRISE | ORACLE_12_2_ENTERPRISE_NONCDB

fun database_type :: "string list \<Rightarrow> go_error + oracle_type" where
  "database_type [] = Inr ORACLE_12_2_ENTERPRISE"
| "database_type (line # lines) =
     (if \<not> HasPrefix line ''# DATABASETYPE'' then database_type lines
      else
        (case split_on (CHR '':'') line of
           [_, t] \<Rightarrow>
             if t = ''ORACLE_12_2_ENTERPRISE'' then Inr ORACLE_12_2_ENTERPRISE
             else if t = ''ORACLE_12_2_ENTERPRISE_NONCDB'' then Inr ORACLE_12_2_ENTERPRISE_NONCDB
             else Inl (Errorf ''GetDatabaseType: failed to get valid database type from /etc/oratab'')
         | _ \<Rightarrow> Inl (Errorf ''GetDatabaseType: failed to parse /etc/oratab for database type'')))"

text \<open>\<open>bufio.Scanner\<close>: lines without their ends; a scanner that fails ends the loop.\<close>

definition file_lines :: "string \<Rightarrow> string list" where
  "file_lines text = (let ls = split_on (CHR 0x0A) text in if last ls = [] then butlast ls else ls)"

definition GetDatabaseType :: "host_env \<Rightarrow> host_log \<Rightarrow> go_error + oracle_type" where
  "GetDatabaseType he l =
     (if he_openf he l ''/etc/oratab'' \<noteq> None then Inl (Errorf ''GetDatabaseType: failed to open /etc/oratab'')
      else database_type (case he_read he l ''/etc/oratab'' of Inl _ \<Rightarrow> [] | Inr text \<Rightarrow> file_lines text))"

subsection \<open>RMAN and Data Guard\<close>

record RunRMANRequest =
  rm_Scripts :: "string list"
  rm_Target :: string
  rm_WithoutTarget :: bool
  rm_Auxiliary :: string
  rm_TnsAdmin :: string
  rm_GcsPath :: string
  rm_Upload :: bool

abbreviation rman_local :: "string list \<Rightarrow> RunRMANRequest" where
  "rman_local scripts \<equiv> \<lparr>rm_Scripts = scripts, rm_Target = [], rm_WithoutTarget = False, rm_Auxiliary = [], rm_TnsAdmin = [],
     rm_GcsPath = [], rm_Upload = False\<rparr>"

abbreviation srv_RMANStagingDir :: string where "srv_RMANStagingDir \<equiv> ''/u03/app/oracle/rmanstaging''"

fun upload_walk :: "host_env \<Rightarrow> dstate \<Rightarrow> string \<Rightarrow> string \<Rightarrow> (string \<times> (go_error + host_file)) list \<Rightarrow> unit dres" where
  "upload_walk he s backupDir gcsPath [] = done_ok s"
| "upload_walk he s backupDir gcsPath ((fpath, Inl err) # fs) = (s, Inl err)"
| "upload_walk he s backupDir gcsPath ((fpath, Inr info) # fs) =
     (if hf_IsDir info then upload_walk he s backupDir gcsPath fs
      else
        and_then (s, path_Rel backupDir fpath) (prefixed (''filepath.Rel('' @ backupDir @ '', '' @ fpath @ '') returned err: '')) (\<lambda>s relPath.
        and_then (s, he_url_join he gcsPath relPath) (prefixed ''invalid GcsPath err: '') (\<lambda>s gcsTarget.
        and_then (gcs_UploadFile he s gcsTarget fpath) id (\<lambda>s _. upload_walk he s backupDir gcsPath fs))))"

text \<open>The staging directory is removed, whatever happened; an error of that is only logged.\<close>

definition uploadDirectoryContentsToGCS :: "host_env \<Rightarrow> dstate \<Rightarrow> string \<Rightarrow> string \<Rightarrow> unit dres" where
  "uploadDirectoryContentsToGCS he s backupDir gcsPath =
     (case upload_walk he s backupDir gcsPath (he_walk he (ds_log s) backupDir) of
        (s1, r) \<Rightarrow> (fst (call he s1 (HRemoveAll srv_RMANStagingDir)), r))"

definition rman_args :: "RunRMANRequest \<Rightarrow> string list" where
  "rman_args req =
     (if rm_WithoutTarget req then [] else [''target='' @ (if rm_Target req \<noteq> [] then rm_Target req else ''/'')]) @
     (if rm_Auxiliary req \<noteq> [] then [''auxiliary='' @ rm_Auxiliary req] else []) @ [''@/dev/stdin'']"

text \<open>A command run with its output collected.\<close>

definition run_output :: "host_env \<Rightarrow> dstate \<Rightarrow> string \<Rightarrow> string list \<Rightarrow> string \<Rightarrow> string \<Rightarrow> string dres" where
  "run_output he s bin args stdin what =
     (s\<lparr>ds_log := ds_log s @ [HRun (ds_SID s) bin args stdin]\<rparr>,
      case he_run he (ds_log s) (ds_SID s) bin args stdin of
        (out, None) \<Rightarrow> Inr out
      | (out, Some e) \<Rightarrow> Inl (Errorf (what @ ''Failed with: '' @ out @ [CHR 0x0A] @ ''Err: '' @ cmd_msg e)))"

fun rman_loop :: "host_env \<Rightarrow> dstate \<Rightarrow> RunRMANRequest \<Rightarrow> string list \<Rightarrow> string list dres" where
  "rman_loop he s req [] = (s, Inr [])"
| "rman_loop he s req (script # scripts) =
     and_then (run_output he s (bin_of (ds_home s) ''rman'') (rman_args req) script
       (''RunRMAN failed,'' @ [CHR 0x0A] @ ''script: '' @ [dquote] @ script @ [dquote, CHR 0x0A])) id (\<lambda>s out.
     and_then (if rm_GcsPath req \<noteq> [] \<and> rm_Upload req then uploadDirectoryContentsToGCS he s srv_RMANStagingDir (rm_GcsPath req) else done_ok s) id
       (\<lambda>s _. and_then (rman_loop he s req scripts) id (\<lambda>s outs. (s, Inr (out # outs)))))"

definition rman_scripts :: "host_env \<Rightarrow> dstate \<Rightarrow> RunRMANRequest \<Rightarrow> string list dres" where
  "rman_scripts he s req =
     (if rm_Scripts req = [] then (s, Inl (Errorf ''RunRMAN requires at least 1 script to run, provided: 0''))
      else rman_loop he s req (rm_Scripts req))"

definition srv_RunRMAN :: "host_env \<Rightarrow> dstate \<Rightarrow> RunRMANRequest \<Rightarrow> string list dres" where
  "srv_RunRMAN he s req =
     and_then (ds_setenv he s ''ORACLE_SID'' (ds_sid s)) setenv_err (\<lambda>s _.
     if rm_TnsAdmin req = [] then rman_scripts he s req
     else
       and_then (ds_setenv he s ''TNS_ADMIN'' (rm_TnsAdmin req)) setenv_err (\<lambda>s _.
       (case rman_scripts he s req of (s2, r) \<Rightarrow> (ds_unsetenv s2 ''TNS_ADMIN'', r))))"

fun dg_loop :: "host_env \<Rightarrow> dstate \<Rightarrow> string \<Rightarrow> string list \<Rightarrow> string list dres" where
  "dg_loop he s target [] = (s, Inr [])"
| "dg_loop he s target (script # scripts) =
     and_then (run_output he s (bin_of (ds_home s) ''dgmgrl'') [''-silent'', target, script] []
       (''RunDataGuard failed, script: '' @ [dquote] @ script @ [dquote, CHR 0x0A])) id (\<lambda>s out.
     and_then (dg_loop he s target scripts) id (\<lambda>s outs. (s, Inr (out # outs))))"

definition srv_RunDataGuard :: "host_env \<Rightarrow> dstate \<Rightarrow> string \<Rightarrow> string list \<Rightarrow> string list dres" where
  "srv_RunDataGuard he s target scripts =
     and_then (ds_setenv he s ''ORACLE_SID'' (ds_sid s)) setenv_err (\<lambda>s _.
     and_then (ds_setenv he s ''ORACLE_HOME'' (ds_home s)) setenv_err (\<lambda>s _.
     if scripts = [] then (s, Inl (Errorf ''RunDataGuard requires at least 1 script to run, provided: 0''))
     else dg_loop he s (if target \<noteq> [] then target else ''/'') scripts))"

definition srv_TNSPing :: "host_env \<Rightarrow> dstate \<Rightarrow> string \<Rightarrow> unit dres" where
  "srv_TNSPing he s connectionString =
     and_then (run_output he s (bin_of (ds_home s) ''tnsping'') [connectionString] []
       (''tnsping failed '' @ [CHR 0x0A] @ '' '')) id (\<lambda>s _. done_ok s)"

end
