(* ===== verification/DaemonOps.thy ===== *)
theory DaemonOps
  imports DaemonServer
begin

text \<open>
  \<open>pkg/database/dbdaemon/dbdaemon_server.go\<close>, continued: starting and stopping, creation of a container database, the
  listener, files, the bootstrap and long jobs: restore, data pump and datapatch.
\<close>

subsection \<open>Starting and stopping\<close>

definition pfile_lkws :: "string \<Rightarrow> string" where
  "pfile_lkws cdb = cdb_config_dir cdb @ ''/pfile.lkws''"

definition BackupConfigFile :: "host_env \<Rightarrow> dstate \<Rightarrow> string \<Rightarrow> unit dres" where
  "BackupConfigFile he s cdbName =
     and_then (runSQLPlusHelper he s (local_sql [''create pfile='' @ [squote] @ pfile_lkws cdbName @ [squote] @ '' from spfile'']) False)
       (prefixed ''BackupConfigFile: failed to create pfile due to error: '') (\<lambda>s _. done_ok s)"

definition srv_RecoverConfigFile :: "host_env \<Rightarrow> dstate \<Rightarrow> string \<Rightarrow> unit dres" where
  "srv_RecoverConfigFile he s cdbName =
     and_then
       (runSQLPlusHelper he s (local_sql
          [''create spfile='' @ [squote] @ cdb_config_dir cdbName @ ''/spfile'' @ cdbName @ ''.ora'' @ [squote] @
           '' from pfile='' @ [squote] @ pfile_lkws cdbName @ [squote]]) False)
       (prefixed ''dbdaemon/RecoverConfigFile: error while recovering config file: '') (\<lambda>s _. done_ok s)"

definition srv_BounceDatabase :: "host_env \<Rightarrow> dstate \<Rightarrow> BounceDatabaseRequest \<Rightarrow> (DatabaseState \<times> string list) dres" where
  "srv_BounceDatabase he s req =
     and_then (via_proxy he (px_BounceDatabase he s req)) (prefixed ''dbdaemon/BounceDatabase: error while bouncing database: '') (\<lambda>s resp.
     if bd_Operation req = STARTUP \<and> \<not> bd_AvoidConfigBackup req then
       and_then (BackupConfigFile he s (ds_sid s)) (prefixed ''dbdaemon/BounceDatabase: error while backing up config file: err: '')
         (\<lambda>s _. (s, Inr resp))
     else (s, Inr resp))"

abbreviation shutdown_req :: "string \<Rightarrow> string \<Rightarrow> BounceDatabaseRequest" where
  "shutdown_req db opt \<equiv> \<lparr>bd_Operation = SHUTDOWN, bd_DatabaseName = db, bd_Option = opt, bd_AvoidConfigBackup = False\<rparr>"

abbreviation startup_req :: "string \<Rightarrow> string \<Rightarrow> BounceDatabaseRequest" where
  "startup_req db opt \<equiv> \<lparr>bd_Operation = STARTUP, bd_DatabaseName = db, bd_Option = opt, bd_AvoidConfigBackup = False\<rparr>"

definition srv_BounceListener :: "host_env \<Rightarrow> dstate \<Rightarrow> listener_operation \<Rightarrow> string \<Rightarrow> string \<Rightarrow> unit dres" where
  "srv_BounceListener he s oper listenerName tnsAdmin = via_proxy he (px_BounceListener he s oper listenerName tnsAdmin)"

definition srv_NID :: "host_env \<Rightarrow> dstate \<Rightarrow> string \<Rightarrow> string \<Rightarrow> unit dres" where
  "srv_NID he s sid dbName =
     (if sid = [] then (s, Inl (Errorf ''dbdaemon/NID: missing sid''))
      else
        and_then (ds_setenv he s ''ORACLE_SID'' sid) (prefixed ''dbdaemon/NID: set env ORACLE_SID failed: '') (\<lambda>s _.
        and_then
          (via_proxy he
             (ProxyRunNID he (if dbName \<noteq> [] then s\<lparr>ds_sid := dbName\<rparr> else s)
                ([''target=/''] @ (if dbName \<noteq> [] then [''dbname='' @ dbName] else []) @ [''logfile=/home/oracle/nid.log'']) dbName))
          (prefixed ''nid failed: '') (\<lambda>s _. done_ok s)))"

subsection \<open>Creation of a container database\<close>

record CreateCDB_request =
  cr_DatabaseName :: string
  cr_CharacterSet :: string
  cr_MemoryPercent :: int
  cr_AdditionalParams :: "string list"
  cr_DbDomain :: string

definition init_params :: "host_env \<Rightarrow> CreateCDB_request \<Rightarrow> go_error + string" where
  "init_params he req =
     (let defaults = GetDefaultInitParams (cr_DatabaseName req); domain = ''DB_DOMAIN='' @ cr_DbDomain req in
      if cr_AdditionalParams req = []
      then Inr (Join (MapToSlice he defaults) '','' @ (if cr_DbDomain req \<noteq> [] then '','' @ domain else []))
      else
        (let found = list_ex (\<lambda>p. Contains_str (ToUpper p) ''DB_DOMAIN='') (cr_AdditionalParams req);
             params = cr_AdditionalParams req @ (if \<not> found \<and> cr_DbDomain req \<noteq> [] then [domain] else [])
         in case MergeInitParams defaults params of
              Inl err \<Rightarrow> Inl (prefixed ''error while merging user defined init params with default values, '' err)
            | Inr m \<Rightarrow> Inr (Join (MapToSlice he m) '','')))"

definition dbca_params :: "CreateCDB_request \<Rightarrow> string \<Rightarrow> string \<Rightarrow> string list" where
  "dbca_params req initParams password =
     [''-silent'', ''-createDatabase'', ''-templateName'', ''General_Purpose.dbc'', ''-gdbName'', cr_DatabaseName req,
      ''-responseFile'', ''NO_VALUE'', ''-createAsContainerDatabase'', ''true'', ''-sid'', cr_DatabaseName req,
      ''-characterSet'', (if cr_CharacterSet req = [] then ''AL32UTF8'' else cr_CharacterSet req),
      ''-memoryPercentage'', itoa (if cr_MemoryPercent req = 0 then 25 else cr_MemoryPercent req), ''-emConfiguration'', ''NONE'',
      ''-datafileDestination'', ''/u02/app/oracle/oradata'', ''-storageType'', ''FS'', ''-initParams'', initParams,
      ''-databaseType'', ''MULTIPURPOSE'', ''-recoveryAreaDestination'', ''/u03/app/oracle/fast_recovery_area'',
      ''-sysPassword'', password, ''-systemPassword'', password]"

definition createCDB :: "host_env \<Rightarrow> dstate \<Rightarrow> CreateCDB_request \<Rightarrow> unit dres" where
  "createCDB he s req =
     and_then (s, RandOraclePassword (he_rand he (ds_log s))) (\<lambda>_. Errorf ''error generating temporary password'') (\<lambda>s password.
     if cr_DatabaseName req = [] then (s, Inl (Errorf ''dbdaemon/CreateCDB: DBname is empty''))
     else
       and_then (s, init_params he req) id (\<lambda>s initParams.
       and_then (via_proxy he (ProxyRunDbca he s (ds_home s) (cr_DatabaseName req) (dbca_params req initParams password)))
         (prefixed ''error while running dbca command: '') (\<lambda>s _.
       and_then (srv_BounceDatabase he s (shutdown_req (cr_DatabaseName req) [])) (prefixed ''dbdaemon/CreateCDB: shutdown failed: '')
         (\<lambda>s _. done_ok s))))"

definition RequestedMemoryInMi :: "host_env \<Rightarrow> host_log \<Rightarrow> go_error + int" where
  "RequestedMemoryInMi he l =
     (case he_read he l ''/etc/podinfo/request_memory'' of
        Inl err \<Rightarrow> Inl (prefixed ''Failed to open file [/etc/podinfo/request_memory], error: '' err)
      | Inr t \<Rightarrow> (case ParseInt t of Inl err \<Rightarrow> Inl (prefixed (''Failed to convert ['' @ t @ ''] to int, error: '') err) | Inr i \<Rightarrow> Inr i))"

text \<open>Go's division truncates towards zero.\<close>

definition memory_targets :: "host_env \<Rightarrow> host_log \<Rightarrow> int \<times> int" where
  "memory_targets he l =
     (case RequestedMemoryInMi he l of
        Inr m \<Rightarrow> (if m < 0 then (- ((- m) div 8), - ((- m) div 2)) else (m div 8, m div 2))
      | Inl _ \<Rightarrow> (1200, 1800))"

definition srv_bootstrapDatabase :: "host_env \<Rightarrow> dstate \<Rightarrow> string \<Rightarrow> string \<Rightarrow> unit dres" where
  "srv_bootstrapDatabase he s cdbName dbDomain =
     (case memory_targets he (ds_log s) of
        (pga, sga) \<Rightarrow>
          and_then
            (via_proxy he (ProxyRunInitOracle he s
               [''--pga='' @ itoa pga, ''--sga='' @ itoa sga, ''--cdb_name='' @ cdbName, ''--db_domain='' @ dbDomain, ''--logtostderr=true'']))
            (prefixed ''dbdaemon/BootstrapDatabase: failed to bootstrap database due to: '') (\<lambda>s _. done_ok s))"

definition srv_FetchServiceImageMetaData :: "host_env \<Rightarrow> dstate \<Rightarrow> (go_error + string \<times> string \<times> string \<times> bool) option" where
  "srv_FetchServiceImageMetaData he s = map_option (map_sum (he_rpc he) id) (ProxyFetchServiceImageMetaData he s)"

definition srv_SetDnfsState :: "host_env \<Rightarrow> dstate \<Rightarrow> bool \<Rightarrow> unit dres" where
  "srv_SetDnfsState he s enable = via_proxy he (px_SetDnfsState he s enable)"

subsection \<open>The listener\<close>

record CreateListenerRequest =
  cl_DatabaseName :: string
  cl_Port :: int
  cl_Protocol :: string
  cl_DbDomain :: string
  cl_CdbServiceName :: string
  cl_ExcludePdb :: bool

text \<open>A row without the column leaves an empty name.\<close>

fun pdb_names :: "host_env \<Rightarrow> string list \<Rightarrow> go_error + string list" where
  "pdb_names he [] = Inr []"
| "pdb_names he (msg # msgs) =
     (case he_unmarshal he msg of
        Inl err \<Rightarrow> Inl err
      | Inr row \<Rightarrow> map_sum id (\<lambda>ns. (case row ''PDB_NAME'' of Some n \<Rightarrow> n | None \<Rightarrow> []) # ns) (pdb_names he msgs))"

definition fetchPDBNames :: "host_env \<Rightarrow> dstate \<Rightarrow> string list dres" where
  "fetchPDBNames he s =
     and_then
       (srv_RunSQLPlusFormatted he s (local_sql [''select pdb_name from dba_pdbs where pdb_name!='' @ [squote] @ ''PDB$SEED'' @ [squote]]))
       (prefixed ''BootstrapTask: query pdb names failed: '') (\<lambda>s msgs. (s, pdb_names he msgs))"

definition listener_input :: "dstate \<Rightarrow> CreateListenerRequest \<Rightarrow> string list \<Rightarrow> ListenerInput" where
  "listener_input s req pdbs =
     (let domain = (if cl_DbDomain req \<noteq> [] then ''.'' @ cl_DbDomain req else []) in
      \<lparr>li_PluggableDatabaseNames = pdbs, li_DatabaseName = cl_DatabaseName req, li_DatabaseBase = OracleBase, li_DatabaseHome = ds_home s,
       li_ListenerName = [], li_ListenerPort = [], li_ListenerProtocol = [], li_DatabaseHost = ds_hostName s, li_DBDomain = domain,
       li_CDBServiceName = (if cl_CdbServiceName req \<noteq> [] then cl_CdbServiceName req else cl_DatabaseName req @ domain)\<rparr>)"

abbreviation secure_dir :: string where "secure_dir \<equiv> ''/u02/app/oracle/oraconfig/network/SECURE''"

definition write_listener :: "host_env \<Rightarrow> dstate \<Rightarrow> string \<times> string \<times> string \<Rightarrow> unit dres" where
  "write_listener he s texts =
     (case texts of
        (listener, tns, sqlnet) \<Rightarrow>
          and_then (MakeDirs he s [secure_dir]) (prefixed (''initDBListeners: making a listener directory '' @ secure_dir @ '' failed: '')) (\<lambda>s _.
          and_then (call he s (HWrite (secure_dir @ ''/listener.ora'') listener)) (prefixed ''initDBListeners: creating a listener.ora file failed: '') (\<lambda>s _.
          and_then (call he s (HWrite (secure_dir @ ''/sqlnet.ora'') sqlnet)) (prefixed ''initDBListeners: unable to write sqlnet: '') (\<lambda>s _.
          and_then (call he s (HWrite (secure_dir @ ''/tnsnames.ora'') tns)) (prefixed ''initDBListeners: creating a tnsnames.ora file failed: '')
            (\<lambda>s _. done_ok s)))))"

definition srv_CreateListener :: "host_env \<Rightarrow> dstate \<Rightarrow> CreateListenerRequest \<Rightarrow> unit dres" where
  "srv_CreateListener he s req =
     and_then (if cl_ExcludePdb req then (s, Inr []) else fetchPDBNames he s) id (\<lambda>s pdbs.
     and_then (s, LoadTemplateListener he (ds_log s) (listener_input s req pdbs) ''SECURE'' (itoa (cl_Port req)) (cl_Protocol req))
       (prefixed (''initDBListeners: loading template for listener '' @ cl_DatabaseName req @ '' failed: '')) (\<lambda>s texts.
     and_then (write_listener he s texts) id (\<lambda>s _.
     ignoring (srv_BounceListener he s LISTENER_STOP ''SECURE'' secure_dir) (\<lambda>s.
     and_then (srv_BounceListener he s LISTENER_START ''SECURE'' secure_dir)
       (prefixed (''listener SECURE startup failed: '' @ secure_dir @ '', '')) (\<lambda>s _. done_ok s)))))"

subsection \<open>Files\<close>

definition CreatePasswordFile :: "host_env \<Rightarrow> dstate \<Rightarrow> string \<Rightarrow> string \<Rightarrow> string \<Rightarrow> unit dres" where
  "CreatePasswordFile he s db sysPassword dir =
     (if db = [] then (s, Inl (Errorf ''missing database name for req''))
      else if sysPassword = [] then (s, Inl (Errorf ''missing password for req''))
      else
        (let passwordFile = dir @ ''/orapw'' @ db in
         and_then (if dir \<noteq> [] then call he s (HMkdirAll dir) else done_ok s) (\<lambda>_. Errorf (''failed to create dir: '' @ dir)) (\<lambda>s _.
         ignoring (call he s (HRemove passwordFile)) (\<lambda>s.
         (case osUtil_runCommand he s (bin_of (ds_home s) ''orapwd'')
                 [''file='' @ passwordFile, ''password='' @ sysPassword, ''ignorecase=n''] of
            (s1, Inl e) \<Rightarrow> (s1, Inl (Errorf (''orapwd cmd failed: '' @ cmd_msg e)))
          | (s1, Inr _) \<Rightarrow> done_ok s1)))))"

definition srv_CreateFile :: "host_env \<Rightarrow> dstate \<Rightarrow> string \<Rightarrow> string \<Rightarrow> unit dres" where
  "srv_CreateFile he s p content =
     and_then (osUtil_createFile he s p (Inr content)) (prefixed ''dbdaemon/CreateFile: create failed: '') (\<lambda>s _. done_ok s)"

text \<open>The test whether the file does not exist looks at the error of \<open>os.Hostname\<close>, which is nil there: every failed \<open>os.Stat\<close> is
  answered with false and no error.\<close>

definition srv_FileExists :: "host_env \<Rightarrow> host_log \<Rightarrow> string \<Rightarrow> go_error + bool" where
  "srv_FileExists he l file =
     (case he_hostname he l of
        Inl err \<Rightarrow> Inl (prefixed ''dbdaemon/FileExists: failed to get host name: '' err)
      | Inr _ \<Rightarrow> Inr (case he_stat he l file of Inr _ \<Rightarrow> True | Inl _ \<Rightarrow> False))"

fun srv_CreateDirs :: "host_env \<Rightarrow> dstate \<Rightarrow> string list \<Rightarrow> unit dres" where
  "srv_CreateDirs he s [] = done_ok s"
| "srv_CreateDirs he s (d # ds) =
     and_then (call he s (HMkdirAll d)) (prefixed (''dbdaemon/CreateDirs failed on dir '' @ d @ '': '')) (\<lambda>s _. srv_CreateDirs he s ds)"

definition srv_DeleteDir :: "host_env \<Rightarrow> dstate \<Rightarrow> string \<Rightarrow> bool \<Rightarrow> unit dres" where
  "srv_DeleteDir he s p force =
     and_then (call he s (if force then HRemoveAll p else HRemove p)) (prefixed (''dbdaemon/DeleteDir('' @ p @ '') failed: '')) (\<lambda>s _. done_ok s)"

record rpc_file =
  rf_Name :: string
  rf_IsDir :: bool
  rf_ModTime :: go_time
  rf_AbsPath :: string
  rf_Content :: string

text \<open>A timestamp must lie in the years 1 to 9999.\<close>

definition convertToRpcFileInfo :: "host_env \<Rightarrow> host_log \<Rightarrow> host_file \<Rightarrow> string \<Rightarrow> bool \<Rightarrow> go_error + rpc_file" where
  "convertToRpcFileInfo he l info absPath readContent =
     (let mk = (\<lambda>content. \<lparr>rf_Name = hf_Name info, rf_IsDir = hf_IsDir info, rf_ModTime = hf_ModTime info, rf_AbsPath = absPath,
                         rf_Content = content\<rparr>) in
      if \<not> (0 \<le> hf_ModTime info \<and> hf_ModTime info < 315537897600 * Second)
      then Inl (Errorf ''convertToRpcFileInfo failed: timestamp out of range'')
      else if readContent \<and> \<not> hf_IsDir info then
        (case he_read he l absPath of
           Inl err \<Rightarrow> Inl (prefixed ''convertToRpcFileInfo failed reading file: '' err)
         | Inr content \<Rightarrow> Inr (mk content))
      else Inr (mk []))"

abbreviation maxWalkFiles :: nat where "maxWalkFiles \<equiv> 10000"

fun walk_infos ::
    "host_env \<Rightarrow> host_log \<Rightarrow> string \<Rightarrow> bool \<Rightarrow> nat \<Rightarrow> (string \<times> (go_error + host_file)) list \<Rightarrow> go_error + rpc_file list" where
  "walk_infos he l root rd n [] = Inr []"
| "walk_infos he l root rd n ((p, Inl err) # ps) = Inl (prefixed (''visit '' @ p @ '' failed: '') err)"
| "walk_infos he l root rd n ((p, Inr info) # ps) =
     (if n \<ge> maxWalkFiles then Inl (Errorf (''visited more than 10000 files, try reduce the dir scope''))
      else if p = root then walk_infos he l root rd n ps
      else
        (case convertToRpcFileInfo he l info p rd of
           Inl err \<Rightarrow> Inl (prefixed (''visit '' @ p @ '' failed: '') err)
         | Inr f \<Rightarrow> map_sum id (\<lambda>fs. f # fs) (walk_infos he l root rd (Suc n) ps)))"

fun dir_infos :: "host_env \<Rightarrow> host_log \<Rightarrow> string \<Rightarrow> bool \<Rightarrow> host_file list \<Rightarrow> go_error + rpc_file list" where
  "dir_infos he l root rd [] = Inr []"
| "dir_infos he l root rd (info # infos) =
     (case convertToRpcFileInfo he l info (path_Join [root, hf_Name info]) rd of
        Inl err \<Rightarrow> Inl (prefixed ''dbdaemon/ReadDir failed: '' err)
      | Inr f \<Rightarrow> map_sum id (\<lambda>fs. f # fs) (dir_infos he l root rd infos))"

text \<open>The path itself, and what is below it.\<close>

definition srv_ReadDir :: "host_env \<Rightarrow> host_log \<Rightarrow> string \<Rightarrow> bool \<Rightarrow> bool \<Rightarrow> go_error + rpc_file \<times> rpc_file list" where
  "srv_ReadDir he l p recursive rd =
     (if \<not> HasPrefix p ''/'' then Inl (Errorf (''dbdaemon/ReadDir failed to read '' @ p @ '', only accept absolute path''))
      else
        (case he_stat he l p of
           Inl err \<Rightarrow> Inl (prefixed (''dbdaemon/ReadDir os.Stat('' @ p @ '') failed: '') err)
         | Inr cur \<Rightarrow>
        (case convertToRpcFileInfo he l cur p rd of
           Inl err \<Rightarrow> Inl (prefixed ''dbdaemon/ReadDir failed: '' err)
         | Inr c \<Rightarrow>
             if \<not> hf_IsDir cur then Inr (c, [])
             else if recursive then
               (case walk_infos he l p rd 0 (he_walk he l p) of
                  Inl err \<Rightarrow> Inl (prefixed (''dbdaemon/ReadDir filepath.Walk('' @ p @ '') failed: '') err)
                | Inr fs \<Rightarrow> Inr (c, fs))
             else
               (case he_dir he l p of
                  Inl err \<Rightarrow> Inl (prefixed (''dbdaemon/ReadDir ioutil.ReadDir('' @ p @ '') failed: '') err)
                | Inr infos \<Rightarrow> map_sum id (\<lambda>fs. (c, fs)) (dir_infos he l p rd infos)))))"

definition downloadFile :: "host_env \<Rightarrow> dstate \<Rightarrow> string \<Rightarrow> string \<Rightarrow> string \<Rightarrow> string \<Rightarrow> unit dres" where
  "downloadFile he s bucket gcsPath baseDir dest =
     and_then (s, he_object he (ds_log s) bucket gcsPath) (prefixed (''failed to read URL '' @ gcsPath @ '': '')) (\<lambda>s reader.
     and_then (s, path_Rel baseDir gcsPath) (\<lambda>_. Errorf (''failed to parse relPath for gcsPath '' @ gcsPath)) (\<lambda>s relPath.
     let f = path_Join [dest, relPath] in
     and_then (osUtil_createFile he s f reader) (prefixed (''failed to createFile for file '' @ f @ '', err '')) (\<lambda>s _. done_ok s)))"

fun download_objects :: "host_env \<Rightarrow> dstate \<Rightarrow> string \<Rightarrow> string \<Rightarrow> string \<Rightarrow> bool \<Rightarrow> (go_error + string) list \<Rightarrow> unit dres" where
  "download_objects he s bucket prefix dest check [] = done_ok s"
| "download_objects he s bucket prefix dest check (Inl err # os) = (s, Inl (prefixed (''Bucket('' @ bucket @ '').Objects(): '') err))"
| "download_objects he s bucket prefix dest check (Inr name # os) =
     and_then
       (if check then
          (case he_object he (ds_log s) bucket name of
             Inl err \<Rightarrow> (s, Inl (prefixed (''failed to read URL '' @ name @ '': '') err))
           | Inr _ \<Rightarrow> done_ok s)
        else and_then (downloadFile he s bucket name prefix dest) (prefixed ''failed to download file '') (\<lambda>s _. done_ok s)) id
       (\<lambda>s _. download_objects he s bucket prefix dest check os)"

definition srv_DownloadDirectoryFromGCS :: "host_env \<Rightarrow> dstate \<Rightarrow> string \<Rightarrow> string \<Rightarrow> bool \<Rightarrow> unit dres" where
  "srv_DownloadDirectoryFromGCS he s gcsPath localPath accessPermissionCheck =
     and_then (s, gcs_SplitURI gcsPath) (prefixed ''failed to parse gcs path '') (\<lambda>s (bucket, prefix).
     and_then (s, res (he_gcs he (ds_log s))) (prefixed ''storage.NewClient: '') (\<lambda>s _.
     download_objects he s bucket prefix localPath accessPermissionCheck (he_objects he (ds_log s) bucket prefix)))"

text \<open>\<open>New\<close> and \<open>setEnvNew\<close>, once the proxy has been dialled.\<close>

definition setEnvNew :: "host_env \<Rightarrow> dstate \<Rightarrow> string \<Rightarrow> string \<Rightarrow> unit dres" where
  "setEnvNew he s home dbName = RelinkConfigFiles he (s\<lparr>ds_home := home, ds_sid := dbName\<rparr>) home dbName"

definition srv_New :: "host_env \<Rightarrow> dstate \<Rightarrow> string \<Rightarrow> unit dres" where
  "srv_New he s cdbNameFromYaml =
     and_then (s, he_hostname he (ds_log s)) (prefixed ''failed to get hostname: '') (\<lambda>s host.
     and_then (setEnvNew he (s\<lparr>ds_hostName := host, ds_pdbConnStr := []\<rparr>) (ds_env s ''ORACLE_HOME'') cdbNameFromYaml)
       (prefixed ''failed to setup environment: '') (\<lambda>s _. done_ok s))"

end
