(* ===== verification/DaemonJobs.thy ===== *)
theory DaemonJobs
  imports DaemonOps Pitr BackupAgent
begin

text \<open>
  \<open>pkg/database/dbdaemon/dbdaemon_server.go\<close>: the long jobs of the daemon, which run as long running operations: recovery of a
  restored database, data pump import and export, and datapatch. A panic of a statement builder is \<open>None\<close>.
\<close>

subsection \<open>Restore\<close>

text \<open>What staging of redo logs needs besides the host: the codec of the catalog and the two storage clients.\<close>

record stage_env =
  se_gob :: gob
  se_local :: "dstate storage"
  se_gcs :: "go_error + dstate storage"

definition month_names :: "string list" where
  "month_names = [''Jan'', ''Feb'', ''Mar'', ''Apr'', ''May'', ''Jun'', ''Jul'', ''Aug'', ''Sep'', ''Oct'', ''Nov'', ''Dec'']"

definition clock_text :: "string \<Rightarrow> go_time \<Rightarrow> string" where
  "clock_text sep t =
     (let sec = (t mod Day) div Second in
      pad 2 (sec div 3600) @ sep @ pad 2 (sec mod 3600 div 60) @ sep @ pad 2 (sec mod 60))"

text \<open>\<open>Format("02-Jan-2006 15:04:05")\<close>.\<close>

definition Format_oracle :: "go_time \<Rightarrow> string" where
  "Format_oracle t =
     (case civil_from_days (t div Day) of
        (y, m, d) \<Rightarrow> pad 2 d @ ''-'' @ month_names ! nat (m - 1) @ ''-'' @ pad 4 y @ '' '' @ clock_text '':'' t)"

text \<open>\<open>fmt.Sprintf\<close> for a template whose only verb is one \<open>%s\<close>.\<close>

fun Sprintf_s :: "string \<Rightarrow> string \<Rightarrow> string" where
  "Sprintf_s (a # b # t) x = (if a = CHR ''%'' \<and> b = CHR ''s'' then x @ t else a # Sprintf_s (b # t) x)"
| "Sprintf_s t x = t"

definition latestSCN :: "host_env \<Rightarrow> dstate \<Rightarrow> string \<Rightarrow> int dres" where
  "latestSCN he s query =
     (case srv_RunSQLPlusFormatted he s (local_sql [query]) of
        (s1, Inl err) \<Rightarrow> (s1, Inl (prefixed ''failed to query archive log SCNs, err: '' err))
      | (s1, Inr []) \<Rightarrow> (s1, Inl (Errorf ''failed to query archive log SCNs, err: <nil>''))
      | (s1, Inr (msg # _)) \<Rightarrow>
          (s1, case he_unmarshal he msg of
             Inl err \<Rightarrow> Inl err
           | Inr row \<Rightarrow>
               (case row ''SCN'' of
                  None \<Rightarrow> Inl (Errorf ''failed to find column SCN in the archive log query'')
                | Some scn \<Rightarrow>
                    (case ParseInt scn of
                       Inl err \<Rightarrow> Inl (prefixed (''failed to parse the SCN query ('' @ scn @ '') to find int64: '') err)
                     | Inr n \<Rightarrow> Inr n))))"

definition include_time :: "go_time \<Rightarrow> go_time \<Rightarrow> LogMetadataEntry \<Rightarrow> bool" where
  "include_time from until e \<longleftrightarrow> \<not> (lm_NextTime e < from \<or> lm_FirstTime e > until)"

text \<open>A log whose numbers cannot be read is included.\<close>

definition include_scn :: "int \<Rightarrow> int \<Rightarrow> LogMetadataEntry \<Rightarrow> bool" where
  "include_scn from until e \<longleftrightarrow>
     (case ParseInt (lm_FirstChange e) of
        Inl _ \<Rightarrow> True
      | Inr entryS \<Rightarrow>
          (case ParseInt (lm_NextChange e) of
             Inl _ \<Rightarrow> True
           | Inr entryE \<Rightarrow> \<not> (entryE < from \<or> entryS > until)))"

definition stage_filter :: "pitr_input \<Rightarrow> go_error + (LogMetadataEntry \<Rightarrow> bool)" where
  "stage_filter inp =
     (case pi_EndTime inp of
        Some until \<Rightarrow>
          (case pi_StartTime inp of
             None \<Rightarrow> Inl (Errorf ''failed to find recover end time in req'')
           | Some from \<Rightarrow> Inr (include_time from until))
      | None \<Rightarrow>
          if pi_EndScn inp \<noteq> 0 then Inr (include_scn (pi_StartScn inp) (pi_EndScn inp))
          else Inl (Errorf ''either start SCN or timestamp must be specified in req''))"

abbreviation pitr_stage_dir :: string where "pitr_stage_dir \<equiv> ''/u03/app/oracle/rmanstaging/pitr''"

definition catalog_stmt :: "string \<Rightarrow> string" where
  "catalog_stmt dir = ''catalog start with '' @ [squote] @ dir @ [squote] @ '' noprompt;''"

definition stageAndCatalog :: "host_env \<Rightarrow> stage_env \<Rightarrow> dstate \<Rightarrow> pitr_input \<Rightarrow> unit dres" where
  "stageAndCatalog he se s inp =
     and_then (s, stage_filter inp) id (\<lambda>s incl.
     and_then (call he s (HMkdirAll pitr_stage_dir)) (prefixed ''failed to create redo logs staging dir: '') (\<lambda>s _.
     and_then (case StageLogs (se_gob se) (se_local se) (se_gcs se) incl s pitr_stage_dir (pi_LogGcsPath inp) of (s, e) \<Rightarrow> (s, res e))
       (prefixed ''failed to stage redo logs: '') (\<lambda>s _.
     and_then (srv_RunRMAN he s (rman_local [catalog_stmt pitr_stage_dir])) (prefixed ''failed to catalog redo logs: '') (\<lambda>s _.
     done_ok s))))"

text \<open>The statement that recovers; \<open>None\<close> when the request names no point in time.\<close>

definition recover_target :: "pitr_input \<Rightarrow> string option" where
  "recover_target inp =
     (case pi_EndTime inp of
        Some t \<Rightarrow> Some (''time '' @ [dquote] @ ''to_date('' @ [squote] @ Format_oracle t @ [squote] @ '','' @ [squote] @
          ''DD-MON-YYYY HH24:MI:SS'' @ [squote] @ '')'' @ [dquote])
      | None \<Rightarrow> if pi_EndScn inp \<noteq> 0 then Some (''scn '' @ itoa (pi_EndScn inp)) else None)"

definition recover_stmt :: "host_env \<Rightarrow> dstate \<Rightarrow> restore_request \<Rightarrow> string dres" where
  "recover_stmt he s req =
     (case rq_PitrRestoreInput req of
        None \<Rightarrow>
          and_then (latestSCN he s (rq_LatestRecoverableScnQuery req)) (prefixed ''dbdaemon/physicalRestore: failed to get the latest SCN: '') (\<lambda>s scn.
          (s, Inr (Sprintf_s (rq_RecoverStatementTemplate req) (''scn '' @ itoa scn))))
      | Some inp \<Rightarrow> (s, Inr (case recover_target inp of None \<Rightarrow> [] | Some t \<Rightarrow> Sprintf_s (rq_RecoverStatementTemplate req) t)))"

definition srv_physicalRestore :: "host_env \<Rightarrow> stage_env \<Rightarrow> dstate \<Rightarrow> restore_request \<Rightarrow> unit dres" where
  "srv_physicalRestore he se s req =
     and_then (srv_RunRMAN he s (rman_local [rq_RestoreStatement req])) (prefixed ''dbdaemon/physicalRestore: failed to restore a database: '') (\<lambda>s _.
     and_then (case rq_PitrRestoreInput req of None \<Rightarrow> done_ok s | Some inp \<Rightarrow> stageAndCatalog he se s inp)
       (prefixed ''dbdaemon/physicalRestore: failed to stage or catalog redo logs: '') (\<lambda>s _.
     and_then (recover_stmt he s req) id (\<lambda>s recoverStmt.
     if recoverStmt = [] then (s, Inl (Errorf ''dbdaemon/physicalRestore: failed to build recover statement from req''))
     else
       and_then (srv_RunRMAN he s (rman_local [recoverStmt])) (prefixed ''dbdaemon/physicalRestore: failed to recover a database: '') (\<lambda>s _.
       ignoring (call he s (HRemoveAll srv_RMANStagingDir)) (\<lambda>s. done_ok s)))))"

subsection \<open>Datapatch\<close>

fun all_migrated :: "(go_error + string list) list \<Rightarrow> go_error + unit" where
  "all_migrated [] = Inr ()"
| "all_migrated (Inl err # rows) = Inl err"
| "all_migrated (Inr row # rows) =
     (case row of
        [name, openMode] \<Rightarrow>
          if openMode \<noteq> ''MIGRATE'' then Inl (Errorf (''failed to turn container '' @ name @ '' into MIGRATE mode: %!w(<nil>)''))
          else all_migrated rows
      | _ \<Rightarrow> Inl (Errorf ''sql: expected destination arguments in Scan''))"

abbreviation containers_sql :: string where "containers_sql \<equiv> ''SELECT name,open_mode FROM v$containers''"

definition setDatabaseUpgradeMode :: "host_env \<Rightarrow> dstate \<Rightarrow> unit dres" where
  "setDatabaseUpgradeMode he s =
     and_then (s, res (he_open he (ds_log s) (ds_SID s) sysdba)) (prefixed ''dbdaemon/setDatabaseUpgradeMode failed to open DB connection: '') (\<lambda>s _.
     and_then (exec_all he s sysdba [''alter database mount'', ''alter database open upgrade'', ''alter pluggable database all open upgrade'']) id (\<lambda>s _.
     (s\<lparr>ds_log := ds_log s @ [HQuery (ds_SID s) sysdba containers_sql]\<rparr>,
      case he_query he (ds_log s) (ds_SID s) sysdba containers_sql of
        Inl err \<Rightarrow> Inl err
      | Inr (_, rows) \<Rightarrow> all_migrated rows)))"

definition openPDBs :: "host_env \<Rightarrow> dstate \<Rightarrow> unit dres" where
  "openPDBs he s =
     and_then (s, res (he_open he (ds_log s) (ds_SID s) sysdba)) (prefixed ''dbdaemon/openPDBs: failed to open DB connection: '') (\<lambda>s _.
     call he s (HExec (ds_SID s) sysdba ''alter pluggable database all open''))"

abbreviation datapatch :: "dstate \<Rightarrow> string" where "datapatch s \<equiv> path_Join [ds_home s, ''OPatch'', ''datapatch'']"

text \<open>In upgrade mode an exit code is only remembered; in normal mode any failure is one.\<close>

definition datapatch_upgrade :: "host_env \<Rightarrow> dstate \<Rightarrow> unit dres" where
  "datapatch_upgrade he s =
     (case srv_runCommand he s (datapatch s) [''-verbose''] of
        (s1, Inl (NotRun m)) \<Rightarrow> (s1, Inl (Errorf (''datapatch failed: '' @ m)))
      | (s1, Inl (ExitError _ _)) \<Rightarrow> done_ok s1
      | (s1, Inr _) \<Rightarrow> done_ok s1)"

definition datapatch_normal :: "host_env \<Rightarrow> dstate \<Rightarrow> unit dres" where
  "datapatch_normal he s =
     (case srv_runCommand he s (datapatch s) [''-verbose''] of
        (s1, Inl (ExitError code m)) \<Rightarrow>
          (s1, Inl (Errorf (''datapatch failed in normal mode with exit code = '' @ itoa code @ '': '' @ m)))
      | (s1, Inl (NotRun m)) \<Rightarrow> (s1, Inl (Errorf (''datapatch failed: '' @ m)))
      | (s1, Inr _) \<Rightarrow> done_ok s1)"

definition applyDataPatch :: "host_env \<Rightarrow> dstate \<Rightarrow> unit dres" where
  "applyDataPatch he s =
     (let down = (\<lambda>s. via_proxy he (px_BounceDatabase he s (shutdown_req (ds_sid s) ''immediate'')));
          up = (\<lambda>s opt. via_proxy he (px_BounceDatabase he s (startup_req (ds_sid s) opt)));
          down_err = prefixed ''proxy request to shutdown DB failed: ''; up_err = prefixed ''proxy request to startup DB failed: ''
      in
      and_then (down s) down_err (\<lambda>s _.
      and_then (up s ''nomount'') up_err (\<lambda>s _.
      and_then (setDatabaseUpgradeMode he s) id (\<lambda>s _.
      and_then (datapatch_upgrade he s) id (\<lambda>s _.
      and_then (down s) down_err (\<lambda>s _.
      and_then (up s []) up_err (\<lambda>s _.
      and_then (openPDBs he s) id (\<lambda>s _.
      datapatch_normal he s))))))))"

end
