(* ===== verification/DataPumpServer.thy ===== *)
theory DataPumpServer
  imports DaemonJobs
begin

text \<open>
  \<open>pkg/database/dbdaemon/dbdaemon_server.go\<close>: data pump import and export, which run one at a time. A panic of a statement
  builder is \<open>None\<close>.
\<close>

subsection \<open>Tablespaces of a dump\<close>

definition up_to_quote :: "string \<Rightarrow> string option" where
  "up_to_quote t = (if dquote \<in> set t then Some (takeWhile (\<lambda>c. c \<noteq> dquote) t) else None)"

text \<open>One alternative of \<open>tsRegexp\<close> at the start of a text: what stands between the prefix and the next quote.\<close>

definition after_prefix :: "string \<Rightarrow> string \<Rightarrow> string option" where
  "after_prefix p t = (if HasPrefix t p then up_to_quote (drop (length p) t) else None)"

definition ts_kinds :: "string list" where
  "ts_kinds = [''DEFAULT'', ''CREATE'', ''UNDO'', ''TEMPORARY'']"

fun first_kind :: "string list \<Rightarrow> string \<Rightarrow> (string \<times> string) option" where
  "first_kind [] t = None"
| "first_kind (k # ks) t =
     (case after_prefix (k @ '' TABLESPACE '' @ [dquote]) t of Some name \<Rightarrow> Some (k, name) | None \<Rightarrow> first_kind ks t)"

text \<open>\<open>tsRegexp.FindStringSubmatch\<close>: the leftmost match, as its kind and its name; the kind is empty for the second
  alternative.\<close>

fun ts_match :: "string \<Rightarrow> (string \<times> string) option" where
  "ts_match [] = None"
| "ts_match (c # t) =
     (case first_kind ts_kinds (c # t) of
        Some m \<Rightarrow> Some m
      | None \<Rightarrow>
          (case after_prefix (''QUOTA UNLIMITED ON '' @ [dquote]) (c # t) of
             Some name \<Rightarrow> Some ([], name)
           | None \<Rightarrow> ts_match t))"

text \<open>The tablespaces the file refers to, permanent and temporary ones.\<close>

fun referenced :: "string list \<Rightarrow> string set \<times> string set" where
  "referenced [] = ({}, {})"
| "referenced (line # lines) =
     (case referenced lines of
        (ts, tsTemp) \<Rightarrow>
          (case ts_match line of
             None \<Rightarrow> (ts, tsTemp)
           | Some (kind, name) \<Rightarrow>
               if kind = ''DEFAULT'' \<or> kind = ''CREATE'' \<or> kind = [] then (insert name ts, tsTemp)
               else if kind = ''TEMPORARY'' then (ts, insert name tsTemp) else (ts, tsTemp)))"

fun remove_existing :: "host_env \<Rightarrow> string set \<times> string set \<Rightarrow> string list \<Rightarrow> (string set \<times> string set) option" where
  "remove_existing he (ts, tsTemp) [] = Some (ts, tsTemp)"
| "remove_existing he (ts, tsTemp) (js # jss) =
     (case he_unmarshal he js of
        Inl _ \<Rightarrow> None
      | Inr row \<Rightarrow>
          (let name = map_get (Some row) ''TABLESPACE_NAME''; kind = map_get (Some row) ''CONTENTS'' in
           remove_existing he (if kind = ''PERMANENT'' then ts - {name} else ts, if kind = ''TEMPORARY'' then tsTemp - {name} else tsTemp) jss))"

definition bigfile_sql :: "string \<Rightarrow> string" where
  "bigfile_sql t = ''create bigfile tablespace '' @ [dquote] @ t @ [dquote]"

definition temporary_sql :: "string \<Rightarrow> string" where
  "temporary_sql t = ''create temporary tablespace '' @ [dquote] @ t @ [dquote] @ '' size 128M autoextend on''"

text \<open>An error is only logged.\<close>

fun create_all :: "host_env \<Rightarrow> dstate \<Rightarrow> string \<Rightarrow> string list \<Rightarrow> dstate" where
  "create_all he s session [] = s"
| "create_all he s session (stmt # stmts) = create_all he (fst (srv_RunSQLPlus he s (local_sql [session, stmt]))) session stmts"

definition createTablespacesFromSqlfile :: "host_env \<Rightarrow> dstate \<Rightarrow> string \<Rightarrow> string \<Rightarrow> dstate option" where
  "createTablespacesFromSqlfile he s metaFullPath pdbName =
     (if he_openf he (ds_log s) metaFullPath \<noteq> None then Some s
      else
        (case QuerySetSessionContainer pdbName of
           None \<Rightarrow> None
         | Some session \<Rightarrow>
             (let needed = referenced (case he_read he (ds_log s) metaFullPath of Inl _ \<Rightarrow> [] | Inr text \<Rightarrow> file_lines text) in
              case srv_RunSQLPlusFormatted he s (local_sql [session, ''select contents, tablespace_name from dba_tablespaces'']) of
                (s1, Inl _) \<Rightarrow> Some s1
              | (s1, Inr rows) \<Rightarrow>
                  (case remove_existing he needed rows of
                     None \<Rightarrow> Some s1
                   | Some (ts, tsTemp) \<Rightarrow>
                       Some (create_all he s1 session
                         (map bigfile_sql (he_elements he ts) @ map temporary_sql (he_elements he tsTemp)))))))"

subsection \<open>Import\<close>

record DataPumpImportReq =
  di_PdbName :: string
  di_DbDomain :: string
  di_GcsPath :: string
  di_GcsLogPath :: string
  di_CommandParams :: "string list"

definition filterParamsForMetadata :: "string list \<Rightarrow> string list" where
  "filterParamsForMetadata ps = filter (\<lambda>p. hd (split_on (CHR ''='') p) \<noteq> ''TABLE_EXISTS_ACTION'') ps"

definition dump_dir :: "dstate \<Rightarrow> string \<Rightarrow> string" where
  "dump_dir s pdbName = path_Join [cdb_data_dir (ds_sid s) @ ''/'' @ ToUpper pdbName, ''dmp'']"

definition meta_params :: "string \<Rightarrow> string list \<Rightarrow> string list" where
  "meta_params target cmdParams =
     [target] @ filterParamsForMetadata cmdParams @
     [''directory=PDB_DATA_PUMP_DIR'', ''dumpfile=import.dmp'', ''sqlfile=import.dmp.meta'', ''nologfile=YES'', ''include=TABLESPACE'',
      ''include=USER'', ''include=TABLESPACE_QUOTA'']"

definition import_params :: "string \<Rightarrow> string list \<Rightarrow> string list" where
  "import_params target cmdParams =
     [target] @ cmdParams @ [''directory=PDB_DATA_PUMP_DIR'', ''dumpfile=import.dmp'', ''logfile=import.log'']"

text \<open>Exit code 5 stands for a run to the end in which data may have been skipped.\<close>

definition impdp_run :: "host_env \<Rightarrow> dstate \<Rightarrow> string list \<Rightarrow> string \<Rightarrow> unit dres" where
  "impdp_run he s params failed =
     (case srv_runCommand he s (bin_of (ds_home s) ''impdp'') params of
        (s1, Inl e) \<Rightarrow> if \<not> isReturnCodeEqual e 5 then (s1, Inl (Errorf (failed @ '', err = '' @ cmd_msg e))) else done_ok s1
      | (s1, Inr _) \<Rightarrow> done_ok s1)"

text \<open>What follows the download; the file is removed at the end in any case.\<close>

definition import_body :: "host_env \<Rightarrow> dstate \<Rightarrow> DataPumpImportReq \<Rightarrow> string \<Rightarrow> unit dres option" where
  "import_body he s req dumpDir =
     (case SetupUserPwConnStringOnServer he s PDBLoaderUser (di_PdbName req) (di_DbDomain req) of
        (s1, Inl _) \<Rightarrow> Some (s1, Inl (Errorf (''dbdaemon/dataPumpImport: failed to alter user '' @ PDBLoaderUser)))
      | (s1, Inr target) \<Rightarrow>
      (case impdp_run he s1 (meta_params target (di_CommandParams req)) ''data pump import metadata gathering failed'' of
         (s2, Inl err) \<Rightarrow> Some (s2, Inl err)
       | (s2, Inr _) \<Rightarrow>
      (case createTablespacesFromSqlfile he s2 (path_Join [dumpDir, ''import.dmp.meta'']) (di_PdbName req) of
         None \<Rightarrow> None
       | Some s3 \<Rightarrow>
           Some
             (and_then (impdp_run he s3 (import_params target (di_CommandParams req)) ''data pump import failed'') id (\<lambda>s _.
              if di_GcsLogPath req \<noteq> [] then
                and_then (gcs_UploadFile he s (di_GcsLogPath req) (path_Join [dumpDir, ''import.log'']))
                  (prefixed ''dbdaemon/dataPumpImport: import completed successfully, failed to upload import log to GCS: '')
                  (\<lambda>s _. done_ok s)
              else done_ok s)))))"

definition dataPumpImport :: "host_env \<Rightarrow> dstate \<Rightarrow> DataPumpImportReq \<Rightarrow> unit dres option" where
  "dataPumpImport he s req =
     (let dumpDir = dump_dir s (di_PdbName req); file = path_Join [dumpDir, ''import.dmp''] in
      case gcs_Download he (ds_log s) (di_GcsPath req) of
        Inl err \<Rightarrow> Some (s, Inl (prefixed ''dbdaemon/dataPumpImport: initiating GCS download failed: '' err))
      | Inr reader \<Rightarrow>
          (case osUtil_createFile he s file reader of
             (s1, Inl err) \<Rightarrow> Some (s1, Inl (prefixed ''dbdaemon/dataPumpImport: download from GCS failed: '' err))
           | (s1, Inr _) \<Rightarrow>
               map_option (\<lambda>(s2, r). (fst (call he s2 (HRemove file)), r)) (import_body he s1 req dumpDir)))"

subsection \<open>Export\<close>

record DataPumpExportReq =
  de_PdbName :: string
  de_DbDomain :: string
  de_ObjectType :: string
  de_Objects :: string
  de_GcsPath :: string
  de_GcsLogPath :: string
  de_FlashbackTime :: string
  de_CommandParams :: "string list"

text \<open>\<open>Format("20060102150405")\<close>.\<close>

definition export_name :: "go_time \<Rightarrow> string" where
  "export_name t = ''export_'' @ Format_date time_Local t @ clock_text [] (in_zone time_Local t)"

definition export_params :: "DataPumpExportReq \<Rightarrow> string \<Rightarrow> string list" where
  "export_params req name =
     [(if de_ObjectType req \<noteq> [] then de_ObjectType req else ''SCHEMAS'') @ ''='' @ de_Objects req, ''DIRECTORY=PDB_DATA_PUMP_DIR'',
      ''DUMPFILE='' @ name @ ''.dmp'', ''LOGFILE='' @ name @ ''.log''] @ de_CommandParams req @
     (if de_FlashbackTime req \<noteq> [] then [''FLASHBACK_TIME='' @ [dquote] @ de_FlashbackTime req @ [dquote]] else [])"

fun write_lines :: "host_env \<Rightarrow> dstate \<Rightarrow> string \<Rightarrow> string list \<Rightarrow> unit dres" where
  "write_lines he s p [] = done_ok s"
| "write_lines he s p (t # ts) = and_then (call he s (HWrite p (t @ [CHR 0x0A]))) id (\<lambda>s _. write_lines he s p ts)"

definition writeParFile :: "host_env \<Rightarrow> dstate \<Rightarrow> string \<Rightarrow> string list \<Rightarrow> unit dres" where
  "writeParFile he s parPath params = and_then (call he s (HCreate parPath)) id (\<lambda>s _. write_lines he s parPath params)"

text \<open>Only exit code 5 is an error here: every other failure of \<open>expdp\<close> passes.\<close>

definition expdp_run :: "host_env \<Rightarrow> dstate \<Rightarrow> string list \<Rightarrow> unit dres" where
  "expdp_run he s params =
     (case srv_runCommand he s (bin_of (ds_home s) ''expdp'') params of
        (s1, Inl e) \<Rightarrow> if isReturnCodeEqual e 5 then (s1, Inl (Errorf (''data pump export failed, err = '' @ cmd_msg e))) else done_ok s1
      | (s1, Inr _) \<Rightarrow> done_ok s1)"

definition remove_old :: "host_env \<Rightarrow> dstate \<Rightarrow> string \<Rightarrow> unit dres" where
  "remove_old he s p =
     (case call he s (HRemove p) of
        (s1, Inl err) \<Rightarrow> if IsNotFound err then done_ok s1 else (s1, Inl (Errorf (''dataPumpExport failed: can't remove existing dmp file '' @ p)))
      | (s1, Inr _) \<Rightarrow> done_ok s1)"

definition dataPumpExport :: "host_env \<Rightarrow> dstate \<Rightarrow> DataPumpExportReq \<Rightarrow> unit dres" where
  "dataPumpExport he s req =
     (let name = export_name (he_now he (ds_log s)); dir = dump_dir s (de_PdbName req);
          dmpPath = path_Join [dir, name @ ''.dmp'']; parPath = path_Join [dir, name @ ''.par''] in
      and_then (remove_old he s dmpPath) id (\<lambda>s _.
      and_then (SetupUserPwConnStringOnServer he s PDBLoaderUser (de_PdbName req) (de_DbDomain req))
        (\<lambda>_. Errorf (''dbdaemon/dataPumpExport: failed to alter user '' @ PDBLoaderUser)) (\<lambda>s target.
      and_then (writeParFile he s parPath (export_params req name)) (prefixed ''data pump export failed, err = '') (\<lambda>s _.
      and_then (expdp_run he s [target, ''parfile='' @ parPath]) id (\<lambda>s _.
      and_then (gcs_UploadFile he s (de_GcsPath req) dmpPath)
        (prefixed (''dbdaemon/dataPumpExport: failed to upload dmp file to '' @ de_GcsPath req @ '': '')) (\<lambda>s _.
      if de_GcsLogPath req \<noteq> [] then
        and_then (gcs_UploadFile he s (de_GcsLogPath req) (path_Join [dir, name @ ''.log'']))
          (prefixed (''dbdaemon/dataPumpExport: failed to upload log file to '' @ de_GcsLogPath req @ '': '')) (\<lambda>s _. done_ok s)
      else done_ok s))))))"

end
