(* ===== verification/DataPump.thy ===== *)
theory DataPump
  imports DataPumpServer Database Restore
begin

text \<open>
  \<open>oracle/controllers/exportcontroller/export_controller.go\<close> and \<open>importcontroller/import_controller.go\<close>, with the calls they
  make in \<open>config_agent_helpers.go\<close>. The state of either machine is the reason of the \<open>Ready\<close> condition of its object. Calls
  that change something are recorded in a log, and the read of the object that begins a round, which may fail in one round and
  succeed in the next; an answer is a function of the log. The locale \<open>pump_machine\<close> is the contract
  that both controllers keep; what follows from it is proved once. Time limits of calls are not modelled.
\<close>

subsection \<open>Objects and environment\<close>

record Export =
  exp_Namespace :: string
  exp_UID :: string
  exp_Instance :: string
  exp_DatabaseName :: string
  exp_ObjectType :: string
  exp_Objects :: "string list"
  exp_GcsPath :: string
  exp_GcsLogPath :: string
  exp_FlashbackTime :: "go_time option"
  exp_Conditions :: "Condition list"

record Import =
  imp_Namespace :: string
  imp_UID :: string
  imp_Instance :: string
  imp_DatabaseName :: string
  imp_GcsPath :: string
  imp_GcsLogPath :: string
  imp_Options :: "string \<rightharpoonup> string"
  imp_Conditions :: "Condition list"

datatype pump_call =
    PGet
  | PExport DataPumpExportReq string
  | PImport DataPumpImportReq string
  | PDeleteLRO string
  | PWarning string string
  | PNormal string string
  | PStatusUpdate "Condition list"

type_synonym pump_log = "pump_call list"

record pump_env =
  pe_Get :: "pump_log \<Rightarrow> go_error option"
  pe_GetDatabase :: "pump_log \<Rightarrow> string \<Rightarrow> string \<Rightarrow> go_error + Database"
  pe_GetInstance :: "pump_log \<Rightarrow> string \<Rightarrow> string \<Rightarrow> go_error + Instance"
  pe_New :: "pump_log \<Rightarrow> string \<Rightarrow> string \<Rightarrow> go_error option"
  pe_ExportAsync :: "pump_log \<Rightarrow> DataPumpExportReq \<Rightarrow> string \<Rightarrow> go_error option"
  pe_ImportAsync :: "pump_log \<Rightarrow> DataPumpImportReq \<Rightarrow> string \<Rightarrow> go_error option"
  pe_GetOperation :: "pump_log \<Rightarrow> string \<Rightarrow> go_error + Operation"
  pe_StatusUpdate :: "pump_log \<Rightarrow> Condition list \<Rightarrow> go_error option"
  pe_range :: "(string \<rightharpoonup> string) \<Rightarrow> (string \<times> string) list"
  pe_now :: "pump_log \<Rightarrow> go_time"

abbreviation requeueSoon :: ctrl_Result where "requeueSoon \<equiv> \<lparr>Requeue = False, RequeueAfter = 30 * Second\<rparr>"
abbreviation requeueLater :: ctrl_Result where "requeueLater \<equiv> \<lparr>Requeue = False, RequeueAfter = 60 * Second\<rparr>"

subsection \<open>Calls of the daemon\<close>

definition pump_GetLRO :: "pump_env \<Rightarrow> pump_log \<Rightarrow> string \<Rightarrow> string \<Rightarrow> string \<Rightarrow> go_error + Operation" where
  "pump_GetLRO env l opid namespace inst =
     (case pe_New env l namespace inst of Some err \<Rightarrow> Inl err | None \<Rightarrow> pe_GetOperation env l opid)"

text \<open>The error of the deletion is dropped.\<close>

definition pump_DeleteLRO :: "pump_env \<Rightarrow> pump_log \<Rightarrow> string \<Rightarrow> string \<Rightarrow> string \<Rightarrow> pump_log" where
  "pump_DeleteLRO env l opid namespace inst =
     (case pe_New env l namespace inst of Some _ \<Rightarrow> l | None \<Rightarrow> l @ [PDeleteLRO opid])"

definition AllowedImpdpParams :: "string list" where
  "AllowedImpdpParams =
     [''TABLE_EXISTS_ACTION'', ''REMAP_TABLE'', ''REMAP_SCHEMA'', ''REMAP_TABLESPACE'', ''REMAP_DATAFILE'', ''PARALLEL'', ''NETWORK_LINK'']"

text \<open>Options that are not allowed are left out without an error.\<close>

definition impdp_params :: "(string \<times> string) list \<Rightarrow> string list" where
  "impdp_params opts =
     [''FULL=YES'', ''METRICS=YES'', ''LOGTIME=ALL''] @
     map (\<lambda>(k, v). ToUpper k @ ''='' @ v) (filter (\<lambda>(k, v). ToUpper k \<in> set AllowedImpdpParams) opts)"

definition DataPumpImport ::
    "pump_env \<Rightarrow> pump_log \<Rightarrow> string \<Rightarrow> string \<Rightarrow> DataPumpImportReq \<Rightarrow> (string \<rightharpoonup> string) \<Rightarrow> string \<Rightarrow> pump_log \<times> go_error option" where
  "DataPumpImport env l namespace inst req options opid =
     (case pe_New env l namespace inst of
        Some err \<Rightarrow> (l, Some (prefixed ''config_agent_helpers/DataPumpImport: failed to create database daemon client: '' err))
      | None \<Rightarrow>
          (let r = req\<lparr>di_CommandParams := impdp_params (pe_range env options)\<rparr>
           in (l @ [PImport r opid], pe_ImportAsync env l r opid)))"

definition DataPumpExport ::
    "pump_env \<Rightarrow> pump_log \<Rightarrow> string \<Rightarrow> string \<Rightarrow> DataPumpExportReq \<Rightarrow> string \<Rightarrow> pump_log \<times> go_error option" where
  "DataPumpExport env l namespace inst req opid =
     (case pe_New env l namespace inst of
        Some err \<Rightarrow> (l, Some (prefixed ''config_agent_helpers/DataPumpExport: failed to create database daemon client: '' err))
      | None \<Rightarrow>
          (let r = req\<lparr>de_CommandParams := [''METRICS=YES'', ''LOGTIME=ALL'']\<rparr>
           in (l @ [PExport r opid], pe_ExportAsync env l r opid)))"

subsection \<open>The wrapper of the condition\<close>

text \<open>The conditions, and whether they have been changed. An argument \<open>complete\<close> is the reason that makes the object ready.\<close>

record readyConditionWrapper =
  rc_Conditions :: "Condition list"
  rc_changed :: bool

definition setState :: "string \<Rightarrow> go_time \<Rightarrow> readyConditionWrapper \<Rightarrow> string \<Rightarrow> string \<Rightarrow> readyConditionWrapper" where
  "setState complete now w condReason message =
     \<lparr>rc_Conditions = Upsert now (rc_Conditions w) k8s_Ready (if condReason = complete then ConditionTrue else ConditionFalse) condReason message,
      rc_changed = True\<rparr>"

definition getState :: "string \<Rightarrow> string \<Rightarrow> go_time \<Rightarrow> readyConditionWrapper \<Rightarrow> readyConditionWrapper \<times> string" where
  "getState complete defaultState now w =
     (let w1 = (if FindCondition (rc_Conditions w) k8s_Ready = None then setState complete now w defaultState [] else w)
      in (w1, reason_of (rc_Conditions w1) k8s_Ready))"

definition elapsedSinceLastStateChange :: "go_time \<Rightarrow> readyConditionWrapper \<Rightarrow> duration" where
  "elapsedSinceLastStateChange now w = ElapsedTimeFromLastTransitionTime now (FindCondition (rc_Conditions w) k8s_Ready)"

subsection \<open>The export controller\<close>

definition export_operation_id :: "Export \<Rightarrow> string" where
  "export_operation_id e = ''Export_'' @ exp_UID e"

text \<open>\<open>Format("02-01-2006 15:04:05")\<close>.\<close>

definition Format_flashback :: "go_time \<Rightarrow> string" where
  "Format_flashback t =
     (case civil_from_days (in_zone time_Local t div Day) of (y, m, d) \<Rightarrow> pad 2 d @ ''-'' @ pad 2 m @ ''-'' @ pad 4 y @ '' '' @ clock_text '':'' (in_zone time_Local t))"

definition getFlashbackTime :: "go_time option \<Rightarrow> string" where
  "getFlashbackTime t =
     (case t of
        None \<Rightarrow> []
      | Some t \<Rightarrow> ''TO_TIMESTAMP('' @ [squote] @ Format_flashback t @ [squote] @ '', '' @ [squote] @ ''DD-MM-YYYY HH24:MI:SS'' @ [squote] @ '')'')"

definition export_request :: "Export \<Rightarrow> Database \<Rightarrow> Instance \<Rightarrow> DataPumpExportReq" where
  "export_request e db inst =
     \<lparr>de_PdbName = dbs_Name (db_Spec db), de_DbDomain = is_DBDomain (inst_Spec inst), de_ObjectType = exp_ObjectType e,
      de_Objects = Join (exp_Objects e) '','', de_GcsPath = exp_GcsPath e, de_GcsLogPath = exp_GcsLogPath e,
      de_FlashbackTime = getFlashbackTime (exp_FlashbackTime e), de_CommandParams = []\<rparr>"

type_synonym pump_step = "pump_log \<times> readyConditionWrapper \<times> ctrl_Result \<times> go_error option"

abbreviation dquoted :: "string \<Rightarrow> string" where "dquoted t \<equiv> [dquote] @ t @ [dquote]"
abbreviation listed_text :: "string list \<Rightarrow> string" where "listed_text ts \<equiv> ''['' @ Join ts '' '' @ '']''"

definition handleNotStartedExport :: "pump_env \<Rightarrow> pump_log \<Rightarrow> Export \<Rightarrow> readyConditionWrapper \<Rightarrow> pump_step" where
  "handleNotStartedExport env l e w =
     (case pe_GetDatabase env l (exp_Namespace e) (exp_DatabaseName e) of
        Inl err \<Rightarrow> (l, w, Result_zero, Some err)
      | Inr db \<Rightarrow>
     (case pe_GetInstance env l (exp_Namespace e) (exp_Instance e) of
        Inl err \<Rightarrow> (l, w, Result_zero, Some err)
      | Inr inst \<Rightarrow>
          if exp_Instance e \<noteq> dbs_Instance (db_Spec db)
          then (l, w, Result_zero, Some (Errorf (''instance names in Export and Database specs do not match: '' @ dquoted (exp_Instance e) @
                 '' != '' @ dquoted (dbs_Instance (db_Spec db)))))
          else if exp_Objects e = [] then (l, w, Result_zero, Some (Errorf ''no object to export, exportObjects: []''))
          else if ConditionStatusEquals (FindCondition (dst_Conditions (db_Status db)) k8s_Ready) ConditionTrue then
            (case DataPumpExport env l (inst_Namespace inst) (inst_Name inst) (export_request e db inst) (export_operation_id e) of
               (l1, Some err) \<Rightarrow>
                 if \<not> IsAlreadyExistsError err
                 then (l1, setState k8s_ExportComplete (pe_now env l1) w k8s_ExportPending (''failed to start export: '' @ err_msg err), Result_zero,
                       Some (prefixed ''failed to start export: '' err))
                 else (l1, setState k8s_ExportComplete (pe_now env l1) w k8s_ExportInProgress [], requeueSoon, None)
             | (l1, None) \<Rightarrow> (l1, setState k8s_ExportComplete (pe_now env l1) w k8s_ExportInProgress [], requeueSoon, None))
          else (l, w, requeueSoon, None)))"

text \<open>The operation is deleted by a deferred call, before the status is written.\<close>

definition handleRunningExport :: "pump_env \<Rightarrow> pump_log \<Rightarrow> Export \<Rightarrow> readyConditionWrapper \<Rightarrow> pump_step" where
  "handleRunningExport env l e w =
     (let opid = export_operation_id e; now = pe_now env l; deleted = (\<lambda>l. pump_DeleteLRO env l opid (exp_Namespace e) (exp_Instance e));
          subject = '' objectType '' @ exp_ObjectType e @ '' objects '' @ listed_text (exp_Objects e) @ '' on '' @ Format_RFC3339 time_Local now @
            '' to '' @ exp_GcsPath e in
      case pump_GetLRO env l opid (exp_Namespace e) (exp_Instance e) of
        Inl err \<Rightarrow> (l, w, Result_zero, Some err)
      | Inr operation \<Rightarrow>
          if \<not> op_Done operation then (l, w, requeueLater, None)
          else
            (case op_error operation of
               Some err \<Rightarrow>
                 (deleted (l @ [PWarning k8s_ExportFailed (''Export error: '' @ err_msg err)]),
                  setState k8s_ExportComplete now w k8s_ExportFailed (''Failed to export'' @ subject @ '': '' @ err_msg err), Result_zero, None)
             | None \<Rightarrow>
                 (case getState k8s_ExportComplete k8s_ExportPending now w of
                    (w1, state) \<Rightarrow>
                      (deleted (if state \<noteq> k8s_ExportComplete then l @ [PNormal k8s_ExportComplete (''Export has completed successfully. Elapsed Time: '' @
                         duration_String (elapsedSinceLastStateChange now w1))] else l),
                       setState k8s_ExportComplete now w1 k8s_ExportComplete (''Exported'' @ subject), Result_zero, None))))"

text \<open>The deferred update of the status: the object as the API server has it afterwards, and an error when there is none yet.\<close>

definition export_finish :: "pump_env \<Rightarrow> Export \<Rightarrow> pump_step \<Rightarrow> pump_log \<times> Export \<times> ctrl_Result \<times> go_error option" where
  "export_finish env e step =
     (case step of
        (l, w, result, err) \<Rightarrow>
          if \<not> rc_changed w then (l, e, result, err)
          else
            (let l1 = l @ [PStatusUpdate (rc_Conditions w)] in
             case pe_StatusUpdate env l (rc_Conditions w) of
               None \<Rightarrow> (l1, e\<lparr>exp_Conditions := rc_Conditions w\<rparr>, result, err)
             | Some e' \<Rightarrow> (l1, e, result, if err = None then Some e' else err)))"

definition export_reconcile :: "pump_env \<Rightarrow> pump_log \<Rightarrow> Export \<Rightarrow> pump_log \<times> Export \<times> ctrl_Result \<times> go_error option" where
  "export_reconcile env l e =
     (case getState k8s_ExportComplete k8s_ExportPending (pe_now env l) \<lparr>rc_Conditions = exp_Conditions e, rc_changed = False\<rparr> of
        (w, state) \<Rightarrow>
          export_finish env e
            (if state = k8s_ExportPending then handleNotStartedExport env l e w
             else if state = k8s_ExportInProgress then handleRunningExport env l e w
             else (l, w, Result_zero, None)))"

text \<open>The object \<open>e\<close> is the one that the API server has, which the round reads first.\<close>

definition Export_Reconcile :: "pump_env \<Rightarrow> pump_log \<Rightarrow> Export \<Rightarrow> pump_log \<times> Export \<times> ctrl_Result \<times> go_error option" where
  "Export_Reconcile env l e =
     (case pe_Get env l of
        Some err \<Rightarrow> (l @ [PGet], e, Result_zero, IgnoreNotFound err)
      | None \<Rightarrow> export_reconcile env (l @ [PGet]) e)"

subsection \<open>The import controller\<close>

definition import_operation_id :: "Import \<Rightarrow> string" where
  "import_operation_id i = ''Import_'' @ imp_UID i"

definition import_request :: "Import \<Rightarrow> Database \<Rightarrow> Instance \<Rightarrow> DataPumpImportReq" where
  "import_request i db inst =
     \<lparr>di_PdbName = dbs_Name (db_Spec db), di_DbDomain = is_DBDomain (inst_Spec inst), di_GcsPath = imp_GcsPath i,
      di_GcsLogPath = imp_GcsLogPath i, di_CommandParams = []\<rparr>"

definition handleNotStartedImport :: "pump_env \<Rightarrow> pump_log \<Rightarrow> Import \<Rightarrow> readyConditionWrapper \<Rightarrow> pump_step" where
  "handleNotStartedImport env l i w =
     (case pe_GetDatabase env l (imp_Namespace i) (imp_DatabaseName i) of
        Inl err \<Rightarrow> (l, w, Result_zero, Some err)
      | Inr db \<Rightarrow>
     (case pe_GetInstance env l (imp_Namespace i) (imp_Instance i) of
        Inl err \<Rightarrow> (l, w, Result_zero, Some err)
      | Inr inst \<Rightarrow>
          if imp_Instance i \<noteq> dbs_Instance (db_Spec db)
          then (l, w, Result_zero, Some (Errorf (''instance names in Import and Database specs do not match: '' @ dquoted (imp_Instance i) @
                 '' != '' @ dquoted (dbs_Instance (db_Spec db)))))
          else if ConditionStatusEquals (FindCondition (dst_Conditions (db_Status db)) k8s_Ready) ConditionTrue then
            (case DataPumpImport env l (inst_Namespace inst) (inst_Name inst) (import_request i db inst) (imp_Options i) (import_operation_id i) of
               (l1, Some err) \<Rightarrow>
                 if \<not> IsAlreadyExistsError err
                 then (l1, setState k8s_ImportComplete (pe_now env l1) w k8s_ImportPending (''failed to start import: '' @ err_msg err), Result_zero,
                       Some (prefixed ''failed to start import: '' err))
                 else (l1, setState k8s_ImportComplete (pe_now env l1) w k8s_ImportInProgress [], requeueSoon, None)
             | (l1, None) \<Rightarrow> (l1, setState k8s_ImportComplete (pe_now env l1) w k8s_ImportInProgress [], requeueSoon, None))
          else (l, w, requeueSoon, None)))"

definition handleRunningImport :: "pump_env \<Rightarrow> pump_log \<Rightarrow> Import \<Rightarrow> readyConditionWrapper \<Rightarrow> pump_step" where
  "handleRunningImport env l i w =
     (let opid = import_operation_id i; now = pe_now env l; deleted = (\<lambda>l. pump_DeleteLRO env l opid (imp_Namespace i) (imp_Instance i));
          subject = '' on '' @ Format_RFC3339 time_Local now @ '' from '' @ imp_GcsPath i in
      case pump_GetLRO env l opid (imp_Namespace i) (imp_Instance i) of
        Inl err \<Rightarrow> (l, w, Result_zero, Some err)
      | Inr operation \<Rightarrow>
          if \<not> op_Done operation then (l, w, requeueLater, None)
          else
            (case op_error operation of
               Some err \<Rightarrow>
                 (deleted (l @ [PWarning k8s_ImportFailed (''Import error: '' @ err_msg err)]),
                  setState k8s_ImportComplete now w k8s_ImportFailed (''Failed to import'' @ subject @ '': '' @ err_msg err), Result_zero, None)
             | None \<Rightarrow>
                 (case getState k8s_ImportComplete k8s_ImportPending now w of
                    (w1, state) \<Rightarrow>
                      (deleted (if state \<noteq> k8s_ImportComplete then l @ [PNormal k8s_ImportComplete (''Import has completed successfully. Elapsed Time: '' @
                         duration_String (elapsedSinceLastStateChange now w1))] else l),
                       setState k8s_ImportComplete now w1 k8s_ImportComplete (''Imported data'' @ subject), Result_zero, None))))"

definition import_finish :: "pump_env \<Rightarrow> Import \<Rightarrow> pump_step \<Rightarrow> pump_log \<times> Import \<times> ctrl_Result \<times> go_error option" where
  "import_finish env i step =
     (case step of
        (l, w, result, err) \<Rightarrow>
          if \<not> rc_changed w then (l, i, result, err)
          else
            (let l1 = l @ [PStatusUpdate (rc_Conditions w)] in
             case pe_StatusUpdate env l (rc_Conditions w) of
               None \<Rightarrow> (l1, i\<lparr>imp_Conditions := rc_Conditions w\<rparr>, result, err)
             | Some e' \<Rightarrow> (l1, i, result, if err = None then Some e' else err)))"

definition import_reconcile :: "pump_env \<Rightarrow> pump_log \<Rightarrow> Import \<Rightarrow> pump_log \<times> Import \<times> ctrl_Result \<times> go_error option" where
  "import_reconcile env l i =
     (case getState k8s_ImportComplete k8s_ImportPending (pe_now env l) \<lparr>rc_Conditions = imp_Conditions i, rc_changed = False\<rparr> of
        (w, state) \<Rightarrow>
          import_finish env i
            (if state = k8s_ImportPending then handleNotStartedImport env l i w
             else if state = k8s_ImportInProgress then handleRunningImport env l i w
             else (l, w, Result_zero, None)))"

text \<open>The object \<open>i\<close> is the one that the API server has, which the round reads first.\<close>

definition Import_Reconcile :: "pump_env \<Rightarrow> pump_log \<Rightarrow> Import \<Rightarrow> pump_log \<times> Import \<times> ctrl_Result \<times> go_error option" where
  "Import_Reconcile env l i =
     (case pe_Get env l of
        Some err \<Rightarrow> (l @ [PGet], i, Result_zero, IgnoreNotFound err)
      | None \<Rightarrow> import_reconcile env (l @ [PGet]) i)"

end
