(* ===== verification/HostLaws.thy ===== *)
theory HostLaws
  imports DataPumpServer
begin

text \<open>
  Laws of the daemon's calls that the proofs about its jobs share: calls that succeed on a host where everything works
  (\<open>succeeds\<close>), calls that keep the daemon's Oracle home (\<open>at_home\<close>), both closed under \<open>and_then\<close>, and a sample host.
\<close>

subsection \<open>A host on which calls succeed\<close>

definition host_works :: "host_env \<Rightarrow> bool" where
  "host_works he \<longleftrightarrow>
     (\<forall>l c. he_err he l c = None) \<and> (\<forall>k v. he_setenv he k v = None) \<and>
     (\<forall>l sid url. he_open he l sid url = None \<and> he_ping he l sid url = None \<and> snd (he_lines he l sid url) = None) \<and>
     (\<forall>l k m. \<exists>v. he_rand he l k m = Inr v) \<and>
     (\<forall>l p. he_openf he l p = None \<and> snd (he_blocks he l p) = None) \<and>
     (\<forall>l. he_gcs he l = None) \<and> (\<forall>l b. he_attrs he l b = None)"

text \<open>A call that succeeds and leaves the Oracle home and the instance of the daemon as they are.\<close>

definition same_home :: "dstate \<Rightarrow> dstate \<Rightarrow> bool" where
  "same_home s s' \<longleftrightarrow> ds_home s' = ds_home s \<and> ds_sid s' = ds_sid s \<and> ds_env s' ''ORACLE_HOME'' = ds_env s ''ORACLE_HOME''"

definition succeeds :: "dstate \<Rightarrow> 'a dres \<Rightarrow> bool" where
  "succeeds s r \<longleftrightarrow> (\<exists>s' x. r = (s', Inr x) \<and> same_home s s')"

lemma succeeds_ok [simp]: "succeeds s (s', Inr x) = same_home s s'"
  by (simp add: succeeds_def)

lemma same_home_simps [simp]:
  "same_home s s" "same_home s (s\<lparr>ds_log := l\<rparr>)" "same_home s (s\<lparr>ds_env := (ds_env s)(''ORACLE_SID'' := v)\<rparr>)"
  by (simp_all add: same_home_def)

lemma same_home_trans: "same_home s t \<Longrightarrow> same_home t u \<Longrightarrow> same_home s u"
  by (simp add: same_home_def)

lemma succeeds_and_then:
  assumes "succeeds s r" and "\<And>t x. r = (t, Inr x) \<Longrightarrow> same_home s t \<Longrightarrow> succeeds t (k t x)"
  shows "succeeds s (and_then r wrap k)"
  using assms by (force simp: succeeds_def intro: same_home_trans)

lemma succeeds_call: "host_works he \<Longrightarrow> succeeds s (call he s c)"
  by (simp add: host_works_def call_def)

lemma succeeds_setenv: "host_works he \<Longrightarrow> succeeds s (ds_setenv he s ''ORACLE_SID'' v)"
  by (simp add: host_works_def ds_setenv_def)

lemma password_loop_ok: "(\<And>k m. \<exists>v. rand k m = Inr v) \<Longrightarrow> \<exists>p. password_loop rand k n = Inr p"
proof (induction n arbitrary: k)
  case (Suc n)
  obtain v p where "rand k (length alphanumeric) = Inr v" "password_loop rand (Suc k) n = Inr p"
    using Suc by metis
  then show ?case by simp
qed simp

lemma password_ok:
  assumes "\<And>k m. \<exists>v. rand k m = Inr v"
  shows "\<exists>p. RandOraclePassword rand = Inr p"
proof -
  obtain f where f: "rand = (\<lambda>k m. Inr (f k m))"
    using assms by (metis (mono_tags))
  obtain p where "password_loop rand 0 (passLength - 1) = Inr p"
    using password_loop_ok [of rand 0 "passLength - 1"] assms by blast
  then show ?thesis
    by (simp add: RandOraclePassword_def Let_def f)
qed


lemma succeeds_lines: "snd (he_lines he (ds_log s) sid url) = None \<Longrightarrow> succeeds s (dbmsOutputGetLines he s sid url)"
proof -
  have loop: "succeeds s (output_loop he t sid url ts None ls)" if "same_home s t" for t ts ls
    using that by (induction ts arbitrary: t ls) (auto simp: same_home_def)
  show "snd (he_lines he (ds_log s) sid url) = None \<Longrightarrow> succeeds s (dbmsOutputGetLines he s sid url)"
    by (auto simp: dbmsOutputGetLines_def loop split: prod.splits)
qed

lemma succeeds_local:
  assumes "host_works he" and "\<not> is_prelim False [stmt]"
  shows "succeeds s (srv_RunSQLPlus he s (local_sql [stmt]))"
proof -
  have lines: "succeeds t (dbmsOutputGetLines he t sid url)" for t sid url
    using assms(1) by (intro succeeds_lines) (simp add: host_works_def)
  have opens: "srv_open he t url p = Inr url" for t url p
    using assms(1) by (simp add: srv_open_def host_works_def)
  have run: "succeeds t (run_statements he t url False [] [stmt])" for t url
  proof -
    obtain u x where u: "call he t (HExec (ds_SID t) url stmt) = (u, Inr x)" "same_home t u"
      using succeeds_call [OF assms(1)] by (auto simp: succeeds_def)
    obtain v ls where "dbmsOutputGetLines he u (ds_SID u) url = (v, Inr ls)" "same_home u v"
      using lines [of u "ds_SID u" url] by (auto simp: succeeds_def)
    then show ?thesis
      using u by (auto intro: same_home_trans)
  qed
  have sql: "succeeds t (runSQL he t [stmt] False url)" for t url
  proof -
    obtain u x where "call he t (HExec (ds_SID t) url ''BEGIN DBMS_OUTPUT.ENABLE(); END;'') = (u, Inr x)" "same_home t u"
      using succeeds_call [OF assms(1)] by (auto simp: succeeds_def)
    then show ?thesis
      using run [of u url] by (auto simp: runSQL_def succeeds_def intro: same_home_trans)
  qed
  show ?thesis
    unfolding srv_RunSQLPlus_def runSQLPlusHelper_def
    by (simp add: sql_body_def sql_connected_def Let_def assms(2) opens)
       (intro succeeds_and_then succeeds_setenv assms(1); simp add: sql)
qed

lemma succeeds_new_password:
  assumes "host_works he"
  shows "succeeds s (new_password he s usr)"
proof -
  obtain p where p: "RandOraclePassword (he_rand he (ds_log s)) = Inr p"
    using password_ok [of "he_rand he (ds_log s)"] assms by (auto simp: host_works_def)
  have "\<not> is_prelim False [alterUserSQL usr p]"
    by (simp add: is_prelim_def alterUserSQL_def ToLower_def lower_char_def)
  then show ?thesis
    unfolding new_password_def p using assms by (simp, intro succeeds_and_then succeeds_local) simp_all
qed

lemma succeeds_write_lines: "host_works he \<Longrightarrow> succeeds s (write_lines he s p ts)"
  by (induction ts arbitrary: s) (simp_all, intro succeeds_and_then succeeds_call)

lemma copy_blocks_works:
  assumes "host_works he"
  shows "\<exists>s1. copy_blocks he gz bucket name s copied bs = (s1, copied @ bs, None) \<and> same_home s s1"
proof (induction bs arbitrary: s copied)
  case (Cons b bs)
  let ?t = "if gz then he_gzip_write he copied b else b"
  obtain t u where t: "gcs_put he s bucket name ?t = (t, Inr u)" "same_home s t"
    using assms by (cases "?t = []") (simp_all add: gcs_put_def call_def host_works_def)
  obtain v where "copy_blocks he gz bucket name t (copied @ [b]) bs = (v, (copied @ [b]) @ bs, None)" "same_home t v"
    using Cons.IH [of t "copied @ [b]"] by blast
  with t show ?case using same_home_trans by force
qed simp

lemma succeeds_upload:
  assumes "host_works he" and "gcs_SplitURI gcsPath = Inr (bucket, name)"
  shows "succeeds s (gcs_UploadFile he s gcsPath filePath)"
proof -
  obtain blocks where b: "he_blocks he (ds_log s) filePath = (blocks, None)"
    using assms(1) unfolding host_works_def by (metis prod.collapse)
  obtain s1 copied where "copy_blocks he (HasSuffix gcsPath ''.gz'') bucket name s [] blocks = (s1, copied, None)" "same_home s s1"
    using copy_blocks_works [OF assms(1)] by metis
  with b have "succeeds s (gcs_uploadFile he s gcsPath filePath)"
    using assms by (simp add: gcs_uploadFile_def gcs_put_def host_works_def call_def Let_def) (simp add: same_home_def)
  then show ?thesis
    unfolding gcs_UploadFile_def by (cases "he_retries he") (auto simp: succeeds_def)
qed


lemma succeeds_fst_call: "host_works he \<Longrightarrow> same_home s (fst (call he s c))"
  by (simp add: call_def)

subsection \<open>The Oracle home stays\<close>

text \<open>Calls of the daemon that keep its Oracle home, by the state they end in.\<close>

definition at_home :: "dstate \<Rightarrow> 'a dres \<Rightarrow> bool" where
  "at_home s r \<longleftrightarrow> ds_home (fst r) = ds_home s"

lemma at_home_pair [simp]: "at_home s (t, r) \<longleftrightarrow> ds_home t = ds_home s"
  by (simp add: at_home_def)

lemma at_homeD: "at_home s r \<Longrightarrow> r = (t, x) \<Longrightarrow> ds_home t = ds_home s"
  by simp

lemma at_home_and_then:
  assumes "at_home s r" and "\<And>t x. ds_home t = ds_home s \<Longrightarrow> at_home t (k t x)"
  shows "at_home s (and_then r wrap k)"
proof (cases r)
  case (Pair t x)
  then show ?thesis
    using assms by (cases x) (auto simp: at_home_def)
qed

lemma at_home_call: "at_home s (call he s c)"
  by (simp add: call_def)

lemma at_home_setenv: "at_home s (ds_setenv he s k v)"
  by (simp add: ds_setenv_def split: option.splits)

lemma at_home_lines: "at_home s (dbmsOutputGetLines he s sid url)"
proof -
  have "at_home t (output_loop he t sid url ts e ls)" for t ts e ls
    by (induction ts arbitrary: t ls) (simp_all add: at_home_def)
  then show ?thesis
    by (simp add: dbmsOutputGetLines_def split: prod.splits)
qed

lemma at_home_run_statements: "at_home s (run_statements he s url p out sqls)"
proof (induction sqls arbitrary: s out)
  case (Cons sql sqls)
  have "at_home t (case dbmsOutputGetLines he t (ds_SID t) url of
      (s2, Inl err) \<Rightarrow> if \<not> p then (s2, Inl err) else run_statements he s2 url p out sqls
    | (s2, Inr lines) \<Rightarrow> run_statements he s2 url p (out @ lines) sqls)" for t
    using at_homeD [OF at_home_lines [of t he "ds_SID t" url]] Cons
    by (auto simp: at_home_def split: prod.splits sum.splits)
  then show ?case
    by (simp add: at_home_and_then at_home_call)
qed simp

lemma at_home_runSQL: "at_home s (runSQL he s sqls p url)"
proof (cases "call he s (HExec (ds_SID s) url ''BEGIN DBMS_OUTPUT.ENABLE(); END;'')")
  case (Pair t x)
  then have "ds_home t = ds_home s"
    using at_home_call by (metis at_home_pair)
  then show ?thesis
    using Pair at_home_run_statements [of t he url p "[]" sqls]
    by (cases x) (auto simp: runSQL_def at_home_def)
qed

lemma at_home_local: "at_home s (srv_RunSQLPlus he s (local_sql sqls))"
  unfolding srv_RunSQLPlus_def runSQLPlusHelper_def
  by (auto simp: sql_body_def sql_connected_def Let_def intro!: at_home_and_then at_home_setenv at_home_runSQL)

lemma at_home_connstr: "at_home s (SetupUserPwConnStringOnServer he s usr db d)"
  unfolding SetupUserPwConnStringOnServer_def new_password_def
  by (intro at_home_and_then at_home_local) simp_all

lemma at_home_createFile: "at_home s (osUtil_createFile he s f c)"
  unfolding osUtil_createFile_def
  by (intro at_home_and_then at_home_call) (auto simp: call_def split: sum.splits)

subsection \<open>A sample host\<close>

text \<open>Every call succeeds; the program \<open>bin\<close> ends as \<open>answer\<close> says.\<close>

definition works_host :: "string \<Rightarrow> string \<times> cmd_error option \<Rightarrow> host_env" where
  "works_host bin answer =
     \<lparr>he_err = (\<lambda>_ _. None), he_run = (\<lambda>_ _ b _ _. if b = bin then answer else ([], None)), he_open = (\<lambda>_ _ _. None),
      he_ping = (\<lambda>_ _ _. None), he_conn = (\<lambda>_ _ _. None), he_lines = (\<lambda>_ _ _. ([], None)), he_query = (\<lambda>_ _ _ _. Inr (Inr [], [])),
      he_setenv = (\<lambda>_ _. None), he_stat = (\<lambda>_ _. Inl (Errorf ''no such file'')), he_lstat = (\<lambda>_ _. None), he_openf = (\<lambda>_ _. None),
      he_read = (\<lambda>_ _. Inr []), he_dir = (\<lambda>_ _. Inr []), he_walk = (\<lambda>_ _. []), he_hostname = (\<lambda>_. Inr ''host''), he_gcs = (\<lambda>_. None),
      he_attrs = (\<lambda>_ _. None), he_objects = (\<lambda>_ _ _. []), he_object = (\<lambda>_ _ _. Inr (Inr [])), he_blocks = (\<lambda>_ _. ([''data''], None)),
      he_gzip_write = (\<lambda>_ b. b), he_gzip_close = (\<lambda>_. []), he_retries = 3,
      he_url_join = (\<lambda>a b. Inr (a @ b)), he_rpc = (\<lambda>e. e), he_marshal = (\<lambda>_. Inr []), he_unmarshal = (\<lambda>_. Inr Map.empty),
      he_range = (\<lambda>_. []), he_elements = (\<lambda>_. []), he_rand = (\<lambda>_ _ _. Inr 0), he_now = (\<lambda>_. 0), he_user = (\<lambda>_. Inr ([], [], [])),
      he_group = (\<lambda>_. Inr []), he_template = (\<lambda>_ _. Inr [])\<rparr>"

definition started_daemon :: dstate where
  "started_daemon =
     \<lparr>ds_log = [], ds_env = (\<lambda>k. if k = ''ORACLE_HOME'' then ''/oh'' else []), ds_sid = ''GCLOUD'', ds_home = ''/oh'', ds_hostName = ''host'',
      ds_pdbConnStr = [], px_env = (\<lambda>_. []), px_sid = ''GCLOUD'', px_home = ''/oh'', px_version = ''19.3''\<rparr>"

end
