(* ===== verification/DataPumpLaws.thy ===== *)
theory DataPumpLaws
  imports DataPump HostLaws
begin

text \<open>
  What the data pump controllers and the daemon's jobs guarantee together. The locale \<open>pump_machine\<close> is the contract that the
  export and the import controller keep; its lemmas are proved once and interpreted on both.
\<close>

subsection \<open>The contract of the two controllers\<close>

text \<open>The object after \<open>n\<close> rounds of reconciliation, with the log.\<close>

primrec pump_rounds ::
    "(pump_env \<Rightarrow> pump_log \<Rightarrow> 'j \<Rightarrow> pump_log \<times> 'j \<times> ctrl_Result \<times> go_error option) \<Rightarrow> pump_env \<Rightarrow> nat \<Rightarrow> pump_log \<Rightarrow> 'j \<Rightarrow> pump_log \<times> 'j" where
  "pump_rounds reconcile env 0 l j = (l, j)"
| "pump_rounds reconcile env (Suc n) l j = (case reconcile env l j of (l1, j1, _, _) \<Rightarrow> pump_rounds reconcile env n l1 j1)"

locale pump_machine =
  fixes reconcile :: "pump_env \<Rightarrow> pump_log \<Rightarrow> 'j \<Rightarrow> pump_log \<times> 'j \<times> ctrl_Result \<times> go_error option"
    and conds :: "'j \<Rightarrow> Condition list"
    and opid ns instance_name :: "'j \<Rightarrow> string"
    and pending running complete failed :: string
  assumes names: "distinct [pending, running, complete, failed]" "[] \<notin> {pending, running, complete, failed}"
    and unread: "pe_Get env l = Some err \<Longrightarrow> reconcile env l j = (l @ [PGet], j, Result_zero, IgnoreNotFound err)"
    and rests: "pe_Get env l = None \<Longrightarrow> FindCondition (conds j) k8s_Ready = Some c \<Longrightarrow> Reason c \<notin> {pending, running} \<Longrightarrow>
      reconcile env l j = (l @ [PGet], j, Result_zero, None)"
    and starts: "FindCondition (conds j) k8s_Ready = None \<or> reason_of (conds j) k8s_Ready = pending \<Longrightarrow>
      reconcile env l j = (l1, j1, result, result_err) \<Longrightarrow> j1 = j \<or> reason_of (conds j1) k8s_Ready \<in> {pending, running}"
    and lost: "pe_Get env l = None \<Longrightarrow> reason_of (conds j) k8s_Ready = running \<Longrightarrow>
      pump_GetLRO env (l @ [PGet]) (opid j) (ns j) (instance_name j) = Inl err \<Longrightarrow> reconcile env l j = (l @ [PGet], j, Result_zero, Some err)"
    and waits: "pe_Get env l = None \<Longrightarrow> reason_of (conds j) k8s_Ready = running \<Longrightarrow>
      pump_GetLRO env (l @ [PGet]) (opid j) (ns j) (instance_name j) = Inr op \<Longrightarrow> \<not> op_Done op \<Longrightarrow> reconcile env l j = (l @ [PGet], j, requeueLater, None)"
    and ends: "pe_Get env l = None \<Longrightarrow> reason_of (conds j) k8s_Ready = running \<Longrightarrow>
      pump_GetLRO env (l @ [PGet]) (opid j) (ns j) (instance_name j) = Inr op \<Longrightarrow> op_Done op \<Longrightarrow>
      \<exists>ev cs j1. conds j1 = cs \<and> reason_of cs k8s_Ready = (if op_error op = None then complete else failed) \<and>
        (let l1 = pump_DeleteLRO env (l @ [PGet, ev]) (opid j) (ns j) (instance_name j) in
         reconcile env l j =
           (case pe_StatusUpdate env l1 cs of
              None \<Rightarrow> (l1 @ [PStatusUpdate cs], j1, Result_zero, None)
            | Some e \<Rightarrow> (l1 @ [PStatusUpdate cs], j, Result_zero, Some e)))"
begin

abbreviation state :: "'j \<Rightarrow> string" where "state j \<equiv> reason_of (conds j) k8s_Ready"

text \<open>A job that has ended stays as it is, and nothing more is done about it: the rounds only read the object.\<close>

lemma ended_round:
  assumes "state j \<in> {complete, failed}"
  shows "\<exists>err. reconcile env l j = (l @ [PGet], j, Result_zero, err)"
proof -
  obtain c where "FindCondition (conds j) k8s_Ready = Some c" "Reason c = state j"
    using assms names by (auto simp: reason_of_def split: option.splits)
  with assms names show ?thesis using rests unread by (cases "pe_Get env l") auto
qed

lemma ended_is_final:
  assumes "state j \<in> {complete, failed}"
  shows "pump_rounds reconcile env n l j = (l @ replicate n PGet, j)"
proof (induction n arbitrary: l)
  case (Suc n)
  then show ?case
    using ended_round [OF assms, of env l] by auto
qed simp

text \<open>The only way to the state of success is an operation that was seen done, without an error.\<close>

lemma step_to_complete:
  assumes "reconcile env l j = (l1, j1, result, err)" and "state j1 = complete" and "state j \<noteq> complete"
  shows "state j = running" and "\<exists>op. pump_GetLRO env (l @ [PGet]) (opid j) (ns j) (instance_name j) = Inr op \<and> op_Done op \<and> op_error op = None"
proof -
  have moved: "j1 \<noteq> j"
    using assms by auto
  then have got: "pe_Get env l = None"
    using unread assms(1) by (cases "pe_Get env l") auto
  have "\<not> (FindCondition (conds j) k8s_Ready = None \<or> state j = pending)"
  proof
    assume "FindCondition (conds j) k8s_Ready = None \<or> state j = pending"
    from starts [OF this assms(1)] show False
      using moved assms(2) names by auto
  qed
  then obtain c where c: "FindCondition (conds j) k8s_Ready = Some c" "Reason c = state j" "state j \<noteq> pending"
    by (auto simp: reason_of_def)
  show run: "state j = running"
  proof (rule ccontr)
    assume "state j \<noteq> running"
    then have "reconcile env l j = (l @ [PGet], j, Result_zero, None)"
      using rests [OF got c(1)] c by auto
    then show False
      using assms(1) moved by simp
  qed
  obtain op where op: "pump_GetLRO env (l @ [PGet]) (opid j) (ns j) (instance_name j) = Inr op"
    using lost [OF got run] assms(1) moved by (cases "pump_GetLRO env (l @ [PGet]) (opid j) (ns j) (instance_name j)") auto
  have d: "op_Done op"
    using waits [OF got run op] assms(1) moved by auto
  have "op_error op = None"
    using ends [OF got run op d] assms(1,2) moved names by (auto simp: Let_def split: option.splits if_splits)
  then show "\<exists>op. pump_GetLRO env (l @ [PGet]) (opid j) (ns j) (instance_name j) = Inr op \<and> op_Done op \<and> op_error op = None"
    using op d by blast
qed

lemma complete_was_done:
  assumes "pump_rounds reconcile env n l j = (l', j')" and "state j' = complete" and "state j \<noteq> complete"
  shows "\<exists>m k i op. m < n \<and> pump_rounds reconcile env m l j = (k, i) \<and> state i = running \<and>
    pump_GetLRO env (k @ [PGet]) (opid i) (ns i) (instance_name i) = Inr op \<and> op_Done op \<and> op_error op = None"
  using assms
proof (induction n arbitrary: l j)
  case (Suc n)
  obtain l1 j1 result err where step: "reconcile env l j = (l1, j1, result, err)"
    by (metis prod_cases4)
  show ?case
  proof (cases "state j1 = complete")
    case True
    from step_to_complete [OF step True Suc.prems(3)] show ?thesis
      by (intro exI [of _ 0]) auto
  next
    case False
    from Suc.IH [of l1 j1] Suc.prems step False obtain m k i op where
      "m < n" "pump_rounds reconcile env m l1 j1 = (k, i)" "state i = running"
      "pump_GetLRO env (k @ [PGet]) (opid i) (ns i) (instance_name i) = Inr op" "op_Done op" "op_error op = None"
      by auto
    then show ?thesis
      using step by (intro exI [of _ "Suc m"]) auto
  qed
qed simp

text \<open>When the object cannot be read or the status cannot be written the round is repeated: while the daemon answers for the
  operation, the outcome is recorded as soon as the API server accepts it.\<close>

lemma outcome_recorded:
  assumes run: "state j = running"
    and kept: "\<And>l. pump_GetLRO env l (opid j) (ns j) (instance_name j) = Inr op" and finished: "op_Done op"
    and reads: "\<And>l. N \<le> length l \<Longrightarrow> pe_Get env l = None"
    and accepts: "\<And>l cs. N \<le> length l \<Longrightarrow> pe_StatusUpdate env l cs = None"
  shows "\<exists>m \<le> Suc (N - length l). state (snd (pump_rounds reconcile env m l j)) = (if op_error op = None then complete else failed)"
proof (induction "N - length l" arbitrary: l rule: less_induct)
  case less
  have again: ?case if "reconcile env l j = (l2, j, x, e)" "length l < N" "length l < length l2" for l2 x e
  proof -
    have "N - length l2 < N - length l" using that by simp
    from less [OF this] obtain m where "m \<le> Suc (N - length l2)"
      "state (snd (pump_rounds reconcile env m l2 j)) = (if op_error op = None then complete else failed)" by blast
    then show ?thesis using that by (intro exI [of _ "Suc m"]) auto
  qed
  show ?case
  proof (cases "pe_Get env l")
    case (Some err)
    then have "length l < N" using reads [of l] by (cases "N \<le> length l") auto
    with unread [OF Some] show ?thesis by (intro again [of "l @ [PGet]"]) auto
  next
    case None
    obtain ev cs j1 l1 where cs: "conds j1 = cs" "reason_of cs k8s_Ready = (if op_error op = None then complete else failed)"
      and l1: "l1 = pump_DeleteLRO env (l @ [PGet, ev]) (opid j) (ns j) (instance_name j)"
      and step: "reconcile env l j = (case pe_StatusUpdate env l1 cs of None \<Rightarrow> (l1 @ [PStatusUpdate cs], j1, Result_zero, None)
        | Some e \<Rightarrow> (l1 @ [PStatusUpdate cs], j, Result_zero, Some e))"
      using ends [OF None run kept finished] by (auto simp: Let_def)
    have longer: "length l < length l1"
      unfolding l1 pump_DeleteLRO_def by (simp split: option.splits)
    show ?thesis
    proof (cases "pe_StatusUpdate env l1 cs")
      case None
      then show ?thesis
        using step cs by (intro exI [of _ 1]) simp
    next
      case (Some e)
      then have "length l1 < N"
        using accepts [of l1 cs] by force
      with Some step longer show ?thesis by (intro again [of "l1 @ [PStatusUpdate cs]"]) auto
    qed
  qed
qed

end

subsection \<open>Both controllers keep it\<close>

lemma setState_reason [simp]: "reason_of (rc_Conditions (setState complete now w r m)) k8s_Ready = r"
  by (simp add: setState_def reason_of_Upsert)

lemma setState_changed [simp]: "rc_changed (setState complete now w r m)"
  by (simp add: setState_def)

lemma getState_found:
  "FindCondition (rc_Conditions w) k8s_Ready = Some c \<Longrightarrow> getState complete d now w = (w, Reason c)"
  by (simp add: getState_def reason_of_def)

lemma getState_none:
  "FindCondition (rc_Conditions w) k8s_Ready = None \<Longrightarrow> getState complete d now w = (setState complete now w d [], d)"
  by (simp add: getState_def setState_reason)


lemma export_running:
  assumes "reason_of (exp_Conditions j) k8s_Ready = k8s_ExportInProgress"
    and "pe_Get env l = None"
  shows "Export_Reconcile env l j = export_finish env j (handleRunningExport env (l @ [PGet]) j \<lparr>rc_Conditions = exp_Conditions j, rc_changed = False\<rparr>)"
proof -
  obtain c where "FindCondition (exp_Conditions j) k8s_Ready = Some c" "Reason c = k8s_ExportInProgress"
    using assms(1) by (auto simp: reason_of_def split: option.splits)
  then show ?thesis
    using assms(2) by (simp add: Export_Reconcile_def export_reconcile_def getState_found)
qed

lemma export_ends:
  assumes "reason_of (exp_Conditions j) k8s_Ready = k8s_ExportInProgress"
    and "pump_GetLRO env (l @ [PGet]) (export_operation_id j) (exp_Namespace j) (exp_Instance j) = Inr op" and "op_Done op"
    and "pe_Get env l = None"
  shows "\<exists>ev cs j1. exp_Conditions j1 = cs \<and> reason_of cs k8s_Ready = (if op_error op = None then k8s_ExportComplete else k8s_ExportFailed) \<and>
    (let l1 = pump_DeleteLRO env (l @ [PGet, ev]) (export_operation_id j) (exp_Namespace j) (exp_Instance j) in
     Export_Reconcile env l j =
       (case pe_StatusUpdate env l1 cs of
          None \<Rightarrow> (l1 @ [PStatusUpdate cs], j1, Result_zero, None)
        | Some e \<Rightarrow> (l1 @ [PStatusUpdate cs], j, Result_zero, Some e)))"
proof -
  let ?w = "\<lparr>rc_Conditions = exp_Conditions j, rc_changed = False\<rparr>"
  obtain c where c: "FindCondition (rc_Conditions ?w) k8s_Ready = Some c" "Reason c = k8s_ExportInProgress"
    using assms(1) by (auto simp: reason_of_def split: option.splits)
  obtain ev w where step: "handleRunningExport env (l @ [PGet]) j ?w =
      (pump_DeleteLRO env (l @ [PGet, ev]) (export_operation_id j) (exp_Namespace j) (exp_Instance j), w, Result_zero, None)"
    and w: "rc_changed w" "reason_of (rc_Conditions w) k8s_Ready = (if op_error op = None then k8s_ExportComplete else k8s_ExportFailed)"
    using assms(2,3) by (cases "op_error op") (auto simp: handleRunningExport_def getState_found [OF c(1)] c(2) Let_def)
  show ?thesis
    unfolding export_running [OF assms(1,4)] step
    by (rule exI [of _ ev], rule exI [of _ "rc_Conditions w"], rule exI [of _ "j\<lparr>exp_Conditions := rc_Conditions w\<rparr>"])
       (use w in \<open>auto simp: export_finish_def Let_def split: option.splits\<close>)
qed

lemma export_starts:
  assumes "FindCondition (exp_Conditions j) k8s_Ready = None \<or> reason_of (exp_Conditions j) k8s_Ready = k8s_ExportPending"
    and "Export_Reconcile env l j = (l1, j1, result, err)"
  shows "j1 = j \<or> reason_of (exp_Conditions j1) k8s_Ready \<in> {k8s_ExportPending, k8s_ExportInProgress}"
proof (cases "pe_Get env l = None")
  case False
  then show ?thesis using assms(2) by (auto simp: Export_Reconcile_def)
next
  case True
  let ?l = "l @ [PGet]"
  let ?w0 = "\<lparr>rc_Conditions = exp_Conditions j, rc_changed = False\<rparr>"
  obtain w where w: "getState k8s_ExportComplete k8s_ExportPending (pe_now env ?l) ?w0 = (w, k8s_ExportPending)" "reason_of (rc_Conditions w) k8s_Ready = k8s_ExportPending"
  proof (cases "FindCondition (exp_Conditions j) k8s_Ready")
    case None
    then show ?thesis
      using that by (auto simp: getState_none)
  next
    case (Some c)
    then show ?thesis
      using that [of ?w0] assms(1) getState_found [of ?w0 c] by (auto simp: reason_of_def)
  qed
  obtain l2 w2 r2 e2 where step: "handleNotStartedExport env ?l j w = (l2, w2, r2, e2)"
    by (metis prod_cases4)
  then have "reason_of (rc_Conditions w2) k8s_Ready \<in> {k8s_ExportPending, k8s_ExportInProgress}"
    using w(2) by (auto simp: handleNotStartedExport_def Let_def split: sum.splits if_splits prod.splits option.splits)
  moreover have "export_finish env j (l2, w2, r2, e2) = (l1, j1, result, err)"
    using True assms(2) w(1) step by (simp add: Export_Reconcile_def export_reconcile_def)
  ultimately show ?thesis
    by (auto simp: export_finish_def Let_def split: if_splits option.splits)
qed

interpretation expc: pump_machine Export_Reconcile exp_Conditions export_operation_id exp_Namespace exp_Instance
  k8s_ExportPending k8s_ExportInProgress k8s_ExportComplete k8s_ExportFailed
proof
  fix j :: Export and c and env :: pump_env and l
  assume "pe_Get env l = None" "FindCondition (exp_Conditions j) k8s_Ready = Some c" "Reason c \<notin> {k8s_ExportPending, k8s_ExportInProgress}"
  then show "Export_Reconcile env l j = (l @ [PGet], j, Result_zero, None)"
    by (simp add: Export_Reconcile_def export_reconcile_def getState_found export_finish_def)
next
  fix j and env :: pump_env and l err
  assume "pe_Get env l = None" "reason_of (exp_Conditions j) k8s_Ready = k8s_ExportInProgress" "pump_GetLRO env (l @ [PGet]) (export_operation_id j) (exp_Namespace j) (exp_Instance j) = Inl err"
  then show "Export_Reconcile env l j = (l @ [PGet], j, Result_zero, Some err)"
    by (simp add: export_running handleRunningExport_def export_finish_def Let_def)
next
  fix j and env :: pump_env and l op
  assume "pe_Get env l = None" "reason_of (exp_Conditions j) k8s_Ready = k8s_ExportInProgress" "pump_GetLRO env (l @ [PGet]) (export_operation_id j) (exp_Namespace j) (exp_Instance j) = Inr op"
    "\<not> op_Done op"
  then show "Export_Reconcile env l j = (l @ [PGet], j, requeueLater, None)"
    by (simp add: export_running handleRunningExport_def export_finish_def Let_def)
next
  fix j and env :: pump_env and l op
  assume "pe_Get env l = None" "reason_of (exp_Conditions j) k8s_Ready = k8s_ExportInProgress" "pump_GetLRO env (l @ [PGet]) (export_operation_id j) (exp_Namespace j) (exp_Instance j) = Inr op" "op_Done op"
  then show "\<exists>ev cs j1. exp_Conditions j1 = cs \<and> reason_of cs k8s_Ready = (if op_error op = None then k8s_ExportComplete else k8s_ExportFailed) \<and>
    (let l1 = pump_DeleteLRO env (l @ [PGet, ev]) (export_operation_id j) (exp_Namespace j) (exp_Instance j) in
     Export_Reconcile env l j =
       (case pe_StatusUpdate env l1 cs of
          None \<Rightarrow> (l1 @ [PStatusUpdate cs], j1, Result_zero, None)
        | Some e \<Rightarrow> (l1 @ [PStatusUpdate cs], j, Result_zero, Some e)))"
    by (intro export_ends)
qed (simp, simp, simp add: Export_Reconcile_def, erule (1) export_starts)

lemma import_running:
  assumes "reason_of (imp_Conditions j) k8s_Ready = k8s_ImportInProgress"
    and "pe_Get env l = None"
  shows "Import_Reconcile env l j = import_finish env j (handleRunningImport env (l @ [PGet]) j \<lparr>rc_Conditions = imp_Conditions j, rc_changed = False\<rparr>)"
proof -
  obtain c where "FindCondition (imp_Conditions j) k8s_Ready = Some c" "Reason c = k8s_ImportInProgress"
    using assms(1) by (auto simp: reason_of_def split: option.splits)
  then show ?thesis
    using assms(2) by (simp add: Import_Reconcile_def import_reconcile_def getState_found)
qed

lemma import_ends:
  assumes "reason_of (imp_Conditions j) k8s_Ready = k8s_ImportInProgress"
    and "pump_GetLRO env (l @ [PGet]) (import_operation_id j) (imp_Namespace j) (imp_Instance j) = Inr op" and "op_Done op"
    and "pe_Get env l = None"
  shows "\<exists>ev cs j1. imp_Conditions j1 = cs \<and> reason_of cs k8s_Ready = (if op_error op = None then k8s_ImportComplete else k8s_ImportFailed) \<and>
    (let l1 = pump_DeleteLRO env (l @ [PGet, ev]) (import_operation_id j) (imp_Namespace j) (imp_Instance j) in
     Import_Reconcile env l j =
       (case pe_StatusUpdate env l1 cs of
          None \<Rightarrow> (l1 @ [PStatusUpdate cs], j1, Result_zero, None)
        | Some e \<Rightarrow> (l1 @ [PStatusUpdate cs], j, Result_zero, Some e)))"
proof -
  let ?w = "\<lparr>rc_Conditions = imp_Conditions j, rc_changed = False\<rparr>"
  obtain c where c: "FindCondition (rc_Conditions ?w) k8s_Ready = Some c" "Reason c = k8s_ImportInProgress"
    using assms(1) by (auto simp: reason_of_def split: option.splits)
  obtain ev w where step: "handleRunningImport env (l @ [PGet]) j ?w =
      (pump_DeleteLRO env (l @ [PGet, ev]) (import_operation_id j) (imp_Namespace j) (imp_Instance j), w, Result_zero, None)"
    and w: "rc_changed w" "reason_of (rc_Conditions w) k8s_Ready = (if op_error op = None then k8s_ImportComplete else k8s_ImportFailed)"
    using assms(2,3) by (cases "op_error op") (auto simp: handleRunningImport_def getState_found [OF c(1)] c(2) Let_def)
  show ?thesis
    unfolding import_running [OF assms(1,4)] step
    by (rule exI [of _ ev], rule exI [of _ "rc_Conditions w"], rule exI [of _ "j\<lparr>imp_Conditions := rc_Conditions w\<rparr>"])
       (use w in \<open>auto simp: import_finish_def Let_def split: option.splits\<close>)
qed

lemma import_starts:
  assumes "FindCondition (imp_Conditions j) k8s_Ready = None \<or> reason_of (imp_Conditions j) k8s_Ready = k8s_ImportPending"
    and "Import_Reconcile env l j = (l1, j1, result, err)"
  shows "j1 = j \<or> reason_of (imp_Conditions j1) k8s_Ready \<in> {k8s_ImportPending, k8s_ImportInProgress}"
proof (cases "pe_Get env l = None")
  case False
  then show ?thesis using assms(2) by (auto simp: Import_Reconcile_def)
next
  case True
  let ?l = "l @ [PGet]"
  let ?w0 = "\<lparr>rc_Conditions = imp_Conditions j, rc_changed = False\<rparr>"
  obtain w where w: "getState k8s_ImportComplete k8s_ImportPending (pe_now env ?l) ?w0 = (w, k8s_ImportPending)" "reason_of (rc_Conditions w) k8s_Ready = k8s_ImportPending"
  proof (cases "FindCondition (imp_Conditions j) k8s_Ready")
    case None
    then show ?thesis
      using that by (auto simp: getState_none)
  next
    case (Some c)
    then show ?thesis
      using that [of ?w0] assms(1) getState_found [of ?w0 c] by (auto simp: reason_of_def)
  qed
  obtain l2 w2 r2 e2 where step: "handleNotStartedImport env ?l j w = (l2, w2, r2, e2)"
    by (metis prod_cases4)
  then have "reason_of (rc_Conditions w2) k8s_Ready \<in> {k8s_ImportPending, k8s_ImportInProgress}"
    using w(2) by (auto simp: handleNotStartedImport_def Let_def split: sum.splits if_splits prod.splits option.splits)
  moreover have "import_finish env j (l2, w2, r2, e2) = (l1, j1, result, err)"
    using True assms(2) w(1) step by (simp add: Import_Reconcile_def import_reconcile_def)
  ultimately show ?thesis
    by (auto simp: import_finish_def Let_def split: if_splits option.splits)
qed

interpretation impc: pump_machine Import_Reconcile imp_Conditions import_operation_id imp_Namespace imp_Instance
  k8s_ImportPending k8s_ImportInProgress k8s_ImportComplete k8s_ImportFailed
proof
  fix j :: Import and c and env :: pump_env and l
  assume "pe_Get env l = None" "FindCondition (imp_Conditions j) k8s_Ready = Some c" "Reason c \<notin> {k8s_ImportPending, k8s_ImportInProgress}"
  then show "Import_Reconcile env l j = (l @ [PGet], j, Result_zero, None)"
    by (simp add: Import_Reconcile_def import_reconcile_def getState_found import_finish_def)
next
  fix j and env :: pump_env and l err
  assume "pe_Get env l = None" "reason_of (imp_Conditions j) k8s_Ready = k8s_ImportInProgress" "pump_GetLRO env (l @ [PGet]) (import_operation_id j) (imp_Namespace j) (imp_Instance j) = Inl err"
  then show "Import_Reconcile env l j = (l @ [PGet], j, Result_zero, Some err)"
    by (simp add: import_running handleRunningImport_def import_finish_def Let_def)
next
  fix j and env :: pump_env and l op
  assume "pe_Get env l = None" "reason_of (imp_Conditions j) k8s_Ready = k8s_ImportInProgress" "pump_GetLRO env (l @ [PGet]) (import_operation_id j) (imp_Namespace j) (imp_Instance j) = Inr op"
    "\<not> op_Done op"
  then show "Import_Reconcile env l j = (l @ [PGet], j, requeueLater, None)"
    by (simp add: import_running handleRunningImport_def import_finish_def Let_def)
next
  fix j and env :: pump_env and l op
  assume "pe_Get env l = None" "reason_of (imp_Conditions j) k8s_Ready = k8s_ImportInProgress" "pump_GetLRO env (l @ [PGet]) (import_operation_id j) (imp_Namespace j) (imp_Instance j) = Inr op" "op_Done op"
  then show "\<exists>ev cs j1. imp_Conditions j1 = cs \<and> reason_of cs k8s_Ready = (if op_error op = None then k8s_ImportComplete else k8s_ImportFailed) \<and>
    (let l1 = pump_DeleteLRO env (l @ [PGet, ev]) (import_operation_id j) (imp_Namespace j) (imp_Instance j) in
     Import_Reconcile env l j =
       (case pe_StatusUpdate env l1 cs of
          None \<Rightarrow> (l1 @ [PStatusUpdate cs], j1, Result_zero, None)
        | Some e \<Rightarrow> (l1 @ [PStatusUpdate cs], j, Result_zero, Some e)))"
    by (intro import_ends)
qed (simp, simp, simp add: Import_Reconcile_def, erule (1) import_starts)

subsection \<open>The jobs\<close>

text \<open>Whatever the exit code of \<open>expdp\<close> is, unless it is 5, the export goes on.\<close>

lemma expdp_failure_passes:
  assumes "host_works he" and "ds_home s = ds_env s ''ORACLE_HOME''"
    and "snd (he_run he (ds_log s) (ds_sid s) (bin_of (ds_home s) ''expdp'') params []) = Some (ExitError code m)" and "code \<noteq> 5"
  shows "succeeds s (expdp_run he s params)"
  using assms by (simp add: expdp_run_def srv_runCommand_def ds_setenv_def host_works_def osUtil_runCommand_def Let_def isReturnCodeEqual_def same_home_def)

definition upload_target :: "string \<Rightarrow> bool" where
  "upload_target p \<longleftrightarrow> (case gcs_SplitURI p of Inl _ \<Rightarrow> False | Inr _ \<Rightarrow> True)"

lemma succeeds_upload_target: "host_works he \<Longrightarrow> upload_target p \<Longrightarrow> succeeds s (gcs_UploadFile he s p f)"
  by (auto simp: upload_target_def split: sum.splits intro: succeeds_upload)

lemma failed_expdp_succeeds:
  assumes works: "host_works he" and home: "ds_home s = ds_env s ''ORACLE_HOME''"
    and fails: "\<And>l params. snd (he_run he l (ds_sid s) (bin_of (ds_home s) ''expdp'') params []) = Some (ExitError code m)" "code \<noteq> 5"
    and paths: "upload_target (de_GcsPath req)" "de_GcsLogPath req = [] \<or> upload_target (de_GcsLogPath req)"
  shows "succeeds s (dataPumpExport he s req)"
proof -
  have removed: "succeeds t (remove_old he t p)" for t p
    using works by (simp add: remove_old_def call_def host_works_def)
  have connected: "succeeds t (SetupUserPwConnStringOnServer he t usr db dom)" for t usr db dom
    unfolding SetupUserPwConnStringOnServer_def by (intro succeeds_and_then succeeds_new_password works) simp
  have written: "succeeds t (writeParFile he t p ps)" for t p ps
    unfolding writeParFile_def by (intro succeeds_and_then succeeds_call succeeds_write_lines works)
  have exported: "succeeds t (expdp_run he t ps)" if "same_home s t" for t ps
    using that home fails by (intro expdp_failure_passes [OF works, of t ps code m]) (simp_all add: same_home_def)
  have logged: "succeeds t (if de_GcsLogPath req \<noteq> [] then
      and_then (gcs_UploadFile he t (de_GcsLogPath req) f) w (\<lambda>s _. done_ok s) else done_ok t)" for t f w
    using paths(2) works by (auto intro: succeeds_and_then succeeds_upload_target)
  note same_home_trans [trans]
  show ?thesis
    unfolding dataPumpExport_def Let_def
    apply (rule succeeds_and_then [OF removed])
    apply (rule succeeds_and_then [OF connected])
    apply (rule succeeds_and_then [OF written])
    apply (rule succeeds_and_then [OF exported])
     apply (meson same_home_trans)
    apply (rule succeeds_and_then [OF succeeds_upload_target [OF works paths(1)]])
    apply (rule logged)
    done
qed

lemma impdp_run_fails:
  assumes "\<And>l. \<exists>err. snd (he_run he l (ds_sid s) (bin_of (ds_home s) ''impdp'') params []) = Some err \<and> \<not> isReturnCodeEqual err 5"
  shows "\<exists>t err. impdp_run he s params what = (t, Inl err)"
proof -
  obtain err where "snd (he_run he (ds_log s) (ds_sid s) (bin_of (ds_home s) ''impdp'') params []) = Some err" "\<not> isReturnCodeEqual err 5"
    using assms by blast
  then show ?thesis
    by (auto simp: impdp_run_def srv_runCommand_def osUtil_runCommand_def ds_setenv_def Let_def isReturnCodeEqual_def split: option.splits)
qed


lemma failed_impdp_fails:
  assumes "\<And>l sid params. \<exists>err. snd (he_run he l sid (bin_of (ds_home s) ''impdp'') params []) = Some err \<and> \<not> isReturnCodeEqual err 5"
  shows "\<exists>t err. dataPumpImport he s req = Some (t, Inl err)"
proof -
  have body: "\<exists>t err. import_body he u req dir = Some (t, Inl err)" if "ds_home u = ds_home s" for u dir
  proof (cases "SetupUserPwConnStringOnServer he u PDBLoaderUser (di_PdbName req) (di_DbDomain req)")
    case (Pair v x)
    then have "ds_home v = ds_home s"
      using at_homeD [OF at_home_connstr Pair] that by simp
    then have "\<exists>t err. impdp_run he v params what = (t, Inl err)" for params what
      using assms by (intro impdp_run_fails) simp
    from this [of "meta_params (projr x) (di_CommandParams req)" "''data pump import metadata gathering failed''"] show ?thesis
      using Pair by (cases x) (auto simp: import_body_def)
  qed
  show ?thesis
  proof (cases "gcs_Download he (ds_log s) (di_GcsPath req)")
    case (Inr reader)
    obtain u x where made: "osUtil_createFile he s (path_Join [dump_dir s (di_PdbName req), ''import.dmp'']) reader = (u, x)"
      by fastforce
    show ?thesis
      using Inr made body [OF at_homeD [OF at_home_createFile made], of "dump_dir s (di_PdbName req)"]
      by (cases x) (auto simp: dataPumpImport_def Let_def)
  qed (simp add: dataPumpImport_def Let_def)
qed

subsection \<open>From the job to the object\<close>

text \<open>What the function that is run as a job gives to the LRO server: a response message, which is a typed nil with an error, and the error.\<close>

definition pump_outcome :: "go_error + 'a \<Rightarrow> call_outcome" where
  "pump_outcome r = ReturnsMsg [] (case r of Inl err \<Rightarrow> Some err | Inr _ \<Rightarrow> None)"

text \<open>The daemon's operations have a job under the id \<open>opid\<close> which was started and whose function has returned with \<open>r\<close>; other
  jobs may have been added, run and deleted before, meanwhile and after.\<close>

definition job_returned :: "(string \<Rightarrow> go_error + any_msg) \<Rightarrow> lro_state \<Rightarrow> string \<Rightarrow> go_error + 'a \<Rightarrow> bool" where
  "job_returned MarshalFrom lro opid r \<longleftrightarrow> opid \<noteq> [] \<and>
     (\<exists>tj job. getJob lro opid = Some tj \<and> j_task job \<noteq> None \<and> heap lro ! tj_job tj = run_body MarshalFrom (pump_outcome r) job)"

lemma job_returned_answer:
  assumes "job_returned MarshalFrom lro opid r"
  shows "\<exists>op. GetOperation lro opid = Some (Inr op) \<and> op_Done op \<and>
    (case r of Inl err \<Rightarrow> op_error op \<noteq> None | Inr _ \<Rightarrow> (\<exists>a. MarshalFrom [] = Inr a) \<longrightarrow> op_error op = None)"
proof -
  obtain tj job task where "opid \<noteq> []" "getJob lro opid = Some tj" "j_task job = Some task" "heap lro ! tj_job tj = run_body MarshalFrom (pump_outcome r) job"
    using assms by (auto simp: job_returned_def)
  then show ?thesis
    by (cases r; cases "MarshalFrom []")
       (simp_all add: GetOperation_def validateAndGetOperation_def GetOperationData_def Job_Status_def IsDone_def run_body_def pump_outcome_def
         BuildOperation_def op_error_def Let_def)
qed

text \<open>The operations of a daemon that is asked for one job, which is added, started and returns.\<close>

definition one_job :: "string \<Rightarrow> string \<Rightarrow> go_error + 'a \<Rightarrow> lro_state" where
  "one_job opid name r =
     (case add_job ''x'' opid name 0 \<lparr>jobs = [], heap = [], starting = []\<rparr> of
        (ptr, lro) \<Rightarrow> finish_job Inr (pump_outcome r) ptr (start_job ptr lro))"

lemma one_job_returned:
  assumes "opid \<noteq> []"
  shows "job_returned Inr (one_job opid name r) opid r"
proof -
  let ?job = "\<lparr>j_id = opid, j_name = name, j_resp = None, j_err = None, j_task = Some detach_Go\<rparr>"
  let ?tj = "\<lparr>tj_job = 0, tj_startTime = 0, tj_completeTime = 0, tj_deleteTime = 0\<rparr>"
  have "getJob (one_job opid name r) opid = Some ?tj"
    "heap (one_job opid name r) ! 0 = run_body Inr (pump_outcome r) ?job"
    using assms by (simp_all add: one_job_def add_job_def AddJob_def start_job_def Job_start_def finish_job_def getJob_def Let_def)
  with assms show ?thesis unfolding job_returned_def by (intro conjI exI [of _ ?job] exI [of _ ?tj]) simp_all
qed

definition ready_cond :: "string \<Rightarrow> Condition" where
  "ready_cond reason = \<lparr>Type = k8s_Ready, Status = ConditionFalse, LastTransitionTime = 0, Reason = reason, Message = []\<rparr>"

text \<open>The daemon answers from its operations; the API server refuses everything until \<open>n\<close> calls have been made.\<close>

definition answering_pump :: "lro_state \<Rightarrow> nat \<Rightarrow> pump_env" where
  "answering_pump lro n =
     \<lparr>pe_Get = (\<lambda>l. if length l < n then Some (Errorf ''unavailable'') else None), pe_GetDatabase = (\<lambda>_ _ _. Inl (Errorf ''not found'')), pe_GetInstance = (\<lambda>_ _ _. Inl (Errorf ''not found'')), pe_New = (\<lambda>_ _ _. None),
      pe_ExportAsync = (\<lambda>_ _ _. None), pe_ImportAsync = (\<lambda>_ _ _. None), pe_GetOperation = (\<lambda>_ opid. the (GetOperation lro opid)),
      pe_StatusUpdate = (\<lambda>l _. if length l < n then Some (Errorf ''conflict'') else None), pe_range = (\<lambda>_. []), pe_now = (\<lambda>_. 0)\<rparr>"

definition running_export :: Export where
  "running_export =
     \<lparr>exp_Namespace = ''db'', exp_UID = ''1'', exp_Instance = ''mydb'', exp_DatabaseName = ''pdb1'', exp_ObjectType = ''SCHEMAS'', exp_Objects = [''scott''],
      exp_GcsPath = ''gs://bucket/a.dmp'', exp_GcsLogPath = [], exp_FlashbackTime = None, exp_Conditions = [ready_cond k8s_ExportInProgress]\<rparr>"

definition running_import :: Import where
  "running_import =
     \<lparr>imp_Namespace = ''db'', imp_UID = ''1'', imp_Instance = ''mydb'', imp_DatabaseName = ''pdb1'', imp_GcsPath = ''gs://bucket/a.dmp'',
      imp_GcsLogPath = [], imp_Options = Map.empty, imp_Conditions = [ready_cond k8s_ImportInProgress]\<rparr>"

definition sample_import_req :: DataPumpImportReq where
  "sample_import_req =
     \<lparr>di_PdbName = ''PDB1'', di_DbDomain = [], di_GcsPath = ''gs://bucket/a.dmp'', di_GcsLogPath = [], di_CommandParams = []\<rparr>"

lemmas pump_samples = running_export_def running_import_def ready_cond_def answering_pump_def reason_of_def

text \<open>
  C34: An export whose \<open>expdp\<close> fails, with any exit code but 5, is reported as complete when the other calls of the job succeed; in
  particular there is a dump file after the failed run (the job has removed an older one before), which can be read and uploaded. The
  daemon's job goes on to upload that file and returns no error, the daemon reports its operation as done without an error, and the
  controller makes the \<open>Export\<close> complete.
\<close>

theorem failed_export_reported_complete:
  assumes "host_works he" and "ds_home s = ds_env s ''ORACLE_HOME''"
    and "\<And>l params. snd (he_run he l (ds_sid s) (bin_of (ds_home s) ''expdp'') params []) = Some (ExitError code m)" and "code \<noteq> 5"
    and "upload_target (de_GcsPath req)" and "de_GcsLogPath req = [] \<or> upload_target (de_GcsLogPath req)"
    and "job_returned MarshalFrom lro (export_operation_id e) (snd (dataPumpExport he s req))" and "MarshalFrom [] = Inr a"
    and "reason_of (exp_Conditions e) k8s_Ready = k8s_ExportInProgress"
    and "pe_Get env l = None" and "\<And>l. pe_New env l (exp_Namespace e) (exp_Instance e) = None"
    and "\<And>l. Some (pe_GetOperation env l (export_operation_id e)) = GetOperation lro (export_operation_id e)"
    and "\<And>l cs. pe_StatusUpdate env l cs = None"
  shows "\<exists>l1 e1. Export_Reconcile env l e = (l1, e1, Result_zero, None) \<and> reason_of (exp_Conditions e1) k8s_Ready = k8s_ExportComplete"
proof -
  obtain t x where "dataPumpExport he s req = (t, Inr x)"
    using failed_expdp_succeeds [OF assms(1-6)] by (auto simp: succeeds_def)
  with job_returned_answer [OF assms(7)] assms(8) obtain op where op: "GetOperation lro (export_operation_id e) = Some (Inr op)" "op_Done op" "op_error op = None"
    by auto
  then have "pump_GetLRO env (l @ [PGet]) (export_operation_id e) (exp_Namespace e) (exp_Instance e) = Inr op"
    using assms(11,12) by (simp add: pump_GetLRO_def)
  from export_ends [OF assms(9) this op(2) assms(10)] show ?thesis
    using assms(13) op(3) by (auto simp: Let_def)
qed

definition sample_export_req :: DataPumpExportReq where
  "sample_export_req =
     \<lparr>de_PdbName = ''PDB1'', de_DbDomain = [], de_ObjectType = ''SCHEMAS'', de_Objects = ''scott'', de_GcsPath = ''gs://bucket/a.dmp'',
      de_GcsLogPath = [], de_FlashbackTime = [], de_CommandParams = []\<rparr>"

theorem failed_export_reported_complete_witness:
  "\<exists>l1 e1. Export_Reconcile
       (answering_pump (one_job ''Export_1'' ''DataPumpExport''
          (snd (dataPumpExport (works_host ''/oh/bin/expdp'' ([], Some (ExitError 1 ''ORA-39001''))) started_daemon sample_export_req))) 0)
       [] running_export = (l1, e1, Result_zero, None) \<and> reason_of (exp_Conditions e1) k8s_Ready = k8s_ExportComplete"
proof -
  let ?r = "snd (dataPumpExport (works_host ''/oh/bin/expdp'' ([], Some (ExitError 1 ''ORA-39001''))) started_daemon sample_export_req)"
  have bin: "bin_of ''/oh'' ''expdp'' = ''/oh/bin/expdp''"
    by code_simp
  have opid: "export_operation_id running_export = ''Export_1''"
    by (simp add: running_export_def export_operation_id_def)
  have job: "job_returned Inr (one_job ''Export_1'' ''DataPumpExport'' ?r) ''Export_1'' ?r"
    by (simp add: one_job_returned)
  then obtain op where "GetOperation (one_job ''Export_1'' ''DataPumpExport'' ?r) ''Export_1'' = Some (Inr op)"
    using job_returned_answer by blast
  with job show ?thesis
    by (intro failed_export_reported_complete [where code = 1 and m = "''ORA-39001''" and req = sample_export_req and s = started_daemon
          and he = "works_host ''/oh/bin/expdp'' ([], Some (ExitError 1 ''ORA-39001''))" and MarshalFrom = Inr and a = "[]"
          and lro = "one_job ''Export_1'' ''DataPumpExport'' ?r"])
       (simp_all add: opid, simp_all add: host_works_def works_host_def started_daemon_def bin upload_target_def gcs_SplitURI_def sample_export_req_def
         pump_samples)
qed

text \<open>
  An import whose \<open>impdp\<close> fails, with an exit code other than 5 or without running, is reported as failed, whatever else the
  host answers: the job returns an error, and the \<open>Import\<close> becomes failed.
\<close>

theorem failed_import_reported_failed:
  assumes "\<And>l sid params. \<exists>err. snd (he_run he l sid (bin_of (ds_home s) ''impdp'') params []) = Some err \<and> \<not> isReturnCodeEqual err 5"
    and "reason_of (imp_Conditions i) k8s_Ready = k8s_ImportInProgress"
    and "pe_Get env l = None" and "\<And>l. pe_New env l (imp_Namespace i) (imp_Instance i) = None"
    and "\<And>t r. dataPumpImport he s req = Some (t, r) \<Longrightarrow> job_returned MarshalFrom lro (import_operation_id i) r"
    and "\<And>l. Some (pe_GetOperation env l (import_operation_id i)) = GetOperation lro (import_operation_id i)"
    and "\<And>l cs. pe_StatusUpdate env l cs = None"
  shows "(\<exists>t err. dataPumpImport he s req = Some (t, Inl err)) \<and>
    (\<exists>l1 i1. Import_Reconcile env l i = (l1, i1, Result_zero, None) \<and> reason_of (imp_Conditions i1) k8s_Ready = k8s_ImportFailed)"
proof -
  obtain t err where job: "dataPumpImport he s req = Some (t, Inl err)"
    using failed_impdp_fails [OF assms(1)] by blast
  with job_returned_answer [OF assms(5)] obtain op where op: "GetOperation lro (import_operation_id i) = Some (Inr op)" "op_Done op" "op_error op \<noteq> None"
    by fastforce
  then have "pump_GetLRO env (l @ [PGet]) (import_operation_id i) (imp_Namespace i) (imp_Instance i) = Inr op"
    using assms(4,6) by (simp add: pump_GetLRO_def)
  from import_ends [OF assms(2) this op(2) assms(3)] show ?thesis
    using assms(7) op(3) job by (auto simp: Let_def)
qed

theorem failed_import_reported_failed_witness:
  "\<exists>l1 i1. Import_Reconcile
       (answering_pump (one_job ''Import_1'' ''DataPumpImport''
          (snd (the (dataPumpImport (works_host ''/oh/bin/impdp'' ([], Some (ExitError 1 ''ORA-39001''))) started_daemon sample_import_req)))) 0)
       [] running_import = (l1, i1, Result_zero, None) \<and> reason_of (imp_Conditions i1) k8s_Ready = k8s_ImportFailed"
proof -
  let ?r = "snd (the (dataPumpImport (works_host ''/oh/bin/impdp'' ([], Some (ExitError 1 ''ORA-39001''))) started_daemon sample_import_req))"
  have bin: "bin_of ''/oh'' ''impdp'' = ''/oh/bin/impdp''"
    by code_simp
  have opid: "import_operation_id running_import = ''Import_1''"
    by (simp add: running_import_def import_operation_id_def)
  have job: "job_returned Inr (one_job ''Import_1'' ''DataPumpImport'' ?r) ''Import_1'' ?r"
    by (simp add: one_job_returned)
  then obtain op where "GetOperation (one_job ''Import_1'' ''DataPumpImport'' ?r) ''Import_1'' = Some (Inr op)"
    using job_returned_answer by blast
  with job show ?thesis
    by (intro failed_import_reported_failed [where he = "works_host ''/oh/bin/impdp'' ([], Some (ExitError 1 ''ORA-39001''))"
          and s = started_daemon and req = sample_import_req and MarshalFrom = Inr and lro = "one_job ''Import_1'' ''DataPumpImport'' ?r", THEN conjunct2])
       (simp_all add: opid, simp_all add: works_host_def started_daemon_def bin isReturnCodeEqual_def pump_samples)
qed

text \<open>
  An export becomes complete only when a round found it in progress and its operation done without an error.
\<close>

lemma export_complete_was_done:
  assumes "pump_rounds Export_Reconcile env n l e = (l', e')"
    and "reason_of (exp_Conditions e') k8s_Ready = k8s_ExportComplete" and "reason_of (exp_Conditions e) k8s_Ready \<noteq> k8s_ExportComplete"
  shows "\<exists>m k i op. m < n \<and> pump_rounds Export_Reconcile env m l e = (k, i) \<and> reason_of (exp_Conditions i) k8s_Ready = k8s_ExportInProgress \<and>
    pump_GetLRO env (k @ [PGet]) (export_operation_id i) (exp_Namespace i) (exp_Instance i) = Inr op \<and> op_Done op \<and> op_error op = None"
  using assms by (rule expc.complete_was_done)

text \<open>
  C35: The outcome of an import is recorded although reading the object and writing its status may fail: the operation is deleted
  before that write, but while the daemon still answers for it, every round comes to the same outcome, and the first accepted write
  records it.
\<close>

theorem import_outcome_recorded:
  assumes "reason_of (imp_Conditions i) k8s_Ready = k8s_ImportInProgress"
    and "\<And>l. pump_GetLRO env l (import_operation_id i) (imp_Namespace i) (imp_Instance i) = Inr op" and "op_Done op"
    and "\<And>l. N \<le> length l \<Longrightarrow> pe_Get env l = None"
    and "\<And>l cs. N \<le> length l \<Longrightarrow> pe_StatusUpdate env l cs = None"
  shows "\<exists>m \<le> Suc (N - length l). reason_of (imp_Conditions (snd (pump_rounds Import_Reconcile env m l i))) k8s_Ready =
    (if op_error op = None then k8s_ImportComplete else k8s_ImportFailed)"
  using assms by (rule impc.outcome_recorded)

theorem import_outcome_recorded_witness:
  "\<exists>m \<le> 6. reason_of (imp_Conditions (snd (pump_rounds Import_Reconcile
       (answering_pump (one_job ''Import_1'' ''DataPumpImport'' (Inr ())) 5) m [] running_import))) k8s_Ready = k8s_ImportComplete"
proof -
  let ?lro = "one_job ''Import_1'' ''DataPumpImport'' (Inr ())"
  let ?env = "answering_pump ?lro 5"
  obtain op where op: "GetOperation ?lro ''Import_1'' = Some (Inr op)" "op_Done op" "op_error op = None"
    using job_returned_answer [OF one_job_returned [of "''Import_1''" "''DataPumpImport''" "Inr () :: go_error + unit"]] by auto
  have "\<exists>m \<le> Suc (5 - length ([] :: pump_log)). reason_of (imp_Conditions (snd (pump_rounds Import_Reconcile ?env m [] running_import))) k8s_Ready =
    (if op_error op = None then k8s_ImportComplete else k8s_ImportFailed)"
    by (rule import_outcome_recorded) (simp_all add: pump_samples pump_GetLRO_def import_operation_id_def op)
  then show ?thesis
    using op(3) by simp
qed

end
