(* ===== verification/Bootstrap.thy ===== *)
theory Bootstrap
  imports DaemonOps Users
begin

text \<open>
  \<open>pkg/database/provision/bootstrap_database_task.go\<close>, \<open>cdb.go\<close> and \<open>init_file_generator.go\<close>: the task that makes the database of a
  seeded image usable on the persistent disks, or prepares one created on an unseeded image. It runs in a process of its own
  (\<open>init_oracle\<close>) or in the controller, and calls the daemon. The process's \<open>ORACLE_SID\<close> and \<open>TNS_ADMIN\<close> are only read after
  \<open>runSQLPlus\<close> has set them; the variables it reads otherwise are \<open>bt_env\<close>. A panic of the process is an error for its caller.
\<close>

subsection \<open>The database\<close>

record oracleCDB =
  oc_sourceCDBName :: string
  oc_cdbName :: string
  oc_version :: string
  oc_host :: string
  oc_uniqueName :: string
  oc_DBDomain :: string
  oc_SGATargetMB :: int
  oc_PGATargetMB :: int

record BootstrapTask =
  bt_db :: oracleCDB
  bt_cdbRenaming :: bool
  bt_isSeeded :: bool
  bt_env :: "string \<Rightarrow> string"

definition newOracleCDB :: "string \<Rightarrow> string \<Rightarrow> string \<Rightarrow> string \<Rightarrow> string \<Rightarrow> string \<Rightarrow> int \<Rightarrow> int \<Rightarrow> oracleCDB" where
  "newOracleCDB sourceDBName cdbName version zn host domain pga sga =
     \<lparr>oc_sourceCDBName = sourceDBName, oc_cdbName = cdbName, oc_version = version, oc_host = host,
      oc_uniqueName = cdbName @ ''_'' @ filter (\<lambda>c. c \<noteq> CHR ''-'') zn, oc_DBDomain = domain, oc_SGATargetMB = sga, oc_PGATargetMB = pga\<rparr>"

abbreviation task_name :: "BootstrapTask \<Rightarrow> string" where "task_name t \<equiv> oc_cdbName (bt_db t)"
abbreviation task_source :: "BootstrapTask \<Rightarrow> string" where "task_source t \<equiv> oc_sourceCDBName (bt_db t)"

definition GetDataFilesDir :: "BootstrapTask \<Rightarrow> string" where
  "GetDataFilesDir t = cdb_data_dir (task_name t)"

definition GetSourceDataFilesDir :: "BootstrapTask \<Rightarrow> string" where
  "GetSourceDataFilesDir t = path_Join [bt_env t ''ORACLE_BASE'', ''oradata'', task_source t]"

definition GetSourceConfigFilesDir :: "BootstrapTask \<Rightarrow> string" where
  "GetSourceConfigFilesDir t = path_Join [bt_env t ''ORACLE_HOME'', ''dbs'']"

definition GetFlashDir :: "BootstrapTask \<Rightarrow> string" where
  "GetFlashDir t = ''/u03/app/oracle/fast_recovery_area/'' @ task_name t"

definition admin_dir :: "BootstrapTask \<Rightarrow> string \<Rightarrow> string" where
  "admin_dir t d = path_Join [OracleBase, ''admin'', task_name t, d]"

definition GetDataFiles :: "string list" where
  "GetDataFiles = [''system01.dbf'', ''sysaux01.dbf'', ''undotbs01.dbf'', ''users01.dbf'', ''pdbseed/undotbs01.dbf'', ''pdbseed/sysaux01.dbf'',
     ''pdbseed/system01.dbf'']"

definition config_files :: "string \<Rightarrow> string list" where
  "config_files db = [''spfile'' @ db @ ''.ora'', ''orapw'' @ db]"

text \<open>The users with the statements that create them; the two passwords are drawn one after the other. \<open>None\<close> when one cannot be made.\<close>

definition GetCreateUserCmds :: "host_env \<Rightarrow> host_log \<Rightarrow> (string \<times> string list) list option" where
  "GetCreateUserCmds he l =
     (case RandOraclePassword (he_rand he l) of
        Inl _ \<Rightarrow> None
      | Inr sPwd \<Rightarrow>
      (case RandOraclePassword (\<lambda>k. he_rand he l (passLength + 2 + k)) of
         Inl _ \<Rightarrow> None
       | Inr pPwd \<Rightarrow>
           Some
             [(SecurityUser,
               [CreateUserCmd SecurityUser sPwd, ''grant create session to '' @ SecurityUser @ '' container=all'',
                ''grant create trigger to '' @ SecurityUser @ '' container=all'',
                ''grant administer database trigger to '' @ SecurityUser @ '' container=all'']),
              (PDBLoaderUser, [CreateUserCmd PDBLoaderUser pPwd])]))"

definition LoadInitOraTemplate :: "host_env \<Rightarrow> string \<Rightarrow> string \<Rightarrow> string \<Rightarrow> go_error + string" where
  "LoadInitOraTemplate he sourceDBName destDBName dbVersion =
     (let name = (if dbVersion = ''18c'' then ''/agents/bootstrap-database-initfile-oracle-xe.template'' else ''/agents/bootstrap-database-initfile.template'')
      in map_sum (prefixed (''LoadInitOraTemplate: executing '' @ name @ '' failed: '')) id
           (he_template he name [(''SourceDBName'', [sourceDBName]), (''DestDBName'', [destDBName])]))"

subsection \<open>Calls of the daemon and of the database\<close>

abbreviation task_sql :: "host_env \<Rightarrow> dstate \<Rightarrow> string list \<Rightarrow> string list dres" where
  "task_sql he s cmds \<equiv> via_proxy he (srv_RunSQLPlus he s (local_sql cmds))"

abbreviation task_bounce :: "host_env \<Rightarrow> dstate \<Rightarrow> BounceDatabaseRequest \<Rightarrow> (DatabaseState \<times> string list) dres" where
  "task_bounce he s req \<equiv> via_proxy he (srv_BounceDatabase he s req)"

text \<open>The task's own \<open>runSQLPlus\<close>: a connection that cannot be opened is a nil pointer to the ping that follows.\<close>

fun task_statements :: "host_env \<Rightarrow> dstate \<Rightarrow> string \<Rightarrow> string \<Rightarrow> bool \<Rightarrow> string list \<Rightarrow> string list \<Rightarrow> string list dres" where
  "task_statements he s sid url prelim out [] = (s, Inr out)"
| "task_statements he s sid url prelim out (sql # sqls) =
     and_then (call he s (HExec sid url sql)) id (\<lambda>s1 _.
     (case dbmsOutputGetLines he s1 sid url of
        (s2, Inl err) \<Rightarrow> if \<not> prelim then (s2, Inl err) else task_statements he s2 sid url prelim out sqls
      | (s2, Inr lines) \<Rightarrow> task_statements he s2 sid url prelim (out @ lines) sqls))"

definition runSQLPlus_on :: "host_env \<Rightarrow> dstate \<Rightarrow> string \<Rightarrow> string \<Rightarrow> bool \<Rightarrow> string list \<Rightarrow> string list dres" where
  "runSQLPlus_on he s sid url prelim sqls =
     (case call he s (HExec sid url ''BEGIN DBMS_OUTPUT.ENABLE(); END;'') of
        (s1, Inl err) \<Rightarrow> if \<not> prelim then (s1, Inl err) else task_statements he s1 sid url prelim [] sqls
      | (s1, Inr _) \<Rightarrow> task_statements he s1 sid url prelim [] sqls)"

definition runSQLPlus :: "host_env \<Rightarrow> dstate \<Rightarrow> string \<Rightarrow> string list \<Rightarrow> string list dres" where
  "runSQLPlus he s dbname sqls =
     and_then (s, res (he_setenv he ''ORACLE_SID'' dbname)) setenv_err (\<lambda>s _.
     and_then (s, res (he_setenv he ''TNS_ADMIN'' ''/u02/app/oracle/oraconfig/network'')) setenv_err (\<lambda>s _.
     if he_open he (ds_log s) dbname sysdba \<noteq> None then (s, Inl (Errorf ''panic: nil pointer dereference''))
     else
       (case he_ping he (ds_log s) dbname sysdba of
          None \<Rightarrow> runSQLPlus_on he s dbname sysdba False sqls
        | Some err \<Rightarrow>
            if \<not> is_prelim False sqls then (s, Inl err)
            else (case he_open he (ds_log s) dbname sysdba_prelim of
                    Some err \<Rightarrow> (s, Inl err)
                  | None \<Rightarrow> runSQLPlus_on he s dbname sysdba_prelim True sqls))))"

subsection \<open>Steps of the task\<close>

definition initUIDGID :: "host_env \<Rightarrow> dstate \<Rightarrow> unit dres" where
  "initUIDGID he s = (s, map_sum (prefixed ''failed to find uid gid: '') (\<lambda>_. ()) (oracleUser he))"

definition createDirs :: "host_env \<Rightarrow> BootstrapTask \<Rightarrow> dstate \<Rightarrow> unit dres" where
  "createDirs he t s =
     and_then
       (MakeDirs he s
          [GetDataFilesDir t, cdb_config_dir (task_name t), GetFlashDir t, ''/u02/app/oracle/oraconfig/network'', admin_dir t ''adump'',
           admin_dir t ''cdump'', path_Join [GetDataFilesDir t, ''pdbseed'']])
       (prefixed ''failed to create prerequisite directories: '') (\<lambda>s _. done_ok s)"

definition task_setenv :: "host_env \<Rightarrow> string \<Rightarrow> dstate \<Rightarrow> unit dres" where
  "task_setenv he sid s = (s, res (he_setenv he ''ORACLE_SID'' sid))"

text \<open>Up to five attempts to start without mounting.\<close>

fun startup_nomount :: "host_env \<Rightarrow> BootstrapTask \<Rightarrow> nat \<Rightarrow> dstate \<Rightarrow> unit dres" where
  "startup_nomount he t 0 s = (s, Inl (Errorf ''setParameters: startup nomount failed: <nil>''))"
| "startup_nomount he t (Suc n) s =
     (case task_bounce he s (startup_req (task_name t) ''nomount'') of
        (s1, Inr _) \<Rightarrow> done_ok s1
      | (s1, Inl err) \<Rightarrow>
          if n = 0 then (s1, Inl (prefixed ''setParameters: startup nomount failed: '' err)) else startup_nomount he t n s1)"

abbreviation startupRetries :: nat where "startupRetries \<equiv> 5"

definition isFreeVersion :: "BootstrapTask \<Rightarrow> bool" where
  "isFreeVersion t \<longleftrightarrow>
     oc_version (bt_db t) = ''18c'' \<or> oc_version (bt_db t) = ''23c'' \<and> bt_env t ''ORACLE_HOME'' = ''/opt/oracle/product/23c/dbhomeFree''"

abbreviation sq :: "string \<Rightarrow> string" where "sq t \<equiv> [squote] @ t @ [squote]"

definition local_listener_param :: string where
  "local_listener_param = ''local_listener='' @ sq ''(DESCRIPTION=(ADDRESS=(PROTOCOL=ipc)(KEY=REGLSNR_6021)))''"

text \<open>Of the two listeners the secure one is the local one.\<close>

definition task_parameters :: "BootstrapTask \<Rightarrow> string list" where
  "task_parameters t =
     (let db = bt_db t; name = task_name t; unique = oc_uniqueName db in
      [''audit_file_dest='' @ sq (''/u02/app/oracle/admin/'' @ name @ ''/adump''), ''audit_trail='' @ sq ''db'',
       ''control_files='' @ sq (GetDataFilesDir t @ ''/control01.ctl''), ''db_block_size=8192'', ''db_domain='' @ sq (oc_DBDomain db),
       ''db_name='' @ sq name, ''db_unique_name='' @ sq unique, ''db_recovery_file_dest_size=100G'', ''db_recovery_file_dest='' @ sq (GetFlashDir t),
       ''diagnostic_dest='' @ sq ''/u02/app/oracle'', ''dispatchers='' @ sq (''(PROTOCOL=TCP) (SERVICE='' @ name @ ''XDB)''),
       ''enable_pluggable_database=TRUE'', ''filesystemio_options=SETALL'', local_listener_param, ''open_cursors=300'', ''processes=300'',
       ''remote_login_passwordfile='' @ sq ''EXCLUSIVE'', ''undo_tablespace='' @ sq ''UNDOTBS1'',
       ''log_archive_dest_1='' @ sq (''LOCATION=USE_DB_RECOVERY_FILE_DEST VALID_FOR=(ALL_LOGFILES,ALL_ROLES) DB_UNIQUE_NAME='' @ unique),
       ''log_archive_dest_state_1=enable'', ''log_archive_format='' @ sq ''%t_%s_%r.arch'', ''standby_file_management=AUTO'',
       ''common_user_prefix='' @ sq ''gcsql$''] @
      (if bt_isSeeded t \<and> \<not> isFreeVersion t
       then [''pga_aggregate_target='' @ itoa (oc_PGATargetMB db) @ ''M'', ''sga_target='' @ itoa (oc_SGATargetMB db) @ ''M'',
             ''compatible='' @ sq (oc_version db @ ''.0'')] else []) @
      (if \<not> bt_isSeeded t then [local_listener_param] else []))"

fun set_parameters :: "host_env \<Rightarrow> dstate \<Rightarrow> string list \<Rightarrow> unit dres" where
  "set_parameters he s [] = done_ok s"
| "set_parameters he s (p # ps) =
     and_then (task_sql he s [''alter system set '' @ p @ '' scope=spfile'']) (prefixed (''failed to set '' @ p @ '': '')) (\<lambda>s _. set_parameters he s ps)"

definition task_setParameters :: "host_env \<Rightarrow> BootstrapTask \<Rightarrow> dstate \<Rightarrow> unit dres" where
  "task_setParameters he t s =
     and_then (startup_nomount he t startupRetries s) id (\<lambda>s _.
     and_then (set_parameters he s (task_parameters t)) (prefixed ''setParameters: set server parameters: '') (\<lambda>s _.
     and_then (task_bounce he s (shutdown_req (task_name t) [])) (prefixed ''setParameters: shutdown after setting parameters failed: '') (\<lambda>s _.
     if bt_isSeeded t then
       and_then (task_bounce he s (startup_req (task_name t) ''force_nomount'')) (prefixed ''setParameters: force startup nomount failed: '')
         (\<lambda>s _. done_ok s)
     else done_ok s)))"

definition control_file :: "host_env \<Rightarrow> BootstrapTask \<Rightarrow> go_error + string" where
  "control_file he t =
     map_sum (prefixed ''moveDatabase: executing /agents/bootstrap-database-crcf.template failed: '') id
       (he_template he ''/agents/bootstrap-database-crcf.template''
          [(''DatabaseName'', [task_name t]), (''DataFilesDir'', [GetDataFilesDir t]),
           (''DataFilesMultiLine'', [Join (map (\<lambda>f. sq (path_Join [GetDataFilesDir t, f])) GetDataFiles) ('','' @ [CHR 0x0A])])])"

definition moveDatabase :: "host_env \<Rightarrow> BootstrapTask \<Rightarrow> dstate \<Rightarrow> unit dres" where
  "moveDatabase he t s =
     and_then (s, control_file he t) id (\<lambda>s ctl.
     and_then (runSQLPlus he s (task_name t) [ctl]) (prefixed ''moveDatabase: controlfile creation failed: '') (\<lambda>s _.
     and_then (task_sql he s [''alter database open resetlogs'']) (prefixed ''moveDatabase: resetlogs failed: '') (\<lambda>s _.
     and_then (task_bounce he s (shutdown_req (task_name t) ''immediate'')) (prefixed ''moveDatabase: shutdown failed: '') (\<lambda>s _. done_ok s))))"

text \<open>A user that exists is left as it is.\<close>

fun setup_users :: "host_env \<Rightarrow> dstate \<Rightarrow> (string \<times> string list) list \<Rightarrow> unit dres" where
  "setup_users he s [] = done_ok s"
| "setup_users he s ((usr, cmds) # cus) =
     and_then
       (via_proxy he (srv_RunSQLPlusFormatted he s (local_sql [''select * from all_users where username='' @ sq (ToUpper usr)])))
       (prefixed (''check user '' @ usr @ '' failed: '')) (\<lambda>s msgs.
     if msgs \<noteq> [] then setup_users he s cus
     else and_then (task_sql he s cmds) (prefixed (''creating user '' @ usr @ '' failed: '')) (\<lambda>s _. setup_users he s cus))"

definition setupUsers :: "host_env \<Rightarrow> dstate \<Rightarrow> unit dres" where
  "setupUsers he s = setup_users he s (case GetCreateUserCmds he (ds_log s) of None \<Rightarrow> [] | Some cus \<Rightarrow> cus)"

definition createDumpDirs :: "host_env \<Rightarrow> BootstrapTask \<Rightarrow> dstate \<Rightarrow> unit dres" where
  "createDumpDirs he t s =
     and_then
       (via_proxy he (srv_CreateDirs he s
          (map (\<lambda>d. OracleBase @ ''/admin/'' @ task_name t @ ''/'' @ d) [''adump'', ''cdump''])))
       (prefixed ''configagent/createDumpDirs: error while creating the dump dirs: '') (\<lambda>s _. done_ok s)"

text \<open>The third component is the destination named in the error: for a data file it is the directory.\<close>

fun move_files :: "host_env \<Rightarrow> dstate \<Rightarrow> string \<Rightarrow> (string \<times> string \<times> string) list \<Rightarrow> unit dres" where
  "move_files he s what [] = done_ok s"
| "move_files he s what ((sf, tf, named) # fs) =
     and_then (MoveFile he s sf tf) (prefixed (what @ '' from '' @ sf @ '' to '' @ named @ '' : '')) (\<lambda>s _. move_files he s what fs)"

definition moveConfigFiles :: "host_env \<Rightarrow> BootstrapTask \<Rightarrow> dstate \<Rightarrow> unit dres" where
  "moveConfigFiles he t s =
     move_files he s ''moveConfigFiles: failed to move config file''
       (zip (map (\<lambda>f. path_Join [GetSourceConfigFilesDir t, f]) (config_files (task_source t)))
            (map (\<lambda>f. let tf = path_Join [cdb_config_dir (task_name t), f] in (tf, tf)) (config_files (task_name t))))"

definition data_moves :: "BootstrapTask \<Rightarrow> (string \<times> string \<times> string) list" where
  "data_moves t = map (\<lambda>f. (path_Join [GetSourceDataFilesDir t, f], path_Join [GetDataFilesDir t, f], GetDataFilesDir t)) GetDataFiles"

definition moveDataFiles :: "host_env \<Rightarrow> BootstrapTask \<Rightarrow> dstate \<Rightarrow> unit dres" where
  "moveDataFiles he t s = move_files he s ''moveDataFiles: failed to move data file'' (data_moves t)"

fun relink_files :: "host_env \<Rightarrow> BootstrapTask \<Rightarrow> dstate \<Rightarrow> string list \<Rightarrow> unit dres" where
  "relink_files he t s [] = done_ok s"
| "relink_files he t s (f # fs) =
     (let destn = path_Join [GetSourceConfigFilesDir t, f] in
      and_then
        (case he_stat he (ds_log s) destn of
           Inr _ \<Rightarrow> call he s (HRemove destn)
         | Inl _ \<Rightarrow> done_ok s)
        (prefixed (''relinkConfigFiles: unable to delete existing file '' @ f @ '': '')) (\<lambda>s _.
      and_then (call he s (HSymlink (path_Join [cdb_config_dir (task_name t), f]) destn))
        (prefixed (''relinkConfigFiles: symlink creation failed for '' @ f @ '' to oracle directories: '')) (\<lambda>s _.
      relink_files he t s fs)))"

definition relinkConfigFiles :: "host_env \<Rightarrow> BootstrapTask \<Rightarrow> dstate \<Rightarrow> unit dres" where
  "relinkConfigFiles he t s = relink_files he t s (config_files (task_name t))"

definition runNID :: "host_env \<Rightarrow> BootstrapTask \<Rightarrow> dstate \<Rightarrow> unit dres" where
  "runNID he t s =
     (if bt_cdbRenaming t then done_ok s
      else
        and_then (task_bounce he s (startup_req (task_name t) ''mount'')) (prefixed ''runNID: startup mount failed: '') (\<lambda>s _.
        and_then (via_proxy he (srv_NID he s (task_name t) [])) (prefixed ''nid cmd failed: '') (\<lambda>s _. done_ok s)))"

definition prep_commands :: "BootstrapTask \<Rightarrow> string list" where
  "prep_commands t =
     [''alter database archivelog'',
      if bt_cdbRenaming t \<or> \<not> bt_isSeeded t then ''alter database open'' else ''alter database open resetlogs'']"

definition prepDatabase :: "host_env \<Rightarrow> BootstrapTask \<Rightarrow> dstate \<Rightarrow> unit dres" where
  "prepDatabase he t s =
     and_then (s, RandOraclePassword (he_rand he (ds_log s))) (\<lambda>_. Errorf ''error generating temporary password'') (\<lambda>s password.
     and_then (task_bounce he s (startup_req (task_name t) ''mount'')) (prefixed ''prepDatabase: startup mount failed: '') (\<lambda>s _.
     and_then (task_sql he s (prep_commands t)) (prefixed ''prepDatabase: enabling archive log and resetlogs open failed: '') (\<lambda>s _.
     and_then
       (if bt_isSeeded t
        then task_sql he s [''ALTER TABLESPACE TEMP ADD TEMPFILE '' @ sq (GetDataFilesDir t @ ''/temp01.dbf'') @ '' SIZE 512M REUSE AUTOEXTEND ON'']
        else (s, Inr [])) (prefixed ''prepDatabase: adding tempfile failed: '') (\<lambda>s _.
     and_then (task_sql he s [ChangePasswordCmd ''sys'' password, ChangePasswordCmd ''system'' password])
       (prefixed ''prepDatabase: change sys & system password failed: '') (\<lambda>s _. done_ok s)))))"

definition fixOratab :: "host_env \<Rightarrow> BootstrapTask \<Rightarrow> dstate \<Rightarrow> unit dres" where
  "fixOratab he t s =
     and_then (replace_in_file he s ''/etc/oratab'' (task_source t) (task_name t)) (prefixed ''oratab replacing dbname: '') (\<lambda>s _.
     and_then (replace_in_file he s ''/etc/oratab'' ''ol7-db12201-gi-cdb-docker-template-vm'' (oc_host (bt_db t))) (prefixed ''oratab replacing hostname: '')
       (\<lambda>s _. done_ok s))"

definition task_cleanup :: "host_env \<Rightarrow> BootstrapTask \<Rightarrow> dstate \<Rightarrow> unit dres" where
  "task_cleanup he t s = ignoring (call he s (HRemoveAll (GetSourceDataFilesDir t))) (\<lambda>s. done_ok s)"

definition initListeners :: "host_env \<Rightarrow> BootstrapTask \<Rightarrow> dstate \<Rightarrow> unit dres" where
  "initListeners he t s =
     via_proxy he (srv_CreateListener he s
       \<lparr>cl_DatabaseName = task_name t, cl_Port = 6021, cl_Protocol = ''TCP'', cl_DbDomain = oc_DBDomain (bt_db t), cl_CdbServiceName = [],
        cl_ExcludePdb = False\<rparr>)"

definition recreateFlashDir :: "host_env \<Rightarrow> BootstrapTask \<Rightarrow> dstate \<Rightarrow> unit dres" where
  "recreateFlashDir he t s =
     (if not_exist he (ds_log s) (GetFlashDir t)
      then and_then (MakeDirs he s [GetFlashDir t]) (prefixed (''recreateFlashDir: creating flash directory '' @ GetFlashDir t @ '' failed: ''))
             (\<lambda>s _. done_ok s)
      else done_ok s)"

text \<open>A database with a file in backup mode cannot be opened at once.\<close>

definition startDB :: "host_env \<Rightarrow> BootstrapTask \<Rightarrow> dstate \<Rightarrow> unit dres" where
  "startDB he t s =
     (let opens = (\<lambda>s sqls. and_then (task_sql he s sqls) (prefixed ''startDB: open db failed: '') (\<lambda>s _. done_ok s)) in
      case task_bounce he s (startup_req (task_name t) ''open'') of
        (s1, Inr _) \<Rightarrow> opens s1 [''alter pluggable database all open'']
      | (s1, Inl err) \<Rightarrow>
          if Contains_str (err_msg err) ''ORA-10873:''
          then opens s1 [''alter database end backup'', ''alter database open'', ''alter pluggable database all open'']
          else (s1, Inl (prefixed ''startDB: start db failed: '' err)))"

abbreviation seed_query :: string where
  "seed_query \<equiv> ''select name, con_id from v$tempfile where con_id in (select con_id from v$containers where name='' @ sq ''PDB$SEED'' @ '')''"

definition seed_statements :: "BootstrapTask \<Rightarrow> string list" where
  "seed_statements t =
     [''alter session set container=PDB$SEED'', ''alter session set '' @ [dquote] @ ''_oracle_script'' @ [dquote] @ ''=TRUE'',
      ''alter pluggable database PDB$SEED close'', ''alter pluggable database PDB$SEED open read write'',
      ''alter tablespace TEMP add tempfile '' @ sq (path_Join [GetDataFilesDir t, ''pdbseed''] @ ''/temp01.dbf'') @ '' size 512M reuse autoextend on'',
      ''alter pluggable database PDB$SEED close'', ''alter pluggable database PDB$SEED open read only'']"

definition createPDBSeedTemp :: "host_env \<Rightarrow> BootstrapTask \<Rightarrow> dstate \<Rightarrow> unit dres" where
  "createPDBSeedTemp he t s =
     and_then (via_proxy he (srv_RunSQLPlusFormatted he s (local_sql [seed_query])))
       (prefixed ''createPDBSeedTemp: failed to query temp file for PDB$SEED: '') (\<lambda>s msgs.
     if msgs \<noteq> [] then done_ok s
     else
       ignoring (via_proxy he (srv_DeleteDir he s (bt_env t ''ORACLE_BASE'' @ ''/admin/'' @ task_source t @ ''/dpdump/'') True)) (\<lambda>s.
       and_then (task_sql he s (seed_statements t)) (prefixed ''createPDBSeedTemp: failed to add temp file for PDB$SEED: '') (\<lambda>s _. done_ok s)))"

abbreviation mount_only :: "string \<Rightarrow> BounceDatabaseRequest" where
  "mount_only db \<equiv> (startup_req db ''mount'')\<lparr>bd_AvoidConfigBackup := True\<rparr>"

definition renameDatabase :: "host_env \<Rightarrow> BootstrapTask \<Rightarrow> dstate \<Rightarrow> unit dres" where
  "renameDatabase he t s =
     (if \<not> bt_cdbRenaming t then done_ok s
      else
        and_then (s, LoadInitOraTemplate he (task_source t) (task_name t) (oc_version (bt_db t))) id (\<lambda>s content.
        and_then (call he s (HWrite (path_Join [path_Join [bt_env t ''ORACLE_HOME'', ''dbs''], ''init'' @ task_name t @ ''.ora'']) content)) id (\<lambda>s _.
        and_then (task_bounce he s (mount_only (task_source t))) (prefixed ''renameDatabase: startup mount failed: '') (\<lambda>s _.
        and_then (via_proxy he (srv_NID he s (task_source t) (task_name t))) (prefixed ''nid cmd failed: '') (\<lambda>s _.
        and_then (task_bounce he s (mount_only (task_name t))) (prefixed ''renameDatabase: shutdown failed: '') (\<lambda>s _.
        and_then (runSQLPlus he s (task_name t) [''alter database open resetlogs'']) (prefixed ''renameDatabase: resetlogs failed: '') (\<lambda>s _.
        and_then (runSQLPlus he s (task_name t) [''CREATE SPFILE from PFILE'']) (prefixed ''renameDatabase: spfile generation succeeded: '') (\<lambda>s _.
        and_then (task_bounce he s (shutdown_req (task_name t) [])) (prefixed ''renameDatabase: shutdown failed: '') (\<lambda>s _. done_ok s)))))))))"

subsection \<open>The tasks\<close>

fun doSubTasks :: "dstate \<Rightarrow> (dstate \<Rightarrow> unit dres) list \<Rightarrow> unit dres" where
  "doSubTasks s [] = done_ok s"
| "doSubTasks s (sub # subs) = and_then (sub s) id (\<lambda>s _. doSubTasks s subs)"

definition sub_tasks :: "host_env \<Rightarrow> BootstrapTask \<Rightarrow> bool \<Rightarrow> (dstate \<Rightarrow> unit dres) list" where
  "sub_tasks he t provisioned =
     (if provisioned then
        [initUIDGID he, relinkConfigFiles he t, recreateFlashDir he t, task_setenv he (task_name t), startDB he t, initListeners he t]
      else
        [renameDatabase he t, initUIDGID he, createDirs he t, task_setenv he (task_source t), moveDataFiles he t, moveConfigFiles he t,
         relinkConfigFiles he t, task_setParameters he t, moveDatabase he t, runNID he t, prepDatabase he t, fixOratab he t, setupUsers he,
         task_cleanup he t, initListeners he t]) @ [createPDBSeedTemp he t]"

definition NewBootstrapDatabaseTask ::
    "(string \<Rightarrow> string) \<Rightarrow> bool \<Rightarrow> bool \<Rightarrow> string \<Rightarrow> string \<Rightarrow> string \<Rightarrow> string \<Rightarrow> string \<Rightarrow> string \<Rightarrow> int \<Rightarrow> int \<Rightarrow> go_error + BootstrapTask" where
  "NewBootstrapDatabaseTask env iscdb isSeeded fromImage fromYaml version zn host domain pga sga =
     (if \<not> iscdb then Inl (Errorf ''only support CDB provisioning'')
      else Inr \<lparr>bt_db = newOracleCDB fromImage fromYaml version zn host domain pga sga, bt_cdbRenaming = (\<not> EqualFold fromImage fromYaml),
        bt_isSeeded = isSeeded, bt_env = env\<rparr>)"

definition Bootstrap_Call :: "host_env \<Rightarrow> BootstrapTask \<Rightarrow> bool \<Rightarrow> dstate \<Rightarrow> unit dres" where
  "Bootstrap_Call he t provisioned s = doSubTasks s (sub_tasks he t provisioned)"

definition unseeded_task :: "(string \<Rightarrow> string) \<Rightarrow> string \<Rightarrow> string \<Rightarrow> string \<Rightarrow> BootstrapTask" where
  "unseeded_task env cdbName dbUniqueName dbDomain =
     \<lparr>bt_db = \<lparr>oc_sourceCDBName = [], oc_cdbName = cdbName, oc_version = [], oc_host = [], oc_uniqueName = dbUniqueName, oc_DBDomain = dbDomain,
        oc_SGATargetMB = 0, oc_PGATargetMB = 0\<rparr>, bt_cdbRenaming = False, bt_isSeeded = False, bt_env = env\<rparr>"

definition Unseeded_Call :: "host_env \<Rightarrow> BootstrapTask \<Rightarrow> dstate \<Rightarrow> unit dres" where
  "Unseeded_Call he t s = doSubTasks s [task_setParameters he t, prepDatabase he t, setupUsers he, createPDBSeedTemp he t, createDumpDirs he t]"

definition SetupUsers_Call :: "host_env \<Rightarrow> dstate \<Rightarrow> unit dres" where
  "SetupUsers_Call he s = doSubTasks s [setupUsers he]"

end
