(* ===== verification/DaemonLaws.thy ===== *)
theory DaemonLaws
  imports HostLaws "HOL-Library.Sublist"
begin

text \<open>
  What the database daemon guarantees about the order of its calls: \<open>traced s s' evs\<close> says that the calls \<open>evs\<close> were made in this
  order between two states. It composes along \<open>and_then\<close>, so a job's order is that of its stages.
\<close>

subsection \<open>Calls in order\<close>

text \<open>\<open>traced s s' evs\<close>: between the two states the calls \<open>evs\<close> were made in this order, maybe with others in between.\<close>

definition traced :: "dstate \<Rightarrow> dstate \<Rightarrow> host_call list \<Rightarrow> bool" where
  "traced s s' evs \<longleftrightarrow> (\<exists>tr. ds_log s' = ds_log s @ tr \<and> subseq evs tr)"

lemma traced_trans: "traced s t xs \<Longrightarrow> traced t u ys \<Longrightarrow> traced s u (xs @ ys)"
  unfolding traced_def by (force intro: list_emb_append_mono)

lemma traced_through: "traced s t [] \<Longrightarrow> traced t u [] \<Longrightarrow> traced s u []"
  using traced_trans [of s t "[]" u "[]"] by simp

lemma traced_log: "ds_log s' = ds_log s @ evs \<Longrightarrow> traced s s' evs"
  by (auto simp: traced_def)

lemma traced_refl: "ds_log s' = ds_log s \<Longrightarrow> traced s s' []"
  by (simp add: traced_def)

lemma traced_Nil: "traced s t evs \<Longrightarrow> traced s t []"
  by (auto simp: traced_def)

text \<open>Calls that only add to the log.\<close>

definition grows :: "dstate \<Rightarrow> 'a dres \<Rightarrow> bool" where
  "grows s r \<longleftrightarrow> traced s (fst r) []"

lemma grows_pair [simp]: "grows s (t, x) \<longleftrightarrow> traced s t []"
  by (simp add: grows_def)

lemma grows_and_then:
  assumes "grows s r" and "\<And>t x. grows t (k t x)"
  shows "grows s (and_then r wrap k)"
proof (cases r)
  case (Pair t x)
  then show ?thesis
    using assms(1) assms(2) [of t] traced_trans [of s t "[]" _ "[]"] by (cases x) (auto simp: grows_def)
qed

lemma grows_call: "grows s (call he s c)"
  by (auto simp: call_def traced_def)

lemma grows_same: "grows s (s, x)"
  by (simp add: traced_def)

lemma call_ok: "call he s c = (s', Inr u) \<Longrightarrow> ds_log s' = ds_log s @ [c]"
  by (simp add: call_Inr)

subsection \<open>Calls and their answers in order\<close>

text \<open>\<open>happens evs l tr\<close>: the calls \<open>tr\<close>, made after \<open>l\<close>, have calls that satisfy \<open>evs\<close> in this order.\<close>

fun happens :: "(host_log \<Rightarrow> host_call \<Rightarrow> bool) list \<Rightarrow> host_log \<Rightarrow> host_call list \<Rightarrow> bool" where
  "happens [] l tr = True"
| "happens (e # es) l [] = False"
| "happens (e # es) l (c # cs) = (e l c \<and> happens es (l @ [c]) cs \<or> happens (e # es) (l @ [c]) cs)"

lemma happens_skip: "happens es (l @ xs) ys \<Longrightarrow> happens es l (xs @ ys)"
proof (induction xs arbitrary: l)
  case (Cons x xs)
  then show ?case by (cases es) simp_all
qed simp

lemma happens_append: "happens es l xs \<Longrightarrow> happens fs (l @ xs) ys \<Longrightarrow> happens (es @ fs) l (xs @ ys)"
  by (induction es l xs rule: happens.induct) (auto intro: happens_skip)

definition ran :: "dstate \<Rightarrow> dstate \<Rightarrow> (host_log \<Rightarrow> host_call \<Rightarrow> bool) list \<Rightarrow> bool" where
  "ran s t evs \<longleftrightarrow> (\<exists>tr. ds_log t = ds_log s @ tr \<and> happens evs (ds_log s) tr)"

lemma ran_trans:
  assumes "ran s t es" and "ran t u fs"
  shows "ran s u (es @ fs)"
proof -
  obtain xs ys where "ds_log t = ds_log s @ xs" "happens es (ds_log s) xs" "ds_log u = ds_log t @ ys" "happens fs (ds_log t) ys"
    using assms unfolding ran_def by blast
  then show ?thesis unfolding ran_def using happens_append by (intro exI [of _ "xs @ ys"]) simp
qed

text \<open>A call that succeeds; a statement that succeeds or says that it was done already; the check that all containers are open
  for migration; \<open>datapatch\<close>, run to the end with some exit code or with success.\<close>

definition succeeded :: "host_env \<Rightarrow> host_call \<Rightarrow> host_log \<Rightarrow> host_call \<Rightarrow> bool" where
  "succeeded he c l c' \<longleftrightarrow> c' = c \<and> he_err he l c = None"

definition settled :: "host_env \<Rightarrow> string \<Rightarrow> string \<Rightarrow> host_log \<Rightarrow> host_call \<Rightarrow> bool" where
  "settled he sid stmt l c \<longleftrightarrow> c = HExec sid sysdba stmt \<and>
     (case he_err he l c of None \<Rightarrow> True | Some err \<Rightarrow> Contains_str (err_msg err) ''ORA-01507:'')"

definition all_in_migrate :: "host_env \<Rightarrow> string \<Rightarrow> host_log \<Rightarrow> host_call \<Rightarrow> bool" where
  "all_in_migrate he sid l c \<longleftrightarrow> c = HQuery sid sysdba containers_sql \<and>
     (\<exists>cols rows. he_query he l sid sysdba containers_sql = Inr (cols, rows) \<and> (\<forall>row \<in> set rows. \<exists>name. row = Inr [name, ''MIGRATE'']))"

definition datapatch_run :: "host_env \<Rightarrow> dstate \<Rightarrow> (cmd_error option \<Rightarrow> bool) \<Rightarrow> host_log \<Rightarrow> host_call \<Rightarrow> bool" where
  "datapatch_run he s ok l c \<longleftrightarrow> c = HRun (ds_sid s) (datapatch s) [''-verbose''] [] \<and>
     ok (snd (he_run he l (ds_sid s) (datapatch s) [''-verbose''] []))"

definition finished :: "cmd_error option \<Rightarrow> bool" where
  "finished e \<longleftrightarrow> (\<forall>m. e \<noteq> Some (NotRun m))"

text \<open>The instance was shut down: all the calls of a shutdown were made and answered, or one of them, or the connection, said that
  it is not running.\<close>

definition says_down :: "go_error \<Rightarrow> bool" where
  "says_down err = Contains_str (err_msg err) ''ORA-01034:''"

definition was_down :: "host_env \<Rightarrow> string \<Rightarrow> host_log \<Rightarrow> host_call list \<Rightarrow> bool" where
  "was_down he sid l tr \<longleftrightarrow>
     (if tr = [] then \<exists>err. says_down err \<and> (he_open he l sid sysdba = Some err \<or> he_conn he l sid sysdba = Some err)
      else \<exists>err. says_down err \<and> he_err he (l @ butlast tr) (last tr) = Some err)"

definition stopped :: "host_env \<Rightarrow> string \<Rightarrow> dstate \<Rightarrow> dstate \<Rightarrow> bool" where
  "stopped he sid s t \<longleftrightarrow>
     (\<exists>tr. ds_log t = ds_log s @ tr \<and>
        (happens [succeeded he (HShutdown sid ShutdownImmediate), settled he sid ''alter database close normal'',
            settled he sid ''alter database dismount'', succeeded he (HShutdown sid ShutdownFinal)] (ds_log s) tr \<or>
         was_down he sid (ds_log s) tr))"

lemma and_thenE:
  assumes "and_then r wrap k = (t, x)"
  obtains (fails) err where "r = (t, Inl err)" "x = Inl (wrap err)" | (goes) s u where "r = (s, Inr u)" "k s u = (t, x)"
  using assms by (auto simp: and_then_def split: prod.splits sum.splits)

lemma exec_unless_done_Inl:
  "exec_unless_done he s sid stmt = (t, Inl err) \<Longrightarrow>
   ds_log t = ds_log s @ [HExec sid sysdba stmt] \<and> he_err he (ds_log s) (HExec sid sysdba stmt) = Some err"
  by (auto simp: exec_unless_done_def call_def res_def split: option.splits if_splits)

lemma exec_unless_done_Inr:
  "exec_unless_done he s sid stmt = (t, Inr u) \<Longrightarrow>
   ds_log t = ds_log s @ [HExec sid sysdba stmt] \<and> settled he sid stmt (ds_log s) (HExec sid sysdba stmt)"
  by (auto simp: exec_unless_done_def call_def res_def settled_def split: option.splits if_splits)

lemma shutdownDatabase_stops:
  assumes "shutdownDatabase he s ShutdownImmediate = (t, r)" and "case r of Inl err \<Rightarrow> says_down err | Inr _ \<Rightarrow> True"
  shows "stopped he (px_SID s) s t"
proof -
  let ?sid = "px_SID s" and ?l = "ds_log s"
  let ?c1 = "HShutdown ?sid ShutdownImmediate" and ?c2 = "HExec ?sid sysdba ''alter database close normal''"
    and ?c3 = "HExec ?sid sysdba ''alter database dismount''" and ?c4 = "HShutdown ?sid ShutdownFinal"
  have down: ?thesis if "he_err he (?l @ tr) c = Some err" "ds_log t = ?l @ tr @ [c]" "r = Inl err" for tr c err
  proof -
    have "was_down he ?sid ?l (tr @ [c])" using that assms(2) by (auto simp: was_down_def)
    with that(2) show ?thesis unfolding stopped_def by blast
  qed
  from assms(1) [unfolded shutdownDatabase_def Let_def] show ?thesis
  proof (cases rule: and_thenE)
    case (fails err)
    then have "was_down he ?sid ?l []" using assms(2) by (auto simp: was_down_def opened_conn_def res_def split: option.splits)
    with fails show ?thesis by (auto simp: stopped_def)
  next
    case (goes s1 u)
    then have s1: "s1 = s" by simp
    from goes(2) show ?thesis unfolding s1
    proof (cases rule: and_thenE)
      case (fails err)
      then show ?thesis using down [of "[]"] by (auto simp: call_def res_def split: option.splits)
    next
      case (goes s2 u)
      then have c1: "ds_log s2 = ?l @ [?c1]" "he_err he ?l ?c1 = None" by (auto simp: call_Inr)
      from goes(2) have "and_then (exec_unless_done he s2 ?sid ''alter database close normal'') id (\<lambda>s _.
          and_then (exec_unless_done he s ?sid ''alter database dismount'') id (\<lambda>s _. call he s ?c4)) = (t, r)" by simp
      then show ?thesis
      proof (cases rule: and_thenE)
        case (fails err)
        then show ?thesis using down [of "[?c1]"] c1 exec_unless_done_Inl by fastforce
      next
        case (goes s3 u)
        note c2 = exec_unless_done_Inr [OF goes(1)]
        from goes(2) show ?thesis
        proof (cases rule: and_thenE)
          case (fails err)
          then show ?thesis using down [of "[?c1, ?c2]"] c1 c2 exec_unless_done_Inl by fastforce
        next
          case (goes s4 u)
          note c3 = exec_unless_done_Inr [OF goes(1)]
          show ?thesis
          proof (cases r)
            case (Inl err)
            then show ?thesis using down [of "[?c1, ?c2, ?c3]"] c1 c2 c3 goes(2) by (auto simp: call_def res_def split: option.splits)
          next
            case (Inr v)
            then have "he_err he (?l @ [?c1, ?c2, ?c3]) ?c4 = None" "ds_log t = ?l @ [?c1, ?c2, ?c3, ?c4]"
              using c1 c2 c3 goes(2) by (auto simp: call_Inr)
            then show ?thesis using c1 c2 c3 unfolding stopped_def by (intro exI [of _ "[?c1, ?c2, ?c3, ?c4]"]) (simp add: succeeded_def)
          qed
        qed
      qed
    qed
  qed
qed

subsection \<open>The order of datapatch\<close>

lemma px_setenv_log [simp]: "ds_log (px_setenv he s k v) = ds_log s" "ds_sid (px_setenv he s k v) = ds_sid s"
    "ds_env (px_setenv he s k v) = ds_env s" "ds_home (px_setenv he s k v) = ds_home s"
  by (simp_all add: px_setenv_def split: option.splits)

text \<open>What the calls of the proxy leave as it is on the daemon's side.\<close>

definition keeps :: "dstate \<Rightarrow> 'a dres \<Rightarrow> bool" where
  "keeps s r \<longleftrightarrow> ds_sid (fst r) = ds_sid s \<and> ds_env (fst r) = ds_env s \<and> ds_home (fst r) = ds_home s \<and> px_env (fst r) = px_env s"

lemma keeps_and_then:
  assumes "keeps s r" and "\<And>t x. keeps s (t, Inr x :: go_error + 'a) \<Longrightarrow> keeps t (k t x)"
  shows "keeps s (and_then r wrap k)"
proof (cases r)
  case (Pair t x)
  then show ?thesis
    using assms by (cases x) (auto simp: keeps_def)
qed

lemma keeps_call: "keeps s (call he s c)"
  by (simp add: keeps_def call_def)

lemma keeps_same [simp]: "keeps s (s, x)"
  by (simp add: keeps_def)

lemma exec_unless_done_laws: "grows s (exec_unless_done he s sid stmt)" "keeps s (exec_unless_done he s sid stmt)"
  using grows_call [of s he "HExec sid sysdba stmt"] keeps_call [of s he "HExec sid sysdba stmt"]
  by (auto simp: exec_unless_done_def keeps_def split: prod.splits sum.splits)

lemma shutdownDatabase_laws: "grows s (shutdownDatabase he s mode)" "keeps s (shutdownDatabase he s mode)"
  unfolding shutdownDatabase_def Let_def
  by (auto intro!: grows_and_then grows_call grows_same exec_unless_done_laws simp: traced_refl)
     (auto intro!: keeps_and_then keeps_call exec_unless_done_laws)


text \<open>The daemon's own part of the state.\<close>

definition same_daemon :: "dstate \<Rightarrow> dstate \<Rightarrow> bool" where
  "same_daemon s t \<longleftrightarrow> ds_sid t = ds_sid s \<and> ds_home t = ds_home s \<and> ds_env t = ds_env s"

lemma via_proxy_Inr: "via_proxy he r = (t, Inr x) \<longleftrightarrow> r = (t, Inr x)"
  by (auto simp: via_proxy_def and_then_Inr)

lemma shut_down:
  assumes "via_proxy he (px_BounceDatabase he s (shutdown_req db ''immediate'')) = (t, Inr x)" and "he_setenv he ''ORACLE_SID'' db = None"
  shows "stopped he db s t" and "same_daemon s t"
proof -
  let ?s = "px_setenv he s ''ORACLE_SID'' db"
  obtain t' r where r: "shutdownDatabase he ?s ShutdownImmediate = (t', r)" by (rule prod.exhaust)
  with assms(1) have "t' = t" "case r of Inl err \<Rightarrow> says_down err | Inr _ \<Rightarrow> True"
    by (auto simp: via_proxy_Inr px_BounceDatabase_def illegal_option_def shutdownEnumMap_def says_down_def Let_def
      split: prod.splits sum.splits if_splits)
  with r shutdownDatabase_stops have "stopped he (px_SID ?s) ?s t" by blast
  moreover have "px_SID ?s = db" using assms(2) by (simp add: px_setenv_def)
  ultimately show "stopped he db s t" by (simp add: stopped_def)
  have "keeps ?s (t, r)" using shutdownDatabase_laws(2) [of ?s he ShutdownImmediate] r \<open>t' = t\<close> by simp
  then show "same_daemon s t" by (simp add: keeps_def same_daemon_def)
qed

text \<open>The calls of a startup: \<open>nomount\<close> stops after the first.\<close>

definition startup_calls :: "host_env \<Rightarrow> string \<Rightarrow> bool \<Rightarrow> (host_log \<Rightarrow> host_call \<Rightarrow> bool) list" where
  "startup_calls he sid nomount =
     map (succeeded he) (HStartup sid False #
       (if nomount then [] else [HExec sid sysdba ''alter database mount'', HExec sid sysdba ''alter database open'']))"

lemma start_up:
  assumes "via_proxy he (px_BounceDatabase he s (startup_req db opt)) = (t, Inr x)" and "opt = ''nomount'' \<or> opt = []"
    and "he_setenv he ''ORACLE_SID'' db = None"
  shows "ran s t (startup_calls he db (opt = ''nomount''))" and "same_daemon s t"
proof -
  let ?s = "px_setenv he s ''ORACLE_SID'' db"
  have start: "startupDatabase he ?s False opt = (t, Inr ())"
    using assms(1,2) by (auto simp: via_proxy_Inr px_BounceDatabase_def illegal_option_def and_then_Inr Let_def split: if_splits)
  have sid: "px_SID ?s = db"
    using assms(3) by (simp add: px_setenv_def)
  show "ran s t (startup_calls he db (opt = ''nomount''))" "same_daemon s t"
    using start assms(2) sid
    by (auto simp: startupDatabase_def Let_def and_then_Inr call_Inr ran_def startup_calls_def succeeded_def ToLower_def lower_char_def
      same_daemon_def split: if_splits)
qed

lemma all_migrated_rows: "all_migrated rows = Inr u \<Longrightarrow> row \<in> set rows \<Longrightarrow> \<exists>name. row = Inr [name, ''MIGRATE'']"
  by (induction rows rule: all_migrated.induct) (auto split: list.splits if_splits)

lemma upgrade_mode:
  assumes "setDatabaseUpgradeMode he s = (t, Inr u)"
  shows "ran s t [succeeded he (HExec (ds_SID s) sysdba ''alter database mount''), succeeded he (HExec (ds_SID s) sysdba ''alter database open upgrade''),
      succeeded he (HExec (ds_SID s) sysdba ''alter pluggable database all open upgrade''), all_in_migrate he (ds_SID s)]" and "same_daemon s t"
  using assms all_migrated_rows
  by (auto simp: setDatabaseUpgradeMode_def and_then_Inr call_Inr ran_def succeeded_def all_in_migrate_def same_daemon_def
      split: sum.splits prod.splits)

lemma pdbs_opened:
  assumes "openPDBs he s = (t, Inr u)"
  shows "ran s t [succeeded he (HExec (ds_SID s) sysdba ''alter pluggable database all open'')]" and "same_daemon s t"
  using assms by (auto simp: openPDBs_def and_then_Inr call_Inr ran_def succeeded_def same_daemon_def)

lemma upgrade_patched:
  assumes "datapatch_upgrade he s = (t, Inr u)"
  shows "ran s t [datapatch_run he s finished]" and "ds_sid t = ds_sid s" and "ds_home t = ds_home s" and "ds_SID t = ds_sid s"
  using assms by (auto simp: datapatch_upgrade_def srv_runCommand_def osUtil_runCommand_def ds_setenv_def ran_def datapatch_run_def finished_def Let_def
    split: option.splits if_splits cmd_error.splits)

lemma normal_patched:
  assumes "datapatch_normal he s = (t, Inr u)"
  shows "ran s t [datapatch_run he s (\<lambda>e. e = None)]"
  using assms by (auto simp: datapatch_normal_def srv_runCommand_def osUtil_runCommand_def ds_setenv_def ran_def datapatch_run_def Let_def
    split: option.splits if_splits cmd_error.splits)

lemma datapatch_run_same: "ds_sid t = ds_sid s \<Longrightarrow> ds_home t = ds_home s \<Longrightarrow> datapatch_run he t = datapatch_run he s"
  by (intro ext) (simp add: datapatch_run_def)

text \<open>The two halves of a datapatch job.\<close>

definition upgrade_events :: "host_env \<Rightarrow> dstate \<Rightarrow> (host_log \<Rightarrow> host_call \<Rightarrow> bool) list" where
  "upgrade_events he s =
     [succeeded he (HStartup (ds_sid s) False), succeeded he (HExec (ds_SID s) sysdba ''alter database mount''),
      succeeded he (HExec (ds_SID s) sysdba ''alter database open upgrade''),
      succeeded he (HExec (ds_SID s) sysdba ''alter pluggable database all open upgrade''), all_in_migrate he (ds_SID s),
      datapatch_run he s finished]"

definition normal_events :: "host_env \<Rightarrow> dstate \<Rightarrow> (host_log \<Rightarrow> host_call \<Rightarrow> bool) list" where
  "normal_events he s =
     [succeeded he (HStartup (ds_sid s) False), succeeded he (HExec (ds_sid s) sysdba ''alter database mount''),
      succeeded he (HExec (ds_sid s) sysdba ''alter database open''),
      succeeded he (HExec (ds_sid s) sysdba ''alter pluggable database all open''), datapatch_run he s (\<lambda>e. e = None)]"

lemma upgrade_half:
  assumes "via_proxy he (px_BounceDatabase he s (startup_req (ds_sid s) ''nomount'')) = (s2, Inr x2)"
    and "setDatabaseUpgradeMode he s2 = (s3, Inr u)" and "datapatch_upgrade he s3 = (s4, Inr v)"
    and "he_setenv he ''ORACLE_SID'' (ds_sid s) = None"
  shows "ran s s4 (upgrade_events he s)" and "ds_sid s4 = ds_sid s" and "ds_home s4 = ds_home s" and "ds_SID s4 = ds_sid s"
proof -
  note d2 = start_up [OF assms(1) _ assms(4)] and d3 = upgrade_mode [OF assms(2)] and d4 = upgrade_patched [OF assms(3)]
  show "ds_sid s4 = ds_sid s" "ds_home s4 = ds_home s" "ds_SID s4 = ds_sid s"
    using d2(2) d3(2) d4(2-4) by (simp_all add: same_daemon_def)
  have "datapatch_run he s3 = datapatch_run he s" using d2(2) d3(2) by (intro datapatch_run_same) (simp_all add: same_daemon_def)
  then show "ran s s4 (upgrade_events he s)"
    using ran_trans [OF d2(1) ran_trans [OF d3(1) d4(1)]] d2(2) d3(2)
    by (simp add: same_daemon_def startup_calls_def upgrade_events_def)
qed

lemma normal_half:
  assumes "via_proxy he (px_BounceDatabase he s (startup_req (ds_sid s) [])) = (s2, Inr x2)"
    and "openPDBs he s2 = (s3, Inr u)" and "datapatch_normal he s3 = (s4, Inr v)"
    and "he_setenv he ''ORACLE_SID'' (ds_sid s) = None" and "ds_SID s = ds_sid s"
  shows "ran s s4 (normal_events he s)"
proof -
  note d2 = start_up [OF assms(1) _ assms(4)] and d3 = pdbs_opened [OF assms(2)] and d4 = normal_patched [OF assms(3)]
  have "datapatch_run he s3 = datapatch_run he s" using d2(2) d3(2) by (intro datapatch_run_same) (simp_all add: same_daemon_def)
  then show ?thesis
    using ran_trans [OF d2(1) ran_trans [OF d3(1) d4(1)]] d2(2) d3(2) assms(5)
    by (simp add: same_daemon_def startup_calls_def normal_events_def)
qed

lemma events_same:
  "ds_sid t = ds_sid s \<Longrightarrow> ds_home t = ds_home s \<Longrightarrow> normal_events he t = normal_events he s"
  "ds_sid t = ds_sid s \<Longrightarrow> ds_home t = ds_home s \<Longrightarrow> ds_SID t = ds_SID s \<Longrightarrow> upgrade_events he t = upgrade_events he s"
  using datapatch_run_same [of t s he] by (simp_all add: normal_events_def upgrade_events_def)

text \<open>
  C36: a datapatch job that succeeds has done all of it, in order. It has shut the instance down (or found it down), started it, opened
  the container database and all pluggable databases for upgrade, seen every container in \<open>MIGRATE\<close> mode and run \<open>datapatch\<close>
  to some end; it has shut the instance down again, started, mounted and opened it, opened all pluggable databases, and run \<open>datapatch\<close>
  with success. Every statement succeeded. Those of the first half go to the instance that \<open>ORACLE_SID\<close> of the daemon
  happened to name.
\<close>

theorem applyDataPatch_order:
  assumes "applyDataPatch he s = (s', Inr u)" and "he_setenv he ''ORACLE_SID'' (ds_sid s) = None"
  shows "\<exists>s1 s2 s3. stopped he (ds_sid s) s s1 \<and> ran s1 s2 (upgrade_events he s) \<and>
    stopped he (ds_sid s) s2 s3 \<and> ran s3 s' (normal_events he s)"
proof -
  obtain s1 s2 s3 s4 s5 s6 s7 x1 x2 x5 x6 where
      up: "via_proxy he (px_BounceDatabase he s (shutdown_req (ds_sid s) ''immediate'')) = (s1, Inr x1)"
        "via_proxy he (px_BounceDatabase he s1 (startup_req (ds_sid s1) ''nomount'')) = (s2, Inr x2)"
        "setDatabaseUpgradeMode he s2 = (s3, Inr ())" "datapatch_upgrade he s3 = (s4, Inr ())"
    and norm: "via_proxy he (px_BounceDatabase he s4 (shutdown_req (ds_sid s4) ''immediate'')) = (s5, Inr x5)"
        "via_proxy he (px_BounceDatabase he s5 (startup_req (ds_sid s5) [])) = (s6, Inr x6)"
        "openPDBs he s6 = (s7, Inr ())" "datapatch_normal he s7 = (s', Inr u)"
    using assms(1) by (auto simp: applyDataPatch_def Let_def and_then_Inr)
  note down1 = shut_down [OF up(1) assms(2)]
  have e1: "ds_sid s1 = ds_sid s" "ds_home s1 = ds_home s" "ds_SID s1 = ds_SID s" using down1(2) by (simp_all add: same_daemon_def)
  note half1 = upgrade_half [OF up(2-4), unfolded e1, OF assms(2)]
  have "he_setenv he ''ORACLE_SID'' (ds_sid s4) = None" using half1(2) assms(2) by simp
  note down2 = shut_down [OF norm(1) this]
  have e5: "ds_sid s5 = ds_sid s" "ds_home s5 = ds_home s" "ds_SID s5 = ds_sid s"
    using down2(2) half1(2-4) by (simp_all add: same_daemon_def)
  note half2 = normal_half [OF norm(2-4), unfolded e5, OF assms(2) refl]
  from down1(1) half1(1) down2(1) half2 show ?thesis
    using events_same(1) [OF e5(1,2)] events_same(2) [OF e1] half1(2) by metis
qed

lemma same_home_px [simp]: "same_home s (px_setenv he s k v)"
  by (simp add: same_home_def)

lemma succeeds_exec: "host_works he \<Longrightarrow> succeeds s (exec_unless_done he s sid stmt)"
  by (simp add: exec_unless_done_def call_def host_works_def)

lemma succeeds_shutdown:
  assumes "host_works he" and "\<And>l sid url. he_conn he l sid url = None"
  shows "succeeds s (shutdownDatabase he s mode)"
proof -
  have "opened_conn he s sid url = Inr ()" for sid url
    using assms by (simp add: opened_conn_def host_works_def)
  then show ?thesis
    unfolding shutdownDatabase_def Let_def
    by (auto intro!: succeeds_and_then succeeds_call [OF assms(1)] succeeds_exec [OF assms(1)])
qed

lemma succeeds_startup:
  assumes "host_works he" and "\<And>l sid url. he_conn he l sid url = None"
  shows "succeeds s (startupDatabase he s force opt)"
proof -
  have "opened_conn he s sid url = Inr ()" for sid url
    using assms by (simp add: opened_conn_def host_works_def)
  moreover have "he_open he l sid url = None" for l sid url
    using assms by (simp add: host_works_def)
  ultimately show ?thesis
    unfolding startupDatabase_def Let_def by (auto intro!: succeeds_and_then succeeds_call [OF assms(1)])
qed

lemma succeeds_bounce:
  assumes "host_works he" and "\<And>l sid url. he_conn he l sid url = None"
  shows "succeeds s (via_proxy he (px_BounceDatabase he s (shutdown_req db ''immediate'')))"
    and "opt = ''nomount'' \<or> opt = [] \<Longrightarrow> succeeds s (via_proxy he (px_BounceDatabase he s (startup_req db opt)))"
proof -
  let ?s = "px_setenv he s ''ORACLE_SID'' db"
  have move: "succeeds ?s r \<Longrightarrow> succeeds s r" for r :: "'b dres"
    by (auto simp: succeeds_def intro: same_home_trans [OF same_home_px])
  obtain t x where down: "shutdownDatabase he ?s ShutdownImmediate = (t, Inr x)" "same_home ?s t"
    using succeeds_shutdown [OF assms] by (auto simp: succeeds_def)
  then show "succeeds s (via_proxy he (px_BounceDatabase he s (shutdown_req db ''immediate'')))"
    by (auto simp: via_proxy_def px_BounceDatabase_def illegal_option_def shutdownEnumMap_def Let_def intro: same_home_trans [OF same_home_px])
  show "succeeds s (via_proxy he (px_BounceDatabase he s (startup_req db opt)))" if "opt = ''nomount'' \<or> opt = []"
    using that unfolding via_proxy_def px_BounceDatabase_def illegal_option_def Let_def
    by (auto intro!: succeeds_and_then move succeeds_startup [OF assms])
qed

lemma datapatch_succeeds:
  assumes works: "host_works he" and conn: "\<And>l sid url. he_conn he l sid url = None" and home: "ds_home s = ds_env s ''ORACLE_HOME''"
    and query: "\<And>l sid. he_query he l sid sysdba containers_sql = Inr (cols, [])"
    and patch: "\<And>l sid. snd (he_run he l sid (datapatch s) [''-verbose''] []) = None"
  shows "succeeds s (applyDataPatch he s)"
proof -
  have upgrade: "succeeds t (setDatabaseUpgradeMode he t)" for t
    using works by (simp add: setDatabaseUpgradeMode_def query call_def host_works_def)
  have open_pdbs: "succeeds t (openPDBs he t)" for t
    using works by (simp add: openPDBs_def call_def host_works_def)
  have run: "succeeds t (datapatch_upgrade he t)" "succeeds t (datapatch_normal he t)" if "same_home s t" for t
    using works home patch that
    by (simp_all add: datapatch_upgrade_def datapatch_normal_def srv_runCommand_def osUtil_runCommand_def ds_setenv_def host_works_def Let_def same_home_def)
  note bounce = succeeds_bounce [OF works conn]
  show ?thesis
    unfolding applyDataPatch_def Let_def
    apply (rule succeeds_and_then [OF bounce(1)])
    apply (rule succeeds_and_then [OF bounce(2)], simp)
    apply (rule succeeds_and_then [OF upgrade])
    apply (rule succeeds_and_then [OF run(1)])
     apply (meson same_home_trans)
    apply (rule succeeds_and_then [OF bounce(1)])
    apply (rule succeeds_and_then [OF bounce(2)], simp)
    apply (rule succeeds_and_then [OF open_pdbs])
    apply (rule run(2))
    apply (meson same_home_trans)
    done
qed

lemma sample_datapatch: "\<exists>s'. applyDataPatch (works_host [] ([], None)) started_daemon = (s', Inr ())"
  using datapatch_succeeds [of "works_host [] ([], None)" started_daemon "Inr []"]
  by (auto simp: succeeds_def host_works_def works_host_def started_daemon_def)

theorem applyDataPatch_order_witness:
  "\<exists>s' s1 s2 s3. applyDataPatch (works_host [] ([], None)) started_daemon = (s', Inr ()) \<and>
     stopped (works_host [] ([], None)) ''GCLOUD'' started_daemon s1 \<and>
     ran s1 s2 (upgrade_events (works_host [] ([], None)) started_daemon) \<and>
     stopped (works_host [] ([], None)) ''GCLOUD'' s2 s3 \<and> ran s3 s' (normal_events (works_host [] ([], None)) started_daemon)"
proof -
  obtain s' where s': "applyDataPatch (works_host [] ([], None)) started_daemon = (s', Inr ())"
    using sample_datapatch by blast
  moreover have "he_setenv (works_host [] ([], None)) ''ORACLE_SID'' (ds_sid started_daemon) = None" "ds_sid started_daemon = ''GCLOUD''"
    by (simp_all add: works_host_def started_daemon_def)
  ultimately show ?thesis
    using applyDataPatch_order [OF s'] by metis
qed

subsection \<open>Uploads\<close>

text \<open>What is written for the blocks of a file; calls that were all accepted; and the log of an upload that succeeds.\<close>

fun block_texts :: "host_env \<Rightarrow> bool \<Rightarrow> string list \<Rightarrow> string list \<Rightarrow> string list" where
  "block_texts he gz copied [] = []"
| "block_texts he gz copied (b # bs) = (if gz then he_gzip_write he copied b else b) # block_texts he gz (copied @ [b]) bs"

fun all_accepted :: "host_env \<Rightarrow> host_log \<Rightarrow> host_call list \<Rightarrow> bool" where
  "all_accepted he l [] = True"
| "all_accepted he l (c # cs) = (he_err he l c = None \<and> all_accepted he (l @ [c]) cs)"

definition handed_over :: "host_env \<Rightarrow> host_log \<Rightarrow> string \<Rightarrow> string \<Rightarrow> bool" where
  "handed_over he l target f \<longleftrightarrow>
     (\<exists>pre post bucket name blocks writes rest. l = pre @ writes @ rest @ [HGcsClose bucket name] @ post \<and>
        gcs_SplitURI target = Inr (bucket, name) \<and> he_blocks he pre f = (blocks, None) \<and>
        writes = map (HGcsWrite bucket name) (filter (\<lambda>t. t \<noteq> []) (block_texts he (HasSuffix target ''.gz'') [] blocks)) \<and>
        all_accepted he pre writes \<and>
        rest = (if HasSuffix target ''.gz'' \<and> he_gzip_close he blocks \<noteq> [] then [HGcsWrite bucket name (he_gzip_close he blocks)] else []))"

lemma handed_over_append:
  assumes "handed_over he l target f"
  shows "handed_over he (l @ l2) target f"
proof -
  obtain pre post bucket name blocks writes rest where a: "l = pre @ writes @ rest @ [HGcsClose bucket name] @ post"
    "gcs_SplitURI target = Inr (bucket, name)" "he_blocks he pre f = (blocks, None)"
    "writes = map (HGcsWrite bucket name) (filter (\<lambda>t. t \<noteq> []) (block_texts he (HasSuffix target ''.gz'') [] blocks))"
    "all_accepted he pre writes"
    "rest = (if HasSuffix target ''.gz'' \<and> he_gzip_close he blocks \<noteq> [] then [HGcsWrite bucket name (he_gzip_close he blocks)] else [])"
    using assms unfolding handed_over_def by blast
  have "l @ l2 = pre @ writes @ rest @ [HGcsClose bucket name] @ (post @ l2)" using a(1) by simp
  with a(2-6) show ?thesis unfolding handed_over_def by blast
qed

lemma copy_blocks_ok:
  "copy_blocks he gz bucket name s copied bs = (s', copied', None) \<Longrightarrow>
   copied' = copied @ bs \<and>
   ds_log s' = ds_log s @ map (HGcsWrite bucket name) (filter (\<lambda>t. t \<noteq> []) (block_texts he gz copied bs)) \<and>
   all_accepted he (ds_log s) (map (HGcsWrite bucket name) (filter (\<lambda>t. t \<noteq> []) (block_texts he gz copied bs)))"
proof (induction bs arbitrary: s copied)
  case (Cons b bs)
  let ?t = "if gz then he_gzip_write he copied b else b"
  obtain t u where p: "gcs_put he s bucket name ?t = (t, Inr u)" "copy_blocks he gz bucket name t (copied @ [b]) bs = (s', copied', None)"
    using Cons.prems by (auto split: prod.splits sum.splits)
  from Cons.IH [OF p(2)] p(1) show ?case by (auto simp: gcs_put_def call_Inr split: if_splits)
qed simp

lemma uploadFile_ok:
  assumes "gcs_uploadFile he s target f = (s', Inr u)"
  shows "handed_over he (ds_log s') target f"
proof -
  let ?gz = "HasSuffix target ''.gz''"
  from assms obtain bucket name blocks s1 copied where a: "gcs_SplitURI target = Inr (bucket, name)" "he_blocks he (ds_log s) f = (blocks, None)"
    "copy_blocks he ?gz bucket name s [] blocks = (s1, copied, None)"
    "s' = fst (call he (if ?gz then fst (gcs_put he s1 bucket name (he_gzip_close he copied)) else s1) (HGcsClose bucket name))"
    by (auto simp: gcs_uploadFile_def Let_def split: sum.splits option.splits prod.splits)
  note c = copy_blocks_ok [OF a(3)]
  let ?writes = "map (HGcsWrite bucket name) (filter (\<lambda>t. t \<noteq> []) (block_texts he ?gz [] blocks))"
  have "ds_log s' = ds_log s @ ?writes @ (if ?gz \<and> he_gzip_close he blocks \<noteq> [] then [HGcsWrite bucket name (he_gzip_close he blocks)] else []) @
      [HGcsClose bucket name] @ []"
    using a(4) c by (simp add: gcs_put_def)
  moreover have "all_accepted he (ds_log s) ?writes" using c by blast
  ultimately show ?thesis using a(1,2) unfolding handed_over_def by blast
qed

lemma copy_blocks_grows: "traced s (fst (copy_blocks he gz bucket name s copied bs)) []"
proof (induction bs arbitrary: s copied)
  case (Cons b bs)
  let ?t = "if gz then he_gzip_write he copied b else b"
  obtain t r where p: "gcs_put he s bucket name ?t = (t, r)" by (rule prod.exhaust)
  then have "traced s t []" using grows_call [of s he "HGcsWrite bucket name ?t"] by (auto simp: gcs_put_def traced_refl split: if_splits)
  with Cons.IH [of t "copied @ [b]"] p show ?case by (cases r) (auto intro: traced_through)
qed (simp add: traced_refl)

lemma uploadFile_grows: "grows s (gcs_uploadFile he s target f)"
proof -
  have close: "traced s t [] \<Longrightarrow> traced s (fst (call he t c)) []" for t c
    using traced_through [of s t] grows_call [of t he c] by (simp add: grows_def)
  moreover have put: "traced s t [] \<Longrightarrow> traced s (fst (gcs_put he t bucket name bs)) []" for t bucket name bs
    using close by (simp add: gcs_put_def)
  moreover have "traced s t []" if "copy_blocks he gz bucket name s [] blocks = (t, x)" for gz bucket name blocks t x
    using copy_blocks_grows [of s he gz bucket name "[]" blocks] that by simp
  ultimately show ?thesis
    by (auto simp: gcs_uploadFile_def Let_def traced_refl simp del: call_log split: sum.splits option.splits prod.splits)
qed

lemma upload_attempts_ok:
  "upload_attempts he n s target f = (s', Inr u) \<Longrightarrow> handed_over he (ds_log s') target f"
  by (induction n arbitrary: s) (auto dest: uploadFile_ok split: prod.splits sum.splits if_splits)

lemma upload_attempts_grows: "grows s (upload_attempts he n s target f)"
proof (induction n arbitrary: s)
  case (Suc n)
  then show ?case
    using uploadFile_grows [of s he target f] by (auto simp: grows_def intro: traced_through split: prod.splits sum.splits)
qed (simp add: uploadFile_grows)

lemma traced_handed_over: "traced s t [] \<Longrightarrow> handed_over he (ds_log s) target f \<Longrightarrow> handed_over he (ds_log t) target f"
  by (auto simp: traced_def handed_over_append)

text \<open>Where a file of the staging directory goes.\<close>

definition staged_at :: "host_env \<Rightarrow> string \<Rightarrow> string \<Rightarrow> string \<Rightarrow> string \<Rightarrow> bool" where
  "staged_at he dir gcsPath f target \<longleftrightarrow> (\<exists>rel. path_Rel dir f = Inr rel \<and> he_url_join he gcsPath rel = Inr target)"

lemma upload_walk_grows: "grows s (upload_walk he s dir gcsPath fs)"
proof (induction he s dir gcsPath fs rule: upload_walk.induct)
  case (3 he s dir gcsPath fpath info fs)
  then show ?case
    using upload_attempts_grows by (auto simp: gcs_UploadFile_def traced_refl intro!: grows_and_then)
qed (simp_all add: traced_refl)

lemma upload_walk_ok:
  assumes "upload_walk he s dir gcsPath fs = (s', Inr u)" and "(f, Inr info) \<in> set fs" and "\<not> hf_IsDir info"
  shows "\<exists>target. staged_at he dir gcsPath f target \<and> handed_over he (ds_log s') target f"
  using assms
proof (induction fs arbitrary: s)
  case (Cons entry fs)
  obtain g r where entry: "entry = (g, r)"
    by fastforce
  obtain i where r: "r = Inr i"
    using Cons.prems(1) entry by (cases r) simp_all
  show ?case
  proof (cases "hf_IsDir i")
    case True
    then show ?thesis
      using Cons entry r by auto
  next
    case False
    then obtain rel target s1 x where step: "path_Rel dir g = Inr rel" "he_url_join he gcsPath rel = Inr target"
      "gcs_UploadFile he s target g = (s1, Inr x)" and rest: "upload_walk he s1 dir gcsPath fs = (s', Inr u)"
      using Cons.prems(1) entry r by (auto simp: and_then_Inr)
    have "handed_over he (ds_log s1) target g" "traced s1 s' []"
      using upload_attempts_ok step(3) upload_walk_grows [of s1 he dir gcsPath fs] rest by (auto simp: gcs_UploadFile_def)
    then have "handed_over he (ds_log s') target g"
      by (rule traced_handed_over [rotated])
    then show ?thesis
      using Cons.IH [OF rest] Cons.prems(2,3) entry r step by (auto simp: staged_at_def)
  qed
qed simp

text \<open>
  C37: when RMAN is run for one script with an upload to Cloud Storage, and the call succeeds, then before the staging directory is
  removed every file that was in it after the run has been handed over to the storage client: a writer for its place in the bucket was
  given everything read from the file, block by block and up to the end, each of these writes was accepted, and the writer was closed.
  Whether the object exists then depends on the closing, and for a \<open>.gz\<close> target on the write before it, whose errors are dropped.
\<close>

theorem rman_backup_uploaded:
  assumes "srv_RunRMAN he s req = (s', Inr outs)" and "rm_Scripts req = [script]" and "rm_GcsPath req \<noteq> []" and "rm_Upload req"
    and "rm_TnsAdmin req = []"
  shows "\<exists>l1 l2. l1 = ds_log s @ [HRun (ds_sid s) (bin_of (ds_home s) ''rman'') (rman_args req) script] \<and>
    ds_log s' = l2 @ [HRemoveAll srv_RMANStagingDir] \<and>
    (\<forall>f info. (f, Inr info) \<in> set (he_walk he l1 srv_RMANStagingDir) \<longrightarrow> \<not> hf_IsDir info \<longrightarrow>
       (\<exists>target. staged_at he srv_RMANStagingDir (rm_GcsPath req) f target \<and> handed_over he l2 target f))"
proof -
  define l1 where "l1 = ds_log s @ [HRun (ds_sid s) (bin_of (ds_home s) ''rman'') (rman_args req) script]"
  define s1 where "s1 = s\<lparr>ds_env := (ds_env s)(''ORACLE_SID'' := ds_sid s), ds_log := l1\<rparr>"
  obtain s2 where walk: "upload_walk he s1 srv_RMANStagingDir (rm_GcsPath req) (he_walk he l1 srv_RMANStagingDir) = (s2, Inr ())"
    and s': "ds_log s' = ds_log s2 @ [HRemoveAll srv_RMANStagingDir]"
    using assms
    by (auto simp: srv_RunRMAN_def rman_scripts_def and_then_Inr run_output_def uploadDirectoryContentsToGCS_def ds_setenv_def call_def l1_def s1_def
      split: option.splits prod.splits)
  show ?thesis
    unfolding l1_def [symmetric] using s' upload_walk_ok [OF walk] by blast
qed


definition staged_host :: host_env where
  "staged_host = (works_host [] ([], None))\<lparr>he_walk := (\<lambda>_ d. [(d, Inr \<lparr>hf_Name = ''rmanstaging'', hf_IsDir = True, hf_ModTime = 0\<rparr>),
     (d @ ''/a.bkp'', Inr \<lparr>hf_Name = ''a.bkp'', hf_IsDir = False, hf_ModTime = 0\<rparr>)])\<rparr>"

definition backup_rman :: RunRMANRequest where
  "backup_rman = \<lparr>rm_Scripts = [''backup database;''], rm_Target = [], rm_WithoutTarget = False, rm_Auxiliary = [], rm_TnsAdmin = [],
     rm_GcsPath = ''gs://bucket/backups/'', rm_Upload = True\<rparr>"

theorem rman_backup_uploaded_witness:
  "\<exists>s' outs l2. srv_RunRMAN staged_host started_daemon backup_rman = (s', Inr outs) \<and> ds_log s' = l2 @ [HRemoveAll srv_RMANStagingDir] \<and>
     (\<exists>target. handed_over staged_host l2 target (srv_RMANStagingDir @ ''/a.bkp''))"
proof -
  have rel: "path_Rel srv_RMANStagingDir (srv_RMANStagingDir @ ''/a.bkp'') = Inr ''a.bkp''"
    by code_simp
  have uri: "gcs_SplitURI ''gs://bucket/backups/a.bkp'' = Inr (''bucket'', ''backups/a.bkp'')"
    by code_simp
  have gz: "HasSuffix ''gs://bucket/backups/a.bkp'' ''.gz'' = False"
    by code_simp
  have "\<exists>s' outs. srv_RunRMAN staged_host started_daemon backup_rman = (s', Inr outs)"
    using rel uri gz by (simp add: gcs_put_def srv_RunRMAN_def rman_scripts_def run_output_def uploadDirectoryContentsToGCS_def ds_setenv_def call_def staged_host_def
      works_host_def started_daemon_def backup_rman_def gcs_UploadFile_def gcs_uploadFile_def numeral_3_eq_3 Let_def)
  then obtain s' outs where run: "srv_RunRMAN staged_host started_daemon backup_rman = (s', Inr outs)"
    by blast
  moreover have "(srv_RMANStagingDir @ ''/a.bkp'', Inr \<lparr>hf_Name = ''a.bkp'', hf_IsDir = False, hf_ModTime = 0\<rparr>)
      \<in> set (he_walk staged_host l srv_RMANStagingDir)" for l
    by (simp add: staged_host_def)
  ultimately show ?thesis
    using rman_backup_uploaded [OF run] by (fastforce simp: backup_rman_def)
qed

text \<open>The host on which closing a writer of Cloud Storage is answered differently.\<close>

definition is_close :: "host_call \<Rightarrow> bool" where
  "is_close c = (case c of HGcsClose _ _ \<Rightarrow> True | _ \<Rightarrow> False)"

definition closing :: "(host_log \<Rightarrow> host_call \<Rightarrow> go_error option) \<Rightarrow> host_env \<Rightarrow> host_env" where
  "closing e he = he\<lparr>he_err := (\<lambda>l c. if is_close c then e l c else he_err he l c)\<rparr>"


lemma closing_same [simp]:
  "he_openf (closing e he) = he_openf he" "he_gcs (closing e he) = he_gcs he" "he_attrs (closing e he) = he_attrs he"
  "he_blocks (closing e he) = he_blocks he" "he_gzip_write (closing e he) = he_gzip_write he" "he_gzip_close (closing e he) = he_gzip_close he"
  "he_retries (closing e he) = he_retries he" "he_walk (closing e he) = he_walk he" "he_url_join (closing e he) = he_url_join he"
  "he_run (closing e he) = he_run he" "he_setenv (closing e he) = he_setenv he"
  by (simp_all add: closing_def)









subsection \<open>Deletion\<close>

lemma delete_objects_ok:
  "delete_objects he s bucket (map Inr names) = (s', Inr u) \<Longrightarrow> ds_log s' = ds_log s @ map (HGcsDelete bucket) names"
  by (induction names arbitrary: s) (auto simp: and_then_Inr call_Inr)

text \<open>
  A successful deletion of a path of Cloud Storage deletes exactly the objects of the bucket whose names begin with the text of the path,
  so those of \<open>backups/b10\<close> go with \<open>backups/b1\<close>.
\<close>

lemma gcs_Delete_by_prefix:
  assumes "gcs_SplitURI gcsPath = Inr (bucket, pre)"
    and "he_objects he (ds_log s) bucket pre = map Inr (filter (\<lambda>name. HasPrefix name pre) names)"
    and "gcs_Delete he s gcsPath = (s', Inr u)"
  shows "ds_log s' = ds_log s @ map (HGcsDelete bucket) (filter (\<lambda>name. HasPrefix name pre) names)"
  using assms delete_objects_ok by (simp add: gcs_Delete_def split: option.splits)

lemma gcs_Delete_takes_sibling:
  "ds_log (fst (gcs_Delete ((works_host [] ([], None))\<lparr>he_objects := (\<lambda>_ _ _. map Inr [''backups/b1/x'', ''backups/b10/y''])\<rparr>) started_daemon
     ''gs://bucket/backups/b1'')) = [HGcsDelete ''bucket'' ''backups/b1/x'', HGcsDelete ''bucket'' ''backups/b10/y'']"
proof -
  let ?he = "(works_host [] ([], None))\<lparr>he_objects := (\<lambda>_ _ _. map Inr [''backups/b1/x'', ''backups/b10/y''])\<rparr>"
  let ?r = "gcs_Delete ?he started_daemon ''gs://bucket/backups/b1''"
  have uri: "gcs_SplitURI ''gs://bucket/backups/b1'' = Inr (''bucket'', ''backups/b1'')"
    by code_simp
  have "snd ?r = Inr ()"
    using uri by (simp add: gcs_Delete_def works_host_def started_daemon_def call_def)
  then have "?r = (fst ?r, Inr ())"
    by (metis prod.collapse)
  from gcs_Delete_by_prefix [OF uri _ this, of "[''backups/b1/x'', ''backups/b10/y'', ''backups/b2/z'']"] show ?thesis
    by (simp add: works_host_def started_daemon_def)
qed

end
