(* ===== verification/BootstrapLaws.thy ===== *)
theory BootstrapLaws
  imports Bootstrap DaemonLaws
begin

text \<open>
  What the provisioning task guarantees about the data files of a seeded image. Every call the task makes of the host and of the daemon
  only adds to the log (\<open>only_adds\<close>), so what an earlier run did is still there for a later one: moving a file is safe at every
  failure, but it is not repeatable.
\<close>

subsection \<open>Calls that only add to the log\<close>

named_theorems only_adds \<open>calls that only add to the log\<close>

lemma grows_log: "ds_log t = ds_log s \<Longrightarrow> grows t r \<Longrightarrow> grows s r"
  by (simp add: grows_def traced_def)

lemma grows_from: "traced s t [] \<Longrightarrow> grows t r \<Longrightarrow> grows s r"
  by (auto simp: grows_def intro: traced_through)

declare grows_and_then [only_adds] grows_call [only_adds] grows_same [only_adds]

lemma grows_ignoring [only_adds]: "grows s r \<Longrightarrow> (\<And>t. grows t (k t)) \<Longrightarrow> grows s (ignoring r k)"
  by (auto simp: ignoring_def grows_def intro: traced_through)

lemma grows_if [only_adds]: "grows s a \<Longrightarrow> grows s b \<Longrightarrow> grows s (if c then a else b)"
  by simp

lemma grows_sum [only_adds]:
  "(\<And>a. x = Inl a \<Longrightarrow> grows s (f a)) \<Longrightarrow> (\<And>b. x = Inr b \<Longrightarrow> grows s (g b)) \<Longrightarrow> grows s (case x of Inl a \<Rightarrow> f a | Inr b \<Rightarrow> g b)"
  by (cases x) simp_all

lemma grows_option [only_adds]:
  "(x = None \<Longrightarrow> grows s f) \<Longrightarrow> (\<And>b. x = Some b \<Longrightarrow> grows s (g b)) \<Longrightarrow> grows s (case x of None \<Rightarrow> f | Some b \<Rightarrow> g b)"
  by (cases x) simp_all

text \<open>Looking at the result of a call.\<close>

lemma grows_case [only_adds]:
  assumes "grows s r" and "\<And>t e. grows t (f t e)" and "\<And>t x. grows t (g t x)"
  shows "grows s (case r of (t, Inl e) \<Rightarrow> f t e | (t, Inr x) \<Rightarrow> g t x)"
  using assms by (auto simp: grows_def split: prod.splits sum.splits intro: traced_through)

lemma grows_setenv [only_adds]: "grows s (ds_setenv he s k v)"
  by (simp add: ds_setenv_def traced_refl split: option.splits)

lemma grows_via [only_adds]: "grows s r \<Longrightarrow> grows s (via_proxy he r)"
  unfolding via_proxy_def by (intro only_adds)

lemma grows_lines [only_adds]: "grows s (dbmsOutputGetLines he s sid url)"
proof -
  have "grows t (output_loop he t sid url ts e ls)" for t ts e ls
  proof (induction ts arbitrary: t ls)
    case (Cons line ts)
    show ?case
      by (simp, rule grows_from [OF _ Cons.IH]) (simp add: traced_def)
  qed (simp add: traced_def)
  then show ?thesis
    by (simp add: dbmsOutputGetLines_def split: prod.splits)
qed

lemma grows_run_statements [only_adds]: "grows s (run_statements he s url p out sqls)"
  by (induction sqls arbitrary: s out) (simp_all add: traced_refl, intro only_adds)

lemma grows_task_statements [only_adds]: "grows s (task_statements he s sid url p out sqls)"
  by (induction sqls arbitrary: s out) (simp_all add: traced_refl, intro only_adds)

lemma grows_exec_all [only_adds]: "grows s (exec_all he s url sqls)"
  by (induction sqls arbitrary: s) (simp_all add: traced_refl, intro only_adds)

lemma grows_runQuery [only_adds]: "grows s (runQuery he s sqls url)"
  unfolding runQuery_def by (intro only_adds) (simp add: traced_def)

lemma grows_runSQL [only_adds]: "grows s (runSQL he s sqls p url)"
  unfolding runSQL_def by (intro only_adds)

lemma grows_sql_body [only_adds]: "grows s (sql_body he s req f)"
proof -
  have "grows s (sql_connected he s req)"
    unfolding sql_connected_def by (cases "sq_ConnectInfo req") (auto simp: traced_refl intro!: grows_and_then grows_setenv)
  then show ?thesis
    unfolding sql_body_def Let_def
    by (intro grows_if grows_same grows_and_then) (assumption | rule grows_same grows_runQuery grows_runSQL)+
qed

lemma unset_log [simp]: "ds_log (ds_unsetenv s k) = ds_log s"
  by (simp add: ds_unsetenv_def)

lemma grows_sql [only_adds]: "grows s (runSQLPlusHelper he s req f)"
proof -
  have "grows t (case sql_body he t req f of (s2, r) \<Rightarrow> (ds_unsetenv s2 ''TNS_ADMIN'', r))" for t
    using grows_sql_body [of t he req f] by (auto simp: grows_def traced_def split: prod.splits)
  then show ?thesis
    unfolding runSQLPlusHelper_def by (intro only_adds)
qed

lemma grows_RunSQLPlus [only_adds]: "grows s (srv_RunSQLPlus he s req)" "grows s (srv_RunSQLPlusFormatted he s req)"
  unfolding srv_RunSQLPlus_def srv_RunSQLPlusFormatted_def by (intro only_adds)+

lemma grows_startup [only_adds]: "grows s (startupDatabase he s force opt)"
  unfolding startupDatabase_def Let_def by (intro only_adds)

declare shutdownDatabase_laws(1) [only_adds]

lemma grows_px_bounce [only_adds]: "grows s (px_BounceDatabase he s req)"
proof -
  let ?s = "px_setenv he s ''ORACLE_SID'' (bd_DatabaseName req)"
  have "grows ?s
      (case shutdownDatabase he ?s (shutdownEnumMap (bd_Option req)) of
         (s2, Inl err) \<Rightarrow> if Contains_str (err_msg err) ''ORA-01034:'' then (s2, Inr (STOPPED, [])) else (s2, Inl err)
       | (s2, Inr _) \<Rightarrow> (s2, Inr (STOPPED, [])))"
    by (intro only_adds)
  moreover have "grows ?s (and_then
       (if bd_Option req = ''force_nomount'' then startupDatabase he ?s True ''nomount'' else startupDatabase he ?s False (bd_Option req)) id
       (\<lambda>s _. (s, Inr (READY, []))))"
    by (intro only_adds)
  ultimately show ?thesis
    unfolding px_BounceDatabase_def Let_def by (auto simp: traced_refl intro: grows_log [of ?s, OF px_setenv_log(1)])
qed

lemma grows_bounce [only_adds]: "grows s (srv_BounceDatabase he s req)"
  unfolding srv_BounceDatabase_def BackupConfigFile_def by (intro only_adds)

lemma traced_writes: "traced s (foldl (\<lambda>s t. fst (call he s (c t))) s ts) []"
proof (induction ts arbitrary: s)
  case (Cons a ts)
  show ?case
    by (simp, rule traced_through [OF _ Cons.IH]) (simp add: call_def traced_def)
qed (simp add: traced_refl)

lemma grows_ProxyRunNID: "grows s (ProxyRunNID he s params db)"
proof -
  have "grows u (createDotEnv he u home db)" for u home
    unfolding createDotEnv_def Let_def by (intro only_adds grows_from [OF traced_writes grows_call])
  then have "grows t (createDotEnv he (t\<lparr>px_sid := db\<rparr>) home db)" for t home
    by (rule grows_log [rotated]) simp
  then show ?thesis
    unfolding ProxyRunNID_def px_osUtil_runCommand_def Let_def by (intro only_adds) (auto simp: traced_def)
qed

lemma grows_NID [only_adds]: "grows s (srv_NID he s sid db)"
proof -
  have "grows t (ProxyRunNID he (if db \<noteq> [] then t\<lparr>ds_sid := db\<rparr> else t) params db)" for t params
    by (rule grows_log [OF _ grows_ProxyRunNID]) simp
  then show ?thesis
    unfolding srv_NID_def by (intro only_adds)
qed

lemma grows_MakeDirs [only_adds]: "grows s (MakeDirs he s ds)"
  by (induction ds arbitrary: s) (simp_all add: traced_refl, intro only_adds)

lemma grows_runSQLPlus [only_adds]: "grows s (Bootstrap.runSQLPlus he s db sqls)"
  unfolding runSQLPlus_def runSQLPlus_on_def by (intro only_adds)

lemma grows_renameDatabase [only_adds]: "grows s (renameDatabase he t s)"
  unfolding renameDatabase_def by (intro only_adds)

subsection \<open>Data files\<close>

text \<open>A call was accepted at some point of the log.\<close>

definition accepted_in :: "host_env \<Rightarrow> host_log \<Rightarrow> host_call \<Rightarrow> bool" where
  "accepted_in he l c \<longleftrightarrow> (\<exists>l1 l2. l = l1 @ c # l2 \<and> he_err he l1 c = None)"

lemma accepted_mono: "accepted_in he l c \<Longrightarrow> accepted_in he (l @ l') c"
  unfolding accepted_in_def by fastforce

lemma accepted_traced: "accepted_in he (ds_log s) c \<Longrightarrow> traced s t evs \<Longrightarrow> accepted_in he (ds_log t) c"
  by (auto simp: traced_def intro: accepted_mono)

text \<open>A data file of the image that has been removed cannot be opened any more: nothing writes it again.\<close>

definition removed_stay_away :: "host_env \<Rightarrow> BootstrapTask \<Rightarrow> bool" where
  "removed_stay_away he t \<longleftrightarrow>
     (\<forall>p \<in> fst ` set (data_moves t). \<forall>l. accepted_in he l (HRemove p) \<longrightarrow> he_openf he l p \<noteq> None)"

lemma grows_MoveFile [only_adds]: "grows s (MoveFile he s sf tf)"
  unfolding MoveFile_def by (intro only_adds)

lemma move_files_gone:
  assumes "\<And>l. accepted_in he l (HRemove p) \<Longrightarrow> he_openf he l p \<noteq> None" and "accepted_in he (ds_log s) (HRemove p)"
    and "p \<in> fst ` set fs"
  shows "\<exists>t err. move_files he s what fs = (t, Inl err)"
  using assms(2,3)
proof (induction fs arbitrary: s)
  case (Cons f fs)
  obtain sf tf nm where f: "f = (sf, tf, nm)" by (cases f)
  show ?case
  proof (cases "MoveFile he s sf tf")
    case (Pair u r)
    show ?thesis
    proof (cases r)
      case (Inr x)
      have "sf \<noteq> p"
        using Pair Inr assms(1) [OF Cons.prems(1)] by (auto simp: MoveFile_def)
      moreover have "accepted_in he (ds_log u) (HRemove p)"
        using grows_MoveFile [of s he sf tf] Pair accepted_traced [OF Cons.prems(1)] by simp
      ultimately show ?thesis
        using Cons Pair Inr f by auto
    qed (use Pair f in simp)
  qed
qed simp

lemma doSubTasks_fails:
  assumes "\<And>t. traced s t [] \<Longrightarrow> \<exists>u err. sub t = (u, Inl err)" and "\<And>f u. f \<in> set pre \<Longrightarrow> grows u (f u)"
  shows "\<exists>u err. doSubTasks s (pre @ sub # post) = (u, Inl err)"
  using assms
proof (induction pre arbitrary: s)
  case Nil
  then obtain u err where "sub s = (u, Inl err)"
    using traced_refl [of s s] by blast
  then show ?case by simp
next
  case (Cons f pre)
  show ?case
  proof (cases "f s")
    case (Pair t r)
    have "traced s t []"
      using Cons.prems(2) [of f s] Pair by simp
    then have "\<exists>u err. doSubTasks t (pre @ sub # post) = (u, Inl err)"
      using Cons.prems by (intro Cons.IH) (auto intro: traced_through)
    then show ?thesis
      using Pair by (cases r) auto
  qed
qed

text \<open>Every removal in a trace comes right after an accepted write of the file's contents to its destination.\<close>

definition removed_after_copy :: "host_env \<Rightarrow> (string \<times> string) set \<Rightarrow> host_log \<Rightarrow> host_call list \<Rightarrow> bool" where
  "removed_after_copy he moves l tr \<longleftrightarrow>
     (\<forall>tr1 p tr2. tr = tr1 @ HRemove p # tr2 \<longrightarrow>
        (\<exists>tf bs w. (p, tf) \<in> moves \<and> tr1 = w @ [HWrite tf bs] \<and> he_read he (l @ w) p = Inr bs \<and>
           he_err he (l @ w) (HWrite tf bs) = None))"

lemma removed_after_copy_append:
  assumes "removed_after_copy he M l tr" and "removed_after_copy he M (l @ tr) tr'"
  shows "removed_after_copy he M l (tr @ tr')"
  unfolding removed_after_copy_def
proof (intro allI impI)
  fix tr1 p tr2
  assume "tr @ tr' = tr1 @ HRemove p # tr2"
  then consider us where "tr = tr1 @ HRemove p # us" | us where "tr1 = tr @ us" "tr' = us @ HRemove p # tr2"
    by (cases "length tr \<le> length tr1") (auto simp: append_eq_append_conv2 append_eq_Cons_conv)
  then show "\<exists>tf bs w. (p, tf) \<in> M \<and> tr1 = w @ [HWrite tf bs] \<and> he_read he (l @ w) p = Inr bs \<and> he_err he (l @ w) (HWrite tf bs) = None"
  proof cases
    case 1
    then show ?thesis using assms(1) by (simp add: removed_after_copy_def)
  next
    case 2
    then obtain tf bs w where "(p, tf) \<in> M" "us = w @ [HWrite tf bs]" "he_read he ((l @ tr) @ w) p = Inr bs"
        "he_err he ((l @ tr) @ w) (HWrite tf bs) = None"
      using assms(2) unfolding removed_after_copy_def by blast
    then show ?thesis
      using 2 by (intro exI [of _ tf] exI [of _ bs] exI [of _ "tr @ w"]) simp
  qed
qed

lemma MoveFile_copies:
  assumes "MoveFile he s sf tf = (t, r)" and "(sf, tf) \<in> M"
  shows "\<exists>tr. ds_log t = ds_log s @ tr \<and> removed_after_copy he M (ds_log s) tr"
  using assms
  by (auto simp: MoveFile_def call_def res_def removed_after_copy_def Cons_eq_append_conv append_eq_Cons_conv split: option.splits sum.splits)

lemma move_files_copies:
  assumes "move_files he s what fs = (t, r)" and "(\<lambda>(sf, tf, _). (sf, tf)) ` set fs \<subseteq> M"
  shows "\<exists>tr. ds_log t = ds_log s @ tr \<and> removed_after_copy he M (ds_log s) tr"
  using assms
proof (induction fs arbitrary: s)
  case (Cons f fs)
  obtain sf tf nm where f: "f = (sf, tf, nm)" by (cases f)
  obtain u x where step: "MoveFile he s sf tf = (u, x)" by (cases "MoveFile he s sf tf")
  obtain tr where tr: "ds_log u = ds_log s @ tr" "removed_after_copy he M (ds_log s) tr"
    using MoveFile_copies [OF step, of M] Cons.prems(2) f by auto
  show ?case
  proof (cases x)
    case (Inr y)
    then obtain tr' where "ds_log t = ds_log u @ tr'" "removed_after_copy he M (ds_log u) tr'"
      using Cons step f by fastforce
    then show ?thesis
      using tr removed_after_copy_append [OF tr(2)] by (intro exI [of _ "tr @ tr'"]) simp
  qed (use Cons.prems step f tr in auto)
qed (simp add: removed_after_copy_def)

lemma move_files_all:
  assumes "move_files he s what fs = (t, Inr ())" and "(sf, tf, nm) \<in> set fs"
  shows "\<exists>tr. ds_log t = ds_log s @ tr \<and> HRemove sf \<in> set tr"
  using assms
proof (induction fs arbitrary: s)
  case (Cons f fs)
  obtain sf' tf' nm' where f: "f = (sf', tf', nm')" by (cases f)
  obtain u where step: "MoveFile he s sf' tf' = (u, Inr ())" and more: "move_files he u what fs = (t, Inr ())"
    using Cons.prems(1) f by (auto simp: and_then_Inr)
  obtain tr where tr: "ds_log u = ds_log s @ tr" "HRemove sf' \<in> set tr"
    using step by (auto simp: MoveFile_def and_then_Inr call_Inr split: option.splits sum.splits)
  obtain tr' where tr': "ds_log t = ds_log u @ tr'"
    using move_files_copies [OF more, of UNIV] by auto
  show ?case
  proof (cases "(sf, tf, nm) = f")
    case False
    then show ?thesis
      using Cons.IH [OF more] Cons.prems(2) tr by fastforce
  qed (use tr tr' f in auto)
qed simp

subsection \<open>Properties\<close>

text \<open>C39: The task moves the data files of the image without losing one: whatever the host answers, a source file is removed only right
  after its contents, as read, were written to its place on the data disk and the write was accepted; and when the step succeeds
  every one of the seven files was moved.\<close>

theorem data_files_copied_before_removal:
  assumes "moveDataFiles he t s = (s', r)"
  shows "\<exists>tr. ds_log s' = ds_log s @ tr \<and> removed_after_copy he ((\<lambda>(sf, tf, _). (sf, tf)) ` set (data_moves t)) (ds_log s) tr \<and>
    (r = Inr () \<longrightarrow> (\<forall>(sf, tf, d) \<in> set (data_moves t). HRemove sf \<in> set tr))"
proof -
  obtain tr where tr: "ds_log s' = ds_log s @ tr" "removed_after_copy he ((\<lambda>(sf, tf, _). (sf, tf)) ` set (data_moves t)) (ds_log s) tr"
    using move_files_copies [OF assms [unfolded moveDataFiles_def] order.refl] by blast
  moreover have "HRemove sf \<in> set tr" if "r = Inr ()" "(sf, tf, d) \<in> set (data_moves t)" for sf tf d
    using move_files_all [OF assms [unfolded moveDataFiles_def that(1)] that(2)] tr(1) by auto
  ultimately show ?thesis by blast
qed

text \<open>C40: The provisioning of a seeded image cannot be repeated in its container once it has moved a data file: when the removal of a source data
  file was accepted and the file stays away, every later run of the task for a database that is not provisioned fails, whatever the
  host and the daemon answer to everything else.\<close>

theorem bootstrap_not_restartable:
  assumes "removed_stay_away he t" and "p \<in> fst ` set (data_moves t)" and "accepted_in he (ds_log s) (HRemove p)"
  shows "\<exists>s' err. Bootstrap_Call he t False s = (s', Inl err)"
proof -
  let ?pre = "[renameDatabase he t, initUIDGID he, createDirs he t, task_setenv he (task_source t)]"
  have "\<exists>u err. moveDataFiles he t s1 = (u, Inl err)" if "traced s s1 []" for s1
    unfolding moveDataFiles_def using assms that
    by (intro move_files_gone [of he p]) (auto simp: removed_stay_away_def intro: accepted_traced)
  moreover have "grows u (f u)" if "f \<in> set ?pre" for f u
    using that by (auto simp: initUIDGID_def task_setenv_def createDirs_def traced_refl intro!: only_adds)
  ultimately show ?thesis
    unfolding Bootstrap_Call_def sub_tasks_def using doSubTasks_fails [of s "moveDataFiles he t" ?pre] by (simp del: doSubTasks.simps)
qed

subsection \<open>Witnesses\<close>

text \<open>A host that accepts every call, on which a removed file is gone, and the task of an image.\<close>

definition image_host :: host_env where
  "image_host = (works_host [] ([], None))
     \<lparr>he_openf := \<lambda>l p. if HRemove p \<in> set l then Some (Errorf ''no such file'') else None,
      he_read := \<lambda>l p. Inr p\<rparr>"

definition image_task :: BootstrapTask where
  "image_task = \<lparr>bt_db = newOracleCDB ''GCLOUD'' ''MYDB'' ''12.2'' ''us-central1-a'' ''host'' ''gke'' 1200 1800, bt_cdbRenaming = True, bt_isSeeded = True,
     bt_env = (\<lambda>_. ''/u01'')\<rparr>"

lemma accepted_all: "(\<And>l. he_err he l c = None) \<Longrightarrow> c \<in> set l \<Longrightarrow> accepted_in he l c"
  by (force simp: accepted_in_def in_set_conv_decomp)

abbreviation moved_image :: dstate where
  "moved_image \<equiv> fst (moveDataFiles image_host image_task started_daemon)"

lemma image_run:
  "snd (moveDataFiles image_host image_task started_daemon) = Inr ()"
  "''/u01/oradata/GCLOUD/users01.dbf'' \<in> fst ` set (data_moves image_task)"
  "HRemove ''/u01/oradata/GCLOUD/users01.dbf'' \<in> set (ds_log moved_image)"
  by code_simp+

lemma image_gone: "removed_stay_away image_host image_task"
  by (auto simp: removed_stay_away_def accepted_in_def image_host_def)

theorem data_files_copied_before_removal_witness:
  "snd (moveDataFiles image_host image_task started_daemon) = Inr () \<and>
   (\<exists>tr. ds_log moved_image = ds_log started_daemon @ tr \<and>
      (\<forall>(sf, tf, d) \<in> set (data_moves image_task). HRemove sf \<in> set tr))"
  using data_files_copied_before_removal [OF surjective_pairing, of image_host image_task started_daemon] image_run(1) by auto

theorem bootstrap_not_restartable_witness:
  "HRemove ''/u01/oradata/GCLOUD/users01.dbf'' \<in> set (ds_log moved_image) \<and>
   (\<exists>s' err. Bootstrap_Call image_host image_task False moved_image = (s', Inl err))"
  using bootstrap_not_restartable [OF image_gone image_run(2) accepted_all [OF _ image_run(3)]] image_run(3)
  by (simp add: image_host_def works_host_def)

end
