(* ===== verification/Spec2Isabelle.thy ===== *)
theory Spec2Isabelle
  imports Conditions Maintenance BackupSchedule Lro Lock PatchingRun RestoreEnd Parameters DatabaseLaws BackupLaws PitrLaws InstanceSafety DataPumpLaws BootstrapLaws
begin

text \<open>
  A verification library for El Carro, the Kubernetes operator for Oracle databases
  (\<open>src/oracle\<close> with the code it shares with other operators, \<open>src/common\<close>).

  \<^bold>\<open>The program.\<close> Controllers watch custom resources (instances, databases, backups, backup schedules,
  cron objects, PITR objects, exports, imports) and reconcile them: each call of \<open>Reconcile\<close> reads an object from the API
  server, makes calls to the server and to the database daemon that runs beside the database, and writes
  the status. What is to be done next is recorded in the status, as the reason of the condition \<open>Ready\<close>,
  so the controllers are state machines whose state survives restarts. Long work in the daemon is a long
  running operation, started under an id and polled. The daemon runs statements, RMAN and data pump, and
  asks its proxy, which lives with the database processes, to start and stop them.

  \<^bold>\<open>How it is modelled.\<close> A handler is a function of an environment, the log of the calls made so far, and
  the object in memory. The environment's fields are the answers of the API server and of the daemon as
  functions of the log, so any behaviour of theirs, failures included, is an environment. The result has
  the changed object, the extended log, the result and the error. Errors are values (\<open>go_error\<close>), a
  panic is \<open>None\<close>, \<open>time.Time\<close> and \<open>time.Duration\<close> are integers of nanoseconds, integers that may wrap
  are written with \<open>int32\<close> and \<open>int64\<close>. Sequences of reconciles are inductive relations in which status
  updates may be lost, copies may be stale and others interfere.

  \<^bold>\<open>Theories.\<close>
  \<^item> \<open>Prelude\<close>, \<open>GoStd\<close>, \<open>Dates\<close>: what the code uses of Go: errors, times, strings, \<open>sort.Slice\<close> (a locale
    for its contract), \<open>retry.RetryOnConflict\<close> (a locale), maps, parsing and printing of integers,
    durations and RFC 3339 times, with the proof that calendar dates and texts of times are read back.
  \<^item> \<open>Conditions\<close> (\<open>oracle/pkg/k8s/condition.go\<close>), \<open>Maintenance\<close> (\<open>common/pkg/maintenance\<close>): the status
    conditions all state machines use; maintenance windows.
  \<^item> \<open>CronAnything\<close>, \<open>BackupSchedule\<close> (\<open>common/controllers\<close>): the cron controller and the backup schedules on top of it:
    at most one child per activation, deadlines and concurrency, clean-up and retention that spare the newest.
  \<^item> \<open>Lro\<close> (\<open>oracle/pkg/database/lib/lro\<close>): the daemon's long running operations with interleaved steps: at most one job
    runs under an id, while operations are deleted only after their jobs have ended.
  \<^item> \<open>Sql\<close> (\<open>oracle/pkg/database/lib/sql\<close>, \<open>oracle/pkg/agents/common\<close>): quoting, statements, generated passwords.
  \<^item> \<open>Users\<close>, \<open>UsersSync\<close> (\<open>controllers/user_repository.go\<close>, \<open>config_agent_helpers.go\<close>): the users of a pluggable
    database; a view of an Oracle database as the specification, and that an update without errors
    implements it.
  \<^item> \<open>Instance\<close>, \<open>Resources\<close>, \<open>InstanceUtils\<close>, \<open>StsRestore\<close>: the instance controller's objects, the
    construction of the stateful set and its claims (\<open>controllers/resources.go\<close>), progress, resizing, images and
    the maintenance lock (\<open>instancecontroller/utils.go\<close>), deletion and restoration of the stateful set.
  \<^item> \<open>Lock\<close>: the maintenance lock between controllers under every interleaving, with a locale for the field.
  \<^item> \<open>Patching\<close>, \<open>PatchingRun\<close> (\<open>instance_controller_patching.go\<close>): the patching state machine; nothing is destroyed
    that is not backed up, recovery, time-outs, completion.
  \<^item> \<open>RestorePITR\<close>, \<open>Restore\<close>, \<open>RestoreRun\<close>, \<open>RestoreEnd\<close> (\<open>instance_controller_restore.go\<close>,
    \<open>instance_controller_restore_pitr.go\<close>): which backup a restore starts from (a locale for the search,
    interpreted for timestamps and SCNs), the restore state machine, that a request is carried out at
    most once, what it requires, that it ends and where it gets stuck.

  \<^item> \<open>Parameters\<close> (\<open>instance_controller_parameters.go\<close>): the state machine that changes database parameters: all are
    set, or those in effect are set back.
  \<^item> \<open>Daemon\<close> (\<open>config_agent_helpers.go\<close>): the helpers that talk to the database daemon. \<open>Database\<close>, \<open>DatabaseLaws\<close>
    (\<open>databasecontroller\<close>): the controller of pluggable databases; that a database reported with its users
    ready has them, that it is created once, what the SCN of a backup is.

  \<^item> \<open>BackupAgent\<close> (\<open>agents/backup\<close>), \<open>BackupController\<close>, \<open>BackupLaws\<close> (\<open>backupcontroller\<close>): RMAN scripts and the controller
    of backups: a restore deletes nothing before it has found what to restore from, a backup is started
    only once recorded, and it completes.

  \<^item> \<open>Pitr\<close>, \<open>PitrLaws\<close> (\<open>agents/pitr\<close>): the agent that copies archived logs to a bucket: a replication without errors is
    complete in whichever order its workers finish (a step relation for the pool), the reported ranges are covered, only
    expired logs are deleted, also when logs and hashes share a storage; and where the workers hang.

  \<^item> \<open>Standby\<close>, \<open>StandbyLaws\<close> (\<open>instance_controller_standby.go\<close>): the state machine that makes an instance a standby of another
    database: it is promoted only after it was set up, in order, and it gets there.
  \<^item> \<open>InstanceController\<close>, \<open>InstanceLaws\<close>, \<open>InstanceSafety\<close> (\<open>instance_controller.go\<close>): the whole reconcile of an instance, which calls
    the state machines above: that a database is created, bootstrapped and served in this order over every
    sequence of rounds, and that data is destroyed only on request.

  \<^item> \<open>Host\<close>, \<open>Provision\<close>, \<open>Gcs\<close>, \<open>Proxy\<close>, \<open>DaemonServer\<close>, \<open>DaemonOps\<close>, \<open>DaemonJobs\<close>, \<open>DataPumpServer\<close> (\<open>pkg/database/dbdaemon\<close>,
    \<open>dbdaemonproxy\<close>, \<open>provision/common.go\<close>, \<open>pkg/util\<close>): the daemon and its proxy as one state with the log of their calls, and the
    operating system, the driver and Cloud Storage as an environment. \<open>HostLaws\<close> has the laws of sequences of calls, \<open>DaemonLaws\<close>
    the order of a datapatch job, what an upload has handed to the storage client, and that a failure to close its writer is not noticed.
  \<^item> \<open>Bootstrap\<close>, \<open>BootstrapLaws\<close> (\<open>provision/bootstrap_database_task.go\<close>, \<open>cdb.go\<close>): the provisioning task of seeded and unseeded images
    and of standbys: data files are moved without loss, and a run that has moved one cannot be repeated in its container.
  \<^item> \<open>DataPump\<close>, \<open>DataPumpLaws\<close> (\<open>exportcontroller\<close>, \<open>importcontroller\<close>): the data pump controllers, with a locale for the contract
    both keep, and what becomes of a failing job from the daemon, through the operations of \<open>Lro\<close>, to the object.

  \<^bold>\<open>Bounds and fuel.\<close> No function has fuel. The loop of \<open>getScheduleTimes\<close> may run forever and is a
  partial function with the result \<open>None\<close> then; it is proved to end when the schedule moves forward. The
  completion theorems count rounds: eight for patching, six for a restore (seven with datapatch), four for a backup, five and two more for
  a standby and its promotion; the outcome of an import is recorded one round after the API server answers
  reads and accepts updates.

  \<^bold>\<open>Not modelled.\<close> Logging; gRPC and Kubernetes clients (their calls are answers of the environment); the
  text of structs printed into error messages; deadlines of contexts; two readings of the clock in one
  expression are one. A local time is in the zone \<open>time_Local\<close> of \<open>GoStd\<close>, which is UTC, as in the containers of the operator; the functions that
  format a time or take its date have the zone as an argument. The manifest lists the parts of the program without a model.
\<close>

end
